(* ===== verification/Prelude.thy ===== *)
theory Prelude
  imports
    Complex_Main
    "HOL-Library.List_Lexorder"
    "HOL-Library.Char_ord"
    "HOL-Library.Product_Lexorder"
    "HOL-Library.Multiset"
begin

section \<open>Prelude: Python results, text, time and numbers\<close>

text \<open>
  What every component of the development shares: the result type in which a raised
  Python exception is a value, the text operations the source uses (identifier and digest
  patterns, upper, casefold, strip, join), timezone-aware timestamps, rounding, sorted sets
  and dictionaries built by comprehension, and the collections of rewrite rules the component
  proofs use. Text is ASCII text (a list of characters, ordered by code point as Python
  orders strings); floating-point numbers are rationals, so rounding errors of the hardware
  are not modelled, NaN and the infinities are not represented, and \<open>round\<close> is written out.
\<close>

named_theorems wf_simps \<open>definitions of the well-formedness predicates\<close>
named_theorems payload_simps \<open>definitions of the canonical JSON payloads\<close>

subsection \<open>Errors and results\<close>

text \<open>
  \<open>FieldErrors\<close> and \<open>ModelError\<close> are pydantic's \<open>ValidationError\<close>: the first lists every
  field whose constraint or field validator failed, the second is raised by a model validator
  (which runs only when all the fields are accepted).
\<close>

datatype py_error =
    FieldErrors string "string list"
  | ModelError string string
  | ValueError string
  | TypeError string
  | RuntimeError string
  | SigningError string
  | ExecutionInputError string
  | IdempotencyConflict string
  | StoredAssessmentIntegrityError string
  | DatabaseIntegrityError string
  | VideoError string
  | UploadValidationError string
  | OSError string
  | KeyError string
  | AssertionError string

text \<open>The exception classes of the source that are caught by \<open>except ValueError\<close>.\<close>

fun is_value_error :: "py_error \<Rightarrow> bool" where
  "is_value_error (FieldErrors _ _) = True"
| "is_value_error (ModelError _ _) = True"
| "is_value_error (ValueError _) = True"
| "is_value_error (ExecutionInputError _) = True"
| "is_value_error (IdempotencyConflict _) = True"
| "is_value_error (TypeError _) = False"
| "is_value_error (RuntimeError _) = False"
| "is_value_error (SigningError _) = False"
| "is_value_error (StoredAssessmentIntegrityError _) = False"
| "is_value_error (DatabaseIntegrityError _) = False"
| "is_value_error (VideoError _) = True"
| "is_value_error (UploadValidationError _) = True"
| "is_value_error (OSError _) = False"
| "is_value_error (KeyError _) = False"
| "is_value_error (AssertionError _) = False"

type_synonym 'a res = "py_error + 'a"

definition res_bind :: "'e + 'a \<Rightarrow> ('a \<Rightarrow> 'e + 'b) \<Rightarrow> 'e + 'b" where
  "res_bind m f = (case m of Inl e \<Rightarrow> Inl e | Inr x \<Rightarrow> f x)"

lemma res_bind_simps [simp]:
  "res_bind (Inl e) f = Inl e"
  "res_bind (Inr x) f = f x"
  by (simp_all add: res_bind_def)

lemma res_bind_Inr_iff: "res_bind m f = Inr y \<longleftrightarrow> (\<exists>x. m = Inr x \<and> f x = Inr y)"
  by (cases m) auto

lemma res_bind_InrE:
  assumes "res_bind m f = Inr y"
  obtains x where "m = Inr x" and "f x = Inr y"
  using assms by (auto simp: res_bind_Inr_iff)

lemma if_raise_Inr_iff [simp]: "(if b then Inl e else k) = Inr y \<longleftrightarrow> \<not> b \<and> k = Inr y"
  by simp

fun res_map :: "('a \<Rightarrow> 'e + 'b) \<Rightarrow> 'a list \<Rightarrow> 'e + 'b list" where
  "res_map f [] = Inr []"
| "res_map f (x # xs) = res_bind (f x) (\<lambda>y. res_bind (res_map f xs) (\<lambda>ys. Inr (y # ys)))"

lemma res_map_Inr_iff: "res_map f xs = Inr ys \<longleftrightarrow> list_all2 (\<lambda>x y. f x = Inr y) xs ys"
  by (induction xs arbitrary: ys) (auto simp: res_bind_Inr_iff list_all2_Cons1)

lemma res_map_total: "(\<And>x. x \<in> set xs \<Longrightarrow> f x = Inr (g x)) \<Longrightarrow> res_map f xs = Inr (map g xs)"
  by (induction xs) auto

lemma res_map_length: "res_map f xs = Inr ys \<Longrightarrow> length ys = length xs"
  by (simp add: res_map_Inr_iff list_all2_lengthD)

lemma res_map_set: "res_map f xs = Inr ys \<Longrightarrow> y \<in> set ys \<Longrightarrow> \<exists>x \<in> set xs. f x = Inr y"
  by (auto simp: res_map_Inr_iff list_all2_conv_all_nth in_set_conv_nth) (metis nth_mem)

text \<open>
  Pydantic runs every field constraint and collects the failures; the rest of the
  construction happens only when there is none.
\<close>

definition check_fields :: "string \<Rightarrow> (string \<times> bool) list \<Rightarrow> 'a res \<Rightarrow> 'a res" where
  "check_fields model cs k =
     (let bad = map fst (filter (\<lambda>c. \<not> snd c) cs)
      in if bad = [] then k else Inl (FieldErrors model bad))"

lemma check_fields_Inr_iff [simp]:
  "check_fields model cs k = Inr y \<longleftrightarrow> list_all snd cs \<and> k = Inr y"
  by (auto simp: check_fields_def Let_def filter_empty_conv list_all_iff)

lemma check_fields_ok: "list_all snd cs \<Longrightarrow> check_fields model cs k = k"
  by (simp add: check_fields_def filter_empty_conv list_all_iff)

lemma check_fields_fail:
  "(f, False) \<in> set cs \<Longrightarrow> \<exists>bad. check_fields model cs k = Inl (FieldErrors model bad) \<and> f \<in> set bad"
  by (force simp: check_fields_def Let_def filter_empty_conv)

text \<open>A loop that raises at the first offending element.\<close>

fun first_error :: "('a \<Rightarrow> py_error option) \<Rightarrow> 'a list \<Rightarrow> py_error option" where
  "first_error f [] = None"
| "first_error f (x # xs) = (case f x of None \<Rightarrow> first_error f xs | Some e \<Rightarrow> Some e)"

definition raise_first :: "py_error option \<Rightarrow> 'a res \<Rightarrow> 'a res" where
  "raise_first err k = (case err of None \<Rightarrow> k | Some e \<Rightarrow> Inl e)"

lemma raise_first_simps [simp]:
  "raise_first None k = k"
  "raise_first (Some e) k = Inl e"
  by (simp_all add: raise_first_def)

lemma raise_first_Inr_iff [simp]: "raise_first err k = Inr y \<longleftrightarrow> err = None \<and> k = Inr y"
  by (cases err) simp_all

lemma first_error_None_iff [simp]: "first_error f xs = None \<longleftrightarrow> (\<forall>x \<in> set xs. f x = None)"
  by (induction xs) (auto split: option.splits)

lemma first_error_Some: "first_error f xs = Some e \<Longrightarrow> \<exists>x \<in> set xs. f x = Some e"
  by (induction xs) (auto split: option.splits)

subsection \<open>Text\<close>

definition ord :: "char \<Rightarrow> nat" where
  "ord c = of_char c"

definition is_digit :: "char \<Rightarrow> bool" where
  "is_digit c \<longleftrightarrow> 48 \<le> ord c \<and> ord c \<le> 57"

definition is_lower :: "char \<Rightarrow> bool" where
  "is_lower c \<longleftrightarrow> 97 \<le> ord c \<and> ord c \<le> 122"

definition is_upper :: "char \<Rightarrow> bool" where
  "is_upper c \<longleftrightarrow> 65 \<le> ord c \<and> ord c \<le> 90"

definition is_space :: "char \<Rightarrow> bool" where
  "is_space c \<longleftrightarrow> (9 \<le> ord c \<and> ord c \<le> 13) \<or> (28 \<le> ord c \<and> ord c \<le> 32)"

definition is_hex :: "char \<Rightarrow> bool" where
  "is_hex c \<longleftrightarrow> is_digit c \<or> (97 \<le> ord c \<and> ord c \<le> 102)"

definition is_id_head :: "char \<Rightarrow> bool" where
  "is_id_head c \<longleftrightarrow> is_lower c \<or> is_digit c"

definition is_id_char :: "char \<Rightarrow> bool" where
  "is_id_char c \<longleftrightarrow> is_id_head c \<or> ord c = 46 \<or> ord c = 95 \<or> ord c = 58 \<or> ord c = 45"

definition to_upper :: "char \<Rightarrow> char" where
  "to_upper c = (if is_lower c then char_of (ord c - 32) else c)"

definition to_lower :: "char \<Rightarrow> char" where
  "to_lower c = (if is_upper c then char_of (ord c + 32) else c)"

definition upper :: "string \<Rightarrow> string" where
  "upper s = map to_upper s"

definition casefold :: "string \<Rightarrow> string" where
  "casefold s = map to_lower s"

definition strip :: "string \<Rightarrow> string" where
  "strip s = rev (dropWhile is_space (rev (dropWhile is_space s)))"

definition isalpha :: "string \<Rightarrow> bool" where
  "isalpha s \<longleftrightarrow> s \<noteq> [] \<and> list_all (\<lambda>c. is_lower c \<or> is_upper c) s"

fun join :: "string \<Rightarrow> string list \<Rightarrow> string" where
  "join sep [] = []"
| "join sep [s] = s"
| "join sep (s # t # ss) = s @ sep @ join sep (t # ss)"

text \<open>\<open>str\<close> of a list of strings in an f-string.\<close>

definition list_repr :: "string list \<Rightarrow> string" where
  "list_repr ss = ''['' @ join '', '' (map (\<lambda>s. CHR 0x27 # s @ [CHR 0x27]) ss) @ '']''"

lemma ord_char_of: "n < 256 \<Longrightarrow> ord (char_of n) = n"
  by (simp add: ord_def)

lemma ord_lt_256 [simp]: "ord c < 256"
  by (simp add: ord_def)

lemma is_lower_to_upper [simp]: "\<not> is_lower (to_upper c)"
  by (auto simp: to_upper_def is_lower_def ord_char_of)

lemma to_upper_idem [simp]: "to_upper (to_upper c) = to_upper c"
  by (simp add: to_upper_def [of "to_upper c"])

lemma is_upper_to_lower [simp]: "\<not> is_upper (to_lower c)"
  by (auto simp: to_lower_def is_upper_def ord_char_of)

lemma to_lower_idem [simp]: "to_lower (to_lower c) = to_lower c"
  by (simp add: to_lower_def [of "to_lower c"])

lemma upper_idem [simp]: "upper (upper s) = upper s"
  by (simp add: upper_def)

lemma casefold_idem [simp]: "casefold (casefold s) = casefold s"
  by (simp add: casefold_def)

lemma length_upper [simp]: "length (upper s) = length s"
  by (simp add: upper_def)

lemma length_casefold [simp]: "length (casefold s) = length s"
  by (simp add: casefold_def)

lemma casefold_eq_Nil [simp]: "casefold s = [] \<longleftrightarrow> s = []"
  by (simp add: casefold_def)

lemma is_space_to_lower [simp]: "is_space (to_lower c) = is_space c"
  by (auto simp: to_lower_def is_space_def is_upper_def ord_char_of)

lemma is_space_comp_to_lower [simp]: "is_space \<circ> to_lower = is_space"
  by (simp add: fun_eq_iff)

lemma strip_casefold: "strip (casefold s) = casefold (strip s)"
  by (simp add: strip_def casefold_def dropWhile_map rev_map)

lemma dropWhile_id: "xs = [] \<or> \<not> P (hd xs) \<Longrightarrow> dropWhile P xs = xs"
  by (cases xs) auto

lemma hd_dropWhile_rev_dropWhile:
  assumes "rev (dropWhile P (rev xs)) \<noteq> []" and "\<not> P (hd xs)"
  shows "\<not> P (hd (rev (dropWhile P (rev xs))))"
proof -
  obtain ys where ys: "xs = rev (dropWhile P (rev xs)) @ ys"
    by (metis rev_append rev_rev_ident takeWhile_dropWhile_id)
  have "hd xs = hd (rev (dropWhile P (rev xs)))"
    using assms(1) by (subst ys, subst hd_append2) auto
  with assms(2) show ?thesis by simp
qed

lemma strip_idem [simp]: "strip (strip s) = strip s"
proof -
  define t where "t = dropWhile is_space s"
  define u where "u = rev (dropWhile is_space (rev t))"
  have u: "strip s = u" by (simp add: strip_def t_def u_def)
  have "t = [] \<or> \<not> is_space (hd t)"
    unfolding t_def by (metis hd_dropWhile)
  then have "u = [] \<or> \<not> is_space (hd u)"
    unfolding u_def using hd_dropWhile_rev_dropWhile [of is_space t] by fastforce
  then have left: "dropWhile is_space u = u" by (rule dropWhile_id)
  have "rev u = [] \<or> \<not> is_space (hd (rev u))"
    unfolding u_def by (metis hd_dropWhile rev_rev_ident)
  then have "dropWhile is_space (rev u) = rev u" by (rule dropWhile_id)
  with left u show ?thesis by (simp add: strip_def)
qed

subsubsection \<open>Patterns of the contracts\<close>

text \<open>\<open>SHA256_PATTERN\<close>, \<open>ID_PATTERN\<close> and \<open>DHASH_PATTERN\<close>: anchored at both ends.\<close>

definition is_sha256 :: "string \<Rightarrow> bool" where
  "is_sha256 s \<longleftrightarrow> length s = 64 \<and> list_all is_hex s"

definition is_id :: "string \<Rightarrow> bool" where
  "is_id s \<longleftrightarrow> (case s of [] \<Rightarrow> False | c # cs \<Rightarrow> is_id_head c \<and> length cs \<le> 127 \<and> list_all is_id_char cs)"

definition is_dhash :: "string \<Rightarrow> bool" where
  "is_dhash s \<longleftrightarrow> length s = 16 \<and> list_all is_hex s"

definition len_between :: "nat \<Rightarrow> nat \<Rightarrow> 'a list \<Rightarrow> bool" where
  "len_between lo hi s \<longleftrightarrow> lo \<le> length s \<and> length s \<le> hi"

definition unit_interval :: "rat \<Rightarrow> bool" where
  "unit_interval q \<longleftrightarrow> 0 \<le> q \<and> q \<le> 1"

lemma unit_interval_simps [simp]: "unit_interval 0" "unit_interval 1"
  by (simp_all add: unit_interval_def)

fun opt_ok :: "('a \<Rightarrow> bool) \<Rightarrow> 'a option \<Rightarrow> bool" where
  "opt_ok p None = True"
| "opt_ok p (Some x) = p x"

lemma is_hex_is_id_char: "is_hex c \<Longrightarrow> is_id_char c"
  by (auto simp: is_hex_def is_id_char_def is_id_head_def is_lower_def)

lemma is_id_imp_chars: "is_id s \<Longrightarrow> list_all is_id_char s"
  by (auto simp: is_id_def is_id_char_def split: list.splits)

lemma is_id_append:
  "is_id p \<Longrightarrow> list_all is_id_char q \<Longrightarrow> length p + length q \<le> 128 \<Longrightarrow> is_id (p @ q)"
  by (auto simp: is_id_def split: list.splits)

lemma is_id_length: "is_id s \<Longrightarrow> length s \<le> 128"
  by (auto simp: is_id_def split: list.splits)

lemma is_sha256_take: "is_sha256 s \<Longrightarrow> list_all is_id_char (take n s)"
  by (auto simp: is_sha256_def list_all_iff intro: is_hex_is_id_char dest: in_set_takeD)

subsection \<open>Sorted sets and dictionaries\<close>

text \<open>\<open>sorted(set(xs))\<close> and \<open>tuple(sorted({...}))\<close>.\<close>

definition sorted_set :: "'a::linorder list \<Rightarrow> 'a list" where
  "sorted_set xs = sort (remdups xs)"

lemma set_sorted_set [simp]: "set (sorted_set xs) = set xs"
  by (simp add: sorted_set_def)

lemma sorted_sorted_set [simp]: "sorted (sorted_set xs)"
  by (simp add: sorted_set_def)

lemma distinct_sorted_set [simp]: "distinct (sorted_set xs)"
  by (simp add: sorted_set_def)

lemma sorted_set_eq_Nil [simp]: "sorted_set xs = [] \<longleftrightarrow> xs = []"
  by (metis set_empty set_sorted_set)

lemma sorted_set_id: "sorted xs \<Longrightarrow> distinct xs \<Longrightarrow> sorted_set xs = xs"
  by (simp add: sorted_set_def distinct_remdups_id sorted_sort_id)

lemma sorted_set_idem [simp]: "sorted_set (sorted_set xs) = sorted_set xs"
  by (simp add: sorted_set_id)

lemma sorted_set_cong: "set xs = set ys \<Longrightarrow> sorted_set xs = sorted_set ys"
  by (rule sorted_distinct_set_unique) auto

lemma sort_eq_Nil_iff [simp]: "sort xs = [] \<longleftrightarrow> xs = []"
  by (metis set_empty set_sort)

lemma distinct_map_sort_key: "distinct (map f (sort_key g xs)) \<longleftrightarrow> distinct (map f xs)"
  by (metis (no_types, lifting) distinct_map distinct_sort set_sort)

text \<open>\<open>sorted(xs, key=f)\<close> of records no two of which share a key depends on the records only.\<close>

lemma sort_key_mset_cong:
  assumes "mset xs = mset ys" and "inj_on f (set xs)"
  shows "sort_key f xs = sort_key f ys"
  using assms by (intro sort_key_inj_key_eq) simp_all

text \<open>
  \<open>{key(x): x for x in xs}\<close>: a dictionary comprehension, the last entry of a key winning.
\<close>

definition dict_by :: "('a \<Rightarrow> 'k) \<Rightarrow> 'a list \<Rightarrow> 'k \<Rightarrow> 'a option" where
  "dict_by key xs k = List.find (\<lambda>x. key x = k) (rev xs)"

lemma dict_by_Some: "dict_by key xs k = Some x \<Longrightarrow> x \<in> set xs \<and> key x = k"
proof -
  assume "dict_by key xs k = Some x"
  then obtain i where "i < length (rev xs)" "key (rev xs ! i) = k" "x = rev xs ! i"
    by (auto simp: dict_by_def find_Some_iff)
  then show ?thesis by (metis nth_mem set_rev)
qed

lemma dict_by_None_iff: "dict_by key xs k = None \<longleftrightarrow> k \<notin> key ` set xs"
  by (auto simp: dict_by_def find_None_iff)

lemma dict_by_mem:
  assumes "distinct (map key xs)" and "x \<in> set xs"
  shows "dict_by key xs (key x) = Some x"
proof (cases "dict_by key xs (key x)")
  case None
  then show ?thesis using assms(2) by (auto simp: dict_by_None_iff)
next
  case (Some y)
  then have "y \<in> set xs" "key y = key x" by (auto dest: dict_by_Some)
  with assms have "y = x" by (metis distinct_map inj_onD)
  with Some show ?thesis by simp
qed

lemma dict_by_eq_Some_iff:
  "distinct (map key xs) \<Longrightarrow> dict_by key xs k = Some x \<longleftrightarrow> x \<in> set xs \<and> key x = k"
  using dict_by_mem dict_by_Some by metis

text \<open>\<open>max(xs, default=d)\<close> and \<open>max(xs, key=f)\<close> (the first maximal element).\<close>

fun max_default :: "'a::linorder \<Rightarrow> 'a list \<Rightarrow> 'a" where
  "max_default d [] = d"
| "max_default d [x] = x"
| "max_default d (x # y # xs) = max_default d (max x y # xs)"

lemma max_default_Cons: "max_default d (x # xs) = Max (set (x # xs))"
proof (induction xs arbitrary: x)
  case (Cons y zs)
  have "max_default d (max x y # zs) = Max (set (max x y # zs))" by (rule Cons.IH)
  also have "\<dots> = Max (set (x # y # zs))"
    by (cases zs) (simp_all add: max.assoc)
  finally show ?case by simp
qed simp

lemma max_default_ge: "x \<in> set xs \<Longrightarrow> x \<le> max_default d xs"
  by (cases xs) (auto simp: max_default_Cons simp del: max_default.simps)

lemma max_default_in: "xs \<noteq> [] \<Longrightarrow> max_default d xs \<in> set xs"
  by (cases xs) (simp_all only: max_default_Cons Max_in finite_set set_empty list.distinct not_False_eq_True)

fun max_by :: "('a \<Rightarrow> 'b::linorder) \<Rightarrow> 'a \<Rightarrow> 'a list \<Rightarrow> 'a" where
  "max_by f best [] = best"
| "max_by f best (x # xs) = max_by f (if f best < f x then x else best) xs"

lemma max_by_in: "max_by f b xs \<in> set (b # xs)"
  by (induction xs arbitrary: b) auto

lemma max_by_ge_start: "f b \<le> f (max_by f b xs)"
proof (induction xs arbitrary: b)
  case (Cons x xs)
  show ?case using Cons.IH [of "if f b < f x then x else b"] by (auto split: if_splits)
qed simp

lemma max_by_ge: "x \<in> set (b # xs) \<Longrightarrow> f x \<le> f (max_by f b xs)"
proof (induction xs arbitrary: b)
  case (Cons y ys)
  let ?b = "if f b < f y then y else b"
  have ge: "f ?b \<le> f (max_by f ?b ys)" by (rule max_by_ge_start)
  from Cons.prems consider "x = b \<or> x = y" | "x \<in> set ys" by auto
  then show ?case
  proof cases
    case 1
    then have "f x \<le> f ?b" by auto
    with ge show ?thesis by simp
  next
    case 2
    then show ?thesis using Cons.IH [of ?b] by simp
  qed
qed simp

subsection \<open>Timestamps\<close>

text \<open>
  A \<open>datetime\<close>: wall-clock microseconds and the UTC offset in microseconds. \<open>None\<close> is the
  naive datetime the code rejects, whether \<open>tzinfo\<close> is absent or \<open>utcoffset()\<close> is \<open>None\<close>.
  Aware datetimes compare by instant. The year range of the Python type is not modelled.
\<close>

record datetime =
  dt_local :: int
  dt_offset :: "int option"

definition is_aware :: "datetime \<Rightarrow> bool" where
  "is_aware d \<longleftrightarrow> dt_offset d \<noteq> None"

definition instant :: "datetime \<Rightarrow> int" where
  "instant d = dt_local d - (case dt_offset d of None \<Rightarrow> 0 | Some off \<Rightarrow> off)"

definition plus_seconds :: "datetime \<Rightarrow> int \<Rightarrow> datetime" where
  "plus_seconds d n = d\<lparr>dt_local := dt_local d + n * 1000000\<rparr>"

definition utc :: "int \<Rightarrow> datetime" where
  "utc us = \<lparr>dt_local = us, dt_offset = Some 0\<rparr>"

lemma instant_plus_seconds [simp]: "instant (plus_seconds d n) = instant d + n * 1000000"
  by (simp add: instant_def plus_seconds_def)

lemma is_aware_plus_seconds [simp]: "is_aware (plus_seconds d n) = is_aware d"
  by (simp add: is_aware_def plus_seconds_def)

lemma utc_simps [simp]: "instant (utc us) = us" "is_aware (utc us)"
  by (simp_all add: utc_def instant_def is_aware_def)

subsection \<open>Rounding\<close>

text \<open>\<open>round(q)\<close> rounds half to even; \<open>round(q, n)\<close> does so at \<open>n\<close> decimals.\<close>

definition round_half_even :: "rat \<Rightarrow> int" where
  "round_half_even q =
     (let f = \<lfloor>q\<rfloor>; d = q - of_int f
      in if d < 1 / 2 then f else if 1 / 2 < d then f + 1 else if even f then f else f + 1)"

definition round_to :: "rat \<Rightarrow> nat \<Rightarrow> rat" where
  "round_to q n = of_int (round_half_even (q * 10 ^ n)) / 10 ^ n"

lemma floor_rat_numeral [simp]:
  "\<lfloor>numeral a / numeral b :: rat\<rfloor> = numeral a div numeral b"
  "\<lfloor>1 / numeral b :: rat\<rfloor> = 1 div numeral b"
  using floor_divide_of_int_eq [where ?'a = rat, of "numeral a" "numeral b"]
    floor_divide_of_int_eq [where ?'a = rat, of 1 "numeral b"] by simp_all

lemma round_half_even_near: "\<bar>of_int (round_half_even q) - q\<bar> \<le> 1 / 2"
proof -
  have "of_int \<lfloor>q\<rfloor> \<le> q" "q < of_int \<lfloor>q\<rfloor> + 1" by linarith+
  then show ?thesis by (auto simp: round_half_even_def Let_def)
qed

lemma round_half_even_of_int [simp]: "round_half_even (of_int n) = n"
  by (simp add: round_half_even_def)

lemma round_half_even_mono: "p \<le> q \<Longrightarrow> round_half_even p \<le> round_half_even q"
proof -
  assume "p \<le> q"
  then have fl: "\<lfloor>p\<rfloor> \<le> \<lfloor>q\<rfloor>" by (rule floor_mono)
  show ?thesis
  proof (cases "\<lfloor>p\<rfloor> = \<lfloor>q\<rfloor>")
    case True
    with \<open>p \<le> q\<close> show ?thesis by (auto simp: round_half_even_def Let_def)
  next
    case False
    with fl have "\<lfloor>p\<rfloor> + 1 \<le> \<lfloor>q\<rfloor>" by simp
    then show ?thesis by (auto simp: round_half_even_def Let_def)
  qed
qed

lemma round_to_bounds:
  assumes "of_int a \<le> q" and "q \<le> of_int b"
  shows "of_int a \<le> round_to q n" and "round_to q n \<le> of_int b"
proof -
  have p: "(0::rat) < 10 ^ n" by simp
  have "of_int (a * 10 ^ n) \<le> q * 10 ^ n" "q * 10 ^ n \<le> of_int (b * 10 ^ n)"
    using assms p by (simp_all add: mult_right_mono)
  then have "a * 10 ^ n \<le> round_half_even (q * 10 ^ n)" "round_half_even (q * 10 ^ n) \<le> b * 10 ^ n"
    using round_half_even_mono round_half_even_of_int by (metis, metis)
  then have "of_int (a * 10 ^ n) \<le> (of_int (round_half_even (q * 10 ^ n)) :: rat)"
    "of_int (round_half_even (q * 10 ^ n)) \<le> (of_int (b * 10 ^ n) :: rat)"
    by (simp_all only: of_int_le_iff)
  then show "of_int a \<le> round_to q n" and "round_to q n \<le> of_int b"
    using p by (simp_all add: round_to_def field_simps)
qed

subsection \<open>Interfaces\<close>

text \<open>
  What the code relies on in every contract model: construction either raises or returns a
  well-formed object, and a well-formed object passes construction unchanged, so that
  validating a stored or copied document again is the identity.
\<close>

locale validated_model =
  fixes validate :: "'a \<Rightarrow> 'a res"
    and wf :: "'a \<Rightarrow> bool"
  assumes validate_wf: "validate x = Inr y \<Longrightarrow> wf y"
    and validate_fix: "wf x \<Longrightarrow> validate x = Inr x"
begin

lemma validate_idem: "validate x = Inr y \<Longrightarrow> validate y = Inr y"
  by (blast intro: validate_fix validate_wf)

lemma wf_iff_fixpoint: "wf x \<longleftrightarrow> validate x = Inr x"
  using validate_fix validate_wf by blast

lemma wf_iff_range: "wf y \<longleftrightarrow> (\<exists>x. validate x = Inr y)"
  using validate_fix validate_wf by blast

lemma validate_all_wf: "res_map validate xs = Inr ys \<Longrightarrow> list_all wf ys"
  by (auto simp: list_all_iff intro: validate_wf dest: res_map_set)

lemma validate_all_fix: "list_all wf xs \<Longrightarrow> res_map validate xs = Inr xs"
  using res_map_total [of xs validate "\<lambda>x. x"] by (simp add: list_all_iff validate_fix)

end

text \<open>
  A governed registry: a list of records with a key that no two records share. The code
  looks records up through a dictionary comprehension.
\<close>

locale keyed_registry =
  fixes key :: "'i \<Rightarrow> string"
    and entries :: "'r \<Rightarrow> 'i list"
    and wf :: "'r \<Rightarrow> bool"
  assumes keys_distinct: "wf r \<Longrightarrow> distinct (map key (entries r))"
begin

lemma lookup_iff: "wf r \<Longrightarrow> dict_by key (entries r) k = Some x \<longleftrightarrow> x \<in> set (entries r) \<and> key x = k"
  by (rule dict_by_eq_Some_iff) (rule keys_distinct)

lemma key_inj: "wf r \<Longrightarrow> x \<in> set (entries r) \<Longrightarrow> y \<in> set (entries r) \<Longrightarrow> key x = key y \<Longrightarrow> x = y"
  using keys_distinct [of r] by (auto simp: distinct_map inj_on_def)

end

end
