(* ===== verification/Encoding.thy ===== *)
theory Encoding
  imports Prelude
begin

section \<open>Text encodings of the standard library\<close>

text \<open>
  The two encodings the source takes from the Python standard library and relies on in its
  contracts: decimal rendering of integers (f-strings and JSON) and base64 with validation
  (\<open>base64.b64encode\<close>, \<open>base64.b64decode(s, validate=True)\<close>). Bytes are characters. The decoder
  accepts exactly what CPython's strict mode accepts: groups of four alphabet characters, with
  one or two padding characters at the end only; it does not require the unused bits of the
  last character to be zero, which is why the source compares with a re-encoding where it wants
  a canonical form.
\<close>

subsection \<open>Decimal numbers\<close>

definition digit_char :: "nat \<Rightarrow> char" where
  "digit_char d = char_of (48 + d)"

fun show_nat :: "nat \<Rightarrow> string" where
  "show_nat n = (if n < 10 then [digit_char n] else show_nat (n div 10) @ [digit_char (n mod 10)])"

declare show_nat.simps [simp del]

definition show_int :: "int \<Rightarrow> string" where
  "show_int i = (if i < 0 then CHR ''-'' # show_nat (nat (- i)) else show_nat (nat i))"

definition digits_value :: "string \<Rightarrow> nat" where
  "digits_value s = foldl (\<lambda>a c. 10 * a + (ord c - 48)) 0 s"

lemma ord_digit_char: "d < 10 \<Longrightarrow> ord (digit_char d) = 48 + d"
  by (simp add: digit_char_def ord_char_of)

lemma is_digit_digit_char: "d < 10 \<Longrightarrow> is_digit (digit_char d)"
  by (simp add: is_digit_def ord_digit_char)

lemma show_nat_digits: "list_all is_digit (show_nat n)"
proof (induction n rule: show_nat.induct)
  case (1 n)
  then show ?case by (subst show_nat.simps) (auto intro: is_digit_digit_char)
qed

lemma show_nat_not_Nil [simp]: "show_nat n \<noteq> []"
  by (subst show_nat.simps) simp

lemma digits_value_show_nat: "digits_value (show_nat n) = n"
proof (induction n rule: show_nat.induct)
  case (1 n)
  show ?case
  proof (cases "n < 10")
    case True
    then show ?thesis by (subst show_nat.simps) (simp add: digits_value_def ord_digit_char)
  next
    case False
    then have "digits_value (show_nat n) = 10 * digits_value (show_nat (n div 10)) + n mod 10"
      by (subst show_nat.simps) (simp add: digits_value_def ord_digit_char)
    with 1 False show ?thesis by simp
  qed
qed

lemma show_nat_inj: "show_nat m = show_nat n \<longleftrightarrow> m = n"
  by (metis digits_value_show_nat)

lemma hd_show_nat: "is_digit (hd (show_nat n))"
  using show_nat_digits [of n] by (cases "show_nat n") auto

lemma digit_not_minus: "is_digit c \<Longrightarrow> c \<noteq> CHR ''-''"
  by (auto simp: is_digit_def ord_def)

lemma show_int_inj: "show_int i = show_int j \<longleftrightarrow> i = j"
  using hd_show_nat digit_not_minus
  by (auto simp: show_int_def show_nat_inj split: if_splits) (metis list.sel(1))+

lemma show_int_not_Nil [simp]: "show_int i \<noteq> []"
  by (simp add: show_int_def)

lemma show_int_chars: "list_all (\<lambda>c. is_digit c \<or> c = CHR ''-'') (show_int i)"
  using show_nat_digits by (auto simp: show_int_def list_all_iff)

subsection \<open>Base64\<close>

definition b64_alphabet :: string where
  "b64_alphabet = ''ABCDEFGHIJKLMNOPQRSTUVWXYZabcdefghijklmnopqrstuvwxyz0123456789+/''"

definition b64_char :: "nat \<Rightarrow> char" where
  "b64_char n = b64_alphabet ! n"

definition b64_value :: "char \<Rightarrow> nat option" where
  "b64_value c = map_of (zip b64_alphabet [0..<64]) c"

fun b64encode :: "string \<Rightarrow> string" where
  "b64encode [] = []"
| "b64encode [a] =
     [b64_char (ord a div 4), b64_char (ord a mod 4 * 16), CHR ''='', CHR ''='']"
| "b64encode [a, b] =
     [b64_char (ord a div 4), b64_char (ord a mod 4 * 16 + ord b div 16),
      b64_char (ord b mod 16 * 4), CHR ''='']"
| "b64encode (a # b # c # s) =
     b64_char (ord a div 4) # b64_char (ord a mod 4 * 16 + ord b div 16) #
     b64_char (ord b mod 16 * 4 + ord c div 64) # b64_char (ord c mod 64) # b64encode s"

definition b64_triple :: "nat \<Rightarrow> nat \<Rightarrow> nat \<Rightarrow> nat \<Rightarrow> string" where
  "b64_triple w x y z =
     [char_of (w * 4 + x div 16), char_of (x mod 16 * 16 + y div 4), char_of (y mod 4 * 64 + z)]"

fun b64decode :: "string \<Rightarrow> string option" where
  "b64decode [] = Some []"
| "b64decode (w # x # y # z # s) =
     (case (b64_value w, b64_value x) of
        (Some w', Some x') \<Rightarrow>
          (if s = [] \<and> y = CHR ''='' \<and> z = CHR ''='' then Some (take 1 (b64_triple w' x' 0 0))
           else case b64_value y of None \<Rightarrow> None | Some y' \<Rightarrow>
             (if s = [] \<and> z = CHR ''='' then Some (take 2 (b64_triple w' x' y' 0))
              else case b64_value z of None \<Rightarrow> None | Some z' \<Rightarrow>
                map_option (\<lambda>t. b64_triple w' x' y' z' @ t) (b64decode s)))
      | _ \<Rightarrow> None)"
| "b64decode _ = None"

lemma b64_alphabet_facts: "length b64_alphabet = 64" "distinct b64_alphabet"
  by (simp_all add: b64_alphabet_def)

lemma b64_value_char [simp]: "n < 64 \<Longrightarrow> b64_value (b64_char n) = Some n"
  by (simp add: b64_value_def b64_char_def map_of_zip_nth b64_alphabet_facts)

lemma b64_value_pad [simp]: "b64_value (CHR ''='') = None"
  by (simp add: b64_value_def map_of_zip_is_None b64_alphabet_facts) (simp add: b64_alphabet_def)

lemma b64_char_not_pad [simp]: "n < 64 \<Longrightarrow> b64_char n \<noteq> CHR ''=''"
  using b64_value_char [of n] by (metis b64_value_pad option.distinct(1))

lemma char_of_ord [simp]: "char_of (ord c) = c"
  by (simp add: ord_def)

lemma sextets:
  fixes a b c :: nat
  assumes "a < 256" and "b < 256" and "c < 256"
  shows "a div 4 < 64" and "a mod 4 * 16 + b div 16 < 64" and "a mod 4 * 16 < 64"
    and "b mod 16 * 4 + c div 64 < 64" and "b mod 16 * 4 < 64" and "c mod 64 < 64"
    and "a div 4 * 4 + (a mod 4 * 16 + b div 16) div 16 = a"
    and "a div 4 * 4 + (a mod 4 * 16) div 16 = a"
    and "(a mod 4 * 16 + b div 16) mod 16 * 16 + (b mod 16 * 4 + c div 64) div 4 = b"
    and "(a mod 4 * 16 + b div 16) mod 16 * 16 + (b mod 16 * 4) div 4 = b"
    and "(b mod 16 * 4 + c div 64) mod 4 * 64 + c mod 64 = c"
proof -
  have b: "b div 16 < 16" and c: "c div 64 < 4" and a: "a div 4 < 64" using assms by auto
  have m: "a mod 4 < 4" "b mod 16 < 16" by auto
  show "a div 4 < 64" "a mod 4 * 16 + b div 16 < 64" "a mod 4 * 16 < 64"
    "b mod 16 * 4 + c div 64 < 64" "b mod 16 * 4 < 64" "c mod 64 < 64"
    using a b c m by auto
  have d: "(a mod 4 * 16 + b div 16) div 16 = a mod 4" "(a mod 4 * 16 + b div 16) mod 16 = b div 16"
    "(b mod 16 * 4 + c div 64) div 4 = b mod 16" "(b mod 16 * 4 + c div 64) mod 4 = c div 64"
    using b c by (simp_all add: div_mult_self3 mod_mult_self3)
  then show "a div 4 * 4 + (a mod 4 * 16 + b div 16) div 16 = a"
    "a div 4 * 4 + (a mod 4 * 16) div 16 = a"
    "(a mod 4 * 16 + b div 16) mod 16 * 16 + (b mod 16 * 4 + c div 64) div 4 = b"
    "(a mod 4 * 16 + b div 16) mod 16 * 16 + (b mod 16 * 4) div 4 = b"
    "(b mod 16 * 4 + c div 64) mod 4 * 64 + c mod 64 = c"
    by simp_all
qed

lemma b64_roundtrip: "b64decode (b64encode s) = Some s"
proof (induction s rule: b64encode.induct)
  case (2 a)
  then show ?case using sextets [of "ord a" 0 0] by (simp add: b64_triple_def)
next
  case (3 a b)
  then show ?case using sextets [of "ord a" "ord b" 0] by (simp add: b64_triple_def)
next
  case (4 a b c s)
  then show ?case using sextets [of "ord a" "ord b" "ord c"] by (simp add: b64_triple_def)
qed simp

lemma b64encode_inj: "b64encode s = b64encode t \<Longrightarrow> s = t"
  by (metis b64_roundtrip option.inject)

lemma length_b64encode: "length (b64encode s) = 4 * ((length s + 2) div 3)"
proof (induction s rule: b64encode.induct)
  case (4 a b c s)
  have "(length s + 5) div 3 = Suc ((length s + 2) div 3)" by presburger
  with 4 show ?case by (simp add: add.commute)
qed auto

end
