(* ===== verification/Json.thy ===== *)
theory Json
  imports Encoding
begin

section \<open>Canonical JSON and commitments\<close>

text \<open>
  The JSON documents the contracts hash and sign. A \<open>json\<close> value is what \<open>model_dump(mode="json")\<close>
  returns (a dictionary is the list of its entries in insertion order); \<open>canon\<close> sorts the keys of
  every object as \<open>sort_keys=True\<close> does, \<open>render\<close> is \<open>json.dumps\<close> with the compact separators,
  \<open>canonical_json_bytes\<close> the text of \<open>app/security/signing.py\<close>, and \<open>sha256_json\<close> the
  commitment of the contract modules. The main results: canonical text does not depend on the
  order of object keys, and it determines the document (\<open>canonical_text_inj\<close>), so a collision of
  two commitments is a collision of the hash function on two different texts.

  The \<open>runtime\<close> record holds what the source calls and does not define: the SHA-256 digest, the
  text of a float and of a timestamp, the Ed25519 primitives of the \<open>cryptography\<close> package, the
  content of the device key file and the text of a validation error.
\<close>

record runtime =
  rt_sha256 :: "string \<Rightarrow> string"
  rt_float :: "rat \<Rightarrow> string"
  rt_datetime :: "datetime \<Rightarrow> string"
  rt_device_key :: string
  rt_ed_public :: "string \<Rightarrow> string"
  rt_ed_sign :: "string \<Rightarrow> string \<Rightarrow> string"
  rt_ed_verify :: "string \<Rightarrow> string \<Rightarrow> string \<Rightarrow> bool"
  rt_error_text :: "py_error \<Rightarrow> string"

text \<open>\<open>str(error)\<close>: the message, except for the validation errors of pydantic.\<close>

fun error_text :: "runtime \<Rightarrow> py_error \<Rightarrow> string" where
  "error_text rt (ValueError m) = m"
| "error_text rt (VideoError m) = m"
| "error_text rt (UploadValidationError m) = m"
| "error_text rt e = rt_error_text rt e"

datatype json =
    JNull
  | JBool bool
  | JInt int
  | JFloat rat
  | JStr string
  | JArr "json list"
  | JObj "(string \<times> json) list"

subsection \<open>Sorting keys\<close>

primrec canon :: "json \<Rightarrow> json" where
  "canon JNull = JNull"
| "canon (JBool b) = JBool b"
| "canon (JInt i) = JInt i"
| "canon (JFloat q) = JFloat q"
| "canon (JStr s) = JStr s"
| "canon (JArr js) = JArr (map canon js)"
| "canon (JObj kvs) = JObj (sort_key fst (map (map_prod id canon) kvs))"

lemma sort_key_map_prod: "sort_key fst (map (map_prod id f) kvs) = map (map_prod id f) (sort_key fst kvs)"
proof (induction kvs)
  case (Cons kv kvs)
  have ins: "insort_key fst (map_prod id f kv) (map (map_prod id f) ys) =
    map (map_prod id f) (insort_key fst kv ys)" for ys
    by (induction ys) auto
  show ?case using Cons ins by (simp add: id_def)
qed simp

lemma canon_idem [simp]: "canon (canon j) = canon j"
proof (induction j)
  case (JObj kvs)
  have "map (map_prod id canon) (map (map_prod id canon) kvs) = map (map_prod id canon) kvs"
    using JObj by (auto simp: map_prod_def snds.simps split: prod.splits)
  then show ?case
    by (simp add: sort_key_map_prod [symmetric] sort_key_id_if_sorted del: map_map)
qed auto

text \<open>Looking a key up in an object does not depend on the order of different keys.\<close>

lemma map_of_filter_key: "map_of kvs k = map_of (filter (\<lambda>kv. fst kv = k) kvs) k"
  by (induction kvs) auto

lemma map_of_sort_key: "map_of (sort_key fst kvs) k = map_of kvs k"
proof -
  have "filter (\<lambda>kv. fst kv = k) (sort_key fst kvs) = filter (\<lambda>kv. fst kv = k) kvs"
    by (rule sort_key_stable)
  then show ?thesis
    using map_of_filter_key [of "sort_key fst kvs" k] map_of_filter_key [of kvs k] by simp
qed

lemma map_of_map_prod: "map_of (map (map_prod id f) kvs) k = map_option f (map_of kvs k)"
  by (induction kvs) auto

lemma canon_obj_lookup:
  assumes "canon (JObj a) = canon (JObj b)"
  shows "map_option canon (map_of a k) = map_option canon (map_of b k)"
proof -
  have "map_of (sort_key fst (map (map_prod id canon) a)) k =
    map_of (sort_key fst (map (map_prod id canon) b)) k"
    using assms by simp
  then show ?thesis by (simp only: map_of_sort_key map_of_map_prod)
qed

lemma canon_obj_perm:
  assumes "distinct (map fst a)" and "mset a = mset b"
  shows "canon (JObj a) = canon (JObj b)"
proof -
  have "mset (map (map_prod id canon) a) = mset (map (map_prod id canon) b)"
    using assms(2) by simp
  moreover have "inj_on fst (set (map (map_prod id canon) a))"
    using assms(1) by (auto simp: distinct_map inj_on_def)
  ultimately have "sort_key fst (map (map_prod id canon) a) = sort_key fst (map (map_prod id canon) b)"
    by (rule sort_key_mset_cong)
  then show ?thesis by simp
qed

lemma canon_simps_inv [simp]:
  "canon j = JNull \<longleftrightarrow> j = JNull"
  "canon j = JBool b \<longleftrightarrow> j = JBool b"
  "canon j = JInt i \<longleftrightarrow> j = JInt i"
  "canon j = JFloat q \<longleftrightarrow> j = JFloat q"
  "canon j = JStr s \<longleftrightarrow> j = JStr s"
  by (cases j; auto)+

lemma canon_JArr_eq: "canon (JArr xs) = canon (JArr ys) \<longleftrightarrow> map canon xs = map canon ys"
  by simp

subsection \<open>Rendering\<close>

definition hex_digit :: "nat \<Rightarrow> char" where
  "hex_digit n = (if n < 10 then char_of (48 + n) else char_of (87 + n))"

lemma is_hex_hex_digit: "n < 16 \<Longrightarrow> is_hex (hex_digit n)"
  by (auto simp: is_hex_def is_digit_def hex_digit_def ord_char_of)

text \<open>Escapes of \<open>json.dumps\<close>; with \<open>ensure_ascii\<close> every character above \<open>~\<close> is escaped too.\<close>

definition escape_char :: "bool \<Rightarrow> char \<Rightarrow> string" where
  "escape_char ensure_ascii c =
     (if c = CHR 0x22 then [CHR 0x5C, CHR 0x22]
      else if c = CHR 0x5C then [CHR 0x5C, CHR 0x5C]
      else if ord c = 10 then [CHR 0x5C, CHR ''n'']
      else if ord c = 13 then [CHR 0x5C, CHR ''r'']
      else if ord c = 9 then [CHR 0x5C, CHR ''t'']
      else if ord c = 12 then [CHR 0x5C, CHR ''f'']
      else if ord c = 8 then [CHR 0x5C, CHR ''b'']
      else if ord c < 32 \<or> (ensure_ascii \<and> 126 < ord c)
      then [CHR 0x5C, CHR ''u'', CHR ''0'', CHR ''0'', hex_digit (ord c div 16), hex_digit (ord c mod 16)]
      else [c])"

definition render_string :: "bool \<Rightarrow> string \<Rightarrow> string" where
  "render_string ensure_ascii s = CHR 0x22 # concat (map (escape_char ensure_ascii) s) @ [CHR 0x22]"

primrec render :: "(rat \<Rightarrow> string) \<Rightarrow> bool \<Rightarrow> json \<Rightarrow> string" where
  "render fl ea JNull = ''null''"
| "render fl ea (JBool b) = (if b then ''true'' else ''false'')"
| "render fl ea (JInt i) = show_int i"
| "render fl ea (JFloat q) = fl q"
| "render fl ea (JStr s) = render_string ea s"
| "render fl ea (JArr js) = ''['' @ join '','' (map (render fl ea) js) @ '']''"
| "render fl ea (JObj kvs) =
     ''{'' @ join '','' (map (\<lambda>kv. render_string ea (fst kv) @ '':'' @ snd kv)
                      (map (map_prod id (render fl ea)) kvs)) @ ''}''"

text \<open>\<open>json.dumps(payload, sort_keys=True, separators=(",", ":"), ensure_ascii=ea)\<close>.\<close>

definition dumps :: "runtime \<Rightarrow> bool \<Rightarrow> json \<Rightarrow> string" where
  "dumps rt ea j = render (rt_float rt) ea (canon j)"

definition canonical_json_bytes :: "runtime \<Rightarrow> json \<Rightarrow> string" where
  "canonical_json_bytes rt j = dumps rt False j"

text \<open>\<open>_sha256_json\<close> and \<open>_canonical_hash\<close> of the contract modules (ASCII-escaped text).\<close>

definition sha256_json :: "runtime \<Rightarrow> json \<Rightarrow> string" where
  "sha256_json rt j = rt_sha256 rt (dumps rt True j)"

text \<open>\<open>_canonical_hash\<close> of the receipt modules (\<open>ensure_ascii=False\<close>).\<close>

definition receipt_hash :: "runtime \<Rightarrow> json \<Rightarrow> string" where
  "receipt_hash rt j = rt_sha256 rt (canonical_json_bytes rt j)"

lemma dumps_canon_eq: "canon a = canon b \<Longrightarrow> dumps rt ea a = dumps rt ea b"
  by (simp add: dumps_def)

subsection \<open>Canonical text determines the document\<close>

text \<open>
  What \<open>float.__repr__\<close> guarantees for the finite floats the contracts hold: different floats
  have different texts, made of digits, signs, a point and \<open>e\<close>, and a point or an \<open>e\<close> tells
  them from an integer.
\<close>

definition is_num_char :: "char \<Rightarrow> bool" where
  "is_num_char c \<longleftrightarrow> is_digit c \<or> c \<in> set ''-+.e''"

definition float_text_ok :: "(rat \<Rightarrow> string) \<Rightarrow> bool" where
  "float_text_ok fl \<longleftrightarrow> inj fl \<and>
     (\<forall>q. fl q \<noteq> [] \<and> list_all is_num_char (fl q) \<and>
          (CHR ''.'' \<in> set (fl q) \<or> CHR ''e'' \<in> set (fl q)) \<and>
          (is_digit (hd (fl q)) \<or> hd (fl q) = CHR ''-''))"

definition hex_value :: "char \<Rightarrow> nat" where
  "hex_value h = (if ord h < 58 then ord h - 48 else ord h - 87)"

text \<open>A decoder of one escaped character, to show that escapes form a prefix code.\<close>

definition unescape :: "string \<Rightarrow> (char \<times> string) option" where
  "unescape s =
     (case s of [] \<Rightarrow> None | c # r \<Rightarrow>
       if c \<noteq> CHR 0x5C then Some (c, r)
       else case r of [] \<Rightarrow> None | e # r' \<Rightarrow>
         if e = CHR ''u'' then Some (char_of (16 * hex_value (r' ! 2) + hex_value (r' ! 3)), drop 4 r')
         else if e = CHR ''n'' then Some (char_of (10::nat), r')
         else if e = CHR ''r'' then Some (char_of (13::nat), r')
         else if e = CHR ''t'' then Some (char_of (9::nat), r')
         else if e = CHR ''f'' then Some (char_of (12::nat), r')
         else if e = CHR ''b'' then Some (char_of (8::nat), r')
         else Some (e, r'))"

lemma hex_value_digit: "n < 16 \<Longrightarrow> hex_value (hex_digit n) = n"
  by (simp add: hex_value_def hex_digit_def ord_char_of)

lemma ord_div_16: "ord c div 16 < 16"
  using ord_lt_256 [of c] by linarith

lemma char_of_hex: "(char_of (16 * (ord c div 16) + ord c mod 16) :: char) = c"
  by (simp add: mult_div_mod_eq)

lemma ord_cases_char: "ord c = n \<Longrightarrow> char_of n = c"
  by auto

lemma unescape_plain: "c \<noteq> CHR 0x5C \<Longrightarrow> unescape (c # r) = Some (c, r)"
  by (simp add: unescape_def)

lemma unescape_letter:
  "unescape (CHR 0x5C # CHR 0x22 # r) = Some (CHR 0x22, r)"
  "unescape (CHR 0x5C # CHR 0x5C # r) = Some (CHR 0x5C, r)"
  "unescape (CHR 0x5C # CHR ''n'' # r) = Some (char_of (10::nat), r)"
  "unescape (CHR 0x5C # CHR ''r'' # r) = Some (char_of (13::nat), r)"
  "unescape (CHR 0x5C # CHR ''t'' # r) = Some (char_of (9::nat), r)"
  "unescape (CHR 0x5C # CHR ''f'' # r) = Some (char_of (12::nat), r)"
  "unescape (CHR 0x5C # CHR ''b'' # r) = Some (char_of (8::nat), r)"
  "unescape (CHR 0x5C # CHR ''u'' # a # b # h # l # r) = Some (char_of (16 * hex_value h + hex_value l), r)"
  by (simp_all add: unescape_def)

lemma unescape_escape: "unescape (escape_char ea c @ r) = Some (c, r)"
proof -
  have "ord c mod 16 < 16" by simp
  then have hex: "char_of (16 * hex_value (hex_digit (ord c div 16)) + hex_value (hex_digit (ord c mod 16))) = c"
    by (simp only: hex_value_digit ord_div_16 char_of_hex)
  consider (quote) "c = CHR 0x22 \<or> c = CHR 0x5C"
    | (ctl) n where "c \<noteq> CHR 0x22" "c \<noteq> CHR 0x5C" "ord c = n" "n \<in> {8, 9, 10, 12, 13}"
    | (other) "c \<noteq> CHR 0x22" "c \<noteq> CHR 0x5C" "ord c \<notin> {8, 9, 10, 12, 13}"
    by blast
  then show ?thesis
  proof cases
    case quote
    then show ?thesis by (auto simp: escape_char_def unescape_letter)
  next
    case ctl
    have "char_of n = c" unfolding \<open>ord c = n\<close> [symmetric] by (rule char_of_ord)
    with ctl show ?thesis by (auto simp: escape_char_def unescape_letter)
  next
    case other
    then show ?thesis by (simp add: escape_char_def unescape_letter unescape_plain hex)
  qed
qed

lemma escape_prefix: "escape_char ea c @ r = escape_char ea d @ s \<Longrightarrow> c = d \<and> r = s"
  by (metis unescape_escape option.inject prod.inject)

lemma escape_hd: "escape_char ea c \<noteq> [] \<and> hd (escape_char ea c) \<noteq> CHR 0x22"
  by (auto simp: escape_char_def)

lemma escaped_text_inj:
  "concat (map (escape_char ea) s) @ CHR 0x22 # r = concat (map (escape_char ea) t) @ CHR 0x22 # u
   \<Longrightarrow> s = t \<and> r = u"
proof (induction s arbitrary: t)
  case Nil
  then show ?case using escape_hd [of ea] by (cases t) (auto, metis hd_append2 list.sel(1))
next
  case (Cons c s)
  show ?case
  proof (cases t)
    case Nil
    with Cons.prems show ?thesis using escape_hd [of ea] by (auto, metis hd_append2 list.sel(1))
  next
    case (Cons d t')
    with Cons.prems have eq: "escape_char ea c @ (concat (map (escape_char ea) s) @ CHR 0x22 # r) =
      escape_char ea d @ (concat (map (escape_char ea) t') @ CHR 0x22 # u)" by simp
    then have "c = d" and "concat (map (escape_char ea) s) @ CHR 0x22 # r =
      concat (map (escape_char ea) t') @ CHR 0x22 # u"
      by (blast dest: escape_prefix)+
    with Cons.IH Cons show ?thesis by blast
  qed
qed

lemma render_string_inj: "render_string ea s @ r = render_string ea t @ u \<Longrightarrow> s = t \<and> r = u"
  by (auto simp: render_string_def dest: escaped_text_inj)

definition delim :: "string \<Rightarrow> bool" where
  "delim r \<longleftrightarrow> r = [] \<or> hd r \<in> {CHR '','', CHR '']'', CHR ''}''}"

lemma delim_not_num: "delim r \<Longrightarrow> r = [] \<or> \<not> is_num_char (hd r)"
  by (auto simp: delim_def is_num_char_def is_digit_def ord_def)

lemma num_token_inj:
  assumes "list_all is_num_char s" and "list_all is_num_char t" and "delim r" and "delim u"
    and "s @ r = t @ u"
  shows "s = t \<and> r = u"
proof -
  have token: "takeWhile is_num_char (v @ w) = v" if "list_all is_num_char v" "delim w" for v w
    using that delim_not_num [of w] by (cases w) (auto simp: takeWhile_append2 list_all_iff)
  have "s = t" using assms token by metis
  with assms(5) show ?thesis by simp
qed

lemma show_int_num: "list_all is_num_char (show_int i)"
  using show_int_chars [of i] by (auto simp: list_all_iff is_num_char_def)

lemma show_int_no_point: "CHR ''.'' \<notin> set (show_int i) \<and> CHR ''e'' \<notin> set (show_int i)"
  using show_int_chars [of i] by (auto simp: list_all_iff is_digit_def ord_def)

text \<open>The first character of a text tells which kind of value it is.\<close>

fun json_kind :: "json \<Rightarrow> nat" where
  "json_kind JNull = 0"
| "json_kind (JBool _) = 1"
| "json_kind (JInt _) = 2"
| "json_kind (JFloat _) = 2"
| "json_kind (JStr _) = 3"
| "json_kind (JArr _) = 4"
| "json_kind (JObj _) = 5"

definition char_kind :: "char \<Rightarrow> nat" where
  "char_kind c =
     (if c = CHR ''n'' then 0 else if c = CHR ''t'' \<or> c = CHR ''f'' then 1
      else if is_digit c \<or> c = CHR ''-'' then 2 else if c = CHR 0x22 then 3
      else if c = CHR ''['' then 4 else if c = CHR ''{'' then 5 else 6)"

lemma show_int_hd: "is_digit (hd (show_int i)) \<or> hd (show_int i) = CHR ''-''"
  using hd_show_nat by (simp add: show_int_def)

lemma is_digit_literals [simp]:
  "\<not> is_digit (CHR ''n'')" "\<not> is_digit (CHR ''t'')" "\<not> is_digit (CHR ''f'')"
  "\<not> is_digit (CHR 0x22)" "\<not> is_digit (CHR ''['')" "\<not> is_digit (CHR ''{'')"
  "\<not> is_digit (CHR '']'')" "\<not> is_digit (CHR ''}'')"
  by (simp_all add: is_digit_def ord_def)

lemma char_kind_num: "is_digit c \<or> c = CHR ''-'' \<Longrightarrow> char_kind c = 2"
  by (auto simp: char_kind_def)

lemma render_kind:
  assumes "float_text_ok fl"
  shows "render fl ea j \<noteq> [] \<and> char_kind (hd (render fl ea j)) = json_kind j"
  using assms show_int_hd
  by (cases j) (auto simp: float_text_ok_def render_string_def intro: char_kind_num,
      auto simp: char_kind_def)

lemma join_comma_inj:
  assumes R: "\<And>x y s t. x \<in> set xs \<Longrightarrow> delim s \<Longrightarrow> delim t \<Longrightarrow> R x @ s = R y @ t \<Longrightarrow> x = y \<and> s = t"
    and hd: "\<And>x. R x \<noteq> [] \<and> hd (R x) \<noteq> cl"
    and cl: "cl = CHR '']'' \<or> cl = CHR ''}''"
    and eq: "join '','' (map R xs) @ cl # s = join '','' (map R ys) @ cl # t"
  shows "xs = ys \<and> s = t"
proof -
  let ?rest = "\<lambda>zs u. (if zs = [] then cl # u else CHR '','' # join '','' (map R zs) @ cl # u)"
  have split: "join '','' (map R (z # zs)) @ cl # u = R z @ ?rest zs u" for z zs u
    by (cases zs) auto
  have dl: "delim (?rest zs u)" for zs u using cl by (auto simp: delim_def)
  have first: "hd (join '','' (map R (z # zs)) @ cl # u) \<noteq> cl" for z zs u
    using hd [of z] unfolding split by simp
  show ?thesis using R eq
  proof (induction xs arbitrary: ys)
    case Nil
    show ?case
    proof (cases ys)
      case Nil
      with Nil.prems(2) show ?thesis by simp
    next
      case (Cons y zs)
      then have "cl # s = join '','' (map R (y # zs)) @ cl # t" using Nil.prems(2) by simp
      then have "hd (join '','' (map R (y # zs)) @ cl # t) = cl" by (metis list.sel(1))
      with first show ?thesis by blast
    qed
  next
    case (Cons x xs)
    show ?case
    proof (cases ys)
      case Nil
      with Cons.prems(2) first [of x xs s] show ?thesis by simp
    next
      case ys: (Cons y zs)
      have "R x @ ?rest xs s = R y @ ?rest zs t"
        using Cons.prems(2) unfolding ys split .
      then have both: "x = y \<and> ?rest xs s = ?rest zs t"
        by (intro Cons.prems(1) [OF list.set_intros(1) dl dl])
      then have xy: "x = y" and rest: "?rest xs s = ?rest zs t" by (rule conjunct1) (rule conjunct2 [OF both])
      show ?thesis
      proof (cases "xs = [] \<or> zs = []")
        case True
        with rest cl xy ys show ?thesis by (auto split: if_splits)
      next
        case False
        with rest have "join '','' (map R xs) @ cl # s = join '','' (map R zs) @ cl # t" by simp
        then have "xs = zs \<and> s = t" using Cons.IH Cons.prems(1) by (meson list.set_intros(2))
        with xy ys show ?thesis by simp
      qed
    qed
  qed
qed

lemma render_prefix_inj:
  assumes fl: "float_text_ok fl"
  shows "delim r \<Longrightarrow> delim s \<Longrightarrow> render fl ea j @ r = render fl ea k @ s \<Longrightarrow> j = k \<and> r = s"
proof (induction j arbitrary: k r s)
  case (JArr js)
  then have "json_kind k = 4" using render_kind [OF fl] by (metis hd_append2 json_kind.simps(6))
  then obtain ks where k: "k = JArr ks" by (cases k) auto
  have "js = ks \<and> r = s"
  proof (rule join_comma_inj [where R = "render fl ea" and cl = "CHR '']''"])
    show "render fl ea x \<noteq> [] \<and> hd (render fl ea x) \<noteq> CHR '']''" for x
      using render_kind [OF fl, of ea x] by (cases x) (auto simp: char_kind_def)
    show "join '','' (map (render fl ea) js) @ CHR '']'' # r = join '','' (map (render fl ea) ks) @ CHR '']'' # s"
      using JArr.prems k by simp
  qed (use JArr.IH in auto)
  with k show ?case by simp
next
  case (JObj kvs)
  then have "json_kind k = 5" using render_kind [OF fl] by (metis hd_append2 json_kind.simps(7))
  then obtain lws where k: "k = JObj lws" by (cases k) auto
  let ?R = "\<lambda>kv. render_string ea (fst kv) @ '':'' @ render fl ea (snd kv)"
  have R: "(\<lambda>kv. render_string ea (fst kv) @ '':'' @ snd kv) \<circ> map_prod id (render fl ea) = ?R"
    by (simp add: fun_eq_iff)
  have "kvs = lws \<and> r = s"
  proof (rule join_comma_inj [where R = ?R and cl = "CHR ''}''"])
    fix x y u v
    assume x: "x \<in> set kvs" and d: "delim u" "delim v" and eq: "?R x @ u = ?R y @ v"
    from eq have "fst x = fst y" and "render fl ea (snd x) @ u = render fl ea (snd y) @ v"
      by (auto dest!: render_string_inj)
    with JObj.IH [of x "snd x"] x d show "x = y \<and> u = v"
      by (cases x, cases y) (auto simp: snds.simps)
  qed (use JObj.prems k R in \<open>auto simp: render_string_def\<close>)
  with k show ?case by simp
next
  case (JStr t)
  then have "json_kind k = 3" using render_kind [OF fl] by (metis hd_append2 json_kind.simps(5))
  then show ?case using JStr.prems by (cases k) (auto dest: render_string_inj)
next
  case (JInt i)
  then have "json_kind k = 2" using render_kind [OF fl] by (metis hd_append2 json_kind.simps(3))
  then show ?case using JInt.prems fl show_int_no_point [of i]
    by (cases k) (auto simp: show_int_inj float_text_ok_def show_int_num dest!: num_token_inj [rotated 4])
next
  case (JFloat q)
  then have "json_kind k = 2" using render_kind [OF fl] by (metis hd_append2 json_kind.simps(4))
  then show ?case using JFloat.prems fl show_int_no_point
    by (cases k) (auto simp: float_text_ok_def show_int_num dest!: num_token_inj [rotated 4] dest: injD, metis+)
next
  case JNull
  then have "json_kind k = 0" using render_kind [OF fl] by (metis hd_append2 json_kind.simps(1))
  then show ?case using JNull.prems by (cases k) auto
next
  case (JBool b)
  then have "json_kind k = 1" using render_kind [OF fl] by (metis hd_append2 json_kind.simps(2))
  then show ?case using JBool.prems by (cases k) (auto split: if_splits)
qed

lemma canonical_text_inj:
  assumes "float_text_ok (rt_float rt)" and "dumps rt ea a = dumps rt ea b"
  shows "canon a = canon b"
  using render_prefix_inj [OF assms(1), of "[]" "[]" ea "canon a" "canon b"] assms(2)
  by (simp add: dumps_def delim_def)

lemma dumps_eq_iff:
  "float_text_ok (rt_float rt) \<Longrightarrow> dumps rt ea a = dumps rt ea b \<longleftrightarrow> canon a = canon b"
  using canonical_text_inj dumps_canon_eq by blast

text \<open>
  A concrete float text, for witnesses: numerator and denominator around a point.
\<close>

definition ratio_text :: "rat \<Rightarrow> string" where
  "ratio_text q = (case quotient_of q of (n, d) \<Rightarrow> show_int n @ ''.'' @ show_int d)"

lemma ratio_text_ok: "float_text_ok ratio_text"
proof -
  have "inj ratio_text"
  proof (rule injI)
    fix p q
    assume eq: "ratio_text p = ratio_text q"
    obtain n d where p: "quotient_of p = (n, d)" by (cases "quotient_of p")
    obtain m e where q: "quotient_of q = (m, e)" by (cases "quotient_of q")
    have tw: "takeWhile (\<lambda>c. c \<noteq> CHR ''.'') (show_int i @ CHR ''.'' # u) = show_int i" for i u
      using show_int_no_point [of i] by (subst takeWhile_append2) auto
    from eq p q have e: "show_int n @ CHR ''.'' # show_int d = show_int m @ CHR ''.'' # show_int e"
      by (simp add: ratio_text_def)
    then have "show_int n = show_int m" using tw by metis
    with e have "n = m" "d = e" by (simp_all add: show_int_inj)
    with p q show "p = q" by (metis quotient_of_inject)
  qed
  moreover have "ratio_text q \<noteq> [] \<and> list_all is_num_char (ratio_text q) \<and>
      CHR ''.'' \<in> set (ratio_text q) \<and>
      (is_digit (hd (ratio_text q)) \<or> hd (ratio_text q) = CHR ''-'')" for q
    using show_int_num show_int_hd
    by (auto simp: ratio_text_def list_all_iff is_num_char_def split: prod.splits)
  ultimately show ?thesis by (simp add: float_text_ok_def)
qed

end
