(* ===== verification/Contract_Types.thy ===== *)
theory Contract_Types
  imports Json
begin

section \<open>Data of the assessment contracts\<close>

text \<open>
  The enumerations and the frozen models of \<open>rightsgate/contracts.py\<close>: an \<open>Enum\<close> is a
  datatype with its \<open>.value\<close> function, a model is a record with the model's fields in order
  (prefixed, since record fields share one name space). Confidences and coordinates are
  rationals. \<open>extra="forbid"\<close> and the coercions of the JSON front end concern raw dictionaries
  and are not modelled: a record has exactly the declared fields at the declared types.
\<close>

subsection \<open>Enumerations\<close>

datatype media_kind = Media_IMAGE | Media_VIDEO | Media_AUDIO | Media_DOCUMENT

primrec media_kind_value :: "media_kind \<Rightarrow> string" where
  "media_kind_value Media_IMAGE = ''IMAGE''"
| "media_kind_value Media_VIDEO = ''VIDEO''"
| "media_kind_value Media_AUDIO = ''AUDIO''"
| "media_kind_value Media_DOCUMENT = ''DOCUMENT''"

datatype claim_dimension = Dim_PROVENANCE | Dim_RIGHTS_EXPOSURE | Dim_DEPLOYMENT_READINESS

primrec claim_dimension_value :: "claim_dimension \<Rightarrow> string" where
  "claim_dimension_value Dim_PROVENANCE = ''PROVENANCE''"
| "claim_dimension_value Dim_RIGHTS_EXPOSURE = ''RIGHTS_EXPOSURE''"
| "claim_dimension_value Dim_DEPLOYMENT_READINESS = ''DEPLOYMENT_READINESS''"

datatype claim_outcome = Outcome_SUPPORTED | Outcome_CONTRADICTED | Outcome_UNKNOWN | Outcome_NOT_ASSESSED

primrec claim_outcome_value :: "claim_outcome \<Rightarrow> string" where
  "claim_outcome_value Outcome_SUPPORTED = ''SUPPORTED''"
| "claim_outcome_value Outcome_CONTRADICTED = ''CONTRADICTED''"
| "claim_outcome_value Outcome_UNKNOWN = ''UNKNOWN''"
| "claim_outcome_value Outcome_NOT_ASSESSED = ''NOT_ASSESSED''"

datatype assessment_state = State_COMPLETE | State_PARTIAL | State_UNAVAILABLE

primrec assessment_state_value :: "assessment_state \<Rightarrow> string" where
  "assessment_state_value State_COMPLETE = ''COMPLETE''"
| "assessment_state_value State_PARTIAL = ''PARTIAL''"
| "assessment_state_value State_UNAVAILABLE = ''UNAVAILABLE''"

datatype component_state = Comp_AVAILABLE | Comp_DEGRADED | Comp_UNAVAILABLE

primrec component_state_value :: "component_state \<Rightarrow> string" where
  "component_state_value Comp_AVAILABLE = ''AVAILABLE''"
| "component_state_value Comp_DEGRADED = ''DEGRADED''"
| "component_state_value Comp_UNAVAILABLE = ''UNAVAILABLE''"

datatype evidence_kind =
    Ev_CONTENT_CREDENTIAL | Ev_METADATA | Ev_WATERMARK | Ev_FORENSIC_SIGNAL | Ev_REFERENCE_MATCH
  | Ev_LICENCE_RECORD | Ev_CONSENT_RECORD | Ev_POLICY_RULE | Ev_HUMAN_REVIEW | Ev_COMPONENT_FAILURE

primrec evidence_kind_value :: "evidence_kind \<Rightarrow> string" where
  "evidence_kind_value Ev_CONTENT_CREDENTIAL = ''CONTENT_CREDENTIAL''"
| "evidence_kind_value Ev_METADATA = ''METADATA''"
| "evidence_kind_value Ev_WATERMARK = ''WATERMARK''"
| "evidence_kind_value Ev_FORENSIC_SIGNAL = ''FORENSIC_SIGNAL''"
| "evidence_kind_value Ev_REFERENCE_MATCH = ''REFERENCE_MATCH''"
| "evidence_kind_value Ev_LICENCE_RECORD = ''LICENCE_RECORD''"
| "evidence_kind_value Ev_CONSENT_RECORD = ''CONSENT_RECORD''"
| "evidence_kind_value Ev_POLICY_RULE = ''POLICY_RULE''"
| "evidence_kind_value Ev_HUMAN_REVIEW = ''HUMAN_REVIEW''"
| "evidence_kind_value Ev_COMPONENT_FAILURE = ''COMPONENT_FAILURE''"

datatype evidence_polarity = Pol_SUPPORTS | Pol_CONTRADICTS | Pol_NEUTRAL

primrec evidence_polarity_value :: "evidence_polarity \<Rightarrow> string" where
  "evidence_polarity_value Pol_SUPPORTS = ''SUPPORTS''"
| "evidence_polarity_value Pol_CONTRADICTS = ''CONTRADICTS''"
| "evidence_polarity_value Pol_NEUTRAL = ''NEUTRAL''"

datatype locator_kind = Loc_WHOLE_ASSET | Loc_REGION | Loc_TIME_RANGE | Loc_TEXT_RANGE | Loc_METADATA_PATH

primrec locator_kind_value :: "locator_kind \<Rightarrow> string" where
  "locator_kind_value Loc_WHOLE_ASSET = ''WHOLE_ASSET''"
| "locator_kind_value Loc_REGION = ''REGION''"
| "locator_kind_value Loc_TIME_RANGE = ''TIME_RANGE''"
| "locator_kind_value Loc_TEXT_RANGE = ''TEXT_RANGE''"
| "locator_kind_value Loc_METADATA_PATH = ''METADATA_PATH''"

datatype provenance_verdict =
    Prov_AUTHENTIC | Prov_AI_GENERATED | Prov_PARTIALLY_GENERATED | Prov_TAMPERED | Prov_UNKNOWN

primrec provenance_verdict_value :: "provenance_verdict \<Rightarrow> string" where
  "provenance_verdict_value Prov_AUTHENTIC = ''AUTHENTIC''"
| "provenance_verdict_value Prov_AI_GENERATED = ''AI_GENERATED''"
| "provenance_verdict_value Prov_PARTIALLY_GENERATED = ''PARTIALLY_GENERATED''"
| "provenance_verdict_value Prov_TAMPERED = ''TAMPERED''"
| "provenance_verdict_value Prov_UNKNOWN = ''UNKNOWN''"

datatype rights_verdict = Rights_CLEAR | Rights_POTENTIAL_EXPOSURE | Rights_POLICY_CONFLICT | Rights_UNKNOWN

primrec rights_verdict_value :: "rights_verdict \<Rightarrow> string" where
  "rights_verdict_value Rights_CLEAR = ''CLEAR''"
| "rights_verdict_value Rights_POTENTIAL_EXPOSURE = ''POTENTIAL_EXPOSURE''"
| "rights_verdict_value Rights_POLICY_CONFLICT = ''POLICY_CONFLICT''"
| "rights_verdict_value Rights_UNKNOWN = ''UNKNOWN''"

datatype deployment_decision = Decision_GO | Decision_REVIEW | Decision_BLOCK

primrec deployment_decision_value :: "deployment_decision \<Rightarrow> string" where
  "deployment_decision_value Decision_GO = ''GO''"
| "deployment_decision_value Decision_REVIEW = ''REVIEW''"
| "deployment_decision_value Decision_BLOCK = ''BLOCK''"

datatype representation_kind =
    Repr_ORIGINAL | Repr_VISUAL_FRAME | Repr_AUDIO_TRACK | Repr_TEXT_TRACK | Repr_THUMBNAIL

primrec representation_kind_value :: "representation_kind \<Rightarrow> string" where
  "representation_kind_value Repr_ORIGINAL = ''ORIGINAL''"
| "representation_kind_value Repr_VISUAL_FRAME = ''VISUAL_FRAME''"
| "representation_kind_value Repr_AUDIO_TRACK = ''AUDIO_TRACK''"
| "representation_kind_value Repr_TEXT_TRACK = ''TEXT_TRACK''"
| "representation_kind_value Repr_THUMBNAIL = ''THUMBNAIL''"

datatype graph_node_kind =
    Node_ASSET | Node_WORK | Node_MARK | Node_PERSON | Node_VOICE | Node_LICENCE | Node_CONSENT
  | Node_TRANSFORMATION | Node_TERRITORY | Node_CAMPAIGN

primrec graph_node_kind_value :: "graph_node_kind \<Rightarrow> string" where
  "graph_node_kind_value Node_ASSET = ''ASSET''"
| "graph_node_kind_value Node_WORK = ''WORK''"
| "graph_node_kind_value Node_MARK = ''MARK''"
| "graph_node_kind_value Node_PERSON = ''PERSON''"
| "graph_node_kind_value Node_VOICE = ''VOICE''"
| "graph_node_kind_value Node_LICENCE = ''LICENCE''"
| "graph_node_kind_value Node_CONSENT = ''CONSENT''"
| "graph_node_kind_value Node_TRANSFORMATION = ''TRANSFORMATION''"
| "graph_node_kind_value Node_TERRITORY = ''TERRITORY''"
| "graph_node_kind_value Node_CAMPAIGN = ''CAMPAIGN''"

datatype graph_edge_kind =
    Edge_DERIVED_FROM | Edge_CANDIDATE_MATCH | Edge_DEPICTS | Edge_CONTAINS_VOICE | Edge_CONTAINS_MARK
  | Edge_COVERED_BY | Edge_CONSENTED_BY | Edge_VALID_IN | Edge_USED_BY

primrec graph_edge_kind_value :: "graph_edge_kind \<Rightarrow> string" where
  "graph_edge_kind_value Edge_DERIVED_FROM = ''DERIVED_FROM''"
| "graph_edge_kind_value Edge_CANDIDATE_MATCH = ''CANDIDATE_MATCH''"
| "graph_edge_kind_value Edge_DEPICTS = ''DEPICTS''"
| "graph_edge_kind_value Edge_CONTAINS_VOICE = ''CONTAINS_VOICE''"
| "graph_edge_kind_value Edge_CONTAINS_MARK = ''CONTAINS_MARK''"
| "graph_edge_kind_value Edge_COVERED_BY = ''COVERED_BY''"
| "graph_edge_kind_value Edge_CONSENTED_BY = ''CONSENTED_BY''"
| "graph_edge_kind_value Edge_VALID_IN = ''VALID_IN''"
| "graph_edge_kind_value Edge_USED_BY = ''USED_BY''"

text \<open>Enumeration members are hashed and sorted by their value, so the value must tell them apart.\<close>

lemma media_kind_value_inj [simp]: "media_kind_value a = media_kind_value b \<longleftrightarrow> a = b"
  by (cases a; cases b; simp)

lemma claim_dimension_value_inj [simp]: "claim_dimension_value a = claim_dimension_value b \<longleftrightarrow> a = b"
  by (cases a; cases b; simp)

lemma claim_outcome_value_inj [simp]: "claim_outcome_value a = claim_outcome_value b \<longleftrightarrow> a = b"
  by (cases a; cases b; simp)

lemma assessment_state_value_inj [simp]: "assessment_state_value a = assessment_state_value b \<longleftrightarrow> a = b"
  by (cases a; cases b; simp)

lemma component_state_value_inj [simp]: "component_state_value a = component_state_value b \<longleftrightarrow> a = b"
  by (cases a; cases b; simp)

lemma evidence_polarity_value_inj [simp]: "evidence_polarity_value a = evidence_polarity_value b \<longleftrightarrow> a = b"
  by (cases a; cases b; simp)

lemma locator_kind_value_inj [simp]: "locator_kind_value a = locator_kind_value b \<longleftrightarrow> a = b"
  by (cases a; cases b; simp)

lemma provenance_verdict_value_inj [simp]: "provenance_verdict_value a = provenance_verdict_value b \<longleftrightarrow> a = b"
  by (cases a; cases b; simp)

lemma rights_verdict_value_inj [simp]: "rights_verdict_value a = rights_verdict_value b \<longleftrightarrow> a = b"
  by (cases a; cases b; simp)

lemma deployment_decision_value_inj [simp]: "deployment_decision_value a = deployment_decision_value b \<longleftrightarrow> a = b"
  by (cases a; cases b; simp)

lemma representation_kind_value_inj [simp]: "representation_kind_value a = representation_kind_value b \<longleftrightarrow> a = b"
  by (cases a; cases b; simp)

lemma evidence_kind_value_inj [simp]: "evidence_kind_value a = evidence_kind_value b \<longleftrightarrow> a = b"
  by (cases a; cases b; simp)

lemma graph_node_kind_value_inj [simp]: "graph_node_kind_value a = graph_node_kind_value b \<longleftrightarrow> a = b"
  by (cases a; cases b; simp)

lemma graph_edge_kind_value_inj [simp]: "graph_edge_kind_value a = graph_edge_kind_value b \<longleftrightarrow> a = b"
  by (cases a; cases b; simp)

subsection \<open>Models\<close>

text \<open>\<open>str | int | float | bool | None\<close>, the values of an \<open>attributes\<close> dictionary.\<close>

datatype attr = AStr string | AInt int | AFloat rat | ABool bool | ANone

type_synonym attributes = "(string \<times> attr) list"

record evidence_locator =
  loc_kind :: locator_kind
  loc_page_index :: "int option"
  loc_frame_index :: "int option"
  loc_bbox :: "(rat \<times> rat \<times> rat \<times> rat) option"
  loc_start_seconds :: "rat option"
  loc_end_seconds :: "rat option"
  loc_text_start :: "int option"
  loc_text_end :: "int option"
  loc_metadata_path :: "string option"

text \<open>\<open>EvidenceLocator(kind=LocatorKind.WHOLE_ASSET)\<close> and its region form, with the defaults.\<close>

definition whole_asset :: evidence_locator where
  "whole_asset = \<lparr>loc_kind = Loc_WHOLE_ASSET, loc_page_index = None, loc_frame_index = None,
     loc_bbox = None, loc_start_seconds = None, loc_end_seconds = None, loc_text_start = None,
     loc_text_end = None, loc_metadata_path = None\<rparr>"

definition region_locator :: "rat \<times> rat \<times> rat \<times> rat \<Rightarrow> evidence_locator" where
  "region_locator bbox = whole_asset\<lparr>loc_kind := Loc_REGION, loc_bbox := Some bbox\<rparr>"

record evidence_pointer =
  ev_evidence_id :: string
  ev_asset_sha256 :: string
  ev_kind :: evidence_kind
  ev_source :: string
  ev_component_id :: string
  ev_component_version :: string
  ev_polarity :: evidence_polarity
  ev_confidence :: rat
  ev_locator :: evidence_locator
  ev_summary :: string
  ev_payload_sha256 :: "string option"
  ev_attributes :: attributes

record asset_representation =
  ar_representation_id :: string
  ar_kind :: representation_kind
  ar_sha256 :: string
  ar_media_type :: string
  ar_size_bytes :: int
  ar_locator :: evidence_locator
  ar_component_id :: "string option"
  ar_component_version :: "string option"

record claim_record =
  cl_claim_id :: string
  cl_dimension :: claim_dimension
  cl_claim_type :: string
  cl_statement :: string
  cl_outcome :: claim_outcome
  cl_confidence :: rat
  cl_mandatory :: bool
  cl_evidence_ids :: "string list"
  cl_limitations :: "string list"

record component_record =
  co_component_id :: string
  co_component_version :: string
  co_component_type :: string
  co_state :: component_state
  co_mandatory :: bool
  co_artifact_sha256 :: "string option"
  co_reason :: "string option"

record asset_descriptor =
  ad_asset_id :: string
  ad_sha256 :: string
  ad_media_kind :: media_kind
  ad_media_type :: string
  ad_size_bytes :: int
  ad_original_filename :: string
  ad_duration_seconds :: "rat option"
  ad_width :: "int option"
  ad_height :: "int option"

record assessment_context =
  cx_policy_id :: string
  cx_policy_version :: string
  cx_intended_use :: string
  cx_channel :: string
  cx_audience :: string
  cx_territories :: "string list"
  cx_brand_profile :: "string option"

record asset_ir =
  ir_asset :: asset_descriptor
  ir_representations :: "asset_representation list"

record assessment_request =
  rq_idempotency_key :: string
  rq_asset_ir :: asset_ir
  rq_context :: assessment_context
  rq_requested_dimensions :: "claim_dimension list"

record graph_node =
  gn_node_id :: string
  gn_kind :: graph_node_kind
  gn_label :: string
  gn_evidence_ids :: "string list"
  gn_attributes :: attributes

record graph_edge =
  ge_edge_id :: string
  ge_kind :: graph_edge_kind
  ge_source_node_id :: string
  ge_target_node_id :: string
  ge_confidence :: rat
  ge_evidence_ids :: "string list"
  ge_attributes :: attributes

record exposure_graph =
  gr_asset_sha256 :: string
  gr_root_node_id :: string
  gr_nodes :: "graph_node list"
  gr_edges :: "graph_edge list"

record provenance_assessment =
  pa_state :: assessment_state
  pa_verdict :: provenance_verdict
  pa_confidence :: rat
  pa_claims :: "claim_record list"
  pa_limitations :: "string list"

record rights_assessment =
  ra_state :: assessment_state
  ra_verdict :: rights_verdict
  ra_confidence :: rat
  ra_claims :: "claim_record list"
  ra_limitations :: "string list"

record deployment_assessment =
  da_state :: assessment_state
  da_decision :: deployment_decision
  da_confidence :: rat
  da_claims :: "claim_record list"
  da_policy_citations :: "string list"
  da_limitations :: "string list"

record rightsgate_assessment =
  as_assessment_id :: string
  as_created_at :: datetime
  as_asset :: asset_descriptor
  as_context :: assessment_context
  as_components :: "component_record list"
  as_evidence :: "evidence_pointer list"
  as_exposure_graph :: exposure_graph
  as_provenance :: provenance_assessment
  as_rights :: rights_assessment
  as_deployment :: deployment_assessment

text \<open>All claims of the three dimensions, in the order the assessment concatenates them.\<close>

definition all_claims :: "rightsgate_assessment \<Rightarrow> claim_record list" where
  "all_claims a = pa_claims (as_provenance a) @ ra_claims (as_rights a) @ da_claims (as_deployment a)"

end
