(* ===== verification/Contracts.thy ===== *)
theory Contracts
  imports Contract_Types
begin

section \<open>Construction of the assessment contracts\<close>

text \<open>
  One \<open>validate_\<close> function per model of \<open>rightsgate/contracts.py\<close>: it takes the field values,
  runs the field constraints and field validators (which may normalise a field, for example sort
  the evidence identifiers), then the model validators, and returns the normalised record or the
  error. The values of model-typed fields are instances that were validated when they were built.
  \<open>wf_\<close> is the shape of an accepted record, and every model is interpreted as a
  \<open>validated_model\<close>: what construction returns is well-formed, and a well-formed record passes
  construction unchanged.
\<close>

subsection \<open>Locators and evidence\<close>

definition nonneg_int :: "int \<Rightarrow> bool" where "nonneg_int i \<longleftrightarrow> 0 \<le> i"
definition nonneg_rat :: "rat \<Rightarrow> bool" where "nonneg_rat q \<longleftrightarrow> 0 \<le> q"

text \<open>\<open>supplied\<close> and \<open>allowed_by_kind\<close> of \<open>validate_shape\<close>.\<close>

definition locator_supplied :: "evidence_locator \<Rightarrow> string list" where
  "locator_supplied l = map fst (filter snd
     [(''page_index'', loc_page_index l \<noteq> None), (''frame_index'', loc_frame_index l \<noteq> None),
      (''bbox'', loc_bbox l \<noteq> None), (''start_seconds'', loc_start_seconds l \<noteq> None),
      (''end_seconds'', loc_end_seconds l \<noteq> None), (''text_start'', loc_text_start l \<noteq> None),
      (''text_end'', loc_text_end l \<noteq> None), (''metadata_path'', loc_metadata_path l \<noteq> None)])"

primrec allowed_by_kind :: "locator_kind \<Rightarrow> string list" where
  "allowed_by_kind Loc_WHOLE_ASSET = []"
| "allowed_by_kind Loc_REGION = [''page_index'', ''frame_index'', ''bbox'']"
| "allowed_by_kind Loc_TIME_RANGE = [''start_seconds'', ''end_seconds'']"
| "allowed_by_kind Loc_TEXT_RANGE = [''page_index'', ''text_start'', ''text_end'']"
| "allowed_by_kind Loc_METADATA_PATH = [''metadata_path'']"

definition locator_fields :: "evidence_locator \<Rightarrow> (string \<times> bool) list" where
  "locator_fields l =
     [(''page_index'', opt_ok nonneg_int (loc_page_index l)),
      (''frame_index'', opt_ok nonneg_int (loc_frame_index l)),
      (''start_seconds'', opt_ok nonneg_rat (loc_start_seconds l)),
      (''end_seconds'', opt_ok nonneg_rat (loc_end_seconds l)),
      (''text_start'', opt_ok nonneg_int (loc_text_start l)),
      (''text_end'', opt_ok nonneg_int (loc_text_end l)),
      (''metadata_path'', opt_ok (len_between 1 512) (loc_metadata_path l))]"

definition locator_shape :: "evidence_locator \<Rightarrow> evidence_locator res" where
  "locator_shape l =
     (let unexpected = filter (\<lambda>f. f \<notin> set (allowed_by_kind (loc_kind l))) (locator_supplied l);
          bad = (\<lambda>m. Inl (ModelError ''EvidenceLocator'' m))
      in if unexpected \<noteq> []
         then bad (locator_kind_value (loc_kind l) @ '' cannot carry fields: '' @ list_repr (sort unexpected))
         else case loc_kind l of
           Loc_WHOLE_ASSET \<Rightarrow> Inr l
         | Loc_REGION \<Rightarrow>
             (case loc_bbox l of
                None \<Rightarrow> bad ''REGION requires bbox''
              | Some (x0, y0, x1, y1) \<Rightarrow>
                  if min (min x0 y0) (min x1 y1) < 0 \<or> x1 \<le> x0 \<or> y1 \<le> y0
                  then bad ''REGION bbox must be non-negative with positive area'' else Inr l)
         | Loc_TIME_RANGE \<Rightarrow>
             (case (loc_start_seconds l, loc_end_seconds l) of
                (Some s, Some e) \<Rightarrow>
                  if e \<le> s then bad ''TIME_RANGE end_seconds must be greater than start_seconds'' else Inr l
              | _ \<Rightarrow> bad ''TIME_RANGE requires start_seconds and end_seconds'')
         | Loc_TEXT_RANGE \<Rightarrow>
             (case (loc_page_index l, loc_text_start l, loc_text_end l) of
                (Some _, Some s, Some e) \<Rightarrow>
                  if e \<le> s then bad ''TEXT_RANGE text_end must be greater than text_start'' else Inr l
              | _ \<Rightarrow> bad ''TEXT_RANGE requires page_index, text_start and text_end'')
         | Loc_METADATA_PATH \<Rightarrow>
             (if loc_metadata_path l = None then bad ''METADATA_PATH requires metadata_path'' else Inr l))"

definition validate_locator :: "evidence_locator \<Rightarrow> evidence_locator res" where
  "validate_locator l = check_fields ''EvidenceLocator'' (locator_fields l) (locator_shape l)"

definition wf_locator :: "evidence_locator \<Rightarrow> bool" where
  "wf_locator l \<longleftrightarrow> list_all snd (locator_fields l) \<and> locator_shape l = Inr l"

lemma locator_shape_Inr: "locator_shape l = Inr m \<Longrightarrow> m = l"
  by (auto simp: locator_shape_def Let_def split: if_splits locator_kind.splits option.splits prod.splits)

interpretation locator: validated_model validate_locator wf_locator
  by unfold_locales (auto simp: validate_locator_def wf_locator_def check_fields_ok dest: locator_shape_Inr)

text \<open>What the shape rules of the kinds amount to.\<close>

lemma wf_locator_REGION:
  assumes "wf_locator l" and "loc_kind l = Loc_REGION"
  obtains x0 y0 x1 y1 where "loc_bbox l = Some (x0, y0, x1, y1)" "0 \<le> x0" "0 \<le> y0" "x0 < x1" "y0 < y1"
  using assms that
  by (auto simp: wf_locator_def locator_shape_def Let_def not_less not_le
      split: if_splits option.splits prod.splits)

lemma wf_whole_asset [simp]: "wf_locator whole_asset"
  by (simp add: wf_locator_def whole_asset_def locator_fields_def locator_shape_def locator_supplied_def)

lemma wf_region_locator:
  assumes "0 \<le> x0" and "0 \<le> y0" and "x0 < x1" and "y0 < y1"
  shows "wf_locator (region_locator (x0, y0, x1, y1))"
  using assms
  by (simp add: wf_locator_def region_locator_def whole_asset_def locator_fields_def
      locator_shape_def locator_supplied_def Let_def)

definition evidence_fields :: "evidence_pointer \<Rightarrow> (string \<times> bool) list" where
  "evidence_fields e =
     [(''evidence_id'', is_id (ev_evidence_id e)),
      (''asset_sha256'', is_sha256 (ev_asset_sha256 e)),
      (''source'', len_between 1 200 (ev_source e)),
      (''component_id'', is_id (ev_component_id e)),
      (''component_version'', len_between 1 100 (ev_component_version e)),
      (''confidence'', unit_interval (ev_confidence e)),
      (''summary'', len_between 1 1000 (ev_summary e)),
      (''payload_sha256'', opt_ok is_sha256 (ev_payload_sha256 e))]"

definition validate_evidence :: "evidence_pointer \<Rightarrow> evidence_pointer res" where
  "validate_evidence e = check_fields ''EvidencePointer'' (evidence_fields e) (Inr e)"

definition wf_evidence :: "evidence_pointer \<Rightarrow> bool" where
  "wf_evidence e \<longleftrightarrow> list_all snd (evidence_fields e)"

interpretation evidence: validated_model validate_evidence wf_evidence
  by unfold_locales (auto simp: validate_evidence_def wf_evidence_def check_fields_ok)

lemma wf_evidence_iff [wf_simps]:
  "wf_evidence e \<longleftrightarrow> is_id (ev_evidence_id e) \<and> is_sha256 (ev_asset_sha256 e) \<and>
     len_between 1 200 (ev_source e) \<and> is_id (ev_component_id e) \<and>
     len_between 1 100 (ev_component_version e) \<and> unit_interval (ev_confidence e) \<and>
     len_between 1 1000 (ev_summary e) \<and> opt_ok is_sha256 (ev_payload_sha256 e)"
  by (simp add: wf_evidence_def evidence_fields_def)

subsection \<open>Asset descriptions\<close>

definition representation_fields :: "asset_representation \<Rightarrow> (string \<times> bool) list" where
  "representation_fields r =
     [(''representation_id'', is_id (ar_representation_id r)),
      (''sha256'', is_sha256 (ar_sha256 r)),
      (''media_type'', len_between 1 200 (ar_media_type r)),
      (''size_bytes'', 0 < ar_size_bytes r),
      (''component_id'', opt_ok is_id (ar_component_id r)),
      (''component_version'', opt_ok (len_between 1 100) (ar_component_version r))]"

definition representation_identity :: "asset_representation \<Rightarrow> asset_representation res" where
  "representation_identity r =
     (let bad = (\<lambda>m. Inl (ModelError ''AssetRepresentation'' m))
      in if (ar_component_id r = None) \<noteq> (ar_component_version r = None)
         then bad ''component_id and component_version must be provided together''
         else if ar_kind r = Repr_ORIGINAL
         then (if loc_kind (ar_locator r) \<noteq> Loc_WHOLE_ASSET
               then bad ''ORIGINAL representation must locate the whole asset''
               else if ar_component_id r \<noteq> None
               then bad ''ORIGINAL representation cannot be attributed to a derived component''
               else Inr r)
         else if ar_component_id r = None
         then bad ''derived representations require component identity''
         else Inr r)"

definition validate_representation :: "asset_representation \<Rightarrow> asset_representation res" where
  "validate_representation r =
     check_fields ''AssetRepresentation'' (representation_fields r) (representation_identity r)"

definition wf_representation :: "asset_representation \<Rightarrow> bool" where
  "wf_representation r \<longleftrightarrow>
     list_all snd (representation_fields r) \<and>
     (ar_component_id r = None \<longleftrightarrow> ar_component_version r = None) \<and>
     (ar_component_id r = None \<longleftrightarrow> ar_kind r = Repr_ORIGINAL) \<and>
     (ar_kind r = Repr_ORIGINAL \<longrightarrow> loc_kind (ar_locator r) = Loc_WHOLE_ASSET)"

interpretation representation: validated_model validate_representation wf_representation
  by unfold_locales
    (auto simp: validate_representation_def wf_representation_def representation_identity_def
      Let_def check_fields_ok split: if_splits)

definition descriptor_fields :: "asset_descriptor \<Rightarrow> (string \<times> bool) list" where
  "descriptor_fields d =
     [(''asset_id'', is_id (ad_asset_id d)),
      (''sha256'', is_sha256 (ad_sha256 d)),
      (''media_type'', len_between 1 200 (ad_media_type d)),
      (''size_bytes'', 0 < ad_size_bytes d),
      (''original_filename'', len_between 1 255 (ad_original_filename d)),
      (''duration_seconds'', opt_ok (\<lambda>q. 0 < q) (ad_duration_seconds d)),
      (''width'', opt_ok (\<lambda>i. 0 < i) (ad_width d)),
      (''height'', opt_ok (\<lambda>i. 0 < i) (ad_height d))]"

definition validate_descriptor :: "asset_descriptor \<Rightarrow> asset_descriptor res" where
  "validate_descriptor d =
     check_fields ''AssetDescriptor'' (descriptor_fields d)
       (if ad_media_kind d \<in> {Media_AUDIO, Media_VIDEO} \<and> ad_duration_seconds d = None
        then Inl (ModelError ''AssetDescriptor'' ''audio and video assets require duration_seconds'')
        else if ad_media_kind d \<in> {Media_IMAGE, Media_VIDEO} \<and> (ad_width d = None \<or> ad_height d = None)
        then Inl (ModelError ''AssetDescriptor'' ''image and video assets require width and height'')
        else Inr d)"

definition wf_descriptor :: "asset_descriptor \<Rightarrow> bool" where
  "wf_descriptor d \<longleftrightarrow>
     list_all snd (descriptor_fields d) \<and>
     (ad_media_kind d \<in> {Media_AUDIO, Media_VIDEO} \<longrightarrow> ad_duration_seconds d \<noteq> None) \<and>
     (ad_media_kind d \<in> {Media_IMAGE, Media_VIDEO} \<longrightarrow> ad_width d \<noteq> None \<and> ad_height d \<noteq> None)"

interpretation descriptor: validated_model validate_descriptor wf_descriptor
  by unfold_locales
    (auto simp: validate_descriptor_def wf_descriptor_def check_fields_ok split: if_splits)

text \<open>\<open>normalize_territories\<close>: upper-cased, sorted, without duplicates, two letters each.\<close>

definition territory_set :: "string list \<Rightarrow> string list" where
  "territory_set values = sorted_set (map upper values)"

definition territory_code :: "string \<Rightarrow> bool" where
  "territory_code v \<longleftrightarrow> length v = 2 \<and> isalpha v"

lemma set_map_upper_territory_set: "set (map upper (territory_set vs)) = set (territory_set vs)"
  by (simp add: territory_set_def image_image)

lemma territory_set_idem [simp]: "territory_set (territory_set vs) = territory_set vs"
proof -
  have "territory_set (territory_set vs) = sorted_set (territory_set vs)"
    unfolding territory_set_def [of "territory_set vs"]
    by (rule sorted_set_cong) (rule set_map_upper_territory_set)
  then show ?thesis by (simp add: territory_set_def)
qed

lemma territory_set_eq_Nil [simp]: "territory_set vs = [] \<longleftrightarrow> vs = []"
  by (simp add: territory_set_def)

definition context_fields :: "assessment_context \<Rightarrow> (string \<times> bool) list" where
  "context_fields c =
     [(''policy_id'', is_id (cx_policy_id c)),
      (''policy_version'', len_between 1 100 (cx_policy_version c)),
      (''intended_use'', len_between 1 300 (cx_intended_use c)),
      (''channel'', len_between 1 100 (cx_channel c)),
      (''audience'', len_between 1 200 (cx_audience c)),
      (''territories'', cx_territories c \<noteq> [] \<and> list_all territory_code (territory_set (cx_territories c))),
      (''brand_profile'', opt_ok (len_between 1 100) (cx_brand_profile c))]"

definition validate_context :: "assessment_context \<Rightarrow> assessment_context res" where
  "validate_context c =
     check_fields ''AssessmentContext'' (context_fields c)
       (Inr (c\<lparr>cx_territories := territory_set (cx_territories c)\<rparr>))"

definition wf_context :: "assessment_context \<Rightarrow> bool" where
  "wf_context c \<longleftrightarrow> list_all snd (context_fields c) \<and> cx_territories c = territory_set (cx_territories c)"

interpretation context_model: validated_model validate_context wf_context
  by unfold_locales
    (auto simp: validate_context_def wf_context_def check_fields_ok context_fields_def)

definition validate_asset_ir :: "asset_ir \<Rightarrow> asset_ir res" where
  "validate_asset_ir ir =
     check_fields ''AssetIR'' [(''representations'', ir_representations ir \<noteq> [])]
       (let originals = filter (\<lambda>r. ar_kind r = Repr_ORIGINAL) (ir_representations ir);
            bad = (\<lambda>m. Inl (ModelError ''AssetIR'' m))
        in if \<not> distinct (map ar_representation_id (ir_representations ir))
           then bad ''representation_id values must be unique''
           else if length originals \<noteq> 1
           then bad ''AssetIR requires exactly one ORIGINAL representation''
           else if ar_sha256 (hd originals) \<noteq> ad_sha256 (ir_asset ir) \<or>
                   ar_size_bytes (hd originals) \<noteq> ad_size_bytes (ir_asset ir)
           then bad ''ORIGINAL representation must match the asset byte identity''
           else Inr ir)"

definition wf_asset_ir :: "asset_ir \<Rightarrow> bool" where
  "wf_asset_ir ir \<longleftrightarrow>
     distinct (map ar_representation_id (ir_representations ir)) \<and>
     (\<exists>original. filter (\<lambda>r. ar_kind r = Repr_ORIGINAL) (ir_representations ir) = [original] \<and>
        ar_sha256 original = ad_sha256 (ir_asset ir) \<and>
        ar_size_bytes original = ad_size_bytes (ir_asset ir))"

interpretation asset_ir: validated_model validate_asset_ir wf_asset_ir
  by unfold_locales
    (auto simp: validate_asset_ir_def wf_asset_ir_def Let_def check_fields_ok length_Suc_conv
      split: if_splits)

interpretation representations: keyed_registry ar_representation_id ir_representations wf_asset_ir
  by unfold_locales (simp add: wf_asset_ir_def)

definition all_dimensions :: "claim_dimension list" where
  "all_dimensions = [Dim_PROVENANCE, Dim_RIGHTS_EXPOSURE, Dim_DEPLOYMENT_READINESS]"

definition sorted_dimensions :: "claim_dimension list" where
  "sorted_dimensions = [Dim_DEPLOYMENT_READINESS, Dim_PROVENANCE, Dim_RIGHTS_EXPOSURE]"

definition validate_request :: "assessment_request \<Rightarrow> assessment_request res" where
  "validate_request r =
     check_fields ''RightsGateAssessmentRequest''
       [(''idempotency_key'', is_id (rq_idempotency_key r)),
        (''requested_dimensions'', distinct (rq_requested_dimensions r) \<and>
           set (rq_requested_dimensions r) = set all_dimensions)]
       (Inr (r\<lparr>rq_requested_dimensions :=
           sort_key claim_dimension_value (rq_requested_dimensions r)\<rparr>))"

definition wf_request :: "assessment_request \<Rightarrow> bool" where
  "wf_request r \<longleftrightarrow> is_id (rq_idempotency_key r) \<and> rq_requested_dimensions r = sorted_dimensions"

lemma sort_dimensions:
  assumes "distinct ds" and "set ds = set all_dimensions"
  shows "sort_key claim_dimension_value ds = sorted_dimensions"
proof -
  have "mset ds = mset all_dimensions"
    using assms by (intro set_eq_iff_mset_eq_distinct [THEN iffD1]) (auto simp: all_dimensions_def)
  then have "sort_key claim_dimension_value ds = sort_key claim_dimension_value all_dimensions"
    by (rule sort_key_mset_cong) (simp add: inj_on_def)
  also have "\<dots> = sorted_dimensions" by code_simp
  finally show ?thesis .
qed

lemma sorted_dimensions_ok:
  "distinct sorted_dimensions" "set sorted_dimensions = set all_dimensions"
  by (auto simp: sorted_dimensions_def all_dimensions_def)

interpretation request: validated_model validate_request wf_request
  by unfold_locales
    (auto simp: validate_request_def wf_request_def check_fields_ok sort_dimensions sorted_dimensions_ok)

subsection \<open>Claims and components\<close>

definition claim_fields :: "claim_record \<Rightarrow> (string \<times> bool) list" where
  "claim_fields c =
     [(''claim_id'', is_id (cl_claim_id c)),
      (''claim_type'', is_id (cl_claim_type c)),
      (''statement'', len_between 1 1000 (cl_statement c)),
      (''confidence'', unit_interval (cl_confidence c)),
      (''evidence_ids'', distinct (cl_evidence_ids c))]"

definition claim_semantics :: "claim_record \<Rightarrow> claim_record res" where
  "claim_semantics c =
     (let bad = (\<lambda>m. Inl (ModelError ''ClaimRecord'' m))
      in if cl_outcome c \<in> {Outcome_SUPPORTED, Outcome_CONTRADICTED} \<and> cl_evidence_ids c = []
         then bad ''supported or contradicted claims require evidence''
         else if cl_outcome c = Outcome_UNKNOWN \<and> cl_limitations c = []
         then bad ''unknown claims require an explicit limitation''
         else if cl_outcome c = Outcome_NOT_ASSESSED
         then (if cl_confidence c \<noteq> 0 \<or> cl_evidence_ids c \<noteq> []
               then bad ''not-assessed claims require zero confidence and no evidence''
               else if cl_limitations c = []
               then bad ''not-assessed claims require an explicit limitation''
               else Inr c)
         else Inr c)"

definition validate_claim :: "claim_record \<Rightarrow> claim_record res" where
  "validate_claim c =
     check_fields ''ClaimRecord'' (claim_fields c)
       (claim_semantics (c\<lparr>cl_evidence_ids := sort (cl_evidence_ids c)\<rparr>))"

definition wf_claim :: "claim_record \<Rightarrow> bool" where
  "wf_claim c \<longleftrightarrow>
     list_all snd (claim_fields c) \<and> sorted (cl_evidence_ids c) \<and>
     (cl_outcome c \<in> {Outcome_SUPPORTED, Outcome_CONTRADICTED} \<longrightarrow> cl_evidence_ids c \<noteq> []) \<and>
     (cl_outcome c \<in> {Outcome_UNKNOWN, Outcome_NOT_ASSESSED} \<longrightarrow> cl_limitations c \<noteq> []) \<and>
     (cl_outcome c = Outcome_NOT_ASSESSED \<longrightarrow> cl_confidence c = 0 \<and> cl_evidence_ids c = [])"

interpretation claim: validated_model validate_claim wf_claim
proof
  fix x y
  assume "validate_claim x = Inr y"
  then show "wf_claim y"
    by (cases "cl_outcome x")
      (auto simp: validate_claim_def wf_claim_def claim_semantics_def claim_fields_def Let_def split: if_splits)
next
  fix x
  assume "wf_claim x"
  then show "validate_claim x = Inr x"
    by (cases "cl_outcome x")
      (auto simp: validate_claim_def wf_claim_def claim_semantics_def check_fields_ok sorted_sort_id Let_def)
qed

lemma wf_claim_iff [wf_simps]:
  "wf_claim c \<longleftrightarrow> is_id (cl_claim_id c) \<and> is_id (cl_claim_type c) \<and>
     len_between 1 1000 (cl_statement c) \<and> unit_interval (cl_confidence c) \<and>
     distinct (cl_evidence_ids c) \<and> sorted (cl_evidence_ids c) \<and>
     (cl_outcome c \<in> {Outcome_SUPPORTED, Outcome_CONTRADICTED} \<longrightarrow> cl_evidence_ids c \<noteq> []) \<and>
     (cl_outcome c \<in> {Outcome_UNKNOWN, Outcome_NOT_ASSESSED} \<longrightarrow> cl_limitations c \<noteq> []) \<and>
     (cl_outcome c = Outcome_NOT_ASSESSED \<longrightarrow> cl_confidence c = 0 \<and> cl_evidence_ids c = [])"
  by (auto simp: wf_claim_def claim_fields_def)

definition component_fields :: "component_record \<Rightarrow> (string \<times> bool) list" where
  "component_fields c =
     [(''component_id'', is_id (co_component_id c)),
      (''component_version'', len_between 1 100 (co_component_version c)),
      (''component_type'', is_id (co_component_type c)),
      (''artifact_sha256'', opt_ok is_sha256 (co_artifact_sha256 c)),
      (''reason'', opt_ok (len_between 1 500) (co_reason c))]"

definition validate_component :: "component_record \<Rightarrow> component_record res" where
  "validate_component c =
     check_fields ''ComponentRecord'' (component_fields c)
       (if co_state c \<noteq> Comp_AVAILABLE \<and> co_reason c \<in> {None, Some []}
        then Inl (ModelError ''ComponentRecord'' ''degraded or unavailable components require a reason'')
        else Inr c)"

definition wf_component :: "component_record \<Rightarrow> bool" where
  "wf_component c \<longleftrightarrow>
     list_all snd (component_fields c) \<and> (co_state c \<noteq> Comp_AVAILABLE \<longrightarrow> co_reason c \<noteq> None)"

interpretation component: validated_model validate_component wf_component
  by unfold_locales
    (auto simp: validate_component_def wf_component_def check_fields_ok component_fields_def
      len_between_def split: if_splits)

lemma wf_component_iff [wf_simps]:
  "wf_component c \<longleftrightarrow> is_id (co_component_id c) \<and> len_between 1 100 (co_component_version c) \<and>
     is_id (co_component_type c) \<and> opt_ok is_sha256 (co_artifact_sha256 c) \<and>
     opt_ok (len_between 1 500) (co_reason c) \<and>
     (co_state c \<noteq> Comp_AVAILABLE \<longrightarrow> co_reason c \<noteq> None)"
  by (auto simp: wf_component_def component_fields_def)

subsection \<open>The exposure graph\<close>

definition validate_node :: "graph_node \<Rightarrow> graph_node res" where
  "validate_node n =
     check_fields ''ExposureGraphNode''
       [(''node_id'', is_id (gn_node_id n)), (''label'', len_between 1 300 (gn_label n)),
        (''evidence_ids'', distinct (gn_evidence_ids n))]
       (Inr (n\<lparr>gn_evidence_ids := sort (gn_evidence_ids n)\<rparr>))"

definition wf_node :: "graph_node \<Rightarrow> bool" where
  "wf_node n \<longleftrightarrow> is_id (gn_node_id n) \<and> len_between 1 300 (gn_label n) \<and>
     distinct (gn_evidence_ids n) \<and> sorted (gn_evidence_ids n)"

interpretation node: validated_model validate_node wf_node
  by unfold_locales (auto simp: validate_node_def wf_node_def check_fields_ok sorted_sort_id)

definition validate_edge :: "graph_edge \<Rightarrow> graph_edge res" where
  "validate_edge e =
     check_fields ''ExposureGraphEdge''
       [(''edge_id'', is_id (ge_edge_id e)), (''source_node_id'', is_id (ge_source_node_id e)),
        (''target_node_id'', is_id (ge_target_node_id e)),
        (''confidence'', unit_interval (ge_confidence e)),
        (''evidence_ids'', ge_evidence_ids e \<noteq> [] \<and> distinct (ge_evidence_ids e))]
       (if ge_source_node_id e = ge_target_node_id e
        then Inl (ModelError ''ExposureGraphEdge'' ''exposure graph edges cannot be self-referential'')
        else Inr (e\<lparr>ge_evidence_ids := sort (ge_evidence_ids e)\<rparr>))"

definition wf_edge :: "graph_edge \<Rightarrow> bool" where
  "wf_edge e \<longleftrightarrow> is_id (ge_edge_id e) \<and> is_id (ge_source_node_id e) \<and> is_id (ge_target_node_id e) \<and>
     unit_interval (ge_confidence e) \<and> ge_evidence_ids e \<noteq> [] \<and> distinct (ge_evidence_ids e) \<and>
     sorted (ge_evidence_ids e) \<and> ge_source_node_id e \<noteq> ge_target_node_id e"

interpretation edge: validated_model validate_edge wf_edge
  by unfold_locales
    (auto simp: validate_edge_def wf_edge_def check_fields_ok sorted_sort_id split: if_splits)

definition validate_graph :: "exposure_graph \<Rightarrow> exposure_graph res" where
  "validate_graph g =
     check_fields ''AssetExposureGraph''
       [(''asset_sha256'', is_sha256 (gr_asset_sha256 g)), (''root_node_id'', is_id (gr_root_node_id g)),
        (''nodes'', gr_nodes g \<noteq> [])]
       (let nodes_by_id = dict_by gn_node_id (gr_nodes g);
            bad = (\<lambda>m. ModelError ''AssetExposureGraph'' m)
        in if \<not> distinct (map gn_node_id (gr_nodes g)) then Inl (bad ''node_id values must be unique'')
           else if \<not> distinct (map ge_edge_id (gr_edges g)) then Inl (bad ''edge_id values must be unique'')
           else if map_option gn_kind (nodes_by_id (gr_root_node_id g)) \<noteq> Some Node_ASSET
           then Inl (bad ''root_node_id must reference an ASSET node'')
           else raise_first
             (first_error (\<lambda>e.
                if nodes_by_id (ge_source_node_id e) = None \<or> nodes_by_id (ge_target_node_id e) = None
                then Some (bad (''edge '' @ ge_edge_id e @ '' references an unknown node'')) else None)
                (gr_edges g))
             (Inr g))"

definition wf_graph :: "exposure_graph \<Rightarrow> bool" where
  "wf_graph g \<longleftrightarrow>
     is_sha256 (gr_asset_sha256 g) \<and> is_id (gr_root_node_id g) \<and>
     distinct (map gn_node_id (gr_nodes g)) \<and> distinct (map ge_edge_id (gr_edges g)) \<and>
     (\<exists>root \<in> set (gr_nodes g). gn_node_id root = gr_root_node_id g \<and> gn_kind root = Node_ASSET) \<and>
     (\<forall>e \<in> set (gr_edges g). {ge_source_node_id e, ge_target_node_id e} \<subseteq> gn_node_id ` set (gr_nodes g))"

interpretation graph: validated_model validate_graph wf_graph
proof
  fix x y
  assume "validate_graph x = Inr y"
  then show "wf_graph y"
    by (auto simp: validate_graph_def wf_graph_def Let_def dict_by_None_iff dest!: dict_by_Some split: if_splits)
next
  fix x
  assume "wf_graph x"
  then show "validate_graph x = Inr x"
    by (auto simp: validate_graph_def wf_graph_def Let_def dict_by_eq_Some_iff dict_by_None_iff check_fields_ok)
qed

interpretation graph_nodes: keyed_registry gn_node_id gr_nodes wf_graph
  by unfold_locales (simp add: wf_graph_def)

end
