(* ===== verification/Assessment.thy ===== *)
theory Assessment
  imports Contracts
begin

section \<open>Assessments and the release integrity rules\<close>

text \<open>
  The three dimension assessments and \<open>RightsGateAssessment\<close> of \<open>rightsgate/contracts.py\<close>: the
  model whose last validator, \<open>enforce_referential_and_release_integrity\<close>, checks that evidence,
  claims, components and the exposure graph refer to each other and to one asset, and refuses a
  \<open>GO\<close> that the evidence does not support.
\<close>

subsection \<open>Dimension assessments\<close>

definition validate_provenance :: "provenance_assessment \<Rightarrow> provenance_assessment res" where
  "validate_provenance p =
     check_fields ''ProvenanceAssessment'' [(''confidence'', unit_interval (pa_confidence p))]
       (let bad = (\<lambda>m. Inl (ModelError ''ProvenanceAssessment'' m))
        in if \<exists>c \<in> set (pa_claims p). cl_dimension c \<noteq> Dim_PROVENANCE
           then bad ''provenance assessment contains a claim from another dimension''
           else if pa_verdict p = Prov_UNKNOWN \<and> pa_limitations p = []
           then bad ''unknown provenance requires an explicit limitation''
           else if pa_state p = State_UNAVAILABLE \<and> pa_verdict p \<noteq> Prov_UNKNOWN
           then bad ''unavailable provenance must have UNKNOWN verdict''
           else Inr p)"

definition wf_provenance :: "provenance_assessment \<Rightarrow> bool" where
  "wf_provenance p \<longleftrightarrow>
     unit_interval (pa_confidence p) \<and>
     (\<forall>c \<in> set (pa_claims p). cl_dimension c = Dim_PROVENANCE) \<and>
     (pa_verdict p = Prov_UNKNOWN \<longrightarrow> pa_limitations p \<noteq> []) \<and>
     (pa_state p = State_UNAVAILABLE \<longrightarrow> pa_verdict p = Prov_UNKNOWN)"

interpretation provenance: validated_model validate_provenance wf_provenance
  by unfold_locales
    (auto simp: validate_provenance_def wf_provenance_def check_fields_ok Let_def split: if_splits)

definition validate_rights :: "rights_assessment \<Rightarrow> rights_assessment res" where
  "validate_rights r =
     check_fields ''RightsAssessment'' [(''confidence'', unit_interval (ra_confidence r))]
       (let bad = (\<lambda>m. Inl (ModelError ''RightsAssessment'' m))
        in if \<exists>c \<in> set (ra_claims r). cl_dimension c \<noteq> Dim_RIGHTS_EXPOSURE
           then bad ''rights assessment contains a claim from another dimension''
           else if ra_verdict r = Rights_UNKNOWN \<and> ra_limitations r = []
           then bad ''unknown rights exposure requires an explicit limitation''
           else if ra_state r = State_UNAVAILABLE \<and> ra_verdict r \<noteq> Rights_UNKNOWN
           then bad ''unavailable rights assessment must have UNKNOWN verdict''
           else Inr r)"

definition wf_rights :: "rights_assessment \<Rightarrow> bool" where
  "wf_rights r \<longleftrightarrow>
     unit_interval (ra_confidence r) \<and>
     (\<forall>c \<in> set (ra_claims r). cl_dimension c = Dim_RIGHTS_EXPOSURE) \<and>
     (ra_verdict r = Rights_UNKNOWN \<longrightarrow> ra_limitations r \<noteq> []) \<and>
     (ra_state r = State_UNAVAILABLE \<longrightarrow> ra_verdict r = Rights_UNKNOWN)"

interpretation rights: validated_model validate_rights wf_rights
  by unfold_locales
    (auto simp: validate_rights_def wf_rights_def check_fields_ok Let_def split: if_splits)

definition validate_deployment :: "deployment_assessment \<Rightarrow> deployment_assessment res" where
  "validate_deployment d =
     check_fields ''DeploymentAssessment''
       [(''confidence'', unit_interval (da_confidence d)),
        (''policy_citations'', da_policy_citations d \<noteq> [])]
       (if \<exists>c \<in> set (da_claims d). cl_dimension c \<noteq> Dim_DEPLOYMENT_READINESS
        then Inl (ModelError ''DeploymentAssessment'' ''deployment assessment contains a claim from another dimension'')
        else if da_decision d = Decision_GO \<and> da_state d \<noteq> State_COMPLETE
        then Inl (ModelError ''DeploymentAssessment'' ''GO requires a complete deployment assessment'')
        else Inr d)"

definition wf_deployment :: "deployment_assessment \<Rightarrow> bool" where
  "wf_deployment d \<longleftrightarrow>
     unit_interval (da_confidence d) \<and> da_policy_citations d \<noteq> [] \<and>
     (\<forall>c \<in> set (da_claims d). cl_dimension c = Dim_DEPLOYMENT_READINESS) \<and>
     (da_decision d = Decision_GO \<longrightarrow> da_state d = State_COMPLETE)"

interpretation deployment: validated_model validate_deployment wf_deployment
  by unfold_locales
    (auto simp: validate_deployment_def wf_deployment_def check_fields_ok split: if_splits)

subsection \<open>The assessment\<close>

text \<open>The evidence identifiers a graph mentions.\<close>

definition graph_evidence_ids :: "exposure_graph \<Rightarrow> string list" where
  "graph_evidence_ids g = concat (map gn_evidence_ids (gr_nodes g)) @ concat (map ge_evidence_ids (gr_edges g))"

text \<open>The loop over \<open>self.evidence\<close>.\<close>

definition evidence_error :: "rightsgate_assessment \<Rightarrow> evidence_pointer \<Rightarrow> py_error option" where
  "evidence_error a item =
     (let bad = (\<lambda>m. Some (ModelError ''RightsGateAssessment'' (''evidence '' @ ev_evidence_id item @ m)))
      in if ev_asset_sha256 item \<noteq> ad_sha256 (as_asset a) then bad '' is bound to a different asset''
         else case List.find (\<lambda>c. co_component_id c = ev_component_id item) (as_components a) of
           None \<Rightarrow> bad '' references an unknown component''
         | Some component \<Rightarrow>
             if ev_component_version item \<noteq> co_component_version component
             then bad '' component version does not match its component record'' else None)"

text \<open>The loop over the claims.\<close>

definition claim_error :: "rightsgate_assessment \<Rightarrow> claim_record \<Rightarrow> py_error option" where
  "claim_error a claim =
     (let missing = filter (\<lambda>i. i \<notin> set (map ev_evidence_id (as_evidence a))) (cl_evidence_ids claim)
      in if missing \<noteq> []
         then Some (ModelError ''RightsGateAssessment''
           (''claim '' @ cl_claim_id claim @ '' references missing evidence: '' @ list_repr (sorted_set missing)))
         else None)"

definition unavailable_components :: "rightsgate_assessment \<Rightarrow> string list" where
  "unavailable_components a =
     map co_component_id (filter (\<lambda>c. co_mandatory c \<and> co_state c \<noteq> Comp_AVAILABLE) (as_components a))"

definition unresolved_claims :: "rightsgate_assessment \<Rightarrow> string list" where
  "unresolved_claims a =
     map cl_claim_id (filter (\<lambda>c. cl_mandatory c \<and> cl_outcome c \<in> {Outcome_UNKNOWN, Outcome_NOT_ASSESSED})
       (all_claims a))"

definition go_integrity :: "rightsgate_assessment \<Rightarrow> rightsgate_assessment res" where
  "go_integrity a =
     (let bad = (\<lambda>m. Inl (ModelError ''RightsGateAssessment'' m))
      in if unavailable_components a \<noteq> []
         then bad (''GO is forbidden while mandatory components are unavailable: '' @
                   list_repr (unavailable_components a))
         else if pa_state (as_provenance a) \<noteq> State_COMPLETE \<or> ra_state (as_rights a) \<noteq> State_COMPLETE
         then bad ''GO requires complete provenance and rights assessments''
         else if pa_verdict (as_provenance a) \<in> {Prov_UNKNOWN, Prov_TAMPERED}
         then bad ''GO is forbidden for unknown or tampered provenance''
         else if ra_verdict (as_rights a) \<noteq> Rights_CLEAR
         then bad ''GO requires a CLEAR rights verdict''
         else if unresolved_claims a \<noteq> []
         then bad (''GO is forbidden while mandatory claims are unresolved: '' @ list_repr (unresolved_claims a))
         else Inr a)"

definition enforce_integrity :: "rightsgate_assessment \<Rightarrow> rightsgate_assessment res" where
  "enforce_integrity a =
     (let bad = (\<lambda>m. Inl (ModelError ''RightsGateAssessment'' m));
          evidence_ids = map ev_evidence_id (as_evidence a);
          missing = filter (\<lambda>i. i \<notin> set evidence_ids) (graph_evidence_ids (as_exposure_graph a))
      in if \<not> distinct (map co_component_id (as_components a)) then bad ''component_id values must be unique''
         else if \<not> distinct evidence_ids then bad ''evidence_id values must be unique''
         else if gr_asset_sha256 (as_exposure_graph a) \<noteq> ad_sha256 (as_asset a)
         then bad ''exposure graph is bound to a different asset''
         else if missing \<noteq> []
         then bad (''exposure graph references missing evidence: '' @ list_repr (sorted_set missing))
         else raise_first (first_error (evidence_error a) (as_evidence a))
           (if \<not> distinct (map cl_claim_id (all_claims a))
            then bad ''claim_id values must be unique across the assessment''
            else raise_first (first_error (claim_error a) (all_claims a))
              (if da_decision (as_deployment a) = Decision_GO then go_integrity a else Inr a)))"

definition validate_assessment :: "rightsgate_assessment \<Rightarrow> rightsgate_assessment res" where
  "validate_assessment a =
     check_fields ''RightsGateAssessment''
       [(''assessment_id'', is_id (as_assessment_id a)), (''created_at'', is_aware (as_created_at a)),
        (''components'', as_components a \<noteq> [])]
       (enforce_integrity a)"

subsection \<open>Well-formed assessments\<close>

definition refs_ok :: "rightsgate_assessment \<Rightarrow> bool" where
  "refs_ok a \<longleftrightarrow>
     distinct (map co_component_id (as_components a)) \<and>
     distinct (map ev_evidence_id (as_evidence a)) \<and>
     distinct (map cl_claim_id (all_claims a)) \<and>
     gr_asset_sha256 (as_exposure_graph a) = ad_sha256 (as_asset a) \<and>
     set (graph_evidence_ids (as_exposure_graph a)) \<subseteq> ev_evidence_id ` set (as_evidence a) \<and>
     (\<forall>e \<in> set (as_evidence a). ev_asset_sha256 e = ad_sha256 (as_asset a) \<and>
        (\<exists>c \<in> set (as_components a). co_component_id c = ev_component_id e \<and>
           co_component_version c = ev_component_version e)) \<and>
     (\<forall>c \<in> set (all_claims a). set (cl_evidence_ids c) \<subseteq> ev_evidence_id ` set (as_evidence a))"

definition go_ok :: "rightsgate_assessment \<Rightarrow> bool" where
  "go_ok a \<longleftrightarrow>
     (\<forall>c \<in> set (as_components a). co_mandatory c \<longrightarrow> co_state c = Comp_AVAILABLE) \<and>
     pa_state (as_provenance a) = State_COMPLETE \<and> ra_state (as_rights a) = State_COMPLETE \<and>
     pa_verdict (as_provenance a) \<notin> {Prov_UNKNOWN, Prov_TAMPERED} \<and>
     ra_verdict (as_rights a) = Rights_CLEAR \<and>
     (\<forall>c \<in> set (all_claims a). cl_mandatory c \<longrightarrow> cl_outcome c \<in> {Outcome_SUPPORTED, Outcome_CONTRADICTED})"

definition wf_assessment :: "rightsgate_assessment \<Rightarrow> bool" where
  "wf_assessment a \<longleftrightarrow>
     is_id (as_assessment_id a) \<and> is_aware (as_created_at a) \<and> as_components a \<noteq> [] \<and>
     refs_ok a \<and> (da_decision (as_deployment a) = Decision_GO \<longrightarrow> go_ok a)"

lemma find_component_iff:
  assumes "distinct (map co_component_id cs)"
  shows "List.find (\<lambda>c. co_component_id c = k) cs = Some c \<longleftrightarrow> c \<in> set cs \<and> co_component_id c = k"
proof
  assume "List.find (\<lambda>c. co_component_id c = k) cs = Some c"
  then show "c \<in> set cs \<and> co_component_id c = k" by (auto simp: find_Some_iff)
next
  assume c: "c \<in> set cs \<and> co_component_id c = k"
  then obtain d where d: "List.find (\<lambda>c. co_component_id c = k) cs = Some d"
    by (cases "List.find (\<lambda>c. co_component_id c = k) cs") (auto simp: find_None_iff)
  then have "d \<in> set cs \<and> co_component_id d = k" by (auto simp: find_Some_iff)
  with c assms have "d = c" by (auto simp: distinct_map inj_on_def)
  with d show "List.find (\<lambda>c. co_component_id c = k) cs = Some c" by simp
qed

lemma evidence_error_None:
  assumes "distinct (map co_component_id (as_components a))"
  shows "evidence_error a e = None \<longleftrightarrow> ev_asset_sha256 e = ad_sha256 (as_asset a) \<and>
    (\<exists>c \<in> set (as_components a). co_component_id c = ev_component_id e \<and>
       co_component_version c = ev_component_version e)"
proof -
  have unique: "c = d" if "c \<in> set (as_components a)" "d \<in> set (as_components a)"
    "co_component_id c = co_component_id d" for c d
    using assms that by (auto simp: distinct_map inj_on_def)
  show ?thesis
    using find_component_iff [OF assms, of "ev_component_id e"] unique
    by (auto simp: evidence_error_def Let_def find_None_iff split: option.splits) metis
qed

lemma claim_error_None:
  "claim_error a c = None \<longleftrightarrow> set (cl_evidence_ids c) \<subseteq> ev_evidence_id ` set (as_evidence a)"
  by (auto simp: claim_error_def Let_def filter_empty_conv)

lemma claim_outcome_resolved:
  "cl_outcome c \<notin> {Outcome_UNKNOWN, Outcome_NOT_ASSESSED} \<longleftrightarrow>
   cl_outcome c \<in> {Outcome_SUPPORTED, Outcome_CONTRADICTED}"
  by (cases "cl_outcome c") auto

lemma go_integrity_iff: "go_integrity a = Inr b \<longleftrightarrow> b = a \<and> go_ok a"
  using claim_outcome_resolved
  by (auto simp: go_integrity_def go_ok_def Let_def unavailable_components_def
      unresolved_claims_def filter_empty_conv)

lemma enforce_integrity_iff:
  "enforce_integrity a = Inr b \<longleftrightarrow>
     b = a \<and> refs_ok a \<and> (da_decision (as_deployment a) = Decision_GO \<longrightarrow> go_ok a)"
proof (cases "distinct (map co_component_id (as_components a))")
  case True
  then show ?thesis
    by (auto simp: enforce_integrity_def refs_ok_def Let_def filter_empty_conv evidence_error_None
        claim_error_None go_integrity_iff subset_iff)
next
  case False
  then show ?thesis by (auto simp: enforce_integrity_def refs_ok_def Let_def)
qed

lemma validate_assessment_iff: "validate_assessment a = Inr b \<longleftrightarrow> b = a \<and> wf_assessment a"
  by (auto simp: validate_assessment_def wf_assessment_def enforce_integrity_iff)

interpretation assessment: validated_model validate_assessment wf_assessment
  by unfold_locales (auto simp: validate_assessment_iff)

interpretation assessment_components: keyed_registry co_component_id as_components wf_assessment
  by unfold_locales (simp add: wf_assessment_def refs_ok_def)

interpretation assessment_evidence: keyed_registry ev_evidence_id as_evidence wf_assessment
  by unfold_locales (simp add: wf_assessment_def refs_ok_def)

interpretation assessment_claims: keyed_registry cl_claim_id all_claims wf_assessment
  by unfold_locales (simp add: wf_assessment_def refs_ok_def)

end
