(* ===== verification/Payloads.thy ===== *)
theory Payloads
  imports Assessment
begin

section \<open>Canonical payloads and commitments of the contracts\<close>

text \<open>
  \<open>model_dump(mode="json", by_alias=True, exclude_none=ex)\<close> of every contract model, the
  \<open>canonical_payload\<close> methods (which sort the lists whose order carries no meaning) and the
  commitments \<open>commitment_sha256\<close> and \<open>request_sha256\<close>. The injectivity lemmas at the end show
  that the payload determines the normal form of the document: the document with those lists and
  the attribute dictionaries sorted. With \<open>canonical_text_inj\<close> this is what makes a commitment
  tamper-evident.
\<close>

subsection \<open>Fields\<close>

fun opt_field :: "bool \<Rightarrow> string \<Rightarrow> ('a \<Rightarrow> json) \<Rightarrow> 'a option \<Rightarrow> (string \<times> json) list" where
  "opt_field ex k f (Some x) = [(k, f x)]"
| "opt_field ex k f None = (if ex then [] else [(k, JNull)])"

definition strs :: "string list \<Rightarrow> json" where
  "strs ss = JArr (map JStr ss)"

primrec attr_json :: "attr \<Rightarrow> json" where
  "attr_json (AStr s) = JStr s"
| "attr_json (AInt i) = JInt i"
| "attr_json (AFloat q) = JFloat q"
| "attr_json (ABool b) = JBool b"
| "attr_json ANone = JNull"

definition attributes_json :: "attributes \<Rightarrow> json" where
  "attributes_json attrs = JObj (map (\<lambda>kv. (fst kv, attr_json (snd kv))) attrs)"

fun bbox_json :: "rat \<times> rat \<times> rat \<times> rat \<Rightarrow> json" where
  "bbox_json (x0, y0, x1, y1) = JArr [JFloat x0, JFloat y0, JFloat x1, JFloat y1]"

subsection \<open>Model dumps\<close>

definition locator_payload :: "bool \<Rightarrow> evidence_locator \<Rightarrow> json" where
  "locator_payload ex l = JObj (
     [(''kind'', JStr (locator_kind_value (loc_kind l)))] @
     opt_field ex ''page_index'' JInt (loc_page_index l) @
     opt_field ex ''frame_index'' JInt (loc_frame_index l) @
     opt_field ex ''bbox'' bbox_json (loc_bbox l) @
     opt_field ex ''start_seconds'' JFloat (loc_start_seconds l) @
     opt_field ex ''end_seconds'' JFloat (loc_end_seconds l) @
     opt_field ex ''text_start'' JInt (loc_text_start l) @
     opt_field ex ''text_end'' JInt (loc_text_end l) @
     opt_field ex ''metadata_path'' JStr (loc_metadata_path l))"

definition evidence_payload :: "bool \<Rightarrow> evidence_pointer \<Rightarrow> json" where
  "evidence_payload ex e = JObj (
     [(''evidence_id'', JStr (ev_evidence_id e)),
      (''asset_sha256'', JStr (ev_asset_sha256 e)),
      (''kind'', JStr (evidence_kind_value (ev_kind e))),
      (''source'', JStr (ev_source e)),
      (''component_id'', JStr (ev_component_id e)),
      (''component_version'', JStr (ev_component_version e)),
      (''polarity'', JStr (evidence_polarity_value (ev_polarity e))),
      (''confidence'', JFloat (ev_confidence e)),
      (''locator'', locator_payload ex (ev_locator e)),
      (''summary'', JStr (ev_summary e))] @
     opt_field ex ''payload_sha256'' JStr (ev_payload_sha256 e) @
     [(''attributes'', attributes_json (ev_attributes e))])"

definition representation_payload :: "bool \<Rightarrow> asset_representation \<Rightarrow> json" where
  "representation_payload ex r = JObj (
     [(''representation_id'', JStr (ar_representation_id r)),
      (''kind'', JStr (representation_kind_value (ar_kind r))),
      (''sha256'', JStr (ar_sha256 r)),
      (''media_type'', JStr (ar_media_type r)),
      (''size_bytes'', JInt (ar_size_bytes r)),
      (''locator'', locator_payload ex (ar_locator r))] @
     opt_field ex ''component_id'' JStr (ar_component_id r) @
     opt_field ex ''component_version'' JStr (ar_component_version r))"

definition claim_payload :: "claim_record \<Rightarrow> json" where
  "claim_payload c = JObj
     [(''claim_id'', JStr (cl_claim_id c)),
      (''dimension'', JStr (claim_dimension_value (cl_dimension c))),
      (''claim_type'', JStr (cl_claim_type c)),
      (''statement'', JStr (cl_statement c)),
      (''outcome'', JStr (claim_outcome_value (cl_outcome c))),
      (''confidence'', JFloat (cl_confidence c)),
      (''mandatory'', JBool (cl_mandatory c)),
      (''evidence_ids'', strs (cl_evidence_ids c)),
      (''limitations'', strs (cl_limitations c))]"

definition component_payload :: "bool \<Rightarrow> component_record \<Rightarrow> json" where
  "component_payload ex c = JObj (
     [(''component_id'', JStr (co_component_id c)),
      (''component_version'', JStr (co_component_version c)),
      (''component_type'', JStr (co_component_type c)),
      (''state'', JStr (component_state_value (co_state c))),
      (''mandatory'', JBool (co_mandatory c))] @
     opt_field ex ''artifact_sha256'' JStr (co_artifact_sha256 c) @
     opt_field ex ''reason'' JStr (co_reason c))"

definition descriptor_payload :: "bool \<Rightarrow> asset_descriptor \<Rightarrow> json" where
  "descriptor_payload ex d = JObj (
     [(''asset_id'', JStr (ad_asset_id d)),
      (''sha256'', JStr (ad_sha256 d)),
      (''media_kind'', JStr (media_kind_value (ad_media_kind d))),
      (''media_type'', JStr (ad_media_type d)),
      (''size_bytes'', JInt (ad_size_bytes d)),
      (''original_filename'', JStr (ad_original_filename d))] @
     opt_field ex ''duration_seconds'' JFloat (ad_duration_seconds d) @
     opt_field ex ''width'' JInt (ad_width d) @
     opt_field ex ''height'' JInt (ad_height d))"

definition context_payload :: "bool \<Rightarrow> assessment_context \<Rightarrow> json" where
  "context_payload ex c = JObj (
     [(''policy_id'', JStr (cx_policy_id c)),
      (''policy_version'', JStr (cx_policy_version c)),
      (''intended_use'', JStr (cx_intended_use c)),
      (''channel'', JStr (cx_channel c)),
      (''audience'', JStr (cx_audience c)),
      (''territories'', strs (cx_territories c))] @
     opt_field ex ''brand_profile'' JStr (cx_brand_profile c))"

definition node_payload :: "graph_node \<Rightarrow> json" where
  "node_payload n = JObj
     [(''node_id'', JStr (gn_node_id n)),
      (''kind'', JStr (graph_node_kind_value (gn_kind n))),
      (''label'', JStr (gn_label n)),
      (''evidence_ids'', strs (gn_evidence_ids n)),
      (''attributes'', attributes_json (gn_attributes n))]"

definition edge_payload :: "graph_edge \<Rightarrow> json" where
  "edge_payload e = JObj
     [(''edge_id'', JStr (ge_edge_id e)),
      (''kind'', JStr (graph_edge_kind_value (ge_kind e))),
      (''source_node_id'', JStr (ge_source_node_id e)),
      (''target_node_id'', JStr (ge_target_node_id e)),
      (''confidence'', JFloat (ge_confidence e)),
      (''evidence_ids'', strs (ge_evidence_ids e)),
      (''attributes'', attributes_json (ge_attributes e))]"

subsection \<open>Canonical payloads\<close>

definition asset_ir_schema :: string where
  "asset_ir_schema = ''veilgraph.rightsgate.asset-ir.v1''"

definition asset_ir_payload :: "asset_ir \<Rightarrow> json" where
  "asset_ir_payload ir = JObj
     [(''schema'', JStr asset_ir_schema),
      (''asset'', descriptor_payload True (ir_asset ir)),
      (''representations'', JArr (map (representation_payload True)
         (sort_key ar_representation_id (ir_representations ir))))]"

definition asset_ir_commitment :: "runtime \<Rightarrow> asset_ir \<Rightarrow> string" where
  "asset_ir_commitment rt ir = sha256_json rt (asset_ir_payload ir)"

definition request_schema :: string where
  "request_schema = ''veilgraph.rightsgate.assessment-request.v1''"

text \<open>\<open>request_sha256\<close> leaves the idempotency key out.\<close>

definition request_payload :: "assessment_request \<Rightarrow> json" where
  "request_payload r = JObj
     [(''schema'', JStr request_schema),
      (''asset_ir'', asset_ir_payload (rq_asset_ir r)),
      (''context'', context_payload True (rq_context r)),
      (''requested_dimensions'', strs (map claim_dimension_value (rq_requested_dimensions r)))]"

definition request_sha256 :: "runtime \<Rightarrow> assessment_request \<Rightarrow> string" where
  "request_sha256 rt r = sha256_json rt (request_payload r)"

definition graph_schema :: string where
  "graph_schema = ''veilgraph.rightsgate.asset-exposure-graph.v1''"

definition graph_payload :: "exposure_graph \<Rightarrow> json" where
  "graph_payload g = JObj
     [(''schema'', JStr graph_schema),
      (''asset_sha256'', JStr (gr_asset_sha256 g)),
      (''root_node_id'', JStr (gr_root_node_id g)),
      (''nodes'', JArr (map node_payload (sort_key gn_node_id (gr_nodes g)))),
      (''edges'', JArr (map edge_payload (sort_key ge_edge_id (gr_edges g))))]"

definition graph_commitment :: "runtime \<Rightarrow> exposure_graph \<Rightarrow> string" where
  "graph_commitment rt g = sha256_json rt (graph_payload g)"

text \<open>The claims of a dimension in canonical order, their lists sorted.\<close>

definition canonical_claim :: "claim_record \<Rightarrow> claim_record" where
  "canonical_claim c = c\<lparr>cl_evidence_ids := sort (cl_evidence_ids c), cl_limitations := sort (cl_limitations c)\<rparr>"

definition canonical_claims :: "claim_record list \<Rightarrow> claim_record list" where
  "canonical_claims cs = map canonical_claim (sort_key cl_claim_id cs)"

definition provenance_payload :: "provenance_assessment \<Rightarrow> json" where
  "provenance_payload p = JObj
     [(''dimension'', JStr ''PROVENANCE''),
      (''state'', JStr (assessment_state_value (pa_state p))),
      (''verdict'', JStr (provenance_verdict_value (pa_verdict p))),
      (''confidence'', JFloat (pa_confidence p)),
      (''claims'', JArr (map claim_payload (canonical_claims (pa_claims p)))),
      (''limitations'', strs (sort (pa_limitations p)))]"

definition rights_payload :: "rights_assessment \<Rightarrow> json" where
  "rights_payload r = JObj
     [(''dimension'', JStr ''RIGHTS_EXPOSURE''),
      (''state'', JStr (assessment_state_value (ra_state r))),
      (''verdict'', JStr (rights_verdict_value (ra_verdict r))),
      (''confidence'', JFloat (ra_confidence r)),
      (''claims'', JArr (map claim_payload (canonical_claims (ra_claims r)))),
      (''limitations'', strs (sort (ra_limitations r)))]"

definition deployment_payload :: "deployment_assessment \<Rightarrow> json" where
  "deployment_payload d = JObj
     [(''dimension'', JStr ''DEPLOYMENT_READINESS''),
      (''state'', JStr (assessment_state_value (da_state d))),
      (''decision'', JStr (deployment_decision_value (da_decision d))),
      (''confidence'', JFloat (da_confidence d)),
      (''claims'', JArr (map claim_payload (canonical_claims (da_claims d)))),
      (''policy_citations'', strs (sort (da_policy_citations d))),
      (''limitations'', strs (sort (da_limitations d)))]"

definition assessment_schema :: string where
  "assessment_schema = ''veilgraph.rightsgate.assessment.v1''"

definition assessment_payload :: "runtime \<Rightarrow> rightsgate_assessment \<Rightarrow> json" where
  "assessment_payload rt a = JObj
     [(''schema'', JStr assessment_schema),
      (''assessment_id'', JStr (as_assessment_id a)),
      (''created_at'', JStr (rt_datetime rt (as_created_at a))),
      (''asset'', descriptor_payload True (as_asset a)),
      (''context'', context_payload True (as_context a)),
      (''components'', JArr (map (component_payload True) (sort_key co_component_id (as_components a)))),
      (''evidence'', JArr (map (evidence_payload True) (sort_key ev_evidence_id (as_evidence a)))),
      (''exposure_graph'', graph_payload (as_exposure_graph a)),
      (''provenance'', provenance_payload (as_provenance a)),
      (''rights'', rights_payload (as_rights a)),
      (''deployment'', deployment_payload (as_deployment a))]"

definition assessment_commitment :: "runtime \<Rightarrow> rightsgate_assessment \<Rightarrow> string" where
  "assessment_commitment rt a = sha256_json rt (assessment_payload rt a)"

subsection \<open>Payloads determine documents\<close>

text \<open>Field-wise reading of an object whose canonical form is known.\<close>

lemmas obj_field = canon_obj_lookup

lemma map_of_opt_field:
  "map_of (opt_field ex k f v @ rest) k' =
     (if k' = k \<and> (v \<noteq> None \<or> \<not> ex) then Some (case v of None \<Rightarrow> JNull | Some x \<Rightarrow> f x)
      else map_of rest k')"
  by (cases v) auto

lemma map_of_opt_field_last:
  "map_of (opt_field ex k f v) k' =
     (if k' = k \<and> (v \<noteq> None \<or> \<not> ex) then Some (case v of None \<Rightarrow> JNull | Some x \<Rightarrow> f x) else None)"
  by (cases v) auto

lemmas field_lookup = map_of_opt_field map_of_opt_field_last

lemma strs_inj [simp]: "canon (strs xs) = canon (strs ys) \<longleftrightarrow> xs = ys"
proof -
  have c: "canon (strs zs) = strs zs" for zs by (induction zs) (auto simp: strs_def)
  have "inj JStr" by (simp add: inj_def)
  then show ?thesis unfolding c by (auto simp: strs_def dest: map_injective)
qed

lemma bbox_json_not_null [simp]:
  "canon (bbox_json a) \<noteq> JNull" "JNull \<noteq> canon (bbox_json a)" "bbox_json a \<noteq> JNull"
  by (cases a; simp)+

lemma bbox_json_inj [simp]: "canon (bbox_json a) = canon (bbox_json b) \<longleftrightarrow> a = b"
  by (cases a; cases b) auto

lemma attr_json_inj [simp]: "attr_json a = attr_json b \<longleftrightarrow> a = b"
  by (cases a; cases b) auto

lemma canon_attr_json [simp]: "canon (attr_json a) = attr_json a"
  by (cases a) auto

text \<open>An attribute dictionary up to the order of its entries.\<close>

definition sort_attrs :: "attributes \<Rightarrow> attributes" where
  "sort_attrs attrs = sort_key fst attrs"

lemma attributes_json_inj: "canon (attributes_json a) = canon (attributes_json b) \<longleftrightarrow> sort_attrs a = sort_attrs b"
proof -
  have canon_attrs: "canon (attributes_json c) = JObj (map (map_prod id attr_json) (sort_attrs c))" for c
  proof -
    have "map (map_prod id canon) (map (\<lambda>kv. (fst kv, attr_json (snd kv))) c) = map (map_prod id attr_json) c"
      by (simp add: map_prod_def split_beta comp_def)
    then show ?thesis
      unfolding attributes_json_def canon.simps by (simp only: sort_key_map_prod sort_attrs_def)
  qed
  have "inj (map_prod id attr_json)" by (auto simp: inj_def)
  then have "map (map_prod id attr_json) xs = map (map_prod id attr_json) ys \<longleftrightarrow> xs = ys" for xs ys
    by (rule inj_map_eq_map)
  then show ?thesis by (simp only: canon_attrs json.inject)
qed

lemma map_canon_inj:
  assumes "map canon (map f xs) = map canon (map g ys)"
    and "\<And>x y. x \<in> set xs \<Longrightarrow> y \<in> set ys \<Longrightarrow> canon (f x) = canon (g y) \<Longrightarrow> h x = h y"
  shows "map h xs = map h ys"
  using assms
proof (induction xs arbitrary: ys)
  case (Cons x xs)
  then show ?case by (cases ys) auto
qed auto

lemma locator_payload_inj:
  assumes "canon (locator_payload ex a) = canon (locator_payload ex b)"
  shows "a = b"
proof -
  note F = assms [unfolded locator_payload_def, THEN obj_field]
  have "loc_kind a = loc_kind b" using F [of "''kind''"] by (simp add: field_lookup del: map_of_append)
  moreover have "loc_page_index a = loc_page_index b"
    using F [of "''page_index''"] by (simp add: field_lookup del: map_of_append not_None_eq split: option.splits if_splits)
  moreover have "loc_frame_index a = loc_frame_index b"
    using F [of "''frame_index''"] by (simp add: field_lookup del: map_of_append not_None_eq split: option.splits if_splits)
  moreover have "loc_bbox a = loc_bbox b"
    using F [of "''bbox''"] by (simp add: field_lookup del: map_of_append not_None_eq split: option.splits if_splits)
  moreover have "loc_start_seconds a = loc_start_seconds b"
    using F [of "''start_seconds''"] by (simp add: field_lookup del: map_of_append not_None_eq split: option.splits if_splits)
  moreover have "loc_end_seconds a = loc_end_seconds b"
    using F [of "''end_seconds''"] by (simp add: field_lookup del: map_of_append not_None_eq split: option.splits if_splits)
  moreover have "loc_text_start a = loc_text_start b"
    using F [of "''text_start''"] by (simp add: field_lookup del: map_of_append not_None_eq split: option.splits if_splits)
  moreover have "loc_text_end a = loc_text_end b"
    using F [of "''text_end''"] by (simp add: field_lookup del: map_of_append not_None_eq split: option.splits if_splits)
  moreover have "loc_metadata_path a = loc_metadata_path b"
    using F [of "''metadata_path''"] by (simp add: field_lookup del: map_of_append not_None_eq split: option.splits if_splits)
  ultimately show ?thesis by simp
qed

lemma descriptor_payload_inj:
  assumes "canon (descriptor_payload ex a) = canon (descriptor_payload ex b)"
  shows "a = b"
proof -
  note F = assms [unfolded descriptor_payload_def, THEN obj_field]
  have "ad_asset_id a = ad_asset_id b" using F [of "''asset_id''"] by (simp add: field_lookup del: map_of_append)
  moreover have "ad_sha256 a = ad_sha256 b" using F [of "''sha256''"] by (simp add: field_lookup del: map_of_append)
  moreover have "ad_media_kind a = ad_media_kind b" using F [of "''media_kind''"] by (simp add: field_lookup del: map_of_append)
  moreover have "ad_media_type a = ad_media_type b" using F [of "''media_type''"] by (simp add: field_lookup del: map_of_append)
  moreover have "ad_size_bytes a = ad_size_bytes b" using F [of "''size_bytes''"] by (simp add: field_lookup del: map_of_append)
  moreover have "ad_original_filename a = ad_original_filename b" using F [of "''original_filename''"] by (simp add: field_lookup del: map_of_append)
  moreover have "ad_duration_seconds a = ad_duration_seconds b"
    using F [of "''duration_seconds''"] by (simp add: field_lookup del: map_of_append not_None_eq split: option.splits if_splits)
  moreover have "ad_width a = ad_width b"
    using F [of "''width''"] by (simp add: field_lookup del: map_of_append not_None_eq split: option.splits if_splits)
  moreover have "ad_height a = ad_height b"
    using F [of "''height''"] by (simp add: field_lookup del: map_of_append not_None_eq split: option.splits if_splits)
  ultimately show ?thesis by simp
qed

lemma context_payload_inj:
  assumes "canon (context_payload ex a) = canon (context_payload ex b)"
  shows "a = b"
proof -
  note F = assms [unfolded context_payload_def, THEN obj_field]
  have "cx_policy_id a = cx_policy_id b" using F [of "''policy_id''"] by (simp add: field_lookup del: map_of_append)
  moreover have "cx_policy_version a = cx_policy_version b" using F [of "''policy_version''"] by (simp add: field_lookup del: map_of_append)
  moreover have "cx_intended_use a = cx_intended_use b" using F [of "''intended_use''"] by (simp add: field_lookup del: map_of_append)
  moreover have "cx_channel a = cx_channel b" using F [of "''channel''"] by (simp add: field_lookup del: map_of_append)
  moreover have "cx_audience a = cx_audience b" using F [of "''audience''"] by (simp add: field_lookup del: map_of_append)
  moreover have "cx_territories a = cx_territories b" using F [of "''territories''"] by (simp add: field_lookup del: map_of_append)
  moreover have "cx_brand_profile a = cx_brand_profile b"
    using F [of "''brand_profile''"] by (simp add: field_lookup del: map_of_append not_None_eq split: option.splits if_splits)
  ultimately show ?thesis by simp
qed

lemma representation_payload_inj:
  assumes "canon (representation_payload ex a) = canon (representation_payload ex b)"
  shows "a = b"
proof -
  note F = assms [unfolded representation_payload_def, THEN obj_field]
  have "ar_locator a = ar_locator b"
    using F [of "''locator''"] by (simp add: field_lookup locator_payload_inj del: map_of_append)
  moreover have "ar_representation_id a = ar_representation_id b" using F [of "''representation_id''"] by (simp add: field_lookup del: map_of_append)
  moreover have "ar_kind a = ar_kind b" using F [of "''kind''"] by (simp add: field_lookup del: map_of_append)
  moreover have "ar_sha256 a = ar_sha256 b" using F [of "''sha256''"] by (simp add: field_lookup del: map_of_append)
  moreover have "ar_media_type a = ar_media_type b" using F [of "''media_type''"] by (simp add: field_lookup del: map_of_append)
  moreover have "ar_size_bytes a = ar_size_bytes b" using F [of "''size_bytes''"] by (simp add: field_lookup del: map_of_append)
  moreover have "ar_component_id a = ar_component_id b"
    using F [of "''component_id''"] by (simp add: field_lookup del: map_of_append not_None_eq split: option.splits if_splits)
  moreover have "ar_component_version a = ar_component_version b"
    using F [of "''component_version''"] by (simp add: field_lookup del: map_of_append not_None_eq split: option.splits if_splits)
  ultimately show ?thesis by simp
qed

text \<open>The documents with the lists and dictionaries whose order carries no meaning sorted.\<close>

definition canonical_evidence :: "evidence_pointer \<Rightarrow> evidence_pointer" where
  "canonical_evidence e = e\<lparr>ev_attributes := sort_attrs (ev_attributes e)\<rparr>"

definition canonical_node :: "graph_node \<Rightarrow> graph_node" where
  "canonical_node n = n\<lparr>gn_attributes := sort_attrs (gn_attributes n)\<rparr>"

definition canonical_edge :: "graph_edge \<Rightarrow> graph_edge" where
  "canonical_edge e = e\<lparr>ge_attributes := sort_attrs (ge_attributes e)\<rparr>"

definition canonical_asset_ir :: "asset_ir \<Rightarrow> asset_ir" where
  "canonical_asset_ir ir = ir\<lparr>ir_representations := sort_key ar_representation_id (ir_representations ir)\<rparr>"

definition canonical_request :: "assessment_request \<Rightarrow> assessment_request" where
  "canonical_request r = r\<lparr>rq_idempotency_key := [], rq_asset_ir := canonical_asset_ir (rq_asset_ir r)\<rparr>"

definition canonical_graph :: "exposure_graph \<Rightarrow> exposure_graph" where
  "canonical_graph g = g\<lparr>gr_nodes := map canonical_node (sort_key gn_node_id (gr_nodes g)),
     gr_edges := map canonical_edge (sort_key ge_edge_id (gr_edges g))\<rparr>"

definition canonical_provenance :: "provenance_assessment \<Rightarrow> provenance_assessment" where
  "canonical_provenance p = p\<lparr>pa_claims := canonical_claims (pa_claims p), pa_limitations := sort (pa_limitations p)\<rparr>"

definition canonical_rights :: "rights_assessment \<Rightarrow> rights_assessment" where
  "canonical_rights r = r\<lparr>ra_claims := canonical_claims (ra_claims r), ra_limitations := sort (ra_limitations r)\<rparr>"

definition canonical_deployment :: "deployment_assessment \<Rightarrow> deployment_assessment" where
  "canonical_deployment d = d\<lparr>da_claims := canonical_claims (da_claims d),
     da_policy_citations := sort (da_policy_citations d), da_limitations := sort (da_limitations d)\<rparr>"

definition canonical_assessment :: "rightsgate_assessment \<Rightarrow> rightsgate_assessment" where
  "canonical_assessment a = a\<lparr>
     as_components := sort_key co_component_id (as_components a),
     as_evidence := map canonical_evidence (sort_key ev_evidence_id (as_evidence a)),
     as_exposure_graph := canonical_graph (as_exposure_graph a),
     as_provenance := canonical_provenance (as_provenance a),
     as_rights := canonical_rights (as_rights a),
     as_deployment := canonical_deployment (as_deployment a)\<rparr>"

lemma evidence_payload_inj:
  assumes "canon (evidence_payload ex a) = canon (evidence_payload ex b)"
  shows "canonical_evidence a = canonical_evidence b"
proof -
  note F = assms [unfolded evidence_payload_def, THEN obj_field]
  have "ev_evidence_id a = ev_evidence_id b"
    using F [of "''evidence_id''"] by (simp add: field_lookup del: map_of_append)
  moreover have "ev_asset_sha256 a = ev_asset_sha256 b"
    using F [of "''asset_sha256''"] by (simp add: field_lookup del: map_of_append)
  moreover have "ev_kind a = ev_kind b"
    using F [of "''kind''"] by (simp add: field_lookup del: map_of_append)
  moreover have "ev_source a = ev_source b"
    using F [of "''source''"] by (simp add: field_lookup del: map_of_append)
  moreover have "ev_component_id a = ev_component_id b"
    using F [of "''component_id''"] by (simp add: field_lookup del: map_of_append)
  moreover have "ev_component_version a = ev_component_version b"
    using F [of "''component_version''"] by (simp add: field_lookup del: map_of_append)
  moreover have "ev_polarity a = ev_polarity b"
    using F [of "''polarity''"] by (simp add: field_lookup del: map_of_append)
  moreover have "ev_confidence a = ev_confidence b"
    using F [of "''confidence''"] by (simp add: field_lookup del: map_of_append)
  moreover have "ev_locator a = ev_locator b"
    using F [of "''locator''"] by (simp add: field_lookup locator_payload_inj del: map_of_append)
  moreover have "ev_summary a = ev_summary b"
    using F [of "''summary''"] by (simp add: field_lookup del: map_of_append)
  moreover have "ev_payload_sha256 a = ev_payload_sha256 b"
    using F [of "''payload_sha256''"] by (simp add: field_lookup del: map_of_append not_None_eq split: option.splits if_splits)
  moreover have "sort_attrs (ev_attributes a) = sort_attrs (ev_attributes b)"
    using F [of "''attributes''"] by (simp add: field_lookup attributes_json_inj del: map_of_append)
  ultimately show ?thesis by (simp add: canonical_evidence_def)
qed

lemma claim_payload_inj:
  assumes "canon (claim_payload a) = canon (claim_payload b)"
  shows "a = b"
proof -
  note F = assms [unfolded claim_payload_def, THEN obj_field]
  have "cl_claim_id a = cl_claim_id b"
    using F [of "''claim_id''"] by (simp add: field_lookup del: map_of_append)
  moreover have "cl_dimension a = cl_dimension b"
    using F [of "''dimension''"] by (simp add: field_lookup del: map_of_append)
  moreover have "cl_claim_type a = cl_claim_type b"
    using F [of "''claim_type''"] by (simp add: field_lookup del: map_of_append)
  moreover have "cl_statement a = cl_statement b"
    using F [of "''statement''"] by (simp add: field_lookup del: map_of_append)
  moreover have "cl_outcome a = cl_outcome b"
    using F [of "''outcome''"] by (simp add: field_lookup del: map_of_append)
  moreover have "cl_confidence a = cl_confidence b"
    using F [of "''confidence''"] by (simp add: field_lookup del: map_of_append)
  moreover have "cl_mandatory a = cl_mandatory b"
    using F [of "''mandatory''"] by (simp add: field_lookup del: map_of_append)
  moreover have "cl_evidence_ids a = cl_evidence_ids b"
    using F [of "''evidence_ids''"] by (simp add: field_lookup del: map_of_append)
  moreover have "cl_limitations a = cl_limitations b"
    using F [of "''limitations''"] by (simp add: field_lookup del: map_of_append)
  ultimately show ?thesis by simp
qed

lemma component_payload_inj:
  assumes "canon (component_payload ex a) = canon (component_payload ex b)"
  shows "a = b"
proof -
  note F = assms [unfolded component_payload_def, THEN obj_field]
  have "co_component_id a = co_component_id b"
    using F [of "''component_id''"] by (simp add: field_lookup del: map_of_append)
  moreover have "co_component_version a = co_component_version b"
    using F [of "''component_version''"] by (simp add: field_lookup del: map_of_append)
  moreover have "co_component_type a = co_component_type b"
    using F [of "''component_type''"] by (simp add: field_lookup del: map_of_append)
  moreover have "co_state a = co_state b"
    using F [of "''state''"] by (simp add: field_lookup del: map_of_append)
  moreover have "co_mandatory a = co_mandatory b"
    using F [of "''mandatory''"] by (simp add: field_lookup del: map_of_append)
  moreover have "co_artifact_sha256 a = co_artifact_sha256 b"
    using F [of "''artifact_sha256''"] by (simp add: field_lookup del: map_of_append not_None_eq split: option.splits if_splits)
  moreover have "co_reason a = co_reason b"
    using F [of "''reason''"] by (simp add: field_lookup del: map_of_append not_None_eq split: option.splits if_splits)
  ultimately show ?thesis by simp
qed

lemma node_payload_inj:
  assumes "canon (node_payload a) = canon (node_payload b)"
  shows "canonical_node a = canonical_node b"
proof -
  note F = assms [unfolded node_payload_def, THEN obj_field]
  have "gn_node_id a = gn_node_id b"
    using F [of "''node_id''"] by (simp add: field_lookup del: map_of_append)
  moreover have "gn_kind a = gn_kind b"
    using F [of "''kind''"] by (simp add: field_lookup del: map_of_append)
  moreover have "gn_label a = gn_label b"
    using F [of "''label''"] by (simp add: field_lookup del: map_of_append)
  moreover have "gn_evidence_ids a = gn_evidence_ids b"
    using F [of "''evidence_ids''"] by (simp add: field_lookup del: map_of_append)
  moreover have "sort_attrs (gn_attributes a) = sort_attrs (gn_attributes b)"
    using F [of "''attributes''"] by (simp add: field_lookup attributes_json_inj del: map_of_append)
  ultimately show ?thesis by (simp add: canonical_node_def)
qed

lemma edge_payload_inj:
  assumes "canon (edge_payload a) = canon (edge_payload b)"
  shows "canonical_edge a = canonical_edge b"
proof -
  note F = assms [unfolded edge_payload_def, THEN obj_field]
  have "ge_edge_id a = ge_edge_id b"
    using F [of "''edge_id''"] by (simp add: field_lookup del: map_of_append)
  moreover have "ge_kind a = ge_kind b"
    using F [of "''kind''"] by (simp add: field_lookup del: map_of_append)
  moreover have "ge_source_node_id a = ge_source_node_id b"
    using F [of "''source_node_id''"] by (simp add: field_lookup del: map_of_append)
  moreover have "ge_target_node_id a = ge_target_node_id b"
    using F [of "''target_node_id''"] by (simp add: field_lookup del: map_of_append)
  moreover have "ge_confidence a = ge_confidence b"
    using F [of "''confidence''"] by (simp add: field_lookup del: map_of_append)
  moreover have "ge_evidence_ids a = ge_evidence_ids b"
    using F [of "''evidence_ids''"] by (simp add: field_lookup del: map_of_append)
  moreover have "sort_attrs (ge_attributes a) = sort_attrs (ge_attributes b)"
    using F [of "''attributes''"] by (simp add: field_lookup attributes_json_inj del: map_of_append)
  ultimately show ?thesis by (simp add: canonical_edge_def)
qed

lemma claims_payload_inj:
  "map canon (map claim_payload xs) = map canon (map claim_payload ys) \<Longrightarrow> xs = ys"
  using map_canon_inj [of claim_payload xs claim_payload ys "\<lambda>x. x"] claim_payload_inj by simp

lemma JArr_map_inj:
  assumes "canon (JArr (map f xs)) = canon (JArr (map f ys))"
    and "\<And>x y. canon (f x) = canon (f y) \<Longrightarrow> h x = h y"
  shows "map h xs = map h ys"
  using assms(1) by (intro map_canon_inj [where f = f and g = f] assms(2)) (simp_all only: canon.simps json.inject)

lemma asset_ir_payload_inj:
  assumes "canon (asset_ir_payload a) = canon (asset_ir_payload b)"
  shows "canonical_asset_ir a = canonical_asset_ir b"
proof -
  note F = assms [unfolded asset_ir_payload_def, THEN obj_field]
  have "ir_asset a = ir_asset b"
    using F [of "''asset''"] by (intro descriptor_payload_inj [where ex = True]) simp
  moreover have "map (\<lambda>x. x) (sort_key ar_representation_id (ir_representations a)) =
      map (\<lambda>x. x) (sort_key ar_representation_id (ir_representations b))"
    using F [of "''representations''"] by (intro JArr_map_inj [where f = "representation_payload True"]) (auto intro: representation_payload_inj)
  ultimately show ?thesis by (simp add: canonical_asset_ir_def)
qed

lemma map_dimension_value_inj: "map claim_dimension_value xs = map claim_dimension_value ys \<longleftrightarrow> xs = ys"
  by (rule inj_map_eq_map) (simp add: inj_def)

lemma request_payload_inj:
  assumes "canon (request_payload a) = canon (request_payload b)"
  shows "canonical_request a = canonical_request b"
proof -
  note F = assms [unfolded request_payload_def, THEN obj_field]
  have "canonical_asset_ir (rq_asset_ir a) = canonical_asset_ir (rq_asset_ir b)"
    using F [of "''asset_ir''"] by (intro asset_ir_payload_inj) simp
  moreover have "rq_context a = rq_context b"
    using F [of "''context''"] by (intro context_payload_inj [where ex = True]) simp
  moreover have "rq_requested_dimensions a = rq_requested_dimensions b"
    using F [of "''requested_dimensions''"] by (simp add: map_dimension_value_inj)
  ultimately show ?thesis by (simp add: canonical_request_def)
qed

lemma graph_payload_inj:
  assumes "canon (graph_payload a) = canon (graph_payload b)"
  shows "canonical_graph a = canonical_graph b"
proof -
  note F = assms [unfolded graph_payload_def, THEN obj_field]
  have "gr_asset_sha256 a = gr_asset_sha256 b" using F [of "''asset_sha256''"] by simp
  moreover have "gr_root_node_id a = gr_root_node_id b" using F [of "''root_node_id''"] by simp
  moreover have "map canonical_node (sort_key gn_node_id (gr_nodes a)) =
      map canonical_node (sort_key gn_node_id (gr_nodes b))"
    using F [of "''nodes''"] by (intro JArr_map_inj [where f = "node_payload"]) (auto intro: node_payload_inj)
  moreover have "map canonical_edge (sort_key ge_edge_id (gr_edges a)) =
      map canonical_edge (sort_key ge_edge_id (gr_edges b))"
    using F [of "''edges''"] by (intro JArr_map_inj [where f = "edge_payload"]) (auto intro: edge_payload_inj)
  ultimately show ?thesis by (simp add: canonical_graph_def)
qed

lemma provenance_payload_inj:
  assumes "canon (provenance_payload a) = canon (provenance_payload b)"
  shows "canonical_provenance a = canonical_provenance b"
proof -
  note F = assms [unfolded provenance_payload_def, THEN obj_field]
  have "pa_state a = pa_state b" using F [of "''state''"] by simp
  moreover have "pa_verdict a = pa_verdict b" using F [of "''verdict''"] by simp
  moreover have "pa_confidence a = pa_confidence b" using F [of "''confidence''"] by simp
  moreover have "map (\<lambda>x. x) (canonical_claims (pa_claims a)) = map (\<lambda>x. x) (canonical_claims (pa_claims b))"
    using F [of "''claims''"] by (intro JArr_map_inj [where f = "claim_payload"]) (auto intro: claim_payload_inj)
  moreover have "sort (pa_limitations a) = sort (pa_limitations b)" using F [of "''limitations''"] by simp
  ultimately show ?thesis by (simp add: canonical_provenance_def)
qed

lemma rights_payload_inj:
  assumes "canon (rights_payload a) = canon (rights_payload b)"
  shows "canonical_rights a = canonical_rights b"
proof -
  note F = assms [unfolded rights_payload_def, THEN obj_field]
  have "ra_state a = ra_state b" using F [of "''state''"] by simp
  moreover have "ra_verdict a = ra_verdict b" using F [of "''verdict''"] by simp
  moreover have "ra_confidence a = ra_confidence b" using F [of "''confidence''"] by simp
  moreover have "map (\<lambda>x. x) (canonical_claims (ra_claims a)) = map (\<lambda>x. x) (canonical_claims (ra_claims b))"
    using F [of "''claims''"] by (intro JArr_map_inj [where f = "claim_payload"]) (auto intro: claim_payload_inj)
  moreover have "sort (ra_limitations a) = sort (ra_limitations b)" using F [of "''limitations''"] by simp
  ultimately show ?thesis by (simp add: canonical_rights_def)
qed

lemma deployment_payload_inj:
  assumes "canon (deployment_payload a) = canon (deployment_payload b)"
  shows "canonical_deployment a = canonical_deployment b"
proof -
  note F = assms [unfolded deployment_payload_def, THEN obj_field]
  have "da_state a = da_state b" using F [of "''state''"] by simp
  moreover have "da_decision a = da_decision b" using F [of "''decision''"] by simp
  moreover have "da_confidence a = da_confidence b" using F [of "''confidence''"] by simp
  moreover have "map (\<lambda>x. x) (canonical_claims (da_claims a)) = map (\<lambda>x. x) (canonical_claims (da_claims b))"
    using F [of "''claims''"] by (intro JArr_map_inj [where f = "claim_payload"]) (auto intro: claim_payload_inj)
  moreover have "sort (da_policy_citations a) = sort (da_policy_citations b)" using F [of "''policy_citations''"] by simp
  moreover have "sort (da_limitations a) = sort (da_limitations b)" using F [of "''limitations''"] by simp
  ultimately show ?thesis by (simp add: canonical_deployment_def)
qed

lemma assessment_payload_inj:
  assumes "canon (assessment_payload rt a) = canon (assessment_payload rt b)"
    and "rt_datetime rt (as_created_at a) = rt_datetime rt (as_created_at b) \<Longrightarrow> as_created_at a = as_created_at b"
  shows "canonical_assessment a = canonical_assessment b"
proof -
  note F = assms(1) [unfolded assessment_payload_def, THEN obj_field]
  have "as_assessment_id a = as_assessment_id b" using F [of "''assessment_id''"] by simp
  moreover have "as_created_at a = as_created_at b" using F [of "''created_at''"] assms(2) by simp
  moreover have "as_asset a = as_asset b"
    using F [of "''asset''"] by (intro descriptor_payload_inj [where ex = True]) simp
  moreover have "as_context a = as_context b"
    using F [of "''context''"] by (intro context_payload_inj [where ex = True]) simp
  moreover have "map (\<lambda>x. x) (sort_key co_component_id (as_components a)) =
      map (\<lambda>x. x) (sort_key co_component_id (as_components b))"
    using F [of "''components''"] by (intro JArr_map_inj [where f = "component_payload True"]) (auto intro: component_payload_inj)
  moreover have "map canonical_evidence (sort_key ev_evidence_id (as_evidence a)) =
      map canonical_evidence (sort_key ev_evidence_id (as_evidence b))"
    using F [of "''evidence''"] by (intro JArr_map_inj [where f = "evidence_payload True"]) (auto intro: evidence_payload_inj)
  moreover have "canonical_graph (as_exposure_graph a) = canonical_graph (as_exposure_graph b)"
    using F [of "''exposure_graph''"] by (intro graph_payload_inj) simp
  moreover have "canonical_provenance (as_provenance a) = canonical_provenance (as_provenance b)"
    using F [of "''provenance''"] by (intro provenance_payload_inj) simp
  moreover have "canonical_rights (as_rights a) = canonical_rights (as_rights b)"
    using F [of "''rights''"] by (intro rights_payload_inj) simp
  moreover have "canonical_deployment (as_deployment a) = canonical_deployment (as_deployment b)"
    using F [of "''deployment''"] by (intro deployment_payload_inj) simp
  ultimately show ?thesis by (simp add: canonical_assessment_def)
qed

end
