(* ===== verification/Evidence.thy ===== *)
theory Evidence
  imports Payloads
begin

section \<open>Building evidence and claims\<close>

text \<open>
  What the evaluators share: identifiers derived from digests, the loops that build one evidence
  pointer and one claim per item, and the normalisation of governed scopes (territories, channels,
  intended uses, validity windows), which the licence, consent and policy modules write out in the
  same way. \<open>sha_ok\<close> is the documented shape of \<open>hashlib.sha256(...).hexdigest()\<close>: 64 lower-case
  hexadecimal digits.
\<close>

subsection \<open>Digests and identifiers\<close>

definition sha_ok :: "runtime \<Rightarrow> bool" where
  "sha_ok rt \<longleftrightarrow> (\<forall>s. is_sha256 (rt_sha256 rt s))"

lemma sha_okD [simp]: "sha_ok rt \<Longrightarrow> is_sha256 (rt_sha256 rt s)"
  by (simp add: sha_ok_def)

lemma sha_ok_json [simp]: "sha_ok rt \<Longrightarrow> is_sha256 (sha256_json rt j)"
  by (simp add: sha256_json_def)

lemma sha_ok_receipt [simp]: "sha_ok rt \<Longrightarrow> is_sha256 (receipt_hash rt j)"
  by (simp add: receipt_hash_def)

text \<open>\<open>asset_sha256[:16]\<close> and \<open>hashlib.sha256(s.encode("utf-8")).hexdigest()[:16]\<close>.\<close>

definition short :: "string \<Rightarrow> string" where
  "short sha = take 16 sha"

definition token :: "runtime \<Rightarrow> string \<Rightarrow> string" where
  "token rt s = take 16 (rt_sha256 rt s)"

lemma short_chars [simp]: "is_sha256 sha \<Longrightarrow> list_all is_id_char (short sha)"
  by (simp add: short_def is_sha256_take)

lemma token_chars [simp]: "sha_ok rt \<Longrightarrow> list_all is_id_char (token rt s)"
  by (simp add: token_def is_sha256_take)

lemma length_short [simp]: "is_sha256 sha \<Longrightarrow> length (short sha) = 16"
  by (simp add: short_def is_sha256_def)

lemma length_token [simp]: "sha_ok rt \<Longrightarrow> length (token rt s) = 16"
  using sha_okD [of rt s] by (simp add: token_def is_sha256_def)

text \<open>
  The f-strings \<open>prefix{asset_sha256[:16]}\<close> and \<open>prefix{token}-{asset_sha256[:16]}\<close> of evidence and
  claim identifiers.
\<close>

definition asset_id_text :: "string \<Rightarrow> string \<Rightarrow> string" where
  "asset_id_text prefix asset_sha256 = prefix @ short asset_sha256"

definition token_id_text :: "runtime \<Rightarrow> string \<Rightarrow> string \<Rightarrow> string \<Rightarrow> string" where
  "token_id_text rt prefix s asset_sha256 = prefix @ token rt s @ ''-'' @ short asset_sha256"

lemma is_id_asset_id_text [simp]:
  "is_id p \<Longrightarrow> length p \<le> 100 \<Longrightarrow> is_sha256 sha \<Longrightarrow> is_id (asset_id_text p sha)"
  unfolding asset_id_text_def by (rule is_id_append) simp_all

lemma is_id_token_id_text [simp]:
  "is_id p \<Longrightarrow> length p \<le> 80 \<Longrightarrow> sha_ok rt \<Longrightarrow> is_sha256 sha \<Longrightarrow> is_id (token_id_text rt p s sha)"
  unfolding token_id_text_def by (rule is_id_append) (simp_all add: is_id_char_def ord_def)

lemma token_id_text_inj:
  "sha_ok rt \<Longrightarrow> token_id_text rt p s sha = token_id_text rt p t sha \<longleftrightarrow> token rt s = token rt t"
  by (auto simp: token_id_text_def)

lemma is_id_not_Nil [simp]: "\<not> is_id []"
  by (simp add: is_id_def)

text \<open>Evaluating the pattern on a literal.\<close>

lemmas id_eval = is_id_def is_id_head_def is_id_char_def is_lower_def is_digit_def ord_def

lemma sort_key_eq_Nil_iff [simp]: "sort_key f xs = [] \<longleftrightarrow> xs = []"
  by (metis length_0_conv length_sort)

subsection \<open>One evidence pointer and one claim per item\<close>

definition collect_pairs ::
    "('a \<Rightarrow> evidence_pointer) \<Rightarrow> ('a \<Rightarrow> claim_record) \<Rightarrow> 'a list \<Rightarrow> (evidence_pointer \<times> claim_record) list res" where
  "collect_pairs ev cl xs =
     res_map (\<lambda>x. res_bind (validate_evidence (ev x)) (\<lambda>e. res_bind (validate_claim (cl x)) (\<lambda>c. Inr (e, c)))) xs"

lemma collect_pairs_ok:
  assumes "\<And>x. x \<in> set xs \<Longrightarrow> wf_evidence (ev x)" and "\<And>x. x \<in> set xs \<Longrightarrow> wf_claim (cl x)"
  shows "collect_pairs ev cl xs = Inr (map (\<lambda>x. (ev x, cl x)) xs)"
  unfolding collect_pairs_def
  by (rule res_map_total) (simp add: assms evidence.validate_fix claim.validate_fix)

lemma map_pair_projections [simp]:
  "map fst (map (\<lambda>x. (f x, g x)) xs) = map f xs"
  "map snd (map (\<lambda>x. (f x, g x)) xs) = map g xs"
  by simp_all

text \<open>The same loop where the evidence constructs a locator of its own (a region, a time range).\<close>

definition collect_located ::
    "('a \<Rightarrow> evidence_pointer) \<Rightarrow> ('a \<Rightarrow> claim_record) \<Rightarrow> 'a list \<Rightarrow> (evidence_pointer \<times> claim_record) list res" where
  "collect_located ev cl xs =
     res_map (\<lambda>x. res_bind (validate_locator (ev_locator (ev x))) (\<lambda>_. res_bind (validate_evidence (ev x)) (\<lambda>e.
       res_bind (validate_claim (cl x)) (\<lambda>c. Inr (e, c))))) xs"

lemma collect_located_ok:
  assumes "\<And>x. x \<in> set xs \<Longrightarrow> wf_locator (ev_locator (ev x))" and "\<And>x. x \<in> set xs \<Longrightarrow> wf_evidence (ev x)"
    and "\<And>x. x \<in> set xs \<Longrightarrow> wf_claim (cl x)"
  shows "collect_located ev cl xs = Inr (map (\<lambda>x. (ev x, cl x)) xs)"
  unfolding collect_located_def
  by (rule res_map_total) (simp add: assms locator.validate_fix evidence.validate_fix claim.validate_fix)

text \<open>
  What every analysis lane owes the assessment: its component record and evidence are valid, the
  evidence is bound to the asset and to the component at its version, and its claims are valid and
  cite evidence of the lane only.
\<close>

definition lane_sound ::
    "string \<Rightarrow> component_record \<Rightarrow> evidence_pointer list \<Rightarrow> claim_record list \<Rightarrow> bool" where
  "lane_sound asset component evidence claims \<longleftrightarrow>
     wf_component component \<and>
     (\<forall>e \<in> set evidence. wf_evidence e \<and> ev_asset_sha256 e = asset \<and>
        ev_component_id e = co_component_id component \<and>
        ev_component_version e = co_component_version component) \<and>
     (\<forall>c \<in> set claims. wf_claim c \<and> set (cl_evidence_ids c) \<subseteq> ev_evidence_id ` set evidence)"

lemma lane_sound_pairs:
  assumes "wf_component component"
    and "\<And>x. x \<in> set xs \<Longrightarrow> wf_evidence (ev x) \<and> ev_asset_sha256 (ev x) = asset \<and>
        ev_component_id (ev x) = co_component_id component \<and>
        ev_component_version (ev x) = co_component_version component"
    and "\<And>x. x \<in> set xs \<Longrightarrow> wf_claim (cl x) \<and> cl_evidence_ids (cl x) = [ev_evidence_id (ev x)]"
  shows "lane_sound asset component (map ev xs) (map cl xs)"
  using assms by (auto simp: lane_sound_def)

subsection \<open>Governed scopes\<close>

text \<open>\<open>normalize_territories\<close> with the wildcard, and the normalisation of channels and uses.\<close>

definition scope_territory :: "string \<Rightarrow> bool" where
  "scope_territory v \<longleftrightarrow> v = ''*'' \<or> territory_code v"

definition scope_text :: "string list \<Rightarrow> string list" where
  "scope_text values = sorted_set (map (\<lambda>v. casefold (strip v)) (filter (\<lambda>v. strip v \<noteq> []) values))"

lemma scope_text_idem [simp]: "scope_text (scope_text vs) = scope_text vs"
proof -
  have "\<And>v. v \<in> set (scope_text vs) \<Longrightarrow> strip v = v \<and> casefold v = v \<and> v \<noteq> []"
    by (auto simp: scope_text_def strip_casefold)
  then have "map (\<lambda>v. casefold (strip v)) (filter (\<lambda>v. strip v \<noteq> []) (scope_text vs)) = scope_text vs"
    by (simp add: map_idI filter_id_conv)
  then have "scope_text (scope_text vs) = sorted_set (scope_text vs)"
    by (subst scope_text_def) (rule arg_cong)
  then show ?thesis by (simp add: scope_text_def)
qed

lemma scope_text_mem: "c \<in> set (scope_text vs) \<longleftrightarrow> (\<exists>v \<in> set vs. strip v \<noteq> [] \<and> c = casefold (strip v))"
  by (auto simp: scope_text_def)

text \<open>\<open>"*" in values or x in values\<close> and its version for a set of territories.\<close>

definition scope_allows :: "string list \<Rightarrow> string \<Rightarrow> bool" where
  "scope_allows values x \<longleftrightarrow> ''*'' \<in> set values \<or> x \<in> set values"

definition scope_allows_all :: "string list \<Rightarrow> string list \<Rightarrow> bool" where
  "scope_allows_all values xs \<longleftrightarrow> ''*'' \<in> set values \<or> set xs \<subseteq> set values"

subsection \<open>A runtime to evaluate with\<close>

text \<open>
  Witnesses evaluate the model with a concrete runtime: a digest that pads or truncates a folded
  checksum to 64 digits, floats as reduced fractions, timestamps as their instants.
\<close>

definition checksum_text :: "string \<Rightarrow> string" where
  "checksum_text s = (let t = show_nat (foldl (\<lambda>a c. (a * 31 + ord c) mod 1000000007) 7 s)
     in take 64 (t @ replicate 64 (CHR ''0'')))"

definition demo_runtime :: runtime where
  "demo_runtime = \<lparr>rt_sha256 = checksum_text, rt_float = ratio_text,
     rt_datetime = (\<lambda>d. show_int (instant d)), rt_device_key = replicate 32 (CHR ''k''),
     rt_ed_public = (\<lambda>k. k), rt_ed_sign = (\<lambda>k m. checksum_text (k @ m)),
     rt_ed_verify = (\<lambda>k s m. s = checksum_text (k @ m)), rt_error_text = (\<lambda>_. ''error'')\<rparr>"

lemma is_hex_digit: "is_digit c \<Longrightarrow> is_hex c"
  by (simp add: is_hex_def)

lemma checksum_text_sha: "is_sha256 (checksum_text s)"
proof -
  have "list_all is_hex (show_nat n @ replicate 64 (CHR ''0''))" for n
    using show_nat_digits [of n]
    by (auto simp: list_all_iff is_hex_digit) (auto simp: is_hex_def is_digit_def ord_def)
  then have "list_all is_hex (take 64 (show_nat n @ replicate 64 (CHR ''0'')))" for n
    by (auto simp: list_all_iff dest: in_set_takeD)
  then show ?thesis by (simp add: checksum_text_def is_sha256_def Let_def)
qed

lemma sha_ok_demo [simp]: "sha_ok demo_runtime"
  by (simp add: sha_ok_def demo_runtime_def checksum_text_sha)

definition demo_sha :: string where
  "demo_sha = replicate 64 (CHR ''a'')"

lemma is_sha256_demo [simp]: "is_sha256 demo_sha"
  by (simp add: is_sha256_def demo_sha_def list_all_iff is_hex_def is_digit_def ord_def)

definition demo_context :: assessment_context where
  "demo_context = \<lparr>cx_policy_id = ''policy-1'', cx_policy_version = ''1'', cx_intended_use = ''ad'',
     cx_channel = ''web'', cx_audience = ''public'', cx_territories = [''IN''], cx_brand_profile = None\<rparr>"

definition demo_asset :: asset_descriptor where
  "demo_asset = \<lparr>ad_asset_id = ''asset-1'', ad_sha256 = demo_sha, ad_media_kind = Media_DOCUMENT,
     ad_media_type = ''text/plain'', ad_size_bytes = 10, ad_original_filename = ''a.txt'',
     ad_duration_seconds = None, ad_width = None, ad_height = None\<rparr>"

definition demo_asset_ir :: asset_ir where
  "demo_asset_ir = \<lparr>ir_asset = demo_asset, ir_representations =
     [\<lparr>ar_representation_id = ''original'', ar_kind = Repr_ORIGINAL, ar_sha256 = demo_sha,
       ar_media_type = ''text/plain'', ar_size_bytes = 10, ar_locator = whole_asset, ar_component_id = None,
       ar_component_version = None\<rparr>]\<rparr>"

definition demo_request :: assessment_request where
  "demo_request = \<lparr>rq_idempotency_key = ''key-1'', rq_asset_ir = demo_asset_ir, rq_context = demo_context,
     rq_requested_dimensions = sorted_dimensions\<rparr>"

definition demo_graph :: exposure_graph where
  "demo_graph = \<lparr>gr_asset_sha256 = demo_sha, gr_root_node_id = ''node-1'',
     gr_nodes = [\<lparr>gn_node_id = ''node-1'', gn_kind = Node_ASSET, gn_label = ''asset'', gn_evidence_ids = [],
       gn_attributes = []\<rparr>], gr_edges = []\<rparr>"

definition demo_component :: component_record where
  "demo_component = \<lparr>co_component_id = ''component-1'', co_component_version = ''1'', co_component_type = ''demo'',
     co_state = Comp_AVAILABLE, co_mandatory = True, co_artifact_sha256 = None, co_reason = None\<rparr>"

text \<open>An assessment that releases its asset.\<close>

definition demo_assessment :: rightsgate_assessment where
  "demo_assessment = \<lparr>as_assessment_id = ''assessment-1'', as_created_at = utc 0, as_asset = demo_asset,
     as_context = demo_context, as_components = [demo_component], as_evidence = [],
     as_exposure_graph = demo_graph,
     as_provenance = \<lparr>pa_state = State_COMPLETE, pa_verdict = Prov_AUTHENTIC, pa_confidence = 1, pa_claims = [],
       pa_limitations = []\<rparr>,
     as_rights = \<lparr>ra_state = State_COMPLETE, ra_verdict = Rights_CLEAR, ra_confidence = 1, ra_claims = [],
       ra_limitations = []\<rparr>,
     as_deployment = \<lparr>da_state = State_COMPLETE, da_decision = Decision_GO, da_confidence = 1, da_claims = [],
       da_policy_citations = [''policy-1@1:release.go''], da_limitations = []\<rparr>\<rparr>"

lemma wf_demo_assessment: "wf_assessment demo_assessment"
  by (simp add: wf_assessment_def refs_ok_def go_ok_def demo_assessment_def demo_component_def demo_graph_def
      demo_asset_def all_claims_def graph_evidence_ids_def id_eval)

lemma wf_demo_request: "wf_request demo_request"
  by (simp add: wf_request_def demo_request_def id_eval)

end
