(* ===== verification/Image_Registry.thy ===== *)
theory Image_Registry
  imports Evidence
begin

section \<open>Governed image references and candidate retrieval\<close>

text \<open>
  \<open>rights/image_registry.py\<close>: the registry of governed references, the 64-bit difference hash, and
  \<open>match_reference_image\<close>, which retrieves exact and perceptual candidates and never concludes that
  rights are clear. Pillow and OpenCV are the \<open>image_lib\<close> parameter: the size of an image that
  opens, the 9 by 8 grey pixels of its normalised thumbnail, the size and grey key points of the
  normalised image.
\<close>

subsection \<open>The image library\<close>

text \<open>
  \<open>None\<close> stands for \<open>UnidentifiedImageError\<close>, \<open>OSError\<close> or \<open>DecompressionBombError\<close>. A key point
  is its response, octave, position and 32-byte descriptor; \<open>lib_orb\<close> is \<open>None\<close> when OpenCV
  returns no descriptors.
\<close>

record keypoint =
  kp_response :: rat
  kp_octave :: int
  kp_x :: rat
  kp_y :: rat
  kp_descriptor :: string

record image_lib =
  lib_open :: "string \<Rightarrow> (int \<times> int) option"
  lib_pixels :: "string \<Rightarrow> int list option"
  lib_normal_size :: "string \<Rightarrow> (int \<times> int) option"
  lib_orb :: "string \<Rightarrow> keypoint list option"

definition default_max_pixels :: int where
  "default_max_pixels = 40000000"

definition max_features :: nat where
  "max_features = 384"

definition min_feature_side :: int where
  "min_feature_side = 96"

subsection \<open>Registry models\<close>

datatype reference_kind = Ref_COPYRIGHTED_WORK | Ref_TRADEMARK

primrec reference_kind_value :: "reference_kind \<Rightarrow> string" where
  "reference_kind_value Ref_COPYRIGHTED_WORK = ''COPYRIGHTED_WORK''"
| "reference_kind_value Ref_TRADEMARK = ''TRADEMARK''"

text \<open>\<open>extractor\<close> and \<open>descriptor_size\<close> are literals: \<open>opencv.orb.v1\<close> and 32.\<close>

record feature_manifest =
  fm_image_width :: int
  fm_image_height :: int
  fm_keypoints :: "(rat \<times> rat) list"
  fm_descriptors_b64 :: string

definition validate_manifest :: "feature_manifest \<Rightarrow> feature_manifest res" where
  "validate_manifest m =
     check_fields ''ImageFeatureManifest''
       [(''image_width'', 0 < fm_image_width m), (''image_height'', 0 < fm_image_height m),
        (''keypoints'', len_between 4 max_features (fm_keypoints m) \<and>
           list_all (\<lambda>p. unit_interval (fst p) \<and> unit_interval (snd p)) (fm_keypoints m)),
        (''descriptors_b64'', len_between 1 (max_features * 44) (fm_descriptors_b64 m))]
       (let bad = (\<lambda>t. Inl (ModelError ''ImageFeatureManifest'' t))
        in case b64decode (fm_descriptors_b64 m) of
          None \<Rightarrow> bad ''feature descriptors must be canonical base64''
        | Some raw \<Rightarrow>
            if length raw \<noteq> length (fm_keypoints m) * 32
            then bad ''feature descriptor bytes do not match the keypoint count''
            else if b64encode raw \<noteq> fm_descriptors_b64 m
            then bad ''feature descriptors must use canonical base64 encoding''
            else Inr m)"

definition wf_manifest :: "feature_manifest \<Rightarrow> bool" where
  "wf_manifest m \<longleftrightarrow>
     0 < fm_image_width m \<and> 0 < fm_image_height m \<and> len_between 4 max_features (fm_keypoints m) \<and>
     list_all (\<lambda>p. unit_interval (fst p) \<and> unit_interval (snd p)) (fm_keypoints m) \<and>
     (\<exists>raw. fm_descriptors_b64 m = b64encode raw \<and> length raw = length (fm_keypoints m) * 32)"

lemma wf_manifest_b64_length:
  assumes "length raw = n * 32" and "4 \<le> n" and "n \<le> 384"
  shows "1 \<le> length (b64encode raw)" and "length (b64encode raw) \<le> 16896"
  using assms by (simp_all add: length_b64encode)

interpretation manifest: validated_model validate_manifest wf_manifest
proof
  fix x y
  assume "validate_manifest x = Inr y"
  then show "wf_manifest y"
    by (auto simp: validate_manifest_def wf_manifest_def Let_def split: option.splits if_splits intro: sym)
next
  fix x
  assume wf: "wf_manifest x"
  then obtain raw where raw: "fm_descriptors_b64 x = b64encode raw" "length raw = length (fm_keypoints x) * 32"
    by (auto simp: wf_manifest_def)
  with wf have "len_between 1 (max_features * 44) (fm_descriptors_b64 x)"
    using wf_manifest_b64_length [of raw "length (fm_keypoints x)"]
    by (simp add: wf_manifest_def len_between_def max_features_def)
  with wf raw show "validate_manifest x = Inr x"
    by (simp add: validate_manifest_def wf_manifest_def check_fields_ok Let_def b64_roundtrip)
qed

record registry_image =
  ri_reference_id :: string
  ri_kind :: reference_kind
  ri_title :: string
  ri_rights_holder :: string
  ri_sha256 :: string
  ri_dhash :: string
  ri_media_type :: string
  ri_source_record_id :: string
  ri_feature_manifest :: "feature_manifest option"

definition validate_registry_image :: "registry_image \<Rightarrow> registry_image res" where
  "validate_registry_image r =
     check_fields ''RegistryImage''
       [(''reference_id'', is_id (ri_reference_id r)), (''title'', len_between 1 300 (ri_title r)),
        (''rights_holder'', len_between 1 300 (ri_rights_holder r)), (''sha256'', is_sha256 (ri_sha256 r)),
        (''dhash'', is_dhash (ri_dhash r)), (''media_type'', len_between 1 100 (ri_media_type r)),
        (''source_record_id'', is_id (ri_source_record_id r))]
       (Inr r)"

definition wf_registry_image :: "registry_image \<Rightarrow> bool" where
  "wf_registry_image r \<longleftrightarrow> is_id (ri_reference_id r) \<and> len_between 1 300 (ri_title r) \<and>
     len_between 1 300 (ri_rights_holder r) \<and> is_sha256 (ri_sha256 r) \<and> is_dhash (ri_dhash r) \<and>
     len_between 1 100 (ri_media_type r) \<and> is_id (ri_source_record_id r)"

interpretation registry_image: validated_model validate_registry_image wf_registry_image
  by unfold_locales (auto simp: validate_registry_image_def wf_registry_image_def check_fields_ok)

record rights_registry =
  rr_registry_id :: string
  rr_version :: string
  rr_references :: "registry_image list"

text \<open>The references were validated when they were built, so construction checks the rest.\<close>

definition validate_rights_registry :: "rights_registry \<Rightarrow> rights_registry res" where
  "validate_rights_registry r =
     check_fields ''RightsReferenceRegistry''
       [(''registry_id'', is_id (rr_registry_id r)), (''version'', len_between 1 100 (rr_version r))]
       (if \<not> distinct (map ri_reference_id (rr_references r))
        then Inl (ModelError ''RightsReferenceRegistry'' ''reference_id values must be unique'')
        else Inr r)"

definition wf_rights_registry :: "rights_registry \<Rightarrow> bool" where
  "wf_rights_registry r \<longleftrightarrow> is_id (rr_registry_id r) \<and> len_between 1 100 (rr_version r) \<and>
     distinct (map ri_reference_id (rr_references r))"

interpretation rights_registry: validated_model validate_rights_registry wf_rights_registry
  by unfold_locales (auto simp: validate_rights_registry_def wf_rights_registry_def check_fields_ok split: if_splits)

interpretation references: keyed_registry ri_reference_id rr_references wf_rights_registry
  by unfold_locales (simp add: wf_rights_registry_def)

definition registry_schema :: string where
  "registry_schema = ''veilgraph.rightsgate.rights-reference-registry.v1''"

definition manifest_payload :: "feature_manifest \<Rightarrow> json" where
  "manifest_payload m = JObj
     [(''extractor'', JStr ''opencv.orb.v1''), (''image_width'', JInt (fm_image_width m)),
      (''image_height'', JInt (fm_image_height m)),
      (''keypoints'', JArr (map (\<lambda>p. JArr [JFloat (fst p), JFloat (snd p)]) (fm_keypoints m))),
      (''descriptor_size'', JInt 32), (''descriptors_b64'', JStr (fm_descriptors_b64 m))]"

definition registry_image_payload :: "registry_image \<Rightarrow> json" where
  "registry_image_payload r = JObj (
     [(''reference_id'', JStr (ri_reference_id r)), (''kind'', JStr (reference_kind_value (ri_kind r))),
      (''title'', JStr (ri_title r)), (''rights_holder'', JStr (ri_rights_holder r)),
      (''sha256'', JStr (ri_sha256 r)), (''dhash'', JStr (ri_dhash r)),
      (''media_type'', JStr (ri_media_type r)), (''source_record_id'', JStr (ri_source_record_id r))] @
     opt_field True ''feature_manifest'' manifest_payload (ri_feature_manifest r))"

definition rights_registry_payload :: "rights_registry \<Rightarrow> json" where
  "rights_registry_payload r = JObj
     [(''schema'', JStr registry_schema), (''registry_id'', JStr (rr_registry_id r)),
      (''version'', JStr (rr_version r)),
      (''references'', JArr (map registry_image_payload (sort_key ri_reference_id (rr_references r))))]"

definition rights_registry_commitment :: "runtime \<Rightarrow> rights_registry \<Rightarrow> string" where
  "rights_registry_commitment rt r = sha256_json rt (rights_registry_payload r)"

subsection \<open>Difference hashes\<close>

text \<open>\<open>f"{bits:016x}"\<close>, \<open>int(s, 16)\<close> and \<open>int.bit_count\<close>.\<close>

fun hex_digits :: "nat \<Rightarrow> nat \<Rightarrow> string" where
  "hex_digits 0 n = []"
| "hex_digits (Suc k) n = hex_digits k (n div 16) @ [hex_digit (n mod 16)]"

definition hex_int :: "string \<Rightarrow> nat" where
  "hex_int s = foldl (\<lambda>a c. 16 * a + hex_value c) 0 s"

fun bit_count :: "nat \<Rightarrow> nat" where
  "bit_count n = (if n = 0 then 0 else n mod 2 + bit_count (n div 2))"

declare bit_count.simps [simp del]

text \<open>The double loop over eight rows of nine pixels; \<open>(bits << 1) | b\<close> is \<open>2 * bits + b\<close>.\<close>

definition dhash_bits :: "int list \<Rightarrow> nat" where
  "dhash_bits pixels =
     foldl (\<lambda>bits (row, column). 2 * bits +
         (if pixels ! (row * 9 + column + 1) < pixels ! (row * 9 + column) then 1 else 0)) 0
       (List.product [0..<8] [0..<8])"

definition dhash_text :: "int list \<Rightarrow> string" where
  "dhash_text pixels = hex_digits 16 (dhash_bits pixels)"

datatype inspection = Inspected string | InspectionError string

text \<open>
  \<open>image_dhash\<close> raises \<open>ValueError\<close> for a bad budget and \<open>_ImageInspectionError\<close> (the second
  constructor) for an image it cannot inspect.
\<close>

definition image_dhash :: "image_lib \<Rightarrow> string \<Rightarrow> int \<Rightarrow> inspection res" where
  "image_dhash lib data max_pixels =
     (if max_pixels < 1 then Inl (ValueError ''max_pixels must be positive'')
      else case lib_open lib data of
        None \<Rightarrow> Inr (InspectionError ''image could not be decoded safely'')
      | Some (width, height) \<Rightarrow>
          if width < 1 \<or> height < 1 \<or> max_pixels < width * height
          then Inr (InspectionError ''image exceeds the configured pixel budget'')
          else case lib_pixels lib data of
            None \<Rightarrow> Inr (InspectionError ''image could not be decoded safely'')
          | Some pixels \<Rightarrow> Inr (Inspected (dhash_text pixels)))"

definition hamming_distance :: "string \<Rightarrow> string \<Rightarrow> nat" where
  "hamming_distance left right = bit_count (Bit_Operations.xor (hex_int left) (hex_int right))"

text \<open>What the distance is: the number of bit positions in which the two hashes differ.\<close>

lemma finite_bits: "finite {i. bit (n::nat) i}"
proof (rule finite_subset)
  show "{i. bit n i} \<subseteq> {..<n}"
  proof
    fix i
    assume "i \<in> {i. bit n i}"
    then have "n div 2 ^ i \<noteq> 0" by (metis bit_iff_odd even_zero mem_Collect_eq)
    then have "2 ^ i \<le> n" by (metis div_less not_le)
    from less_le_trans [OF less_exp this] show "i \<in> {..<n}" by simp
  qed
qed simp

lemma bit_count_card: "bit_count n = card {i. bit n i}"
proof (induction n rule: bit_count.induct)
  case (1 n)
  show ?case
  proof (cases "n = 0")
    case True
    then show ?thesis by (simp add: bit_count.simps)
  next
    case False
    have split: "{i. bit n i} = (if odd n then {0} else {}) \<union> Suc ` {i. bit (n div 2) i}"
    proof (rule set_eqI)
      fix i
      show "i \<in> {i. bit n i} \<longleftrightarrow> i \<in> (if odd n then {0} else {}) \<union> Suc ` {i. bit (n div 2) i}"
        by (cases i) (auto simp: bit_0 bit_Suc)
    qed
    have "card {i. bit n i} = n mod 2 + card {i. bit (n div 2) i}"
      unfolding split using finite_bits [of "n div 2"]
      by (cases "odd n") (auto simp: card_image card_insert_if odd_iff_mod_2_eq_one even_iff_mod_2_eq_zero)
    with 1 False show ?thesis by (simp add: bit_count.simps [of n])
  qed
qed

definition hash_bit :: "string \<Rightarrow> nat \<Rightarrow> bool" where
  "hash_bit s i = bit (hex_int s) i"

lemma hamming_distance_card: "hamming_distance a b = card {i. hash_bit a i \<noteq> hash_bit b i}"
  by (simp add: hamming_distance_def bit_count_card bit_xor_iff hash_bit_def)

lemma finite_hash_bits: "finite {i. hash_bit a i \<noteq> hash_bit b i}"
  by (rule finite_subset [of _ "{i. bit (hex_int a) i} \<union> {i. bit (hex_int b) i}"])
    (auto simp: finite_bits hash_bit_def)

lemmas finite_hash_bits' = finite_hash_bits [simplified]

lemma hamming_distance_triangle: "hamming_distance a c \<le> hamming_distance a b + hamming_distance b c"
proof -
  have "{i. hash_bit a i \<noteq> hash_bit c i} \<subseteq> {i. hash_bit a i \<noteq> hash_bit b i} \<union> {i. hash_bit b i \<noteq> hash_bit c i}"
    by auto
  then have "card {i. hash_bit a i \<noteq> hash_bit c i} \<le>
      card ({i. hash_bit a i \<noteq> hash_bit b i} \<union> {i. hash_bit b i \<noteq> hash_bit c i})"
    by (intro card_mono) (simp_all add: finite_hash_bits')
  also have "\<dots> \<le> hamming_distance a b + hamming_distance b c"
    unfolding hamming_distance_card by (rule card_Un_le)
  finally show ?thesis by (simp add: hamming_distance_card)
qed

lemma hamming_distance_sym: "hamming_distance a b = hamming_distance b a"
  by (simp add: hamming_distance_card eq_commute)

lemma hex_value_bound: "is_hex c \<Longrightarrow> hex_value c < 16"
  by (auto simp: is_hex_def is_digit_def hex_value_def)

lemma hex_value_inj:
  assumes "is_hex c" and "is_hex d" and "hex_value c = hex_value d"
  shows "c = d"
proof -
  have "ord c = ord d"
    using assms by (auto simp: is_hex_def is_digit_def hex_value_def split: if_splits)
  then show ?thesis by (metis char_of_ord)
qed

lemma hex_int_snoc: "hex_int (s @ [c]) = 16 * hex_int s + hex_value c"
  by (simp add: hex_int_def)

lemma hex_int_bound: "list_all is_hex s \<Longrightarrow> hex_int s < 16 ^ length s"
proof (induction s rule: rev_induct)
  case Nil
  show ?case by (simp add: hex_int_def)
next
  case (snoc c s)
  then have "hex_int s + 1 \<le> 16 ^ length s" "hex_value c < 16" by (simp_all add: hex_value_bound)
  then show ?case by (simp add: hex_int_snoc)
qed

lemma base_16_digits:
  fixes m n c d :: nat
  assumes "16 * m + c = 16 * n + d" and "c < 16" and "d < 16"
  shows "m = n \<and> c = d"
proof -
  have "(16 * m + c) div 16 = m" "(16 * n + d) div 16 = n" using assms(2,3) by simp_all
  with assms(1) show ?thesis by simp
qed

lemma hex_int_inj:
  "list_all is_hex s \<Longrightarrow> list_all is_hex t \<Longrightarrow> length s = length t \<Longrightarrow> hex_int s = hex_int t \<Longrightarrow> s = t"
proof (induction s arbitrary: t rule: rev_induct)
  case Nil
  then show ?case by simp
next
  case (snoc c s)
  then obtain t' d where t: "t = t' @ [d]" by (cases t rule: rev_cases) auto
  have v: "hex_value c < 16" "hex_value d < 16" using snoc.prems t by (simp_all add: hex_value_bound)
  have "16 * hex_int s + hex_value c = 16 * hex_int t' + hex_value d"
    using snoc.prems t by (simp add: hex_int_snoc)
  with v have "hex_int s = hex_int t' \<and> hex_value c = hex_value d" by (intro base_16_digits)
  then have "hex_int s = hex_int t'" "hex_value c = hex_value d" by simp_all
  moreover have "c = d"
    using snoc.prems t \<open>hex_value c = hex_value d\<close> by (intro hex_value_inj) simp_all
  ultimately show ?case using snoc t by simp
qed

lemma hamming_distance_0_iff:
  assumes "is_dhash a" and "is_dhash b"
  shows "hamming_distance a b = 0 \<longleftrightarrow> a = b"
proof -
  have "hamming_distance a b = 0 \<longleftrightarrow> (\<forall>i. hash_bit a i = hash_bit b i)"
    using finite_hash_bits [of a b] by (auto simp: hamming_distance_card)
  also have "\<dots> \<longleftrightarrow> hex_int a = hex_int b"
    by (auto simp: hash_bit_def bit_eq_iff)
  also have "\<dots> \<longleftrightarrow> a = b"
    using assms by (auto simp: is_dhash_def intro: hex_int_inj)
  finally show ?thesis .
qed

lemma hamming_distance_le_64:
  assumes "is_dhash a" and "is_dhash b"
  shows "hamming_distance a b \<le> 64"
proof -
  have small: "\<not> bit (hex_int s) i" if "is_dhash s" "64 \<le> i" for s i
  proof -
    have "hex_int s < 16 ^ 16" using that hex_int_bound [of s] by (simp add: is_dhash_def)
    also have "(16::nat) ^ 16 = 2 ^ 64" by simp
    also have "\<dots> \<le> 2 ^ i" using that by (intro power_increasing) simp_all
    finally show ?thesis by (simp add: bit_iff_odd)
  qed
  have "{i. hash_bit a i \<noteq> hash_bit b i} \<subseteq> {..<64}"
    using small assms by (auto simp: hash_bit_def not_le [symmetric])
  then have "card {i. hash_bit a i \<noteq> hash_bit b i} \<le> card {..<64::nat}"
    by (intro card_mono) simp_all
  then show ?thesis by (simp add: hamming_distance_card)
qed

lemma hex_digits_hex: "list_all is_hex (hex_digits k n)"
  by (induction k arbitrary: n) (simp_all add: is_hex_hex_digit)

lemma length_hex_digits [simp]: "length (hex_digits k n) = k"
  by (induction k arbitrary: n) simp_all

lemma dhash_text_ok [simp]: "is_dhash (dhash_text pixels)"
  by (simp add: is_dhash_def dhash_text_def hex_digits_hex)

lemma hex_int_hex_digits: "n < 16 ^ k \<Longrightarrow> hex_int (hex_digits k n) = n"
proof (induction k arbitrary: n)
  case 0
  then show ?case by (simp add: hex_int_def)
next
  case (Suc k)
  then have "hex_int (hex_digits k (n div 16)) = n div 16" by (simp add: less_mult_imp_div_less mult.commute)
  then show ?case by (simp add: hex_int_snoc hex_value_digit)
qed

subsection \<open>Feature manifests\<close>

text \<open>The sort key of the key points.\<close>

definition keypoint_key :: "keypoint \<Rightarrow> rat \<times> int \<times> rat \<times> rat \<times> string" where
  "keypoint_key k =
     (- round_to (kp_response k) 8, kp_octave k, round_to (kp_y k) 6, round_to (kp_x k) 6, kp_descriptor k)"

definition clamp_unit :: "rat \<Rightarrow> rat" where
  "clamp_unit q = min 1 (max 0 q)"

definition image_feature_manifest :: "image_lib \<Rightarrow> string \<Rightarrow> int \<Rightarrow> (string + feature_manifest option) res" where
  "image_feature_manifest lib data max_pixels =
     (if max_pixels < 1 then Inl (ValueError ''max_pixels must be positive'')
      else case lib_open lib data of
        None \<Rightarrow> Inr (Inl ''image could not be decoded safely'')
      | Some (width0, height0) \<Rightarrow>
          if width0 < 1 \<or> height0 < 1 \<or> max_pixels < width0 * height0
          then Inr (Inl ''image exceeds the configured pixel budget'')
          else case lib_normal_size lib data of
            None \<Rightarrow> Inr (Inl ''image could not be decoded safely'')
          | Some (width, height) \<Rightarrow>
              if min width height < min_feature_side then Inr (Inr None)
              else case lib_orb lib data of
                None \<Rightarrow> Inr (Inr None)
              | Some keypoints \<Rightarrow>
                  if length keypoints < 4 then Inr (Inr None)
                  else let ordered = take max_features (sort_key keypoint_key keypoints)
                    in res_bind (validate_manifest
                        \<lparr>fm_image_width = width, fm_image_height = height,
                         fm_keypoints = map (\<lambda>k. (round_to (clamp_unit (kp_x k / of_int width)) 8,
                                                   round_to (clamp_unit (kp_y k / of_int height)) 8)) ordered,
                         fm_descriptors_b64 = b64encode (concat (map kp_descriptor ordered))\<rparr>)
                      (\<lambda>m. Inr (Inr (Some m))))"

text \<open>OpenCV's ORB descriptors are 32 bytes long.\<close>

definition orb_ok :: "image_lib \<Rightarrow> bool" where
  "orb_ok lib \<longleftrightarrow> (\<forall>data ks. lib_orb lib data = Some ks \<longrightarrow> (\<forall>k \<in> set ks. length (kp_descriptor k) = 32))"

lemma clamp_unit_bounds: "0 \<le> clamp_unit q" "clamp_unit q \<le> 1"
  by (simp_all add: clamp_unit_def)

lemma round_clamp_unit [simp]: "unit_interval (round_to (clamp_unit q) n)"
  using round_to_bounds [of 0 "clamp_unit q" 1 n] clamp_unit_bounds [of q] by (simp add: unit_interval_def)

lemma length_concat_const: "(\<And>x. x \<in> set xs \<Longrightarrow> length (f x) = n) \<Longrightarrow> length (concat (map f xs)) = length xs * n"
  by (induction xs) simp_all

lemma image_feature_manifest_ok:
  assumes "orb_ok lib" and "1 \<le> max_pixels"
  obtains r where "image_feature_manifest lib data max_pixels = Inr r"
    and "\<And>m. r = Inr (Some m) \<Longrightarrow> wf_manifest m"
proof -
  define build where "build width height ordered =
      \<lparr>fm_image_width = width, fm_image_height = height,
       fm_keypoints = map (\<lambda>k. (round_to (clamp_unit (kp_x k / of_int width)) 8,
                                 round_to (clamp_unit (kp_y k / of_int height)) 8)) ordered,
       fm_descriptors_b64 = b64encode (concat (map kp_descriptor ordered))\<rparr>"
    for width height :: int and ordered :: "keypoint list"
  have wf: "wf_manifest (build width height (take max_features (sort_key keypoint_key ks)))"
    if "lib_orb lib data = Some ks" "4 \<le> length ks" "min_feature_side \<le> min width height" for width height ks
  proof -
    have "length (concat (map kp_descriptor (take max_features (sort_key keypoint_key ks)))) =
        length (take max_features (sort_key keypoint_key ks)) * 32"
      using assms(1) that(1) by (intro length_concat_const) (auto simp: orb_ok_def dest: in_set_takeD)
    with that(2,3) show ?thesis
      by (auto simp: wf_manifest_def build_def len_between_def list_all_iff max_features_def min_feature_side_def)
  qed
  have fold: "\<lparr>fm_image_width = width, fm_image_height = height,
       fm_keypoints = map (\<lambda>k. (round_to (clamp_unit (kp_x k / of_int width)) 8,
                                 round_to (clamp_unit (kp_y k / of_int height)) 8)) ordered,
       fm_descriptors_b64 = b64encode (concat (map kp_descriptor ordered))\<rparr> = build width height ordered"
    for width height and ordered :: "keypoint list"
    by (simp add: build_def)
  have "\<exists>r. image_feature_manifest lib data max_pixels = Inr r \<and> (\<forall>m. r = Inr (Some m) \<longrightarrow> wf_manifest m)"
    using assms(2)
    by (simp add: image_feature_manifest_def Let_def fold split: option.splits prod.splits)
      (auto simp: wf manifest.validate_fix [OF wf] not_less)
  with that show thesis by blast
qed

definition build_registry_image ::
    "runtime \<Rightarrow> image_lib \<Rightarrow> string \<Rightarrow> reference_kind \<Rightarrow> string \<Rightarrow> string \<Rightarrow> string \<Rightarrow> string \<Rightarrow> string \<Rightarrow> int \<Rightarrow>
     registry_image res" where
  "build_registry_image rt lib reference_id rkind title rights_holder data media_type source_record_id max_pixels =
     res_bind (image_dhash lib data max_pixels) (\<lambda>d. case d of
       InspectionError m \<Rightarrow> Inl (ValueError m)
     | Inspected dhash \<Rightarrow>
         res_bind (image_feature_manifest lib data max_pixels) (\<lambda>f. case f of
           Inl m \<Rightarrow> Inl (ValueError m)
         | Inr manifest \<Rightarrow> validate_registry_image
             \<lparr>ri_reference_id = reference_id, ri_kind = rkind, ri_title = title, ri_rights_holder = rights_holder,
              ri_sha256 = rt_sha256 rt data, ri_dhash = dhash, ri_media_type = media_type,
              ri_source_record_id = source_record_id, ri_feature_manifest = manifest\<rparr>))"

subsection \<open>Matching\<close>

definition registry_component_id :: string where
  "registry_component_id = ''rights.local-image-registry''"

definition registry_component_version :: string where
  "registry_component_version = ''1.1.0''"

definition registry_component :: "string \<Rightarrow> component_state \<Rightarrow> string option \<Rightarrow> component_record" where
  "registry_component registry_sha256 state reason =
     \<lparr>co_component_id = registry_component_id, co_component_version = registry_component_version,
      co_component_type = ''rights.reference-retriever'', co_state = state, co_mandatory = True,
      co_artifact_sha256 = Some registry_sha256, co_reason = reason\<rparr>"

record rights_match =
  rm_component :: component_record
  rm_evidence :: "evidence_pointer list"
  rm_assessment :: rights_assessment

definition match_statement :: string where
  "match_statement = ''The asset has a candidate match in the governed local reference registry.''"

definition registry_evidence :: "string \<Rightarrow> string \<Rightarrow> evidence_kind \<Rightarrow> evidence_polarity \<Rightarrow> rat \<Rightarrow> string \<Rightarrow>
    string \<Rightarrow> attributes \<Rightarrow> evidence_pointer" where
  "registry_evidence evidence_id asset_sha256 ekind polarity confidence summary payload attrs =
     \<lparr>ev_evidence_id = evidence_id, ev_asset_sha256 = asset_sha256, ev_kind = ekind,
      ev_source = ''Governed local rights-reference registry'', ev_component_id = registry_component_id,
      ev_component_version = registry_component_version, ev_polarity = polarity, ev_confidence = confidence,
      ev_locator = whole_asset, ev_summary = summary, ev_payload_sha256 = Some payload, ev_attributes = attrs\<rparr>"

definition registry_claim :: "string \<Rightarrow> string \<Rightarrow> claim_outcome \<Rightarrow> rat \<Rightarrow> string list \<Rightarrow> string list \<Rightarrow> claim_record" where
  "registry_claim claim_id statement outcome confidence evidence_ids limitations =
     \<lparr>cl_claim_id = claim_id, cl_dimension = Dim_RIGHTS_EXPOSURE, cl_claim_type = ''reference.candidate-match'',
      cl_statement = statement, cl_outcome = outcome, cl_confidence = confidence, cl_mandatory = False,
      cl_evidence_ids = evidence_ids, cl_limitations = limitations\<rparr>"

definition safe_failure :: "runtime \<Rightarrow> string \<Rightarrow> string \<Rightarrow> string \<Rightarrow> rights_match res" where
  "safe_failure rt asset_sha256 registry_sha256 reason =
     res_bind (validate_evidence
       (registry_evidence (asset_id_text ''evidence.rights-registry-failure-'' asset_sha256) asset_sha256
          Ev_COMPONENT_FAILURE Pol_NEUTRAL 1 reason
          (sha256_json rt (JObj [(''asset_sha256'', JStr asset_sha256),
             (''registry_sha256'', JStr registry_sha256), (''reason'', JStr reason)])) [])) (\<lambda>evidence.
     res_bind (validate_claim
       (registry_claim (asset_id_text ''claim.rights-registry-'' asset_sha256) match_statement
          Outcome_NOT_ASSESSED 0 [] [reason])) (\<lambda>claim.
     res_bind (validate_component (registry_component registry_sha256 Comp_DEGRADED (Some reason))) (\<lambda>component.
     res_bind (validate_rights \<lparr>ra_state = State_UNAVAILABLE, ra_verdict = Rights_UNKNOWN, ra_confidence = 0,
        ra_claims = [claim], ra_limitations = [reason]\<rparr>) (\<lambda>assessment.
     Inr \<lparr>rm_component = component, rm_evidence = [evidence], rm_assessment = assessment\<rparr>))))"

type_synonym image_match = "registry_image \<times> nat \<times> bool"

definition image_matches :: "string \<Rightarrow> string \<Rightarrow> int \<Rightarrow> registry_image list \<Rightarrow> image_match list" where
  "image_matches asset_sha256 candidate_dhash max_distance references =
     sort_key (\<lambda>(reference, distance, exact). (\<not> exact, distance, ri_reference_id reference))
       (filter (\<lambda>(reference, distance, exact). exact \<or> int distance \<le> max_distance)
         (map (\<lambda>reference. (reference, hamming_distance candidate_dhash (ri_dhash reference),
            ri_sha256 reference = asset_sha256)) references))"

definition match_similarity :: "nat \<Rightarrow> bool \<Rightarrow> rat" where
  "match_similarity distance exact =
     (if exact then 1 else max (1 / 2) (95 / 100 * (1 - of_nat distance / 64)))"

fun match_evidence :: "runtime \<Rightarrow> string \<Rightarrow> rights_registry \<Rightarrow> int \<Rightarrow> image_match \<Rightarrow> evidence_pointer" where
  "match_evidence rt asset_sha256 registry max_distance (reference, distance, exact) =
     registry_evidence
       (token_id_text rt ''evidence.rights-match-'' (ri_reference_id reference) asset_sha256) asset_sha256
       Ev_REFERENCE_MATCH Pol_SUPPORTS (match_similarity distance exact)
       (if exact then ''Exact byte match with governed reference.''
        else ''Perceptual-hash candidate match with governed reference.'')
       (sha256_json rt (JObj
          [(''asset_sha256'', JStr asset_sha256), (''distance'', JInt (int distance)), (''exact'', JBool exact),
           (''reference_id'', JStr (ri_reference_id reference)),
           (''registry_sha256'', JStr (rights_registry_commitment rt registry))]))
       [(''distance'', AInt (int distance)), (''exact'', ABool exact), (''max_hamming_distance'', AInt max_distance),
        (''reference_id'', AStr (ri_reference_id reference)),
        (''reference_kind'', AStr (reference_kind_value (ri_kind reference))),
        (''reference_title'', AStr (ri_title reference)), (''rights_holder'', AStr (ri_rights_holder reference)),
        (''registry_id'', AStr (rr_registry_id registry)), (''registry_version'', AStr (rr_version registry)),
        (''source_record_id'', AStr (ri_source_record_id reference))]"

fun match_claim :: "runtime \<Rightarrow> string \<Rightarrow> image_match \<Rightarrow> claim_record" where
  "match_claim rt asset_sha256 (reference, distance, exact) =
     registry_claim (token_id_text rt ''claim.rights-match-'' (ri_reference_id reference) asset_sha256)
       (''The asset is a candidate match for governed reference '' @ ri_reference_id reference @ ''.'')
       Outcome_SUPPORTED (match_similarity distance exact)
       [token_id_text rt ''evidence.rights-match-'' (ri_reference_id reference) asset_sha256]
       [''Similarity is retrieval evidence, not a legal determination of ownership or infringement.'']"

definition no_match_limitation :: string where
  "no_match_limitation = ''No candidate exceeded the configured threshold in this registry; registry coverage is not proof of rights clearance.''"

definition no_image_match :: "runtime \<Rightarrow> string \<Rightarrow> rights_registry \<Rightarrow> int \<Rightarrow> string \<Rightarrow> rights_match res" where
  "no_image_match rt asset_sha256 registry max_distance candidate_dhash =
     (let evidence_id = asset_id_text ''evidence.rights-registry-query-'' asset_sha256;
          registry_sha256 = rights_registry_commitment rt registry
      in res_bind (validate_evidence
           (registry_evidence evidence_id asset_sha256 Ev_REFERENCE_MATCH Pol_CONTRADICTS 1
             ''No exact or perceptual candidate met the configured registry threshold.''
             (sha256_json rt (JObj [(''asset_sha256'', JStr asset_sha256), (''candidate_dhash'', JStr candidate_dhash),
                (''max_hamming_distance'', JInt max_distance), (''registry_sha256'', JStr registry_sha256)]))
             [(''candidate_count'', AInt 0), (''max_hamming_distance'', AInt max_distance),
              (''registry_id'', AStr (rr_registry_id registry)), (''registry_version'', AStr (rr_version registry))]))
         (\<lambda>evidence.
         res_bind (validate_claim
           (registry_claim (asset_id_text ''claim.rights-registry-'' asset_sha256) match_statement
             Outcome_CONTRADICTED 1 [evidence_id] [no_match_limitation])) (\<lambda>claim.
         res_bind (validate_component (registry_component registry_sha256 Comp_AVAILABLE None)) (\<lambda>component.
         res_bind (validate_rights \<lparr>ra_state = State_COMPLETE, ra_verdict = Rights_UNKNOWN, ra_confidence = 0,
            ra_claims = [claim], ra_limitations = [no_match_limitation]\<rparr>) (\<lambda>assessment.
         Inr \<lparr>rm_component = component, rm_evidence = [evidence], rm_assessment = assessment\<rparr>)))))"

definition match_reference_image ::
    "runtime \<Rightarrow> image_lib \<Rightarrow> string \<Rightarrow> string \<Rightarrow> rights_registry \<Rightarrow> int \<Rightarrow> int \<Rightarrow> rights_match res" where
  "match_reference_image rt lib data asset_sha256 registry max_distance max_pixels =
     (if \<not> (0 \<le> max_distance \<and> max_distance \<le> 64)
      then Inl (ValueError ''max_hamming_distance must be between 0 and 64'')
      else if rt_sha256 rt data \<noteq> asset_sha256
      then Inl (ValueError ''asset_sha256 does not match the supplied image bytes'')
      else res_bind (image_dhash lib data max_pixels) (\<lambda>inspection. case inspection of
        InspectionError _ \<Rightarrow> safe_failure rt asset_sha256 (rights_registry_commitment rt registry)
          ''The candidate image could not be decoded within the configured safety budget.''
      | Inspected candidate_dhash \<Rightarrow>
          (let matches = image_matches asset_sha256 candidate_dhash max_distance (rr_references registry)
           in if matches = [] then no_image_match rt asset_sha256 registry max_distance candidate_dhash
              else res_bind (collect_pairs (match_evidence rt asset_sha256 registry max_distance)
                  (match_claim rt asset_sha256) matches) (\<lambda>pairs.
                res_bind (validate_component
                  (registry_component (rights_registry_commitment rt registry) Comp_AVAILABLE None)) (\<lambda>component.
                res_bind (validate_rights
                  \<lparr>ra_state = State_COMPLETE, ra_verdict = Rights_POTENTIAL_EXPOSURE,
                   ra_confidence = max_default 0 (map ev_confidence (map fst pairs)),
                   ra_claims = map snd pairs,
                   ra_limitations =
                     [''Candidate matches require licence, consent, territory and intended-use evaluation.'',
                      ''Similarity is retrieval evidence, not a legal determination of ownership or infringement.'']\<rparr>)
                  (\<lambda>assessment.
                Inr \<lparr>rm_component = component, rm_evidence = map fst pairs, rm_assessment = assessment\<rparr>))))))"

subsection \<open>Matching is total and conservative\<close>

lemma match_similarity_bounds: "1 / 2 \<le> match_similarity d e" "match_similarity d e \<le> 1"
  by (auto simp: match_similarity_def le_max_iff_disj)

lemma is_id_literals [simp]:
  "is_id ''evidence.rights-registry-failure-''" "is_id ''claim.rights-registry-''"
  "is_id ''evidence.rights-match-''" "is_id ''claim.rights-match-''" "is_id ''evidence.rights-registry-query-''"
  "is_id registry_component_id" "is_id ''rights.reference-retriever''" "is_id ''reference.candidate-match''"
  by (simp_all add: id_eval registry_component_id_def)

lemma wf_registry_evidence:
  "wf_evidence (registry_evidence i sha k p q s h attrs) \<longleftrightarrow>
     is_id i \<and> is_sha256 sha \<and> unit_interval q \<and> len_between 1 1000 s \<and> is_sha256 h"
  by (auto simp: wf_evidence_iff registry_evidence_def registry_component_version_def len_between_def)

lemma wf_registry_component:
  "is_sha256 h \<Longrightarrow> wf_component (registry_component h Comp_AVAILABLE None)"
  "is_sha256 h \<Longrightarrow> wf_component (registry_component h Comp_DEGRADED (Some r)) \<longleftrightarrow> len_between 1 500 r"
  by (auto simp: wf_component_iff registry_component_def registry_component_version_def len_between_def)

lemma wf_registry_claim:
  "wf_claim (registry_claim i t out q es ls) \<longleftrightarrow>
     is_id i \<and> len_between 1 1000 t \<and> unit_interval q \<and> distinct es \<and> sorted es \<and>
     (out \<in> {Outcome_SUPPORTED, Outcome_CONTRADICTED} \<longrightarrow> es \<noteq> []) \<and>
     (out \<in> {Outcome_UNKNOWN, Outcome_NOT_ASSESSED} \<longrightarrow> ls \<noteq> []) \<and>
     (out = Outcome_NOT_ASSESSED \<longrightarrow> q = 0 \<and> es = [])"
  by (auto simp: wf_claim_iff registry_claim_def)

lemma registry_claim_dimension [simp]: "cl_dimension (registry_claim i t out q es ls) = Dim_RIGHTS_EXPOSURE"
  by (simp add: registry_claim_def)

lemma image_matches_mem:
  "(reference, distance, exact) \<in> set (image_matches asset d n refs) \<longleftrightarrow>
     reference \<in> set refs \<and> distance = hamming_distance d (ri_dhash reference) \<and>
     (exact \<longleftrightarrow> ri_sha256 reference = asset) \<and> (exact \<or> int distance \<le> n)"
  by (auto simp: image_matches_def)

definition candidate_reference :: "string \<Rightarrow> string \<Rightarrow> int \<Rightarrow> registry_image \<Rightarrow> bool" where
  "candidate_reference asset d n reference \<longleftrightarrow>
     ri_sha256 reference = asset \<or> int (hamming_distance d (ri_dhash reference)) \<le> n"

lemma image_matches_Nil_iff:
  "image_matches asset d n refs = [] \<longleftrightarrow> (\<forall>r \<in> set refs. \<not> candidate_reference asset d n r)"
  by (simp add: image_matches_def candidate_reference_def filter_empty_conv)

lemma match_claim_dimension: "cl_dimension (match_claim rt asset m) = Dim_RIGHTS_EXPOSURE"
  by (cases m) simp

lemma wf_match_evidence:
  assumes "sha_ok rt" and "is_sha256 asset"
  shows "wf_evidence (match_evidence rt asset registry n m)"
  using assms match_similarity_bounds
  by (cases m) (auto simp: wf_registry_evidence unit_interval_def len_between_def
      intro: order_trans [OF _ match_similarity_bounds(1)])

lemma match_evidence_fields [simp]:
  "ev_asset_sha256 (match_evidence rt asset registry n m) = asset"
  "ev_component_id (match_evidence rt asset registry n m) = registry_component_id"
  "ev_component_version (match_evidence rt asset registry n m) = registry_component_version"
  by (cases m; simp add: registry_evidence_def)+

lemma wf_match_claim:
  assumes "sha_ok rt" and "is_sha256 asset" and "is_id (ri_reference_id (fst m))"
  shows "wf_claim (match_claim rt asset m)"
  using assms is_id_length [OF assms(3)]
  by (cases m) (auto simp: wf_registry_claim unit_interval_def len_between_def match_similarity_bounds
      intro: order_trans [OF _ match_similarity_bounds(1)])

text \<open>The result of the lane.\<close>

definition match_sound :: "string \<Rightarrow> rights_match \<Rightarrow> bool" where
  "match_sound asset m \<longleftrightarrow>
     lane_sound asset (rm_component m) (rm_evidence m) (ra_claims (rm_assessment m)) \<and>
     wf_rights (rm_assessment m) \<and> co_component_id (rm_component m) = registry_component_id"

lemma registry_component_ids [simp]:
  "co_component_id (registry_component h s r) = registry_component_id"
  "co_component_version (registry_component h s r) = registry_component_version"
  by (simp_all add: registry_component_def)

lemma registry_evidence_ids [simp]:
  "ev_evidence_id (registry_evidence i sha k p q s h attrs) = i"
  "ev_asset_sha256 (registry_evidence i sha k p q s h attrs) = sha"
  "ev_component_id (registry_evidence i sha k p q s h attrs) = registry_component_id"
  "ev_component_version (registry_evidence i sha k p q s h attrs) = registry_component_version"
  by (simp_all add: registry_evidence_def)

lemma registry_claim_evidence [simp]: "cl_evidence_ids (registry_claim i t out q es ls) = es"
  by (simp add: registry_claim_def)

lemma match_claim_evidence: "cl_evidence_ids (match_claim rt asset m) = [ev_evidence_id (match_evidence rt asset registry n m)]"
  by (cases m) simp

lemma safe_failure_ok:
  assumes "sha_ok rt" and "is_sha256 asset" and "is_sha256 h" and "len_between 1 500 reason"
  shows "\<exists>m. safe_failure rt asset h reason = Inr m \<and> match_sound asset m \<and>
    ra_state (rm_assessment m) = State_UNAVAILABLE \<and> ra_verdict (rm_assessment m) = Rights_UNKNOWN"
proof -
  let ?e = "registry_evidence (asset_id_text ''evidence.rights-registry-failure-'' asset) asset
          Ev_COMPONENT_FAILURE Pol_NEUTRAL 1 reason
          (sha256_json rt (JObj [(''asset_sha256'', JStr asset),
             (''registry_sha256'', JStr h), (''reason'', JStr reason)])) []"
  let ?c = "registry_claim (asset_id_text ''claim.rights-registry-'' asset) match_statement
          Outcome_NOT_ASSESSED 0 [] [reason]"
  have e: "wf_evidence ?e"
    using assms is_id_asset_id_text [of "''evidence.rights-registry-failure-''" asset] by (simp add: wf_registry_evidence len_between_def)
  have c: "wf_claim ?c"
    using assms is_id_asset_id_text [of "''claim.rights-registry-''" asset]
    by (simp add: wf_registry_claim match_statement_def len_between_def)
  have k: "wf_component (registry_component h Comp_DEGRADED (Some reason))"
    using assms by (simp add: wf_registry_component)
  let ?r = "\<lparr>ra_state = State_UNAVAILABLE, ra_verdict = Rights_UNKNOWN, ra_confidence = 0,
        ra_claims = [?c], ra_limitations = [reason]\<rparr>"
  have r: "wf_rights ?r" by (simp add: wf_rights_def)
  have "safe_failure rt asset h reason =
      Inr \<lparr>rm_component = registry_component h Comp_DEGRADED (Some reason), rm_evidence = [?e], rm_assessment = ?r\<rparr>"
    unfolding safe_failure_def evidence.validate_fix [OF e] claim.validate_fix [OF c] res_bind_simps
      component.validate_fix [OF k] rights.validate_fix [OF r] ..
  moreover have "match_sound asset \<lparr>rm_component = registry_component h Comp_DEGRADED (Some reason),
      rm_evidence = [?e], rm_assessment = ?r\<rparr>"
    using e c k r by (simp add: match_sound_def lane_sound_def)
  ultimately show ?thesis by simp
qed

lemma no_image_match_ok:
  assumes "sha_ok rt" and "is_sha256 asset"
  shows "\<exists>m. no_image_match rt asset registry n d = Inr m \<and> match_sound asset m \<and>
    ra_verdict (rm_assessment m) = Rights_UNKNOWN"
proof -
  let ?h = "rights_registry_commitment rt registry"
  let ?e = "registry_evidence (asset_id_text ''evidence.rights-registry-query-'' asset) asset
       Ev_REFERENCE_MATCH Pol_CONTRADICTS 1
             ''No exact or perceptual candidate met the configured registry threshold.''
             (sha256_json rt (JObj [(''asset_sha256'', JStr asset), (''candidate_dhash'', JStr d),
                (''max_hamming_distance'', JInt n), (''registry_sha256'', JStr ?h)]))
             [(''candidate_count'', AInt 0), (''max_hamming_distance'', AInt n),
              (''registry_id'', AStr (rr_registry_id registry)), (''registry_version'', AStr (rr_version registry))]"
  let ?c = "registry_claim (asset_id_text ''claim.rights-registry-'' asset) match_statement
             Outcome_CONTRADICTED 1 [asset_id_text ''evidence.rights-registry-query-'' asset] [no_match_limitation]"
  let ?r = "\<lparr>ra_state = State_COMPLETE, ra_verdict = Rights_UNKNOWN, ra_confidence = 0,
            ra_claims = [?c], ra_limitations = [no_match_limitation]\<rparr>"
  have e: "wf_evidence ?e"
    using assms is_id_asset_id_text [of "''evidence.rights-registry-query-''" asset]
    by (simp add: wf_registry_evidence len_between_def)
  have c: "wf_claim ?c"
    using assms is_id_asset_id_text [of "''claim.rights-registry-''" asset]
    by (simp add: wf_registry_claim match_statement_def len_between_def)
  have k: "wf_component (registry_component ?h Comp_AVAILABLE None)"
    using assms by (simp add: wf_registry_component rights_registry_commitment_def)
  have r: "wf_rights ?r" by (simp add: wf_rights_def)
  have "no_image_match rt asset registry n d =
      Inr \<lparr>rm_component = registry_component ?h Comp_AVAILABLE None, rm_evidence = [?e], rm_assessment = ?r\<rparr>"
    unfolding no_image_match_def Let_def evidence.validate_fix [OF e] claim.validate_fix [OF c] res_bind_simps
      component.validate_fix [OF k] rights.validate_fix [OF r] ..
  moreover have "match_sound asset \<lparr>rm_component = registry_component ?h Comp_AVAILABLE None,
      rm_evidence = [?e], rm_assessment = ?r\<rparr>"
    using e c k r by (simp add: match_sound_def lane_sound_def)
  ultimately show ?thesis by simp
qed

lemma candidates_ok:
  assumes "sha_ok rt" and "is_sha256 asset" and "\<forall>r \<in> set (rr_references registry). is_id (ri_reference_id r)"
    and "matches = image_matches asset d n (rr_references registry)" and "matches \<noteq> []"
  shows "collect_pairs (match_evidence rt asset registry n) (match_claim rt asset) matches =
      Inr (map (\<lambda>m. (match_evidence rt asset registry n m, match_claim rt asset m)) matches)"
    and "unit_interval (max_default 0 (map ev_confidence (map (match_evidence rt asset registry n) matches)))"
    and "\<forall>m \<in> set matches. wf_claim (match_claim rt asset m)"
proof -
  show claims: "\<forall>m \<in> set matches. wf_claim (match_claim rt asset m)"
  proof
    fix m
    assume m: "m \<in> set matches"
    obtain r k e where "m = (r, k, e)" by (cases m)
    with m assms(3,4) have "is_id (ri_reference_id (fst m))" by (auto simp: image_matches_mem)
    then show "wf_claim (match_claim rt asset m)" by (rule wf_match_claim [OF assms(1,2)])
  qed
  show "collect_pairs (match_evidence rt asset registry n) (match_claim rt asset) matches =
      Inr (map (\<lambda>m. (match_evidence rt asset registry n m, match_claim rt asset m)) matches)"
    using claims by (intro collect_pairs_ok wf_match_evidence [OF assms(1,2)]) auto
  have "max_default 0 (map ev_confidence (map (match_evidence rt asset registry n) matches)) \<in>
      set (map ev_confidence (map (match_evidence rt asset registry n) matches))"
    using assms(5) by (intro max_default_in) simp
  then obtain m where "max_default 0 (map ev_confidence (map (match_evidence rt asset registry n) matches)) =
      ev_confidence (match_evidence rt asset registry n m)"
    by auto
  with wf_match_evidence [OF assms(1,2), of registry n m]
  show "unit_interval (max_default 0 (map ev_confidence (map (match_evidence rt asset registry n) matches)))"
    by (simp add: wf_evidence_iff)
qed

lemma image_dhash_total: "1 \<le> n \<Longrightarrow> \<exists>i. image_dhash lib data n = Inr i"
  by (auto simp: image_dhash_def split: option.splits)

lemma match_found_ok:
  assumes "sha_ok rt" and "is_sha256 asset" and "\<forall>r \<in> set (rr_references registry). is_id (ri_reference_id r)"
    and "0 \<le> n" and "n \<le> 64" and "rt_sha256 rt data = asset"
    and "image_dhash lib data max_pixels = Inr (Inspected d)"
    and "image_matches asset d n (rr_references registry) \<noteq> []"
  shows "\<exists>m. match_reference_image rt lib data asset registry n max_pixels = Inr m \<and>
    match_sound asset m \<and> ra_verdict (rm_assessment m) = Rights_POTENTIAL_EXPOSURE"
proof -
  let ?h = "rights_registry_commitment rt registry"
  let ?ms = "image_matches asset d n (rr_references registry)"
  let ?r = "\<lparr>ra_state = State_COMPLETE, ra_verdict = Rights_POTENTIAL_EXPOSURE,
      ra_confidence = max_default 0 (map ev_confidence (map (match_evidence rt asset registry n) ?ms)),
      ra_claims = map (match_claim rt asset) ?ms,
      ra_limitations =
       [''Candidate matches require licence, consent, territory and intended-use evaluation.'',
        ''Similarity is retrieval evidence, not a legal determination of ownership or infringement.'']\<rparr>"
  let ?m = "\<lparr>rm_component = registry_component ?h Comp_AVAILABLE None,
      rm_evidence = map (match_evidence rt asset registry n) ?ms, rm_assessment = ?r\<rparr>"
  note ok = candidates_ok [OF assms(1,2,3) refl assms(8)]
  have h: "is_sha256 ?h" using assms(1) by (simp add: rights_registry_commitment_def)
  have k: "validate_component (registry_component ?h Comp_AVAILABLE None) = Inr (registry_component ?h Comp_AVAILABLE None)"
    using h by (intro component.validate_fix wf_registry_component)
  have r: "wf_rights ?r"
    using ok(2) by (auto simp: wf_rights_def match_claim_dimension simp del: map_map)
  have "match_reference_image rt lib data asset registry n max_pixels = Inr ?m"
    by (simp only: match_reference_image_def assms(4,5,6,7,8) res_bind_simps inspection.case Let_def if_False ok(1)
        map_pair_projections k rights.validate_fix [OF r] not_True_eq_False conj_absorb simp_thms)
  moreover have "match_sound asset ?m"
    unfolding match_sound_def
    using r h ok(3) wf_match_evidence [OF assms(1,2)] match_claim_evidence
    by (intro conjI) (auto intro!: lane_sound_pairs simp: wf_registry_component simp del: map_map)
  ultimately show ?thesis by simp
qed

lemma match_reference_image_result:
  assumes "sha_ok rt" and "0 \<le> n" and "n \<le> 64" and "1 \<le> max_pixels"
    and "\<forall>r \<in> set (rr_references registry). wf_registry_image r"
    and "rt_sha256 rt data = asset"
  shows "\<exists>m. match_reference_image rt lib data asset registry n max_pixels = Inr m \<and>
    match_sound asset m \<and> ra_verdict (rm_assessment m) \<noteq> Rights_CLEAR \<and>
    (ra_verdict (rm_assessment m) = Rights_POTENTIAL_EXPOSURE \<longleftrightarrow>
      (\<exists>d. image_dhash lib data max_pixels = Inr (Inspected d) \<and>
         (\<exists>r \<in> set (rr_references registry). candidate_reference asset d n r)))"
proof -
  have sha: "is_sha256 asset" using assms(1,6) by auto
  have h: "is_sha256 (rights_registry_commitment rt registry)"
    using assms(1) by (simp add: rights_registry_commitment_def)
  have ids: "\<forall>r \<in> set (rr_references registry). is_id (ri_reference_id r)"
    using assms(5) by (simp add: wf_registry_image_def)
  obtain i where i: "image_dhash lib data max_pixels = Inr i"
    using image_dhash_total [OF assms(4)] by blast
  note unfold = match_reference_image_def assms(2,3,6) i
  show ?thesis
  proof (cases i)
    case (InspectionError t)
    obtain m where "safe_failure rt asset (rights_registry_commitment rt registry)
          ''The candidate image could not be decoded within the configured safety budget.'' = Inr m"
      "match_sound asset m" "ra_verdict (rm_assessment m) = Rights_UNKNOWN"
      using safe_failure_ok [OF assms(1) sha h,
          of "''The candidate image could not be decoded within the configured safety budget.''"]
      by (auto simp: len_between_def)
    with InspectionError show ?thesis by (simp add: unfold)
  next
    case (Inspected d)
    show ?thesis
    proof (cases "image_matches asset d n (rr_references registry) = []")
      case True
      obtain m where "no_image_match rt asset registry n d = Inr m"
        "match_sound asset m" "ra_verdict (rm_assessment m) = Rights_UNKNOWN"
        using no_image_match_ok [OF assms(1) sha] by blast
      with Inspected True show ?thesis by (simp add: unfold image_matches_Nil_iff)
    next
      case False
      from match_found_ok [OF assms(1) sha ids assms(2,3,6) i [unfolded Inspected] False] False
      show ?thesis by (auto simp: i Inspected image_matches_Nil_iff)
    qed
  qed
qed

text \<open>
  candidate retrieval returns a result for every decodable or undecodable image of a governed
  registry, its evidence is valid and bound to the asset, it never concludes that rights are clear,
  and it reports a potential exposure exactly when some reference has the bytes of the asset or a
  difference hash within the configured distance.
\<close>

theorem match_reference_image_sound:
  assumes "sha_ok rt" and "0 \<le> n" and "n \<le> 64" and "1 \<le> max_pixels"
    and "\<forall>r \<in> set (rr_references registry). wf_registry_image r"
    and "rt_sha256 rt data = asset"
  shows "\<exists>m. match_reference_image rt lib data asset registry n max_pixels = Inr m \<and>
    match_sound asset m \<and> ra_verdict (rm_assessment m) \<noteq> Rights_CLEAR \<and>
    (ra_verdict (rm_assessment m) = Rights_POTENTIAL_EXPOSURE \<longleftrightarrow>
      (\<exists>d. image_dhash lib data max_pixels = Inr (Inspected d) \<and>
         (\<exists>r \<in> set (rr_references registry). candidate_reference asset d n r)))"
  using assms by (rule match_reference_image_result)

subsection \<open>A concrete image and registry\<close>

definition demo_lib :: image_lib where
  "demo_lib = \<lparr>lib_open = (\<lambda>_. Some (100, 100)), lib_pixels = (\<lambda>_. Some (replicate 72 0)),
     lib_normal_size = (\<lambda>_. Some (100, 100)), lib_orb = (\<lambda>_. None)\<rparr>"

definition demo_reference :: registry_image where
  "demo_reference = \<lparr>ri_reference_id = ''ref-1'', ri_kind = Ref_TRADEMARK, ri_title = ''Mark'',
     ri_rights_holder = ''Holder'', ri_sha256 = rt_sha256 demo_runtime ''pixels'',
     ri_dhash = replicate 16 (CHR ''0''), ri_media_type = ''image/png'', ri_source_record_id = ''record-1'',
     ri_feature_manifest = None\<rparr>"

definition demo_rights_registry :: rights_registry where
  "demo_rights_registry = \<lparr>rr_registry_id = ''registry-1'', rr_version = ''1'', rr_references = [demo_reference]\<rparr>"

lemma wf_demo_reference: "wf_registry_image demo_reference"
  using sha_okD [OF sha_ok_demo]
  by (simp add: wf_registry_image_def demo_reference_def len_between_def is_dhash_def is_hex_def list_all_iff id_eval)

lemma demo_dhash: "\<exists>d. image_dhash demo_lib data 100000 = Inr (Inspected d)"
  by (simp add: image_dhash_def demo_lib_def)

theorem match_reference_image_sound_witness:
  "\<exists>m. match_reference_image demo_runtime demo_lib ''pixels'' (rt_sha256 demo_runtime ''pixels'')
      demo_rights_registry 6 100000 = Inr m \<and>
    match_sound (rt_sha256 demo_runtime ''pixels'') m \<and>
    ra_verdict (rm_assessment m) = Rights_POTENTIAL_EXPOSURE"
proof -
  have "\<forall>r \<in> set (rr_references demo_rights_registry). wf_registry_image r"
    by (simp add: demo_rights_registry_def wf_demo_reference)
  from match_reference_image_sound [OF sha_ok_demo _ _ _ this refl, of 6 100000 demo_lib "''pixels''"]
  show ?thesis
    using demo_dhash
    by (auto simp: demo_rights_registry_def candidate_reference_def demo_reference_def)
qed

end
