(* ===== verification/Localization.thy ===== *)
theory Localization
  imports Image_Registry
begin

section \<open>Localisation of governed references\<close>

text \<open>
  \<open>rights/localization.py\<close>: the local features of a governed reference are matched against those of the
  asset, a homography is fitted to the good matches, and the projected frame of the reference, clipped to
  the asset, is a candidate region. OpenCV is the \<open>localizer_lib\<close> parameter: ORB features of the asset
  (\<open>None\<close> when there are no descriptors), the k-nearest-neighbour matches as (query, train, distance)
  triples with indices into the two feature lists, the RANSAC homography with its inlier mask (\<open>None\<close>
  when there is none or it is not finite) and the projection of points (\<open>None\<close> when it is not finite).
\<close>

subsection \<open>Features and geometry\<close>

type_synonym point = "rat \<times> rat"
type_synonym knn_match = "nat \<times> nat \<times> rat"

record localizer_lib =
  ll_orb :: "string \<Rightarrow> (point \<times> string) list option"
  ll_knn :: "string list \<Rightarrow> string list \<Rightarrow> knn_match list list"
  ll_homography :: "point list \<Rightarrow> point list \<Rightarrow> (rat list \<times> bool list) option"
  ll_project :: "rat list \<Rightarrow> point list \<Rightarrow> point list option"

definition localizer_id :: string where
  "localizer_id = ''rights.trademark-localizer''"

definition localizer_component :: "string \<Rightarrow> component_state \<Rightarrow> string option \<Rightarrow> component_record" where
  "localizer_component registry_sha256 state reason =
     \<lparr>co_component_id = localizer_id, co_component_version = ''1.0.0'',
      co_component_type = ''rights.local-feature-localizer'', co_state = state, co_mandatory = True,
      co_artifact_sha256 = Some registry_sha256, co_reason = reason\<rparr>"

text \<open>\<open>_decode_grayscale\<close>: the size of the normalised image, or the reason of the \<open>ValueError\<close>.\<close>

definition decode_grayscale :: "image_lib \<Rightarrow> string \<Rightarrow> int \<Rightarrow> string + int \<times> int" where
  "decode_grayscale lib data max_pixels =
     (case lib_open lib data of
        None \<Rightarrow> Inl ''image could not be decoded safely''
      | Some (width, height) \<Rightarrow>
          if width < 1 \<or> height < 1 \<or> max_pixels < width * height
          then Inl ''image exceeds the configured pixel budget''
          else case lib_normal_size lib data of
            None \<Rightarrow> Inl ''image could not be decoded safely''
          | Some dims \<Rightarrow> Inr dims)"

definition candidate_features :: "localizer_lib \<Rightarrow> string \<Rightarrow> (point list \<times> string list) option" where
  "candidate_features ll data =
     (case ll_orb ll data of
        None \<Rightarrow> None
      | Some features \<Rightarrow> if length features < 4 then None else Some (map fst features, map snd features))"

fun split_bytes :: "nat \<Rightarrow> nat \<Rightarrow> string \<Rightarrow> string list" where
  "split_bytes 0 width s = []"
| "split_bytes (Suc n) width s = take width s # split_bytes n width (drop width s)"

definition reference_features :: "registry_image \<Rightarrow> (point list \<times> string list) option res" where
  "reference_features reference =
     (case ri_feature_manifest reference of
        None \<Rightarrow> Inr None
      | Some m \<Rightarrow>
          let points = map (\<lambda>(x, y). (x * of_int (fm_image_width m), y * of_int (fm_image_height m))) (fm_keypoints m)
          in (case b64decode (fm_descriptors_b64 m) of
                None \<Rightarrow> Inl (ValueError ''Invalid base64-encoded string'')
              | Some raw \<Rightarrow> Inr (Some (points, split_bytes (length raw div 32) 32 raw))))"

record localized =
  lc_bbox :: "rat \<times> rat \<times> rat \<times> rat"
  lc_good_match_count :: nat
  lc_inlier_count :: nat
  lc_inlier_ratio :: rat
  lc_area_ratio :: rat
  lc_confidence :: rat
  lc_homography :: "rat list"

text \<open>\<open>pair[0]\<close> of the pairs that pass the ratio test.\<close>

definition good_matches :: "rat \<Rightarrow> knn_match list list \<Rightarrow> knn_match list" where
  "good_matches ratio_threshold pairs = List.map_filter
     (\<lambda>pair. case pair of [a, b] \<Rightarrow> if snd (snd a) < ratio_threshold * snd (snd b) then Some a else None | _ \<Rightarrow> None)
     pairs"

definition reference_corners :: "feature_manifest \<Rightarrow> point list" where
  "reference_corners m =
     [(0, 0), (of_int (fm_image_width m - 1), 0),
      (of_int (fm_image_width m - 1), of_int (fm_image_height m - 1)), (0, of_int (fm_image_height m - 1))]"

definition match_confidence :: "nat \<Rightarrow> rat \<Rightarrow> rat" where
  "match_confidence inliers inlier_ratio =
     min (98 / 100) (45 / 100 + 35 / 100 * inlier_ratio + 20 / 100 * min 1 (of_nat inliers / 24))"

text \<open>The projected frame clipped to the asset; \<open>None\<close> when it is too small or too large.\<close>

definition clipped_region :: "int \<Rightarrow> int \<Rightarrow> point list \<Rightarrow> (rat \<times> rat \<times> rat \<times> rat) option" where
  "clipped_region width height projected =
     (let x0 = max 0 (Min (set (map fst projected)));
          y0 = max 0 (Min (set (map snd projected)));
          x1 = min (of_int width) (Max (set (map fst projected)));
          y1 = min (of_int height) (Max (set (map snd projected)));
          area_ratio = ((x1 - x0) * (y1 - y0)) / of_int (width * height)
      in if x1 - x0 < 4 \<or> y1 - y0 < 4 then None
         else if \<not> (0 < area_ratio \<and> area_ratio \<le> 1) then None
         else Some (x0, y0, x1, y1))"

definition localized_geometry ::
    "localizer_lib \<Rightarrow> feature_manifest \<Rightarrow> point list \<Rightarrow> point list \<Rightarrow> knn_match list \<Rightarrow> int \<Rightarrow> int \<Rightarrow> nat \<Rightarrow> rat \<Rightarrow>
     localized option" where
  "localized_geometry ll m reference_points candidate_points good width height min_inliers min_inlier_ratio =
     (case ll_homography ll (map (\<lambda>(q, t, d). reference_points ! q) good)
        (map (\<lambda>(q, t, d). candidate_points ! t) good) of
        None \<Rightarrow> None
      | Some (homography, inlier_mask) \<Rightarrow>
          let inliers = length (filter id inlier_mask);
              inlier_ratio = of_nat inliers / of_nat (length good)
          in if inliers < min_inliers \<or> inlier_ratio < min_inlier_ratio then None
             else case ll_project ll homography (reference_corners m) of
               None \<Rightarrow> None
             | Some projected \<Rightarrow>
                 (case clipped_region width height projected of
                    None \<Rightarrow> None
                  | Some (x0, y0, x1, y1) \<Rightarrow> Some
                      \<lparr>lc_bbox = (round_to x0 3, round_to y0 3, round_to x1 3, round_to y1 3),
                       lc_good_match_count = length good, lc_inlier_count = inliers,
                       lc_inlier_ratio = round_to inlier_ratio 6,
                       lc_area_ratio = round_to (((x1 - x0) * (y1 - y0)) / of_int (width * height)) 6,
                       lc_confidence = round_to (match_confidence inliers inlier_ratio) 6,
                       lc_homography = map (\<lambda>v. round_to v 8) homography\<rparr>))"

definition localized_candidate ::
    "localizer_lib \<Rightarrow> registry_image \<Rightarrow> point list \<Rightarrow> string list \<Rightarrow> int \<Rightarrow> int \<Rightarrow> rat \<Rightarrow> nat \<Rightarrow> rat \<Rightarrow>
     localized option res" where
  "localized_candidate ll reference candidate_points candidate_descriptors width height ratio_threshold
      min_inliers min_inlier_ratio =
     res_bind (reference_features reference) (\<lambda>decoded.
       case (decoded, ri_feature_manifest reference) of
         (Some (reference_points, reference_descriptors), Some m) \<Rightarrow>
           if length candidate_descriptors < 2 then Inr None
           else let good = good_matches ratio_threshold (ll_knn ll reference_descriptors candidate_descriptors)
             in if length good < max 4 min_inliers then Inr None
                else Inr (localized_geometry ll m reference_points candidate_points good width height
                  min_inliers min_inlier_ratio)
       | _ \<Rightarrow> Inr None)"

subsection \<open>Evidence and claims\<close>

definition localizer_evidence ::
    "string \<Rightarrow> string \<Rightarrow> evidence_polarity \<Rightarrow> rat \<Rightarrow> evidence_locator \<Rightarrow> string \<Rightarrow> string \<Rightarrow> attributes \<Rightarrow>
     evidence_pointer" where
  "localizer_evidence evidence_id asset_sha256 polarity confidence locator summary payload attrs =
     \<lparr>ev_evidence_id = evidence_id, ev_asset_sha256 = asset_sha256, ev_kind = Ev_REFERENCE_MATCH,
      ev_source = ''Governed local ORB/RANSAC visual-reference localizer'', ev_component_id = localizer_id,
      ev_component_version = ''1.0.0'', ev_polarity = polarity, ev_confidence = confidence, ev_locator = locator,
      ev_summary = summary, ev_payload_sha256 = Some payload, ev_attributes = attrs\<rparr>"

definition localizer_claim ::
    "string \<Rightarrow> string \<Rightarrow> claim_outcome \<Rightarrow> rat \<Rightarrow> string list \<Rightarrow> string list \<Rightarrow> claim_record" where
  "localizer_claim claim_id statement outcome confidence evidence_ids limitations =
     \<lparr>cl_claim_id = claim_id, cl_dimension = Dim_RIGHTS_EXPOSURE, cl_claim_type = ''reference.localized-candidate'',
      cl_statement = statement, cl_outcome = outcome, cl_confidence = confidence, cl_mandatory = False,
      cl_evidence_ids = evidence_ids, cl_limitations = limitations\<rparr>"

definition localizer_statement :: string where
  "localizer_statement = ''A governed work or mark is localized within the asset.''"

record localization =
  lo_component :: component_record
  lo_evidence :: "evidence_pointer list"
  lo_claims :: "claim_record list"
  lo_candidate_reference_ids :: "string list"
  lo_limitations :: "string list"

text \<open>The three results of a lane that could not look: no features to look for, no image, no features in it.\<close>

definition localization_degraded :: "string \<Rightarrow> string \<Rightarrow> string \<Rightarrow> localization res" where
  "localization_degraded registry_sha256 asset_sha256 reason =
     res_bind (validate_component (localizer_component registry_sha256 Comp_DEGRADED (Some reason))) (\<lambda>component.
     res_bind (validate_claim
       (localizer_claim (asset_id_text ''claim.visual-localization-'' asset_sha256) localizer_statement
          Outcome_NOT_ASSESSED 0 [] [reason])) (\<lambda>claim.
     Inr \<lparr>lo_component = component, lo_evidence = [], lo_claims = [claim], lo_candidate_reference_ids = [],
          lo_limitations = [reason]\<rparr>))"

type_synonym localization_match = "registry_image \<times> localized"

definition localized_json :: "string \<Rightarrow> string \<Rightarrow> localization_match \<Rightarrow> json" where
  "localized_json asset_sha256 registry_sha256 m =
     (let l = snd m
      in JObj [(''bbox'', bbox_json (lc_bbox l)), (''good_match_count'', JInt (int (lc_good_match_count l))),
         (''inlier_count'', JInt (int (lc_inlier_count l))), (''inlier_ratio'', JFloat (lc_inlier_ratio l)),
         (''area_ratio'', JFloat (lc_area_ratio l)), (''confidence'', JFloat (lc_confidence l)),
         (''homography'', JArr (map JFloat (lc_homography l))), (''asset_sha256'', JStr asset_sha256),
         (''reference_id'', JStr (ri_reference_id (fst m))), (''registry_sha256'', JStr registry_sha256)])"

definition localized_evidence :: "runtime \<Rightarrow> string \<Rightarrow> rights_registry \<Rightarrow> localization_match \<Rightarrow> evidence_pointer" where
  "localized_evidence rt asset_sha256 registry m =
     (let (reference, l) = m
      in localizer_evidence (token_id_text rt ''evidence.visual-localization-'' (ri_reference_id reference) asset_sha256)
           asset_sha256 Pol_SUPPORTS (lc_confidence l) (region_locator (lc_bbox l))
           ''A governed visual reference passed feature and geometric verification.''
           (sha256_json rt (localized_json asset_sha256 (rights_registry_commitment rt registry) m))
           [(''area_ratio'', AFloat (lc_area_ratio l)), (''good_match_count'', AInt (int (lc_good_match_count l))),
            (''inlier_count'', AInt (int (lc_inlier_count l))), (''inlier_ratio'', AFloat (lc_inlier_ratio l)),
            (''reference_id'', AStr (ri_reference_id reference)),
            (''reference_kind'', AStr (reference_kind_value (ri_kind reference))),
            (''reference_title'', AStr (ri_title reference)), (''rights_holder'', AStr (ri_rights_holder reference)),
            (''registry_id'', AStr (rr_registry_id registry)), (''registry_version'', AStr (rr_version registry)),
            (''source_record_id'', AStr (ri_source_record_id reference))])"

definition localized_claim :: "runtime \<Rightarrow> string \<Rightarrow> localization_match \<Rightarrow> claim_record" where
  "localized_claim rt asset_sha256 m =
     (let (reference, l) = m
      in localizer_claim (token_id_text rt ''claim.visual-localization-'' (ri_reference_id reference) asset_sha256)
           (''Governed reference '' @ ri_reference_id reference @ '' is localized within the asset.'')
           Outcome_SUPPORTED (lc_confidence l)
           [token_id_text rt ''evidence.visual-localization-'' (ri_reference_id reference) asset_sha256]
           [''Local-feature similarity is candidate evidence, not a legal determination.''])"

definition no_localization_limitation :: string where
  "no_localization_limitation = ''No local-feature candidate passed the configured geometric threshold; this is not proof of rights clearance.''"

definition no_localization ::
    "runtime \<Rightarrow> string \<Rightarrow> rights_registry \<Rightarrow> nat \<Rightarrow> rat \<Rightarrow> nat \<Rightarrow> rat \<Rightarrow> localization res" where
  "no_localization rt asset_sha256 registry feature_reference_count ratio_threshold min_inliers min_inlier_ratio =
     (let registry_sha256 = rights_registry_commitment rt registry;
          evidence_id = asset_id_text ''evidence.visual-localization-query-'' asset_sha256
      in res_bind (validate_component (localizer_component registry_sha256 Comp_AVAILABLE None)) (\<lambda>component.
         res_bind (validate_evidence
           (localizer_evidence evidence_id asset_sha256 Pol_CONTRADICTS 1 whole_asset
              ''No governed visual reference passed geometric localization.''
              (sha256_json rt (JObj [(''asset_sha256'', JStr asset_sha256),
                 (''feature_reference_count'', JInt (int feature_reference_count)),
                 (''min_inlier_ratio'', JFloat min_inlier_ratio), (''min_inliers'', JInt (int min_inliers)),
                 (''ratio_threshold'', JFloat ratio_threshold), (''registry_sha256'', JStr registry_sha256)]))
              [(''candidate_count'', AInt 0), (''feature_reference_count'', AInt (int feature_reference_count)),
               (''registry_id'', AStr (rr_registry_id registry)), (''registry_version'', AStr (rr_version registry))]))
           (\<lambda>evidence.
         res_bind (validate_claim
           (localizer_claim (asset_id_text ''claim.visual-localization-'' asset_sha256) localizer_statement
              Outcome_CONTRADICTED 1 [evidence_id] [no_localization_limitation])) (\<lambda>claim.
         Inr \<lparr>lo_component = component, lo_evidence = [evidence], lo_claims = [claim],
              lo_candidate_reference_ids = [], lo_limitations = [no_localization_limitation]\<rparr>))))"

text \<open>The loop over the governed references with local features.\<close>

fun localize_all ::
    "(registry_image \<Rightarrow> localized option res) \<Rightarrow> registry_image list \<Rightarrow> localization_match list res" where
  "localize_all f [] = Inr []"
| "localize_all f (reference # references) =
     res_bind (f reference) (\<lambda>l. res_bind (localize_all f references) (\<lambda>ms.
       Inr (case l of None \<Rightarrow> ms | Some x \<Rightarrow> (reference, x) # ms)))"

definition localize_reference_images ::
    "runtime \<Rightarrow> image_lib \<Rightarrow> localizer_lib \<Rightarrow> string \<Rightarrow> string \<Rightarrow> rights_registry \<Rightarrow> int \<Rightarrow> rat \<Rightarrow> nat \<Rightarrow> rat \<Rightarrow>
     localization res" where
  "localize_reference_images rt lib ll data asset_sha256 registry max_pixels ratio_threshold min_inliers min_inlier_ratio =
     (if rt_sha256 rt data \<noteq> asset_sha256
      then Inl (ValueError ''asset_sha256 does not match the supplied image bytes'')
      else if \<not> (1 / 2 \<le> ratio_threshold \<and> ratio_threshold < 1)
      then Inl (ValueError ''ratio_threshold must be between 0.5 inclusive and 1 exclusive'')
      else if min_inliers < 4 then Inl (ValueError ''min_inliers must be at least four'')
      else if \<not> (0 < min_inlier_ratio \<and> min_inlier_ratio \<le> 1)
      then Inl (ValueError ''min_inlier_ratio must be in (0, 1]'')
      else let registry_sha256 = rights_registry_commitment rt registry;
               feature_references = filter (\<lambda>r. ri_feature_manifest r \<noteq> None) (rr_references registry)
      in if feature_references = []
         then localization_degraded registry_sha256 asset_sha256
           ''No governed reference contains sufficient local features for localization.''
         else case decode_grayscale lib data max_pixels of
           Inl reason \<Rightarrow> localization_degraded registry_sha256 asset_sha256 reason
         | Inr (width, height) \<Rightarrow>
             (case candidate_features ll data of
                None \<Rightarrow> localization_degraded registry_sha256 asset_sha256
                  ''The assessed asset contains too few stable local features for localization.''
              | Some (points, descriptors) \<Rightarrow>
                  res_bind (localize_all (\<lambda>r. localized_candidate ll r points descriptors width height
                      ratio_threshold min_inliers min_inlier_ratio) feature_references) (\<lambda>found.
                  let matches = sort_key (\<lambda>m. (- lc_confidence (snd m), ri_reference_id (fst m))) found
                  in if matches = []
                     then no_localization rt asset_sha256 registry (length feature_references) ratio_threshold
                       min_inliers min_inlier_ratio
                     else res_bind (collect_located (localized_evidence rt asset_sha256 registry)
                         (localized_claim rt asset_sha256) matches) (\<lambda>pairs.
                       res_bind (validate_component (localizer_component registry_sha256 Comp_AVAILABLE None))
                         (\<lambda>component.
                       Inr \<lparr>lo_component = component, lo_evidence = map fst pairs, lo_claims = map snd pairs,
                            lo_candidate_reference_ids = sort (map (\<lambda>m. ri_reference_id (fst m)) matches),
                            lo_limitations =
                              [''Localization is limited to governed references with stable ORB features.'',
                               ''Candidate geometry is not proof of infringement, ownership or consumer confusion.'']\<rparr>)))))"

subsection \<open>Regions lie in the asset\<close>

lemma round_to_near: "\<bar>round_to q n - q\<bar> \<le> 1 / (2 * 10 ^ n)"
proof -
  have p: "(0::rat) < 10 ^ n" by simp
  have "\<bar>of_int (round_half_even (q * 10 ^ n)) - q * 10 ^ n\<bar> \<le> 1 / 2" by (rule round_half_even_near)
  then have "\<bar>of_int (round_half_even (q * 10 ^ n)) - q * 10 ^ n\<bar> / 10 ^ n \<le> (1 / 2) / 10 ^ n"
    using p by (intro divide_right_mono) simp_all
  also have "\<bar>of_int (round_half_even (q * 10 ^ n)) - q * 10 ^ n\<bar> / 10 ^ n =
      \<bar>(of_int (round_half_even (q * 10 ^ n)) - q * 10 ^ n) / 10 ^ n\<bar>"
    by (simp add: abs_divide)
  also have "(of_int (round_half_even (q * 10 ^ n)) - q * 10 ^ n) / 10 ^ n = round_to q n - q"
    using p by (simp add: round_to_def diff_divide_distrib)
  finally show ?thesis by simp
qed

lemma clipped_region_bounds:
  assumes "clipped_region width height ps = Some (x0, y0, x1, y1)"
  shows "0 \<le> x0 \<and> x0 + 4 \<le> x1 \<and> x1 \<le> of_int width \<and> 0 \<le> y0 \<and> y0 + 4 \<le> y1 \<and> y1 \<le> of_int height \<and>
    0 < (x1 - x0) * (y1 - y0) / of_int (width * height) \<and> (x1 - x0) * (y1 - y0) / of_int (width * height) \<le> 1"
proof -
  define a b c d where abcd: "a = max 0 (Min (set (map fst ps)))" "b = max 0 (Min (set (map snd ps)))"
    "c = min (of_int width) (Max (set (map fst ps)))" "d = min (of_int height) (Max (set (map snd ps)))"
  let ?q = "(c - a) * (d - b) / of_int (width * height)"
  have r: "clipped_region width height ps = (if c - a < 4 \<or> d - b < 4 then None
      else if \<not> (0 < ?q \<and> ?q \<le> 1) then None else Some (a, b, c, d))"
    by (simp only: clipped_region_def Let_def abcd)
  have eq: "x0 = a" "y0 = b" "x1 = c" "y1 = d" and n: "\<not> (c - a < 4 \<or> d - b < 4)" "0 < ?q \<and> ?q \<le> 1"
    using assms unfolding r by (auto simp only: option.distinct option.inject prod.inject split: if_split_asm)
  have "0 \<le> a" "0 \<le> b" "c \<le> of_int width" "d \<le> of_int height" by (simp_all add: abcd)
  then show ?thesis unfolding eq using n by linarith
qed

text \<open>A box of the asset, in pixels of its decoded frame.\<close>

definition box_in_frame :: "int \<Rightarrow> int \<Rightarrow> rat \<times> rat \<times> rat \<times> rat \<Rightarrow> bool" where
  "box_in_frame width height b \<longleftrightarrow>
     (case b of (x0, y0, x1, y1) \<Rightarrow> 0 \<le> x0 \<and> x0 < x1 \<and> x1 \<le> of_int width \<and> 0 \<le> y0 \<and> y0 < y1 \<and> y1 \<le> of_int height)"

lemma rounded_region:
  assumes "0 \<le> a" and "a + 4 \<le> b" and "b \<le> of_int n"
  shows "0 \<le> round_to a 3" and "round_to a 3 < round_to b 3" and "round_to b 3 \<le> of_int n"
proof -
  have "0 \<le> b" "a \<le> of_int n" using assms by simp_all
  then show "0 \<le> round_to a 3" "round_to b 3 \<le> of_int n"
    using round_to_bounds [of 0 a n 3] round_to_bounds [of 0 b n 3] assms by simp_all
  have "\<bar>round_to a 3 - a\<bar> \<le> 1 / 2000" "\<bar>round_to b 3 - b\<bar> \<le> 1 / 2000"
    using round_to_near [of a 3] round_to_near [of b 3] by simp_all
  from abs_le_D1 [OF this(1)] abs_le_D2 [OF this(2)]
  have "round_to a 3 - a \<le> 1 / 2000" "- (round_to b 3 - b) \<le> 1 / 2000" .
  with assms(2) show "round_to a 3 < round_to b 3" by simp
qed

lemma match_confidence_bounds:
  assumes "0 \<le> r"
  shows "0 \<le> round_to (match_confidence k r) 6" and "round_to (match_confidence k r) 6 \<le> 1"
proof -
  have "0 \<le> match_confidence k r" "match_confidence k r \<le> 1" using assms by (auto simp: match_confidence_def)
  then show "0 \<le> round_to (match_confidence k r) 6" "round_to (match_confidence k r) 6 \<le> 1"
    using round_to_bounds [of 0 "match_confidence k r" 1 6] by simp_all
qed

lemma localized_geometry_SomeD:
  assumes "localized_geometry ll m qs ps good width height k r = Some l"
  shows "box_in_frame width height (lc_bbox l) \<and> unit_interval (lc_confidence l) \<and> k \<le> lc_inlier_count l \<and>
    lc_good_match_count l = length good"
proof -
  let ?h = "ll_homography ll (map (\<lambda>(q, t, d). qs ! q) good) (map (\<lambda>(q, t, d). ps ! t) good)"
  obtain homography inlier_mask where h: "?h = Some (homography, inlier_mask)"
    using assms by (cases ?h) (auto simp: localized_geometry_def)
  let ?n = "length (filter id inlier_mask)"
  let ?q = "of_nat ?n / of_nat (length good) :: rat"
  have n: "\<not> (?n < k \<or> ?q < r)"
    by (rule ccontr) (use assms h in \<open>simp add: localized_geometry_def Let_def split: if_splits\<close>)
  obtain projected where p: "ll_project ll homography (reference_corners m) = Some projected"
    using assms h n by (cases "ll_project ll homography (reference_corners m)")
      (simp_all add: localized_geometry_def Let_def split: if_splits)
  obtain x0 y0 x1 y1 where c: "clipped_region width height projected = Some (x0, y0, x1, y1)"
    using assms h n p by (cases "clipped_region width height projected")
      (auto simp add: localized_geometry_def Let_def split: if_splits)
  have l: "lc_bbox l = (round_to x0 3, round_to y0 3, round_to x1 3, round_to y1 3)"
    "lc_good_match_count l = length good" "lc_inlier_count l = ?n"
    "lc_confidence l = round_to (match_confidence ?n ?q) 6"
    using assms h n p c by (auto simp add: localized_geometry_def Let_def split: if_splits)
  note b = clipped_region_bounds [OF c]
  have "box_in_frame width height (lc_bbox l)"
    using b rounded_region [of x0 x1 width] rounded_region [of y0 y1 height] by (simp add: l box_in_frame_def)
  moreover have "unit_interval (lc_confidence l)"
    using match_confidence_bounds by (simp add: l unit_interval_def)
  ultimately show ?thesis using n by (simp add: l)
qed

lemma localized_candidate_SomeD:
  assumes "localized_candidate ll reference ps ds width height ratio k r = Inr (Some l)"
  shows "box_in_frame width height (lc_bbox l) \<and> unit_interval (lc_confidence l) \<and> k \<le> lc_inlier_count l \<and>
    max 4 k \<le> lc_good_match_count l"
proof -
  obtain d where d: "reference_features reference = Inr d"
    using assms by (cases "reference_features reference") (simp_all add: localized_candidate_def)
  obtain qs es m where m: "d = Some (qs, es)" "ri_feature_manifest reference = Some m"
    using assms d by (cases d; cases "ri_feature_manifest reference") (auto simp add: localized_candidate_def)
  let ?g = "good_matches ratio (ll_knn ll es ds)"
  have "\<not> length ?g < max 4 k \<and> localized_geometry ll m qs ps ?g width height k r = Some l"
    using assms d m by (simp add: localized_candidate_def Let_def split: if_splits)
  with localized_geometry_SomeD [of ll m qs ps ?g width height k r l] show ?thesis by auto
qed

subsection \<open>The lane\<close>

lemma localizer_literals [simp]:
  "is_id localizer_id" "is_id ''rights.local-feature-localizer''" "is_id ''reference.localized-candidate''"
  "is_id ''claim.visual-localization-''" "is_id ''evidence.visual-localization-''"
  "is_id ''evidence.visual-localization-query-''"
  by (simp_all add: id_eval localizer_id_def)

lemma wf_localizer_component:
  "is_sha256 h \<Longrightarrow> wf_component (localizer_component h Comp_AVAILABLE None)"
  "is_sha256 h \<Longrightarrow> wf_component (localizer_component h Comp_DEGRADED (Some r)) \<longleftrightarrow> len_between 1 500 r"
  by (auto simp: wf_component_iff localizer_component_def len_between_def)

lemma wf_localizer_evidence:
  "wf_evidence (localizer_evidence i sha p q loc s h attrs) \<longleftrightarrow>
     is_id i \<and> is_sha256 sha \<and> unit_interval q \<and> len_between 1 1000 s \<and> is_sha256 h"
  by (auto simp: wf_evidence_iff localizer_evidence_def len_between_def)

lemma wf_localizer_claim:
  "wf_claim (localizer_claim i t out q es ls) \<longleftrightarrow>
     is_id i \<and> len_between 1 1000 t \<and> unit_interval q \<and> distinct es \<and> sorted es \<and>
     (out \<in> {Outcome_SUPPORTED, Outcome_CONTRADICTED} \<longrightarrow> es \<noteq> []) \<and>
     (out \<in> {Outcome_UNKNOWN, Outcome_NOT_ASSESSED} \<longrightarrow> ls \<noteq> []) \<and>
     (out = Outcome_NOT_ASSESSED \<longrightarrow> q = 0 \<and> es = [])"
  by (auto simp: wf_claim_iff localizer_claim_def)

lemma localizer_projections [simp]:
  "ev_evidence_id (localizer_evidence i sha p q loc s h attrs) = i"
  "ev_asset_sha256 (localizer_evidence i sha p q loc s h attrs) = sha"
  "ev_component_id (localizer_evidence i sha p q loc s h attrs) = localizer_id"
  "ev_component_version (localizer_evidence i sha p q loc s h attrs) = ''1.0.0''"
  "ev_locator (localizer_evidence i sha p q loc s h attrs) = loc"
  "cl_evidence_ids (localizer_claim j t out q es ls) = es"
  "cl_dimension (localizer_claim j t out q es ls) = Dim_RIGHTS_EXPOSURE"
  "co_component_id (localizer_component r st o') = localizer_id"
  "co_component_version (localizer_component r st o') = ''1.0.0''"
  "co_state (localizer_component r st o') = st"
  by (simp_all add: localizer_evidence_def localizer_claim_def localizer_component_def)

text \<open>What the lane owes the assessment, with the references it located.\<close>

definition localization_sound :: "string \<Rightarrow> string list \<Rightarrow> localization \<Rightarrow> bool" where
  "localization_sound asset found l \<longleftrightarrow>
     lane_sound asset (lo_component l) (lo_evidence l) (lo_claims l) \<and>
     co_component_id (lo_component l) = localizer_id \<and>
     list_all (\<lambda>e. wf_locator (ev_locator e)) (lo_evidence l) \<and>
     list_all (\<lambda>c. cl_dimension c = Dim_RIGHTS_EXPOSURE) (lo_claims l) \<and>
     lo_candidate_reference_ids l = sort found \<and> lo_limitations l \<noteq> []"

lemma localization_degraded_ok:
  assumes "is_sha256 asset" and "is_sha256 h" and "len_between 1 500 reason"
  shows "\<exists>l. localization_degraded h asset reason = Inr l \<and> localization_sound asset [] l \<and>
    co_state (lo_component l) = Comp_DEGRADED"
proof -
  let ?c = "localizer_claim (asset_id_text ''claim.visual-localization-'' asset) localizer_statement
          Outcome_NOT_ASSESSED 0 [] [reason]"
  have c: "wf_claim ?c"
    using assms is_id_asset_id_text [of "''claim.visual-localization-''" asset]
    by (simp add: wf_localizer_claim localizer_statement_def len_between_def)
  have k: "wf_component (localizer_component h Comp_DEGRADED (Some reason))"
    using assms by (simp add: wf_localizer_component)
  show ?thesis
    unfolding localization_degraded_def component.validate_fix [OF k] claim.validate_fix [OF c] res_bind_simps
    using c k by (simp add: localization_sound_def lane_sound_def)
qed

lemma no_localization_ok:
  assumes "sha_ok rt" and "is_sha256 asset"
  shows "\<exists>l. no_localization rt asset registry n ratio k r = Inr l \<and> localization_sound asset [] l \<and>
    co_state (lo_component l) = Comp_AVAILABLE"
proof -
  let ?h = "rights_registry_commitment rt registry"
  have h: "is_sha256 ?h" using assms(1) by (simp add: rights_registry_commitment_def)
  have ids: "is_id (asset_id_text ''evidence.visual-localization-query-'' asset)"
    "is_id (asset_id_text ''claim.visual-localization-'' asset)"
    using assms(2) by simp_all
  let ?c = "localizer_claim (asset_id_text ''claim.visual-localization-'' asset) localizer_statement
      Outcome_CONTRADICTED 1 [asset_id_text ''evidence.visual-localization-query-'' asset] [no_localization_limitation]"
  have c: "wf_claim ?c" using ids by (simp add: wf_localizer_claim localizer_statement_def len_between_def)
  let ?k = "localizer_component ?h Comp_AVAILABLE None"
  have k: "wf_component ?k" using h by (simp add: wf_localizer_component)
  have e: "wf_evidence (localizer_evidence (asset_id_text ''evidence.visual-localization-query-'' asset) asset
      Pol_CONTRADICTS 1 whole_asset ''No governed visual reference passed geometric localization.'' (sha256_json rt j) attrs)"
    for j attrs
    using ids assms by (simp add: wf_localizer_evidence len_between_def)
  show ?thesis
    unfolding no_localization_def Let_def component.validate_fix [OF k] evidence.validate_fix [OF e]
      claim.validate_fix [OF c] res_bind_simps
    using c k e by (simp add: localization_sound_def lane_sound_def)
qed

lemma localize_all_Inr:
  assumes "localize_all f rs = Inr ms"
  shows "ms = List.map_filter (\<lambda>r. case f r of Inr (Some l) \<Rightarrow> Some (r, l) | _ \<Rightarrow> None) rs"
  using assms
  by (induction rs arbitrary: ms) (auto simp: res_bind_Inr_iff map_filter_simps split: option.splits)

lemma localize_all_total:
  "(\<And>r. r \<in> set rs \<Longrightarrow> \<exists>l. f r = Inr l) \<Longrightarrow> \<exists>ms. localize_all f rs = Inr ms"
  by (induction rs) (fastforce simp: res_bind_Inr_iff)+

lemma localized_candidate_total:
  assumes "opt_ok wf_manifest (ri_feature_manifest reference)"
  shows "\<exists>l. localized_candidate ll reference ps ds width height ratio k r = Inr l"
proof -
  have "\<exists>d. reference_features reference = Inr d"
    using assms by (cases "ri_feature_manifest reference")
      (auto simp: reference_features_def wf_manifest_def b64_roundtrip Let_def)
  then obtain d where d: "reference_features reference = Inr d" ..
  show ?thesis
    unfolding localized_candidate_def d res_bind_simps Let_def
    by (auto split: option.splits prod.splits)
qed

definition located :: "localized option res \<Rightarrow> bool" where
  "located x \<longleftrightarrow> (case x of Inr (Some _) \<Rightarrow> True | _ \<Rightarrow> False)"

lemma map_filter_refs:
  "map (\<lambda>m. g (fst m)) (List.map_filter (\<lambda>r. case f r of Inr (Some l) \<Rightarrow> Some (r, l) | _ \<Rightarrow> None) rs) =
   map g (filter (\<lambda>r. located (f r)) rs)"
  by (induction rs) (auto simp: map_filter_simps located_def split: sum.splits option.splits)

lemma sort_map_sort_key: "sort (map g (sort_key f xs)) = sort (map g xs)"
  by (intro properties_for_sort) (simp_all add: mset_map)

lemma localized_found_ok:
  assumes "sha_ok rt" and "is_sha256 asset" and "ms \<noteq> []"
    and "\<And>m. m \<in> set ms \<Longrightarrow> is_id (ri_reference_id (fst m)) \<and> unit_interval (lc_confidence (snd m)) \<and>
      box_in_frame width height (lc_bbox (snd m))"
  shows "collect_located (localized_evidence rt asset registry) (localized_claim rt asset) ms =
      Inr (map (\<lambda>m. (localized_evidence rt asset registry m, localized_claim rt asset m)) ms)"
    and "lane_sound asset (localizer_component (rights_registry_commitment rt registry) Comp_AVAILABLE None)
      (map (localized_evidence rt asset registry) ms) (map (localized_claim rt asset) ms)"
    and "list_all (\<lambda>e. wf_locator (ev_locator e)) (map (localized_evidence rt asset registry) ms)"
    and "list_all (\<lambda>c. cl_dimension c = Dim_RIGHTS_EXPOSURE) (map (localized_claim rt asset) ms)"
proof -
  have k: "wf_component (localizer_component (rights_registry_commitment rt registry) Comp_AVAILABLE None)"
    using assms(1) by (simp add: wf_localizer_component rights_registry_commitment_def)
  have ev: "wf_evidence (localized_evidence rt asset registry m) \<and> wf_locator (ev_locator (localized_evidence rt asset registry m)) \<and>
      wf_claim (localized_claim rt asset m)" if "m \<in> set ms" for m
  proof -
    obtain reference l where m: "m = (reference, l)" by (cases m)
    obtain x0 y0 x1 y1 where b: "lc_bbox (snd m) = (x0, y0, x1, y1)" by (cases "lc_bbox (snd m)")
    have "wf_locator (region_locator (lc_bbox (snd m)))"
      using assms(4) [OF that] by (simp add: b box_in_frame_def wf_region_locator)
    then show ?thesis
      using assms(1,2) assms(4) [OF that] is_id_length [of "ri_reference_id (fst m)"]
      by (simp add: m localized_evidence_def localized_claim_def wf_localizer_evidence wf_localizer_claim len_between_def)
  qed
  show "collect_located (localized_evidence rt asset registry) (localized_claim rt asset) ms =
      Inr (map (\<lambda>m. (localized_evidence rt asset registry m, localized_claim rt asset m)) ms)"
    using ev by (intro collect_located_ok) blast+
  show "lane_sound asset (localizer_component (rights_registry_commitment rt registry) Comp_AVAILABLE None)
      (map (localized_evidence rt asset registry) ms) (map (localized_claim rt asset) ms)"
    using ev k by (intro lane_sound_pairs) (auto simp: localized_evidence_def localized_claim_def split: prod.split)
  show "list_all (\<lambda>e. wf_locator (ev_locator e)) (map (localized_evidence rt asset registry) ms)"
    using ev by (simp add: list_all_iff)
  show "list_all (\<lambda>c. cl_dimension c = Dim_RIGHTS_EXPOSURE) (map (localized_claim rt asset) ms)"
    by (auto simp: list_all_iff localized_claim_def split: prod.split)
qed

lemma localize_reference_images_result:
  assumes "sha_ok rt" and "rt_sha256 rt data = asset" and "1 / 2 \<le> ratio" and "ratio < 1" and "4 \<le> k"
    and "0 < r" and "r \<le> 1"
    and "list_all (\<lambda>x. wf_registry_image x \<and> opt_ok wf_manifest (ri_feature_manifest x)) (rr_references registry)"
  shows "\<exists>l. localize_reference_images rt lib ll data asset registry max_pixels ratio k r = Inr l \<and>
    (let features = filter (\<lambda>x. ri_feature_manifest x \<noteq> None) (rr_references registry)
     in case (decode_grayscale lib data max_pixels, candidate_features ll data) of
        (Inr (width, height), Some (ps, ds)) \<Rightarrow>
          (let found = filter (\<lambda>x. located (localized_candidate ll x ps ds width height ratio k r)) features
           in localization_sound asset (map ri_reference_id found) l \<and>
              (found \<noteq> [] \<longrightarrow> list_all (\<lambda>e. loc_kind (ev_locator e) = Loc_REGION \<and>
                opt_ok (box_in_frame width height) (loc_bbox (ev_locator e))) (lo_evidence l)) \<and>
              (co_state (lo_component l) = Comp_AVAILABLE \<longleftrightarrow> features \<noteq> []))
      | _ \<Rightarrow> localization_sound asset [] l \<and> co_state (lo_component l) = Comp_DEGRADED)"
proof -
  have sha: "is_sha256 asset" using assms(1,2) by auto
  let ?h = "rights_registry_commitment rt registry"
  have h: "is_sha256 ?h" using assms(1) by (simp add: rights_registry_commitment_def)
  define features where "features = filter (\<lambda>x. ri_feature_manifest x \<noteq> None) (rr_references registry)"
  note deg = localization_degraded_ok [OF sha h]
  note unfold = localize_reference_images_def assms(2-7) features_def [symmetric]
  have wf: "wf_registry_image x \<and> opt_ok wf_manifest (ri_feature_manifest x)" if "x \<in> set features" for x
    using assms(8) that by (simp add: features_def list_all_iff)
  show ?thesis
  proof (cases "features = []")
    case True
    obtain l where "localization_degraded ?h asset
        ''No governed reference contains sufficient local features for localization.'' = Inr l"
      "localization_sound asset [] l" "co_state (lo_component l) = Comp_DEGRADED"
      using deg [of "''No governed reference contains sufficient local features for localization.''"]
      by (auto simp: len_between_def)
    with True assms(3-7) show ?thesis
      unfolding unfold by (auto simp: Let_def split: sum.split option.split)
  next
    case False
    note features = False
    show ?thesis
    proof (cases "decode_grayscale lib data max_pixels")
      case (Inl reason)
      then have "len_between 1 500 reason"
        by (auto simp: decode_grayscale_def len_between_def split: option.splits if_splits prod.splits)
      then obtain l where "localization_degraded ?h asset reason = Inr l"
        "localization_sound asset [] l" "co_state (lo_component l) = Comp_DEGRADED" using deg by blast
      with Inl features assms(3-7) show ?thesis unfolding unfold by (simp add: Let_def)
    next
      case (Inr dims)
      obtain width height where dims: "dims = (width, height)" by (cases dims)
      show ?thesis
      proof (cases "candidate_features ll data")
        case None
        obtain l where "localization_degraded ?h asset
            ''The assessed asset contains too few stable local features for localization.'' = Inr l"
          "localization_sound asset [] l" "co_state (lo_component l) = Comp_DEGRADED"
          using deg [of "''The assessed asset contains too few stable local features for localization.''"]
          by (auto simp: len_between_def)
        with Inr dims None features assms(3-7) show ?thesis unfolding unfold by (simp add: Let_def)
      next
        case (Some pd)
        obtain ps ds where pd: "pd = (ps, ds)" by (cases pd)
        let ?f = "\<lambda>x. localized_candidate ll x ps ds width height ratio k r"
        have "\<exists>ms. localize_all ?f features = Inr ms"
          using wf localized_candidate_total by (intro localize_all_total) blast
        then obtain found where found: "localize_all ?f features = Inr found" ..
        note eq = localize_all_Inr [OF found]
        define ms where "ms = sort_key (\<lambda>m. (- lc_confidence (snd m), ri_reference_id (fst m))) found"
        have mem: "x \<in> set features \<and> ?f x = Inr (Some l)" if "(x, l) \<in> set ms" for x l
          using that by (auto simp: ms_def eq map_filter_def split: sum.splits option.splits)
        have ids: "map ri_reference_id (filter (\<lambda>x. located (?f x)) features) = map (\<lambda>m. ri_reference_id (fst m)) found"
          unfolding eq by (rule map_filter_refs [symmetric])
        have sorted_ids: "sort (map (\<lambda>m. ri_reference_id (fst m)) ms) =
            sort (map ri_reference_id (filter (\<lambda>x. located (?f x)) features))"
          by (simp add: ids ms_def sort_map_sort_key)
        have none: "filter (\<lambda>x. located (?f x)) features = [] \<longleftrightarrow> ms = []"
          using arg_cong [OF ids, of "\<lambda>xs. xs = []"] by (simp add: ms_def del: filter_empty_conv)
        show ?thesis
        proof (cases "ms = []")
          case True
          obtain l where "no_localization rt asset registry (length features) ratio k r = Inr l"
            "localization_sound asset [] l" "co_state (lo_component l) = Comp_AVAILABLE"
            using no_localization_ok [OF assms(1) sha] by blast
          moreover have "localize_reference_images rt lib ll data asset registry max_pixels ratio k r =
              no_localization rt asset registry (length features) ratio k r"
            unfolding unfold using Inr dims Some pd features found True [unfolded ms_def] assms(3-7)
            by (simp add: Let_def)
          ultimately show ?thesis
            unfolding features_def [symmetric] using Inr dims Some pd features none True
            by (intro exI [of _ l]) (simp add: Let_def)
        next
          case False
          have "is_id (ri_reference_id (fst m)) \<and> unit_interval (lc_confidence (snd m)) \<and>
              box_in_frame width height (lc_bbox (snd m))" if "m \<in> set ms" for m
            using that mem [of "fst m" "snd m"] wf [of "fst m"] localized_candidate_SomeD [of ll "fst m"]
            by (auto simp: wf_registry_image_def)
          note box = this
          note ok = localized_found_ok [OF assms(1) sha False box]
          let ?l = "\<lparr>lo_component = localizer_component ?h Comp_AVAILABLE None,
              lo_evidence = map (localized_evidence rt asset registry) ms, lo_claims = map (localized_claim rt asset) ms,
              lo_candidate_reference_ids = sort (map (\<lambda>m. ri_reference_id (fst m)) ms),
              lo_limitations =
                [''Localization is limited to governed references with stable ORB features.'',
                 ''Candidate geometry is not proof of infringement, ownership or consumer confusion.'']\<rparr>"
          have nonempty: "found \<noteq> []" using False by (simp add: ms_def)
          have c: "validate_component (localizer_component ?h Comp_AVAILABLE None) = Inr (localizer_component ?h Comp_AVAILABLE None)"
            using h by (intro component.validate_fix) (simp add: wf_localizer_component)
          have res: "localize_reference_images rt lib ll data asset registry max_pixels ratio k r = Inr ?l"
            using Inr dims Some pd features found False nonempty assms(3-7) ok(1) [of registry] c
            unfolding unfold by (simp add: Let_def ms_def [symmetric] comp_def)
          have regions: "list_all (\<lambda>e. loc_kind (ev_locator e) = Loc_REGION \<and>
              opt_ok (box_in_frame width height) (loc_bbox (ev_locator e))) (lo_evidence ?l)"
            using box by (auto simp: list_all_iff localized_evidence_def region_locator_def split: prod.split)
          have "localization_sound asset (map ri_reference_id (filter (\<lambda>x. located (?f x)) features)) ?l"
            unfolding localization_sound_def using ok(2,3) [of registry] ok(4) by (simp add: sorted_ids)
          with res regions Inr dims Some pd features show ?thesis
            unfolding features_def [symmetric] by (intro exI [of _ ?l]) (simp add: Let_def)
        qed
      qed
    qed
  qed
qed

text \<open>
  localisation returns a result for every asset and every governed registry with valid manifests: its
  evidence, claims and regions are valid and bound to the asset, every region is a box of positive area
  inside the decoded frame, and its candidates are exactly the governed references whose features passed
  the geometric test. When it could not look it says so with a degraded component.
\<close>

theorem localize_reference_images_sound:
  assumes "sha_ok rt" and "rt_sha256 rt data = asset" and "1 / 2 \<le> ratio" and "ratio < 1" and "4 \<le> k"
    and "0 < r" and "r \<le> 1"
    and "list_all (\<lambda>x. wf_registry_image x \<and> opt_ok wf_manifest (ri_feature_manifest x)) (rr_references registry)"
  shows "\<exists>l. localize_reference_images rt lib ll data asset registry max_pixels ratio k r = Inr l \<and>
    (let features = filter (\<lambda>x. ri_feature_manifest x \<noteq> None) (rr_references registry)
     in case (decode_grayscale lib data max_pixels, candidate_features ll data) of
        (Inr (width, height), Some (ps, ds)) \<Rightarrow>
          (let found = filter (\<lambda>x. located (localized_candidate ll x ps ds width height ratio k r)) features
           in localization_sound asset (map ri_reference_id found) l \<and>
              (found \<noteq> [] \<longrightarrow> list_all (\<lambda>e. loc_kind (ev_locator e) = Loc_REGION \<and>
                opt_ok (box_in_frame width height) (loc_bbox (ev_locator e))) (lo_evidence l)) \<and>
              (co_state (lo_component l) = Comp_AVAILABLE \<longleftrightarrow> features \<noteq> []))
      | _ \<Rightarrow> localization_sound asset [] l \<and> co_state (lo_component l) = Comp_DEGRADED)"
  using assms by (rule localize_reference_images_result)

subsection \<open>A reference found in a concrete image\<close>

definition marked_reference :: registry_image where
  "marked_reference = demo_reference\<lparr>ri_feature_manifest := Some
     \<lparr>fm_image_width = 64, fm_image_height = 64, fm_keypoints = [(0, 0), (1, 0), (1, 1), (0, 1)],
      fm_descriptors_b64 = b64encode (replicate 128 CHR ''d'')\<rparr>\<rparr>"

definition marked_registry :: rights_registry where
  "marked_registry = \<lparr>rr_registry_id = ''registry-1'', rr_version = ''1'', rr_references = [marked_reference]\<rparr>"

definition marked_lib :: localizer_lib where
  "marked_lib = \<lparr>ll_orb = (\<lambda>_. Some (replicate 4 ((0, 0), ''d''))),
     ll_knn = (\<lambda>_ _. [[(0, 0, 1), (0, 1, 9)], [(1, 1, 1), (1, 2, 9)], [(2, 2, 1), (2, 3, 9)], [(3, 3, 1), (3, 0, 9)]]),
     ll_homography = (\<lambda>_ _. Some ([1, 0, 0, 0, 1, 0, 0, 0, 1], replicate 4 True)),
     ll_project = (\<lambda>_ ps. Some ps)\<rparr>"

lemma wf_marked_reference:
  "wf_registry_image marked_reference \<and> opt_ok wf_manifest (ri_feature_manifest marked_reference)"
proof -
  have "wf_registry_image marked_reference"
    using wf_demo_reference by (simp add: wf_registry_image_def marked_reference_def)
  moreover have "opt_ok wf_manifest (ri_feature_manifest marked_reference)"
    by (auto simp: marked_reference_def wf_manifest_def len_between_def max_features_def unit_interval_def
        intro!: exI [of _ "replicate 128 CHR ''d''"])
  ultimately show ?thesis by simp
qed

lemma marked_located:
  "located (localized_candidate marked_lib marked_reference ps [d, d, d, d] 100 100 (3 / 4) 4 (1 / 2))"
  by (simp add: localized_candidate_def reference_features_def marked_reference_def marked_lib_def b64_roundtrip
      good_matches_def map_filter_simps localized_geometry_def reference_corners_def clipped_region_def Let_def
      located_def)

theorem localize_reference_images_sound_witness:
  "\<exists>l. localize_reference_images demo_runtime demo_lib marked_lib ''pixels'' (rt_sha256 demo_runtime ''pixels'')
      marked_registry 100000 (3 / 4) 4 (1 / 2) = Inr l \<and>
    localization_sound (rt_sha256 demo_runtime ''pixels'') [''ref-1''] l \<and>
    list_all (\<lambda>e. loc_kind (ev_locator e) = Loc_REGION) (lo_evidence l)"
proof -
  have "list_all (\<lambda>x. wf_registry_image x \<and> opt_ok wf_manifest (ri_feature_manifest x)) (rr_references marked_registry)"
    by (simp add: marked_registry_def wf_marked_reference)
  note ok = localize_reference_images_sound [OF sha_ok_demo refl _ _ _ _ _ this, of "3 / 4" 4 "1 / 2"
      demo_lib marked_lib "''pixels''" 100000]
  have "decode_grayscale demo_lib ''pixels'' 100000 = Inr (100, 100)"
    by (simp add: decode_grayscale_def demo_lib_def)
  moreover have "candidate_features marked_lib ''pixels'' = Some (replicate 4 (0, 0), replicate 4 ''d'')"
    by (simp add: candidate_features_def marked_lib_def)
  moreover have "ri_feature_manifest marked_reference \<noteq> None" "ri_reference_id marked_reference = ''ref-1''"
    by (simp_all add: marked_reference_def demo_reference_def)
  ultimately show ?thesis
    using ok marked_located by (auto simp: marked_registry_def list_all_iff Let_def numeral_eq_Suc)
qed

end
