(* ===== verification/Licensing.thy ===== *)
theory Licensing
  imports Image_Registry
begin

section \<open>Licence evaluation\<close>

text \<open>
  \<open>rights/licensing.py\<close>: licence records and registries, and the evaluation of the retrieved
  reference candidates against the explicit licences of the registry for a deployment context at an
  instant. A candidate is covered when some licence covers it; an uncovered candidate is a policy
  conflict.
\<close>

subsection \<open>Records\<close>

datatype licence_state = Licence_ACTIVE | Licence_SUSPENDED | Licence_REVOKED

primrec licence_state_value :: "licence_state \<Rightarrow> string" where
  "licence_state_value Licence_ACTIVE = ''ACTIVE''"
| "licence_state_value Licence_SUSPENDED = ''SUSPENDED''"
| "licence_state_value Licence_REVOKED = ''REVOKED''"

record licence_record =
  li_licence_id :: string
  li_source_record_id :: string
  li_reference_ids :: "string list"
  li_licensor :: string
  li_licensee :: string
  li_state :: licence_state
  li_valid_from :: datetime
  li_valid_until :: datetime
  li_territories :: "string list"
  li_channels :: "string list"
  li_intended_uses :: "string list"

definition licence_fields :: "licence_record \<Rightarrow> (string \<times> bool) list" where
  "licence_fields l =
     [(''licence_id'', is_id (li_licence_id l)), (''source_record_id'', is_id (li_source_record_id l)),
      (''reference_ids'', li_reference_ids l \<noteq> [] \<and> distinct (li_reference_ids l)),
      (''licensor'', len_between 1 300 (li_licensor l)), (''licensee'', len_between 1 300 (li_licensee l)),
      (''valid_from'', is_aware (li_valid_from l)), (''valid_until'', is_aware (li_valid_until l)),
      (''territories'', li_territories l \<noteq> [] \<and> list_all scope_territory (territory_set (li_territories l))),
      (''channels'', li_channels l \<noteq> [] \<and> scope_text (li_channels l) \<noteq> []),
      (''intended_uses'', li_intended_uses l \<noteq> [] \<and> scope_text (li_intended_uses l) \<noteq> [])]"

definition normalize_licence :: "licence_record \<Rightarrow> licence_record" where
  "normalize_licence l = l\<lparr>li_reference_ids := sort (li_reference_ids l),
     li_territories := territory_set (li_territories l),
     li_channels := scope_text (li_channels l), li_intended_uses := scope_text (li_intended_uses l)\<rparr>"

definition validate_licence :: "licence_record \<Rightarrow> licence_record res" where
  "validate_licence l =
     check_fields ''LicenceRecord'' (licence_fields l)
       (if instant (li_valid_until l) \<le> instant (li_valid_from l)
        then Inl (ModelError ''LicenceRecord'' ''valid_until must be later than valid_from'')
        else Inr (normalize_licence l))"

definition wf_licence :: "licence_record \<Rightarrow> bool" where
  "wf_licence l \<longleftrightarrow> list_all snd (licence_fields l) \<and>
     instant (li_valid_from l) < instant (li_valid_until l) \<and> normalize_licence l = l"

lemma licence_fields_normalize:
  "list_all snd (licence_fields l) \<Longrightarrow> list_all snd (licence_fields (normalize_licence l))"
  by (simp add: licence_fields_def normalize_licence_def)

lemma normalize_licence_idem [simp]: "normalize_licence (normalize_licence l) = normalize_licence l"
  by (simp add: normalize_licence_def sorted_sort_id)

interpretation licence: validated_model validate_licence wf_licence
proof
  fix x y
  assume "validate_licence x = Inr y"
  then have "list_all snd (licence_fields x)" "instant (li_valid_from x) < instant (li_valid_until x)"
    "y = normalize_licence x"
    by (auto simp: validate_licence_def)
  then show "wf_licence y"
    by (simp add: wf_licence_def licence_fields_normalize) (simp add: normalize_licence_def)
next
  fix x
  assume "wf_licence x"
  then show "validate_licence x = Inr x"
    by (simp add: validate_licence_def wf_licence_def check_fields_ok)
qed

record licence_registry =
  lr_registry_id :: string
  lr_version :: string
  lr_licences :: "licence_record list"

definition validate_licence_registry :: "licence_registry \<Rightarrow> licence_registry res" where
  "validate_licence_registry r =
     check_fields ''LicenceRegistry''
       [(''registry_id'', is_id (lr_registry_id r)), (''version'', len_between 1 100 (lr_version r))]
       (if \<not> distinct (map li_licence_id (lr_licences r))
        then Inl (ModelError ''LicenceRegistry'' ''licence_id values must be unique'')
        else Inr r)"

definition wf_licence_registry :: "licence_registry \<Rightarrow> bool" where
  "wf_licence_registry r \<longleftrightarrow> is_id (lr_registry_id r) \<and> len_between 1 100 (lr_version r) \<and>
     distinct (map li_licence_id (lr_licences r))"

interpretation licence_registry_model: validated_model validate_licence_registry wf_licence_registry
  by unfold_locales (auto simp: validate_licence_registry_def wf_licence_registry_def check_fields_ok split: if_splits)

interpretation licences: keyed_registry li_licence_id lr_licences wf_licence_registry
  by unfold_locales (simp add: wf_licence_registry_def)

definition licence_payload :: "runtime \<Rightarrow> licence_record \<Rightarrow> json" where
  "licence_payload rt l = JObj
     [(''licence_id'', JStr (li_licence_id l)), (''source_record_id'', JStr (li_source_record_id l)),
      (''reference_ids'', strs (li_reference_ids l)), (''licensor'', JStr (li_licensor l)),
      (''licensee'', JStr (li_licensee l)), (''state'', JStr (licence_state_value (li_state l))),
      (''valid_from'', JStr (rt_datetime rt (li_valid_from l))),
      (''valid_until'', JStr (rt_datetime rt (li_valid_until l))),
      (''territories'', strs (li_territories l)), (''channels'', strs (li_channels l)),
      (''intended_uses'', strs (li_intended_uses l))]"

definition licence_registry_payload :: "runtime \<Rightarrow> licence_registry \<Rightarrow> json" where
  "licence_registry_payload rt r = JObj
     [(''schema'', JStr ''veilgraph.rightsgate.licence-registry.v1''),
      (''registry_id'', JStr (lr_registry_id r)), (''version'', JStr (lr_version r)),
      (''licences'', JArr (map (licence_payload rt) (sort_key li_licence_id (lr_licences r))))]"

definition licence_registry_commitment :: "runtime \<Rightarrow> licence_registry \<Rightarrow> string" where
  "licence_registry_commitment rt r = sha256_json rt (licence_registry_payload rt r)"

subsection \<open>Candidates\<close>

text \<open>Truth value and \<open>str\<close> of an attribute.\<close>

fun attr_truthy :: "attr \<Rightarrow> bool" where
  "attr_truthy (AStr s) = (s \<noteq> [])"
| "attr_truthy (AInt i) = (i \<noteq> 0)"
| "attr_truthy (AFloat q) = (q \<noteq> 0)"
| "attr_truthy (ABool b) = b"
| "attr_truthy ANone = False"

fun attr_str :: "runtime \<Rightarrow> attr \<Rightarrow> string" where
  "attr_str rt (AStr s) = s"
| "attr_str rt (AInt i) = show_int i"
| "attr_str rt (AFloat q) = rt_float rt q"
| "attr_str rt (ABool b) = (if b then ''True'' else ''False'')"
| "attr_str rt ANone = ''None''"

definition reference_of :: "runtime \<Rightarrow> evidence_pointer \<Rightarrow> string option" where
  "reference_of rt e =
     (if ev_kind e = Ev_REFERENCE_MATCH \<and> ev_polarity e = Pol_SUPPORTS
      then case map_of (ev_attributes e) ''reference_id'' of
        None \<Rightarrow> None
      | Some v \<Rightarrow> if attr_truthy v then Some (attr_str rt v) else None
      else None)"

definition candidate_reference_ids :: "runtime \<Rightarrow> rights_match \<Rightarrow> evidence_pointer list \<Rightarrow> string list" where
  "candidate_reference_ids rt m additional_evidence =
     sorted_set (List.map_filter (reference_of rt) (rm_evidence m @ additional_evidence))"

subsection \<open>Coverage\<close>

definition coverage_failures :: "licence_record \<Rightarrow> assessment_context \<Rightarrow> datetime \<Rightarrow> string list" where
  "coverage_failures l cx assessed_at =
     (if li_state l \<noteq> Licence_ACTIVE then [''state:'' @ licence_state_value (li_state l)] else []) @
     (if instant assessed_at < instant (li_valid_from l) then [''not-yet-valid''] else []) @
     (if instant (li_valid_until l) < instant assessed_at then [''expired''] else []) @
     (if \<not> scope_allows_all (li_territories l) (cx_territories cx) then [''territory-not-covered''] else []) @
     (if \<not> scope_allows (li_channels l) (casefold (cx_channel cx)) then [''channel-not-covered''] else []) @
     (if \<not> scope_allows (li_intended_uses l) (casefold (strip (cx_intended_use cx)))
      then [''intended-use-not-covered''] else [])"

record licence_evaluation =
  le_component :: component_record
  le_evidence :: "evidence_pointer list"
  le_claims :: "claim_record list"
  le_candidate_reference_ids :: "string list"
  le_covered_reference_ids :: "string list"
  le_uncovered_reference_ids :: "string list"
  le_policy_conflict :: bool
  le_limitations :: "string list"

definition licence_component_id :: string where
  "licence_component_id = ''rights.licence-evaluator''"

definition licence_component :: "string \<Rightarrow> component_record" where
  "licence_component registry_sha256 =
     \<lparr>co_component_id = licence_component_id, co_component_version = ''1.0.0'',
      co_component_type = ''rights.licence-policy-evaluator'', co_state = Comp_AVAILABLE, co_mandatory = True,
      co_artifact_sha256 = Some registry_sha256, co_reason = None\<rparr>"

definition applicable_licences :: "licence_registry \<Rightarrow> string \<Rightarrow> licence_record list" where
  "applicable_licences registry reference_id =
     filter (\<lambda>l. reference_id \<in> set (li_reference_ids l)) (lr_licences registry)"

definition covering_licences ::
    "licence_registry \<Rightarrow> assessment_context \<Rightarrow> datetime \<Rightarrow> string \<Rightarrow> licence_record list" where
  "covering_licences registry cx assessed_at reference_id =
     filter (\<lambda>l. coverage_failures l cx assessed_at = []) (applicable_licences registry reference_id)"

definition evaluation_payload ::
    "runtime \<Rightarrow> licence_registry \<Rightarrow> assessment_context \<Rightarrow> datetime \<Rightarrow> string \<Rightarrow> string \<Rightarrow> json" where
  "evaluation_payload rt registry cx assessed_at asset_sha256 reference_id = JObj
     [(''assessed_at'', JStr (rt_datetime rt assessed_at)), (''asset_sha256'', JStr asset_sha256),
      (''context'', context_payload False cx),
      (''covering_licence_ids'',
         strs (sort (map li_licence_id (covering_licences registry cx assessed_at reference_id)))),
      (''evaluations'', JArr (map (\<lambda>l. JObj [(''licence_id'', JStr (li_licence_id l)),
         (''failures'', strs (coverage_failures l cx assessed_at))]) (applicable_licences registry reference_id))),
      (''reference_id'', JStr reference_id),
      (''registry_sha256'', JStr (licence_registry_commitment rt registry))]"

definition licence_evidence ::
    "runtime \<Rightarrow> licence_registry \<Rightarrow> assessment_context \<Rightarrow> datetime \<Rightarrow> string \<Rightarrow> string \<Rightarrow> evidence_pointer" where
  "licence_evidence rt registry cx assessed_at asset_sha256 reference_id =
     (let covering = covering_licences registry cx assessed_at reference_id;
          is_covered = covering \<noteq> []
      in \<lparr>ev_evidence_id = token_id_text rt ''evidence.licence-'' reference_id asset_sha256,
          ev_asset_sha256 = asset_sha256, ev_kind = Ev_LICENCE_RECORD,
          ev_source = ''Governed local licence registry'', ev_component_id = licence_component_id,
          ev_component_version = ''1.0.0'',
          ev_polarity = (if is_covered then Pol_SUPPORTS else Pol_CONTRADICTS), ev_confidence = 1,
          ev_locator = whole_asset,
          ev_summary = (if is_covered
            then ''A current governed licence covers this candidate for the declared context.''
            else ''No current governed licence covers this candidate for the declared context.''),
          ev_payload_sha256 = Some (sha256_json rt
            (evaluation_payload rt registry cx assessed_at asset_sha256 reference_id)),
          ev_attributes =
            [(''covered'', ABool is_covered),
             (''covering_licence_ids'', AStr (join '','' (sort (map li_licence_id covering)))),
             (''covering_source_record_ids'', AStr (join '','' (sort (map li_source_record_id covering)))),
             (''covering_licence_count'', AInt (int (length covering))),
             (''evaluated_licence_count'', AInt (int (length (applicable_licences registry reference_id)))),
             (''reference_id'', AStr reference_id), (''registry_id'', AStr (lr_registry_id registry)),
             (''registry_version'', AStr (lr_version registry))]\<rparr>)"

definition licence_claim ::
    "runtime \<Rightarrow> licence_registry \<Rightarrow> assessment_context \<Rightarrow> datetime \<Rightarrow> string \<Rightarrow> string \<Rightarrow> claim_record" where
  "licence_claim rt registry cx assessed_at asset_sha256 reference_id =
     \<lparr>cl_claim_id = token_id_text rt ''claim.licence-'' reference_id asset_sha256,
      cl_dimension = Dim_RIGHTS_EXPOSURE, cl_claim_type = ''licence.candidate-coverage'',
      cl_statement = ''Governed reference '' @ reference_id @ '' is covered for the declared deployment context.'',
      cl_outcome = (if covering_licences registry cx assessed_at reference_id \<noteq> []
                    then Outcome_SUPPORTED else Outcome_CONTRADICTED),
      cl_confidence = 1, cl_mandatory = True,
      cl_evidence_ids = [token_id_text rt ''evidence.licence-'' reference_id asset_sha256],
      cl_limitations = [''This is deterministic registry evaluation, not a legal opinion or proof of ownership.'']\<rparr>"

definition licence_not_assessed :: "runtime \<Rightarrow> string \<Rightarrow> string \<Rightarrow> licence_evaluation res" where
  "licence_not_assessed rt registry_sha256 asset_sha256 =
     (let limitation = ''No governed reference candidate was available for licence evaluation.''
      in res_bind (validate_component (licence_component registry_sha256)) (\<lambda>component.
         res_bind (validate_claim
           \<lparr>cl_claim_id = asset_id_text ''claim.licence-not-assessed-'' asset_sha256,
            cl_dimension = Dim_RIGHTS_EXPOSURE, cl_claim_type = ''licence.candidate-coverage'',
            cl_statement = ''Retrieved reference candidates are covered for the declared deployment context.'',
            cl_outcome = Outcome_NOT_ASSESSED, cl_confidence = 0, cl_mandatory = False, cl_evidence_ids = [],
            cl_limitations = [limitation]\<rparr>) (\<lambda>claim.
         Inr \<lparr>le_component = component, le_evidence = [], le_claims = [claim],
              le_candidate_reference_ids = [], le_covered_reference_ids = [], le_uncovered_reference_ids = [],
              le_policy_conflict = False, le_limitations = [limitation]\<rparr>)))"

definition evaluate_candidate_licences ::
    "runtime \<Rightarrow> rights_match \<Rightarrow> string \<Rightarrow> assessment_context \<Rightarrow> licence_registry \<Rightarrow> datetime \<Rightarrow>
     evidence_pointer list \<Rightarrow> licence_evaluation res" where
  "evaluate_candidate_licences rt m asset_sha256 cx registry assessed_at additional_evidence =
     (if \<not> is_aware assessed_at then Inl (ValueError ''assessed_at must be timezone-aware'')
      else let registry_sha256 = licence_registry_commitment rt registry;
               candidates = candidate_reference_ids rt m additional_evidence
      in if candidates = [] then licence_not_assessed rt registry_sha256 asset_sha256
         else res_bind (collect_pairs (licence_evidence rt registry cx assessed_at asset_sha256)
                 (licence_claim rt registry cx assessed_at asset_sha256) candidates) (\<lambda>pairs.
              let covered = filter (\<lambda>i. covering_licences registry cx assessed_at i \<noteq> []) candidates;
                  uncovered = filter (\<lambda>i. covering_licences registry cx assessed_at i = []) candidates
              in res_bind (validate_component (licence_component registry_sha256)) (\<lambda>component.
                 Inr \<lparr>le_component = component, le_evidence = map fst pairs, le_claims = map snd pairs,
                      le_candidate_reference_ids = candidates, le_covered_reference_ids = sort covered,
                      le_uncovered_reference_ids = sort uncovered, le_policy_conflict = (uncovered \<noteq> []),
                      le_limitations =
                        [''Licence coverage is limited to explicit records in the supplied governed registry.'',
                         ''Licence evaluation does not replace qualified legal or rights review.'']\<rparr>)))"

subsection \<open>What coverage means\<close>

text \<open>The governed meaning of a licence, independent of the failure list.\<close>

definition licence_covers :: "licence_record \<Rightarrow> assessment_context \<Rightarrow> datetime \<Rightarrow> bool" where
  "licence_covers l cx now \<longleftrightarrow>
     li_state l = Licence_ACTIVE \<and>
     instant (li_valid_from l) \<le> instant now \<and> instant now \<le> instant (li_valid_until l) \<and>
     (''*'' \<in> set (li_territories l) \<or> set (cx_territories cx) \<subseteq> set (li_territories l)) \<and>
     (''*'' \<in> set (li_channels l) \<or> casefold (cx_channel cx) \<in> set (li_channels l)) \<and>
     (''*'' \<in> set (li_intended_uses l) \<or> casefold (strip (cx_intended_use cx)) \<in> set (li_intended_uses l))"

lemma coverage_failures_Nil_iff: "coverage_failures l cx now = [] \<longleftrightarrow> licence_covers l cx now"
  by (auto simp: coverage_failures_def licence_covers_def scope_allows_def scope_allows_all_def)

definition candidate_covered :: "licence_registry \<Rightarrow> assessment_context \<Rightarrow> datetime \<Rightarrow> string \<Rightarrow> bool" where
  "candidate_covered registry cx now reference_id \<longleftrightarrow>
     (\<exists>l \<in> set (lr_licences registry). reference_id \<in> set (li_reference_ids l) \<and> licence_covers l cx now)"

lemma covering_licences_Nil_iff:
  "covering_licences registry cx now i = [] \<longleftrightarrow> \<not> candidate_covered registry cx now i"
  by (auto simp: covering_licences_def applicable_licences_def candidate_covered_def filter_empty_conv
      coverage_failures_Nil_iff)

lemma licence_id_literals [simp]:
  "is_id ''evidence.licence-''" "is_id ''claim.licence-''" "is_id ''claim.licence-not-assessed-''"
  "is_id licence_component_id" "is_id ''rights.licence-policy-evaluator''" "is_id ''licence.candidate-coverage''"
  by (simp_all add: id_eval licence_component_id_def)

lemma wf_licence_evidence:
  "sha_ok rt \<Longrightarrow> is_sha256 asset \<Longrightarrow> wf_evidence (licence_evidence rt registry cx now asset i)"
  by (simp add: wf_evidence_iff licence_evidence_def Let_def len_between_def)

lemma wf_licence_claim:
  "sha_ok rt \<Longrightarrow> is_sha256 asset \<Longrightarrow> length i \<le> 900 \<Longrightarrow> wf_claim (licence_claim rt registry cx now asset i)"
  by (simp add: wf_claim_iff licence_claim_def len_between_def)

lemma licence_evidence_ids [simp]:
  "ev_evidence_id (licence_evidence rt registry cx now asset i) = token_id_text rt ''evidence.licence-'' i asset"
  "ev_asset_sha256 (licence_evidence rt registry cx now asset i) = asset"
  "ev_component_id (licence_evidence rt registry cx now asset i) = licence_component_id"
  "ev_component_version (licence_evidence rt registry cx now asset i) = ''1.0.0''"
  by (simp_all add: licence_evidence_def Let_def)

lemma licence_claim_ids [simp]:
  "cl_evidence_ids (licence_claim rt registry cx now asset i) = [token_id_text rt ''evidence.licence-'' i asset]"
  "cl_dimension (licence_claim rt registry cx now asset i) = Dim_RIGHTS_EXPOSURE"
  by (simp_all add: licence_claim_def)

lemma wf_licence_component: "is_sha256 h \<Longrightarrow> wf_component (licence_component h)"
  by (simp add: wf_component_iff licence_component_def len_between_def)

lemma licence_component_ids [simp]:
  "co_component_id (licence_component h) = licence_component_id" "co_component_version (licence_component h) = ''1.0.0''"
  by (simp_all add: licence_component_def)

text \<open>The contract of the lane.\<close>

definition licence_sound ::
    "string \<Rightarrow> assessment_context \<Rightarrow> licence_registry \<Rightarrow> datetime \<Rightarrow> string list \<Rightarrow> licence_evaluation \<Rightarrow> bool" where
  "licence_sound asset cx registry now candidates r \<longleftrightarrow>
     lane_sound asset (le_component r) (le_evidence r) (le_claims r) \<and>
     (\<forall>c \<in> set (le_claims r). cl_dimension c = Dim_RIGHTS_EXPOSURE) \<and>
     co_component_id (le_component r) = licence_component_id \<and>
     le_candidate_reference_ids r = candidates \<and>
     set (le_covered_reference_ids r) = {i \<in> set candidates. candidate_covered registry cx now i} \<and>
     set (le_uncovered_reference_ids r) = {i \<in> set candidates. \<not> candidate_covered registry cx now i} \<and>
     (le_policy_conflict r \<longleftrightarrow> (\<exists>i \<in> set candidates. \<not> candidate_covered registry cx now i)) \<and>
     le_limitations r \<noteq> []"

lemma licence_not_assessed_ok:
  assumes "is_sha256 asset" and "is_sha256 h"
  shows "\<exists>r. licence_not_assessed rt h asset = Inr r \<and> licence_sound asset cx registry now [] r"
proof -
  let ?limitation = "''No governed reference candidate was available for licence evaluation.''"
  let ?c = "\<lparr>cl_claim_id = asset_id_text ''claim.licence-not-assessed-'' asset,
      cl_dimension = Dim_RIGHTS_EXPOSURE, cl_claim_type = ''licence.candidate-coverage'',
      cl_statement = ''Retrieved reference candidates are covered for the declared deployment context.'',
      cl_outcome = Outcome_NOT_ASSESSED, cl_confidence = 0, cl_mandatory = False, cl_evidence_ids = [],
      cl_limitations = [?limitation]\<rparr>"
  have c: "wf_claim ?c" using assms by (simp add: wf_claim_iff len_between_def)
  show ?thesis
    using c assms
    by (simp add: licence_not_assessed_def Let_def claim.validate_fix component.validate_fix wf_licence_component
        licence_sound_def lane_sound_def)
qed

lemma evaluate_candidate_licences_result:
  assumes "sha_ok rt" and "is_sha256 asset" and "is_aware now"
    and "\<forall>i \<in> set (candidate_reference_ids rt m extra). length i \<le> 900"
  shows "\<exists>r. evaluate_candidate_licences rt m asset cx registry now extra = Inr r \<and>
    licence_sound asset cx registry now (candidate_reference_ids rt m extra) r"
proof -
  let ?cs = "candidate_reference_ids rt m extra"
  let ?h = "licence_registry_commitment rt registry"
  have h: "is_sha256 ?h" using assms(1) by (simp add: licence_registry_commitment_def)
  show ?thesis
  proof (cases "?cs = []")
    case True
    with licence_not_assessed_ok [OF assms(2) h, of rt cx registry now] assms(3) show ?thesis
      by (simp add: evaluate_candidate_licences_def Let_def)
  next
    case False
    let ?ev = "licence_evidence rt registry cx now asset"
    let ?cl = "licence_claim rt registry cx now asset"
    have pairs: "collect_pairs ?ev ?cl ?cs = Inr (map (\<lambda>i. (?ev i, ?cl i)) ?cs)"
      using assms by (intro collect_pairs_ok wf_licence_evidence wf_licence_claim) auto
    have lane: "lane_sound asset (licence_component ?h) (map ?ev ?cs) (map ?cl ?cs)"
      using assms h by (intro lane_sound_pairs) (auto simp: wf_licence_evidence wf_licence_claim wf_licence_component)
    show ?thesis
      using False assms(3) lane
      by (auto simp: evaluate_candidate_licences_def Let_def pairs component.validate_fix wf_licence_component h
          licence_sound_def covering_licences_Nil_iff filter_empty_conv simp del: map_map)
  qed
qed

text \<open>
  Evaluating the retrieved candidates against a licence registry succeeds for every aware
  instant; it partitions the candidates into those covered by an active licence whose window
  contains the instant and whose territories, channels and intended uses include the declared
  context, and the rest; and it reports a conflict exactly when a candidate is left uncovered.
\<close>

theorem evaluate_candidate_licences_sound:
  assumes "sha_ok rt" and "is_sha256 asset" and "is_aware now"
    and "\<forall>i \<in> set (candidate_reference_ids rt m extra). length i \<le> 900"
  shows "\<exists>r. evaluate_candidate_licences rt m asset cx registry now extra = Inr r \<and>
    licence_sound asset cx registry now (candidate_reference_ids rt m extra) r"
  using assms by (rule evaluate_candidate_licences_result)

subsection \<open>A concrete evaluation\<close>

definition demo_licence :: licence_record where
  "demo_licence = \<lparr>li_licence_id = ''licence-1'', li_source_record_id = ''record-1'',
     li_reference_ids = [''ref-1''], li_licensor = ''A'', li_licensee = ''B'', li_state = Licence_ACTIVE,
     li_valid_from = utc 0, li_valid_until = utc 100, li_territories = [''*''], li_channels = [''web''],
     li_intended_uses = [''ad'']\<rparr>"

definition demo_licence_registry :: licence_registry where
  "demo_licence_registry = \<lparr>lr_registry_id = ''licences'', lr_version = ''1'', lr_licences = [demo_licence]\<rparr>"

definition demo_match :: rights_match where
  "demo_match = \<lparr>rm_component = registry_component demo_sha Comp_AVAILABLE None,
     rm_evidence = [registry_evidence ''e-1'' demo_sha Ev_REFERENCE_MATCH Pol_SUPPORTS 1 ''match'' demo_sha
       [(''reference_id'', AStr ''ref-1'')]],
     rm_assessment = \<lparr>ra_state = State_COMPLETE, ra_verdict = Rights_POTENTIAL_EXPOSURE, ra_confidence = 1,
       ra_claims = [], ra_limitations = []\<rparr>\<rparr>"

lemma demo_candidates: "candidate_reference_ids demo_runtime demo_match [] = [''ref-1'']"
  by (simp add: candidate_reference_ids_def demo_match_def reference_of_def registry_evidence_def
      List.map_filter_def sorted_set_def)

theorem evaluate_candidate_licences_sound_witness:
  "\<exists>r. evaluate_candidate_licences demo_runtime demo_match demo_sha demo_context demo_licence_registry (utc 50) [] = Inr r \<and>
     le_policy_conflict r = False"
proof -
  have "candidate_covered demo_licence_registry demo_context (utc 50) ''ref-1''"
    by (simp add: candidate_covered_def demo_licence_registry_def demo_licence_def licence_covers_def
        demo_context_def strip_def casefold_def to_lower_def is_upper_def is_space_def ord_def)
  with evaluate_candidate_licences_sound [OF sha_ok_demo is_sha256_demo, of "utc 50" demo_match "[]" demo_context
      demo_licence_registry]
  show ?thesis by (auto simp: demo_candidates licence_sound_def)
qed

end
