(* ===== verification/Consent.thy ===== *)
theory Consent
  imports Licensing
begin

section \<open>Likeness and voice consent\<close>

text \<open>
  \<open>rights/consent.py\<close>: consent grants, the likeness and voice templates of a registry, the bounded
  decoding of a PCM voice reference, and the two analyses that match an asset against the enrolled
  templates and check the consent of every match for the deployment context. Pillow is the
  \<open>image_lib\<close> parameter, the \<open>wave\<close> module and the spectral fingerprint computed with numpy are the
  \<open>voice_lib\<close> parameter.
\<close>

subsection \<open>Models\<close>

record consent_grant =
  gt_consent_id :: string
  gt_source_record_id :: string
  gt_subject_id :: string
  gt_valid_from :: datetime
  gt_valid_until :: datetime
  gt_territories :: "string list"
  gt_channels :: "string list"
  gt_intended_uses :: "string list"

definition grant_fields :: "consent_grant \<Rightarrow> (string \<times> bool) list" where
  "grant_fields g =
     [(''consent_id'', is_id (gt_consent_id g)), (''source_record_id'', is_id (gt_source_record_id g)),
      (''subject_id'', is_id (gt_subject_id g)),
      (''valid_from'', is_aware (gt_valid_from g)), (''valid_until'', is_aware (gt_valid_until g)),
      (''territories'', gt_territories g \<noteq> [] \<and> list_all scope_territory (territory_set (gt_territories g))),
      (''channels'', gt_channels g \<noteq> [] \<and> scope_text (gt_channels g) \<noteq> []),
      (''intended_uses'', gt_intended_uses g \<noteq> [] \<and> scope_text (gt_intended_uses g) \<noteq> [])]"

definition normalize_grant :: "consent_grant \<Rightarrow> consent_grant" where
  "normalize_grant g = g\<lparr>gt_territories := territory_set (gt_territories g),
     gt_channels := scope_text (gt_channels g), gt_intended_uses := scope_text (gt_intended_uses g)\<rparr>"

definition validate_grant :: "consent_grant \<Rightarrow> consent_grant res" where
  "validate_grant g =
     check_fields ''ConsentGrant'' (grant_fields g)
       (if instant (gt_valid_until g) \<le> instant (gt_valid_from g)
        then Inl (ModelError ''ConsentGrant'' ''consent valid_until must be after valid_from'')
        else Inr (normalize_grant g))"

definition wf_grant :: "consent_grant \<Rightarrow> bool" where
  "wf_grant g \<longleftrightarrow> list_all snd (grant_fields g) \<and>
     instant (gt_valid_from g) < instant (gt_valid_until g) \<and> normalize_grant g = g"

lemma grant_fields_normalize: "list_all snd (grant_fields g) \<Longrightarrow> list_all snd (grant_fields (normalize_grant g))"
  by (simp add: grant_fields_def normalize_grant_def)

lemma normalize_grant_idem [simp]: "normalize_grant (normalize_grant g) = normalize_grant g"
  by (simp add: normalize_grant_def)

interpretation grant: validated_model validate_grant wf_grant
proof
  fix x y
  assume "validate_grant x = Inr y"
  then have "list_all snd (grant_fields x)" "instant (gt_valid_from x) < instant (gt_valid_until x)"
    "y = normalize_grant x"
    by (auto simp: validate_grant_def)
  then show "wf_grant y"
    by (simp add: wf_grant_def grant_fields_normalize) (simp add: normalize_grant_def)
next
  fix x
  assume "wf_grant x"
  then show "validate_grant x = Inr x"
    by (simp add: validate_grant_def wf_grant_def check_fields_ok)
qed

record likeness_template =
  lt_template_id :: string
  lt_reference_sha256 :: string
  lt_dhash :: string
  lt_consent :: consent_grant
  lt_max_hamming_distance :: int

definition validate_likeness :: "likeness_template \<Rightarrow> likeness_template res" where
  "validate_likeness t =
     check_fields ''LikenessTemplate''
       [(''template_id'', is_id (lt_template_id t)), (''reference_sha256'', is_sha256 (lt_reference_sha256 t)),
        (''dhash'', is_dhash (lt_dhash t)),
        (''max_hamming_distance'', 0 \<le> lt_max_hamming_distance t \<and> lt_max_hamming_distance t \<le> 64)]
       (Inr t)"

definition wf_likeness :: "likeness_template \<Rightarrow> bool" where
  "wf_likeness t \<longleftrightarrow> is_id (lt_template_id t) \<and> is_sha256 (lt_reference_sha256 t) \<and> is_dhash (lt_dhash t) \<and>
     0 \<le> lt_max_hamming_distance t \<and> lt_max_hamming_distance t \<le> 64"

interpretation likeness: validated_model validate_likeness wf_likeness
  by unfold_locales (auto simp: validate_likeness_def wf_likeness_def check_fields_ok)

record voice_template =
  vt_template_id :: string
  vt_reference_sha256 :: string
  vt_features :: "rat list"
  vt_consent :: consent_grant
  vt_minimum_similarity :: rat

text \<open>
  \<open>finite_features\<close>: the norm lies in [0.999, 1.001]. Both sides are squared, so that the condition
  stays in the rationals.
\<close>

definition square_norm :: "rat list \<Rightarrow> rat" where
  "square_norm xs = sum_list (map (\<lambda>x. x * x) xs)"

definition unit_norm :: "rat list \<Rightarrow> bool" where
  "unit_norm xs \<longleftrightarrow> (999 / 1000) ^ 2 \<le> square_norm xs \<and> square_norm xs \<le> (1001 / 1000) ^ 2"

definition validate_voice :: "voice_template \<Rightarrow> voice_template res" where
  "validate_voice t =
     check_fields ''VoiceTemplate''
       [(''template_id'', is_id (vt_template_id t)), (''reference_sha256'', is_sha256 (vt_reference_sha256 t)),
        (''features'', length (vt_features t) = 48 \<and> unit_norm (vt_features t)),
        (''minimum_similarity'', 1 / 2 \<le> vt_minimum_similarity t \<and> vt_minimum_similarity t \<le> 1)]
       (Inr t)"

definition wf_voice :: "voice_template \<Rightarrow> bool" where
  "wf_voice t \<longleftrightarrow> is_id (vt_template_id t) \<and> is_sha256 (vt_reference_sha256 t) \<and>
     length (vt_features t) = 48 \<and> unit_norm (vt_features t) \<and>
     1 / 2 \<le> vt_minimum_similarity t \<and> vt_minimum_similarity t \<le> 1"

interpretation voice: validated_model validate_voice wf_voice
  by unfold_locales (auto simp: validate_voice_def wf_voice_def check_fields_ok)

record consent_registry =
  cg_registry_id :: string
  cg_version :: string
  cg_likeness_templates :: "likeness_template list"
  cg_voice_templates :: "voice_template list"

definition template_ids :: "consent_registry \<Rightarrow> string list" where
  "template_ids r = map lt_template_id (cg_likeness_templates r) @ map vt_template_id (cg_voice_templates r)"

definition validate_consent_registry :: "consent_registry \<Rightarrow> consent_registry res" where
  "validate_consent_registry r =
     check_fields ''ConsentRegistry''
       [(''registry_id'', is_id (cg_registry_id r)), (''version'', len_between 1 100 (cg_version r))]
       (if \<not> distinct (template_ids r)
        then Inl (ModelError ''ConsentRegistry'' ''template_id values must be unique'')
        else Inr r)"

definition wf_consent_registry :: "consent_registry \<Rightarrow> bool" where
  "wf_consent_registry r \<longleftrightarrow> is_id (cg_registry_id r) \<and> len_between 1 100 (cg_version r) \<and> distinct (template_ids r)"

interpretation consent_registry_model: validated_model validate_consent_registry wf_consent_registry
  by unfold_locales (auto simp: validate_consent_registry_def wf_consent_registry_def check_fields_ok split: if_splits)

interpretation likeness_templates: keyed_registry lt_template_id cg_likeness_templates wf_consent_registry
  by unfold_locales (simp add: wf_consent_registry_def template_ids_def)

interpretation voice_templates: keyed_registry vt_template_id cg_voice_templates wf_consent_registry
  by unfold_locales (simp add: wf_consent_registry_def template_ids_def)

definition grant_payload :: "runtime \<Rightarrow> consent_grant \<Rightarrow> json" where
  "grant_payload rt g = JObj
     [(''consent_id'', JStr (gt_consent_id g)), (''source_record_id'', JStr (gt_source_record_id g)),
      (''subject_id'', JStr (gt_subject_id g)), (''valid_from'', JStr (rt_datetime rt (gt_valid_from g))),
      (''valid_until'', JStr (rt_datetime rt (gt_valid_until g))), (''territories'', strs (gt_territories g)),
      (''channels'', strs (gt_channels g)), (''intended_uses'', strs (gt_intended_uses g))]"

definition likeness_payload :: "runtime \<Rightarrow> likeness_template \<Rightarrow> json" where
  "likeness_payload rt t = JObj
     [(''template_id'', JStr (lt_template_id t)), (''reference_sha256'', JStr (lt_reference_sha256 t)),
      (''dhash'', JStr (lt_dhash t)), (''consent'', grant_payload rt (lt_consent t)),
      (''max_hamming_distance'', JInt (lt_max_hamming_distance t))]"

definition voice_payload :: "runtime \<Rightarrow> voice_template \<Rightarrow> json" where
  "voice_payload rt t = JObj
     [(''template_id'', JStr (vt_template_id t)), (''reference_sha256'', JStr (vt_reference_sha256 t)),
      (''feature_version'', JStr ''log-spectrum-voice-reference.v1''),
      (''features'', JArr (map JFloat (vt_features t))), (''consent'', grant_payload rt (vt_consent t)),
      (''minimum_similarity'', JFloat (vt_minimum_similarity t))]"

definition consent_registry_payload :: "runtime \<Rightarrow> consent_registry \<Rightarrow> json" where
  "consent_registry_payload rt r = JObj
     [(''schema'', JStr ''veilgraph.rightsgate.consent-registry.v1''),
      (''registry_id'', JStr (cg_registry_id r)), (''version'', JStr (cg_version r)),
      (''likeness_templates'',
         JArr (map (likeness_payload rt) (sort_key lt_template_id (cg_likeness_templates r)))),
      (''voice_templates'', JArr (map (voice_payload rt) (sort_key vt_template_id (cg_voice_templates r))))]"

definition consent_registry_commitment :: "runtime \<Rightarrow> consent_registry \<Rightarrow> string" where
  "consent_registry_commitment rt r = sha256_json rt (consent_registry_payload rt r)"

subsection \<open>Voice references\<close>

text \<open>
  What \<open>wave.open\<close> reads: \<open>None\<close> stands for \<open>wave.Error\<close> or \<open>EOFError\<close>. The features of usable
  samples are computed with numpy: \<open>Inl\<close> is the message of the \<open>ValueError\<close> for a recording with
  no usable frame or a degenerate fingerprint.
\<close>

record wav =
  wav_compressed :: bool
  wav_channels :: nat
  wav_width :: nat
  wav_rate :: nat
  wav_frames :: nat
  wav_raw :: string

record voice_lib =
  vl_wave :: "string \<Rightarrow> wav option"
  vl_features :: "rat list \<Rightarrow> nat \<Rightarrow> string + rat list"

text \<open>Little-endian samples of one to four bytes; one-byte samples are unsigned around 128.\<close>

fun little_endian :: "string \<Rightarrow> int" where
  "little_endian [] = 0"
| "little_endian (c # cs) = int (ord c) + 256 * little_endian cs"

definition sample_value :: "nat \<Rightarrow> string \<Rightarrow> int" where
  "sample_value width bytes =
     (let packed = little_endian bytes
      in if width = 1 then packed - 128
         else if 2 ^ (8 * width - 1) \<le> packed then packed - 2 ^ (8 * width) else packed)"

fun chunks :: "nat \<Rightarrow> 'a list \<Rightarrow> 'a list list" where
  "chunks n xs = (if n = 0 \<or> xs = [] then [] else take n xs # chunks n (drop n xs))"

declare chunks.simps [simp del]

definition mono_samples :: "nat \<Rightarrow> nat \<Rightarrow> string \<Rightarrow> rat list" where
  "mono_samples channels width raw =
     map (\<lambda>frame. sum_list (map (\<lambda>s. of_int (sample_value width s) / 2 ^ (8 * width - 1)) frame) / of_nat channels)
       (chunks channels (chunks width raw))"

definition pcm_samples :: "voice_lib \<Rightarrow> string \<Rightarrow> (rat list \<times> nat) res" where
  "pcm_samples lib data =
     (let bad = (\<lambda>m. Inl (ValueError m))
      in case vl_wave lib data of
        None \<Rightarrow> bad ''voice reference could not be decoded as PCM/WAV''
      | Some w \<Rightarrow>
          if wav_compressed w then bad ''voice references require uncompressed PCM/WAV''
          else if \<not> (1 \<le> wav_channels w \<and> wav_channels w \<le> 8) \<or> wav_width w \<notin> {1, 2, 3, 4}
          then bad ''unsupported PCM voice-reference layout''
          else if \<not> (8000 \<le> wav_rate w \<and> wav_rate w \<le> 192000)
          then bad ''voice-reference sample rate is outside the bounded range''
          else if wav_frames w < max 128 (wav_rate w div 10)
          then bad ''voice reference must contain at least 100 ms of audio''
          else if (300::rat) < of_nat (wav_frames w) / of_nat (wav_rate w)
          then bad ''voice reference exceeds the bounded duration''
          else if length (wav_raw w) \<noteq> wav_frames w * wav_channels w * wav_width w
          then bad ''voice-reference PCM payload is truncated''
          else let mono = mono_samples (wav_channels w) (wav_width w) (wav_raw w)
            in if max_default 0 (map abs mono) < 1 / 1000000
               then bad ''voice reference contains no usable acoustic signal''
               else Inr (mono, wav_rate w))"

definition voice_features :: "voice_lib \<Rightarrow> string \<Rightarrow> rat list res" where
  "voice_features lib data =
     res_bind (pcm_samples lib data) (\<lambda>(samples, rate). case vl_features lib samples rate of
       Inl m \<Rightarrow> Inl (ValueError m)
     | Inr features \<Rightarrow> Inr features)"

definition likeness_dhash :: "image_lib \<Rightarrow> string \<Rightarrow> string res" where
  "likeness_dhash lib data =
     (case (lib_open lib data, lib_pixels lib data) of
        (Some _, Some pixels) \<Rightarrow> Inr (dhash_text pixels)
      | _ \<Rightarrow> Inl (ValueError ''likeness reference could not be decoded safely''))"

definition build_likeness_template ::
    "runtime \<Rightarrow> image_lib \<Rightarrow> string \<Rightarrow> string \<Rightarrow> consent_grant \<Rightarrow> int \<Rightarrow> likeness_template res" where
  "build_likeness_template rt lib template_id data consent max_distance =
     res_bind (likeness_dhash lib data) (\<lambda>dhash. validate_likeness
       \<lparr>lt_template_id = template_id, lt_reference_sha256 = rt_sha256 rt data, lt_dhash = dhash,
        lt_consent = consent, lt_max_hamming_distance = max_distance\<rparr>)"

definition build_voice_template ::
    "runtime \<Rightarrow> voice_lib \<Rightarrow> string \<Rightarrow> string \<Rightarrow> consent_grant \<Rightarrow> rat \<Rightarrow> voice_template res" where
  "build_voice_template rt lib template_id data consent minimum_similarity =
     res_bind (voice_features lib data) (\<lambda>features. validate_voice
       \<lparr>vt_template_id = template_id, vt_reference_sha256 = rt_sha256 rt data, vt_features = features,
        vt_consent = consent, vt_minimum_similarity = minimum_similarity\<rparr>)"

subsection \<open>Matching and coverage\<close>

definition scope_covers :: "consent_grant \<Rightarrow> assessment_context \<Rightarrow> datetime \<Rightarrow> bool" where
  "scope_covers g cx assessed_at \<longleftrightarrow>
     instant (gt_valid_from g) \<le> instant assessed_at \<and> instant assessed_at \<le> instant (gt_valid_until g) \<and>
     scope_allows_all (gt_territories g) (cx_territories cx) \<and>
     scope_allows (gt_channels g) (casefold (cx_channel cx)) \<and>
     scope_allows (gt_intended_uses g) (casefold (cx_intended_use cx))"

record consent_analysis =
  ca_component :: component_record
  ca_evidence :: "evidence_pointer list"
  ca_claims :: "claim_record list"
  ca_candidate_subject_ids :: "string list"
  ca_policy_conflict :: bool
  ca_confidence :: rat
  ca_state :: assessment_state
  ca_limitations :: "string list"

definition validate_consent_analysis :: "consent_analysis \<Rightarrow> consent_analysis res" where
  "validate_consent_analysis a =
     check_fields ''ConsentAnalysisResult'' [(''confidence'', unit_interval (ca_confidence a))] (Inr a)"

definition consent_component :: "runtime \<Rightarrow> string \<Rightarrow> consent_registry \<Rightarrow> component_record" where
  "consent_component rt component_id registry =
     \<lparr>co_component_id = component_id, co_component_version = ''1.0.0'',
      co_component_type = ''rights.governed-consent-reference-matcher'', co_state = Comp_AVAILABLE,
      co_mandatory = True, co_artifact_sha256 = Some (consent_registry_commitment rt registry), co_reason = None\<rparr>"

definition likeness_component_id :: string where
  "likeness_component_id = ''rights.likeness-consent''"

definition voice_component_id :: string where
  "voice_component_id = ''rights.voice-consent''"

text \<open>A match: the template's identity and consent, the distance and the similarity.\<close>

type_synonym consent_match = "string \<times> consent_grant \<times> int \<times> rat"

definition no_consent_limitation :: "string \<Rightarrow> string" where
  "no_consent_limitation modality = ''No enrolled '' @ modality @ '' reference met the configured threshold; registry non-match is not proof that no protected person or voice is present.''"

definition no_consent_evidence :: "runtime \<Rightarrow> string \<Rightarrow> string \<Rightarrow> consent_registry \<Rightarrow> string \<Rightarrow> evidence_pointer" where
  "no_consent_evidence rt component_id asset_sha256 registry modality =
     \<lparr>ev_evidence_id = asset_id_text (''evidence.'' @ modality @ ''-consent-query-'') asset_sha256,
      ev_asset_sha256 = asset_sha256, ev_kind = Ev_REFERENCE_MATCH,
      ev_source = ''Governed '' @ modality @ '' consent registry'', ev_component_id = component_id,
      ev_component_version = ''1.0.0'', ev_polarity = Pol_CONTRADICTS, ev_confidence = 1,
      ev_locator = whole_asset,
      ev_summary = ''No enrolled '' @ modality @ '' reference met the configured threshold.'',
      ev_payload_sha256 = Some (sha256_json rt (JObj
        [(''asset_sha256'', JStr asset_sha256), (''modality'', JStr modality),
         (''registry_sha256'', JStr (consent_registry_commitment rt registry))])),
      ev_attributes = [(''candidate_count'', AInt 0), (''registry_id'', AStr (cg_registry_id registry)),
        (''registry_version'', AStr (cg_version registry))]\<rparr>"

definition no_consent_claim :: "string \<Rightarrow> string \<Rightarrow> claim_record" where
  "no_consent_claim asset_sha256 modality =
     \<lparr>cl_claim_id = asset_id_text (''claim.'' @ modality @ ''-candidate-'') asset_sha256,
      cl_dimension = Dim_RIGHTS_EXPOSURE, cl_claim_type = ''consent.'' @ modality @ ''-candidate'',
      cl_statement = ''The asset matches an enrolled '' @ modality @ '' reference.'',
      cl_outcome = Outcome_CONTRADICTED, cl_confidence = 1, cl_mandatory = False,
      cl_evidence_ids = [asset_id_text (''evidence.'' @ modality @ ''-consent-query-'') asset_sha256],
      cl_limitations = [no_consent_limitation modality]\<rparr>"

definition no_candidate :: "runtime \<Rightarrow> string \<Rightarrow> string \<Rightarrow> consent_registry \<Rightarrow> string \<Rightarrow> consent_analysis res" where
  "no_candidate rt component_id asset_sha256 registry modality =
     res_bind (validate_component (consent_component rt component_id registry)) (\<lambda>component.
     res_bind (validate_evidence (no_consent_evidence rt component_id asset_sha256 registry modality)) (\<lambda>evidence.
     res_bind (validate_claim (no_consent_claim asset_sha256 modality)) (\<lambda>claim.
     validate_consent_analysis
       \<lparr>ca_component = component, ca_evidence = [evidence], ca_claims = [claim], ca_candidate_subject_ids = [],
        ca_policy_conflict = False, ca_confidence = 0, ca_state = State_COMPLETE,
        ca_limitations = [no_consent_limitation modality]\<rparr>)))"

fun consent_evidence ::
    "runtime \<Rightarrow> string \<Rightarrow> string \<Rightarrow> assessment_context \<Rightarrow> consent_registry \<Rightarrow> datetime \<Rightarrow> string \<Rightarrow>
     consent_match \<Rightarrow> evidence_pointer" where
  "consent_evidence rt component_id asset_sha256 cx registry assessed_at modality
       (template_id, grant, distance, similarity) =
     (let covered = scope_covers grant cx assessed_at
      in \<lparr>ev_evidence_id = token_id_text rt (''evidence.'' @ modality @ ''-consent-'') template_id asset_sha256,
          ev_asset_sha256 = asset_sha256, ev_kind = Ev_CONSENT_RECORD,
          ev_source = ''Governed '' @ modality @ '' consent registry'', ev_component_id = component_id,
          ev_component_version = ''1.0.0'',
          ev_polarity = (if covered then Pol_SUPPORTS else Pol_CONTRADICTS), ev_confidence = similarity,
          ev_locator = whole_asset,
          ev_summary = ''Enrolled '' @ modality @ (if covered
            then '' candidate has consent covering the deployment context.''
            else '' candidate lacks consent covering the deployment context.''),
          ev_payload_sha256 = Some (sha256_json rt (JObj
            [(''asset_sha256'', JStr asset_sha256), (''consent_id'', JStr (gt_consent_id grant)),
             (''context'', context_payload False cx), (''covered'', JBool covered),
             (''registry_sha256'', JStr (consent_registry_commitment rt registry)),
             (''similarity'', JFloat similarity), (''template_id'', JStr template_id)])),
          ev_attributes =
            [(''consent_id'', AStr (gt_consent_id grant)), (''covered'', ABool covered),
             (''registry_id'', AStr (cg_registry_id registry)), (''registry_version'', AStr (cg_version registry)),
             (''similarity'', AFloat similarity), (''source_record_id'', AStr (gt_source_record_id grant)),
             (''subject_id'', AStr (gt_subject_id grant)), (''template_id'', AStr template_id)] @
            (if modality = ''likeness'' then [(''dhash_distance'', AInt distance)] else [])\<rparr>)"

fun consent_claim ::
    "runtime \<Rightarrow> string \<Rightarrow> assessment_context \<Rightarrow> datetime \<Rightarrow> string \<Rightarrow> consent_match \<Rightarrow> claim_record" where
  "consent_claim rt asset_sha256 cx assessed_at modality (template_id, grant, distance, similarity) =
     \<lparr>cl_claim_id = token_id_text rt (''claim.'' @ modality @ ''-consent-'') template_id asset_sha256,
      cl_dimension = Dim_RIGHTS_EXPOSURE, cl_claim_type = ''consent.'' @ modality @ ''-coverage'',
      cl_statement = ''Consent for enrolled '' @ modality @ '' subject '' @ gt_subject_id grant @ '' covers this deployment.'',
      cl_outcome = (if scope_covers grant cx assessed_at then Outcome_SUPPORTED else Outcome_CONTRADICTED),
      cl_confidence = similarity, cl_mandatory = True,
      cl_evidence_ids = [token_id_text rt (''evidence.'' @ modality @ ''-consent-'') template_id asset_sha256],
      cl_limitations = [''This is bounded enrolled-reference matching, not open-world '' @ modality @ '' identification.'']\<rparr>"

definition matched_consents ::
    "runtime \<Rightarrow> string \<Rightarrow> string \<Rightarrow> assessment_context \<Rightarrow> consent_registry \<Rightarrow> datetime \<Rightarrow> string \<Rightarrow>
     consent_match list \<Rightarrow> consent_analysis res" where
  "matched_consents rt component_id asset_sha256 cx registry assessed_at modality matches =
     (let ordered = sort_key (\<lambda>(template_id, grant, distance, similarity). (- similarity, template_id)) matches
      in if ordered \<noteq> [] \<and> \<not> is_aware assessed_at
         then Inl (TypeError ''can't compare offset-naive and offset-aware datetimes'')
         else res_bind (collect_pairs (consent_evidence rt component_id asset_sha256 cx registry assessed_at modality)
             (consent_claim rt asset_sha256 cx assessed_at modality) ordered) (\<lambda>pairs.
         res_bind (validate_component (consent_component rt component_id registry)) (\<lambda>component.
         validate_consent_analysis
           \<lparr>ca_component = component, ca_evidence = map fst pairs, ca_claims = map snd pairs,
            ca_candidate_subject_ids = sorted_set (map (\<lambda>(_, grant, _, _). gt_subject_id grant) ordered),
            ca_policy_conflict = (\<exists>(_, grant, _, _) \<in> set ordered. \<not> scope_covers grant cx assessed_at),
            ca_confidence = max_default 0 (map (\<lambda>(_, _, _, similarity). similarity) matches),
            ca_state = State_COMPLETE,
            ca_limitations = [''The '' @ modality @ '' lane only evaluates enrolled governed references and does not provide open-world clearance.'']\<rparr>)))"

definition likeness_matches :: "string \<Rightarrow> string \<Rightarrow> likeness_template list \<Rightarrow> consent_match list" where
  "likeness_matches asset_sha256 candidate_dhash templates =
     List.map_filter (\<lambda>t.
       let distance = hamming_distance candidate_dhash (lt_dhash t);
           exact = (lt_reference_sha256 t = asset_sha256)
       in if exact \<or> int distance \<le> lt_max_hamming_distance t
          then Some (lt_template_id t, lt_consent t, int distance,
            if exact then 1 else round_to (max (1 / 2) (1 - of_nat distance / 64)) 6)
          else None) templates"

definition analyze_likeness_consent ::
    "runtime \<Rightarrow> image_lib \<Rightarrow> string \<Rightarrow> string \<Rightarrow> assessment_context \<Rightarrow> consent_registry \<Rightarrow> datetime \<Rightarrow>
     consent_analysis res" where
  "analyze_likeness_consent rt lib data asset_sha256 cx registry assessed_at =
     (if rt_sha256 rt data \<noteq> asset_sha256
      then Inl (ValueError ''asset_sha256 does not match the supplied image bytes'')
      else res_bind (likeness_dhash lib data) (\<lambda>candidate_dhash.
        let matches = likeness_matches asset_sha256 candidate_dhash (cg_likeness_templates registry)
        in if matches = [] then no_candidate rt likeness_component_id asset_sha256 registry ''likeness''
           else matched_consents rt likeness_component_id asset_sha256 cx registry assessed_at ''likeness'' matches))"

text \<open>\<open>np.clip(np.dot(a, b), -1, 1)\<close>.\<close>

definition dot :: "rat list \<Rightarrow> rat list \<Rightarrow> rat" where
  "dot xs ys = sum_list (map2 (*) xs ys)"

definition voice_similarity :: "string \<Rightarrow> rat list \<Rightarrow> voice_template \<Rightarrow> rat" where
  "voice_similarity asset_sha256 candidate t =
     (if vt_reference_sha256 t = asset_sha256 then 1 else max (-1) (min 1 (dot candidate (vt_features t))))"

definition voice_matches :: "string \<Rightarrow> rat list \<Rightarrow> voice_template list \<Rightarrow> consent_match list" where
  "voice_matches asset_sha256 candidate templates =
     map (\<lambda>t. (vt_template_id t, vt_consent t, 0, round_to (voice_similarity asset_sha256 candidate t) 6))
       (filter (\<lambda>t. vt_minimum_similarity t \<le> voice_similarity asset_sha256 candidate t) templates)"

definition analyze_voice_consent ::
    "runtime \<Rightarrow> voice_lib \<Rightarrow> string \<Rightarrow> string \<Rightarrow> assessment_context \<Rightarrow> consent_registry \<Rightarrow> datetime \<Rightarrow>
     consent_analysis res" where
  "analyze_voice_consent rt lib data asset_sha256 cx registry assessed_at =
     (if rt_sha256 rt data \<noteq> asset_sha256
      then Inl (ValueError ''asset_sha256 does not match the supplied audio bytes'')
      else res_bind (voice_features lib data) (\<lambda>candidate.
        let matches = voice_matches asset_sha256 candidate (cg_voice_templates registry)
        in if matches = [] then no_candidate rt voice_component_id asset_sha256 registry ''voice''
           else matched_consents rt voice_component_id asset_sha256 cx registry assessed_at ''voice'' matches))"

subsection \<open>Samples are normalised\<close>

lemma little_endian_bounds: "0 \<le> little_endian bs \<and> little_endian bs < 256 ^ length bs"
proof (induction bs)
  case (Cons c cs)
  then have "little_endian cs + 1 \<le> 256 ^ length cs" "0 \<le> little_endian cs" by simp_all
  moreover have "int (ord c) < 256" "0 \<le> int (ord c)" using ord_lt_256 [of c] by simp_all
  ultimately have "0 \<le> int (ord c) + 256 * little_endian cs"
    "int (ord c) + 256 * little_endian cs < 256 * 256 ^ length cs"
    by linarith+
  then show ?case by simp
qed simp

lemma sample_value_bounds:
  assumes "width \<in> {1, 2, 3, 4}" and "length bytes = width"
  shows "- (2 ^ (8 * width - 1)) \<le> sample_value width bytes \<and> sample_value width bytes < 2 ^ (8 * width - 1)"
  using assms little_endian_bounds [of bytes] by (auto simp: sample_value_def Let_def)

lemma chunks_lengths:
  assumes "0 < n"
  shows "length xs = n * k \<Longrightarrow> length (chunks n xs) = k \<and> (\<forall>c \<in> set (chunks n xs). length c = n)"
proof (induction k arbitrary: xs)
  case 0
  then show ?case by (simp add: chunks.simps [of n "[]"])
next
  case (Suc k)
  then have "xs \<noteq> []" "length (drop n xs) = n * k" "length (take n xs) = n" using assms by auto
  have "chunks n xs = take n xs # chunks n (drop n xs)"
    using \<open>xs \<noteq> []\<close> assms by (subst chunks.simps) simp
  with Suc.IH [OF \<open>length (drop n xs) = n * k\<close>] \<open>length (take n xs) = n\<close> show ?case by simp
qed

lemma set_chunks: "c \<in> set (chunks n xs) \<Longrightarrow> set c \<subseteq> set xs"
proof (induction n xs rule: chunks.induct)
  case (1 n xs)
  then show ?case
    by (auto simp: chunks.simps [of n xs] split: if_splits dest: in_set_takeD in_set_dropD)
qed

lemma sum_list_unit_bound: "(\<And>x. x \<in> set xs \<Longrightarrow> \<bar>x\<bar> \<le> (1::rat)) \<Longrightarrow> \<bar>sum_list xs\<bar> \<le> of_nat (length xs)"
proof (induction xs)
  case (Cons x xs)
  then have "\<bar>sum_list xs\<bar> \<le> of_nat (length xs)" "\<bar>x\<bar> \<le> 1" by auto
  then show ?case by simp
qed simp

lemma mono_samples_bounds:
  assumes "width \<in> {1, 2, 3, 4}" and "1 \<le> channels" and "length raw = frames * channels * width"
  shows "length (mono_samples channels width raw) = frames \<and> (\<forall>x \<in> set (mono_samples channels width raw). \<bar>x\<bar> \<le> 1)"
proof -
  have w: "0 < width" using assms(1) by auto
  have "length raw = width * (frames * channels)" using assms(3) by simp
  note sample_chunks = chunks_lengths [OF w this]
  then have "length (chunks width raw) = channels * frames" by simp
  note framed = chunks_lengths [OF _ this]
  have "\<bar>sum_list (map (\<lambda>s. of_int (sample_value width s) / 2 ^ (8 * width - 1)) frame) / of_nat channels\<bar> \<le> (1::rat)"
    if f: "frame \<in> set (chunks channels (chunks width raw))" for frame
  proof -
    have "\<bar>of_int (sample_value width s) / 2 ^ (8 * width - 1)\<bar> \<le> (1::rat)" if "s \<in> set frame" for s
    proof -
      have "length s = width" using that f set_chunks [OF f] sample_chunks by auto
      from sample_value_bounds [OF assms(1) this]
      have "\<bar>sample_value width s\<bar> \<le> 2 ^ (8 * width - 1)" by linarith
      then have "(of_int \<bar>sample_value width s\<bar> :: rat) \<le> of_int (2 ^ (8 * width - 1))"
        by (simp only: of_int_le_iff)
      then show ?thesis by (simp add: abs_divide)
    qed
    then have "\<bar>x\<bar> \<le> (1::rat)" if "x \<in> set (map (\<lambda>s. of_int (sample_value width s) / 2 ^ (8 * width - 1)) frame)" for x
      using that by (auto simp del: abs_divide)
    then have "\<bar>sum_list (map (\<lambda>s. of_int (sample_value width s) / 2 ^ (8 * width - 1)) frame)\<bar> \<le>
        (of_nat (length (map (\<lambda>s. of_int (sample_value width s) / 2 ^ (8 * width - 1) :: rat) frame)) :: rat)"
      by (rule sum_list_unit_bound)
    also have "length (map (\<lambda>s. of_int (sample_value width s) / 2 ^ (8 * width - 1) :: rat) frame) = channels"
      using f framed assms(2) by simp
    finally have "\<bar>sum_list (map (\<lambda>s. of_int (sample_value width s) / 2 ^ (8 * width - 1)) frame)\<bar> \<le> (of_nat channels :: rat)" .
    with assms(2) show ?thesis by (simp add: abs_divide)
  qed
  then show ?thesis using framed assms(2) by (auto simp: mono_samples_def)
qed

lemma pcm_samples_InrD:
  assumes "pcm_samples lib data = Inr r" and "vl_wave lib data = Some w"
  shows "1 \<le> wav_channels w" and "wav_width w \<in> {1, 2, 3, 4}" and "8000 \<le> wav_rate w" and "wav_rate w \<le> 192000"
    and "\<not> wav_frames w < max 128 (wav_rate w div 10)"
    and "\<not> (300::rat) < of_nat (wav_frames w) / of_nat (wav_rate w)"
    and "length (wav_raw w) = wav_frames w * wav_channels w * wav_width w"
    and "\<not> max_default 0 (map abs (mono_samples (wav_channels w) (wav_width w) (wav_raw w))) < 1 / 1000000"
    and "r = (mono_samples (wav_channels w) (wav_width w) (wav_raw w), wav_rate w)"
proof -
  have *: "\<not> (\<not> (1 \<le> wav_channels w \<and> wav_channels w \<le> 8) \<or> wav_width w \<notin> {1, 2, 3, 4})"
    "\<not> (\<not> (8000 \<le> wav_rate w \<and> wav_rate w \<le> 192000))"
    "\<not> wav_frames w < max 128 (wav_rate w div 10)"
    "\<not> (300::rat) < of_nat (wav_frames w) / of_nat (wav_rate w)"
    "\<not> length (wav_raw w) \<noteq> wav_frames w * wav_channels w * wav_width w"
    "\<not> max_default 0 (map abs (mono_samples (wav_channels w) (wav_width w) (wav_raw w))) < 1 / 1000000"
    "Inr (mono_samples (wav_channels w) (wav_width w) (wav_raw w), wav_rate w) = (Inr r :: py_error + (rat list \<times> nat))"
    using assms(1) unfolding pcm_samples_def Let_def assms(2) option.case if_raise_Inr_iff by blast+
  show "1 \<le> wav_channels w" "wav_width w \<in> {1, 2, 3, 4}" using *(1) by blast+
  show "8000 \<le> wav_rate w" "wav_rate w \<le> 192000" using *(2) by blast+
  show "length (wav_raw w) = wav_frames w * wav_channels w * wav_width w" using *(5) by blast
  show "r = (mono_samples (wav_channels w) (wav_width w) (wav_raw w), wav_rate w)" using *(7) by simp
  show "\<not> wav_frames w < max 128 (wav_rate w div 10)"
    "\<not> (300::rat) < of_nat (wav_frames w) / of_nat (wav_rate w)"
    "\<not> max_default 0 (map abs (mono_samples (wav_channels w) (wav_width w) (wav_raw w))) < 1 / 1000000"
    by (fact *)+
qed

text \<open>
  a PCM voice reference that is accepted is decoded to one normalised sample per frame, each in
  [-1, 1], with a usable peak, at a supported rate and within the bounded duration.
\<close>

theorem pcm_samples_bounds:
  assumes "pcm_samples lib data = Inr (mix, rate)"
  shows "\<exists>w. vl_wave lib data = Some w \<and> rate = wav_rate w \<and> length mix = wav_frames w \<and>
    (\<forall>x \<in> set mix. -1 \<le> x \<and> x \<le> 1) \<and> (\<exists>x \<in> set mix. 1 / 1000000 \<le> \<bar>x\<bar>) \<and>
    8000 \<le> rate \<and> rate \<le> 192000 \<and> wav_frames w \<le> 300 * rate"
proof -
  obtain w where w0: "vl_wave lib data = Some w"
    using assms by (cases "vl_wave lib data") (simp_all add: pcm_samples_def)
  note w = pcm_samples_InrD [OF assms w0]
  have b: "length mix = wav_frames w" "\<forall>x \<in> set mix. \<bar>x\<bar> \<le> 1"
    using mono_samples_bounds [OF w(2,1,7)] w(9) by simp_all
  have "mix \<noteq> []" using b(1) w(5) by auto
  then have "max_default 0 (map abs mix) \<in> set (map abs mix)" by (intro max_default_in) simp
  then have peak: "\<exists>x \<in> set mix. 1 / 1000000 \<le> \<bar>x\<bar>" using w(8,9) by (auto simp: not_less)
  have "(of_nat (wav_frames w) :: rat) \<le> of_nat (300 * wav_rate w)"
    using w(3,6) by (simp add: not_less divide_le_eq)
  then have "wav_frames w \<le> 300 * wav_rate w" unfolding of_nat_le_iff .
  then have frames: "wav_frames w \<le> 300 * rate" using w(9) by simp
  have "-1 \<le> x \<and> x \<le> 1" if "x \<in> set mix" for x
    using bspec [OF b(2) that] by linarith
  then show ?thesis using w0 w(3,4,9) b(1) peak frames by (intro exI [of _ w]) simp
qed

subsection \<open>Consent matching\<close>

text \<open>The governed meaning of a grant.\<close>

definition consent_covers :: "consent_grant \<Rightarrow> assessment_context \<Rightarrow> datetime \<Rightarrow> bool" where
  "consent_covers g cx now \<longleftrightarrow>
     instant (gt_valid_from g) \<le> instant now \<and> instant now \<le> instant (gt_valid_until g) \<and>
     (''*'' \<in> set (gt_territories g) \<or> set (cx_territories cx) \<subseteq> set (gt_territories g)) \<and>
     (''*'' \<in> set (gt_channels g) \<or> casefold (cx_channel cx) \<in> set (gt_channels g)) \<and>
     (''*'' \<in> set (gt_intended_uses g) \<or> casefold (cx_intended_use cx) \<in> set (gt_intended_uses g))"

lemma scope_covers_iff: "scope_covers g cx now \<longleftrightarrow> consent_covers g cx now"
  by (auto simp: scope_covers_def consent_covers_def scope_allows_def scope_allows_all_def)

lemma consent_id_literals [simp]:
  "is_id likeness_component_id" "is_id voice_component_id" "is_id ''rights.governed-consent-reference-matcher''"
  "modality \<in> {''likeness'', ''voice''} \<Longrightarrow> is_id (''evidence.'' @ modality @ ''-consent-query-'')"
  "modality \<in> {''likeness'', ''voice''} \<Longrightarrow> is_id (''evidence.'' @ modality @ ''-consent-'')"
  "modality \<in> {''likeness'', ''voice''} \<Longrightarrow> is_id (''claim.'' @ modality @ ''-consent-'')"
  "modality \<in> {''likeness'', ''voice''} \<Longrightarrow> is_id (''claim.'' @ modality @ ''-candidate-'')"
  "modality \<in> {''likeness'', ''voice''} \<Longrightarrow> is_id (''consent.'' @ modality @ ''-candidate'')"
  "modality \<in> {''likeness'', ''voice''} \<Longrightarrow> is_id (''consent.'' @ modality @ ''-coverage'')"
  by (auto simp: id_eval likeness_component_id_def voice_component_id_def)

lemma modality_length: "modality \<in> {''likeness'', ''voice''} \<Longrightarrow> length modality \<le> 8"
  by auto

definition consent_matches_ok :: "consent_match list \<Rightarrow> bool" where
  "consent_matches_ok ms \<longleftrightarrow> (\<forall>(template_id, grant, distance, similarity) \<in> set ms.
     is_id (gt_subject_id grant) \<and> unit_interval similarity)"

lemma wf_consent_component:
  "sha_ok rt \<Longrightarrow> is_id cid \<Longrightarrow> wf_component (consent_component rt cid registry)"
  by (simp add: wf_component_iff consent_component_def len_between_def consent_registry_commitment_def)

lemma consent_component_ids [simp]:
  "co_component_id (consent_component rt cid registry) = cid"
  "co_component_version (consent_component rt cid registry) = ''1.0.0''"
  by (simp_all add: consent_component_def)

lemma consent_evidence_ids [simp]:
  "ev_evidence_id (consent_evidence rt cid asset cx registry now modality m) =
     token_id_text rt (''evidence.'' @ modality @ ''-consent-'') (fst m) asset"
  "ev_asset_sha256 (consent_evidence rt cid asset cx registry now modality m) = asset"
  "ev_component_id (consent_evidence rt cid asset cx registry now modality m) = cid"
  "ev_component_version (consent_evidence rt cid asset cx registry now modality m) = ''1.0.0''"
  by (cases m; simp add: Let_def)+

lemma consent_claim_ids [simp]:
  "cl_evidence_ids (consent_claim rt asset cx now modality m) =
     [token_id_text rt (''evidence.'' @ modality @ ''-consent-'') (fst m) asset]"
  "cl_dimension (consent_claim rt asset cx now modality m) = Dim_RIGHTS_EXPOSURE"
  by (cases m; simp)+

lemma wf_consent_evidence:
  assumes "sha_ok rt" and "is_sha256 asset" and "is_id cid" and "modality \<in> {''likeness'', ''voice''}"
    and "unit_interval (snd (snd (snd m)))"
  shows "wf_evidence (consent_evidence rt cid asset cx registry now modality m)"
  using assms modality_length [OF assms(4)]
  by (cases m) (simp add: wf_evidence_iff Let_def len_between_def del: append.simps)

lemma wf_consent_claim:
  assumes "sha_ok rt" and "is_sha256 asset" and "modality \<in> {''likeness'', ''voice''}"
    and "is_id (gt_subject_id (fst (snd m)))" and "unit_interval (snd (snd (snd m)))"
  shows "wf_claim (consent_claim rt asset cx now modality m)"
  using assms modality_length [OF assms(3)] is_id_length [OF assms(4)]
  by (cases m) (simp add: wf_claim_iff len_between_def del: append.simps)

text \<open>The contract of both lanes.\<close>

definition consent_sound ::
    "string \<Rightarrow> string \<Rightarrow> assessment_context \<Rightarrow> datetime \<Rightarrow> consent_match list \<Rightarrow> consent_analysis \<Rightarrow> bool" where
  "consent_sound cid asset cx now ms a \<longleftrightarrow>
     lane_sound asset (ca_component a) (ca_evidence a) (ca_claims a) \<and>
     (\<forall>c \<in> set (ca_claims a). cl_dimension c = Dim_RIGHTS_EXPOSURE) \<and>
     co_component_id (ca_component a) = cid \<and> ca_state a = State_COMPLETE \<and>
     unit_interval (ca_confidence a) \<and> ca_limitations a \<noteq> [] \<and>
     (ca_policy_conflict a \<longleftrightarrow> (\<exists>(template_id, grant, distance, similarity) \<in> set ms. \<not> consent_covers grant cx now)) \<and>
     set (ca_candidate_subject_ids a) = (\<lambda>(template_id, grant, distance, similarity). gt_subject_id grant) ` set ms"

lemma no_candidate_sound:
  assumes "sha_ok rt" and "is_sha256 asset" and "is_id cid" and "modality \<in> {''likeness'', ''voice''}"
  shows "\<exists>a. no_candidate rt cid asset registry modality = Inr a \<and> consent_sound cid asset cx now [] a"
proof -
  have e: "wf_evidence (no_consent_evidence rt cid asset registry modality)"
    using assms modality_length [OF assms(4)]
    by (simp add: wf_evidence_iff no_consent_evidence_def len_between_def del: append.simps)
  have c: "wf_claim (no_consent_claim asset modality)"
    using assms modality_length [OF assms(4)]
    by (simp add: wf_claim_iff no_consent_claim_def len_between_def no_consent_limitation_def del: append.simps)
  have k: "wf_component (consent_component rt cid registry)" by (rule wf_consent_component [OF assms(1,3)])
  have lane: "lane_sound asset (consent_component rt cid registry) [no_consent_evidence rt cid asset registry modality]
      [no_consent_claim asset modality]"
    using e c k by (simp add: lane_sound_def) (simp add: no_consent_evidence_def no_consent_claim_def)
  have "cl_dimension (no_consent_claim asset modality) = Dim_RIGHTS_EXPOSURE"
    "no_consent_limitation modality \<noteq> []"
    by (simp_all add: no_consent_claim_def no_consent_limitation_def)
  with lane show ?thesis
    by (simp add: no_candidate_def component.validate_fix [OF k] evidence.validate_fix [OF e]
        claim.validate_fix [OF c] validate_consent_analysis_def check_fields_ok consent_sound_def)
qed

lemma matched_consents_sound:
  assumes "sha_ok rt" and "is_sha256 asset" and "is_id cid" and "modality \<in> {''likeness'', ''voice''}"
    and "is_aware now" and "consent_matches_ok ms"
  shows "\<exists>a. matched_consents rt cid asset cx registry now modality ms = Inr a \<and>
    consent_sound cid asset cx now ms a"
proof -
  define ordered where "ordered = sort_key (\<lambda>(template_id, grant, distance, similarity). (- similarity, template_id)) ms"
  have set_ordered: "set ordered = set ms" by (simp add: ordered_def)
  let ?ev = "consent_evidence rt cid asset cx registry now modality"
  let ?cl = "consent_claim rt asset cx now modality"
  have item: "wf_evidence (?ev m) \<and> wf_claim (?cl m)" if "m \<in> set ordered" for m
  proof -
    have "is_id (gt_subject_id (fst (snd m)))" "unit_interval (snd (snd (snd m)))"
      using assms(6) that by (auto simp: consent_matches_ok_def set_ordered)
    then show ?thesis
      using wf_consent_evidence [OF assms(1-4)] wf_consent_claim [OF assms(1,2,4)] by blast
  qed
  have k: "wf_component (consent_component rt cid registry)" by (rule wf_consent_component [OF assms(1,3)])
  have pairs: "collect_pairs ?ev ?cl ordered = Inr (map (\<lambda>m. (?ev m, ?cl m)) ordered)"
    using item by (intro collect_pairs_ok) auto
  have lane: "lane_sound asset (consent_component rt cid registry) (map ?ev ordered) (map ?cl ordered)"
    using item k by (intro lane_sound_pairs) auto
  have conf: "unit_interval (max_default 0 (map (\<lambda>(_, _, _, similarity). similarity) ms))"
  proof (cases "ms = []")
    case False
    then have "max_default 0 (map (\<lambda>(_, _, _, similarity). similarity) ms) \<in> set (map (\<lambda>(_, _, _, similarity). similarity) ms)"
      by (intro max_default_in) simp
    with assms(6) show ?thesis by (auto simp: consent_matches_ok_def)
  qed simp
  let ?a = "\<lparr>ca_component = consent_component rt cid registry, ca_evidence = map ?ev ordered,
      ca_claims = map ?cl ordered,
      ca_candidate_subject_ids = sorted_set (map (\<lambda>(_, grant, _, _). gt_subject_id grant) ordered),
      ca_policy_conflict = (\<exists>(_, grant, _, _) \<in> set ordered. \<not> scope_covers grant cx now),
      ca_confidence = max_default 0 (map (\<lambda>(_, _, _, similarity). similarity) ms), ca_state = State_COMPLETE,
      ca_limitations = [''The '' @ modality @ '' lane only evaluates enrolled governed references and does not provide open-world clearance.'']\<rparr>"
  have "validate_consent_analysis ?a = Inr ?a"
    using conf by (simp add: validate_consent_analysis_def check_fields_ok)
  then have "matched_consents rt cid asset cx registry now modality ms = Inr ?a"
    using assms(5)
    by (simp only: matched_consents_def Let_def ordered_def [symmetric] pairs component.validate_fix [OF k]
        map_pair_projections res_bind_simps if_False not_True_eq_False simp_thms)
  moreover have "consent_sound cid asset cx now ms ?a"
    using lane conf by (auto simp: consent_sound_def set_ordered scope_covers_iff simp del: map_map)
  ultimately show ?thesis by blast
qed

definition likeness_match :: "string \<Rightarrow> string \<Rightarrow> likeness_template \<Rightarrow> bool" where
  "likeness_match asset d t \<longleftrightarrow>
     lt_reference_sha256 t = asset \<or> int (hamming_distance d (lt_dhash t)) \<le> lt_max_hamming_distance t"

lemma likeness_matches_mem:
  "(\<exists>distance similarity. (template_id, grant, distance, similarity) \<in> set (likeness_matches asset d ts)) \<longleftrightarrow>
     (\<exists>t \<in> set ts. likeness_match asset d t \<and> lt_template_id t = template_id \<and> lt_consent t = grant)"
  by (force simp: likeness_matches_def List.map_filter_def Let_def likeness_match_def split: if_splits)

lemma bex_match:
  "(\<exists>(template_id, grant, distance, similarity) \<in> set ms. P grant) \<longleftrightarrow>
     (\<exists>template_id grant. (\<exists>distance similarity. (template_id, grant, distance, similarity) \<in> set ms) \<and> P grant)"
  for ms :: "consent_match list"
  by auto

lemma unit_interval_round [simp]: "unit_interval q \<Longrightarrow> unit_interval (round_to q n)"
  using round_to_bounds [of 0 q 1 n] by (simp add: unit_interval_def)

lemma perceptual_similarity_unit [simp]: "unit_interval (max (1 / 2) (1 - of_nat n / 64))"
  by (auto simp: unit_interval_def le_max_iff_disj)

lemma likeness_matches_ok:
  assumes "\<forall>t \<in> set ts. wf_grant (lt_consent t)"
  shows "consent_matches_ok (likeness_matches asset d ts)"
  using assms
  by (auto simp: likeness_matches_def List.map_filter_def Let_def consent_matches_ok_def wf_grant_def
      grant_fields_def split: if_splits)

lemma voice_matches_ok:
  assumes "\<forall>t \<in> set ts. wf_grant (vt_consent t) \<and> wf_voice t"
  shows "consent_matches_ok (voice_matches asset features ts)"
proof -
  have "unit_interval (voice_similarity asset features t)"
    if "t \<in> set ts" "vt_minimum_similarity t \<le> voice_similarity asset features t" for t
  proof -
    have "1 / 2 \<le> vt_minimum_similarity t" using assms that(1) by (simp add: wf_voice_def)
    with that(2) have "0 \<le> voice_similarity asset features t" by linarith
    moreover have "voice_similarity asset features t \<le> 1" by (simp add: voice_similarity_def)
    ultimately show ?thesis by (simp add: unit_interval_def)
  qed
  with assms show ?thesis
    by (auto simp: voice_matches_def consent_matches_ok_def wf_grant_def grant_fields_def)
qed

lemma analyze_likeness_consent_result:
  assumes "sha_ok rt" and "is_aware now" and "likeness_dhash lib data = Inr d"
    and "\<forall>t \<in> set (cg_likeness_templates registry). wf_grant (lt_consent t)"
    and "rt_sha256 rt data = asset"
  shows "\<exists>a. analyze_likeness_consent rt lib data asset cx registry now = Inr a \<and>
    lane_sound asset (ca_component a) (ca_evidence a) (ca_claims a) \<and>
    (ca_policy_conflict a \<longleftrightarrow> (\<exists>t \<in> set (cg_likeness_templates registry).
       likeness_match asset d t \<and> \<not> consent_covers (lt_consent t) cx now))"
proof -
  let ?ms = "likeness_matches asset d (cg_likeness_templates registry)"
  have sha: "is_sha256 asset" using assms(1,5) by auto
  have ok: "consent_matches_ok ?ms" by (rule likeness_matches_ok [OF assms(4)])
  have "\<exists>a. (if ?ms = [] then no_candidate rt likeness_component_id asset registry ''likeness''
      else matched_consents rt likeness_component_id asset cx registry now ''likeness'' ?ms) = Inr a \<and>
      consent_sound likeness_component_id asset cx now ?ms a"
    using no_candidate_sound [OF assms(1) sha, of likeness_component_id "''likeness''" registry cx now]
      matched_consents_sound [OF assms(1) sha _ _ assms(2) ok, of likeness_component_id "''likeness''" cx registry]
    by (cases "?ms = []") simp_all
  then obtain a where a: "(if ?ms = [] then no_candidate rt likeness_component_id asset registry ''likeness''
      else matched_consents rt likeness_component_id asset cx registry now ''likeness'' ?ms) = Inr a"
      "consent_sound likeness_component_id asset cx now ?ms a"
    by blast
  have "analyze_likeness_consent rt lib data asset cx registry now = Inr a"
    using a(1) by (simp add: analyze_likeness_consent_def assms(3,5) Let_def)
  moreover have "(\<exists>(template_id, grant, distance, similarity) \<in> set ?ms. \<not> consent_covers grant cx now) \<longleftrightarrow>
      (\<exists>t \<in> set (cg_likeness_templates registry). likeness_match asset d t \<and> \<not> consent_covers (lt_consent t) cx now)"
    unfolding bex_match likeness_matches_mem by auto
  ultimately show ?thesis using a(2) by (auto simp: consent_sound_def)
qed

text \<open>
  The likeness lane analyses every decodable image against a governed registry; it reports a
  conflict exactly when an enrolled template matches (same bytes, or a difference hash within the
  template's distance) whose consent does not cover the declared context at the instant.
\<close>

theorem analyze_likeness_consent_sound:
  assumes "sha_ok rt" and "is_aware now" and "likeness_dhash lib data = Inr d"
    and "\<forall>t \<in> set (cg_likeness_templates registry). wf_grant (lt_consent t)"
    and "rt_sha256 rt data = asset"
  shows "\<exists>a. analyze_likeness_consent rt lib data asset cx registry now = Inr a \<and>
    lane_sound asset (ca_component a) (ca_evidence a) (ca_claims a) \<and>
    (ca_policy_conflict a \<longleftrightarrow> (\<exists>t \<in> set (cg_likeness_templates registry).
       likeness_match asset d t \<and> \<not> consent_covers (lt_consent t) cx now))"
  using assms by (rule analyze_likeness_consent_result)

definition voice_match :: "string \<Rightarrow> rat list \<Rightarrow> voice_template \<Rightarrow> bool" where
  "voice_match asset features t \<longleftrightarrow>
     vt_reference_sha256 t = asset \<or> vt_minimum_similarity t \<le> max (-1) (min 1 (dot features (vt_features t)))"

lemma voice_matches_mem:
  assumes "\<forall>t \<in> set ts. wf_voice t"
  shows "(\<exists>distance similarity. (template_id, grant, distance, similarity) \<in> set (voice_matches asset features ts)) \<longleftrightarrow>
     (\<exists>t \<in> set ts. voice_match asset features t \<and> vt_template_id t = template_id \<and> vt_consent t = grant)"
proof -
  have "vt_minimum_similarity t \<le> voice_similarity asset features t \<longleftrightarrow> voice_match asset features t"
    if "t \<in> set ts" for t
    using assms that by (auto simp: voice_similarity_def voice_match_def wf_voice_def)
  then show ?thesis by (force simp: voice_matches_def)
qed

lemma analyze_voice_consent_result:
  assumes "sha_ok rt" and "is_aware now" and "voice_features lib data = Inr features"
    and "\<forall>t \<in> set (cg_voice_templates registry). wf_grant (vt_consent t) \<and> wf_voice t"
    and "rt_sha256 rt data = asset"
  shows "\<exists>a. analyze_voice_consent rt lib data asset cx registry now = Inr a \<and>
    lane_sound asset (ca_component a) (ca_evidence a) (ca_claims a) \<and>
    (ca_policy_conflict a \<longleftrightarrow> (\<exists>t \<in> set (cg_voice_templates registry).
       voice_match asset features t \<and> \<not> consent_covers (vt_consent t) cx now))"
proof -
  let ?ms = "voice_matches asset features (cg_voice_templates registry)"
  have voices: "\<forall>t \<in> set (cg_voice_templates registry). wf_voice t" using assms(4) by blast
  have sha: "is_sha256 asset" using assms(1,5) by auto
  have ok: "consent_matches_ok ?ms" by (rule voice_matches_ok [OF assms(4)])
  have "\<exists>a. (if ?ms = [] then no_candidate rt voice_component_id asset registry ''voice''
      else matched_consents rt voice_component_id asset cx registry now ''voice'' ?ms) = Inr a \<and>
      consent_sound voice_component_id asset cx now ?ms a"
    using no_candidate_sound [OF assms(1) sha, of voice_component_id "''voice''" registry cx now]
      matched_consents_sound [OF assms(1) sha _ _ assms(2) ok, of voice_component_id "''voice''" cx registry]
    by (cases "?ms = []") simp_all
  then obtain a where a: "(if ?ms = [] then no_candidate rt voice_component_id asset registry ''voice''
      else matched_consents rt voice_component_id asset cx registry now ''voice'' ?ms) = Inr a"
      "consent_sound voice_component_id asset cx now ?ms a"
    by blast
  have "analyze_voice_consent rt lib data asset cx registry now = Inr a"
    using a(1) by (simp add: analyze_voice_consent_def assms(3,5) Let_def)
  moreover have "(\<exists>(template_id, grant, distance, similarity) \<in> set ?ms. \<not> consent_covers grant cx now) \<longleftrightarrow>
      (\<exists>t \<in> set (cg_voice_templates registry). voice_match asset features t \<and> \<not> consent_covers (vt_consent t) cx now)"
    unfolding bex_match voice_matches_mem [OF voices] by auto
  ultimately show ?thesis using a(2) by (auto simp: consent_sound_def)
qed

text \<open>
  the voice lane analyses every usable recording against a governed registry; it reports a
  conflict exactly when an enrolled voice matches (same bytes, or a similarity of at least the
  template's threshold) whose consent does not cover the declared context at the instant.
\<close>

theorem analyze_voice_consent_sound:
  assumes "sha_ok rt" and "is_aware now" and "voice_features lib data = Inr features"
    and "\<forall>t \<in> set (cg_voice_templates registry). wf_grant (vt_consent t) \<and> wf_voice t"
    and "rt_sha256 rt data = asset"
  shows "\<exists>a. analyze_voice_consent rt lib data asset cx registry now = Inr a \<and>
    lane_sound asset (ca_component a) (ca_evidence a) (ca_claims a) \<and>
    (ca_policy_conflict a \<longleftrightarrow> (\<exists>t \<in> set (cg_voice_templates registry).
       voice_match asset features t \<and> \<not> consent_covers (vt_consent t) cx now))"
  using assms by (rule analyze_voice_consent_result)

subsection \<open>Licences and consent read the intended use differently\<close>

text \<open>A licence and a grant with the same window, territories, channels and uses.\<close>

definition same_scope :: "licence_record \<Rightarrow> consent_grant \<Rightarrow> bool" where
  "same_scope l g \<longleftrightarrow> li_valid_from l = gt_valid_from g \<and> li_valid_until l = gt_valid_until g \<and>
     li_territories l = gt_territories g \<and> li_channels l = gt_channels g \<and> li_intended_uses l = gt_intended_uses g"

lemma same_scope_agree:
  "same_scope l g \<Longrightarrow> li_state l = Licence_ACTIVE \<Longrightarrow> strip (cx_intended_use cx) = cx_intended_use cx \<Longrightarrow>
   licence_covers l cx now \<longleftrightarrow> consent_covers g cx now"
  by (simp add: same_scope_def licence_covers_def consent_covers_def)


definition demo_grant :: consent_grant where
  "demo_grant = \<lparr>gt_consent_id = ''consent-1'', gt_source_record_id = ''record-1'', gt_subject_id = ''subject-1'',
     gt_valid_from = utc 0, gt_valid_until = utc 100, gt_territories = [''*''], gt_channels = [''web''],
     gt_intended_uses = [''ad'']\<rparr>"


text \<open>
  The converse fails: the licence evaluator strips the declared intended use and the consent
  evaluator does not, so a trailing blank makes a valid licence cover a deployment that the consent of
  the same scope does not.
\<close>

theorem intended_use_blank_divergence:
  "same_scope demo_licence demo_grant \<and>
   coverage_failures demo_licence (demo_context\<lparr>cx_intended_use := ''ad ''\<rparr>) (utc 50) = [] \<and>
   \<not> scope_covers demo_grant (demo_context\<lparr>cx_intended_use := ''ad ''\<rparr>) (utc 50)"
  unfolding coverage_failures_Nil_iff scope_covers_iff
  by (intro conjI) (simp_all add: same_scope_def demo_licence_def demo_grant_def licence_covers_def consent_covers_def
    demo_context_def strip_def casefold_def to_lower_def is_upper_def is_space_def ord_def)

subsection \<open>Concrete analyses\<close>

lemma wf_demo_grant: "wf_grant demo_grant"
  by (simp add: wf_grant_def grant_fields_def demo_grant_def id_eval normalize_grant_def territory_set_def
      scope_text_def sorted_set_def upper_def strip_def casefold_def to_upper_def to_lower_def is_upper_def
      is_space_def scope_territory_def list_all_iff)


definition demo_consent_registry :: consent_registry where
  "demo_consent_registry = \<lparr>cg_registry_id = ''consents'', cg_version = ''1'',
     cg_likeness_templates = [\<lparr>lt_template_id = ''template-1'', lt_reference_sha256 = rt_sha256 demo_runtime ''face'',
       lt_dhash = replicate 16 (CHR ''0''), lt_consent = demo_grant, lt_max_hamming_distance = 6\<rparr>],
     cg_voice_templates = [\<lparr>vt_template_id = ''template-2'', vt_reference_sha256 = rt_sha256 demo_runtime ''voice'',
       vt_features = 1 # replicate 47 0, vt_consent = demo_grant, vt_minimum_similarity = 9 / 10\<rparr>]\<rparr>"

theorem analyze_likeness_consent_sound_witness:
  "\<exists>a. analyze_likeness_consent demo_runtime demo_lib ''face'' (rt_sha256 demo_runtime ''face'') demo_context
      demo_consent_registry (utc 200) = Inr a \<and> ca_policy_conflict a"
proof -
  have "likeness_dhash demo_lib ''face'' = Inr (dhash_text (replicate 72 0))"
    by (simp add: likeness_dhash_def demo_lib_def)
  moreover have "\<not> consent_covers demo_grant demo_context (utc 200)"
    by (simp add: consent_covers_def demo_grant_def)
  ultimately show ?thesis
    using analyze_likeness_consent_sound [OF sha_ok_demo, of "utc 200" demo_lib "''face''" _ demo_consent_registry _ demo_context]
    by (auto simp: demo_consent_registry_def wf_demo_grant likeness_match_def)
qed

definition demo_voice_lib :: voice_lib where
  "demo_voice_lib = \<lparr>vl_wave = (\<lambda>_. Some \<lparr>wav_compressed = False, wav_channels = 1, wav_width = 1, wav_rate = 8000,
      wav_frames = 800, wav_raw = replicate 800 (CHR ''a'')\<rparr>), vl_features = (\<lambda>_ _. Inr (1 # replicate 47 0))\<rparr>"

lemma demo_pcm: "\<exists>mix. pcm_samples demo_voice_lib data = Inr (mix, 8000)"
proof -
  let ?m = "mono_samples 1 1 (replicate 800 (CHR ''a''))"
  have chunk1: "chunks 1 xs = map (\<lambda>x. [x]) xs" for xs :: "'a list"
    by (induction xs) (simp_all add: chunks.simps)
  have "?m = map (\<lambda>_. of_int (97 - 128) / 128) (replicate 800 (CHR ''a''))"
    unfolding mono_samples_def chunk1
    by (simp add: sample_value_def Let_def ord_def map_replicate_const)
  then have "set ?m = {- 31 / 128}" by simp
  then have "31 / 128 \<le> max_default 0 (map abs ?m)" by (intro max_default_ge) (auto simp: image_iff)
  then have "\<not> max_default 0 (map abs ?m) < 1 / 1000000" by simp
  then show ?thesis by (simp add: pcm_samples_def demo_voice_lib_def Let_def)
qed

theorem pcm_samples_bounds_witness:
  "\<exists>mix. pcm_samples demo_voice_lib ''voice'' = Inr (mix, 8000) \<and> length mix = 800"
proof -
  obtain mix where m: "pcm_samples demo_voice_lib ''voice'' = Inr (mix, 8000)" using demo_pcm by blast
  from pcm_samples_bounds [OF m] m show ?thesis by (auto simp: demo_voice_lib_def)
qed

theorem analyze_voice_consent_sound_witness:
  "\<exists>a. analyze_voice_consent demo_runtime demo_voice_lib ''voice'' (rt_sha256 demo_runtime ''voice'') demo_context
      demo_consent_registry (utc 200) = Inr a \<and> ca_policy_conflict a"
proof -
  have f: "voice_features demo_voice_lib ''voice'' = Inr (1 # replicate 47 0)"
    using demo_pcm [of "''voice''"] by (auto simp: voice_features_def) (simp add: demo_voice_lib_def)
  have n: "\<not> consent_covers demo_grant demo_context (utc 200)"
    by (simp add: consent_covers_def demo_grant_def)
  have v: "\<forall>t \<in> set (cg_voice_templates demo_consent_registry). wf_grant (vt_consent t) \<and> wf_voice t"
    by (simp add: demo_consent_registry_def wf_demo_grant wf_voice_def id_eval unit_norm_def square_norm_def
        map_replicate_const sum_list_replicate power2_eq_square)
  show ?thesis
    using analyze_voice_consent_sound [OF sha_ok_demo _ f v refl, of "utc 200" demo_context] n
    by (auto simp: demo_consent_registry_def voice_match_def)
qed

end
