(* ===== verification/Policy.thy ===== *)
theory Policy
  imports Licensing
begin

section \<open>The publication policy\<close>

text \<open>
  \<open>rightsgate/policy.py\<close>: regulatory rules and publication policies, and
  \<open>evaluate_publication_policy\<close>, which compiles the provenance, rights and licence results, the
  component records and the declared context into a deployment decision. The reasons are collected in
  the order of the code; a block reason decides \<open>BLOCK\<close>, otherwise a review reason decides \<open>REVIEW\<close>,
  otherwise the decision is \<open>GO\<close>.
\<close>

subsection \<open>Models\<close>

datatype rule_effect = Effect_REVIEW | Effect_BLOCK

primrec rule_effect_value :: "rule_effect \<Rightarrow> string" where
  "rule_effect_value Effect_REVIEW = ''REVIEW''"
| "rule_effect_value Effect_BLOCK = ''BLOCK''"

record regulatory_rule =
  rg_rule_id :: string
  rg_description :: string
  rg_effect :: rule_effect
  rg_territories :: "string list"
  rg_channels :: "string list"
  rg_audiences :: "string list"
  rg_brand_profiles :: "string list"
  rg_provenance_verdicts :: "provenance_verdict list"
  rg_rights_verdicts :: "rights_verdict list"

text \<open>The territories of a rule are stripped and blank ones dropped, unlike those of a policy.\<close>

definition rule_territories :: "string list \<Rightarrow> string list" where
  "rule_territories values = sorted_set (map (\<lambda>v. upper (strip v)) (filter (\<lambda>v. strip v \<noteq> []) values))"

definition rule_fields :: "regulatory_rule \<Rightarrow> (string \<times> bool) list" where
  "rule_fields r =
     [(''rule_id'', is_id (rg_rule_id r)), (''description'', len_between 1 500 (rg_description r)),
      (''territories'', rule_territories (rg_territories r) \<noteq> [] \<and>
         list_all scope_territory (rule_territories (rg_territories r))),
      (''channels'', scope_text (rg_channels r) \<noteq> []), (''audiences'', scope_text (rg_audiences r) \<noteq> []),
      (''brand_profiles'', scope_text (rg_brand_profiles r) \<noteq> []),
      (''provenance_verdicts'', distinct (rg_provenance_verdicts r)),
      (''rights_verdicts'', distinct (rg_rights_verdicts r))]"

definition normalize_rule :: "regulatory_rule \<Rightarrow> regulatory_rule" where
  "normalize_rule r = r\<lparr>rg_territories := rule_territories (rg_territories r),
     rg_channels := scope_text (rg_channels r), rg_audiences := scope_text (rg_audiences r),
     rg_brand_profiles := scope_text (rg_brand_profiles r),
     rg_provenance_verdicts := sort_key provenance_verdict_value (rg_provenance_verdicts r),
     rg_rights_verdicts := sort_key rights_verdict_value (rg_rights_verdicts r)\<rparr>"

definition validate_rule :: "regulatory_rule \<Rightarrow> regulatory_rule res" where
  "validate_rule r = check_fields ''RegulatoryRule'' (rule_fields r) (Inr (normalize_rule r))"

definition wf_rule :: "regulatory_rule \<Rightarrow> bool" where
  "wf_rule r \<longleftrightarrow> list_all snd (rule_fields r) \<and> normalize_rule r = r"

record publication_policy =
  pp_policy_id :: string
  pp_version :: string
  pp_allowed_channels :: "string list"
  pp_allowed_audiences :: "string list"
  pp_allowed_brand_profiles :: "string list"
  pp_allowed_territories :: "string list"
  pp_required_component_ids :: "string list"
  pp_require_known_provenance :: bool
  pp_require_rights_clearance :: bool
  pp_block_tampered_provenance :: bool
  pp_block_unlicensed_reference_match :: bool
  pp_block_unconsented_identity_match :: bool
  pp_regulatory_rules :: "regulatory_rule list"

definition policy_fields :: "publication_policy \<Rightarrow> (string \<times> bool) list" where
  "policy_fields p =
     [(''policy_id'', is_id (pp_policy_id p)), (''version'', len_between 1 100 (pp_version p)),
      (''allowed_channels'', pp_allowed_channels p \<noteq> [] \<and> scope_text (pp_allowed_channels p) \<noteq> []),
      (''allowed_audiences'', pp_allowed_audiences p \<noteq> [] \<and> scope_text (pp_allowed_audiences p) \<noteq> []),
      (''allowed_brand_profiles'', scope_text (pp_allowed_brand_profiles p) \<noteq> []),
      (''allowed_territories'', pp_allowed_territories p \<noteq> [] \<and>
         list_all scope_territory (territory_set (pp_allowed_territories p))),
      (''required_component_ids'', distinct (pp_required_component_ids p)),
      (''regulatory_rules'', distinct (map rg_rule_id (pp_regulatory_rules p)))]"

definition normalize_policy :: "publication_policy \<Rightarrow> publication_policy" where
  "normalize_policy p = p\<lparr>pp_allowed_channels := scope_text (pp_allowed_channels p),
     pp_allowed_audiences := scope_text (pp_allowed_audiences p),
     pp_allowed_brand_profiles := scope_text (pp_allowed_brand_profiles p),
     pp_allowed_territories := territory_set (pp_allowed_territories p),
     pp_required_component_ids := sort (pp_required_component_ids p),
     pp_regulatory_rules := sort_key rg_rule_id (pp_regulatory_rules p)\<rparr>"

definition has_release_control :: "publication_policy \<Rightarrow> bool" where
  "has_release_control p \<longleftrightarrow>
     pp_require_known_provenance p \<or> pp_require_rights_clearance p \<or> pp_block_tampered_provenance p \<or>
     pp_block_unlicensed_reference_match p \<or> pp_block_unconsented_identity_match p \<or>
     pp_required_component_ids p \<noteq> []"

definition validate_policy :: "publication_policy \<Rightarrow> publication_policy res" where
  "validate_policy p =
     check_fields ''PublicationPolicy'' (policy_fields p)
       (if \<not> has_release_control (normalize_policy p)
        then Inl (ModelError ''PublicationPolicy'' ''publication policy must enable at least one release control'')
        else Inr (normalize_policy p))"

definition wf_policy :: "publication_policy \<Rightarrow> bool" where
  "wf_policy p \<longleftrightarrow> list_all snd (policy_fields p) \<and> has_release_control p \<and> normalize_policy p = p"

lemma strip_map_upper_idem:
  assumes "\<And>v. strip (upper v) = upper (strip v)"
  shows "rule_territories (rule_territories vs) = rule_territories vs"
proof -
  have "\<And>v. v \<in> set (rule_territories vs) \<Longrightarrow> upper (strip v) = v \<and> strip v \<noteq> []"
    by (auto simp: rule_territories_def assms) (simp add: upper_def)
  then have "map (\<lambda>v. upper (strip v)) (filter (\<lambda>v. strip v \<noteq> []) (rule_territories vs)) = rule_territories vs"
    by (simp add: map_idI filter_id_conv)
  then have "rule_territories (rule_territories vs) = sorted_set (rule_territories vs)"
    by (subst rule_territories_def) (rule arg_cong)
  then show ?thesis by (simp add: rule_territories_def)
qed

lemma is_space_to_upper [simp]: "is_space (to_upper c) = is_space c"
  by (auto simp: to_upper_def is_space_def is_lower_def ord_char_of)

lemma strip_upper: "strip (upper s) = upper (strip s)"
  by (simp add: strip_def upper_def dropWhile_map rev_map comp_def)

lemma rule_territories_idem [simp]: "rule_territories (rule_territories vs) = rule_territories vs"
  by (rule strip_map_upper_idem) (rule strip_upper)

lemma sort_key_idem [simp]: "sort_key f (sort_key f xs) = sort_key f xs"
  by (simp add: sort_key_id_if_sorted)

lemma normalize_rule_idem [simp]: "normalize_rule (normalize_rule r) = normalize_rule r"
  by (simp add: normalize_rule_def)

lemma rule_fields_normalize: "list_all snd (rule_fields r) \<Longrightarrow> list_all snd (rule_fields (normalize_rule r))"
  by (simp add: rule_fields_def normalize_rule_def)

interpretation rule: validated_model validate_rule wf_rule
  by unfold_locales (auto simp: validate_rule_def wf_rule_def rule_fields_normalize check_fields_ok)

lemma normalize_policy_idem [simp]: "normalize_policy (normalize_policy p) = normalize_policy p"
  using sort_key_idem [of "\<lambda>x. x" "pp_required_component_ids p"] by (simp add: normalize_policy_def)

lemma policy_fields_normalize: "list_all snd (policy_fields p) \<Longrightarrow> list_all snd (policy_fields (normalize_policy p))"
  by (simp add: policy_fields_def normalize_policy_def distinct_map_sort_key)

interpretation policy: validated_model validate_policy wf_policy
  by unfold_locales (auto simp: validate_policy_def wf_policy_def policy_fields_normalize check_fields_ok)

interpretation regulatory_rules: keyed_registry rg_rule_id pp_regulatory_rules wf_policy
  by unfold_locales (simp add: wf_policy_def policy_fields_def)

definition rule_payload :: "regulatory_rule \<Rightarrow> json" where
  "rule_payload r = JObj
     [(''rule_id'', JStr (rg_rule_id r)), (''description'', JStr (rg_description r)),
      (''effect'', JStr (rule_effect_value (rg_effect r))), (''territories'', strs (rg_territories r)),
      (''channels'', strs (rg_channels r)), (''audiences'', strs (rg_audiences r)),
      (''brand_profiles'', strs (rg_brand_profiles r)),
      (''provenance_verdicts'', strs (map provenance_verdict_value (rg_provenance_verdicts r))),
      (''rights_verdicts'', strs (map rights_verdict_value (rg_rights_verdicts r)))]"

definition policy_payload :: "publication_policy \<Rightarrow> json" where
  "policy_payload p = JObj
     [(''schema'', JStr ''veilgraph.rightsgate.publication-policy.v1''),
      (''policy_id'', JStr (pp_policy_id p)), (''version'', JStr (pp_version p)),
      (''allowed_channels'', strs (pp_allowed_channels p)),
      (''allowed_audiences'', strs (pp_allowed_audiences p)),
      (''allowed_brand_profiles'', strs (pp_allowed_brand_profiles p)),
      (''allowed_territories'', strs (pp_allowed_territories p)),
      (''required_component_ids'', strs (pp_required_component_ids p)),
      (''require_known_provenance'', JBool (pp_require_known_provenance p)),
      (''require_rights_clearance'', JBool (pp_require_rights_clearance p)),
      (''block_tampered_provenance'', JBool (pp_block_tampered_provenance p)),
      (''block_unlicensed_reference_match'', JBool (pp_block_unlicensed_reference_match p)),
      (''block_unconsented_identity_match'', JBool (pp_block_unconsented_identity_match p)),
      (''regulatory_rules'', JArr (map rule_payload (pp_regulatory_rules p)))]"

definition policy_commitment :: "runtime \<Rightarrow> publication_policy \<Rightarrow> string" where
  "policy_commitment rt p = sha256_json rt (policy_payload p)"

subsection \<open>Evaluation\<close>

definition allowed :: "string \<Rightarrow> string list \<Rightarrow> bool" where
  "allowed value configured \<longleftrightarrow> ''*'' \<in> set configured \<or> casefold value \<in> set configured"

definition brand_of :: "assessment_context \<Rightarrow> string" where
  "brand_of cx = (case cx_brand_profile cx of None \<Rightarrow> [] | Some b \<Rightarrow> b)"

definition regulatory_rule_matches ::
    "regulatory_rule \<Rightarrow> assessment_context \<Rightarrow> provenance_assessment \<Rightarrow> rights_assessment \<Rightarrow> bool" where
  "regulatory_rule_matches rule cx provenance rights =
     (if \<not> allowed (cx_channel cx) (rg_channels rule) then False
      else if \<not> allowed (cx_audience cx) (rg_audiences rule) then False
      else if \<not> allowed (brand_of cx) (rg_brand_profiles rule) then False
      else if ''*'' \<notin> set (rg_territories rule) \<and> set (cx_territories cx) \<inter> set (rg_territories rule) = {} then False
      else if rg_provenance_verdicts rule \<noteq> [] \<and> pa_verdict provenance \<notin> set (rg_provenance_verdicts rule) then False
      else rg_rights_verdicts rule = [] \<or> ra_verdict rights \<in> set (rg_rights_verdicts rule))"

type_synonym reason = "string \<times> string"

text \<open>Reasons from the context, the required components, the provenance and the rights.\<close>

definition context_blocks :: "assessment_context \<Rightarrow> publication_policy \<Rightarrow> reason list" where
  "context_blocks cx p =
     (if \<not> allowed (cx_channel cx) (pp_allowed_channels p)
      then [(''context.channel'', ''The declared channel is not permitted.'')] else []) @
     (if \<not> allowed (cx_audience cx) (pp_allowed_audiences p)
      then [(''context.audience'', ''The declared audience is not permitted.'')] else []) @
     (if \<not> allowed (brand_of cx) (pp_allowed_brand_profiles p)
      then [(''context.brand-profile'', ''The declared brand profile is not permitted.'')] else []) @
     (if ''*'' \<notin> set (pp_allowed_territories p)
      then let unsupported = sorted_set (filter (\<lambda>t. t \<notin> set (pp_allowed_territories p)) (cx_territories cx))
           in if unsupported \<noteq> []
              then [(''context.territory'', ''Territories are not permitted: '' @ join '','' unsupported @ ''.'')] else []
      else [])"

type_synonym component_index = "string \<Rightarrow> component_record option"

definition component_reviews :: "component_index \<Rightarrow> publication_policy \<Rightarrow> reason list" where
  "component_reviews components_by_id p =
     concat (map (\<lambda>cid. case components_by_id cid of
         None \<Rightarrow> [(''component.'' @ cid, ''Required component '' @ cid @ '' is absent.'')]
       | Some c \<Rightarrow> if co_state c \<noteq> Comp_AVAILABLE
           then [(''component.'' @ cid,
                  ''Required component '' @ cid @ '' is '' @ component_state_value (co_state c) @ ''.'')]
           else [])
       (pp_required_component_ids p))"

definition provenance_reasons :: "publication_policy \<Rightarrow> provenance_assessment \<Rightarrow> reason list \<times> reason list" where
  "provenance_reasons p provenance =
     (let (blocks, reviews) =
        (if pp_block_tampered_provenance p \<and> pa_verdict provenance = Prov_TAMPERED
         then ([(''provenance.tampered'', ''Governed provenance or watermark evidence indicates tampering.'')], [])
         else if pa_verdict provenance = Prov_TAMPERED
         then ([], [(''provenance.tampered'', ''Tampered provenance cannot satisfy the release invariant.'')])
         else if pp_require_known_provenance p \<and> pa_verdict provenance = Prov_UNKNOWN
         then ([], [(''provenance.known'', ''Provenance is unknown and requires human review.'')])
         else if pa_verdict provenance = Prov_UNKNOWN
         then ([], [(''provenance.release-floor'', ''Unknown provenance cannot satisfy the release invariant.'')])
         else ([], []))
      in (blocks, reviews @ (if pa_state provenance \<noteq> State_COMPLETE
            then [(''provenance.complete'', ''The provenance assessment is incomplete or unavailable.'')] else [])))"

definition rights_reasons ::
    "publication_policy \<Rightarrow> rights_assessment \<Rightarrow> licence_evaluation \<Rightarrow> reason list \<times> reason list" where
  "rights_reasons p rights licence =
     (let (blocks, conflict_reviews) =
        (if le_policy_conflict licence \<and> pp_block_unlicensed_reference_match p
         then ([(''rights.licence-coverage'',
                 ''At least one governed reference candidate lacks licence coverage for this context.'')], [])
         else if ra_verdict rights = Rights_POLICY_CONFLICT \<and> pp_block_unconsented_identity_match p
         then ([(''rights.consent-coverage'',
                 ''At least one enrolled likeness or voice candidate lacks consent coverage for this context.'')], [])
         else if ra_verdict rights = Rights_POLICY_CONFLICT
         then ([], [(''rights.policy-conflict'', ''Rights evidence conflicts with the deployment policy.'')])
         else ([], []));
          clearance_reviews =
        (if pp_require_rights_clearance p \<and> ra_verdict rights \<noteq> Rights_CLEAR
         then [(''rights.clearance'', ''The rights assessment does not provide scoped clearance.'')]
         else if ra_verdict rights \<noteq> Rights_CLEAR
         then [(''rights.release-floor'', ''Non-clear rights cannot satisfy the release invariant.'')]
         else []);
          complete_reviews =
        (if ra_state rights \<noteq> State_COMPLETE
         then [(''rights.complete'', ''The rights assessment is incomplete or unavailable.'')] else [])
      in (blocks, conflict_reviews @ clearance_reviews @ complete_reviews))"

definition matching_rules ::
    "rule_effect \<Rightarrow> publication_policy \<Rightarrow> assessment_context \<Rightarrow> provenance_assessment \<Rightarrow> rights_assessment \<Rightarrow>
     reason list" where
  "matching_rules effect p cx provenance rights =
     map (\<lambda>r. (''regulatory.'' @ rg_rule_id r, rg_description r))
       (filter (\<lambda>r. regulatory_rule_matches r cx provenance rights \<and> rg_effect r = effect) (pp_regulatory_rules p))"

text \<open>\<open>sorted(set(block_reasons))\<close> and \<open>sorted(set(review_reasons))\<close>.\<close>

definition block_reasons ::
    "publication_policy \<Rightarrow> assessment_context \<Rightarrow> provenance_assessment \<Rightarrow> rights_assessment \<Rightarrow>
     licence_evaluation \<Rightarrow> reason list" where
  "block_reasons p cx provenance rights licence =
     sorted_set (context_blocks cx p @ fst (provenance_reasons p provenance) @
       fst (rights_reasons p rights licence) @ matching_rules Effect_BLOCK p cx provenance rights)"

definition review_reasons ::
    "publication_policy \<Rightarrow> component_index \<Rightarrow> assessment_context \<Rightarrow> provenance_assessment \<Rightarrow>
     rights_assessment \<Rightarrow> licence_evaluation \<Rightarrow> reason list" where
  "review_reasons p components_by_id cx provenance rights licence =
     sorted_set (component_reviews components_by_id p @ snd (provenance_reasons p provenance) @
       snd (rights_reasons p rights licence) @ matching_rules Effect_REVIEW p cx provenance rights)"

definition decide :: "reason list \<Rightarrow> reason list \<Rightarrow> deployment_decision \<times> reason list" where
  "decide blocks reviews =
     (if blocks \<noteq> [] then (Decision_BLOCK, blocks)
      else if reviews \<noteq> [] then (Decision_REVIEW, reviews)
      else (Decision_GO, [(''release.go'', ''All configured release controls passed.'')]))"

record policy_evaluation =
  pe_component :: component_record
  pe_evidence :: "evidence_pointer list"
  pe_assessment :: deployment_assessment

definition policy_component_id :: string where
  "policy_component_id = ''deployment.policy-compiler''"

definition policy_component :: "string \<Rightarrow> component_record" where
  "policy_component policy_sha256 =
     \<lparr>co_component_id = policy_component_id, co_component_version = ''1.1.0'',
      co_component_type = ''deployment.deterministic-policy'', co_state = Comp_AVAILABLE, co_mandatory = True,
      co_artifact_sha256 = Some policy_sha256, co_reason = None\<rparr>"

text \<open>\<open>f"{prefix}{asset_sha256[:16]}-{policy_sha256[:12]}"\<close>.\<close>

definition policy_id_text :: "string \<Rightarrow> string \<Rightarrow> string \<Rightarrow> string" where
  "policy_id_text prefix asset_sha256 policy_sha256 = prefix @ short asset_sha256 @ ''-'' @ take 12 policy_sha256"

definition reasons_json :: "reason list \<Rightarrow> json" where
  "reasons_json rs = JArr (map (\<lambda>r. JArr [JStr (fst r), JStr (snd r)]) rs)"

definition policy_evidence ::
    "runtime \<Rightarrow> string \<Rightarrow> assessment_context \<Rightarrow> publication_policy \<Rightarrow> reason list \<Rightarrow> reason list \<Rightarrow>
     deployment_decision \<Rightarrow> evidence_pointer" where
  "policy_evidence rt asset_sha256 cx p blocks reviews decision =
     \<lparr>ev_evidence_id = policy_id_text ''evidence.policy-'' asset_sha256 (policy_commitment rt p),
      ev_asset_sha256 = asset_sha256, ev_kind = Ev_POLICY_RULE,
      ev_source = ''RightsGate deterministic publication policy'', ev_component_id = policy_component_id,
      ev_component_version = ''1.1.0'',
      ev_polarity = (if decision = Decision_GO then Pol_SUPPORTS
                     else if decision = Decision_BLOCK then Pol_CONTRADICTS else Pol_NEUTRAL),
      ev_confidence = 1, ev_locator = whole_asset,
      ev_summary = ''Versioned policy evaluation produced '' @ deployment_decision_value decision @ ''.'',
      ev_payload_sha256 = Some (sha256_json rt (JObj
        [(''asset_sha256'', JStr asset_sha256), (''block_reasons'', reasons_json blocks),
         (''context'', context_payload False cx), (''decision'', JStr (deployment_decision_value decision)),
         (''policy_sha256'', JStr (policy_commitment rt p)), (''review_reasons'', reasons_json reviews)])),
      ev_attributes =
        [(''block_reason_count'', AInt (int (length blocks))),
         (''decision'', AStr (deployment_decision_value decision)), (''policy_id'', AStr (pp_policy_id p)),
         (''policy_version'', AStr (pp_version p)), (''review_reason_count'', AInt (int (length reviews)))]\<rparr>"

definition policy_claim ::
    "runtime \<Rightarrow> string \<Rightarrow> publication_policy \<Rightarrow> deployment_decision \<Rightarrow> string list \<Rightarrow> claim_record" where
  "policy_claim rt asset_sha256 p decision limitations =
     \<lparr>cl_claim_id = policy_id_text ''claim.policy-release-'' asset_sha256 (policy_commitment rt p),
      cl_dimension = Dim_DEPLOYMENT_READINESS, cl_claim_type = ''policy.publication-ready'',
      cl_statement = ''The asset satisfies all mandatory rules in the supplied publication policy.'',
      cl_outcome = (if decision = Decision_GO then Outcome_SUPPORTED
                    else if decision = Decision_BLOCK then Outcome_CONTRADICTED else Outcome_UNKNOWN),
      cl_confidence = (if decision \<noteq> Decision_REVIEW then 1 else 0), cl_mandatory = True,
      cl_evidence_ids = [policy_id_text ''evidence.policy-'' asset_sha256 (policy_commitment rt p)],
      cl_limitations = limitations\<rparr>"

definition incomplete_inputs ::
    "publication_policy \<Rightarrow> component_index \<Rightarrow> provenance_assessment \<Rightarrow> rights_assessment \<Rightarrow> bool" where
  "incomplete_inputs p components_by_id provenance rights \<longleftrightarrow>
     (\<exists>cid \<in> set (pp_required_component_ids p). case components_by_id cid of
        None \<Rightarrow> True | Some c \<Rightarrow> co_state c \<noteq> Comp_AVAILABLE) \<or>
     pa_state provenance \<noteq> State_COMPLETE \<or> ra_state rights \<noteq> State_COMPLETE"

definition evaluate_publication_policy ::
    "runtime \<Rightarrow> string \<Rightarrow> assessment_context \<Rightarrow> publication_policy \<Rightarrow> provenance_assessment \<Rightarrow>
     rights_assessment \<Rightarrow> licence_evaluation \<Rightarrow> component_record list \<Rightarrow> policy_evaluation res" where
  "evaluate_publication_policy rt asset_sha256 cx p provenance rights licence components =
     (if cx_policy_id cx \<noteq> pp_policy_id p \<or> cx_policy_version cx \<noteq> pp_version p
      then Inl (ValueError ''assessment context does not match the supplied policy identity'')
      else let components_by_id = dict_by co_component_id components;
               blocks = block_reasons p cx provenance rights licence;
               reviews = review_reasons p components_by_id cx provenance rights licence;
               (decision, selected) = decide blocks reviews;
               citations = map (\<lambda>r. pp_policy_id p @ ''@'' @ pp_version p @ '':'' @ fst r) selected;
               limitations = (if decision = Decision_REVIEW then map snd selected else [])
      in res_bind (validate_evidence (policy_evidence rt asset_sha256 cx p blocks reviews decision)) (\<lambda>evidence.
         res_bind (validate_claim (policy_claim rt asset_sha256 p decision limitations)) (\<lambda>claim.
         res_bind (validate_component (policy_component (policy_commitment rt p))) (\<lambda>component.
         res_bind (validate_deployment
           \<lparr>da_state = (if decision = Decision_REVIEW \<and> incomplete_inputs p components_by_id provenance rights
              then State_PARTIAL else State_COMPLETE),
            da_decision = decision, da_confidence = 1, da_claims = [claim], da_policy_citations = citations,
            da_limitations = limitations\<rparr>) (\<lambda>assessment.
         Inr \<lparr>pe_component = component, pe_evidence = [evidence], pe_assessment = assessment\<rparr>)))))"

subsection \<open>What the policy decides\<close>

definition context_allowed :: "assessment_context \<Rightarrow> publication_policy \<Rightarrow> bool" where
  "context_allowed cx p \<longleftrightarrow>
     allowed (cx_channel cx) (pp_allowed_channels p) \<and> allowed (cx_audience cx) (pp_allowed_audiences p) \<and>
     allowed (brand_of cx) (pp_allowed_brand_profiles p) \<and>
     (''*'' \<in> set (pp_allowed_territories p) \<or> set (cx_territories cx) \<subseteq> set (pp_allowed_territories p))"

definition rule_fires ::
    "rule_effect \<Rightarrow> publication_policy \<Rightarrow> assessment_context \<Rightarrow> provenance_assessment \<Rightarrow> rights_assessment \<Rightarrow> bool" where
  "rule_fires effect p cx provenance rights \<longleftrightarrow>
     (\<exists>r \<in> set (pp_regulatory_rules p). rg_effect r = effect \<and> regulatory_rule_matches r cx provenance rights)"

text \<open>The conditions that block a release, and those that allow it.\<close>

definition must_block ::
    "publication_policy \<Rightarrow> assessment_context \<Rightarrow> provenance_assessment \<Rightarrow> rights_assessment \<Rightarrow>
     licence_evaluation \<Rightarrow> bool" where
  "must_block p cx provenance rights licence \<longleftrightarrow>
     \<not> context_allowed cx p \<or>
     (pp_block_tampered_provenance p \<and> pa_verdict provenance = Prov_TAMPERED) \<or>
     (pp_block_unlicensed_reference_match p \<and> le_policy_conflict licence) \<or>
     (pp_block_unconsented_identity_match p \<and> ra_verdict rights = Rights_POLICY_CONFLICT) \<or>
     rule_fires Effect_BLOCK p cx provenance rights"

definition components_ready :: "component_record list \<Rightarrow> publication_policy \<Rightarrow> bool" where
  "components_ready components p \<longleftrightarrow>
     (\<forall>cid \<in> set (pp_required_component_ids p).
        \<exists>c. dict_by co_component_id components cid = Some c \<and> co_state c = Comp_AVAILABLE)"

definition release_floor :: "provenance_assessment \<Rightarrow> rights_assessment \<Rightarrow> bool" where
  "release_floor provenance rights \<longleftrightarrow>
     pa_state provenance = State_COMPLETE \<and> pa_verdict provenance \<notin> {Prov_UNKNOWN, Prov_TAMPERED} \<and>
     ra_state rights = State_COMPLETE \<and> ra_verdict rights = Rights_CLEAR"

definition releasable ::
    "publication_policy \<Rightarrow> assessment_context \<Rightarrow> provenance_assessment \<Rightarrow> rights_assessment \<Rightarrow>
     component_record list \<Rightarrow> bool" where
  "releasable p cx provenance rights components \<longleftrightarrow>
     release_floor provenance rights \<and> components_ready components p \<and> \<not> rule_fires Effect_REVIEW p cx provenance rights"

definition policy_decision ::
    "publication_policy \<Rightarrow> assessment_context \<Rightarrow> provenance_assessment \<Rightarrow> rights_assessment \<Rightarrow>
     licence_evaluation \<Rightarrow> component_record list \<Rightarrow> deployment_decision" where
  "policy_decision p cx provenance rights licence components =
     (if must_block p cx provenance rights licence then Decision_BLOCK
      else if releasable p cx provenance rights components then Decision_GO else Decision_REVIEW)"

lemma context_blocks_Nil_iff: "context_blocks cx p = [] \<longleftrightarrow> context_allowed cx p"
  by (auto simp: context_blocks_def context_allowed_def Let_def filter_empty_conv)

lemma component_reviews_Nil_iff:
  "component_reviews (dict_by co_component_id components) p = [] \<longleftrightarrow> components_ready components p"
  by (auto simp: component_reviews_def components_ready_def split: option.splits)

lemma matching_rules_Nil_iff: "matching_rules e p cx provenance rights = [] \<longleftrightarrow> \<not> rule_fires e p cx provenance rights"
  by (auto simp: matching_rules_def rule_fires_def filter_empty_conv)

lemma block_reasons_Nil_iff: "block_reasons p cx provenance rights licence = [] \<longleftrightarrow> \<not> must_block p cx provenance rights licence"
  by (auto simp: block_reasons_def context_blocks_Nil_iff matching_rules_Nil_iff must_block_def
      provenance_reasons_def rights_reasons_def Let_def)

lemma review_reasons_Nil_iff:
  assumes "\<not> must_block p cx provenance rights licence"
  shows "review_reasons p (dict_by co_component_id components) cx provenance rights licence = [] \<longleftrightarrow>
    releasable p cx provenance rights components"
  using assms
  by (auto simp: review_reasons_def component_reviews_Nil_iff matching_rules_Nil_iff releasable_def release_floor_def
      provenance_reasons_def rights_reasons_def must_block_def Let_def)

lemma decide_decision:
  "fst (decide (block_reasons p cx provenance rights licence)
     (review_reasons p (dict_by co_component_id components) cx provenance rights licence)) =
   policy_decision p cx provenance rights licence components"
  using review_reasons_Nil_iff [of p cx provenance rights licence components]
  by (auto simp: decide_def policy_decision_def block_reasons_Nil_iff)

lemma decide_selected: "snd (decide blocks reviews) \<noteq> []"
  by (simp add: decide_def)

lemma policy_id_literals [simp]:
  "is_id ''evidence.policy-''" "is_id ''claim.policy-release-''" "is_id policy_component_id"
  "is_id ''deployment.deterministic-policy''" "is_id ''policy.publication-ready''"
  by (simp_all add: id_eval policy_component_id_def)

lemma is_id_policy_id_text [simp]:
  "is_id prefix \<Longrightarrow> length prefix \<le> 80 \<Longrightarrow> is_sha256 asset \<Longrightarrow> is_sha256 h \<Longrightarrow> is_id (policy_id_text prefix asset h)"
  unfolding policy_id_text_def
  by (rule is_id_append) (auto simp: is_id_char_def ord_def is_sha256_take is_sha256_def min_def)

lemma policy_commitment_sha [simp]: "sha_ok rt \<Longrightarrow> is_sha256 (policy_commitment rt p)"
  by (simp add: policy_commitment_def)

lemma length_decision_value: "length (deployment_decision_value d) \<le> 6"
  by (cases d) simp_all

lemma wf_policy_evidence:
  "sha_ok rt \<Longrightarrow> is_sha256 asset \<Longrightarrow> wf_evidence (policy_evidence rt asset cx p blocks reviews d)"
  using length_decision_value [of d] by (simp add: wf_evidence_iff policy_evidence_def len_between_def)

lemma wf_policy_claim:
  "sha_ok rt \<Longrightarrow> is_sha256 asset \<Longrightarrow> (d = Decision_REVIEW \<Longrightarrow> ls \<noteq> []) \<Longrightarrow> wf_claim (policy_claim rt asset p d ls)"
  by (cases d) (auto simp: wf_claim_iff policy_claim_def len_between_def)

lemma wf_policy_component: "is_sha256 h \<Longrightarrow> wf_component (policy_component h)"
  by (simp add: wf_component_iff policy_component_def len_between_def)

lemma policy_lane_ids [simp]:
  "ev_evidence_id (policy_evidence rt asset cx p blocks reviews d) = policy_id_text ''evidence.policy-'' asset (policy_commitment rt p)"
  "ev_asset_sha256 (policy_evidence rt asset cx p blocks reviews d) = asset"
  "ev_component_id (policy_evidence rt asset cx p blocks reviews d) = policy_component_id"
  "ev_component_version (policy_evidence rt asset cx p blocks reviews d) = ''1.1.0''"
  "cl_evidence_ids (policy_claim rt asset p d ls) = [policy_id_text ''evidence.policy-'' asset (policy_commitment rt p)]"
  "cl_dimension (policy_claim rt asset p d ls) = Dim_DEPLOYMENT_READINESS"
  "co_component_id (policy_component h) = policy_component_id"
  "co_component_version (policy_component h) = ''1.1.0''"
  by (simp_all add: policy_evidence_def policy_claim_def policy_component_def)

definition policy_sound :: "string \<Rightarrow> policy_evaluation \<Rightarrow> bool" where
  "policy_sound asset e \<longleftrightarrow>
     lane_sound asset (pe_component e) (pe_evidence e) (da_claims (pe_assessment e)) \<and>
     wf_deployment (pe_assessment e) \<and> co_component_id (pe_component e) = policy_component_id"

text \<open>The result of an evaluation, spelled out.\<close>

lemma evaluate_publication_policy_result:
  assumes "sha_ok rt" and "is_sha256 asset"
    and "cx_policy_id cx = pp_policy_id p" and "cx_policy_version cx = pp_version p"
  shows "\<exists>e. evaluate_publication_policy rt asset cx p provenance rights licence components = Inr e \<and>
    policy_sound asset e \<and>
    da_decision (pe_assessment e) = policy_decision p cx provenance rights licence components \<and>
    da_policy_citations (pe_assessment e) =
      map (\<lambda>r. pp_policy_id p @ ''@'' @ pp_version p @ '':'' @ fst r)
        (snd (decide (block_reasons p cx provenance rights licence)
          (review_reasons p (dict_by co_component_id components) cx provenance rights licence)))"
proof -
  let ?idx = "dict_by co_component_id components"
  let ?blocks = "block_reasons p cx provenance rights licence"
  let ?reviews = "review_reasons p ?idx cx provenance rights licence"
  obtain d sel where d: "decide ?blocks ?reviews = (d, sel)" by (cases "decide ?blocks ?reviews")
  have sel: "sel \<noteq> []" using decide_selected [of ?blocks ?reviews] d by simp
  have dec: "d = policy_decision p cx provenance rights licence components"
    using decide_decision [of p cx provenance rights licence components] d by simp
  let ?ls = "if d = Decision_REVIEW then map snd sel else []"
  let ?ev = "policy_evidence rt asset cx p ?blocks ?reviews d"
  let ?cl = "policy_claim rt asset p d ?ls"
  let ?k = "policy_component (policy_commitment rt p)"
  let ?da = "\<lparr>da_state = (if d = Decision_REVIEW \<and> incomplete_inputs p ?idx provenance rights
       then State_PARTIAL else State_COMPLETE),
      da_decision = d, da_confidence = 1, da_claims = [?cl],
      da_policy_citations = map (\<lambda>r. pp_policy_id p @ ''@'' @ pp_version p @ '':'' @ fst r) sel,
      da_limitations = ?ls\<rparr>"
  have ev: "wf_evidence ?ev" by (rule wf_policy_evidence [OF assms(1,2)])
  have cl: "wf_claim ?cl" using sel by (intro wf_policy_claim [OF assms(1,2)]) simp
  have k: "wf_component ?k" using assms(1) by (intro wf_policy_component) simp
  have da: "wf_deployment ?da" using sel by (simp add: wf_deployment_def)
  have "evaluate_publication_policy rt asset cx p provenance rights licence components =
      Inr \<lparr>pe_component = ?k, pe_evidence = [?ev], pe_assessment = ?da\<rparr>"
    by (simp only: evaluate_publication_policy_def assms(3,4) Let_def d prod.case evidence.validate_fix [OF ev]
        claim.validate_fix [OF cl] component.validate_fix [OF k] deployment.validate_fix [OF da] res_bind_simps
        simp_thms if_False)
  moreover have "policy_sound asset \<lparr>pe_component = ?k, pe_evidence = [?ev], pe_assessment = ?da\<rparr>"
    using ev cl k da by (simp add: policy_sound_def lane_sound_def)
  ultimately show ?thesis using dec d by simp
qed

lemma policy_context_mismatch:
  assumes "evaluate_publication_policy rt asset cx p provenance rights licence components = Inr e"
  shows "cx_policy_id cx = pp_policy_id p \<and> cx_policy_version cx = pp_version p"
  using assms by (auto simp: evaluate_publication_policy_def split: if_splits)

lemma policy_result_Inr:
  assumes "sha_ok rt" and "is_sha256 asset"
    and "evaluate_publication_policy rt asset cx p provenance rights licence components = Inr e"
  shows "policy_sound asset e"
    and "da_decision (pe_assessment e) = policy_decision p cx provenance rights licence components"
    and "da_policy_citations (pe_assessment e) =
      map (\<lambda>r. pp_policy_id p @ ''@'' @ pp_version p @ '':'' @ fst r)
        (snd (decide (block_reasons p cx provenance rights licence)
          (review_reasons p (dict_by co_component_id components) cx provenance rights licence)))"
proof -
  note m = policy_context_mismatch [OF assms(3)]
  note r = evaluate_publication_policy_result [OF assms(1,2) m [THEN conjunct1] m [THEN conjunct2],
      of provenance rights licence components, unfolded assms(3)]
  show "policy_sound asset e"
    "da_decision (pe_assessment e) = policy_decision p cx provenance rights licence components"
    "da_policy_citations (pe_assessment e) =
      map (\<lambda>r. pp_policy_id p @ ''@'' @ pp_version p @ '':'' @ fst r)
        (snd (decide (block_reasons p cx provenance rights licence)
          (review_reasons p (dict_by co_component_id components) cx provenance rights licence)))"
    using r by auto
qed

text \<open>
  C1: for a context that names the policy, evaluation always returns; its evidence and claim are
  valid; and the decision is BLOCK exactly when a blocking condition holds, GO exactly when none does
  and every release condition holds, REVIEW otherwise. A context of another policy is refused.
\<close>

theorem evaluate_publication_policy_decision:
  assumes "sha_ok rt" and "is_sha256 asset"
  shows "if cx_policy_id cx = pp_policy_id p \<and> cx_policy_version cx = pp_version p
    then \<exists>e. evaluate_publication_policy rt asset cx p provenance rights licence components = Inr e \<and>
      policy_sound asset e \<and>
      da_decision (pe_assessment e) = policy_decision p cx provenance rights licence components
    else \<exists>m. evaluate_publication_policy rt asset cx p provenance rights licence components = Inl (ValueError m)"
  using evaluate_publication_policy_result [OF assms, of cx p provenance rights licence components]
  by (auto simp: evaluate_publication_policy_def)

lemma policy_go_floor_result:
  assumes "sha_ok rt" and "is_sha256 asset"
    and "evaluate_publication_policy rt asset cx p provenance rights licence components = Inr e"
    and "da_decision (pe_assessment e) = Decision_GO"
  shows "release_floor provenance rights \<and> components_ready components p \<and> context_allowed cx p \<and>
    \<not> rule_fires Effect_BLOCK p cx provenance rights \<and> \<not> rule_fires Effect_REVIEW p cx provenance rights"
proof -
  have "policy_decision p cx provenance rights licence components = Decision_GO"
    using policy_result_Inr(2) [OF assms(1,2,3)] assms(4) by simp
  then show ?thesis
    by (auto simp: policy_decision_def must_block_def releasable_def split: if_splits)
qed

text \<open>
  C2: no configuration of the policy switches and rules releases an asset below the floor. Whatever the
  policy, a GO means that provenance is complete and neither unknown nor tampered, rights are complete
  and clear, every required component is available, the declared context is allowed, and no
  regulatory rule fires.
\<close>

theorem policy_go_floor:
  assumes "sha_ok rt" and "is_sha256 asset"
    and "evaluate_publication_policy rt asset cx p provenance rights licence components = Inr e"
    and "da_decision (pe_assessment e) = Decision_GO"
  shows "release_floor provenance rights \<and> components_ready components p \<and> context_allowed cx p \<and>
    \<not> rule_fires Effect_BLOCK p cx provenance rights \<and> \<not> rule_fires Effect_REVIEW p cx provenance rights"
  using assms by (rule policy_go_floor_result)

primrec strictness :: "deployment_decision \<Rightarrow> nat" where
  "strictness Decision_GO = 0"
| "strictness Decision_REVIEW = 1"
| "strictness Decision_BLOCK = 2"

text \<open>
  adding regulatory rules to a policy never relaxes a decision: GO may become REVIEW or BLOCK and
  REVIEW may become BLOCK, never the other way.
\<close>

theorem regulatory_rules_monotone:
  assumes "sha_ok rt" and "is_sha256 asset"
    and "evaluate_publication_policy rt asset cx p provenance rights licence components = Inr e"
    and "evaluate_publication_policy rt asset cx
      (p\<lparr>pp_regulatory_rules := pp_regulatory_rules p @ extra\<rparr>) provenance rights licence components = Inr e'"
  shows "strictness (da_decision (pe_assessment e)) \<le> strictness (da_decision (pe_assessment e'))"
proof -
  let ?p' = "p\<lparr>pp_regulatory_rules := pp_regulatory_rules p @ extra\<rparr>"
  have fires: "rule_fires eff p cx provenance rights \<Longrightarrow> rule_fires eff ?p' cx provenance rights" for eff
    by (auto simp: rule_fires_def)
  note d = policy_result_Inr(2) [OF assms(1,2,3)]
  note d' = policy_result_Inr(2) [OF assms(1,2,4)]
  show ?thesis
    using fires unfolding d d' policy_decision_def
    by (auto simp: must_block_def releasable_def context_allowed_def components_ready_def)
qed

text \<open>
  A policy that switches the blocking of unlicensed references off still blocks a licence
  conflict through the consent switch: when the combined rights verdict is POLICY_CONFLICT the
  decision is BLOCK with the citation of the consent rule, whether or not any likeness or voice was
  enrolled or matched.
\<close>

theorem licence_conflict_blocks_as_consent:
  assumes "sha_ok rt" and "is_sha256 asset"
    and "evaluate_publication_policy rt asset cx p provenance rights licence components = Inr e"
    and "\<not> pp_block_unlicensed_reference_match p" and "pp_block_unconsented_identity_match p"
    and "le_policy_conflict licence" and "ra_verdict rights = Rights_POLICY_CONFLICT"
  shows "da_decision (pe_assessment e) = Decision_BLOCK \<and>
    pp_policy_id p @ ''@'' @ pp_version p @ '':rights.consent-coverage'' \<in> set (da_policy_citations (pe_assessment e))"
proof -
  let ?blocks = "block_reasons p cx provenance rights licence"
  let ?r = "(''rights.consent-coverage'',
    ''At least one enrolled likeness or voice candidate lacks consent coverage for this context.'')"
  have r: "?r \<in> set ?blocks"
    using assms(4-7) by (auto simp: block_reasons_def rights_reasons_def Let_def)
  then have sel: "snd (decide ?blocks reviews) = ?blocks" for reviews by (auto simp: decide_def)
  note e = policy_result_Inr(2,3) [OF assms(1,2,3), unfolded sel]
  have "must_block p cx provenance rights licence" using assms(5,7) by (simp add: must_block_def)
  moreover have "pp_policy_id p @ ''@'' @ pp_version p @ '':rights.consent-coverage'' \<in>
      (\<lambda>r. pp_policy_id p @ ''@'' @ pp_version p @ '':'' @ fst r) ` set ?blocks"
    by (rule image_eqI [OF _ r]) simp
  ultimately show ?thesis by (simp add: e policy_decision_def)
qed

subsection \<open>Concrete evaluations\<close>

definition demo_policy :: publication_policy where
  "demo_policy = \<lparr>pp_policy_id = ''policy-1'', pp_version = ''1'', pp_allowed_channels = [''web''],
     pp_allowed_audiences = [''*''], pp_allowed_brand_profiles = [''*''], pp_allowed_territories = [''*''],
     pp_required_component_ids = [], pp_require_known_provenance = True, pp_require_rights_clearance = True,
     pp_block_tampered_provenance = True, pp_block_unlicensed_reference_match = True,
     pp_block_unconsented_identity_match = True, pp_regulatory_rules = []\<rparr>"

definition demo_rule :: regulatory_rule where
  "demo_rule = \<lparr>rg_rule_id = ''rule-1'', rg_description = ''Always review'', rg_effect = Effect_REVIEW,
     rg_territories = [''*''], rg_channels = [''*''], rg_audiences = [''*''], rg_brand_profiles = [''*''],
     rg_provenance_verdicts = [], rg_rights_verdicts = []\<rparr>"

definition demo_provenance :: provenance_assessment where
  "demo_provenance = \<lparr>pa_state = State_COMPLETE, pa_verdict = Prov_AUTHENTIC, pa_confidence = 1, pa_claims = [],
     pa_limitations = []\<rparr>"

definition demo_rights :: "rights_verdict \<Rightarrow> rights_assessment" where
  "demo_rights v = \<lparr>ra_state = State_COMPLETE, ra_verdict = v, ra_confidence = 1, ra_claims = [], ra_limitations = []\<rparr>"

definition demo_licence_result :: "bool \<Rightarrow> licence_evaluation" where
  "demo_licence_result conflict = \<lparr>le_component = licence_component demo_sha, le_evidence = [], le_claims = [],
     le_candidate_reference_ids = [], le_covered_reference_ids = [], le_uncovered_reference_ids = [],
     le_policy_conflict = conflict, le_limitations = []\<rparr>"

lemma demo_casefold: "casefold ''web'' = ''web''" "casefold ''public'' = ''public''"
  by (simp_all add: casefold_def to_lower_def is_upper_def ord_def)

lemma demo_decision:
  "policy_decision demo_policy demo_context demo_provenance (demo_rights Rights_CLEAR) (demo_licence_result False) [] = Decision_GO"
  by (simp add: policy_decision_def must_block_def releasable_def release_floor_def context_allowed_def allowed_def
      components_ready_def rule_fires_def demo_policy_def demo_context_def demo_provenance_def demo_rights_def
      demo_licence_result_def demo_casefold)

theorem evaluate_publication_policy_decision_witness:
  "\<exists>e. evaluate_publication_policy demo_runtime demo_sha demo_context demo_policy demo_provenance
      (demo_rights Rights_CLEAR) (demo_licence_result False) [] = Inr e \<and>
    da_decision (pe_assessment e) = Decision_GO"
proof -
  have "cx_policy_id demo_context = pp_policy_id demo_policy \<and> cx_policy_version demo_context = pp_version demo_policy"
    by (simp add: demo_context_def demo_policy_def)
  with evaluate_publication_policy_decision [OF sha_ok_demo is_sha256_demo, of demo_context demo_policy demo_provenance
      "demo_rights Rights_CLEAR" "demo_licence_result False" "[]"] demo_decision
  show ?thesis by auto
qed

lemma demo_evaluation:
  assumes "cx_policy_id cx = pp_policy_id p" and "cx_policy_version cx = pp_version p"
  obtains e where "evaluate_publication_policy demo_runtime demo_sha cx p pv ra li cs = Inr e"
    and "da_decision (pe_assessment e) = policy_decision p cx pv ra li cs"
  using evaluate_publication_policy_result [OF sha_ok_demo is_sha256_demo assms] by blast

theorem policy_go_floor_witness:
  "\<exists>e. evaluate_publication_policy demo_runtime demo_sha demo_context demo_policy demo_provenance
      (demo_rights Rights_CLEAR) (demo_licence_result False) [] = Inr e \<and>
    da_decision (pe_assessment e) = Decision_GO \<and> release_floor demo_provenance (demo_rights Rights_CLEAR)"
proof -
  obtain e where e: "evaluate_publication_policy demo_runtime demo_sha demo_context demo_policy demo_provenance
      (demo_rights Rights_CLEAR) (demo_licence_result False) [] = Inr e"
    "da_decision (pe_assessment e) = Decision_GO"
    by (rule demo_evaluation [of demo_context demo_policy demo_provenance "demo_rights Rights_CLEAR" "demo_licence_result False" "[]"])
      (simp_all add: demo_decision, simp_all add: demo_context_def demo_policy_def)
  from policy_go_floor [OF sha_ok_demo is_sha256_demo e] e show ?thesis by blast
qed

theorem regulatory_rules_monotone_witness:
  "\<exists>e e'. evaluate_publication_policy demo_runtime demo_sha demo_context demo_policy demo_provenance
      (demo_rights Rights_CLEAR) (demo_licence_result False) [] = Inr e \<and>
    evaluate_publication_policy demo_runtime demo_sha demo_context
      (demo_policy\<lparr>pp_regulatory_rules := pp_regulatory_rules demo_policy @ [demo_rule]\<rparr>) demo_provenance
      (demo_rights Rights_CLEAR) (demo_licence_result False) [] = Inr e' \<and>
    strictness (da_decision (pe_assessment e)) \<le> strictness (da_decision (pe_assessment e'))"
proof -
  have ids: "cx_policy_id demo_context = pp_policy_id demo_policy" "cx_policy_version demo_context = pp_version demo_policy"
    by (simp_all add: demo_context_def demo_policy_def)
  obtain e where e: "evaluate_publication_policy demo_runtime demo_sha demo_context demo_policy demo_provenance
      (demo_rights Rights_CLEAR) (demo_licence_result False) [] = Inr e"
    by (rule demo_evaluation [OF ids])
  obtain e' where e': "evaluate_publication_policy demo_runtime demo_sha demo_context
      (demo_policy\<lparr>pp_regulatory_rules := pp_regulatory_rules demo_policy @ [demo_rule]\<rparr>) demo_provenance
      (demo_rights Rights_CLEAR) (demo_licence_result False) [] = Inr e'"
    by (rule demo_evaluation [of demo_context "demo_policy\<lparr>pp_regulatory_rules := pp_regulatory_rules demo_policy @ [demo_rule]\<rparr>"])
      (simp_all add: ids)
  from regulatory_rules_monotone [OF sha_ok_demo is_sha256_demo e e'] e e' show ?thesis by blast
qed

theorem licence_conflict_blocks_as_consent_witness:
  "\<exists>e. evaluate_publication_policy demo_runtime demo_sha demo_context
      (demo_policy\<lparr>pp_block_unlicensed_reference_match := False\<rparr>) demo_provenance
      (demo_rights Rights_POLICY_CONFLICT) (demo_licence_result True) [] = Inr e \<and>
    da_decision (pe_assessment e) = Decision_BLOCK \<and>
    ''policy-1@1:rights.consent-coverage'' \<in> set (da_policy_citations (pe_assessment e))"
proof -
  let ?p = "demo_policy\<lparr>pp_block_unlicensed_reference_match := False\<rparr>"
  obtain e where e: "evaluate_publication_policy demo_runtime demo_sha demo_context ?p demo_provenance
      (demo_rights Rights_POLICY_CONFLICT) (demo_licence_result True) [] = Inr e"
    by (rule demo_evaluation [of demo_context ?p]) (simp_all add: demo_context_def demo_policy_def)
  from licence_conflict_blocks_as_consent [OF sha_ok_demo is_sha256_demo e] e
  show ?thesis by (auto simp: demo_policy_def demo_rights_def demo_licence_result_def)
qed

end
