(* ===== verification/Store.thy ===== *)
theory Store
  imports Evidence
begin

section \<open>The idempotency store\<close>

text \<open>
  \<open>rightsgate/store.py\<close>: the table \<open>rightsgate_assessments\<close> is a list of rows with distinct keys, and
  the operations \<open>reserve\<close>, \<open>complete\<close>, \<open>fail\<close> and \<open>get\<close> take the table and the clock and return the
  result and the new table. An exception leaves the connection without a commit, so an operation that
  raises returns the table unchanged. Timestamps are instants in microseconds: \<open>isoformat\<close> and
  \<open>fromisoformat\<close> of a UTC datetime are inverse to each other. The documents are stored as text; the
  text of a request is the canonical JSON the code writes, while the parser of stored text and the
  text pydantic writes for an assessment are the \<open>codec\<close> parameter.
\<close>

subsection \<open>Rows and reservations\<close>

datatype row_status = Row_PENDING | Row_COMPLETE | Row_FAILED

record row =
  ro_key :: string
  ro_request_sha256 :: string
  ro_execution_sha256 :: string
  ro_status :: row_status
  ro_attempt_count :: nat
  ro_lease_expires_at :: int
  ro_request_json :: string
  ro_assessment_id :: "string option"
  ro_assessment_json :: "string option"
  ro_assessment_sha256 :: "string option"
  ro_failure_code :: "string option"
  ro_created_at :: int
  ro_updated_at :: int

type_synonym database = "row list"

datatype reservation_state = Res_ACQUIRED | Res_REPLAY | Res_IN_PROGRESS | Res_FAILED

record reservation =
  rs_state :: reservation_state
  rs_idempotency_key :: string
  rs_request_sha256 :: string
  rs_execution_sha256 :: string
  rs_attempt_count :: nat
  rs_lease_expires_at :: int
  rs_assessment :: "rightsgate_assessment option"
  rs_assessment_sha256 :: "string option"
  rs_failure_code :: "string option"

text \<open>\<open>_canonical_request_json\<close>: \<open>model_dump(by_alias=True, exclude_none=True)\<close>, keys sorted.\<close>

definition request_dump :: "assessment_request \<Rightarrow> json" where
  "request_dump r = JObj
     [(''schema'', JStr request_schema), (''idempotency_key'', JStr (rq_idempotency_key r)),
      (''asset_ir'', JObj
         [(''schema'', JStr asset_ir_schema), (''asset'', descriptor_payload True (ir_asset (rq_asset_ir r))),
          (''representations'', JArr (map (representation_payload True) (ir_representations (rq_asset_ir r))))]),
      (''context'', context_payload True (rq_context r)),
      (''requested_dimensions'', strs (map claim_dimension_value (rq_requested_dimensions r)))]"

definition canonical_request_json :: "runtime \<Rightarrow> assessment_request \<Rightarrow> string" where
  "canonical_request_json rt r = dumps rt True (request_dump r)"

record codec =
  cd_parse_request :: "string \<Rightarrow> assessment_request option"
  cd_assessment_text :: "rightsgate_assessment \<Rightarrow> string"
  cd_parse_assessment :: "string \<Rightarrow> rightsgate_assessment option"

record store_config =
  sc_runtime :: runtime
  sc_codec :: codec
  sc_lease_seconds :: int

definition make_store :: "runtime \<Rightarrow> codec \<Rightarrow> int \<Rightarrow> store_config res" where
  "make_store rt cd lease_seconds =
     (if lease_seconds < 1 then Inl (ValueError ''lease_seconds must be positive'')
      else Inr \<lparr>sc_runtime = rt, sc_codec = cd, sc_lease_seconds = lease_seconds\<rparr>)"

subsection \<open>Integrity of stored documents\<close>

definition validated_assessment :: "store_config \<Rightarrow> row \<Rightarrow> rightsgate_assessment res" where
  "validated_assessment cfg stored =
     (let bad = Inl (StoredAssessmentIntegrityError ''stored assessment does not match its persisted commitment'')
      in case ro_assessment_json stored of
        None \<Rightarrow> bad
      | Some raw \<Rightarrow>
          (case cd_parse_assessment (sc_codec cfg) raw of
             None \<Rightarrow> bad
           | Some a \<Rightarrow>
               if Some (as_assessment_id a) \<noteq> ro_assessment_id stored \<or>
                  Some (assessment_commitment (sc_runtime cfg) a) \<noteq> ro_assessment_sha256 stored
               then bad else Inr a))"

definition stored_request_error :: "store_config \<Rightarrow> row \<Rightarrow> py_error option" where
  "stored_request_error cfg stored =
     (let bad = Some (StoredAssessmentIntegrityError ''stored request does not match its persisted commitment'')
      in case cd_parse_request (sc_codec cfg) (ro_request_json stored) of
        None \<Rightarrow> bad
      | Some r \<Rightarrow>
          if rq_idempotency_key r \<noteq> ro_key stored \<or>
             request_sha256 (sc_runtime cfg) r \<noteq> ro_request_sha256 stored
          then bad else None)"

subsection \<open>Operations\<close>

definition find_row :: "string \<Rightarrow> database \<Rightarrow> row option" where
  "find_row key db = List.find (\<lambda>r. ro_key r = key) db"

definition update_rows :: "(row \<Rightarrow> bool) \<Rightarrow> (row \<Rightarrow> row) \<Rightarrow> database \<Rightarrow> database" where
  "update_rows where_clause f db = map (\<lambda>r. if where_clause r then f r else r) db"

definition make_reservation ::
    "reservation_state \<Rightarrow> string \<Rightarrow> string \<Rightarrow> string \<Rightarrow> nat \<Rightarrow> int \<Rightarrow> reservation" where
  "make_reservation state key request_sha execution_sha attempt lease =
     \<lparr>rs_state = state, rs_idempotency_key = key, rs_request_sha256 = request_sha,
      rs_execution_sha256 = execution_sha, rs_attempt_count = attempt, rs_lease_expires_at = lease,
      rs_assessment = None, rs_assessment_sha256 = None, rs_failure_code = None\<rparr>"

definition lease_deadline :: "store_config \<Rightarrow> int \<Rightarrow> int" where
  "lease_deadline cfg now = now + sc_lease_seconds cfg * 1000000"

definition reserve ::
    "store_config \<Rightarrow> int \<Rightarrow> assessment_request \<Rightarrow> string \<Rightarrow> database \<Rightarrow> reservation res \<times> database" where
  "reserve cfg now request execution_sha db =
     (let request_sha = request_sha256 (sc_runtime cfg) request;
          key = rq_idempotency_key request;
          lease = lease_deadline cfg now
      in case find_row key db of
        None \<Rightarrow>
          (Inr (make_reservation Res_ACQUIRED key request_sha execution_sha 1 lease),
           db @ [\<lparr>ro_key = key, ro_request_sha256 = request_sha, ro_execution_sha256 = execution_sha,
                  ro_status = Row_PENDING, ro_attempt_count = 1, ro_lease_expires_at = lease,
                  ro_request_json = canonical_request_json (sc_runtime cfg) request,
                  ro_assessment_id = None, ro_assessment_json = None, ro_assessment_sha256 = None,
                  ro_failure_code = None, ro_created_at = now, ro_updated_at = now\<rparr>])
      | Some stored \<Rightarrow>
          (case stored_request_error cfg stored of
             Some e \<Rightarrow> (Inl e, db)
           | None \<Rightarrow>
               if ro_request_sha256 stored \<noteq> request_sha \<or> ro_execution_sha256 stored \<noteq> execution_sha
               then (Inl (IdempotencyConflict ''idempotency key is already bound to different assessment inputs''), db)
               else case ro_status stored of
                 Row_COMPLETE \<Rightarrow>
                   (res_bind (validated_assessment cfg stored) (\<lambda>assessment.
                      Inr ((make_reservation Res_REPLAY key request_sha execution_sha
                             (ro_attempt_count stored) (ro_lease_expires_at stored))
                           \<lparr>rs_assessment := Some assessment, rs_assessment_sha256 := ro_assessment_sha256 stored\<rparr>)), db)
               | Row_FAILED \<Rightarrow>
                   (Inr ((make_reservation Res_FAILED key request_sha execution_sha
                            (ro_attempt_count stored) (ro_lease_expires_at stored))
                         \<lparr>rs_failure_code := ro_failure_code stored\<rparr>), db)
               | Row_PENDING \<Rightarrow>
                   if now < ro_lease_expires_at stored
                   then (Inr (make_reservation Res_IN_PROGRESS key request_sha execution_sha
                            (ro_attempt_count stored) (ro_lease_expires_at stored)), db)
                   else let attempt = ro_attempt_count stored + 1
                     in (Inr (make_reservation Res_ACQUIRED key request_sha execution_sha attempt lease),
                         update_rows (\<lambda>r. ro_key r = key \<and> ro_status r = Row_PENDING)
                           (\<lambda>r. r\<lparr>ro_attempt_count := attempt, ro_lease_expires_at := lease, ro_updated_at := now\<rparr>) db)))"

text \<open>The \<open>WHERE\<close> clause of the two closing updates: the fencing condition.\<close>

definition active_attempt :: "string \<Rightarrow> string \<Rightarrow> nat \<Rightarrow> row \<Rightarrow> bool" where
  "active_attempt key execution_sha attempt r \<longleftrightarrow>
     ro_key r = key \<and> ro_execution_sha256 r = execution_sha \<and> ro_attempt_count r = attempt \<and>
     ro_status r = Row_PENDING"

text \<open>\<open>assessment_id TEXT UNIQUE\<close>: another row already holds the identifier.\<close>

definition assessment_id_taken :: "string \<Rightarrow> string \<Rightarrow> database \<Rightarrow> bool" where
  "assessment_id_taken key i db \<longleftrightarrow> (\<exists>r \<in> set db. ro_key r \<noteq> key \<and> ro_assessment_id r = Some i)"

definition complete_assessment ::
    "store_config \<Rightarrow> int \<Rightarrow> string \<Rightarrow> string \<Rightarrow> nat \<Rightarrow> rightsgate_assessment \<Rightarrow> database \<Rightarrow> string res \<times> database" where
  "complete_assessment cfg now key execution_sha attempt assessment db =
     (let assessment_sha = assessment_commitment (sc_runtime cfg) assessment
      in if \<not> (\<exists>r \<in> set db. active_attempt key execution_sha attempt r)
         then (Inl (RuntimeError ''assessment reservation is no longer active''), db)
         else if assessment_id_taken key (as_assessment_id assessment) db
         then (Inl (DatabaseIntegrityError ''UNIQUE constraint failed: rightsgate_assessments.assessment_id''), db)
         else (Inr assessment_sha,
           update_rows (active_attempt key execution_sha attempt)
             (\<lambda>r. r\<lparr>ro_status := Row_COMPLETE, ro_assessment_id := Some (as_assessment_id assessment),
                ro_assessment_json := Some (cd_assessment_text (sc_codec cfg) assessment),
                ro_assessment_sha256 := Some assessment_sha, ro_failure_code := None, ro_updated_at := now\<rparr>) db))"

definition fail_assessment ::
    "int \<Rightarrow> string \<Rightarrow> string \<Rightarrow> nat \<Rightarrow> string \<Rightarrow> database \<Rightarrow> bool res \<times> database" where
  "fail_assessment now key execution_sha attempt failure_code db =
     (if failure_code = [] \<or> 100 < length failure_code
      then (Inl (ValueError ''failure_code must be a bounded non-empty value''), db)
      else (Inr (\<exists>r \<in> set db. active_attempt key execution_sha attempt r),
        update_rows (active_attempt key execution_sha attempt)
          (\<lambda>r. r\<lparr>ro_status := Row_FAILED, ro_failure_code := Some failure_code, ro_updated_at := now\<rparr>) db))"

definition get_reservation :: "store_config \<Rightarrow> string \<Rightarrow> database \<Rightarrow> reservation option res" where
  "get_reservation cfg key db =
     (case find_row key db of
        None \<Rightarrow> Inr None
      | Some stored \<Rightarrow>
          raise_first (stored_request_error cfg stored)
            (res_bind (if ro_status stored = Row_COMPLETE
                then res_bind (validated_assessment cfg stored) (\<lambda>a. Inr (Some a)) else Inr None) (\<lambda>assessment.
              Inr (Some
                \<lparr>rs_state = (case ro_status stored of Row_PENDING \<Rightarrow> Res_IN_PROGRESS | Row_COMPLETE \<Rightarrow> Res_REPLAY
                   | Row_FAILED \<Rightarrow> Res_FAILED),
                 rs_idempotency_key = ro_key stored, rs_request_sha256 = ro_request_sha256 stored,
                 rs_execution_sha256 = ro_execution_sha256 stored, rs_attempt_count = ro_attempt_count stored,
                 rs_lease_expires_at = ro_lease_expires_at stored, rs_assessment = assessment,
                 rs_assessment_sha256 = ro_assessment_sha256 stored, rs_failure_code = ro_failure_code stored\<rparr>))))"

subsection \<open>Runs\<close>

text \<open>
  Calls of any number of workers, each atomic (SQLite serialises writers), at arbitrary clock
  readings. A call is admitted when the store was constructed (its lease is positive) and the codec
  reads back the documents it writes.
\<close>

datatype store_op =
    Op_reserve assessment_request string
  | Op_complete string string nat rightsgate_assessment
  | Op_fail string string nat string

datatype store_outcome =
    Out_reserved "reservation res"
  | Out_completed "string res"
  | Out_failed "bool res"

fun exec_op :: "store_config \<Rightarrow> int \<Rightarrow> store_op \<Rightarrow> database \<Rightarrow> store_outcome \<times> database" where
  "exec_op cfg now (Op_reserve request ex) db =
     (case reserve cfg now request ex db of (out, db') \<Rightarrow> (Out_reserved out, db'))"
| "exec_op cfg now (Op_complete key ex attempt a) db =
     (case complete_assessment cfg now key ex attempt a db of (out, db') \<Rightarrow> (Out_completed out, db'))"
| "exec_op cfg now (Op_fail key ex attempt code) db =
     (case fail_assessment now key ex attempt code db of (out, db') \<Rightarrow> (Out_failed out, db'))"

definition request_codec_ok :: "store_config \<Rightarrow> assessment_request \<Rightarrow> bool" where
  "request_codec_ok cfg r \<longleftrightarrow> cd_parse_request (sc_codec cfg) (canonical_request_json (sc_runtime cfg) r) = Some r"

definition assessment_codec_ok :: "store_config \<Rightarrow> rightsgate_assessment \<Rightarrow> bool" where
  "assessment_codec_ok cfg a \<longleftrightarrow> cd_parse_assessment (sc_codec cfg) (cd_assessment_text (sc_codec cfg) a) = Some a"

fun op_ok :: "store_config \<Rightarrow> store_op \<Rightarrow> bool" where
  "op_ok cfg (Op_reserve request ex) = request_codec_ok cfg request"
| "op_ok cfg (Op_complete key ex attempt a) = assessment_codec_ok cfg a"
| "op_ok cfg (Op_fail key ex attempt code) = True"

type_synonym event = "int \<times> store_op \<times> store_outcome"

inductive store_step :: "store_config \<Rightarrow> database \<Rightarrow> event \<Rightarrow> database \<Rightarrow> bool" for cfg where
  step: "1 \<le> sc_lease_seconds cfg \<Longrightarrow> op_ok cfg op \<Longrightarrow> exec_op cfg now op db = (out, db') \<Longrightarrow> store_step cfg db (now, op, out) db'"

inductive store_run :: "store_config \<Rightarrow> database \<Rightarrow> event list \<Rightarrow> database \<Rightarrow> bool" for cfg where
  run_Nil: "store_run cfg db [] db"
| run_Cons: "store_step cfg db e db' \<Longrightarrow> store_run cfg db' es db'' \<Longrightarrow> store_run cfg db (e # es) db''"

inductive_cases store_step_reserveE: "store_step cfg db (now, Op_reserve request ex, out) db'"
inductive_cases store_step_completeE: "store_step cfg db (now, Op_complete key ex n a, out) db'"
inductive_cases store_step_failE: "store_step cfg db (now, Op_fail key ex n code, out) db'"
inductive_simps store_run_Nil_iff [simp]: "store_run cfg db [] db'"
inductive_simps store_run_Cons_iff: "store_run cfg db (e # es) db'"

subsection \<open>An interface: records that only advance\<close>

text \<open>
  What a durable log of calls gives its clients: a record found by a key is never lost, and later states
  hold it in an advanced form.
\<close>

locale advancing_log =
  fixes step :: "'s \<Rightarrow> 'e \<Rightarrow> 's \<Rightarrow> bool"
    and run :: "'s \<Rightarrow> 'e list \<Rightarrow> 's \<Rightarrow> bool"
    and lookup :: "'k \<Rightarrow> 's \<Rightarrow> 'r option"
    and advances :: "'r \<Rightarrow> 'r \<Rightarrow> bool"
    and inv :: "'s \<Rightarrow> bool"
  assumes run_Nil: "run s [] s' \<longleftrightarrow> s' = s"
    and run_Cons: "run s (e # es) s' \<longleftrightarrow> (\<exists>t. step s e t \<and> run t es s')"
    and advances_refl: "advances r r"
    and advances_trans: "advances r r' \<Longrightarrow> advances r' r'' \<Longrightarrow> advances r r''"
    and step_advances: "step s e s' \<Longrightarrow> lookup k s = Some r \<Longrightarrow> \<exists>r'. lookup k s' = Some r' \<and> advances r r'"
    and step_inv: "step s e s' \<Longrightarrow> inv s \<Longrightarrow> inv s'"
begin

lemma run_append: "run s (es @ es') s' \<longleftrightarrow> (\<exists>t. run s es t \<and> run t es' s')"
  by (induction es arbitrary: s) (auto simp: run_Nil run_Cons)

lemma run_split: "run s (es @ e # es') s' \<longleftrightarrow> (\<exists>t u. run s es t \<and> step t e u \<and> run u es' s')"
  by (auto simp: run_append run_Cons)

lemma run_advances: "run s es s' \<Longrightarrow> lookup k s = Some r \<Longrightarrow> \<exists>r'. lookup k s' = Some r' \<and> advances r r'"
proof (induction es arbitrary: s r)
  case Nil
  then show ?case by (auto simp: run_Nil advances_refl)
next
  case (Cons e es)
  then show ?case by (metis run_Cons step_advances advances_trans)
qed

lemma run_inv: "run s es s' \<Longrightarrow> inv s \<Longrightarrow> inv s'"
  by (induction es arbitrary: s) (auto simp: run_Nil run_Cons dest: step_inv)

lemma run_keeps_final:
  assumes "run s es s'" and "lookup k s = Some r" and "\<And>r'. advances r r' \<Longrightarrow> r' = r"
  shows "lookup k s' = Some r"
  using run_advances [OF assms(1,2)] assms(3) by auto

end

subsection \<open>Rows of the table\<close>

lemma find_row_Some: "find_row key db = Some r \<Longrightarrow> r \<in> set db \<and> ro_key r = key"
  by (auto simp: find_row_def find_Some_iff)

lemma find_row_None_iff: "find_row key db = None \<longleftrightarrow> key \<notin> ro_key ` set db"
  by (auto simp: find_row_def find_None_iff)

lemma find_row_Cons: "find_row key (r # db) = (if ro_key r = key then Some r else find_row key db)"
  by (simp add: find_row_def)

lemma find_row_snoc:
  "find_row key (db @ [r]) = (case find_row key db of Some x \<Rightarrow> Some x | None \<Rightarrow> if ro_key r = key then Some r else None)"
  by (induction db) (auto simp: find_row_def)

lemma find_row_mem: "distinct (map ro_key db) \<Longrightarrow> r \<in> set db \<Longrightarrow> find_row (ro_key r) db = Some r"
  by (induction db) (auto simp: find_row_Cons image_iff)

lemma find_row_update:
  "(\<And>r. ro_key (f r) = ro_key r) \<Longrightarrow>
   find_row key (update_rows P f db) = map_option (\<lambda>r. if P r then f r else r) (find_row key db)"
  by (induction db) (auto simp: find_row_def update_rows_def)

lemma keys_update: "(\<And>r. ro_key (f r) = ro_key r) \<Longrightarrow> map ro_key (update_rows P f db) = map ro_key db"
  by (simp add: update_rows_def)

text \<open>A row advances: its inputs stay, the attempt and the lease grow, a closed row stays as it is.\<close>

definition row_advances :: "row \<Rightarrow> row \<Rightarrow> bool" where
  "row_advances r r' \<longleftrightarrow>
     ro_key r' = ro_key r \<and> ro_request_sha256 r' = ro_request_sha256 r \<and>
     ro_execution_sha256 r' = ro_execution_sha256 r \<and> ro_request_json r' = ro_request_json r \<and>
     ro_attempt_count r \<le> ro_attempt_count r' \<and> ro_lease_expires_at r \<le> ro_lease_expires_at r' \<and>
     (ro_status r \<noteq> Row_PENDING \<longrightarrow> r' = r)"

lemma row_advances_refl [simp]: "row_advances r r"
  by (simp add: row_advances_def)

lemma row_advances_trans: "row_advances r r' \<Longrightarrow> row_advances r' r'' \<Longrightarrow> row_advances r r''"
  by (auto simp: row_advances_def)

lemma row_advances_closed: "ro_status r \<noteq> Row_PENDING \<Longrightarrow> row_advances r r' \<Longrightarrow> r' = r"
  by (simp add: row_advances_def)

subsection \<open>The invariant\<close>

definition row_ok :: "store_config \<Rightarrow> row \<Rightarrow> bool" where
  "row_ok cfg r \<longleftrightarrow>
     stored_request_error cfg r = None \<and> 1 \<le> ro_attempt_count r \<and>
     (case ro_status r of
        Row_PENDING \<Rightarrow> ro_assessment_id r = None
      | Row_COMPLETE \<Rightarrow> ro_failure_code r = None \<and> (\<exists>a. validated_assessment cfg r = Inr a)
      | Row_FAILED \<Rightarrow> ro_assessment_id r = None \<and> ro_failure_code r \<noteq> None)"

definition store_inv :: "store_config \<Rightarrow> database \<Rightarrow> bool" where
  "store_inv cfg db \<longleftrightarrow>
     1 \<le> sc_lease_seconds cfg \<and> distinct (map ro_key db) \<and> (\<forall>r \<in> set db. row_ok cfg r) \<and>
     (\<forall>r \<in> set db. \<forall>r' \<in> set db. ro_assessment_id r \<noteq> None \<longrightarrow> ro_assessment_id r = ro_assessment_id r' \<longrightarrow>
        ro_key r = ro_key r')"

lemma store_inv_Nil: "1 \<le> sc_lease_seconds cfg \<Longrightarrow> store_inv cfg []"
  by (simp add: store_inv_def)

lemma validated_assessment_iff:
  "validated_assessment cfg r = Inr a \<longleftrightarrow>
     (\<exists>raw. ro_assessment_json r = Some raw \<and> cd_parse_assessment (sc_codec cfg) raw = Some a \<and>
        ro_assessment_id r = Some (as_assessment_id a) \<and>
        ro_assessment_sha256 r = Some (assessment_commitment (sc_runtime cfg) a))"
  by (auto simp: validated_assessment_def Let_def split: option.splits if_splits)

lemma stored_request_error_iff:
  "stored_request_error cfg r = None \<longleftrightarrow>
     (\<exists>q. cd_parse_request (sc_codec cfg) (ro_request_json r) = Some q \<and> rq_idempotency_key q = ro_key r \<and>
        request_sha256 (sc_runtime cfg) q = ro_request_sha256 r)"
  by (auto simp: stored_request_error_def Let_def split: option.splits if_splits)

lemma store_inv_row: "store_inv cfg db \<Longrightarrow> find_row key db = Some r \<Longrightarrow> row_ok cfg r"
  by (auto simp: store_inv_def dest: find_row_Some)

lemma row_ok_request_error: "row_ok cfg r \<Longrightarrow> stored_request_error cfg r = None"
  by (simp add: row_ok_def)

text \<open>Appending a new row, and rewriting pending rows in place.\<close>

lemma store_inv_snoc:
  assumes "store_inv cfg db" and "find_row (ro_key r) db = None" and "row_ok cfg r" and "ro_assessment_id r = None"
  shows "store_inv cfg (db @ [r])"
proof -
  have unique: "ro_key x = ro_key y"
    if "x \<in> set (db @ [r])" "y \<in> set (db @ [r])" "ro_assessment_id x \<noteq> None" "ro_assessment_id x = ro_assessment_id y" for x y
  proof -
    have "x \<in> set db" "y \<in> set db" using that assms(4) by auto
    with that(3,4) assms(1) show ?thesis unfolding store_inv_def by blast
  qed
  have "distinct (map ro_key (db @ [r]))" using assms(1,2) by (simp add: store_inv_def find_row_None_iff)
  moreover have "\<forall>x \<in> set (db @ [r]). row_ok cfg x" using assms(1,3) by (simp add: store_inv_def)
  moreover have "1 \<le> sc_lease_seconds cfg" using assms(1) by (simp add: store_inv_def)
  ultimately show ?thesis using unique unfolding store_inv_def by blast
qed

lemma store_inv_update:
  assumes inv: "store_inv cfg db"
    and key: "\<And>r. ro_key (f r) = ro_key r"
    and ok: "\<And>r. r \<in> set db \<Longrightarrow> P r \<Longrightarrow> row_ok cfg (f r)"
    and ids: "\<And>r. r \<in> set db \<Longrightarrow> P r \<Longrightarrow> ro_assessment_id (f r) = i"
    and own: "\<And>r. r \<in> set db \<Longrightarrow> P r \<Longrightarrow> ro_key r = k"
    and free: "\<And>r. r \<in> set db \<Longrightarrow> ro_key r \<noteq> k \<Longrightarrow> i \<noteq> None \<Longrightarrow> ro_assessment_id r \<noteq> i"
  shows "store_inv cfg (update_rows P f db)"
proof -
  have unique: "ro_key r = ro_key r'"
    if "r \<in> set (update_rows P f db)" "r' \<in> set (update_rows P f db)" "ro_assessment_id r \<noteq> None"
      "ro_assessment_id r = ro_assessment_id r'" for r r'
  proof -
    note t = that
    obtain x where x: "x \<in> set db" "r = (if P x then f x else x)" using t(1) by (auto simp: update_rows_def)
    obtain y where y: "y \<in> set db" "r' = (if P y then f y else y)" using t(2) by (auto simp: update_rows_def)
    consider "P x" "P y" | "P x" "\<not> P y" | "\<not> P x" "P y" | "\<not> P x" "\<not> P y" by blast
    then show ?thesis
    proof cases
      case 1
      then show ?thesis using x y own key by simp
    next
      case 2
      then have "i \<noteq> None" "ro_assessment_id y = i" using t(3,4) x y ids by simp_all
      then have "ro_key y = k" using free [OF y(1)] by blast
      with 2 show ?thesis using x y own key by simp
    next
      case 3
      then have "i \<noteq> None" "ro_assessment_id x = i" using t(3,4) x y ids by simp_all
      then have "ro_key x = k" using free [OF x(1)] by blast
      with 3 show ?thesis using x y own key by simp
    next
      case 4
      then have "r \<in> set db" "r' \<in> set db" using x y by simp_all
      then show ?thesis using t(3,4) inv unfolding store_inv_def by blast
    qed
  qed
  have rows: "\<forall>r \<in> set (update_rows P f db). row_ok cfg r"
    using inv ok by (auto simp: store_inv_def update_rows_def)
  show ?thesis
    unfolding store_inv_def
  proof (intro conjI rows)
    show "1 \<le> sc_lease_seconds cfg" using inv by (simp add: store_inv_def)
    show "distinct (map ro_key (update_rows P f db))" using inv key by (simp add: store_inv_def keys_update)
  qed (use unique in blast)
qed

lemma reserve_cases:
  assumes "reserve cfg now q ex db = (out, db')"
  obtains (fresh) "find_row (rq_idempotency_key q) db = None"
      "out = Inr (make_reservation Res_ACQUIRED (rq_idempotency_key q) (request_sha256 (sc_runtime cfg) q) ex 1
         (lease_deadline cfg now))"
      "db' = db @ [\<lparr>ro_key = rq_idempotency_key q, ro_request_sha256 = request_sha256 (sc_runtime cfg) q,
         ro_execution_sha256 = ex, ro_status = Row_PENDING, ro_attempt_count = 1,
         ro_lease_expires_at = lease_deadline cfg now,
         ro_request_json = canonical_request_json (sc_runtime cfg) q,
         ro_assessment_id = None, ro_assessment_json = None, ro_assessment_sha256 = None,
         ro_failure_code = None, ro_created_at = now, ro_updated_at = now\<rparr>]"
  | (takeover) r where "find_row (rq_idempotency_key q) db = Some r" "ro_status r = Row_PENDING"
      "ro_lease_expires_at r \<le> now"
      "out = Inr (make_reservation Res_ACQUIRED (rq_idempotency_key q) (request_sha256 (sc_runtime cfg) q) ex
         (ro_attempt_count r + 1) (lease_deadline cfg now))"
      "db' = update_rows (\<lambda>x. ro_key x = rq_idempotency_key q \<and> ro_status x = Row_PENDING)
         (\<lambda>x. x\<lparr>ro_attempt_count := ro_attempt_count r + 1, ro_lease_expires_at := lease_deadline cfg now,
            ro_updated_at := now\<rparr>) db"
  | (other) "db' = db" "\<And>rs. out = Inr rs \<Longrightarrow> rs_state rs \<noteq> Res_ACQUIRED"
proof (cases "find_row (rq_idempotency_key q) db")
  case None
  with assms show thesis by (intro fresh) (simp_all add: reserve_def Let_def)
next
  case (Some r)
  show thesis
  proof (cases "stored_request_error cfg r = None \<and> ro_request_sha256 r = request_sha256 (sc_runtime cfg) q \<and>
      ro_execution_sha256 r = ex \<and> ro_status r = Row_PENDING \<and> ro_lease_expires_at r \<le> now")
    case True
    with assms Some show thesis by (intro takeover [of r]) (simp_all add: reserve_def Let_def)
  next
    case False
    have "rs_state rs \<noteq> Res_ACQUIRED" if "out = Inr rs" for rs
      using assms Some False that
      by (auto simp: reserve_def Let_def not_less make_reservation_def res_bind_Inr_iff
          split: option.splits if_splits row_status.splits)
    moreover have "db' = db"
      using assms Some False by (auto simp: reserve_def Let_def split: option.splits if_splits row_status.splits)
    ultimately show thesis by (intro other)
  qed
qed

lemma lease_deadline_le: "1 \<le> sc_lease_seconds cfg \<Longrightarrow> now \<le> lease_deadline cfg now"
  by (simp add: lease_deadline_def)

lemma store_inv_rowD: "store_inv cfg db \<Longrightarrow> r \<in> set db \<Longrightarrow> row_ok cfg r"
  by (simp add: store_inv_def)

lemma row_ok_takeover:
  "row_ok cfg r \<Longrightarrow> ro_status r = Row_PENDING \<Longrightarrow> 1 \<le> n \<Longrightarrow>
   row_ok cfg (r\<lparr>ro_attempt_count := n, ro_lease_expires_at := lease, ro_updated_at := now\<rparr>)"
  by (simp add: row_ok_def stored_request_error_iff)

lemma row_ok_fail:
  "row_ok cfg r \<Longrightarrow> ro_status r = Row_PENDING \<Longrightarrow>
   row_ok cfg (r\<lparr>ro_status := Row_FAILED, ro_failure_code := Some code, ro_updated_at := now\<rparr>)"
  by (simp add: row_ok_def stored_request_error_iff)

lemma row_ok_pending_id: "row_ok cfg r \<Longrightarrow> ro_status r = Row_PENDING \<Longrightarrow> ro_assessment_id r = None"
  by (simp add: row_ok_def)

lemma row_ok_complete:
  "row_ok cfg r \<Longrightarrow> assessment_codec_ok cfg a \<Longrightarrow>
   row_ok cfg (r\<lparr>ro_status := Row_COMPLETE, ro_assessment_id := Some (as_assessment_id a),
      ro_assessment_json := Some (cd_assessment_text (sc_codec cfg) a),
      ro_assessment_sha256 := Some (assessment_commitment (sc_runtime cfg) a), ro_failure_code := None,
      ro_updated_at := now\<rparr>)"
  by (simp add: row_ok_def stored_request_error_iff validated_assessment_iff assessment_codec_ok_def)

lemma reserve_inv:
  assumes inv: "store_inv cfg db" and codec: "request_codec_ok cfg q" and res: "reserve cfg now q ex db = (out, db')"
  shows "store_inv cfg db'"
  using res
proof (cases rule: reserve_cases)
  case fresh
  show ?thesis
    unfolding fresh(3)
    by (rule store_inv_snoc [OF inv])
      (use fresh(1) codec in \<open>auto simp: row_ok_def stored_request_error_iff request_codec_ok_def\<close>)
next
  case (takeover r)
  show ?thesis
    unfolding takeover(5)
    by (rule store_inv_update [OF inv, where i = None and k = "rq_idempotency_key q"])
      (use row_ok_takeover [OF store_inv_rowD [OF inv]] row_ok_pending_id [OF store_inv_rowD [OF inv]] in auto)
next
  case other
  with inv show ?thesis by simp
qed

lemma complete_cases:
  assumes "complete_assessment cfg now key ex n a db = (out, db')"
  obtains (closed) r where "r \<in> set db" "active_attempt key ex n r" "\<not> assessment_id_taken key (as_assessment_id a) db"
      "out = Inr (assessment_commitment (sc_runtime cfg) a)"
      "db' = update_rows (active_attempt key ex n)
         (\<lambda>r. r\<lparr>ro_status := Row_COMPLETE, ro_assessment_id := Some (as_assessment_id a),
            ro_assessment_json := Some (cd_assessment_text (sc_codec cfg) a),
            ro_assessment_sha256 := Some (assessment_commitment (sc_runtime cfg) a), ro_failure_code := None,
            ro_updated_at := now\<rparr>) db"
  | (refused) e where "db' = db" "out = Inl e"
  using assms by (auto simp: complete_assessment_def Let_def split: if_splits)

lemma complete_inv:
  assumes inv: "store_inv cfg db" and codec: "assessment_codec_ok cfg a"
    and res: "complete_assessment cfg now key ex n a db = (out, db')"
  shows "store_inv cfg db'"
  using res
proof (cases rule: complete_cases)
  case (closed r)
  show ?thesis
    unfolding closed(5)
    by (rule store_inv_update [OF inv, where i = "Some (as_assessment_id a)" and k = key])
      (use closed(3) store_inv_rowD [OF inv] row_ok_complete [OF _ codec]
        in \<open>auto simp: active_attempt_def assessment_id_taken_def\<close>)
next
  case refused
  with inv show ?thesis by simp
qed

lemma fail_inv:
  assumes inv: "store_inv cfg db" and res: "fail_assessment now key ex n code db = (out, db')"
  shows "store_inv cfg db'"
proof (cases "code = [] \<or> 100 < length code")
  case True
  with inv res show ?thesis by (simp add: fail_assessment_def)
next
  case False
  then have db': "db' = update_rows (active_attempt key ex n)
      (\<lambda>r. r\<lparr>ro_status := Row_FAILED, ro_failure_code := Some code, ro_updated_at := now\<rparr>) db"
    using res by (simp add: fail_assessment_def)
  show ?thesis
    unfolding db'
    by (rule store_inv_update [OF inv, where i = None and k = key])
      (use row_ok_fail [OF store_inv_rowD [OF inv]] row_ok_pending_id [OF store_inv_rowD [OF inv]]
        in \<open>auto simp: active_attempt_def\<close>)
qed

lemma step_store_inv: "store_step cfg db e db' \<Longrightarrow> store_inv cfg db \<Longrightarrow> store_inv cfg db'"
proof (induction rule: store_step.induct)
  case (step op now db out db')
  then show ?case
    by (cases op) (auto split: prod.splits intro: reserve_inv complete_inv fail_inv)
qed

lemma step_row_advances:
  assumes "store_step cfg db e db'" and "find_row k db = Some r"
  shows "\<exists>r'. find_row k db' = Some r' \<and> row_advances r r'"
  using assms
proof (induction rule: store_step.induct)
  case (step op now db out db')
  show ?case
  proof (cases op)
    case (Op_reserve q ex)
    with step obtain o' where "reserve cfg now q ex db = (o', db')" by (auto split: prod.splits)
    then show ?thesis
    proof (cases rule: reserve_cases)
      case fresh
      with step.prems show ?thesis by (simp add: find_row_snoc)
    next
      case (takeover x)
      then show ?thesis
        using step lease_deadline_le [of cfg now]
        by (cases "k = rq_idempotency_key q") (auto simp: find_row_update row_advances_def dest: find_row_Some)
    next
      case other
      with step.prems show ?thesis by simp
    qed
  next
    case (Op_complete key ex n a)
    with step obtain o' where "complete_assessment cfg now key ex n a db = (o', db')" by (auto split: prod.splits)
    then show ?thesis
    proof (cases rule: complete_cases)
      case closed
      with step.prems show ?thesis by (auto simp: find_row_update row_advances_def active_attempt_def)
    next
      case refused
      with step.prems show ?thesis by simp
    qed
  next
    case (Op_fail key ex n code)
    with step show ?thesis
      by (auto simp: fail_assessment_def find_row_update row_advances_def active_attempt_def split: if_splits)
  qed
qed

interpretation store_log:
  advancing_log "store_step cfg" "store_run cfg" find_row row_advances "store_inv cfg"
  for cfg
  by unfold_locales
    (auto simp: store_run_Cons_iff intro: row_advances_trans step_row_advances step_store_inv)

subsection \<open>Guarantees\<close>

text \<open>
  C7: whatever the interleaving of calls, from the empty table every reachable table keeps its
  invariant: keys and assessment identifiers are unique, every row's stored request parses back to its
  key and commitment, a completed row's stored assessment parses back to its identifier and commitment,
  and a failed row carries its failure code.
\<close>

theorem store_reachable_inv:
  assumes "1 \<le> sc_lease_seconds cfg" and "store_run cfg [] es db"
  shows "store_inv cfg db"
  using store_log.run_inv [OF assms(2) store_inv_Nil [OF assms(1)]] .

text \<open>
  In a table that satisfies the invariant a reservation is refused exactly when the key is bound to
  a different request or execution digest, and then with \<open>IdempotencyConflict\<close>: no call ever finds a
  corrupt row, and a call with the same inputs always gets a reservation.
\<close>

theorem reserve_refused_iff:
  assumes "store_inv cfg db"
  shows "((\<exists>e. fst (reserve cfg now q ex db) = Inl e) \<longleftrightarrow>
      (\<exists>r. find_row (rq_idempotency_key q) db = Some r \<and>
        (ro_request_sha256 r \<noteq> request_sha256 (sc_runtime cfg) q \<or> ro_execution_sha256 r \<noteq> ex))) \<and>
    (\<forall>e. fst (reserve cfg now q ex db) = Inl e \<longrightarrow> (\<exists>m. e = IdempotencyConflict m))"
proof (cases "find_row (rq_idempotency_key q) db")
  case None
  then show ?thesis by (simp add: reserve_def Let_def)
next
  case (Some r)
  note ok = store_inv_row [OF assms Some]
  have "ro_status r = Row_COMPLETE \<Longrightarrow> \<exists>a. validated_assessment cfg r = Inr a"
    using ok by (simp add: row_ok_def)
  then show ?thesis
    using Some row_ok_request_error [OF ok]
    by (cases "ro_status r") (auto simp: reserve_def Let_def)
qed

lemma acquired_row:
  assumes "store_step cfg db (now, Op_reserve q ex, Out_reserved (Inr rs)) db'" and "rs_state rs = Res_ACQUIRED"
  shows "\<exists>r. find_row (rq_idempotency_key q) db' = Some r \<and> ro_attempt_count r = rs_attempt_count rs \<and>
      ro_lease_expires_at r = lease_deadline cfg now" (is ?row)
    and "rs_lease_expires_at rs = lease_deadline cfg now" (is ?lease)
    and "find_row (rq_idempotency_key q) db = Some r \<Longrightarrow>
      ro_lease_expires_at r \<le> now \<and> rs_attempt_count rs = ro_attempt_count r + 1"
      (is "_ \<Longrightarrow> ?fresh")
proof -
  have res: "reserve cfg now q ex db = (Inr rs, db')"
    using assms(1) by (auto elim!: store_step_reserveE split: prod.splits)
  from res have "?row \<and> ?lease \<and> (find_row (rq_idempotency_key q) db = Some r \<longrightarrow> ?fresh)"
  proof (cases rule: reserve_cases)
    case fresh
    then show ?thesis by (simp add: find_row_snoc make_reservation_def)
  next
    case (takeover x)
    then show ?thesis by (auto simp: find_row_update make_reservation_def dest: find_row_Some)
  next
    case other
    with assms(2) show ?thesis by simp
  qed
  then show ?row and ?lease and "find_row (rq_idempotency_key q) db = Some r \<Longrightarrow> ?fresh" by blast+
qed

lemma acquisition_order:
  assumes "store_run cfg db (es @ (t1, Op_reserve q1 x1, Out_reserved (Inr a1)) # es' @
      [(t2, Op_reserve q2 x2, Out_reserved (Inr a2))]) db'"
    and "rs_state a1 = Res_ACQUIRED" and "rs_state a2 = Res_ACQUIRED"
    and "rq_idempotency_key q1 = rq_idempotency_key q2"
  shows "rs_lease_expires_at a1 = lease_deadline cfg t1 \<and> lease_deadline cfg t1 \<le> t2 \<and>
    rs_attempt_count a1 < rs_attempt_count a2"
proof -
  from assms(1) obtain b c d where
    first: "store_step cfg b (t1, Op_reserve q1 x1, Out_reserved (Inr a1)) c" and
    run: "store_run cfg c es' d" and
    second: "store_step cfg d (t2, Op_reserve q2 x2, Out_reserved (Inr a2)) db'"
    by (auto simp: store_log.run_append store_run_Cons_iff)
  from acquired_row(1) [OF first assms(2)] obtain r where
    r: "find_row (rq_idempotency_key q1) c = Some r" "ro_attempt_count r = rs_attempt_count a1"
      "ro_lease_expires_at r = lease_deadline cfg t1"
    by blast
  from store_log.run_advances [OF run r(1)] obtain r' where
    r': "find_row (rq_idempotency_key q1) d = Some r'" "row_advances r r'"
    by blast
  from acquired_row(3) [OF second assms(3) r'(1) [unfolded assms(4)]] r r'(2) acquired_row(2) [OF first assms(2)]
  show ?thesis by (auto simp: row_advances_def)
qed

text \<open>
  C8: two workers never hold the same attempt. In every run, when a key is acquired twice the second
  acquisition happens at or after the end of the first lease and gets a larger attempt number.
\<close>

theorem acquisitions_separated:
  assumes "store_run cfg db (es @ (t1, Op_reserve q1 x1, Out_reserved (Inr a1)) # es' @
      [(t2, Op_reserve q2 x2, Out_reserved (Inr a2))]) db'"
    and "rs_state a1 = Res_ACQUIRED" and "rs_state a2 = Res_ACQUIRED"
    and "rq_idempotency_key q1 = rq_idempotency_key q2"
  shows "rs_lease_expires_at a1 = lease_deadline cfg t1 \<and> lease_deadline cfg t1 \<le> t2 \<and>
    rs_attempt_count a1 < rs_attempt_count a2"
  by (rule acquisition_order [OF assms])

lemma active_attempt_row:
  assumes "store_inv cfg db" and "find_row key db = Some r" and "x \<in> set db" and "active_attempt key ex n x"
  shows "x = r"
proof -
  have "find_row (ro_key x) db = Some x"
    using assms(1,3) by (intro find_row_mem) (simp_all add: store_inv_def)
  with assms(2,4) show ?thesis by (simp add: active_attempt_def)
qed

lemma update_rows_none: "(\<And>r. r \<in> set db \<Longrightarrow> \<not> P r) \<Longrightarrow> update_rows P f db = db"
  by (simp add: update_rows_def map_idI)

text \<open>
  C9: fencing. Once a key has been acquired again, no later call of the earlier holder has an effect:
  completing raises, failing reports false, and both leave the table as it is.
\<close>

theorem stale_attempt_fenced:
  assumes "store_inv cfg db"
    and "store_run cfg db (es @ (t1, Op_reserve q1 x1, Out_reserved (Inr a1)) # es' @
      (t2, Op_reserve q2 x2, Out_reserved (Inr a2)) # es'') db'"
    and "rs_state a1 = Res_ACQUIRED" and "rs_state a2 = Res_ACQUIRED"
    and "rq_idempotency_key q1 = rq_idempotency_key q2" and "code \<noteq> []" and "length code \<le> 100"
  shows "(\<exists>m. complete_assessment cfg now (rq_idempotency_key q1) ex (rs_attempt_count a1) a db' = (Inl (RuntimeError m), db')) \<and>
    fail_assessment now (rq_idempotency_key q1) ex (rs_attempt_count a1) code db' = (Inr False, db')"
proof -
  let ?key = "rq_idempotency_key q1"
  have inv: "store_inv cfg db'" by (rule store_log.run_inv [OF assms(2,1)])
  from assms(2) obtain d where
    run1: "store_run cfg db (es @ (t1, Op_reserve q1 x1, Out_reserved (Inr a1)) # es' @
      [(t2, Op_reserve q2 x2, Out_reserved (Inr a2))]) d" and run2: "store_run cfg d es'' db'"
    by (auto simp: store_log.run_append store_run_Cons_iff)
  have less: "rs_attempt_count a1 < rs_attempt_count a2"
    using acquisition_order [OF run1 assms(3,4,5)] by simp
  from run1 obtain c where "store_step cfg c (t2, Op_reserve q2 x2, Out_reserved (Inr a2)) d"
    by (auto simp: store_log.run_append store_run_Cons_iff)
  from acquired_row(1) [OF this assms(4)] obtain r where
    "find_row ?key d = Some r" "ro_attempt_count r = rs_attempt_count a2"
    by (auto simp: assms(5))
  with store_log.run_advances [OF run2] obtain r' where
    r': "find_row ?key db' = Some r'" "rs_attempt_count a2 \<le> ro_attempt_count r'"
    by (force simp: row_advances_def)
  have none: "\<not> active_attempt ?key ex (rs_attempt_count a1) x" if "x \<in> set db'" for x
    using active_attempt_row [OF inv r'(1) that] r'(2) less by (auto simp: active_attempt_def)
  show ?thesis
    using none assms(6,7) by (auto simp: complete_assessment_def fail_assessment_def Let_def update_rows_none)
qed

lemma completed_row:
  assumes "store_inv cfg db" and "store_step cfg db (now, Op_complete key ex n a, Out_completed (Inr sha)) db'"
    and "find_row key db = Some r"
  shows "sha = assessment_commitment (sc_runtime cfg) a \<and>
    (\<exists>r'. find_row key db' = Some r' \<and> ro_status r' = Row_COMPLETE \<and> row_advances r r' \<and>
       validated_assessment cfg r' = Inr a)"
proof -
  have res: "complete_assessment cfg now key ex n a db = (Inr sha, db')" and codec: "assessment_codec_ok cfg a"
    using assms(2) by (auto elim!: store_step_completeE split: prod.splits)
  from store_log.step_advances [OF assms(2,3)] obtain r' where
    r': "find_row key db' = Some r'" "row_advances r r'" by blast
  from res show ?thesis
  proof (cases rule: complete_cases)
    case (closed x)
    have "x = r" by (rule active_attempt_row [OF assms(1,3) closed(1,2)])
    then have "active_attempt key ex n r" using closed(2) by simp
    with closed r' assms(3) codec show ?thesis
      by (auto simp: find_row_update active_attempt_def validated_assessment_iff assessment_codec_ok_def)
  next
    case refused
    then show ?thesis by simp
  qed
qed

lemma completed_replay:
  assumes "store_inv cfg db" and "store_step cfg db (t, Op_complete key ex n a, Out_completed (Inr sha)) db1"
    and "store_run cfg db1 es db2" and "find_row key db = Some r" and "rq_idempotency_key q = key"
  shows "snd (reserve cfg now q ex' db2) = db2 \<and> sha = assessment_commitment (sc_runtime cfg) a \<and>
    (if ro_request_sha256 r = request_sha256 (sc_runtime cfg) q \<and> ro_execution_sha256 r = ex'
     then \<exists>rs. fst (reserve cfg now q ex' db2) = Inr rs \<and> rs_state rs = Res_REPLAY \<and>
       rs_assessment rs = Some a \<and> rs_assessment_sha256 rs = Some sha
     else \<exists>m. fst (reserve cfg now q ex' db2) = Inl (IdempotencyConflict m))"
proof -
  from completed_row [OF assms(1,2,4)] obtain r1 where r1: "sha = assessment_commitment (sc_runtime cfg) a"
    "find_row key db1 = Some r1" "ro_status r1 = Row_COMPLETE" "row_advances r r1"
    "validated_assessment cfg r1 = Inr a"
    by blast
  have final: "find_row key db2 = Some r1"
    by (rule store_log.run_keeps_final [OF assms(3) r1(2)]) (use r1(3) in \<open>simp add: row_advances_def\<close>)
  have "store_inv cfg db1" by (rule step_store_inv [OF assms(2,1)])
  then have "stored_request_error cfg r1 = None" by (rule row_ok_request_error [OF store_inv_row [OF _ r1(2)]])
  moreover have "ro_request_sha256 r1 = ro_request_sha256 r" "ro_execution_sha256 r1 = ro_execution_sha256 r"
    using r1(4) by (simp_all add: row_advances_def)
  moreover have "ro_assessment_sha256 r1 = Some sha" using r1(1,5) by (auto simp: validated_assessment_iff)
  ultimately show ?thesis
    using final r1(1,3,5) assms(5) by (auto simp: reserve_def Let_def make_reservation_def)
qed

text \<open>
  Completed results are immutable. After a successful completion, whatever calls follow, every
  reservation with the inputs of the key replays exactly the completed assessment with its commitment,
  every reservation with other inputs is a conflict, and neither changes the table.
\<close>

theorem completed_assessment_replayed:
  assumes "store_inv cfg db" and "store_step cfg db (t, Op_complete key ex n a, Out_completed (Inr sha)) db1"
    and "store_run cfg db1 es db2" and "find_row key db = Some r" and "rq_idempotency_key q = key"
  shows "snd (reserve cfg now q ex' db2) = db2 \<and> sha = assessment_commitment (sc_runtime cfg) a \<and>
    (if ro_request_sha256 r = request_sha256 (sc_runtime cfg) q \<and> ro_execution_sha256 r = ex'
     then \<exists>rs. fst (reserve cfg now q ex' db2) = Inr rs \<and> rs_state rs = Res_REPLAY \<and>
       rs_assessment rs = Some a \<and> rs_assessment_sha256 rs = Some sha
     else \<exists>m. fst (reserve cfg now q ex' db2) = Inl (IdempotencyConflict m))"
  by (rule completed_replay [OF assms])

text \<open>
  A crashed holder does not block the key. Once the lease of a pending attempt has ended, the next
  reservation with the same inputs acquires the next attempt, and completing that attempt succeeds
  unless another key holds the assessment identifier.
\<close>

theorem expired_attempt_recovered:
  assumes "store_inv cfg db" and "find_row (rq_idempotency_key q) db = Some r" and "ro_status r = Row_PENDING"
    and "ro_request_sha256 r = request_sha256 (sc_runtime cfg) q" and "ro_lease_expires_at r \<le> now"
    and "\<not> assessment_id_taken (rq_idempotency_key q) (as_assessment_id a) db"
  shows "\<exists>rs db' db''. reserve cfg now q (ro_execution_sha256 r) db = (Inr rs, db') \<and> rs_state rs = Res_ACQUIRED \<and>
    rs_attempt_count rs = ro_attempt_count r + 1 \<and>
    complete_assessment cfg now' (rq_idempotency_key q) (ro_execution_sha256 r) (rs_attempt_count rs) a db' =
      (Inr (assessment_commitment (sc_runtime cfg) a), db'')"
proof -
  let ?key = "rq_idempotency_key q"
  let ?upd = "\<lambda>x. x\<lparr>ro_attempt_count := ro_attempt_count r + 1, ro_lease_expires_at := lease_deadline cfg now,
      ro_updated_at := now\<rparr>"
  let ?db' = "update_rows (\<lambda>x. ro_key x = ?key \<and> ro_status x = Row_PENDING) ?upd db"
  have res: "reserve cfg now q (ro_execution_sha256 r) db =
      (Inr (make_reservation Res_ACQUIRED ?key (request_sha256 (sc_runtime cfg) q) (ro_execution_sha256 r)
        (ro_attempt_count r + 1) (lease_deadline cfg now)), ?db')"
    using assms(2-5) row_ok_request_error [OF store_inv_row [OF assms(1,2)]]
    by (simp add: reserve_def Let_def)
  have "?upd r \<in> set ?db'"
    using find_row_Some [OF assms(2)] assms(3) by (force simp: update_rows_def)
  moreover have "active_attempt ?key (ro_execution_sha256 r) (ro_attempt_count r + 1) (?upd r)"
    using find_row_Some [OF assms(2)] assms(3) by (simp add: active_attempt_def)
  moreover have "\<not> assessment_id_taken ?key (as_assessment_id a) ?db'"
    using assms(6) by (auto simp: assessment_id_taken_def update_rows_def)
  ultimately show ?thesis
    unfolding res by (auto simp: complete_assessment_def Let_def make_reservation_def)
qed

subsection \<open>A concrete run\<close>

definition demo_codec :: codec where
  "demo_codec = \<lparr>cd_parse_request = (\<lambda>t. if t = canonical_request_json demo_runtime demo_request then Some demo_request else None),
     cd_assessment_text = (\<lambda>a. ''assessment''), cd_parse_assessment = (\<lambda>_. Some demo_assessment)\<rparr>"

definition demo_store :: store_config where
  "demo_store = \<lparr>sc_runtime = demo_runtime, sc_codec = demo_codec, sc_lease_seconds = 600\<rparr>"

definition demo_row :: row where
  "demo_row = \<lparr>ro_key = ''key-1'', ro_request_sha256 = request_sha256 demo_runtime demo_request,
     ro_execution_sha256 = ''x'', ro_status = Row_PENDING, ro_attempt_count = 1,
     ro_lease_expires_at = 600000000, ro_request_json = canonical_request_json demo_runtime demo_request,
     ro_assessment_id = None, ro_assessment_json = None, ro_assessment_sha256 = None,
     ro_failure_code = None, ro_created_at = 0, ro_updated_at = 0\<rparr>"

lemma demo_store_lease: "1 \<le> sc_lease_seconds demo_store"
  by (simp add: demo_store_def)

lemma demo_request_codec: "request_codec_ok demo_store demo_request"
  by (simp add: request_codec_ok_def demo_store_def demo_codec_def)

lemma demo_key: "rq_idempotency_key demo_request = ''key-1''"
  by (simp add: demo_request_def)

lemma demo_reserve:
  "reserve demo_store 0 demo_request ''x'' [] =
     (Inr (make_reservation Res_ACQUIRED ''key-1'' (request_sha256 demo_runtime demo_request) ''x'' 1 600000000), [demo_row])"
  by (simp add: reserve_def Let_def find_row_def demo_key lease_deadline_def) (simp add: demo_store_def demo_row_def)

lemma demo_first_step:
  "store_step demo_store [] (0, Op_reserve demo_request ''x'',
     Out_reserved (Inr (make_reservation Res_ACQUIRED ''key-1'' (request_sha256 demo_runtime demo_request) ''x'' 1 600000000)))
     [demo_row]"
  by (rule store_step.step) (simp_all add: demo_store_lease demo_request_codec demo_reserve)

lemma demo_inv: "store_inv demo_store [demo_row]"
  by (rule step_store_inv [OF demo_first_step store_inv_Nil [OF demo_store_lease]])

theorem store_reachable_inv_witness:
  "store_run demo_store [] [(0, Op_reserve demo_request ''x'',
     Out_reserved (Inr (make_reservation Res_ACQUIRED ''key-1'' (request_sha256 demo_runtime demo_request) ''x'' 1 600000000)))]
     [demo_row] \<and> store_inv demo_store [demo_row]"
proof -
  have "store_run demo_store [] [(0, Op_reserve demo_request ''x'',
     Out_reserved (Inr (make_reservation Res_ACQUIRED ''key-1'' (request_sha256 demo_runtime demo_request) ''x'' 1 600000000)))]
     [demo_row]"
    using demo_first_step by (auto simp: store_run_Cons_iff)
  with store_reachable_inv [OF demo_store_lease this] show ?thesis by blast
qed

lemma demo_find: "find_row ''key-1'' [demo_row] = Some demo_row"
  by (simp add: find_row_def demo_row_def)

theorem reserve_refused_iff_witness:
  "\<exists>m. fst (reserve demo_store 0 demo_request ''other'' [demo_row]) = Inl (IdempotencyConflict m)"
proof -
  have "find_row (rq_idempotency_key demo_request) [demo_row] = Some demo_row \<and> ro_execution_sha256 demo_row \<noteq> ''other''"
    by (simp add: demo_key demo_find) (simp add: demo_row_def)
  with reserve_refused_iff [OF demo_inv, of 0 demo_request "''other''"] show ?thesis by auto
qed

theorem expired_attempt_recovered_witness:
  "\<exists>rs db' db''. reserve demo_store 700000000 demo_request ''x'' [demo_row] = (Inr rs, db') \<and>
     rs_state rs = Res_ACQUIRED \<and> rs_attempt_count rs = 2 \<and>
     complete_assessment demo_store 800000000 ''key-1'' ''x'' 2 demo_assessment db' =
       (Inr (assessment_commitment demo_runtime demo_assessment), db'')"
proof -
  have r: "ro_status demo_row = Row_PENDING" "ro_lease_expires_at demo_row \<le> 700000000" "ro_execution_sha256 demo_row = ''x''"
    "ro_request_sha256 demo_row = request_sha256 (sc_runtime demo_store) demo_request" "ro_attempt_count demo_row = 1"
    "\<not> assessment_id_taken (rq_idempotency_key demo_request) (as_assessment_id demo_assessment) [demo_row]"
    "sc_runtime demo_store = demo_runtime"
    by (simp_all add: demo_row_def demo_store_def assessment_id_taken_def)
  from expired_attempt_recovered [OF demo_inv demo_find [folded demo_key] r(1,4,2,6), of 800000000]
  show ?thesis by (auto simp: r demo_key numeral_2_eq_2)
qed

definition demo_row2 :: row where
  "demo_row2 = demo_row\<lparr>ro_attempt_count := 2, ro_lease_expires_at := 1300000000, ro_updated_at := 700000000\<rparr>"

abbreviation demo_first :: reservation where
  "demo_first \<equiv> make_reservation Res_ACQUIRED ''key-1'' (request_sha256 demo_runtime demo_request) ''x'' 1 600000000"

abbreviation demo_second :: reservation where
  "demo_second \<equiv> make_reservation Res_ACQUIRED ''key-1'' (request_sha256 demo_runtime demo_request) ''x'' 2 1300000000"

lemma demo_second_step:
  "store_step demo_store [demo_row] (700000000, Op_reserve demo_request ''x'', Out_reserved (Inr demo_second)) [demo_row2]"
proof -
  have r: "ro_status demo_row = Row_PENDING" "ro_lease_expires_at demo_row = 600000000" "ro_execution_sha256 demo_row = ''x''"
    "ro_request_sha256 demo_row = request_sha256 demo_runtime demo_request" "ro_attempt_count demo_row = 1"
    "ro_key demo_row = ''key-1''" "sc_runtime demo_store = demo_runtime" "lease_deadline demo_store 700000000 = 1300000000"
    by (simp_all add: demo_row_def demo_store_def lease_deadline_def)
  have "reserve demo_store 700000000 demo_request ''x'' [demo_row] = (Inr demo_second, [demo_row2])"
    using row_ok_request_error [OF store_inv_row [OF demo_inv demo_find]]
    by (simp add: reserve_def Let_def demo_key demo_find r update_rows_def demo_row2_def numeral_2_eq_2)
  then show ?thesis by (intro store_step.step) (simp_all add: demo_store_lease demo_request_codec)
qed

lemma demo_run:
  "store_run demo_store [] ([] @ (0, Op_reserve demo_request ''x'', Out_reserved (Inr demo_first)) # [] @
     [(700000000, Op_reserve demo_request ''x'', Out_reserved (Inr demo_second))]) [demo_row2]"
  using demo_first_step demo_second_step by (auto simp: store_run_Cons_iff)

lemma demo_acquired: "rs_state demo_first = Res_ACQUIRED" "rs_state demo_second = Res_ACQUIRED"
  "rs_attempt_count demo_first = 1"
  by (simp_all add: make_reservation_def)

theorem acquisitions_separated_witness:
  "store_run demo_store [] [(0, Op_reserve demo_request ''x'', Out_reserved (Inr demo_first)),
     (700000000, Op_reserve demo_request ''x'', Out_reserved (Inr demo_second))] [demo_row2] \<and>
   lease_deadline demo_store 0 \<le> 700000000"
  using acquisitions_separated [OF demo_run demo_acquired(1,2) refl] demo_run by simp

theorem stale_attempt_fenced_witness:
  "\<exists>m. complete_assessment demo_store 800000000 ''key-1'' ''x'' 1 demo_assessment [demo_row2] = (Inl (RuntimeError m), [demo_row2])"
proof -
  have run: "store_run demo_store [] ([] @ (0, Op_reserve demo_request ''x'', Out_reserved (Inr demo_first)) # [] @
     (700000000, Op_reserve demo_request ''x'', Out_reserved (Inr demo_second)) # []) [demo_row2]"
    using demo_run by simp
  from stale_attempt_fenced [OF store_inv_Nil [OF demo_store_lease] run demo_acquired(1,2) refl, of "''E''" 800000000 "''x''" demo_assessment]
  show ?thesis by (auto simp: demo_key make_reservation_def)
qed

theorem completed_assessment_replayed_witness:
  "\<exists>db. store_step demo_store [demo_row] (5, Op_complete ''key-1'' ''x'' 1 demo_assessment,
       Out_completed (Inr (assessment_commitment demo_runtime demo_assessment))) db \<and>
     (\<exists>rs. fst (reserve demo_store 9 demo_request ''x'' db) = Inr rs \<and> rs_state rs = Res_REPLAY \<and>
        rs_assessment rs = Some demo_assessment)"
proof -
  have a: "active_attempt ''key-1'' ''x'' 1 demo_row" "\<not> assessment_id_taken ''key-1'' (as_assessment_id demo_assessment) [demo_row]"
    by (simp_all add: active_attempt_def demo_row_def assessment_id_taken_def)
  obtain db where "complete_assessment demo_store 5 ''key-1'' ''x'' 1 demo_assessment [demo_row] =
      (Inr (assessment_commitment demo_runtime demo_assessment), db)"
    using a by (simp add: complete_assessment_def Let_def) (simp add: demo_store_def)
  then have st: "store_step demo_store [demo_row] (5, Op_complete ''key-1'' ''x'' 1 demo_assessment,
      Out_completed (Inr (assessment_commitment demo_runtime demo_assessment))) db"
    by (intro store_step.step) (simp_all add: demo_store_lease assessment_codec_ok_def, simp add: demo_store_def demo_codec_def)
  from completed_assessment_replayed [OF demo_inv st run_Nil demo_find demo_key, of 9 "''x''"] st
  show ?thesis by (auto simp: demo_row_def demo_store_def)
qed

end
