(* ===== verification/Signing.thy ===== *)
theory Signing
  imports Evidence
begin

section \<open>Device signatures\<close>

text \<open>
  \<open>app/security/signing.py\<close>: the device key is read from its file (\<open>rt_device_key\<close>; a key that is not 32
  bytes long raises \<open>SigningError\<close>), payloads are signed and verified over their canonical JSON text.
  The creation of the key file and its permissions are not modelled. \<open>rt_ed_verify\<close> stands for
  \<open>Ed25519PublicKey.from_public_bytes(k).verify(s, m)\<close> not raising.
\<close>

definition private_key :: "runtime \<Rightarrow> string res" where
  "private_key rt =
     (if length (rt_device_key rt) \<noteq> 32 then Inl (SigningError ''Device Ed25519 key is malformed'')
      else Inr (rt_device_key rt))"

definition public_key_bytes :: "runtime \<Rightarrow> string res" where
  "public_key_bytes rt = res_bind (private_key rt) (\<lambda>k. Inr (rt_ed_public rt k))"

definition public_key_b64 :: "runtime \<Rightarrow> string res" where
  "public_key_b64 rt = res_bind (public_key_bytes rt) (\<lambda>k. Inr (b64encode k))"

definition signer_fingerprint :: "runtime \<Rightarrow> string res" where
  "signer_fingerprint rt = res_bind (public_key_bytes rt) (\<lambda>k. Inr (rt_sha256 rt k))"

definition sign_payload :: "runtime \<Rightarrow> json \<Rightarrow> string res" where
  "sign_payload rt payload =
     res_bind (private_key rt) (\<lambda>k. Inr (b64encode (rt_ed_sign rt k (canonical_json_bytes rt payload))))"

definition verify_payload :: "runtime \<Rightarrow> json \<Rightarrow> string \<Rightarrow> string \<Rightarrow> bool" where
  "verify_payload rt payload signature_b64 public_key_b64_value =
     (case b64decode signature_b64 of
        None \<Rightarrow> False
      | Some signature \<Rightarrow>
          (case b64decode public_key_b64_value of
             None \<Rightarrow> False
           | Some public_raw \<Rightarrow> rt_ed_verify rt public_raw signature (canonical_json_bytes rt payload)))"

text \<open>
  What the \<open>cryptography\<close> package documents of Ed25519, for the device key: signatures verify under the
  key's public key, a public key has 32 bytes and a signature 64.
\<close>

definition signing_ok :: "runtime \<Rightarrow> bool" where
  "signing_ok rt \<longleftrightarrow>
     sha_ok rt \<and> length (rt_device_key rt) = 32 \<and> length (rt_ed_public rt (rt_device_key rt)) = 32 \<and>
     (\<forall>m. length (rt_ed_sign rt (rt_device_key rt) m) = 64 \<and>
        rt_ed_verify rt (rt_ed_public rt (rt_device_key rt)) (rt_ed_sign rt (rt_device_key rt) m) m)"

lemma signing_ok_sha [simp]: "signing_ok rt \<Longrightarrow> sha_ok rt"
  by (simp add: signing_ok_def)

text \<open>
  The interface of the receipts: a signer that is set up produces a bounded signature that verifies
  under its published key, and publishes the fingerprint of that key.
\<close>

locale payload_signer =
  fixes ok :: "runtime \<Rightarrow> bool"
    and sign :: "runtime \<Rightarrow> json \<Rightarrow> string res"
    and public_key :: "runtime \<Rightarrow> string res"
    and fingerprint :: "runtime \<Rightarrow> string res"
    and verify :: "runtime \<Rightarrow> json \<Rightarrow> string \<Rightarrow> string \<Rightarrow> bool"
  assumes signs: "ok rt \<Longrightarrow> \<exists>s. sign rt j = Inr s \<and> len_between 1 512 s"
    and publishes: "ok rt \<Longrightarrow> \<exists>k raw. public_key rt = Inr k \<and> len_between 1 512 k \<and> b64decode k = Some raw \<and>
      fingerprint rt = Inr (rt_sha256 rt raw)"
    and sign_verify: "ok rt \<Longrightarrow> sign rt j = Inr s \<Longrightarrow> public_key rt = Inr k \<Longrightarrow> verify rt j s k"
begin

lemma signed_document:
  assumes "ok rt"
  obtains s k raw where "sign rt j = Inr s" "public_key rt = Inr k" "len_between 1 512 s" "len_between 1 512 k"
    "b64decode k = Some raw" "fingerprint rt = Inr (rt_sha256 rt raw)" "verify rt j s k"
  using signs [OF assms, of j] publishes [OF assms] sign_verify [OF assms, of j] by blast

end

lemma private_key_ok: "signing_ok rt \<Longrightarrow> private_key rt = Inr (rt_device_key rt)"
  by (simp add: private_key_def signing_ok_def)

interpretation device_signer: payload_signer signing_ok sign_payload public_key_b64 signer_fingerprint verify_payload
proof
  fix rt j
  assume ok: "signing_ok rt"
  then show "\<exists>s. sign_payload rt j = Inr s \<and> len_between 1 512 s"
    by (simp add: sign_payload_def private_key_ok len_between_def length_b64encode) (simp add: signing_ok_def)
next
  fix rt
  assume ok: "signing_ok rt"
  then show "\<exists>k raw. public_key_b64 rt = Inr k \<and> len_between 1 512 k \<and> b64decode k = Some raw \<and>
      signer_fingerprint rt = Inr (rt_sha256 rt raw)"
    by (simp add: public_key_b64_def public_key_bytes_def signer_fingerprint_def private_key_ok len_between_def
        length_b64encode b64_roundtrip) (simp add: signing_ok_def)
next
  fix rt j s k
  assume "signing_ok rt" "sign_payload rt j = Inr s" "public_key_b64 rt = Inr k"
  then show "verify_payload rt j s k"
    by (auto simp: sign_payload_def public_key_b64_def public_key_bytes_def private_key_ok verify_payload_def
        b64_roundtrip) (simp add: signing_ok_def)
qed

text \<open>Without a usable key nothing is signed and no fingerprint is published.\<close>

lemma signing_fails_closed:
  "length (rt_device_key rt) \<noteq> 32 \<Longrightarrow>
   \<exists>m. sign_payload rt j = Inl (SigningError m) \<and> signer_fingerprint rt = Inl (SigningError m) \<and>
     public_key_b64 rt = Inl (SigningError m)"
  by (simp add: sign_payload_def signer_fingerprint_def public_key_b64_def public_key_bytes_def private_key_def)

lemma signing_ok_demo [simp]: "signing_ok demo_runtime"
  using checksum_text_sha
  by (auto simp: signing_ok_def) (auto simp: demo_runtime_def is_sha256_def)

end
