(* ===== verification/Integration.thy ===== *)
theory Integration
  imports Signing
begin

section \<open>Signed CMS decision receipts\<close>

text \<open>
  \<open>rightsgate/integration.py\<close>: a CMS asks for the decision on a stored assessment and gets a signed
  receipt that reports a workflow status and never authorises a release. The literal fields
  (\<open>requested_action\<close>, \<open>release_authorization\<close>, \<open>signature_algorithm\<close>) are constants of the payload.
\<close>

subsection \<open>Models\<close>

datatype workflow_status = Status_BLOCKED | Status_HUMAN_REVIEW_REQUIRED | Status_READY_FOR_RELEASE_AUTHORIZATION

primrec workflow_status_value :: "workflow_status \<Rightarrow> string" where
  "workflow_status_value Status_BLOCKED = ''BLOCKED''"
| "workflow_status_value Status_HUMAN_REVIEW_REQUIRED = ''HUMAN_REVIEW_REQUIRED''"
| "workflow_status_value Status_READY_FOR_RELEASE_AUTHORIZATION = ''READY_FOR_RELEASE_AUTHORIZATION''"

lemma workflow_status_value_inj [simp]: "workflow_status_value a = workflow_status_value b \<longleftrightarrow> a = b"
  by (cases a; cases b; simp)

primrec status_of_decision :: "deployment_decision \<Rightarrow> workflow_status" where
  "status_of_decision Decision_BLOCK = Status_BLOCKED"
| "status_of_decision Decision_REVIEW = Status_HUMAN_REVIEW_REQUIRED"
| "status_of_decision Decision_GO = Status_READY_FOR_RELEASE_AUTHORIZATION"

record cms_request =
  cq_cms_system_id :: string
  cq_content_id :: string
  cq_assessment_idempotency_key :: string
  cq_expected_asset_sha256 :: string
  cq_expected_assessment_sha256 :: string

definition validate_cms_request :: "cms_request \<Rightarrow> cms_request res" where
  "validate_cms_request q =
     check_fields ''CMSDecisionRequest''
       [(''cms_system_id'', is_id (cq_cms_system_id q)), (''content_id'', is_id (cq_content_id q)),
        (''assessment_idempotency_key'', is_id (cq_assessment_idempotency_key q)),
        (''expected_asset_sha256'', is_sha256 (cq_expected_asset_sha256 q)),
        (''expected_assessment_sha256'', is_sha256 (cq_expected_assessment_sha256 q))]
       (Inr q)"

definition wf_cms_request :: "cms_request \<Rightarrow> bool" where
  "wf_cms_request q \<longleftrightarrow> is_id (cq_cms_system_id q) \<and> is_id (cq_content_id q) \<and>
     is_id (cq_assessment_idempotency_key q) \<and> is_sha256 (cq_expected_asset_sha256 q) \<and>
     is_sha256 (cq_expected_assessment_sha256 q)"

interpretation cms_request_model: validated_model validate_cms_request wf_cms_request
  by unfold_locales (auto simp: validate_cms_request_def wf_cms_request_def check_fields_ok)

record cms_payload =
  cp_cms_system_id :: string
  cp_content_id :: string
  cp_assessment_idempotency_key :: string
  cp_assessment_id :: string
  cp_asset_sha256 :: string
  cp_request_sha256 :: string
  cp_execution_sha256 :: string
  cp_assessment_sha256 :: string
  cp_deployment_decision :: deployment_decision
  cp_workflow_status :: workflow_status
  cp_assessed_at :: datetime

definition validate_cms_payload :: "cms_payload \<Rightarrow> cms_payload res" where
  "validate_cms_payload p =
     check_fields ''CMSDecisionPayload''
       [(''cms_system_id'', is_id (cp_cms_system_id p)), (''content_id'', is_id (cp_content_id p)),
        (''assessment_idempotency_key'', is_id (cp_assessment_idempotency_key p)),
        (''assessment_id'', is_id (cp_assessment_id p)), (''asset_sha256'', is_sha256 (cp_asset_sha256 p)),
        (''request_sha256'', is_sha256 (cp_request_sha256 p)),
        (''execution_sha256'', is_sha256 (cp_execution_sha256 p)),
        (''assessment_sha256'', is_sha256 (cp_assessment_sha256 p))]
       (if cp_workflow_status p \<noteq> status_of_decision (cp_deployment_decision p)
        then Inl (ModelError ''CMSDecisionPayload'' ''CMS workflow status does not match the deployment decision'')
        else if \<not> is_aware (cp_assessed_at p)
        then Inl (ModelError ''CMSDecisionPayload'' ''assessed_at must be timezone-aware'')
        else Inr p)"

definition wf_cms_payload :: "cms_payload \<Rightarrow> bool" where
  "wf_cms_payload p \<longleftrightarrow> is_id (cp_cms_system_id p) \<and> is_id (cp_content_id p) \<and>
     is_id (cp_assessment_idempotency_key p) \<and> is_id (cp_assessment_id p) \<and> is_sha256 (cp_asset_sha256 p) \<and>
     is_sha256 (cp_request_sha256 p) \<and> is_sha256 (cp_execution_sha256 p) \<and> is_sha256 (cp_assessment_sha256 p) \<and>
     cp_workflow_status p = status_of_decision (cp_deployment_decision p) \<and> is_aware (cp_assessed_at p)"

interpretation cms_payload_model: validated_model validate_cms_payload wf_cms_payload
  by unfold_locales (auto simp: validate_cms_payload_def wf_cms_payload_def check_fields_ok split: if_splits)

record cms_receipt =
  cr_payload :: cms_payload
  cr_signature_b64 :: string
  cr_public_key_b64 :: string
  cr_signer_fingerprint :: string
  cr_receipt_sha256 :: string

definition validate_cms_receipt :: "cms_receipt \<Rightarrow> cms_receipt res" where
  "validate_cms_receipt r =
     check_fields ''CMSDecisionReceipt''
       [(''signature_b64'', len_between 1 512 (cr_signature_b64 r)),
        (''public_key_b64'', len_between 1 512 (cr_public_key_b64 r)),
        (''signer_fingerprint'', is_sha256 (cr_signer_fingerprint r)),
        (''receipt_sha256'', is_sha256 (cr_receipt_sha256 r))]
       (Inr r)"

definition wf_cms_receipt :: "cms_receipt \<Rightarrow> bool" where
  "wf_cms_receipt r \<longleftrightarrow> len_between 1 512 (cr_signature_b64 r) \<and> len_between 1 512 (cr_public_key_b64 r) \<and>
     is_sha256 (cr_signer_fingerprint r) \<and> is_sha256 (cr_receipt_sha256 r)"

interpretation cms_receipt_model: validated_model validate_cms_receipt wf_cms_receipt
  by unfold_locales (auto simp: validate_cms_receipt_def wf_cms_receipt_def check_fields_ok)

subsection \<open>Payload text and commitment\<close>

definition cms_payload_json :: "runtime \<Rightarrow> cms_payload \<Rightarrow> json" where
  "cms_payload_json rt p = JObj
     [(''schema'', JStr ''veilgraph.rightsgate.cms-decision-payload.v1''),
      (''cms_system_id'', JStr (cp_cms_system_id p)), (''content_id'', JStr (cp_content_id p)),
      (''assessment_idempotency_key'', JStr (cp_assessment_idempotency_key p)),
      (''assessment_id'', JStr (cp_assessment_id p)), (''asset_sha256'', JStr (cp_asset_sha256 p)),
      (''request_sha256'', JStr (cp_request_sha256 p)), (''execution_sha256'', JStr (cp_execution_sha256 p)),
      (''assessment_sha256'', JStr (cp_assessment_sha256 p)),
      (''deployment_decision'', JStr (deployment_decision_value (cp_deployment_decision p))),
      (''workflow_status'', JStr (workflow_status_value (cp_workflow_status p))),
      (''assessed_at'', JStr (rt_datetime rt (cp_assessed_at p))),
      (''requested_action'', JStr ''REQUEST_PUBLICATION''), (''release_authorization'', JBool False)]"

definition cms_receipt_commitment :: "runtime \<Rightarrow> cms_payload \<Rightarrow> string \<Rightarrow> string \<Rightarrow> string" where
  "cms_receipt_commitment rt p signature_b64 public_key_b64_value = receipt_hash rt (JObj
     [(''payload'', cms_payload_json rt p), (''public_key_b64'', JStr public_key_b64_value),
      (''signature_b64'', JStr signature_b64)])"

definition build_cms_decision_receipt ::
    "runtime \<Rightarrow> cms_request \<Rightarrow> rightsgate_assessment \<Rightarrow> string \<Rightarrow> string \<Rightarrow> string \<Rightarrow> cms_receipt res" where
  "build_cms_decision_receipt rt q assessment request_sha execution_sha assessment_sha =
     (if ad_sha256 (as_asset assessment) \<noteq> cq_expected_asset_sha256 q
      then Inl (ValueError ''CMS request asset commitment does not match the assessment'')
      else if assessment_commitment rt assessment \<noteq> assessment_sha
      then Inl (ValueError ''stored assessment commitment does not match the assessment payload'')
      else if assessment_sha \<noteq> cq_expected_assessment_sha256 q
      then Inl (ValueError ''CMS request assessment commitment does not match the stored result'')
      else res_bind (validate_cms_payload
          \<lparr>cp_cms_system_id = cq_cms_system_id q, cp_content_id = cq_content_id q,
           cp_assessment_idempotency_key = cq_assessment_idempotency_key q,
           cp_assessment_id = as_assessment_id assessment, cp_asset_sha256 = ad_sha256 (as_asset assessment),
           cp_request_sha256 = request_sha, cp_execution_sha256 = execution_sha,
           cp_assessment_sha256 = assessment_sha,
           cp_deployment_decision = da_decision (as_deployment assessment),
           cp_workflow_status = status_of_decision (da_decision (as_deployment assessment)),
           cp_assessed_at = as_created_at assessment\<rparr>) (\<lambda>payload.
        res_bind (sign_payload rt (cms_payload_json rt payload)) (\<lambda>signature.
        res_bind (public_key_b64 rt) (\<lambda>public_key.
        res_bind (signer_fingerprint rt) (\<lambda>fingerprint.
        validate_cms_receipt
          \<lparr>cr_payload = payload, cr_signature_b64 = signature, cr_public_key_b64 = public_key,
           cr_signer_fingerprint = fingerprint,
           cr_receipt_sha256 = cms_receipt_commitment rt payload signature public_key\<rparr>)))))"

text \<open>\<open>expected_signer_fingerprint or signer_fingerprint()\<close>.\<close>

definition trusted_fingerprint :: "runtime \<Rightarrow> string option \<Rightarrow> string res" where
  "trusted_fingerprint rt expected =
     (case expected of Some f \<Rightarrow> if f \<noteq> [] then Inr f else signer_fingerprint rt | None \<Rightarrow> signer_fingerprint rt)"

definition verify_cms_decision_receipt :: "runtime \<Rightarrow> cms_receipt \<Rightarrow> string option \<Rightarrow> bool res" where
  "verify_cms_decision_receipt rt r expected =
     (case b64decode (cr_public_key_b64 r) of
        None \<Rightarrow> Inr False
      | Some public_key \<Rightarrow>
          if rt_sha256 rt public_key \<noteq> cr_signer_fingerprint r then Inr False
          else res_bind (trusted_fingerprint rt expected) (\<lambda>trusted.
            if cr_signer_fingerprint r \<noteq> trusted then Inr False
            else Inr (cms_receipt_commitment rt (cr_payload r) (cr_signature_b64 r) (cr_public_key_b64 r) =
                  cr_receipt_sha256 r \<and>
                verify_payload rt (cms_payload_json rt (cr_payload r)) (cr_signature_b64 r) (cr_public_key_b64 r))))"

subsection \<open>What a receipt says\<close>

definition receipt_bound ::
    "cms_request \<Rightarrow> rightsgate_assessment \<Rightarrow> string \<Rightarrow> string \<Rightarrow> string \<Rightarrow> cms_receipt \<Rightarrow> bool" where
  "receipt_bound q a request_sha execution_sha assessment_sha r \<longleftrightarrow>
     cp_cms_system_id (cr_payload r) = cq_cms_system_id q \<and> cp_content_id (cr_payload r) = cq_content_id q \<and>
     cp_assessment_idempotency_key (cr_payload r) = cq_assessment_idempotency_key q \<and>
     cp_assessment_id (cr_payload r) = as_assessment_id a \<and>
     cp_asset_sha256 (cr_payload r) = ad_sha256 (as_asset a) \<and> cp_request_sha256 (cr_payload r) = request_sha \<and>
     cp_execution_sha256 (cr_payload r) = execution_sha \<and> cp_assessment_sha256 (cr_payload r) = assessment_sha \<and>
     cp_deployment_decision (cr_payload r) = da_decision (as_deployment a) \<and>
     cp_workflow_status (cr_payload r) = status_of_decision (da_decision (as_deployment a)) \<and>
     cp_assessed_at (cr_payload r) = as_created_at a"

lemma cms_receipt_built:
  assumes "signing_ok rt" and "wf_cms_request q" and "wf_assessment a"
    and "is_sha256 request_sha" and "is_sha256 execution_sha"
    and "cq_expected_asset_sha256 q = ad_sha256 (as_asset a) \<and>
      cq_expected_assessment_sha256 q = assessment_commitment rt a"
  shows "\<exists>r. build_cms_decision_receipt rt q a request_sha execution_sha (assessment_commitment rt a) = Inr r \<and>
      wf_cms_receipt r \<and> wf_cms_payload (cr_payload r) \<and>
      receipt_bound q a request_sha execution_sha (assessment_commitment rt a) r \<and>
      verify_cms_decision_receipt rt r None = Inr True"
proof -
  let ?p = "\<lparr>cp_cms_system_id = cq_cms_system_id q, cp_content_id = cq_content_id q,
     cp_assessment_idempotency_key = cq_assessment_idempotency_key q,
     cp_assessment_id = as_assessment_id a, cp_asset_sha256 = ad_sha256 (as_asset a),
     cp_request_sha256 = request_sha, cp_execution_sha256 = execution_sha, cp_assessment_sha256 = assessment_commitment rt a,
     cp_deployment_decision = da_decision (as_deployment a),
     cp_workflow_status = status_of_decision (da_decision (as_deployment a)), cp_assessed_at = as_created_at a\<rparr>"
  have p: "wf_cms_payload ?p"
    using assms by (auto simp: wf_cms_payload_def wf_cms_request_def wf_assessment_def assessment_commitment_def)
  obtain s k raw where s: "sign_payload rt (cms_payload_json rt ?p) = Inr s" "public_key_b64 rt = Inr k"
    "len_between 1 512 s" "len_between 1 512 k" "b64decode k = Some raw"
    "signer_fingerprint rt = Inr (rt_sha256 rt raw)" "verify_payload rt (cms_payload_json rt ?p) s k"
    by (rule device_signer.signed_document [OF assms(1)])
  let ?r = "\<lparr>cr_payload = ?p, cr_signature_b64 = s, cr_public_key_b64 = k, cr_signer_fingerprint = rt_sha256 rt raw,
      cr_receipt_sha256 = cms_receipt_commitment rt ?p s k\<rparr>"
  have r: "wf_cms_receipt ?r"
    using s assms(1) by (simp add: wf_cms_receipt_def cms_receipt_commitment_def)
  have "build_cms_decision_receipt rt q a request_sha execution_sha (assessment_commitment rt a) = Inr ?r"
    using assms(6) s(1,2,6) cms_payload_model.validate_fix [OF p] cms_receipt_model.validate_fix [OF r]
    by (simp add: build_cms_decision_receipt_def)
  moreover have "verify_cms_decision_receipt rt ?r None = Inr True"
    using s by (simp add: verify_cms_decision_receipt_def trusted_fingerprint_def)
  moreover have "receipt_bound q a request_sha execution_sha (assessment_commitment rt a) ?r"
    by (simp add: receipt_bound_def)
  ultimately show ?thesis using p r by auto
qed

text \<open>
  C10: a CMS gets a receipt exactly when its request names the bytes and the commitment of the stored
  assessment; the receipt is bound to both, its workflow status is the one of the decision, and it
  verifies against the device key. A mismatch is an error, never a receipt.
\<close>

theorem cms_receipt_roundtrip:
  assumes "signing_ok rt" and "wf_cms_request q" and "wf_assessment a"
    and "is_sha256 request_sha" and "is_sha256 execution_sha"
  shows "if cq_expected_asset_sha256 q = ad_sha256 (as_asset a) \<and> assessment_sha = assessment_commitment rt a \<and>
      cq_expected_assessment_sha256 q = assessment_sha
    then \<exists>r. build_cms_decision_receipt rt q a request_sha execution_sha assessment_sha = Inr r \<and>
      wf_cms_receipt r \<and> wf_cms_payload (cr_payload r) \<and>
      receipt_bound q a request_sha execution_sha assessment_sha r \<and>
      verify_cms_decision_receipt rt r None = Inr True
    else \<exists>m. build_cms_decision_receipt rt q a request_sha execution_sha assessment_sha = Inl (ValueError m)"
  using cms_receipt_built [OF assms] by (auto simp: build_cms_decision_receipt_def)

lemma verify_cms_True:
  assumes "verify_cms_decision_receipt rt r expected = Inr True"
  shows "\<exists>public_key. b64decode (cr_public_key_b64 r) = Some public_key \<and>
      rt_sha256 rt public_key = cr_signer_fingerprint r \<and>
      trusted_fingerprint rt expected = Inr (cr_signer_fingerprint r) \<and>
      cms_receipt_commitment rt (cr_payload r) (cr_signature_b64 r) (cr_public_key_b64 r) = cr_receipt_sha256 r \<and>
      verify_payload rt (cms_payload_json rt (cr_payload r)) (cr_signature_b64 r) (cr_public_key_b64 r)"
  using assms
  by (auto simp: verify_cms_decision_receipt_def res_bind_Inr_iff split: option.splits if_splits)

subsection \<open>Receipts are tamper-evident\<close>

definition same_datetime_text :: "runtime \<Rightarrow> datetime \<Rightarrow> datetime \<Rightarrow> bool" where
  "same_datetime_text rt d e \<longleftrightarrow> rt_datetime rt d = rt_datetime rt e"

lemma cms_payload_json_inj:
  assumes "canon (cms_payload_json rt p) = canon (cms_payload_json rt p')"
    and "same_datetime_text rt (cp_assessed_at p) (cp_assessed_at p') \<Longrightarrow> cp_assessed_at p = cp_assessed_at p'"
  shows "p = p'"
proof -
  note F = assms(1) [unfolded cms_payload_json_def, THEN obj_field]
  have "cp_cms_system_id p = cp_cms_system_id p'" using F [of "''cms_system_id''"] by simp
  moreover have "cp_content_id p = cp_content_id p'" using F [of "''content_id''"] by simp
  moreover have "cp_assessment_idempotency_key p = cp_assessment_idempotency_key p'"
    using F [of "''assessment_idempotency_key''"] by simp
  moreover have "cp_assessment_id p = cp_assessment_id p'" using F [of "''assessment_id''"] by simp
  moreover have "cp_asset_sha256 p = cp_asset_sha256 p'" using F [of "''asset_sha256''"] by simp
  moreover have "cp_request_sha256 p = cp_request_sha256 p'" using F [of "''request_sha256''"] by simp
  moreover have "cp_execution_sha256 p = cp_execution_sha256 p'" using F [of "''execution_sha256''"] by simp
  moreover have "cp_assessment_sha256 p = cp_assessment_sha256 p'" using F [of "''assessment_sha256''"] by simp
  moreover have "cp_deployment_decision p = cp_deployment_decision p'"
    using F [of "''deployment_decision''"] by simp
  moreover have "cp_workflow_status p = cp_workflow_status p'" using F [of "''workflow_status''"] by simp
  moreover have "cp_assessed_at p = cp_assessed_at p'"
    using F [of "''assessed_at''"] assms(2) by (simp add: same_datetime_text_def)
  ultimately show ?thesis by simp
qed

definition cms_committed :: "runtime \<Rightarrow> cms_receipt \<Rightarrow> json" where
  "cms_committed rt r = JObj
     [(''payload'', cms_payload_json rt (cr_payload r)), (''public_key_b64'', JStr (cr_public_key_b64 r)),
      (''signature_b64'', JStr (cr_signature_b64 r))]"

text \<open>
  two different receipts that verify and carry the same receipt digest exhibit a collision of the
  digest function: two different committed texts with one digest (or two assessment instants with one
  text). So a verified receipt cannot be altered in any field without breaking SHA-256.
\<close>

theorem cms_receipt_tamper_evident:
  assumes "float_text_ok (rt_float rt)"
    and "verify_cms_decision_receipt rt r e = Inr True" and "verify_cms_decision_receipt rt r' e' = Inr True"
    and "cr_receipt_sha256 r = cr_receipt_sha256 r'" and "r \<noteq> r'"
    and "same_datetime_text rt (cp_assessed_at (cr_payload r)) (cp_assessed_at (cr_payload r')) \<Longrightarrow>
      cp_assessed_at (cr_payload r) = cp_assessed_at (cr_payload r')"
  shows "canonical_json_bytes rt (cms_committed rt r) \<noteq> canonical_json_bytes rt (cms_committed rt r') \<and>
    rt_sha256 rt (canonical_json_bytes rt (cms_committed rt r)) =
    rt_sha256 rt (canonical_json_bytes rt (cms_committed rt r'))"
proof -
  from verify_cms_True [OF assms(2)] obtain k where k: "b64decode (cr_public_key_b64 r) = Some k"
    "rt_sha256 rt k = cr_signer_fingerprint r" "receipt_hash rt (cms_committed rt r) = cr_receipt_sha256 r"
    by (auto simp: cms_receipt_commitment_def cms_committed_def)
  from verify_cms_True [OF assms(3)] obtain k' where k': "b64decode (cr_public_key_b64 r') = Some k'"
    "rt_sha256 rt k' = cr_signer_fingerprint r'" "receipt_hash rt (cms_committed rt r') = cr_receipt_sha256 r'"
    by (auto simp: cms_receipt_commitment_def cms_committed_def)
  have False if "canonical_json_bytes rt (cms_committed rt r) = canonical_json_bytes rt (cms_committed rt r')"
  proof -
    have c: "canon (cms_committed rt r) = canon (cms_committed rt r')"
      using that dumps_eq_iff [OF assms(1)] by (simp add: canonical_json_bytes_def)
    note F = c [unfolded cms_committed_def, THEN obj_field]
    have "cr_payload r = cr_payload r'"
      using F [of "''payload''"] by (intro cms_payload_json_inj [of rt]) (simp_all add: assms(6))
    moreover have key: "cr_public_key_b64 r = cr_public_key_b64 r'" using F [of "''public_key_b64''"] by simp
    moreover have "cr_signature_b64 r = cr_signature_b64 r'" using F [of "''signature_b64''"] by simp
    moreover have "cr_signer_fingerprint r = cr_signer_fingerprint r'" using k k' key by simp
    ultimately show False using assms(4,5) by simp
  qed
  then show ?thesis using assms(4) k(3) k'(3) by (auto simp: receipt_hash_def)
qed

subsection \<open>Concrete receipts\<close>

definition demo_cms_request :: "runtime \<Rightarrow> string \<Rightarrow> cms_request" where
  "demo_cms_request rt content = \<lparr>cq_cms_system_id = ''cms-1'', cq_content_id = content,
     cq_assessment_idempotency_key = ''key-1'', cq_expected_asset_sha256 = demo_sha,
     cq_expected_assessment_sha256 = assessment_commitment rt demo_assessment\<rparr>"

text \<open>A digest that maps every text to the same value.\<close>

definition colliding_runtime :: runtime where
  "colliding_runtime = demo_runtime\<lparr>rt_sha256 := \<lambda>_. demo_sha\<rparr>"

lemma signing_ok_colliding: "signing_ok colliding_runtime"
  using signing_ok_demo by (simp add: signing_ok_def colliding_runtime_def sha_ok_def)

lemma wf_demo_cms_request: "sha_ok rt \<Longrightarrow> is_id content \<Longrightarrow> wf_cms_request (demo_cms_request rt content)"
  by (simp add: wf_cms_request_def demo_cms_request_def assessment_commitment_def id_eval)

lemma demo_asset_sha: "ad_sha256 (as_asset demo_assessment) = demo_sha"
  by (simp add: demo_assessment_def demo_asset_def)

lemma demo_receipt:
  assumes "signing_ok rt" and "is_id content"
  shows "\<exists>r. build_cms_decision_receipt rt (demo_cms_request rt content) demo_assessment demo_sha demo_sha
      (assessment_commitment rt demo_assessment) = Inr r \<and>
    cp_content_id (cr_payload r) = content \<and> cp_assessed_at (cr_payload r) = utc 0 \<and>
    cp_deployment_decision (cr_payload r) = Decision_GO \<and>
    cr_receipt_sha256 r \<in> range (rt_sha256 rt) \<and> verify_cms_decision_receipt rt r None = Inr True \<and>
    wf_cms_receipt r \<and> wf_cms_payload (cr_payload r)"
proof -
  let ?q = "demo_cms_request rt content"
  have "cq_expected_asset_sha256 ?q = ad_sha256 (as_asset demo_assessment) \<and>
      cq_expected_assessment_sha256 ?q = assessment_commitment rt demo_assessment"
    by (simp add: demo_cms_request_def demo_asset_sha)
  then obtain r where r: "build_cms_decision_receipt rt ?q demo_assessment demo_sha demo_sha
      (assessment_commitment rt demo_assessment) = Inr r"
    "wf_cms_receipt r" "wf_cms_payload (cr_payload r)"
    "receipt_bound ?q demo_assessment demo_sha demo_sha (assessment_commitment rt demo_assessment) r"
    "verify_cms_decision_receipt rt r None = Inr True"
    using cms_receipt_built [OF assms(1) wf_demo_cms_request [OF signing_ok_sha [OF assms(1)] assms(2)] wf_demo_assessment
      is_sha256_demo is_sha256_demo] by blast
  moreover have "cr_receipt_sha256 r \<in> range (rt_sha256 rt)"
    using verify_cms_True [OF r(5)] unfolding cms_receipt_commitment_def receipt_hash_def
    by (metis rangeI)
  ultimately show ?thesis
    by (auto simp: receipt_bound_def demo_cms_request_def demo_assessment_def)
qed

theorem cms_receipt_roundtrip_witness:
  "\<exists>r. build_cms_decision_receipt demo_runtime (demo_cms_request demo_runtime ''page-1'') demo_assessment demo_sha demo_sha
      (assessment_commitment demo_runtime demo_assessment) = Inr r \<and>
    cp_workflow_status (cr_payload r) = Status_READY_FOR_RELEASE_AUTHORIZATION \<and>
    verify_cms_decision_receipt demo_runtime r None = Inr True"
proof -
  have id: "is_id ''page-1''" by (simp add: id_eval)
  have "cq_expected_asset_sha256 (demo_cms_request demo_runtime ''page-1'') = ad_sha256 (as_asset demo_assessment)"
    "cq_expected_assessment_sha256 (demo_cms_request demo_runtime ''page-1'') = assessment_commitment demo_runtime demo_assessment"
    by (simp_all add: demo_cms_request_def demo_asset_sha)
  with cms_receipt_roundtrip [OF signing_ok_demo wf_demo_cms_request [OF sha_ok_demo id] wf_demo_assessment
      is_sha256_demo is_sha256_demo, of "assessment_commitment demo_runtime demo_assessment"]
  show ?thesis by (auto simp: receipt_bound_def demo_assessment_def)
qed

theorem cms_receipt_tamper_evident_witness:
  "\<exists>r r'. r \<noteq> r' \<and> verify_cms_decision_receipt colliding_runtime r None = Inr True \<and>
    verify_cms_decision_receipt colliding_runtime r' None = Inr True \<and>
    canonical_json_bytes colliding_runtime (cms_committed colliding_runtime r) \<noteq>
    canonical_json_bytes colliding_runtime (cms_committed colliding_runtime r')"
proof -
  have ids: "is_id ''page-1''" "is_id ''page-2''" by (simp_all add: id_eval)
  obtain r where r: "cp_content_id (cr_payload r) = ''page-1''" "cp_assessed_at (cr_payload r) = utc 0"
    "cr_receipt_sha256 r = demo_sha" "verify_cms_decision_receipt colliding_runtime r None = Inr True"
    using demo_receipt [OF signing_ok_colliding ids(1)] by (auto simp: colliding_runtime_def)
  obtain r' where r': "cp_content_id (cr_payload r') = ''page-2''" "cp_assessed_at (cr_payload r') = utc 0"
    "cr_receipt_sha256 r' = demo_sha" "verify_cms_decision_receipt colliding_runtime r' None = Inr True"
    using demo_receipt [OF signing_ok_colliding ids(2)] by (auto simp: colliding_runtime_def)
  have ne: "r \<noteq> r'" using r(1) r'(1) by auto
  have fl: "float_text_ok (rt_float colliding_runtime)"
    by (simp add: colliding_runtime_def demo_runtime_def ratio_text_ok)
  from cms_receipt_tamper_evident [OF fl r(4) r'(4) _ ne] r r' ne show ?thesis by auto
qed

end
