(* ===== verification/Release.thy ===== *)
theory Release
  imports Integration
begin

section \<open>Dual-control release authorisation\<close>

text \<open>
  \<open>rightsgate/release_authorization.py\<close>: a release needs a verified GO receipt and two signed approvals,
  one of a rights reviewer and one of a release manager, whose keys come from the governed registry only.
  The literal fields of the models (\<open>action\<close>, \<open>signature_algorithm\<close>, the schemas,
  \<open>release_authorization\<close>) are constants of the payloads. \<open>str(error)\<close> of a \<open>ValueError\<close> raised by
  the module is its message; the text pydantic gives a validation error is \<open>rt_error_text\<close>.
\<close>

subsection \<open>Reviewers and their registry\<close>

datatype reviewer_role = Role_RIGHTS_REVIEWER | Role_RELEASE_MANAGER

primrec reviewer_role_value :: "reviewer_role \<Rightarrow> string" where
  "reviewer_role_value Role_RIGHTS_REVIEWER = ''RIGHTS_REVIEWER''"
| "reviewer_role_value Role_RELEASE_MANAGER = ''RELEASE_MANAGER''"

lemma reviewer_role_value_inj [simp]: "reviewer_role_value a = reviewer_role_value b \<longleftrightarrow> a = b"
  by (cases a; cases b; simp)

record trusted_reviewer =
  tr_reviewer_id :: string
  tr_display_name :: string
  tr_role :: reviewer_role
  tr_public_key_b64 :: string
  tr_public_key_sha256 :: string
  tr_active :: bool
  tr_valid_from :: datetime
  tr_valid_until :: "datetime option"

definition reviewer_window_error :: "trusted_reviewer \<Rightarrow> py_error option" where
  "reviewer_window_error r =
     (if \<not> is_aware (tr_valid_from r)
      then Some (ModelError ''TrustedReviewer'' ''reviewer valid_from must be timezone-aware'')
      else case tr_valid_until r of
        None \<Rightarrow> None
      | Some until \<Rightarrow>
          if \<not> is_aware until then Some (ModelError ''TrustedReviewer'' ''reviewer valid_until must be timezone-aware'')
          else if instant until \<le> instant (tr_valid_from r)
          then Some (ModelError ''TrustedReviewer'' ''reviewer valid_until must be after valid_from'')
          else None)"

definition reviewer_key_error :: "runtime \<Rightarrow> trusted_reviewer \<Rightarrow> py_error option" where
  "reviewer_key_error rt r =
     (case b64decode (tr_public_key_b64 r) of
        None \<Rightarrow> Some (ModelError ''TrustedReviewer'' ''reviewer public key must be valid base64'')
      | Some public_key \<Rightarrow>
          if length public_key \<noteq> 32
          then Some (ModelError ''TrustedReviewer'' ''reviewer public key must contain 32 Ed25519 bytes'')
          else if rt_sha256 rt public_key \<noteq> tr_public_key_sha256 r
          then Some (ModelError ''TrustedReviewer'' ''reviewer public-key fingerprint does not match'')
          else None)"

definition validate_reviewer :: "runtime \<Rightarrow> trusted_reviewer \<Rightarrow> trusted_reviewer res" where
  "validate_reviewer rt r =
     check_fields ''TrustedReviewer''
       [(''reviewer_id'', is_id (tr_reviewer_id r)), (''display_name'', len_between 1 200 (tr_display_name r)),
        (''public_key_b64'', len_between 1 128 (tr_public_key_b64 r)),
        (''public_key_sha256'', is_sha256 (tr_public_key_sha256 r))]
       (raise_first (reviewer_window_error r) (raise_first (reviewer_key_error rt r) (Inr r)))"

definition wf_reviewer :: "runtime \<Rightarrow> trusted_reviewer \<Rightarrow> bool" where
  "wf_reviewer rt r \<longleftrightarrow> is_id (tr_reviewer_id r) \<and> len_between 1 200 (tr_display_name r) \<and>
     len_between 1 128 (tr_public_key_b64 r) \<and> is_sha256 (tr_public_key_sha256 r) \<and>
     reviewer_window_error r = None \<and> reviewer_key_error rt r = None"

interpretation reviewer_model: validated_model "validate_reviewer rt" "wf_reviewer rt" for rt
  by unfold_locales (auto simp: validate_reviewer_def wf_reviewer_def check_fields_ok)

lemma reviewer_key:
  "wf_reviewer rt r \<Longrightarrow> \<exists>k. b64decode (tr_public_key_b64 r) = Some k \<and> length k = 32 \<and>
     rt_sha256 rt k = tr_public_key_sha256 r"
  by (auto simp: wf_reviewer_def reviewer_key_error_def split: option.splits if_splits)

record reviewer_registry =
  vr_registry_id :: string
  vr_version :: string
  vr_reviewers :: "trusted_reviewer list"

definition validate_reviewer_registry :: "reviewer_registry \<Rightarrow> reviewer_registry res" where
  "validate_reviewer_registry r =
     check_fields ''ReviewerTrustRegistry''
       [(''registry_id'', is_id (vr_registry_id r)), (''version'', len_between 1 100 (vr_version r)),
        (''reviewers'', len_between 2 1000 (vr_reviewers r) \<and> distinct (map tr_reviewer_id (vr_reviewers r)) \<and>
           distinct (map tr_public_key_sha256 (vr_reviewers r)))]
       (Inr (r\<lparr>vr_reviewers := sort_key tr_reviewer_id (vr_reviewers r)\<rparr>))"

definition wf_reviewer_registry :: "reviewer_registry \<Rightarrow> bool" where
  "wf_reviewer_registry r \<longleftrightarrow> is_id (vr_registry_id r) \<and> len_between 1 100 (vr_version r) \<and>
     len_between 2 1000 (vr_reviewers r) \<and> distinct (map tr_reviewer_id (vr_reviewers r)) \<and>
     distinct (map tr_public_key_sha256 (vr_reviewers r)) \<and> sorted (map tr_reviewer_id (vr_reviewers r))"

interpretation reviewer_registry_model: validated_model validate_reviewer_registry wf_reviewer_registry
  by unfold_locales (auto simp: validate_reviewer_registry_def wf_reviewer_registry_def check_fields_ok
      len_between_def distinct_map_sort_key sort_key_id_if_sorted)

interpretation reviewers: keyed_registry tr_reviewer_id vr_reviewers wf_reviewer_registry
  by unfold_locales (simp add: wf_reviewer_registry_def)

interpretation reviewer_keys: keyed_registry tr_public_key_sha256 vr_reviewers wf_reviewer_registry
  by unfold_locales (simp add: wf_reviewer_registry_def)

definition reviewer_payload :: "runtime \<Rightarrow> trusted_reviewer \<Rightarrow> json" where
  "reviewer_payload rt r = JObj (
     [(''reviewer_id'', JStr (tr_reviewer_id r)), (''display_name'', JStr (tr_display_name r)),
      (''role'', JStr (reviewer_role_value (tr_role r))), (''public_key_b64'', JStr (tr_public_key_b64 r)),
      (''public_key_sha256'', JStr (tr_public_key_sha256 r)), (''active'', JBool (tr_active r)),
      (''valid_from'', JStr (rt_datetime rt (tr_valid_from r)))] @
     opt_field True ''valid_until'' (\<lambda>d. JStr (rt_datetime rt d)) (tr_valid_until r))"

definition reviewer_registry_payload :: "runtime \<Rightarrow> reviewer_registry \<Rightarrow> json" where
  "reviewer_registry_payload rt r = JObj
     [(''schema'', JStr ''veilgraph.rightsgate.reviewer-trust-registry.v1''),
      (''registry_id'', JStr (vr_registry_id r)), (''version'', JStr (vr_version r)),
      (''reviewers'', JArr (map (reviewer_payload rt) (vr_reviewers r)))]"

definition reviewer_registry_commitment :: "runtime \<Rightarrow> reviewer_registry \<Rightarrow> string" where
  "reviewer_registry_commitment rt r = receipt_hash rt (reviewer_registry_payload rt r)"

subsection \<open>Approvals\<close>

record approval_payload =
  ap_approval_id :: string
  ap_reviewer_id :: string
  ap_reviewer_role :: reviewer_role
  ap_cms_receipt_sha256 :: string
  ap_assessment_sha256 :: string
  ap_asset_sha256 :: string
  ap_cms_system_id :: string
  ap_content_id :: string
  ap_reason :: string
  ap_reviewed_at :: datetime

definition validate_approval_payload :: "approval_payload \<Rightarrow> approval_payload res" where
  "validate_approval_payload p =
     check_fields ''ReleaseApprovalPayload''
       [(''approval_id'', is_id (ap_approval_id p)), (''reviewer_id'', is_id (ap_reviewer_id p)),
        (''cms_receipt_sha256'', is_sha256 (ap_cms_receipt_sha256 p)),
        (''assessment_sha256'', is_sha256 (ap_assessment_sha256 p)), (''asset_sha256'', is_sha256 (ap_asset_sha256 p)),
        (''cms_system_id'', is_id (ap_cms_system_id p)), (''content_id'', is_id (ap_content_id p)),
        (''reason'', len_between 12 1000 (ap_reason p))]
       (if \<not> is_aware (ap_reviewed_at p)
        then Inl (ModelError ''ReleaseApprovalPayload'' ''reviewed_at must be timezone-aware'')
        else Inr p)"

definition wf_approval_payload :: "approval_payload \<Rightarrow> bool" where
  "wf_approval_payload p \<longleftrightarrow> is_id (ap_approval_id p) \<and> is_id (ap_reviewer_id p) \<and>
     is_sha256 (ap_cms_receipt_sha256 p) \<and> is_sha256 (ap_assessment_sha256 p) \<and> is_sha256 (ap_asset_sha256 p) \<and>
     is_id (ap_cms_system_id p) \<and> is_id (ap_content_id p) \<and> len_between 12 1000 (ap_reason p) \<and>
     is_aware (ap_reviewed_at p)"

interpretation approval_payload_model: validated_model validate_approval_payload wf_approval_payload
  by unfold_locales (auto simp: validate_approval_payload_def wf_approval_payload_def check_fields_ok)

definition approval_payload_json :: "runtime \<Rightarrow> approval_payload \<Rightarrow> json" where
  "approval_payload_json rt p = JObj
     [(''approval_schema'', JStr ''veilgraph.rightsgate.release-approval.v1''),
      (''approval_id'', JStr (ap_approval_id p)), (''reviewer_id'', JStr (ap_reviewer_id p)),
      (''reviewer_role'', JStr (reviewer_role_value (ap_reviewer_role p))),
      (''cms_receipt_sha256'', JStr (ap_cms_receipt_sha256 p)),
      (''assessment_sha256'', JStr (ap_assessment_sha256 p)), (''asset_sha256'', JStr (ap_asset_sha256 p)),
      (''cms_system_id'', JStr (ap_cms_system_id p)), (''content_id'', JStr (ap_content_id p)),
      (''action'', JStr ''APPROVE_RELEASE''), (''reason'', JStr (ap_reason p)),
      (''reviewed_at'', JStr (rt_datetime rt (ap_reviewed_at p)))]"

record attestation =
  at_payload :: approval_payload
  at_signature_b64 :: string

definition validate_attestation :: "attestation \<Rightarrow> attestation res" where
  "validate_attestation a =
     check_fields ''ReviewerAttestation'' [(''signature_b64'', len_between 1 512 (at_signature_b64 a))] (Inr a)"

definition wf_attestation :: "attestation \<Rightarrow> bool" where
  "wf_attestation a \<longleftrightarrow> len_between 1 512 (at_signature_b64 a)"

interpretation attestation_model: validated_model validate_attestation wf_attestation
  by unfold_locales (auto simp: validate_attestation_def wf_attestation_def check_fields_ok)

definition attestation_json :: "runtime \<Rightarrow> attestation \<Rightarrow> json" where
  "attestation_json rt a = JObj
     [(''payload'', approval_payload_json rt (at_payload a)), (''signature_algorithm'', JStr ''Ed25519''),
      (''signature_b64'', JStr (at_signature_b64 a))]"

definition attestation_commitment :: "runtime \<Rightarrow> attestation \<Rightarrow> string" where
  "attestation_commitment rt a = receipt_hash rt (attestation_json rt a)"

record release_request =
  rl_decision_receipt :: cms_receipt
  rl_approvals :: "attestation list"

abbreviation approval_id_of :: "attestation \<Rightarrow> string" where
  "approval_id_of a \<equiv> ap_approval_id (at_payload a)"

abbreviation reviewer_id_of :: "attestation \<Rightarrow> string" where
  "reviewer_id_of a \<equiv> ap_reviewer_id (at_payload a)"

definition validate_release_request :: "release_request \<Rightarrow> release_request res" where
  "validate_release_request q =
     check_fields ''ReleaseAuthorizationRequest''
       [(''approvals'', len_between 2 10 (rl_approvals q) \<and> distinct (map approval_id_of (rl_approvals q)) \<and>
           distinct (map reviewer_id_of (rl_approvals q)))]
       (Inr (q\<lparr>rl_approvals := sort_key approval_id_of (rl_approvals q)\<rparr>))"

definition wf_release_request :: "release_request \<Rightarrow> bool" where
  "wf_release_request q \<longleftrightarrow> len_between 2 10 (rl_approvals q) \<and> distinct (map approval_id_of (rl_approvals q)) \<and>
     distinct (map reviewer_id_of (rl_approvals q)) \<and> sorted (map approval_id_of (rl_approvals q))"

interpretation release_request_model: validated_model validate_release_request wf_release_request
  by unfold_locales (auto simp: validate_release_request_def wf_release_request_def check_fields_ok
      len_between_def distinct_map_sort_key sort_key_id_if_sorted)

subsection \<open>Authorisations\<close>

record authorization_payload =
  az_authorization_id :: string
  az_cms_receipt_sha256 :: string
  az_assessment_sha256 :: string
  az_asset_sha256 :: string
  az_cms_system_id :: string
  az_content_id :: string
  az_reviewer_registry_sha256 :: string
  az_approval_sha256s :: "string list"
  az_reviewer_ids :: "string list"
  az_issued_at :: datetime
  az_expires_at :: datetime

definition authorization_window_error :: "authorization_payload \<Rightarrow> py_error option" where
  "authorization_window_error p =
     (let bad = (\<lambda>m. Some (ModelError ''ReleaseAuthorizationPayload'' m))
      in if \<not> is_aware (az_issued_at p) then bad ''issued_at must be timezone-aware''
         else if \<not> is_aware (az_expires_at p) then bad ''expires_at must be timezone-aware''
         else if instant (az_expires_at p) \<le> instant (az_issued_at p) then bad ''expires_at must be after issued_at''
         else if \<not> distinct (az_approval_sha256s p) then bad ''approval commitments must be unique''
         else if \<not> distinct (az_reviewer_ids p) then bad ''reviewer IDs must be unique''
         else None)"

definition authorization_fields :: "authorization_payload \<Rightarrow> (string \<times> bool) list" where
  "authorization_fields p =
     [(''authorization_id'', is_id (az_authorization_id p)),
      (''cms_receipt_sha256'', is_sha256 (az_cms_receipt_sha256 p)),
      (''assessment_sha256'', is_sha256 (az_assessment_sha256 p)), (''asset_sha256'', is_sha256 (az_asset_sha256 p)),
      (''cms_system_id'', is_id (az_cms_system_id p)), (''content_id'', is_id (az_content_id p)),
      (''reviewer_registry_sha256'', is_sha256 (az_reviewer_registry_sha256 p)),
      (''approval_sha256s'', len_between 2 10 (az_approval_sha256s p)),
      (''reviewer_ids'', len_between 2 10 (az_reviewer_ids p))]"

definition validate_authorization_payload :: "authorization_payload \<Rightarrow> authorization_payload res" where
  "validate_authorization_payload p =
     check_fields ''ReleaseAuthorizationPayload'' (authorization_fields p)
       (raise_first (authorization_window_error p) (Inr p))"

definition wf_authorization_payload :: "authorization_payload \<Rightarrow> bool" where
  "wf_authorization_payload p \<longleftrightarrow> list_all snd (authorization_fields p) \<and> authorization_window_error p = None"

interpretation authorization_payload_model: validated_model validate_authorization_payload wf_authorization_payload
  by unfold_locales (auto simp: validate_authorization_payload_def wf_authorization_payload_def check_fields_ok)

definition authorization_json :: "runtime \<Rightarrow> authorization_payload \<Rightarrow> json" where
  "authorization_json rt p = JObj
     [(''schema'', JStr ''veilgraph.rightsgate.release-authorization-payload.v1''),
      (''authorization_id'', JStr (az_authorization_id p)),
      (''cms_receipt_sha256'', JStr (az_cms_receipt_sha256 p)),
      (''assessment_sha256'', JStr (az_assessment_sha256 p)), (''asset_sha256'', JStr (az_asset_sha256 p)),
      (''cms_system_id'', JStr (az_cms_system_id p)), (''content_id'', JStr (az_content_id p)),
      (''reviewer_registry_sha256'', JStr (az_reviewer_registry_sha256 p)),
      (''approval_sha256s'', strs (az_approval_sha256s p)), (''reviewer_ids'', strs (az_reviewer_ids p)),
      (''issued_at'', JStr (rt_datetime rt (az_issued_at p))),
      (''expires_at'', JStr (rt_datetime rt (az_expires_at p))), (''release_authorization'', JBool True)]"

record authorization_receipt =
  rz_payload :: authorization_payload
  rz_decision_receipt :: cms_receipt
  rz_approvals :: "attestation list"
  rz_signature_b64 :: string
  rz_public_key_b64 :: string
  rz_signer_fingerprint :: string
  rz_receipt_sha256 :: string

definition validate_authorization_receipt :: "authorization_receipt \<Rightarrow> authorization_receipt res" where
  "validate_authorization_receipt r =
     check_fields ''ReleaseAuthorizationReceipt''
       [(''signature_b64'', len_between 1 512 (rz_signature_b64 r)),
        (''public_key_b64'', len_between 1 512 (rz_public_key_b64 r)),
        (''signer_fingerprint'', is_sha256 (rz_signer_fingerprint r)),
        (''receipt_sha256'', is_sha256 (rz_receipt_sha256 r))]
       (Inr r)"

definition wf_authorization_receipt :: "authorization_receipt \<Rightarrow> bool" where
  "wf_authorization_receipt r \<longleftrightarrow> len_between 1 512 (rz_signature_b64 r) \<and> len_between 1 512 (rz_public_key_b64 r) \<and>
     is_sha256 (rz_signer_fingerprint r) \<and> is_sha256 (rz_receipt_sha256 r)"

interpretation authorization_receipt_model: validated_model validate_authorization_receipt wf_authorization_receipt
  by unfold_locales (auto simp: validate_authorization_receipt_def wf_authorization_receipt_def check_fields_ok)

record release_verification =
  rv_receipt_sha256 :: string
  rv_valid :: bool
  rv_release_authorization :: bool
  rv_reason :: string

definition validate_release_verification :: "release_verification \<Rightarrow> release_verification res" where
  "validate_release_verification v =
     check_fields ''ReleaseAuthorizationVerification''
       [(''receipt_sha256'', is_sha256 (rv_receipt_sha256 v)), (''reason'', len_between 1 500 (rv_reason v))] (Inr v)"

definition cms_receipt_json :: "runtime \<Rightarrow> cms_receipt \<Rightarrow> json" where
  "cms_receipt_json rt r = JObj
     [(''receipt_schema'', JStr ''veilgraph.rightsgate.cms-decision-receipt.v1''),
      (''payload'', cms_payload_json rt (cr_payload r)), (''signature_algorithm'', JStr ''Ed25519''),
      (''signature_b64'', JStr (cr_signature_b64 r)), (''public_key_b64'', JStr (cr_public_key_b64 r)),
      (''signer_fingerprint'', JStr (cr_signer_fingerprint r)), (''receipt_sha256'', JStr (cr_receipt_sha256 r))]"

definition release_commitment ::
    "runtime \<Rightarrow> authorization_payload \<Rightarrow> cms_receipt \<Rightarrow> attestation list \<Rightarrow> string \<Rightarrow> string \<Rightarrow> string" where
  "release_commitment rt payload decision approvals signature_b64 public_key_b64_value = receipt_hash rt (JObj
     [(''approvals'', JArr (map (attestation_json rt) approvals)),
      (''decision_receipt'', cms_receipt_json rt decision), (''payload'', authorization_json rt payload),
      (''public_key_b64'', JStr public_key_b64_value), (''signature_b64'', JStr signature_b64)])"

subsection \<open>Checking the approvals\<close>

text \<open>\<open>expected_bindings\<close>: the first field that differs from the CMS decision.\<close>

definition binding_error :: "cms_receipt \<Rightarrow> approval_payload \<Rightarrow> py_error option" where
  "binding_error decision p =
     first_error (\<lambda>(field, actual, expected).
         if actual \<noteq> expected
         then Some (ValueError (''release approval '' @ field @ '' does not match the CMS decision'')) else None)
       [(''cms_receipt_sha256'', ap_cms_receipt_sha256 p, cr_receipt_sha256 decision),
        (''assessment_sha256'', ap_assessment_sha256 p, cp_assessment_sha256 (cr_payload decision)),
        (''asset_sha256'', ap_asset_sha256 p, cp_asset_sha256 (cr_payload decision)),
        (''cms_system_id'', ap_cms_system_id p, cp_cms_system_id (cr_payload decision)),
        (''content_id'', ap_content_id p, cp_content_id (cr_payload decision))]"

definition outside_key_validity :: "trusted_reviewer \<Rightarrow> datetime \<Rightarrow> bool" where
  "outside_key_validity reviewer reviewed_at \<longleftrightarrow>
     instant reviewed_at < instant (tr_valid_from reviewer) \<or>
     (case tr_valid_until reviewer of None \<Rightarrow> False | Some until \<Rightarrow> instant until < instant reviewed_at)"

definition approval_error ::
    "runtime \<Rightarrow> cms_receipt \<Rightarrow> reviewer_registry \<Rightarrow> datetime \<Rightarrow> int \<Rightarrow> attestation \<Rightarrow> py_error option" where
  "approval_error rt decision registry now max_review_age_seconds attestation =
     (let approval = at_payload attestation;
          who = ''reviewer '' @ ap_reviewer_id approval;
          bad = (\<lambda>m. Some (ValueError m))
      in case dict_by tr_reviewer_id (vr_reviewers registry) (ap_reviewer_id approval) of
        None \<Rightarrow> bad (who @ '' is not actively trusted'')
      | Some reviewer \<Rightarrow>
          if \<not> tr_active reviewer then bad (who @ '' is not actively trusted'')
          else if tr_role reviewer \<noteq> ap_reviewer_role approval then bad (who @ '' asserted an untrusted role'')
          else if outside_key_validity reviewer (ap_reviewed_at approval)
          then bad (who @ '' approval is outside key validity'')
          else if instant (ap_reviewed_at approval) < instant (cp_assessed_at (cr_payload decision))
          then bad ''release approval predates the bound assessment''
          else if instant now + 300 * 1000000 < instant (ap_reviewed_at approval)
          then bad ''release approval timestamp is too far in the future''
          else if max_review_age_seconds * 1000000 < instant now - instant (ap_reviewed_at approval)
          then bad ''release approval is stale''
          else case binding_error decision approval of
            Some e \<Rightarrow> Some e
          | None \<Rightarrow>
              if \<not> verify_payload rt (approval_payload_json rt approval) (at_signature_b64 attestation)
                    (tr_public_key_b64 reviewer)
              then bad (who @ '' signature is invalid'')
              else None)"

definition validate_approvals ::
    "runtime \<Rightarrow> release_request \<Rightarrow> reviewer_registry \<Rightarrow> datetime \<Rightarrow> int \<Rightarrow> unit res" where
  "validate_approvals rt request registry now max_review_age_seconds =
     (if \<not> is_aware now then Inl (ValueError ''now must be timezone-aware'')
      else if max_review_age_seconds < 60 then Inl (ValueError ''max_review_age_seconds must be at least 60'')
      else let decision = rl_decision_receipt request
        in res_bind (verify_cms_decision_receipt rt decision None) (\<lambda>authentic.
          if \<not> authentic then Inl (ValueError ''CMS decision receipt is invalid or signed by an untrusted signer'')
          else if cp_deployment_decision (cr_payload decision) \<noteq> Decision_GO \<or>
             cp_workflow_status (cr_payload decision) \<noteq> Status_READY_FOR_RELEASE_AUTHORIZATION
          then Inl (ValueError ''only a valid GO decision can enter release authorization'')
          else raise_first
            (first_error (approval_error rt decision registry now max_review_age_seconds) (rl_approvals request))
            (if \<not> {Role_RIGHTS_REVIEWER, Role_RELEASE_MANAGER} \<subseteq>
                 set (map (\<lambda>a. ap_reviewer_role (at_payload a)) (rl_approvals request))
             then Inl (ValueError ''release requires distinct RIGHTS_REVIEWER and RELEASE_MANAGER approvals'')
             else Inr ())))"

subsection \<open>Issuing\<close>

definition authorization_token :: "runtime \<Rightarrow> release_request \<Rightarrow> reviewer_registry \<Rightarrow> string" where
  "authorization_token rt request registry = take 32 (receipt_hash rt (JObj
     [(''approvals'', strs (map (attestation_commitment rt) (rl_approvals request))),
      (''decision_receipt_sha256'', JStr (cr_receipt_sha256 (rl_decision_receipt request))),
      (''registry_sha256'', JStr (reviewer_registry_commitment rt registry))]))"

definition release_payload ::
    "runtime \<Rightarrow> release_request \<Rightarrow> reviewer_registry \<Rightarrow> datetime \<Rightarrow> int \<Rightarrow> authorization_payload" where
  "release_payload rt request registry now authorization_ttl_seconds =
     (let decision = rl_decision_receipt request
      in \<lparr>az_authorization_id = ''release.'' @ authorization_token rt request registry,
          az_cms_receipt_sha256 = cr_receipt_sha256 decision,
          az_assessment_sha256 = cp_assessment_sha256 (cr_payload decision),
          az_asset_sha256 = cp_asset_sha256 (cr_payload decision),
          az_cms_system_id = cp_cms_system_id (cr_payload decision),
          az_content_id = cp_content_id (cr_payload decision),
          az_reviewer_registry_sha256 = reviewer_registry_commitment rt registry,
          az_approval_sha256s = map (attestation_commitment rt) (rl_approvals request),
          az_reviewer_ids = sort (map reviewer_id_of (rl_approvals request)),
          az_issued_at = now, az_expires_at = plus_seconds now authorization_ttl_seconds\<rparr>)"

definition build_release_authorization_receipt ::
    "runtime \<Rightarrow> release_request \<Rightarrow> reviewer_registry \<Rightarrow> datetime \<Rightarrow> int \<Rightarrow> int \<Rightarrow> authorization_receipt res" where
  "build_release_authorization_receipt rt request registry now authorization_ttl_seconds max_review_age_seconds =
     (if \<not> (60 \<le> authorization_ttl_seconds \<and> authorization_ttl_seconds \<le> 3600)
      then Inl (ValueError ''authorization TTL must be between 60 and 3600 seconds'')
      else res_bind (validate_approvals rt request registry now max_review_age_seconds) (\<lambda>_.
        res_bind (validate_authorization_payload (release_payload rt request registry now authorization_ttl_seconds))
          (\<lambda>payload.
        res_bind (sign_payload rt (authorization_json rt payload)) (\<lambda>signature.
        res_bind (public_key_b64 rt) (\<lambda>public_key.
        res_bind (signer_fingerprint rt) (\<lambda>fingerprint.
        validate_authorization_receipt
          \<lparr>rz_payload = payload, rz_decision_receipt = rl_decision_receipt request,
           rz_approvals = rl_approvals request, rz_signature_b64 = signature, rz_public_key_b64 = public_key,
           rz_signer_fingerprint = fingerprint,
           rz_receipt_sha256 = release_commitment rt payload (rl_decision_receipt request) (rl_approvals request)
             signature public_key\<rparr>))))))"

subsection \<open>Verifying\<close>

definition invalid_release :: "authorization_receipt \<Rightarrow> string \<Rightarrow> release_verification res" where
  "invalid_release r reason = validate_release_verification
     \<lparr>rv_receipt_sha256 = rz_receipt_sha256 r, rv_valid = False, rv_release_authorization = False, rv_reason = reason\<rparr>"

text \<open>The checks on the receipt itself, up to the bundled approvals: the reason of the first that fails.\<close>

definition receipt_reason ::
    "runtime \<Rightarrow> authorization_receipt \<Rightarrow> reviewer_registry \<Rightarrow> string \<Rightarrow> string option" where
  "receipt_reason rt r registry trusted_signer =
     (if rz_signer_fingerprint r \<noteq> trusted_signer then Some ''release signer is not trusted''
      else if az_reviewer_registry_sha256 (rz_payload r) \<noteq> reviewer_registry_commitment rt registry
      then Some ''reviewer trust registry commitment changed''
      else if release_commitment rt (rz_payload r) (rz_decision_receipt r) (rz_approvals r) (rz_signature_b64 r)
            (rz_public_key_b64 r) \<noteq> rz_receipt_sha256 r
      then Some ''release receipt commitment does not match''
      else if \<not> verify_payload rt (authorization_json rt (rz_payload r)) (rz_signature_b64 r) (rz_public_key_b64 r)
      then Some ''release receipt signature is invalid''
      else if az_cms_receipt_sha256 (rz_payload r) \<noteq> cr_receipt_sha256 (rz_decision_receipt r)
      then Some ''release payload is not bound to the bundled CMS receipt''
      else if map (attestation_commitment rt) (rz_approvals r) \<noteq> az_approval_sha256s (rz_payload r)
      then Some ''release payload is not bound to the bundled approvals''
      else if sort (map reviewer_id_of (rz_approvals r)) \<noteq> az_reviewer_ids (rz_payload r)
      then Some ''release reviewer identities do not match the payload''
      else None)"

definition decision_binding_differs :: "authorization_receipt \<Rightarrow> bool" where
  "decision_binding_differs r \<longleftrightarrow>
     (let decision = cr_payload (rz_decision_receipt r)
      in az_assessment_sha256 (rz_payload r) \<noteq> cp_assessment_sha256 decision \<or>
         az_asset_sha256 (rz_payload r) \<noteq> cp_asset_sha256 decision \<or>
         az_cms_system_id (rz_payload r) \<noteq> cp_cms_system_id decision \<or>
         az_content_id (rz_payload r) \<noteq> cp_content_id decision)"

definition verify_release_authorization_receipt ::
    "runtime \<Rightarrow> authorization_receipt \<Rightarrow> reviewer_registry \<Rightarrow> datetime \<Rightarrow> string option \<Rightarrow> release_verification res" where
  "verify_release_authorization_receipt rt r registry now expected =
     (if \<not> is_aware now then invalid_release r ''verification time must be timezone-aware''
      else if instant (az_expires_at (rz_payload r)) < instant now
      then invalid_release r ''release authorization has expired''
      else if instant now + 300 * 1000000 < instant (az_issued_at (rz_payload r))
      then invalid_release r ''release authorization was issued in the future''
      else case b64decode (rz_public_key_b64 r) of
        None \<Rightarrow> invalid_release r ''release signer public key is malformed''
      | Some public_key \<Rightarrow>
          if rt_sha256 rt public_key \<noteq> rz_signer_fingerprint r
          then invalid_release r ''release signer fingerprint does not match its public key''
          else res_bind (trusted_fingerprint rt expected) (\<lambda>trusted_signer.
            case receipt_reason rt r registry trusted_signer of
              Some reason \<Rightarrow> invalid_release r reason
            | None \<Rightarrow>
                (case res_bind (validate_release_request
                     \<lparr>rl_decision_receipt = rz_decision_receipt r, rl_approvals = rz_approvals r\<rparr>) (\<lambda>request.
                     validate_approvals rt request registry now 86400) of
                   Inl e \<Rightarrow> if is_value_error e then invalid_release r (error_text rt e) else Inl e
                 | Inr _ \<Rightarrow>
                     if decision_binding_differs r
                     then invalid_release r ''release payload bindings do not match the CMS decision''
                     else validate_release_verification
                       \<lparr>rv_receipt_sha256 = rz_receipt_sha256 r, rv_valid = True, rv_release_authorization = True,
                        rv_reason = ''GO decision and both currently trusted role-separated approvals verified.''\<rparr>)))"

subsection \<open>What an accepted approval is\<close>

definition approval_fresh :: "int \<Rightarrow> datetime \<Rightarrow> attestation \<Rightarrow> bool" where
  "approval_fresh age now a \<longleftrightarrow> instant now - instant (ap_reviewed_at (at_payload a)) \<le> age * 1000000"

definition approval_bound :: "cms_receipt \<Rightarrow> approval_payload \<Rightarrow> bool" where
  "approval_bound decision p \<longleftrightarrow>
     ap_cms_receipt_sha256 p = cr_receipt_sha256 decision \<and>
     ap_assessment_sha256 p = cp_assessment_sha256 (cr_payload decision) \<and>
     ap_asset_sha256 p = cp_asset_sha256 (cr_payload decision) \<and>
     ap_cms_system_id p = cp_cms_system_id (cr_payload decision) \<and>
     ap_content_id p = cp_content_id (cr_payload decision)"

lemma binding_error_None_iff: "binding_error decision p = None \<longleftrightarrow> approval_bound decision p"
  by (simp add: binding_error_def approval_bound_def)

definition approval_accepted ::
    "runtime \<Rightarrow> cms_receipt \<Rightarrow> reviewer_registry \<Rightarrow> datetime \<Rightarrow> int \<Rightarrow> attestation \<Rightarrow> trusted_reviewer \<Rightarrow> bool" where
  "approval_accepted rt decision registry now age a reviewer \<longleftrightarrow>
     dict_by tr_reviewer_id (vr_reviewers registry) (reviewer_id_of a) = Some reviewer \<and> tr_active reviewer \<and>
     tr_role reviewer = ap_reviewer_role (at_payload a) \<and>
     \<not> outside_key_validity reviewer (ap_reviewed_at (at_payload a)) \<and>
     instant (cp_assessed_at (cr_payload decision)) \<le> instant (ap_reviewed_at (at_payload a)) \<and>
     instant (ap_reviewed_at (at_payload a)) \<le> instant now + 300 * 1000000 \<and> approval_fresh age now a \<and>
     approval_bound decision (at_payload a) \<and>
     verify_payload rt (approval_payload_json rt (at_payload a)) (at_signature_b64 a) (tr_public_key_b64 reviewer)"

lemma approval_error_None_iff:
  "approval_error rt decision registry now age a = None \<longleftrightarrow>
     (\<exists>reviewer. approval_accepted rt decision registry now age a reviewer)"
  by (auto simp: approval_error_def approval_accepted_def approval_fresh_def binding_error_None_iff [symmetric] Let_def
      not_less split: option.splits if_splits)

lemma validate_approvals_Inr_iff:
  "validate_approvals rt q registry now age = Inr u \<longleftrightarrow>
     is_aware now \<and> 60 \<le> age \<and> verify_cms_decision_receipt rt (rl_decision_receipt q) None = Inr True \<and>
     cp_deployment_decision (cr_payload (rl_decision_receipt q)) = Decision_GO \<and>
     cp_workflow_status (cr_payload (rl_decision_receipt q)) = Status_READY_FOR_RELEASE_AUTHORIZATION \<and>
     (\<forall>a \<in> set (rl_approvals q). \<exists>reviewer.
        approval_accepted rt (rl_decision_receipt q) registry now age a reviewer) \<and>
     {Role_RIGHTS_REVIEWER, Role_RELEASE_MANAGER} \<subseteq> (\<lambda>a. ap_reviewer_role (at_payload a)) ` set (rl_approvals q)"
  by (auto simp: validate_approvals_def Let_def res_bind_Inr_iff approval_error_None_iff split: if_splits)

text \<open>
  Dual control: two approvals of the release are accepted, one by a rights reviewer and one by a release
  manager, who are different people of the registry with different keys.
\<close>

definition dual_control ::
    "runtime \<Rightarrow> cms_receipt \<Rightarrow> reviewer_registry \<Rightarrow> datetime \<Rightarrow> int \<Rightarrow> attestation list \<Rightarrow> bool" where
  "dual_control rt decision registry now age approvals \<longleftrightarrow>
     (\<exists>a \<in> set approvals. \<exists>b \<in> set approvals. \<exists>ra \<in> set (vr_reviewers registry). \<exists>rb \<in> set (vr_reviewers registry).
        approval_accepted rt decision registry now age a ra \<and> tr_role ra = Role_RIGHTS_REVIEWER \<and>
        approval_accepted rt decision registry now age b rb \<and> tr_role rb = Role_RELEASE_MANAGER \<and>
        reviewer_id_of a \<noteq> reviewer_id_of b \<and>
        b64decode (tr_public_key_b64 ra) \<noteq> b64decode (tr_public_key_b64 rb))"

definition registry_ok :: "runtime \<Rightarrow> reviewer_registry \<Rightarrow> bool" where
  "registry_ok rt registry \<longleftrightarrow> wf_reviewer_registry registry \<and> list_all (wf_reviewer rt) (vr_reviewers registry)"

lemma accepted_reviewer:
  "approval_accepted rt decision registry now age a reviewer \<Longrightarrow>
   reviewer \<in> set (vr_reviewers registry) \<and> tr_reviewer_id reviewer = reviewer_id_of a \<and>
   tr_role reviewer = ap_reviewer_role (at_payload a)"
  by (auto simp: approval_accepted_def dest: dict_by_Some)

lemma approvals_dual_control:
  assumes "registry_ok rt registry" and "validate_approvals rt q registry now age = Inr u"
  shows "dual_control rt (rl_decision_receipt q) registry now age (rl_approvals q)"
proof -
  note v = assms(2) [unfolded validate_approvals_Inr_iff]
  let ?role = "\<lambda>a. ap_reviewer_role (at_payload a)"
  from v have all: "\<forall>a \<in> set (rl_approvals q). \<exists>reviewer.
      approval_accepted rt (rl_decision_receipt q) registry now age a reviewer"
    and roles: "Role_RIGHTS_REVIEWER \<in> ?role ` set (rl_approvals q)"
      "Role_RELEASE_MANAGER \<in> ?role ` set (rl_approvals q)"
    by simp_all
  obtain a where a: "a \<in> set (rl_approvals q)" "?role a = Role_RIGHTS_REVIEWER"
    using roles(1) by (metis imageE)
  obtain b where b: "b \<in> set (rl_approvals q)" "?role b = Role_RELEASE_MANAGER"
    using roles(2) by (metis imageE)
  note ab = a b
  obtain ra where "approval_accepted rt (rl_decision_receipt q) registry now age a ra" using all a(1) by blast
  moreover obtain rb where "approval_accepted rt (rl_decision_receipt q) registry now age b rb" using all b(1) by blast
  ultimately have acc: "approval_accepted rt (rl_decision_receipt q) registry now age a ra"
    "approval_accepted rt (rl_decision_receipt q) registry now age b rb" .
  note r = accepted_reviewer [OF acc(1)] accepted_reviewer [OF acc(2)]
  have wf: "wf_reviewer_registry registry" "wf_reviewer rt ra" "wf_reviewer rt rb"
    using assms(1) r by (auto simp: registry_ok_def list_all_iff)
  have ne: "ra \<noteq> rb" using r ab by auto
  have "tr_reviewer_id ra \<noteq> tr_reviewer_id rb"
    using reviewers.key_inj [OF wf(1)] r ne by blast
  moreover have "tr_public_key_sha256 ra \<noteq> tr_public_key_sha256 rb"
    using reviewer_keys.key_inj [OF wf(1)] r ne by blast
  then have "b64decode (tr_public_key_b64 ra) \<noteq> b64decode (tr_public_key_b64 rb)"
    using reviewer_key [OF wf(2)] reviewer_key [OF wf(3)] by auto
  ultimately show ?thesis unfolding dual_control_def using ab acc r by metis
qed

text \<open>What the authorisation says of the decision it releases.\<close>

definition authorization_bound ::
    "runtime \<Rightarrow> cms_receipt \<Rightarrow> attestation list \<Rightarrow> reviewer_registry \<Rightarrow> authorization_payload \<Rightarrow> bool" where
  "authorization_bound rt decision approvals registry p \<longleftrightarrow>
     az_cms_receipt_sha256 p = cr_receipt_sha256 decision \<and>
     az_assessment_sha256 p = cp_assessment_sha256 (cr_payload decision) \<and>
     az_asset_sha256 p = cp_asset_sha256 (cr_payload decision) \<and>
     az_cms_system_id p = cp_cms_system_id (cr_payload decision) \<and>
     az_content_id p = cp_content_id (cr_payload decision) \<and>
     az_reviewer_registry_sha256 p = reviewer_registry_commitment rt registry \<and>
     az_approval_sha256s p = map (attestation_commitment rt) approvals \<and>
     az_reviewer_ids p = sort (map reviewer_id_of approvals)"

lemma release_payload_bound:
  "authorization_bound rt (rl_decision_receipt q) (rl_approvals q) registry (release_payload rt q registry now ttl)"
  by (simp add: authorization_bound_def release_payload_def Let_def)

lemma build_release_InrD:
  assumes "build_release_authorization_receipt rt q registry now ttl age = Inr r"
  shows "60 \<le> ttl \<and> ttl \<le> 3600 \<and> validate_approvals rt q registry now age = Inr () \<and>
    rz_payload r = release_payload rt q registry now ttl \<and> wf_authorization_payload (rz_payload r) \<and>
    rz_decision_receipt r = rl_decision_receipt q \<and> rz_approvals r = rl_approvals q \<and>
    sign_payload rt (authorization_json rt (rz_payload r)) = Inr (rz_signature_b64 r) \<and>
    public_key_b64 rt = Inr (rz_public_key_b64 r) \<and> signer_fingerprint rt = Inr (rz_signer_fingerprint r) \<and>
    rz_receipt_sha256 r = release_commitment rt (rz_payload r) (rz_decision_receipt r) (rz_approvals r)
      (rz_signature_b64 r) (rz_public_key_b64 r) \<and>
    wf_authorization_receipt r"
proof -
  let ?d = "rl_decision_receipt q" and ?as = "rl_approvals q"
  have ttl: "60 \<le> ttl \<and> ttl \<le> 3600"
    using assms unfolding build_release_authorization_receipt_def by (rule contrapos_pp) simp
  note b = assms [unfolded build_release_authorization_receipt_def, simplified ttl simp_thms if_False]
  from b obtain u where u: "validate_approvals rt q registry now age = Inr u" and
    b1: "res_bind (validate_authorization_payload (release_payload rt q registry now ttl)) (\<lambda>payload.
        res_bind (sign_payload rt (authorization_json rt payload)) (\<lambda>signature.
        res_bind (public_key_b64 rt) (\<lambda>public_key.
        res_bind (signer_fingerprint rt) (\<lambda>fingerprint.
        validate_authorization_receipt
          \<lparr>rz_payload = payload, rz_decision_receipt = ?d, rz_approvals = ?as, rz_signature_b64 = signature,
           rz_public_key_b64 = public_key, rz_signer_fingerprint = fingerprint,
           rz_receipt_sha256 = release_commitment rt payload ?d ?as signature public_key\<rparr>)))) = Inr r"
    by (rule res_bind_InrE)
  from b1 obtain p s k f where
    *: "validate_authorization_payload (release_payload rt q registry now ttl) = Inr p"
      "sign_payload rt (authorization_json rt p) = Inr s" "public_key_b64 rt = Inr k" "signer_fingerprint rt = Inr f"
      "validate_authorization_receipt \<lparr>rz_payload = p, rz_decision_receipt = ?d, rz_approvals = ?as,
           rz_signature_b64 = s, rz_public_key_b64 = k, rz_signer_fingerprint = f,
           rz_receipt_sha256 = release_commitment rt p ?d ?as s k\<rparr> = Inr r"
    by (elim res_bind_InrE) blast
  have p: "p = release_payload rt q registry now ttl" "wf_authorization_payload p"
    using *(1) authorization_payload_model.validate_wf [OF *(1)] by (auto simp: validate_authorization_payload_def)
  have r: "r = \<lparr>rz_payload = p, rz_decision_receipt = ?d, rz_approvals = ?as,
           rz_signature_b64 = s, rz_public_key_b64 = k, rz_signer_fingerprint = f,
           rz_receipt_sha256 = release_commitment rt p ?d ?as s k\<rparr>" "wf_authorization_receipt r"
    using *(5) authorization_receipt_model.validate_wf [OF *(5)] by (auto simp: validate_authorization_receipt_def)
  show ?thesis
    using ttl u *(2-4) p r(2) unfolding r(1) by simp
qed

text \<open>
  C3: an authorisation is issued only for a GO decision whose receipt verifies against the device key and
  that two different registered reviewers with different keys, a rights reviewer and a release manager,
  have approved with fresh valid signatures bound to that decision; it lives between one minute and one
  hour and is bound to the decision, the approvals and the registry.
\<close>

theorem release_requires_dual_control:
  assumes "registry_ok rt registry"
    and "build_release_authorization_receipt rt q registry now ttl age = Inr r"
  shows "verify_cms_decision_receipt rt (rl_decision_receipt q) None = Inr True \<and>
    cp_deployment_decision (cr_payload (rl_decision_receipt q)) = Decision_GO \<and>
    dual_control rt (rl_decision_receipt q) registry now age (rl_approvals q) \<and>
    authorization_bound rt (rl_decision_receipt q) (rl_approvals q) registry (rz_payload r) \<and>
    60 \<le> ttl \<and> ttl \<le> 3600 \<and> az_expires_at (rz_payload r) = plus_seconds now ttl"
proof -
  note b = build_release_InrD [OF assms(2)]
  then have v: "validate_approvals rt q registry now age = Inr ()" and p: "rz_payload r = release_payload rt q registry now ttl"
    by blast+
  show ?thesis
    using b approvals_dual_control [OF assms(1) v] v [unfolded validate_approvals_Inr_iff] release_payload_bound
    unfolding p by (simp add: release_payload_def Let_def)
qed

subsection \<open>What a valid verification means\<close>

lemma validate_verification_Inr: "validate_release_verification v = Inr w \<Longrightarrow> w = v"
  by (simp add: validate_release_verification_def)

lemma invalid_release_Inr: "invalid_release r m = Inr v \<Longrightarrow> \<not> rv_valid v \<and> \<not> rv_release_authorization v"
  by (auto simp: invalid_release_def dest: validate_verification_Inr)

lemma receipt_reason_None_iff:
  "receipt_reason rt r registry trusted = None \<longleftrightarrow>
     rz_signer_fingerprint r = trusted \<and>
     az_reviewer_registry_sha256 (rz_payload r) = reviewer_registry_commitment rt registry \<and>
     release_commitment rt (rz_payload r) (rz_decision_receipt r) (rz_approvals r) (rz_signature_b64 r)
       (rz_public_key_b64 r) = rz_receipt_sha256 r \<and>
     verify_payload rt (authorization_json rt (rz_payload r)) (rz_signature_b64 r) (rz_public_key_b64 r) \<and>
     az_cms_receipt_sha256 (rz_payload r) = cr_receipt_sha256 (rz_decision_receipt r) \<and>
     map (attestation_commitment rt) (rz_approvals r) = az_approval_sha256s (rz_payload r) \<and>
     sort (map reviewer_id_of (rz_approvals r)) = az_reviewer_ids (rz_payload r)"
  by (simp add: receipt_reason_def)

text \<open>A verification that is not a refusal went through every check.\<close>

definition release_checked ::
    "runtime \<Rightarrow> authorization_receipt \<Rightarrow> reviewer_registry \<Rightarrow> datetime \<Rightarrow> string option \<Rightarrow> bool" where
  "release_checked rt r registry now expected \<longleftrightarrow>
     is_aware now \<and> instant now \<le> instant (az_expires_at (rz_payload r)) \<and>
     instant (az_issued_at (rz_payload r)) \<le> instant now + 300 * 1000000 \<and>
     (\<exists>k. b64decode (rz_public_key_b64 r) = Some k \<and> rt_sha256 rt k = rz_signer_fingerprint r) \<and>
     trusted_fingerprint rt expected = Inr (rz_signer_fingerprint r) \<and>
     receipt_reason rt r registry (rz_signer_fingerprint r) = None \<and>
     (\<exists>q. validate_release_request \<lparr>rl_decision_receipt = rz_decision_receipt r, rl_approvals = rz_approvals r\<rparr> = Inr q \<and>
        validate_approvals rt q registry now 86400 = Inr ()) \<and>
     \<not> decision_binding_differs r"

lemma verify_release_valid:
  assumes "verify_release_authorization_receipt rt r registry now expected = Inr v" and "rv_valid v"
  shows "release_checked rt r registry now expected \<and> rv_release_authorization v"
proof -
  note V = assms(1) [unfolded verify_release_authorization_receipt_def]
  have inv [simp]: "invalid_release r m = Inr v \<longleftrightarrow> False" for m using assms(2) invalid_release_Inr by blast
  have t1: "is_aware now" by (rule ccontr) (use V in simp)
  have t2: "\<not> instant (az_expires_at (rz_payload r)) < instant now" by (rule notI) (use V t1 in simp)
  have t3: "\<not> instant now + 300 * 1000000 < instant (az_issued_at (rz_payload r))" by (rule notI) (use V t1 t2 in simp)
  note t = t1 t2 t3
  obtain k where k: "b64decode (rz_public_key_b64 r) = Some k"
    using V t by (cases "b64decode (rz_public_key_b64 r)") simp_all
  have fp: "rt_sha256 rt k = rz_signer_fingerprint r" by (rule ccontr) (use V t k in simp)
  obtain trusted where tr: "trusted_fingerprint rt expected = Inr trusted"
    using V t k fp by (cases "trusted_fingerprint rt expected") simp_all
  have rr: "receipt_reason rt r registry trusted = None"
    using V t k fp tr by (cases "receipt_reason rt r registry trusted") simp_all
  then have tf: "trusted = rz_signer_fingerprint r" by (simp add: receipt_reason_None_iff)
  let ?chk = "res_bind (validate_release_request
     \<lparr>rl_decision_receipt = rz_decision_receipt r, rl_approvals = rz_approvals r\<rparr>) (\<lambda>request.
     validate_approvals rt request registry now 86400)"
  obtain u where u: "?chk = Inr u" using V t k fp tr rr by (cases ?chk) (simp_all split: if_splits)
  then have q: "\<exists>q. validate_release_request \<lparr>rl_decision_receipt = rz_decision_receipt r, rl_approvals = rz_approvals r\<rparr> =
      Inr q \<and> validate_approvals rt q registry now 86400 = Inr ()"
    by (auto simp: res_bind_Inr_iff)
  have b: "\<not> decision_binding_differs r" by (rule notI) (use V t k fp tr rr u in simp)
  then have "validate_release_verification \<lparr>rv_receipt_sha256 = rz_receipt_sha256 r, rv_valid = True,
      rv_release_authorization = True,
      rv_reason = ''GO decision and both currently trusted role-separated approvals verified.''\<rparr> = Inr v"
    using V t k fp tr rr u by simp
  then have "rv_release_authorization v" by (auto dest!: validate_verification_Inr)
  with t k fp tr rr tf q b show ?thesis by (simp add: release_checked_def not_less)
qed

lemma verify_release_checked:
  assumes "release_checked rt r registry now expected" and "is_sha256 (rz_receipt_sha256 r)"
  shows "\<exists>v. verify_release_authorization_receipt rt r registry now expected = Inr v \<and> rv_valid v \<and>
    rv_release_authorization v"
proof -
  note c = assms(1) [unfolded release_checked_def]
  from c obtain k q where k: "b64decode (rz_public_key_b64 r) = Some k" "rt_sha256 rt k = rz_signer_fingerprint r"
    and q: "validate_release_request \<lparr>rl_decision_receipt = rz_decision_receipt r, rl_approvals = rz_approvals r\<rparr> = Inr q"
      "validate_approvals rt q registry now 86400 = Inr ()" by blast
  show ?thesis
    using c k q assms(2)
    by (simp add: verify_release_authorization_receipt_def not_less validate_release_verification_def
        check_fields_ok len_between_def)
qed

lemma validate_release_request_Inr:
  "validate_release_request \<lparr>rl_decision_receipt = d, rl_approvals = as\<rparr> = Inr q \<Longrightarrow>
   q = \<lparr>rl_decision_receipt = d, rl_approvals = sort_key approval_id_of as\<rparr>"
  by (simp add: validate_release_request_def)

lemma dual_control_set_cong:
  "set as = set bs \<Longrightarrow> dual_control rt d registry now age as = dual_control rt d registry now age bs"
  by (simp add: dual_control_def)

text \<open>
  C4: whoever presents it, a receipt verifies as a release authorisation only inside its window, signed by
  the trusted signer over its payload, committed to by its digest, bound to a bundled CMS receipt that is
  itself authentic and says GO, to the current registry, and under dual control at the time of the check.
\<close>

theorem verified_release_sound:
  assumes "registry_ok rt registry"
    and "verify_release_authorization_receipt rt r registry now expected = Inr v" and "rv_release_authorization v"
  shows "instant now \<le> instant (az_expires_at (rz_payload r)) \<and>
    trusted_fingerprint rt expected = Inr (rz_signer_fingerprint r) \<and>
    verify_payload rt (authorization_json rt (rz_payload r)) (rz_signature_b64 r) (rz_public_key_b64 r) \<and>
    verify_cms_decision_receipt rt (rz_decision_receipt r) None = Inr True \<and>
    cp_deployment_decision (cr_payload (rz_decision_receipt r)) = Decision_GO \<and>
    authorization_bound rt (rz_decision_receipt r) (rz_approvals r) registry (rz_payload r) \<and>
    dual_control rt (rz_decision_receipt r) registry now 86400 (rz_approvals r)"
proof -
  have valid: "rv_valid v"
  proof (rule ccontr)
    assume n: "\<not> rv_valid v"
    have "invalid_release r m \<noteq> Inr v" for m using invalid_release_Inr assms(3) by blast
    with assms(2) n show False
      by (auto simp: verify_release_authorization_receipt_def res_bind_Inr_iff
          split: if_splits option.splits sum.splits dest!: validate_verification_Inr)
  qed
  have c: "release_checked rt r registry now expected"
    using verify_release_valid [OF assms(2) valid] by (rule conjunct1)
  then obtain q where q: "validate_release_request
      \<lparr>rl_decision_receipt = rz_decision_receipt r, rl_approvals = rz_approvals r\<rparr> = Inr q"
      "validate_approvals rt q registry now 86400 = Inr ()" by (auto simp: release_checked_def)
  have q': "rl_decision_receipt q = rz_decision_receipt r" "set (rl_approvals q) = set (rz_approvals r)"
    using validate_release_request_Inr [OF q(1)] by simp_all
  have "dual_control rt (rz_decision_receipt r) registry now 86400 (rz_approvals r)"
    using approvals_dual_control [OF assms(1) q(2)] dual_control_set_cong [OF q'(2)] q'(1) by simp
  moreover have "verify_cms_decision_receipt rt (rz_decision_receipt r) None = Inr True"
    "cp_deployment_decision (cr_payload (rz_decision_receipt r)) = Decision_GO"
    using q(2) [unfolded validate_approvals_Inr_iff] q'(1) by simp_all
  ultimately show ?thesis
    using c unfolding release_checked_def receipt_reason_None_iff decision_binding_differs_def authorization_bound_def Let_def
    by simp
qed

subsection \<open>An authorisation lives while its approvals are fresh\<close>

lemma accepted_later:
  assumes "approval_accepted rt d registry now age a reviewer" and "instant now \<le> instant now'"
  shows "approval_accepted rt d registry now' 86400 a reviewer \<longleftrightarrow> approval_fresh 86400 now' a"
  using assms by (auto simp: approval_accepted_def)

lemma approval_error_later:
  assumes "approval_accepted rt d registry now age a reviewer" and "instant now \<le> instant now'"
  shows "approval_error rt d registry now' 86400 a =
    (if approval_fresh 86400 now' a then None else Some (ValueError ''release approval is stale''))"
  using assms by (auto simp: approval_accepted_def approval_error_def approval_fresh_def not_less Let_def
      binding_error_None_iff [symmetric])

lemma first_error_const:
  assumes "\<And>a. a \<in> set xs \<Longrightarrow> f a = (if P a then None else Some e)"
  shows "first_error f xs = (if \<forall>a \<in> set xs. P a then None else Some e)"
  using assms by (induction xs) auto

lemma validate_approvals_later:
  assumes "validate_approvals rt q registry now age = Inr ()" and "is_aware now'" and "instant now \<le> instant now'"
  shows "validate_approvals rt q registry now' 86400 =
    (if \<forall>a \<in> set (rl_approvals q). approval_fresh 86400 now' a then Inr ()
     else Inl (ValueError ''release approval is stale''))"
proof -
  note v = assms(1) [unfolded validate_approvals_Inr_iff]
  have "first_error (approval_error rt (rl_decision_receipt q) registry now' 86400) (rl_approvals q) =
      (if \<forall>a \<in> set (rl_approvals q). approval_fresh 86400 now' a then None
       else Some (ValueError ''release approval is stale''))"
  proof (rule first_error_const)
    fix a
    assume "a \<in> set (rl_approvals q)"
    then obtain reviewer where "approval_accepted rt (rl_decision_receipt q) registry now age a reviewer"
      using v by blast
    from approval_error_later [OF this assms(3)]
    show "approval_error rt (rl_decision_receipt q) registry now' 86400 a =
        (if approval_fresh 86400 now' a then None else Some (ValueError ''release approval is stale''))" .
  qed
  then show ?thesis
    using v assms(2) by (simp add: validate_approvals_def Let_def)
qed

lemma built_release_receipt:
  assumes "signing_ok rt" and "build_release_authorization_receipt rt q registry now ttl age = Inr r"
  shows "receipt_reason rt r registry (rz_signer_fingerprint r) = None \<and> \<not> decision_binding_differs r \<and>
    trusted_fingerprint rt None = Inr (rz_signer_fingerprint r) \<and>
    (\<exists>k. b64decode (rz_public_key_b64 r) = Some k \<and> rt_sha256 rt k = rz_signer_fingerprint r)"
proof -
  note b = build_release_InrD [OF assms(2)]
  obtain s k raw where d: "public_key_b64 rt = Inr k" "b64decode k = Some raw"
    "signer_fingerprint rt = Inr (rt_sha256 rt raw)"
    by (rule device_signer.signed_document [OF assms(1)])
  have sv: "verify_payload rt (authorization_json rt (rz_payload r)) (rz_signature_b64 r) (rz_public_key_b64 r)"
    using b device_signer.sign_verify [OF assms(1)] by blast
  have bound: "authorization_bound rt (rz_decision_receipt r) (rz_approvals r) registry (rz_payload r)"
    using b release_payload_bound [of rt q registry now ttl] by simp
  show ?thesis
    using b d sv bound
    by (auto simp: receipt_reason_None_iff decision_binding_differs_def authorization_bound_def trusted_fingerprint_def Let_def)
qed

text \<open>
  C11: an issued authorisation verifies, at any later time and against the same registry, exactly while its
  window is open and every approval is younger than a day; otherwise the verification still returns, with
  a refusal. So an authorisation can become invalid before its \<open>expires_at\<close>.
\<close>

theorem release_roundtrip:
  assumes "signing_ok rt" and "wf_release_request q" and "is_aware now'"
    and "build_release_authorization_receipt rt q registry now ttl age = Inr r" and "instant now \<le> instant now'"
  shows "\<exists>v. verify_release_authorization_receipt rt r registry now' None = Inr v \<and>
    rv_release_authorization v = rv_valid v \<and> rv_receipt_sha256 v = rz_receipt_sha256 r \<and>
    (rv_valid v \<longleftrightarrow> instant now' \<le> instant now + ttl * 1000000 \<and>
      list_all (approval_fresh 86400 now') (rl_approvals q))"
proof -
  note b = build_release_InrD [OF assms(4)]
  note r = built_release_receipt [OF assms(1,4)]
  have "wf_authorization_receipt r" using b by blast
  then have sha: "is_sha256 (rz_receipt_sha256 r)" by (simp add: wf_authorization_receipt_def)
  have p: "instant (az_expires_at (rz_payload r)) = instant now + ttl * 1000000" "az_issued_at (rz_payload r) = now"
    using b by (simp_all add: release_payload_def Let_def)
  have q: "validate_release_request \<lparr>rl_decision_receipt = rz_decision_receipt r, rl_approvals = rz_approvals r\<rparr> = Inr q"
    using b release_request_model.validate_fix [OF assms(2)] by (cases q) simp
  have later: "validate_approvals rt q registry now' 86400 =
    (if \<forall>a \<in> set (rl_approvals q). approval_fresh 86400 now' a then Inr ()
     else Inl (ValueError ''release approval is stale''))"
    using b assms(3,5) by (intro validate_approvals_later) auto
  have refuse: "\<exists>v. invalid_release r m = Inr v \<and> \<not> rv_valid v \<and> \<not> rv_release_authorization v \<and>
      rv_receipt_sha256 v = rz_receipt_sha256 r"
    if "len_between 1 500 m" for m
    using that sha by (simp add: invalid_release_def validate_release_verification_def check_fields_ok)
  obtain k where k: "b64decode (rz_public_key_b64 r) = Some k" "rt_sha256 rt k = rz_signer_fingerprint r"
    using r by blast
  show ?thesis
  proof (cases "instant now' \<le> instant now + ttl * 1000000")
    case False
    then show ?thesis
      using refuse [of "''release authorization has expired''"] assms(3) p
      by (auto simp: verify_release_authorization_receipt_def len_between_def)
  next
    case True
    have body: "verify_release_authorization_receipt rt r registry now' None =
        (if \<forall>a \<in> set (rl_approvals q). approval_fresh 86400 now' a
         then validate_release_verification
           \<lparr>rv_receipt_sha256 = rz_receipt_sha256 r, rv_valid = True, rv_release_authorization = True,
            rv_reason = ''GO decision and both currently trusted role-separated approvals verified.''\<rparr>
         else invalid_release r ''release approval is stale'')"
      using True assms(3,5) p k r q later by (simp add: verify_release_authorization_receipt_def)
    show ?thesis
      unfolding body using True sha refuse [of "''release approval is stale''"]
      by (auto simp: list_all_iff len_between_def validate_release_verification_def check_fields_ok)
  qed
qed

subsection \<open>When an authorisation is issued\<close>

definition release_ready ::
    "runtime \<Rightarrow> release_request \<Rightarrow> reviewer_registry \<Rightarrow> datetime \<Rightarrow> int \<Rightarrow> bool" where
  "release_ready rt q registry now age \<longleftrightarrow>
     verify_cms_decision_receipt rt (rl_decision_receipt q) None = Inr True \<and>
     cp_deployment_decision (cr_payload (rl_decision_receipt q)) = Decision_GO \<and>
     list_all (\<lambda>a. \<exists>reviewer. approval_accepted rt (rl_decision_receipt q) registry now age a reviewer) (rl_approvals q) \<and>
     {Role_RIGHTS_REVIEWER, Role_RELEASE_MANAGER} \<subseteq> (\<lambda>a. ap_reviewer_role (at_payload a)) ` set (rl_approvals q)"

lemma validate_approvals_ready:
  assumes "wf_cms_payload (cr_payload (rl_decision_receipt q))"
  shows "(\<exists>u. validate_approvals rt q registry now age = Inr u) \<longleftrightarrow>
    is_aware now \<and> 60 \<le> age \<and> release_ready rt q registry now age"
  using assms unfolding validate_approvals_Inr_iff release_ready_def wf_cms_payload_def by (auto simp: list_all_iff)

lemma authorization_id_ok: "signing_ok rt \<Longrightarrow> is_id (''release.'' @ authorization_token rt q registry)"
  unfolding authorization_token_def
  by (rule is_id_append) (simp_all add: id_eval is_sha256_take)

lemma wf_release_payload:
  assumes "signing_ok rt" and "wf_release_request q" and "wf_cms_receipt (rl_decision_receipt q)"
    and "wf_cms_payload (cr_payload (rl_decision_receipt q))" and "is_aware now" and "60 \<le> ttl"
    and "distinct (map (attestation_commitment rt) (rl_approvals q))"
  shows "wf_authorization_payload (release_payload rt q registry now ttl)"
  using assms authorization_id_ok [OF assms(1), of q registry]
  by (simp add: wf_authorization_payload_def authorization_fields_def authorization_window_error_def release_payload_def
      Let_def wf_release_request_def wf_cms_receipt_def wf_cms_payload_def reviewer_registry_commitment_def len_between_def)

lemma release_issued:
  assumes "signing_ok rt" and "wf_release_request q" and "wf_cms_receipt (rl_decision_receipt q)"
    and "wf_cms_payload (cr_payload (rl_decision_receipt q))" and "is_aware now"
    and "distinct (map (attestation_commitment rt) (rl_approvals q))"
    and "60 \<le> ttl" and "ttl \<le> 3600" and "60 \<le> age" and "release_ready rt q registry now age"
  shows "\<exists>r. build_release_authorization_receipt rt q registry now ttl age = Inr r"
proof -
  let ?p = "release_payload rt q registry now ttl"
  obtain s k raw where s: "sign_payload rt (authorization_json rt ?p) = Inr s" "public_key_b64 rt = Inr k"
    "len_between 1 512 s" "len_between 1 512 k" "signer_fingerprint rt = Inr (rt_sha256 rt raw)"
    by (rule device_signer.signed_document [OF assms(1)])
  let ?r = "\<lparr>rz_payload = ?p, rz_decision_receipt = rl_decision_receipt q, rz_approvals = rl_approvals q,
      rz_signature_b64 = s, rz_public_key_b64 = k, rz_signer_fingerprint = rt_sha256 rt raw,
      rz_receipt_sha256 = release_commitment rt ?p (rl_decision_receipt q) (rl_approvals q) s k\<rparr>"
  have "wf_authorization_receipt ?r"
    using s assms(1) by (simp add: wf_authorization_receipt_def release_commitment_def)
  then have r: "validate_authorization_receipt ?r = Inr ?r" by (rule authorization_receipt_model.validate_fix)
  have p: "validate_authorization_payload ?p = Inr ?p"
    by (rule authorization_payload_model.validate_fix [OF wf_release_payload]) (use assms in auto)
  obtain u where "validate_approvals rt q registry now age = Inr u"
    using validate_approvals_ready [OF assms(4), of rt registry now age] assms(5,9,10) by blast
  then show ?thesis
    using s p r assms(7,8) by (simp add: build_release_authorization_receipt_def)
qed

text \<open>
  An authorisation is issued exactly when its lifetime and the review age are in range, the receipt is
  authentic and says GO, every bundled approval is accepted and both roles are present; anything else is
  an error.
\<close>

theorem release_issued_iff:
  assumes "signing_ok rt" and "wf_release_request q" and "wf_cms_receipt (rl_decision_receipt q)"
    and "wf_cms_payload (cr_payload (rl_decision_receipt q))" and "is_aware now"
    and "distinct (map (attestation_commitment rt) (rl_approvals q))"
  shows "(\<exists>r. build_release_authorization_receipt rt q registry now ttl age = Inr r) \<longleftrightarrow>
    60 \<le> ttl \<and> ttl \<le> 3600 \<and> 60 \<le> age \<and> release_ready rt q registry now age"
proof -
  have "60 \<le> ttl \<and> ttl \<le> 3600 \<and> 60 \<le> age \<and> release_ready rt q registry now age"
    if "build_release_authorization_receipt rt q registry now ttl age = Inr r" for r
    using build_release_InrD [OF that] validate_approvals_ready [OF assms(4), of rt registry now age] by blast
  then show ?thesis using release_issued [OF assms] by blast
qed

subsection \<open>A changed registry is noticed\<close>

definition reviewer_times :: "trusted_reviewer \<Rightarrow> datetime set" where
  "reviewer_times r = insert (tr_valid_from r) (set_option (tr_valid_until r))"

definition registry_times :: "reviewer_registry \<Rightarrow> datetime set" where
  "registry_times registry = (\<Union>r \<in> set (vr_reviewers registry). reviewer_times r)"

lemma reviewer_payload_inj:
  assumes "canon (reviewer_payload rt a) = canon (reviewer_payload rt b)"
    and "inj_on (rt_datetime rt) (reviewer_times a \<union> reviewer_times b)"
  shows "a = b"
proof -
  note F = assms(1) [unfolded reviewer_payload_def, THEN obj_field]
  have "tr_reviewer_id a = tr_reviewer_id b" using F [of "''reviewer_id''"] by (simp add: field_lookup del: map_of_append)
  moreover have "tr_display_name a = tr_display_name b" using F [of "''display_name''"] by (simp add: field_lookup del: map_of_append)
  moreover have "tr_role a = tr_role b" using F [of "''role''"] by (simp add: field_lookup del: map_of_append)
  moreover have "tr_public_key_b64 a = tr_public_key_b64 b" using F [of "''public_key_b64''"] by (simp add: field_lookup del: map_of_append)
  moreover have "tr_public_key_sha256 a = tr_public_key_sha256 b"
    using F [of "''public_key_sha256''"] by (simp add: field_lookup del: map_of_append)
  moreover have "tr_active a = tr_active b" using F [of "''active''"] by (simp add: field_lookup del: map_of_append)
  moreover have "rt_datetime rt (tr_valid_from a) = rt_datetime rt (tr_valid_from b)"
    using F [of "''valid_from''"] by (simp add: field_lookup del: map_of_append)
  then have "tr_valid_from a = tr_valid_from b"
    by (rule inj_onD [OF assms(2)]) (simp_all add: reviewer_times_def)
  moreover have "map_option (rt_datetime rt) (tr_valid_until a) = map_option (rt_datetime rt) (tr_valid_until b)"
    using F [of "''valid_until''"]
    by (simp add: field_lookup del: map_of_append not_None_eq split: option.splits if_splits)
  then have "tr_valid_until a = tr_valid_until b"
  proof (cases "tr_valid_until a"; cases "tr_valid_until b")
    fix x y
    assume v: "tr_valid_until a = Some x" "tr_valid_until b = Some y"
      and m: "map_option (rt_datetime rt) (tr_valid_until a) = map_option (rt_datetime rt) (tr_valid_until b)"
    have "x = y" by (rule inj_onD [OF assms(2)]) (use v m in \<open>simp_all add: reviewer_times_def\<close>)
    with v show "tr_valid_until a = tr_valid_until b" by simp
  qed simp_all
  ultimately show ?thesis by simp
qed

lemma reviewer_registry_payload_inj:
  assumes "canon (reviewer_registry_payload rt a) = canon (reviewer_registry_payload rt b)"
    and "inj_on (rt_datetime rt) (registry_times a \<union> registry_times b)"
  shows "a = b"
proof -
  note F = assms(1) [unfolded reviewer_registry_payload_def, THEN obj_field]
  have "vr_registry_id a = vr_registry_id b" using F [of "''registry_id''"] by simp
  moreover have "vr_version a = vr_version b" using F [of "''version''"] by simp
  moreover have "map (\<lambda>x. x) (vr_reviewers a) = map (\<lambda>x. x) (vr_reviewers b)"
  proof (rule map_canon_inj [where f = "reviewer_payload rt" and g = "reviewer_payload rt"])
    show "map canon (map (reviewer_payload rt) (vr_reviewers a)) = map canon (map (reviewer_payload rt) (vr_reviewers b))"
      using F [of "''reviewers''"] by simp
    fix x y
    assume "x \<in> set (vr_reviewers a)" "y \<in> set (vr_reviewers b)"
      and c: "canon (reviewer_payload rt x) = canon (reviewer_payload rt y)"
    then have "reviewer_times x \<union> reviewer_times y \<subseteq> registry_times a \<union> registry_times b"
      by (auto simp: registry_times_def)
    from reviewer_payload_inj [OF c inj_on_subset [OF assms(2) this]] show "x = y" .
  qed
  ultimately show ?thesis by simp
qed

text \<open>
  Revocation takes effect: an authorisation issued under one registry is refused under any other one (a
  deactivated reviewer, a replaced key, a new version), unless the two registries exhibit a collision of
  the digest function on two different canonical texts.
\<close>

theorem registry_change_invalidates:
  assumes "float_text_ok (rt_float rt)"
    and "inj_on (rt_datetime rt) (registry_times registry \<union> registry_times registry')"
    and "build_release_authorization_receipt rt q registry now ttl age = Inr r"
    and "verify_release_authorization_receipt rt r registry' now' expected = Inr v" and "rv_valid v"
    and "registry' \<noteq> registry"
  shows "canonical_json_bytes rt (reviewer_registry_payload rt registry) \<noteq>
      canonical_json_bytes rt (reviewer_registry_payload rt registry') \<and>
    reviewer_registry_commitment rt registry = reviewer_registry_commitment rt registry'"
proof -
  have "receipt_reason rt r registry' (rz_signer_fingerprint r) = None"
    using verify_release_valid [OF assms(4,5)] by (simp add: release_checked_def)
  then have "az_reviewer_registry_sha256 (rz_payload r) = reviewer_registry_commitment rt registry'"
    by (simp add: receipt_reason_None_iff)
  moreover have "rz_payload r = release_payload rt q registry now ttl"
    using build_release_InrD [OF assms(3)] by blast
  ultimately have "reviewer_registry_commitment rt registry = reviewer_registry_commitment rt registry'"
    by (simp add: release_payload_def Let_def)
  moreover have "canonical_json_bytes rt (reviewer_registry_payload rt registry) \<noteq>
      canonical_json_bytes rt (reviewer_registry_payload rt registry')"
    using reviewer_registry_payload_inj [OF _ assms(2)] dumps_eq_iff [OF assms(1)] assms(6)
    by (auto simp: canonical_json_bytes_def)
  ultimately show ?thesis by blast
qed

subsection \<open>A concrete release\<close>

text \<open>
  A digest of the fifth character from the end of a text, and signatures that repeat the key: enough to
  tell the two demonstration reviewers apart, and too weak to notice the version of a registry.
\<close>

definition tail_digest :: "string \<Rightarrow> string" where
  "tail_digest s = replicate 64 (hex_digit (if length s < 5 then 0 else ord (s ! (length s - 5)) mod 16))"

definition release_runtime :: runtime where
  "release_runtime = demo_runtime\<lparr>rt_sha256 := tail_digest, rt_ed_sign := \<lambda>k m. k @ k,
     rt_ed_verify := \<lambda>k s m. s = k @ k\<rparr>"

lemma tail_digest_append: "5 \<le> length t \<Longrightarrow> tail_digest (s @ t) = tail_digest t"
  by (simp add: tail_digest_def nth_append)

lemma signing_ok_release [simp]: "signing_ok release_runtime"
  by (simp add: signing_ok_def release_runtime_def sha_ok_def is_sha256_def tail_digest_def is_hex_hex_digit
      demo_runtime_def list_all_iff)

definition demo_reviewer :: "string \<Rightarrow> reviewer_role \<Rightarrow> char \<Rightarrow> trusted_reviewer" where
  "demo_reviewer i role c = \<lparr>tr_reviewer_id = i, tr_display_name = ''Reviewer'', tr_role = role,
     tr_public_key_b64 = b64encode (replicate 32 c), tr_public_key_sha256 = tail_digest (replicate 32 c),
     tr_active = True, tr_valid_from = utc 0, tr_valid_until = None\<rparr>"

definition demo_registry :: "string \<Rightarrow> reviewer_registry" where
  "demo_registry version = \<lparr>vr_registry_id = ''reviewers'', vr_version = version, vr_reviewers =
     [demo_reviewer ''manager-1'' Role_RELEASE_MANAGER (CHR ''b''),
      demo_reviewer ''reviewer-1'' Role_RIGHTS_REVIEWER (CHR ''a'')]\<rparr>"

definition demo_attestation :: "cms_receipt \<Rightarrow> string \<Rightarrow> string \<Rightarrow> reviewer_role \<Rightarrow> char \<Rightarrow> attestation" where
  "demo_attestation d i who role c = \<lparr>at_payload =
     \<lparr>ap_approval_id = i, ap_reviewer_id = who, ap_reviewer_role = role, ap_cms_receipt_sha256 = cr_receipt_sha256 d,
      ap_assessment_sha256 = cp_assessment_sha256 (cr_payload d), ap_asset_sha256 = cp_asset_sha256 (cr_payload d),
      ap_cms_system_id = cp_cms_system_id (cr_payload d), ap_content_id = cp_content_id (cr_payload d),
      ap_reason = ''Reviewed in full.'', ap_reviewed_at = utc 0\<rparr>,
     at_signature_b64 = b64encode (replicate 64 c)\<rparr>"

definition demo_release :: "cms_receipt \<Rightarrow> release_request" where
  "demo_release d = \<lparr>rl_decision_receipt = d, rl_approvals =
     [demo_attestation d ''approval-1'' ''reviewer-1'' Role_RIGHTS_REVIEWER (CHR ''a''),
      demo_attestation d ''approval-2'' ''manager-1'' Role_RELEASE_MANAGER (CHR ''b'')]\<rparr>"

lemma tail_digest_keys:
  "tail_digest (replicate 32 (CHR ''a'')) = replicate 64 (CHR ''1'')"
  "tail_digest (replicate 32 (CHR ''b'')) = replicate 64 (CHR ''2'')"
  by code_simp+

lemma registry_ok_demo: "len_between 1 100 version \<Longrightarrow> registry_ok release_runtime (demo_registry version)"
  by (simp add: registry_ok_def wf_reviewer_registry_def demo_registry_def demo_reviewer_def wf_reviewer_def
      reviewer_window_error_def reviewer_key_error_def b64_roundtrip length_b64encode tail_digest_keys id_eval
      len_between_def release_runtime_def is_sha256_def list_all_iff is_hex_def)

lemma demo_accepted:
  assumes "cp_assessed_at (cr_payload d) = utc 0"
    and "(i, who, role, c) \<in> {(''approval-1'', ''reviewer-1'', Role_RIGHTS_REVIEWER, CHR ''a''),
      (''approval-2'', ''manager-1'', Role_RELEASE_MANAGER, CHR ''b'')}"
  shows "approval_accepted release_runtime d (demo_registry version) (utc 0) 86400 (demo_attestation d i who role c)
    (demo_reviewer who role c)"
  using assms
  by (auto simp: approval_accepted_def demo_attestation_def demo_registry_def demo_reviewer_def dict_by_def
      outside_key_validity_def approval_fresh_def approval_bound_def verify_payload_def b64_roundtrip release_runtime_def
      replicate_add [symmetric])

lemma attestation_text:
  "\<exists>pre. canonical_json_bytes rt (attestation_json rt a) = pre @ render_string False (at_signature_b64 a) @ ''}''"
  by (simp add: canonical_json_bytes_def dumps_def attestation_json_def)

lemma demo_attestation_digest:
  "attestation_commitment release_runtime (demo_attestation d i who role (CHR ''a'')) = replicate 64 (CHR ''1'')"
  "attestation_commitment release_runtime (demo_attestation d i who role (CHR ''b'')) = replicate 64 (CHR ''7'')"
proof -
  have tail: "attestation_commitment release_runtime a = tail_digest (render_string False (at_signature_b64 a) @ ''}'')"
    if "3 \<le> length (at_signature_b64 a)" for a
  proof -
    obtain pre where "canonical_json_bytes release_runtime (attestation_json release_runtime a) =
        pre @ render_string False (at_signature_b64 a) @ ''}''" using attestation_text by blast
    moreover have "5 \<le> length (render_string False (at_signature_b64 a) @ ''}'')"
    proof -
      have "length s \<le> length (concat (map (escape_char False) s))" for s
      proof (induction s)
        case (Cons c s)
        have "escape_char False c \<noteq> []" using escape_hd by blast
        then have "1 \<le> length (escape_char False c)" by (cases "escape_char False c") simp_all
        with Cons show ?case by simp
      qed simp
      from this [of "at_signature_b64 a"] show ?thesis using that by (simp add: render_string_def)
    qed
    ultimately show ?thesis
      by (simp add: attestation_commitment_def receipt_hash_def release_runtime_def tail_digest_append del: append_assoc)
  qed
  show "attestation_commitment release_runtime (demo_attestation d i who role (CHR ''a'')) = replicate 64 (CHR ''1'')"
    by (subst tail) (simp add: demo_attestation_def length_b64encode, simp add: demo_attestation_def, code_simp)
  show "attestation_commitment release_runtime (demo_attestation d i who role (CHR ''b'')) = replicate 64 (CHR ''7'')"
    by (subst tail) (simp add: demo_attestation_def length_b64encode, simp add: demo_attestation_def, code_simp)
qed

lemma demo_release_ready:
  assumes "verify_cms_decision_receipt release_runtime d None = Inr True" and "cp_assessed_at (cr_payload d) = utc 0"
    and "cp_deployment_decision (cr_payload d) = Decision_GO"
  shows "release_ready release_runtime (demo_release d) (demo_registry version) (utc 0) 86400"
proof -
  have "approval_accepted release_runtime d (demo_registry version) (utc 0) 86400
      (demo_attestation d ''approval-1'' ''reviewer-1'' Role_RIGHTS_REVIEWER (CHR ''a''))
      (demo_reviewer ''reviewer-1'' Role_RIGHTS_REVIEWER (CHR ''a''))"
    "approval_accepted release_runtime d (demo_registry version) (utc 0) 86400
      (demo_attestation d ''approval-2'' ''manager-1'' Role_RELEASE_MANAGER (CHR ''b''))
      (demo_reviewer ''manager-1'' Role_RELEASE_MANAGER (CHR ''b''))"
    by (rule demo_accepted [OF assms(2)], simp)+
  then have "list_all (\<lambda>a. \<exists>reviewer. approval_accepted release_runtime d (demo_registry version) (utc 0) 86400 a reviewer)
      (rl_approvals (demo_release d))"
    by (auto simp: demo_release_def)
  then show ?thesis using assms by (simp add: release_ready_def demo_release_def demo_attestation_def)
qed

lemma wf_demo_release: "wf_release_request (demo_release d)"
  by (simp add: wf_release_request_def demo_release_def demo_attestation_def len_between_def)

lemma distinct_demo_release: "distinct (map (attestation_commitment release_runtime) (rl_approvals (demo_release d)))"
  by (simp add: demo_release_def demo_attestation_digest)

lemma demo_release_receipt:
  obtains d where "wf_cms_receipt d" "wf_cms_payload (cr_payload d)" "cp_assessed_at (cr_payload d) = utc 0"
    "cp_deployment_decision (cr_payload d) = Decision_GO"
    "verify_cms_decision_receipt release_runtime d None = Inr True"
  using demo_receipt [OF signing_ok_release, of "''page-1''"] by (auto simp: id_eval)

lemma demo_release_issued:
  assumes "len_between 1 100 version"
  obtains d r where "build_release_authorization_receipt release_runtime (demo_release d) (demo_registry version) (utc 0)
      900 86400 = Inr r"
    "wf_cms_receipt d" "wf_cms_payload (cr_payload d)" "cp_assessed_at (cr_payload d) = utc 0"
    "cp_deployment_decision (cr_payload d) = Decision_GO"
    "verify_cms_decision_receipt release_runtime d None = Inr True"
proof -
  obtain d where d: "wf_cms_receipt d" "wf_cms_payload (cr_payload d)" "cp_assessed_at (cr_payload d) = utc 0"
    "cp_deployment_decision (cr_payload d) = Decision_GO"
    "verify_cms_decision_receipt release_runtime d None = Inr True"
    by (rule demo_release_receipt)
  have "\<exists>r. build_release_authorization_receipt release_runtime (demo_release d) (demo_registry version) (utc 0)
      900 86400 = Inr r"
    by (rule release_issued [OF signing_ok_release wf_demo_release])
      (use d distinct_demo_release demo_release_ready in \<open>simp_all add: demo_release_def\<close>)
  with d that show thesis by blast
qed

lemma demo_fresh: "list_all (approval_fresh 86400 (utc t)) (rl_approvals (demo_release d)) \<longleftrightarrow> t \<le> 86400000000"
  by (simp add: demo_release_def demo_attestation_def approval_fresh_def)

theorem release_requires_dual_control_witness:
  "\<exists>d r. build_release_authorization_receipt release_runtime (demo_release d) (demo_registry ''1'') (utc 0) 900 86400 = Inr r \<and>
    dual_control release_runtime d (demo_registry ''1'') (utc 0) 86400 (rl_approvals (demo_release d))"
proof -
  have v: "len_between 1 100 ''1''" by (simp add: len_between_def)
  obtain d r where b: "build_release_authorization_receipt release_runtime (demo_release d) (demo_registry ''1'') (utc 0)
      900 86400 = Inr r" by (rule demo_release_issued [OF v])
  from release_requires_dual_control [OF registry_ok_demo [OF v] b] b show ?thesis by (auto simp: demo_release_def)
qed

theorem release_issued_iff_witness:
  "\<exists>d. \<not> (\<exists>r. build_release_authorization_receipt release_runtime (demo_release d) (demo_registry ''1'') (utc 0) 59 86400 = Inr r)"
proof -
  obtain d where d: "wf_cms_receipt d" "wf_cms_payload (cr_payload d)" by (rule demo_release_receipt)
  have "\<not> (\<exists>r. build_release_authorization_receipt release_runtime (demo_release d) (demo_registry ''1'') (utc 0) 59 86400 = Inr r)"
    by (subst release_issued_iff [OF signing_ok_release wf_demo_release])
      (use d distinct_demo_release in \<open>simp_all add: demo_release_def\<close>)
  then show ?thesis by blast
qed

text \<open>The roundtrip, a minute after issue and a day and a second after the reviews.\<close>

theorem release_roundtrip_witness:
  "\<exists>d r v w. build_release_authorization_receipt release_runtime (demo_release d) (demo_registry ''1'') (utc 0) 900 86400 = Inr r \<and>
    verify_release_authorization_receipt release_runtime r (demo_registry ''1'') (utc 60000000) None = Inr v \<and> rv_valid v \<and>
    verify_release_authorization_receipt release_runtime r (demo_registry ''1'') (utc 86401000000) None = Inr w \<and> \<not> rv_valid w"
proof -
  have v: "len_between 1 100 ''1''" by (simp add: len_between_def)
  obtain d r where b: "build_release_authorization_receipt release_runtime (demo_release d) (demo_registry ''1'') (utc 0)
      900 86400 = Inr r" by (rule demo_release_issued [OF v])
  from release_roundtrip [OF signing_ok_release wf_demo_release _ b, of "utc 60000000"]
    release_roundtrip [OF signing_ok_release wf_demo_release _ b, of "utc 86401000000"] b
  show ?thesis by (auto simp: demo_fresh)
qed

lemma demo_release_verified:
  assumes "len_between 1 100 version"
  obtains d r v where "build_release_authorization_receipt release_runtime (demo_release d) (demo_registry version) (utc 0)
      900 86400 = Inr r"
    "verify_release_authorization_receipt release_runtime r (demo_registry version) (utc 0) None = Inr v" "rv_valid v"
    "rv_release_authorization v"
proof -
  obtain d r where b: "build_release_authorization_receipt release_runtime (demo_release d) (demo_registry version) (utc 0)
      900 86400 = Inr r" by (rule demo_release_issued [OF assms])
  have val: "validate_approvals release_runtime (demo_release d) (demo_registry version) (utc 0) 86400 = Inr ()"
    using build_release_InrD [OF b] by blast
  have "wf_authorization_receipt r" "rz_decision_receipt r = rl_decision_receipt (demo_release d)"
    "rz_approvals r = rl_approvals (demo_release d)"
    "rz_payload r = release_payload release_runtime (demo_release d) (demo_registry version) (utc 0) 900"
    using build_release_InrD [OF b] by blast+
  then have r: "rz_decision_receipt r = d" "rz_approvals r = rl_approvals (demo_release d)"
    "az_expires_at (rz_payload r) = plus_seconds (utc 0) 900" "az_issued_at (rz_payload r) = utc 0"
    "is_sha256 (rz_receipt_sha256 r)"
    by (simp_all add: release_payload_def Let_def wf_authorization_receipt_def) (simp add: demo_release_def)
  have "validate_release_request \<lparr>rl_decision_receipt = d, rl_approvals = rl_approvals (demo_release d)\<rparr> = Inr (demo_release d)"
    using release_request_model.validate_fix [OF wf_demo_release [of d]] by (simp add: demo_release_def)
  with r val built_release_receipt [OF signing_ok_release b]
  have "release_checked release_runtime r (demo_registry version) (utc 0) None"
    by (auto simp: release_checked_def)
  from verify_release_checked [OF this r(5)] b that show thesis by blast
qed

theorem verified_release_sound_witness:
  "\<exists>r d. build_release_authorization_receipt release_runtime (demo_release d) (demo_registry ''1'') (utc 0) 900 86400 = Inr r \<and>
    cp_deployment_decision (cr_payload (rz_decision_receipt r)) = Decision_GO \<and>
    dual_control release_runtime (rz_decision_receipt r) (demo_registry ''1'') (utc 0) 86400 (rz_approvals r)"
proof -
  have v: "len_between 1 100 ''1''" by (simp add: len_between_def)
  obtain d r w where b: "build_release_authorization_receipt release_runtime (demo_release d) (demo_registry ''1'') (utc 0)
      900 86400 = Inr r"
    "verify_release_authorization_receipt release_runtime r (demo_registry ''1'') (utc 0) None = Inr w"
    "rv_release_authorization w" by (rule demo_release_verified [OF v])
  from verified_release_sound [OF registry_ok_demo [OF v] b(2,3)] b(1) show ?thesis by blast
qed

text \<open>The weak digest does not see the version, so the registry of another version is accepted.\<close>

lemma registry_commitment_version:
  "reviewer_registry_commitment release_runtime (demo_registry ''1'') = replicate 64 (CHR ''a'')"
  "reviewer_registry_commitment release_runtime (demo_registry ''2'') = replicate 64 (CHR ''a'')"
proof -
  have bytes: "\<exists>pre. canonical_json_bytes release_runtime (reviewer_registry_payload release_runtime (demo_registry v)) =
      pre @ ('':'' @ render_string False v @ ''}'')" for v
    by (simp add: canonical_json_bytes_def dumps_def reviewer_registry_payload_def demo_registry_def)
  have commit: "reviewer_registry_commitment release_runtime (demo_registry v) = tail_digest ('':'' @ render_string False v @ ''}'')"
    if "5 \<le> length ('':'' @ render_string False v @ ''}'')" for v
    using bytes [of v] tail_digest_append [OF that]
    by (auto simp: reviewer_registry_commitment_def receipt_hash_def release_runtime_def)
  show "reviewer_registry_commitment release_runtime (demo_registry ''1'') = replicate 64 (CHR ''a'')"
    by (subst commit) code_simp+
  show "reviewer_registry_commitment release_runtime (demo_registry ''2'') = replicate 64 (CHR ''a'')"
    by (subst commit) code_simp+
qed

theorem registry_change_invalidates_witness:
  "canonical_json_bytes release_runtime (reviewer_registry_payload release_runtime (demo_registry ''1'')) \<noteq>
   canonical_json_bytes release_runtime (reviewer_registry_payload release_runtime (demo_registry ''2''))"
proof -
  have v: "len_between 1 100 ''2''" by (simp add: len_between_def)
  obtain d r w where b: "build_release_authorization_receipt release_runtime (demo_release d) (demo_registry ''2'') (utc 0)
      900 86400 = Inr r"
    "verify_release_authorization_receipt release_runtime r (demo_registry ''2'') (utc 0) None = Inr w" "rv_valid w"
    by (rule demo_release_verified [OF v])
  have same: "vr_reviewers (demo_registry ''1'') = vr_reviewers (demo_registry ''2'')" by (simp add: demo_registry_def)
  have err: "approval_error release_runtime d' (demo_registry ''1'') n a = approval_error release_runtime d' (demo_registry ''2'') n a"
    for d' n a by (rule ext) (simp only: approval_error_def same)
  have val: "validate_approvals release_runtime q (demo_registry ''1'') n a =
      validate_approvals release_runtime q (demo_registry ''2'') n a" for q n a
    unfolding validate_approvals_def err ..
  have pay: "release_payload release_runtime q (demo_registry ''1'') n t = release_payload release_runtime q (demo_registry ''2'') n t"
    for q n t by (simp add: release_payload_def authorization_token_def registry_commitment_version)
  have "build_release_authorization_receipt release_runtime (demo_release d) (demo_registry ''1'') (utc 0) 900 86400 = Inr r"
    using b(1) by (simp add: build_release_authorization_receipt_def val pay)
  note c = registry_change_invalidates [OF _ _ this b(2,3)]
  have "inj_on (rt_datetime release_runtime) (registry_times (demo_registry ''1'') \<union> registry_times (demo_registry ''2''))"
    by (simp add: registry_times_def reviewer_times_def demo_registry_def demo_reviewer_def)
  then show ?thesis
    using c by (simp add: release_runtime_def demo_runtime_def ratio_text_ok) (simp add: demo_registry_def)
qed

end
