(* ===== verification/Lanes.thy ===== *)
theory Lanes
  imports Evidence
begin

section \<open>Results of the provenance lanes\<close>

text \<open>
  The verification results of \<open>provenance/\<close> (\<open>C2PAVerificationResult\<close>, \<open>ImageForensicsResult\<close>,
  \<open>WatermarkVerificationResult\<close>) have the same three fields, and every lane owes the same things: valid
  evidence bound to the asset and to the component, claims of the provenance dimension that cite evidence of
  the lane, and a valid assessment. Also the substring tests the lanes share.
\<close>

record provenance_result =
  pr_component :: component_record
  pr_evidence :: "evidence_pointer list"
  pr_assessment :: provenance_assessment

text \<open>The constructions at the end of a lane: evidence, claims, component, assessment.\<close>

definition lane_result ::
    "component_record \<Rightarrow> evidence_pointer list \<Rightarrow> provenance_assessment \<Rightarrow> provenance_result res" where
  "lane_result component evidence assessment =
     res_bind (res_map validate_evidence evidence) (\<lambda>evidence.
     res_bind (res_map validate_claim (pa_claims assessment)) (\<lambda>claims.
     res_bind (validate_component component) (\<lambda>component.
     res_bind (validate_provenance (assessment\<lparr>pa_claims := claims\<rparr>)) (\<lambda>assessment.
     Inr \<lparr>pr_component = component, pr_evidence = evidence, pr_assessment = assessment\<rparr>))))"

definition provenance_sound :: "string \<Rightarrow> provenance_result \<Rightarrow> bool" where
  "provenance_sound asset r \<longleftrightarrow>
     lane_sound asset (pr_component r) (pr_evidence r) (pa_claims (pr_assessment r)) \<and>
     list_all (\<lambda>e. wf_locator (ev_locator e)) (pr_evidence r) \<and> wf_provenance (pr_assessment r)"

lemma lane_result_ok:
  assumes "lane_sound asset component evidence (pa_claims assessment)" and "wf_provenance assessment"
  shows "lane_result component evidence assessment =
    Inr \<lparr>pr_component = component, pr_evidence = evidence, pr_assessment = assessment\<rparr>"
proof -
  have e: "res_map validate_evidence evidence = Inr evidence"
    using assms(1) by (intro evidence.validate_all_fix) (simp add: lane_sound_def list_all_iff)
  have c: "res_map validate_claim (pa_claims assessment) = Inr (pa_claims assessment)"
    using assms(1) by (intro claim.validate_all_fix) (simp add: lane_sound_def list_all_iff)
  have k: "validate_component component = Inr component"
    using assms(1) by (intro component.validate_fix) (simp add: lane_sound_def)
  show ?thesis
    by (simp add: lane_result_def e c k provenance.validate_fix [OF assms(2)])
qed

lemma lane_sound_Nil: "wf_component k \<Longrightarrow> wf_claim c \<Longrightarrow> cl_evidence_ids c = [] \<Longrightarrow> lane_sound asset k [] [c]"
  by (simp add: lane_sound_def)

subsection \<open>Substrings\<close>

text \<open>\<open>token in text\<close>.\<close>

fun contains :: "string \<Rightarrow> string \<Rightarrow> bool" where
  "contains t [] = (t = [])"
| "contains t (c # s) = (take (length t) (c # s) = t \<or> contains t s)"

lemma contains_iff: "contains t s \<longleftrightarrow> (\<exists>p q. s = p @ t @ q)"
proof (induction s)
  case (Cons c s)
  show ?case
  proof
    assume "contains t (c # s)"
    then consider "take (length t) (c # s) = t" | "contains t s" by auto
    then show "\<exists>p q. c # s = p @ t @ q"
    proof cases
      case 1
      then have "c # s = [] @ t @ drop (length t) (c # s)" by (metis append_Nil append_take_drop_id)
      then show ?thesis by blast
    next
      case 2
      with Cons.IH obtain p q where "s = p @ t @ q" by blast
      then have "c # s = (c # p) @ t @ q" by simp
      then show ?thesis by blast
    qed
  next
    assume "\<exists>p q. c # s = p @ t @ q"
    then obtain p q where pq: "c # s = p @ t @ q" by blast
    show "contains t (c # s)"
    proof (cases p)
      case Nil
      with pq have "take (length t) (c # s) = t" by simp
      then show ?thesis by simp
    next
      case (Cons d p')
      with pq Cons.IH show ?thesis by auto
    qed
  qed
qed auto

end
