(* ===== verification/Audio.thy ===== *)
theory Audio
  imports Lanes Consent
begin

section \<open>Standalone audio\<close>

text \<open>
  \<open>rightsgate/audio_analysis.py\<close>: the bounded PCM/WAV parser. The \<open>wave\<close> module is the parameter
  \<open>wave\<close>: what \<open>wave.open\<close> and \<open>readframes\<close> return, \<open>None\<close> for \<open>wave.Error\<close> or \<open>EOFError\<close>. The lane
  establishes the structure of the stream and nothing about its origin or its rights.
\<close>

record audio_stream =
  au_channels :: nat
  au_sample_width_bytes :: nat
  au_sample_rate_hz :: nat
  au_frame_count :: nat
  au_duration_seconds :: rat

record audio_result =
  aa_component :: component_record
  aa_evidence :: "evidence_pointer list"
  aa_provenance :: provenance_assessment
  aa_rights :: rights_assessment
  aa_stream :: audio_stream

definition audio_component_id :: string where
  "audio_component_id = ''ingestion.pcm-wav-parser''"

definition is_riff_wave :: "string \<Rightarrow> bool" where
  "is_riff_wave data \<longleftrightarrow> 44 \<le> length data \<and> take 4 data = ''RIFF'' \<and> take 4 (drop 8 data) = ''WAVE''"

definition read_pcm_stream :: "(string \<Rightarrow> wav option) \<Rightarrow> string \<Rightarrow> audio_stream res" where
  "read_pcm_stream wave data =
     (let bad = (\<lambda>m. Inl (ValueError m))
      in case wave data of
        None \<Rightarrow> bad ''audio could not be decoded as bounded PCM/WAV''
      | Some w \<Rightarrow>
          if wav_compressed w then bad ''compressed WAV codecs are not accepted''
          else if \<not> (1 \<le> wav_channels w \<and> wav_channels w \<le> 8)
          then bad ''audio channel count exceeds the bounded parser policy''
          else if wav_width w \<notin> {1, 2, 3, 4} then bad ''unsupported PCM sample width''
          else if \<not> (1 \<le> wav_rate w \<and> wav_rate w \<le> 192000)
          then bad ''audio sample rate exceeds the bounded parser policy''
          else if wav_frames w < 1 then bad ''audio contains no PCM frames''
          else if (300::rat) < of_nat (wav_frames w) / of_nat (wav_rate w)
          then bad ''audio duration exceeds the 300-second limit''
          else if length (wav_raw w) \<noteq> wav_frames w * wav_channels w * wav_width w
          then bad ''audio PCM payload is truncated''
          else Inr \<lparr>au_channels = wav_channels w, au_sample_width_bytes = wav_width w,
                    au_sample_rate_hz = wav_rate w, au_frame_count = wav_frames w,
                    au_duration_seconds = of_nat (wav_frames w) / of_nat (wav_rate w)\<rparr>)"

definition audio_payload :: "string \<Rightarrow> audio_stream \<Rightarrow> json" where
  "audio_payload asset_sha256 info = JObj
     [(''asset_sha256'', JStr asset_sha256), (''channels'', JInt (int (au_channels info))),
      (''sample_width_bytes'', JInt (int (au_sample_width_bytes info))),
      (''sample_rate_hz'', JInt (int (au_sample_rate_hz info))),
      (''frame_count'', JInt (int (au_frame_count info))), (''duration_seconds'', JFloat (au_duration_seconds info))]"

definition audio_evidence :: "runtime \<Rightarrow> string \<Rightarrow> audio_stream \<Rightarrow> evidence_pointer" where
  "audio_evidence rt asset_sha256 info =
     \<lparr>ev_evidence_id = asset_id_text ''evidence.audio-structure-'' asset_sha256, ev_asset_sha256 = asset_sha256,
      ev_kind = Ev_METADATA, ev_source = ''RightsGate bounded PCM/WAV parser'', ev_component_id = audio_component_id,
      ev_component_version = ''1.0.0'', ev_polarity = Pol_NEUTRAL, ev_confidence = 1, ev_locator = whole_asset,
      ev_summary = ''Decoded the complete bounded PCM/WAV stream and recorded its structure.'',
      ev_payload_sha256 = Some (sha256_json rt (audio_payload asset_sha256 info)),
      ev_attributes =
        [(''channels'', AInt (int (au_channels info))), (''duration_seconds'', AFloat (round_to (au_duration_seconds info) 6)),
         (''frame_count'', AInt (int (au_frame_count info))), (''sample_rate_hz'', AInt (int (au_sample_rate_hz info))),
         (''sample_width_bytes'', AInt (int (au_sample_width_bytes info)))]\<rparr>"

definition audio_component :: component_record where
  "audio_component = \<lparr>co_component_id = audio_component_id, co_component_version = ''1.0.0'',
     co_component_type = ''ingestion.bounded-audio-decoder'', co_state = Comp_AVAILABLE, co_mandatory = True,
     co_artifact_sha256 = None, co_reason = None\<rparr>"

definition audio_provenance_limitation :: string where
  "audio_provenance_limitation = ''PCM structure does not establish whether audio was human-recorded, generated or edited.''"

definition audio_rights_limitation :: string where
  "audio_rights_limitation = ''Voice, music and acoustic-work identification are not implemented for standalone audio.''"

definition audio_origin_claim :: "string \<Rightarrow> claim_record" where
  "audio_origin_claim asset_sha256 =
     \<lparr>cl_claim_id = asset_id_text ''claim.audio-origin-'' asset_sha256, cl_dimension = Dim_PROVENANCE,
      cl_claim_type = ''audio.origin'', cl_statement = ''The origin and edit history of the audio are known.'',
      cl_outcome = Outcome_UNKNOWN, cl_confidence = 0, cl_mandatory = True, cl_evidence_ids = [],
      cl_limitations = [audio_provenance_limitation]\<rparr>"

definition audio_rights_claim :: "string \<Rightarrow> claim_record" where
  "audio_rights_claim asset_sha256 =
     \<lparr>cl_claim_id = asset_id_text ''claim.audio-rights-'' asset_sha256, cl_dimension = Dim_RIGHTS_EXPOSURE,
      cl_claim_type = ''audio.voice-and-work-exposure'',
      cl_statement = ''Voices and acoustic works have governed rights coverage.'',
      cl_outcome = Outcome_NOT_ASSESSED, cl_confidence = 0, cl_mandatory = True, cl_evidence_ids = [],
      cl_limitations = [audio_rights_limitation]\<rparr>"

definition audio_analysis_result :: "runtime \<Rightarrow> string \<Rightarrow> audio_stream \<Rightarrow> audio_result res" where
  "audio_analysis_result rt asset_sha256 info =
     res_bind (validate_evidence (audio_evidence rt asset_sha256 info)) (\<lambda>evidence.
     res_bind (validate_component audio_component) (\<lambda>component.
     res_bind (validate_claim (audio_origin_claim asset_sha256)) (\<lambda>origin.
     res_bind (validate_provenance \<lparr>pa_state = State_COMPLETE, pa_verdict = Prov_UNKNOWN, pa_confidence = 0,
        pa_claims = [origin], pa_limitations = [audio_provenance_limitation]\<rparr>) (\<lambda>provenance.
     res_bind (validate_claim (audio_rights_claim asset_sha256)) (\<lambda>exposure.
     res_bind (validate_rights \<lparr>ra_state = State_UNAVAILABLE, ra_verdict = Rights_UNKNOWN, ra_confidence = 0,
        ra_claims = [exposure], ra_limitations = [audio_rights_limitation]\<rparr>) (\<lambda>rights.
     Inr \<lparr>aa_component = component, aa_evidence = [evidence], aa_provenance = provenance, aa_rights = rights,
          aa_stream = info\<rparr>))))))"

definition inspect_pcm_wav :: "runtime \<Rightarrow> (string \<Rightarrow> wav option) \<Rightarrow> string \<Rightarrow> string \<Rightarrow> audio_result res" where
  "inspect_pcm_wav rt wave data asset_sha256 =
     (if rt_sha256 rt data \<noteq> asset_sha256
      then Inl (ValueError ''asset_sha256 does not match the supplied audio bytes'')
      else if \<not> is_riff_wave data then Inl (ValueError ''standalone audio must be a RIFF/WAVE PCM asset'')
      else res_bind (read_pcm_stream wave data) (audio_analysis_result rt asset_sha256))"

subsection \<open>The parser accepts exactly the bounded PCM streams\<close>

definition bounded_pcm :: "wav \<Rightarrow> bool" where
  "bounded_pcm w \<longleftrightarrow> \<not> wav_compressed w \<and> 1 \<le> wav_channels w \<and> wav_channels w \<le> 8 \<and>
     wav_width w \<in> {1, 2, 3, 4} \<and> 1 \<le> wav_rate w \<and> wav_rate w \<le> 192000 \<and> 1 \<le> wav_frames w \<and>
     wav_frames w \<le> 300 * wav_rate w \<and> length (wav_raw w) = wav_frames w * wav_channels w * wav_width w"

definition stream_of :: "wav \<Rightarrow> audio_stream" where
  "stream_of w = \<lparr>au_channels = wav_channels w, au_sample_width_bytes = wav_width w,
     au_sample_rate_hz = wav_rate w, au_frame_count = wav_frames w,
     au_duration_seconds = of_nat (wav_frames w) / of_nat (wav_rate w)\<rparr>"

lemma duration_le_iff:
  assumes "1 \<le> r"
  shows "(300::rat) < of_nat n / of_nat r \<longleftrightarrow> 300 * r < n"
proof -
  have r: "(0::rat) < of_nat r" using assms by simp
  then have "(300::rat) < of_nat n / of_nat r \<longleftrightarrow> of_nat (300 * r) < (of_nat n :: rat)"
    by (simp add: field_simps)
  then show ?thesis by (simp only: of_nat_less_iff)
qed

lemma read_pcm_stream_Inr_iff:
  "read_pcm_stream wave data = Inr s \<longleftrightarrow> (\<exists>w. wave data = Some w \<and> bounded_pcm w \<and> s = stream_of w)"
proof (cases "wave data")
  case None
  then show ?thesis by (simp add: read_pcm_stream_def)
next
  case (Some w)
  show ?thesis
  proof (cases "1 \<le> wav_rate w")
    case True
    then show ?thesis
      unfolding read_pcm_stream_def Let_def Some option.case if_raise_Inr_iff duration_le_iff [OF True]
        bounded_pcm_def stream_of_def [symmetric]
      by (auto simp: not_less)
  next
    case False
    then show ?thesis
      unfolding read_pcm_stream_def Let_def Some option.case if_raise_Inr_iff bounded_pcm_def by auto
  qed
qed

lemma read_pcm_stream_Inl: "read_pcm_stream wave data = Inl e \<Longrightarrow> \<exists>m. e = ValueError m"
  by (auto simp: read_pcm_stream_def Let_def split: option.splits if_splits)

definition audio_sound :: "string \<Rightarrow> audio_result \<Rightarrow> bool" where
  "audio_sound asset r \<longleftrightarrow>
     lane_sound asset (aa_component r) (aa_evidence r) (pa_claims (aa_provenance r) @ ra_claims (aa_rights r)) \<and>
     wf_provenance (aa_provenance r) \<and> wf_rights (aa_rights r)"

lemma audio_literals [simp]:
  "is_id audio_component_id" "is_id ''ingestion.bounded-audio-decoder''" "is_id ''evidence.audio-structure-''"
  "is_id ''claim.audio-origin-''" "is_id ''claim.audio-rights-''" "is_id ''audio.origin''"
  "is_id ''audio.voice-and-work-exposure''"
  by (simp_all add: id_eval audio_component_id_def)

lemma audio_analysis_result_ok:
  assumes "sha_ok rt" and "is_sha256 asset"
  shows "\<exists>r. audio_analysis_result rt asset info = Inr r \<and> audio_sound asset r \<and> aa_stream r = info \<and>
    pa_verdict (aa_provenance r) = Prov_UNKNOWN \<and> ra_state (aa_rights r) = State_UNAVAILABLE"
proof -
  let ?r = "\<lparr>aa_component = audio_component, aa_evidence = [audio_evidence rt asset info],
     aa_provenance = \<lparr>pa_state = State_COMPLETE, pa_verdict = Prov_UNKNOWN, pa_confidence = 0,
        pa_claims = [audio_origin_claim asset], pa_limitations = [audio_provenance_limitation]\<rparr>,
     aa_rights = \<lparr>ra_state = State_UNAVAILABLE, ra_verdict = Rights_UNKNOWN, ra_confidence = 0,
        ra_claims = [audio_rights_claim asset], ra_limitations = [audio_rights_limitation]\<rparr>, aa_stream = info\<rparr>"
  have e: "wf_evidence (audio_evidence rt asset info)"
    using assms by (simp add: wf_evidence_iff audio_evidence_def len_between_def)
  have k: "wf_component audio_component"
    by (simp add: wf_component_iff audio_component_def len_between_def)
  have c: "wf_claim (audio_origin_claim asset)" "wf_claim (audio_rights_claim asset)"
    using assms(2) by (simp_all add: wf_claim_iff audio_origin_claim_def audio_rights_claim_def len_between_def)
  have p: "wf_provenance (aa_provenance ?r)" and r: "wf_rights (aa_rights ?r)"
    by (simp_all add: wf_provenance_def wf_rights_def audio_origin_claim_def audio_rights_claim_def)
  have "audio_analysis_result rt asset info = Inr ?r"
    using e k c p r
    by (simp add: audio_analysis_result_def evidence.validate_fix component.validate_fix claim.validate_fix
        provenance.validate_fix rights.validate_fix)
  moreover have "audio_sound asset ?r"
    using e k c p r
    by (simp add: audio_sound_def lane_sound_def audio_evidence_def audio_component_def audio_origin_claim_def
        audio_rights_claim_def)
  ultimately show ?thesis by simp
qed

lemma inspect_pcm_wav_result:
  assumes "sha_ok rt" and "rt_sha256 rt data = asset"
  shows "case inspect_pcm_wav rt wave data asset of
      Inr r \<Rightarrow> audio_sound asset r \<and> pa_verdict (aa_provenance r) = Prov_UNKNOWN \<and>
        ra_state (aa_rights r) = State_UNAVAILABLE \<and>
        (\<exists>w. is_riff_wave data \<and> wave data = Some w \<and> bounded_pcm w \<and> aa_stream r = stream_of w)
    | Inl e \<Rightarrow> (\<exists>m. e = ValueError m) \<and> \<not> (is_riff_wave data \<and> (\<exists>w. wave data = Some w \<and> bounded_pcm w))"
proof (cases "is_riff_wave data")
  case False
  then show ?thesis by (simp add: inspect_pcm_wav_def assms(2))
next
  case True
  have sha: "is_sha256 asset" using assms by auto
  show ?thesis
  proof (cases "read_pcm_stream wave data")
    case (Inl e)
    then have "\<not> bounded_pcm w" if "wave data = Some w" for w
      using read_pcm_stream_Inr_iff [of wave data "stream_of w"] that by auto
    with Inl True read_pcm_stream_Inl [OF Inl] show ?thesis by (auto simp: inspect_pcm_wav_def assms(2))
  next
    case (Inr info)
    then have "\<exists>w. wave data = Some w \<and> bounded_pcm w \<and> info = stream_of w"
      by (simp add: read_pcm_stream_Inr_iff)
    with Inr True show ?thesis
      using audio_analysis_result_ok [OF assms(1) sha, of info] by (auto simp: inspect_pcm_wav_def assms(2))
  qed
qed

text \<open>
  The parser returns a result exactly for the RIFF/WAVE assets whose stream is uncompressed PCM within the
  bounds on channels, width, rate, duration and payload, and raises ValueError for all others; the result
  records that stream, its evidence is valid and bound to the asset, and it claims neither an origin nor
  any rights.
\<close>

theorem inspect_pcm_wav_iff:
  assumes "sha_ok rt" and "rt_sha256 rt data = asset"
  shows "case inspect_pcm_wav rt wave data asset of
      Inr r \<Rightarrow> audio_sound asset r \<and> pa_verdict (aa_provenance r) = Prov_UNKNOWN \<and>
        ra_state (aa_rights r) = State_UNAVAILABLE \<and>
        (\<exists>w. is_riff_wave data \<and> wave data = Some w \<and> bounded_pcm w \<and> aa_stream r = stream_of w)
    | Inl e \<Rightarrow> (\<exists>m. e = ValueError m) \<and> \<not> (is_riff_wave data \<and> (\<exists>w. wave data = Some w \<and> bounded_pcm w))"
  using assms by (rule inspect_pcm_wav_result)

definition demo_wav_bytes :: string where
  "demo_wav_bytes = ''RIFF'' @ ''size'' @ ''WAVE'' @ replicate 32 CHR ''x''"

theorem inspect_pcm_wav_iff_witness:
  "\<exists>r. inspect_pcm_wav demo_runtime (vl_wave demo_voice_lib) demo_wav_bytes (rt_sha256 demo_runtime demo_wav_bytes) = Inr r \<and>
    audio_sound (rt_sha256 demo_runtime demo_wav_bytes) r \<and> au_duration_seconds (aa_stream r) = 1 / 10"
proof -
  let ?w = "\<lparr>wav_compressed = False, wav_channels = 1, wav_width = 1, wav_rate = 8000, wav_frames = 800,
      wav_raw = replicate 800 (CHR ''a'')\<rparr>"
  have w: "vl_wave demo_voice_lib demo_wav_bytes = Some ?w" by (simp add: demo_voice_lib_def)
  moreover have "is_riff_wave demo_wav_bytes" by (simp add: is_riff_wave_def demo_wav_bytes_def)
  moreover have "bounded_pcm ?w" by (simp add: bounded_pcm_def)
  ultimately show ?thesis
    using inspect_pcm_wav_iff [OF sha_ok_demo refl, where wave = "vl_wave demo_voice_lib" and data = demo_wav_bytes]
    by (cases "inspect_pcm_wav demo_runtime (vl_wave demo_voice_lib) demo_wav_bytes (rt_sha256 demo_runtime demo_wav_bytes)")
      (auto simp: stream_of_def)
qed

end
