(* ===== verification/C2pa.thy ===== *)
theory C2pa
  imports Lanes
begin

section \<open>Content Credentials\<close>

text \<open>
  \<open>provenance/c2pa.py\<close>: an embedded C2PA manifest, read and validated by the c2pa SDK, is mapped to
  provenance evidence. The SDK is the \<open>c2pa_lib\<close> parameter: its version and what a reader of the asset
  reports, which is an error with its text, no manifest at all, or the validation state, the validation
  results, the active manifest and the report as JSON values (objects without duplicate keys).
\<close>

datatype c2pa_read =
    C2pa_failed string
  | C2pa_absent
  | C2pa_present "string option" json json json

record c2pa_lib =
  c2_version :: string
  c2_read :: "string \<Rightarrow> string \<Rightarrow> c2pa_read"

record manifest_observation =
  mo_validation_state :: "string option"
  mo_validation_results :: "json option"
  mo_active_manifest :: json
  mo_report :: json

subsection \<open>Reading the manifest\<close>

fun is_object :: "json \<Rightarrow> bool" where
  "is_object (JObj _) = True"
| "is_object _ = False"

text \<open>\<open>value.get(key)\<close>, and \<open>None\<close> for a value that is not a dictionary.\<close>

fun obj_get :: "json \<Rightarrow> string \<Rightarrow> json option" where
  "obj_get (JObj kvs) k = map_of kvs k"
| "obj_get _ k = None"

text \<open>The elements of a list value; nothing for any other value, as the \<open>isinstance\<close> tests skip it.\<close>

fun list_items :: "json option \<Rightarrow> json list" where
  "list_items (Some (JArr js)) = js"
| "list_items _ = []"

definition read_manifest :: "c2pa_lib \<Rightarrow> string \<Rightarrow> string \<Rightarrow> string + manifest_observation option" where
  "read_manifest lib data media_type =
     (case c2_read lib media_type data of
        C2pa_failed e \<Rightarrow> Inl e
      | C2pa_absent \<Rightarrow> Inr None
      | C2pa_present state results active_manifest report \<Rightarrow>
          if \<not> is_object active_manifest then Inl ''active manifest is missing or malformed''
          else Inr (Some \<lparr>mo_validation_state = state,
            mo_validation_results = (if is_object results then Some results else None),
            mo_active_manifest = active_manifest, mo_report = report\<rparr>))"

definition active_actions :: "json \<Rightarrow> json list" where
  "active_actions active_manifest =
     concat (map (\<lambda>assertion.
         let data = obj_get assertion ''data''
         in case data of None \<Rightarrow> [] | Some d \<Rightarrow> filter is_object (list_items (obj_get d ''actions'')))
       (filter is_object (list_items (obj_get active_manifest ''assertions''))))"

text \<open>\<open>value.rsplit("/", 1)[-1]\<close>.\<close>

definition last_segment :: "string \<Rightarrow> string" where
  "last_segment s = rev (takeWhile (\<lambda>c. c \<noteq> CHR ''/'') (rev s))"

definition digital_source_types :: "json \<Rightarrow> string list" where
  "digital_source_types active_manifest = sorted_set (List.map_filter
     (\<lambda>action. case obj_get action ''digitalSourceType'' of
        Some (JStr v) \<Rightarrow> if v \<noteq> [] then Some (last_segment v) else None
      | _ \<Rightarrow> None)
     (active_actions active_manifest))"

text \<open>The inner \<open>visit\<close>: the codes of the category, at every depth of dictionaries and lists.\<close>

definition category_codes :: "string \<Rightarrow> (string \<times> json) list \<Rightarrow> string list" where
  "category_codes category kvs = List.map_filter
     (\<lambda>status. case obj_get status ''code'' of Some (JStr c) \<Rightarrow> Some c | _ \<Rightarrow> None)
     (list_items (map_of kvs category))"

primrec visit_codes :: "string \<Rightarrow> json \<Rightarrow> string list" where
  "visit_codes category JNull = []"
| "visit_codes category (JBool b) = []"
| "visit_codes category (JInt i) = []"
| "visit_codes category (JFloat q) = []"
| "visit_codes category (JStr s) = []"
| "visit_codes category (JArr js) = concat (map (visit_codes category) js)"
| "visit_codes category (JObj kvs) =
     category_codes category kvs @ concat (map snd (map (map_prod id (visit_codes category)) kvs))"

definition status_codes :: "json option \<Rightarrow> string \<Rightarrow> string list" where
  "status_codes results category = (case results of None \<Rightarrow> [] | Some r \<Rightarrow> sorted_set (visit_codes category r))"

subsection \<open>Mapping to evidence\<close>

definition c2pa_id :: string where
  "c2pa_id = ''provenance.c2pa''"

definition trained_algorithmic_media :: string where
  "trained_algorithmic_media = ''trainedAlgorithmicMedia''"

definition composite_generative_media :: "string list" where
  "composite_generative_media = [''compositeWithTrainedAlgorithmicMedia'', ''compositeSynthetic'']"

definition tamper_failure_tokens :: "string list" where
  "tamper_failure_tokens = [''hash.mismatch'', ''hasheduri.mismatch'', ''signature.mismatch'', ''timestamp.mismatch'']"

definition c2pa_component :: "c2pa_lib \<Rightarrow> component_state \<Rightarrow> string option \<Rightarrow> component_record" where
  "c2pa_component lib state reason =
     \<lparr>co_component_id = c2pa_id, co_component_version = c2_version lib,
      co_component_type = ''provenance.credential-verifier'', co_state = state, co_mandatory = True,
      co_artifact_sha256 = None, co_reason = reason\<rparr>"

definition c2pa_evidence ::
    "c2pa_lib \<Rightarrow> string \<Rightarrow> string \<Rightarrow> evidence_kind \<Rightarrow> evidence_polarity \<Rightarrow> rat \<Rightarrow> string \<Rightarrow> string \<Rightarrow> attributes \<Rightarrow>
     evidence_pointer" where
  "c2pa_evidence lib evidence_id asset_sha256 kind polarity confidence summary payload attrs =
     \<lparr>ev_evidence_id = evidence_id, ev_asset_sha256 = asset_sha256, ev_kind = kind,
      ev_source = ''Content Authenticity Initiative c2pa-python SDK'', ev_component_id = c2pa_id,
      ev_component_version = c2_version lib, ev_polarity = polarity, ev_confidence = confidence,
      ev_locator = whole_asset, ev_summary = summary, ev_payload_sha256 = Some payload, ev_attributes = attrs\<rparr>"

definition c2pa_claim ::
    "string \<Rightarrow> string \<Rightarrow> string \<Rightarrow> claim_outcome \<Rightarrow> rat \<Rightarrow> string list \<Rightarrow> string list \<Rightarrow> claim_record" where
  "c2pa_claim claim_id claim_type statement outcome confidence evidence_ids limitations =
     \<lparr>cl_claim_id = claim_id, cl_dimension = Dim_PROVENANCE, cl_claim_type = claim_type, cl_statement = statement,
      cl_outcome = outcome, cl_confidence = confidence, cl_mandatory = False, cl_evidence_ids = evidence_ids,
      cl_limitations = limitations\<rparr>"

definition no_manifest_limitation :: string where
  "no_manifest_limitation = ''No embedded C2PA manifest was found; absence is not evidence of human authorship.''"

definition unknown_without_manifest :: "c2pa_lib \<Rightarrow> string \<Rightarrow> provenance_result res" where
  "unknown_without_manifest lib asset_sha256 =
     lane_result (c2pa_component lib Comp_AVAILABLE None) []
       \<lparr>pa_state = State_COMPLETE, pa_verdict = Prov_UNKNOWN, pa_confidence = 0,
        pa_claims = [c2pa_claim (asset_id_text ''claim.c2pa-presence-'' asset_sha256) ''credential.present''
          ''The asset contains an embedded C2PA manifest.'' Outcome_UNKNOWN 0 [] [no_manifest_limitation]],
        pa_limitations = [no_manifest_limitation]\<rparr>"

definition c2pa_failure_reason :: string where
  "c2pa_failure_reason = ''The C2PA SDK could not safely parse or verify this asset.''"

definition c2pa_integrity_statement :: string where
  "c2pa_integrity_statement = ''The embedded C2PA manifest validates for the assessed asset bytes.''"

text \<open>\<open>str(error).split(":", 1)[0][:100]\<close>.\<close>

definition error_category :: "string \<Rightarrow> string" where
  "error_category e = take 100 (takeWhile (\<lambda>c. c \<noteq> CHR '':'') e)"

definition c2pa_safe_failure :: "runtime \<Rightarrow> c2pa_lib \<Rightarrow> string \<Rightarrow> string \<Rightarrow> provenance_result res" where
  "c2pa_safe_failure rt lib asset_sha256 e =
     lane_result (c2pa_component lib Comp_DEGRADED (Some c2pa_failure_reason))
       [c2pa_evidence lib (asset_id_text ''evidence.c2pa-failure-'' asset_sha256) asset_sha256 Ev_COMPONENT_FAILURE
          Pol_NEUTRAL 1 c2pa_failure_reason (rt_sha256 rt e) [(''error_category'', AStr (error_category e))]]
       \<lparr>pa_state = State_UNAVAILABLE, pa_verdict = Prov_UNKNOWN, pa_confidence = 0,
        pa_claims = [c2pa_claim (asset_id_text ''claim.c2pa-integrity-'' asset_sha256) ''credential.integrity''
          c2pa_integrity_statement Outcome_NOT_ASSESSED 0 [] [c2pa_failure_reason]],
        pa_limitations = [c2pa_failure_reason]\<rparr>"

definition tamper_signal :: "string list \<Rightarrow> bool" where
  "tamper_signal failures \<longleftrightarrow>
     list_ex (\<lambda>code. list_ex (\<lambda>t. contains t (casefold code)) tamper_failure_tokens) failures"

definition generative_verdict :: "string list \<Rightarrow> provenance_verdict" where
  "generative_verdict sources =
     (if list_ex (\<lambda>s. s \<in> set composite_generative_media) sources then Prov_PARTIALLY_GENERATED
      else if trained_algorithmic_media \<in> set sources then Prov_AI_GENERATED else Prov_UNKNOWN)"

definition state_text :: "string option \<Rightarrow> string" where
  "state_text state = (case state of None \<Rightarrow> ''Unknown'' | Some s \<Rightarrow> if s = [] then ''Unknown'' else s)"

text \<open>The three branches on the normalised state: verdict, outcome, polarity, confidence, summary, limitations.\<close>

record c2pa_conclusion =
  cc_verdict :: provenance_verdict
  cc_outcome :: claim_outcome
  cc_polarity :: evidence_polarity
  cc_confidence :: rat
  cc_summary :: string
  cc_limitations :: "string list"

definition c2pa_conclude :: "string \<Rightarrow> string list \<Rightarrow> string list \<Rightarrow> c2pa_conclusion" where
  "c2pa_conclude validation_state sources failures =
     (let normalized = casefold validation_state
      in if normalized = ''invalid''
         then \<lparr>cc_verdict = (if tamper_signal failures then Prov_TAMPERED else Prov_UNKNOWN),
               cc_outcome = Outcome_CONTRADICTED, cc_polarity = Pol_CONTRADICTS, cc_confidence = 1,
               cc_summary = ''The embedded Content Credential failed C2PA validation.'',
               cc_limitations = [if tamper_signal failures
                 then ''A cryptographic mismatch is evidence of credential or asset tampering; inspect the status codes.''
                 else ''The credential is invalid, but the available status codes do not establish tampering.'']\<rparr>
         else if normalized = ''valid'' \<or> normalized = ''trusted''
         then \<lparr>cc_verdict = generative_verdict sources, cc_outcome = Outcome_SUPPORTED, cc_polarity = Pol_SUPPORTS,
               cc_confidence = (if normalized = ''trusted'' then 1 else 95 / 100),
               cc_summary = ''The embedded Content Credential is '' @ validation_state @ ''.'',
               cc_limitations =
                 (if list_ex (\<lambda>code. contains ''signingcredential.untrusted'' (casefold code)) failures
                  then [''The signing credential is untrusted; structural validation does not authenticate the publisher.'']
                  else []) @
                 (if generative_verdict sources = Prov_UNKNOWN
                  then [''The credential validates but does not declare a recognized generative-AI source type.'']
                  else [])\<rparr>
         else \<lparr>cc_verdict = Prov_UNKNOWN, cc_outcome = Outcome_UNKNOWN, cc_polarity = Pol_NEUTRAL, cc_confidence = 0,
               cc_summary = ''The embedded Content Credential reported validation state '' @ validation_state @ ''.'',
               cc_limitations = [''The C2PA validation state is not sufficient for a provenance conclusion.'']\<rparr>)"

definition observation_claims :: "string \<Rightarrow> c2pa_conclusion \<Rightarrow> claim_record list" where
  "observation_claims asset_sha256 c =
     (let evidence_id = asset_id_text ''evidence.c2pa-'' asset_sha256
      in c2pa_claim (asset_id_text ''claim.c2pa-integrity-'' asset_sha256) ''credential.integrity''
           c2pa_integrity_statement (cc_outcome c) (cc_confidence c)
           (if cc_outcome c \<noteq> Outcome_UNKNOWN then [evidence_id] else []) (cc_limitations c) #
         (if cc_verdict c \<in> {Prov_AI_GENERATED, Prov_PARTIALLY_GENERATED}
          then [c2pa_claim (asset_id_text ''claim.c2pa-ai-source-'' asset_sha256) ''credential.ai-source-declaration''
            ''The active C2PA manifest declares a recognized generative-AI source type.'' Outcome_SUPPORTED
            (cc_confidence c) [evidence_id] []]
          else []))"

definition map_observation ::
    "runtime \<Rightarrow> c2pa_lib \<Rightarrow> manifest_observation \<Rightarrow> string \<Rightarrow> provenance_result res" where
  "map_observation rt lib observation asset_sha256 =
     (let validation_state = state_text (mo_validation_state observation);
          sources = digital_source_types (mo_active_manifest observation);
          failures = status_codes (mo_validation_results observation) ''failure'';
          c = c2pa_conclude validation_state sources failures
      in lane_result (c2pa_component lib Comp_AVAILABLE None)
           [c2pa_evidence lib (asset_id_text ''evidence.c2pa-'' asset_sha256) asset_sha256 Ev_CONTENT_CREDENTIAL
              (cc_polarity c) (cc_confidence c) (cc_summary c) (sha256_json rt (mo_report observation))
              [(''validation_state'', AStr validation_state), (''failure_codes'', AStr (join '','' failures)),
               (''digital_source_types'', AStr (join '','' sources))]]
           \<lparr>pa_state = State_COMPLETE, pa_verdict = cc_verdict c, pa_confidence = cc_confidence c,
            pa_claims = observation_claims asset_sha256 c, pa_limitations = cc_limitations c\<rparr>)"

definition verify_c2pa :: "runtime \<Rightarrow> c2pa_lib \<Rightarrow> string \<Rightarrow> string \<Rightarrow> string \<Rightarrow> provenance_result res" where
  "verify_c2pa rt lib data media_type asset_sha256 =
     (case read_manifest lib data media_type of
        Inl e \<Rightarrow> c2pa_safe_failure rt lib asset_sha256 e
      | Inr None \<Rightarrow> unknown_without_manifest lib asset_sha256
      | Inr (Some observation) \<Rightarrow> map_observation rt lib observation asset_sha256)"

subsection \<open>What the status codes are\<close>

text \<open>The values inside a JSON value, at every depth.\<close>

inductive subvalue :: "json \<Rightarrow> json \<Rightarrow> bool" where
  subvalue_refl: "subvalue j j"
| subvalue_item: "j \<in> set js \<Longrightarrow> subvalue k j \<Longrightarrow> subvalue k (JArr js)"
| subvalue_field: "(key, j) \<in> set kvs \<Longrightarrow> subvalue k j \<Longrightarrow> subvalue k (JObj kvs)"

inductive_cases subvalue_arrE: "subvalue k (JArr js)"
inductive_cases subvalue_objE: "subvalue k (JObj kvs)"
inductive_simps subvalue_leaf [simp]:
  "subvalue k JNull" "subvalue k (JBool b)" "subvalue k (JInt i)" "subvalue k (JFloat q)" "subvalue k (JStr s)"

text \<open>The recursive visit finds exactly the codes listed under the category in some dictionary of the results.\<close>

lemma visit_codes_iff:
  "c \<in> set (visit_codes category j) \<longleftrightarrow> (\<exists>kvs. subvalue (JObj kvs) j \<and> c \<in> set (category_codes category kvs))"
proof (induction j)
  case (JArr js)
  have "c \<in> set (visit_codes category (JArr js)) \<longleftrightarrow>
      (\<exists>j \<in> set js. \<exists>kvs. subvalue (JObj kvs) j \<and> c \<in> set (category_codes category kvs))"
    using JArr by auto
  then show ?case by (auto intro: subvalue_item elim: subvalue_arrE)
next
  case (JObj kvs)
  have field: "c \<in> set (visit_codes category (snd kv)) \<longleftrightarrow>
      (\<exists>l. subvalue (JObj l) (snd kv) \<and> c \<in> set (category_codes category l))" if "kv \<in> set kvs" for kv
    using JObj [OF that, of "snd kv"] by (cases kv) (auto simp: snds.simps)
  have "c \<in> set (visit_codes category (JObj kvs)) \<longleftrightarrow>
      c \<in> set (category_codes category kvs) \<or> (\<exists>kv \<in> set kvs. c \<in> set (visit_codes category (snd kv)))"
    by auto
  also have "\<dots> \<longleftrightarrow> (\<exists>l. subvalue (JObj l) (JObj kvs) \<and> c \<in> set (category_codes category l))"
    using field by (auto intro: subvalue_refl subvalue_field elim!: subvalue_objE) (blast intro: subvalue_field)
  finally show ?case .
qed simp_all

lemma status_codes_iff:
  "c \<in> set (status_codes (Some results) category) \<longleftrightarrow>
     (\<exists>kvs. subvalue (JObj kvs) results \<and> c \<in> set (category_codes category kvs))"
  by (simp add: status_codes_def visit_codes_iff)

subsection \<open>The lane\<close>

lemma c2pa_literals [simp]:
  "is_id c2pa_id" "is_id ''provenance.credential-verifier''" "is_id ''credential.present''"
  "is_id ''credential.integrity''" "is_id ''credential.ai-source-declaration''" "is_id ''claim.c2pa-presence-''"
  "is_id ''claim.c2pa-integrity-''" "is_id ''claim.c2pa-ai-source-''" "is_id ''evidence.c2pa-''"
  "is_id ''evidence.c2pa-failure-''"
  by (simp_all add: id_eval c2pa_id_def)

lemma wf_c2pa_evidence:
  "wf_evidence (c2pa_evidence lib i sha k p q s h attrs) \<longleftrightarrow>
     is_id i \<and> is_sha256 sha \<and> len_between 1 100 (c2_version lib) \<and> unit_interval q \<and> len_between 1 1000 s \<and>
     is_sha256 h"
  by (auto simp: wf_evidence_iff c2pa_evidence_def len_between_def)

lemma wf_c2pa_component:
  "wf_component (c2pa_component lib Comp_AVAILABLE None) \<longleftrightarrow> len_between 1 100 (c2_version lib)"
  "wf_component (c2pa_component lib Comp_DEGRADED (Some r)) \<longleftrightarrow> len_between 1 100 (c2_version lib) \<and> len_between 1 500 r"
  by (auto simp: wf_component_iff c2pa_component_def len_between_def)

lemma wf_c2pa_claim:
  "wf_claim (c2pa_claim i ty t out q es ls) \<longleftrightarrow>
     is_id i \<and> is_id ty \<and> len_between 1 1000 t \<and> unit_interval q \<and> distinct es \<and> sorted es \<and>
     (out \<in> {Outcome_SUPPORTED, Outcome_CONTRADICTED} \<longrightarrow> es \<noteq> []) \<and>
     (out \<in> {Outcome_UNKNOWN, Outcome_NOT_ASSESSED} \<longrightarrow> ls \<noteq> []) \<and>
     (out = Outcome_NOT_ASSESSED \<longrightarrow> q = 0 \<and> es = [])"
  by (auto simp: wf_claim_iff c2pa_claim_def)

lemma c2pa_projections [simp]:
  "ev_evidence_id (c2pa_evidence lib i sha k p q s h attrs) = i"
  "ev_asset_sha256 (c2pa_evidence lib i sha k p q s h attrs) = sha"
  "ev_component_id (c2pa_evidence lib i sha k p q s h attrs) = c2pa_id"
  "ev_component_version (c2pa_evidence lib i sha k p q s h attrs) = c2_version lib"
  "ev_locator (c2pa_evidence lib i sha k p q s h attrs) = whole_asset"
  "cl_dimension (c2pa_claim j ty t out q es ls) = Dim_PROVENANCE"
  "cl_evidence_ids (c2pa_claim j ty t out q es ls) = es"
  "co_component_id (c2pa_component lib st r) = c2pa_id"
  "co_component_version (c2pa_component lib st r) = c2_version lib"
  "co_state (c2pa_component lib st r) = st"
  by (simp_all add: c2pa_evidence_def c2pa_claim_def c2pa_component_def)

lemma generative_verdict_iff:
  "generative_verdict sources \<in> {Prov_AI_GENERATED, Prov_PARTIALLY_GENERATED} \<longleftrightarrow>
     (\<exists>s \<in> set sources. s = trained_algorithmic_media \<or> s \<in> set composite_generative_media)"
  by (auto simp: generative_verdict_def list_ex_iff)

lemma generative_verdict_range:
  "generative_verdict sources \<in> {Prov_AI_GENERATED, Prov_PARTIALLY_GENERATED, Prov_UNKNOWN}"
  by (simp add: generative_verdict_def)

text \<open>A conclusion that passes the models, whatever the state says.\<close>

definition conclusion_ok :: "c2pa_conclusion \<Rightarrow> bool" where
  "conclusion_ok c \<longleftrightarrow> unit_interval (cc_confidence c) \<and> len_between 1 1000 (cc_summary c) \<and>
     cc_outcome c \<noteq> Outcome_NOT_ASSESSED \<and> (cc_outcome c = Outcome_UNKNOWN \<longrightarrow> cc_limitations c \<noteq> []) \<and>
     (cc_verdict c = Prov_UNKNOWN \<longrightarrow> cc_limitations c \<noteq> [])"

lemma c2pa_conclude_ok: "length state \<le> 900 \<Longrightarrow> conclusion_ok (c2pa_conclude state sources failures)"
  by (simp add: c2pa_conclude_def conclusion_ok_def Let_def len_between_def unit_interval_def)

lemma c2pa_conclude_verdict:
  "cc_verdict (c2pa_conclude state sources failures) =
     (if casefold state = ''invalid'' then if tamper_signal failures then Prov_TAMPERED else Prov_UNKNOWN
      else if casefold state = ''valid'' \<or> casefold state = ''trusted'' then generative_verdict sources
      else Prov_UNKNOWN)"
  by (simp add: c2pa_conclude_def Let_def)

lemma observation_claims_ok:
  assumes "conclusion_ok c" and "is_sha256 asset"
  shows "list_all wf_claim (observation_claims asset c)"
    and "list_all (\<lambda>x. cl_dimension x = Dim_PROVENANCE) (observation_claims asset c)"
    and "list_all (\<lambda>x. set (cl_evidence_ids x) \<subseteq> {asset_id_text ''evidence.c2pa-'' asset}) (observation_claims asset c)"
  using assms by (auto simp: observation_claims_def conclusion_ok_def Let_def wf_c2pa_claim
      c2pa_integrity_statement_def len_between_def)

lemma map_observation_ok:
  assumes "sha_ok rt" and "is_sha256 asset" and "len_between 1 100 (c2_version lib)"
    and "length (state_text (mo_validation_state ob)) \<le> 900"
  shows "\<exists>r. map_observation rt lib ob asset = Inr r \<and> provenance_sound asset r \<and>
    co_state (pr_component r) = Comp_AVAILABLE \<and>
    pa_verdict (pr_assessment r) = cc_verdict (c2pa_conclude (state_text (mo_validation_state ob))
      (digital_source_types (mo_active_manifest ob)) (status_codes (mo_validation_results ob) ''failure''))"
proof -
  let ?c = "c2pa_conclude (state_text (mo_validation_state ob)) (digital_source_types (mo_active_manifest ob))
      (status_codes (mo_validation_results ob) ''failure'')"
  have c: "conclusion_ok ?c" by (rule c2pa_conclude_ok) (rule assms(4))
  note claims = observation_claims_ok [OF c assms(2)]
  let ?a = "\<lparr>pa_state = State_COMPLETE, pa_verdict = cc_verdict ?c, pa_confidence = cc_confidence ?c,
      pa_claims = observation_claims asset ?c, pa_limitations = cc_limitations ?c\<rparr>"
  let ?e = "c2pa_evidence lib (asset_id_text ''evidence.c2pa-'' asset) asset Ev_CONTENT_CREDENTIAL
      (cc_polarity ?c) (cc_confidence ?c) (cc_summary ?c) (sha256_json rt (mo_report ob))
      [(''validation_state'', AStr (state_text (mo_validation_state ob))),
       (''failure_codes'', AStr (join '','' (status_codes (mo_validation_results ob) ''failure''))),
       (''digital_source_types'', AStr (join '','' (digital_source_types (mo_active_manifest ob))))]"
  have sound: "lane_sound asset (c2pa_component lib Comp_AVAILABLE None) [?e] (pa_claims ?a)"
    using assms c claims
    by (simp add: lane_sound_def wf_c2pa_evidence wf_c2pa_component conclusion_ok_def list_all_iff)
  have a: "wf_provenance ?a"
    using c claims(2) by (simp add: wf_provenance_def conclusion_ok_def list_all_iff)
  show ?thesis
    using sound a
    by (simp add: map_observation_def Let_def lane_result_ok [OF sound a] provenance_sound_def)
qed

lemma c2pa_safe_failure_ok:
  assumes "sha_ok rt" and "is_sha256 asset" and "len_between 1 100 (c2_version lib)"
  shows "\<exists>r. c2pa_safe_failure rt lib asset e = Inr r \<and> provenance_sound asset r \<and>
    co_state (pr_component r) = Comp_DEGRADED \<and> pa_verdict (pr_assessment r) = Prov_UNKNOWN"
proof -
  let ?k = "c2pa_component lib Comp_DEGRADED (Some c2pa_failure_reason)"
  let ?e = "c2pa_evidence lib (asset_id_text ''evidence.c2pa-failure-'' asset) asset Ev_COMPONENT_FAILURE
          Pol_NEUTRAL 1 c2pa_failure_reason (rt_sha256 rt e) [(''error_category'', AStr (error_category e))]"
  let ?a = "\<lparr>pa_state = State_UNAVAILABLE, pa_verdict = Prov_UNKNOWN, pa_confidence = 0,
        pa_claims = [c2pa_claim (asset_id_text ''claim.c2pa-integrity-'' asset) ''credential.integrity''
          c2pa_integrity_statement Outcome_NOT_ASSESSED 0 [] [c2pa_failure_reason]],
        pa_limitations = [c2pa_failure_reason]\<rparr>"
  have sound: "lane_sound asset ?k [?e] (pa_claims ?a)"
    using assms by (simp add: lane_sound_def wf_c2pa_evidence wf_c2pa_component wf_c2pa_claim
        c2pa_failure_reason_def c2pa_integrity_statement_def len_between_def)
  have a: "wf_provenance ?a" by (simp add: wf_provenance_def)
  show ?thesis
    using sound a by (simp add: c2pa_safe_failure_def lane_result_ok [OF sound a] provenance_sound_def)
qed

lemma unknown_without_manifest_ok:
  assumes "is_sha256 asset" and "len_between 1 100 (c2_version lib)"
  shows "\<exists>r. unknown_without_manifest lib asset = Inr r \<and> provenance_sound asset r \<and>
    co_state (pr_component r) = Comp_AVAILABLE \<and> pa_verdict (pr_assessment r) = Prov_UNKNOWN"
proof -
  let ?k = "c2pa_component lib Comp_AVAILABLE None"
  let ?a = "\<lparr>pa_state = State_COMPLETE, pa_verdict = Prov_UNKNOWN, pa_confidence = 0,
        pa_claims = [c2pa_claim (asset_id_text ''claim.c2pa-presence-'' asset) ''credential.present''
          ''The asset contains an embedded C2PA manifest.'' Outcome_UNKNOWN 0 [] [no_manifest_limitation]],
        pa_limitations = [no_manifest_limitation]\<rparr>"
  have sound: "lane_sound asset ?k [] (pa_claims ?a)"
    using assms by (simp add: lane_sound_def wf_c2pa_component wf_c2pa_claim len_between_def)
  have a: "wf_provenance ?a" by (simp add: wf_provenance_def)
  show ?thesis
    using sound a by (simp add: unknown_without_manifest_def lane_result_ok [OF sound a] provenance_sound_def)
qed

text \<open>What the SDK is relied on for: a version text and a validation state that are short.\<close>

definition c2pa_lib_ok :: "c2pa_lib \<Rightarrow> bool" where
  "c2pa_lib_ok lib \<longleftrightarrow> len_between 1 100 (c2_version lib) \<and>
     (\<forall>m d state results active report. c2_read lib m d = C2pa_present (Some state) results active report \<longrightarrow>
        length state \<le> 900)"

lemma read_manifest_state:
  "c2pa_lib_ok lib \<Longrightarrow> read_manifest lib data m = Inr (Some ob) \<Longrightarrow> length (state_text (mo_validation_state ob)) \<le> 900"
proof -
  assume ok: "c2pa_lib_ok lib" and ob: "read_manifest lib data m = Inr (Some ob)"
  obtain results active report where
    "c2_read lib m data = C2pa_present (mo_validation_state ob) results active report"
    using ob by (auto simp: read_manifest_def split: c2pa_read.splits if_splits)
  with ok have "length s \<le> 900" if "mo_validation_state ob = Some s" for s
    using that unfolding c2pa_lib_ok_def by metis
  then show ?thesis by (auto simp: state_text_def split: option.split)
qed

definition observed :: "c2pa_lib \<Rightarrow> string \<Rightarrow> string \<Rightarrow> string list \<Rightarrow> manifest_observation \<Rightarrow> bool" where
  "observed lib data m states ob \<longleftrightarrow>
     read_manifest lib data m = Inr (Some ob) \<and> casefold (state_text (mo_validation_state ob)) \<in> set states"

lemma verify_c2pa_result:
  assumes "sha_ok rt" and "is_sha256 asset" and "c2pa_lib_ok lib"
  shows "\<exists>r. verify_c2pa rt lib data m asset = Inr r \<and> provenance_sound asset r \<and>
    pa_verdict (pr_assessment r) \<noteq> Prov_AUTHENTIC \<and>
    (pa_verdict (pr_assessment r) = Prov_TAMPERED \<longleftrightarrow>
      (\<exists>ob. observed lib data m [''invalid''] ob \<and> tamper_signal (status_codes (mo_validation_results ob) ''failure''))) \<and>
    (pa_verdict (pr_assessment r) \<in> {Prov_AI_GENERATED, Prov_PARTIALLY_GENERATED} \<longleftrightarrow>
      (\<exists>ob. observed lib data m [''valid'', ''trusted''] ob \<and>
        (\<exists>s \<in> set (digital_source_types (mo_active_manifest ob)).
           s = trained_algorithmic_media \<or> s \<in> set composite_generative_media))) \<and>
    (co_state (pr_component r) = Comp_DEGRADED \<longleftrightarrow> (\<exists>e. read_manifest lib data m = Inl e))"
proof -
  have v: "len_between 1 100 (c2_version lib)" using assms(3) by (simp add: c2pa_lib_ok_def)
  show ?thesis
  proof (cases "read_manifest lib data m")
    case (Inl e)
    then show ?thesis
      using c2pa_safe_failure_ok [OF assms(1,2) v, of e] by (auto simp: verify_c2pa_def observed_def)
  next
    case (Inr obs)
    show ?thesis
    proof (cases obs)
      case None
      with Inr show ?thesis
        using unknown_without_manifest_ok [OF assms(2) v] by (auto simp: verify_c2pa_def observed_def)
    next
      case (Some ob)
      with Inr have ob: "read_manifest lib data m = Inr (Some ob)" by simp
      obtain r where r: "map_observation rt lib ob asset = Inr r" "provenance_sound asset r"
        "co_state (pr_component r) = Comp_AVAILABLE"
        and verdict: "pa_verdict (pr_assessment r) = cc_verdict (c2pa_conclude (state_text (mo_validation_state ob))
          (digital_source_types (mo_active_manifest ob)) (status_codes (mo_validation_results ob) ''failure''))"
        using map_observation_ok [OF assms(1,2) v read_manifest_state [OF assms(3) ob]] by blast
      have "observed lib data m states x \<longleftrightarrow> x = ob \<and> casefold (state_text (mo_validation_state ob)) \<in> set states"
        for states x
        using ob by (auto simp: observed_def)
      then show ?thesis
        using r ob generative_verdict_iff [of "digital_source_types (mo_active_manifest ob)"]
          generative_verdict_range [of "digital_source_types (mo_active_manifest ob)"]
        by (auto simp: verify_c2pa_def verdict c2pa_conclude_verdict)
    qed
  qed
qed

text \<open>
  C13: the credential lane always returns valid evidence bound to the asset. It reports tampering exactly for an
  invalid credential with a failure code, at any depth of the results, that names a mismatch; it reports
  generated content exactly for a valid or trusted credential whose active manifest declares a generative
  source; it never concludes that an asset is authentic; and its component is degraded exactly when the SDK
  could not read the asset.
\<close>

theorem verify_c2pa_sound:
  assumes "sha_ok rt" and "is_sha256 asset" and "c2pa_lib_ok lib"
  shows "\<exists>r. verify_c2pa rt lib data m asset = Inr r \<and> provenance_sound asset r \<and>
    pa_verdict (pr_assessment r) \<noteq> Prov_AUTHENTIC \<and>
    (pa_verdict (pr_assessment r) = Prov_TAMPERED \<longleftrightarrow>
      (\<exists>ob. observed lib data m [''invalid''] ob \<and> tamper_signal (status_codes (mo_validation_results ob) ''failure''))) \<and>
    (pa_verdict (pr_assessment r) \<in> {Prov_AI_GENERATED, Prov_PARTIALLY_GENERATED} \<longleftrightarrow>
      (\<exists>ob. observed lib data m [''valid'', ''trusted''] ob \<and>
        (\<exists>s \<in> set (digital_source_types (mo_active_manifest ob)).
           s = trained_algorithmic_media \<or> s \<in> set composite_generative_media))) \<and>
    (co_state (pr_component r) = Comp_DEGRADED \<longleftrightarrow> (\<exists>e. read_manifest lib data m = Inl e))"
  using assms by (rule verify_c2pa_result)

definition demo_c2pa_lib :: c2pa_lib where
  "demo_c2pa_lib = \<lparr>c2_version = ''0.12.0'', c2_read = (\<lambda>_ _. C2pa_present (Some ''Invalid'')
     (JObj [(''activeManifest'', JObj [(''failure'', JArr [JObj [(''code'', JStr ''assertion.dataHash.mismatch'')]])])])
     (JObj []) (JObj []))\<rparr>"

theorem verify_c2pa_sound_witness:
  "\<exists>r. verify_c2pa demo_runtime demo_c2pa_lib ''data'' ''image/png'' (rt_sha256 demo_runtime ''data'') = Inr r \<and>
    provenance_sound (rt_sha256 demo_runtime ''data'') r \<and> pa_verdict (pr_assessment r) = Prov_TAMPERED"
proof -
  let ?ob = "\<lparr>mo_validation_state = Some ''Invalid'', mo_validation_results = Some
     (JObj [(''activeManifest'', JObj [(''failure'', JArr [JObj [(''code'', JStr ''assertion.dataHash.mismatch'')]])])]),
     mo_active_manifest = JObj [], mo_report = JObj []\<rparr>"
  have "c2pa_lib_ok demo_c2pa_lib" by (simp add: c2pa_lib_ok_def demo_c2pa_lib_def len_between_def)
  moreover have "casefold ''Invalid'' = ''invalid''" by code_simp
  then have "observed demo_c2pa_lib ''data'' ''image/png'' [''invalid''] ?ob"
    by (simp add: observed_def read_manifest_def demo_c2pa_lib_def state_text_def)
  moreover have "tamper_signal (status_codes (mo_validation_results ?ob) ''failure'')" by code_simp
  ultimately show ?thesis
    using verify_c2pa_sound [OF sha_ok_demo, of "rt_sha256 demo_runtime ''data''" demo_c2pa_lib "''data''" "''image/png''"]
      sha_okD [OF sha_ok_demo] by blast
qed

end
