(* ===== verification/Watermark.thy ===== *)
theory Watermark
  imports Lanes Image_Registry
begin

section \<open>Governed visible watermarks\<close>

text \<open>
  \<open>provenance/watermark.py\<close>: operator-enrolled visible watermark profiles are compared with the configured
  region of an image. PIL is the \<open>watermark_lib\<close> parameter: the size an opened image announces, the size of
  the decoded RGB image (or the text of the error), the RGB bytes and the 9x8 luminance pixels of a cropped and
  resized patch (or the text of the \<open>ValueError\<close> for a box PIL refuses), and the same for a whole template.
\<close>

subsection \<open>Profiles and their registry\<close>

record watermark_lib =
  wl_open :: "string \<Rightarrow> string + int \<times> int"
  wl_decoded :: "string \<Rightarrow> string + int \<times> int"
  wl_patch :: "string \<Rightarrow> int \<times> int \<times> int \<times> int \<Rightarrow> int \<Rightarrow> int \<Rightarrow> string + string \<times> int list"
  wl_template :: "string \<Rightarrow> (int \<times> int \<times> string \<times> int list) option"

record watermark_profile =
  wp_profile_id :: string
  wp_source_record_id :: string
  wp_brand_profiles :: "string list"
  wp_normalized_bbox :: "rat \<times> rat \<times> rat \<times> rat"
  wp_template_width :: int
  wp_template_height :: int
  wp_pixel_sha256 :: string
  wp_dhash :: string
  wp_max_hamming_distance :: int

definition brand_set :: "string list \<Rightarrow> string list" where
  "brand_set values = sorted_set (map (\<lambda>v. casefold (strip v)) (filter (\<lambda>v. strip v \<noteq> []) values))"

definition unit_box :: "rat \<times> rat \<times> rat \<times> rat \<Rightarrow> bool" where
  "unit_box b \<longleftrightarrow> (case b of (x0, y0, x1, y1) \<Rightarrow>
     \<not> (min (min x0 y0) (min x1 y1) < 0 \<or> 1 < max (max x0 y0) (max x1 y1) \<or> x1 \<le> x0 \<or> y1 \<le> y0))"

definition validate_watermark_profile :: "watermark_profile \<Rightarrow> watermark_profile res" where
  "validate_watermark_profile p =
     check_fields ''VisibleWatermarkProfile''
       [(''profile_id'', is_id (wp_profile_id p)), (''source_record_id'', is_id (wp_source_record_id p)),
        (''brand_profiles'', wp_brand_profiles p \<noteq> [] \<and> brand_set (wp_brand_profiles p) \<noteq> []),
        (''normalized_bbox'', unit_box (wp_normalized_bbox p)),
        (''template_width'', 0 < wp_template_width p \<and> wp_template_width p \<le> 4096),
        (''template_height'', 0 < wp_template_height p \<and> wp_template_height p \<le> 4096),
        (''pixel_sha256'', is_sha256 (wp_pixel_sha256 p)), (''dhash'', is_dhash (wp_dhash p)),
        (''max_hamming_distance'', 0 \<le> wp_max_hamming_distance p \<and> wp_max_hamming_distance p \<le> 64)]
       (Inr (p\<lparr>wp_brand_profiles := brand_set (wp_brand_profiles p)\<rparr>))"

definition wf_watermark_profile :: "watermark_profile \<Rightarrow> bool" where
  "wf_watermark_profile p \<longleftrightarrow> is_id (wp_profile_id p) \<and> is_id (wp_source_record_id p) \<and>
     wp_brand_profiles p \<noteq> [] \<and> brand_set (wp_brand_profiles p) = wp_brand_profiles p \<and>
     unit_box (wp_normalized_bbox p) \<and> 0 < wp_template_width p \<and> wp_template_width p \<le> 4096 \<and>
     0 < wp_template_height p \<and> wp_template_height p \<le> 4096 \<and> is_sha256 (wp_pixel_sha256 p) \<and>
     is_dhash (wp_dhash p) \<and> 0 \<le> wp_max_hamming_distance p \<and> wp_max_hamming_distance p \<le> 64"

lemma brand_set_idem [simp]: "brand_set (brand_set vs) = brand_set vs"
proof -
  have fix_mem: "strip v \<noteq> [] \<and> casefold (strip v) = v" if "v \<in> set (brand_set vs)" for v
    using that by (auto simp: brand_set_def strip_casefold)
  have "filter (\<lambda>v. strip v \<noteq> []) (brand_set vs) = brand_set vs"
    using fix_mem by (intro filter_True) blast
  moreover have "map (\<lambda>v. casefold (strip v)) (brand_set vs) = brand_set vs"
    using fix_mem by (intro map_idI) blast
  ultimately have "brand_set (brand_set vs) = sorted_set (brand_set vs)"
    by (simp add: brand_set_def [of "brand_set vs"])
  then show ?thesis by (simp add: brand_set_def [of vs])
qed

interpretation watermark_profile: validated_model validate_watermark_profile wf_watermark_profile
  by unfold_locales (auto simp: validate_watermark_profile_def wf_watermark_profile_def check_fields_ok)

record watermark_registry =
  wr_registry_id :: string
  wr_version :: string
  wr_profiles :: "watermark_profile list"

definition validate_watermark_registry :: "watermark_registry \<Rightarrow> watermark_registry res" where
  "validate_watermark_registry r =
     check_fields ''VisibleWatermarkRegistry''
       [(''registry_id'', is_id (wr_registry_id r)), (''version'', len_between 1 100 (wr_version r))]
       (if \<not> distinct (map wp_profile_id (wr_profiles r))
        then Inl (ModelError ''VisibleWatermarkRegistry'' ''profile_id values must be unique'') else Inr r)"

definition wf_watermark_registry :: "watermark_registry \<Rightarrow> bool" where
  "wf_watermark_registry r \<longleftrightarrow> is_id (wr_registry_id r) \<and> len_between 1 100 (wr_version r) \<and>
     distinct (map wp_profile_id (wr_profiles r))"

interpretation watermark_registry: validated_model validate_watermark_registry wf_watermark_registry
  by unfold_locales (auto simp: validate_watermark_registry_def wf_watermark_registry_def check_fields_ok)

interpretation watermark_profiles: keyed_registry wp_profile_id wr_profiles wf_watermark_registry
  by unfold_locales (simp add: wf_watermark_registry_def)

definition watermark_profile_payload :: "watermark_profile \<Rightarrow> json" where
  "watermark_profile_payload p = JObj
     [(''profile_id'', JStr (wp_profile_id p)), (''source_record_id'', JStr (wp_source_record_id p)),
      (''brand_profiles'', strs (wp_brand_profiles p)), (''normalized_bbox'', bbox_json (wp_normalized_bbox p)),
      (''template_width'', JInt (wp_template_width p)), (''template_height'', JInt (wp_template_height p)),
      (''pixel_sha256'', JStr (wp_pixel_sha256 p)), (''dhash'', JStr (wp_dhash p)),
      (''max_hamming_distance'', JInt (wp_max_hamming_distance p))]"

definition watermark_registry_payload :: "watermark_registry \<Rightarrow> json" where
  "watermark_registry_payload r = JObj
     [(''schema'', JStr ''veilgraph.rightsgate.visible-watermark-registry.v1''),
      (''registry_id'', JStr (wr_registry_id r)), (''version'', JStr (wr_version r)),
      (''profiles'', JArr (map watermark_profile_payload (sort_key wp_profile_id (wr_profiles r))))]"

definition watermark_registry_commitment :: "runtime \<Rightarrow> watermark_registry \<Rightarrow> string" where
  "watermark_registry_commitment rt r = sha256_json rt (watermark_registry_payload r)"

text \<open>\<open>n.to_bytes(4, "big")\<close>, and \<open>_pixel_sha256\<close> of an image of a size with its RGB bytes.\<close>

definition be32 :: "int \<Rightarrow> string" where
  "be32 n = map (\<lambda>k. char_of (nat (n div 256 ^ k mod 256))) [3, 2, 1, 0]"

definition pixel_sha256 :: "runtime \<Rightarrow> int \<Rightarrow> int \<Rightarrow> string \<Rightarrow> string" where
  "pixel_sha256 rt width height rgb = rt_sha256 rt (be32 width @ be32 height @ rgb)"

definition build_watermark_profile ::
    "runtime \<Rightarrow> watermark_lib \<Rightarrow> string \<Rightarrow> string \<Rightarrow> string list \<Rightarrow> rat \<times> rat \<times> rat \<times> rat \<Rightarrow> string \<Rightarrow> int \<Rightarrow>
     watermark_profile res" where
  "build_watermark_profile rt lib profile_id source_record_id brand_profiles bbox template_data max_distance =
     (case wl_template lib template_data of
        None \<Rightarrow> Inl (ValueError ''watermark template could not be decoded safely'')
      | Some (width, height, rgb, gray) \<Rightarrow> validate_watermark_profile
          \<lparr>wp_profile_id = profile_id, wp_source_record_id = source_record_id, wp_brand_profiles = brand_profiles,
           wp_normalized_bbox = bbox, wp_template_width = width, wp_template_height = height,
           wp_pixel_sha256 = pixel_sha256 rt width height rgb, wp_dhash = dhash_text gray,
           wp_max_hamming_distance = max_distance\<rparr>)"

subsection \<open>Checking one profile\<close>

definition watermark_id :: string where
  "watermark_id = ''provenance.watermark-forensics''"

definition applicable :: "assessment_context \<Rightarrow> watermark_profile \<Rightarrow> bool" where
  "applicable context p \<longleftrightarrow> ''*'' \<in> set (wp_brand_profiles p) \<or>
     casefold (case cx_brand_profile context of None \<Rightarrow> [] | Some b \<Rightarrow> b) \<in> set (wp_brand_profiles p)"

definition pixel_box :: "int \<Rightarrow> int \<Rightarrow> rat \<times> rat \<times> rat \<times> rat \<Rightarrow> int \<times> int \<times> int \<times> int" where
  "pixel_box width height b = (case b of (x0, y0, x1, y1) \<Rightarrow>
     (round_half_even (x0 * of_int width), round_half_even (y0 * of_int height),
      round_half_even (x1 * of_int width), round_half_even (y1 * of_int height)))"

definition box_rat :: "int \<times> int \<times> int \<times> int \<Rightarrow> rat \<times> rat \<times> rat \<times> rat" where
  "box_rat b = (case b of (x0, y0, x1, y1) \<Rightarrow> (of_int x0, of_int y0, of_int x1, of_int y1))"

record watermark_check =
  wc_profile :: watermark_profile
  wc_box :: "int \<times> int \<times> int \<times> int"
  wc_pixel_sha256 :: string
  wc_dhash :: string
  wc_distance :: nat

definition wc_intact :: "watermark_check \<Rightarrow> bool" where
  "wc_intact c \<longleftrightarrow> wc_pixel_sha256 c = wp_pixel_sha256 (wc_profile c) \<or>
     int (wc_distance c) \<le> wp_max_hamming_distance (wc_profile c)"

definition wc_confidence :: "watermark_check \<Rightarrow> rat" where
  "wc_confidence c =
     (if wc_intact c
      then if wc_pixel_sha256 c = wp_pixel_sha256 (wc_profile c) then 1
           else round_to (max (1 / 2) (1 - of_nat (wc_distance c) / 64)) 6
      else round_to (min (99 / 100) (55 / 100 + of_nat (wc_distance c) / 128)) 6)"

definition check_profile ::
    "runtime \<Rightarrow> watermark_lib \<Rightarrow> string \<Rightarrow> int \<Rightarrow> int \<Rightarrow> watermark_profile \<Rightarrow> watermark_check res" where
  "check_profile rt lib data width height p =
     (let box = pixel_box width height (wp_normalized_bbox p)
      in case wl_patch lib data box (wp_template_width p) (wp_template_height p) of
        Inl e \<Rightarrow> Inl (ValueError e)
      | Inr (rgb, gray) \<Rightarrow> Inr
          \<lparr>wc_profile = p, wc_box = box,
           wc_pixel_sha256 = pixel_sha256 rt (wp_template_width p) (wp_template_height p) rgb,
           wc_dhash = dhash_text gray, wc_distance = hamming_distance (dhash_text gray) (wp_dhash p)\<rparr>)"

definition watermark_evidence :: "runtime \<Rightarrow> string \<Rightarrow> watermark_registry \<Rightarrow> watermark_check \<Rightarrow> evidence_pointer" where
  "watermark_evidence rt asset_sha256 registry c =
     (let p = wc_profile c
      in \<lparr>ev_evidence_id = token_id_text rt ''evidence.watermark-'' (wp_profile_id p) asset_sha256,
          ev_asset_sha256 = asset_sha256, ev_kind = Ev_WATERMARK,
          ev_source = ''Governed visible-watermark integrity registry'', ev_component_id = watermark_id,
          ev_component_version = ''1.0.0'',
          ev_polarity = (if wc_intact c then Pol_SUPPORTS else Pol_CONTRADICTS), ev_confidence = wc_confidence c,
          ev_locator = region_locator (box_rat (wc_box c)),
          ev_summary = (if wc_intact c then ''Configured visible watermark region matches its governed template.''
            else ''Configured visible watermark region differs from its governed template.''),
          ev_payload_sha256 = Some (sha256_json rt (JObj
            [(''asset_sha256'', JStr asset_sha256), (''candidate_dhash'', JStr (wc_dhash c)),
             (''distance'', JInt (int (wc_distance c))), (''pixel_sha256'', JStr (wc_pixel_sha256 c)),
             (''profile_id'', JStr (wp_profile_id p)),
             (''registry_sha256'', JStr (watermark_registry_commitment rt registry))])),
          ev_attributes =
            [(''distance'', AInt (int (wc_distance c))), (''intact'', ABool (wc_intact c)),
             (''max_hamming_distance'', AInt (wp_max_hamming_distance p)), (''profile_id'', AStr (wp_profile_id p)),
             (''registry_id'', AStr (wr_registry_id registry)), (''registry_version'', AStr (wr_version registry)),
             (''source_record_id'', AStr (wp_source_record_id p))]\<rparr>)"

definition watermark_claim ::
    "string \<Rightarrow> string \<Rightarrow> claim_outcome \<Rightarrow> rat \<Rightarrow> bool \<Rightarrow> string list \<Rightarrow> string list \<Rightarrow> claim_record" where
  "watermark_claim claim_id statement outcome confidence mandatory evidence_ids limitations =
     \<lparr>cl_claim_id = claim_id, cl_dimension = Dim_PROVENANCE, cl_claim_type = ''watermark.visible-integrity'',
      cl_statement = statement, cl_outcome = outcome, cl_confidence = confidence, cl_mandatory = mandatory,
      cl_evidence_ids = evidence_ids, cl_limitations = limitations\<rparr>"

definition profile_claim :: "runtime \<Rightarrow> string \<Rightarrow> watermark_check \<Rightarrow> claim_record" where
  "profile_claim rt asset_sha256 c =
     (let i = wp_profile_id (wc_profile c)
      in watermark_claim (token_id_text rt ''claim.watermark-'' i asset_sha256)
           (''Visible watermark profile '' @ i @ '' is intact.'')
           (if wc_intact c then Outcome_SUPPORTED else Outcome_CONTRADICTED) (wc_confidence c) True
           [token_id_text rt ''evidence.watermark-'' i asset_sha256]
           [''This verifies an enrolled visible region only; it does not inspect arbitrary invisible watermarks.''])"

text \<open>One turn of the loop: the patch, the locator, the evidence, the claim.\<close>

definition watermark_step ::
    "runtime \<Rightarrow> watermark_lib \<Rightarrow> string \<Rightarrow> string \<Rightarrow> watermark_registry \<Rightarrow> int \<Rightarrow> int \<Rightarrow> watermark_profile \<Rightarrow>
     (watermark_check \<times> evidence_pointer \<times> claim_record) res" where
  "watermark_step rt lib data asset_sha256 registry width height p =
     res_bind (check_profile rt lib data width height p) (\<lambda>c.
     res_bind (validate_locator (region_locator (box_rat (wc_box c)))) (\<lambda>_.
     res_bind (validate_evidence (watermark_evidence rt asset_sha256 registry c)) (\<lambda>e.
     res_bind (validate_claim (profile_claim rt asset_sha256 c)) (\<lambda>cl. Inr (c, e, cl)))))"

subsection \<open>The lane\<close>

definition watermark_component :: "string \<Rightarrow> component_record" where
  "watermark_component registry_sha256 =
     \<lparr>co_component_id = watermark_id, co_component_version = ''1.0.0'',
      co_component_type = ''provenance.governed-visible-watermark-verifier'', co_state = Comp_AVAILABLE,
      co_mandatory = True, co_artifact_sha256 = Some registry_sha256, co_reason = None\<rparr>"

definition watermark_statement :: string where
  "watermark_statement = ''An applicable governed visible watermark is intact.''"

definition not_applicable_limitation :: string where
  "not_applicable_limitation = ''No governed visible-watermark profile applies to this brand context.''"

definition watermark_not_applicable :: "component_record \<Rightarrow> string \<Rightarrow> provenance_result res" where
  "watermark_not_applicable component asset_sha256 =
     res_bind (validate_claim (watermark_claim (asset_id_text ''claim.watermark-applicability-'' asset_sha256)
       watermark_statement Outcome_NOT_ASSESSED 0 False [] [not_applicable_limitation])) (\<lambda>claim.
     res_bind (validate_provenance \<lparr>pa_state = State_COMPLETE, pa_verdict = Prov_UNKNOWN, pa_confidence = 0,
       pa_claims = [claim], pa_limitations = [not_applicable_limitation]\<rparr>) (\<lambda>assessment.
     Inr \<lparr>pr_component = component, pr_evidence = [], pr_assessment = assessment\<rparr>))"

definition watermark_decode_reason :: string where
  "watermark_decode_reason = ''The watermark verifier could not decode the asset within its safety budget.''"

definition watermark_failure :: "component_record \<Rightarrow> string \<Rightarrow> string \<Rightarrow> provenance_result res" where
  "watermark_failure component asset_sha256 e =
     res_bind (validate_claim (watermark_claim (asset_id_text ''claim.watermark-failure-'' asset_sha256)
       watermark_statement Outcome_NOT_ASSESSED 0 True [] [watermark_decode_reason])) (\<lambda>claim.
     res_bind (validate_provenance \<lparr>pa_state = State_UNAVAILABLE, pa_verdict = Prov_UNKNOWN, pa_confidence = 0,
       pa_claims = [claim], pa_limitations = [watermark_decode_reason, take 200 e]\<rparr>) (\<lambda>assessment.
     Inr \<lparr>pr_component = component\<lparr>co_state := Comp_DEGRADED, co_reason := Some watermark_decode_reason\<rparr>,
          pr_evidence = [], pr_assessment = assessment\<rparr>))"

text \<open>Opening and decoding: the size of the RGB image, or the text of the error that was caught.\<close>

definition decode_watermark_image :: "watermark_lib \<Rightarrow> string \<Rightarrow> int \<Rightarrow> string + int \<times> int" where
  "decode_watermark_image lib data max_pixels =
     (case wl_open lib data of
        Inl e \<Rightarrow> Inl e
      | Inr (width, height) \<Rightarrow>
          if width < 1 \<or> height < 1 \<or> max_pixels < width * height
          then Inl ''image exceeds the configured pixel budget''
          else wl_decoded lib data)"

definition watermark_conclusion ::
    "component_record \<Rightarrow> (watermark_check \<times> evidence_pointer \<times> claim_record) list \<Rightarrow> provenance_result res" where
  "watermark_conclusion component checked =
     (let tampered_confidences = map ev_confidence (map (\<lambda>x. fst (snd x)) (filter (\<lambda>x. \<not> wc_intact (fst x)) checked));
          tampered = tampered_confidences \<noteq> []
      in res_bind (validate_provenance
           \<lparr>pa_state = State_COMPLETE, pa_verdict = (if tampered then Prov_TAMPERED else Prov_UNKNOWN),
            pa_confidence = max_default 0 tampered_confidences, pa_claims = map (\<lambda>x. snd (snd x)) checked,
            pa_limitations = [if tampered
              then ''Visible watermark mismatch is policy evidence, not proof of who altered the asset.''
              else ''Configured visible watermark profiles passed; arbitrary invisible watermarks were not assessed.'']\<rparr>)
           (\<lambda>assessment. Inr \<lparr>pr_component = component, pr_evidence = map (\<lambda>x. fst (snd x)) checked,
              pr_assessment = assessment\<rparr>))"

definition verify_visible_watermarks ::
    "runtime \<Rightarrow> watermark_lib \<Rightarrow> string \<Rightarrow> string \<Rightarrow> assessment_context \<Rightarrow> watermark_registry \<Rightarrow> int \<Rightarrow>
     provenance_result res" where
  "verify_visible_watermarks rt lib data asset_sha256 context registry max_pixels =
     (if rt_sha256 rt data \<noteq> asset_sha256
      then Inl (ValueError ''asset_sha256 does not match the supplied image bytes'')
      else res_bind (validate_component (watermark_component (watermark_registry_commitment rt registry))) (\<lambda>component.
        let selected = filter (applicable context) (wr_profiles registry)
        in if selected = [] then watermark_not_applicable component asset_sha256
           else case decode_watermark_image lib data max_pixels of
             Inl e \<Rightarrow> watermark_failure component asset_sha256 e
           | Inr (width, height) \<Rightarrow>
               res_bind (res_map (watermark_step rt lib data asset_sha256 registry width height) selected)
                 (watermark_conclusion component)))"

subsection \<open>The lane fails closed\<close>

lemma watermark_literals [simp]:
  "is_id watermark_id" "is_id ''provenance.governed-visible-watermark-verifier''" "is_id ''evidence.watermark-''"
  "is_id ''claim.watermark-''" "is_id ''claim.watermark-applicability-''" "is_id ''claim.watermark-failure-''"
  "is_id ''watermark.visible-integrity''"
  by (simp_all add: id_eval watermark_id_def)

lemma wf_watermark_claim:
  "wf_claim (watermark_claim i t out q m es ls) \<longleftrightarrow>
     is_id i \<and> len_between 1 1000 t \<and> unit_interval q \<and> distinct es \<and> sorted es \<and>
     (out \<in> {Outcome_SUPPORTED, Outcome_CONTRADICTED} \<longrightarrow> es \<noteq> []) \<and>
     (out \<in> {Outcome_UNKNOWN, Outcome_NOT_ASSESSED} \<longrightarrow> ls \<noteq> []) \<and>
     (out = Outcome_NOT_ASSESSED \<longrightarrow> q = 0 \<and> es = [])"
  by (auto simp: wf_claim_iff watermark_claim_def)

lemma watermark_projections [simp]:
  "ev_evidence_id (watermark_evidence rt asset r c) =
     token_id_text rt ''evidence.watermark-'' (wp_profile_id (wc_profile c)) asset"
  "ev_asset_sha256 (watermark_evidence rt asset r c) = asset"
  "ev_component_id (watermark_evidence rt asset r c) = watermark_id"
  "ev_component_version (watermark_evidence rt asset r c) = ''1.0.0''"
  "ev_confidence (watermark_evidence rt asset r c) = wc_confidence c"
  "ev_locator (watermark_evidence rt asset r c) = region_locator (box_rat (wc_box c))"
  "cl_dimension (watermark_claim i t out q m es ls) = Dim_PROVENANCE"
  "cl_evidence_ids (watermark_claim i t out q m es ls) = es"
  "co_component_id (watermark_component h) = watermark_id"
  "co_component_version (watermark_component h) = ''1.0.0''"
  "co_state (watermark_component h) = Comp_AVAILABLE"
  by (simp_all add: watermark_evidence_def watermark_claim_def watermark_component_def Let_def)

lemma profile_claim_simps [simp]:
  "cl_dimension (profile_claim rt asset c) = Dim_PROVENANCE"
  "cl_evidence_ids (profile_claim rt asset c) =
     [token_id_text rt ''evidence.watermark-'' (wp_profile_id (wc_profile c)) asset]"
  by (simp_all add: profile_claim_def Let_def)

lemma wc_confidence_unit: "unit_interval (wc_confidence c)"
proof -
  let ?d = "of_nat (wc_distance c) :: rat"
  have "round_to (max (1 / 2) (1 - ?d / 64)) 6 \<in> {0..1}"
    using round_to_bounds [of 0 "max (1 / 2) (1 - ?d / 64)" 1 6] by auto
  moreover have "round_to (min (99 / 100) (55 / 100 + ?d / 128)) 6 \<in> {0..1}"
    using round_to_bounds [of 0 "min (99 / 100) (55 / 100 + ?d / 128)" 1 6] by auto
  ultimately show ?thesis by (auto simp: wc_confidence_def unit_interval_def)
qed

definition box_nonempty :: "int \<times> int \<times> int \<times> int \<Rightarrow> bool" where
  "box_nonempty b \<longleftrightarrow> (case b of (x0, y0, x1, y1) \<Rightarrow> x0 < x1 \<and> y0 < y1)"

text \<open>PIL crops and resizes every box of positive area of a decoded image, and images have a positive size.\<close>

definition watermark_lib_ok :: "watermark_lib \<Rightarrow> bool" where
  "watermark_lib_ok lib \<longleftrightarrow>
     (\<forall>data b w h. box_nonempty b \<longrightarrow> (\<exists>x. wl_patch lib data b w h = Inr x)) \<and>
     (\<forall>data w h. wl_decoded lib data = Inr (w, h) \<longrightarrow> 0 < w \<and> 0 < h)"

lemma pixel_box_nonneg:
  assumes "unit_box b" and "0 < width" and "0 < height"
  shows "case pixel_box width height b of (x0, y0, x1, y1) \<Rightarrow> 0 \<le> x0 \<and> 0 \<le> y0 \<and> x1 \<le> width \<and> y1 \<le> height"
proof -
  obtain x0 y0 x1 y1 where b: "b = (x0, y0, x1, y1)" by (cases b)
  have r: "0 \<le> x0" "0 \<le> y0" "x1 \<le> 1" "y1 \<le> 1" using assms(1) by (auto simp: b unit_box_def)
  have "0 \<le> x0 * of_int width" "0 \<le> y0 * of_int height" "x1 * of_int width \<le> of_int width" "y1 * of_int height \<le> of_int height"
    using r assms(2,3) by (simp_all add: mult_le_cancel_right1)
  then show ?thesis
    using round_half_even_mono [of 0 "x0 * of_int width"] round_half_even_mono [of 0 "y0 * of_int height"]
      round_half_even_mono [of "x1 * of_int width" "of_int width"] round_half_even_mono [of "y1 * of_int height" "of_int height"]
      round_half_even_of_int [of 0]
    by (simp add: b pixel_box_def)
qed

lemma wf_watermark_evidence:
  "sha_ok rt \<Longrightarrow> is_sha256 asset \<Longrightarrow> wf_evidence (watermark_evidence rt asset r c)"
  using wc_confidence_unit [of c]
  by (simp add: wf_evidence_iff watermark_evidence_def Let_def len_between_def)

lemma wf_profile_claim:
  assumes "sha_ok rt" and "is_sha256 asset" and "is_id (wp_profile_id (wc_profile c))"
  shows "wf_claim (profile_claim rt asset c)"
  using assms is_id_length [OF assms(3)] wc_confidence_unit [of c]
  by (simp add: profile_claim_def wf_watermark_claim Let_def len_between_def)

lemma check_profile_InrD:
  "check_profile rt lib data width height p = Inr c \<Longrightarrow>
     wc_profile c = p \<and> wc_box c = pixel_box width height (wp_normalized_bbox p)"
  by (auto simp: check_profile_def Let_def split: sum.splits)

lemma watermark_step_ok:
  assumes "sha_ok rt" and "is_sha256 asset" and "watermark_lib_ok lib" and "wf_watermark_profile p"
    and "0 < width" and "0 < height" and "box_nonempty (pixel_box width height (wp_normalized_bbox p))"
  shows "\<exists>c. check_profile rt lib data width height p = Inr c \<and>
    watermark_step rt lib data asset registry width height p =
      Inr (c, watermark_evidence rt asset registry c, profile_claim rt asset c) \<and>
    wf_locator (region_locator (box_rat (wc_box c))) \<and> wf_claim (profile_claim rt asset c)"
proof -
  let ?b = "pixel_box width height (wp_normalized_bbox p)"
  obtain rgb gray where "wl_patch lib data ?b (wp_template_width p) (wp_template_height p) = Inr (rgb, gray)"
    using assms(3,7) unfolding watermark_lib_ok_def by (metis surj_pair)
  then obtain c where c: "check_profile rt lib data width height p = Inr c"
    by (simp add: check_profile_def Let_def)
  note fields = check_profile_InrD [OF c]
  obtain x0 y0 x1 y1 where b: "?b = (x0, y0, x1, y1)" by (cases ?b)
  have "0 \<le> x0" "0 \<le> y0" "x0 < x1" "y0 < y1"
    using pixel_box_nonneg [of "wp_normalized_bbox p" width height] assms(4-7)
    by (auto simp: b wf_watermark_profile_def box_nonempty_def)
  then have l: "wf_locator (region_locator (box_rat (wc_box c)))"
    using fields b by (simp add: box_rat_def wf_region_locator)
  have cl: "wf_claim (profile_claim rt asset c)"
    using assms(1,2,4) fields by (intro wf_profile_claim) (simp_all add: wf_watermark_profile_def)
  show ?thesis
    using c l cl wf_watermark_evidence [OF assms(1,2)]
    by (simp add: watermark_step_def locator.validate_fix evidence.validate_fix claim.validate_fix)
qed

lemma empty_region_rejected:
  assumes "\<not> box_nonempty b"
  shows "\<exists>m. validate_locator (region_locator (box_rat b)) = Inl (ModelError ''EvidenceLocator'' m)"
  using assms
  by (cases b) (auto simp: box_nonempty_def box_rat_def validate_locator_def region_locator_def whole_asset_def
      locator_fields_def locator_shape_def locator_supplied_def Let_def check_fields_ok)

lemma watermark_step_raises:
  assumes "\<not> box_nonempty (pixel_box width height (wp_normalized_bbox p))"
  shows "\<exists>e. watermark_step rt lib data asset registry width height p = Inl e \<and> is_value_error e"
proof (cases "check_profile rt lib data width height p")
  case (Inl e)
  then have "is_value_error e" by (auto simp: check_profile_def Let_def split: sum.splits)
  with Inl show ?thesis by (simp add: watermark_step_def)
next
  case (Inr c)
  then have "wc_box c = pixel_box width height (wp_normalized_bbox p)" by (simp add: check_profile_InrD)
  with assms obtain m where "validate_locator (region_locator (box_rat (wc_box c))) = Inl (ModelError ''EvidenceLocator'' m)"
    using empty_region_rejected by metis
  with Inr show ?thesis by (simp add: watermark_step_def)
qed

lemma res_map_Inl: "res_map f xs = Inl e \<Longrightarrow> \<exists>x \<in> set xs. f x = Inl e"
proof (induction xs)
  case (Cons x xs)
  then show ?case by (cases "f x"; cases "res_map f xs") auto
qed simp

lemma res_map_raises: "x \<in> set xs \<Longrightarrow> f x = Inl e \<Longrightarrow> \<exists>d. res_map f xs = Inl d"
proof (induction xs)
  case (Cons y ys)
  then show ?case by (cases "f y") auto
qed simp

lemma wf_watermark_component: "is_sha256 h \<Longrightarrow> wf_component (watermark_component h)"
  by (simp add: wf_component_iff watermark_component_def len_between_def)

lemma watermark_conclusion_ok:
  fixes cs :: "watermark_check list"
  defines "checked rt asset registry \<equiv> map (\<lambda>c. (c, watermark_evidence rt asset registry c, profile_claim rt asset c)) cs"
  assumes "sha_ok rt" and "is_sha256 asset" and "wf_component k" and "co_component_id k = watermark_id"
    and "co_component_version k = ''1.0.0''" and "cs \<noteq> []"
    and "\<And>c. c \<in> set cs \<Longrightarrow> wf_locator (region_locator (box_rat (wc_box c))) \<and> wf_claim (profile_claim rt asset c)"
  shows "\<exists>r. watermark_conclusion k (checked rt asset registry) = Inr r \<and> provenance_sound asset r \<and>
    pr_component r = k \<and>
    pa_verdict (pr_assessment r) = (if list_ex (\<lambda>c. \<not> wc_intact c) cs then Prov_TAMPERED else Prov_UNKNOWN)"
proof -
  let ?t = "map ev_confidence (map (\<lambda>x. fst (snd x)) (filter (\<lambda>x. \<not> wc_intact (fst x)) (checked rt asset registry)))"
  have t: "?t = map wc_confidence (filter (\<lambda>c. \<not> wc_intact c) cs)"
    by (simp add: checked_def filter_map comp_def)
  have "unit_interval (max_default 0 ?t)"
  proof (cases "?t = []")
    case False
    then have "max_default 0 ?t \<in> set ?t" by (rule max_default_in)
    then show ?thesis unfolding t by (auto simp: wc_confidence_unit)
  qed simp
  note confidence = this
  let ?a = "\<lparr>pa_state = State_COMPLETE, pa_verdict = (if ?t \<noteq> [] then Prov_TAMPERED else Prov_UNKNOWN),
      pa_confidence = max_default 0 ?t, pa_claims = map (\<lambda>x. snd (snd x)) (checked rt asset registry),
      pa_limitations = [if ?t \<noteq> []
        then ''Visible watermark mismatch is policy evidence, not proof of who altered the asset.''
        else ''Configured visible watermark profiles passed; arbitrary invisible watermarks were not assessed.'']\<rparr>"
  have a: "wf_provenance ?a"
    using confidence by (simp add: wf_provenance_def checked_def)
  have eq: "watermark_conclusion k (checked rt asset registry) =
      Inr \<lparr>pr_component = k, pr_evidence = map (\<lambda>x. fst (snd x)) (checked rt asset registry), pr_assessment = ?a\<rparr>"
    unfolding watermark_conclusion_def Let_def provenance.validate_fix [OF a] res_bind_simps ..
  have sound: "lane_sound asset k (map (watermark_evidence rt asset registry) cs) (map (profile_claim rt asset) cs)"
    using assms(2-8) by (intro lane_sound_pairs) (simp_all add: wf_watermark_evidence)
  have "?t \<noteq> [] \<longleftrightarrow> list_ex (\<lambda>c. \<not> wc_intact c) cs"
    unfolding t by (auto simp: filter_empty_conv list_ex_iff)
  then show ?thesis
    using eq a sound assms(8)
    by (simp add: provenance_sound_def checked_def comp_def list_all_iff)
qed

lemma watermark_not_applicable_ok:
  assumes "is_sha256 asset" and "wf_component k"
  shows "\<exists>r. watermark_not_applicable k asset = Inr r \<and> provenance_sound asset r \<and> pr_component r = k \<and>
    pa_verdict (pr_assessment r) = Prov_UNKNOWN"
proof -
  let ?c = "watermark_claim (asset_id_text ''claim.watermark-applicability-'' asset)
       watermark_statement Outcome_NOT_ASSESSED 0 False [] [not_applicable_limitation]"
  have c: "wf_claim ?c" using assms(1) by (simp add: wf_watermark_claim watermark_statement_def len_between_def)
  have a: "wf_provenance \<lparr>pa_state = State_COMPLETE, pa_verdict = Prov_UNKNOWN, pa_confidence = 0,
       pa_claims = [?c], pa_limitations = [not_applicable_limitation]\<rparr>" by (simp add: wf_provenance_def)
  show ?thesis
    unfolding watermark_not_applicable_def claim.validate_fix [OF c] res_bind_simps provenance.validate_fix [OF a]
    using c a assms(2) by (simp add: provenance_sound_def lane_sound_def)
qed

lemma watermark_failure_ok:
  assumes "is_sha256 asset" and "is_sha256 h"
  shows "\<exists>r. watermark_failure (watermark_component h) asset e = Inr r \<and> provenance_sound asset r \<and>
    co_state (pr_component r) = Comp_DEGRADED \<and> pa_verdict (pr_assessment r) = Prov_UNKNOWN"
proof -
  let ?c = "watermark_claim (asset_id_text ''claim.watermark-failure-'' asset)
       watermark_statement Outcome_NOT_ASSESSED 0 True [] [watermark_decode_reason]"
  have c: "wf_claim ?c" using assms(1) by (simp add: wf_watermark_claim watermark_statement_def len_between_def)
  have a: "wf_provenance \<lparr>pa_state = State_UNAVAILABLE, pa_verdict = Prov_UNKNOWN, pa_confidence = 0,
       pa_claims = [?c], pa_limitations = [watermark_decode_reason, take 200 e]\<rparr>" by (simp add: wf_provenance_def)
  have "wf_component ((watermark_component h)\<lparr>co_state := Comp_DEGRADED, co_reason := Some watermark_decode_reason\<rparr>)"
    using assms(2) by (simp add: wf_component_iff watermark_component_def watermark_decode_reason_def len_between_def)
  then show ?thesis
    unfolding watermark_failure_def claim.validate_fix [OF c] res_bind_simps provenance.validate_fix [OF a]
    using c a by (simp add: provenance_sound_def lane_sound_def)
qed

text \<open>The profiles that apply and the size of the decoded image they are checked in.\<close>

definition checked_in ::
    "watermark_lib \<Rightarrow> string \<Rightarrow> assessment_context \<Rightarrow> watermark_registry \<Rightarrow> int \<Rightarrow> int \<Rightarrow> int \<Rightarrow> watermark_profile \<Rightarrow> bool" where
  "checked_in lib data context registry max_pixels width height p \<longleftrightarrow>
     decode_watermark_image lib data max_pixels = Inr (width, height) \<and> p \<in> set (wr_profiles registry) \<and>
     applicable context p"

text \<open>Some applicable profile whose region differs from its template in pixels and in hash.\<close>

definition watermark_mismatch ::
    "runtime \<Rightarrow> watermark_lib \<Rightarrow> string \<Rightarrow> assessment_context \<Rightarrow> watermark_registry \<Rightarrow> int \<Rightarrow> bool" where
  "watermark_mismatch rt lib data context registry max_pixels \<longleftrightarrow>
     (\<exists>w h p c. checked_in lib data context registry max_pixels w h p \<and>
        check_profile rt lib data w h p = Inr c \<and> \<not> wc_intact c)"

lemma verify_visible_watermarks_result:
  assumes "sha_ok rt" and "watermark_lib_ok lib" and "rt_sha256 rt data = asset"
    and "list_all wf_watermark_profile (wr_profiles registry)"
  shows "case verify_visible_watermarks rt lib data asset context registry max_pixels of
      Inr r \<Rightarrow> provenance_sound asset r \<and>
        (\<forall>w h p. checked_in lib data context registry max_pixels w h p \<longrightarrow>
           box_nonempty (pixel_box w h (wp_normalized_bbox p))) \<and>
        pa_verdict (pr_assessment r) =
          (if watermark_mismatch rt lib data context registry max_pixels then Prov_TAMPERED else Prov_UNKNOWN) \<and>
        (co_state (pr_component r) = Comp_DEGRADED \<longleftrightarrow>
          list_ex (applicable context) (wr_profiles registry) \<and> (\<exists>e. decode_watermark_image lib data max_pixels = Inl e))
    | Inl e \<Rightarrow> is_value_error e \<and> (\<exists>w h p. checked_in lib data context registry max_pixels w h p \<and>
        \<not> box_nonempty (pixel_box w h (wp_normalized_bbox p)))"
proof -
  have sha: "is_sha256 asset" using assms(1,3) by auto
  let ?h = "watermark_registry_commitment rt registry"
  have h: "is_sha256 ?h" using assms(1) by (simp add: watermark_registry_commitment_def)
  let ?k = "watermark_component ?h"
  note k = wf_watermark_component [OF h]
  let ?sel = "filter (applicable context) (wr_profiles registry)"
  note unfold = verify_visible_watermarks_def assms(3) component.validate_fix [OF k] checked_in_def list_ex_iff
    watermark_mismatch_def
  show ?thesis
  proof (cases "?sel = []")
    case True
    then show ?thesis
      using watermark_not_applicable_ok [OF sha k] by (auto simp: unfold Let_def filter_empty_conv)
  next
    case False
    note selected = False
    show ?thesis
    proof (cases "decode_watermark_image lib data max_pixels")
      case (Inl e)
      with selected show ?thesis
        using watermark_failure_ok [OF sha h, of e] by (auto simp: unfold Let_def filter_empty_conv)
    next
      case (Inr dims)
      obtain w hh where dims: "dims = (w, hh)" by (cases dims)
      have "wl_decoded lib data = Inr (w, hh)"
        using Inr dims by (auto simp: decode_watermark_image_def split: sum.splits if_splits)
      then have size: "0 < w" "0 < hh" using assms(2) by (auto simp: watermark_lib_ok_def)
      let ?step = "watermark_step rt lib data asset registry w hh"
      have res: "verify_visible_watermarks rt lib data asset context registry max_pixels =
          res_bind (res_map ?step ?sel) (watermark_conclusion ?k)"
        using Inr dims selected by (simp add: unfold Let_def)
      show ?thesis
      proof (cases "\<forall>p \<in> set ?sel. box_nonempty (pixel_box w hh (wp_normalized_bbox p))")
        case True
        define chk where "chk p = (THE c. check_profile rt lib data w hh p = Inr c)" for p
        have step: "check_profile rt lib data w hh p = Inr (chk p) \<and>
            ?step p = Inr (chk p, watermark_evidence rt asset registry (chk p), profile_claim rt asset (chk p)) \<and>
            wf_locator (region_locator (box_rat (wc_box (chk p)))) \<and> wf_claim (profile_claim rt asset (chk p))"
          if "p \<in> set ?sel" for p
          using watermark_step_ok [OF assms(1) sha assms(2) _ size, of p data registry] True that assms(4)
          by (auto simp: chk_def list_all_iff)
        have "res_map ?step ?sel = Inr (map (\<lambda>p. (chk p, watermark_evidence rt asset registry (chk p),
            profile_claim rt asset (chk p))) ?sel)"
          using step by (intro res_map_total) blast
        then have map: "res_map ?step ?sel = Inr (map (\<lambda>c. (c, watermark_evidence rt asset registry c,
            profile_claim rt asset c)) (map chk ?sel))"
          by (simp add: comp_def)
        have mismatch: "list_ex (\<lambda>c. \<not> wc_intact c) (map chk ?sel) \<longleftrightarrow>
            watermark_mismatch rt lib data context registry max_pixels"
          using step Inr dims unfolding watermark_mismatch_def by (force simp: list_ex_iff checked_in_def)
        have "\<exists>r. watermark_conclusion ?k (map (\<lambda>c. (c, watermark_evidence rt asset registry c,
            profile_claim rt asset c)) (map chk ?sel)) = Inr r \<and> provenance_sound asset r \<and> pr_component r = ?k \<and>
            pa_verdict (pr_assessment r) = (if list_ex (\<lambda>c. \<not> wc_intact c) (map chk ?sel) then Prov_TAMPERED else Prov_UNKNOWN)"
          using step selected assms(1) sha k by (intro watermark_conclusion_ok) auto
        then obtain r where r: "verify_visible_watermarks rt lib data asset context registry max_pixels = Inr r"
          "provenance_sound asset r" "pr_component r = ?k" "pa_verdict (pr_assessment r) =
            (if watermark_mismatch rt lib data context registry max_pixels then Prov_TAMPERED else Prov_UNKNOWN)"
          unfolding res map res_bind_simps mismatch by blast
        have "\<forall>w h p. checked_in lib data context registry max_pixels w h p \<longrightarrow>
            box_nonempty (pixel_box w h (wp_normalized_bbox p))"
          using True Inr dims by (auto simp: checked_in_def)
        with r Inr show ?thesis by simp
      next
        case False
        then obtain p where p: "p \<in> set ?sel" "\<not> box_nonempty (pixel_box w hh (wp_normalized_bbox p))" by blast
        obtain d where d: "res_map ?step ?sel = Inl d"
          using watermark_step_raises [OF p(2)] res_map_raises [OF p(1)] by metis
        then obtain q where q: "q \<in> set ?sel" "?step q = Inl d" using res_map_Inl by metis
        have "is_value_error d"
        proof (cases "box_nonempty (pixel_box w hh (wp_normalized_bbox q))")
          case True
          then show ?thesis
            using watermark_step_ok [OF assms(1) sha assms(2) _ size, of q data registry] q assms(4)
            by (auto simp: list_all_iff)
        next
          case False
          with watermark_step_raises [OF False] q(2) show ?thesis by (metis sum.inject(1))
        qed
        with d p Inr dims show ?thesis by (auto simp: res checked_in_def)
      qed
    qed
  qed
qed

text \<open>
  for a registry of valid profiles the watermark lane returns exactly when no applicable profile covers an
  empty pixel box in the decoded image; its evidence is then valid, bound to the asset and in the frame, it
  reports tampering exactly when a region differs from its template in pixels and in hash, it never calls
  an asset authentic or generated, and its component is degraded exactly when the image could not be decoded.
  An empty box makes it raise.
\<close>

theorem verify_visible_watermarks_outcome:
  assumes "sha_ok rt" and "watermark_lib_ok lib" and "rt_sha256 rt data = asset"
    and "list_all wf_watermark_profile (wr_profiles registry)"
  shows "case verify_visible_watermarks rt lib data asset context registry max_pixels of
      Inr r \<Rightarrow> provenance_sound asset r \<and>
        (\<forall>w h p. checked_in lib data context registry max_pixels w h p \<longrightarrow>
           box_nonempty (pixel_box w h (wp_normalized_bbox p))) \<and>
        pa_verdict (pr_assessment r) =
          (if watermark_mismatch rt lib data context registry max_pixels then Prov_TAMPERED else Prov_UNKNOWN) \<and>
        (co_state (pr_component r) = Comp_DEGRADED \<longleftrightarrow>
          list_ex (applicable context) (wr_profiles registry) \<and> (\<exists>e. decode_watermark_image lib data max_pixels = Inl e))
    | Inl e \<Rightarrow> is_value_error e \<and> (\<exists>w h p. checked_in lib data context registry max_pixels w h p \<and>
        \<not> box_nonempty (pixel_box w h (wp_normalized_bbox p)))"
  using assms by (rule verify_visible_watermarks_result)

text \<open>A profile of the upper left tenth of an image, and an image too small for it.\<close>

definition demo_profile :: watermark_profile where
  "demo_profile = \<lparr>wp_profile_id = ''profile-1'', wp_source_record_id = ''record-1'', wp_brand_profiles = [''*''],
     wp_normalized_bbox = (0, 0, 1 / 10, 1 / 10), wp_template_width = 16, wp_template_height = 16,
     wp_pixel_sha256 = rt_sha256 demo_runtime ''template'', wp_dhash = replicate 16 (CHR ''0''),
     wp_max_hamming_distance = 6\<rparr>"

definition demo_watermark_registry :: watermark_registry where
  "demo_watermark_registry = \<lparr>wr_registry_id = ''watermarks'', wr_version = ''1'', wr_profiles = [demo_profile]\<rparr>"

definition demo_watermark_lib :: "int \<Rightarrow> watermark_lib" where
  "demo_watermark_lib n = \<lparr>wl_open = (\<lambda>_. Inr (n, n)), wl_decoded = (\<lambda>_. Inr (max 1 n, max 1 n)),
     wl_patch = (\<lambda>_ b _ _. if box_nonempty b then Inr (''rgb'', replicate 72 0) else Inl ''box is empty''),
     wl_template = (\<lambda>_. Some (16, 16, ''rgb'', replicate 72 0))\<rparr>"

lemma demo_watermark_lib_ok: "watermark_lib_ok (demo_watermark_lib n)"
  by (auto simp: watermark_lib_ok_def demo_watermark_lib_def)

lemma casefold_star [simp]: "casefold ''*'' = ''*''" and strip_star [simp]: "strip ''*'' = ''*''"
  by code_simp+

lemma wf_demo_profile: "wf_watermark_profile demo_profile"
  using sha_okD [OF sha_ok_demo]
  by (simp add: wf_watermark_profile_def demo_profile_def unit_box_def is_dhash_def is_hex_def brand_set_def
      sorted_set_def list_all_iff id_eval)

theorem verify_visible_watermarks_outcome_witness:
  "\<exists>e. verify_visible_watermarks demo_runtime (demo_watermark_lib 4) ''pixels'' (rt_sha256 demo_runtime ''pixels'')
    demo_context demo_watermark_registry 100 = Inl e \<and> is_value_error e"
proof -
  have wf: "list_all wf_watermark_profile (wr_profiles demo_watermark_registry)"
    by (simp add: demo_watermark_registry_def wf_demo_profile)
  have "checked_in (demo_watermark_lib 4) ''pixels'' demo_context demo_watermark_registry 100 4 4 demo_profile"
    by (simp add: checked_in_def decode_watermark_image_def demo_watermark_lib_def demo_watermark_registry_def
        applicable_def demo_profile_def)
  moreover have "\<not> box_nonempty (pixel_box 4 4 (wp_normalized_bbox demo_profile))"
    by (simp add: box_nonempty_def pixel_box_def demo_profile_def round_half_even_def)
  ultimately show ?thesis
    using verify_visible_watermarks_outcome [OF sha_ok_demo demo_watermark_lib_ok [of 4] refl wf,
        of "''pixels''" demo_context 100]
    by (cases "verify_visible_watermarks demo_runtime (demo_watermark_lib 4) ''pixels''
      (rt_sha256 demo_runtime ''pixels'') demo_context demo_watermark_registry 100") auto
qed

subsection \<open>A profile recognises its template\<close>

text \<open>
  A profile built from a template is valid, and an image whose configured region, resized to the template
  size, has the pixels of the template passes it as intact with full confidence, whatever the distance bound.
\<close>

theorem watermark_profile_roundtrip:
  assumes "build_watermark_profile rt lib i source brands bbox template n = Inr p"
    and "wl_template lib template = Some (tw, th, rgb, gray)"
    and "wl_patch lib data (pixel_box width height bbox) tw th = Inr (rgb, gray')"
  shows "wf_watermark_profile p \<and> wp_dhash p = dhash_text gray \<and>
    (\<exists>c. check_profile rt lib data width height p = Inr c \<and> wc_intact c \<and> wc_confidence c = 1)"
proof -
  let ?p = "\<lparr>wp_profile_id = i, wp_source_record_id = source, wp_brand_profiles = brands, wp_normalized_bbox = bbox,
      wp_template_width = tw, wp_template_height = th, wp_pixel_sha256 = pixel_sha256 rt tw th rgb,
      wp_dhash = dhash_text gray, wp_max_hamming_distance = n\<rparr>"
  have p: "validate_watermark_profile ?p = Inr p"
    using assms(1) by (simp add: build_watermark_profile_def assms(2))
  then have fields: "p = ?p\<lparr>wp_brand_profiles := brand_set brands\<rparr>"
    by (simp add: validate_watermark_profile_def)
  have "wf_watermark_profile p" using p by (rule watermark_profile.validate_wf)
  with assms(3) show ?thesis
    by (simp add: fields check_profile_def Let_def wc_intact_def wc_confidence_def)
qed

theorem watermark_profile_roundtrip_witness:
  "\<exists>p c. build_watermark_profile demo_runtime (demo_watermark_lib 100) ''profile-1'' ''record-1'' [''*'']
      (0, 0, 1 / 10, 1 / 10) ''template'' 0 = Inr p \<and>
    check_profile demo_runtime (demo_watermark_lib 100) ''pixels'' 100 100 p = Inr c \<and> wc_confidence c = 1"
proof -
  let ?b = "build_watermark_profile demo_runtime (demo_watermark_lib 100) ''profile-1'' ''record-1'' [''*'']
      (0, 0, 1 / 10, 1 / 10) ''template'' 0"
  have t: "wl_template (demo_watermark_lib 100) ''template'' = Some (16, 16, ''rgb'', replicate 72 0)"
    by (simp add: demo_watermark_lib_def)
  have "\<exists>p. ?b = Inr p"
    using sha_okD [OF sha_ok_demo]
    by (simp add: build_watermark_profile_def t validate_watermark_profile_def unit_box_def brand_set_def
        sorted_set_def id_eval pixel_sha256_def)
  then obtain p where p: "?b = Inr p" ..
  have "wl_patch (demo_watermark_lib 100) ''pixels'' (pixel_box 100 100 (0, 0, 1 / 10, 1 / 10)) 16 16 =
      Inr (''rgb'', replicate 72 0)"
    by (simp add: demo_watermark_lib_def pixel_box_def box_nonempty_def round_half_even_def)
  from watermark_profile_roundtrip [OF p t this] p show ?thesis by blast
qed

end
