(* ===== verification/Forensics.thy ===== *)
theory Forensics
  imports Lanes
begin

section \<open>Image forensics\<close>

text \<open>
  \<open>provenance/image_forensics.py\<close>: markers of generative tools in the image metadata, and a localised
  anomaly of the pixel residual. PIL, OpenCV and the EXIF tag table are the \<open>forensic_lib\<close> parameter: the
  announced size, and for a decoded image its info entries, its EXIF entries under their labels, the size and
  the high-pass residual of its luminance (the absolute difference to its Gaussian blur). Bytes are decoded to
  text by \<open>fo_utf8\<close>.
\<close>

subsection \<open>Metadata\<close>

datatype meta_value = MBytes string | MText string | MOther

record decoded_image =
  di_info :: "(string \<times> meta_value) list"
  di_exif :: "(string \<times> meta_value) list"
  di_width :: int
  di_height :: int
  di_residual :: "rat list list"

record forensic_lib =
  fo_open :: "string \<Rightarrow> string + int \<times> int"
  fo_decoded :: "string \<Rightarrow> string + decoded_image"
  fo_utf8 :: "string \<Rightarrow> string"

definition generative_tool_tokens :: "string list" where
  "generative_tool_tokens =
     [''automatic1111'', ''comfyui'', ''dall-e'', ''dalle'', ''firefly'', ''generative fill'', ''invokeai'',
      ''midjourney'', ''novelai'', ''stable diffusion'']"

definition generation_field_tokens :: "string list" where
  "generation_field_tokens = [''negative prompt'', ''prompt'', ''sampler'', ''seed'', ''steps'']"

definition partial_edit_tokens :: "string list" where
  "partial_edit_tokens = [''controlnet'', ''generative fill'', ''inpaint'', ''outpaint'']"

definition unambiguous_tool_tokens :: "string list" where
  "unambiguous_tool_tokens =
     [''automatic1111'', ''comfyui'', ''dall-e'', ''dalle'', ''generative fill'', ''invokeai'', ''midjourney'', ''novelai'']"

definition source_field_tokens :: "string list" where
  "source_field_tokens = [''generator'', ''model'', ''software'']"

definition bounded_text :: "forensic_lib \<Rightarrow> meta_value \<Rightarrow> string option" where
  "bounded_text lib v = (case v of
     MBytes b \<Rightarrow> Some (fo_utf8 lib (take 2048 b)) | MText s \<Rightarrow> Some (take 2048 s) | MOther \<Rightarrow> None)"

text \<open>\<open>metadata[key] = text\<close>: a dictionary keeps the position of a key it already has.\<close>

fun dict_put :: "string \<Rightarrow> string \<Rightarrow> (string \<times> string) list \<Rightarrow> (string \<times> string) list" where
  "dict_put k v [] = [(k, v)]"
| "dict_put k v (e # es) = (if fst e = k then (k, v) # es else e # dict_put k v es)"

definition put_entry :: "forensic_lib \<Rightarrow> string \<Rightarrow> string \<times> meta_value \<Rightarrow> (string \<times> string) list \<Rightarrow> (string \<times> string) list" where
  "put_entry lib prefix item metadata = (case bounded_text lib (snd item) of
     None \<Rightarrow> metadata
   | Some t \<Rightarrow> if t = [] then metadata else dict_put (prefix @ take 100 (fst item)) t metadata)"

definition extract_metadata :: "forensic_lib \<Rightarrow> decoded_image \<Rightarrow> (string \<times> string) list" where
  "extract_metadata lib img =
     take 128 (fold (put_entry lib ''exif.'') (di_exif img)
       (fold (put_entry lib ''info.'') (sort_key (\<lambda>item. casefold (fst item)) (di_info img)) []))"

text \<open>\<open>re.search\<close> of a token that has no letter directly before or after it.\<close>

fun word_hit :: "bool \<Rightarrow> string \<Rightarrow> string \<Rightarrow> bool" where
  "word_hit after_letter t [] = (t = [] \<and> \<not> after_letter)"
| "word_hit after_letter t (c # s) =
     ((\<not> after_letter \<and> take (length t) (c # s) = t \<and>
        (case drop (length t) (c # s) of [] \<Rightarrow> True | d # _ \<Rightarrow> \<not> is_lower d)) \<or>
      word_hit (is_lower c) t s)"

definition searchable :: "string \<times> string \<Rightarrow> string" where
  "searchable e = casefold (fst e @ ''='' @ snd e)"

definition field_hits :: "string \<times> string \<Rightarrow> string list" where
  "field_hits e = filter (\<lambda>t. word_hit False t (searchable e)) generation_field_tokens"

definition tool_hits :: "string \<times> string \<Rightarrow> string list" where
  "tool_hits e = filter (\<lambda>t. contains t (searchable e) \<and>
       (t \<in> set unambiguous_tool_tokens \<or> list_ex (\<lambda>f. contains f (casefold (fst e))) source_field_tokens \<or>
        field_hits e \<noteq> []))
     generative_tool_tokens"

definition metadata_markers :: "(string \<times> string) list \<Rightarrow> string list \<times> string list" where
  "metadata_markers metadata =
     (sorted_set (concat (map tool_hits metadata)), sorted_set (concat (map field_hits metadata)))"

subsection \<open>Residual tiles\<close>

record anomaly =
  an_anomalous :: bool
  an_bbox :: "int \<times> int \<times> int \<times> int"
  an_columns :: int
  an_maximum :: rat
  an_median :: rat
  an_ratio :: rat
  an_robust_z :: rat
  an_rows :: int

definition tile_edge :: "int \<Rightarrow> int \<Rightarrow> int \<Rightarrow> int" where
  "tile_edge k extent parts = round_half_even (of_int (k * extent) / of_int parts)"

definition tile_mean :: "rat list list \<Rightarrow> int \<times> int \<times> int \<times> int \<Rightarrow> rat" where
  "tile_mean residual b = (case b of (x0, y0, x1, y1) \<Rightarrow>
     let values = concat (map (\<lambda>row. take (nat (x1 - x0)) (drop (nat x0) row))
           (take (nat (y1 - y0)) (drop (nat y0) residual)))
     in sum_list values / of_nat (length values))"

definition tile_boxes :: "int \<Rightarrow> int \<Rightarrow> int \<Rightarrow> int \<Rightarrow> (int \<times> int \<times> int \<times> int) list" where
  "tile_boxes width height columns rows =
     map (\<lambda>(row, column). (tile_edge column width columns, tile_edge row height rows,
           tile_edge (column + 1) width columns, tile_edge (row + 1) height rows))
       (List.product [0..rows - 1] [0..columns - 1])"

definition median_of :: "rat list \<Rightarrow> rat" where
  "median_of xs =
     (let s = sort xs; n = length xs
      in if odd n then s ! (n div 2) else (s ! (n div 2 - 1) + s ! (n div 2)) / 2)"

definition tile_anomaly :: "int \<Rightarrow> int \<Rightarrow> rat \<times> (int \<times> int \<times> int \<times> int) \<Rightarrow> (rat \<times> (int \<times> int \<times> int \<times> int)) list \<Rightarrow> anomaly" where
  "tile_anomaly columns rows tile tiles =
     (let values = map fst (tile # tiles);
          median = median_of values;
          mad = median_of (map (\<lambda>v. \<bar>v - median\<bar>) values);
          top = max_by fst tile tiles;
          maximum = fst top;
          robust_z = (maximum - median) / max (1 / 1000000) (14826 / 10000 * mad);
          ratio = maximum / max (1 / 1000000) median
      in \<lparr>an_anomalous = (2 \<le> maximum \<and> 6 \<le> robust_z \<and> 18 / 10 \<le> ratio), an_bbox = snd top,
          an_columns = columns, an_maximum = round_to maximum 6, an_median = round_to median 6,
          an_ratio = round_to ratio 6, an_robust_z = round_to robust_z 6, an_rows = rows\<rparr>)"

definition residual_anomaly :: "int \<Rightarrow> int \<Rightarrow> rat list list \<Rightarrow> anomaly option" where
  "residual_anomaly width height residual =
     (let columns = min 6 (width div 24); rows = min 6 (height div 24)
      in if columns < 3 \<or> rows < 3 then None
         else case map (\<lambda>b. (tile_mean residual b, b)) (tile_boxes width height columns rows) of
           [] \<Rightarrow> None
         | tile # tiles \<Rightarrow> Some (tile_anomaly columns rows tile tiles))"

subsection \<open>Evidence and claims\<close>

definition forensics_id :: string where
  "forensics_id = ''provenance.independent-forensics''"

definition forensics_manifest_sha256 :: "runtime \<Rightarrow> string" where
  "forensics_manifest_sha256 rt = sha256_json rt (JObj
     [(''anomaly_ratio_threshold'', JFloat (18 / 10)), (''anomaly_z_threshold'', JFloat 6),
      (''component_version'', JStr ''1.0.0''), (''generation_field_tokens'', strs generation_field_tokens),
      (''generative_tool_tokens'', strs generative_tool_tokens), (''min_tile_side'', JInt 24),
      (''partial_edit_tokens'', strs partial_edit_tokens), (''source_field_tokens'', strs source_field_tokens),
      (''unambiguous_tool_tokens'', strs unambiguous_tool_tokens)])"

definition forensics_component :: "runtime \<Rightarrow> component_state \<Rightarrow> string option \<Rightarrow> component_record" where
  "forensics_component rt state reason =
     \<lparr>co_component_id = forensics_id, co_component_version = ''1.0.0'',
      co_component_type = ''provenance.deterministic-image-triage'', co_state = state, co_mandatory = True,
      co_artifact_sha256 = Some (forensics_manifest_sha256 rt), co_reason = reason\<rparr>"

definition forensics_evidence ::
    "string \<Rightarrow> string \<Rightarrow> evidence_kind \<Rightarrow> string \<Rightarrow> evidence_polarity \<Rightarrow> rat \<Rightarrow> evidence_locator \<Rightarrow> string \<Rightarrow> string \<Rightarrow>
     attributes \<Rightarrow> evidence_pointer" where
  "forensics_evidence evidence_id asset_sha256 kind source polarity confidence locator summary payload attrs =
     \<lparr>ev_evidence_id = evidence_id, ev_asset_sha256 = asset_sha256, ev_kind = kind, ev_source = source,
      ev_component_id = forensics_id, ev_component_version = ''1.0.0'', ev_polarity = polarity,
      ev_confidence = confidence, ev_locator = locator, ev_summary = summary, ev_payload_sha256 = Some payload,
      ev_attributes = attrs\<rparr>"

definition forensics_claim ::
    "string \<Rightarrow> string \<Rightarrow> string \<Rightarrow> claim_outcome \<Rightarrow> rat \<Rightarrow> string list \<Rightarrow> string list \<Rightarrow> claim_record" where
  "forensics_claim claim_id claim_type statement outcome confidence evidence_ids limitations =
     \<lparr>cl_claim_id = claim_id, cl_dimension = Dim_PROVENANCE, cl_claim_type = claim_type, cl_statement = statement,
      cl_outcome = outcome, cl_confidence = confidence, cl_mandatory = False, cl_evidence_ids = evidence_ids,
      cl_limitations = limitations\<rparr>"

definition forensics_failure_reason :: string where
  "forensics_failure_reason = ''The image forensic adapter could not decode the asset within its safety budget.''"

definition forensics_failure :: "runtime \<Rightarrow> string \<Rightarrow> string \<Rightarrow> provenance_result res" where
  "forensics_failure rt asset_sha256 e =
     (let reason = forensics_failure_reason
      in res_bind (validate_component (forensics_component rt Comp_DEGRADED (Some reason))) (\<lambda>component.
         res_bind (validate_evidence (forensics_evidence (asset_id_text ''evidence.image-forensics-failure-'' asset_sha256)
           asset_sha256 Ev_COMPONENT_FAILURE ''RightsGate deterministic image forensic triage'' Pol_NEUTRAL 1
           whole_asset reason (rt_sha256 rt e) [])) (\<lambda>evidence.
         res_bind (validate_claim (forensics_claim (asset_id_text ''claim.image-forensics-'' asset_sha256)
           ''forensics.image-origin'' ''Independent image signals support an origin assessment.''
           Outcome_NOT_ASSESSED 0 [] [reason])) (\<lambda>claim.
         res_bind (validate_provenance \<lparr>pa_state = State_UNAVAILABLE, pa_verdict = Prov_UNKNOWN, pa_confidence = 0,
           pa_claims = [claim], pa_limitations = [reason]\<rparr>) (\<lambda>assessment.
         Inr \<lparr>pr_component = component, pr_evidence = [evidence], pr_assessment = assessment\<rparr>)))))"

definition metadata_locator :: evidence_locator where
  "metadata_locator = whole_asset\<lparr>loc_kind := Loc_METADATA_PATH, loc_metadata_path := Some ''image.metadata''\<rparr>"

text \<open>The verdict and confidence of the markers, and what the branch appends to the evidence and the claims.\<close>

definition marker_verdict :: "string list \<times> string list \<Rightarrow> provenance_verdict" where
  "marker_verdict markers = (case markers of (tools, hits) \<Rightarrow>
     if tools = [] then Prov_UNKNOWN
     else if list_ex (\<lambda>t. contains t (join '' '' (tools @ hits))) partial_edit_tokens
     then Prov_PARTIALLY_GENERATED else Prov_AI_GENERATED)"

definition marker_confidence :: "string list \<times> string list \<Rightarrow> rat" where
  "marker_confidence markers = (case markers of (tools, hits) \<Rightarrow>
     if tools = [] then 0 else if hits \<noteq> [] then 85 / 100 else 70 / 100)"

definition marker_finding ::
    "runtime \<Rightarrow> string \<Rightarrow> (string \<times> string) list \<Rightarrow> string list \<times> string list \<Rightarrow> evidence_pointer option \<times> claim_record" where
  "marker_finding rt asset_sha256 metadata markers = (case markers of (tools, hits) \<Rightarrow>
     let claim = (\<lambda>outcome. forensics_claim (asset_id_text ''claim.generative-metadata-'' asset_sha256)
           ''metadata.generative-source'' ''Recognized image metadata declares generative tooling.'' outcome);
         evidence_id = asset_id_text ''evidence.generative-metadata-'' asset_sha256
     in if tools \<noteq> []
        then (Some (forensics_evidence evidence_id asset_sha256 Ev_METADATA ''Bounded image metadata inspection''
                Pol_SUPPORTS (marker_confidence markers) metadata_locator
                ''Image metadata contains recognized generative-tool markers.''
                (sha256_json rt (JObj [(''asset_sha256'', JStr asset_sha256), (''field_markers'', strs hits),
                   (''metadata_keys'', strs (sort (map fst metadata))), (''tool_markers'', strs tools)]))
                [(''field_markers'', AStr (join '','' hits)), (''marker_count'', AInt (int (length tools + length hits))),
                 (''tool_markers'', AStr (join '','' tools))]),
              claim Outcome_SUPPORTED (marker_confidence markers) [evidence_id]
                [''Metadata is self-declared and can be stripped or forged; corroboration is required.''])
        else (None, claim Outcome_UNKNOWN 0 []
                [''No recognized marker was present; absence is not evidence of human authorship.'']))"

definition box_of_ints :: "int \<times> int \<times> int \<times> int \<Rightarrow> rat \<times> rat \<times> rat \<times> rat" where
  "box_of_ints b = (case b of (x0, y0, x1, y1) \<Rightarrow> (of_int x0, of_int y0, of_int x1, of_int y1))"

definition anomaly_json :: "string \<Rightarrow> anomaly \<Rightarrow> json" where
  "anomaly_json asset_sha256 a = (case an_bbox a of (x0, y0, x1, y1) \<Rightarrow> JObj
     [(''asset_sha256'', JStr asset_sha256), (''anomalous'', JBool (an_anomalous a)),
      (''bbox'', JArr [JInt x0, JInt y0, JInt x1, JInt y1]), (''columns'', JInt (an_columns a)),
      (''maximum_mean_residual'', JFloat (an_maximum a)), (''median_mean_residual'', JFloat (an_median a)),
      (''residual_ratio'', JFloat (an_ratio a)), (''robust_z'', JFloat (an_robust_z a)), (''rows'', JInt (an_rows a))])"

definition signal_confidence :: "anomaly \<Rightarrow> rat" where
  "signal_confidence a =
     (if an_anomalous a then min (95 / 100) (1 / 2 + 5 / 100 * min 9 (an_robust_z a)) else 0)"

definition anomaly_finding :: "runtime \<Rightarrow> string \<Rightarrow> anomaly \<Rightarrow> evidence_pointer option \<times> claim_record" where
  "anomaly_finding rt asset_sha256 a =
     (let evidence_id = asset_id_text ''evidence.pixel-residual-'' asset_sha256
      in (Some (forensics_evidence evidence_id asset_sha256 Ev_FORENSIC_SIGNAL
            ''Deterministic high-pass residual tile analysis'' (if an_anomalous a then Pol_SUPPORTS else Pol_NEUTRAL)
            (signal_confidence a)
            (if an_anomalous a then region_locator (box_of_ints (an_bbox a)) else whole_asset)
            (if an_anomalous a then ''A localized pixel-residual inconsistency exceeded the review threshold.''
             else ''No pixel-residual tile exceeded the conservative review threshold.'')
            (sha256_json rt (anomaly_json asset_sha256 a))
            [(''anomalous'', ABool (an_anomalous a)), (''residual_ratio'', AFloat (an_ratio a)),
             (''robust_z'', AFloat (an_robust_z a)), (''tile_columns'', AInt (an_columns a)),
             (''tile_rows'', AInt (an_rows a))]),
          forensics_claim (asset_id_text ''claim.pixel-residual-'' asset_sha256) ''forensics.localized-residual-anomaly''
            ''The image contains a localized pixel-statistics anomaly.''
            (if an_anomalous a then Outcome_SUPPORTED else Outcome_CONTRADICTED)
            (if an_anomalous a then signal_confidence a else 1) [evidence_id]
            [''The anomaly is non-attributive and cannot by itself prove AI editing or tampering.'']))"

text \<open>Building one finding: its locator, its evidence, its claim.\<close>

definition build_finding :: "evidence_pointer option \<times> claim_record \<Rightarrow> (evidence_pointer option \<times> claim_record) res" where
  "build_finding f = (case fst f of
     None \<Rightarrow> res_bind (validate_claim (snd f)) (\<lambda>c. Inr (None, c))
   | Some e \<Rightarrow> res_bind (validate_locator (ev_locator e)) (\<lambda>_. res_bind (validate_evidence e) (\<lambda>e.
       res_bind (validate_claim (snd f)) (\<lambda>c. Inr (Some e, c)))))"

definition forensics_limitations :: "string list" where
  "forensics_limitations =
     [''This deterministic triage is not a universal or calibrated AI-generator classifier.'',
      ''Pixel-statistics anomalies can have benign editing, compression or scene-content causes.'']"

definition decode_forensic_image :: "forensic_lib \<Rightarrow> string \<Rightarrow> int \<Rightarrow> string + decoded_image" where
  "decode_forensic_image lib data max_pixels =
     (case fo_open lib data of
        Inl e \<Rightarrow> Inl e
      | Inr (width, height) \<Rightarrow>
          if width < 1 \<or> height < 1 \<or> max_pixels < width * height
          then Inl ''image exceeds the configured pixel budget''
          else fo_decoded lib data)"

definition forensics_findings :: "runtime \<Rightarrow> forensic_lib \<Rightarrow> string \<Rightarrow> decoded_image \<Rightarrow> (evidence_pointer option \<times> claim_record) list" where
  "forensics_findings rt lib asset_sha256 img =
     (let metadata = extract_metadata lib img
      in marker_finding rt asset_sha256 metadata (metadata_markers metadata) #
         (case residual_anomaly (di_width img) (di_height img) (di_residual img) of
            None \<Rightarrow> [] | Some a \<Rightarrow> [anomaly_finding rt asset_sha256 a]))"

definition inspect_image_forensics ::
    "runtime \<Rightarrow> forensic_lib \<Rightarrow> string \<Rightarrow> string \<Rightarrow> int \<Rightarrow> provenance_result res" where
  "inspect_image_forensics rt lib data asset_sha256 max_pixels =
     (if rt_sha256 rt data \<noteq> asset_sha256
      then Inl (ValueError ''asset_sha256 does not match the supplied image bytes'')
      else if max_pixels < 1 then Inl (ValueError ''max_pixels must be positive'')
      else case decode_forensic_image lib data max_pixels of
        Inl e \<Rightarrow> forensics_failure rt asset_sha256 e
      | Inr img \<Rightarrow>
          let markers = metadata_markers (extract_metadata lib img); verdict = marker_verdict markers
          in res_bind (res_map build_finding (forensics_findings rt lib asset_sha256 img)) (\<lambda>findings.
             res_bind (validate_component (forensics_component rt Comp_AVAILABLE None)) (\<lambda>component.
             res_bind (validate_provenance \<lparr>pa_state = State_COMPLETE, pa_verdict = verdict,
               pa_confidence = marker_confidence markers, pa_claims = map snd findings,
               pa_limitations = (if verdict = Prov_UNKNOWN then forensics_limitations else [])\<rparr>) (\<lambda>assessment.
             Inr \<lparr>pr_component = component, pr_evidence = List.map_filter fst findings, pr_assessment = assessment\<rparr>))))"

subsection \<open>What the marker search finds\<close>

text \<open>The lookarounds: the token occurs with no letter directly before and no letter directly after it.\<close>

lemma take_length_eq_iff: "take (length t) s = t \<longleftrightarrow> (\<exists>q. s = t @ q)"
  by (metis append_eq_conv_conj)

lemma word_hit_iff:
  "word_hit after t s \<longleftrightarrow> (\<exists>p q. s = p @ t @ q \<and>
     (if p = [] then \<not> after else \<not> is_lower (last p)) \<and> (q = [] \<or> \<not> is_lower (hd q)))"
proof (induction s arbitrary: after)
  case Nil
  then show ?case by auto
next
  case (Cons c s)
  let ?here = "\<not> after \<and> (\<exists>q. c # s = t @ q \<and> (q = [] \<or> \<not> is_lower (hd q)))"
  have here: "(\<not> after \<and> take (length t) (c # s) = t \<and>
      (case drop (length t) (c # s) of [] \<Rightarrow> True | d # _ \<Rightarrow> \<not> is_lower d)) \<longleftrightarrow> ?here"
  proof (cases "\<exists>q. c # s = t @ q")
    case True
    then obtain q where q: "c # s = t @ q" ..
    show ?thesis unfolding q by (auto split: list.split)
  next
    case False
    then show ?thesis unfolding take_length_eq_iff by blast
  qed
  have "word_hit after t (c # s) \<longleftrightarrow> ?here \<or> word_hit (is_lower c) t s"
    using here by (simp only: word_hit.simps)
  also have "\<dots> \<longleftrightarrow> (\<exists>p q. c # s = p @ t @ q \<and>
      (if p = [] then \<not> after else \<not> is_lower (last p)) \<and> (q = [] \<or> \<not> is_lower (hd q)))" (is "?l \<longleftrightarrow> (\<exists>p. ?r p)")
  proof
    assume ?l
    then consider ?here | "word_hit (is_lower c) t s" by blast
    then show "\<exists>p. ?r p"
    proof cases
      case 1
      then have "?r []" by simp
      then show ?thesis by blast
    next
      case 2
      then obtain p where "\<exists>q. s = p @ t @ q \<and> (if p = [] then \<not> is_lower c else \<not> is_lower (last p)) \<and>
          (q = [] \<or> \<not> is_lower (hd q))"
        using Cons.IH by blast
      then have "?r (c # p)" by auto
      then show ?thesis by blast
    qed
  next
    assume "\<exists>p. ?r p"
    then obtain p where p: "?r p" ..
    show ?l
    proof (cases p)
      case Nil
      with p show ?thesis by auto
    next
      case (Cons d p')
      with p have "\<exists>q. s = p' @ t @ q \<and> (if p' = [] then \<not> is_lower c else \<not> is_lower (last p')) \<and>
          (q = [] \<or> \<not> is_lower (hd q))"
        by auto
      then show ?thesis using Cons.IH by blast
    qed
  qed
  finally show ?case .
qed

subsection \<open>Tiles lie in the image\<close>

lemma tile_edge_bounds:
  assumes "0 < parts" and "0 \<le> k" and "k \<le> parts" and "0 \<le> extent"
  shows "0 \<le> tile_edge k extent parts" and "tile_edge k extent parts \<le> extent"
proof -
  have "0 \<le> (of_int (k * extent) / of_int parts :: rat)" using assms by simp
  from round_half_even_mono [OF this] show "0 \<le> tile_edge k extent parts"
    using round_half_even_of_int [of 0] by (simp add: tile_edge_def)
  have "k * extent \<le> extent * parts" using mult_right_mono [OF assms(3,4)] by (simp add: mult.commute)
  then have "(of_int (k * extent) :: rat) \<le> of_int (extent * parts)" by (simp only: of_int_le_iff)
  then have "(of_int (k * extent) / of_int parts :: rat) \<le> of_int extent"
    using assms(1) by (simp add: divide_le_eq)
  from round_half_even_mono [OF this] show "tile_edge k extent parts \<le> extent" by (simp add: tile_edge_def)
qed

lemma tile_edge_less:
  assumes "0 < parts" and "2 * parts \<le> extent"
  shows "tile_edge k extent parts < tile_edge (k + 1) extent parts"
proof -
  let ?a = "of_int (k * extent) / of_int parts :: rat"
  let ?b = "of_int ((k + 1) * extent) / of_int parts :: rat"
  have p: "(0::rat) < of_int parts" using assms(1) by simp
  have "(of_int (2 * parts) :: rat) \<le> of_int extent" using assms(2) by (simp only: of_int_le_iff)
  then have "2 \<le> (of_int extent / of_int parts :: rat)" using p by (simp add: le_divide_eq)
  moreover have "?b = ?a + of_int extent / of_int parts" by (simp add: distrib_right add_divide_distrib)
  ultimately have "?a + 2 \<le> ?b" by simp
  moreover have "of_int (tile_edge k extent parts) - ?a \<le> 1 / 2"
    using abs_le_D1 [OF round_half_even_near [of ?a]] by (simp add: tile_edge_def)
  moreover have "?b - of_int (tile_edge (k + 1) extent parts) \<le> 1 / 2"
    using abs_le_D2 [OF round_half_even_near [of ?b]] by (simp add: tile_edge_def)
  ultimately have "(of_int (tile_edge k extent parts) :: rat) < of_int (tile_edge (k + 1) extent parts)" by linarith
  then show ?thesis by simp
qed

definition int_box_in :: "int \<Rightarrow> int \<Rightarrow> int \<times> int \<times> int \<times> int \<Rightarrow> bool" where
  "int_box_in width height b \<longleftrightarrow>
     (case b of (x0, y0, x1, y1) \<Rightarrow> 0 \<le> x0 \<and> x0 < x1 \<and> x1 \<le> width \<and> 0 \<le> y0 \<and> y0 < y1 \<and> y1 \<le> height)"

lemma tile_boxes_in:
  assumes "3 \<le> columns" and "24 * columns \<le> width" and "3 \<le> rows" and "24 * rows \<le> height"
    and "b \<in> set (tile_boxes width height columns rows)"
  shows "int_box_in width height b"
proof -
  obtain row column where rc: "0 \<le> row" "row < rows" "0 \<le> column" "column < columns"
    and b: "b = (tile_edge column width columns, tile_edge row height rows,
           tile_edge (column + 1) width columns, tile_edge (row + 1) height rows)"
    using assms(5) by (auto simp: tile_boxes_def)
  have w: "0 < columns" "0 \<le> width" "2 * columns \<le> width" and h: "0 < rows" "0 \<le> height" "2 * rows \<le> height"
    using assms(1-4) by simp_all
  show ?thesis
    using tile_edge_bounds(1) [OF w(1) rc(3) _ w(2)] tile_edge_bounds(2) [OF w(1) _ _ w(2), of "column + 1"]
      tile_edge_bounds(1) [OF h(1) rc(1) _ h(2)] tile_edge_bounds(2) [OF h(1) _ _ h(2), of "row + 1"]
      tile_edge_less [OF w(1,3), of column] tile_edge_less [OF h(1,3), of row] rc
    by (simp add: int_box_in_def b)
qed

lemma residual_anomaly_SomeD:
  assumes "residual_anomaly width height residual = Some a"
  shows "int_box_in width height (an_bbox a)" and "an_anomalous a \<longrightarrow> 6 \<le> an_robust_z a"
proof -
  let ?c = "min 6 (width div 24)"
  let ?r = "min 6 (height div 24)"
  let ?tiles = "map (\<lambda>b. (tile_mean residual b, b)) (tile_boxes width height ?c ?r)"
  have n: "\<not> (?c < 3 \<or> ?r < 3)"
    by (rule ccontr) (use assms in \<open>simp add: residual_anomaly_def Let_def\<close>)
  obtain tile tiles where t: "?tiles = tile # tiles"
    using assms n by (cases ?tiles) (simp_all add: residual_anomaly_def Let_def)
  let ?m = "max_by fst tile tiles"
  have "?m \<in> set ?tiles" unfolding t by (rule max_by_in)
  then have box: "snd ?m \<in> set (tile_boxes width height ?c ?r)" by auto
  have "a = tile_anomaly ?c ?r tile tiles" using assms n t by (simp add: residual_anomaly_def Let_def)
  then have a: "an_bbox a = snd ?m" "an_anomalous a \<longrightarrow> (\<exists>z. 6 \<le> z \<and> an_robust_z a = round_to z 6)"
    by (simp_all add: tile_anomaly_def Let_def) blast
  have "24 * ?c \<le> width" "24 * ?r \<le> height" by linarith+
  with n box show "int_box_in width height (an_bbox a)" unfolding a by (intro tile_boxes_in [of ?c width ?r]) auto
  show "an_anomalous a \<longrightarrow> 6 \<le> an_robust_z a"
  proof
    assume "an_anomalous a"
    with a obtain z where z: "6 \<le> z" "an_robust_z a = round_to z 6" by blast
    have "of_int 6 \<le> round_to z 6" by (rule round_to_bounds(1) [of _ _ "\<lceil>z\<rceil>"]) (use z in simp_all)
    with z show "6 \<le> an_robust_z a" by simp
  qed
qed

subsection \<open>The lane\<close>

lemma forensics_literals [simp]:
  "is_id forensics_id" "is_id ''provenance.deterministic-image-triage''" "is_id ''forensics.image-origin''"
  "is_id ''metadata.generative-source''" "is_id ''forensics.localized-residual-anomaly''"
  "is_id ''evidence.image-forensics-failure-''" "is_id ''claim.image-forensics-''"
  "is_id ''evidence.generative-metadata-''" "is_id ''claim.generative-metadata-''"
  "is_id ''evidence.pixel-residual-''" "is_id ''claim.pixel-residual-''"
  by (simp_all add: id_eval forensics_id_def)

lemma wf_forensics_component:
  "sha_ok rt \<Longrightarrow> wf_component (forensics_component rt Comp_AVAILABLE None)"
  "sha_ok rt \<Longrightarrow> len_between 1 500 r \<Longrightarrow> wf_component (forensics_component rt Comp_DEGRADED (Some r))"
  by (auto simp: wf_component_iff forensics_component_def forensics_manifest_sha256_def len_between_def)

lemma wf_forensics_evidence:
  "wf_evidence (forensics_evidence i sha k src p q loc s h attrs) \<longleftrightarrow>
     is_id i \<and> is_sha256 sha \<and> len_between 1 200 src \<and> unit_interval q \<and> len_between 1 1000 s \<and> is_sha256 h"
  by (auto simp: wf_evidence_iff forensics_evidence_def len_between_def)

lemma wf_forensics_claim:
  "wf_claim (forensics_claim i ty t out q es ls) \<longleftrightarrow>
     is_id i \<and> is_id ty \<and> len_between 1 1000 t \<and> unit_interval q \<and> distinct es \<and> sorted es \<and>
     (out \<in> {Outcome_SUPPORTED, Outcome_CONTRADICTED} \<longrightarrow> es \<noteq> []) \<and>
     (out \<in> {Outcome_UNKNOWN, Outcome_NOT_ASSESSED} \<longrightarrow> ls \<noteq> []) \<and>
     (out = Outcome_NOT_ASSESSED \<longrightarrow> q = 0 \<and> es = [])"
  by (auto simp: wf_claim_iff forensics_claim_def)

lemma forensics_projections [simp]:
  "ev_evidence_id (forensics_evidence i sha k src p q loc s h attrs) = i"
  "ev_asset_sha256 (forensics_evidence i sha k src p q loc s h attrs) = sha"
  "ev_component_id (forensics_evidence i sha k src p q loc s h attrs) = forensics_id"
  "ev_component_version (forensics_evidence i sha k src p q loc s h attrs) = ''1.0.0''"
  "ev_locator (forensics_evidence i sha k src p q loc s h attrs) = loc"
  "cl_dimension (forensics_claim j ty t out q es ls) = Dim_PROVENANCE"
  "cl_evidence_ids (forensics_claim j ty t out q es ls) = es"
  "co_component_id (forensics_component rt st r) = forensics_id"
  "co_component_version (forensics_component rt st r) = ''1.0.0''"
  "co_state (forensics_component rt st r) = st"
  by (simp_all add: forensics_evidence_def forensics_claim_def forensics_component_def)

text \<open>A finding that passes the models and whose claim cites its own evidence only.\<close>

definition finding_ok :: "string \<Rightarrow> evidence_pointer option \<times> claim_record \<Rightarrow> bool" where
  "finding_ok asset f \<longleftrightarrow>
     wf_claim (snd f) \<and> cl_dimension (snd f) = Dim_PROVENANCE \<and>
     (case fst f of None \<Rightarrow> cl_evidence_ids (snd f) = []
      | Some e \<Rightarrow> wf_evidence e \<and> wf_locator (ev_locator e) \<and> ev_asset_sha256 e = asset \<and>
          ev_component_id e = forensics_id \<and> ev_component_version e = ''1.0.0'' \<and>
          cl_evidence_ids (snd f) = [ev_evidence_id e])"

lemma build_finding_ok: "finding_ok asset f \<Longrightarrow> build_finding f = Inr f"
  by (cases f) (auto simp: finding_ok_def build_finding_def locator.validate_fix evidence.validate_fix
      claim.validate_fix split: option.splits)

lemma findings_sound:
  assumes "list_all (finding_ok asset) fs" and "wf_component k" and "co_component_id k = forensics_id"
    and "co_component_version k = ''1.0.0''"
  shows "lane_sound asset k (List.map_filter fst fs) (map snd fs)"
    and "list_all (\<lambda>e. wf_locator (ev_locator e)) (List.map_filter fst fs)"
proof -
  have mem: "e \<in> set (List.map_filter fst fs) \<longleftrightarrow> (\<exists>c. (Some e, c) \<in> set fs)" for e
    by (induction fs) (auto simp: map_filter_simps split: option.splits)
  have ok: "finding_ok asset f" if "f \<in> set fs" for f using assms(1) that by (simp add: list_all_iff)
  show "list_all (\<lambda>e. wf_locator (ev_locator e)) (List.map_filter fst fs)"
    using ok by (force simp: list_all_iff mem finding_ok_def)
  have "set (cl_evidence_ids (snd f)) \<subseteq> ev_evidence_id ` set (List.map_filter fst fs)" if f: "f \<in> set fs" for f
  proof (cases "fst f")
    case None
    then show ?thesis using ok [OF f] by (simp add: finding_ok_def)
  next
    case (Some e)
    then have "e \<in> set (List.map_filter fst fs)" using f by (metis mem prod.collapse)
    with Some ok [OF f] show ?thesis by (auto simp: finding_ok_def)
  qed
  then show "lane_sound asset k (List.map_filter fst fs) (map snd fs)"
    using ok assms(2-4) by (force simp: lane_sound_def mem finding_ok_def)
qed

lemma wf_metadata_locator: "wf_locator metadata_locator"
  by (simp add: wf_locator_def metadata_locator_def whole_asset_def locator_fields_def locator_shape_def
      locator_supplied_def len_between_def)

lemma marker_finding_ok:
  "sha_ok rt \<Longrightarrow> is_sha256 asset \<Longrightarrow> finding_ok asset (marker_finding rt asset metadata markers)"
  by (auto simp: finding_ok_def marker_finding_def marker_confidence_def Let_def wf_forensics_claim
      wf_forensics_evidence wf_metadata_locator len_between_def unit_interval_def split: prod.split)

lemma wf_int_box: "int_box_in w h b \<Longrightarrow> wf_locator (region_locator (box_of_ints b))"
  by (cases b) (auto simp: int_box_in_def box_of_ints_def intro!: wf_region_locator)

lemma signal_confidence_unit: "an_anomalous a \<longrightarrow> 6 \<le> an_robust_z a \<Longrightarrow> unit_interval (signal_confidence a)"
  by (auto simp: signal_confidence_def unit_interval_def min_def)

lemma anomaly_finding_ok:
  assumes "sha_ok rt" and "is_sha256 asset" and "residual_anomaly w h res = Some a"
  shows "finding_ok asset (anomaly_finding rt asset a)"
  using assms(1,2) residual_anomaly_SomeD [OF assms(3)] signal_confidence_unit [of a] wf_int_box [of w h "an_bbox a"]
  by (auto simp: finding_ok_def anomaly_finding_def Let_def wf_forensics_claim wf_forensics_evidence len_between_def)

lemma forensics_findings_ok:
  "sha_ok rt \<Longrightarrow> is_sha256 asset \<Longrightarrow> list_all (finding_ok asset) (forensics_findings rt lib asset img)"
  by (auto simp: forensics_findings_def Let_def marker_finding_ok anomaly_finding_ok split: option.split)

lemma forensics_failure_ok:
  assumes "sha_ok rt" and "is_sha256 asset"
  shows "\<exists>r. forensics_failure rt asset e = Inr r \<and> provenance_sound asset r \<and>
    co_state (pr_component r) = Comp_DEGRADED \<and> pa_verdict (pr_assessment r) = Prov_UNKNOWN \<and>
    list_all (\<lambda>e. ev_locator e = whole_asset) (pr_evidence r)"
proof -
  let ?reason = forensics_failure_reason
  let ?e = "forensics_evidence (asset_id_text ''evidence.image-forensics-failure-'' asset)
           asset Ev_COMPONENT_FAILURE ''RightsGate deterministic image forensic triage'' Pol_NEUTRAL 1
           whole_asset ?reason (rt_sha256 rt e) []"
  let ?c = "forensics_claim (asset_id_text ''claim.image-forensics-'' asset)
           ''forensics.image-origin'' ''Independent image signals support an origin assessment.''
           Outcome_NOT_ASSESSED 0 [] [?reason]"
  have k: "wf_component (forensics_component rt Comp_DEGRADED (Some ?reason))"
    using assms(1) by (rule wf_forensics_component(2)) (simp add: forensics_failure_reason_def len_between_def)
  have e: "wf_evidence ?e" and c: "wf_claim ?c"
    using assms by (simp_all add: wf_forensics_evidence wf_forensics_claim forensics_failure_reason_def len_between_def)
  have a: "wf_provenance \<lparr>pa_state = State_UNAVAILABLE, pa_verdict = Prov_UNKNOWN, pa_confidence = 0,
           pa_claims = [?c], pa_limitations = [?reason]\<rparr>" by (simp add: wf_provenance_def)
  show ?thesis
    unfolding forensics_failure_def Let_def component.validate_fix [OF k] res_bind_simps evidence.validate_fix [OF e]
      claim.validate_fix [OF c] provenance.validate_fix [OF a]
    using k e c a by (simp add: provenance_sound_def lane_sound_def)
qed

lemma forensics_regions:
  "e \<in> set (List.map_filter fst (forensics_findings rt lib asset img)) \<Longrightarrow> loc_kind (ev_locator e) = Loc_REGION \<Longrightarrow>
     \<exists>b. int_box_in (di_width img) (di_height img) b \<and> loc_bbox (ev_locator e) = Some (box_of_ints b)"
  by (auto simp: forensics_findings_def Let_def marker_finding_def anomaly_finding_def map_filter_simps
      metadata_locator_def whole_asset_def region_locator_def simp del: split_paired_Ex
      dest: residual_anomaly_SomeD(1) split: option.splits prod.splits if_splits)

lemma inspect_image_forensics_result:
  assumes "sha_ok rt" and "rt_sha256 rt data = asset" and "1 \<le> max_pixels"
  shows "\<exists>r. inspect_image_forensics rt lib data asset max_pixels = Inr r \<and> provenance_sound asset r \<and>
    pa_verdict (pr_assessment r) \<in> {Prov_UNKNOWN, Prov_AI_GENERATED, Prov_PARTIALLY_GENERATED} \<and>
    (pa_verdict (pr_assessment r) \<noteq> Prov_UNKNOWN \<longleftrightarrow> (\<exists>img. decode_forensic_image lib data max_pixels = Inr img \<and>
      fst (metadata_markers (extract_metadata lib img)) \<noteq> [])) \<and>
    (co_state (pr_component r) = Comp_DEGRADED \<longleftrightarrow> (\<exists>e. decode_forensic_image lib data max_pixels = Inl e)) \<and>
    (\<forall>img. decode_forensic_image lib data max_pixels = Inr img \<longrightarrow>
      list_all (\<lambda>e. loc_kind (ev_locator e) = Loc_REGION \<longrightarrow>
        (\<exists>b. int_box_in (di_width img) (di_height img) b \<and> loc_bbox (ev_locator e) = Some (box_of_ints b)))
        (pr_evidence r))"
proof -
  have sha: "is_sha256 asset" using assms(1,2) by auto
  show ?thesis
  proof (cases "decode_forensic_image lib data max_pixels")
    case (Inl e)
    then show ?thesis
      using forensics_failure_ok [OF assms(1) sha, of e] assms(3) by (auto simp: inspect_image_forensics_def assms(2))
  next
    case (Inr img)
    let ?m = "metadata_markers (extract_metadata lib img)"
    let ?fs = "forensics_findings rt lib asset img"
    let ?k = "forensics_component rt Comp_AVAILABLE None"
    note ok = forensics_findings_ok [OF assms(1) sha, of lib img]
    note k = wf_forensics_component(1) [OF assms(1)]
    have "res_map build_finding ?fs = Inr (map (\<lambda>f. f) ?fs)"
      using ok by (intro res_map_total build_finding_ok [of asset]) (simp add: list_all_iff)
    then have build: "res_map build_finding ?fs = Inr ?fs" by simp
    let ?a = "\<lparr>pa_state = State_COMPLETE, pa_verdict = marker_verdict ?m, pa_confidence = marker_confidence ?m,
        pa_claims = map snd ?fs,
        pa_limitations = (if marker_verdict ?m = Prov_UNKNOWN then forensics_limitations else [])\<rparr>"
    have dims: "cl_dimension c = Dim_PROVENANCE" if "c \<in> set (map snd ?fs)" for c
      using that ok by (auto simp: list_all_iff finding_ok_def)
    have a: "wf_provenance ?a"
      using dims by (auto simp: wf_provenance_def forensics_limitations_def marker_confidence_def unit_interval_def
          split: prod.split)
    let ?r = "\<lparr>pr_component = ?k, pr_evidence = List.map_filter fst ?fs, pr_assessment = ?a\<rparr>"
    have res: "inspect_image_forensics rt lib data asset max_pixels = Inr ?r"
      using Inr assms(3) by (simp add: inspect_image_forensics_def assms(2) Let_def build
          component.validate_fix [OF k] provenance.validate_fix [OF a])
    have "provenance_sound asset ?r"
      using findings_sound [OF ok k] a by (simp add: provenance_sound_def)
    moreover have "list_all (\<lambda>e. loc_kind (ev_locator e) = Loc_REGION \<longrightarrow>
        (\<exists>b. int_box_in (di_width img) (di_height img) b \<and> loc_bbox (ev_locator e) = Some (box_of_ints b)))
        (pr_evidence ?r)"
      using forensics_regions by (auto simp: list_all_iff)
    moreover have "marker_verdict ?m \<in> {Prov_UNKNOWN, Prov_AI_GENERATED, Prov_PARTIALLY_GENERATED}"
      "marker_verdict ?m \<noteq> Prov_UNKNOWN \<longleftrightarrow> fst ?m \<noteq> []"
      by (auto simp: marker_verdict_def split: prod.splits)
    ultimately show ?thesis using res Inr by simp
  qed
qed

text \<open>
  The forensic lane returns for every image; its evidence is valid and bound to the asset and every region
  it reports is a box of positive area in the decoded image. It reports generated content exactly when the
  metadata of a decodable image carries a recognised tool marker, never tampering and never authenticity, and
  its component is degraded exactly when the image could not be decoded.
\<close>

theorem inspect_image_forensics_sound:
  assumes "sha_ok rt" and "rt_sha256 rt data = asset" and "1 \<le> max_pixels"
  shows "\<exists>r. inspect_image_forensics rt lib data asset max_pixels = Inr r \<and> provenance_sound asset r \<and>
    pa_verdict (pr_assessment r) \<in> {Prov_UNKNOWN, Prov_AI_GENERATED, Prov_PARTIALLY_GENERATED} \<and>
    (pa_verdict (pr_assessment r) \<noteq> Prov_UNKNOWN \<longleftrightarrow> (\<exists>img. decode_forensic_image lib data max_pixels = Inr img \<and>
      fst (metadata_markers (extract_metadata lib img)) \<noteq> [])) \<and>
    (co_state (pr_component r) = Comp_DEGRADED \<longleftrightarrow> (\<exists>e. decode_forensic_image lib data max_pixels = Inl e)) \<and>
    (\<forall>img. decode_forensic_image lib data max_pixels = Inr img \<longrightarrow>
      list_all (\<lambda>e. loc_kind (ev_locator e) = Loc_REGION \<longrightarrow>
        (\<exists>b. int_box_in (di_width img) (di_height img) b \<and> loc_bbox (ev_locator e) = Some (box_of_ints b)))
        (pr_evidence r))"
  using assms by (rule inspect_image_forensics_result)

definition demo_img :: decoded_image where
  "demo_img = \<lparr>di_info = [(''Software'', MText ''ComfyUI'')], di_exif = [], di_width = 10, di_height = 10, di_residual = []\<rparr>"

definition demo_forensic_lib :: forensic_lib where
  "demo_forensic_lib = \<lparr>fo_open = (\<lambda>_. Inr (10, 10)), fo_decoded = (\<lambda>_. Inr demo_img), fo_utf8 = (\<lambda>s. s)\<rparr>"

lemma demo_markers: "fst (metadata_markers (extract_metadata demo_forensic_lib demo_img)) = [''comfyui'']"
  by code_simp

theorem inspect_image_forensics_sound_witness:
  "\<exists>r. inspect_image_forensics demo_runtime demo_forensic_lib ''pixels'' (rt_sha256 demo_runtime ''pixels'') 1000 = Inr r \<and>
    provenance_sound (rt_sha256 demo_runtime ''pixels'') r \<and> pa_verdict (pr_assessment r) \<noteq> Prov_UNKNOWN"
proof -
  have "decode_forensic_image demo_forensic_lib ''pixels'' 1000 = Inr demo_img"
    by (simp add: decode_forensic_image_def demo_forensic_lib_def)
  then show ?thesis
    using inspect_image_forensics_sound [OF sha_ok_demo refl, of 1000 demo_forensic_lib "''pixels''"] demo_markers by auto
qed

end
