(* ===== verification/Video_Frames.thy ===== *)
theory Video_Frames
  imports Lanes
begin

section \<open>Video frames\<close>

text \<open>
  \<open>app/extraction/video.py\<close>, the part RightsGate calls: probing a container, choosing the evidence frames,
  and the change screen that reads every physical frame and selects those with new content. OpenCV is the
  parameter: \<open>vf_capture\<close> is what a capture of the bytes reports (\<open>None\<close> when it cannot be opened; the frame
  rate is \<open>None\<close> when it is not finite), with the edge map of every frame it decodes in order and the PNG of
  the frame it seeks to; \<open>vf_shift\<close> is the phase correlation (\<open>None\<close> for \<open>cv2.error\<close>) and \<open>vf_warp\<close> the
  translation of an edge map.
\<close>

subsection \<open>Settings and file names\<close>

record settings =
  st_max_file_size_bytes :: nat
  st_max_pdf_pages :: nat
  st_max_render_pixels_per_page :: int
  st_max_total_render_pixels :: int
  st_max_image_pixels :: int
  st_max_video_duration_seconds :: rat
  st_max_video_frames :: int
  st_max_video_width :: int
  st_max_video_height :: int
  st_max_video_frame_pixels :: int
  st_video_evidence_sample_fps :: rat
  st_max_video_evidence_frames :: int
  st_ocr_dpi :: int

definition default_settings :: settings where
  "default_settings = \<lparr>st_max_file_size_bytes = 31457280, st_max_pdf_pages = 50,
     st_max_render_pixels_per_page = 30000000, st_max_total_render_pixels = 250000000, st_max_image_pixels = 40000000,
     st_max_video_duration_seconds = 60, st_max_video_frames = 3600, st_max_video_width = 1920,
     st_max_video_height = 1080, st_max_video_frame_pixels = 2500000, st_video_evidence_sample_fps = 2,
     st_max_video_evidence_frames = 120, st_ocr_dpi = 220\<rparr>"

fun split_on :: "char \<Rightarrow> string \<Rightarrow> string list" where
  "split_on sep [] = [[]]"
| "split_on sep (c # s) = (if c = sep then [] # split_on sep s
     else case split_on sep s of [] \<Rightarrow> [[c]] | w # ws \<Rightarrow> (c # w) # ws)"

text \<open>\<open>Path(s).name\<close> and \<open>Path(s).suffix\<close>.\<close>

definition path_name :: "string \<Rightarrow> string" where
  "path_name s = (case filter (\<lambda>p. p \<noteq> [] \<and> p \<noteq> ''.'') (split_on CHR ''/'' s) of [] \<Rightarrow> [] | ps \<Rightarrow> last ps)"

definition path_suffix :: "string \<Rightarrow> string" where
  "path_suffix s =
     (let name = path_name s; ext = rev (takeWhile (\<lambda>c. c \<noteq> CHR ''.'') (rev name))
      in if ext \<noteq> [] \<and> length ext + 1 < length name then CHR ''.'' # ext else [])"

definition video_extensions :: "string list" where
  "video_extensions = [''.mp4'', ''.mov'']"

definition safe_suffix :: "string option \<Rightarrow> string" where
  "safe_suffix source_filename =
     (let ext = casefold (path_suffix (case source_filename of None \<Rightarrow> ''video.mp4'' | Some f \<Rightarrow>
            if f = [] then ''video.mp4'' else f))
      in if ext \<in> set video_extensions then ext else ''.mp4'')"

definition looks_like_iso_bmff :: "string \<Rightarrow> bool" where
  "looks_like_iso_bmff data \<longleftrightarrow> 12 \<le> length data \<and> take 4 (drop 4 data) = ''ftyp''"

definition has_audio_track :: "string \<Rightarrow> bool" where
  "has_audio_track data \<longleftrightarrow> contains ''soun'' data"

subsection \<open>Evidence frames\<close>

text \<open>\<open>range(0, total, stride)\<close>.\<close>

definition stride_range :: "int \<Rightarrow> int \<Rightarrow> int list" where
  "stride_range n stride = map (\<lambda>k. int k * stride) [0..<nat ((n + stride - 1) div stride)]"

definition spaced :: "int list \<Rightarrow> int \<Rightarrow> int list" where
  "spaced indices cap = sorted_set (map (\<lambda>i. indices ! nat (round_half_even
       (of_int (i * (int (length indices) - 1)) / of_int (cap - 1)))) [0..cap - 1])"

definition sample_indices :: "settings \<Rightarrow> int \<Rightarrow> rat \<Rightarrow> int list" where
  "sample_indices st total_frames fps =
     (if total_frames \<le> 0 then []
      else let target_rate = max (1 / 4) (st_video_evidence_sample_fps st);
               stride = (if 0 < fps then max 1 (round_half_even (fps / target_rate)) else 1);
               strided = stride_range total_frames stride;
               indices = (if last strided \<noteq> total_frames - 1 then strided @ [total_frames - 1] else strided);
               cap = max 2 (st_max_video_evidence_frames st)
           in if int (length indices) \<le> cap then indices
              else let chosen = spaced indices cap;
                       front = (if hd chosen \<noteq> 0 then 0 # chosen else chosen)
                   in if last front \<noteq> total_frames - 1 then front @ [total_frames - 1] else front)"

subsection \<open>Probing\<close>

type_synonym edges = "bool list list"

record capture =
  cap_width :: rat
  cap_height :: rat
  cap_fps :: "rat option"
  cap_frame_count :: rat
  cap_edges :: "edges list"
  cap_frame_png :: "int \<Rightarrow> string option"

record video_lib =
  vf_capture :: "string \<Rightarrow> string \<Rightarrow> capture option"
  vf_shift :: "edges \<Rightarrow> edges \<Rightarrow> (rat \<times> rat) option"
  vf_warp :: "edges \<Rightarrow> int \<Rightarrow> int \<Rightarrow> edges"

record video_info =
  vi_width :: int
  vi_height :: int
  vi_fps :: rat
  vi_total_frames :: int
  vi_duration_seconds :: rat
  vi_sampled_frame_indices :: "int list"
  vi_has_audio :: bool
  vi_source_extension :: string

text \<open>\<open>{x:.1f}\<close> of the duration: one decimal, rounded half to even.\<close>

definition one_decimal :: "rat \<Rightarrow> string" where
  "one_decimal q = (let n = round_half_even (q * 10)
     in show_int (n div 10) @ ''.'' @ show_int (n mod 10))"

definition probe_video :: "settings \<Rightarrow> video_lib \<Rightarrow> string \<Rightarrow> string option \<Rightarrow> video_info res" where
  "probe_video st lib data source_filename =
     (let bad = (\<lambda>m. Inl (VideoError m)); ext = safe_suffix source_filename
      in if data = [] then bad ''Video is empty''
         else if ext \<notin> set video_extensions then bad ''Supported video containers are MP4 and MOV''
         else if \<not> looks_like_iso_bmff data then bad ''Video container magic bytes do not match MP4/MOV''
         else case vf_capture lib ext data of
           None \<Rightarrow> bad ''OpenCV could not decode the video stream''
         | Some cap \<Rightarrow>
             let width = round_half_even (cap_width cap); height = round_half_even (cap_height cap);
                 total_frames = round_half_even (cap_frame_count cap)
             in if width \<le> 0 \<or> height \<le> 0 then bad ''Video has invalid frame dimensions''
                else case cap_fps cap of
                  None \<Rightarrow> bad ''Video frame rate is unavailable or invalid''
                | Some fps \<Rightarrow>
                    if fps \<le> 0 then bad ''Video frame rate is unavailable or invalid''
                    else if total_frames \<le> 0 then bad ''Video contains no decodable frames''
                    else if st_max_video_width st < width \<or> st_max_video_height st < height
                    then bad (''Video exceeds the '' @ show_int (st_max_video_width st) @ [CHR 0xD7] @
                      show_int (st_max_video_height st) @ '' frame-size limit'')
                    else if st_max_video_frame_pixels st < width * height
                    then bad ''Video frame exceeds the local safe pixel budget''
                    else if st_max_video_frames st < total_frames
                    then bad (''Video exceeds the '' @ show_int (st_max_video_frames st) @ ''-frame limit'')
                    else if st_max_video_duration_seconds st < of_int total_frames / fps
                    then bad (''Video duration '' @ one_decimal (of_int total_frames / fps) @ ''s exceeds the '' @
                      show_int (round_half_even (st_max_video_duration_seconds st)) @ ''s local-analysis limit'')
                    else Inr \<lparr>vi_width = width, vi_height = height, vi_fps = fps, vi_total_frames = total_frames,
                           vi_duration_seconds = of_int total_frames / fps,
                           vi_sampled_frame_indices = sample_indices st total_frames fps,
                           vi_has_audio = has_audio_track data, vi_source_extension = ext\<rparr>)"

text \<open>\<open>physical_frame\<close> with \<open>_frame_at\<close>; the frame is the PNG the caller encodes.\<close>

definition physical_frame ::
    "settings \<Rightarrow> video_lib \<Rightarrow> string \<Rightarrow> int \<Rightarrow> string option \<Rightarrow> (string \<times> video_info \<times> int) res" where
  "physical_frame st lib data frame_index source_filename =
     res_bind (probe_video st lib data source_filename) (\<lambda>info.
       if frame_index < 0 \<or> vi_total_frames info \<le> frame_index
       then Inl (VideoError ''Video physical-frame index is out of range'')
       else case vf_capture lib (vi_source_extension info) data of
         None \<Rightarrow> Inl (VideoError ''OpenCV could not decode video evidence frame'')
       | Some cap \<Rightarrow> (case cap_frame_png cap frame_index of
           None \<Rightarrow> Inl (VideoError (''Could not decode video frame '' @ show_int frame_index))
         | Some png \<Rightarrow> Inr (png, info, frame_index)))"

subsection \<open>The change screen\<close>

text \<open>\<open>np.logical_xor(reference, aligned).mean()\<close>.\<close>

definition edge_difference :: "edges \<Rightarrow> edges \<Rightarrow> rat" where
  "edge_difference reference aligned =
     (let pairs = zip (concat reference) (concat aligned)
      in of_nat (length (filter (\<lambda>(a, b). a \<noteq> b) pairs)) / of_nat (length pairs))"

definition novelty_fraction :: "video_lib \<Rightarrow> edges \<Rightarrow> edges \<Rightarrow> rat" where
  "novelty_fraction lib reference candidate =
     (let (dx, dy) = (case vf_shift lib reference candidate of None \<Rightarrow> (0, 0)
            | Some (x, y) \<Rightarrow> (round_half_even x, round_half_even y));
          score = (\<lambda>sx sy. edge_difference reference (vf_warp lib candidate sx sy))
      in min (score dx dy) (score (- dx) (- dy)))"

record scan_state =
  sn_left_idx :: int
  sn_right_idx :: int
  sn_left :: "edges option"
  sn_interior :: "(int \<times> edges) list"
  sn_pos :: nat
  sn_selected :: "int list"
  sn_novelty :: "(int \<times> rat) list"

definition scan_start :: "int list \<Rightarrow> scan_state" where
  "scan_start evidence =
     \<lparr>sn_left_idx = evidence ! 0, sn_right_idx = (if 1 < length evidence then evidence ! 1 else evidence ! 0),
      sn_left = None, sn_interior = [], sn_pos = 0, sn_selected = evidence, sn_novelty = []\<rparr>"

definition novelty_threshold :: rat where
  "novelty_threshold = 1 / 1000"

text \<open>The body of the loop for one decoded frame and its edge map.\<close>

definition scan_step :: "video_lib \<Rightarrow> int list \<Rightarrow> int \<times> edges \<Rightarrow> scan_state \<Rightarrow> scan_state" where
  "scan_step lib evidence frame s =
     (let (frame_index, edge_map) = frame
      in if frame_index = sn_left_idx s then s\<lparr>sn_left := Some edge_map\<rparr>
         else if frame_index < sn_right_idx s then s\<lparr>sn_interior := sn_interior s @ [frame]\<rparr>
         else if frame_index = sn_right_idx s
         then let left = (case sn_left s of None \<Rightarrow> edge_map | Some l \<Rightarrow> l);
                  scored = map (\<lambda>(i, candidate). (i, min (novelty_fraction lib left candidate)
                    (novelty_fraction lib edge_map candidate))) (sn_interior s);
                  pos = Suc (sn_pos s)
              in s\<lparr>sn_left_idx := sn_right_idx s, sn_left := Some edge_map, sn_interior := [], sn_pos := pos,
                   sn_right_idx := (if Suc pos < length evidence then evidence ! Suc pos else sn_right_idx s),
                   sn_selected := sn_selected s @ map fst (filter (\<lambda>x. novelty_threshold \<le> snd x) scored),
                   sn_novelty := sn_novelty s @ scored\<rparr>
         else s)"

definition scan_frames :: "video_lib \<Rightarrow> int list \<Rightarrow> edges list \<Rightarrow> scan_state" where
  "scan_frames lib evidence frames =
     fold (scan_step lib evidence) (zip (map int [0..<length frames]) frames) (scan_start evidence)"

record scan_statistics =
  ss_change_screened :: int
  ss_evidence_frames :: int
  ss_novel_frames :: int
  ss_detection_frames :: int
  ss_novelty_by_frame :: "(string \<times> rat) list"

definition security_scan_frame_indices ::
    "settings \<Rightarrow> video_lib \<Rightarrow> string \<Rightarrow> string option \<Rightarrow> (video_info \<times> int list \<times> scan_statistics) res" where
  "security_scan_frame_indices st lib data source_filename =
     res_bind (probe_video st lib data source_filename) (\<lambda>info.
       let evidence = vi_sampled_frame_indices info
       in case vf_capture lib (vi_source_extension info) data of
         None \<Rightarrow> Inl (VideoError ''OpenCV could not decode video for full-frame safety scan'')
       | Some cap \<Rightarrow>
           let s = scan_frames lib evidence (cap_edges cap); decoded = int (length (cap_edges cap))
           in if decoded \<noteq> vi_total_frames info
              then Inl (VideoError (''Full-frame safety scan decoded '' @ show_int decoded @ ''/'' @
                show_int (vi_total_frames info) @ '' frames''))
              else let selected = sorted_set (sn_selected s)
                in Inr (info, selected,
                  \<lparr>ss_change_screened = vi_total_frames info, ss_evidence_frames = int (length evidence),
                   ss_novel_frames = int (length (filter (\<lambda>i. i \<notin> set evidence) selected)),
                   ss_detection_frames = int (length selected),
                   ss_novelty_by_frame = map (\<lambda>(i, v). (show_int i, round_to v 6))
                     (filter (\<lambda>x. fst x \<in> set selected) (sn_novelty s))\<rparr>))"

subsection \<open>The evidence frames cover the timeline\<close>

text \<open>What the budgeted sample promises: increasing indices of frames, the first and the last among them.\<close>

definition covers_timeline :: "int \<Rightarrow> int list \<Rightarrow> bool" where
  "covers_timeline n indices \<longleftrightarrow> indices \<noteq> [] \<and> sorted indices \<and> distinct indices \<and>
     hd indices = 0 \<and> last indices = n - 1 \<and> set indices \<subseteq> {0..<n}"

lemma sorted_le_last:
  "sorted xs \<Longrightarrow> x \<in> set xs \<Longrightarrow> x \<le> last xs"
  by (induction xs) auto

lemma sorted_hd_le:
  "sorted xs \<Longrightarrow> x \<in> set xs \<Longrightarrow> hd xs \<le> x"
  by (cases xs) auto

lemma stride_range_less:
  assumes "0 < stride" and "k < nat ((n + stride - 1) div stride)"
  shows "int k * stride < n"
proof -
  have "int k + 1 \<le> (n + stride - 1) div stride" using assms by linarith
  then have "(int k + 1) * stride \<le> (n + stride - 1) div stride * stride"
    using assms(1) by (intro mult_right_mono) simp_all
  also have "\<dots> \<le> n + stride - 1"
    using assms(1) div_mult_mod_eq [of "n + stride - 1" stride] pos_mod_sign [OF assms(1), of "n + stride - 1"]
    by linarith
  finally show ?thesis by (simp add: distrib_right)
qed

lemma stride_range_props:
  assumes "0 < stride" and "0 < n"
  shows "stride_range n stride \<noteq> []" and "sorted (stride_range n stride)" and "distinct (stride_range n stride)"
    and "hd (stride_range n stride) = 0" and "set (stride_range n stride) \<subseteq> {0..<n}"
proof -
  have "1 \<le> (n + stride - 1) div stride" using assms by (simp add: pos_imp_zdiv_pos_iff int_one_le_iff_zero_less)
  then have pos: "0 < nat ((n + stride - 1) div stride)" by simp
  then show "stride_range n stride \<noteq> []" by (simp add: stride_range_def)
  show "hd (stride_range n stride) = 0" using pos by (simp add: stride_range_def hd_map)
  show "sorted (stride_range n stride)"
    using assms(1) by (auto simp: stride_range_def sorted_map intro!: sorted_wrt_mono_rel [OF _ sorted_upt])
  show "distinct (stride_range n stride)"
    using assms(1) by (auto simp: stride_range_def distinct_map inj_on_def)
  show "set (stride_range n stride) \<subseteq> {0..<n}"
    using assms(1) stride_range_less [OF assms(1)] by (auto simp: stride_range_def)
qed

lemma covers_snoc:
  assumes "xs \<noteq> []" and "sorted xs" and "distinct xs" and "hd xs = 0" and "set xs \<subseteq> {0..<n}"
  shows "covers_timeline n (if last xs \<noteq> n - 1 then xs @ [n - 1] else xs)"
proof (cases "last xs = n - 1")
  case True
  with assms show ?thesis by (simp add: covers_timeline_def)
next
  case False
  have notin: "n - 1 \<notin> set xs"
  proof
    assume "n - 1 \<in> set xs"
    then have "n - 1 \<le> last xs" by (rule sorted_le_last [OF assms(2)])
    moreover have "last xs < n" using assms(1,5) by (meson atLeastLessThan_iff last_in_set subsetD)
    ultimately show False using False by simp
  qed
  have "0 < n" using assms(1,5) by (cases xs) auto
  with False notin assms show ?thesis
    by (auto simp: covers_timeline_def sorted_append)
qed

lemma round_position_bounds:
  assumes "0 \<le> i" and "i \<le> m" and "0 < m" and "0 \<le> l"
  shows "0 \<le> round_half_even (of_int (i * l) / of_int m)" and "round_half_even (of_int (i * l) / of_int m) \<le> l"
proof -
  have "0 \<le> (of_int (i * l) / of_int m :: rat)" using assms by simp
  from round_half_even_mono [OF this] show "0 \<le> round_half_even (of_int (i * l) / of_int m)"
    using round_half_even_of_int [of 0] by simp
  have "i * l \<le> l * m" using mult_right_mono [OF assms(2,4)] by (simp add: mult.commute)
  then have "(of_int (i * l) :: rat) \<le> of_int (l * m)" by (simp only: of_int_le_iff)
  then have "(of_int (i * l) / of_int m :: rat) \<le> of_int l" using assms(3) by (simp add: divide_le_eq)
  from round_half_even_mono [OF this] show "round_half_even (of_int (i * l) / of_int m) \<le> l" by simp
qed

lemma covers_timelineI:
  assumes "sorted xs" and "distinct xs" and "0 \<in> set xs" and "n - 1 \<in> set xs" and "set xs \<subseteq> {0..<n}"
  shows "covers_timeline n xs"
proof -
  have ne: "xs \<noteq> []" using assms(3) by auto
  have "hd xs = 0" using sorted_hd_le [OF assms(1,3)] hd_in_set [OF ne] assms(5) by fastforce
  moreover have "last xs = n - 1"
    using sorted_le_last [OF assms(1,4)] last_in_set [OF ne] assms(5) by fastforce
  ultimately show ?thesis using assms ne by (simp add: covers_timeline_def)
qed

lemma covers_ends: "covers_timeline n xs \<Longrightarrow> 0 \<in> set xs \<and> n - 1 \<in> set xs"
  unfolding covers_timeline_def by (metis hd_in_set last_in_set)

lemma spaced_position:
  assumes "2 \<le> cap" and "cap < int (length xs)" and "i \<in> {0..cap - 1}"
    and "p = round_half_even (of_int (i * (int (length xs) - 1)) / of_int (cap - 1))"
  shows "0 \<le> p" and "nat p < length xs"
proof -
  have i: "0 \<le> i" "i \<le> cap - 1" "0 < cap - 1" using assms(1,3) by simp_all
  have ne: "0 \<le> int (length xs) - 1" using assms(1,2) by linarith
  have "0 \<le> p" "p \<le> int (length xs) - 1" unfolding assms(4) by (rule round_position_bounds [OF i ne])+
  then show "0 \<le> p" and "nat p < length xs" using ne by linarith+
qed

lemma spaced_covers:
  assumes "covers_timeline n xs" and "2 \<le> cap" and "cap < int (length xs)"
  shows "covers_timeline n (spaced xs cap)" and "int (length (spaced xs cap)) \<le> cap"
proof -
  let ?p = "\<lambda>i. nat (round_half_even (of_int (i * (int (length xs) - 1)) / of_int (cap - 1)))"
  have pos: "?p i < length xs" if "i \<in> {0..cap - 1}" for i
    by (rule spaced_position [OF assms(2,3) that refl])
  have ends: "?p 0 = 0" "?p (cap - 1) = length xs - 1"
    using assms(2,3) round_half_even_of_int [of 0] round_half_even_of_int [of "int (length xs) - 1"]
    by (simp_all add: nat_diff_distrib)
  have set: "set (spaced xs cap) = (\<lambda>i. xs ! ?p i) ` {0..cap - 1}"
    by (simp add: spaced_def)
  have "xs \<noteq> []" using assms(1) by (simp add: covers_timeline_def)
  have "xs ! 0 \<in> set (spaced xs cap)" "xs ! (length xs - 1) \<in> set (spaced xs cap)"
    unfolding set using ends assms(2) by (force intro: rev_image_eqI [of 0], force intro: rev_image_eqI [of "cap - 1"])
  then have in_ends: "0 \<in> set (spaced xs cap)" "n - 1 \<in> set (spaced xs cap)"
    using assms(1) \<open>xs \<noteq> []\<close> by (simp_all add: covers_timeline_def hd_conv_nth last_conv_nth)
  have sub: "set (spaced xs cap) \<subseteq> {0..<n}"
    using pos assms(1) unfolding set covers_timeline_def by (auto dest: nth_mem)
  have so: "sorted (spaced xs cap)" "distinct (spaced xs cap)" by (simp_all add: spaced_def)
  show "covers_timeline n (spaced xs cap)" by (rule covers_timelineI [OF so in_ends sub])
  have "length (spaced xs cap) = card (set (spaced xs cap))" using so(2) by (simp add: distinct_card)
  also have "\<dots> \<le> card {0..cap - 1}" unfolding set by (rule card_image_le) simp
  finally show "int (length (spaced xs cap)) \<le> cap" using assms(2) by simp
qed

lemma stride_positive: "0 < (if 0 < fps then max 1 (round_half_even (fps / rate)) else 1)"
  by (cases "0 < fps") (simp_all add: less_max_iff_disj)

text \<open>
  The evidence frames of a non-empty video are increasing indices of its frames that include the first and
  the last one, and never exceed the configured budget (of at least two frames).
\<close>

lemma sample_indices_cover:
  assumes "0 < n"
  shows "covers_timeline n (sample_indices st n fps) \<and>
    int (length (sample_indices st n fps)) \<le> max 2 (st_max_video_evidence_frames st)"
proof -
  define stride where "stride = (if 0 < fps
    then max 1 (round_half_even (fps / max (1 / 4) (st_video_evidence_sample_fps st))) else 1)"
  define strided where "strided = stride_range n stride"
  define indices where "indices = (if last strided \<noteq> n - 1 then strided @ [n - 1] else strided)"
  define cap where "cap = max 2 (st_max_video_evidence_frames st)"
  have "0 < stride" unfolding stride_def by (rule stride_positive)
  from stride_range_props [OF this assms] have cover: "covers_timeline n indices"
    unfolding indices_def strided_def by (rule covers_snoc)
  have cap: "2 \<le> cap" by (simp add: cap_def)
  have eq: "sample_indices st n fps = (if int (length indices) \<le> cap then indices else
      (let chosen = spaced indices cap; front = (if hd chosen \<noteq> 0 then 0 # chosen else chosen)
       in if last front \<noteq> n - 1 then front @ [n - 1] else front))"
    unfolding sample_indices_def Let_def indices_def strided_def stride_def cap_def
    by (rule if_not_P) (use assms in simp)
  show ?thesis
  proof (cases "int (length indices) \<le> cap")
    case True
    with cover show ?thesis by (simp add: eq cap_def)
  next
    case False
    then have "cap < int (length indices)" by simp
    note chosen = spaced_covers [OF cover cap this]
    with False have "sample_indices st n fps = spaced indices cap"
      by (simp add: eq Let_def covers_timeline_def)
    with chosen show ?thesis by (simp add: cap_def)
  qed
qed

subsection \<open>The change screen selects exactly the novel frames\<close>

text \<open>
  The screen, stated without its loop: the evidence frames on both sides of a frame, and whether the frame's
  edges differ from both by at least the threshold.
\<close>

definition bracket :: "int list \<Rightarrow> int \<Rightarrow> int \<times> int" where
  "bracket evidence i = (last (takeWhile (\<lambda>j. j < i) evidence), hd (dropWhile (\<lambda>j. j < i) evidence))"

definition is_novel :: "video_lib \<Rightarrow> int list \<Rightarrow> edges list \<Rightarrow> int \<Rightarrow> bool" where
  "is_novel lib evidence frames i =
     (let (a, b) = bracket evidence i
      in novelty_threshold \<le> min (novelty_fraction lib (frames ! nat a) (frames ! nat i))
           (novelty_fraction lib (frames ! nat b) (frames ! nat i)))"

definition scan_inv :: "video_lib \<Rightarrow> int list \<Rightarrow> edges list \<Rightarrow> nat \<Rightarrow> scan_state \<Rightarrow> bool" where
  "scan_inv lib ev fr k s \<longleftrightarrow>
     sn_pos s < length ev \<and> sn_left_idx s = ev ! sn_pos s \<and> sn_left_idx s < int k \<and>
     sn_left s = Some (fr ! nat (sn_left_idx s)) \<and>
     sn_right_idx s = (if Suc (sn_pos s) < length ev then ev ! Suc (sn_pos s) else ev ! sn_pos s) \<and>
     (Suc (sn_pos s) < length ev \<longrightarrow> int k \<le> sn_right_idx s) \<and>
     sn_interior s = map (\<lambda>i. (i, fr ! nat i)) [sn_left_idx s + 1..int k - 1] \<and>
     set (sn_selected s) = set ev \<union> {i. 0 \<le> i \<and> i < sn_left_idx s \<and> i \<notin> set ev \<and> is_novel lib ev fr i}"

lemma covers_nth_less:
  assumes "covers_timeline n ev" and "p < q" and "q < length ev"
  shows "ev ! p < ev ! q"
  using assms sorted_wrt_nth_less [of "(<)" ev p q]
  by (simp add: covers_timeline_def strict_sorted_iff)

lemma between_not_evidence:
  assumes "covers_timeline n ev" and "Suc p < length ev" and "ev ! p < i" and "i < ev ! Suc p"
  shows "i \<notin> set ev"
proof
  assume "i \<in> set ev"
  then obtain q where q: "q < length ev" "i = ev ! q" by (auto simp: in_set_conv_nth)
  show False
  proof (cases "q \<le> p")
    case True
    with covers_nth_less [OF assms(1), of q p] assms(2,3) q show False by (cases "q = p") auto
  next
    case False
    with covers_nth_less [OF assms(1), of "Suc p" q] assms(4) q show False by (cases "q = Suc p") auto
  qed
qed

lemma bracket_between:
  assumes "covers_timeline n ev" and "Suc p < length ev" and "ev ! p < i" and "i < ev ! Suc p"
  shows "bracket ev i = (ev ! p, ev ! Suc p)"
proof -
  have tw: "takeWhile (\<lambda>j. j < i) ev = take (Suc p) ev"
  proof (rule takeWhile_eq_take_P_nth)
    fix q assume "q < Suc p" "q < length ev"
    then show "ev ! q < i"
      using covers_nth_less [OF assms(1), of q p] assms(2,3) by (cases "q = p") auto
  next
    assume "Suc p < length ev"
    then show "\<not> ev ! Suc p < i" using assms(4) by simp
  qed
  with assms(2) show ?thesis
    by (simp add: bracket_def dropWhile_eq_drop hd_drop_conv_nth take_Suc_conv_app_nth)
qed

lemma upto_snoc: "a \<le> b \<Longrightarrow> [a..b] = [a..b - 1] @ [b :: int]"
  by (simp add: upto_rec2)

lemma covers_index_bounds:
  assumes "covers_timeline n ev" and "p < length ev"
  shows "0 \<le> ev ! p" and "ev ! p < n"
proof -
  have "ev ! p \<in> {0..<n}" using assms(1) nth_mem [OF assms(2)] by (auto simp: covers_timeline_def)
  then show "0 \<le> ev ! p" and "ev ! p < n" by simp_all
qed

lemma covers_last_nth:
  assumes "covers_timeline n ev" and "p < length ev" and "\<not> Suc p < length ev"
  shows "ev ! p = n - 1"
proof -
  have "p = length ev - 1" using assms(2,3) by simp
  then show ?thesis using assms(1) by (auto simp: covers_timeline_def last_conv_nth)
qed

lemma scan_inv_start:
  assumes "covers_timeline (int (length fr)) ev"
  shows "scan_inv lib ev fr (Suc 0) (scan_step lib ev (0, fr ! 0) (scan_start ev))"
proof -
  have ne: "ev \<noteq> []" and zero: "ev ! 0 = 0" using assms by (auto simp: covers_timeline_def hd_conv_nth)
  have "Suc 0 < length ev \<Longrightarrow> 1 \<le> ev ! Suc 0" using covers_nth_less [OF assms, of 0 "Suc 0"] zero by simp
  with ne zero show ?thesis by (auto simp: scan_inv_def scan_step_def scan_start_def)
qed

lemma scan_inv_interior:
  assumes "covers_timeline (int (length fr)) ev" and "scan_inv lib ev fr k s" and "k < length fr"
    and "int k < sn_right_idx s"
  shows "scan_inv lib ev fr (Suc k) (scan_step lib ev (int k, fr ! k) s)"
proof -
  have "sn_left_idx s < int k" "Suc (sn_pos s) < length ev"
    using assms(2,4) by (auto simp: scan_inv_def split: if_splits)
  with assms(2,4) show ?thesis by (simp add: scan_inv_def scan_step_def upto_snoc)
qed

lemma scan_inv_evidence:
  assumes "covers_timeline (int (length fr)) ev" and inv: "scan_inv lib ev fr k s" and "k < length fr"
    and right: "int k = sn_right_idx s"
  shows "scan_inv lib ev fr (Suc k) (scan_step lib ev (int k, fr ! k) s)"
proof -
  define p where "p = sn_pos s"
  have left: "ev ! p < int k" and p: "p < length ev" and li: "sn_left_idx s = ev ! p"
    and li': "sn_left s = Some (fr ! nat (ev ! p))"
    and int: "sn_interior s = map (\<lambda>i. (i, fr ! nat i)) [ev ! p + 1..int k - 1]"
    and sel: "set (sn_selected s) = set ev \<union> {i. 0 \<le> i \<and> i < ev ! p \<and> i \<notin> set ev \<and> is_novel lib ev fr i}"
    using inv by (auto simp: scan_inv_def p_def)
  have next': "Suc p < length ev" and k: "ev ! Suc p = int k"
    using inv right left by (auto simp: scan_inv_def p_def split: if_splits)
  define scored where "scored = map (\<lambda>(i, candidate). (i, min (novelty_fraction lib (fr ! nat (ev ! p)) candidate)
    (novelty_fraction lib (fr ! k) candidate))) (sn_interior s)"
  have novel: "is_novel lib ev fr i \<longleftrightarrow> novelty_threshold \<le> min (novelty_fraction lib (fr ! nat (ev ! p)) (fr ! nat i))
      (novelty_fraction lib (fr ! k) (fr ! nat i))" if "ev ! p < i" "i < int k" for i
    using bracket_between [OF assms(1) next' that(1)] that(2) by (simp add: is_novel_def k)
  have picked: "fst ` {x \<in> set scored. novelty_threshold \<le> snd x} =
      {i. ev ! p < i \<and> i < int k \<and> is_novel lib ev fr i}"
    using novel by (force simp: scored_def int)
  have split: "set ev \<union> {i. 0 \<le> i \<and> i < ev ! p \<and> i \<notin> set ev \<and> is_novel lib ev fr i} \<union>
      {i. ev ! p < i \<and> i < int k \<and> is_novel lib ev fr i} =
      set ev \<union> {i. 0 \<le> i \<and> i < int k \<and> i \<notin> set ev \<and> is_novel lib ev fr i}"
    using covers_index_bounds [OF assms(1) p] nth_mem [OF p] left
      between_not_evidence [OF assms(1) next'] k by (auto simp: not_less le_less)
  have step: "scan_step lib ev (int k, fr ! k) s = s\<lparr>sn_left_idx := int k, sn_left := Some (fr ! k),
      sn_interior := [], sn_pos := Suc p,
      sn_right_idx := (if Suc (Suc p) < length ev then ev ! Suc (Suc p) else int k),
      sn_selected := sn_selected s @ map fst (filter (\<lambda>x. novelty_threshold \<le> snd x) scored),
      sn_novelty := sn_novelty s @ scored\<rparr>"
    using left right by (simp add: scan_step_def li li' scored_def p_def Let_def)
  have after: "Suc (Suc p) < length ev \<longrightarrow> 1 + int k \<le> ev ! Suc (Suc p)"
    using covers_nth_less [OF assms(1), of "Suc p" "Suc (Suc p)"] k by auto
  show ?thesis
    unfolding step scan_inv_def using next' k after split by (simp add: sel picked)
qed

lemma scan_inv_step:
  assumes "covers_timeline (int (length fr)) ev" and "scan_inv lib ev fr k s" and "k < length fr"
  shows "scan_inv lib ev fr (Suc k) (scan_step lib ev (int k, fr ! k) s)"
proof -
  have "Suc (sn_pos s) < length ev"
  proof (rule ccontr)
    assume "\<not> Suc (sn_pos s) < length ev"
    with assms(2) covers_last_nth [OF assms(1), of "sn_pos s"] have "ev ! sn_pos s = int (length fr) - 1"
      by (simp add: scan_inv_def)
    then show False using assms(2,3) by (simp add: scan_inv_def)
  qed
  then have "int k < sn_right_idx s \<or> int k = sn_right_idx s" using assms(2) by (auto simp: scan_inv_def)
  with assms scan_inv_interior scan_inv_evidence show ?thesis by blast
qed

lemma scan_inv_all:
  assumes "covers_timeline (int (length fr)) ev" and "0 < k" and "k \<le> length fr"
  shows "scan_inv lib ev fr k (fold (scan_step lib ev) (map (\<lambda>i. (int i, fr ! i)) [0..<k]) (scan_start ev))"
  using assms(2,3)
proof (induction k)
  case (Suc k)
  show ?case
  proof (cases k)
    case 0
    then show ?thesis using scan_inv_start [OF assms(1)] by simp
  next
    case (Suc j)
    with Suc.IH Suc.prems scan_inv_step [OF assms(1), of lib k] show ?thesis by simp
  qed
qed simp

lemma zip_positions: "zip (map int [0..<length fr]) fr = map (\<lambda>i. (int i, fr ! i)) [0..<length fr]"
  by (rule nth_equalityI) simp_all

lemma scan_frames_select:
  assumes "covers_timeline (int (length frames)) evidence"
  shows "set (sn_selected (scan_frames lib evidence frames)) =
      set evidence \<union> set (filter (\<lambda>i. i \<notin> set evidence \<and> is_novel lib evidence frames i) [0..int (length frames) - 1])
    \<and> sn_interior (scan_frames lib evidence frames) = []"
proof -
  let ?n = "length frames"
  have "0 < ?n" using assms by (cases evidence) (auto simp: covers_timeline_def)
  then have inv: "scan_inv lib evidence frames ?n (scan_frames lib evidence frames)"
    using scan_inv_all [OF assms, of ?n lib] by (simp add: scan_frames_def zip_positions)
  let ?s = "scan_frames lib evidence frames"
  have "\<not> Suc (sn_pos ?s) < length evidence"
    using inv covers_index_bounds [OF assms, of "Suc (sn_pos ?s)"] by (auto simp: scan_inv_def)
  then have left: "sn_left_idx ?s = int ?n - 1"
    using inv covers_last_nth [OF assms, of "sn_pos ?s"] by (simp add: scan_inv_def)
  have "int ?n - 1 \<in> set evidence"
    using assms last_in_set [of evidence] by (auto simp: covers_timeline_def)
  then have eq: "{i. 0 \<le> i \<and> i < int ?n - 1 \<and> i \<notin> set evidence \<and> is_novel lib evidence frames i} =
      set (filter (\<lambda>i. i \<notin> set evidence \<and> is_novel lib evidence frames i) [0..int ?n - 1])"
    by (fastforce simp: order_le_less)
  show ?thesis using inv unfolding scan_inv_def left eq by (auto simp del: set_filter)
qed

lemma probe_video_sound:
  assumes "probe_video st lib data name = Inr info"
  shows "looks_like_iso_bmff data" and "0 < vi_total_frames info" and "vi_total_frames info \<le> st_max_video_frames st"
    and "0 < vi_fps info" and "vi_duration_seconds info \<le> st_max_video_duration_seconds st"
    and "vi_sampled_frame_indices info = sample_indices st (vi_total_frames info) (vi_fps info)"
    and "vi_source_extension info \<in> set video_extensions"
  using assms by (auto simp: probe_video_def Let_def not_le not_less split: if_splits option.splits)

lemma security_scan_result:
  assumes "security_scan_frame_indices st lib data name = Inr (info, selected, stats)"
  shows "\<exists>cap. vf_capture lib (vi_source_extension info) data = Some cap \<and>
    int (length (cap_edges cap)) = vi_total_frames info \<and>
    0 < vi_total_frames info \<and> vi_total_frames info \<le> st_max_video_frames st \<and>
    covers_timeline (vi_total_frames info) (vi_sampled_frame_indices info) \<and>
    sorted selected \<and> distinct selected \<and>
    set selected = set (vi_sampled_frame_indices info) \<union>
      set (filter (\<lambda>i. i \<notin> set (vi_sampled_frame_indices info) \<and>
        is_novel lib (vi_sampled_frame_indices info) (cap_edges cap) i) [0..vi_total_frames info - 1]) \<and>
    ss_change_screened stats = vi_total_frames info \<and>
    ss_detection_frames stats = ss_evidence_frames stats + ss_novel_frames stats"
proof -
  let ?ev = "vi_sampled_frame_indices info"
  obtain cap where probe: "probe_video st lib data name = Inr info"
    and cap: "vf_capture lib (vi_source_extension info) data = Some cap"
    and len: "int (length (cap_edges cap)) = vi_total_frames info"
    and sel: "selected = sorted_set (sn_selected (scan_frames lib ?ev (cap_edges cap)))"
    and stats: "ss_change_screened stats = vi_total_frames info" "ss_evidence_frames stats = int (length ?ev)"
      "ss_novel_frames stats = int (length (filter (\<lambda>i. i \<notin> set ?ev) selected))"
      "ss_detection_frames stats = int (length selected)"
    using assms by (auto simp: security_scan_frame_indices_def Let_def res_bind_def
      split: sum.splits option.splits if_splits)
  note info = probe_video_sound [OF probe]
  have cover: "covers_timeline (vi_total_frames info) ?ev"
    using sample_indices_cover [OF info(2), of st "vi_fps info"] by (simp add: info(6))
  have select: "set selected = set ?ev \<union> set (filter (\<lambda>i. i \<notin> set ?ev \<and> is_novel lib ?ev (cap_edges cap) i)
      [0..vi_total_frames info - 1])"
    using scan_frames_select [of "cap_edges cap" ?ev lib] cover unfolding sel len set_sorted_set by simp
  have so: "sorted selected" "distinct selected" by (simp_all add: sel)
  have "set (filter (\<lambda>i. i \<in> set ?ev) selected) = set ?ev" using select by auto
  then have "length (filter (\<lambda>i. i \<in> set ?ev) selected) = length ?ev"
    using so(2) cover by (metis covers_timeline_def distinct_card distinct_filter)
  then have "length selected = length ?ev + length (filter (\<lambda>i. i \<notin> set ?ev) selected)"
    using sum_length_filter_compl [of "\<lambda>i. i \<in> set ?ev" selected] by simp
  with cap len info cover select so stats show ?thesis by simp
qed

lemma security_scan_covers:
  assumes "security_scan_frame_indices st lib data name = Inr (info, selected, stats)"
  shows "covers_timeline (vi_total_frames info) selected"
proof -
  have scan: "sorted selected \<and> distinct selected \<and>
      covers_timeline (vi_total_frames info) (vi_sampled_frame_indices info) \<and>
      set (vi_sampled_frame_indices info) \<subseteq> set selected \<and>
      set selected \<subseteq> set (vi_sampled_frame_indices info) \<union> {0..<vi_total_frames info}"
    using security_scan_result [OF assms] by (elim exE conjE) (simp, fastforce)
  then have "set (vi_sampled_frame_indices info) \<subseteq> {0..<vi_total_frames info}" by (simp add: covers_timeline_def)
  with scan covers_ends show ?thesis by (intro covers_timelineI) blast+
qed

text \<open>
  a successful change screen has decoded every frame the container declares, within the configured limits,
  and returns, in increasing order and without repetition, exactly the evidence frames and the frames between
  them whose edges differ by at least one in a thousand from both neighbouring evidence frames; evidence frames
  cover the timeline, and the reported counts are those of the returned frames.
\<close>

theorem security_scan_sound:
  assumes "security_scan_frame_indices st lib data name = Inr (info, selected, stats)"
  shows "\<exists>cap. vf_capture lib (vi_source_extension info) data = Some cap \<and>
    int (length (cap_edges cap)) = vi_total_frames info \<and>
    0 < vi_total_frames info \<and> vi_total_frames info \<le> st_max_video_frames st \<and>
    covers_timeline (vi_total_frames info) (vi_sampled_frame_indices info) \<and>
    sorted selected \<and> distinct selected \<and>
    set selected = set (vi_sampled_frame_indices info) \<union>
      set (filter (\<lambda>i. i \<notin> set (vi_sampled_frame_indices info) \<and>
        is_novel lib (vi_sampled_frame_indices info) (cap_edges cap) i) [0..vi_total_frames info - 1]) \<and>
    ss_change_screened stats = vi_total_frames info \<and>
    ss_detection_frames stats = ss_evidence_frames stats + ss_novel_frames stats"
  using assms by (rule security_scan_result)

definition demo_library :: video_lib where
  "demo_library = \<lparr>vf_capture = (\<lambda>ext data. Some \<lparr>cap_width = 2, cap_height = 1, cap_fps = Some 4, cap_frame_count = 5,
       cap_edges = [[[False, False]], [[True, False]], [[False, False]], [[False, False]], [[False, False]]],
       cap_frame_png = (\<lambda>i. Some ''png'')\<rparr>),
     vf_shift = (\<lambda>a b. None), vf_warp = (\<lambda>e x y. e)\<rparr>"

definition demo_video :: string where
  "demo_video = ''0000ftyp0000''"

lemma demo_sample: "sample_indices default_settings 5 4 = [0, 2, 4]"
  by (simp add: sample_indices_def Let_def default_settings_def stride_range_def round_half_even_def upt_rec)

lemma demo_probe: "probe_video default_settings demo_library demo_video None =
  Inr \<lparr>vi_width = 2, vi_height = 1, vi_fps = 4, vi_total_frames = 5, vi_duration_seconds = 5 / 4,
    vi_sampled_frame_indices = [0, 2, 4], vi_has_audio = False, vi_source_extension = ''.mp4''\<rparr>"
proof -
  have name: "safe_suffix None = ''.mp4''" "looks_like_iso_bmff demo_video" "\<not> has_audio_track demo_video"
    "demo_video \<noteq> []"
    by code_simp+
  have round: "round_half_even 2 = 2" "round_half_even 1 = 1" "round_half_even 5 = 5"
    by (simp_all add: round_half_even_def)
  show ?thesis
    by (simp add: probe_video_def name round demo_library_def demo_sample video_extensions_def)
      (simp add: default_settings_def)
qed

lemma demo_scan: "sn_selected (scan_frames demo_library [0, 2, 4]
    [[[False, False]], [[True, False]], [[False, False]], [[False, False]], [[False, False]]]) = [0, 2, 4, 1]"
  by (simp add: scan_frames_def scan_start_def scan_step_def upt_rec novelty_fraction_def edge_difference_def
    demo_library_def novelty_threshold_def round_half_even_def)

lemma security_scan_sound_witness:
  "\<exists>info stats. security_scan_frame_indices default_settings demo_library demo_video None
      = Inr (info, [0, 1, 2, 4], stats) \<and> ss_detection_frames stats = ss_evidence_frames stats + ss_novel_frames stats"
proof -
  have "sorted_set [0, 2, 4, 1 :: int] = [0, 1, 2, 4]" by code_simp
  then have "\<exists>info stats. security_scan_frame_indices default_settings demo_library demo_video None =
      Inr (info, [0, 1, 2, 4], stats)"
    by (simp add: security_scan_frame_indices_def demo_probe Let_def)
      (simp add: demo_library_def Let_def demo_scan [unfolded demo_library_def])
  then obtain info stats where
    run: "security_scan_frame_indices default_settings demo_library demo_video None = Inr (info, [0, 1, 2, 4], stats)"
    by blast
  from security_scan_sound [OF run] run show ?thesis by blast
qed

end
