(* ===== verification/Ingestion.thy ===== *)
theory Ingestion
  imports Video_Frames
begin

section \<open>Ingestion\<close>

text \<open>
  \<open>app/ingestion/validator.py\<close>: the header-safe name of an upload and the check of its bytes against that
  name. The parsers the check calls are the parameters: the PDF library, the image library and the readers of
  text, Word and data files, which belong to the redaction pipeline. A reader returns the text of the error it
  raises on the left.
\<close>

subsection \<open>File names\<close>

function replace_runs :: "(char \<Rightarrow> bool) \<Rightarrow> string \<Rightarrow> string \<Rightarrow> string" where
  "replace_runs p r [] = []"
| "replace_runs p r (c # s) = (if p c then r @ replace_runs p r (dropWhile p s) else c # replace_runs p r s)"
  by pat_completeness auto
termination
  by (relation "measure (\<lambda>(p, r, s). length s)") (auto simp: less_Suc_eq_le length_dropWhile_le)

definition strip_chars :: "(char \<Rightarrow> bool) \<Rightarrow> string \<Rightarrow> string" where
  "strip_chars p s = rev (dropWhile p (rev (dropWhile p s)))"

definition rstrip_chars :: "(char \<Rightarrow> bool) \<Rightarrow> string \<Rightarrow> string" where
  "rstrip_chars p s = rev (dropWhile p (rev s))"

definition is_control :: "char \<Rightarrow> bool" where
  "is_control c \<longleftrightarrow> ord c \<le> 31 \<or> ord c = 127"

definition safe_name_char :: "char \<Rightarrow> bool" where
  "safe_name_char c \<longleftrightarrow> is_upper c \<or> is_lower c \<or> is_digit c \<or> c \<in> set ''._ ()-''"

definition blank_or_dot :: "char \<Rightarrow> bool" where
  "blank_or_dot c \<longleftrightarrow> c = CHR '' '' \<or> c = CHR ''.''"

text \<open>The name up to the truncation, and the truncation to 120 characters.\<close>

definition clean_name :: "string \<Rightarrow> string" where
  "clean_name filename =
     (let base = last (split_on CHR ''/'' (map (\<lambda>c. if c = CHR 0x5C then CHR ''/'' else c)
            (if filename = [] then ''input'' else filename)));
          visible = strip (filter (\<lambda>c. \<not> is_control c) base);
          safe = replace_runs (\<lambda>c. \<not> safe_name_char c) ''_'' visible;
          candidate = strip_chars blank_or_dot (replace_runs is_space '' '' safe)
      in if candidate = [] then ''input'' else candidate)"

definition sanitize_filename :: "string \<Rightarrow> string" where
  "sanitize_filename filename =
     (let candidate = clean_name filename;
          bounded = (if 120 < length candidate
            then (let suffix = take 12 (path_suffix candidate); stem_budget = max 1 (120 - length suffix)
                  in rstrip_chars blank_or_dot (take stem_budget candidate) @ suffix)
            else candidate)
      in if bounded = [] then ''input'' else bounded)"

subsection \<open>Uploads\<close>

datatype file_type = File_PDF | File_IMAGE | File_TEXT | File_DATASET | File_DOCX | File_VIDEO

datatype dataset_format = Data_csv | Data_json | Data_xlsx

primrec dataset_media_type :: "dataset_format \<Rightarrow> string" where
  "dataset_media_type Data_csv = ''text/csv; charset=utf-8''"
| "dataset_media_type Data_json = ''application/json''"
| "dataset_media_type Data_xlsx = ''application/vnd.openxmlformats-officedocument.spreadsheetml.sheet''"

definition docx_media_type :: string where
  "docx_media_type = ''application/vnd.openxmlformats-officedocument.wordprocessingml.document''"

definition text_extensions :: "string list" where
  "text_extensions = [''.txt'', ''.md'', ''.rtf'']"

definition dataset_extensions :: "string list" where
  "dataset_extensions = [''.csv'', ''.json'', ''.xlsx'']"

definition image_extensions :: "string list" where
  "image_extensions = [''.png'', ''.jpg'', ''.jpeg'']"

record pdf_info =
  pd_protected :: bool
  pd_pages :: "(rat \<times> rat) list"

record image_probe =
  im_width :: int
  im_height :: int
  im_verify_error :: "string option"
  im_format :: string

record upload_lib =
  ul_pdf :: "string \<Rightarrow> string + pdf_info"
  ul_text :: "string \<Rightarrow> string \<Rightarrow> string + string \<times> string"
  ul_docx_error :: "string \<Rightarrow> string option"
  ul_dataset :: "string \<Rightarrow> string \<Rightarrow> string + dataset_format"
  ul_image :: "string \<Rightarrow> string + image_probe"

text \<open>\<open>{n:,}\<close>: the digits in groups of three.\<close>

fun group_digits :: "string \<Rightarrow> string" where
  "group_digits (a # b # c # d # r) = a # b # c # CHR '','' # group_digits (d # r)"
| "group_digits s = s"

definition with_commas :: "int \<Rightarrow> string" where
  "with_commas n = (if n < 0 then ''-'' else []) @ rev (group_digits (rev (show_nat (nat \<bar>n\<bar>))))"

definition render_pixel_estimate :: "settings \<Rightarrow> rat \<Rightarrow> rat \<Rightarrow> int" where
  "render_pixel_estimate st width_points height_points =
     (let zoom = of_int (st_ocr_dpi st) / 72;
          px = (\<lambda>points. max 1 (round_half_even (points * zoom)))
      in px width_points * px height_points)"

text \<open>The loop over the pages, with the page number and the pixels of the pages before.\<close>

fun pdf_pages_error :: "settings \<Rightarrow> nat \<Rightarrow> int \<Rightarrow> (rat \<times> rat) list \<Rightarrow> string option" where
  "pdf_pages_error st page total_pixels [] = None"
| "pdf_pages_error st page total_pixels ((width, height) # pages) =
     (let number = show_nat (page + 1); pixels = render_pixel_estimate st width height
      in if width \<le> 0 \<or> height \<le> 0 then Some (''PDF page '' @ number @ '' has invalid dimensions'')
         else if st_max_render_pixels_per_page st < pixels
         then Some (''PDF page '' @ number @ '' exceeds the safe rendering budget ('' @ with_commas pixels @
           '' pixels > '' @ with_commas (st_max_render_pixels_per_page st) @ '')'')
         else if st_max_total_render_pixels st < total_pixels + pixels
         then Some ''PDF exceeds the total safe rendering budget for local analysis''
         else pdf_pages_error st (page + 1) (total_pixels + pixels) pages)"

definition pdf_error :: "settings \<Rightarrow> upload_lib \<Rightarrow> string \<Rightarrow> string option" where
  "pdf_error st lib data =
     (case ul_pdf lib data of
        Inl e \<Rightarrow> Some (''Invalid PDF: '' @ e)
      | Inr pdf \<Rightarrow>
          if pd_protected pdf then Some ''Password-protected or encrypted PDFs are not accepted''
          else if pd_pages pdf = [] then Some ''PDF contains no pages''
          else if st_max_pdf_pages st < length (pd_pages pdf)
          then Some (''PDF exceeds the '' @ show_nat (st_max_pdf_pages st) @ ''-page limit'')
          else pdf_pages_error st 0 0 (pd_pages pdf))"

definition image_upload :: "settings \<Rightarrow> upload_lib \<Rightarrow> string \<Rightarrow> string \<Rightarrow> string + string" where
  "image_upload st lib data extension =
     (case ul_image lib data of
        Inl e \<Rightarrow> Inl (''Invalid image: '' @ e)
      | Inr probe \<Rightarrow>
          if im_width probe \<le> 0 \<or> im_height probe \<le> 0 then Inl ''Image has invalid dimensions''
          else if st_max_image_pixels st < im_width probe * im_height probe
          then Inl (''Image exceeds the '' @ with_commas (st_max_image_pixels st) @ ''-pixel decoding limit'')
          else case im_verify_error probe of
            Some e \<Rightarrow> Inl (''Invalid image: '' @ e)
          | None \<Rightarrow>
              let detected = upper (im_format probe)
              in if detected \<notin> {''PNG'', ''JPEG''}
                 then Inl (''Unsupported image encoding: '' @ (if detected = [] then ''unknown'' else detected))
                 else if detected = ''PNG'' \<and> extension \<noteq> ''.png''
                 then Inl ''PNG magic bytes do not match the filename extension''
                 else if detected = ''JPEG'' \<and> extension \<notin> {''.jpg'', ''.jpeg''}
                 then Inl ''JPEG magic bytes do not match the filename extension''
                 else Inr (if detected = ''PNG'' then ''image/png'' else ''image/jpeg''))"

definition raise_upload :: "string option \<Rightarrow> 'a \<Rightarrow> 'a res" where
  "raise_upload err x = (case err of Some m \<Rightarrow> Inl (UploadValidationError m) | None \<Rightarrow> Inr x)"

text \<open>The dispatch on the extension, for bytes that are not a PDF.\<close>

definition validate_by_extension ::
    "settings \<Rightarrow> video_lib \<Rightarrow> upload_lib \<Rightarrow> string \<Rightarrow> string \<Rightarrow> string \<Rightarrow> (file_type \<times> string) res" where
  "validate_by_extension st vlib lib data safe_filename extension =
     (let bad = (\<lambda>m. Inl (UploadValidationError m))
      in if extension \<in> set text_extensions
         then (case ul_text lib data safe_filename of
                 Inl e \<Rightarrow> bad e
               | Inr (decoded, media_type) \<Rightarrow>
                   if strip decoded = [] then bad ''Text document contains no visible text''
                   else Inr (File_TEXT, media_type))
         else if extension = ''.docx''
         then raise_upload (ul_docx_error lib data) (File_DOCX, docx_media_type)
         else if extension \<in> set dataset_extensions
         then (case ul_dataset lib data safe_filename of
                 Inl e \<Rightarrow> bad e | Inr format \<Rightarrow> Inr (File_DATASET, dataset_media_type format))
         else if extension \<in> set video_extensions
         then (case probe_video st vlib data (Some safe_filename) of
                 Inl (VideoError m) \<Rightarrow> bad m
               | Inl e \<Rightarrow> Inl e
               | Inr _ \<Rightarrow> Inr (File_VIDEO, if extension = ''.mp4'' then ''video/mp4'' else ''video/quicktime''))
         else if extension \<notin> set image_extensions
         then bad ''Supported inputs are PDF, PNG, JPG, JPEG, TXT, MD, RTF, DOCX, CSV, JSON, XLSX, MP4 and MOV''
         else case image_upload st lib data extension of
           Inl m \<Rightarrow> bad m | Inr media_type \<Rightarrow> Inr (File_IMAGE, media_type))"

definition validate_upload ::
    "runtime \<Rightarrow> settings \<Rightarrow> video_lib \<Rightarrow> upload_lib \<Rightarrow> string \<Rightarrow> string \<Rightarrow> (file_type \<times> string \<times> string) res" where
  "validate_upload rt st vlib lib data filename =
     (let bad = (\<lambda>m. Inl (UploadValidationError m)); megabyte = (1048576 :: rat);
          safe_filename = sanitize_filename filename;
          extension = casefold (path_suffix safe_filename)
      in if data = [] then bad ''File is empty''
         else if st_max_file_size_bytes st < length data
         then bad (''File is '' @ one_decimal (of_nat (length data) / megabyte) @ '' MB; maximum is '' @
           show_int (round_half_even (of_nat (st_max_file_size_bytes st) / megabyte)) @ '' MB'')
         else if take 5 data = ''%PDF-''
         then (if extension \<noteq> ''.pdf'' then bad ''PDF magic bytes do not match the filename extension''
               else raise_upload (pdf_error st lib data) (File_PDF, ''application/pdf'', rt_sha256 rt data))
         else res_bind (validate_by_extension st vlib lib data safe_filename extension)
           (\<lambda>(file_type, media_type). Inr (file_type, media_type, rt_sha256 rt data)))"

subsection \<open>Sanitised names\<close>

text \<open>What a header-safe name is: short, non-empty, of harmless characters, and not hidden or blank in front.\<close>

definition header_safe :: "string \<Rightarrow> bool" where
  "header_safe s \<longleftrightarrow> s \<noteq> [] \<and> length s \<le> 120 \<and> list_all safe_name_char s \<and> \<not> blank_or_dot (hd s)"

lemma set_dropWhile_subset: "set (dropWhile p s) \<subseteq> set s"
  by (induction s) auto

lemma list_all_dropWhile: "list_all q s \<Longrightarrow> list_all q (dropWhile p s)"
  by (induction s) auto

lemma safe_chars_replace:
  assumes "list_all safe_name_char r"
  shows "list_all safe_name_char (replace_runs (\<lambda>c. \<not> safe_name_char c) r s)"
  using assms by (induction "\<lambda>c. \<not> safe_name_char c" r s rule: replace_runs.induct) auto

lemma list_all_replace_runs:
  "list_all q r \<Longrightarrow> list_all q s \<Longrightarrow> list_all q (replace_runs p r s)"
proof (induction p r s rule: replace_runs.induct)
  case (2 p r c s)
  then show ?case by (simp add: list_all_dropWhile)
qed simp

lemma set_strip_chars: "set (strip_chars p s) \<subseteq> set s"
proof -
  have "set (strip_chars p s) \<subseteq> set (rev (dropWhile p s))"
    unfolding strip_chars_def set_rev using set_dropWhile_subset [of p "rev (dropWhile p s)"] by simp
  then show ?thesis using set_dropWhile_subset [of p s] by simp
qed

lemma hd_strip_chars:
  assumes "strip_chars p s \<noteq> []"
  shows "\<not> p (hd (strip_chars p s))"
proof -
  let ?t = "dropWhile p s"
  have "?t \<noteq> []"
  proof
    assume "?t = []"
    then have "strip_chars p s = []" unfolding strip_chars_def by (simp only: rev.simps dropWhile.simps)
    with assms show False by simp
  qed
  then have "\<not> p (hd ?t)" by (rule hd_dropWhile)
  then show ?thesis using hd_dropWhile_rev_dropWhile [of p ?t] assms by (simp add: strip_chars_def)
qed

lemma rstrip_chars_keeps:
  assumes "s \<noteq> []" and "\<not> p (hd s)"
  shows "rstrip_chars p s \<noteq> []" and "hd (rstrip_chars p s) = hd s" and "set (rstrip_chars p s) \<subseteq> set s"
    and "length (rstrip_chars p s) \<le> length s"
proof -
  have ne: "dropWhile p (rev s) \<noteq> []"
    using assms hd_in_set [OF assms(1)] by (metis dropWhile_eq_Nil_conv set_rev)
  then show "rstrip_chars p s \<noteq> []" by (simp add: rstrip_chars_def)
  have "rev s = takeWhile p (rev s) @ dropWhile p (rev s)" by simp
  with ne have "last (dropWhile p (rev s)) = last (rev s)" by (metis last_appendR)
  then show "hd (rstrip_chars p s) = hd s"
    using ne by (simp add: rstrip_chars_def hd_rev last_rev)
  show "set (rstrip_chars p s) \<subseteq> set s" using set_dropWhile_subset [of p "rev s"] by (simp add: rstrip_chars_def)
  show "length (rstrip_chars p s) \<le> length s" by (simp add: rstrip_chars_def length_dropWhile_le [THEN le_trans])
qed

lemma clean_name_safe:
  "clean_name f \<noteq> [] \<and> list_all safe_name_char (clean_name f) \<and> \<not> blank_or_dot (hd (clean_name f))"
proof -
  define visible where "visible = strip (filter (\<lambda>c. \<not> is_control c) (last (split_on CHR ''/''
    (map (\<lambda>c. if c = CHR 0x5C then CHR ''/'' else c) (if f = [] then ''input'' else f)))))"
  define safe where "safe = replace_runs (\<lambda>c. \<not> safe_name_char c) ''_'' visible"
  define candidate where "candidate = strip_chars blank_or_dot (replace_runs is_space '' '' safe)"
  have eq: "clean_name f = (if candidate = [] then ''input'' else candidate)"
    by (simp add: clean_name_def candidate_def safe_def visible_def Let_def)
  have "list_all safe_name_char safe"
    unfolding safe_def by (rule safe_chars_replace) (simp add: safe_name_char_def)
  then have "list_all safe_name_char (replace_runs is_space '' '' safe)"
    by (intro list_all_replace_runs) (simp_all add: safe_name_char_def)
  then have "list_all safe_name_char candidate"
    using set_strip_chars [of blank_or_dot "replace_runs is_space '' '' safe"]
    by (auto simp: candidate_def list_all_iff)
  moreover have "candidate \<noteq> [] \<Longrightarrow> \<not> blank_or_dot (hd candidate)"
    unfolding candidate_def by (rule hd_strip_chars)
  ultimately show ?thesis
    by (simp add: eq) (simp add: safe_name_char_def is_lower_def ord_def blank_or_dot_def)
qed

lemma split_on_chars: "w \<in> set (split_on sep t) \<Longrightarrow> set w \<subseteq> set t"
proof (induction t arbitrary: w)
  case (Cons c t)
  then show ?case by (cases "split_on sep t") (fastforce split: if_splits)+
qed simp

lemma path_name_chars: "set (path_name s) \<subseteq> set s"
proof (cases "filter (\<lambda>p. p \<noteq> [] \<and> p \<noteq> ''.'') (split_on CHR ''/'' s)")
  case (Cons p ps)
  then have "last (p # ps) \<in> set (split_on CHR ''/'' s)"
    by (metis filter_is_subset last_in_set list.distinct(1) subsetD)
  with Cons show ?thesis using split_on_chars by (simp only: path_name_def list.case)
qed (simp add: path_name_def)

lemma path_suffix_chars: "set (path_suffix s) \<subseteq> insert CHR ''.'' (set s)"
proof -
  have "set (takeWhile (\<lambda>c. c \<noteq> CHR ''.'') (rev (path_name s))) \<subseteq> set (path_name s)"
    by (auto dest: set_takeWhileD)
  then show ?thesis using path_name_chars [of s] by (auto simp: path_suffix_def Let_def)
qed

lemma set_path_suffix: "list_all safe_name_char s \<Longrightarrow> list_all safe_name_char (path_suffix s)"
  using path_suffix_chars [of s] by (auto simp: list_all_iff safe_name_char_def)

lemma header_safe_append:
  assumes "stem \<noteq> []" and "\<not> blank_or_dot (hd stem)" and "list_all safe_name_char stem"
    and "list_all safe_name_char suffix" and "length stem + length suffix \<le> 120"
  shows "header_safe (stem @ suffix)"
  using assms by (simp add: header_safe_def)

text \<open>
  The name under which an upload is stored and served is header-safe whatever the client sent: between 1 and
  120 characters, only letters, digits and \<open>._ ()-\<close> (so no separator, quote, control or line-break character),
  and it does not begin with a dot or a blank.
\<close>

theorem sanitize_filename_safe: "header_safe (sanitize_filename filename)"
proof -
  define candidate where "candidate = clean_name filename"
  have c: "candidate \<noteq> []" "list_all safe_name_char candidate" "\<not> blank_or_dot (hd candidate)"
    using clean_name_safe [of filename] by (simp_all add: candidate_def)
  show ?thesis
  proof (cases "120 < length candidate")
    case False
    with c show ?thesis
      by (simp add: sanitize_filename_def candidate_def [symmetric] header_safe_def)
  next
    case True
    define suffix where "suffix = take 12 (path_suffix candidate)"
    define stem where "stem = take (max 1 (120 - length suffix)) candidate"
    have suffix: "length suffix \<le> 12" "list_all safe_name_char suffix"
      using set_path_suffix [OF c(2)] by (auto simp: suffix_def list_all_iff dest: in_set_takeD)
    have budget: "max 1 (120 - length suffix) = 120 - length suffix" using suffix(1) by simp
    have stem: "stem \<noteq> []" "hd stem = hd candidate" "set stem \<subseteq> set candidate" "length stem \<le> 120 - length suffix"
      using c(1) suffix(1) unfolding stem_def budget by (auto simp: hd_take dest: in_set_takeD)
    note kept = rstrip_chars_keeps [of stem blank_or_dot, OF stem(1) c(3) [folded stem(2)]]
    have "header_safe (rstrip_chars blank_or_dot stem @ suffix)"
    proof (rule header_safe_append [OF kept(1)])
      show "\<not> blank_or_dot (hd (rstrip_chars blank_or_dot stem))" using kept(2) stem(2) c(3) by simp
      show "list_all safe_name_char (rstrip_chars blank_or_dot stem)"
        using kept(3) stem(3) c(2) by (auto simp: list_all_iff)
      show "length (rstrip_chars blank_or_dot stem) + length suffix \<le> 120" using kept(4) stem(4) suffix(1) by simp
    qed (rule suffix(2))
    moreover have "sanitize_filename filename = rstrip_chars blank_or_dot stem @ suffix"
      using True kept(1) unfolding sanitize_filename_def Let_def candidate_def [symmetric]
      by (simp only: if_True suffix_def [symmetric] stem_def [symmetric] append_is_Nil_conv simp_thms if_False)
    ultimately show ?thesis by simp
  qed
qed

subsection \<open>Accepted images and videos\<close>

text \<open>
  An upload is accepted as an image exactly when its bytes are within the size limit and not a PDF, the
  sanitised name has an image extension, and the decoder reports a frame within the pixel budget that passes
  verification and whose format matches the extension; the digest returned is that of the bytes.
\<close>

theorem validate_upload_image_iff:
  "validate_upload rt st vlib lib data filename = Inr (File_IMAGE, media_type, sha) \<longleftrightarrow>
   (let extension = casefold (path_suffix (sanitize_filename filename))
    in data \<noteq> [] \<and> length data \<le> st_max_file_size_bytes st \<and> take 5 data \<noteq> ''%PDF-'' \<and>
       sha = rt_sha256 rt data \<and>
       (\<exists>probe. ul_image lib data = Inr probe \<and> 0 < im_width probe \<and> 0 < im_height probe \<and>
          im_width probe * im_height probe \<le> st_max_image_pixels st \<and> im_verify_error probe = None \<and>
          (upper (im_format probe) = ''PNG'' \<and> extension = ''.png'' \<and> media_type = ''image/png'' \<or>
           upper (im_format probe) = ''JPEG'' \<and> extension \<in> {''.jpg'', ''.jpeg''} \<and> media_type = ''image/jpeg'')))"
proof -
  define ext where "ext = casefold (path_suffix (sanitize_filename filename))"
  have image: "image_upload st lib data ext = Inr media_type \<longleftrightarrow>
    (\<exists>probe. ul_image lib data = Inr probe \<and> 0 < im_width probe \<and> 0 < im_height probe \<and>
          im_width probe * im_height probe \<le> st_max_image_pixels st \<and> im_verify_error probe = None \<and>
          (upper (im_format probe) = ''PNG'' \<and> ext = ''.png'' \<and> media_type = ''image/png'' \<or>
           upper (im_format probe) = ''JPEG'' \<and> ext \<in> {''.jpg'', ''.jpeg''} \<and> media_type = ''image/jpeg''))"
    by (cases "ul_image lib data") (auto simp: image_upload_def Let_def not_le not_less split: option.splits)
  have "validate_by_extension st vlib lib data (sanitize_filename filename) ext = Inr (File_IMAGE, media_type) \<longleftrightarrow>
      ext \<in> set image_extensions \<and> image_upload st lib data ext = Inr media_type"
    by (auto simp: validate_by_extension_def Let_def raise_upload_def text_extensions_def dataset_extensions_def
      video_extensions_def image_extensions_def split: sum.splits option.splits py_error.splits prod.splits)
  moreover have "ext \<in> {''.png'', ''.jpg'', ''.jpeg''} \<longleftrightarrow> ext \<in> set image_extensions"
    by (simp add: image_extensions_def)
  ultimately show ?thesis
    by (auto simp: validate_upload_def ext_def [symmetric] Let_def res_bind_Inr_iff raise_upload_def image
      split: option.splits)
qed

end
