(* ===== verification/Video_Analysis.thy ===== *)
theory Video_Analysis
  imports Forensics Localization Ingestion "HOL-Library.AList"
begin

section \<open>Video analysis\<close>

text \<open>
  \<open>rightsgate/video_analysis.py\<close>: the frames the change screen selects, bounded by the analysis budget, each pass
  through the forensic, retrieval and localisation lanes; their findings are re-bound to the video and combined.
  The lists the loop appends to are the concatenation of the outputs of the frames, in the order of the frames.
\<close>

record analysis_lib =
  al_video :: video_lib
  al_forensic :: forensic_lib
  al_image :: image_lib
  al_localizer :: localizer_lib

subsection \<open>Deep frames\<close>

definition bounded_indices :: "int list \<Rightarrow> int \<Rightarrow> int list res" where
  "bounded_indices indices limit =
     (if limit < 2 then Inl (ValueError ''video deep-analysis frame limit must be at least two'')
      else if int (length indices) \<le> limit then Inr indices
      else Inr (map (\<lambda>position. indices ! nat position)
        (sorted_set (map (\<lambda>i. round_half_even (of_int (i * (int (length indices) - 1)) / of_int (limit - 1)))
           [0..limit - 1]))))"

definition frame_span :: "video_info \<Rightarrow> int \<Rightarrow> rat \<times> rat" where
  "frame_span info frame_index =
     (let start = of_int frame_index / vi_fps info;
          stop = min (vi_duration_seconds info) (of_int (frame_index + 1) / vi_fps info)
      in (start, if stop \<le> start then start + 1 / vi_fps info else stop))"

definition frame_locator :: "video_info \<Rightarrow> int \<Rightarrow> evidence_locator \<Rightarrow> evidence_locator res" where
  "frame_locator info frame_index locator =
     (if loc_kind locator = Loc_REGION
      then validate_locator (whole_asset\<lparr>loc_kind := Loc_REGION, loc_frame_index := Some frame_index,
             loc_bbox := loc_bbox locator\<rparr>)
      else let (start, stop) = frame_span info frame_index
           in validate_locator (whole_asset\<lparr>loc_kind := Loc_TIME_RANGE, loc_start_seconds := Some (round_to start 6),
                loc_end_seconds := Some (round_to stop 6)\<rparr>))"

text \<open>\<open>f"{identifier}-f{frame_index}"\<close>.\<close>

definition frame_suffix :: "int \<Rightarrow> string" where
  "frame_suffix frame_index = ''-f'' @ show_int frame_index"

definition frame_evidence :: "string \<Rightarrow> string \<Rightarrow> int \<Rightarrow> video_info \<Rightarrow> evidence_pointer \<Rightarrow> evidence_pointer res" where
  "frame_evidence root_sha256 frame_sha256 frame_index info item =
     res_bind (frame_locator info frame_index (ev_locator item)) (\<lambda>locator.
       Inr (item\<lparr>ev_evidence_id := ev_evidence_id item @ frame_suffix frame_index, ev_asset_sha256 := root_sha256,
         ev_locator := locator,
         ev_attributes := AList.update ''timestamp_seconds'' (AFloat (round_to (of_int frame_index / vi_fps info) 6))
           (AList.update ''frame_index'' (AInt frame_index)
             (AList.update ''derived_frame_sha256'' (AStr frame_sha256) (ev_attributes item)))\<rparr>))"

definition frame_claim :: "string list \<Rightarrow> int \<Rightarrow> claim_record \<Rightarrow> claim_record res" where
  "frame_claim evidence_ids frame_index item =
     (case List.find (\<lambda>v. v \<notin> set evidence_ids) (cl_evidence_ids item) of
        Some v \<Rightarrow> Inl (KeyError v)
      | None \<Rightarrow> Inr (item\<lparr>cl_claim_id := cl_claim_id item @ frame_suffix frame_index,
          cl_evidence_ids := map (\<lambda>v. v @ frame_suffix frame_index) (cl_evidence_ids item)\<rparr>))"

definition map_frame_outputs ::
    "evidence_pointer list \<Rightarrow> claim_record list \<Rightarrow> string \<Rightarrow> string \<Rightarrow> int \<Rightarrow> video_info \<Rightarrow>
     (evidence_pointer list \<times> claim_record list) res" where
  "map_frame_outputs evidence claims root_sha256 frame_sha256 frame_index info =
     res_bind (res_map (frame_evidence root_sha256 frame_sha256 frame_index info) evidence) (\<lambda>mapped_evidence.
     res_bind (res_map (frame_claim (map ev_evidence_id evidence) frame_index) claims) (\<lambda>mapped_claims.
       Inr (mapped_evidence, mapped_claims)))"

subsection \<open>Combining the frames\<close>

definition aggregate_component :: "component_record list \<Rightarrow> component_record res" where
  "aggregate_component records =
     (case records of [] \<Rightarrow> Inl (ValueError ''at least one component record is required'')
      | first # _ \<Rightarrow>
          let states = map co_state records;
              reasons = sorted_set (filter (\<lambda>r. r \<noteq> []) (List.map_filter co_reason records))
          in Inr (first\<lparr>co_state := (if Comp_UNAVAILABLE \<in> set states then Comp_UNAVAILABLE
                 else if Comp_DEGRADED \<in> set states then Comp_DEGRADED else Comp_AVAILABLE),
               co_reason := (if reasons \<noteq> [] then Some (take 500 (join ''; '' reasons)) else None)\<rparr>))"

definition joint_state :: "assessment_state list \<Rightarrow> assessment_state" where
  "joint_state states =
     (if set states = {State_UNAVAILABLE} then State_UNAVAILABLE
      else if State_UNAVAILABLE \<in> set states \<or> State_PARTIAL \<in> set states then State_PARTIAL else State_COMPLETE)"

definition no_origin_limitation :: string where
  "no_origin_limitation = ''Frame forensic triage found no attributable origin signal; '' @
     ''absence is not evidence of human authorship.''"

definition aggregate_forensics :: "provenance_assessment list \<Rightarrow> provenance_assessment res" where
  "aggregate_forensics assessments =
     (let claims = concat (map pa_claims assessments);
          limitations = sorted_set (concat (map pa_limitations assessments))
      in validate_provenance
        (case filter (\<lambda>p. pa_verdict p \<noteq> Prov_UNKNOWN) assessments of
           first # others \<Rightarrow> (let strongest = max_by pa_confidence first others
             in \<lparr>pa_state = joint_state (map pa_state assessments), pa_verdict = pa_verdict strongest,
                 pa_confidence = pa_confidence strongest, pa_claims = claims, pa_limitations = []\<rparr>)
         | [] \<Rightarrow> \<lparr>pa_state = joint_state (map pa_state assessments), pa_verdict = Prov_UNKNOWN, pa_confidence = 0,
                 pa_claims = claims, pa_limitations = sorted_set (limitations @ [no_origin_limitation])\<rparr>))"

definition video_rights_limitation :: string where
  "video_rights_limitation = ''Video rights retrieval covers deep-analyzed visual frames and '' @
     ''does not establish open-world clearance.''"

definition aggregate_image_matches ::
    "component_record list \<Rightarrow> evidence_pointer list \<Rightarrow> claim_record list \<Rightarrow> rights_assessment list \<Rightarrow>
     rights_match res" where
  "aggregate_image_matches components evidence claims assessments =
     (let candidates = filter (\<lambda>r. ra_verdict r = Rights_POTENTIAL_EXPOSURE) assessments;
          limitations = sorted_set (concat (map ra_limitations assessments));
          state = (if list_all (\<lambda>r. ra_state r = State_UNAVAILABLE) assessments then State_UNAVAILABLE
            else if list_ex (\<lambda>r. ra_state r \<noteq> State_COMPLETE) assessments then State_PARTIAL else State_COMPLETE)
      in res_bind (aggregate_component components) (\<lambda>component.
         res_bind (validate_rights
           \<lparr>ra_state = state,
            ra_verdict = (if candidates \<noteq> [] then Rights_POTENTIAL_EXPOSURE else Rights_UNKNOWN),
            ra_confidence = max_default 0 (map ra_confidence candidates), ra_claims = claims,
            ra_limitations = sorted_set (limitations @ [video_rights_limitation])\<rparr>) (\<lambda>assessment.
         Inr \<lparr>rm_component = component, rm_evidence = evidence, rm_assessment = assessment\<rparr>)))"

subsection \<open>One frame\<close>

record frame_output =
  fo_forensic_evidence :: "evidence_pointer list"
  fo_forensic :: provenance_assessment
  fo_forensic_component :: component_record
  fo_match_evidence :: "evidence_pointer list"
  fo_match :: rights_assessment
  fo_match_component :: component_record
  fo_localization_evidence :: "evidence_pointer list"
  fo_localization_claims :: "claim_record list"
  fo_localization_component :: component_record
  fo_candidates :: "string list"
  fo_limitations :: "string list"

definition analyze_frame ::
    "runtime \<Rightarrow> settings \<Rightarrow> analysis_lib \<Rightarrow> string \<Rightarrow> string \<Rightarrow> string \<Rightarrow> rights_registry \<Rightarrow> int \<Rightarrow> video_info \<Rightarrow>
     int \<Rightarrow> frame_output res" where
  "analyze_frame rt st lib data source_filename asset_sha256 registry max_hamming_distance info frame_index =
     res_bind (physical_frame st (al_video lib) data frame_index (Some source_filename)) (\<lambda>(frame_data, _, _).
     let frame_sha256 = rt_sha256 rt frame_data;
         outputs = (\<lambda>evidence claims. map_frame_outputs evidence claims asset_sha256 frame_sha256 frame_index info)
     in res_bind (inspect_image_forensics rt (al_forensic lib) frame_data frame_sha256 40000000) (\<lambda>forensic.
        res_bind (outputs (pr_evidence forensic) (pa_claims (pr_assessment forensic))) (\<lambda>(forensic_evidence, forensic_claims).
        res_bind (match_reference_image rt (al_image lib) frame_data frame_sha256 registry max_hamming_distance
          default_max_pixels) (\<lambda>found.
        res_bind (outputs (rm_evidence found) (ra_claims (rm_assessment found))) (\<lambda>(match_evidence, match_claims).
        res_bind (localize_reference_images rt (al_image lib) (al_localizer lib) frame_data frame_sha256 registry
          default_max_pixels (19 / 25) 6 (9 / 20)) (\<lambda>localized.
        res_bind (outputs (lo_evidence localized) (lo_claims localized)) (\<lambda>(localized_evidence, localized_claims).
        Inr \<lparr>fo_forensic_evidence = forensic_evidence,
             fo_forensic = (pr_assessment forensic)\<lparr>pa_claims := forensic_claims\<rparr>,
             fo_forensic_component = pr_component forensic, fo_match_evidence = match_evidence,
             fo_match = (rm_assessment found)\<lparr>ra_claims := match_claims\<rparr>, fo_match_component = rm_component found,
             fo_localization_evidence = localized_evidence, fo_localization_claims = localized_claims,
             fo_localization_component = lo_component localized,
             fo_candidates = lo_candidate_reference_ids localized, fo_limitations = lo_limitations localized\<rparr>)))))))"

subsection \<open>The whole video\<close>

text \<open>\<open>repr\<close> of the tuple the sampler is committed to.\<close>

definition tuple_repr :: "int list \<Rightarrow> string" where
  "tuple_repr xs = (case xs of [x] \<Rightarrow> ''('' @ show_int x @ '',)'' | _ \<Rightarrow> ''('' @ join '', '' (map show_int xs) @ '')'')"

definition quoted :: "string \<Rightarrow> string" where
  "quoted s = CHR 0x27 # s @ [CHR 0x27]"

definition dict_repr :: "(string \<times> string) list \<Rightarrow> string" where
  "dict_repr kvs = ''{'' @ join '', '' (map (\<lambda>(k, v). quoted k @ '': '' @ v) kvs) @ ''}''"

definition statistics_repr :: "runtime \<Rightarrow> scan_statistics \<Rightarrow> string" where
  "statistics_repr rt s = dict_repr
     [(''physical_frames_change_screened'', show_int (ss_change_screened s)),
      (''evidence_frames'', show_int (ss_evidence_frames s)), (''novel_security_frames'', show_int (ss_novel_frames s)),
      (''full_ocr_detection_frames'', show_int (ss_detection_frames s)),
      (''novelty_threshold'', rt_float rt novelty_threshold),
      (''novelty_by_frame'', dict_repr (map (\<lambda>(k, v). (k, rt_float rt v)) (ss_novelty_by_frame s)))]"

definition sampler_repr :: "runtime \<Rightarrow> video_info \<Rightarrow> int list \<Rightarrow> int list \<Rightarrow> scan_statistics \<Rightarrow> string" where
  "sampler_repr rt info security selected statistics =
     ''('' @ join '', '' [show_int (vi_total_frames info), tuple_repr security, tuple_repr selected,
       statistics_repr rt statistics] @ '')''"

definition deep_coverage_reason :: "int list \<Rightarrow> int list \<Rightarrow> string" where
  "deep_coverage_reason selected security =
     ''Deep visual detectors analyzed '' @ show_nat (length selected) @ ''/'' @ show_nat (length security) @ '' '' @
     ''security-selected frames after the full physical timeline change screen.''"

definition sampler_component :: "string \<Rightarrow> bool \<Rightarrow> string \<Rightarrow> component_record" where
  "sampler_component artifact truncated reason =
     \<lparr>co_component_id = ''ingestion.video-timeline-analyzer'', co_component_version = ''1.0.0'',
      co_component_type = ''ingestion.full-timeline-change-screen'',
      co_state = (if truncated then Comp_DEGRADED else Comp_AVAILABLE), co_mandatory = True,
      co_artifact_sha256 = Some artifact, co_reason = (if truncated then Some reason else None)\<rparr>"

record video_result =
  va_sampler_component :: component_record
  va_detector_components :: "component_record list"
  va_evidence :: "evidence_pointer list"
  va_forensic :: provenance_assessment
  va_image_match :: rights_match
  va_localization :: localization
  va_total_frames :: int
  va_change_screened_frames :: int
  va_deep_frames :: "int list"

definition joint_localization :: "component_record \<Rightarrow> frame_output list \<Rightarrow> string list \<Rightarrow> localization" where
  "joint_localization component outputs reasons =
     \<lparr>lo_component = component, lo_evidence = concat (map fo_localization_evidence outputs),
      lo_claims = concat (map fo_localization_claims outputs),
      lo_candidate_reference_ids = sorted_set (concat (map fo_candidates outputs)),
      lo_limitations = sorted_set (concat (map fo_limitations outputs) @ reasons)\<rparr>"

text \<open>The code after the loop.\<close>

definition assemble_video ::
    "runtime \<Rightarrow> video_info \<Rightarrow> int list \<Rightarrow> scan_statistics \<Rightarrow> int list \<Rightarrow> frame_output list \<Rightarrow> video_result res" where
  "assemble_video rt info security statistics selected outputs =
     (let truncated = length selected < length security; reason = deep_coverage_reason selected security
      in res_bind (validate_component (sampler_component
           (rt_sha256 rt (sampler_repr rt info security selected statistics)) truncated reason)) (\<lambda>sampler.
         res_bind (aggregate_image_matches (map fo_match_component outputs) (concat (map fo_match_evidence outputs))
           (concat (map (\<lambda>x. ra_claims (fo_match x)) outputs)) (map fo_match outputs)) (\<lambda>image_match.
         res_bind (aggregate_component (map fo_localization_component outputs)) (\<lambda>localizer.
         res_bind (aggregate_component (map fo_forensic_component outputs)) (\<lambda>forensic_component.
         res_bind (aggregate_forensics (map fo_forensic outputs)) (\<lambda>forensic.
         Inr \<lparr>va_sampler_component = sampler,
              va_detector_components = [forensic_component, rm_component image_match, localizer],
              va_evidence = concat (map fo_forensic_evidence outputs) @ concat (map fo_match_evidence outputs) @
                concat (map fo_localization_evidence outputs),
              va_forensic = forensic, va_image_match = image_match,
              va_localization = joint_localization localizer outputs (if truncated then [reason] else []),
              va_total_frames = vi_total_frames info,
              va_change_screened_frames = ss_change_screened statistics, va_deep_frames = selected\<rparr>))))))"

definition analyze_video_visuals ::
    "runtime \<Rightarrow> settings \<Rightarrow> analysis_lib \<Rightarrow> string \<Rightarrow> string \<Rightarrow> string \<Rightarrow> rights_registry \<Rightarrow> int \<Rightarrow> int \<Rightarrow>
     video_result res" where
  "analyze_video_visuals rt st lib data source_filename asset_sha256 registry max_hamming_distance max_deep_frames =
     (if rt_sha256 rt data \<noteq> asset_sha256
      then Inl (ValueError ''asset_sha256 does not match the supplied video bytes'')
      else res_bind (security_scan_frame_indices st (al_video lib) data (Some source_filename))
        (\<lambda>(info, security, statistics).
        res_bind (bounded_indices security max_deep_frames) (\<lambda>selected.
        res_bind (res_map (analyze_frame rt st lib data source_filename asset_sha256 registry max_hamming_distance info)
          selected) (\<lambda>outputs.
        assemble_video rt info security statistics selected outputs))))"

subsection \<open>The deep frames cover the timeline\<close>

text \<open>The budget picks the same frames as the budgeted evidence sample: rounding positions is monotone.\<close>

lemma bounded_indices_spaced:
  assumes "covers_timeline n xs" and "2 \<le> limit" and "limit < int (length xs)"
  shows "bounded_indices xs limit = Inr (spaced xs limit)"
proof -
  let ?pos = "\<lambda>i. round_half_even (of_int (i * (int (length xs) - 1)) / of_int (limit - 1))"
  let ?ps = "sorted_set (map ?pos [0..limit - 1])"
  have pos: "0 \<le> p \<and> nat p < length xs" if "p \<in> set ?ps" for p
  proof -
    have "p \<in> ?pos ` {0..limit - 1}" using that by (simp only: set_sorted_set set_map set_upto)
    then show ?thesis using spaced_position [OF assms(2,3)] by blast
  qed
  have less: "xs ! nat p < xs ! nat q" if "p \<in> set ?ps" "q \<in> set ?ps" "p < q" for p q
    using covers_nth_less [OF assms(1), of "nat p" "nat q"] pos [OF that(1)] pos [OF that(2)] that(3) by simp
  have "sorted_wrt (<) (map (\<lambda>p. xs ! nat p) ?ps)"
    unfolding sorted_wrt_map
    by (rule sorted_wrt_mono_rel [of _ "(<)"]) (auto intro: less simp: strict_sorted_iff simp del: set_sorted_set)
  moreover have "set (map (\<lambda>p. xs ! nat p) ?ps) = set (spaced xs limit)"
    by (simp add: spaced_def image_image)
  ultimately have "map (\<lambda>p. xs ! nat p) ?ps = spaced xs limit"
    by (intro sorted_distinct_set_unique) (simp_all add: strict_sorted_iff spaced_def)
  with assms show ?thesis by (simp add: bounded_indices_def)
qed

lemma bounded_indices_cover:
  assumes "covers_timeline n xs" and "bounded_indices xs limit = Inr ys"
  shows "covers_timeline n ys" and "int (length ys) \<le> limit" and "set ys \<subseteq> set xs"
    and "length ys < length xs \<longleftrightarrow> limit < int (length xs)"
proof -
  have limit: "2 \<le> limit" using assms(2) by (simp add: bounded_indices_def split: if_splits)
  have "covers_timeline n ys \<and> int (length ys) \<le> limit \<and> set ys \<subseteq> set xs \<and>
    (length ys < length xs \<longleftrightarrow> limit < int (length xs))"
  proof (cases "limit < int (length xs)")
    case False
    with assms limit show ?thesis by (simp add: bounded_indices_def split: if_splits)
  next
    case True
    with assms limit have ys: "ys = spaced xs limit" by (simp add: bounded_indices_spaced)
    note s = spaced_covers [OF assms(1) limit True]
    have "set (spaced xs limit) \<subseteq> set xs"
    proof
      fix v assume "v \<in> set (spaced xs limit)"
      then obtain i where i: "i \<in> {0..limit - 1}"
        "v = xs ! nat (round_half_even (of_int (i * (int (length xs) - 1)) / of_int (limit - 1)))"
        unfolding spaced_def set_sorted_set set_map set_upto by blast
      then show "v \<in> set xs" using spaced_position(2) [OF limit True i(1) refl] by simp
    qed
    with s True show ?thesis by (simp add: ys)
  qed
  then show "covers_timeline n ys" and "int (length ys) \<le> limit" and "set ys \<subseteq> set xs"
    and "length ys < length xs \<longleftrightarrow> limit < int (length xs)" by simp_all
qed

subsection \<open>What a frame contributes\<close>

lemma frame_evidence_InrD:
  assumes "frame_evidence video frame_sha i info item = Inr e"
  shows "ev_asset_sha256 e = video \<and> wf_locator (ev_locator e) \<and>
    map_of (ev_attributes e) ''frame_index'' = Some (AInt i) \<and>
    map_of (ev_attributes e) ''derived_frame_sha256'' = Some (AStr frame_sha)"
  using assms locator.validate_wf
  by (auto simp: frame_evidence_def frame_locator_def res_bind_Inr_iff update_conv' split: if_splits prod.splits)

definition bound_to_frame :: "string \<Rightarrow> int list \<Rightarrow> evidence_pointer \<Rightarrow> bool" where
  "bound_to_frame video frames e \<longleftrightarrow> ev_asset_sha256 e = video \<and> wf_locator (ev_locator e) \<and>
     list_ex (\<lambda>i. map_of (ev_attributes e) ''frame_index'' = Some (AInt i)) frames"

lemma map_frame_outputs_bound:
  assumes "map_frame_outputs evidence claims video frame_sha i info = Inr (es, cs)" and "i \<in> set frames"
  shows "list_all (bound_to_frame video frames) es"
proof -
  have "res_map (frame_evidence video frame_sha i info) evidence = Inr es"
    using assms(1) by (auto simp: map_frame_outputs_def res_bind_Inr_iff)
  then have "\<exists>item. frame_evidence video frame_sha i info item = Inr e" if "e \<in> set es" for e
    using that by (auto dest: res_map_set)
  with frame_evidence_InrD assms(2) show ?thesis
    by (fastforce simp: list_all_iff list_ex_iff bound_to_frame_def)
qed

text \<open>The retrieval result of one frame, as the loop computes it.\<close>

definition frame_match ::
    "runtime \<Rightarrow> settings \<Rightarrow> analysis_lib \<Rightarrow> string \<Rightarrow> string \<Rightarrow> rights_registry \<Rightarrow> int \<Rightarrow> int \<Rightarrow> rights_match res" where
  "frame_match rt st lib data name registry n i =
     res_bind (physical_frame st (al_video lib) data i (Some name)) (\<lambda>(png, _, _).
       match_reference_image rt (al_image lib) png (rt_sha256 rt png) registry n default_max_pixels)"

lemma analyze_frame_InrD:
  assumes "analyze_frame rt st lib data name asset registry n info i = Inr out" and "i \<in> set frames"
  shows "list_all (bound_to_frame asset frames)
      (fo_forensic_evidence out @ fo_match_evidence out @ fo_localization_evidence out)"
    and "\<exists>m. frame_match rt st lib data name registry n i = Inr m \<and>
      ra_verdict (fo_match out) = ra_verdict (rm_assessment m)"
proof -
  note unfolded = assms(1) [unfolded analyze_frame_def Let_def]
  show "list_all (bound_to_frame asset frames)
      (fo_forensic_evidence out @ fo_match_evidence out @ fo_localization_evidence out)"
    using unfolded by (auto elim!: res_bind_InrE split: prod.splits intro: map_frame_outputs_bound [OF _ assms(2)])
  show "\<exists>m. frame_match rt st lib data name registry n i = Inr m \<and>
      ra_verdict (fo_match out) = ra_verdict (rm_assessment m)"
    using unfolded by (auto elim!: res_bind_InrE split: prod.splits simp: frame_match_def)
qed

lemma assemble_video_InrD:
  assumes "assemble_video rt info security statistics selected outputs = Inr r"
  shows "va_total_frames r = vi_total_frames info" and "va_change_screened_frames r = ss_change_screened statistics"
    and "va_deep_frames r = selected"
    and "co_state (va_sampler_component r) = Comp_DEGRADED \<longleftrightarrow> length selected < length security"
    and "va_evidence r = concat (map fo_forensic_evidence outputs) @ concat (map fo_match_evidence outputs) @
      concat (map fo_localization_evidence outputs)"
    and "ra_verdict (rm_assessment (va_image_match r)) =
      (if list_ex (\<lambda>x. ra_verdict (fo_match x) = Rights_POTENTIAL_EXPOSURE) outputs
       then Rights_POTENTIAL_EXPOSURE else Rights_UNKNOWN)"
proof -
  have exposed: "filter (\<lambda>r. ra_verdict r = Rights_POTENTIAL_EXPOSURE) (map fo_match outputs) \<noteq> [] \<longleftrightarrow>
      list_ex (\<lambda>x. ra_verdict (fo_match x) = Rights_POTENTIAL_EXPOSURE) outputs"
    by (simp add: filter_empty_conv list_ex_iff)
  show "va_total_frames r = vi_total_frames info" and "va_change_screened_frames r = ss_change_screened statistics"
    and "va_deep_frames r = selected"
    and "co_state (va_sampler_component r) = Comp_DEGRADED \<longleftrightarrow> length selected < length security"
    and "va_evidence r = concat (map fo_forensic_evidence outputs) @ concat (map fo_match_evidence outputs) @
      concat (map fo_localization_evidence outputs)"
    using assms
    by (auto simp: assemble_video_def res_bind_Inr_iff Let_def validate_component_def sampler_component_def
      split: if_splits)
  from assms obtain m where m: "va_image_match r = m"
    "aggregate_image_matches (map fo_match_component outputs) (concat (map fo_match_evidence outputs))
       (concat (map (\<lambda>x. ra_claims (fo_match x)) outputs)) (map fo_match outputs) = Inr m"
    by (auto simp: assemble_video_def res_bind_Inr_iff Let_def)
  from m(2) show "ra_verdict (rm_assessment (va_image_match r)) =
      (if list_ex (\<lambda>x. ra_verdict (fo_match x) = Rights_POTENTIAL_EXPOSURE) outputs
       then Rights_POTENTIAL_EXPOSURE else Rights_UNKNOWN)"
    unfolding m(1) exposed [symmetric]
    by (auto simp: aggregate_image_matches_def res_bind_Inr_iff Let_def validate_rights_def)
qed

definition frame_exposed ::
    "runtime \<Rightarrow> settings \<Rightarrow> analysis_lib \<Rightarrow> string \<Rightarrow> string \<Rightarrow> rights_registry \<Rightarrow> int \<Rightarrow> int \<Rightarrow> bool" where
  "frame_exposed rt st lib data name registry n i =
     (case frame_match rt st lib data name registry n i of
        Inl _ \<Rightarrow> False | Inr m \<Rightarrow> ra_verdict (rm_assessment m) = Rights_POTENTIAL_EXPOSURE)"

lemma analyze_video_visuals_result:
  assumes "analyze_video_visuals rt st lib data name asset registry n budget = Inr r"
  shows "\<exists>info security stats. security_scan_frame_indices st (al_video lib) data (Some name) = Inr (info, security, stats) \<and>
    va_total_frames r = vi_total_frames info \<and> va_change_screened_frames r = va_total_frames r \<and>
    covers_timeline (va_total_frames r) (va_deep_frames r) \<and> int (length (va_deep_frames r)) \<le> budget \<and>
    set (va_deep_frames r) \<subseteq> set security \<and>
    (co_state (va_sampler_component r) = Comp_DEGRADED \<longleftrightarrow> budget < int (length security)) \<and>
    list_all (bound_to_frame asset (va_deep_frames r)) (va_evidence r) \<and>
    ra_verdict (rm_assessment (va_image_match r)) =
      (if list_ex (frame_exposed rt st lib data name registry n) (va_deep_frames r)
       then Rights_POTENTIAL_EXPOSURE else Rights_UNKNOWN)"
proof -
  from assms obtain info security stats selected outputs where
    scan: "security_scan_frame_indices st (al_video lib) data (Some name) = Inr (info, security, stats)"
    and bounded: "bounded_indices security budget = Inr selected"
    and frames: "res_map (analyze_frame rt st lib data name asset registry n info) selected = Inr outputs"
    and tail: "assemble_video rt info security stats selected outputs = Inr r"
    by (auto simp: analyze_video_visuals_def res_bind_Inr_iff)
  note r = assemble_video_InrD [OF tail]
  note cover = bounded_indices_cover [OF security_scan_covers [OF scan] bounded]
  have screened: "ss_change_screened stats = vi_total_frames info"
    using security_scan_result [OF scan] by blast
  have frame: "\<exists>i \<in> set selected. analyze_frame rt st lib data name asset registry n info i = Inr x"
    if "x \<in> set outputs" for x
    using res_map_set [OF frames that] .
  have "list_all (bound_to_frame asset selected) (fo_forensic_evidence x @ fo_match_evidence x @ fo_localization_evidence x)"
    if "x \<in> set outputs" for x
    using frame [OF that] analyze_frame_InrD(1) by blast
  then have bound: "list_all (bound_to_frame asset selected) (va_evidence r)"
    by (auto simp: r(5) list_all_iff)
  have "list_all2 (\<lambda>i x. ra_verdict (fo_match x) = Rights_POTENTIAL_EXPOSURE \<longleftrightarrow>
      frame_exposed rt st lib data name registry n i) selected outputs"
    using frames [unfolded res_map_Inr_iff]
  proof (rule list_all2_mono)
    fix i x assume "analyze_frame rt st lib data name asset registry n info i = Inr x"
    from analyze_frame_InrD(2) [OF this, of "[i]"]
    show "ra_verdict (fo_match x) = Rights_POTENTIAL_EXPOSURE \<longleftrightarrow> frame_exposed rt st lib data name registry n i"
      by (auto simp: frame_exposed_def)
  qed
  then have "list_ex (\<lambda>x. ra_verdict (fo_match x) = Rights_POTENTIAL_EXPOSURE) outputs \<longleftrightarrow>
      list_ex (frame_exposed rt st lib data name registry n) selected"
    by (induction rule: list_all2_induct) simp_all
  with scan r cover screened bound show ?thesis by simp
qed

end
