(* ===== verification/Combine.thy ===== *)
theory Combine
  imports C2pa Licensing Consent Localization Policy Watermark Audio Video_Analysis
begin

section \<open>Combining the lanes\<close>

text \<open>
  The first half of \<open>rightsgate/execution.py\<close>: the fingerprint of an execution, the checks of its inputs, and the
  precedence rules by which the assessments of the lanes become one provenance and one rights assessment.
\<close>

record exec_lib =
  xl_c2pa :: c2pa_lib
  xl_analysis :: analysis_lib
  xl_watermark :: watermark_lib
  xl_voice :: voice_lib
  xl_upload :: upload_lib

subsection \<open>The fingerprint\<close>

definition executor_version :: string where
  "executor_version = ''1.3.0''"

definition optional_text :: "string option \<Rightarrow> json" where
  "optional_text x = (case x of None \<Rightarrow> JNull | Some s \<Rightarrow> JStr s)"

definition component_versions :: "c2pa_lib \<Rightarrow> json" where
  "component_versions lib = JObj
     [(''provenance.c2pa'', JStr (c2_version lib)), (''provenance.independent-forensics'', JStr ''1.0.0''),
      (''provenance.watermark-forensics'', JStr ''1.0.0''), (''rights.local-image-registry'', JStr ''1.1.0''),
      (''rights.licence-evaluator'', JStr ''1.0.0''), (''rights.trademark-localizer'', JStr ''1.0.0''),
      (''rights.consent-reference-matcher'', JStr ''1.0.0''), (''ingestion.video-timeline-analyzer'', JStr ''1.0.0''),
      (''ingestion.pcm-wav-parser'', JStr ''1.0.0''), (''deployment.policy-compiler'', JStr ''1.1.0'')]"

record governed_inputs =
  gi_request :: assessment_request
  gi_rights :: rights_registry
  gi_licences :: licence_registry
  gi_policy :: publication_policy
  gi_watermarks :: "watermark_registry option"
  gi_consents :: "consent_registry option"
  gi_max_hamming_distance :: int

definition fingerprint_json :: "runtime \<Rightarrow> settings \<Rightarrow> c2pa_lib \<Rightarrow> governed_inputs \<Rightarrow> json" where
  "fingerprint_json rt st lib gi = JObj
     [(''licence_registry_sha256'', JStr (licence_registry_commitment rt (gi_licences gi))),
      (''executor_version'', JStr executor_version), (''component_versions'', component_versions lib),
      (''video_analysis'', JObj [(''max_deep_frames'', JInt (st_max_video_evidence_frames st)),
         (''sample_fps'', JFloat (st_video_evidence_sample_fps st))]),
      (''max_hamming_distance'', JInt (gi_max_hamming_distance gi)),
      (''consent_registry_sha256'', optional_text (map_option (consent_registry_commitment rt) (gi_consents gi))),
      (''policy_sha256'', JStr (policy_commitment rt (gi_policy gi))),
      (''request_sha256'', JStr (request_sha256 rt (gi_request gi))),
      (''rights_registry_sha256'', JStr (rights_registry_commitment rt (gi_rights gi))),
      (''watermark_registry_sha256'',
         optional_text (map_option (watermark_registry_commitment rt) (gi_watermarks gi)))]"

definition execution_fingerprint :: "runtime \<Rightarrow> settings \<Rightarrow> c2pa_lib \<Rightarrow> governed_inputs \<Rightarrow> string" where
  "execution_fingerprint rt st lib gi = sha256_json rt (fingerprint_json rt st lib gi)"

subsection \<open>The inputs\<close>

definition validate_governed_inputs :: "governed_inputs \<Rightarrow> unit res" where
  "validate_governed_inputs gi =
     (let cx = rq_context (gi_request gi);
          reference_ids = map ri_reference_id (rr_references (gi_rights gi));
          orphaned = sorted_set (filter (\<lambda>i. i \<notin> set reference_ids)
            (concat (map li_reference_ids (lr_licences (gi_licences gi)))))
      in if cx_policy_id cx \<noteq> pp_policy_id (gi_policy gi) \<or> cx_policy_version cx \<noteq> pp_version (gi_policy gi)
         then Inl (ExecutionInputError ''assessment context does not match the supplied policy identity'')
         else if orphaned \<noteq> []
         then Inl (ExecutionInputError (''licence registry references IDs absent from the supplied rights registry: '' @
           join '','' orphaned))
         else Inr ())"

text \<open>\<open>except ValueError as error: raise ExecutionInputError(str(error))\<close>.\<close>

definition as_input_error :: "runtime \<Rightarrow> 'a res \<Rightarrow> 'a res" where
  "as_input_error rt r = (case r of
     Inl e \<Rightarrow> Inl (if is_value_error e then ExecutionInputError (error_text rt e) else e) | Inr x \<Rightarrow> Inr x)"

definition ends_with :: "string \<Rightarrow> string \<Rightarrow> bool" where
  "ends_with s suffix \<longleftrightarrow> length suffix \<le> length s \<and> drop (length s - length suffix) s = suffix"

definition validate_audio_asset ::
    "runtime \<Rightarrow> settings \<Rightarrow> exec_lib \<Rightarrow> string \<Rightarrow> asset_descriptor \<Rightarrow> unit res" where
  "validate_audio_asset rt st lib data d =
     (let bad = (\<lambda>m. Inl (ExecutionInputError m))
      in if data = [] \<or> st_max_file_size_bytes st < length data
         then bad ''audio is empty or exceeds the configured upload limit''
         else if \<not> ends_with (casefold (sanitize_filename (ad_original_filename d))) ''.wav''
         then bad ''standalone audio currently requires a .wav filename''
         else if ad_media_type d \<notin> {''audio/wav'', ''audio/x-wav''}
         then bad ''standalone audio currently requires audio/wav''
         else if rt_sha256 rt data \<noteq> ad_sha256 d then bad ''uploaded bytes do not match the AssetIR SHA-256''
         else if int (length data) \<noteq> ad_size_bytes d then bad ''uploaded bytes do not match the AssetIR size''
         else res_bind (as_input_error rt (inspect_pcm_wav rt (vl_wave (xl_voice lib)) data (ad_sha256 d))) (\<lambda>inspected.
           case ad_duration_seconds d of None \<Rightarrow> Inl (AssertionError [])
           | Some duration \<Rightarrow>
               if 1 / of_nat (au_sample_rate_hz (aa_stream inspected))
                  < \<bar>au_duration_seconds (aa_stream inspected) - duration\<bar>
               then bad ''decoded audio duration does not match the AssetIR'' else Inr ()))"

definition validate_image_size :: "exec_lib \<Rightarrow> string \<Rightarrow> asset_descriptor \<Rightarrow> unit res" where
  "validate_image_size lib data d =
     (case ul_image (xl_upload lib) data of
        Inl e \<Rightarrow> Inl (OSError e)
      | Inr probe \<Rightarrow>
          if (Some (im_width probe), Some (im_height probe)) \<noteq> (ad_width d, ad_height d)
          then Inl (ExecutionInputError ''decoded image dimensions do not match the AssetIR'') else Inr ())"

definition validate_video_stream :: "settings \<Rightarrow> exec_lib \<Rightarrow> string \<Rightarrow> asset_descriptor \<Rightarrow> unit res" where
  "validate_video_stream st lib data d =
     (let bad = (\<lambda>m. Inl (ExecutionInputError m))
      in res_bind (probe_video st (al_video (xl_analysis lib)) data (Some (ad_original_filename d))) (\<lambda>info.
         if ad_width d = None \<or> ad_height d = None then bad ''video AssetIR requires decoded width and height''
         else if (Some (vi_width info), Some (vi_height info)) \<noteq> (ad_width d, ad_height d)
         then bad ''decoded video dimensions do not match the AssetIR''
         else case ad_duration_seconds d of None \<Rightarrow> Inl (AssertionError [])
         | Some duration \<Rightarrow>
             if 1 / vi_fps info < \<bar>vi_duration_seconds info - duration\<bar>
             then bad ''decoded video duration does not match the AssetIR'' else Inr ()))"

fun expected_file_type :: "media_kind \<Rightarrow> file_type option" where
  "expected_file_type Media_IMAGE = Some File_IMAGE"
| "expected_file_type Media_VIDEO = Some File_VIDEO"
| "expected_file_type _ = None"

definition validate_upload_asset ::
    "runtime \<Rightarrow> settings \<Rightarrow> exec_lib \<Rightarrow> string \<Rightarrow> asset_descriptor \<Rightarrow> unit res" where
  "validate_upload_asset rt st lib data d =
     (let bad = (\<lambda>m. Inl (ExecutionInputError m))
      in case validate_upload rt st (al_video (xl_analysis lib)) (xl_upload lib) data
            (sanitize_filename (ad_original_filename d)) of
        Inl (UploadValidationError m) \<Rightarrow> bad m
      | Inl e \<Rightarrow> Inl e
      | Inr (file_type, media_type, actual_sha256) \<Rightarrow>
          if expected_file_type (ad_media_kind d) = None
          then bad ''the current trusted executor accepts image, bounded video and PCM/WAV audio assets''
          else if expected_file_type (ad_media_kind d) \<noteq> Some file_type
          then bad ''detected media kind does not match the AssetIR media kind''
          else if actual_sha256 \<noteq> ad_sha256 d then bad ''uploaded bytes do not match the AssetIR SHA-256''
          else if int (length data) \<noteq> ad_size_bytes d then bad ''uploaded bytes do not match the AssetIR size''
          else if media_type \<noteq> ad_media_type d
          then bad ''detected media type does not match the AssetIR media type''
          else if ad_media_kind d = Media_IMAGE then validate_image_size lib data d
          else validate_video_stream st lib data d)"

definition validate_execution_asset ::
    "runtime \<Rightarrow> settings \<Rightarrow> exec_lib \<Rightarrow> string \<Rightarrow> assessment_request \<Rightarrow> unit res" where
  "validate_execution_asset rt st lib data request =
     (let d = ir_asset (rq_asset_ir request)
      in if ad_media_kind d = Media_AUDIO then validate_audio_asset rt st lib data d
         else validate_upload_asset rt st lib data d)"

subsection \<open>Precedence\<close>

definition candidate_limitation :: string where
  "candidate_limitation = ''Known candidates have explicit licence coverage, but '' @
     ''unimplemented rights lanes prevent global clearance.''"

definition combine_rights :: "rights_match \<Rightarrow> localization \<Rightarrow> licence_evaluation \<Rightarrow> rights_assessment res" where
  "combine_rights found localized licence =
     (let claims = ra_claims (rm_assessment found) @ lo_claims localized @ le_claims licence;
          limitations = sorted_set (ra_limitations (rm_assessment found) @ lo_limitations localized @ le_limitations licence);
          make = (\<lambda>state verdict confidence limitations. validate_rights
            \<lparr>ra_state = state, ra_verdict = verdict, ra_confidence = confidence, ra_claims = claims,
             ra_limitations = limitations\<rparr>)
      in if ra_state (rm_assessment found) = State_UNAVAILABLE \<and> co_state (lo_component localized) \<noteq> Comp_AVAILABLE
         then make State_UNAVAILABLE Rights_UNKNOWN 0 limitations
         else if le_policy_conflict licence then make State_COMPLETE Rights_POLICY_CONFLICT 1 limitations
         else if le_candidate_reference_ids licence \<noteq> []
         then make State_PARTIAL Rights_POTENTIAL_EXPOSURE
           (max (ra_confidence (rm_assessment found)) (max_default 0 (map ev_confidence (lo_evidence localized))))
           (sorted_set (limitations @ [candidate_limitation]))
         else make (ra_state (rm_assessment found)) Rights_UNKNOWN 0 limitations)"

definition neither_limitation :: string where
  "neither_limitation = ''Neither provenance lane produced a supported origin conclusion.''"

text \<open>The verdict and confidence by precedence: tampering first, then the most confident conclusion.\<close>

definition strongest_provenance :: "provenance_assessment list \<Rightarrow> provenance_verdict \<times> rat" where
  "strongest_provenance assessments =
     (case filter (\<lambda>p. pa_verdict p = Prov_TAMPERED) assessments of
        t # ts \<Rightarrow> (Prov_TAMPERED, max_default 0 (map pa_confidence (t # ts)))
      | [] \<Rightarrow> (case filter (\<lambda>p. pa_verdict p \<noteq> Prov_UNKNOWN) assessments of
          c # cs \<Rightarrow> (let strongest = max_by pa_confidence c cs in (pa_verdict strongest, pa_confidence strongest))
        | [] \<Rightarrow> (Prov_UNKNOWN, 0)))"

definition combine_provenance :: "provenance_assessment list \<Rightarrow> provenance_assessment res" where
  "combine_provenance assessments =
     (if assessments = [] then Inl (ValueError ''at least one provenance assessment is required'')
      else let limitations = sorted_set (concat (map pa_limitations assessments));
               (verdict, confidence) = strongest_provenance assessments
      in validate_provenance
           \<lparr>pa_state = joint_state (map pa_state assessments), pa_verdict = verdict, pa_confidence = confidence,
            pa_claims = concat (map pa_claims assessments),
            pa_limitations = (if verdict = Prov_UNKNOWN
              then (if limitations = [] then [neither_limitation] else limitations) else [])\<rparr>)"

definition combine_consent_rights :: "rights_assessment \<Rightarrow> consent_analysis list \<Rightarrow> rights_assessment res" where
  "combine_consent_rights base results =
     (if results = [] then Inr base
      else let claims = ra_claims base @ concat (map ca_claims results);
               limitations = sorted_set (ra_limitations base @ concat (map ca_limitations results));
               conflicts = filter ca_policy_conflict results;
               candidates = filter (\<lambda>r. ca_candidate_subject_ids r \<noteq> []) results
      in if conflicts \<noteq> []
         then validate_rights \<lparr>ra_state = State_COMPLETE, ra_verdict = Rights_POLICY_CONFLICT,
           ra_confidence = max_default 0 (map ca_confidence conflicts), ra_claims = claims, ra_limitations = limitations\<rparr>
         else if candidates \<noteq> [] \<and> ra_verdict base \<noteq> Rights_POLICY_CONFLICT
         then validate_rights \<lparr>ra_state = State_PARTIAL, ra_verdict = Rights_POTENTIAL_EXPOSURE,
           ra_confidence = max_default 0 (ra_confidence base # map ca_confidence candidates), ra_claims = claims,
           ra_limitations = limitations\<rparr>
         else Inr (base\<lparr>ra_claims := claims, ra_limitations := limitations\<rparr>))"

definition unimplemented_component :: "string \<Rightarrow> string \<times> string" where
  "unimplemented_component component_id =
     (if component_id = ''provenance.watermark-forensics''
      then (''provenance.governed-visible-watermark-verifier'',
        ''No governed visible-watermark registry was supplied; arbitrary invisible watermark detection remains unsupported.'')
      else if component_id = ''rights.likeness-consent''
      then (''rights.consented-likeness-detector'',
        ''No governed consent registry was supplied for bounded enrolled-likeness matching.'')
      else if component_id = ''rights.voice-consent''
      then (''rights.consented-voice-detector'',
        ''No governed consent registry was supplied for bounded enrolled-voice matching.'')
      else (''declared.required-component'', ''The policy requires a component not provided by this executor.''))"

definition declared_unavailable_component :: "string \<Rightarrow> component_record res" where
  "declared_unavailable_component component_id =
     (let (component_type, reason) = unimplemented_component component_id
      in validate_component
        \<lparr>co_component_id = component_id, co_component_version = ''unavailable-v1'', co_component_type = component_type,
         co_state = Comp_UNAVAILABLE, co_mandatory = True, co_artifact_sha256 = None, co_reason = Some reason\<rparr>)"

subsection \<open>What the precedence rules give\<close>

text \<open>
  The rights verdicts the combination can reach: it never clears an asset. A conflict comes from an uncovered
  licence candidate, or from an identity whose consent does not cover the context.
\<close>

lemma combine_rights_verdict:
  assumes "combine_rights found localized licence = Inr r"
  shows "ra_verdict r \<noteq> Rights_CLEAR"
    and "ra_verdict r = Rights_POLICY_CONFLICT \<longleftrightarrow> le_policy_conflict licence \<and>
      \<not> (ra_state (rm_assessment found) = State_UNAVAILABLE \<and> co_state (lo_component localized) \<noteq> Comp_AVAILABLE)"
  using assms by (auto simp: combine_rights_def validate_rights_def Let_def split: if_splits)

lemma combine_consent_rights_verdict:
  assumes "combine_consent_rights base results = Inr r"
  shows "ra_verdict base \<noteq> Rights_CLEAR \<Longrightarrow> ra_verdict r \<noteq> Rights_CLEAR"
    and "ra_verdict r = Rights_POLICY_CONFLICT \<longleftrightarrow>
      ra_verdict base = Rights_POLICY_CONFLICT \<or> list_ex ca_policy_conflict results"
  using assms
  by (auto simp: combine_consent_rights_def validate_rights_def Let_def list_ex_iff filter_empty_conv split: if_splits)

lemma joint_state_cases:
  "joint_state states = State_COMPLETE \<longleftrightarrow> list_all (\<lambda>s. s = State_COMPLETE) states"
  "joint_state states = State_UNAVAILABLE \<longleftrightarrow> states \<noteq> [] \<and> list_all (\<lambda>s. s = State_UNAVAILABLE) states"
proof -
  have all: "s = State_COMPLETE \<or> s = State_PARTIAL \<or> s = State_UNAVAILABLE" for s by (cases s) simp_all
  show "joint_state states = State_COMPLETE \<longleftrightarrow> list_all (\<lambda>s. s = State_COMPLETE) states"
    using all by (force simp: joint_state_def list_all_iff)
  show "joint_state states = State_UNAVAILABLE \<longleftrightarrow> states \<noteq> [] \<and> list_all (\<lambda>s. s = State_UNAVAILABLE) states"
    by (cases states) (auto simp: joint_state_def list_all_iff)
qed

lemma strongest_provenance_tampered:
  "fst (strongest_provenance ps) = Prov_TAMPERED \<longleftrightarrow> list_ex (\<lambda>p. pa_verdict p = Prov_TAMPERED) ps"
proof (cases "filter (\<lambda>p. pa_verdict p = Prov_TAMPERED) ps")
  case Nil
  then have none: "\<forall>p \<in> set ps. pa_verdict p \<noteq> Prov_TAMPERED" by (simp add: filter_empty_conv)
  show ?thesis
  proof (cases "filter (\<lambda>p. pa_verdict p \<noteq> Prov_UNKNOWN) ps")
    case Nil2: Nil
    with Nil none show ?thesis by (simp add: strongest_provenance_def list_ex_iff)
  next
    case (Cons c cs)
    have "max_by pa_confidence c cs \<in> set (c # cs)" by (rule max_by_in)
    then have "max_by pa_confidence c cs \<in> set ps" unfolding Cons [symmetric] by simp
    with none Nil Cons show ?thesis by (auto simp: strongest_provenance_def Let_def list_ex_iff)
  qed
next
  case (Cons t ts)
  then have "t \<in> {p \<in> set ps. pa_verdict p = Prov_TAMPERED}" by (metis list.set_intros(1) set_filter)
  with Cons show ?thesis by (auto simp: strongest_provenance_def list_ex_iff)
qed

text \<open>The chosen pair is that of one of the assessments, at least as confident as every rival.\<close>

lemma strongest_provenance_chosen:
  assumes "strongest_provenance ps = (v, c)" and "v \<noteq> Prov_UNKNOWN"
  shows "\<exists>p \<in> set ps. pa_verdict p = v \<and> pa_confidence p = c \<and>
    list_all (\<lambda>q. (v = Prov_TAMPERED \<longrightarrow> pa_verdict q = Prov_TAMPERED) \<and> pa_verdict q \<noteq> Prov_UNKNOWN
      \<longrightarrow> pa_confidence q \<le> c) ps"
proof (cases "filter (\<lambda>p. pa_verdict p = Prov_TAMPERED) ps")
  case (Cons t ts)
  then have set: "set (t # ts) = {p \<in> set ps. pa_verdict p = Prov_TAMPERED}" by (metis set_filter)
  have v: "v = Prov_TAMPERED" and c: "c = max_default 0 (map pa_confidence (t # ts))"
    using assms(1) Cons by (simp_all add: strongest_provenance_def)
  have "c \<in> pa_confidence ` set (t # ts)" unfolding c using max_default_in [of "map pa_confidence (t # ts)" 0] by simp
  moreover have "pa_confidence q \<le> c" if "q \<in> set (t # ts)" for q
    unfolding c by (rule max_default_ge) (use that in auto)
  ultimately show ?thesis unfolding set v by (auto simp: list_all_iff)
next
  case Nil
  show ?thesis
  proof (cases "filter (\<lambda>p. pa_verdict p \<noteq> Prov_UNKNOWN) ps")
    case Nil2: Nil
    with Nil assms show ?thesis by (simp add: strongest_provenance_def)
  next
    case (Cons b bs)
    then have set: "set (b # bs) = {p \<in> set ps. pa_verdict p \<noteq> Prov_UNKNOWN}" by (metis set_filter)
    let ?m = "max_by pa_confidence b bs"
    have v: "v = pa_verdict ?m" and c: "c = pa_confidence ?m"
      using assms(1) Nil Cons by (simp_all add: strongest_provenance_def Let_def)
    have "?m \<in> set (b # bs)" by (rule max_by_in)
    moreover have "pa_confidence q \<le> c" if "q \<in> set (b # bs)" for q unfolding c by (rule max_by_ge [OF that])
    ultimately show ?thesis unfolding set v c [symmetric] by (auto simp: list_all_iff c)
  qed
qed

lemma strongest_provenance_unknown:
  "fst (strongest_provenance ps) = Prov_UNKNOWN \<longleftrightarrow> list_all (\<lambda>p. pa_verdict p = Prov_UNKNOWN) ps"
proof (cases "filter (\<lambda>p. pa_verdict p \<noteq> Prov_UNKNOWN) ps")
  case Nil
  then have all: "\<forall>p \<in> set ps. pa_verdict p = Prov_UNKNOWN" by (simp add: filter_empty_conv)
  then have "filter (\<lambda>p. pa_verdict p = Prov_TAMPERED) ps = []" by (auto simp: filter_empty_conv)
  with Nil all show ?thesis by (simp add: strongest_provenance_def list_all_iff)
next
  case (Cons c cs)
  then have set: "set (c # cs) = {p \<in> set ps. pa_verdict p \<noteq> Prov_UNKNOWN}" by (metis set_filter)
  have "max_by pa_confidence c cs \<in> set (c # cs)" by (rule max_by_in)
  then have m: "pa_verdict (max_by pa_confidence c cs) \<noteq> Prov_UNKNOWN" unfolding set by simp
  have "c \<in> set (c # cs)" by simp
  then have "\<not> list_all (\<lambda>p. pa_verdict p = Prov_UNKNOWN) ps" unfolding set by (auto simp: list_all_iff)
  with m Cons show ?thesis by (simp add: strongest_provenance_def Let_def split: list.split)
qed

lemma strongest_provenance_unit:
  assumes "list_all wf_provenance ps"
  shows "unit_interval (snd (strongest_provenance ps))"
proof (cases "fst (strongest_provenance ps) = Prov_UNKNOWN")
  case True
  then have "filter (\<lambda>p. pa_verdict p \<noteq> Prov_UNKNOWN) ps = []" "filter (\<lambda>p. pa_verdict p = Prov_TAMPERED) ps = []"
    using strongest_provenance_unknown [of ps] by (auto simp: list_all_iff filter_empty_conv)
  then show ?thesis by (simp add: strongest_provenance_def)
next
  case False
  then obtain p where "p \<in> set ps" "pa_confidence p = snd (strongest_provenance ps)"
    using strongest_provenance_chosen [of ps, OF prod.collapse [symmetric]] by auto
  with assms show ?thesis by (auto simp: list_all_iff wf_provenance_def)
qed

lemma combine_provenance_result:
  assumes "list_all wf_provenance ps" and "ps \<noteq> []"
  shows "\<exists>p. combine_provenance ps = Inr p \<and> wf_provenance p \<and> pa_claims p = concat (map pa_claims ps) \<and>
    (pa_verdict p, pa_confidence p) = strongest_provenance ps \<and> pa_state p = joint_state (map pa_state ps)"
proof -
  obtain v c where vc: "strongest_provenance ps = (v, c)" by (cases "strongest_provenance ps")
  let ?ls = "sorted_set (concat (map pa_limitations ps))"
  let ?p = "\<lparr>pa_state = joint_state (map pa_state ps), pa_verdict = v, pa_confidence = c,
    pa_claims = concat (map pa_claims ps),
    pa_limitations = (if v = Prov_UNKNOWN then (if ?ls = [] then [neither_limitation] else ?ls) else [])\<rparr>"
  have "joint_state (map pa_state ps) = State_UNAVAILABLE \<Longrightarrow> v = Prov_UNKNOWN"
    using assms strongest_provenance_unknown [of ps] vc
    by (auto simp: joint_state_cases list_all_iff wf_provenance_def)
  then have "wf_provenance ?p"
    using assms(1) strongest_provenance_unit [OF assms(1)] vc by (auto simp: wf_provenance_def list_all_iff)
  moreover from provenance.validate_fix [OF this] have "combine_provenance ps = Inr ?p"
    using assms(2) by (simp add: combine_provenance_def vc Let_def)
  ultimately show ?thesis by (intro exI [of _ ?p]) (simp add: vc)
qed

text \<open>
  C14: combining well-formed provenance assessments always succeeds with a well-formed assessment that keeps all
  their claims; it reports tampering exactly when some lane does, is unknown exactly when every lane is, takes any
  other verdict with its confidence from a lane at least as confident as every conclusive one, and is complete
  exactly when every lane is.
\<close>

theorem combine_provenance_precedence:
  assumes "list_all wf_provenance ps" and "ps \<noteq> []"
  shows "\<exists>p. combine_provenance ps = Inr p \<and> wf_provenance p \<and> pa_claims p = concat (map pa_claims ps) \<and>
    (pa_verdict p = Prov_TAMPERED \<longleftrightarrow> list_ex (\<lambda>q. pa_verdict q = Prov_TAMPERED) ps) \<and>
    (pa_verdict p = Prov_UNKNOWN \<longleftrightarrow> list_all (\<lambda>q. pa_verdict q = Prov_UNKNOWN) ps) \<and>
    (pa_verdict p = Prov_UNKNOWN \<or> pa_verdict p = Prov_TAMPERED \<or>
       list_ex (\<lambda>q. pa_verdict q = pa_verdict p \<and> pa_confidence q = pa_confidence p) ps \<and>
       list_all (\<lambda>q. pa_verdict q = Prov_UNKNOWN \<or> pa_confidence q \<le> pa_confidence p) ps) \<and>
    (pa_state p = State_COMPLETE \<longleftrightarrow> list_all (\<lambda>q. pa_state q = State_COMPLETE) ps)"
proof -
  obtain p where p: "combine_provenance ps = Inr p" "wf_provenance p" "pa_claims p = concat (map pa_claims ps)"
    and v: "strongest_provenance ps = (pa_verdict p, pa_confidence p)" and s: "pa_state p = joint_state (map pa_state ps)"
    using combine_provenance_result [OF assms] by auto
  have "pa_verdict p = Prov_UNKNOWN \<or> pa_verdict p = Prov_TAMPERED \<or>
       list_ex (\<lambda>q. pa_verdict q = pa_verdict p \<and> pa_confidence q = pa_confidence p) ps \<and>
       list_all (\<lambda>q. pa_verdict q = Prov_UNKNOWN \<or> pa_confidence q \<le> pa_confidence p) ps"
    using strongest_provenance_chosen [OF v] by (auto simp: list_ex_iff list_all_iff)
  with p v s strongest_provenance_tampered [of ps] strongest_provenance_unknown [of ps] show ?thesis
    by (simp add: joint_state_cases list.pred_map comp_def)
qed

theorem combine_provenance_precedence_witness:
  "\<exists>p. combine_provenance [demo_provenance, demo_provenance\<lparr>pa_verdict := Prov_TAMPERED\<rparr>] = Inr p \<and>
    pa_verdict p = Prov_TAMPERED"
proof -
  have "list_all wf_provenance [demo_provenance, demo_provenance\<lparr>pa_verdict := Prov_TAMPERED\<rparr>]"
    by (simp add: wf_provenance_def demo_provenance_def)
  from combine_provenance_precedence [OF this] show ?thesis by fastforce
qed

end
