(* ===== verification/Exposure_Graph.thy ===== *)
theory Exposure_Graph
  imports Licensing Video_Frames Assessment "HOL-Library.AList"
begin

section \<open>The exposure graph of an assessment\<close>

text \<open>
  \<open>_build_graph\<close> of \<open>rightsgate/execution.py\<close>: the dictionaries \<open>nodes\<close>, \<open>edges\<close> and
  \<open>reference_nodes\<close> are association lists in insertion order, an assignment keeps the place of an existing key.
  Every construction of a node or an edge validates it and may raise.
\<close>

record graph_state =
  gs_nodes :: "(string \<times> graph_node) list"
  gs_edges :: "(string \<times> graph_edge) list"
  gs_references :: "(string \<times> string) list"

definition graph_id :: "runtime \<Rightarrow> string \<Rightarrow> string \<Rightarrow> string" where
  "graph_id rt prefix v = prefix @ ''-'' @ token rt v"

definition put_node ::
    "string \<Rightarrow> graph_node_kind \<Rightarrow> string \<Rightarrow> string list \<Rightarrow> attributes \<Rightarrow> graph_state \<Rightarrow> graph_state res" where
  "put_node node_id kind label evidence_ids attributes g =
     res_bind (validate_node \<lparr>gn_node_id = node_id, gn_kind = kind, gn_label = label,
       gn_evidence_ids = evidence_ids, gn_attributes = attributes\<rparr>) (\<lambda>n.
     Inr (g\<lparr>gs_nodes := AList.update node_id n (gs_nodes g)\<rparr>))"

definition put_edge ::
    "string \<Rightarrow> graph_edge_kind \<Rightarrow> string \<Rightarrow> string \<Rightarrow> rat \<Rightarrow> string list \<Rightarrow> attributes \<Rightarrow> graph_state \<Rightarrow>
     graph_state res" where
  "put_edge edge_id kind source_id target_id confidence evidence_ids attributes g =
     res_bind (validate_edge \<lparr>ge_edge_id = edge_id, ge_kind = kind, ge_source_node_id = source_id,
       ge_target_node_id = target_id, ge_confidence = confidence, ge_evidence_ids = evidence_ids,
       ge_attributes = attributes\<rparr>) (\<lambda>e.
     Inr (g\<lparr>gs_edges := AList.update edge_id e (gs_edges g)\<rparr>))"

primrec res_fold :: "('a \<Rightarrow> 's \<Rightarrow> 's res) \<Rightarrow> 'a list \<Rightarrow> 's \<Rightarrow> 's res" where
  "res_fold f [] s = Inr s"
| "res_fold f (x # xs) s = res_bind (f x s) (res_fold f xs)"

text \<open>An attribute, when it is a \<open>str\<close>.\<close>

definition string_attr :: "string \<Rightarrow> evidence_pointer \<Rightarrow> string option" where
  "string_attr name item = (case map_of (ev_attributes item) name of Some (AStr s) \<Rightarrow> Some s | _ \<Rightarrow> None)"

subsection \<open>The loops\<close>

definition matched_reference :: "evidence_pointer \<Rightarrow> string option" where
  "matched_reference item = (if ev_kind item = Ev_REFERENCE_MATCH then string_attr ''reference_id'' item else None)"

definition reference_node_kind :: "evidence_pointer \<Rightarrow> graph_node_kind" where
  "reference_node_kind item =
     (if string_attr ''reference_kind'' item = Some (reference_kind_value Ref_TRADEMARK) then Node_MARK else Node_WORK)"

definition add_reference :: "runtime \<Rightarrow> string \<Rightarrow> string \<Rightarrow> evidence_pointer \<Rightarrow> graph_state \<Rightarrow> graph_state res" where
  "add_reference rt asset root_id item g =
     (case matched_reference item of None \<Rightarrow> Inr g
      | Some reference_id \<Rightarrow>
          let node_id = graph_id rt ''node.reference'' reference_id
          in res_bind (put_node node_id (reference_node_kind item) reference_id [ev_evidence_id item] []
               (g\<lparr>gs_references := AList.update reference_id node_id (gs_references g)\<rparr>))
             (put_edge (graph_id rt ''edge.candidate-match'' (reference_id @ '':'' @ asset)) Edge_CANDIDATE_MATCH root_id
               node_id (ev_confidence item) [ev_evidence_id item] []))"

text \<open>The reference and the licences of a covered licence record.\<close>

definition coverage_of :: "evidence_pointer \<Rightarrow> (string \<times> string list) option" where
  "coverage_of item =
     (if ev_kind item = Ev_LICENCE_RECORD \<and> map_of (ev_attributes item) ''covered'' = Some (ABool True)
      then case (string_attr ''reference_id'' item, string_attr ''covering_licence_ids'' item) of
          (Some reference_id, Some licence_ids) \<Rightarrow>
            Some (reference_id, filter (\<lambda>l. l \<noteq> []) (split_on (CHR '','') licence_ids))
        | _ \<Rightarrow> None
      else None)"

definition add_licence :: "runtime \<Rightarrow> evidence_pointer \<Rightarrow> string \<Rightarrow> string \<Rightarrow> string \<Rightarrow> graph_state \<Rightarrow> graph_state res" where
  "add_licence rt item reference_id reference_node_id licence_id g =
     (let node_id = graph_id rt ''node.licence'' licence_id
      in res_bind (put_node node_id Node_LICENCE licence_id [ev_evidence_id item] [] g)
         (put_edge (graph_id rt ''edge.covered-by'' (reference_id @ '':'' @ licence_id)) Edge_COVERED_BY
           reference_node_id node_id 1 [ev_evidence_id item] []))"

definition add_coverage :: "runtime \<Rightarrow> evidence_pointer \<Rightarrow> graph_state \<Rightarrow> graph_state res" where
  "add_coverage rt item g =
     (case coverage_of item of None \<Rightarrow> Inr g
      | Some (reference_id, licence_ids) \<Rightarrow>
          (case map_of (gs_references g) reference_id of None \<Rightarrow> Inr g
           | Some reference_node_id \<Rightarrow> res_fold (add_licence rt item reference_id reference_node_id) licence_ids g))"

definition consent_of :: "evidence_pointer \<Rightarrow> (string \<times> string) option" where
  "consent_of item =
     (if ev_kind item = Ev_CONSENT_RECORD
      then case (string_attr ''subject_id'' item, string_attr ''consent_id'' item) of
          (Some subject_id, Some consent_id) \<Rightarrow> Some (subject_id, consent_id) | _ \<Rightarrow> None
      else None)"

definition is_voice :: "string \<Rightarrow> bool" where
  "is_voice component_id \<longleftrightarrow> component_id = ''rights.voice-consent''"

definition add_consent :: "runtime \<Rightarrow> string \<Rightarrow> string \<Rightarrow> evidence_pointer \<Rightarrow> graph_state \<Rightarrow> graph_state res" where
  "add_consent rt asset root_id item g =
     (case consent_of item of None \<Rightarrow> Inr g
      | Some (subject_id, consent_id) \<Rightarrow>
          let component_id = ev_component_id item; ids = [ev_evidence_id item];
              covered = (case map_of (ev_attributes item) ''covered'' of None \<Rightarrow> False | Some v \<Rightarrow> attr_truthy v);
              subject_node = graph_id rt ''node.subject'' (component_id @ '':'' @ subject_id);
              consent_node = graph_id rt ''node.consent'' consent_id
          in res_bind (put_node subject_node (if is_voice component_id then Node_VOICE else Node_PERSON) subject_id ids [] g) (\<lambda>g.
             res_bind (put_node consent_node Node_CONSENT consent_id ids [(''covered'', ABool covered)] g) (\<lambda>g.
             res_bind (put_edge (graph_id rt ''edge.subject-match'' (asset @ '':'' @ component_id @ '':'' @ subject_id))
               (if is_voice component_id then Edge_CONTAINS_VOICE else Edge_DEPICTS) root_id subject_node
               (ev_confidence item) ids [] g)
             (put_edge (graph_id rt ''edge.consented-by'' (subject_id @ '':'' @ consent_id @ '':'' @ asset)) Edge_CONSENTED_BY
               subject_node consent_node (ev_confidence item) ids [(''covered'', ABool covered)]))))"

definition add_territory :: "runtime \<Rightarrow> string \<Rightarrow> string list \<Rightarrow> string \<Rightarrow> graph_state \<Rightarrow> graph_state res" where
  "add_territory rt campaign_id policy_ids territory g =
     (let territory_id = graph_id rt ''node.territory'' territory
      in res_bind (put_node territory_id Node_TERRITORY territory policy_ids [] g)
         (put_edge (graph_id rt ''edge.valid-in'' (campaign_id @ '':'' @ territory)) Edge_VALID_IN campaign_id territory_id
           1 policy_ids []))"

definition policy_evidence_ids :: "evidence_pointer list \<Rightarrow> string list" where
  "policy_evidence_ids evidence = map ev_evidence_id (filter (\<lambda>e. ev_kind e = Ev_POLICY_RULE) evidence)"

definition add_campaign ::
    "runtime \<Rightarrow> string \<Rightarrow> string \<Rightarrow> assessment_context \<Rightarrow> string list \<Rightarrow> graph_state \<Rightarrow> graph_state res" where
  "add_campaign rt asset root_id cx policy_ids g =
     (if policy_ids = [] then Inr g
      else let campaign_id = graph_id rt ''node.campaign'' (cx_intended_use cx)
      in res_bind (put_node campaign_id Node_CAMPAIGN (cx_intended_use cx) policy_ids
           [(''audience'', AStr (cx_audience cx)), (''channel'', AStr (cx_channel cx))] g) (\<lambda>g.
         res_bind (put_edge (graph_id rt ''edge.used-by'' (asset @ '':'' @ campaign_id)) Edge_USED_BY root_id campaign_id
           1 policy_ids [] g)
         (res_fold (add_territory rt campaign_id policy_ids) (cx_territories cx))))"

definition root_node_id :: "string \<Rightarrow> string" where
  "root_node_id asset = ''node.asset-'' @ take 16 asset"

definition graph_of_state :: "string \<Rightarrow> graph_state \<Rightarrow> exposure_graph" where
  "graph_of_state asset g = \<lparr>gr_asset_sha256 = asset, gr_root_node_id = root_node_id asset,
     gr_nodes = map snd (gs_nodes g), gr_edges = map snd (gs_edges g)\<rparr>"

definition build_state :: "runtime \<Rightarrow> assessment_request \<Rightarrow> evidence_pointer list \<Rightarrow> graph_state res" where
  "build_state rt request evidence =
     (let d = ir_asset (rq_asset_ir request); asset = ad_sha256 d; root_id = root_node_id asset
      in res_bind (put_node root_id Node_ASSET (ad_original_filename d) [] []
           \<lparr>gs_nodes = [], gs_edges = [], gs_references = []\<rparr>) (\<lambda>g.
         res_bind (res_fold (add_reference rt asset root_id) evidence g) (\<lambda>g.
         res_bind (res_fold (add_coverage rt) evidence g) (\<lambda>g.
         res_bind (res_fold (add_consent rt asset root_id) evidence g)
         (add_campaign rt asset root_id (rq_context request) (policy_evidence_ids evidence))))))"

definition build_graph :: "runtime \<Rightarrow> assessment_request \<Rightarrow> evidence_pointer list \<Rightarrow> exposure_graph res" where
  "build_graph rt request evidence =
     res_bind (build_state rt request evidence)
       (\<lambda>g. validate_graph (graph_of_state (ad_sha256 (ir_asset (rq_asset_ir request))) g))"

subsection \<open>What the graph stands for\<close>

text \<open>
  The abstract specification: the exposures a list of evidence declares, each realised as one edge between the
  nodes of its ends. The keys of the code are truncated digests, so two exposures may share an edge.
\<close>

datatype exposure =
    Candidate string
  | Covered string string
  | Depicted string string
  | Consented string string string
  | Used_by string
  | Valid_in string string

definition reference_node :: "runtime \<Rightarrow> string \<Rightarrow> string" where
  "reference_node rt r = graph_id rt ''node.reference'' r"

definition subject_node :: "runtime \<Rightarrow> string \<Rightarrow> string \<Rightarrow> string" where
  "subject_node rt component s = graph_id rt ''node.subject'' (component @ '':'' @ s)"

definition campaign_node :: "runtime \<Rightarrow> string \<Rightarrow> string" where
  "campaign_node rt use = graph_id rt ''node.campaign'' use"

fun exposure_edge :: "runtime \<Rightarrow> string \<Rightarrow> exposure \<Rightarrow> string \<times> graph_edge_kind \<times> string \<times> string" where
  "exposure_edge rt asset (Candidate r) =
     (graph_id rt ''edge.candidate-match'' (r @ '':'' @ asset), Edge_CANDIDATE_MATCH, root_node_id asset,
      reference_node rt r)"
| "exposure_edge rt asset (Covered r l) =
     (graph_id rt ''edge.covered-by'' (r @ '':'' @ l), Edge_COVERED_BY, reference_node rt r,
      graph_id rt ''node.licence'' l)"
| "exposure_edge rt asset (Depicted k s) =
     (graph_id rt ''edge.subject-match'' (asset @ '':'' @ k @ '':'' @ s),
      (if is_voice k then Edge_CONTAINS_VOICE else Edge_DEPICTS), root_node_id asset, subject_node rt k s)"
| "exposure_edge rt asset (Consented k s c) =
     (graph_id rt ''edge.consented-by'' (s @ '':'' @ c @ '':'' @ asset), Edge_CONSENTED_BY, subject_node rt k s,
      graph_id rt ''node.consent'' c)"
| "exposure_edge rt asset (Used_by use) =
     (graph_id rt ''edge.used-by'' (asset @ '':'' @ campaign_node rt use), Edge_USED_BY, root_node_id asset,
      campaign_node rt use)"
| "exposure_edge rt asset (Valid_in use t) =
     (graph_id rt ''edge.valid-in'' (campaign_node rt use @ '':'' @ t), Edge_VALID_IN, campaign_node rt use,
      graph_id rt ''node.territory'' t)"

fun exposure_label :: "exposure \<Rightarrow> string" where
  "exposure_label (Candidate r) = r"
| "exposure_label (Covered r l) = l"
| "exposure_label (Depicted k s) = s"
| "exposure_label (Consented k s c) = c"
| "exposure_label (Used_by use) = use"
| "exposure_label (Valid_in use t) = t"

definition matched_references :: "evidence_pointer list \<Rightarrow> string list" where
  "matched_references evidence = List.map_filter matched_reference evidence"

definition coverage_exposures :: "string list \<Rightarrow> evidence_pointer \<Rightarrow> exposure list" where
  "coverage_exposures references item =
     (case coverage_of item of None \<Rightarrow> []
      | Some (r, ls) \<Rightarrow> if r \<in> set references then map (Covered r) ls else [])"

definition consent_exposures :: "evidence_pointer \<Rightarrow> exposure list" where
  "consent_exposures item =
     (case consent_of item of None \<Rightarrow> []
      | Some (s, c) \<Rightarrow> [Depicted (ev_component_id item) s, Consented (ev_component_id item) s c])"

definition campaign_exposures :: "assessment_context \<Rightarrow> string list \<Rightarrow> exposure list" where
  "campaign_exposures cx policy_ids =
     (if policy_ids = [] then []
      else Used_by (cx_intended_use cx) # map (Valid_in (cx_intended_use cx)) (cx_territories cx))"

definition exposures :: "assessment_context \<Rightarrow> evidence_pointer list \<Rightarrow> exposure list" where
  "exposures cx evidence =
     map Candidate (matched_references evidence) @
     concat (map (coverage_exposures (matched_references evidence)) evidence) @
     concat (map consent_exposures evidence) @ campaign_exposures cx (policy_evidence_ids evidence)"

definition graph_labels :: "assessment_request \<Rightarrow> evidence_pointer list \<Rightarrow> string list" where
  "graph_labels request evidence =
     ad_original_filename (ir_asset (rq_asset_ir request)) # map exposure_label (exposures (rq_context request) evidence)"

definition edge_triple :: "graph_edge \<Rightarrow> string \<times> graph_edge_kind \<times> string \<times> string" where
  "edge_triple e = (ge_edge_id e, ge_kind e, ge_source_node_id e, ge_target_node_id e)"

subsection \<open>Steps that fail only on a label\<close>

text \<open>A result that keeps the invariant, and that is an error only when the condition fails.\<close>

definition upholds :: "('a \<Rightarrow> bool) \<Rightarrow> bool \<Rightarrow> 'a res \<Rightarrow> bool" where
  "upholds P ok r \<longleftrightarrow> (case r of Inl _ \<Rightarrow> \<not> ok | Inr x \<Rightarrow> P x)"

lemma upholds_simps [simp]: "upholds P ok (Inr x) = P x" "upholds P ok (Inl e) \<longleftrightarrow> \<not> ok"
  by (simp_all add: upholds_def)

lemma upholds_bind:
  assumes "upholds P ok r" and "\<And>x. P x \<Longrightarrow> upholds Q ok (f x)"
  shows "upholds Q ok (res_bind r f)"
  using assms by (cases r) simp_all

lemma upholds_mono: "upholds P ok r \<Longrightarrow> (\<And>x. P x \<Longrightarrow> Q x) \<Longrightarrow> upholds Q ok r"
  by (cases r) simp_all

lemma upholds_fold:
  assumes "P [] s" and "\<And>ys x s. x \<in> set xs \<Longrightarrow> P ys s \<Longrightarrow> upholds (P (ys @ [x])) ok (f x s)"
  shows "upholds (P xs) ok (res_fold f xs s)"
proof -
  have "upholds (P (ys @ xs)) ok (res_fold f xs s)"
    if "P ys s" "\<And>ys x s. x \<in> set xs \<Longrightarrow> P ys s \<Longrightarrow> upholds (P (ys @ [x])) ok (f x s)" for xs ys s
    using that
  proof (induction xs arbitrary: ys s)
    case (Cons x xs)
    have "upholds (P (ys @ [x])) ok (f x s)" using Cons.prems by simp
    moreover have "upholds (P ((ys @ [x]) @ xs)) ok (res_fold f xs t)" if "P (ys @ [x]) t" for t
      by (rule Cons.IH [OF that]) (simp add: Cons.prems(2))
    ultimately show ?case by (auto intro: upholds_bind)
  qed simp
  from this [of "[]" s xs] assms show ?thesis by simp
qed

subsection \<open>The invariant of the dictionaries\<close>

definition graph_inv ::
    "runtime \<Rightarrow> string \<Rightarrow> string set \<Rightarrow> exposure list \<Rightarrow> string set \<Rightarrow> string set \<Rightarrow> graph_state \<Rightarrow> bool" where
  "graph_inv rt asset ids xs references keys g \<longleftrightarrow>
     distinct (map fst (gs_nodes g)) \<and> distinct (map fst (gs_edges g)) \<and>
     (\<forall>k n. map_of (gs_nodes g) k = Some n \<longrightarrow> gn_node_id n = k \<and> wf_node n \<and> set (gn_evidence_ids n) \<subseteq> ids) \<and>
     (\<exists>n. map_of (gs_nodes g) (root_node_id asset) = Some n \<and> gn_kind n = Node_ASSET) \<and>
     keys \<subseteq> dom (map_of (gs_nodes g)) \<and>
     (\<forall>k e. map_of (gs_edges g) k = Some e \<longrightarrow> ge_edge_id e = k \<and> wf_edge e \<and> set (ge_evidence_ids e) \<subseteq> ids \<and>
        {ge_source_node_id e, ge_target_node_id e} \<subseteq> dom (map_of (gs_nodes g)) \<and>
        edge_triple e \<in> exposure_edge rt asset ` set xs) \<and>
     dom (map_of (gs_edges g)) = (\<lambda>x. fst (exposure_edge rt asset x)) ` set xs \<and>
     map_of (gs_references g) = (\<lambda>r. if r \<in> references then Some (reference_node rt r) else None)"

lemma put_node_inv:
  assumes "graph_inv rt asset ids xs R K g" and "node_id \<noteq> root_node_id asset" and "is_id node_id"
    and "distinct evidence_ids" and "set evidence_ids \<subseteq> ids" and "ok \<Longrightarrow> len_between 1 300 label"
  shows "upholds (graph_inv rt asset ids xs R (insert node_id K)) ok
    (put_node node_id kind label evidence_ids attributes g)"
proof (cases "len_between 1 300 label")
  case False
  with assms(6) show ?thesis by (auto simp: put_node_def validate_node_def check_fields_def)
next
  case True
  let ?n = "\<lparr>gn_node_id = node_id, gn_kind = kind, gn_label = label, gn_evidence_ids = sort evidence_ids,
    gn_attributes = attributes\<rparr>"
  have put: "put_node node_id kind label evidence_ids attributes g =
      Inr (g\<lparr>gs_nodes := AList.update node_id ?n (gs_nodes g)\<rparr>)"
    using assms True by (simp add: put_node_def validate_node_def check_fields_ok)
  have n: "wf_node ?n" "set (gn_evidence_ids ?n) \<subseteq> ids" "gn_node_id ?n = node_id"
    using assms True by (simp_all add: wf_node_def)
  have "graph_inv rt asset ids xs R (insert node_id K) (g\<lparr>gs_nodes := AList.update node_id ?n (gs_nodes g)\<rparr>)"
    using assms(1,2) n unfolding graph_inv_def by (auto simp: update_conv' distinct_update)
  then show ?thesis by (simp add: put)
qed

lemma put_edge_inv:
  assumes "graph_inv rt asset ids xs R K g" and "exposure_edge rt asset x = (edge_id, kind, source_id, target_id)"
    and "source_id \<in> insert (root_node_id asset) K" and "target_id \<in> K" and "source_id \<noteq> target_id"
    and "is_id edge_id" and "is_id source_id" and "is_id target_id" and "unit_interval confidence"
    and "evidence_ids \<noteq> []" and "distinct evidence_ids" and "set evidence_ids \<subseteq> ids"
  shows "upholds (graph_inv rt asset ids (xs @ [x]) R K) ok
    (put_edge edge_id kind source_id target_id confidence evidence_ids attributes g)"
proof -
  let ?e = "\<lparr>ge_edge_id = edge_id, ge_kind = kind, ge_source_node_id = source_id, ge_target_node_id = target_id,
    ge_confidence = confidence, ge_evidence_ids = sort evidence_ids, ge_attributes = attributes\<rparr>"
  have put: "put_edge edge_id kind source_id target_id confidence evidence_ids attributes g =
      Inr (g\<lparr>gs_edges := AList.update edge_id ?e (gs_edges g)\<rparr>)"
    using assms by (simp add: put_edge_def validate_edge_def check_fields_ok)
  have e: "wf_edge ?e" "edge_triple ?e = exposure_edge rt asset x" "set (ge_evidence_ids ?e) \<subseteq> ids"
    using assms by (simp_all add: wf_edge_def edge_triple_def)
  have ends: "{source_id, target_id} \<subseteq> dom (map_of (gs_nodes g))"
    using assms(1,3,4) by (auto simp: graph_inv_def)
  have "graph_inv rt asset ids (xs @ [x]) R K (g\<lparr>gs_edges := AList.update edge_id ?e (gs_edges g)\<rparr>)"
    using assms(1) e ends assms(2) by (auto simp: graph_inv_def update_conv' distinct_update)
  then show ?thesis by (simp add: put)
qed

lemma graph_inv_mono: "graph_inv rt asset ids xs R K g \<Longrightarrow> L \<subseteq> K \<Longrightarrow> graph_inv rt asset ids xs R L g"
  by (auto simp: graph_inv_def)

lemma is_id_graph_id [simp]: "sha_ok rt \<Longrightarrow> is_id prefix \<Longrightarrow> length prefix \<le> 100 \<Longrightarrow> is_id (graph_id rt prefix v)"
  unfolding graph_id_def by (rule is_id_append) (simp_all add: is_id_char_def ord_def)

lemma is_id_root_node [simp]: "is_sha256 asset \<Longrightarrow> is_id (root_node_id asset)"
  using is_id_asset_id_text [of "''node.asset-''" asset]
  by (simp add: root_node_id_def asset_id_text_def short_def is_id_def is_id_char_def is_id_head_def is_lower_def
      is_upper_def is_digit_def ord_def)

lemma is_id_prefix [simp]:
  "is_id ''node.reference''" "is_id ''node.licence''" "is_id ''node.subject''" "is_id ''node.consent''"
  "is_id ''node.campaign''" "is_id ''node.territory''" "is_id ''edge.candidate-match''" "is_id ''edge.covered-by''"
  "is_id ''edge.subject-match''" "is_id ''edge.consented-by''" "is_id ''edge.used-by''" "is_id ''edge.valid-in''"
  by (simp_all add: is_id_def is_id_char_def is_id_head_def is_lower_def is_upper_def is_digit_def ord_def)

lemma node_apart [simp]:
  "graph_id rt ''node.reference'' v \<noteq> root_node_id asset" "graph_id rt ''node.licence'' v \<noteq> root_node_id asset"
  "graph_id rt ''node.subject'' v \<noteq> root_node_id asset" "graph_id rt ''node.consent'' v \<noteq> root_node_id asset"
  "graph_id rt ''node.campaign'' v \<noteq> root_node_id asset" "graph_id rt ''node.territory'' v \<noteq> root_node_id asset"
  "graph_id rt ''node.reference'' v \<noteq> graph_id rt ''node.licence'' w"
  "graph_id rt ''node.subject'' v \<noteq> graph_id rt ''node.consent'' w"
  "graph_id rt ''node.campaign'' v \<noteq> graph_id rt ''node.territory'' w"
  by (simp_all add: graph_id_def root_node_id_def)

lemmas node_apart' [simp] = node_apart [symmetric]

subsection \<open>The loops keep the invariant\<close>

text \<open>The inputs: valid evidence of distinct identifiers; the condition is that every label is in bounds.\<close>

definition evidence_ready :: "evidence_pointer list \<Rightarrow> bool" where
  "evidence_ready evidence \<longleftrightarrow> list_all wf_evidence evidence \<and> distinct (map ev_evidence_id evidence)"

lemma evidence_unit: "wf_evidence e \<Longrightarrow> unit_interval (ev_confidence e)"
  by (simp add: wf_evidence_def evidence_fields_def)

lemma add_reference_inv:
  assumes "graph_inv rt asset ids xs R (reference_node rt ` R) g" and "sha_ok rt" and "is_sha256 asset"
    and "wf_evidence item" and "ev_evidence_id item \<in> ids"
    and "\<And>r. ok \<Longrightarrow> matched_reference item = Some r \<Longrightarrow> len_between 1 300 r"
  shows "upholds (\<lambda>g. let R' = set (List.map_filter matched_reference [item]) \<union> R
      in graph_inv rt asset ids (xs @ map Candidate (List.map_filter matched_reference [item])) R' (reference_node rt ` R') g)
    ok (add_reference rt asset (root_node_id asset) item g)"
proof (cases "matched_reference item")
  case None
  with assms show ?thesis by (simp add: add_reference_def map_filter_simps)
next
  case (Some r)
  let ?g = "g\<lparr>gs_references := AList.update r (graph_id rt ''node.reference'' r) (gs_references g)\<rparr>"
  have refs: "graph_inv rt asset ids xs (insert r R) (reference_node rt ` R) ?g"
    using assms(1) by (auto simp: graph_inv_def update_conv' reference_node_def)
  have put: "upholds (graph_inv rt asset ids xs (insert r R) (insert (reference_node rt r) (reference_node rt ` R))) ok
      (put_node (graph_id rt ''node.reference'' r) (reference_node_kind item) r [ev_evidence_id item] [] ?g)"
    using assms Some put_node_inv [OF refs, of "graph_id rt ''node.reference'' r" "[ev_evidence_id item]" ok r]
    by (simp add: reference_node_def)
  show ?thesis unfolding add_reference_def Some option.case Let_def
    by (rule upholds_bind [OF put], rule put_edge_inv [of _ _ _ _ _ _ _ "Candidate r", THEN upholds_mono])
      (use assms Some in \<open>auto simp: map_filter_simps reference_node_def evidence_unit\<close>)
qed

lemma add_licence_inv:
  assumes "graph_inv rt asset ids xs R K g" and "reference_node rt r \<in> K" and "sha_ok rt"
    and "wf_evidence item" and "ev_evidence_id item \<in> ids" and "ok \<Longrightarrow> len_between 1 300 l"
  shows "upholds (graph_inv rt asset ids (xs @ [Covered r l]) R K) ok (add_licence rt item r (reference_node rt r) l g)"
proof -
  have put: "upholds (graph_inv rt asset ids xs R (insert (graph_id rt ''node.licence'' l) K)) ok
      (put_node (graph_id rt ''node.licence'' l) Node_LICENCE l [ev_evidence_id item] [] g)"
    using assms by (intro put_node_inv) simp_all
  show ?thesis unfolding add_licence_def Let_def
    by (rule upholds_bind [OF put], rule upholds_mono, erule put_edge_inv [where x = "Covered r l"])
      (use assms in \<open>auto simp: reference_node_def elim: graph_inv_mono\<close>)
qed

lemma add_coverage_inv:
  assumes "graph_inv rt asset ids xs (set rs) K g" and "reference_node rt ` set rs \<subseteq> K" and "sha_ok rt"
    and "wf_evidence item" and "ev_evidence_id item \<in> ids"
    and "\<And>x. ok \<Longrightarrow> x \<in> set (coverage_exposures rs item) \<Longrightarrow> len_between 1 300 (exposure_label x)"
  shows "upholds (graph_inv rt asset ids (xs @ coverage_exposures rs item) (set rs) K) ok (add_coverage rt item g)"
proof (cases "coverage_of item")
  case None
  with assms(1) show ?thesis by (simp add: add_coverage_def coverage_exposures_def)
next
  case (Some rl)
  obtain r ls where rl: "rl = (r, ls)" by (cases rl)
  have refs: "map_of (gs_references g) r = (if r \<in> set rs then Some (reference_node rt r) else None)"
    using assms(1) by (simp add: graph_inv_def)
  show ?thesis
  proof (cases "r \<in> set rs")
    case False
    with assms(1) Some rl refs show ?thesis by (simp add: add_coverage_def coverage_exposures_def)
  next
    case True
    have "upholds (graph_inv rt asset ids (xs @ map (Covered r) ls) (set rs) K) ok
        (res_fold (add_licence rt item r (reference_node rt r)) ls g)"
    proof (rule upholds_fold)
      show "graph_inv rt asset ids (xs @ map (Covered r) []) (set rs) K g" using assms(1) by simp
    next
      fix ys l g
      assume "l \<in> set ls" and "graph_inv rt asset ids (xs @ map (Covered r) ys) (set rs) K g"
      then show "upholds (graph_inv rt asset ids (xs @ map (Covered r) (ys @ [l])) (set rs) K) ok
          (add_licence rt item r (reference_node rt r) l g)"
        using add_licence_inv [of rt asset ids "xs @ map (Covered r) ys" "set rs" K g r item ok l] assms True Some rl
        by (force simp: coverage_exposures_def)
    qed
    with True Some rl refs show ?thesis by (simp add: add_coverage_def coverage_exposures_def)
  qed
qed

lemma add_consent_inv:
  assumes "graph_inv rt asset ids xs R {} g" and "sha_ok rt" and "is_sha256 asset"
    and "wf_evidence item" and "ev_evidence_id item \<in> ids"
    and "\<And>x. ok \<Longrightarrow> x \<in> set (consent_exposures item) \<Longrightarrow> len_between 1 300 (exposure_label x)"
  shows "upholds (graph_inv rt asset ids (xs @ consent_exposures item) R {}) ok
    (add_consent rt asset (root_node_id asset) item g)"
proof (cases "consent_of item")
  case None
  with assms(1) show ?thesis by (simp add: add_consent_def consent_exposures_def)
next
  case (Some sc)
  obtain s c where sc: "sc = (s, c)" by (cases sc)
  let ?k = "ev_component_id item" and ?ids = "[ev_evidence_id item]"
  let ?subject = "graph_id rt ''node.subject'' (?k @ '':'' @ s)" and ?consent = "graph_id rt ''node.consent'' c"
  have expo: "consent_exposures item = [Depicted ?k s, Consented ?k s c]"
    by (simp add: consent_exposures_def Some sc)
  have labels: "ok \<Longrightarrow> len_between 1 300 s" "ok \<Longrightarrow> len_between 1 300 c"
    using assms(6) [of "Depicted ?k s"] assms(6) [of "Consented ?k s c"] expo by simp_all
  have put1: "upholds (graph_inv rt asset ids xs R {?subject}) ok (put_node ?subject kind s ?ids [] g)" for kind
    using put_node_inv [OF assms(1), of ?subject ?ids ok s] labels(1) assms(2,5) by simp
  have put2: "upholds (graph_inv rt asset ids xs R {?consent, ?subject}) ok (put_node ?consent Node_CONSENT c ?ids attrs h)"
    if "graph_inv rt asset ids xs R {?subject} h" for h attrs
    using that labels(2) assms(2,5) by (intro put_node_inv) simp_all
  have edge1: "upholds (graph_inv rt asset ids (xs @ [Depicted ?k s]) R {?consent, ?subject}) ok
      (put_edge (graph_id rt ''edge.subject-match'' (asset @ '':'' @ ?k @ '':'' @ s))
        (if is_voice ?k then Edge_CONTAINS_VOICE else Edge_DEPICTS) (root_node_id asset) ?subject
        (ev_confidence item) ?ids [] h)"
    if "graph_inv rt asset ids xs R {?consent, ?subject} h" for h
    by (rule put_edge_inv [OF that]) (use assms in \<open>simp_all add: subject_node_def evidence_unit\<close>)
  have edge2: "upholds (graph_inv rt asset ids (xs @ consent_exposures item) R {}) ok
      (put_edge (graph_id rt ''edge.consented-by'' (s @ '':'' @ c @ '':'' @ asset)) Edge_CONSENTED_BY ?subject ?consent
        (ev_confidence item) ?ids attrs h)"
    if "graph_inv rt asset ids (xs @ [Depicted ?k s]) R {?consent, ?subject} h" for h attrs
    unfolding expo
    by (rule upholds_mono, rule put_edge_inv [OF that, of "Consented ?k s c"])
      (use assms in \<open>auto simp: subject_node_def evidence_unit elim: graph_inv_mono\<close>)
  show ?thesis
    unfolding add_consent_def Some sc option.case prod.case Let_def
    by (intro upholds_bind [OF put1] upholds_bind [OF put2] upholds_bind [OF edge1] edge2)
qed

lemma add_territory_inv:
  assumes "graph_inv rt asset ids xs R K g" and "campaign_node rt use \<in> K" and "sha_ok rt"
    and "policy_ids \<noteq> []" and "distinct policy_ids" and "set policy_ids \<subseteq> ids" and "ok \<Longrightarrow> len_between 1 300 t"
  shows "upholds (graph_inv rt asset ids (xs @ [Valid_in use t]) R K) ok
    (add_territory rt (campaign_node rt use) policy_ids t g)"
proof -
  have put: "upholds (graph_inv rt asset ids xs R (insert (graph_id rt ''node.territory'' t) K)) ok
      (put_node (graph_id rt ''node.territory'' t) Node_TERRITORY t policy_ids [] g)"
    using assms by (intro put_node_inv) simp_all
  show ?thesis unfolding add_territory_def Let_def
    by (rule upholds_bind [OF put], rule upholds_mono, erule put_edge_inv [where x = "Valid_in use t"])
      (use assms in \<open>auto simp: campaign_node_def elim: graph_inv_mono\<close>)
qed

lemma add_campaign_inv:
  assumes "graph_inv rt asset ids xs R {} g" and "sha_ok rt" and "is_sha256 asset"
    and "distinct policy_ids" and "set policy_ids \<subseteq> ids"
    and "\<And>x. ok \<Longrightarrow> x \<in> set (campaign_exposures cx policy_ids) \<Longrightarrow> len_between 1 300 (exposure_label x)"
  shows "upholds (graph_inv rt asset ids (xs @ campaign_exposures cx policy_ids) R {}) ok
    (add_campaign rt asset (root_node_id asset) cx policy_ids g)"
proof (cases "policy_ids = []")
  case True
  with assms(1) show ?thesis by (simp add: add_campaign_def campaign_exposures_def)
next
  case False
  let ?use = "cx_intended_use cx" let ?campaign = "campaign_node rt ?use"
  have expo: "campaign_exposures cx policy_ids = Used_by ?use # map (Valid_in ?use) (cx_territories cx)"
    using False by (simp add: campaign_exposures_def)
  have put: "upholds (graph_inv rt asset ids xs R {?campaign}) ok
      (put_node ?campaign Node_CAMPAIGN ?use policy_ids attrs g)" for attrs
    using put_node_inv [OF assms(1), of ?campaign policy_ids ok ?use] assms(2,4,5) assms(6) [of "Used_by ?use"] expo
    by (simp add: campaign_node_def)
  have edge: "upholds (graph_inv rt asset ids (xs @ [Used_by ?use]) R {?campaign}) ok
      (put_edge (graph_id rt ''edge.used-by'' (asset @ '':'' @ ?campaign)) Edge_USED_BY (root_node_id asset) ?campaign
        1 policy_ids [] h)" if "graph_inv rt asset ids xs R {?campaign} h" for h
    by (rule put_edge_inv [OF that]) (use assms False in \<open>simp_all add: campaign_node_def\<close>)
  have loop: "upholds (graph_inv rt asset ids ((xs @ [Used_by ?use]) @ map (Valid_in ?use) (cx_territories cx)) R {?campaign})
      ok (res_fold (add_territory rt ?campaign policy_ids) (cx_territories cx) h)"
    if "graph_inv rt asset ids (xs @ [Used_by ?use]) R {?campaign} h" for h
  proof (rule upholds_fold)
    show "graph_inv rt asset ids ((xs @ [Used_by ?use]) @ map (Valid_in ?use) []) R {?campaign} h" using that by simp
  next
    fix ys t h
    assume t: "t \<in> set (cx_territories cx)"
      and h: "graph_inv rt asset ids ((xs @ [Used_by ?use]) @ map (Valid_in ?use) ys) R {?campaign} h"
    have "ok \<Longrightarrow> len_between 1 300 t" using assms(6) [of "Valid_in ?use t"] t expo by simp
    from add_territory_inv [OF h _ assms(2) False assms(4,5) this]
    show "upholds (graph_inv rt asset ids ((xs @ [Used_by ?use]) @ map (Valid_in ?use) (ys @ [t])) R {?campaign}) ok
        (add_territory rt ?campaign policy_ids t h)" by simp
  qed
  have "upholds (graph_inv rt asset ids (xs @ campaign_exposures cx policy_ids) R {?campaign}) ok
      (add_campaign rt asset (root_node_id asset) cx policy_ids g)"
    using upholds_bind [OF put upholds_bind [OF edge loop]] False
    by (simp add: add_campaign_def Let_def campaign_node_def expo)
  then show ?thesis by (rule upholds_mono) (auto elim: graph_inv_mono)
qed

lemma matched_references_snoc:
  "matched_references (ys @ [x]) = matched_references ys @ List.map_filter matched_reference [x]"
  by (simp add: matched_references_def map_filter_def)

text \<open>The root alone.\<close>

lemma put_root_inv:
  assumes "is_sha256 asset" and "ok \<Longrightarrow> len_between 1 300 label"
  shows "upholds (graph_inv rt asset ids [] {} {}) ok
    (put_node (root_node_id asset) Node_ASSET label [] [] \<lparr>gs_nodes = [], gs_edges = [], gs_references = []\<rparr>)"
proof (cases "len_between 1 300 label")
  case True
  with assms show ?thesis
    by (simp add: put_node_def validate_node_def check_fields_ok graph_inv_def wf_node_def)
next
  case False
  with assms(2) show ?thesis by (auto simp: put_node_def validate_node_def check_fields_def)
qed

lemma build_state_inv:
  assumes "sha_ok rt" and "is_sha256 (ad_sha256 (ir_asset (rq_asset_ir request)))" and "evidence_ready evidence"
  shows "upholds (graph_inv rt (ad_sha256 (ir_asset (rq_asset_ir request))) (ev_evidence_id ` set evidence)
      (exposures (rq_context request) evidence) (set (matched_references evidence)) {})
    (list_all (len_between 1 300) (graph_labels request evidence)) (build_state rt request evidence)"
proof -
  let ?asset = "ad_sha256 (ir_asset (rq_asset_ir request))" and ?ids = "ev_evidence_id ` set evidence"
  let ?rs = "matched_references evidence" and ?cx = "rq_context request" and ?pol = "policy_evidence_ids evidence"
  let ?ok = "list_all (len_between 1 300) (graph_labels request evidence)"
  have wf: "wf_evidence e" if "e \<in> set evidence" for e
    using assms(3) that by (simp add: evidence_ready_def list_all_iff)
  have label: "len_between 1 300 (exposure_label x)" if ?ok "x \<in> set (exposures ?cx evidence)" for x
    using that by (simp add: graph_labels_def list_all_iff)
  have root: "upholds (graph_inv rt ?asset ?ids [] {} {}) ?ok
      (put_node (root_node_id ?asset) Node_ASSET (ad_original_filename (ir_asset (rq_asset_ir request))) [] []
        \<lparr>gs_nodes = [], gs_edges = [], gs_references = []\<rparr>)"
    using assms(2) by (rule put_root_inv) (simp add: graph_labels_def)
  have references: "upholds (graph_inv rt ?asset ?ids (map Candidate ?rs) (set ?rs) (reference_node rt ` set ?rs)) ?ok
      (res_fold (add_reference rt ?asset (root_node_id ?asset)) evidence g)" if "graph_inv rt ?asset ?ids [] {} {} g" for g
  proof (rule upholds_fold [where P = "\<lambda>ys. graph_inv rt ?asset ?ids (map Candidate (matched_references ys))
      (set (matched_references ys)) (reference_node rt ` set (matched_references ys))"])
    show "graph_inv rt ?asset ?ids (map Candidate (matched_references [])) (set (matched_references []))
        (reference_node rt ` set (matched_references [])) g"
      using that by (simp add: matched_references_def map_filter_def)
  next
    fix ys x h
    assume x: "x \<in> set evidence" and h: "graph_inv rt ?asset ?ids (map Candidate (matched_references ys))
      (set (matched_references ys)) (reference_node rt ` set (matched_references ys)) h"
    have "?ok \<Longrightarrow> len_between 1 300 r" if "matched_reference x = Some r" for r
    proof -
      have "r \<in> set ?rs" using x that by (force simp: matched_references_def map_filter_def)
      then show "?ok \<Longrightarrow> len_between 1 300 r" using label [of "Candidate r"] by (simp add: exposures_def)
    qed
    from add_reference_inv [OF h assms(1,2) wf [OF x] _ this] x
    show "upholds (graph_inv rt ?asset ?ids (map Candidate (matched_references (ys @ [x])))
      (set (matched_references (ys @ [x]))) (reference_node rt ` set (matched_references (ys @ [x])))) ?ok
      (add_reference rt ?asset (root_node_id ?asset) x h)"
      by (simp add: matched_references_snoc Let_def Un_commute)
  qed
  have coverage: "upholds (graph_inv rt ?asset ?ids
      (map Candidate ?rs @ concat (map (coverage_exposures ?rs) evidence)) (set ?rs) (reference_node rt ` set ?rs)) ?ok
      (res_fold (add_coverage rt) evidence g)"
    if "graph_inv rt ?asset ?ids (map Candidate ?rs) (set ?rs) (reference_node rt ` set ?rs) g" for g
  proof (rule upholds_fold [where P = "\<lambda>ys. graph_inv rt ?asset ?ids
      (map Candidate ?rs @ concat (map (coverage_exposures ?rs) ys)) (set ?rs) (reference_node rt ` set ?rs)"])
    show "graph_inv rt ?asset ?ids (map Candidate ?rs @ concat (map (coverage_exposures ?rs) []))
        (set ?rs) (reference_node rt ` set ?rs) g" using that by simp
  next
    fix ys x h
    assume x: "x \<in> set evidence" and h: "graph_inv rt ?asset ?ids
      (map Candidate ?rs @ concat (map (coverage_exposures ?rs) ys)) (set ?rs) (reference_node rt ` set ?rs) h"
    have "?ok \<Longrightarrow> len_between 1 300 (exposure_label y)" if "y \<in> set (coverage_exposures ?rs x)" for y
      using label [of y] x that by (auto simp: exposures_def)
    from add_coverage_inv [OF h _ assms(1) wf [OF x] _ this] x
    show "upholds (graph_inv rt ?asset ?ids (map Candidate ?rs @ concat (map (coverage_exposures ?rs) (ys @ [x])))
        (set ?rs) (reference_node rt ` set ?rs)) ?ok (add_coverage rt x h)" by simp
  qed
  let ?cov = "map Candidate ?rs @ concat (map (coverage_exposures ?rs) evidence)"
  have consent: "upholds (graph_inv rt ?asset ?ids (?cov @ concat (map consent_exposures evidence)) (set ?rs) {}) ?ok
      (res_fold (add_consent rt ?asset (root_node_id ?asset)) evidence g)"
    if "graph_inv rt ?asset ?ids ?cov (set ?rs) (reference_node rt ` set ?rs) g" for g
  proof (rule upholds_fold [where P = "\<lambda>ys. graph_inv rt ?asset ?ids
      (?cov @ concat (map consent_exposures ys)) (set ?rs) {}"])
    show "graph_inv rt ?asset ?ids (?cov @ concat (map consent_exposures [])) (set ?rs) {} g"
      using that by (auto elim: graph_inv_mono)
  next
    fix ys x h
    assume x: "x \<in> set evidence"
      and h: "graph_inv rt ?asset ?ids (?cov @ concat (map consent_exposures ys)) (set ?rs) {} h"
    have "?ok \<Longrightarrow> len_between 1 300 (exposure_label y)" if "y \<in> set (consent_exposures x)" for y
      using label [of y] x that by (auto simp: exposures_def)
    from add_consent_inv [OF h assms(1,2) wf [OF x] _ this] x
    show "upholds (graph_inv rt ?asset ?ids (?cov @ concat (map consent_exposures (ys @ [x]))) (set ?rs) {}) ?ok
        (add_consent rt ?asset (root_node_id ?asset) x h)" by simp
  qed
  have campaign: "upholds (graph_inv rt ?asset ?ids (exposures ?cx evidence) (set ?rs) {}) ?ok
      (add_campaign rt ?asset (root_node_id ?asset) ?cx ?pol g)"
    if g: "graph_inv rt ?asset ?ids (?cov @ concat (map consent_exposures evidence)) (set ?rs) {} g" for g
  proof -
    have pol: "distinct ?pol" "set ?pol \<subseteq> ?ids"
      using assms(3) by (auto simp: policy_evidence_ids_def evidence_ready_def distinct_map_filter)
    have "?ok \<Longrightarrow> len_between 1 300 (exposure_label y)" if "y \<in> set (campaign_exposures ?cx ?pol)" for y
      using label [of y] that by (auto simp: exposures_def)
    from add_campaign_inv [OF g assms(1,2) pol this] show ?thesis by (simp add: exposures_def)
  qed
  show ?thesis
    unfolding build_state_def Let_def
    by (intro upholds_bind [OF root] upholds_bind [OF references] upholds_bind [OF coverage]
        upholds_bind [OF consent] campaign)
qed

subsection \<open>The graph\<close>

lemma map_snd_keys:
  assumes "distinct (map fst kvs)" and "\<And>k v. map_of kvs k = Some v \<Longrightarrow> f v = k"
  shows "map f (map snd kvs) = map fst kvs" and "set (map snd kvs) = ran (map_of kvs)"
proof -
  have "f v = k" if "(k, v) \<in> set kvs" for k v
    using assms that by simp
  then show "map f (map snd kvs) = map fst kvs" by auto
  show "set (map snd kvs) = ran (map_of kvs)" using ran_distinct [OF assms(1)] by simp
qed

lemma graph_of_state_inv:
  assumes "graph_inv rt asset ids xs R K g" and "is_sha256 asset"
  shows "wf_graph (graph_of_state asset g)"
    and "list_all wf_node (gr_nodes (graph_of_state asset g))" and "list_all wf_edge (gr_edges (graph_of_state asset g))"
    and "set (graph_evidence_ids (graph_of_state asset g)) \<subseteq> ids"
    and "edge_triple ` set (gr_edges (graph_of_state asset g)) \<subseteq> exposure_edge rt asset ` set xs"
    and "ge_edge_id ` set (gr_edges (graph_of_state asset g)) = (\<lambda>x. fst (exposure_edge rt asset x)) ` set xs"
proof -
  note inv = assms(1) [unfolded graph_inv_def]
  have nodes: "map gn_node_id (map snd (gs_nodes g)) = map fst (gs_nodes g)" "set (map snd (gs_nodes g)) = ran (map_of (gs_nodes g))"
    using inv by (intro map_snd_keys [where f = gn_node_id]; simp)+
  have edges: "map ge_edge_id (map snd (gs_edges g)) = map fst (gs_edges g)" "set (map snd (gs_edges g)) = ran (map_of (gs_edges g))"
    using inv by (intro map_snd_keys [where f = ge_edge_id]; simp)+
  have ids: "gn_node_id ` set (map snd (gs_nodes g)) = dom (map_of (gs_nodes g))"
    using nodes(1) by (metis dom_map_of_conv_image_fst set_map)
  have root: "\<exists>n \<in> set (map snd (gs_nodes g)). gn_node_id n = root_node_id asset \<and> gn_kind n = Node_ASSET"
    unfolding nodes(2) using inv by (metis ranI)
  have ends: "\<forall>e \<in> set (map snd (gs_edges g)).
      {ge_source_node_id e, ge_target_node_id e} \<subseteq> gn_node_id ` set (map snd (gs_nodes g))"
    unfolding ids edges(2) ran_def using inv by blast
  show "wf_graph (graph_of_state asset g)"
    using inv assms(2) root ends nodes(1) edges(1)
    by (simp add: wf_graph_def graph_of_state_def del: map_map list.map_comp)
  have node: "wf_node n \<and> set (gn_evidence_ids n) \<subseteq> ids" if "n \<in> set (map snd (gs_nodes g))" for n
    using that inv unfolding nodes(2) ran_def by blast
  have edge: "wf_edge e \<and> set (ge_evidence_ids e) \<subseteq> ids \<and> edge_triple e \<in> exposure_edge rt asset ` set xs"
    if "e \<in> set (map snd (gs_edges g))" for e
    using that inv unfolding edges(2) ran_def by blast
  show "list_all wf_node (gr_nodes (graph_of_state asset g))" "list_all wf_edge (gr_edges (graph_of_state asset g))"
    using node edge by (simp_all only: graph_of_state_def exposure_graph.simps list_all_iff) blast+
  show "edge_triple ` set (gr_edges (graph_of_state asset g)) \<subseteq> exposure_edge rt asset ` set xs"
    using edge by (simp only: graph_of_state_def exposure_graph.simps) blast
  show "set (graph_evidence_ids (graph_of_state asset g)) \<subseteq> ids"
    using node edge by (fastforce simp: graph_of_state_def graph_evidence_ids_def)
  have "ge_edge_id ` set (map snd (gs_edges g)) = dom (map_of (gs_edges g))"
    using edges(1) by (metis dom_map_of_conv_image_fst set_map)
  then show "ge_edge_id ` set (gr_edges (graph_of_state asset g)) = (\<lambda>x. fst (exposure_edge rt asset x)) ` set xs"
    using inv by (simp add: graph_of_state_def)
qed

lemma build_graph_result:
  assumes "sha_ok rt" and "is_sha256 (ad_sha256 (ir_asset (rq_asset_ir request)))" and "evidence_ready evidence"
  shows "upholds (\<lambda>g. wf_graph g \<and> gr_asset_sha256 g = ad_sha256 (ir_asset (rq_asset_ir request)) \<and>
      gr_root_node_id g = root_node_id (ad_sha256 (ir_asset (rq_asset_ir request))) \<and>
      list_all wf_node (gr_nodes g) \<and> list_all wf_edge (gr_edges g) \<and>
      set (graph_evidence_ids g) \<subseteq> ev_evidence_id ` set evidence \<and>
      edge_triple ` set (gr_edges g) \<subseteq> exposure_edge rt (ad_sha256 (ir_asset (rq_asset_ir request))) `
        set (exposures (rq_context request) evidence) \<and>
      ge_edge_id ` set (gr_edges g) = (\<lambda>x. fst (exposure_edge rt (ad_sha256 (ir_asset (rq_asset_ir request))) x)) `
        set (exposures (rq_context request) evidence))
    (list_all (len_between 1 300) (graph_labels request evidence)) (build_graph rt request evidence)"
  unfolding build_graph_def
proof (rule upholds_bind [OF build_state_inv [OF assms]])
  let ?asset = "ad_sha256 (ir_asset (rq_asset_ir request))"
  fix g
  assume g: "graph_inv rt ?asset (ev_evidence_id ` set evidence) (exposures (rq_context request) evidence)
      (set (matched_references evidence)) {} g"
  note final = graph_of_state_inv [OF g assms(2)]
  show "upholds (\<lambda>g. wf_graph g \<and> gr_asset_sha256 g = ?asset \<and> gr_root_node_id g = root_node_id ?asset \<and>
      list_all wf_node (gr_nodes g) \<and> list_all wf_edge (gr_edges g) \<and>
      set (graph_evidence_ids g) \<subseteq> ev_evidence_id ` set evidence \<and>
      edge_triple ` set (gr_edges g) \<subseteq> exposure_edge rt ?asset ` set (exposures (rq_context request) evidence) \<and>
      ge_edge_id ` set (gr_edges g) = (\<lambda>x. fst (exposure_edge rt ?asset x)) ` set (exposures (rq_context request) evidence))
    (list_all (len_between 1 300) (graph_labels request evidence)) (validate_graph (graph_of_state ?asset g))"
    unfolding graph.validate_fix [OF final(1)] upholds_simps using final
    by (simp add: graph_of_state_def)
qed

text \<open>
  C15: for valid evidence of distinct identifiers the graph construction raises only when one of the labels it shows
  (file name, reference, licence, subject, consent, use, territory) is empty or longer than 300 characters; otherwise
  the graph is valid, bound to the asset and rooted in it, its nodes and edges are valid and it cites only given evidence.
\<close>

theorem build_graph_valid:
  assumes "sha_ok rt" and "is_sha256 (ad_sha256 (ir_asset (rq_asset_ir request)))" and "evidence_ready evidence"
  shows "case build_graph rt request evidence of
      Inl _ \<Rightarrow> \<not> list_all (len_between 1 300) (graph_labels request evidence)
    | Inr g \<Rightarrow> wf_graph g \<and> gr_asset_sha256 g = ad_sha256 (ir_asset (rq_asset_ir request)) \<and>
        gr_root_node_id g = root_node_id (ad_sha256 (ir_asset (rq_asset_ir request))) \<and>
        list_all wf_node (gr_nodes g) \<and> list_all wf_edge (gr_edges g) \<and>
        set (graph_evidence_ids g) \<subseteq> ev_evidence_id ` set evidence"
  using build_graph_result [OF assms] by (simp add: upholds_def split: sum.splits)

definition demo_graph_evidence :: "evidence_pointer list" where
  "demo_graph_evidence =
     [\<lparr>ev_evidence_id = ''e-1'', ev_asset_sha256 = demo_sha, ev_kind = Ev_REFERENCE_MATCH,
       ev_source = ''registry'', ev_component_id = ''rights.local-image-registry'', ev_component_version = ''1'',
       ev_polarity = Pol_SUPPORTS, ev_confidence = 1 / 2, ev_locator = whole_asset, ev_summary = ''match'', ev_payload_sha256 = None,
       ev_attributes = [(''reference_id'', AStr ''ref-1'')]\<rparr>,
      \<lparr>ev_evidence_id = ''e-2'', ev_asset_sha256 = demo_sha, ev_kind = Ev_LICENCE_RECORD,
       ev_source = ''registry'', ev_component_id = ''rights.licence-evaluator'', ev_component_version = ''1'',
       ev_polarity = Pol_SUPPORTS, ev_confidence = 1, ev_locator = whole_asset, ev_summary = ''covered'', ev_payload_sha256 = None,
       ev_attributes = [(''reference_id'', AStr ''ref-1''), (''covering_licence_ids'', AStr ''lic-1,lic-2''),
         (''covered'', ABool True)]\<rparr>]"

lemma demo_graph_evidence_ready: "evidence_ready demo_graph_evidence"
  by (simp add: evidence_ready_def demo_graph_evidence_def wf_evidence_def evidence_fields_def is_id_def is_id_char_def is_id_head_def
      is_lower_def is_upper_def is_digit_def ord_def len_between_def unit_interval_def)

lemma demo_exposures:
  "exposures demo_context demo_graph_evidence =
    [Candidate ''ref-1'', Covered ''ref-1'' ''lic-1'', Covered ''ref-1'' ''lic-2'']"
  by (simp add: exposures_def matched_references_def map_filter_def matched_reference_def string_attr_def
      coverage_exposures_def coverage_of_def consent_exposures_def consent_of_def campaign_exposures_def
      policy_evidence_ids_def demo_graph_evidence_def)

theorem build_graph_valid_witness:
  "\<exists>g. build_graph demo_runtime demo_request demo_graph_evidence = Inr g \<and> wf_graph g"
proof -
  have "is_sha256 (ad_sha256 (ir_asset (rq_asset_ir demo_request)))"
    by (simp add: demo_request_def demo_asset_ir_def demo_asset_def)
  from build_graph_valid [OF sha_ok_demo this demo_graph_evidence_ready]
  have "list_all (len_between 1 300) (graph_labels demo_request demo_graph_evidence) \<Longrightarrow> ?thesis"
    by (auto split: sum.splits)
  moreover have "list_all (len_between 1 300) (graph_labels demo_request demo_graph_evidence)"
    by (simp add: graph_labels_def demo_request_def demo_exposures demo_asset_ir_def demo_asset_def len_between_def)
  ultimately show ?thesis by blast
qed

text \<open>
  C16: a built graph refines the exposures its evidence declares: every edge is the realisation of a declared exposure
  (its kind, its ends and its identifier), and every declared exposure has its edge identifier in the graph. In
  particular a licence edge starts at a reference the evidence matched.
\<close>

theorem build_graph_refines:
  assumes "sha_ok rt" and "is_sha256 (ad_sha256 (ir_asset (rq_asset_ir request)))" and "evidence_ready evidence"
    and "build_graph rt request evidence = Inr g"
  shows "edge_triple ` set (gr_edges g) \<subseteq> exposure_edge rt (ad_sha256 (ir_asset (rq_asset_ir request))) `
      set (exposures (rq_context request) evidence) \<and>
    ge_edge_id ` set (gr_edges g) = fst ` exposure_edge rt (ad_sha256 (ir_asset (rq_asset_ir request))) `
      set (exposures (rq_context request) evidence)"
  using build_graph_result [OF assms(1-3)] assms(4) by (simp_all add: image_image)

theorem build_graph_refines_witness:
  "\<exists>g. build_graph demo_runtime demo_request demo_graph_evidence = Inr g \<and>
    graph_id demo_runtime ''edge.covered-by'' ''ref-1:lic-2'' \<in> ge_edge_id ` set (gr_edges g)"
proof -
  have asset: "is_sha256 (ad_sha256 (ir_asset (rq_asset_ir demo_request)))"
    by (simp add: demo_request_def demo_asset_ir_def demo_asset_def)
  have "list_all (len_between 1 300) (graph_labels demo_request demo_graph_evidence)"
    by (simp add: graph_labels_def demo_request_def demo_exposures demo_asset_ir_def demo_asset_def len_between_def)
  with build_graph_result [OF sha_ok_demo asset demo_graph_evidence_ready]
  obtain g where g: "build_graph demo_runtime demo_request demo_graph_evidence = Inr g"
    by (auto simp: upholds_def split: sum.splits)
  have "rq_context demo_request = demo_context" by (simp add: demo_request_def)
  with build_graph_refines [OF sha_ok_demo asset demo_graph_evidence_ready g] g show ?thesis
    by (auto simp: demo_exposures)
qed

end
