(* ===== verification/Execution.thy ===== *)
theory Execution
  imports Combine Exposure_Graph
begin

section \<open>Executing an assessment\<close>

text \<open>
  \<open>execute_rightsgate_assessment\<close> of \<open>rightsgate/execution.py\<close>: the inputs are checked, the lanes of the media kind
  run, their assessments are combined, the policy decides over every component including the missing ones, and the
  result passes the assessment contract. The variables the three branches set are a record.
\<close>

subsection \<open>The lanes of a media kind\<close>

record lane_outcome =
  lc_provenance :: provenance_assessment
  lc_match :: rights_match
  lc_localization :: "localization option"
  lc_components :: "component_record list"
  lc_evidence :: "evidence_pointer list"
  lc_licence_evidence :: "evidence_pointer list"
  lc_audio_rights :: "rights_assessment option"
  lc_consents :: "consent_analysis list"

definition optional_lane :: "'a option \<Rightarrow> ('a \<Rightarrow> 'b res) \<Rightarrow> 'b list res" where
  "optional_lane registry lane =
     (case registry of None \<Rightarrow> Inr [] | Some r \<Rightarrow> res_bind (lane r) (\<lambda>result. Inr [result]))"

definition image_lanes ::
    "runtime \<Rightarrow> exec_lib \<Rightarrow> string \<Rightarrow> governed_inputs \<Rightarrow> datetime \<Rightarrow> provenance_result \<Rightarrow> lane_outcome res" where
  "image_lanes rt lib data gi created_at c2pa =
     (let cx = rq_context (gi_request gi); asset = ad_sha256 (ir_asset (rq_asset_ir (gi_request gi)));
          lib_a = xl_analysis lib
      in res_bind (inspect_image_forensics rt (al_forensic lib_a) data asset 40000000) (\<lambda>forensic.
         res_bind (optional_lane (gi_watermarks gi) (\<lambda>registry.
           verify_visible_watermarks rt (xl_watermark lib) data asset cx registry 40000000)) (\<lambda>watermark.
         res_bind (combine_provenance (pr_assessment c2pa # pr_assessment forensic # map pr_assessment watermark)) (\<lambda>provenance.
         res_bind (match_reference_image rt (al_image lib_a) data asset (gi_rights gi) (gi_max_hamming_distance gi)
           default_max_pixels) (\<lambda>found.
         res_bind (localize_reference_images rt (al_image lib_a) (al_localizer lib_a) data asset (gi_rights gi)
           default_max_pixels (19 / 25) 6 (9 / 20)) (\<lambda>localized.
         res_bind (optional_lane (gi_consents gi) (\<lambda>registry.
           analyze_likeness_consent rt (al_image lib_a) data asset cx registry created_at)) (\<lambda>likeness.
         Inr \<lparr>lc_provenance = provenance, lc_match = found, lc_localization = Some localized,
              lc_components = [pr_component forensic, rm_component found, lo_component localized] @
                map pr_component watermark @ map ca_component likeness,
              lc_evidence = pr_evidence forensic @ rm_evidence found @ lo_evidence localized @
                concat (map pr_evidence watermark) @ concat (map ca_evidence likeness),
              lc_licence_evidence = lo_evidence localized, lc_audio_rights = None, lc_consents = likeness\<rparr>)))))))"

definition video_lanes ::
    "runtime \<Rightarrow> settings \<Rightarrow> exec_lib \<Rightarrow> string \<Rightarrow> governed_inputs \<Rightarrow> provenance_result \<Rightarrow> lane_outcome res" where
  "video_lanes rt st lib data gi c2pa =
     (let d = ir_asset (rq_asset_ir (gi_request gi))
      in res_bind (analyze_video_visuals rt st (xl_analysis lib) data (ad_original_filename d) (ad_sha256 d) (gi_rights gi)
           (gi_max_hamming_distance gi) (st_max_video_evidence_frames st)) (\<lambda>video.
         res_bind (combine_provenance [pr_assessment c2pa, va_forensic video]) (\<lambda>provenance.
         Inr \<lparr>lc_provenance = provenance, lc_match = va_image_match video, lc_localization = Some (va_localization video),
              lc_components = va_sampler_component video # va_detector_components video, lc_evidence = va_evidence video,
              lc_licence_evidence = lo_evidence (va_localization video), lc_audio_rights = None, lc_consents = []\<rparr>)))"

definition audio_lanes ::
    "runtime \<Rightarrow> exec_lib \<Rightarrow> string \<Rightarrow> governed_inputs \<Rightarrow> datetime \<Rightarrow> provenance_result \<Rightarrow> lane_outcome res" where
  "audio_lanes rt lib data gi created_at c2pa =
     (let cx = rq_context (gi_request gi); asset = ad_sha256 (ir_asset (rq_asset_ir (gi_request gi)))
      in res_bind (inspect_pcm_wav rt (vl_wave (xl_voice lib)) data asset) (\<lambda>audio.
         res_bind (combine_provenance [pr_assessment c2pa, aa_provenance audio]) (\<lambda>provenance.
         res_bind (optional_lane (gi_consents gi) (\<lambda>registry.
           analyze_voice_consent rt (xl_voice lib) data asset cx registry created_at)) (\<lambda>voice.
         res_bind (case voice of [] \<Rightarrow> res_bind (declared_unavailable_component ''rights.voice-consent'') (\<lambda>k. Inr [k])
           | _ \<Rightarrow> Inr (map ca_component voice)) (\<lambda>voice_components.
         Inr \<lparr>lc_provenance = provenance,
              lc_match = \<lparr>rm_component = aa_component audio, rm_evidence = [], rm_assessment = aa_rights audio\<rparr>,
              lc_localization = None, lc_components = aa_component audio # voice_components,
              lc_evidence = aa_evidence audio @ concat (map ca_evidence voice), lc_licence_evidence = [],
              lc_audio_rights = Some (aa_rights audio), lc_consents = voice\<rparr>)))))"

definition run_lanes ::
    "runtime \<Rightarrow> settings \<Rightarrow> exec_lib \<Rightarrow> string \<Rightarrow> governed_inputs \<Rightarrow> datetime \<Rightarrow> provenance_result \<Rightarrow>
     lane_outcome res" where
  "run_lanes rt st lib data gi created_at c2pa =
     (case ad_media_kind (ir_asset (rq_asset_ir (gi_request gi))) of
        Media_IMAGE \<Rightarrow> image_lanes rt lib data gi created_at c2pa
      | Media_VIDEO \<Rightarrow> video_lanes rt st lib data gi c2pa
      | _ \<Rightarrow> audio_lanes rt lib data gi created_at c2pa)"

subsection \<open>Rights and components\<close>

text \<open>The audio branch extends the assessment of the parser by \<open>model_copy\<close>, which does not validate.\<close>

definition lane_rights :: "lane_outcome \<Rightarrow> licence_evaluation \<Rightarrow> rights_assessment res" where
  "lane_rights lanes licence =
     (case (lc_audio_rights lanes, lc_localization lanes) of
        (Some direct, _) \<Rightarrow> Inr (direct\<lparr>ra_claims := ra_claims direct @ le_claims licence,
          ra_limitations := sorted_set (ra_limitations direct @ le_limitations licence)\<rparr>)
      | (None, Some localized) \<Rightarrow> combine_rights (lc_match lanes) localized licence
      | (None, None) \<Rightarrow> Inl (AssertionError []))"

definition executor_component :: component_record where
  "executor_component =
     \<lparr>co_component_id = ''orchestration.executor'', co_component_version = executor_version,
      co_component_type = ''orchestration.trusted-media-executor'', co_state = Comp_AVAILABLE, co_mandatory = True,
      co_artifact_sha256 = None, co_reason = None\<rparr>"

definition require_component :: "string \<Rightarrow> component_record list \<Rightarrow> component_record list res" where
  "require_component component_id components =
     (if component_id \<in> set (map co_component_id components) then Inr components
      else res_bind (declared_unavailable_component component_id) (\<lambda>k. Inr (components @ [k])))"

definition assessed_components ::
    "publication_policy \<Rightarrow> provenance_result \<Rightarrow> lane_outcome \<Rightarrow> licence_evaluation \<Rightarrow> component_record list res" where
  "assessed_components policy c2pa lanes licence =
     res_fold require_component (pp_required_component_ids policy)
       ([executor_component, pr_component c2pa] @ lc_components lanes @ [le_component licence])"

subsection \<open>The assessment\<close>

definition assessment_token :: "runtime \<Rightarrow> string \<Rightarrow> string \<Rightarrow> string" where
  "assessment_token rt fingerprint key = take 32 (rt_sha256 rt (fingerprint @ '':'' @ key))"

text \<open>The code after the policy evaluation.\<close>

definition conclude_assessment ::
    "runtime \<Rightarrow> assessment_request \<Rightarrow> datetime \<Rightarrow> string \<Rightarrow> component_record list \<Rightarrow> evidence_pointer list \<Rightarrow>
     provenance_assessment \<Rightarrow> rights_assessment \<Rightarrow> policy_evaluation \<Rightarrow> rightsgate_assessment res" where
  "conclude_assessment rt request created_at fingerprint components lane_evidence provenance rights policy_result =
     (let evidence = sort_key ev_evidence_id (lane_evidence @ pe_evidence policy_result)
      in res_bind (build_graph rt request evidence) (\<lambda>graph.
         validate_assessment
           \<lparr>as_assessment_id = ''assessment.'' @ assessment_token rt fingerprint (rq_idempotency_key request),
            as_created_at = created_at, as_asset = ir_asset (rq_asset_ir request), as_context = rq_context request,
            as_components = sort_key co_component_id (components @ [pe_component policy_result]),
            as_evidence = evidence, as_exposure_graph = graph, as_provenance = provenance, as_rights = rights,
            as_deployment = pe_assessment policy_result\<rparr>))"

text \<open>The code between the lanes and the policy evaluation.\<close>

definition decide_assessment ::
    "runtime \<Rightarrow> settings \<Rightarrow> exec_lib \<Rightarrow> governed_inputs \<Rightarrow> datetime \<Rightarrow> provenance_result \<Rightarrow> lane_outcome \<Rightarrow>
     rightsgate_assessment res" where
  "decide_assessment rt st lib gi created_at c2pa lanes =
     (let request = gi_request gi; asset = ad_sha256 (ir_asset (rq_asset_ir request)); cx = rq_context request
      in res_bind (evaluate_candidate_licences rt (lc_match lanes) asset cx (gi_licences gi) created_at
           (lc_licence_evidence lanes)) (\<lambda>licence.
         res_bind (lane_rights lanes licence) (\<lambda>base.
         res_bind (combine_consent_rights base (lc_consents lanes)) (\<lambda>rights.
         res_bind (assessed_components (gi_policy gi) c2pa lanes licence) (\<lambda>components.
         res_bind (evaluate_publication_policy rt asset cx (gi_policy gi) (lc_provenance lanes) rights licence components)
           (\<lambda>policy_result.
         conclude_assessment rt request created_at (execution_fingerprint rt st (xl_c2pa lib) gi) components
           (pr_evidence c2pa @ lc_evidence lanes @ le_evidence licence) (lc_provenance lanes) rights policy_result))))))"

definition execute_rightsgate_assessment ::
    "runtime \<Rightarrow> settings \<Rightarrow> exec_lib \<Rightarrow> string \<Rightarrow> governed_inputs \<Rightarrow> datetime \<Rightarrow> rightsgate_assessment res" where
  "execute_rightsgate_assessment rt st lib data gi created_at =
     (let request = gi_request gi; d = ir_asset (rq_asset_ir request)
      in if \<not> is_aware created_at then Inl (ValueError ''created_at must be timezone-aware'')
         else res_bind (validate_execution_asset rt st lib data request) (\<lambda>_.
           res_bind (validate_governed_inputs gi) (\<lambda>_.
           res_bind (verify_c2pa rt (xl_c2pa lib) data (ad_media_type d) (ad_sha256 d)) (\<lambda>c2pa.
           res_bind (run_lanes rt st lib data gi created_at c2pa) (\<lambda>lanes.
           decide_assessment rt st lib gi created_at c2pa lanes)))))"

subsection \<open>What a successful execution went through\<close>

lemma validate_upload_sha: "validate_upload rt st vlib lib data name = Inr (k, m, sha) \<Longrightarrow> sha = rt_sha256 rt data"
  by (auto simp: validate_upload_def Let_def raise_upload_def res_bind_Inr_iff split: if_splits option.splits)

lemma as_input_error_Inr [simp]: "as_input_error rt r = Inr x \<longleftrightarrow> r = Inr x"
  by (simp add: as_input_error_def split: sum.splits)

lemma validate_execution_asset_bound:
  assumes "validate_execution_asset rt st lib data request = Inr u"
  shows "rt_sha256 rt data = ad_sha256 (ir_asset (rq_asset_ir request))"
    and "int (length data) = ad_size_bytes (ir_asset (rq_asset_ir request))"
    and "ad_media_kind (ir_asset (rq_asset_ir request)) \<in> {Media_IMAGE, Media_VIDEO, Media_AUDIO}"
proof -
  let ?d = "ir_asset (rq_asset_ir request)"
  have "rt_sha256 rt data = ad_sha256 ?d \<and> int (length data) = ad_size_bytes ?d \<and>
      ad_media_kind ?d \<in> {Media_IMAGE, Media_VIDEO, Media_AUDIO}"
  proof (cases "ad_media_kind ?d = Media_AUDIO")
    case True
    with assms show ?thesis
      by (simp add: validate_execution_asset_def validate_audio_asset_def Let_def split: if_splits)
  next
    case False
    then have up: "validate_upload_asset rt st lib data ?d = Inr u"
      using assms by (simp add: validate_execution_asset_def Let_def)
    then obtain k m sha where v: "validate_upload rt st (al_video (xl_analysis lib)) (xl_upload lib) data
        (sanitize_filename (ad_original_filename ?d)) = Inr (k, m, sha)"
      by (auto simp: validate_upload_asset_def Let_def split: sum.splits py_error.splits prod.splits)
    have "ad_media_kind ?d \<in> {Media_IMAGE, Media_VIDEO}"
      using up v by (cases "ad_media_kind ?d") (auto simp: validate_upload_asset_def Let_def)
    with up v show ?thesis
      by (auto simp: validate_upload_asset_def Let_def validate_upload_sha [OF v] split: if_splits)
  qed
  then show "rt_sha256 rt data = ad_sha256 ?d" "int (length data) = ad_size_bytes ?d"
    "ad_media_kind ?d \<in> {Media_IMAGE, Media_VIDEO, Media_AUDIO}" by auto
qed

lemma validate_governed_inputs_policy:
  "validate_governed_inputs gi = Inr u \<Longrightarrow>
    cx_policy_id (rq_context (gi_request gi)) = pp_policy_id (gi_policy gi) \<and>
    cx_policy_version (rq_context (gi_request gi)) = pp_version (gi_policy gi)"
  by (simp add: validate_governed_inputs_def Let_def split: if_splits)

lemma execute_InrE:
  assumes "execute_rightsgate_assessment rt st lib data gi created_at = Inr a"
  obtains c2pa lanes where "is_aware created_at" and "validate_execution_asset rt st lib data (gi_request gi) = Inr ()"
    and "validate_governed_inputs gi = Inr ()"
    and "verify_c2pa rt (xl_c2pa lib) data (ad_media_type (ir_asset (rq_asset_ir (gi_request gi))))
      (ad_sha256 (ir_asset (rq_asset_ir (gi_request gi)))) = Inr c2pa"
    and "run_lanes rt st lib data gi created_at c2pa = Inr lanes"
    and "decide_assessment rt st lib gi created_at c2pa lanes = Inr a"
  using assms by (auto simp: execute_rightsgate_assessment_def Let_def res_bind_Inr_iff split: if_splits)

lemma decide_InrE:
  assumes "decide_assessment rt st lib gi created_at c2pa lanes = Inr a"
  obtains licence base rights components policy_result where
    "evaluate_candidate_licences rt (lc_match lanes) (ad_sha256 (ir_asset (rq_asset_ir (gi_request gi))))
      (rq_context (gi_request gi)) (gi_licences gi) created_at (lc_licence_evidence lanes) = Inr licence"
    and "lane_rights lanes licence = Inr base" and "combine_consent_rights base (lc_consents lanes) = Inr rights"
    and "assessed_components (gi_policy gi) c2pa lanes licence = Inr components"
    and "evaluate_publication_policy rt (ad_sha256 (ir_asset (rq_asset_ir (gi_request gi)))) (rq_context (gi_request gi))
      (gi_policy gi) (lc_provenance lanes) rights licence components = Inr policy_result"
    and "conclude_assessment rt (gi_request gi) created_at (execution_fingerprint rt st (xl_c2pa lib) gi) components
      (pr_evidence c2pa @ lc_evidence lanes @ le_evidence licence) (lc_provenance lanes) rights policy_result = Inr a"
  using assms unfolding decide_assessment_def Let_def by (auto elim!: res_bind_InrE)

lemma conclude_InrD:
  assumes "conclude_assessment rt request created_at fingerprint components evidence provenance rights e = Inr a"
  shows "wf_assessment a" and "as_asset a = ir_asset (rq_asset_ir request)" and "as_context a = rq_context request"
    and "as_created_at a = created_at" and "as_provenance a = provenance" and "as_rights a = rights"
    and "as_deployment a = pe_assessment e" and "set (as_components a) = insert (pe_component e) (set components)"
    and "set (as_evidence a) = set evidence \<union> set (pe_evidence e)"
    and "as_assessment_id a = ''assessment.'' @ assessment_token rt fingerprint (rq_idempotency_key request)"
  using assms
  by (auto simp: conclude_assessment_def Let_def validate_assessment_iff elim!: res_bind_InrE)

text \<open>Every required component is present: the loop appends a record for each identifier nothing provides.\<close>

lemma declared_component_id: "declared_unavailable_component i = Inr k \<Longrightarrow> co_component_id k = i"
  by (auto simp: declared_unavailable_component_def validate_component_def split: prod.splits if_splits)

lemma require_all:
  "res_fold require_component ids ks = Inr ks' \<Longrightarrow>
    set ks \<subseteq> set ks' \<and> set ids \<subseteq> co_component_id ` set ks' \<and>
    co_component_id ` set ks' = co_component_id ` set ks \<union> set ids"
proof (induction ids arbitrary: ks)
  case (Cons i ids)
  then obtain ks1 where step: "require_component i ks = Inr ks1" and rest: "res_fold require_component ids ks1 = Inr ks'"
    by (auto elim!: res_bind_InrE)
  have "set ks \<subseteq> set ks1 \<and> co_component_id ` set ks1 = insert i (co_component_id ` set ks)"
    using step by (auto simp: require_component_def res_bind_Inr_iff split: if_splits dest: declared_component_id)
  with Cons.IH [OF rest] show ?case by auto
qed simp

subsection \<open>What it can decide\<close>

text \<open>The direct rights of the audio branch are unknown.\<close>

lemma run_lanes_audio_rights:
  assumes "run_lanes rt st lib data gi created_at c2pa = Inr lanes" and "lc_audio_rights lanes = Some r"
    and "sha_ok rt" and "rt_sha256 rt data = ad_sha256 (ir_asset (rq_asset_ir (gi_request gi)))"
  shows "ra_verdict r = Rights_UNKNOWN"
proof -
  let ?asset = "ad_sha256 (ir_asset (rq_asset_ir (gi_request gi)))"
  from assms(1,2) obtain audio where audio: "inspect_pcm_wav rt (vl_wave (xl_voice lib)) data ?asset = Inr audio"
    and r: "r = aa_rights audio"
    by (cases "ad_media_kind (ir_asset (rq_asset_ir (gi_request gi)))")
      (auto simp: run_lanes_def image_lanes_def video_lanes_def audio_lanes_def Let_def elim!: res_bind_InrE)
  from inspect_pcm_wav_result [OF assms(3,4), of "vl_wave (xl_voice lib)"] audio r show ?thesis
    by (auto simp: audio_sound_def wf_rights_def)
qed

lemma lane_rights_not_clear:
  assumes "lane_rights lanes licence = Inr r"
    and "\<And>r. lc_audio_rights lanes = Some r \<Longrightarrow> ra_verdict r = Rights_UNKNOWN"
  shows "ra_verdict r \<noteq> Rights_CLEAR"
  using assms by (auto simp: lane_rights_def dest: combine_rights_verdict split: option.splits)

lemma execute_rights_not_clear:
  assumes "sha_ok rt" and "execute_rightsgate_assessment rt st lib data gi created_at = Inr a"
  shows "ra_verdict (as_rights a) \<noteq> Rights_CLEAR"
proof -
  from assms(2) obtain c2pa lanes where valid: "validate_execution_asset rt st lib data (gi_request gi) = Inr ()"
    and run: "run_lanes rt st lib data gi created_at c2pa = Inr lanes"
    and tail: "decide_assessment rt st lib gi created_at c2pa lanes = Inr a"
    by (rule execute_InrE)
  note digest = validate_execution_asset_bound(1) [OF valid]
  from tail obtain licence base rights components e where
    base: "lane_rights lanes licence = Inr base" and rights: "combine_consent_rights base (lc_consents lanes) = Inr rights"
    and conclude: "conclude_assessment rt (gi_request gi) created_at (execution_fingerprint rt st (xl_c2pa lib) gi) components
      (pr_evidence c2pa @ lc_evidence lanes @ le_evidence licence) (lc_provenance lanes) rights e = Inr a"
    by (rule decide_InrE)
  have "ra_verdict base \<noteq> Rights_CLEAR"
    using lane_rights_not_clear [OF base] run_lanes_audio_rights [OF run _ assms(1) digest] by blast
  with combine_consent_rights_verdict(1) [OF rights] show ?thesis by (simp add: conclude_InrD(6) [OF conclude])
qed

lemma execution_not_released:
  assumes "sha_ok rt" and "execute_rightsgate_assessment rt st lib data gi created_at = Inr a"
  shows "ra_verdict (as_rights a) \<noteq> Rights_CLEAR \<and> da_decision (as_deployment a) \<in> {Decision_BLOCK, Decision_REVIEW}"
proof -
  have "wf_assessment a" using assms(2) by (elim execute_InrE decide_InrE) (rule conclude_InrD(1))
  moreover note execute_rights_not_clear [OF assms]
  ultimately show ?thesis
    by (cases "da_decision (as_deployment a)") (auto simp: wf_assessment_def go_ok_def)
qed

text \<open>
  The executor never releases an asset. Whatever its lanes report and whatever the policy says, the rights verdict
  of a completed execution is not CLEAR, so its decision is BLOCK or REVIEW.
\<close>

theorem execution_never_releases:
  assumes "sha_ok rt" and "execute_rightsgate_assessment rt st lib data gi created_at = Inr a"
  shows "ra_verdict (as_rights a) \<noteq> Rights_CLEAR \<and> da_decision (as_deployment a) \<in> {Decision_BLOCK, Decision_REVIEW}"
  by (rule execution_not_released [OF assms])

lemma execution_bound:
  assumes "execute_rightsgate_assessment rt st lib data gi created_at = Inr a"
  shows "rt_sha256 rt data = ad_sha256 (as_asset a) \<and> int (length data) = ad_size_bytes (as_asset a) \<and>
    as_asset a = ir_asset (rq_asset_ir (gi_request gi)) \<and> as_context a = rq_context (gi_request gi) \<and>
    cx_policy_id (as_context a) = pp_policy_id (gi_policy gi) \<and> cx_policy_version (as_context a) = pp_version (gi_policy gi) \<and>
    as_assessment_id a = ''assessment.'' @ assessment_token rt (execution_fingerprint rt st (xl_c2pa lib) gi)
      (rq_idempotency_key (gi_request gi)) \<and>
    as_created_at a = created_at \<and> set (pp_required_component_ids (gi_policy gi)) \<subseteq> co_component_id ` set (as_components a) \<and>
    wf_assessment a"
proof -
  from assms obtain c2pa lanes where valid: "validate_execution_asset rt st lib data (gi_request gi) = Inr ()"
    and governed: "validate_governed_inputs gi = Inr ()"
    and tail: "decide_assessment rt st lib gi created_at c2pa lanes = Inr a"
    by (rule execute_InrE)
  from tail obtain licence rights components e where
    components: "assessed_components (gi_policy gi) c2pa lanes licence = Inr components"
    and conclude: "conclude_assessment rt (gi_request gi) created_at (execution_fingerprint rt st (xl_c2pa lib) gi) components
      (pr_evidence c2pa @ lc_evidence lanes @ le_evidence licence) (lc_provenance lanes) rights e = Inr a"
    by (rule decide_InrE)
  have "set (pp_required_component_ids (gi_policy gi)) \<subseteq> co_component_id ` set (as_components a)"
    using require_all [OF components [unfolded assessed_components_def]] by (auto simp: conclude_InrD(8) [OF conclude])
  with validate_execution_asset_bound(1,2) [OF valid] validate_governed_inputs_policy [OF governed]
    conclude_InrD(1-4,10) [OF conclude] show ?thesis by simp
qed

text \<open>
  C17: a completed execution is bound to its inputs: the bytes have the digest and the size the request declares, the
  asset and the context of the assessment are those of the request, the policy is the one the context names, the
  identifier commits to the fingerprint of every governed input and to the idempotency key, every component the policy
  requires has a record, and the assessment satisfies its contract.
\<close>

theorem execution_bound_to_inputs:
  assumes "execute_rightsgate_assessment rt st lib data gi created_at = Inr a"
  shows "rt_sha256 rt data = ad_sha256 (as_asset a) \<and> int (length data) = ad_size_bytes (as_asset a) \<and>
    as_asset a = ir_asset (rq_asset_ir (gi_request gi)) \<and> as_context a = rq_context (gi_request gi) \<and>
    cx_policy_id (as_context a) = pp_policy_id (gi_policy gi) \<and> cx_policy_version (as_context a) = pp_version (gi_policy gi) \<and>
    as_assessment_id a = ''assessment.'' @ assessment_token rt (execution_fingerprint rt st (xl_c2pa lib) gi)
      (rq_idempotency_key (gi_request gi)) \<and>
    as_created_at a = created_at \<and> set (pp_required_component_ids (gi_policy gi)) \<subseteq> co_component_id ` set (as_components a) \<and>
    wf_assessment a"
  by (rule execution_bound [OF assms])

subsection \<open>Signals that reach the decision\<close>

text \<open>The lanes that can report tampering, and an identity whose consent does not cover the context.\<close>

definition lane_tampered :: "runtime \<Rightarrow> exec_lib \<Rightarrow> string \<Rightarrow> governed_inputs \<Rightarrow> bool" where
  "lane_tampered rt lib data gi =
     (let d = ir_asset (rq_asset_ir (gi_request gi)); cx = rq_context (gi_request gi);
          tampered = (\<lambda>r. case r of Inl _ \<Rightarrow> False | Inr p \<Rightarrow> pa_verdict (pr_assessment p) = Prov_TAMPERED)
      in tampered (verify_c2pa rt (xl_c2pa lib) data (ad_media_type d) (ad_sha256 d)) \<or>
         ad_media_kind d = Media_IMAGE \<and> (case gi_watermarks gi of None \<Rightarrow> False
           | Some registry \<Rightarrow> tampered (verify_visible_watermarks rt (xl_watermark lib) data (ad_sha256 d) cx registry 40000000)))"

definition identity_conflict :: "runtime \<Rightarrow> exec_lib \<Rightarrow> string \<Rightarrow> governed_inputs \<Rightarrow> datetime \<Rightarrow> bool" where
  "identity_conflict rt lib data gi created_at =
     (let d = ir_asset (rq_asset_ir (gi_request gi)); cx = rq_context (gi_request gi);
          conflict = (\<lambda>r. case r of Inl _ \<Rightarrow> False | Inr c \<Rightarrow> ca_policy_conflict c)
      in case gi_consents gi of None \<Rightarrow> False
         | Some registry \<Rightarrow>
             if ad_media_kind d = Media_IMAGE
             then conflict (analyze_likeness_consent rt (al_image (xl_analysis lib)) data (ad_sha256 d) cx registry created_at)
             else ad_media_kind d = Media_AUDIO \<and>
               conflict (analyze_voice_consent rt (xl_voice lib) data (ad_sha256 d) cx registry created_at))"

lemma combine_provenance_tampered:
  "combine_provenance ps = Inr p \<Longrightarrow> pa_verdict p = Prov_TAMPERED \<longleftrightarrow> list_ex (\<lambda>q. pa_verdict q = Prov_TAMPERED) ps"
  using strongest_provenance_tampered [of ps]
  by (auto simp: combine_provenance_def Let_def validate_provenance_def split: if_splits prod.splits)

lemma run_lanes_tampered:
  assumes "run_lanes rt st lib data gi created_at c2pa = Inr lanes" and "lane_tampered rt lib data gi"
    and "verify_c2pa rt (xl_c2pa lib) data (ad_media_type (ir_asset (rq_asset_ir (gi_request gi))))
      (ad_sha256 (ir_asset (rq_asset_ir (gi_request gi)))) = Inr c2pa"
  shows "pa_verdict (lc_provenance lanes) = Prov_TAMPERED"
  using assms
  by (cases "ad_media_kind (ir_asset (rq_asset_ir (gi_request gi)))"; cases "gi_watermarks gi")
    (auto simp: run_lanes_def image_lanes_def video_lanes_def audio_lanes_def lane_tampered_def optional_lane_def Let_def
      combine_provenance_tampered elim!: res_bind_InrE)

lemma run_lanes_conflict:
  assumes "run_lanes rt st lib data gi created_at c2pa = Inr lanes" and "identity_conflict rt lib data gi created_at"
  shows "list_ex ca_policy_conflict (lc_consents lanes)"
  using assms
  by (cases "ad_media_kind (ir_asset (rq_asset_ir (gi_request gi)))"; cases "gi_consents gi")
    (auto simp: run_lanes_def image_lanes_def video_lanes_def audio_lanes_def identity_conflict_def optional_lane_def Let_def
      elim!: res_bind_InrE)

text \<open>
  C18: the blocking signals survive the composition. A completed execution decides BLOCK when a lane reports tampering
  and the policy blocks on it, when an enrolled identity matches without consent for the context and the policy blocks
  on it, or when the policy does not allow the context.
\<close>

theorem execution_blocks:
  assumes "sha_ok rt" and "execute_rightsgate_assessment rt st lib data gi created_at = Inr a"
    and "pp_block_tampered_provenance (gi_policy gi) \<and> lane_tampered rt lib data gi \<or>
      pp_block_unconsented_identity_match (gi_policy gi) \<and> identity_conflict rt lib data gi created_at \<or>
      \<not> context_allowed (rq_context (gi_request gi)) (gi_policy gi)"
  shows "da_decision (as_deployment a) = Decision_BLOCK"
proof -
  let ?asset = "ad_sha256 (ir_asset (rq_asset_ir (gi_request gi)))" and ?cx = "rq_context (gi_request gi)"
  from assms(2) obtain c2pa lanes where valid: "validate_execution_asset rt st lib data (gi_request gi) = Inr ()"
    and governed: "validate_governed_inputs gi = Inr ()"
    and c2: "verify_c2pa rt (xl_c2pa lib) data (ad_media_type (ir_asset (rq_asset_ir (gi_request gi)))) ?asset = Inr c2pa"
    and run: "run_lanes rt st lib data gi created_at c2pa = Inr lanes"
    and tail: "decide_assessment rt st lib gi created_at c2pa lanes = Inr a"
    by (rule execute_InrE)
  from tail obtain licence base rights components e where
    rights: "combine_consent_rights base (lc_consents lanes) = Inr rights"
    and policy: "evaluate_publication_policy rt ?asset ?cx (gi_policy gi) (lc_provenance lanes) rights licence components = Inr e"
    and conclude: "conclude_assessment rt (gi_request gi) created_at (execution_fingerprint rt st (xl_c2pa lib) gi) components
      (pr_evidence c2pa @ lc_evidence lanes @ le_evidence licence) (lc_provenance lanes) rights e = Inr a"
    by (rule decide_InrE)
  have "is_sha256 ?asset" using validate_execution_asset_bound(1) [OF valid] sha_okD [OF assms(1), of data] by simp
  from evaluate_publication_policy_result [OF assms(1) this, of ?cx "gi_policy gi" "lc_provenance lanes" rights licence components]
  have "da_decision (pe_assessment e) = policy_decision (gi_policy gi) ?cx (lc_provenance lanes) rights licence components"
    using validate_governed_inputs_policy [OF governed] policy by auto
  moreover have "must_block (gi_policy gi) ?cx (lc_provenance lanes) rights licence"
    using assms(3) run_lanes_tampered [OF run _ c2] run_lanes_conflict [OF run]
      combine_consent_rights_verdict(2) [OF rights]
    by (auto simp: must_block_def)
  ultimately show ?thesis by (simp add: conclude_InrD(7) [OF conclude] policy_decision_def)
qed

end
