(* ===== verification/Completion.thy ===== *)
theory Completion
  imports Execution "HOL-Library.Multiset"
begin

section \<open>When an execution returns\<close>

text \<open>
  The assessment contract refuses duplicate component, evidence and claim identifiers, so an execution can fail after
  all its lanes have succeeded. Identifiers are built from a family name (the text before the first hyphen), which is
  particular to the lane, so identifiers of different lanes never collide; this theory shows that the executor returns
  an assessment for the inputs it accepts.
\<close>

subsection \<open>Families of identifiers\<close>

definition id_family :: "string \<Rightarrow> string" where
  "id_family s = takeWhile (\<lambda>c. c \<noteq> CHR ''-'') s"

text \<open>The labels an item of evidence contributes to the graph are short enough.\<close>

definition labels_ok :: "evidence_pointer \<Rightarrow> bool" where
  "labels_ok e \<longleftrightarrow> opt_ok (len_between 1 300) (matched_reference e) \<and>
     opt_ok (\<lambda>(s, c). len_between 1 300 s \<and> len_between 1 300 c) (consent_of e) \<and>
     opt_ok (\<lambda>(r, ls). list_all (len_between 1 300) ls) (coverage_of e)"

definition lane_shape :: "string list \<Rightarrow> evidence_pointer list \<Rightarrow> claim_record list \<Rightarrow> bool" where
  "lane_shape families es cs \<longleftrightarrow>
     distinct (map ev_evidence_id es) \<and> distinct (map cl_claim_id cs) \<and> list_all labels_ok es \<and>
     list_all (\<lambda>e. id_family (ev_evidence_id e) \<in> (\<lambda>f. ''evidence.'' @ f) ` set families) es \<and>
     list_all (\<lambda>c. id_family (cl_claim_id c) \<in> (\<lambda>f. ''claim.'' @ f) ` set families) cs"

lemma lane_shape_Nil [simp]: "lane_shape fs [] []"
  by (simp add: lane_shape_def)

lemma distinct_map_apart:
  "(\<And>x y. x \<in> set xs \<Longrightarrow> y \<in> set ys \<Longrightarrow> f x \<noteq> f y) \<Longrightarrow>
    distinct (map f (xs @ ys)) \<longleftrightarrow> distinct (map f xs) \<and> distinct (map f ys)"
  by (fastforce simp: image_iff)

lemma lane_shape_append:
  assumes "lane_shape fs es cs" and "lane_shape gs es' cs'" and "set fs \<inter> set gs = {}"
  shows "lane_shape (fs @ gs) (es @ es') (cs @ cs')"
proof -
  have "ev_evidence_id e \<noteq> ev_evidence_id e'" if "e \<in> set es" "e' \<in> set es'" for e e'
    using assms that by (fastforce simp: lane_shape_def list_all_iff)
  moreover have "cl_claim_id c \<noteq> cl_claim_id c'" if "c \<in> set cs" "c' \<in> set cs'" for c c'
    using assms that by (fastforce simp: lane_shape_def list_all_iff)
  ultimately have "distinct (map ev_evidence_id (es @ es'))" "distinct (map cl_claim_id (cs @ cs'))"
    using assms(1,2) by (subst distinct_map_apart; simp add: lane_shape_def)+
  with assms(1,2) show ?thesis by (auto simp: lane_shape_def list_all_iff)
qed

text \<open>The order of evidence and claims does not matter.\<close>

lemma lane_shape_perm:
  assumes "lane_shape fs es cs" and "mset es = mset es'" and "mset cs = mset cs'"
  shows "lane_shape fs es' cs'"
proof -
  have "distinct (map ev_evidence_id es) = distinct (map ev_evidence_id es')"
    "distinct (map cl_claim_id cs) = distinct (map cl_claim_id cs')"
    using assms(2,3) by (auto intro!: mset_eq_imp_distinct_iff)
  moreover have "list_all P es = list_all P es'" "list_all Q cs = list_all Q cs'" for P Q
    unfolding list_all_iff mset_eq_setD [OF assms(2)] mset_eq_setD [OF assms(3)] by simp_all
  ultimately show ?thesis using assms(1) by (simp only: lane_shape_def)
qed

subsection \<open>What the validated lists of a lane are\<close>

lemma validate_evidence_same [simp]: "validate_evidence e = Inr e' \<Longrightarrow> e' = e"
  by (simp add: validate_evidence_def)

lemma validate_claim_id: "validate_claim c = Inr c' \<Longrightarrow> cl_claim_id c' = cl_claim_id c"
  by (auto simp: validate_claim_def claim_semantics_def Let_def split: if_splits)

lemma validate_component_same: "validate_component k = Inr k' \<Longrightarrow> k' = k"
  by (auto simp: validate_component_def split: if_splits)

lemma res_map_evidence:
  assumes "res_map validate_evidence es = Inr es'"
  shows "es' = es"
  using assms [unfolded res_map_Inr_iff] by (induction rule: list_all2_induct) auto

lemma res_map_claim_ids:
  assumes "res_map validate_claim cs = Inr cs'"
  shows "map cl_claim_id cs' = map cl_claim_id cs"
  using assms [unfolded res_map_Inr_iff]
  by (induction rule: list_all2_induct) (simp_all add: validate_claim_id)

lemma lane_shape_claim_ids:
  assumes "lane_shape fs es cs" and "map cl_claim_id cs' = map cl_claim_id cs"
  shows "lane_shape fs es cs'"
proof -
  have ids: "list_all (\<lambda>c. id_family (cl_claim_id c) \<in> (\<lambda>f. ''claim.'' @ f) ` set fs) xs =
      list_all (\<lambda>i. id_family i \<in> (\<lambda>f. ''claim.'' @ f) ` set fs) (map cl_claim_id xs)" for xs
    by (induction xs) simp_all
  from assms(1) show ?thesis unfolding lane_shape_def ids assms(2) .
qed

lemma lane_result_InrD:
  assumes "lane_result k es p = Inr r"
  shows "pr_component r = k" and "pr_evidence r = es"
    and "map cl_claim_id (pa_claims (pr_assessment r)) = map cl_claim_id (pa_claims p)"
proof -
  from assms obtain cs p' where "res_map validate_evidence es = Inr (pr_evidence r)"
    "res_map validate_claim (pa_claims p) = Inr cs" "validate_component k = Inr (pr_component r)"
    "validate_provenance (p\<lparr>pa_claims := cs\<rparr>) = Inr p'" "pr_assessment r = p'"
    by (auto simp: lane_result_def res_bind_Inr_iff)
  moreover have "pa_claims p' = cs"
    using calculation(4) by (auto simp: validate_provenance_def Let_def split: if_splits)
  ultimately show "pr_component r = k" "pr_evidence r = es"
    "map cl_claim_id (pa_claims (pr_assessment r)) = map cl_claim_id (pa_claims p)"
    by (auto dest: res_map_evidence res_map_claim_ids validate_component_same)
qed

lemmas family_eval = id_family_def asset_id_text_def token_id_text_def policy_id_text_def

lemmas label_eval = labels_ok_def matched_reference_def consent_of_def coverage_of_def

subsection \<open>The lanes of an audio asset\<close>

lemma verify_c2pa_shape:
  assumes "verify_c2pa rt lib data m asset = Inr r"
  shows "lane_shape [''c2pa''] (pr_evidence r) (pa_claims (pr_assessment r)) \<and> co_component_id (pr_component r) = c2pa_id"
proof -
  from assms consider e where "c2pa_safe_failure rt lib asset e = Inr r" | "unknown_without_manifest lib asset = Inr r"
    | ob where "map_observation rt lib ob asset = Inr r"
    by (auto simp: verify_c2pa_def split: sum.splits option.splits)
  then obtain k es p where r: "lane_result k es p = Inr r" and shape: "lane_shape [''c2pa''] es (pa_claims p)"
    and id: "co_component_id k = c2pa_id"
  proof cases
    case (1 e)
    show ?thesis
      by (rule that [OF 1 [unfolded c2pa_safe_failure_def]])
        (simp_all add: lane_shape_def c2pa_evidence_def c2pa_claim_def c2pa_component_def label_eval family_eval)
  next
    case 2
    show ?thesis
      by (rule that [OF 2 [unfolded unknown_without_manifest_def]])
        (simp_all add: lane_shape_def c2pa_claim_def c2pa_component_def family_eval)
  next
    case (3 ob)
    show ?thesis
      by (rule that [OF 3 [unfolded map_observation_def Let_def]])
        (simp_all add: lane_shape_def c2pa_evidence_def c2pa_claim_def c2pa_component_def label_eval observation_claims_def Let_def
          family_eval)
  qed
  with lane_result_InrD [OF r] show ?thesis
    using lane_shape_claim_ids [OF shape, of "pa_claims (pr_assessment r)"] by simp
qed

lemma inspect_pcm_wav_shape:
  assumes "inspect_pcm_wav rt wave data asset = Inr r"
  shows "lane_shape [''audio''] (aa_evidence r) (pa_claims (aa_provenance r) @ ra_claims (aa_rights r)) \<and>
    co_component_id (aa_component r) = audio_component_id"
proof -
  from assms obtain info where "audio_analysis_result rt asset info = Inr r"
    by (auto simp: inspect_pcm_wav_def res_bind_Inr_iff split: if_splits)
  then have r: "aa_evidence r = [audio_evidence rt asset info]" "aa_component r = audio_component"
    "map cl_claim_id (pa_claims (aa_provenance r) @ ra_claims (aa_rights r)) =
      map cl_claim_id [audio_origin_claim asset, audio_rights_claim asset]"
    by (auto simp: audio_analysis_result_def res_bind_Inr_iff validate_provenance_def validate_rights_def Let_def
        dest!: validate_evidence_same validate_component_same validate_claim_id split: if_splits)
  have "lane_shape [''audio''] [audio_evidence rt asset info] [audio_origin_claim asset, audio_rights_claim asset]"
    by (simp add: lane_shape_def audio_evidence_def audio_origin_claim_def audio_rights_claim_def label_eval
        family_eval)
  from lane_shape_claim_ids [OF this r(3)] show ?thesis unfolding r(1,2) by (simp add: audio_component_def)
qed

lemma policy_shape:
  assumes "evaluate_publication_policy rt asset cx p provenance rights licence ks = Inr e"
  shows "lane_shape [''policy''] (pe_evidence e) (da_claims (pe_assessment e)) \<and>
    co_component_id (pe_component e) = policy_component_id"
proof -
  from assms obtain b rv d ls where
    "pe_evidence e = [policy_evidence rt asset cx p b rv d]" "pe_component e = policy_component (policy_commitment rt p)"
    "map cl_claim_id (da_claims (pe_assessment e)) = map cl_claim_id [policy_claim rt asset p d ls]"
    by (auto simp: evaluate_publication_policy_def Let_def res_bind_Inr_iff validate_deployment_def
        dest!: validate_evidence_same validate_component_same validate_claim_id split: if_splits prod.splits)
  moreover have "lane_shape [''policy''] [policy_evidence rt asset cx p b rv d] [policy_claim rt asset p d ls]"
    by (simp add: lane_shape_def policy_evidence_def policy_claim_def label_eval family_eval)
  ultimately show ?thesis using lane_shape_claim_ids by (simp add: policy_component_def)
qed

lemma licence_not_assessed_shape:
  assumes "evaluate_candidate_licences rt m asset cx registry now extra = Inr r"
    and "candidate_reference_ids rt m extra = []"
  shows "lane_shape [''licence''] (le_evidence r) (le_claims r) \<and>
    co_component_id (le_component r) = licence_component_id \<and> le_policy_conflict r = False"
  using assms
  by (auto simp: evaluate_candidate_licences_def licence_not_assessed_def Let_def res_bind_Inr_iff licence_component_def
      lane_shape_def family_eval dest!: validate_component_same validate_claim_id split: if_splits)

lemma collect_pairs_InrD:
  assumes "collect_pairs ev cl xs = Inr ps"
  shows "map fst ps = map ev xs" and "map (\<lambda>p. cl_claim_id (snd p)) ps = map (\<lambda>x. cl_claim_id (cl x)) xs"
proof -
  have "list_all2 (\<lambda>x p. fst p = ev x \<and> cl_claim_id (snd p) = cl_claim_id (cl x)) xs ps"
    using assms unfolding collect_pairs_def res_map_Inr_iff
    by (rule list_all2_mono) (auto simp: res_bind_Inr_iff dest: validate_claim_id)
  then show "map fst ps = map ev xs" "map (\<lambda>p. cl_claim_id (snd p)) ps = map (\<lambda>x. cl_claim_id (cl x)) xs"
    by (induction rule: list_all2_induct) simp_all
qed

text \<open>The templates of a consent lane: valid grants, and tokens that tell the templates apart.\<close>

definition templates_ready :: "runtime \<Rightarrow> (string \<times> consent_grant) list \<Rightarrow> bool" where
  "templates_ready rt ts \<longleftrightarrow> distinct (map (\<lambda>t. token rt (fst t)) ts) \<and> list_all (\<lambda>t. wf_grant (snd t)) ts"

lemma is_id_label: "is_id s \<Longrightarrow> len_between 1 300 s"
  using is_id_length [of s] by (cases s) (auto simp: len_between_def is_id_def)

lemma consent_attrs_label:
  assumes "wf_grant grant"
  shows "labels_ok (consent_evidence rt cid asset cx registry now modality (template_id, grant, distance, similarity))"
proof -
  have "is_id (gt_subject_id grant)" "is_id (gt_consent_id grant)"
    using assms by (simp_all add: wf_grant_def grant_fields_def)
  from this [THEN is_id_label] show ?thesis by (simp add: label_eval string_attr_def Let_def)
qed

lemma matched_consents_shape:
  assumes "matched_consents rt cid asset cx registry now modality ms = Inr a"
    and "templates_ready rt (map (\<lambda>(template_id, grant, distance, similarity). (template_id, grant)) ms)"
    and "modality \<in> {''likeness'', ''voice''}"
  shows "lane_shape [modality] (ca_evidence a) (ca_claims a) \<and> co_component_id (ca_component a) = cid"
proof -
  define ordered where "ordered = sort_key (\<lambda>(template_id, grant, distance, similarity). (- similarity, template_id)) ms"
  let ?ev = "consent_evidence rt cid asset cx registry now modality" and ?cl = "consent_claim rt asset cx now modality"
  from assms(1) obtain ps where ps: "collect_pairs ?ev ?cl ordered = Inr ps"
    and a: "ca_evidence a = map fst ps" "ca_claims a = map snd ps" "ca_component a = consent_component rt cid registry"
    by (auto simp: matched_consents_def ordered_def [symmetric] Let_def res_bind_Inr_iff validate_consent_analysis_def
        dest!: validate_component_same split: if_splits)
  have mset: "mset ordered = mset ms" by (simp add: ordered_def)
  have tokens: "distinct (map (\<lambda>m. token rt (fst m)) ordered)"
  proof -
    have "distinct (map (\<lambda>m. token rt (fst m)) ms)"
      using assms(2) by (simp add: templates_ready_def comp_def case_prod_beta)
    then show ?thesis using mset_eq_imp_distinct_iff [of "map (\<lambda>m. token rt (fst m)) ordered" "map (\<lambda>m. token rt (fst m)) ms"] mset
      by simp
  qed
  have grants: "wf_grant (fst (snd m))" if "m \<in> set ordered" for m
    using assms(2) that mset_eq_setD [OF mset] by (simp add: templates_ready_def list_all_iff case_prod_beta)
  have ev: "ev_evidence_id (?ev m) = (''evidence.'' @ modality @ ''-consent-'') @ token rt (fst m) @ ''-'' @ short asset"
    "cl_claim_id (?cl m) = (''claim.'' @ modality @ ''-consent-'') @ token rt (fst m) @ ''-'' @ short asset" for m
    by (cases m; simp add: token_id_text_def Let_def)+
  have apart: "distinct (map (\<lambda>m. p @ token rt (fst m) @ q) ordered)" for p q
  proof -
    have "distinct (map (\<lambda>t. p @ t @ q) (map (\<lambda>m. token rt (fst m)) ordered))"
      using tokens by (subst distinct_map) (simp add: inj_on_def)
    then show ?thesis by (simp add: comp_def)
  qed
  have "labels_ok (?ev m)" if "m \<in> set ordered" for m
    using grants [OF that] by (cases m) (auto simp only: fst_conv snd_conv intro: consent_attrs_label)
  then have labels: "list_all labels_ok (map ?ev ordered)" by (simp add: list_all_iff)
  have family: "id_family (ev_evidence_id (?ev m)) = ''evidence.'' @ modality"
    "id_family (cl_claim_id (?cl m)) = ''claim.'' @ modality" for m
    unfolding ev using assms(3) by (auto simp: id_family_def)
  have "distinct (map ev_evidence_id (map ?ev ordered))" "distinct (map cl_claim_id (map ?cl ordered))"
    by (simp_all only: map_map comp_def ev) (rule apart)+
  with labels have shape: "lane_shape [modality] (map ?ev ordered) (map ?cl ordered)"
    unfolding lane_shape_def by (intro conjI) (simp_all only: list_all_iff set_map ball_simps family, simp_all)
  have "map cl_claim_id (map snd ps) = map cl_claim_id (map ?cl ordered)"
    using collect_pairs_InrD(2) [OF ps] by (simp add: comp_def)
  from lane_shape_claim_ids [OF shape this] show ?thesis
    unfolding a collect_pairs_InrD(1) [OF ps] by (simp add: consent_component_def)
qed

lemma no_candidate_shape:
  assumes "no_candidate rt cid asset registry modality = Inr a" and "modality \<in> {''likeness'', ''voice''}"
  shows "lane_shape [modality] (ca_evidence a) (ca_claims a) \<and> co_component_id (ca_component a) = cid"
  using assms
  by (auto simp: no_candidate_def res_bind_Inr_iff validate_consent_analysis_def no_consent_evidence_def
      no_consent_claim_def consent_component_def lane_shape_def label_eval string_attr_def family_eval
      dest!: validate_component_same validate_claim_id validate_evidence_same)

lemma voice_shape:
  assumes "analyze_voice_consent rt lib data asset cx registry now = Inr a"
    and "templates_ready rt (map (\<lambda>t. (vt_template_id t, vt_consent t)) (cg_voice_templates registry))"
  shows "lane_shape [''voice''] (ca_evidence a) (ca_claims a) \<and> co_component_id (ca_component a) = voice_component_id"
proof -
  from assms(1) obtain features where
    run: "(if voice_matches asset features (cg_voice_templates registry) = []
      then no_candidate rt voice_component_id asset registry ''voice''
      else matched_consents rt voice_component_id asset cx registry now ''voice''
        (voice_matches asset features (cg_voice_templates registry))) = Inr a"
    unfolding analyze_voice_consent_def Let_def if_raise_Inr_iff by (elim conjE res_bind_InrE) simp
  have "templates_ready rt (map (\<lambda>(template_id, grant, distance, similarity). (template_id, grant))
      (voice_matches asset features (cg_voice_templates registry)))"
    using assms(2) by (auto simp: templates_ready_def voice_matches_def comp_def list_all_iff distinct_map_filter)
  with run show ?thesis by (auto split: if_splits dest: no_candidate_shape matched_consents_shape)
qed

subsection \<open>Concluding\<close>

text \<open>Evidence of known components and claims of known evidence, by sets, so that lanes can be put together.\<close>

definition grounded ::
    "string \<Rightarrow> component_record set \<Rightarrow> evidence_pointer set \<Rightarrow> claim_record set \<Rightarrow> bool" where
  "grounded asset ks es cs \<longleftrightarrow>
     (\<forall>e \<in> es. wf_evidence e \<and> ev_asset_sha256 e = asset \<and>
        (\<exists>k \<in> ks. co_component_id k = ev_component_id e \<and> co_component_version k = ev_component_version e)) \<and>
     (\<forall>c \<in> cs. set (cl_evidence_ids c) \<subseteq> ev_evidence_id ` es)"

lemma lane_grounded: "lane_sound asset k es cs \<Longrightarrow> k \<in> ks \<Longrightarrow> grounded asset ks (set es) (set cs)"
  unfolding lane_sound_def grounded_def by metis

lemma grounded_Un: "grounded asset ks es cs \<Longrightarrow> grounded asset ks es' cs' \<Longrightarrow> grounded asset ks (es \<union> es') (cs \<union> cs')"
  unfolding grounded_def by (auto simp: image_Un)

lemma grounded_mono: "grounded asset ks es cs \<Longrightarrow> ks \<subseteq> ks' \<Longrightarrow> grounded asset ks' es cs"
  unfolding grounded_def by blast

lemma exposure_labels_ok:
  assumes "list_all labels_ok evidence" and "wf_context cx" and "x \<in> set (exposures cx evidence)"
  shows "len_between 1 300 (exposure_label x)"
proof -
  have item: "labels_ok e" if "e \<in> set evidence" for e using assms(1) that by (simp add: list_all_iff)
  from assms(3) consider r where "x = Candidate r" "r \<in> set (matched_references evidence)"
    | e where "e \<in> set evidence" "x \<in> set (coverage_exposures (matched_references evidence) e)"
    | e where "e \<in> set evidence" "x \<in> set (consent_exposures e)"
    | ids where "x \<in> set (campaign_exposures cx ids)"
    by (auto simp: exposures_def)
  then show ?thesis
  proof cases
    case (1 r)
    then obtain e where "e \<in> set evidence" "matched_reference e = Some r"
      by (auto simp: matched_references_def List.map_filter_def)
    with item 1(1) show ?thesis by (force simp: labels_ok_def)
  next
    case (2 e)
    with item [OF 2(1)] show ?thesis
      by (cases "coverage_of e") (auto simp: labels_ok_def coverage_exposures_def list_all_iff split: if_splits)
  next
    case (3 e)
    with item [OF 3(1)] show ?thesis by (cases "consent_of e") (auto simp: labels_ok_def consent_exposures_def)
  next
    case (4 ids)
    have "len_between 1 300 (cx_intended_use cx)" "list_all territory_code (cx_territories cx)"
      using assms(2) by (auto simp: wf_context_def context_fields_def)
    with 4 show ?thesis
      by (auto simp: campaign_exposures_def list_all_iff territory_code_def len_between_def split: if_splits)
  qed
qed

lemma conclude_ok:
  assumes "sha_ok rt" and "is_sha256 (ad_sha256 (ir_asset (rq_asset_ir request)))" and "is_aware created_at"
    and "wf_context (rq_context request)" and "len_between 1 300 (ad_original_filename (ir_asset (rq_asset_ir request)))"
    and "lane_shape fs (evidence @ pe_evidence e) claims"
    and "mset (pa_claims provenance @ ra_claims rights @ da_claims (pe_assessment e)) = mset claims"
    and "distinct (map co_component_id (components @ [pe_component e]))"
    and "grounded (ad_sha256 (ir_asset (rq_asset_ir request))) (insert (pe_component e) (set components))
      (set (evidence @ pe_evidence e)) (set claims)"
    and "da_decision (pe_assessment e) \<noteq> Decision_GO"
  shows "\<exists>a. conclude_assessment rt request created_at fingerprint components evidence provenance rights e = Inr a"
proof -
  let ?d = "ir_asset (rq_asset_ir request)" and ?es = "sort_key ev_evidence_id (evidence @ pe_evidence e)"
  have shape: "lane_shape fs ?es (pa_claims provenance @ ra_claims rights @ da_claims (pe_assessment e))"
    by (rule lane_shape_perm [OF assms(6)]) (use assms(7) in simp_all)
  have set_es: "set ?es = set (evidence @ pe_evidence e)" by simp
  have claims: "set (pa_claims provenance @ ra_claims rights @ da_claims (pe_assessment e)) = set claims"
    by (rule mset_eq_setD [OF assms(7)])
  have ready: "evidence_ready ?es"
    using shape assms(9) by (simp add: evidence_ready_def lane_shape_def grounded_def list_all_iff)
  have "list_all (len_between 1 300) (graph_labels request ?es)"
  proof -
    have "list_all labels_ok ?es" using shape by (simp only: lane_shape_def)
    from exposure_labels_ok [OF this assms(4)] assms(5) show ?thesis by (simp add: graph_labels_def list_all_iff)
  qed
  with build_graph_result [OF assms(1,2) ready] obtain g where g: "build_graph rt request ?es = Inr g"
    and graph: "gr_asset_sha256 g = ad_sha256 ?d" "set (graph_evidence_ids g) \<subseteq> ev_evidence_id ` set ?es"
    by (auto simp: upholds_def simp del: set_sort set_append split: sum.splits)
  let ?a = "\<lparr>as_assessment_id = ''assessment.'' @ assessment_token rt fingerprint (rq_idempotency_key request),
    as_created_at = created_at, as_asset = ?d, as_context = rq_context request,
    as_components = sort_key co_component_id (components @ [pe_component e]), as_evidence = ?es,
    as_exposure_graph = g, as_provenance = provenance, as_rights = rights, as_deployment = pe_assessment e\<rparr>"
  have "is_id (''assessment.'' @ assessment_token rt fingerprint (rq_idempotency_key request))"
    using assms(1)
    by (intro is_id_append) (simp_all add: assessment_token_def is_sha256_take id_eval is_upper_def)
  moreover have "distinct (map co_component_id (sort_key co_component_id (components @ [pe_component e])))"
    using assms(8) by (simp only: distinct_map_sort_key)
  moreover have "refs_ok ?a"
    unfolding refs_ok_def using shape graph assms(9) calculation(2) claims
    by (simp add: lane_shape_def grounded_def all_claims_def del: map_append distinct_append)
  ultimately have "wf_assessment ?a" using assms(3,10) by (simp add: wf_assessment_def)
  then show ?thesis using g by (simp add: conclude_assessment_def validate_assessment_iff Let_def)
qed

subsection \<open>The steps before the policy\<close>

lemma declared_unavailable_ok:
  assumes "is_id i"
  shows "\<exists>k. declared_unavailable_component i = Inr k \<and> co_component_id k = i"
proof -
  obtain kind reason where u: "unimplemented_component i = (kind, reason)" by (cases "unimplemented_component i")
  then have "is_id kind" "len_between 1 500 reason"
    by (auto simp: unimplemented_component_def id_eval is_upper_def len_between_def split: if_splits)
  then have "wf_component \<lparr>co_component_id = i, co_component_version = ''unavailable-v1'', co_component_type = kind,
      co_state = Comp_UNAVAILABLE, co_mandatory = True, co_artifact_sha256 = None, co_reason = Some reason\<rparr>"
    using assms by (simp add: wf_component_iff len_between_def)
  from component.validate_fix [OF this] show ?thesis by (simp add: declared_unavailable_component_def u)
qed

lemma require_all_ok:
  assumes "list_all is_id ids" and "distinct (map co_component_id ks)"
  shows "\<exists>ks'. res_fold require_component ids ks = Inr ks' \<and> distinct (map co_component_id ks')"
  using assms
proof (induction ids arbitrary: ks)
  case (Cons i ids)
  show ?case
  proof (cases "i \<in> set (map co_component_id ks)")
    case True
    with Cons show ?thesis by (simp add: require_component_def)
  next
    case False
    obtain k where k: "declared_unavailable_component i = Inr k" "co_component_id k = i"
      using declared_unavailable_ok [of i] Cons.prems by auto
    have "distinct (map co_component_id (ks @ [k]))" using Cons.prems False k by simp
    from Cons.IH [OF _ this] Cons.prems False k show ?thesis by (simp add: require_component_def)
  qed
qed simp

lemma combine_consent_rights_ok:
  assumes "wf_rights base" and "list_all (\<lambda>a. list_all (\<lambda>c. cl_dimension c = Dim_RIGHTS_EXPOSURE) (ca_claims a) \<and>
      unit_interval (ca_confidence a)) results"
  shows "\<exists>r. combine_consent_rights base results = Inr r \<and> ra_claims r = ra_claims base @ concat (map ca_claims results)"
proof (cases results)
  case Nil
  then show ?thesis by (simp add: combine_consent_rights_def)
next
  case (Cons a as)
  let ?claims = "ra_claims base @ concat (map ca_claims results)"
  let ?limits = "sorted_set (ra_limitations base @ concat (map ca_limitations results))"
  have dims: "\<forall>c \<in> set ?claims. cl_dimension c = Dim_RIGHTS_EXPOSURE"
    using assms by (auto simp: wf_rights_def list_all_iff)
  have unit: "unit_interval (max_default 0 qs)" if "\<And>q. q \<in> set qs \<Longrightarrow> unit_interval q" for qs
    using that max_default_in [of qs 0] by (cases "qs = []") simp_all
  have confidence: "unit_interval (ca_confidence a)" if "a \<in> set results" for a
    using assms(2) that by (simp add: list_all_iff)
  have "wf_rights \<lparr>ra_state = State_COMPLETE, ra_verdict = Rights_POLICY_CONFLICT,
      ra_confidence = max_default 0 (map ca_confidence (filter ca_policy_conflict results)), ra_claims = ?claims,
      ra_limitations = ?limits\<rparr>"
    using dims confidence by (auto simp: wf_rights_def intro!: unit)
  moreover have "wf_rights \<lparr>ra_state = State_PARTIAL, ra_verdict = Rights_POTENTIAL_EXPOSURE,
      ra_confidence = max_default 0 (ra_confidence base # map ca_confidence (filter (\<lambda>r. ca_candidate_subject_ids r \<noteq> []) results)),
      ra_claims = ?claims, ra_limitations = ?limits\<rparr>"
    using dims confidence assms(1) by (auto simp: wf_rights_def simp del: max_default.simps intro!: unit)
  ultimately show ?thesis
    using Cons by (simp add: combine_consent_rights_def Let_def rights.validate_fix)
qed

lemma voice_consent_ok:
  assumes "sha_ok rt" and "is_aware now" and "voice_features lib data = Inr features"
    and "\<forall>t \<in> set (cg_voice_templates registry). wf_grant (vt_consent t) \<and> wf_voice t"
    and "rt_sha256 rt data = asset"
  shows "\<exists>a ms. analyze_voice_consent rt lib data asset cx registry now = Inr a \<and>
    consent_sound voice_component_id asset cx now ms a"
proof -
  let ?ms = "voice_matches asset features (cg_voice_templates registry)"
  have sha: "is_sha256 asset" using assms(1,5) by auto
  note ok = voice_matches_ok [OF assms(4), of asset features]
  show ?thesis
    using no_candidate_sound [OF assms(1) sha, of voice_component_id "''voice''" registry cx now]
      matched_consents_sound [OF assms(1) sha _ _ assms(2) ok, of voice_component_id "''voice''" cx registry]
    by (cases "?ms = []") (auto simp: analyze_voice_consent_def assms(3,5) Let_def)
qed

subsection \<open>Audio executions\<close>

text \<open>
  The inputs of an audio execution are ready when the request and the policy are valid, the policy does not require the
  policy compiler itself, and, if a consent registry is given, the spectral features of the recording can be computed
  and the templates are valid with distinguishable tokens.
\<close>

definition voice_ready :: "runtime \<Rightarrow> exec_lib \<Rightarrow> string \<Rightarrow> consent_registry \<Rightarrow> bool" where
  "voice_ready rt lib data registry \<longleftrightarrow>
     (case voice_features (xl_voice lib) data of Inl _ \<Rightarrow> False | Inr _ \<Rightarrow> True) \<and>
     list_all (\<lambda>t. wf_grant (vt_consent t) \<and> wf_voice t) (cg_voice_templates registry) \<and>
     templates_ready rt (map (\<lambda>t. (vt_template_id t, vt_consent t)) (cg_voice_templates registry))"

definition audio_ready :: "runtime \<Rightarrow> exec_lib \<Rightarrow> string \<Rightarrow> governed_inputs \<Rightarrow> bool" where
  "audio_ready rt lib data gi \<longleftrightarrow>
     ad_media_kind (ir_asset (rq_asset_ir (gi_request gi))) = Media_AUDIO \<and>
     wf_descriptor (ir_asset (rq_asset_ir (gi_request gi))) \<and> wf_context (rq_context (gi_request gi)) \<and>
     c2pa_lib_ok (xl_c2pa lib) \<and> list_all is_id (pp_required_component_ids (gi_policy gi)) \<and>
     policy_component_id \<notin> set (pp_required_component_ids (gi_policy gi)) \<and>
     opt_ok (voice_ready rt lib data) (gi_consents gi)"

text \<open>What the audio branch leaves for the steps after it.\<close>

lemma audio_lanes_ok:
  assumes "sha_ok rt" and "is_aware now" and "audio_ready rt lib data gi"
    and "validate_execution_asset rt st lib data (gi_request gi) = Inr ()"
    and "asset = ad_sha256 (ir_asset (rq_asset_ir (gi_request gi)))" and "provenance_sound asset c2pa"
  obtains audio voice voice_components p where
    "audio_lanes rt lib data gi now c2pa =
      Inr \<lparr>lc_provenance = p,
        lc_match = \<lparr>rm_component = aa_component audio, rm_evidence = [], rm_assessment = aa_rights audio\<rparr>,
        lc_localization = None, lc_components = aa_component audio # voice_components,
        lc_evidence = aa_evidence audio @ concat (map ca_evidence voice), lc_licence_evidence = [],
        lc_audio_rights = Some (aa_rights audio), lc_consents = voice\<rparr>"
    and "inspect_pcm_wav rt (vl_wave (xl_voice lib)) data asset = Inr audio" and "audio_sound asset audio"
    and "pa_claims p = pa_claims (pr_assessment c2pa) @ pa_claims (aa_provenance audio)"
    and "map co_component_id voice_components = [voice_component_id]"
    and "grounded asset (set voice_components) (set (concat (map ca_evidence voice))) (set (concat (map ca_claims voice)))"
    and "lane_shape [''voice''] (concat (map ca_evidence voice)) (concat (map ca_claims voice))"
    and "list_all (\<lambda>a. list_all (\<lambda>c. cl_dimension c = Dim_RIGHTS_EXPOSURE) (ca_claims a) \<and>
      unit_interval (ca_confidence a)) voice"
proof -
  let ?d = "ir_asset (rq_asset_ir (gi_request gi))" and ?cx = "rq_context (gi_request gi)"
  have kind: "ad_media_kind ?d = Media_AUDIO" using assms(3) by (simp add: audio_ready_def)
  note digest = validate_execution_asset_bound(1) [OF assms(4), folded assms(5)]
  obtain audio where audio: "inspect_pcm_wav rt (vl_wave (xl_voice lib)) data asset = Inr audio"
    using assms(4) unfolding assms(5)
    by (auto simp: validate_execution_asset_def validate_audio_asset_def Let_def kind res_bind_Inr_iff split: if_splits)
  have sound: "audio_sound asset audio"
    using inspect_pcm_wav_result [OF assms(1) digest, of "vl_wave (xl_voice lib)"] audio by simp
  have "list_all wf_provenance [pr_assessment c2pa, aa_provenance audio]"
    using sound assms(6) by (simp add: audio_sound_def provenance_sound_def)
  from combine_provenance_result [OF this] obtain p where
    p: "combine_provenance [pr_assessment c2pa, aa_provenance audio] = Inr p"
      "pa_claims p = pa_claims (pr_assessment c2pa) @ pa_claims (aa_provenance audio)"
    by auto
  show thesis
  proof (cases "gi_consents gi")
    case None
    obtain k where k: "declared_unavailable_component ''rights.voice-consent'' = Inr k"
      "co_component_id k = ''rights.voice-consent''"
      using declared_unavailable_ok [of "''rights.voice-consent''"] by (auto simp: id_eval is_upper_def)
    have "audio_lanes rt lib data gi now c2pa =
      Inr \<lparr>lc_provenance = p,
        lc_match = \<lparr>rm_component = aa_component audio, rm_evidence = [], rm_assessment = aa_rights audio\<rparr>,
        lc_localization = None, lc_components = [aa_component audio, k],
        lc_evidence = aa_evidence audio @ concat (map ca_evidence []), lc_licence_evidence = [],
        lc_audio_rights = Some (aa_rights audio), lc_consents = []\<rparr>"
      using audio p None k by (simp add: audio_lanes_def optional_lane_def Let_def assms(5) [symmetric])
    then show thesis
      using audio sound p k by (intro that [of p audio "[k]" "[]"]) (simp_all add: voice_component_id_def grounded_def)
  next
    case (Some registry)
    then have ready: "voice_ready rt lib data registry" using assms(3) by (simp add: audio_ready_def)
    then obtain features where features: "voice_features (xl_voice lib) data = Inr features"
      by (auto simp: voice_ready_def split: sum.splits)
    obtain a ms where a: "analyze_voice_consent rt (xl_voice lib) data asset ?cx registry now = Inr a"
      "consent_sound voice_component_id asset ?cx now ms a"
      using voice_consent_ok [OF assms(1,2) features _ digest, of registry ?cx] ready
      by (auto simp: voice_ready_def list_all_iff)
    have shape: "lane_shape [''voice''] (ca_evidence a) (ca_claims a)"
      using voice_shape [OF a(1)] ready by (simp add: voice_ready_def)
    have "audio_lanes rt lib data gi now c2pa =
      Inr \<lparr>lc_provenance = p,
        lc_match = \<lparr>rm_component = aa_component audio, rm_evidence = [], rm_assessment = aa_rights audio\<rparr>,
        lc_localization = None, lc_components = [aa_component audio, ca_component a],
        lc_evidence = aa_evidence audio @ concat (map ca_evidence [a]), lc_licence_evidence = [],
        lc_audio_rights = Some (aa_rights audio), lc_consents = [a]\<rparr>"
      using audio p Some a(1) by (simp add: audio_lanes_def optional_lane_def Let_def assms(5) [symmetric])
    moreover have "grounded asset {ca_component a} (set (ca_evidence a)) (set (ca_claims a))"
      using a(2) by (intro lane_grounded) (simp_all add: consent_sound_def)
    ultimately show thesis
      using audio sound p a(2) shape
      by (intro that [of p audio "[ca_component a]" "[a]"]) (simp_all add: consent_sound_def list_all_iff)
  qed
qed

lemma audio_decide_ok:
  assumes "sha_ok rt" and "is_aware now" and "audio_ready rt lib data gi"
    and "validate_execution_asset rt st lib data (gi_request gi) = Inr ()"
    and "validate_governed_inputs gi = Inr ()"
    and "asset = ad_sha256 (ir_asset (rq_asset_ir (gi_request gi)))" and "provenance_sound asset c2pa"
    and "lane_shape [''c2pa''] (pr_evidence c2pa) (pa_claims (pr_assessment c2pa))"
    and "co_component_id (pr_component c2pa) = c2pa_id"
    and "audio_lanes rt lib data gi now c2pa = Inr lanes"
  shows "\<exists>a. decide_assessment rt st lib gi now c2pa lanes = Inr a"
proof -
  let ?d = "ir_asset (rq_asset_ir (gi_request gi))" and ?cx = "rq_context (gi_request gi)" and ?p = "gi_policy gi"
  note digest = validate_execution_asset_bound(1) [OF assms(4), folded assms(6)]
  have sha: "is_sha256 asset" using sha_okD [OF assms(1), of data] digest by simp
  obtain audio voice voice_components p where
    run: "audio_lanes rt lib data gi now c2pa = Inr \<lparr>lc_provenance = p,
        lc_match = \<lparr>rm_component = aa_component audio, rm_evidence = [], rm_assessment = aa_rights audio\<rparr>,
        lc_localization = None, lc_components = aa_component audio # voice_components,
        lc_evidence = aa_evidence audio @ concat (map ca_evidence voice), lc_licence_evidence = [],
        lc_audio_rights = Some (aa_rights audio), lc_consents = voice\<rparr>"
    and audio: "inspect_pcm_wav rt (vl_wave (xl_voice lib)) data asset = Inr audio" "audio_sound asset audio"
    and p: "pa_claims p = pa_claims (pr_assessment c2pa) @ pa_claims (aa_provenance audio)"
    and voice: "map co_component_id voice_components = [voice_component_id]"
      "grounded asset (set voice_components) (set (concat (map ca_evidence voice))) (set (concat (map ca_claims voice)))"
      "lane_shape [''voice''] (concat (map ca_evidence voice)) (concat (map ca_claims voice))"
      "list_all (\<lambda>a. list_all (\<lambda>c. cl_dimension c = Dim_RIGHTS_EXPOSURE) (ca_claims a) \<and> unit_interval (ca_confidence a)) voice"
    by (rule audio_lanes_ok [OF assms(1-4,6,7)]) (rule that)
  from run have lanes: "lanes = \<lparr>lc_provenance = p,
        lc_match = \<lparr>rm_component = aa_component audio, rm_evidence = [], rm_assessment = aa_rights audio\<rparr>,
        lc_localization = None, lc_components = aa_component audio # voice_components,
        lc_evidence = aa_evidence audio @ concat (map ca_evidence voice), lc_licence_evidence = [],
        lc_audio_rights = Some (aa_rights audio), lc_consents = voice\<rparr>"
    unfolding assms(10) by simp
  have none: "candidate_reference_ids rt (lc_match lanes) (lc_licence_evidence lanes) = []"
    by (simp add: lanes candidate_reference_ids_def List.map_filter_def)
  obtain licence where licence: "evaluate_candidate_licences rt (lc_match lanes) asset ?cx (gi_licences gi) now
      (lc_licence_evidence lanes) = Inr licence" "licence_sound asset ?cx (gi_licences gi) now [] licence"
    using evaluate_candidate_licences_result [OF assms(1) sha assms(2), of "lc_match lanes" "lc_licence_evidence lanes"
        ?cx "gi_licences gi"] none by auto
  note licence_shape = licence_not_assessed_shape [OF licence(1) none]
  let ?base = "(aa_rights audio)\<lparr>ra_claims := ra_claims (aa_rights audio) @ le_claims licence,
    ra_limitations := sorted_set (ra_limitations (aa_rights audio) @ le_limitations licence)\<rparr>"
  have base: "lane_rights lanes licence = Inr ?base" by (simp add: lane_rights_def lanes)
  have "wf_rights ?base"
    using audio(2) licence(2) by (auto simp: audio_sound_def wf_rights_def licence_sound_def)
  from combine_consent_rights_ok [OF this voice(4)] obtain rights where
    rights: "combine_consent_rights ?base (lc_consents lanes) = Inr rights"
      "ra_claims rights = (ra_claims (aa_rights audio) @ le_claims licence) @ concat (map ca_claims voice)"
    by (auto simp: lanes)
  let ?ks = "[executor_component, pr_component c2pa] @ lc_components lanes @ [le_component licence]"
  have ids: "map co_component_id ?ks =
      [''orchestration.executor'', c2pa_id, audio_component_id, voice_component_id, licence_component_id]"
    using assms(9) voice(1) inspect_pcm_wav_shape [OF audio(1)] licence_shape by (simp add: lanes executor_component_def)
  have apart: "distinct (map co_component_id ?ks)" "policy_component_id \<notin> set (map co_component_id ?ks)"
    unfolding ids by (simp_all add: c2pa_id_def audio_component_id_def voice_component_id_def licence_component_id_def
        policy_component_id_def)
  obtain components where components: "assessed_components ?p c2pa lanes licence = Inr components"
    "distinct (map co_component_id components)"
    using require_all_ok [OF _ apart(1), of "pp_required_component_ids ?p"] assms(3)
    by (auto simp: assessed_components_def audio_ready_def)
  have kept: "set ?ks \<subseteq> set components" "policy_component_id \<notin> set (map co_component_id components)"
    using require_all [OF components(1) [unfolded assessed_components_def]] apart(2) assms(3)
    by (auto simp: audio_ready_def)
  obtain e where policy: "evaluate_publication_policy rt asset ?cx ?p p rights licence components = Inr e"
    "policy_sound asset e"
    using evaluate_publication_policy_result [OF assms(1) sha, of ?cx ?p p rights licence components]
      validate_governed_inputs_policy [OF assms(5)] by auto
  note policy_shape = policy_shape [OF policy(1)]
  have "ra_verdict ?base = Rights_UNKNOWN"
    using inspect_pcm_wav_result [OF assms(1) digest, of "vl_wave (xl_voice lib)"] audio by (auto simp: wf_rights_def audio_sound_def)
  then have "ra_verdict rights \<noteq> Rights_CLEAR" using combine_consent_rights_verdict(1) [OF rights(1)] by simp
  then have go: "da_decision (pe_assessment e) \<noteq> Decision_GO"
    using policy_go_floor_result [OF assms(1) sha policy(1)] by (auto simp: release_floor_def)
  let ?es = "pr_evidence c2pa @ lc_evidence lanes @ le_evidence licence"
  let ?cs = "pa_claims (pr_assessment c2pa) @ (pa_claims (aa_provenance audio) @ ra_claims (aa_rights audio)) @
    concat (map ca_claims voice) @ le_claims licence @ da_claims (pe_assessment e)"
  have shape: "lane_shape ([''c2pa''] @ [''audio''] @ [''voice''] @ [''licence''] @ [''policy''])
      (pr_evidence c2pa @ aa_evidence audio @ concat (map ca_evidence voice) @ le_evidence licence @ pe_evidence e) ?cs"
    using assms(8) inspect_pcm_wav_shape [OF audio(1)] voice(3) licence_shape policy_shape
    by (intro lane_shape_append) auto
  let ?all = "insert (pe_component e) (set components)"
  have k: "pr_component c2pa \<in> ?all" "aa_component audio \<in> ?all" "set voice_components \<subseteq> ?all" "le_component licence \<in> ?all"
    using kept(1) by (auto simp: lanes)
  have g: "grounded asset ?all (set (pr_evidence c2pa)) (set (pa_claims (pr_assessment c2pa)))"
    "grounded asset ?all (set (aa_evidence audio)) (set (pa_claims (aa_provenance audio) @ ra_claims (aa_rights audio)))"
    "grounded asset ?all (set (concat (map ca_evidence voice))) (set (concat (map ca_claims voice)))"
    "grounded asset ?all (set (le_evidence licence)) (set (le_claims licence))"
    "grounded asset ?all (set (pe_evidence e)) (set (da_claims (pe_assessment e)))"
    using k assms(7) audio(2) licence(2) policy(2) grounded_mono [OF voice(2) k(3)]
    by (auto intro!: lane_grounded simp: provenance_sound_def audio_sound_def licence_sound_def policy_sound_def
        simp del: set_append set_concat set_map)
  have grounded: "grounded asset ?all (set (?es @ pe_evidence e)) (set ?cs)"
    using grounded_Un [OF g(1) grounded_Un [OF g(2) grounded_Un [OF g(3) grounded_Un [OF g(4,5)]]]]
    by (simp only: lanes lane_outcome.simps set_append Un_assoc)
  have "\<exists>a. conclude_assessment rt (gi_request gi) now (execution_fingerprint rt st (xl_c2pa lib) gi) components ?es p rights e = Inr a"
  proof (rule conclude_ok [OF assms(1) _ assms(2)])
    show "is_sha256 (ad_sha256 ?d)" using sha assms(6) by simp
    show "wf_context ?cx" using assms(3) by (simp add: audio_ready_def)
    show "len_between 1 300 (ad_original_filename ?d)"
      using assms(3) by (simp add: audio_ready_def wf_descriptor_def descriptor_fields_def len_between_def)
    show "lane_shape ([''c2pa''] @ [''audio''] @ [''voice''] @ [''licence''] @ [''policy'']) (?es @ pe_evidence e) ?cs"
      using shape by (simp add: lanes)
    show "mset (pa_claims p @ ra_claims rights @ da_claims (pe_assessment e)) = mset ?cs"
      by (simp add: p rights(2))
    show "distinct (map co_component_id (components @ [pe_component e]))"
      using components(2) kept(2) policy_shape by simp
    show "grounded (ad_sha256 ?d) ?all (set (?es @ pe_evidence e)) (set ?cs)" using grounded assms(6) by simp
    show "da_decision (pe_assessment e) \<noteq> Decision_GO" by (rule go)
  qed
  then show ?thesis
    using licence(1) base rights(1) components(1) policy(1) assms(6) by (simp add: decide_assessment_def lanes)
qed

lemma audio_execution_result:
  assumes "sha_ok rt" and "is_aware now" and "audio_ready rt lib data gi"
    and "validate_execution_asset rt st lib data (gi_request gi) = Inr ()" and "validate_governed_inputs gi = Inr ()"
  shows "\<exists>a. execute_rightsgate_assessment rt st lib data gi now = Inr a"
proof -
  let ?d = "ir_asset (rq_asset_ir (gi_request gi))"
  have kind: "ad_media_kind ?d = Media_AUDIO" and c2pa_ok: "c2pa_lib_ok (xl_c2pa lib)"
    using assms(3) by (simp_all add: audio_ready_def)
  have sha: "is_sha256 (ad_sha256 ?d)"
    using validate_execution_asset_bound(1) [OF assms(4)] sha_okD [OF assms(1), of data] by simp
  obtain c2pa where c2pa: "verify_c2pa rt (xl_c2pa lib) data (ad_media_type ?d) (ad_sha256 ?d) = Inr c2pa"
    "provenance_sound (ad_sha256 ?d) c2pa"
    using verify_c2pa_result [OF assms(1) sha c2pa_ok] by blast
  note shape = verify_c2pa_shape [OF c2pa(1)]
  obtain lanes where lanes: "audio_lanes rt lib data gi now c2pa = Inr lanes"
    by (rule audio_lanes_ok [OF assms(1-4) refl c2pa(2)]) (rule that)
  from audio_decide_ok [OF assms refl c2pa(2) _ _ lanes] shape
  obtain a where "decide_assessment rt st lib gi now c2pa lanes = Inr a" by blast
  then show ?thesis
    using assms(2,4,5) c2pa(1) lanes by (simp add: execute_rightsgate_assessment_def Let_def run_lanes_def kind)
qed


subsection \<open>A policy that requires the policy compiler\<close>

lemma conclude_distinct:
  assumes "conclude_assessment rt request created_at fingerprint components evidence provenance rights e = Inr a"
  shows "distinct (map co_component_id (components @ [pe_component e]))"
proof -
  from assms obtain g where "wf_assessment a" "as_components a = sort_key co_component_id (components @ [pe_component e])"
    by (auto simp: conclude_assessment_def Let_def validate_assessment_iff elim!: res_bind_InrE)
  then have "distinct (map co_component_id (sort_key co_component_id (components @ [pe_component e])))"
    by (simp only: wf_assessment_def refs_ok_def)
  then show ?thesis by (simp only: distinct_map_sort_key)
qed

lemma self_requiring_policy_result:
  assumes "policy_component_id \<in> set (pp_required_component_ids (gi_policy gi))"
  shows "\<exists>e. execute_rightsgate_assessment rt st lib data gi now = Inl e"
proof (rule ccontr)
  assume "\<not> ?thesis"
  then obtain a where "execute_rightsgate_assessment rt st lib data gi now = Inr a"
    by (cases "execute_rightsgate_assessment rt st lib data gi now") auto
  then obtain c2pa lanes where tail: "decide_assessment rt st lib gi now c2pa lanes = Inr a"
    by (rule execute_InrE)
  from tail obtain licence rights components e where
    components: "assessed_components (gi_policy gi) c2pa lanes licence = Inr components"
    and policy: "evaluate_publication_policy rt (ad_sha256 (ir_asset (rq_asset_ir (gi_request gi))))
      (rq_context (gi_request gi)) (gi_policy gi) (lc_provenance lanes) rights licence components = Inr e"
    and conclude: "conclude_assessment rt (gi_request gi) now (execution_fingerprint rt st (xl_c2pa lib) gi) components
      (pr_evidence c2pa @ lc_evidence lanes @ le_evidence licence) (lc_provenance lanes) rights e = Inr a"
    by (rule decide_InrE)
  have "policy_component_id \<in> co_component_id ` set components"
    using require_all [OF components [unfolded assessed_components_def]] assms by blast
  with policy_shape [OF policy] conclude_distinct [OF conclude] show False by auto
qed

text \<open>
  C20: a policy whose required components name the policy compiler itself makes every execution raise, for every asset:
  the loop adds an UNAVAILABLE record for the compiler, which has not run yet, and its real record is then a duplicate
  that the assessment contract refuses.
\<close>

theorem self_requiring_policy_fails:
  assumes "policy_component_id \<in> set (pp_required_component_ids (gi_policy gi))"
  shows "\<exists>e. execute_rightsgate_assessment rt st lib data gi now = Inl e"
  by (rule self_requiring_policy_result [OF assms])

subsection \<open>An execution\<close>

text \<open>A recording whose credential reports a hash mismatch, under a policy that blocks tampering.\<close>

definition demo_audio :: asset_descriptor where
  "demo_audio = demo_asset\<lparr>ad_sha256 := rt_sha256 demo_runtime demo_wav_bytes, ad_media_kind := Media_AUDIO,
     ad_media_type := ''audio/wav'', ad_size_bytes := 44, ad_original_filename := ''a.wav'',
     ad_duration_seconds := Some (1 / 10)\<rparr>"

definition demo_inputs :: governed_inputs where
  "demo_inputs = \<lparr>gi_request = demo_request\<lparr>rq_asset_ir := demo_asset_ir\<lparr>ir_asset := demo_audio\<rparr>\<rparr>,
     gi_rights = \<lparr>rr_registry_id = ''registry-1'', rr_version = ''1'', rr_references = []\<rparr>,
     gi_licences = \<lparr>lr_registry_id = ''licences'', lr_version = ''1'', lr_licences = []\<rparr>, gi_policy = demo_policy,
     gi_watermarks = None, gi_consents = None, gi_max_hamming_distance = 6\<rparr>"

definition demo_exec_lib :: exec_lib where
  "demo_exec_lib = \<lparr>xl_c2pa = demo_c2pa_lib,
     xl_analysis = \<lparr>al_video = demo_library, al_forensic = demo_forensic_lib, al_image = demo_lib, al_localizer = marked_lib\<rparr>,
     xl_watermark = demo_watermark_lib 16, xl_voice = demo_voice_lib,
     xl_upload = \<lparr>ul_pdf = (\<lambda>_. Inl ''no reader''), ul_text = (\<lambda>_ _. Inl ''no reader''),
       ul_docx_error = (\<lambda>_. Some ''no reader''), ul_dataset = (\<lambda>_ _. Inl ''no reader''),
       ul_image = (\<lambda>_. Inl ''no reader'')\<rparr>\<rparr>"

lemma demo_inputs_simps [simp]:
  "ir_asset (rq_asset_ir (gi_request demo_inputs)) = demo_audio" "rq_context (gi_request demo_inputs) = demo_context"
  "gi_policy demo_inputs = demo_policy" "gi_consents demo_inputs = None" "xl_voice demo_exec_lib = demo_voice_lib"
  "xl_c2pa demo_exec_lib = demo_c2pa_lib"
  by (simp_all add: demo_inputs_def demo_request_def demo_exec_lib_def)

lemma demo_audio_valid: "validate_execution_asset demo_runtime default_settings demo_exec_lib demo_wav_bytes (gi_request demo_inputs) = Inr ()"
proof -
  let ?w = "\<lparr>wav_compressed = False, wav_channels = 1, wav_width = 1, wav_rate = 8000, wav_frames = 800,
      wav_raw = replicate 800 (CHR ''a'')\<rparr>"
  have "vl_wave demo_voice_lib demo_wav_bytes = Some ?w" "is_riff_wave demo_wav_bytes" "bounded_pcm ?w"
    by (simp_all add: demo_voice_lib_def is_riff_wave_def demo_wav_bytes_def bounded_pcm_def)
  then obtain r where
    r: "inspect_pcm_wav demo_runtime (vl_wave demo_voice_lib) demo_wav_bytes (rt_sha256 demo_runtime demo_wav_bytes) = Inr r"
    and stream: "aa_stream r = stream_of ?w"
    using inspect_pcm_wav_result [OF sha_ok_demo refl, where wave = "vl_wave demo_voice_lib" and data = demo_wav_bytes]
    by (cases "inspect_pcm_wav demo_runtime (vl_wave demo_voice_lib) demo_wav_bytes (rt_sha256 demo_runtime demo_wav_bytes)") auto
  have "ends_with (casefold (sanitize_filename ''a.wav'')) ''.wav''" by code_simp
  with r stream show ?thesis
    by (simp add: validate_execution_asset_def validate_audio_asset_def demo_audio_def demo_asset_def Let_def
        default_settings_def demo_wav_bytes_def stream_of_def as_input_error_def)
qed

lemma demo_governed: "validate_governed_inputs demo_inputs = Inr ()"
  by (simp add: validate_governed_inputs_def demo_inputs_def demo_request_def demo_context_def demo_policy_def Let_def
      sorted_set_def)

lemma demo_audio_ready: "audio_ready demo_runtime demo_exec_lib demo_wav_bytes demo_inputs"
proof -
  have "wf_context demo_context" by code_simp
  moreover have "c2pa_lib_ok demo_c2pa_lib" by (simp add: c2pa_lib_ok_def demo_c2pa_lib_def len_between_def)
  moreover have "wf_descriptor demo_audio"
    by (simp add: wf_descriptor_def descriptor_fields_def demo_audio_def demo_asset_def len_between_def id_eval)
  ultimately show ?thesis by (simp add: audio_ready_def) (simp add: demo_audio_def demo_policy_def)
qed

lemmas demo_execution = audio_execution_result [OF sha_ok_demo utc_simps(2) demo_audio_ready demo_audio_valid demo_governed]


theorem execution_never_releases_witness:
  "\<exists>a. execute_rightsgate_assessment demo_runtime default_settings demo_exec_lib demo_wav_bytes demo_inputs (utc 0) = Inr a \<and>
    da_decision (as_deployment a) \<in> {Decision_BLOCK, Decision_REVIEW}"
  using demo_execution [of 0] execution_never_releases [OF sha_ok_demo] by blast

theorem execution_bound_to_inputs_witness:
  "\<exists>a. execute_rightsgate_assessment demo_runtime default_settings demo_exec_lib demo_wav_bytes demo_inputs (utc 0) = Inr a \<and>
    wf_assessment a \<and> as_asset a = demo_audio"
  using demo_execution [of 0] execution_bound_to_inputs [of demo_runtime default_settings demo_exec_lib demo_wav_bytes demo_inputs]
  by fastforce

lemma demo_tampered: "lane_tampered demo_runtime demo_exec_lib demo_wav_bytes demo_inputs"
proof -
  let ?ob = "\<lparr>mo_validation_state = Some ''Invalid'', mo_validation_results = Some
     (JObj [(''activeManifest'', JObj [(''failure'', JArr [JObj [(''code'', JStr ''assertion.dataHash.mismatch'')]])])]),
     mo_active_manifest = JObj [], mo_report = JObj []\<rparr>"
  have "casefold ''Invalid'' = ''invalid''" by code_simp
  then have "observed demo_c2pa_lib demo_wav_bytes ''audio/wav'' [''invalid''] ?ob"
    by (simp add: observed_def read_manifest_def demo_c2pa_lib_def state_text_def)
  moreover have "tamper_signal (status_codes (mo_validation_results ?ob) ''failure'')" by code_simp
  moreover have "c2pa_lib_ok demo_c2pa_lib" by (simp add: c2pa_lib_ok_def demo_c2pa_lib_def len_between_def)
  ultimately obtain r where "verify_c2pa demo_runtime demo_c2pa_lib demo_wav_bytes ''audio/wav''
      (rt_sha256 demo_runtime demo_wav_bytes) = Inr r" "pa_verdict (pr_assessment r) = Prov_TAMPERED"
    using verify_c2pa_result [OF sha_ok_demo, of "rt_sha256 demo_runtime demo_wav_bytes" demo_c2pa_lib demo_wav_bytes
        "''audio/wav''"] sha_okD [OF sha_ok_demo] by blast
  then show ?thesis by (simp add: lane_tampered_def demo_audio_def Let_def)
qed

theorem execution_blocks_witness:
  "\<exists>a. execute_rightsgate_assessment demo_runtime default_settings demo_exec_lib demo_wav_bytes demo_inputs (utc 0) = Inr a \<and>
    da_decision (as_deployment a) = Decision_BLOCK"
proof -
  have "pp_block_tampered_provenance (gi_policy demo_inputs)" by (simp add: demo_policy_def)
  with demo_execution [of 0] demo_tampered execution_blocks [OF sha_ok_demo] show ?thesis by blast
qed

theorem self_requiring_policy_fails_witness:
  "\<exists>e. execute_rightsgate_assessment demo_runtime default_settings demo_exec_lib demo_wav_bytes
    (demo_inputs\<lparr>gi_policy := demo_policy\<lparr>pp_required_component_ids := [policy_component_id]\<rparr>\<rparr>) (utc 0) = Inl e"
  by (rule self_requiring_policy_fails) simp

end
