(* ===== verification/Service.thy ===== *)
theory Service
  imports Completion Store Integration Release
begin

section \<open>The RightsGate service\<close>

text \<open>
  \<open>rightsgate/api.py\<close>: the endpoints, as functions from the form and the table of assessments to a reply. A reply
  is a value, an \<open>HTTPException\<close>, or an exception no handler catches (the framework answers 500). The JSON readers
  of pydantic, the uploaded file and the reviewer registry file are parameters of the service.
\<close>

datatype http_detail = Detail string | Field_detail string string | Failure_detail string "string option"

datatype 'a reply = Reply 'a | Refused nat http_detail | Unhandled py_error

record control_readers =
  jr_request :: "string \<Rightarrow> string + assessment_request"
  jr_rights :: "string \<Rightarrow> string + rights_registry"
  jr_licences :: "string \<Rightarrow> string + licence_registry"
  jr_policy :: "string \<Rightarrow> string + publication_policy"
  jr_watermarks :: "string \<Rightarrow> string + watermark_registry"
  jr_consents :: "string \<Rightarrow> string + consent_registry"
  jr_grant :: "string \<Rightarrow> string + consent_grant"
  jr_reviewers :: "string \<Rightarrow> reviewer_registry res"

record registry_file =
  rf_symlink :: bool
  rf_regular :: bool
  rf_read :: "string res"

record service =
  sv_settings :: settings
  sv_store :: store_config
  sv_lib :: exec_lib
  sv_readers :: control_readers
  sv_max_control_json_bytes :: nat
  sv_reviewer_file :: "registry_file option"
  sv_authorization_ttl_seconds :: int
  sv_max_review_age_seconds :: int

definition sv_runtime :: "service \<Rightarrow> runtime" where
  "sv_runtime sv = sc_runtime (sv_store sv)"

definition reply_bind :: "'a reply \<Rightarrow> ('a \<Rightarrow> 'b reply) \<Rightarrow> 'b reply" where
  "reply_bind r f = (case r of Reply x \<Rightarrow> f x | Refused n d \<Rightarrow> Refused n d | Unhandled e \<Rightarrow> Unhandled e)"

text \<open>\<open>except E as error: raise HTTPException(n, str(error))\<close>: the exceptions a handler catches, with their status.\<close>

definition reply_of :: "runtime \<Rightarrow> (py_error \<Rightarrow> nat option) \<Rightarrow> 'a res \<Rightarrow> 'a reply" where
  "reply_of rt handler r =
     (case r of Inr x \<Rightarrow> Reply x
      | Inl e \<Rightarrow> (case handler e of Some n \<Rightarrow> Refused n (Detail (error_text rt e)) | None \<Rightarrow> Unhandled e))"

definition on_value_error :: "nat \<Rightarrow> py_error \<Rightarrow> nat option" where
  "on_value_error n e = (if is_value_error e then Some n else None)"

definition on_input_error :: "nat \<Rightarrow> py_error \<Rightarrow> nat option" where
  "on_input_error n e = (case e of ExecutionInputError _ \<Rightarrow> Some n | _ \<Rightarrow> None)"

definition on_upload_error :: "nat \<Rightarrow> py_error \<Rightarrow> nat option" where
  "on_upload_error n e = (case e of UploadValidationError _ \<Rightarrow> Some n | _ \<Rightarrow> None)"

definition on_store_error :: "py_error \<Rightarrow> nat option" where
  "on_store_error e = (case e of IdempotencyConflict _ \<Rightarrow> Some 409 | StoredAssessmentIntegrityError _ \<Rightarrow> Some 500 | _ \<Rightarrow> None)"

definition parse_control :: "service \<Rightarrow> (string \<Rightarrow> string + 'a) \<Rightarrow> string \<Rightarrow> string \<Rightarrow> 'a reply" where
  "parse_control sv reader field raw =
     (if sv_max_control_json_bytes sv < length raw
      then Refused 413 (Detail (field @ '' exceeds the control JSON limit''))
      else case reader raw of Inl errors \<Rightarrow> Refused 422 (Field_detail field errors) | Inr x \<Rightarrow> Reply x)"

definition parse_optional ::
    "service \<Rightarrow> (string \<Rightarrow> string + 'a) \<Rightarrow> string \<Rightarrow> string option \<Rightarrow> 'a option reply" where
  "parse_optional sv reader field raw =
     (case raw of None \<Rightarrow> Reply None | Some t \<Rightarrow> reply_bind (parse_control sv reader field t) (\<lambda>x. Reply (Some x)))"

text \<open>\<open>await file.read(settings.max_file_size_bytes + 1)\<close>.\<close>

definition read_upload :: "service \<Rightarrow> string \<Rightarrow> string" where
  "read_upload sv content = take (st_max_file_size_bytes (sv_settings sv) + 1) content"

definition file_name :: "string \<Rightarrow> string option \<Rightarrow> string" where
  "file_name fallback name = sanitize_filename (case name of None \<Rightarrow> fallback | Some n \<Rightarrow> if n = [] then fallback else n)"

definition service_upload :: "service \<Rightarrow> string \<Rightarrow> string \<Rightarrow> (file_type \<times> string \<times> string) res" where
  "service_upload sv data name = validate_upload (sv_runtime sv) (sv_settings sv) (al_video (xl_analysis (sv_lib sv)))
     (xl_upload (sv_lib sv)) data name"

subsection \<open>Validation and derivation\<close>

record request_receipt =
  qr_idempotency_key :: string
  qr_request_sha256 :: string

definition validate_request_endpoint :: "service \<Rightarrow> assessment_request \<Rightarrow> request_receipt" where
  "validate_request_endpoint sv payload =
     \<lparr>qr_idempotency_key = rq_idempotency_key payload, qr_request_sha256 = request_sha256 (sv_runtime sv) payload\<rparr>"

record validation_receipt =
  vr_assessment_id :: string
  vr_assessment_sha256 :: string
  vr_deployment_decision :: deployment_decision
  vr_release_authorization :: bool

definition validate_assessment_endpoint :: "service \<Rightarrow> rightsgate_assessment \<Rightarrow> validation_receipt" where
  "validate_assessment_endpoint sv payload =
     \<lparr>vr_assessment_id = as_assessment_id payload,
      vr_assessment_sha256 = assessment_commitment (sv_runtime sv) payload,
      vr_deployment_decision = da_decision (as_deployment payload), vr_release_authorization = False\<rparr>"

definition inspect_c2pa_endpoint :: "service \<Rightarrow> string \<Rightarrow> string option \<Rightarrow> provenance_result reply" where
  "inspect_c2pa_endpoint sv content name =
     (let rt = sv_runtime sv; data = read_upload sv content
      in reply_bind (reply_of rt (on_upload_error 400) (service_upload sv data (file_name ''asset'' name)))
           (\<lambda>(_, media_type, asset_sha256).
         reply_of rt (\<lambda>_. None) (verify_c2pa rt (xl_c2pa (sv_lib sv)) data media_type asset_sha256)))"

definition derive_image_reference ::
    "service \<Rightarrow> string \<Rightarrow> string option \<Rightarrow> string \<Rightarrow> reference_kind \<Rightarrow> string \<Rightarrow> string \<Rightarrow> string \<Rightarrow> registry_image reply" where
  "derive_image_reference sv content name reference_id kind title rights_holder source_record_id =
     (let rt = sv_runtime sv; data = read_upload sv content
      in reply_bind (reply_of rt (on_upload_error 400) (service_upload sv data (file_name ''reference'' name)))
           (\<lambda>(file_type, media_type, _).
         if file_type \<noteq> File_IMAGE then Refused 400 (Detail ''reference must be a PNG or JPEG image'')
         else reply_of rt (on_value_error 422) (build_registry_image rt (al_image (xl_analysis (sv_lib sv))) reference_id kind
           title rights_holder data media_type source_record_id (st_max_image_pixels (sv_settings sv)))))"

text \<open>The upload check the two template endpoints share: an error of any kind is answered 422.\<close>

definition image_upload_bytes :: "service \<Rightarrow> string \<Rightarrow> string \<Rightarrow> string \<Rightarrow> unit res" where
  "image_upload_bytes sv data name message =
     res_bind (service_upload sv data name) (\<lambda>(file_type, _, _).
       if file_type \<noteq> File_IMAGE then Inl (ValueError message) else Inr ())"

definition derive_watermark_profile ::
    "service \<Rightarrow> string \<Rightarrow> string option \<Rightarrow> string \<Rightarrow> string \<Rightarrow> string \<Rightarrow> rat \<times> rat \<times> rat \<times> rat \<Rightarrow> int \<Rightarrow>
     watermark_profile reply" where
  "derive_watermark_profile sv content name profile_id source_record_id brand_profile bbox max_hamming_distance =
     (let rt = sv_runtime sv; data = read_upload sv content
      in reply_of rt (on_value_error 422)
        (res_bind (image_upload_bytes sv data (file_name ''watermark'' name) ''watermark template must be a PNG or JPEG image'')
          (\<lambda>_. build_watermark_profile rt (xl_watermark (sv_lib sv)) profile_id source_record_id [brand_profile] bbox data
            max_hamming_distance)))"

definition derive_likeness_template ::
    "service \<Rightarrow> string \<Rightarrow> string option \<Rightarrow> string \<Rightarrow> string \<Rightarrow> int \<Rightarrow> likeness_template reply" where
  "derive_likeness_template sv content name template_id consent_json max_hamming_distance =
     reply_bind (parse_control sv (jr_grant (sv_readers sv)) ''consent_json'' consent_json) (\<lambda>consent.
     let rt = sv_runtime sv; data = read_upload sv content
     in reply_of rt (on_value_error 422)
       (res_bind (image_upload_bytes sv data (file_name ''likeness'' name) ''likeness reference must be a PNG or JPEG image'')
         (\<lambda>_. build_likeness_template rt (al_image (xl_analysis (sv_lib sv))) template_id data consent max_hamming_distance)))"

definition derive_voice_template ::
    "service \<Rightarrow> string \<Rightarrow> string \<Rightarrow> string \<Rightarrow> rat \<Rightarrow> voice_template reply" where
  "derive_voice_template sv content template_id consent_json minimum_similarity =
     reply_bind (parse_control sv (jr_grant (sv_readers sv)) ''consent_json'' consent_json) (\<lambda>consent.
     let rt = sv_runtime sv; data = read_upload sv content
     in if data = [] \<or> st_max_file_size_bytes (sv_settings sv) < length data
        then Refused 413 (Detail ''voice reference exceeds the upload limit'')
        else reply_of rt (on_value_error 422)
          (build_voice_template rt (xl_voice (sv_lib sv)) template_id data consent minimum_similarity))"

subsection \<open>Executing an assessment\<close>

record assessment_form =
  fm_content :: string
  fm_request_json :: string
  fm_rights_json :: string
  fm_licences_json :: string
  fm_policy_json :: string
  fm_watermarks_json :: "string option"
  fm_consents_json :: "string option"
  fm_max_hamming_distance :: int

record assessment_response =
  xr_idempotency_key :: string
  xr_request_sha256 :: string
  xr_execution_sha256 :: string
  xr_assessment_sha256 :: string
  xr_replayed :: bool
  xr_release_authorization :: bool
  xr_assessment :: rightsgate_assessment

definition execution_response ::
    "string \<Rightarrow> string \<Rightarrow> string \<Rightarrow> string \<Rightarrow> bool \<Rightarrow> rightsgate_assessment \<Rightarrow> assessment_response" where
  "execution_response key request_sha execution_sha assessment_sha replayed assessment =
     \<lparr>xr_idempotency_key = key, xr_request_sha256 = request_sha, xr_execution_sha256 = execution_sha,
      xr_assessment_sha256 = assessment_sha, xr_replayed = replayed, xr_release_authorization = False,
      xr_assessment = assessment\<rparr>"

text \<open>The controls of a form.\<close>

definition read_controls :: "service \<Rightarrow> assessment_form \<Rightarrow> governed_inputs reply" where
  "read_controls sv fm =
     (let rd = sv_readers sv
      in if \<not> (0 \<le> fm_max_hamming_distance fm \<and> fm_max_hamming_distance fm \<le> 64)
         then Refused 422 (Detail ''max_hamming_distance must be between 0 and 64'')
         else reply_bind (parse_control sv (jr_request rd) ''request_json'' (fm_request_json fm)) (\<lambda>request.
           reply_bind (parse_control sv (jr_rights rd) ''rights_registry_json'' (fm_rights_json fm)) (\<lambda>rights.
           reply_bind (parse_control sv (jr_licences rd) ''licence_registry_json'' (fm_licences_json fm)) (\<lambda>licences.
           reply_bind (parse_control sv (jr_policy rd) ''policy_json'' (fm_policy_json fm)) (\<lambda>policy.
           reply_bind (parse_optional sv (jr_watermarks rd) ''watermark_registry_json'' (fm_watermarks_json fm)) (\<lambda>watermarks.
           reply_bind (parse_optional sv (jr_consents rd) ''consent_registry_json'' (fm_consents_json fm)) (\<lambda>consents.
           Reply \<lparr>gi_request = request, gi_rights = rights, gi_licences = licences, gi_policy = policy,
                  gi_watermarks = watermarks, gi_consents = consents,
                  gi_max_hamming_distance = fm_max_hamming_distance fm\<rparr>)))))))"

text \<open>Everything before the reservation: the governed inputs, the bytes and the fingerprint.\<close>

record task =
  tk_inputs :: governed_inputs
  tk_data :: string
  tk_execution_sha256 :: string

definition prepare_task :: "service \<Rightarrow> assessment_form \<Rightarrow> task reply" where
  "prepare_task sv fm =
     (let rt = sv_runtime sv; st = sv_settings sv
      in reply_bind (read_controls sv fm) (\<lambda>gi.
         reply_bind (reply_of rt (on_input_error 422) (validate_governed_inputs gi)) (\<lambda>_.
         let data = read_upload sv (fm_content fm)
         in reply_bind (reply_of rt (on_input_error 400) (validate_execution_asset rt st (sv_lib sv) data (gi_request gi))) (\<lambda>_.
            Reply \<lparr>tk_inputs = gi, tk_data = data,
              tk_execution_sha256 = execution_fingerprint rt st (xl_c2pa (sv_lib sv)) gi\<rparr>))))"

text \<open>The answer to a reservation, when it is not an acquisition.\<close>

definition answer_reservation :: "reservation \<Rightarrow> assessment_response reply option" where
  "answer_reservation rs =
     (case rs_state rs of
        Res_ACQUIRED \<Rightarrow> None
      | Res_REPLAY \<Rightarrow> Some (case (rs_assessment rs, rs_assessment_sha256 rs) of
            (Some a, Some sha) \<Rightarrow> Reply (execution_response (rs_idempotency_key rs) (rs_request_sha256 rs)
              (rs_execution_sha256 rs) sha True a)
          | _ \<Rightarrow> Refused 500 (Detail ''stored assessment record is incomplete''))
      | Res_IN_PROGRESS \<Rightarrow> Some (Refused 409 (Detail ''an assessment with this idempotency key is already in progress''))
      | Res_FAILED \<Rightarrow> Some (Refused 409 (Failure_detail ''the idempotent assessment previously failed'' (rs_failure_code rs))))"

text \<open>The first half of the handler: up to the acquired reservation.\<close>

definition begin_assessment ::
    "service \<Rightarrow> int \<Rightarrow> assessment_form \<Rightarrow> database \<Rightarrow> (assessment_response reply + task \<times> nat) \<times> database" where
  "begin_assessment sv now fm db =
     (case prepare_task sv fm of
        Refused n d \<Rightarrow> (Inl (Refused n d), db)
      | Unhandled e \<Rightarrow> (Inl (Unhandled e), db)
      | Reply t \<Rightarrow>
          (case reserve (sv_store sv) now (gi_request (tk_inputs t)) (tk_execution_sha256 t) db of
             (Inl e, db') \<Rightarrow> (Inl (reply_of (sv_runtime sv) on_store_error (Inl e)), db')
           | (Inr rs, db') \<Rightarrow> (case answer_reservation rs of
                 Some answer \<Rightarrow> (Inl answer, db') | None \<Rightarrow> (Inr (t, rs_attempt_count rs), db'))))"

text \<open>The second half: execution, completion, and the record of a failure.\<close>

definition finish_assessment ::
    "service \<Rightarrow> datetime \<Rightarrow> int \<Rightarrow> task \<Rightarrow> nat \<Rightarrow> database \<Rightarrow> assessment_response reply \<times> database" where
  "finish_assessment sv created_at now t attempt db =
     (let key = rq_idempotency_key (gi_request (tk_inputs t)); sha = tk_execution_sha256 t;
          failed = (\<lambda>db. (Refused 500 (Detail ''assessment failed closed; no release authorization was produced''),
            snd (fail_assessment now key sha attempt ''EXECUTION_FAILED'' db)))
      in case execute_rightsgate_assessment (sv_runtime sv) (sv_settings sv) (sv_lib sv) (tk_data t) (tk_inputs t) created_at of
           Inl _ \<Rightarrow> failed db
         | Inr assessment \<Rightarrow>
             (case complete_assessment (sv_store sv) now key sha attempt assessment db of
                (Inl _, db') \<Rightarrow> failed db'
              | (Inr assessment_sha, db') \<Rightarrow>
                  (Reply (execution_response key (request_sha256 (sv_runtime sv) (gi_request (tk_inputs t))) sha
                     assessment_sha False assessment), db')))"

subsection \<open>Records and receipts\<close>

record record_response =
  rp_idempotency_key :: string
  rp_request_sha256 :: string
  rp_execution_sha256 :: string
  rp_status :: row_status
  rp_attempt_count :: nat
  rp_lease_expires_at :: int
  rp_assessment_sha256 :: "string option"
  rp_failure_code :: "string option"
  rp_release_authorization :: bool
  rp_assessment :: "rightsgate_assessment option"

primrec record_status :: "reservation_state \<Rightarrow> row_status" where
  "record_status Res_IN_PROGRESS = Row_PENDING"
| "record_status Res_REPLAY = Row_COMPLETE"
| "record_status Res_FAILED = Row_FAILED"
| "record_status Res_ACQUIRED = Row_PENDING"

definition get_assessment_record :: "service \<Rightarrow> string \<Rightarrow> database \<Rightarrow> record_response reply" where
  "get_assessment_record sv key db =
     (if key = [] \<or> 128 < length key then Refused 422 (Detail ''invalid idempotency key'')
      else reply_bind (reply_of (sv_runtime sv) on_store_error (get_reservation (sv_store sv) key db)) (\<lambda>found.
        case found of None \<Rightarrow> Refused 404 (Detail ''assessment record not found'')
        | Some rs \<Rightarrow> Reply
            \<lparr>rp_idempotency_key = rs_idempotency_key rs, rp_request_sha256 = rs_request_sha256 rs,
             rp_execution_sha256 = rs_execution_sha256 rs, rp_status = record_status (rs_state rs),
             rp_attempt_count = rs_attempt_count rs, rp_lease_expires_at = rs_lease_expires_at rs,
             rp_assessment_sha256 = rs_assessment_sha256 rs, rp_failure_code = rs_failure_code rs,
             rp_release_authorization = False, rp_assessment = rs_assessment rs\<rparr>))"

definition create_cms_decision_receipt :: "service \<Rightarrow> cms_request \<Rightarrow> database \<Rightarrow> cms_receipt reply" where
  "create_cms_decision_receipt sv payload db =
     (let rt = sv_runtime sv
      in reply_bind (reply_of rt on_store_error (get_reservation (sv_store sv) (cq_assessment_idempotency_key payload) db)) (\<lambda>found.
         case found of None \<Rightarrow> Refused 404 (Detail ''assessment record not found'')
         | Some rs \<Rightarrow>
             (case rs_assessment rs of
                None \<Rightarrow> Refused 409 (Detail ''assessment is not complete'')
              | Some a \<Rightarrow>
                  if rs_state rs \<noteq> Res_REPLAY then Refused 409 (Detail ''assessment is not complete'')
                  else (case rs_assessment_sha256 rs of
                    None \<Rightarrow> Refused 500 (Detail ''stored assessment commitment is absent'')
                  | Some sha \<Rightarrow> reply_of rt (on_value_error 409)
                      (build_cms_decision_receipt rt payload a (rs_request_sha256 rs) (rs_execution_sha256 rs) sha)))))"

definition verify_cms_receipt :: "service \<Rightarrow> cms_receipt \<Rightarrow> (string \<times> bool) reply" where
  "verify_cms_receipt sv payload =
     reply_bind (reply_of (sv_runtime sv) (\<lambda>_. None) (verify_cms_decision_receipt (sv_runtime sv) payload None)) (\<lambda>valid.
       Reply (cr_receipt_sha256 payload, valid))"

fun is_os_error :: "py_error \<Rightarrow> bool" where
  "is_os_error (OSError _) = True"
| "is_os_error _ = False"

text \<open>\<open>_load_reviewer_registry\<close>: the trust root is the operator's file, never data of the caller.\<close>

definition load_reviewer_registry :: "service \<Rightarrow> reviewer_registry reply" where
  "load_reviewer_registry sv =
     (case sv_reviewer_file sv of
        None \<Rightarrow> Refused 503 (Detail ''release authorization is disabled: no reviewer trust registry configured'')
      | Some file \<Rightarrow>
          (case (if rf_symlink file \<or> \<not> rf_regular file
                 then Inl (ValueError ''reviewer trust registry must be a regular non-symlink file'')
                 else res_bind (rf_read file) (\<lambda>raw.
                   if sv_max_control_json_bytes sv < length raw
                   then Inl (ValueError ''reviewer trust registry exceeds the control JSON limit'')
                   else jr_reviewers (sv_readers sv) raw)) of
             Inr registry \<Rightarrow> Reply registry
           | Inl e \<Rightarrow>
               if is_value_error e \<or> is_os_error e
               then Refused 503 (Detail (''release authorization trust registry is unavailable: '' @
                 error_text (sv_runtime sv) e))
               else Unhandled e))"

definition create_release_authorization ::
    "service \<Rightarrow> datetime \<Rightarrow> release_request \<Rightarrow> authorization_receipt reply" where
  "create_release_authorization sv now payload =
     reply_bind (load_reviewer_registry sv) (\<lambda>registry.
       reply_of (sv_runtime sv) (on_value_error 409) (build_release_authorization_receipt (sv_runtime sv) payload registry now
         (sv_authorization_ttl_seconds sv) (sv_max_review_age_seconds sv)))"

definition verify_release_authorization ::
    "service \<Rightarrow> datetime \<Rightarrow> authorization_receipt \<Rightarrow> release_verification reply" where
  "verify_release_authorization sv now payload =
     reply_bind (load_reviewer_registry sv) (\<lambda>registry.
       reply_of (sv_runtime sv) (\<lambda>_. None) (verify_release_authorization_receipt (sv_runtime sv) payload registry now None))"

end
