(* ===== verification/Service_Runs.thy ===== *)
theory Service_Runs
  imports Service
begin

section \<open>Runs of the service\<close>

text \<open>
  Any number of workers post assessments to one table. A post either is answered at once or starts a job (the acquired
  reservation); a job finishes, in any order and at any clock reading, or is lost with its worker. The runs refine those
  of the store: each step is a sequence of store calls.
\<close>

datatype service_event =
    Ev_answered int assessment_form "assessment_response reply"
  | Ev_started int assessment_form task nat
  | Ev_finished datetime int task nat "assessment_response reply"
  | Ev_lost task nat

type_synonym service_state = "database \<times> (task \<times> nat) list"

abbreviation task_key :: "task \<Rightarrow> string" where
  "task_key t \<equiv> rq_idempotency_key (gi_request (tk_inputs t))"

abbreviation task_fingerprint :: "service \<Rightarrow> task \<Rightarrow> string" where
  "task_fingerprint sv t \<equiv> execution_fingerprint (sv_runtime sv) (sv_settings sv) (xl_c2pa (sv_lib sv)) (tk_inputs t)"

definition service_ok :: "service \<Rightarrow> bool" where
  "service_ok sv \<longleftrightarrow> sha_ok (sv_runtime sv) \<and> 1 \<le> sc_lease_seconds (sv_store sv)"

inductive service_step :: "service \<Rightarrow> service_state \<Rightarrow> service_event \<Rightarrow> service_state \<Rightarrow> bool" for sv where
  answered: "service_ok sv \<Longrightarrow> begin_assessment sv now fm db = (Inl answer, db') \<Longrightarrow>
    service_step sv (db, jobs) (Ev_answered now fm answer) (db', jobs)"
| started: "service_ok sv \<Longrightarrow> begin_assessment sv now fm db = (Inr (t, n), db') \<Longrightarrow>
    request_codec_ok (sv_store sv) (gi_request (tk_inputs t)) \<Longrightarrow>
    service_step sv (db, jobs) (Ev_started now fm t n) (db', (t, n) # jobs)"
| finished: "service_ok sv \<Longrightarrow> (t, n) \<in> set jobs \<Longrightarrow> finish_assessment sv created_at now t n db = (answer, db') \<Longrightarrow>
    (\<And>x. answer = Reply x \<Longrightarrow> assessment_codec_ok (sv_store sv) (xr_assessment x)) \<Longrightarrow>
    service_step sv (db, jobs) (Ev_finished created_at now t n answer) (db', remove1 (t, n) jobs)"
| lost: "service_ok sv \<Longrightarrow> service_step sv (db, jobs) (Ev_lost t n) (db, remove1 (t, n) jobs)"

inductive service_run :: "service \<Rightarrow> service_state \<Rightarrow> service_event list \<Rightarrow> service_state \<Rightarrow> bool" for sv where
  service_Nil: "service_run sv s [] s"
| service_Cons: "service_step sv s e s' \<Longrightarrow> service_run sv s' es s'' \<Longrightarrow> service_run sv s (e # es) s''"

inductive_cases service_step_startedE: "service_step sv s (Ev_started now fm t n) s'"
inductive_cases service_step_finishedE: "service_step sv s (Ev_finished created_at now t n answer) s'"
inductive_simps service_run_Nil_iff [simp]: "service_run sv s [] s'"
inductive_simps service_run_Cons_iff: "service_run sv s (e # es) s'"

subsection \<open>The two halves of a post\<close>

lemma reply_bind_ReplyE:
  assumes "reply_bind r f = Reply y"
  obtains x where "r = Reply x" "f x = Reply y"
  using assms by (auto simp: reply_bind_def split: reply.splits)

lemma reply_of_Reply_iff [simp]: "reply_of rt h r = Reply x \<longleftrightarrow> r = Inr x"
  by (auto simp: reply_of_def split: sum.splits option.splits)

lemma prepare_task_Reply:
  "prepare_task sv fm = Reply t \<Longrightarrow> tk_execution_sha256 t = task_fingerprint sv t"
  by (auto simp: prepare_task_def Let_def elim!: reply_bind_ReplyE)

lemma begin_InrE:
  assumes "begin_assessment sv now fm db = (Inr (t, n), db')"
  obtains rs where "prepare_task sv fm = Reply t"
    and "reserve (sv_store sv) now (gi_request (tk_inputs t)) (tk_execution_sha256 t) db = (Inr rs, db')"
    and "rs_state rs = Res_ACQUIRED" and "n = rs_attempt_count rs"
  using assms
  by (auto simp: begin_assessment_def answer_reservation_def split: reply.splits prod.splits sum.splits option.splits
      reservation_state.splits)

lemma answer_reservation_None [simp]: "answer_reservation rs = None \<longleftrightarrow> rs_state rs = Res_ACQUIRED"
  by (simp add: answer_reservation_def split: reservation_state.splits)

lemma answer_reservation_Some: "answer_reservation rs = Some answer \<Longrightarrow> rs_state rs \<noteq> Res_ACQUIRED"
  by (auto simp: answer_reservation_def)

lemma begin_Inl:
  assumes "begin_assessment sv now fm db = (Inl answer, db')"
  shows "db' = db"
proof (cases "prepare_task sv fm")
  case (Reply t)
  obtain out d where res: "reserve (sv_store sv) now (gi_request (tk_inputs t)) (tk_execution_sha256 t) db = (out, d)"
    by fastforce
  have d: "db' = d" and out: "rs_state rs \<noteq> Res_ACQUIRED" if "out = Inr rs" for rs
    using assms Reply res that by (auto simp: begin_assessment_def split: sum.splits option.splits dest: answer_reservation_Some)
  have d': "db' = d"
    using assms Reply res by (auto simp: begin_assessment_def split: sum.splits option.splits)
  from res show ?thesis
    by (cases rule: reserve_cases) (use d' out in \<open>auto simp: make_reservation_def\<close>)
qed (use assms in \<open>auto simp: begin_assessment_def\<close>)

text \<open>A job finishes with a fresh assessment, or fails closed.\<close>

definition failed_closed :: "assessment_response reply" where
  "failed_closed = Refused 500 (Detail ''assessment failed closed; no release authorization was produced'')"

lemma finish_cases:
  assumes "finish_assessment sv created_at now t n db = (answer, db')"
  obtains (completed) a sha where
    "execute_rightsgate_assessment (sv_runtime sv) (sv_settings sv) (sv_lib sv) (tk_data t) (tk_inputs t) created_at = Inr a"
    "complete_assessment (sv_store sv) now (task_key t) (tk_execution_sha256 t) n a db = (Inr sha, db')"
    "answer = Reply (execution_response (task_key t) (request_sha256 (sv_runtime sv) (gi_request (tk_inputs t)))
       (tk_execution_sha256 t) sha False a)"
  | (failed) "answer = failed_closed"
    "fail_assessment now (task_key t) (tk_execution_sha256 t) n ''EXECUTION_FAILED'' db =
       (Inr (\<exists>r \<in> set db. active_attempt (task_key t) (tk_execution_sha256 t) n r), db')"
proof (cases "execute_rightsgate_assessment (sv_runtime sv) (sv_settings sv) (sv_lib sv) (tk_data t) (tk_inputs t) created_at")
  case (Inl e)
  then show thesis
    using assms by (intro failed) (auto simp: finish_assessment_def Let_def failed_closed_def fail_assessment_def)
next
  case (Inr a)
  obtain out d where comp: "complete_assessment (sv_store sv) now (task_key t) (tk_execution_sha256 t) n a db = (out, d)"
    by fastforce
  show thesis
  proof (cases out)
    case (Inl e)
    with comp have "d = db" by (cases rule: complete_cases) auto
    with assms Inr comp Inl show thesis
      by (intro failed) (auto simp: finish_assessment_def Let_def failed_closed_def fail_assessment_def)
  next
    case (Inr sha)
    with assms \<open>execute_rightsgate_assessment _ _ _ _ _ _ = Inr a\<close> comp show thesis
      by (intro completed) (auto simp: finish_assessment_def Let_def)
  qed
qed

subsection \<open>Refinement of the store\<close>

lemma store_run_single:
  "1 \<le> sc_lease_seconds cfg \<Longrightarrow> op_ok cfg op \<Longrightarrow> exec_op cfg now op db = (out, db') \<Longrightarrow> \<exists>es. store_run cfg db es db'"
  by (rule exI [where x = "[(now, op, out)]"]) (simp add: store_run_Cons_iff store_step.step)

lemma service_step_store:
  assumes "service_step sv s e s'"
  shows "\<exists>es. store_run (sv_store sv) (fst s) es (fst s')"
  using assms
proof cases
  case (answered now fm db answer db' jobs)
  then show ?thesis using begin_Inl [OF answered(5)] by (intro exI [where x = "[]"]) simp
next
  case (started now fm db t n db' jobs)
  from started(5) obtain rs where
    "reserve (sv_store sv) now (gi_request (tk_inputs t)) (tk_execution_sha256 t) db = (Inr rs, db')" by (rule begin_InrE)
  with started show ?thesis
    by (intro store_run_single [where now = now and op = "Op_reserve (gi_request (tk_inputs t)) (tk_execution_sha256 t)"])
      (auto simp: service_ok_def)
next
  case (finished t n jobs created_at now db answer db')
  have lease: "1 \<le> sc_lease_seconds (sv_store sv)" using finished(4) by (simp add: service_ok_def)
  from finished(6) show ?thesis
  proof (cases rule: finish_cases)
    case (completed a sha)
    then have "assessment_codec_ok (sv_store sv) a" using finished(7) by (simp add: execution_response_def)
    with completed lease finished(1,3) show ?thesis
      by (intro store_run_single [where now = now and op = "Op_complete (task_key t) (tk_execution_sha256 t) n a"]) auto
  next
    case failed
    with lease finished(1,3) show ?thesis
      by (intro store_run_single [where now = now and op = "Op_fail (task_key t) (tk_execution_sha256 t) n ''EXECUTION_FAILED''"]) auto
  qed
next
  case (lost db jobs t n)
  then show ?thesis by (intro exI [where x = "[]"]) simp
qed

lemma service_run_store: "service_run sv s es s' \<Longrightarrow> \<exists>ops. store_run (sv_store sv) (fst s) ops (fst s')"
proof (induction rule: service_run.induct)
  case (service_Nil s)
  then show ?case by (intro exI [where x = "[]"]) simp
next
  case (service_Cons s e s' es s'')
  then show ?case using service_step_store store_log.run_append by blast
qed

interpretation service_log:
  advancing_log "service_step sv" "service_run sv" "\<lambda>k s. find_row k (fst s)" row_advances "\<lambda>s. store_inv (sv_store sv) (fst s)"
  for sv
proof (unfold_locales)
  fix s e s' k r
  assume step: "service_step sv s e s'"
  then obtain ops where ops: "store_run (sv_store sv) (fst s) ops (fst s')" using service_step_store by blast
  show "find_row k (fst s) = Some r \<Longrightarrow> \<exists>r'. find_row k (fst s') = Some r' \<and> row_advances r r'"
    by (rule store_log.run_advances [OF ops])
  show "store_inv (sv_store sv) (fst s) \<Longrightarrow> store_inv (sv_store sv) (fst s')" by (rule store_log.run_inv [OF ops])
qed (auto simp: service_run_Cons_iff intro: row_advances_trans)

subsection \<open>The invariant of the service\<close>

text \<open>A job holds the row of its key, with its digests; a completed row stores the result of executing its inputs.\<close>

definition job_row :: "service \<Rightarrow> database \<Rightarrow> task \<Rightarrow> bool" where
  "job_row sv db t \<longleftrightarrow> tk_execution_sha256 t = task_fingerprint sv t \<and>
     (\<exists>r. find_row (task_key t) db = Some r \<and> ro_execution_sha256 r = tk_execution_sha256 t \<and>
        ro_request_sha256 r = request_sha256 (sv_runtime sv) (gi_request (tk_inputs t)))"

definition executed_row :: "service \<Rightarrow> row \<Rightarrow> bool" where
  "executed_row sv r \<longleftrightarrow> (\<exists>a t created_at. validated_assessment (sv_store sv) r = Inr a \<and>
     execute_rightsgate_assessment (sv_runtime sv) (sv_settings sv) (sv_lib sv) (tk_data t) (tk_inputs t) created_at = Inr a \<and>
     ro_key r = task_key t \<and> ro_execution_sha256 r = task_fingerprint sv t \<and>
     ro_request_sha256 r = request_sha256 (sv_runtime sv) (gi_request (tk_inputs t)))"

definition service_inv :: "service \<Rightarrow> service_state \<Rightarrow> bool" where
  "service_inv sv s \<longleftrightarrow> service_ok sv \<and> store_inv (sv_store sv) (fst s) \<and> (\<forall>j \<in> set (snd s). job_row sv (fst s) (fst j)) \<and>
     (\<forall>r \<in> set (fst s). ro_status r = Row_COMPLETE \<longrightarrow> executed_row sv r)"

lemma service_inv_Nil: "service_ok sv \<Longrightarrow> service_inv sv ([], [])"
  by (simp add: service_inv_def service_ok_def store_inv_Nil)

lemma job_row_advances:
  assumes "job_row sv db t" and "\<And>k r. find_row k db = Some r \<Longrightarrow> \<exists>r'. find_row k db' = Some r' \<and> row_advances r r'"
  shows "job_row sv db' t"
  using assms unfolding job_row_def row_advances_def by metis

lemma sv_runtime_store [simp]: "sc_runtime (sv_store sv) = sv_runtime sv"
  by (simp add: sv_runtime_def)

lemma started_job_row:
  assumes "store_inv (sv_store sv) db" and "begin_assessment sv now fm db = (Inr (t, n), db')"
  shows "job_row sv db' t" and "\<And>r. r \<in> set db' \<Longrightarrow> ro_status r = Row_COMPLETE \<Longrightarrow> r \<in> set db"
proof -
  from assms(2) obtain rs where prepared: "prepare_task sv fm = Reply t"
    and res: "reserve (sv_store sv) now (gi_request (tk_inputs t)) (tk_execution_sha256 t) db = (Inr rs, db')"
    and acquired: "rs_state rs = Res_ACQUIRED" by (rule begin_InrE)
  note print = prepare_task_Reply [OF prepared]
  from res have "job_row sv db' t \<and> (\<forall>r \<in> set db'. ro_status r = Row_COMPLETE \<longrightarrow> r \<in> set db)"
  proof (cases rule: reserve_cases)
    case fresh
    with print show ?thesis by (simp add: job_row_def find_row_snoc)
  next
    case (takeover r)
    have "ro_execution_sha256 r = tk_execution_sha256 t \<and>
        ro_request_sha256 r = request_sha256 (sv_runtime sv) (gi_request (tk_inputs t))"
      using res takeover(1) by (auto simp: reserve_def Let_def split: option.splits if_splits)
    then have "job_row sv db' t" using takeover(1,5) print by (simp add: job_row_def find_row_update)
    moreover have "\<forall>r \<in> set db'. ro_status r = Row_COMPLETE \<longrightarrow> r \<in> set db"
      unfolding takeover(5) by (auto simp: update_rows_def)
    ultimately show ?thesis ..
  next
    case other
    with acquired show ?thesis by simp
  qed
  then show "job_row sv db' t" and "\<And>r. r \<in> set db' \<Longrightarrow> ro_status r = Row_COMPLETE \<Longrightarrow> r \<in> set db" by blast+
qed

lemma execution_response_simps [simp]:
  "xr_assessment (execution_response key q ex sha b a) = a" "xr_replayed (execution_response key q ex sha b a) = b"
  "xr_assessment_sha256 (execution_response key q ex sha b a) = sha" "xr_request_sha256 (execution_response key q ex sha b a) = q"
  "xr_execution_sha256 (execution_response key q ex sha b a) = ex" "xr_idempotency_key (execution_response key q ex sha b a) = key"
  "\<not> xr_release_authorization (execution_response key q ex sha b a)"
  "execution_response key q ex sha b a\<lparr>xr_replayed := b'\<rparr> = execution_response key q ex sha b' a"
  by (simp_all add: execution_response_def)

lemma finished_rows:
  assumes inv: "store_inv (sv_store sv) db" and job: "job_row sv db t"
    and fin: "finish_assessment sv created_at now t n db = (answer, db')"
    and codec: "\<And>x. answer = Reply x \<Longrightarrow> assessment_codec_ok (sv_store sv) (xr_assessment x)"
    and r: "r \<in> set db'" "ro_status r = Row_COMPLETE"
  shows "r \<in> set db \<or> executed_row sv r"
  using fin
proof (cases rule: finish_cases)
  case (completed a sha)
  from job obtain x where x: "find_row (task_key t) db = Some x" "ro_execution_sha256 x = task_fingerprint sv t"
    "ro_request_sha256 x = request_sha256 (sv_runtime sv) (gi_request (tk_inputs t))" by (auto simp: job_row_def)
  note key = find_row_Some [OF x(1)]
  have codec: "cd_parse_assessment (sc_codec (sv_store sv)) (cd_assessment_text (sc_codec (sv_store sv)) a) = Some a"
    using codec [OF completed(3)] by (simp add: assessment_codec_ok_def)
  from completed(2) show ?thesis
  proof (cases rule: complete_cases)
    case (closed y)
    show ?thesis
    proof (cases "r \<in> set db")
      case False
      with r(1) obtain z where z: "z \<in> set db" "active_attempt (task_key t) (tk_execution_sha256 t) n z"
        and r': "r = z\<lparr>ro_status := Row_COMPLETE, ro_assessment_id := Some (as_assessment_id a),
            ro_assessment_json := Some (cd_assessment_text (sc_codec (sv_store sv)) a),
            ro_assessment_sha256 := Some (assessment_commitment (sc_runtime (sv_store sv)) a), ro_failure_code := None,
            ro_updated_at := now\<rparr>"
        unfolding closed(5) by (auto simp: update_rows_def split: if_splits)
      have "z = x" by (rule active_attempt_row [OF inv x(1) z])
      have valid: "validated_assessment (sv_store sv) r = Inr a"
        by (simp add: r' validated_assessment_iff codec)
      have "executed_row sv r"
        unfolding executed_row_def
        by (intro exI [where x = a] exI [where x = t] exI [where x = created_at] conjI valid completed(1))
          (simp_all add: r' \<open>z = x\<close> x key)
      then show ?thesis ..
    qed simp
  next
    case refused
    then show ?thesis using r by simp
  qed
next
  case failed
  with r show ?thesis by (auto simp: fail_assessment_def update_rows_def split: if_splits)
qed

lemma step_service_inv: "service_step sv s e s' \<Longrightarrow> service_inv sv s \<Longrightarrow> service_inv sv s'"
proof -
  assume step: "service_step sv s e s'" and inv: "service_inv sv s"
  have inv': "store_inv (sv_store sv) (fst s')" using service_log.step_inv [OF step] inv by (simp add: service_inv_def)
  have ok: "service_ok sv" and store: "store_inv (sv_store sv) (fst s)" using inv by (simp_all add: service_inv_def)
  have jobs: "job_row sv (fst s') t" if "(t, n) \<in> set (snd s)" for t n
  proof (rule job_row_advances [OF _ service_log.step_advances [OF step]])
    show "job_row sv (fst s) t" using inv that by (force simp: service_inv_def)
  qed
  from step show ?thesis
  proof cases
    case (answered now fm db answer db' js)
    then show ?thesis using inv begin_Inl [OF answered(5)] by simp
  next
    case (started now fm db t n db' js)
    with started_job_row [of sv db now fm t n db'] store ok jobs inv' inv show ?thesis
      by (auto simp: service_inv_def)
  next
    case (finished t n js created_at now db answer db')
    have "job_row sv db t" using inv finished by (auto simp: service_inv_def)
    have "store_inv (sv_store sv) db" using store finished(1) by simp
    note rows = finished_rows [OF this \<open>job_row sv db t\<close> finished(6,7)]
    have old: "executed_row sv r" if "r \<in> set db" "ro_status r = Row_COMPLETE" for r
      using inv finished(1) that by (simp add: service_inv_def)
    have "executed_row sv r" if "r \<in> set db'" "ro_status r = Row_COMPLETE" for r
      using rows [OF _ that] old [OF _ that(2)] by blast
    moreover have "\<forall>j \<in> set (remove1 (t, n) js). job_row sv db' (fst j)"
      using jobs finished(1,3) set_remove1_subset [of "(t, n)" js] by fastforce
    ultimately show ?thesis using ok inv' finished(3) by (simp add: service_inv_def)
  next
    case (lost db js t n)
    with inv show ?thesis using set_remove1_subset [of "(t, n)" js] by (auto simp: service_inv_def)
  qed
qed

interpretation service_states:
  advancing_log "service_step sv" "service_run sv" "\<lambda>k s. find_row k (fst s)" row_advances "service_inv sv"
  for sv
  by unfold_locales (auto simp: service_run_Cons_iff intro: row_advances_trans service_log.step_advances step_service_inv)

subsection \<open>Guarantees\<close>

lemma executed_row_decision:
  assumes "service_ok sv" and "executed_row sv r" and "validated_assessment (sv_store sv) r = Inr a"
  shows "da_decision (as_deployment a) \<in> {Decision_BLOCK, Decision_REVIEW}"
  using assms execution_not_released by (fastforce simp: executed_row_def service_ok_def)

text \<open>
  C21: the table holds only what the pipeline computed. Whatever the interleaving of posts, crashes and lease
  takeovers, every completed row stores the assessment obtained by executing inputs with the row's key, request digest
  and execution fingerprint, and its decision is BLOCK or REVIEW.
\<close>

theorem service_results_sound:
  assumes "service_ok sv" and "service_run sv ([], []) es (db, jobs)"
  shows "store_inv (sv_store sv) db \<and> (\<forall>r \<in> set db. ro_status r = Row_COMPLETE \<longrightarrow>
    (\<exists>a t created_at. validated_assessment (sv_store sv) r = Inr a \<and>
       execute_rightsgate_assessment (sv_runtime sv) (sv_settings sv) (sv_lib sv) (tk_data t) (tk_inputs t) created_at = Inr a \<and>
       ro_key r = task_key t \<and> ro_execution_sha256 r = task_fingerprint sv t \<and>
       ro_request_sha256 r = request_sha256 (sv_runtime sv) (gi_request (tk_inputs t)) \<and>
       da_decision (as_deployment a) \<in> {Decision_BLOCK, Decision_REVIEW}))"
proof -
  have inv: "service_inv sv (db, jobs)"
    by (rule service_states.run_inv [OF assms(2) service_inv_Nil [OF assms(1)]])
  then have "executed_row sv r" if "r \<in> set db" "ro_status r = Row_COMPLETE" for r
    using that by (simp add: service_inv_def)
  with inv executed_row_decision [OF assms(1)] show ?thesis
    unfolding service_inv_def executed_row_def by fastforce
qed

lemma fresh_reply_row:
  assumes "service_inv sv s" and "service_step sv s (Ev_finished created_at now t n (Reply x)) s'"
  shows "\<exists>r. find_row (task_key t) (fst s') = Some r \<and> ro_status r = Row_COMPLETE \<and>
    validated_assessment (sv_store sv) r = Inr (xr_assessment x)"
proof -
  have store: "store_inv (sv_store sv) (fst s)" using assms(1) by (simp add: service_inv_def)
  from assms(2) have fin: "finish_assessment sv created_at now t n (fst s) = (Reply x, fst s')" and "(t, n) \<in> set (snd s)"
    and codec: "assessment_codec_ok (sv_store sv) (xr_assessment x)" and ok: "service_ok sv"
    by (auto elim: service_step_finishedE)
  then obtain r where r: "find_row (task_key t) (fst s) = Some r" using assms(1) by (force simp: service_inv_def job_row_def)
  from fin obtain sha where
    "complete_assessment (sv_store sv) now (task_key t) (tk_execution_sha256 t) n (xr_assessment x) (fst s) = (Inr sha, fst s')"
    by (cases rule: finish_cases) (auto simp: failed_closed_def)
  then have "store_step (sv_store sv) (fst s)
      (now, Op_complete (task_key t) (tk_execution_sha256 t) n (xr_assessment x), Out_completed (Inr sha)) (fst s')"
    using codec ok by (intro store_step.step) (simp_all add: service_ok_def)
  from completed_row [OF store this r] show ?thesis by blast
qed

lemma begin_replay:
  assumes "prepare_task sv fm = Reply t" and "tk_execution_sha256 t = ex"
    and "reserve (sv_store sv) now (gi_request (tk_inputs t)) ex db = (Inr rs, db)" and "rs_state rs = Res_REPLAY"
    and "rs_assessment rs = Some a" and "rs_assessment_sha256 rs = Some sha"
  shows "begin_assessment sv now fm db = (Inl (Reply (execution_response (rs_idempotency_key rs) (rs_request_sha256 rs)
    (rs_execution_sha256 rs) sha True a)), db)"
  using assms by (simp add: begin_assessment_def answer_reservation_def)

lemma replay_names:
  assumes "reserve cfg now q ex db = (Inr rs, db')"
  shows "rs_idempotency_key rs = rq_idempotency_key q \<and> rs_request_sha256 rs = request_sha256 (sc_runtime cfg) q \<and>
    rs_execution_sha256 rs = ex"
  using assms
  by (auto simp: reserve_def Let_def make_reservation_def res_bind_Inr_iff split: option.splits if_splits row_status.splits)

text \<open>
  C22: an answered post is idempotent for ever. Once a job has been answered with a fresh assessment, posting the same
  form again, after any further posts, failures and crashes and at any clock reading, is answered at once with the same
  receipt and assessment, marked as a replay, and leaves the table as it is.
\<close>

theorem posted_assessment_replayed:
  assumes "service_inv sv s0"
    and "service_run sv s0 (es @ Ev_started now fm t n # es' @ Ev_finished created_at now' t n (Reply x) # es'') (db, jobs)"
  shows "begin_assessment sv later fm db = (Inl (Reply (x\<lparr>xr_replayed := True\<rparr>)), db)"
proof -
  from assms(2) obtain s1 s2 s3 s4 where run1: "service_run sv s0 es s1"
    and start: "service_step sv s1 (Ev_started now fm t n) s2" and run2: "service_run sv s2 es' s3"
    and fin: "service_step sv s3 (Ev_finished created_at now' t n (Reply x)) s4" and run3: "service_run sv s4 es'' (db, jobs)"
    by (auto simp: service_log.run_append service_run_Cons_iff)
  from start have prepared: "prepare_task sv fm = Reply t" by (elim service_step_startedE begin_InrE)
  have inv: "service_inv sv s3"
    by (rule service_states.run_inv [OF run2 service_states.step_inv [OF start service_states.run_inv [OF run1 assms(1)]]])
  then have store: "store_inv (sv_store sv) (fst s3)" by (simp add: service_inv_def)
  from fin have fin': "finish_assessment sv created_at now' t n (fst s3) = (Reply x, fst s4)" and "(t, n) \<in> set (snd s3)"
    and codec: "assessment_codec_ok (sv_store sv) (xr_assessment x)" and ok: "service_ok sv"
    by (auto elim: service_step_finishedE)
  then have "job_row sv (fst s3) t" using inv by (force simp: service_inv_def)
  then obtain r where r: "find_row (task_key t) (fst s3) = Some r" "ro_execution_sha256 r = tk_execution_sha256 t"
    "ro_request_sha256 r = request_sha256 (sv_runtime sv) (gi_request (tk_inputs t))" by (auto simp: job_row_def)
  from fin' obtain a sha where
    comp: "complete_assessment (sv_store sv) now' (task_key t) (tk_execution_sha256 t) n a (fst s3) = (Inr sha, fst s4)"
    and x: "x = execution_response (task_key t) (request_sha256 (sv_runtime sv) (gi_request (tk_inputs t)))
       (tk_execution_sha256 t) sha False a"
    by (cases rule: finish_cases) (auto simp: failed_closed_def)
  have "store_step (sv_store sv) (fst s3) (now', Op_complete (task_key t) (tk_execution_sha256 t) n a, Out_completed (Inr sha)) (fst s4)"
    using codec comp ok x by (intro store_step.step) (simp_all add: service_ok_def)
  moreover obtain ops where "store_run (sv_store sv) (fst s4) ops db" using service_run_store [OF run3] by auto
  ultimately obtain rs where rs: "reserve (sv_store sv) later (gi_request (tk_inputs t)) (tk_execution_sha256 t) db = (Inr rs, db)"
    "rs_state rs = Res_REPLAY" "rs_assessment rs = Some a" "rs_assessment_sha256 rs = Some sha"
    using completed_replay [OF store _ _ r(1), where q = "gi_request (tk_inputs t)" and now = later and ex' = "tk_execution_sha256 t"] r(2,3)
    by (metis (no_types, lifting) prod.collapse sv_runtime_store)
  from begin_replay [OF prepared refl rs] replay_names [OF rs(1)] show ?thesis by (simp add: x)
qed


text \<open>What a CMS receipt of the endpoint rests on: a completed row of the table.\<close>

lemma cms_endpoint_ReplyE:
  assumes "create_cms_decision_receipt sv p db = Reply rc"
  obtains r a where "find_row (cq_assessment_idempotency_key p) db = Some r" "ro_status r = Row_COMPLETE"
    "validated_assessment (sv_store sv) r = Inr a"
    "build_cms_decision_receipt (sv_runtime sv) p a (ro_request_sha256 r) (ro_execution_sha256 r)
       (the (ro_assessment_sha256 r)) = Inr rc"
  using assms
  by (auto simp: create_cms_decision_receipt_def get_reservation_def Let_def res_bind_Inr_iff
      split: option.splits if_splits row_status.splits elim!: reply_bind_ReplyE)

lemma build_cms_decision:
  assumes "build_cms_decision_receipt rt q a request_sha execution_sha assessment_sha = Inr rc"
  shows "cp_deployment_decision (cr_payload rc) = da_decision (as_deployment a)"
  using assms
  by (auto simp: build_cms_decision_receipt_def validate_cms_payload_def validate_cms_receipt_def check_fields_ok
      split: if_splits elim!: res_bind_InrE)

text \<open>
  C24: the service as it stands cannot authorise the release of an asset it has assessed. In every reachable table a CMS
  receipt of the endpoint reports BLOCK or REVIEW, and no choice of approvals, reviewer registry and clock turns it into
  a release authorisation.
\<close>

theorem service_never_authorizes:
  assumes "service_ok sv" and "service_run sv ([], []) es (db, jobs)" and "create_cms_decision_receipt sv p db = Reply rc"
  shows "cp_deployment_decision (cr_payload rc) \<in> {Decision_BLOCK, Decision_REVIEW} \<and>
    (\<forall>sv' now q z. rl_decision_receipt q = rc \<longrightarrow> create_release_authorization sv' now q \<noteq> Reply z)"
proof -
  from assms(3) obtain r a where r: "find_row (cq_assessment_idempotency_key p) db = Some r" "ro_status r = Row_COMPLETE"
    "validated_assessment (sv_store sv) r = Inr a"
    and built: "build_cms_decision_receipt (sv_runtime sv) p a (ro_request_sha256 r) (ro_execution_sha256 r)
       (the (ro_assessment_sha256 r)) = Inr rc"
    by (rule cms_endpoint_ReplyE)
  have "service_inv sv (db, jobs)"
    by (rule service_states.run_inv [OF assms(2) service_inv_Nil [OF assms(1)]])
  then have "executed_row sv r" using find_row_Some [OF r(1)] r(2) by (simp add: service_inv_def)
  then have decision: "cp_deployment_decision (cr_payload rc) \<in> {Decision_BLOCK, Decision_REVIEW}"
    using executed_row_decision [OF assms(1) _ r(3)] build_cms_decision [OF built] by simp
  moreover have False if "rl_decision_receipt q = rc" "create_release_authorization sv' now q = Reply z" for sv' now q z
  proof -
    from that(2) obtain registry where
      "build_release_authorization_receipt (sv_runtime sv') q registry now (sv_authorization_ttl_seconds sv')
        (sv_max_review_age_seconds sv') = Inr z"
      by (auto simp: create_release_authorization_def elim!: reply_bind_ReplyE)
    from build_release_InrD [OF this] have "cp_deployment_decision (cr_payload rc) = Decision_GO"
      using that(1) by (simp add: validate_approvals_Inr_iff)
    with decision show False by simp
  qed
  ultimately show ?thesis by blast
qed

lemma audio_post_result:
  assumes "service_ok sv" and "read_controls sv fm = Reply gi" and "data = read_upload sv (fm_content fm)"
    and "audio_ready (sv_runtime sv) (sv_lib sv) data gi" and "is_aware created_at"
    and "validate_execution_asset (sv_runtime sv) (sv_settings sv) (sv_lib sv) data (gi_request gi) = Inr ()"
    and "validate_governed_inputs gi = Inr ()" and "find_row (rq_idempotency_key (gi_request gi)) db = None"
    and "sha = execution_fingerprint (sv_runtime sv) (sv_settings sv) (xl_c2pa (sv_lib sv)) gi"
    and "\<And>r. r \<in> set db \<Longrightarrow> ro_assessment_id r \<noteq>
      Some (''assessment.'' @ assessment_token (sv_runtime sv) sha (rq_idempotency_key (gi_request gi)))"
  shows "\<exists>t n db1 x db2. begin_assessment sv now fm db = (Inr (t, n), db1) \<and>
    finish_assessment sv created_at now' t n db1 = (Reply x, db2) \<and> \<not> xr_replayed x \<and> \<not> xr_release_authorization x \<and>
    xr_execution_sha256 x = sha \<and> execute_rightsgate_assessment (sv_runtime sv) (sv_settings sv) (sv_lib sv) data gi created_at =
      Inr (xr_assessment x)"
proof -
  let ?t = "\<lparr>tk_inputs = gi, tk_data = data, tk_execution_sha256 = sha\<rparr>" and ?key = "rq_idempotency_key (gi_request gi)"
  have prepared: "prepare_task sv fm = Reply ?t"
    using assms(2,6,7) by (simp add: prepare_task_def Let_def reply_bind_def assms(3)[symmetric] reply_of_def assms(9))
  obtain rs db1 where res: "reserve (sv_store sv) now (gi_request gi) sha db = (Inr rs, db1)"
    "rs_state rs = Res_ACQUIRED" "rs_attempt_count rs = 1"
    and db1: "\<exists>r. db1 = db @ [r] \<and> active_attempt ?key sha 1 r \<and> ro_assessment_id r = None"
    using assms(8) by (simp add: reserve_def Let_def make_reservation_def active_attempt_def)
  have begun: "begin_assessment sv now fm db = (Inr (?t, 1), db1)"
    using prepared res answer_reservation_None [of rs] by (simp add: begin_assessment_def del: answer_reservation_None)
  have sha: "sha_ok (sv_runtime sv)" using assms(1) by (simp add: service_ok_def)
  obtain a where a: "execute_rightsgate_assessment (sv_runtime sv) (sv_settings sv) (sv_lib sv) data gi created_at = Inr a"
    using audio_execution_result [OF sha assms(5,4,6,7)] by blast
  note bound = execution_bound [OF a]
  have "\<not> assessment_id_taken ?key (as_assessment_id a) db1"
    using db1 assms(10) bound by (auto simp: assessment_id_taken_def assms(9))
  then obtain c db2 where "complete_assessment (sv_store sv) now' ?key sha 1 a db1 = (Inr c, db2)"
    using db1 by (auto simp: complete_assessment_def Let_def)
  with a have "finish_assessment sv created_at now' ?t 1 db1 =
      (Reply (execution_response ?key (request_sha256 (sv_runtime sv) (gi_request gi)) sha c False a), db2)"
    by (simp add: finish_assessment_def)
  with begun a show ?thesis by fastforce
qed


subsection \<open>A concrete service\<close>

definition demo_service :: "governed_inputs \<Rightarrow> rightsgate_assessment \<Rightarrow> service" where
  "demo_service gi a = \<lparr>sv_settings = default_settings,
     sv_store = \<lparr>sc_runtime = demo_runtime, sc_codec = \<lparr>cd_parse_request = (\<lambda>_. Some (gi_request gi)),
       cd_assessment_text = (\<lambda>_. ''assessment''), cd_parse_assessment = (\<lambda>_. Some a)\<rparr>, sc_lease_seconds = 600\<rparr>,
     sv_lib = demo_exec_lib,
     sv_readers = \<lparr>jr_request = (\<lambda>_. Inr (gi_request gi)), jr_rights = (\<lambda>_. Inr (gi_rights gi)),
       jr_licences = (\<lambda>_. Inr (gi_licences gi)), jr_policy = (\<lambda>_. Inr (gi_policy gi)), jr_watermarks = (\<lambda>_. Inl []),
       jr_consents = (\<lambda>_. Inl []), jr_grant = (\<lambda>_. Inl []), jr_reviewers = (\<lambda>_. Inl (ValueError []))\<rparr>,
     sv_max_control_json_bytes = 1000, sv_reviewer_file = None, sv_authorization_ttl_seconds = 900,
     sv_max_review_age_seconds = 86400\<rparr>"

definition demo_form :: assessment_form where
  "demo_form = \<lparr>fm_content = demo_wav_bytes, fm_request_json = ''{}'', fm_rights_json = ''{}'', fm_licences_json = ''{}'',
     fm_policy_json = ''{}'', fm_watermarks_json = None, fm_consents_json = None, fm_max_hamming_distance = 6\<rparr>"

lemma demo_service_simps [simp]:
  "sv_runtime (demo_service gi a) = demo_runtime" "sv_settings (demo_service gi a) = default_settings"
  "sv_lib (demo_service gi a) = demo_exec_lib" "service_ok (demo_service gi a)"
  by (simp_all add: demo_service_def sv_runtime_def service_ok_def)

lemma demo_service_codec:
  "request_codec_ok (sv_store (demo_service gi a)) (gi_request gi)" "assessment_codec_ok (sv_store (demo_service gi a)) a"
  by (simp_all add: request_codec_ok_def assessment_codec_ok_def) (simp_all add: demo_service_def)

lemma demo_read_controls:
  assumes "gi_watermarks gi = None" and "gi_consents gi = None" and "gi_max_hamming_distance gi = 6"
  shows "read_controls (demo_service gi a) demo_form = Reply gi"
  using assms
  by (simp add: read_controls_def demo_form_def demo_service_def parse_control_def parse_optional_def reply_bind_def)

lemma demo_read_upload: "demo_wav_bytes = read_upload (demo_service gi a) (fm_content demo_form)"
  by (simp add: read_upload_def demo_form_def default_settings_def demo_wav_bytes_def)

lemma demo_inputs_controls: "gi_watermarks demo_inputs = None" "gi_max_hamming_distance demo_inputs = 6"
  by (simp_all add: demo_inputs_def)

abbreviation demo_print :: string where
  "demo_print \<equiv> execution_fingerprint demo_runtime default_settings demo_c2pa_lib demo_inputs"

lemma demo_post:
  assumes "execute_rightsgate_assessment demo_runtime default_settings demo_exec_lib demo_wav_bytes demo_inputs (utc 0) = Inr a"
  obtains t n db1 x db2 where "begin_assessment (demo_service demo_inputs a) 0 demo_form [] = (Inr (t, n), db1)"
    "finish_assessment (demo_service demo_inputs a) (utc 0) 7 t n db1 = (Reply x, db2)" "xr_assessment x = a"
    "xr_execution_sha256 x = demo_print"
proof -
  have "\<exists>t n db1 x db2. begin_assessment (demo_service demo_inputs a) 0 demo_form [] = (Inr (t, n), db1) \<and>
    finish_assessment (demo_service demo_inputs a) (utc 0) 7 t n db1 = (Reply x, db2) \<and> \<not> xr_replayed x \<and>
    \<not> xr_release_authorization x \<and> xr_execution_sha256 x = demo_print \<and>
    execute_rightsgate_assessment (sv_runtime (demo_service demo_inputs a)) (sv_settings (demo_service demo_inputs a))
      (sv_lib (demo_service demo_inputs a)) demo_wav_bytes demo_inputs (utc 0) = Inr (xr_assessment x)"
    by (rule audio_post_result [where data = demo_wav_bytes])
      (simp_all add: demo_read_controls demo_inputs_controls demo_read_upload [symmetric] demo_audio_ready
        demo_audio_valid demo_governed find_row_def)
  with assms that show thesis by auto
qed


text \<open>The run of one post: started at 0, answered at 7.\<close>

lemma demo_service_run:
  obtains a t n x db where "execute_rightsgate_assessment demo_runtime default_settings demo_exec_lib demo_wav_bytes demo_inputs (utc 0) = Inr a"
    "service_run (demo_service demo_inputs a) ([], []) ([] @ Ev_started 0 demo_form t n # [] @ Ev_finished (utc 0) 7 t n (Reply x) # [])
       (db, [])" "xr_assessment x = a"
proof -
  obtain a where a: "execute_rightsgate_assessment demo_runtime default_settings demo_exec_lib demo_wav_bytes demo_inputs (utc 0) = Inr a"
    using demo_execution by blast
  obtain t n db1 x db2 where post: "begin_assessment (demo_service demo_inputs a) 0 demo_form [] = (Inr (t, n), db1)"
    "finish_assessment (demo_service demo_inputs a) (utc 0) 7 t n db1 = (Reply x, db2)" "xr_assessment x = a"
    by (rule demo_post [OF a])
  from post(1) have "prepare_task (demo_service demo_inputs a) demo_form = Reply t" by (rule begin_InrE)
  then have "tk_inputs t = demo_inputs"
    by (auto simp: prepare_task_def Let_def demo_read_controls demo_inputs_controls elim!: reply_bind_ReplyE)
  then have "service_step (demo_service demo_inputs a) ([], []) (Ev_started 0 demo_form t n) (db1, [(t, n)])"
    using post(1) by (intro service_step.started) (simp_all add: demo_service_codec)
  moreover have "service_step (demo_service demo_inputs a) (db1, [(t, n)]) (Ev_finished (utc 0) 7 t n (Reply x))
      (db2, remove1 (t, n) [(t, n)])"
    using post(2,3) by (intro service_step.finished) (simp_all add: demo_service_codec)
  ultimately have "service_run (demo_service demo_inputs a) ([], [])
      ([] @ Ev_started 0 demo_form t n # [] @ Ev_finished (utc 0) 7 t n (Reply x) # []) (db2, [])"
    by (auto simp: service_run_Cons_iff)
  with a post(3) show thesis by (intro that)
qed

theorem posted_assessment_replayed_witness:
  "\<exists>a x db. begin_assessment (demo_service demo_inputs a) 900000000 demo_form db = (Inl (Reply (x\<lparr>xr_replayed := True\<rparr>)), db) \<and>
    xr_assessment x = a"
proof -
  obtain a t n x db where run: "service_run (demo_service demo_inputs a) ([], [])
      ([] @ Ev_started 0 demo_form t n # [] @ Ev_finished (utc 0) 7 t n (Reply x) # []) (db, [])" "xr_assessment x = a"
    by (rule demo_service_run)
  from posted_assessment_replayed [OF service_inv_Nil run(1)] run(2) show ?thesis by auto
qed

text \<open>The completed row of the run, and the receipt a CMS gets for it.\<close>

lemma demo_completed_row:
  obtains a db es r where "execute_rightsgate_assessment demo_runtime default_settings demo_exec_lib demo_wav_bytes demo_inputs (utc 0) = Inr a"
    "service_run (demo_service demo_inputs a) ([], []) es (db, [])" "find_row ''key-1'' db = Some r"
    "ro_status r = Row_COMPLETE" "validated_assessment (sv_store (demo_service demo_inputs a)) r = Inr a"
proof -
  obtain a t n x db where a: "execute_rightsgate_assessment demo_runtime default_settings demo_exec_lib demo_wav_bytes demo_inputs (utc 0) = Inr a"
    and run: "service_run (demo_service demo_inputs a) ([], []) ([] @ Ev_started 0 demo_form t n # [] @ Ev_finished (utc 0) 7 t n (Reply x) # []) (db, [])"
    and x: "xr_assessment x = a"
    by (rule demo_service_run)
  then obtain s where start: "service_step (demo_service demo_inputs a) ([], []) (Ev_started 0 demo_form t n) s"
    and fin: "service_step (demo_service demo_inputs a) s (Ev_finished (utc 0) 7 t n (Reply x)) (db, [])"
    by (auto simp: service_run_Cons_iff)
  have "prepare_task (demo_service demo_inputs a) demo_form = Reply t"
    using start by (elim service_step_startedE begin_InrE)
  then have "tk_inputs t = demo_inputs"
    by (auto simp: prepare_task_def Let_def demo_read_controls demo_inputs_controls elim!: reply_bind_ReplyE)
  then have key: "task_key t = ''key-1''" by (simp add: demo_inputs_def demo_request_def)
  have "service_inv (demo_service demo_inputs a) s"
    by (rule service_states.step_inv [OF start service_inv_Nil]) simp
  from fresh_reply_row [OF this fin] key x obtain r where "find_row ''key-1'' db = Some r" "ro_status r = Row_COMPLETE"
    "validated_assessment (sv_store (demo_service demo_inputs a)) r = Inr a" by auto
  with a run show thesis by (intro that)
qed

theorem service_results_sound_witness:
  "\<exists>a es db r. service_run (demo_service demo_inputs a) ([], []) es (db, []) \<and> r \<in> set db \<and> ro_status r = Row_COMPLETE \<and>
    validated_assessment (sv_store (demo_service demo_inputs a)) r = Inr a \<and>
    da_decision (as_deployment a) \<in> {Decision_BLOCK, Decision_REVIEW}"
proof -
  obtain a db es r where run: "service_run (demo_service demo_inputs a) ([], []) es (db, [])"
    and r: "find_row ''key-1'' db = Some r" "ro_status r = Row_COMPLETE"
      "validated_assessment (sv_store (demo_service demo_inputs a)) r = Inr a"
    by (rule demo_completed_row)
  from service_results_sound [OF _ run] find_row_Some [OF r(1)] r(2,3)
  have "da_decision (as_deployment a) \<in> {Decision_BLOCK, Decision_REVIEW}" by fastforce
  with run r find_row_Some [OF r(1)] show ?thesis by blast
qed

definition service_cms_request :: "rightsgate_assessment \<Rightarrow> cms_request" where
  "service_cms_request a = \<lparr>cq_cms_system_id = ''cms-1'', cq_content_id = ''page-1'', cq_assessment_idempotency_key = ''key-1'',
     cq_expected_asset_sha256 = ad_sha256 (as_asset a), cq_expected_assessment_sha256 = assessment_commitment demo_runtime a\<rparr>"

theorem service_never_authorizes_witness:
  "\<exists>a es db rc. service_run (demo_service demo_inputs a) ([], []) es (db, []) \<and>
    create_cms_decision_receipt (demo_service demo_inputs a) (service_cms_request a) db = Reply rc \<and>
    cp_deployment_decision (cr_payload rc) \<in> {Decision_BLOCK, Decision_REVIEW}"
proof -
  obtain a db es r where a: "execute_rightsgate_assessment demo_runtime default_settings demo_exec_lib demo_wav_bytes demo_inputs (utc 0) = Inr a"
    and run: "service_run (demo_service demo_inputs a) ([], []) es (db, [])"
    and r: "find_row ''key-1'' db = Some r" "ro_status r = Row_COMPLETE"
      "validated_assessment (sv_store (demo_service demo_inputs a)) r = Inr a"
    by (rule demo_completed_row)
  have inv: "service_inv (demo_service demo_inputs a) (db, [])"
    by (rule service_states.run_inv [OF run service_inv_Nil]) simp
  then have "executed_row (demo_service demo_inputs a) r"
    using find_row_Some [OF r(1)] r(2) by (simp add: service_inv_def)
  then have shas: "is_sha256 (ro_request_sha256 r)" "is_sha256 (ro_execution_sha256 r)"
    by (auto simp: executed_row_def request_sha256_def execution_fingerprint_def)
  have "wf_assessment a" and "is_sha256 (ad_sha256 (as_asset a))"
    using execution_bound [OF a] sha_okD [OF sha_ok_demo] by metis+
  then have "wf_cms_request (service_cms_request a)"
    by (simp add: wf_cms_request_def service_cms_request_def assessment_commitment_def id_eval)
  from cms_receipt_built [OF signing_ok_demo this \<open>wf_assessment a\<close> shas] obtain rc where
    "build_cms_decision_receipt demo_runtime (service_cms_request a) a (ro_request_sha256 r) (ro_execution_sha256 r)
      (assessment_commitment demo_runtime a) = Inr rc"
    by (auto simp: service_cms_request_def)
  moreover have "stored_request_error (sv_store (demo_service demo_inputs a)) r = None"
    using inv row_ok_request_error [OF store_inv_row [OF _ r(1)]] by (simp add: service_inv_def)
  moreover have "ro_assessment_sha256 r = Some (assessment_commitment demo_runtime a)"
    using r(3) by (auto simp: validated_assessment_iff)
  ultimately have "create_cms_decision_receipt (demo_service demo_inputs a) (service_cms_request a) db = Reply rc"
    using r by (simp add: create_cms_decision_receipt_def get_reservation_def reply_bind_def reply_of_def service_cms_request_def Let_def)
  with service_never_authorizes [OF _ run this] run show ?thesis by auto
qed

text \<open>A post whose policy requires the policy compiler: the execution raises.\<close>

definition failing_inputs :: governed_inputs where
  "failing_inputs = demo_inputs\<lparr>gi_policy := demo_policy\<lparr>pp_required_component_ids := [policy_component_id]\<rparr>\<rparr>"

lemma failing_inputs_simps [simp]:
  "gi_request failing_inputs = gi_request demo_inputs" "gi_watermarks failing_inputs = None"
  "gi_consents failing_inputs = None" "gi_max_hamming_distance failing_inputs = 6"
  by (simp_all add: failing_inputs_def demo_inputs_controls)


end
