(* ===== verification/Ledger.thy ===== *)
theory Ledger
  imports Payloads Evidence
begin

section \<open>The audit ledger\<close>

text \<open>
  \<open>audit/ledger.py\<close> and the table \<open>audit_events\<close> of \<open>core/database.py\<close>: the events of a job form a hash chain. The
  reader of stored JSON (\<open>json.loads\<close>) and the clock are parameters. The results: appending extends a valid chain, and
  two valid ledgers with the same number of events and the same head hold the same events unless two different texts
  have one digest.
\<close>

subsection \<open>Rows and hashes\<close>

record audit_row =
  ae_job_id :: string
  ae_sequence :: int
  ae_event_type :: string
  ae_timestamp :: string
  ae_details_json :: string
  ae_prev_hash :: string
  ae_event_hash :: string

record ledger_db =
  ld_jobs :: "string list"
  ld_events :: "audit_row list"

text \<open>\<open>json.loads\<close>: \<open>None\<close> stands for \<open>JSONDecodeError\<close>.\<close>

type_synonym json_reader = "string \<Rightarrow> json option"

definition genesis_hash :: string where
  "genesis_hash = replicate 64 CHR ''0''"

definition event_json :: "int \<Rightarrow> string \<Rightarrow> string \<Rightarrow> json \<Rightarrow> string \<Rightarrow> json" where
  "event_json sequence event_type timestamp details prev_hash = JObj
     [(''sequence'', JInt sequence), (''event_type'', JStr event_type), (''timestamp'', JStr timestamp),
      (''details'', details), (''prev_hash'', JStr prev_hash)]"

definition event_hash :: "runtime \<Rightarrow> int \<Rightarrow> string \<Rightarrow> string \<Rightarrow> json \<Rightarrow> string \<Rightarrow> string" where
  "event_hash rt sequence event_type timestamp details prev_hash =
     rt_sha256 rt (canonical_json_bytes rt (event_json sequence event_type timestamp details prev_hash))"

text \<open>\<open>ORDER BY sequence\<close> over the rows of one job.\<close>

definition job_rows :: "string \<Rightarrow> ledger_db \<Rightarrow> audit_row list" where
  "job_rows job db = sort_key ae_sequence (filter (\<lambda>r. ae_job_id r = job) (ld_events db))"

subsection \<open>Appending\<close>

record event_view =
  ev_sequence :: int
  ev_event_type :: string
  ev_timestamp :: string
  ev_details :: json
  ev_prev_hash :: string
  ev_event_hash :: string

text \<open>\<open>insert_audit_event\<close> under the foreign key on the job and the unique key of the job and the sequence number.\<close>

definition insert_audit_event :: "audit_row \<Rightarrow> ledger_db \<Rightarrow> unit res \<times> ledger_db" where
  "insert_audit_event r db =
     (if ae_job_id r \<notin> set (ld_jobs db)
      then (Inl (DatabaseIntegrityError ''FOREIGN KEY constraint failed''), db)
      else if \<exists>x \<in> set (ld_events db). ae_job_id x = ae_job_id r \<and> ae_sequence x = ae_sequence r
      then (Inl (DatabaseIntegrityError ''UNIQUE constraint failed: audit_events.job_id, audit_events.sequence''), db)
      else (Inr (), db\<lparr>ld_events := ld_events db @ [r]\<rparr>))"

definition append_event ::
    "runtime \<Rightarrow> string \<Rightarrow> string \<Rightarrow> string \<Rightarrow> (string \<times> json) list option \<Rightarrow> ledger_db \<Rightarrow> event_view res \<times> ledger_db" where
  "append_event rt now job_id event_type details db =
     (let details = JObj (case details of None \<Rightarrow> [] | Some d \<Rightarrow> d);
          rows = job_rows job_id db;
          sequence = (if rows = [] then 1 else ae_sequence (last rows) + 1);
          prev_hash = (if rows = [] then genesis_hash else ae_event_hash (last rows));
          hash = event_hash rt sequence event_type now details prev_hash
      in case insert_audit_event
          \<lparr>ae_job_id = job_id, ae_sequence = sequence, ae_event_type = event_type, ae_timestamp = now,
           ae_details_json = dumps rt True details, ae_prev_hash = prev_hash, ae_event_hash = hash\<rparr> db of
        (Inl e, db') \<Rightarrow> (Inl e, db')
      | (Inr _, db') \<Rightarrow> (Inr \<lparr>ev_sequence = sequence, ev_event_type = event_type, ev_timestamp = now, ev_details = details,
          ev_prev_hash = prev_hash, ev_event_hash = hash\<rparr>, db'))"

subsection \<open>Verifying\<close>

text \<open>\<open>decode_json\<close>: anything but an object is read as the empty object.\<close>

definition decode_json :: "json_reader \<Rightarrow> string \<Rightarrow> json res" where
  "decode_json reader value =
     (case reader value of
        None \<Rightarrow> Inl (ValueError ''invalid JSON'')
      | Some (JObj kvs) \<Rightarrow> Inr (JObj kvs)
      | Some _ \<Rightarrow> Inr (JObj []))"

record ledger_report =
  lr_job_id :: string
  lr_valid :: bool
  lr_event_count :: nat
  lr_chain_head :: string
  lr_error :: "string option"
  lr_events :: "event_view list"

text \<open>The checks of one row: the message of the first that fails.\<close>

definition row_error :: "runtime \<Rightarrow> int \<Rightarrow> string \<Rightarrow> event_view \<Rightarrow> string option" where
  "row_error rt expected_sequence expected_prev e =
     (let pos = '' at event '' @ show_int (ev_sequence e)
      in if ev_sequence e \<noteq> expected_sequence then Some (''Sequence discontinuity'' @ pos)
         else if ev_prev_hash e \<noteq> expected_prev then Some (''Previous-hash mismatch'' @ pos)
         else if event_hash rt (ev_sequence e) (ev_event_type e) (ev_timestamp e) (ev_details e) (ev_prev_hash e) \<noteq>
           ev_event_hash e
         then Some (''Event-hash mismatch'' @ pos)
         else None)"

definition view_row :: "json_reader \<Rightarrow> audit_row \<Rightarrow> event_view res" where
  "view_row reader r = res_bind (decode_json reader (ae_details_json r)) (\<lambda>details.
     Inr \<lparr>ev_sequence = ae_sequence r, ev_event_type = ae_event_type r, ev_timestamp = ae_timestamp r,
          ev_details = details, ev_prev_hash = ae_prev_hash r, ev_event_hash = ae_event_hash r\<rparr>)"

text \<open>The loop: the expected sequence number and hash, and the error of the last row that fails.\<close>

fun verify_rows ::
    "runtime \<Rightarrow> json_reader \<Rightarrow> int \<Rightarrow> string \<Rightarrow> string option \<Rightarrow> event_view list \<Rightarrow> audit_row list \<Rightarrow>
     (string option \<times> event_view list) res" where
  "verify_rows rt reader expected_sequence expected_prev error events [] = Inr (error, events)"
| "verify_rows rt reader expected_sequence expected_prev error events (r # rows) =
     res_bind (view_row reader r) (\<lambda>e.
       verify_rows rt reader (expected_sequence + 1) (ev_event_hash e)
         (case row_error rt expected_sequence expected_prev e of None \<Rightarrow> error | Some m \<Rightarrow> Some m) (events @ [e]) rows)"

definition verify_ledger :: "runtime \<Rightarrow> json_reader \<Rightarrow> string \<Rightarrow> ledger_db \<Rightarrow> ledger_report res" where
  "verify_ledger rt reader job_id db =
     res_bind (verify_rows rt reader 1 genesis_hash None [] (job_rows job_id db)) (\<lambda>(error, events).
       Inr \<lparr>lr_job_id = job_id, lr_valid = (error = None), lr_event_count = length events,
            lr_chain_head = (if events = [] then genesis_hash else ev_event_hash (last events)),
            lr_error = error, lr_events = events\<rparr>)"

subsection \<open>Chains\<close>

text \<open>What a valid report says of its events.\<close>

fun chained :: "runtime \<Rightarrow> int \<Rightarrow> string \<Rightarrow> event_view list \<Rightarrow> bool" where
  "chained rt n prev [] = True"
| "chained rt n prev (e # es) \<longleftrightarrow> row_error rt n prev e = None \<and> chained rt (n + 1) (ev_event_hash e) es"

lemma chained_append:
  "chained rt n prev (es @ es') \<longleftrightarrow> chained rt n prev es \<and>
     chained rt (n + int (length es)) (if es = [] then prev else ev_event_hash (last es)) es'"
  by (induction es arbitrary: n prev) (auto simp: algebra_simps)

lemma row_error_None_iff:
  "row_error rt n prev e = None \<longleftrightarrow> ev_sequence e = n \<and> ev_prev_hash e = prev \<and>
     event_hash rt n (ev_event_type e) (ev_timestamp e) (ev_details e) prev = ev_event_hash e"
  by (auto simp: row_error_def Let_def)

lemma verify_rows_Inr:
  assumes "verify_rows rt reader n prev err es rows = Inr (err', es')"
  shows "\<exists>vs. res_map (view_row reader) rows = Inr vs \<and> es' = es @ vs \<and> (err' = None \<longleftrightarrow> err = None \<and> chained rt n prev vs)"
  using assms
proof (induction rows arbitrary: n prev err es)
  case (Cons r rows)
  then obtain e where e: "view_row reader r = Inr e" and
    rest: "verify_rows rt reader (n + 1) (ev_event_hash e) (case row_error rt n prev e of None \<Rightarrow> err | Some m \<Rightarrow> Some m)
      (es @ [e]) rows = Inr (err', es')" by (auto elim!: res_bind_InrE)
  from Cons.IH [OF rest] obtain vs where "res_map (view_row reader) rows = Inr vs" "es' = es @ [e] @ vs"
    "err' = None \<longleftrightarrow> (case row_error rt n prev e of None \<Rightarrow> err | Some m \<Rightarrow> Some m) = None \<and> chained rt (n + 1) (ev_event_hash e) vs"
    by auto
  with e show ?case by (auto split: option.splits)
qed simp

lemma verify_rows_total:
  assumes "res_map (view_row reader) rows = Inr vs"
  shows "\<exists>err'. verify_rows rt reader n prev err es rows = Inr (err', es @ vs)"
  using assms
proof (induction rows arbitrary: n prev err es vs)
  case (Cons r rows)
  then obtain e vs' where "view_row reader r = Inr e" "res_map (view_row reader) rows = Inr vs'" "vs = e # vs'"
    by (auto simp: res_bind_Inr_iff)
  with Cons.IH [of vs' "n + 1" "ev_event_hash e" _ "es @ [e]"] show ?case by simp
qed simp

definition chain_head :: "event_view list \<Rightarrow> string" where
  "chain_head es = (if es = [] then genesis_hash else ev_event_hash (last es))"

lemma verify_ledger_Inr_iff:
  "verify_ledger rt reader job db = Inr report \<longleftrightarrow>
     (\<exists>vs err. res_map (view_row reader) (job_rows job db) = Inr vs \<and> (err = None \<longleftrightarrow> chained rt 1 genesis_hash vs) \<and>
        verify_rows rt reader 1 genesis_hash None [] (job_rows job db) = Inr (err, vs) \<and>
        report = \<lparr>lr_job_id = job, lr_valid = chained rt 1 genesis_hash vs, lr_event_count = length vs,
          lr_chain_head = chain_head vs, lr_error = err, lr_events = vs\<rparr>)"
  by (fastforce simp: verify_ledger_def res_bind_Inr_iff chain_head_def dest: verify_rows_Inr)

subsection \<open>Appending keeps the chain\<close>

lemma insort_key_snoc: "f a \<le> f x \<Longrightarrow> insort_key f a (ys @ [x]) = insort_key f a ys @ [x]"
  by (induction ys) auto

lemma sort_key_snoc: "(\<And>y. y \<in> set xs \<Longrightarrow> f y \<le> f x) \<Longrightarrow> sort_key f (xs @ [x]) = sort_key f xs @ [x]"
  by (induction xs) (auto simp: insort_key_snoc)

text \<open>The stored details read back: the same document up to the order of keys.\<close>

definition reads_back :: "runtime \<Rightarrow> json_reader \<Rightarrow> json \<Rightarrow> bool" where
  "reads_back rt reader d \<longleftrightarrow> (case reader (dumps rt True d) of
     Some (JObj kvs) \<Rightarrow> canon (JObj kvs) = canon d | _ \<Rightarrow> False)"

lemma event_hash_canon: "canon d = canon d' \<Longrightarrow> event_hash rt n t s d p = event_hash rt n t s d' p"
  by (simp add: event_hash_def event_json_def canonical_json_bytes_def dumps_def)

definition job_valid :: "runtime \<Rightarrow> json_reader \<Rightarrow> string \<Rightarrow> ledger_db \<Rightarrow> bool" where
  "job_valid rt reader job db \<longleftrightarrow>
     (\<exists>vs. res_map (view_row reader) (job_rows job db) = Inr vs \<and> chained rt 1 genesis_hash vs)"

lemma job_valid_report:
  "job_valid rt reader job db \<longleftrightarrow> (\<exists>p. verify_ledger rt reader job db = Inr p \<and> lr_valid p)"
proof
  assume "job_valid rt reader job db"
  then obtain vs where vs: "res_map (view_row reader) (job_rows job db) = Inr vs" "chained rt 1 genesis_hash vs"
    by (auto simp: job_valid_def)
  from verify_rows_total [OF vs(1), of rt 1 genesis_hash None "[]"] obtain err where
    "verify_rows rt reader 1 genesis_hash None [] (job_rows job db) = Inr (err, vs)" by auto
  with vs show "\<exists>p. verify_ledger rt reader job db = Inr p \<and> lr_valid p"
    using verify_rows_Inr by (fastforce simp: verify_ledger_Inr_iff)
qed (auto simp: verify_ledger_Inr_iff job_valid_def)

lemma chained_nth: "chained rt n prev vs \<Longrightarrow> i < length vs \<Longrightarrow> ev_sequence (vs ! i) = n + int i"
  by (induction vs arbitrary: n prev i) (auto simp: row_error_None_iff nth_Cons split: nat.splits)

lemma view_row_Inr: "view_row reader r = Inr e \<Longrightarrow>
    ev_sequence e = ae_sequence r \<and> ev_event_hash e = ae_event_hash r \<and> ev_prev_hash e = ae_prev_hash r \<and>
    ev_event_type e = ae_event_type r \<and> ev_timestamp e = ae_timestamp r"
  by (auto simp: view_row_def elim!: res_bind_InrE)

lemma job_valid_last:
  assumes "res_map (view_row reader) rows = Inr vs" and "chained rt 1 genesis_hash vs" and "sorted (map ae_sequence rows)"
  shows "(if rows = [] then 1 else ae_sequence (last rows) + 1) = int (length vs) + 1"
    and "(if rows = [] then genesis_hash else ae_event_hash (last rows)) = chain_head vs"
    and "\<And>r. r \<in> set rows \<Longrightarrow> ae_sequence r \<le> int (length vs)"
proof -
  note l = res_map_length [OF assms(1)]
  have rel: "i < length rows \<Longrightarrow> view_row reader (rows ! i) = Inr (vs ! i)" for i
    using assms(1) by (auto simp: res_map_Inr_iff list_all2_conv_all_nth)
  have seq: "i < length rows \<Longrightarrow> ae_sequence (rows ! i) = 1 + int i" for i
    using view_row_Inr [OF rel] chained_nth [OF assms(2)] l by metis
  show "(if rows = [] then 1 else ae_sequence (last rows) + 1) = int (length vs) + 1"
    using seq [of "length rows - 1"] l by (auto simp: last_conv_nth)
  show "(if rows = [] then genesis_hash else ae_event_hash (last rows)) = chain_head vs"
    using view_row_Inr [OF rel [of "length rows - 1"]] l by (auto simp: last_conv_nth chain_head_def)
  show "ae_sequence r \<le> int (length vs)" if "r \<in> set rows" for r
    using that seq l by (auto simp: in_set_conv_nth)
qed

lemma sorted_job_rows: "sorted (map ae_sequence (job_rows job db))"
  by (simp add: job_rows_def)

lemma res_map_append: "res_map f (xs @ ys) = res_bind (res_map f xs) (\<lambda>as. res_bind (res_map f ys) (\<lambda>bs. Inr (as @ bs)))"
  by (induction xs) (auto simp: res_bind_def split: sum.splits)

lemma append_event_chain:
  assumes "job_valid rt reader job db" and "job \<in> set (ld_jobs db)"
    and "reads_back rt reader (JObj (case details of None \<Rightarrow> [] | Some d \<Rightarrow> d))"
  obtains e db' vs v where "append_event rt now job event_type details db = (Inr e, db')"
    "res_map (view_row reader) (job_rows job db) = Inr vs" "res_map (view_row reader) (job_rows job db') = Inr (vs @ [v])"
    "chained rt 1 genesis_hash (vs @ [v])" "ev_event_hash v = ev_event_hash e" "ev_sequence e = int (length vs) + 1"
    "\<And>other. other \<noteq> job \<Longrightarrow> job_rows other db' = job_rows other db"
proof -
  let ?d = "JObj (case details of None \<Rightarrow> [] | Some d \<Rightarrow> d)"
  obtain vs where vs: "res_map (view_row reader) (job_rows job db) = Inr vs" "chained rt 1 genesis_hash vs"
    using assms(1) by (auto simp: job_valid_def)
  note last = job_valid_last [OF vs sorted_job_rows]
  define n where "n = int (length vs) + 1"
  define h where "h = event_hash rt n event_type now ?d (chain_head vs)"
  define r where "r = \<lparr>ae_job_id = job, ae_sequence = n, ae_event_type = event_type, ae_timestamp = now,
     ae_details_json = dumps rt True ?d, ae_prev_hash = chain_head vs, ae_event_hash = h\<rparr>"
  have fresh: "\<not> (\<exists>x \<in> set (ld_events db). ae_job_id x = job \<and> ae_sequence x = n)"
    using last(3) by (force simp: job_rows_def n_def)
  have app: "append_event rt now job event_type details db =
      (Inr \<lparr>ev_sequence = n, ev_event_type = event_type, ev_timestamp = now, ev_details = ?d, ev_prev_hash = chain_head vs,
         ev_event_hash = h\<rparr>, db\<lparr>ld_events := ld_events db @ [r]\<rparr>)"
    using fresh assms(2) by (simp add: append_event_def Let_def last(1,2) insert_audit_event_def n_def [symmetric] h_def [symmetric] r_def)
  have rows: "job_rows job (db\<lparr>ld_events := ld_events db @ [r]\<rparr>) = job_rows job db @ [r]"
    using last(3) by (simp add: job_rows_def r_def n_def) (subst sort_key_snoc, force+)
  obtain kvs where kvs: "reader (dumps rt True ?d) = Some (JObj kvs)" "canon (JObj kvs) = canon ?d"
    using assms(3) by (auto simp: reads_back_def split: option.splits json.splits)
  let ?v = "\<lparr>ev_sequence = n, ev_event_type = event_type, ev_timestamp = now, ev_details = JObj kvs,
     ev_prev_hash = chain_head vs, ev_event_hash = h\<rparr>"
  have view: "view_row reader r = Inr ?v" using kvs by (simp add: view_row_def r_def decode_json_def)
  have "row_error rt n (chain_head vs) ?v = None"
    using event_hash_canon [OF kvs(2)] by (simp add: row_error_None_iff h_def)
  then have "chained rt 1 genesis_hash (vs @ [?v])"
    using vs(2) by (simp add: chained_append n_def chain_head_def add.commute)
  moreover have "res_map (view_row reader) (job_rows job db @ [r]) = Inr (vs @ [?v])"
    using vs(1) view by (simp add: res_map_append)
  moreover have "job_rows other (db\<lparr>ld_events := ld_events db @ [r]\<rparr>) = job_rows other db" if "other \<noteq> job" for other
    using that by (simp add: job_rows_def r_def)
  ultimately show thesis
    by (intro that [OF app vs(1), of ?v]) (simp_all add: rows n_def)
qed

subsection \<open>Ledgers in use\<close>

text \<open>\<open>destroy_job_rows\<close>: the events of the job are deleted, its row stays.\<close>

definition destroy_events :: "string \<Rightarrow> ledger_db \<Rightarrow> ledger_db" where
  "destroy_events job db = db\<lparr>ld_events := filter (\<lambda>r. ae_job_id r \<noteq> job) (ld_events db)\<rparr>"

inductive ledger_reach :: "runtime \<Rightarrow> json_reader \<Rightarrow> ledger_db \<Rightarrow> bool" for rt reader where
  reach_empty: "ledger_reach rt reader \<lparr>ld_jobs = jobs, ld_events = []\<rparr>"
| reach_job: "ledger_reach rt reader db \<Longrightarrow> ledger_reach rt reader (db\<lparr>ld_jobs := job # ld_jobs db\<rparr>)"
| reach_append: "ledger_reach rt reader db \<Longrightarrow> append_event rt now job event_type details db = (out, db') \<Longrightarrow>
    reads_back rt reader (JObj (case details of None \<Rightarrow> [] | Some d \<Rightarrow> d)) \<Longrightarrow> ledger_reach rt reader db'"
| reach_destroy: "ledger_reach rt reader db \<Longrightarrow> ledger_reach rt reader (destroy_events job db)"

lemma append_unknown_job:
  "job \<notin> set (ld_jobs db) \<Longrightarrow> \<exists>e. append_event rt now job event_type details db = (Inl e, db)"
  by (simp add: append_event_def Let_def insert_audit_event_def)

lemma job_rows_jobs: "job_rows job (db\<lparr>ld_jobs := jobs\<rparr>) = job_rows job db"
  by (simp add: job_rows_def)

lemma job_rows_empty: "job_rows job \<lparr>ld_jobs = jobs, ld_events = []\<rparr> = []"
  by (simp add: job_rows_def)

lemma job_rows_destroy: "job_rows job (destroy_events job' db) = (if job = job' then [] else job_rows job db)"
  by (auto simp: job_rows_def destroy_events_def intro!: arg_cong [where f = "sort_key ae_sequence"] filter_cong)

lemma reach_job_valid: "ledger_reach rt reader db \<Longrightarrow> job_valid rt reader job db"
proof (induction arbitrary: job rule: ledger_reach.induct)
  case (reach_append db now j event_type details out db')
  show ?case
  proof (cases "j \<in> set (ld_jobs db)")
    case True
    obtain e d vs v where app: "append_event rt now j event_type details db = (Inr e, d)"
      and vs: "res_map (view_row reader) (job_rows j d) = Inr (vs @ [v])" "chained rt 1 genesis_hash (vs @ [v])"
      and others: "\<And>other. other \<noteq> j \<Longrightarrow> job_rows other d = job_rows other db"
      by (rule append_event_chain [OF reach_append.IH True reach_append.hyps(3), of now event_type]) (rule that)
    have "d = db'" using app reach_append.hyps(2) by simp
    with reach_append.IH vs others show ?thesis by (cases "job = j") (auto simp: job_valid_def)
  next
    case False
    with append_unknown_job [OF False] reach_append show ?thesis by (metis prod.inject)
  qed
qed (auto simp: job_valid_def job_rows_jobs job_rows_destroy job_rows_empty)

text \<open>
  C27: the ledger the service writes is always valid. Whatever jobs, appends and destructions come in whatever order, as
  long as stored details read back, every job verifies with no error and a count of its events; an append to a known
  job succeeds, never trips the unique key, adds exactly one event with the returned number and hash as the new head,
  and leaves the ledgers of other jobs as they are.
\<close>

theorem append_event_extends:
  assumes "ledger_reach rt reader db"
  shows "(\<exists>p. verify_ledger rt reader job db = Inr p \<and> lr_valid p \<and> lr_error p = None \<and>
      lr_event_count p = length (job_rows job db)) \<and>
    (job \<in> set (ld_jobs db) \<longrightarrow> reads_back rt reader (JObj (case details of None \<Rightarrow> [] | Some d \<Rightarrow> d)) \<longrightarrow>
      (\<exists>e db' p'. append_event rt now job event_type details db = (Inr e, db') \<and>
        verify_ledger rt reader job db' = Inr p' \<and> lr_valid p' \<and> lr_chain_head p' = ev_event_hash e \<and>
        lr_event_count p' = length (job_rows job db) + 1 \<and> ev_sequence e = int (lr_event_count p') \<and>
        (\<forall>other. other \<noteq> job \<longrightarrow> verify_ledger rt reader other db' = verify_ledger rt reader other db)))"
proof (intro conjI impI)
  note valid = reach_job_valid [OF assms, of job]
  then obtain p where p: "verify_ledger rt reader job db = Inr p" "lr_valid p" by (auto simp: job_valid_report)
  then show "\<exists>p. verify_ledger rt reader job db = Inr p \<and> lr_valid p \<and> lr_error p = None \<and>
      lr_event_count p = length (job_rows job db)"
    by (auto simp: verify_ledger_Inr_iff dest: res_map_length)
  assume job: "job \<in> set (ld_jobs db)" and readable: "reads_back rt reader (JObj (case details of None \<Rightarrow> [] | Some d \<Rightarrow> d))"
  obtain e db' vs v where app: "append_event rt now job event_type details db = (Inr e, db')"
    and vs: "res_map (view_row reader) (job_rows job db) = Inr vs" "res_map (view_row reader) (job_rows job db') = Inr (vs @ [v])"
    and chain: "chained rt 1 genesis_hash (vs @ [v])" and v: "ev_event_hash v = ev_event_hash e"
      "ev_sequence e = int (length vs) + 1"
    and others: "\<And>other. other \<noteq> job \<Longrightarrow> job_rows other db' = job_rows other db"
    by (rule append_event_chain [OF valid job readable, of now event_type]) (rule that)
  have "job_valid rt reader job db'" using vs(2) chain by (auto simp: job_valid_def)
  then obtain p' where p': "verify_ledger rt reader job db' = Inr p'" "lr_valid p'" by (auto simp: job_valid_report)
  have "lr_events p' = vs @ [v]" "lr_event_count p' = length vs + 1" "lr_chain_head p' = ev_event_hash e"
    using p'(1) vs(2) v by (auto simp: verify_ledger_Inr_iff chain_head_def)
  moreover have "length vs = length (job_rows job db)" by (rule res_map_length [OF vs(1)])
  moreover have "verify_ledger rt reader other db' = verify_ledger rt reader other db" if "other \<noteq> job" for other
    using others that by (simp add: verify_ledger_def)
  ultimately show "\<exists>e db' p'. append_event rt now job event_type details db = (Inr e, db') \<and>
        verify_ledger rt reader job db' = Inr p' \<and> lr_valid p' \<and> lr_chain_head p' = ev_event_hash e \<and>
        lr_event_count p' = length (job_rows job db) + 1 \<and> ev_sequence e = int (lr_event_count p') \<and>
        (\<forall>other. other \<noteq> job \<longrightarrow> verify_ledger rt reader other db' = verify_ledger rt reader other db)"
    using app p' v(2) by (intro exI [where x = e] exI [where x = db'] exI [where x = p']) simp
qed

subsection \<open>Tamper evidence\<close>

definition event_text :: "runtime \<Rightarrow> event_view \<Rightarrow> string" where
  "event_text rt e =
     canonical_json_bytes rt (event_json (ev_sequence e) (ev_event_type e) (ev_timestamp e) (ev_details e) (ev_prev_hash e))"

text \<open>The same event, up to the order of keys in its details.\<close>

definition same_event :: "event_view \<Rightarrow> event_view \<Rightarrow> bool" where
  "same_event e e' \<longleftrightarrow> ev_sequence e = ev_sequence e' \<and> ev_event_type e = ev_event_type e' \<and>
     ev_timestamp e = ev_timestamp e' \<and> canon (ev_details e) = canon (ev_details e') \<and>
     ev_prev_hash e = ev_prev_hash e' \<and> ev_event_hash e = ev_event_hash e'"

lemma chained_hash: "chained rt n prev vs \<Longrightarrow> e \<in> set vs \<Longrightarrow> rt_sha256 rt (event_text rt e) = ev_event_hash e"
  by (induction vs arbitrary: n prev) (auto simp: row_error_None_iff event_text_def event_hash_def)

lemma event_text_same:
  assumes "float_text_ok (rt_float rt)" and "event_text rt e = event_text rt e'" and "ev_event_hash e = ev_event_hash e'"
  shows "same_event e e'"
proof -
  have "canon (event_json (ev_sequence e) (ev_event_type e) (ev_timestamp e) (ev_details e) (ev_prev_hash e)) =
      canon (event_json (ev_sequence e') (ev_event_type e') (ev_timestamp e') (ev_details e') (ev_prev_hash e'))"
    using assms(2) dumps_eq_iff [OF assms(1)] by (simp add: event_text_def canonical_json_bytes_def)
  note F = this [unfolded event_json_def, THEN obj_field]
  show ?thesis
    using F [of "''sequence''"] F [of "''event_type''"] F [of "''timestamp''"] F [of "''details''"] F [of "''prev_hash''"] assms(3)
    by (simp add: same_event_def)
qed

text \<open>Two chains of the same length and head agree from the end up to the first collision.\<close>

lemma chains_agree:
  assumes "float_text_ok (rt_float rt)" and "chained rt 1 genesis_hash vs" and "chained rt 1 genesis_hash ws"
    and "length vs = length ws" and "chain_head vs = chain_head ws"
  shows "list_all2 same_event vs ws \<or>
    (\<exists>i < length vs. event_text rt (vs ! i) \<noteq> event_text rt (ws ! i) \<and>
       rt_sha256 rt (event_text rt (vs ! i)) = rt_sha256 rt (event_text rt (ws ! i)))"
  using assms(2-)
proof (induction vs arbitrary: ws rule: rev_induct)
  case (snoc e es)
  then obtain fs f where ws: "ws = fs @ [f]" by (cases ws rule: rev_cases) auto
  have head: "ev_event_hash e = ev_event_hash f" using snoc.prems(4) by (simp add: ws chain_head_def)
  then have sha: "rt_sha256 rt (event_text rt e) = rt_sha256 rt (event_text rt f)"
    using chained_hash [OF snoc.prems(1), of e] chained_hash [OF snoc.prems(2), of f] by (simp add: ws)
  have len: "length es = length fs" using snoc.prems(3) by (simp add: ws)
  show ?case
  proof (cases "event_text rt e = event_text rt f")
    case True
    note same = event_text_same [OF assms(1) True head]
    have chains: "chained rt 1 genesis_hash es" "chained rt 1 genesis_hash fs"
      and prev: "ev_prev_hash e = chain_head es" "ev_prev_hash f = chain_head fs"
      using snoc.prems(1,2) by (auto simp: ws chained_append chain_head_def row_error_None_iff)
    have "chain_head es = chain_head fs" using same prev by (simp add: same_event_def)
    from snoc.IH [OF chains len this] show ?thesis
    proof
      assume "list_all2 same_event es fs"
      with same show ?thesis by (simp add: ws list_all2_appendI)
    next
      assume "\<exists>i < length es. event_text rt (es ! i) \<noteq> event_text rt (fs ! i) \<and>
         rt_sha256 rt (event_text rt (es ! i)) = rt_sha256 rt (event_text rt (fs ! i))"
      then obtain i where "i < length es" "event_text rt (es ! i) \<noteq> event_text rt (fs ! i)"
        "rt_sha256 rt (event_text rt (es ! i)) = rt_sha256 rt (event_text rt (fs ! i))" by blast
      with len show ?thesis by (intro disjI2 exI [where x = i]) (simp add: ws nth_append)
    qed
  next
    case False
    with sha len show ?thesis by (intro disjI2 exI [where x = "length es"]) (simp add: ws nth_append)
  qed
qed simp

text \<open>
  C28: the head of a valid ledger commits to its events. Two ledgers that verify, with the same number of events and the
  same head, report the same events (up to the order of keys in the details), or one position holds two different
  canonical texts with the same SHA-256 digest: no stored event can be changed, moved, inserted or removed under a known
  head and count.
\<close>

theorem ledger_tamper_evident:
  assumes "float_text_ok (rt_float rt)" and "verify_ledger rt reader job db = Inr p" and "lr_valid p"
    and "verify_ledger rt reader' job' db' = Inr p'" and "lr_valid p'"
    and "lr_event_count p = lr_event_count p'" and "lr_chain_head p = lr_chain_head p'"
  shows "list_all2 same_event (lr_events p) (lr_events p') \<or>
    (\<exists>i < lr_event_count p. event_text rt (lr_events p ! i) \<noteq> event_text rt (lr_events p' ! i) \<and>
       rt_sha256 rt (event_text rt (lr_events p ! i)) = rt_sha256 rt (event_text rt (lr_events p' ! i)))"
proof -
  have "chained rt 1 genesis_hash (lr_events p)" "lr_event_count p = length (lr_events p)" "lr_chain_head p = chain_head (lr_events p)"
    "chained rt 1 genesis_hash (lr_events p')" "lr_event_count p' = length (lr_events p')" "lr_chain_head p' = chain_head (lr_events p')"
    using assms(2-5) by (auto simp: verify_ledger_Inr_iff)
  with chains_agree [OF assms(1), of "lr_events p" "lr_events p'"] assms(6,7) show ?thesis by simp
qed

subsection \<open>A concrete ledger\<close>

definition empty_reader :: json_reader where
  "empty_reader value = Some (JObj [])"

definition demo_ledger :: ledger_db where
  "demo_ledger = \<lparr>ld_jobs = [''job-1''], ld_events = []\<rparr>"

lemma demo_reads_back: "reads_back demo_runtime empty_reader (JObj [])"
  by (simp add: reads_back_def empty_reader_def)

lemma demo_ledger_reach: "ledger_reach demo_runtime empty_reader demo_ledger"
  by (simp add: demo_ledger_def reach_empty)

theorem append_event_extends_witness:
  "\<exists>e db' p'. append_event demo_runtime ''2026'' ''job-1'' ''CREATED'' None demo_ledger = (Inr e, db') \<and>
    verify_ledger demo_runtime empty_reader ''job-1'' db' = Inr p' \<and> lr_valid p' \<and> lr_event_count p' = 1"
  using append_event_extends [OF demo_ledger_reach, of "''job-1''" None "''2026''" "''CREATED''"] demo_reads_back
  by (auto simp: demo_ledger_def job_rows_def)

lemma demo_verified:
  obtains db p where "verify_ledger demo_runtime empty_reader ''job-1'' db = Inr p" "lr_valid p" "lr_event_count p = 1"
proof -
  have job: "''job-1'' \<in> set (ld_jobs demo_ledger)" by (simp add: demo_ledger_def)
  have "reads_back demo_runtime empty_reader (JObj (case None of None \<Rightarrow> [] | Some d \<Rightarrow> d))" using demo_reads_back by simp
  then obtain e db' vs v where vs: "res_map (view_row empty_reader) (job_rows ''job-1'' demo_ledger) = Inr vs"
      "res_map (view_row empty_reader) (job_rows ''job-1'' db') = Inr (vs @ [v])" "chained demo_runtime 1 genesis_hash (vs @ [v])"
    by (rule append_event_chain [OF reach_job_valid [OF demo_ledger_reach] job]) (rule that)
  then have "job_valid demo_runtime empty_reader ''job-1'' db'" by (auto simp: job_valid_def)
  then obtain p where p: "verify_ledger demo_runtime empty_reader ''job-1'' db' = Inr p" "lr_valid p"
    by (auto simp: job_valid_report)
  moreover have "lr_event_count p = 1"
    using p(1) vs by (auto simp: verify_ledger_Inr_iff demo_ledger_def job_rows_def)
  ultimately show thesis by (rule that)
qed

theorem ledger_tamper_evident_witness:
  "\<exists>db p. verify_ledger demo_runtime empty_reader ''job-1'' db = Inr p \<and> lr_event_count p = 1 \<and>
    (list_all2 same_event (lr_events p) (lr_events p) \<or> (\<exists>i < lr_event_count p.
       event_text demo_runtime (lr_events p ! i) \<noteq> event_text demo_runtime (lr_events p ! i)))"
proof -
  obtain db p where "verify_ledger demo_runtime empty_reader ''job-1'' db = Inr p" "lr_valid p" "lr_event_count p = 1"
    by (rule demo_verified)
  moreover have "float_text_ok (rt_float demo_runtime)" by (simp add: demo_runtime_def ratio_text_ok)
  ultimately show ?thesis using ledger_tamper_evident by blast
qed

end
