(* ===== verification/Evaluation.thy ===== *)
theory Evaluation
  imports Contract_Types
begin

section \<open>Evaluation metrics\<close>

text \<open>
  \<open>rightsgate/evaluation.py\<close>: confusion counts and calibration statistics of a declared evaluation set. Scores are
  rationals. The results: both functions return exactly on well-formed input, the field constraints of the result models
  never fail, and the statistics satisfy the identities their names promise.
\<close>

subsection \<open>Models\<close>

record binary_metrics =
  bm_true_positive :: int
  bm_true_negative :: int
  bm_false_positive :: int
  bm_false_negative :: int
  bm_accuracy :: rat
  bm_false_positive_rate :: rat
  bm_precision :: rat
  bm_recall :: rat

definition validate_binary_metrics :: "binary_metrics \<Rightarrow> binary_metrics res" where
  "validate_binary_metrics m =
     check_fields ''BinaryClassificationMetrics''
       [(''true_positive'', 0 \<le> bm_true_positive m), (''true_negative'', 0 \<le> bm_true_negative m),
        (''false_positive'', 0 \<le> bm_false_positive m), (''false_negative'', 0 \<le> bm_false_negative m),
        (''accuracy'', unit_interval (bm_accuracy m)),
        (''false_positive_rate'', unit_interval (bm_false_positive_rate m)),
        (''precision'', unit_interval (bm_precision m)), (''recall'', unit_interval (bm_recall m))]
       (Inr m)"

record calibration_metrics =
  cm_sample_count :: int
  cm_bin_count :: int
  cm_brier_score :: rat
  cm_expected_calibration_error :: rat
  cm_maximum_calibration_error :: rat
  cm_mean_score :: rat
  cm_empirical_positive_rate :: rat

definition validate_calibration_metrics :: "calibration_metrics \<Rightarrow> calibration_metrics res" where
  "validate_calibration_metrics m =
     check_fields ''CalibrationMetrics''
       [(''sample_count'', 0 < cm_sample_count m), (''bin_count'', 0 < cm_bin_count m \<and> cm_bin_count m \<le> 100),
        (''brier_score'', unit_interval (cm_brier_score m)),
        (''expected_calibration_error'', unit_interval (cm_expected_calibration_error m)),
        (''maximum_calibration_error'', unit_interval (cm_maximum_calibration_error m)),
        (''mean_score'', unit_interval (cm_mean_score m)),
        (''empirical_positive_rate'', unit_interval (cm_empirical_positive_rate m))]
       (Inr m)"

subsection \<open>Confusion counts\<close>

definition count_pairs :: "(bool \<Rightarrow> bool \<Rightarrow> bool) \<Rightarrow> bool list \<Rightarrow> bool list \<Rightarrow> int" where
  "count_pairs f expected predicted = sum_list (map (\<lambda>(l, p). of_bool (f l p)) (zip expected predicted))"

definition ratio :: "int \<Rightarrow> int \<Rightarrow> rat" where
  "ratio a b = (if b \<noteq> 0 then of_int a / of_int b else 0)"

definition binary_metrics_of :: "bool list \<Rightarrow> bool list \<Rightarrow> binary_metrics res" where
  "binary_metrics_of expected predicted =
     (if expected = [] \<or> length expected \<noteq> length predicted
      then Inl (ValueError ''expected and predicted must be non-empty and equal length'')
      else let tp = count_pairs (\<lambda>l p. l \<and> p) expected predicted;
               tn = count_pairs (\<lambda>l p. \<not> l \<and> \<not> p) expected predicted;
               fp = count_pairs (\<lambda>l p. \<not> l \<and> p) expected predicted;
               fn = count_pairs (\<lambda>l p. l \<and> \<not> p) expected predicted;
               total = int (length expected)
        in validate_binary_metrics
             \<lparr>bm_true_positive = tp, bm_true_negative = tn, bm_false_positive = fp, bm_false_negative = fn,
              bm_accuracy = of_int (tp + tn) / of_int total, bm_false_positive_rate = ratio fp (tn + fp),
              bm_precision = ratio tp (tp + fp), bm_recall = ratio tp (tp + fn)\<rparr>)"

subsection \<open>Calibration\<close>

definition label_value :: "bool \<Rightarrow> rat" where
  "label_value l = (if l then 1 else 0)"

definition bin_of :: "int \<Rightarrow> rat \<Rightarrow> int" where
  "bin_of bin_count score = min \<lfloor>score * of_int bin_count\<rfloor> (bin_count - 1)"

definition bin_members :: "int \<Rightarrow> rat list \<Rightarrow> int \<Rightarrow> nat list" where
  "bin_members bin_count scores b = filter (\<lambda>i. bin_of bin_count (scores ! i) = b) [0..<length scores]"

definition mean_over :: "('a \<Rightarrow> rat) \<Rightarrow> 'a list \<Rightarrow> rat" where
  "mean_over f xs = sum_list (map f xs) / of_nat (length xs)"

text \<open>The loop over the bins: the weighted and the maximal gap so far.\<close>

definition add_bin ::
    "bool list \<Rightarrow> rat list \<Rightarrow> int \<Rightarrow> int \<Rightarrow> rat \<times> rat \<Rightarrow> rat \<times> rat" where
  "add_bin expected scores bin_count b gaps =
     (let members = bin_members bin_count scores b
      in if members = [] then gaps
         else let gap = \<bar>mean_over (\<lambda>i. scores ! i) members - mean_over (\<lambda>i. label_value (expected ! i)) members\<bar>
           in (fst gaps + of_nat (length members) / of_nat (length expected) * gap, max (snd gaps) gap))"

definition calibration_gaps :: "bool list \<Rightarrow> rat list \<Rightarrow> int \<Rightarrow> rat \<times> rat" where
  "calibration_gaps expected scores bin_count =
     fold (add_bin expected scores bin_count) (map int [0..<nat bin_count]) (0, 0)"

definition calibration_metrics_of :: "bool list \<Rightarrow> rat list \<Rightarrow> int \<Rightarrow> calibration_metrics res" where
  "calibration_metrics_of expected scores bin_count =
     (if expected = [] \<or> length expected \<noteq> length scores
      then Inl (ValueError ''expected and scores must be non-empty and equal length'')
      else if \<not> (1 \<le> bin_count \<and> bin_count \<le> 100) then Inl (ValueError ''bin_count must be between 1 and 100'')
      else if list_ex (\<lambda>s. s < 0 \<or> 1 < s) scores
      then Inl (ValueError ''calibration scores must be between zero and one'')
      else let total = length expected; (weighted, maximum) = calibration_gaps expected scores bin_count
        in validate_calibration_metrics
             \<lparr>cm_sample_count = int total, cm_bin_count = bin_count,
              cm_brier_score = mean_over (\<lambda>(l, s). (s - label_value l)\<^sup>2) (zip expected scores),
              cm_expected_calibration_error = weighted, cm_maximum_calibration_error = maximum,
              cm_mean_score = mean_over id scores, cm_empirical_positive_rate = mean_over label_value expected\<rparr>)"

subsection \<open>Counts\<close>

lemma count_pairs_nonneg: "0 \<le> count_pairs f xs ys"
  by (auto simp: count_pairs_def intro!: sum_list_nonneg)

lemma count_pairs_Cons [simp]:
  "count_pairs f (x # xs) (y # ys) = of_bool (f x y) + count_pairs f xs ys" "count_pairs f [] ys = 0"
  by (simp_all add: count_pairs_def)

lemma confusion_total:
  "length xs = length ys \<Longrightarrow> count_pairs (\<lambda>l p. l \<and> p) xs ys + count_pairs (\<lambda>l p. \<not> l \<and> \<not> p) xs ys +
     count_pairs (\<lambda>l p. \<not> l \<and> p) xs ys + count_pairs (\<lambda>l p. l \<and> \<not> p) xs ys = int (length xs)"
  by (induction xs ys rule: list_induct2) auto

lemma errors_zero_iff:
  "length xs = length ys \<Longrightarrow> count_pairs (\<lambda>l p. \<not> l \<and> p) xs ys + count_pairs (\<lambda>l p. l \<and> \<not> p) xs ys = 0 \<longleftrightarrow> xs = ys"
proof (induction xs ys rule: list_induct2)
  case (Cons x xs y ys)
  then show ?case
    using count_pairs_nonneg [of "\<lambda>l p. \<not> l \<and> p" xs ys] count_pairs_nonneg [of "\<lambda>l p. l \<and> \<not> p" xs ys]
    by (cases x; cases y) auto
qed simp

lemma quotient_one: "0 < b \<Longrightarrow> (of_int a / of_int b :: rat) = 1 \<longleftrightarrow> a = b"
  by (simp add: divide_eq_eq)

lemma unit_ratio: "0 \<le> a \<Longrightarrow> a \<le> b \<Longrightarrow> unit_interval (ratio a b)"
  by (auto simp: unit_interval_def ratio_def divide_le_eq)

text \<open>
  The confusion statistics exist for every non-empty pair of equally long label lists and for no other input; the four
  counts sum to the number of samples, every rate lies between 0 and 1 (so the result model never rejects them), and the
  accuracy is 1 exactly when the prediction is the expectation.
\<close>

theorem binary_metrics_sound:
  "if expected \<noteq> [] \<and> length expected = length predicted
   then \<exists>m. binary_metrics_of expected predicted = Inr m \<and>
     bm_true_positive m + bm_true_negative m + bm_false_positive m + bm_false_negative m = int (length expected) \<and>
     unit_interval (bm_accuracy m) \<and> unit_interval (bm_false_positive_rate m) \<and> unit_interval (bm_precision m) \<and>
     unit_interval (bm_recall m) \<and> (bm_accuracy m = 1 \<longleftrightarrow> predicted = expected)
   else \<exists>e. binary_metrics_of expected predicted = Inl (ValueError e)"
proof (cases "expected \<noteq> [] \<and> length expected = length predicted")
  case True
  let ?tp = "count_pairs (\<lambda>l p. l \<and> p) expected predicted" and ?tn = "count_pairs (\<lambda>l p. \<not> l \<and> \<not> p) expected predicted"
  let ?fp = "count_pairs (\<lambda>l p. \<not> l \<and> p) expected predicted" and ?fn = "count_pairs (\<lambda>l p. l \<and> \<not> p) expected predicted"
  let ?m = "\<lparr>bm_true_positive = ?tp, bm_true_negative = ?tn, bm_false_positive = ?fp, bm_false_negative = ?fn,
      bm_accuracy = of_int (?tp + ?tn) / of_int (int (length expected)), bm_false_positive_rate = ratio ?fp (?tn + ?fp),
      bm_precision = ratio ?tp (?tp + ?fp), bm_recall = ratio ?tp (?tp + ?fn)\<rparr>"
  have total: "?tp + ?tn + ?fp + ?fn = int (length expected)" using confusion_total True by blast
  note nonneg = count_pairs_nonneg [of _ expected predicted]
  have le: "?tp + ?tn \<le> int (length expected)"
    using total nonneg [of "\<lambda>l p. \<not> l \<and> p"] nonneg [of "\<lambda>l p. l \<and> \<not> p"] by linarith
  have pos: "0 < int (length expected)" using conjunct1 [OF True] by simp
  have acc: "of_int (?tp + ?tn) / of_int (int (length expected)) = ratio (?tp + ?tn) (int (length expected))"
    using pos by (simp add: ratio_def)
  have units: "unit_interval (bm_accuracy ?m)" "unit_interval (bm_false_positive_rate ?m)" "unit_interval (bm_precision ?m)"
    "unit_interval (bm_recall ?m)"
    using le nonneg acc by (auto intro!: unit_ratio simp del: of_int_add of_int_of_nat_eq)
  have "bm_accuracy ?m = 1 \<longleftrightarrow> ?tp + ?tn = int (length expected)"
    using quotient_one [OF pos, of "?tp + ?tn"] by (simp only: binary_metrics.select_convs)
  then have "bm_accuracy ?m = 1 \<longleftrightarrow> predicted = expected"
    using total True errors_zero_iff [of expected predicted] by auto
  moreover have "binary_metrics_of expected predicted = Inr ?m"
    using True nonneg units by (simp add: binary_metrics_of_def Let_def validate_binary_metrics_def check_fields_ok)
  ultimately show ?thesis using True total units by auto
next
  case False
  then show ?thesis by (auto simp: binary_metrics_of_def)
qed

subsection \<open>Gaps\<close>

definition excess :: "bool list \<Rightarrow> rat list \<Rightarrow> nat \<Rightarrow> rat" where
  "excess expected scores i = scores ! i - label_value (expected ! i)"

definition bin_excess :: "bool list \<Rightarrow> rat list \<Rightarrow> int \<Rightarrow> int \<Rightarrow> rat" where
  "bin_excess expected scores n b = sum_list (map (excess expected scores) (bin_members n scores b))"

lemma add_bin_eq:
  "add_bin expected scores n b (w, m) =
     (w + \<bar>bin_excess expected scores n b\<bar> / of_nat (length expected),
      if bin_members n scores b = [] then m
      else max m (\<bar>bin_excess expected scores n b\<bar> / of_nat (length (bin_members n scores b))))"
proof -
  let ?k = "of_nat (length (bin_members n scores b)) :: rat"
  have gap: "\<bar>mean_over (\<lambda>i. scores ! i) (bin_members n scores b) - mean_over (\<lambda>i. label_value (expected ! i)) (bin_members n scores b)\<bar> =
      \<bar>bin_excess expected scores n b\<bar> / ?k"
    by (simp add: mean_over_def bin_excess_def excess_def [abs_def] sum_list_subtractf diff_divide_distrib [symmetric])
  show ?thesis
  proof (cases "bin_members n scores b = []")
    case True
    then show ?thesis by (simp add: add_bin_def bin_excess_def)
  next
    case False
    then have "?k \<noteq> 0" by simp
    then show ?thesis using False by (simp add: add_bin_def Let_def gap)
  qed
qed

lemma fold_add_bin:
  assumes "\<And>b. b \<in> set bs \<Longrightarrow> bin_members n scores b \<noteq> [] \<Longrightarrow>
      \<bar>bin_excess expected scores n b\<bar> \<le> of_nat (length (bin_members n scores b))"
    and "0 \<le> m" and "m \<le> 1" and "fold (add_bin expected scores n) bs (w, m) = (w', m')"
  shows "w' = w + sum_list (map (\<lambda>b. \<bar>bin_excess expected scores n b\<bar>) bs) / of_nat (length expected) \<and> m \<le> m' \<and> m' \<le> 1 \<and>
    (\<forall>b \<in> set bs. \<bar>bin_excess expected scores n b\<bar> \<le> m' * of_nat (length (bin_members n scores b)))"
  using assms
proof (induction bs arbitrary: w m)
  case (Cons b bs)
  let ?e = "\<bar>bin_excess expected scores n b\<bar>" and ?k = "of_nat (length (bin_members n scores b)) :: rat"
  let ?m = "if bin_members n scores b = [] then m else max m (?e / ?k)"
  have m: "m \<le> ?m" "?m \<le> 1" "0 \<le> ?m" using Cons.prems(1-3) by (auto simp: divide_le_eq)
  have rest: "fold (add_bin expected scores n) bs (w + ?e / of_nat (length expected), ?m) = (w', m')"
    using Cons.prems(4) by (simp add: add_bin_eq)
  note ih = Cons.IH [OF _ m(3,2) rest]
  have e: "?e \<le> ?m * ?k"
    by (cases "bin_members n scores b = []") (auto simp: bin_excess_def max_def divide_le_eq field_simps)
  have le: "?m \<le> m'" using ih Cons.prems(1) by auto
  then have "?m * ?k \<le> m' * ?k" by (intro mult_right_mono) simp_all
  with e have "?e \<le> m' * ?k" by linarith
  with ih Cons.prems(1) m le show ?case by (auto simp: add_divide_distrib)
qed simp

text \<open>The bins partition the samples.\<close>

lemma bin_of_range:
  assumes "0 < n" and "0 \<le> s" shows "0 \<le> bin_of n s \<and> bin_of n s < n"
  using assms by (auto simp: bin_of_def)

lemma sum_over_bins:
  fixes f :: "nat \<Rightarrow> rat"
  assumes "distinct bs" and "\<And>i. i \<in> set xs \<Longrightarrow> g i \<in> set bs"
  shows "sum_list (map (\<lambda>b. sum_list (map f (filter (\<lambda>i. g i = b) xs))) bs) = sum_list (map f xs)"
  using assms(2)
proof (induction xs)
  case (Cons x xs)
  have split: "sum_list (map f (filter (\<lambda>i. g i = b) (x # xs))) =
      (if b = g x then f x else 0) + sum_list (map f (filter (\<lambda>i. g i = b) xs))" for b
    by simp
  have "sum_list (map (\<lambda>b. if b = g x then f x else 0) bs) = f x"
    using assms(1) Cons.prems [of x] by (simp add: sum_list_distinct_conv_sum_set)
  then show ?case using Cons by (simp only: split sum_list_addf) simp
qed simp

lemma all_bins: "0 < n \<Longrightarrow> set (map int [0..<nat n]) = {0..<n}"
  by (simp add: image_int_atLeastLessThan)

lemma bins_partition:
  fixes f :: "nat \<Rightarrow> rat"
  assumes "0 < n" and "list_all (\<lambda>s. 0 \<le> s) scores"
  shows "sum_list (map (\<lambda>b. sum_list (map f (bin_members n scores b))) (map int [0..<nat n])) =
    sum_list (map f [0..<length scores])"
proof -
  have "bin_of n (scores ! i) \<in> set (map int [0..<nat n])" if "i \<in> set [0..<length scores]" for i
    using bin_of_range [OF assms(1), of "scores ! i"] assms(2) that
    unfolding all_bins [OF assms(1)] by (simp add: list_all_length)
  then show ?thesis
    unfolding bin_members_def by (intro sum_over_bins) (simp_all add: distinct_map)
qed

lemma mean_unit:
  assumes "xs \<noteq> []" and "\<And>x. x \<in> set xs \<Longrightarrow> unit_interval (f x)"
  shows "unit_interval (mean_over f xs)"
proof -
  have "0 \<le> sum_list (map f xs) \<and> sum_list (map f xs) \<le> of_nat (length xs)"
    using assms(2) by (induction xs) (auto simp: unit_interval_def algebra_simps add_mono)
  with assms(1) show ?thesis by (simp add: unit_interval_def mean_over_def divide_le_eq)
qed

lemma excess_bounds: "unit_interval (scores ! i) \<Longrightarrow> \<bar>excess expected scores i\<bar> \<le> 1"
  by (auto simp: excess_def unit_interval_def label_value_def)

lemma abs_sum_list_le: "(\<And>x. x \<in> set xs \<Longrightarrow> \<bar>f x\<bar> \<le> (1::rat)) \<Longrightarrow> \<bar>sum_list (map f xs)\<bar> \<le> of_nat (length xs)"
proof (induction xs)
  case (Cons x xs)
  then have "\<bar>f x\<bar> \<le> 1" "\<bar>sum_list (map f xs)\<bar> \<le> of_nat (length xs)" by simp_all
  then show ?case using abs_triangle_ineq [of "f x" "sum_list (map f xs)"] by simp
qed simp

lemma abs_sum_list_triangle: "\<bar>sum_list (map f xs)\<bar> \<le> sum_list (map (\<lambda>x. \<bar>f x :: rat\<bar>) xs)"
  by (induction xs) (auto intro: order_trans [OF abs_triangle_ineq])

lemma calibration_gaps_bounds:
  assumes "0 < n" and "list_all unit_interval scores" and "length expected = length scores" and "scores \<noteq> []"
    and "calibration_gaps expected scores n = (w, m)"
  shows "\<bar>mean_over id scores - mean_over label_value expected\<bar> \<le> w \<and> w \<le> m \<and> m \<le> 1"
proof -
  let ?bs = "map int [0..<nat n]" and ?N = "of_nat (length expected) :: rat"
  let ?E = "bin_excess expected scores n"
  have N: "0 < ?N" using assms(3,4) by auto
  have unit: "unit_interval (scores ! i)" if "i < length scores" for i using assms(2) that by (simp add: list_all_length)
  have bound: "\<bar>?E b\<bar> \<le> of_nat (length (bin_members n scores b))" for b
    unfolding bin_excess_def by (rule abs_sum_list_le) (auto simp: bin_members_def intro: excess_bounds unit)
  from fold_add_bin [OF bound, where bs = ?bs and m = 0 and w = 0] assms(5)
  have w: "w = sum_list (map (\<lambda>b. \<bar>?E b\<bar>) ?bs) / ?N" and m: "0 \<le> m" "m \<le> 1"
    and each: "\<And>b. b \<in> set ?bs \<Longrightarrow> \<bar>?E b\<bar> \<le> m * of_nat (length (bin_members n scores b))"
    by (auto simp: calibration_gaps_def)
  have nonneg: "list_all (\<lambda>s. 0 \<le> s) scores" using assms(2) by (auto simp: list_all_iff unit_interval_def)
  have labels: "map (\<lambda>i. label_value (expected ! i)) [0..<length scores] = map label_value expected"
    using assms(3) by (intro nth_equalityI) simp_all
  have "sum_list (map ?E ?bs) = sum_list (map (excess expected scores) [0..<length scores])"
    unfolding bin_excess_def using bins_partition [OF assms(1) nonneg, of "excess expected scores"] by simp
  also have "\<dots> = sum_list scores - sum_list (map label_value expected)"
    using labels map_nth [of scores] by (simp add: excess_def [abs_def] sum_list_subtractf)
  finally have total: "sum_list (map ?E ?bs) = sum_list scores - sum_list (map label_value expected)" .
  have "\<bar>mean_over id scores - mean_over label_value expected\<bar> = \<bar>sum_list (map ?E ?bs)\<bar> / ?N"
    using assms(3) by (simp add: mean_over_def total diff_divide_distrib [symmetric] del: map_map)
  also have "\<dots> \<le> w"
    unfolding w using N abs_sum_list_triangle [of ?E ?bs] by (intro divide_right_mono) simp_all
  finally have lower: "\<bar>mean_over id scores - mean_over label_value expected\<bar> \<le> w" .
  have "sum_list (map (\<lambda>b. of_nat (length (bin_members n scores b))) ?bs) = ?N"
    using bins_partition [OF assms(1) nonneg, of "\<lambda>_. 1"] assms(3) by (simp add: sum_list_triv)
  moreover have "sum_list (map (\<lambda>b. \<bar>?E b\<bar>) ?bs) \<le> sum_list (map (\<lambda>b. m * of_nat (length (bin_members n scores b))) ?bs)"
    by (rule sum_list_mono) (rule each)
  ultimately have "sum_list (map (\<lambda>b. \<bar>?E b\<bar>) ?bs) \<le> m * ?N" by (simp only: sum_list_const_mult)
  then have "w \<le> m" using N by (simp add: w divide_le_eq)
  with lower m show ?thesis by simp
qed

lemma brier_unit:
  assumes "list_all unit_interval scores" and "length expected = length scores" and "scores \<noteq> []"
  shows "unit_interval (mean_over (\<lambda>(l, s). (s - label_value l)\<^sup>2) (zip expected scores))"
proof (rule mean_unit)
  show "zip expected scores \<noteq> []" using assms(2,3) by (cases scores; cases expected) simp_all
  fix x assume "x \<in> set (zip expected scores)"
  then have "snd x \<in> set scores" by (metis prod.collapse set_zip_rightD)
  then have "unit_interval (snd x)" using assms(1) by (simp add: list_all_iff)
  then have "\<bar>snd x - label_value (fst x)\<bar> \<le> 1" by (auto simp: label_value_def unit_interval_def)
  then show "unit_interval ((\<lambda>(l, s). (s - label_value l)\<^sup>2) x)"
    by (auto simp: unit_interval_def case_prod_beta abs_square_le_1)
qed

text \<open>
  the calibration statistics exist for every non-empty list of probabilities with as many labels and between 1 and 100
  bins, and for no other input; the result model never rejects them; the expected calibration error lies between the
  distance of the mean score from the rate of positives and the maximal calibration error.
\<close>

theorem calibration_metrics_sound:
  "if expected \<noteq> [] \<and> length expected = length scores \<and> 1 \<le> bin_count \<and> bin_count \<le> 100 \<and> list_all unit_interval scores
   then \<exists>m. calibration_metrics_of expected scores bin_count = Inr m \<and>
     \<bar>cm_mean_score m - cm_empirical_positive_rate m\<bar> \<le> cm_expected_calibration_error m \<and>
     cm_expected_calibration_error m \<le> cm_maximum_calibration_error m \<and> cm_maximum_calibration_error m \<le> 1 \<and>
     unit_interval (cm_brier_score m) \<and> unit_interval (cm_mean_score m) \<and> unit_interval (cm_empirical_positive_rate m) \<and>
     cm_sample_count m = int (length expected) \<and> cm_bin_count m = bin_count
   else \<exists>e. calibration_metrics_of expected scores bin_count = Inl (ValueError e)"
proof (cases "expected \<noteq> [] \<and> length expected = length scores \<and> 1 \<le> bin_count \<and> bin_count \<le> 100 \<and> list_all unit_interval scores")
  case True
  then have ok: "expected \<noteq> []" "length expected = length scores" "scores \<noteq> []" "list_all unit_interval scores" "0 < bin_count"
    by auto
  obtain w m where gaps: "calibration_gaps expected scores bin_count = (w, m)" by fastforce
  note bounds = calibration_gaps_bounds [OF ok(5,4,2,3) gaps]
  have "unit_interval (mean_over id scores)" "unit_interval (mean_over label_value expected)"
    using ok by (auto intro!: mean_unit simp: list_all_iff) (simp add: unit_interval_def label_value_def)
  moreover have "unit_interval w" "unit_interval m"
    using bounds by (auto simp: unit_interval_def)
  moreover have "\<not> list_ex (\<lambda>s. s < 0 \<or> 1 < s) scores"
    using ok(4) by (auto simp: list_all_iff list_ex_iff unit_interval_def)
  moreover note brier_unit [OF ok(4,2,3)]
  ultimately show ?thesis
    using True gaps bounds ok(3)
    by (simp add: calibration_metrics_of_def Let_def validate_calibration_metrics_def check_fields_ok)
next
  case False
  have "list_ex (\<lambda>s. s < 0 \<or> 1 < s) scores \<longleftrightarrow> \<not> list_all unit_interval scores"
    by (induction scores) (auto simp: unit_interval_def)
  with False show ?thesis by (auto simp: calibration_metrics_of_def)
qed

end
