(* ===== verification/Privacy_Policy.thy ===== *)
theory Privacy_Policy
  imports Lanes Ingestion
begin

section \<open>The privacy policy compiler\<close>

text \<open>
  \<open>policy/compiler.py\<close>, \<open>policy/recommendation.py\<close> and the masking of \<open>detection/direct_identifiers.py\<close>: which action a
  privacy level takes on an identity clue, the text that replaces the clue, and the level the deployment recommends. A
  Python set of entity types is a list without order. \<open>datetime.strptime\<close> (text and format to a year) is a parameter.
  The patterns \<open>\b(?:street|...)\b\<close> and \<open>\b(19\d{2}|20\d{2})\b\<close> match whole words, so they are written over the maximal
  runs of word characters.
\<close>

subsection \<open>Enumerations\<close>

datatype entity_type =
    Ent_PHONE | Ent_EMAIL | Ent_AADHAAR_LIKE | Ent_PAN_LIKE | Ent_PERSON_NAME | Ent_PERSON_TITLE | Ent_DATE_OF_BIRTH
    | Ent_GENERIC_DATE | Ent_AGE | Ent_STREET_ADDRESS | Ent_BUILDING_NUMBER | Ent_LOCALITY | Ent_POSTCODE
    | Ent_EMPLOYER | Ent_JOB_TITLE | Ent_CASE_REFERENCE | Ent_NATIONAL_ID | Ent_PASSPORT_NUMBER
    | Ent_DRIVER_LICENSE_NUMBER | Ent_TAX_IDENTIFIER | Ent_SOCIAL_IDENTIFIER | Ent_PAYMENT_CARD_NUMBER
    | Ent_DEMOGRAPHIC_ATTRIBUTE | Ent_FACE | Ent_QR_CODE | Ent_SIGNATURE_CANDIDATE

primrec entity_type_value :: "entity_type \<Rightarrow> string" where
  "entity_type_value Ent_PHONE = ''PHONE''"
| "entity_type_value Ent_EMAIL = ''EMAIL''"
| "entity_type_value Ent_AADHAAR_LIKE = ''AADHAAR_LIKE''"
| "entity_type_value Ent_PAN_LIKE = ''PAN_LIKE''"
| "entity_type_value Ent_PERSON_NAME = ''PERSON_NAME''"
| "entity_type_value Ent_PERSON_TITLE = ''PERSON_TITLE''"
| "entity_type_value Ent_DATE_OF_BIRTH = ''DATE_OF_BIRTH''"
| "entity_type_value Ent_GENERIC_DATE = ''GENERIC_DATE''"
| "entity_type_value Ent_AGE = ''AGE''"
| "entity_type_value Ent_STREET_ADDRESS = ''STREET_ADDRESS''"
| "entity_type_value Ent_BUILDING_NUMBER = ''BUILDING_NUMBER''"
| "entity_type_value Ent_LOCALITY = ''LOCALITY''"
| "entity_type_value Ent_POSTCODE = ''POSTCODE''"
| "entity_type_value Ent_EMPLOYER = ''EMPLOYER''"
| "entity_type_value Ent_JOB_TITLE = ''JOB_TITLE''"
| "entity_type_value Ent_CASE_REFERENCE = ''CASE_REFERENCE''"
| "entity_type_value Ent_NATIONAL_ID = ''NATIONAL_ID''"
| "entity_type_value Ent_PASSPORT_NUMBER = ''PASSPORT_NUMBER''"
| "entity_type_value Ent_DRIVER_LICENSE_NUMBER = ''DRIVER_LICENSE_NUMBER''"
| "entity_type_value Ent_TAX_IDENTIFIER = ''TAX_IDENTIFIER''"
| "entity_type_value Ent_SOCIAL_IDENTIFIER = ''SOCIAL_IDENTIFIER''"
| "entity_type_value Ent_PAYMENT_CARD_NUMBER = ''PAYMENT_CARD_NUMBER''"
| "entity_type_value Ent_DEMOGRAPHIC_ATTRIBUTE = ''DEMOGRAPHIC_ATTRIBUTE''"
| "entity_type_value Ent_FACE = ''FACE''"
| "entity_type_value Ent_QR_CODE = ''QR_CODE''"
| "entity_type_value Ent_SIGNATURE_CANDIDATE = ''SIGNATURE_CANDIDATE''"

definition all_entity_types :: "entity_type list" where
  "all_entity_types =
     [Ent_PHONE, Ent_EMAIL, Ent_AADHAAR_LIKE, Ent_PAN_LIKE, Ent_PERSON_NAME, Ent_PERSON_TITLE, Ent_DATE_OF_BIRTH,
      Ent_GENERIC_DATE, Ent_AGE, Ent_STREET_ADDRESS, Ent_BUILDING_NUMBER, Ent_LOCALITY, Ent_POSTCODE, Ent_EMPLOYER,
      Ent_JOB_TITLE, Ent_CASE_REFERENCE, Ent_NATIONAL_ID, Ent_PASSPORT_NUMBER, Ent_DRIVER_LICENSE_NUMBER,
      Ent_TAX_IDENTIFIER, Ent_SOCIAL_IDENTIFIER, Ent_PAYMENT_CARD_NUMBER, Ent_DEMOGRAPHIC_ATTRIBUTE, Ent_FACE,
      Ent_QR_CODE, Ent_SIGNATURE_CANDIDATE]"

lemma entity_type_listed: "t \<in> set all_entity_types"
  by (cases t) (simp_all add: all_entity_types_def)

datatype privacy_level =
    DIRECT_MASKING | SENSITIVE_ENTITY_PROTECTION | CONTEXT_GENERALIZATION | RELATIONSHIP_SAFE_PSEUDONYMIZATION
  | SYNTHETIC_TWIN

primrec level_int :: "privacy_level \<Rightarrow> int" where
  "level_int DIRECT_MASKING = 1"
| "level_int SENSITIVE_ENTITY_PROTECTION = 2"
| "level_int CONTEXT_GENERALIZATION = 3"
| "level_int RELATIONSHIP_SAFE_PSEUDONYMIZATION = 4"
| "level_int SYNTHETIC_TWIN = 5"

lemma level_int_inj: "level_int a = level_int b \<longleftrightarrow> a = b"
  by (cases a; cases b; simp)

text \<open>\<open>IntEnum\<close>: levels are ordered by their number.\<close>

instantiation privacy_level :: linorder
begin

definition less_eq_privacy_level :: "privacy_level \<Rightarrow> privacy_level \<Rightarrow> bool" where
  "less_eq_privacy_level a b \<longleftrightarrow> level_int a \<le> level_int b"

definition less_privacy_level :: "privacy_level \<Rightarrow> privacy_level \<Rightarrow> bool" where
  "less_privacy_level a b \<longleftrightarrow> level_int a < level_int b"

instance
  by standard (auto simp: less_eq_privacy_level_def less_privacy_level_def level_int_inj)

end

datatype audience_profile = PUBLIC_RELEASE | RESEARCH_PARTNER | INTERNAL_OPERATIONS

primrec audience_value :: "audience_profile \<Rightarrow> string" where
  "audience_value PUBLIC_RELEASE = ''PUBLIC_RELEASE''"
| "audience_value RESEARCH_PARTNER = ''RESEARCH_PARTNER''"
| "audience_value INTERNAL_OPERATIONS = ''INTERNAL_OPERATIONS''"

datatype protection =
    Act_RETAIN | Act_REMOVE | Act_MASK | Act_PROTECT | Act_GENERALIZE | Act_PSEUDONYMIZE | Act_SYNTHESIZE

primrec protection_value :: "protection \<Rightarrow> string" where
  "protection_value Act_RETAIN = ''RETAIN''"
| "protection_value Act_REMOVE = ''REMOVE''"
| "protection_value Act_MASK = ''MASK''"
| "protection_value Act_PROTECT = ''PROTECT''"
| "protection_value Act_GENERALIZE = ''GENERALIZE''"
| "protection_value Act_PSEUDONYMIZE = ''PSEUDONYMIZE''"
| "protection_value Act_SYNTHESIZE = ''SYNTHESIZE''"

subsection \<open>Actions\<close>

definition direct_types :: "entity_type list" where
  "direct_types =
     [Ent_PHONE, Ent_EMAIL, Ent_AADHAAR_LIKE, Ent_PAN_LIKE, Ent_PERSON_NAME, Ent_CASE_REFERENCE, Ent_NATIONAL_ID,
      Ent_PASSPORT_NUMBER, Ent_DRIVER_LICENSE_NUMBER, Ent_TAX_IDENTIFIER, Ent_SOCIAL_IDENTIFIER, Ent_PAYMENT_CARD_NUMBER]"

definition quasi_types :: "entity_type list" where
  "quasi_types =
     [Ent_DATE_OF_BIRTH, Ent_AGE, Ent_STREET_ADDRESS, Ent_LOCALITY, Ent_POSTCODE, Ent_EMPLOYER, Ent_JOB_TITLE,
      Ent_PERSON_TITLE, Ent_GENERIC_DATE, Ent_BUILDING_NUMBER, Ent_DEMOGRAPHIC_ATTRIBUTE]"

definition visual_types :: "entity_type list" where
  "visual_types = [Ent_FACE, Ent_QR_CODE, Ent_SIGNATURE_CANDIDATE]"

definition level2_protect_types :: "entity_type list" where
  "level2_protect_types = direct_types @
     [Ent_DATE_OF_BIRTH, Ent_STREET_ADDRESS, Ent_POSTCODE, Ent_BUILDING_NUMBER, Ent_GENERIC_DATE,
      Ent_DEMOGRAPHIC_ATTRIBUTE]"

definition action_for :: "entity_type \<Rightarrow> privacy_level \<Rightarrow> audience_profile \<Rightarrow> protection" where
  "action_for t level audience =
     (if level = SYNTHETIC_TWIN then (if t \<in> set visual_types then Act_REMOVE else Act_SYNTHESIZE)
      else if t \<in> set visual_types then Act_REMOVE
      else if level = DIRECT_MASKING then (if t \<in> set direct_types then Act_MASK else Act_RETAIN)
      else if level = SENSITIVE_ENTITY_PROTECTION
      then (if t \<in> set level2_protect_types then Act_PROTECT else Act_RETAIN)
      else if level = CONTEXT_GENERALIZATION
      then (if t \<in> set direct_types then Act_MASK
            else if audience = INTERNAL_OPERATIONS \<and> t \<in> {Ent_EMPLOYER, Ent_JOB_TITLE} then Act_RETAIN
            else if t \<in> set quasi_types then Act_GENERALIZE else Act_RETAIN)
      else (if t \<in> set direct_types \<or> t = Ent_EMPLOYER then Act_PSEUDONYMIZE
            else if t \<in> set quasi_types then Act_GENERALIZE else Act_RETAIN))"

subsection \<open>Masking\<close>

definition textual_types :: "entity_type list" where
  "textual_types =
     [Ent_EMAIL, Ent_PAN_LIKE, Ent_PERSON_NAME, Ent_DATE_OF_BIRTH, Ent_AGE, Ent_STREET_ADDRESS, Ent_LOCALITY,
      Ent_EMPLOYER, Ent_JOB_TITLE, Ent_CASE_REFERENCE, Ent_PERSON_TITLE, Ent_GENERIC_DATE, Ent_DEMOGRAPHIC_ATTRIBUTE]"

definition alnum_identifier_types :: "entity_type list" where
  "alnum_identifier_types =
     [Ent_NATIONAL_ID, Ent_PASSPORT_NUMBER, Ent_DRIVER_LICENSE_NUMBER, Ent_TAX_IDENTIFIER, Ent_SOCIAL_IDENTIFIER,
      Ent_PAYMENT_CARD_NUMBER]"

definition digits_of :: "string \<Rightarrow> string" where
  "digits_of value = filter is_digit value"

definition normalize_value :: "entity_type \<Rightarrow> string \<Rightarrow> string" where
  "normalize_value t value =
     (let value = strip value
      in if t = Ent_EMAIL then casefold (filter (\<lambda>c. \<not> is_space c) value)
         else if t = Ent_PAN_LIKE then upper (filter (\<lambda>c. \<not> is_space c) value)
         else if t \<in> set textual_types then casefold (strip (replace_runs is_space '' '' value))
         else if t \<in> set alnum_identifier_types then filter (\<lambda>c. is_upper c \<or> is_digit c) (upper value)
         else digits_of value)"

text \<open>\<open>s[-4:]\<close>.\<close>

definition last_four :: "string \<Rightarrow> string" where
  "last_four s = drop (length s - 4) s"

definition replacement_for :: "entity_type \<Rightarrow> string \<Rightarrow> string" where
  "replacement_for t value =
     (let normalized = normalize_value t value
      in if t = Ent_PHONE then replicate (length normalized - 4) CHR ''X'' @ last_four normalized
         else if t = Ent_AADHAAR_LIKE then ''XXXX XXXX '' @ last_four normalized
         else if t = Ent_PAN_LIKE then ''XXXXXX'' @ last_four normalized
         else if t = Ent_EMAIL
         then (let local_part = takeWhile (\<lambda>c. c \<noteq> CHR ''@'') normalized;
                   domain = drop 1 (dropWhile (\<lambda>c. c \<noteq> CHR ''@'') normalized)
               in (if local_part = [] then ''x'' else take 1 local_part) @ ''***@'' @ domain)
         else if t = Ent_PERSON_NAME then ''[NAME PROTECTED]''
         else if t = Ent_CASE_REFERENCE then ''[REFERENCE PROTECTED]''
         else if t = Ent_PAYMENT_CARD_NUMBER
         then ''XXXX XXXX XXXX '' @ (if normalized \<noteq> [] then last_four normalized else ''XXXX'')
         else if t \<in> set alnum_identifier_types
         then (let suffix = (if 4 \<le> length normalized then last_four normalized else normalized)
               in if suffix \<noteq> [] then ''[CREDENTIAL MASKED '' @ suffix @ '']'' else ''[CREDENTIAL MASKED]'')
         else ''[PROTECTED]'')"

subsection \<open>Generalisation\<close>

definition is_word_char :: "char \<Rightarrow> bool" where
  "is_word_char c \<longleftrightarrow> is_digit c \<or> is_lower c \<or> is_upper c \<or> c = CHR ''_''"

text \<open>The maximal runs of word characters, in order.\<close>

function word_runs :: "string \<Rightarrow> string list" where
  "word_runs [] = []"
| "word_runs (c # s) =
     (if is_word_char c then (c # takeWhile is_word_char s) # word_runs (dropWhile is_word_char s) else word_runs s)"
  by pat_completeness auto
termination
  by (relation "measure length") (auto simp: less_Suc_eq_le length_dropWhile_le)

type_synonym calendar = "string \<Rightarrow> string \<Rightarrow> int option"

definition date_formats :: "string list" where
  "date_formats = [''%d %B %Y'', ''%d %b %Y'', ''%B %d %Y'', ''%b %d %Y'', ''%d/%m/%Y'', ''%d-%m-%Y'', ''%Y-%m-%d'',
     ''%d.%m.%Y'']"

definition is_recent_year :: "string \<Rightarrow> bool" where
  "is_recent_year w \<longleftrightarrow> length w = 4 \<and> list_all is_digit w \<and> take 2 w \<in> {''19'', ''20''}"

definition parse_year :: "calendar \<Rightarrow> string \<Rightarrow> int option" where
  "parse_year strptime value =
     (let cleaned = replace_runs is_space '' '' (filter (\<lambda>c. c \<noteq> CHR '','') (strip value))
      in case List.map_filter (strptime cleaned) date_formats of
           year # _ \<Rightarrow> Some year
         | [] \<Rightarrow> (case List.find is_recent_year (word_runs cleaned) of
               Some w \<Rightarrow> Some (int (digits_value w)) | None \<Rightarrow> None))"

definition generalize_date :: "calendar \<Rightarrow> string \<Rightarrow> string" where
  "generalize_date strptime value =
     (case parse_year strptime value of
        None \<Rightarrow> ''Birth year band protected''
      | Some year \<Rightarrow> (let start = year - year mod 5
          in ''Born '' @ show_int start @ ''-'' @ show_int (start + 4)))"

definition age_bands :: "(int \<times> int) list" where
  "age_bands = [(0, 12), (13, 17), (18, 24), (25, 34), (35, 44), (45, 54), (55, 64)]"

definition generalize_age :: "string \<Rightarrow> string" where
  "generalize_age value =
     (case take 3 (takeWhile is_digit (dropWhile (\<lambda>c. \<not> is_digit c) value)) of
        [] \<Rightarrow> ''Age band protected''
      | d # ds \<Rightarrow> (let age = int (digits_value (d # ds))
          in case List.find (\<lambda>(low, high). low \<le> age \<and> age \<le> high) age_bands of
               Some (low, high) \<Rightarrow> ''Age '' @ show_int low @ ''-'' @ show_int high
             | None \<Rightarrow> ''Age 65+''))"

definition street_terms :: "string list" where
  "street_terms = [''street'', ''st'', ''avenue'', ''ave'', ''road'', ''rd'', ''lane'', ''ln'', ''boulevard'', ''blvd'',
     ''drive'', ''dr'', ''way'', ''court'', ''ct'']"

definition has_term :: "string \<Rightarrow> string list \<Rightarrow> bool" where
  "has_term lowered terms \<longleftrightarrow> list_ex (\<lambda>term. contains term lowered) terms"

definition generalize_location :: "string \<Rightarrow> string" where
  "generalize_location value =
     (let lowered = casefold value
      in if has_term lowered [''bengaluru'', ''bangalore''] then ''Bengaluru metropolitan area''
         else if contains ''mumbai'' lowered then ''Mumbai metropolitan area''
         else if contains ''delhi'' lowered then ''Delhi metropolitan area''
         else if list_ex (\<lambda>w. w \<in> set street_terms) (word_runs lowered) then ''Urban street area''
         else if 2 \<le> length (filter (\<lambda>part. strip part \<noteq> []) (split_on CHR '','' value)) then ''Regional urban area''
         else ''City-level location'')"

definition generalize_employer :: "string \<Rightarrow> string" where
  "generalize_employer value =
     (let lowered = casefold value
      in if has_term lowered [''analytics'', ''data'', ''software'', ''tech''] then ''Private analytics organisation''
         else if has_term lowered [''hospital'', ''clinic'', ''health''] then ''Healthcare organisation''
         else if has_term lowered [''college'', ''university'', ''school''] then ''Education institution''
         else if has_term lowered [''government'', ''ministry'', ''department''] then ''Public-sector organisation''
         else ''Private-sector organisation'')"

definition generalize_job :: "string \<Rightarrow> string" where
  "generalize_job value =
     (let lowered = casefold value
      in if has_term lowered [''junior'', ''trainee'', ''intern'', ''associate''] then ''Early-career professional''
         else if has_term lowered [''analyst'', ''data'', ''research''] then ''Data and research professional''
         else if has_term lowered [''engineer'', ''developer'', ''architect''] then ''Technical professional''
         else if has_term lowered [''manager'', ''lead'', ''director''] then ''Management professional''
         else ''Professional role'')"

subsection \<open>Replacements\<close>

definition upper_letter :: "nat \<Rightarrow> char" where
  "upper_letter i = char_of (65 + i)"

definition letter :: "nat \<Rightarrow> string" where
  "letter i = (if i < 26 then [upper_letter i] else upper_letter (i mod 26) # show_nat (i div 26 + 1))"

text \<open>\<open>{index:03d}\<close>.\<close>

definition three_digits :: "nat \<Rightarrow> string" where
  "three_digits n = replicate (3 - length (show_nat n)) CHR ''0'' @ show_nat n"

definition protect_prefix :: "entity_type \<Rightarrow> string" where
  "protect_prefix t =
     (case t of
        Ent_PERSON_NAME \<Rightarrow> ''PERSON'' | Ent_PHONE \<Rightarrow> ''PHONE'' | Ent_EMAIL \<Rightarrow> ''EMAIL'' | Ent_AADHAAR_LIKE \<Rightarrow> ''AADHAAR''
      | Ent_PAN_LIKE \<Rightarrow> ''PAN'' | Ent_CASE_REFERENCE \<Rightarrow> ''CASE_REFERENCE'' | Ent_DATE_OF_BIRTH \<Rightarrow> ''DOB''
      | Ent_STREET_ADDRESS \<Rightarrow> ''ADDRESS'' | Ent_POSTCODE \<Rightarrow> ''POSTCODE'' | Ent_BUILDING_NUMBER \<Rightarrow> ''BUILDING''
      | Ent_GENERIC_DATE \<Rightarrow> ''DATE'' | Ent_DEMOGRAPHIC_ATTRIBUTE \<Rightarrow> ''DEMOGRAPHIC'' | Ent_NATIONAL_ID \<Rightarrow> ''NATIONAL_ID''
      | Ent_PASSPORT_NUMBER \<Rightarrow> ''PASSPORT'' | Ent_DRIVER_LICENSE_NUMBER \<Rightarrow> ''DRIVER_LICENSE''
      | Ent_TAX_IDENTIFIER \<Rightarrow> ''TAX_ID'' | Ent_SOCIAL_IDENTIFIER \<Rightarrow> ''SOCIAL_ID''
      | Ent_PAYMENT_CARD_NUMBER \<Rightarrow> ''PAYMENT_CARD'' | _ \<Rightarrow> entity_type_value t)"

definition alias_prefix :: "entity_type \<Rightarrow> string" where
  "alias_prefix t =
     (case t of
        Ent_PERSON_NAME \<Rightarrow> ''Person '' | Ent_PHONE \<Rightarrow> ''Contact '' | Ent_EMAIL \<Rightarrow> ''Email alias ''
      | Ent_AADHAAR_LIKE \<Rightarrow> ''Credential '' | Ent_PAN_LIKE \<Rightarrow> ''Tax credential '' | Ent_CASE_REFERENCE \<Rightarrow> ''Case ''
      | Ent_EMPLOYER \<Rightarrow> ''Organisation '' | Ent_NATIONAL_ID \<Rightarrow> ''Identity credential ''
      | Ent_PASSPORT_NUMBER \<Rightarrow> ''Passport credential '' | Ent_DRIVER_LICENSE_NUMBER \<Rightarrow> ''Licence credential ''
      | Ent_TAX_IDENTIFIER \<Rightarrow> ''Tax credential '' | Ent_SOCIAL_IDENTIFIER \<Rightarrow> ''Social credential ''
      | Ent_PAYMENT_CARD_NUMBER \<Rightarrow> ''Payment credential '' | _ \<Rightarrow> ''Pseudonym '')"

definition removed_text :: "entity_type \<Rightarrow> string res" where
  "removed_text t =
     (case t of
        Ent_FACE \<Rightarrow> Inr ''FACE PROTECTED'' | Ent_QR_CODE \<Rightarrow> Inr ''QR REMOVED''
      | Ent_SIGNATURE_CANDIDATE \<Rightarrow> Inr ''SIGNATURE PROTECTED'' | _ \<Rightarrow> Inl (KeyError (entity_type_value t)))"

definition generalized_text :: "calendar \<Rightarrow> entity_type \<Rightarrow> string \<Rightarrow> string" where
  "generalized_text strptime t value =
     (case t of
        Ent_DATE_OF_BIRTH \<Rightarrow> generalize_date strptime value
      | Ent_AGE \<Rightarrow> generalize_age value
      | Ent_STREET_ADDRESS \<Rightarrow> generalize_location value
      | Ent_LOCALITY \<Rightarrow> generalize_location value
      | Ent_POSTCODE \<Rightarrow> (let digits = digits_of value
          in if 3 \<le> length digits then take 3 digits @ ''XXX'' else ''Regional postcode'')
      | Ent_EMPLOYER \<Rightarrow> generalize_employer value
      | Ent_JOB_TITLE \<Rightarrow> generalize_job value
      | Ent_PERSON_TITLE \<Rightarrow> ''Personal title protected''
      | Ent_GENERIC_DATE \<Rightarrow> (case parse_year strptime value of
            Some year \<Rightarrow> ''Date in '' @ show_int year | None \<Rightarrow> ''Date generalized'')
      | Ent_BUILDING_NUMBER \<Rightarrow> ''Building number generalized''
      | Ent_DEMOGRAPHIC_ATTRIBUTE \<Rightarrow> ''Demographic category protected''
      | Ent_CASE_REFERENCE \<Rightarrow> ''[REFERENCE PROTECTED]''
      | _ \<Rightarrow> ''[GENERALIZED]'')"

definition replacement_for_policy ::
    "calendar \<Rightarrow> entity_type \<Rightarrow> string \<Rightarrow> privacy_level \<Rightarrow> audience_profile \<Rightarrow> nat \<Rightarrow> string res" where
  "replacement_for_policy strptime t value level audience ordinal =
     (case action_for t level audience of
        Act_RETAIN \<Rightarrow> Inr value
      | Act_REMOVE \<Rightarrow> removed_text t
      | Act_PROTECT \<Rightarrow> Inr (''['' @ protect_prefix t @ ''_'' @ three_digits (ordinal + 1) @ '']'')
      | Act_MASK \<Rightarrow> Inr (if t \<in> set quasi_types then ''[CONTEXT PROTECTED]'' else replacement_for t value)
      | Act_SYNTHESIZE \<Rightarrow> Inr ''[SYNTHETIC TWIN VALUE]''
      | Act_PSEUDONYMIZE \<Rightarrow> Inr (alias_prefix t @ letter ordinal)
      | Act_GENERALIZE \<Rightarrow> Inr (generalized_text strptime t value))"

subsection \<open>The description of a policy\<close>

definition level_name :: "privacy_level \<Rightarrow> string" where
  "level_name level =
     (case level of
        DIRECT_MASKING \<Rightarrow> ''Level 1 / Direct masking''
      | SENSITIVE_ENTITY_PROTECTION \<Rightarrow> ''Level 2 / Sensitive-entity protection''
      | CONTEXT_GENERALIZATION \<Rightarrow> ''Level 3 / Context generalization''
      | RELATIONSHIP_SAFE_PSEUDONYMIZATION \<Rightarrow> ''Level 4 / Relationship-safe pseudonymization''
      | SYNTHETIC_TWIN \<Rightarrow> ''Level 5 / Synthetic Twin generation'')"

definition audience_objective :: "audience_profile \<Rightarrow> string" where
  "audience_objective audience =
     (case audience of
        PUBLIC_RELEASE \<Rightarrow> ''Minimise identity reconstruction in publicly shared material while retaining coarse analytical meaning.''
      | RESEARCH_PARTNER \<Rightarrow> ''Preserve cohort-level research utility without releasing direct or high-uniqueness identity clues.''
      | INTERNAL_OPERATIONS \<Rightarrow> ''Protect direct identity while retaining operational context required by an authorised internal recipient.'')"

definition rule_preview :: "protection \<Rightarrow> string" where
  "rule_preview action =
     (case action of
        Act_REMOVE \<Rightarrow> ''Irreversible region replacement''
      | Act_MASK \<Rightarrow> ''Direct value masked''
      | Act_PROTECT \<Rightarrow> ''Opaque stable protection token''
      | Act_GENERALIZE \<Rightarrow> ''Exact clue converted to a broader category''
      | Act_PSEUDONYMIZE \<Rightarrow> ''Stable job-scoped alias''
      | Act_SYNTHESIZE \<Rightarrow> ''Realistic source-independent synthetic value''
      | Act_RETAIN \<Rightarrow> ''Retained for this audience'')"

definition rule_rationale :: "protection \<Rightarrow> string" where
  "rule_rationale action =
     (case action of
        Act_REMOVE \<Rightarrow> ''Visual content can encode identity outside the text layer.''
      | Act_MASK \<Rightarrow> ''The value directly identifies or contacts a person.''
      | Act_PROTECT \<Rightarrow> ''The exact sensitive value is replaced by a non-semantic token while preserving document structure.''
      | Act_GENERALIZE \<Rightarrow> ''The exact value is a quasi-identifier; a broader category preserves utility with lower uniqueness.''
      | Act_PSEUDONYMIZE \<Rightarrow> ''A stable alias preserves cross-page and relationship consistency without releasing the source value.''
      | Act_SYNTHESIZE \<Rightarrow> ''The source value is not released; a synthetic equivalent is generated while structural/statistical utility is measured separately.''
      | Act_RETAIN \<Rightarrow> ''The selected audience policy permits this context; residual risk remains visible in the score.'')"

definition policy_rule :: "audience_profile \<Rightarrow> privacy_level \<Rightarrow> entity_type \<Rightarrow> json" where
  "policy_rule audience level t =
     (let action = action_for t level audience
      in JObj [(''entity_type'', JStr (entity_type_value t)), (''action'', JStr (protection_value action)),
               (''replacement_preview'', JStr (rule_preview action)), (''rationale'', JStr (rule_rationale action))])"

definition policy_descriptor :: "audience_profile \<Rightarrow> privacy_level \<Rightarrow> entity_type list \<Rightarrow> json" where
  "policy_descriptor audience level present =
     JObj [(''audience_profile'', JStr (audience_value audience)), (''privacy_level'', JInt (level_int level)),
           (''name'', JStr (level_name level)), (''objective'', JStr (audience_objective audience)),
           (''rules'', JArr (map (policy_rule audience level) (sort_key entity_type_value (remdups present))))]"

definition residual_factor :: "protection \<Rightarrow> rat" where
  "residual_factor action =
     (case action of
        Act_REMOVE \<Rightarrow> 3 / 100 | Act_MASK \<Rightarrow> 14 / 100 | Act_PROTECT \<Rightarrow> 10 / 100 | Act_PSEUDONYMIZE \<Rightarrow> 8 / 100
      | Act_SYNTHESIZE \<Rightarrow> 2 / 100 | Act_GENERALIZE \<Rightarrow> 30 / 100 | Act_RETAIN \<Rightarrow> 1)"

definition utility_loss :: "protection \<Rightarrow> entity_type \<Rightarrow> int" where
  "utility_loss action t =
     (case action of
        Act_RETAIN \<Rightarrow> 0
      | Act_PSEUDONYMIZE \<Rightarrow> (if t \<in> {Ent_PERSON_NAME, Ent_EMPLOYER, Ent_CASE_REFERENCE} then 1 else 2)
      | Act_SYNTHESIZE \<Rightarrow> 2
      | Act_PROTECT \<Rightarrow> 4
      | Act_GENERALIZE \<Rightarrow>
          (if t \<in> {Ent_DATE_OF_BIRTH, Ent_GENERIC_DATE, Ent_AGE, Ent_LOCALITY, Ent_JOB_TITLE, Ent_PERSON_TITLE,
                    Ent_DEMOGRAPHIC_ATTRIBUTE} then 3 else 4)
      | Act_MASK \<Rightarrow> 3
      | Act_REMOVE \<Rightarrow> 5)"

subsection \<open>Ordinals\<close>

text \<open>
  \<open>_ordinal_map\<close> of \<open>api/routes.py\<close>: within its type, an entity has the position of its pair (placeholder, identifier) among
  the pairs of the type. A row is an identifier with its type and placeholder; a later row of an identifier is skipped.
\<close>

record entity_row =
  er_entity_id :: string
  er_entity_type :: entity_type
  er_placeholder :: string

fun first_rows :: "string list \<Rightarrow> entity_row list \<Rightarrow> entity_row list" where
  "first_rows seen [] = []"
| "first_rows seen (r # rs) =
     (if er_entity_id r \<in> set seen then first_rows seen rs
      else r # first_rows (er_entity_id r # seen) rs)"

definition grouped_rows :: "entity_row list \<Rightarrow> entity_type \<Rightarrow> (string \<times> string) list" where
  "grouped_rows rows t =
     map (\<lambda>r. (er_placeholder r, er_entity_id r)) (filter (\<lambda>r. er_entity_type r = t) (first_rows [] rows))"

definition ordinal_map :: "entity_row list \<Rightarrow> (string \<times> nat) list" where
  "ordinal_map rows =
     concat (map (\<lambda>t. map (\<lambda>(i, p). (snd p, i)) (enumerate 0 (sort (grouped_rows rows t))))
       (remdups (map er_entity_type (first_rows [] rows))))"

subsection \<open>The recommended level\<close>

definition synthetic_terms :: "string list" where
  "synthetic_terms = [''synthetic'', ''new dataset'', ''shareable dataset'', ''ml training'', ''model training'',
     ''machine learning training'', ''test dataset'', ''testing dataset'', ''training dataset'']"

definition public_terms :: "string list" where
  "public_terms = [''public'', ''publish'', ''publication'', ''open portal'', ''external release'', ''press release'']"

definition external_terms :: "string list" where
  "external_terms = [''external'', ''vendor'', ''third party'', ''third-party'', ''partner'', ''outside'']"

definition analytics_terms :: "string list" where
  "analytics_terms = [''analytics'', ''analysis'', ''research'', ''statistics'', ''statistical'', ''cohort'', ''study'']"

definition linkage_terms :: "string list" where
  "linkage_terms = [''anonymous record'', ''pseudonym'', ''link records'', ''record linkage'', ''same person'', ''longitudinal'']"

definition internal_terms :: "string list" where
  "internal_terms = [''internal'', ''operations'', ''audit'', ''case handling'', ''service delivery'', ''same team'']"

definition high_risk_types :: "entity_type list" where
  "high_risk_types =
     [Ent_AADHAAR_LIKE, Ent_PAN_LIKE, Ent_NATIONAL_ID, Ent_PASSPORT_NUMBER, Ent_DRIVER_LICENSE_NUMBER, Ent_TAX_IDENTIFIER,
      Ent_SOCIAL_IDENTIFIER, Ent_PAYMENT_CARD_NUMBER]"

record recommendation =
  rd_recommended_level :: privacy_level
  rd_minimum_level :: privacy_level
  rd_reasons :: "string list"
  rd_l5_supported :: bool

definition audience_baseline :: "audience_profile \<Rightarrow> privacy_level \<times> privacy_level \<times> string" where
  "audience_baseline audience =
     (case audience of
        PUBLIC_RELEASE \<Rightarrow> (RELATIONSHIP_SAFE_PSEUDONYMIZATION, RELATIONSHIP_SAFE_PSEUDONYMIZATION,
          ''The audience is unrestricted/public, so relationship-safe protection is the default safety floor.'')
      | RESEARCH_PARTNER \<Rightarrow> (CONTEXT_GENERALIZATION, SENSITIVE_ENTITY_PROTECTION,
          ''A research partner usually needs analytical context but not exact direct identity.'')
      | INTERNAL_OPERATIONS \<Rightarrow> (DIRECT_MASKING, DIRECT_MASKING,
          ''The audience is trusted internal operations, so direct masking is the least-destructive default.''))"

definition purpose_step ::
    "string \<Rightarrow> bool \<Rightarrow> privacy_level \<times> privacy_level \<times> string list \<Rightarrow> privacy_level \<times> privacy_level \<times> string list" where
  "purpose_step stated l5_supported = (\<lambda>(recommended, minimum, reasons).
     let has = has_term (casefold stated)
     in if has synthetic_terms
        then (if l5_supported
              then (SYNTHETIC_TWIN, SYNTHETIC_TWIN, reasons @
                [''The stated objective is a new shareable/training dataset; structured input supports a genuine Synthetic Twin.''])
              else (max recommended RELATIONSHIP_SAFE_PSEUDONYMIZATION, minimum, reasons @
                [''A synthetic-data objective was detected, but L5 is only available for CSV/JSON/XLSX; this file stays on L1-L4.'']))
        else if has public_terms \<or> has external_terms
        then (max recommended RELATIONSHIP_SAFE_PSEUDONYMIZATION, minimum, reasons @
          [''The purpose/recipient crosses a public or external trust boundary.''])
        else if has analytics_terms
        then (max recommended CONTEXT_GENERALIZATION, minimum, reasons @
          [''Analytics/research benefits from retaining coarse context while reducing exact quasi-identifiers.''])
        else if has linkage_terms
        then (max recommended SENSITIVE_ENTITY_PROTECTION, minimum, reasons @
          [''Anonymous record linkage requires stable non-identity record references rather than raw identifiers.''])
        else if has internal_terms
        then (recommended, minimum, reasons @
          [''The stated use is internal/operational, so utility can be retained unless higher-risk evidence requires escalation.''])
        else (recommended, minimum, reasons))"

definition entity_step ::
    "audience_profile \<Rightarrow> entity_type list \<Rightarrow> privacy_level \<times> privacy_level \<times> string list
      \<Rightarrow> privacy_level \<times> privacy_level \<times> string list" where
  "entity_step audience types = (\<lambda>(recommended, minimum, reasons).
     if list_ex (\<lambda>t. t \<in> set high_risk_types) types
     then (max recommended (if audience = INTERNAL_OPERATIONS then SENSITIVE_ENTITY_PROTECTION
                            else RELATIONSHIP_SAFE_PSEUDONYMIZATION),
           minimum,
           reasons @ [''High-risk credential/identity fields were detected, so the recommendation is escalated.''])
     else (recommended, minimum, reasons))"

definition risk_step ::
    "audience_profile \<Rightarrow> int \<Rightarrow> privacy_level \<times> privacy_level \<times> string list
      \<Rightarrow> privacy_level \<times> privacy_level \<times> string list" where
  "risk_step audience risk_before = (\<lambda>(recommended, minimum, reasons).
     if 75 \<le> risk_before \<and> recommended < RELATIONSHIP_SAFE_PSEUDONYMIZATION \<and> audience \<noteq> INTERNAL_OPERATIONS
     then (RELATIONSHIP_SAFE_PSEUDONYMIZATION, minimum, reasons @
       [''Identity Exposure is '' @ show_int risk_before @ ''/100, so a stronger external/research protection level is recommended.''])
     else if 75 \<le> risk_before
     then (recommended, minimum, reasons @
       [''Identity Exposure is high ('' @ show_int risk_before @ ''/100); review the L1-L4 privacy/utility preview before release.''])
     else (recommended, minimum, reasons))"

text \<open>\<open>tuple(dict.fromkeys(reasons))\<close> keeps the first occurrence of every reason.\<close>

definition first_occurrences :: "'a list \<Rightarrow> 'a list" where
  "first_occurrences xs = rev (remdups (rev xs))"

definition recommend_privacy_level ::
    "string \<Rightarrow> string \<Rightarrow> audience_profile \<Rightarrow> file_type \<Rightarrow> int \<Rightarrow> entity_type list \<Rightarrow> recommendation" where
  "recommend_privacy_level purpose recipient audience file risk_before types =
     (let stated = strip (purpose @ '' '' @ recipient);
          l5_supported = (file = File_DATASET);
          (baseline, floor_level, because) = audience_baseline audience;
          (recommended, minimum, reasons) =
            risk_step audience risk_before
              (entity_step audience types (purpose_step stated l5_supported (baseline, floor_level, [because])))
      in \<lparr>rd_recommended_level =
            (if recommended = SYNTHETIC_TWIN \<and> \<not> l5_supported then RELATIONSHIP_SAFE_PSEUDONYMIZATION else recommended),
          rd_minimum_level = minimum, rd_reasons = first_occurrences reasons, rd_l5_supported = l5_supported\<rparr>)"

end
