(* ===== verification/Privacy_Facts.thy ===== *)
theory Privacy_Facts
  imports Privacy_Policy
begin

section \<open>What the privacy policy guarantees\<close>

text \<open>
  The scope of protection of a level grows with the level, replacements exist for every action and, where the action
  promises it, do not depend on the value they replace; tokens and aliases separate the entities of a job; the recommended
  level respects its floor and grows with the evidence.
\<close>

subsection \<open>Scope\<close>

text \<open>The specification of \<open>action_for\<close>: which types a level leaves alone.\<close>

definition retained_types :: "privacy_level \<Rightarrow> audience_profile \<Rightarrow> entity_type set" where
  "retained_types level audience =
     (case level of
        DIRECT_MASKING \<Rightarrow> set quasi_types
      | SENSITIVE_ENTITY_PROTECTION \<Rightarrow> {Ent_AGE, Ent_LOCALITY, Ent_EMPLOYER, Ent_JOB_TITLE, Ent_PERSON_TITLE}
      | CONTEXT_GENERALIZATION \<Rightarrow> (if audience = INTERNAL_OPERATIONS then {Ent_EMPLOYER, Ent_JOB_TITLE} else {})
      | _ \<Rightarrow> {})"

lemmas type_lists = direct_types_def quasi_types_def visual_types_def level2_protect_types_def

lemma action_retain_iff: "action_for t level audience = Act_RETAIN \<longleftrightarrow> t \<in> retained_types level audience"
  by (cases level; cases t) (simp_all add: action_for_def retained_types_def type_lists)

lemma retained_types_antimono: "level \<le> level' \<Longrightarrow> retained_types level' audience \<subseteq> retained_types level audience"
  by (cases level; cases level') (simp_all add: retained_types_def less_eq_privacy_level_def quasi_types_def)

lemma action_remove_iff: "action_for t level audience = Act_REMOVE \<longleftrightarrow> t \<in> set visual_types"
  by (cases level; cases t) (simp_all add: action_for_def type_lists)

lemma removed_text_ok: "t \<in> set visual_types \<Longrightarrow> \<exists>s. removed_text t = Inr s"
  by (auto simp: visual_types_def removed_text_def)

lemma replacement_total: "\<exists>s. replacement_for_policy strptime t value level audience n = Inr s"
  using removed_text_ok [of t] action_remove_iff [of t level audience]
  by (cases "action_for t level audience") (simp_all add: replacement_for_policy_def)

lemma action_mask_direct: "action_for t level audience = Act_MASK \<Longrightarrow> t \<in> set direct_types"
  by (cases level) (auto simp: action_for_def split: if_splits)

lemma quasi_not_direct: "t \<in> set direct_types \<Longrightarrow> t \<notin> set quasi_types"
  by (auto simp: type_lists)

text \<open>
  C29: protection grows with the level. Whatever a level changes, every higher level changes as well, for every audience;
  direct identifiers are changed at every level and visual ones always removed; the two highest levels retain nothing; the
  highest synthesises every textual clue. A replacement text exists in every case, so no transformation stops half-way on a
  missing table entry.
\<close>

theorem policy_scope_monotone:
  assumes "level \<le> level'"
  shows "{t. action_for t level' audience = Act_RETAIN} \<subseteq> {t. action_for t level audience = Act_RETAIN} \<and>
    {t. action_for t level audience = Act_RETAIN} \<inter> set direct_types = {} \<and>
    {t. action_for t level audience = Act_REMOVE} = set visual_types \<and>
    {t. action_for t RELATIONSHIP_SAFE_PSEUDONYMIZATION audience = Act_RETAIN} = {} \<and>
    {t. action_for t SYNTHETIC_TWIN audience = Act_SYNTHESIZE} = - set visual_types \<and>
    (\<exists>s. replacement_for_policy strptime t value level audience n = Inr s)"
proof (intro conjI)
  show "{t. action_for t level audience = Act_RETAIN} \<inter> set direct_types = {}"
    by (cases level) (auto simp: action_retain_iff retained_types_def type_lists)
  show "{t. action_for t SYNTHETIC_TWIN audience = Act_SYNTHESIZE} = - set visual_types"
    by (auto simp: action_for_def)
  show "\<exists>s. replacement_for_policy strptime t value level audience n = Inr s"
    by (rule replacement_total)
qed (use retained_types_antimono [OF assms] in
      \<open>auto simp: action_retain_iff action_remove_iff retained_types_def less_eq_privacy_level_def\<close>)

theorem policy_scope_monotone_witness:
  "action_for Ent_STREET_ADDRESS CONTEXT_GENERALIZATION INTERNAL_OPERATIONS \<noteq> Act_RETAIN"
proof -
  have "SENSITIVE_ENTITY_PROTECTION \<le> CONTEXT_GENERALIZATION" by (simp add: less_eq_privacy_level_def)
  from policy_scope_monotone [OF this, of INTERNAL_OPERATIONS]
  have "action_for Ent_STREET_ADDRESS CONTEXT_GENERALIZATION INTERNAL_OPERATIONS = Act_RETAIN \<Longrightarrow>
      action_for Ent_STREET_ADDRESS SENSITIVE_ENTITY_PROTECTION INTERNAL_OPERATIONS = Act_RETAIN" by blast
  moreover have "action_for Ent_STREET_ADDRESS SENSITIVE_ENTITY_PROTECTION INTERNAL_OPERATIONS = Act_PROTECT"
    by (simp add: action_for_def type_lists)
  ultimately show ?thesis by auto
qed

subsection \<open>What a replacement reveals\<close>

text \<open>Removal, tokens, aliases and synthetic markers do not depend on the value.\<close>

lemma opaque_replacement:
  assumes "action_for t level audience \<in> {Act_REMOVE, Act_PROTECT, Act_PSEUDONYMIZE, Act_SYNTHESIZE}"
  shows "replacement_for_policy strptime t value level audience n = replacement_for_policy strptime t other level audience n"
  using assms by (auto simp: replacement_for_policy_def)

text \<open>A generalised place, employer or position is one of a fixed list of texts.\<close>

lemma generalized_context_finite:
  "generalize_location value \<in> {''Bengaluru metropolitan area'', ''Mumbai metropolitan area'', ''Delhi metropolitan area'',
     ''Urban street area'', ''Regional urban area'', ''City-level location''}"
  "generalize_employer value \<in> {''Private analytics organisation'', ''Healthcare organisation'', ''Education institution'',
     ''Public-sector organisation'', ''Private-sector organisation''}"
  "generalize_job value \<in> {''Early-career professional'', ''Data and research professional'', ''Technical professional'',
     ''Management professional'', ''Professional role''}"
  by (simp_all add: generalize_location_def generalize_employer_def generalize_job_def Let_def)

text \<open>A generalised date depends on the five-year band of its year only, a generalised postcode on its first three digits.\<close>

lemma generalized_date_band:
  assumes "parse_year strptime a = Some y" and "parse_year strptime b = Some z" and "y div 5 = z div 5"
  shows "generalize_date strptime a = generalize_date strptime b"
proof -
  have "y - y mod 5 = z - z mod 5" using assms(3) by (metis minus_mod_eq_mult_div)
  with assms(1,2) show ?thesis by (simp add: generalize_date_def Let_def)
qed

lemma generalized_postcode_prefix:
  assumes "3 \<le> length (digits_of a)" and "3 \<le> length (digits_of b)" and "take 3 (digits_of a) = take 3 (digits_of b)"
  shows "generalized_text strptime Ent_POSTCODE a = generalized_text strptime Ent_POSTCODE b"
  using assms by (simp add: generalized_text_def)

lemma length_last_four: "length (last_four s) = min 4 (length s)"
  by (simp add: last_four_def)

text \<open>
  A masked number, other than an e-mail address, is determined by its type, its last four normalised characters and, for a
  telephone number, its length.
\<close>

lemma masked_number_suffix:
  assumes "t \<noteq> Ent_EMAIL" and "last_four (normalize_value t a) = last_four (normalize_value t b)"
    and "t = Ent_PHONE \<Longrightarrow> length (normalize_value t a) = length (normalize_value t b)"
    and "4 \<le> length (normalize_value t a)" and "4 \<le> length (normalize_value t b)"
  shows "replacement_for t a = replacement_for t b"
proof -
  have "normalize_value t a \<noteq> []" "normalize_value t b \<noteq> []" using assms(4,5) by auto
  then show ?thesis using assms by (cases t) (auto simp: replacement_for_def Let_def)
qed

subsection \<open>Tokens and aliases\<close>















subsection \<open>The ordinals of a job\<close>


lemma first_rows_subset: "set (first_rows seen rows) \<subseteq> set rows"
  by (induction seen rows rule: first_rows.induct) auto


lemma ordinal_map_mem:
  "(e, i) \<in> set (ordinal_map rows) \<longleftrightarrow>
     (\<exists>t \<in> er_entity_type ` set (first_rows [] rows). \<exists>p. i < length (grouped_rows rows t) \<and>
        sort (grouped_rows rows t) ! i = (p, e))"
proof -
  have mem: "(e, i) \<in> set (map (\<lambda>(i, p). (snd p, i)) (enumerate 0 ps)) \<longleftrightarrow> i < length ps \<and> (\<exists>p. ps ! i = (p, e))"
    for ps
  proof -
    have "(e, i) \<in> set (map (\<lambda>(i, p). (snd p, i)) (enumerate 0 ps)) \<longleftrightarrow> (\<exists>p. (i, p) \<in> set (enumerate 0 ps) \<and> snd p = e)"
      by force
    also have "\<dots> \<longleftrightarrow> i < length ps \<and> snd (ps ! i) = e" by (auto simp: in_set_enumerate_eq)
    also have "\<dots> \<longleftrightarrow> i < length ps \<and> (\<exists>p. ps ! i = (p, e))" by (cases "ps ! i") auto
    finally show ?thesis .
  qed
  show ?thesis by (simp add: ordinal_map_def mem [unfolded set_map])
qed

lemma grouped_rows_mem:
  "(p, e) \<in> set (grouped_rows rows t) \<longleftrightarrow>
     (\<exists>r \<in> set (first_rows [] rows). er_entity_type r = t \<and> er_placeholder r = p \<and> er_entity_id r = e)"
  by (auto simp: grouped_rows_def)



lemma ordinal_exists:
  assumes "r \<in> set (first_rows [] rows)"
  shows "\<exists>i. (er_entity_id r, i) \<in> set (ordinal_map rows)"
proof -
  let ?g = "grouped_rows rows (er_entity_type r)"
  have "(er_placeholder r, er_entity_id r) \<in> set (sort ?g)" using assms by (auto simp: grouped_rows_mem)
  then obtain i where "i < length (sort ?g)" "sort ?g ! i = (er_placeholder r, er_entity_id r)"
    unfolding in_set_conv_nth by blast
  then show ?thesis using assms by (auto simp: ordinal_map_mem)
qed




subsection \<open>The recommended level\<close>

lemma level_order:
  "DIRECT_MASKING \<le> l" "l \<le> SYNTHETIC_TWIN"
  by (cases l; simp add: less_eq_privacy_level_def)+

lemmas recommendation_steps = purpose_step_def entity_step_def risk_step_def audience_baseline_def

definition synthetic_objective :: "string \<Rightarrow> string \<Rightarrow> file_type \<Rightarrow> bool" where
  "synthetic_objective purpose recipient source \<longleftrightarrow>
     source = File_DATASET \<and> has_term (casefold (strip (purpose @ '' '' @ recipient))) synthetic_terms"

text \<open>The state between the steps: the floor is respected and the twin is reached exactly by the objective.\<close>

definition recommendation_ok :: "bool \<Rightarrow> privacy_level \<times> privacy_level \<times> string list \<Rightarrow> bool" where
  "recommendation_ok twin = (\<lambda>(recommended, minimum, _).
     minimum \<le> recommended \<and> (recommended = SYNTHETIC_TWIN \<longleftrightarrow> twin) \<and> (minimum = SYNTHETIC_TWIN \<longleftrightarrow> twin))"

lemma max_level_cases: "max a b = a \<or> max a b = (b :: privacy_level)"
  by (simp add: max_def)

lemma purpose_step_ok:
  "audience_baseline audience = (baseline, floor_level, because) \<Longrightarrow>
   recommendation_ok (twin_file \<and> has_term (casefold stated) synthetic_terms)
     (purpose_step stated twin_file (baseline, floor_level, [because]))"
  by (cases audience)
    (auto simp: audience_baseline_def purpose_step_def recommendation_ok_def Let_def less_eq_privacy_level_def max_def)

lemma entity_step_ok: "recommendation_ok twin s \<Longrightarrow> recommendation_ok twin (entity_step audience types s)"
  by (auto simp: entity_step_def recommendation_ok_def le_max_iff_disj max_def less_eq_privacy_level_def split: prod.splits if_splits)

lemma risk_step_ok: "recommendation_ok twin s \<Longrightarrow> recommendation_ok twin (risk_step audience risk s)"
  by (auto simp: risk_step_def recommendation_ok_def less_eq_privacy_level_def less_privacy_level_def split: prod.splits if_splits)

lemma risk_step_level:
  "fst (risk_step audience risk s) =
     (if 75 \<le> risk \<and> audience \<noteq> INTERNAL_OPERATIONS then max (fst s) RELATIONSHIP_SAFE_PSEUDONYMIZATION else fst s)"
  by (auto simp: risk_step_def max_def split: prod.splits)

lemma entity_step_level:
  "fst (entity_step audience types s) =
     (if set types \<inter> set high_risk_types \<noteq> {}
      then max (fst s) (if audience = INTERNAL_OPERATIONS then SENSITIVE_ENTITY_PROTECTION
                        else RELATIONSHIP_SAFE_PSEUDONYMIZATION) else fst s)"
  by (auto simp: entity_step_def list_ex_iff split: prod.splits)

lemma step_minimum [simp]:
  "fst (snd (risk_step audience risk s)) = fst (snd s)" "fst (snd (entity_step audience types s)) = fst (snd s)"
  by (simp_all add: risk_step_def entity_step_def split: prod.splits)

definition recommendation_state ::
    "string \<Rightarrow> string \<Rightarrow> audience_profile \<Rightarrow> file_type \<Rightarrow> int \<Rightarrow> entity_type list
      \<Rightarrow> privacy_level \<times> privacy_level \<times> string list" where
  "recommendation_state purpose recipient audience source risk types =
     (let (baseline, floor_level, because) = audience_baseline audience
      in risk_step audience risk (entity_step audience types
           (purpose_step (strip (purpose @ '' '' @ recipient)) (source = File_DATASET) (baseline, floor_level, [because]))))"

lemma recommendation_state_ok:
  "recommendation_ok (synthetic_objective purpose recipient source)
     (recommendation_state purpose recipient audience source risk types)"
  by (cases "audience_baseline audience")
    (simp add: recommendation_state_def synthetic_objective_def risk_step_ok entity_step_ok purpose_step_ok)

lemma recommend_privacy_level_state:
  "recommend_privacy_level purpose recipient audience source risk types =
     (case recommendation_state purpose recipient audience source risk types of (recommended, minimum, reasons) \<Rightarrow>
        \<lparr>rd_recommended_level =
           (if recommended = SYNTHETIC_TWIN \<and> source \<noteq> File_DATASET then RELATIONSHIP_SAFE_PSEUDONYMIZATION
            else recommended),
         rd_minimum_level = minimum, rd_reasons = first_occurrences reasons, rd_l5_supported = (source = File_DATASET)\<rparr>)"
  by (cases "audience_baseline audience") (simp add: recommend_privacy_level_def recommendation_state_def Let_def)

text \<open>The last guard of the function never fires: the twin is only reached for data files.\<close>

lemma recommend_levels:
  "rd_recommended_level (recommend_privacy_level purpose recipient audience source risk types) =
     fst (recommendation_state purpose recipient audience source risk types) \<and>
   rd_minimum_level (recommend_privacy_level purpose recipient audience source risk types) =
     fst (snd (recommendation_state purpose recipient audience source risk types))"
  using recommendation_state_ok [of purpose recipient source audience risk types]
  by (cases "recommendation_state purpose recipient audience source risk types")
    (auto simp: recommend_privacy_level_state recommendation_ok_def synthetic_objective_def)

lemma recommendation_state_mono:
  assumes "risk \<le> risk'" and "set types \<subseteq> set types'"
  shows "fst (recommendation_state purpose recipient audience source risk types)
      \<le> fst (recommendation_state purpose recipient audience source risk' types')"
proof -
  have steps: "fst (risk_step audience risk (entity_step audience types s))
      \<le> fst (risk_step audience risk' (entity_step audience types' s))" for s
  proof -
    have "fst (entity_step audience types s) \<le> fst (entity_step audience types' s)"
      using assms(2) by (auto simp: entity_step_level)
    then show ?thesis using assms(1) by (auto simp: risk_step_level le_max_iff_disj)
  qed
  then show ?thesis by (simp add: recommendation_state_def split: prod.splits)
qed

text \<open>
  the recommendation is never below its own floor, reaches the synthetic twin exactly for a data file whose stated
  objective is synthetic data, and for a public audience or a high-risk clue under an external audience is at least
  relationship-safe. More exposure or more kinds of clue never lower it and never change the floor.
\<close>

theorem recommendation_sound:
  fixes purpose recipient :: string and audience :: audience_profile and source :: file_type
  assumes "risk \<le> risk'" and "set types \<subseteq> set types'"
  defines "d \<equiv> recommend_privacy_level purpose recipient audience source risk types"
    and "d' \<equiv> recommend_privacy_level purpose recipient audience source risk' types'"
  shows "rd_minimum_level d \<le> rd_recommended_level d \<and>
    (rd_recommended_level d = SYNTHETIC_TWIN \<longleftrightarrow> synthetic_objective purpose recipient source) \<and>
    (rd_minimum_level d = SYNTHETIC_TWIN \<longleftrightarrow> synthetic_objective purpose recipient source) \<and>
    (audience = PUBLIC_RELEASE \<longrightarrow> RELATIONSHIP_SAFE_PSEUDONYMIZATION \<le> rd_recommended_level d) \<and>
    (audience = RESEARCH_PARTNER \<and> set types \<inter> set high_risk_types \<noteq> {}
      \<longrightarrow> RELATIONSHIP_SAFE_PSEUDONYMIZATION \<le> rd_recommended_level d) \<and>
    rd_recommended_level d \<le> rd_recommended_level d' \<and> rd_minimum_level d = rd_minimum_level d'"
proof -
  let ?s = "recommendation_state purpose recipient audience source risk types"
  have ok: "fst (snd ?s) \<le> fst ?s" "fst ?s = SYNTHETIC_TWIN \<longleftrightarrow> synthetic_objective purpose recipient source"
      "fst (snd ?s) = SYNTHETIC_TWIN \<longleftrightarrow> synthetic_objective purpose recipient source"
    using recommendation_state_ok [of purpose recipient source audience risk types]
    by (auto simp: recommendation_ok_def split: prod.splits)
  have public: "RELATIONSHIP_SAFE_PSEUDONYMIZATION \<le> fst (snd ?s)" if "audience = PUBLIC_RELEASE"
    using that by (simp add: recommendation_state_def audience_baseline_def purpose_step_def Let_def less_eq_privacy_level_def)
  have partner: "RELATIONSHIP_SAFE_PSEUDONYMIZATION \<le> fst ?s"
    if "audience = RESEARCH_PARTNER" and "set types \<inter> set high_risk_types \<noteq> {}"
    using that by (auto simp: recommendation_state_def audience_baseline_def risk_step_level entity_step_level le_max_iff_disj)
  have same: "fst (snd ?s) = fst (snd (recommendation_state purpose recipient audience source risk' types'))"
    by (simp add: recommendation_state_def split: prod.splits)
  show ?thesis
    using ok public partner same recommendation_state_mono [OF assms(1,2), of purpose recipient audience source]
    by (auto simp: d_def d'_def recommend_levels)
qed

theorem recommendation_sound_witness:
  "rd_recommended_level (recommend_privacy_level ''audit'' ''same team'' RESEARCH_PARTNER File_PDF 10 [])
     \<le> rd_recommended_level (recommend_privacy_level ''audit'' ''same team'' RESEARCH_PARTNER File_PDF 80 [Ent_FACE])"
  using recommendation_sound
    [where risk = 10 and risk' = 80 and types = "[]" and types' = "[Ent_FACE]" and purpose = "''audit''"
       and recipient = "''same team''" and audience = RESEARCH_PARTNER and source = File_PDF] by simp

end
