(* ===== verification/Identity_Graph.thy ===== *)
theory Identity_Graph
  imports Privacy_Facts
begin

section \<open>The identity exposure graph\<close>

text \<open>
  \<open>graph/exposure_graph.py\<close>: the entities of a file that were not ignored in review, the nodes, edges and high-risk paths
  that connect them to a subject, and the exposure scores before and after a privacy level. The rows of the database are
  records; the joining mentions of an entity are an association list. Weights times factors are rationals. The middle dot
  of a label is the code point 183.
\<close>

subsection \<open>Rows and graph elements\<close>

datatype review_status = Review_NOT_REQUIRED | Review_PENDING | Review_PROTECT | Review_IGNORE

record mention_row =
  mr_review_status :: review_status
  mr_context_label :: "string option"
  mr_page_index :: int

record identity_row =
  ir_id :: string
  ir_entity_type :: entity_type
  ir_placeholder :: string
  ir_sensitivity :: string

record exposure_job =
  jr_id :: string
  jr_audience_profile :: audience_profile

record file_row =
  fr_id :: string
  fr_original_filename :: string
  fr_file_type :: file_type
  fr_page_count :: nat

datatype identity_kind = Kind_DOCUMENT | Kind_SUBJECT | Kind_RELATED_PERSON | Kind_DIRECT_IDENTIFIER
  | Kind_QUASI_IDENTIFIER | Kind_VISUAL_IDENTIFIER

primrec identity_kind_value :: "identity_kind \<Rightarrow> string" where
  "identity_kind_value Kind_DOCUMENT = ''DOCUMENT''"
| "identity_kind_value Kind_SUBJECT = ''SUBJECT''"
| "identity_kind_value Kind_RELATED_PERSON = ''RELATED_PERSON''"
| "identity_kind_value Kind_DIRECT_IDENTIFIER = ''DIRECT_IDENTIFIER''"
| "identity_kind_value Kind_QUASI_IDENTIFIER = ''QUASI_IDENTIFIER''"
| "identity_kind_value Kind_VISUAL_IDENTIFIER = ''VISUAL_IDENTIFIER''"

datatype identity_relation = Rel_CONTAINS | Rel_IDENTIFIES | Rel_DESCRIBES | Rel_RELATED_TO | Rel_CO_OCCURS_WITH

primrec identity_relation_value :: "identity_relation \<Rightarrow> string" where
  "identity_relation_value Rel_CONTAINS = ''CONTAINS''"
| "identity_relation_value Rel_IDENTIFIES = ''IDENTIFIES''"
| "identity_relation_value Rel_DESCRIBES = ''DESCRIBES''"
| "identity_relation_value Rel_RELATED_TO = ''RELATED_TO''"
| "identity_relation_value Rel_CO_OCCURS_WITH = ''CO_OCCURS_WITH''"

record identity_node =
  in_id :: string
  in_kind :: identity_kind
  in_label :: string
  in_entity_id :: "string option"
  in_entity_type :: "entity_type option"
  in_sensitivity :: "string option"
  in_mention_count :: nat
  in_review_state :: string
  in_page_indexes :: "int list"

record identity_edge =
  ie_id :: string
  ie_source :: string
  ie_target :: string
  ie_edge_type :: identity_relation
  ie_weight :: int
  ie_explanation :: string

record risk_path =
  rp_node_ids :: "string list"
  rp_score :: int
  rp_reason :: string

record risk_report =
  rr_before :: int
  rr_after :: int
  rr_reduction :: int
  rr_utility_score :: int
  rr_band_before :: string
  rr_band_after :: string
  rr_breakdown_before :: "int \<times> int \<times> int \<times> int"
  rr_breakdown_after :: "int \<times> int \<times> int \<times> int"

record identity_graph =
  ig_job_id :: string
  ig_file_id :: string
  ig_policy :: json
  ig_nodes :: "identity_node list"
  ig_edges :: "identity_edge list"
  ig_high_risk_paths :: "risk_path list"
  ig_risk :: risk_report
  ig_graph_sha256 :: string

type_synonym active_entity = "identity_row \<times> mention_row list"

subsection \<open>Weights and labels\<close>

definition direct_weight :: "entity_type \<Rightarrow> int option" where
  "direct_weight t =
     (case t of
        Ent_PERSON_NAME \<Rightarrow> Some 22 | Ent_PHONE \<Rightarrow> Some 18 | Ent_EMAIL \<Rightarrow> Some 18 | Ent_AADHAAR_LIKE \<Rightarrow> Some 26
      | Ent_PAN_LIKE \<Rightarrow> Some 24 | Ent_CASE_REFERENCE \<Rightarrow> Some 17 | Ent_NATIONAL_ID \<Rightarrow> Some 26
      | Ent_PASSPORT_NUMBER \<Rightarrow> Some 25 | Ent_DRIVER_LICENSE_NUMBER \<Rightarrow> Some 23 | Ent_TAX_IDENTIFIER \<Rightarrow> Some 24
      | Ent_SOCIAL_IDENTIFIER \<Rightarrow> Some 25 | Ent_PAYMENT_CARD_NUMBER \<Rightarrow> Some 25 | _ \<Rightarrow> None)"

definition quasi_weight :: "entity_type \<Rightarrow> int option" where
  "quasi_weight t =
     (case t of
        Ent_DATE_OF_BIRTH \<Rightarrow> Some 17 | Ent_AGE \<Rightarrow> Some 8 | Ent_STREET_ADDRESS \<Rightarrow> Some 22 | Ent_LOCALITY \<Rightarrow> Some 11
      | Ent_POSTCODE \<Rightarrow> Some 16 | Ent_EMPLOYER \<Rightarrow> Some 13 | Ent_JOB_TITLE \<Rightarrow> Some 10 | Ent_PERSON_TITLE \<Rightarrow> Some 4
      | Ent_GENERIC_DATE \<Rightarrow> Some 8 | Ent_BUILDING_NUMBER \<Rightarrow> Some 9 | Ent_DEMOGRAPHIC_ATTRIBUTE \<Rightarrow> Some 7 | _ \<Rightarrow> None)"

definition visual_weight :: "entity_type \<Rightarrow> int option" where
  "visual_weight t =
     (case t of Ent_FACE \<Rightarrow> Some 24 | Ent_QR_CODE \<Rightarrow> Some 20 | Ent_SIGNATURE_CANDIDATE \<Rightarrow> Some 18 | _ \<Rightarrow> None)"

definition related_labels :: "string list" where
  "related_labels = [''mother'', ''father'', ''spouse'', ''guardian'', ''nominee'', ''witness'', ''emergency contact'']"

definition risk_band :: "int \<Rightarrow> string" where
  "risk_band score =
     (if 75 \<le> score then ''critical'' else if 50 \<le> score then ''high'' else if 25 \<le> score then ''moderate'' else ''low'')"

definition kind_of :: "entity_type \<Rightarrow> bool \<Rightarrow> identity_kind" where
  "kind_of t related =
     (if t = Ent_PERSON_NAME then (if related then Kind_RELATED_PERSON else Kind_SUBJECT)
      else if t \<in> set direct_types then Kind_DIRECT_IDENTIFIER
      else if t \<in> set quasi_types then Kind_QUASI_IDENTIFIER else Kind_VISUAL_IDENTIFIER)"

definition review_state :: "mention_row list \<Rightarrow> string" where
  "review_state mentions =
     (let statuses = set (map mr_review_status mentions)
      in if Review_PENDING \<in> statuses then ''pending''
         else if statuses = {Review_IGNORE} then ''ignored''
         else if Review_PROTECT \<in> statuses then ''reviewed-protect'' else ''automatic'')"

definition active_mentions :: "mention_row list \<Rightarrow> mention_row list" where
  "active_mentions mentions = filter (\<lambda>m. mr_review_status m \<noteq> Review_IGNORE) mentions"

definition relationship_name :: "string \<Rightarrow> string" where
  "relationship_name label =
     (case List.find (\<lambda>w. contains w (casefold label)) related_labels of
        Some w \<Rightarrow> (if w = ''emergency contact'' then ''emergency contact person'' else w)
      | None \<Rightarrow> ''related person'')"

text \<open>\<open>" ".join(str(item.get("context_label") or "") for item in mentions)\<close>.\<close>

definition joined_contexts :: "mention_row list \<Rightarrow> string" where
  "joined_contexts mentions =
     join '' '' (map (\<lambda>m. case mr_context_label m of Some s \<Rightarrow> s | None \<Rightarrow> []) mentions)"

definition names_relative :: "mention_row list \<Rightarrow> bool" where
  "names_relative mentions \<longleftrightarrow> has_term (casefold (joined_contexts mentions)) related_labels"

text \<open>The first of the sorted, stripped labels that are not empty before stripping.\<close>

definition context_text :: "mention_row list \<Rightarrow> string" where
  "context_text mentions =
     (case sorted_set (map strip (filter (\<lambda>s. s \<noteq> []) (List.map_filter mr_context_label mentions))) of
        [] \<Rightarrow> [] | c # _ \<Rightarrow> c)"

subsection \<open>Scores\<close>

definition weight_factor :: "privacy_level \<Rightarrow> audience_profile \<Rightarrow> bool \<Rightarrow> entity_type \<Rightarrow> rat" where
  "weight_factor level audience after t = (if after then residual_factor (action_for t level audience) else 1)"

definition direct_part :: "privacy_level \<Rightarrow> audience_profile \<Rightarrow> bool \<Rightarrow> entity_type \<Rightarrow> rat" where
  "direct_part level audience after t =
     (case direct_weight t of
        Some w \<Rightarrow> of_int w * weight_factor level audience after t
      | None \<Rightarrow> (case quasi_weight t of
          Some _ \<Rightarrow> 0
        | None \<Rightarrow> (case visual_weight t of Some w \<Rightarrow> of_int w * weight_factor level audience after t | None \<Rightarrow> 0)))"

definition quasi_part :: "privacy_level \<Rightarrow> audience_profile \<Rightarrow> bool \<Rightarrow> entity_type \<Rightarrow> rat" where
  "quasi_part level audience after t =
     (case direct_weight t of
        Some _ \<Rightarrow> 0
      | None \<Rightarrow> (case quasi_weight t of Some w \<Rightarrow> of_int w * weight_factor level audience after t | None \<Rightarrow> 0))"

definition relation_factor :: "privacy_level \<Rightarrow> audience_profile \<Rightarrow> bool \<Rightarrow> rat" where
  "relation_factor level audience after =
     (if after
      then (case action_for Ent_PERSON_NAME level audience of
              Act_SYNTHESIZE \<Rightarrow> 4 / 100 | Act_PSEUDONYMIZE \<Rightarrow> 12 / 100 | Act_PROTECT \<Rightarrow> 16 / 100 | Act_MASK \<Rightarrow> 18 / 100
            | _ \<Rightarrow> 1)
      else 1)"

definition score_combos :: "(entity_type list \<times> int) list" where
  "score_combos =
     [([Ent_DATE_OF_BIRTH, Ent_POSTCODE, Ent_EMPLOYER], 26), ([Ent_AGE, Ent_LOCALITY, Ent_JOB_TITLE], 18),
      ([Ent_PERSON_NAME, Ent_CASE_REFERENCE], 16), ([Ent_STREET_ADDRESS, Ent_EMPLOYER], 16)]"

definition combo_part ::
    "privacy_level \<Rightarrow> audience_profile \<Rightarrow> bool \<Rightarrow> entity_type set \<Rightarrow> entity_type list \<times> int \<Rightarrow> rat" where
  "combo_part level audience after types = (\<lambda>(required, weight).
     if set required \<subseteq> types
     then of_int weight *
       (if after then Max (set (map (\<lambda>t. residual_factor (action_for t level audience)) required)) else 1)
     else 0)"

definition component_scores ::
    "active_entity list \<Rightarrow> privacy_level \<Rightarrow> audience_profile \<Rightarrow> bool \<Rightarrow> int \<times> int \<times> int \<times> int" where
  "component_scores active level audience after =
     (let types = map (ir_entity_type \<circ> fst) active;
          direct_raw = sum_list (map (direct_part level audience after) types);
          quasi_raw = sum_list (map (quasi_part level audience after) types);
          related_people = length (filter (\<lambda>(row, mentions).
             ir_entity_type row = Ent_PERSON_NAME \<and> names_relative mentions) active);
          relationship_raw = of_nat related_people * 14 * relation_factor level audience after;
          combo_raw = sum_list (map (combo_part level audience after (set types)) score_combos)
      in (min 50 (round_half_even (direct_raw * (60 / 100))), min 34 (round_half_even (quasi_raw * (55 / 100))),
          min 14 (round_half_even relationship_raw), min 28 (round_half_even (combo_raw * (70 / 100)))))"

subsection \<open>Nodes, edges and paths\<close>

definition active_entities :: "identity_row list \<Rightarrow> (string \<times> mention_row list) list \<Rightarrow> active_entity list" where
  "active_entities entities mentions_by_entity =
     filter (\<lambda>(_, mentions). mentions \<noteq> [])
       (map (\<lambda>row. (row, active_mentions (case map_of mentions_by_entity (ir_id row) of Some ms \<Rightarrow> ms | None \<Rightarrow> [])))
         entities)"

definition primary_entity :: "bool \<Rightarrow> active_entity list \<Rightarrow> active_entity option" where
  "primary_entity is_dataset active =
     (if is_dataset then None
      else List.find (\<lambda>(row, mentions). \<not> names_relative mentions)
             (filter (\<lambda>(row, mentions). ir_entity_type row = Ent_PERSON_NAME) active))"

definition entity_node_id :: "identity_row \<Rightarrow> string" where
  "entity_node_id row = ''entity:'' @ ir_id row"

definition document_id_of :: "file_row \<Rightarrow> string" where
  "document_id_of f = ''document:'' @ fr_id f"

definition subject_id_of :: "bool \<Rightarrow> active_entity option \<Rightarrow> string" where
  "subject_id_of is_dataset primary =
     (if is_dataset then ''subject:dataset-records''
      else case primary of Some (row, _) \<Rightarrow> entity_node_id row | None \<Rightarrow> ''subject:reconstructable'')"

definition document_node :: "file_row \<Rightarrow> active_entity list \<Rightarrow> identity_node" where
  "document_node f active =
     \<lparr>in_id = document_id_of f, in_kind = Kind_DOCUMENT, in_label = fr_original_filename f, in_entity_id = None,
      in_entity_type = None, in_sensitivity = None, in_mention_count = sum_list (map (length \<circ> snd) active),
      in_review_state = ''source'', in_page_indexes = map int [0..<fr_page_count f]\<rparr>"

definition subject_nodes :: "bool \<Rightarrow> active_entity option \<Rightarrow> identity_node list" where
  "subject_nodes is_dataset primary =
     (if is_dataset \<or> primary = None
      then [\<lparr>in_id = subject_id_of is_dataset primary, in_kind = Kind_SUBJECT,
             in_label = (if is_dataset then ''Dataset record population'' else ''Reconstructable subject''),
             in_entity_id = None, in_entity_type = None, in_sensitivity = Some ''high'', in_mention_count = 0,
             in_review_state = ''inferred'', in_page_indexes = []\<rparr>]
      else [])"

definition subject_edge :: "bool \<Rightarrow> string \<Rightarrow> string \<Rightarrow> identity_edge" where
  "subject_edge is_dataset document_id subject_id =
     \<lparr>ie_id = ''edge:document-subject'', ie_source = document_id, ie_target = subject_id, ie_edge_type = Rel_CONTAINS,
      ie_weight = 10,
      ie_explanation = (if is_dataset then ''The dataset contains reconstructable records.''
                        else ''The document describes one reconstructable subject.'')\<rparr>"

definition is_related_person :: "bool \<Rightarrow> active_entity option \<Rightarrow> identity_row \<Rightarrow> bool" where
  "is_related_person is_dataset primary row \<longleftrightarrow>
     \<not> is_dataset \<and> ir_entity_type row = Ent_PERSON_NAME \<and>
     (case primary of None \<Rightarrow> True | Some (p, _) \<Rightarrow> ir_id row \<noteq> ir_id p)"

definition entity_node :: "bool \<Rightarrow> active_entity option \<Rightarrow> active_entity \<Rightarrow> identity_node" where
  "entity_node is_dataset primary = (\<lambda>(row, mentions).
     \<lparr>in_id = entity_node_id row,
      in_kind = (if is_dataset \<and> ir_entity_type row = Ent_PERSON_NAME then Kind_DIRECT_IDENTIFIER
                 else kind_of (ir_entity_type row) (is_related_person is_dataset primary row)),
      in_label = ir_placeholder row @
        (if context_text mentions \<noteq> [] then '' '' @ [CHR 0xB7] @ '' '' @ context_text mentions else []),
      in_entity_id = Some (ir_id row), in_entity_type = Some (ir_entity_type row),
      in_sensitivity = Some (ir_sensitivity row), in_mention_count = length mentions,
      in_review_state = review_state mentions, in_page_indexes = sorted_set (map mr_page_index mentions)\<rparr>)"

text \<open>\<open>_DIRECT_WEIGHTS.get(t, _VISUAL_WEIGHTS.get(t, _QUASI_WEIGHTS.get(t, 8)))\<close>.\<close>

definition clue_weight :: "entity_type \<Rightarrow> int" where
  "clue_weight t =
     (case direct_weight t of Some w \<Rightarrow> w
      | None \<Rightarrow> (case visual_weight t of Some w \<Rightarrow> w | None \<Rightarrow> (case quasi_weight t of Some w \<Rightarrow> w | None \<Rightarrow> 8)))"

definition identifies :: "entity_type \<Rightarrow> bool" where
  "identifies t \<longleftrightarrow> t \<in> set direct_types \<or> t \<in> set visual_types"

text \<open>\<open>str.title\<close>: a letter after a letter is lower case, every other letter upper case.\<close>

fun title_from :: "bool \<Rightarrow> string \<Rightarrow> string" where
  "title_from _ [] = []"
| "title_from after_letter (c # s) =
     (if is_lower c \<or> is_upper c
      then (if after_letter then to_lower c else to_upper c) # title_from True s
      else c # title_from False s)"

definition readable_type :: "entity_type \<Rightarrow> string" where
  "readable_type t = title_from False (map (\<lambda>c. if c = CHR ''_'' then CHR '' '' else c) (entity_type_value t))"

definition entity_edges :: "bool \<Rightarrow> active_entity option \<Rightarrow> string \<Rightarrow> active_entity \<Rightarrow> identity_edge list" where
  "entity_edges is_dataset primary document_id = (\<lambda>(row, mentions).
     let subject_id = subject_id_of is_dataset primary; node_id = entity_node_id row; t = ir_entity_type row
     in if node_id = subject_id then []
        else [\<lparr>ie_id = ''edge:document:'' @ ir_id row, ie_source = document_id, ie_target = node_id,
               ie_edge_type = Rel_CONTAINS, ie_weight = 4,
               ie_explanation = ''The entity is present in the source document.''\<rparr>,
              (if t = Ent_PERSON_NAME \<and> is_related_person is_dataset primary row
               then \<lparr>ie_id = ''edge:relationship:'' @ ir_id row, ie_source = subject_id, ie_target = node_id,
                     ie_edge_type = Rel_RELATED_TO, ie_weight = 14,
                     ie_explanation = ''The document links the subject to a '' @ relationship_name (context_text mentions)
                       @ ''.''\<rparr>
               else \<lparr>ie_id = ''edge:subject:'' @ ir_id row, ie_source = subject_id, ie_target = node_id,
                     ie_edge_type = (if identifies t then Rel_IDENTIFIES else Rel_DESCRIBES),
                     ie_weight = min 26 (clue_weight t),
                     ie_explanation = (if identifies t then ''This clue directly identifies or contacts the subject.''
                       else ''This clue narrows the population in which the subject can be reconstructed.'')\<rparr>)])"

definition entity_paths :: "bool \<Rightarrow> active_entity option \<Rightarrow> active_entity \<Rightarrow> risk_path list" where
  "entity_paths is_dataset primary = (\<lambda>(row, mentions).
     let subject_id = subject_id_of is_dataset primary; node_id = entity_node_id row; t = ir_entity_type row
     in if node_id = subject_id then []
        else if t = Ent_PERSON_NAME \<and> is_related_person is_dataset primary row
        then [\<lparr>rp_node_ids = [subject_id, node_id], rp_score = 14,
               rp_reason = ''A named '' @ relationship_name (context_text mentions) @
                 '' can expose the subject through relationship lookup.''\<rparr>]
        else if 17 \<le> clue_weight t
        then [\<lparr>rp_node_ids = [subject_id, node_id], rp_score = min 26 (clue_weight t),
               rp_reason = readable_type t @ '' is a high-impact identity clue.''\<rparr>]
        else [])"

definition combination_specs :: "(entity_type list \<times> int \<times> string) list" where
  "combination_specs =
     [([Ent_DATE_OF_BIRTH, Ent_POSTCODE, Ent_EMPLOYER], 26,
       ''Birth date, postcode and employer form a high-uniqueness combination.''),
      ([Ent_AGE, Ent_LOCALITY, Ent_JOB_TITLE], 18,
       ''Age, locality and job title can reconstruct a person without a direct identifier.''),
      ([Ent_STREET_ADDRESS, Ent_EMPLOYER], 16, ''Exact address plus employer sharply narrows identity.'')]"

text \<open>\<open>type_to_node\<close>: the first node of a type.\<close>

definition type_node :: "active_entity list \<Rightarrow> entity_type \<Rightarrow> string option" where
  "type_node active t = map_option (entity_node_id \<circ> fst) (List.find (\<lambda>(row, _). ir_entity_type row = t) active)"

text \<open>\<open>page_types\<close>: the types that occur on a page (a record, for a data file).\<close>

definition types_on_page :: "active_entity list \<Rightarrow> int \<Rightarrow> entity_type set" where
  "types_on_page active page =
     {t \<in> set (map (ir_entity_type \<circ> fst) active).
        list_ex (\<lambda>(row, mentions). ir_entity_type row = t \<and> list_ex (\<lambda>m. mr_page_index m = page) mentions) active}"

definition combination_present :: "bool \<Rightarrow> active_entity list \<Rightarrow> entity_type list \<Rightarrow> bool" where
  "combination_present is_dataset active required \<longleftrightarrow>
     list_all (\<lambda>t. type_node active t \<noteq> None) required \<and>
     (is_dataset \<longrightarrow> list_ex (\<lambda>page. set required \<subseteq> types_on_page active page)
        (concat (map (map mr_page_index \<circ> snd) active)))"

definition combination_reason :: "bool \<Rightarrow> string \<Rightarrow> string" where
  "combination_reason is_dataset reason =
     (if is_dataset then ''Same-record cross-column linkage: '' @ reason else reason)"

definition node_of :: "active_entity list \<Rightarrow> entity_type \<Rightarrow> string" where
  "node_of active t = the (type_node active t)"

definition combination_paths ::
    "bool \<Rightarrow> active_entity list \<Rightarrow> string \<Rightarrow> entity_type list \<times> int \<times> string \<Rightarrow> risk_path list" where
  "combination_paths is_dataset active subject_id = (\<lambda>(required, score, reason).
     if combination_present is_dataset active required
     then [\<lparr>rp_node_ids = subject_id # map (node_of active) required, rp_score = score,
            rp_reason = combination_reason is_dataset reason\<rparr>]
     else [])"

definition combination_edges :: "bool \<Rightarrow> active_entity list \<Rightarrow> entity_type list \<times> int \<times> string \<Rightarrow> identity_edge list" where
  "combination_edges is_dataset active = (\<lambda>(required, score, reason).
     if combination_present is_dataset active required
     then map (\<lambda>(left, right).
            \<lparr>ie_id = ''edge:co:'' @ entity_type_value left @ '':'' @ entity_type_value right,
             ie_source = node_of active left, ie_target = node_of active right, ie_edge_type = Rel_CO_OCCURS_WITH,
             ie_weight = score, ie_explanation = combination_reason is_dataset reason\<rparr>)
          (zip required (tl required))
     else [])"

subsection \<open>The report and the graph\<close>

definition parts_total :: "int \<times> int \<times> int \<times> int \<Rightarrow> int" where
  "parts_total = (\<lambda>(direct, quasi, relationship, combination). direct + quasi + relationship + combination)"

definition risk_of :: "active_entity list \<Rightarrow> privacy_level \<Rightarrow> audience_profile \<Rightarrow> risk_report" where
  "risk_of active level audience =
     (let before_parts = component_scores active level audience False;
          after_parts = component_scores active level audience True;
          total_before = min 100 (parts_total before_parts);
          after = min 100 (parts_total after_parts);
          total_loss = sum_list (map (\<lambda>(row, _).
            utility_loss (action_for (ir_entity_type row) level audience) (ir_entity_type row)) active)
      in \<lparr>rr_before = total_before, rr_after = after, rr_reduction = max 0 (total_before - after),
          rr_utility_score = max 45 (100 - min 55 total_loss), rr_band_before = risk_band total_before,
          rr_band_after = risk_band after, rr_breakdown_before = before_parts, rr_breakdown_after = after_parts\<rparr>)"

definition json_option :: "('a \<Rightarrow> json) \<Rightarrow> 'a option \<Rightarrow> json" where
  "json_option f v = (case v of Some x \<Rightarrow> f x | None \<Rightarrow> JNull)"

definition identity_node_json :: "identity_node \<Rightarrow> json" where
  "identity_node_json v =
     JObj [(''id'', JStr (in_id v)), (''kind'', JStr (identity_kind_value (in_kind v))), (''label'', JStr (in_label v)),
           (''entity_id'', json_option JStr (in_entity_id v)),
           (''entity_type'', json_option (JStr \<circ> entity_type_value) (in_entity_type v)),
           (''sensitivity'', json_option JStr (in_sensitivity v)),
           (''mention_count'', JInt (int (in_mention_count v))), (''review_state'', JStr (in_review_state v)),
           (''page_indexes'', JArr (map JInt (in_page_indexes v)))]"

definition identity_edge_json :: "identity_edge \<Rightarrow> json" where
  "identity_edge_json e =
     JObj [(''id'', JStr (ie_id e)), (''source'', JStr (ie_source e)), (''target'', JStr (ie_target e)),
           (''edge_type'', JStr (identity_relation_value (ie_edge_type e))), (''weight'', JInt (ie_weight e)),
           (''explanation'', JStr (ie_explanation e))]"

definition risk_path_json :: "risk_path \<Rightarrow> json" where
  "risk_path_json p =
     JObj [(''node_ids'', JArr (map JStr (rp_node_ids p))), (''score'', JInt (rp_score p)), (''reason'', JStr (rp_reason p))]"

definition breakdown_json :: "int \<times> int \<times> int \<times> int \<Rightarrow> json" where
  "breakdown_json = (\<lambda>(direct, quasi, relationship, combination).
     JObj [(''direct'', JInt direct), (''quasi_identifier'', JInt quasi), (''relationship'', JInt relationship),
           (''combination_bonus'', JInt combination)])"

definition risk_json :: "risk_report \<Rightarrow> json" where
  "risk_json r =
     JObj [(''before'', JInt (rr_before r)), (''after'', JInt (rr_after r)), (''reduction'', JInt (rr_reduction r)),
           (''utility_score'', JInt (rr_utility_score r)), (''band_before'', JStr (rr_band_before r)),
           (''band_after'', JStr (rr_band_after r)), (''breakdown_before'', breakdown_json (rr_breakdown_before r)),
           (''breakdown_after'', breakdown_json (rr_breakdown_after r)),
           (''disclaimer'', JStr ''VeilGraph Residual Exposure Score is a calibrated product risk indicator, not a legal guarantee of anonymity.'')]"

definition identity_graph_json :: "identity_graph \<Rightarrow> json" where
  "identity_graph_json g =
     JObj [(''job_id'', JStr (ig_job_id g)), (''file_id'', JStr (ig_file_id g)), (''graph_version'', JStr ''ieg-0.3''),
           (''policy'', ig_policy g), (''nodes'', JArr (map identity_node_json (ig_nodes g))),
           (''edges'', JArr (map identity_edge_json (ig_edges g))),
           (''high_risk_paths'', JArr (map risk_path_json (ig_high_risk_paths g))), (''risk'', risk_json (ig_risk g))]"

definition all_paths :: "bool \<Rightarrow> active_entity list \<Rightarrow> risk_path list" where
  "all_paths is_dataset active =
     (let primary = primary_entity is_dataset active
      in concat (map (entity_paths is_dataset primary) active) @
         concat (map (combination_paths is_dataset active (subject_id_of is_dataset primary)) combination_specs))"

definition build_exposure_graph ::
    "runtime \<Rightarrow> exposure_job \<Rightarrow> file_row \<Rightarrow> identity_row list \<Rightarrow> (string \<times> mention_row list) list \<Rightarrow> privacy_level
      \<Rightarrow> identity_graph" where
  "build_exposure_graph rt job f entities mentions_by_entity level =
     (let audience = jr_audience_profile job;
          is_dataset = (fr_file_type f = File_DATASET);
          active = active_entities entities mentions_by_entity;
          primary = primary_entity is_dataset active;
          subject_id = subject_id_of is_dataset primary;
          document_id = document_id_of f;
          g = \<lparr>ig_job_id = jr_id job, ig_file_id = fr_id f,
               ig_policy = policy_descriptor audience level (map (ir_entity_type \<circ> fst) active),
               ig_nodes = document_node f active # subject_nodes is_dataset primary @
                 map (entity_node is_dataset primary) active,
               ig_edges = subject_edge is_dataset document_id subject_id #
                 concat (map (entity_edges is_dataset primary document_id) active) @
                 concat (map (combination_edges is_dataset active) combination_specs),
               ig_high_risk_paths = take 8 (sort_key (\<lambda>p. - rp_score p) (all_paths is_dataset active)),
               ig_risk = risk_of active level audience, ig_graph_sha256 = []\<rparr>
      in g\<lparr>ig_graph_sha256 := sha256_json rt (identity_graph_json g)\<rparr>)"

end
