(* ===== verification/Identity_Facts.thy ===== *)
theory Identity_Facts
  imports Identity_Graph
begin

section \<open>What the identity exposure graph guarantees\<close>

text \<open>
  The scores stay in their bounds and no level raises the exposure of a file; the graph has unique nodes and edges, no edge
  or path leaves it, and it shows exactly the entities the review did not ignore.
\<close>

subsection \<open>Scores\<close>

lemma residual_factor_bounds: "0 \<le> residual_factor a \<and> residual_factor a \<le> 1"
  by (cases a) (simp_all add: residual_factor_def)

lemma weight_factor_bounds:
  "0 \<le> weight_factor level audience b t" "weight_factor level audience True t \<le> weight_factor level audience False t"
  using residual_factor_bounds by (simp_all add: weight_factor_def)

lemma relation_factor_bounds:
  "0 \<le> relation_factor level audience b" "relation_factor level audience True \<le> relation_factor level audience False"
  by (simp_all add: relation_factor_def split: protection.split)

lemma weights_nonneg:
  "direct_weight t = Some w \<Longrightarrow> 0 \<le> w" "quasi_weight t = Some w \<Longrightarrow> 0 \<le> w" "visual_weight t = Some w \<Longrightarrow> 0 \<le> w"
  by (auto simp: direct_weight_def quasi_weight_def visual_weight_def split: entity_type.splits)

text \<open>A part of the raw score is a weight times a factor, so it is monotone in the factor.\<close>

lemma parts_bounds:
  "0 \<le> direct_part level audience b t" "direct_part level audience True t \<le> direct_part level audience False t"
  "0 \<le> quasi_part level audience b t" "quasi_part level audience True t \<le> quasi_part level audience False t"
  using weight_factor_bounds weights_nonneg
  by (auto simp: direct_part_def quasi_part_def split: option.split intro!: mult_left_mono)

lemma combo_weight_nonneg: "(required, w) \<in> set score_combos \<Longrightarrow> 0 \<le> w \<and> required \<noteq> []"
  by (auto simp: score_combos_def)

lemma combo_part_bounds:
  assumes "c \<in> set score_combos"
  shows "0 \<le> combo_part level audience b types c" "combo_part level audience True types c \<le> combo_part level audience False types c"
proof -
  obtain required w where c: "c = (required, w)" by fastforce
  let ?M = "Max (set (map (\<lambda>t. residual_factor (action_for t level audience)) required))"
  have nn: "0 \<le> w" "required \<noteq> []" using combo_weight_nonneg assms c by auto
  have "?M \<in> set (map (\<lambda>t. residual_factor (action_for t level audience)) required)" using nn(2) by (intro Max_in) auto
  then obtain a where "?M = residual_factor a" by auto
  then have M: "0 \<le> ?M \<and> ?M \<le> 1" using residual_factor_bounds [of a] by simp
  show "0 \<le> combo_part level audience b types c" using nn M by (simp add: combo_part_def c)
  show "combo_part level audience True types c \<le> combo_part level audience False types c"
    using nn M by (simp add: combo_part_def c mult_left_le)
qed

lemma sum_list_bounds:
  fixes f g :: "'a \<Rightarrow> rat"
  assumes "\<And>x. x \<in> set xs \<Longrightarrow> 0 \<le> f x \<and> f x \<le> g x"
  shows "0 \<le> sum_list (map f xs) \<and> sum_list (map f xs) \<le> sum_list (map g xs)"
  by (intro conjI sum_list_nonneg sum_list_mono) (use assms in auto)

text \<open>Rounding and capping keep the order.\<close>

lemma capped_bounds:
  assumes "0 \<le> p \<and> p \<le> (q :: rat)" and "0 \<le> k" and "0 \<le> (cap :: int)"
  shows "0 \<le> min cap (round_half_even (p * k)) \<and>
    min cap (round_half_even (p * k)) \<le> min cap (round_half_even (q * k)) \<and> min cap (round_half_even (q * k)) \<le> cap"
proof -
  have "0 \<le> p * k" "p * k \<le> q * k" using assms(1,2) by (simp_all add: mult_right_mono)
  then have "round_half_even (of_int 0) \<le> round_half_even (p * k)" "round_half_even (p * k) \<le> round_half_even (q * k)"
    by (intro round_half_even_mono; simp)+
  then show ?thesis using assms(3) unfolding round_half_even_of_int by auto
qed

lemma component_scores_bounds:
  assumes "component_scores active level audience True = (d, q, r, c)"
    and "component_scores active level audience False = (d', q', r', c')"
  shows "0 \<le> d \<and> d \<le> d' \<and> d' \<le> 50" "0 \<le> q \<and> q \<le> q' \<and> q' \<le> 34"
    "0 \<le> r \<and> r \<le> r' \<and> r' \<le> 14" "0 \<le> c \<and> c \<le> c' \<and> c' \<le> 28"
proof -
  let ?types = "map (ir_entity_type \<circ> fst) active"
  let ?related = "of_nat (length (filter (\<lambda>(row, mentions). ir_entity_type row = Ent_PERSON_NAME \<and> names_relative mentions)
    active)) * 14 :: rat"
  have "0 \<le> ?related * relation_factor level audience True \<and>
      ?related * relation_factor level audience True \<le> ?related * relation_factor level audience False"
    using relation_factor_bounds [of level audience] by (intro conjI mult_nonneg_nonneg mult_left_mono) simp_all
  note r = capped_bounds [OF this, of 1 14]
  note d = capped_bounds [OF sum_list_bounds [of ?types "direct_part level audience True" "direct_part level audience False"],
    of "60 / 100" 50]
  note q = capped_bounds [OF sum_list_bounds [of ?types "quasi_part level audience True" "quasi_part level audience False"],
    of "55 / 100" 34]
  note c = capped_bounds [OF sum_list_bounds [of score_combos "combo_part level audience True (set ?types)"
      "combo_part level audience False (set ?types)"], of "70 / 100" 28]
  show "0 \<le> d \<and> d \<le> d' \<and> d' \<le> 50" "0 \<le> q \<and> q \<le> q' \<and> q' \<le> 34" "0 \<le> r \<and> r \<le> r' \<and> r' \<le> 14" "0 \<le> c \<and> c \<le> c' \<and> c' \<le> 28"
    using assms d q r c parts_bounds [of level audience] combo_part_bounds [of _ level audience]
    by (simp_all add: component_scores_def Let_def)
qed

lemma utility_loss_nonneg: "0 \<le> utility_loss a t"
  by (cases a) (simp_all add: utility_loss_def)

text \<open>
  C31: a privacy level never raises the exposure of a file. Every component of the score after the transformation is at least
  zero and at most the component before it, the totals lie between 0 and 100, the reported reduction is their difference,
  and the utility score lies between 45 and 100.
\<close>

theorem exposure_scores_sound:
  "rr_reduction (risk_of active level audience) = rr_before (risk_of active level audience) - rr_after (risk_of active level audience) \<and>
   0 \<le> rr_after (risk_of active level audience) \<and>
   rr_after (risk_of active level audience) \<le> rr_before (risk_of active level audience) \<and>
   rr_before (risk_of active level audience) \<le> 100 \<and>
   45 \<le> rr_utility_score (risk_of active level audience) \<and> rr_utility_score (risk_of active level audience) \<le> 100 \<and>
   (case (component_scores active level audience True, component_scores active level audience False) of
      ((d, q, r, c), (d', q', r', c')) \<Rightarrow>
        0 \<le> d \<and> d \<le> d' \<and> d' \<le> 50 \<and> 0 \<le> q \<and> q \<le> q' \<and> q' \<le> 34 \<and> 0 \<le> r \<and> r \<le> r' \<and> r' \<le> 14 \<and> 0 \<le> c \<and> c \<le> c' \<and> c' \<le> 28)"
proof -
  obtain d q r c where a: "component_scores active level audience True = (d, q, r, c)" by (metis prod_cases4)
  obtain d' q' r' c' where b: "component_scores active level audience False = (d', q', r', c')" by (metis prod_cases4)
  have "0 \<le> sum_list (map (\<lambda>(row, _). utility_loss (action_for (ir_entity_type row) level audience) (ir_entity_type row)) active)"
    by (rule sum_list_nonneg) (auto simp: utility_loss_nonneg)
  then show ?thesis using component_scores_bounds [OF a b] by (auto simp: risk_of_def Let_def parts_total_def a b min_def max_def)
qed

text \<open>
  The residual factor of one clue is not monotone in the level: the token of the second level leaves less of a telephone
  number than the mask of the third.
\<close>

lemma residual_not_monotone:
  "residual_factor (action_for Ent_PHONE SENSITIVE_ENTITY_PROTECTION audience)
     < residual_factor (action_for Ent_PHONE CONTEXT_GENERALIZATION audience)"
  by (simp add: action_for_def residual_factor_def type_lists)

subsection \<open>Nodes\<close>

definition rows_of :: "active_entity list \<Rightarrow> identity_row list" where
  "rows_of active = map fst active"

lemma active_entities_mem:
  "(row, ms) \<in> set (active_entities entities mentions) \<longleftrightarrow>
     row \<in> set entities \<and> ms = active_mentions (case map_of mentions (ir_id row) of Some ms \<Rightarrow> ms | None \<Rightarrow> []) \<and> ms \<noteq> []"
  by (auto simp: active_entities_def)

lemma active_entities_distinct:
  assumes "distinct (map ir_id entities)"
  shows "distinct (map (ir_id \<circ> fst) (active_entities entities mentions))"
  using assms by (induction entities) (auto simp: active_entities_def)

lemma primary_entity_mem: "primary_entity is_dataset active = Some a \<Longrightarrow> a \<in> set active \<and> \<not> is_dataset"
  by (auto simp: primary_entity_def find_Some_iff split: if_splits dest!: nth_mem)

lemma entity_node_id_inj: "entity_node_id row = entity_node_id row' \<longleftrightarrow> ir_id row = ir_id row'"
  by (simp add: entity_node_id_def)

lemma entity_node_id_fresh [simp]:
  "entity_node_id row \<noteq> document_id_of f" "document_id_of f \<noteq> entity_node_id row"
  "entity_node_id row \<noteq> ''subject:dataset-records''" "''subject:dataset-records'' \<noteq> entity_node_id row"
  "entity_node_id row \<noteq> ''subject:reconstructable''" "''subject:reconstructable'' \<noteq> entity_node_id row"
  "document_id_of f \<noteq> ''subject:dataset-records''" "''subject:dataset-records'' \<noteq> document_id_of f"
  "document_id_of f \<noteq> ''subject:reconstructable''" "''subject:reconstructable'' \<noteq> document_id_of f"
  by (simp_all add: entity_node_id_def document_id_of_def)

definition node_ids :: "bool \<Rightarrow> file_row \<Rightarrow> active_entity list \<Rightarrow> string list" where
  "node_ids is_dataset f active =
     (let primary = primary_entity is_dataset active
      in document_id_of f #
         (if is_dataset \<or> primary = None then [subject_id_of is_dataset primary] else []) @
         map (entity_node_id \<circ> fst) active)"

lemma node_ids_graph:
  "map in_id (ig_nodes (build_exposure_graph rt job f entities mentions level)) =
     node_ids (fr_file_type f = File_DATASET) f (active_entities entities mentions)"
  by (auto simp: build_exposure_graph_def Let_def node_ids_def document_node_def subject_nodes_def entity_node_def)

lemma subject_id_cases:
  "subject_id_of is_dataset primary \<in> {''subject:dataset-records'', ''subject:reconstructable''} \<union>
     (case primary of Some (row, _) \<Rightarrow> {entity_node_id row} | None \<Rightarrow> {})"
  by (auto simp: subject_id_of_def split: option.split)

lemma node_ids_distinct:
  assumes "distinct (map (ir_id \<circ> fst) active)"
  shows "distinct (node_ids is_dataset f active)"
proof -
  have "distinct (map (entity_node_id \<circ> fst) active)"
    using assms by (auto simp: distinct_map inj_on_def entity_node_id_inj)
  then show ?thesis by (auto simp: node_ids_def Let_def subject_id_of_def split: option.split)
qed

lemma subject_in_node_ids:
  "subject_id_of is_dataset (primary_entity is_dataset active) \<in> set (node_ids is_dataset f active)"
proof (cases "primary_entity is_dataset active")
  case (Some a)
  with primary_entity_mem [OF Some] have "a \<in> set active" "\<not> is_dataset" by auto
  with Some show ?thesis by (auto simp: node_ids_def subject_id_of_def image_iff split: prod.splits intro!: bexI [of _ a])
qed (simp add: node_ids_def Let_def)

lemma entity_in_node_ids: "(row, ms) \<in> set active \<Longrightarrow> entity_node_id row \<in> set (node_ids is_dataset f active)"
  by (force simp: node_ids_def Let_def)

lemma document_in_node_ids: "document_id_of f \<in> set (node_ids is_dataset f active)"
  by (simp add: node_ids_def Let_def)

lemma type_node_Some: "type_node active t = Some i \<Longrightarrow> \<exists>(row, ms) \<in> set active. i = entity_node_id row \<and> ir_entity_type row = t"
  by (fastforce simp: type_node_def find_Some_iff dest: nth_mem)

lemma type_node_present: "type_node active t \<noteq> None \<longleftrightarrow> t \<in> set (map (ir_entity_type \<circ> fst) active)"
  by (auto simp: type_node_def find_None_iff intro!: rev_image_eqI)

lemma combination_node:
  assumes "combination_present is_dataset active required" and "t \<in> set required"
  shows "node_of active t \<in> set (node_ids is_dataset f active)"
proof -
  from assms obtain i where i: "type_node active t = Some i" by (auto simp: combination_present_def list_all_iff)
  with type_node_Some [OF i] show ?thesis by (auto simp: node_of_def entity_in_node_ids)
qed

subsection \<open>Edges and paths\<close>

lemma entity_edges_ends:
  assumes "e \<in> set (entity_edges is_dataset primary document_id a)"
  shows "ie_source e \<in> {document_id, subject_id_of is_dataset primary}" "ie_target e = entity_node_id (fst a)"
  using assms by (auto simp: entity_edges_def Let_def split: prod.splits if_splits)

lemma combination_edges_ends:
  assumes "e \<in> set (combination_edges is_dataset active (required, score, reason))"
  shows "combination_present is_dataset active required \<and>
    (\<exists>l \<in> set required. \<exists>r \<in> set required. ie_source e = node_of active l \<and> ie_target e = node_of active r)"
proof -
  from assms obtain l r where "combination_present is_dataset active required" "(l, r) \<in> set (zip required (tl required))"
      "ie_source e = node_of active l" "ie_target e = node_of active r"
    by (auto simp: combination_edges_def split: if_splits)
  moreover from this(2) have "l \<in> set required" "r \<in> set required"
    by (cases required, auto dest: set_zip_leftD set_zip_rightD)+
  ultimately show ?thesis by blast
qed

lemma entity_edge_ids:
  "map ie_id (entity_edges is_dataset primary document_id (row, ms)) \<in>
     {[], [''edge:document:'' @ ir_id row, ''edge:relationship:'' @ ir_id row],
      [''edge:document:'' @ ir_id row, ''edge:subject:'' @ ir_id row]}"
  by (simp add: entity_edges_def Let_def)

definition entity_edge_id_set :: "string \<Rightarrow> string set" where
  "entity_edge_id_set i = {''edge:document:'' @ i, ''edge:relationship:'' @ i, ''edge:subject:'' @ i}"

lemma entity_edge_id_set_disjoint: "i \<noteq> j \<Longrightarrow> entity_edge_id_set i \<inter> entity_edge_id_set j = {}"
  by (auto simp: entity_edge_id_set_def)

lemma entity_edge_ids_sub:
  "ie_id ` set (entity_edges is_dataset primary document_id a) \<subseteq> entity_edge_id_set (ir_id (fst a)) \<and>
   distinct (map ie_id (entity_edges is_dataset primary document_id a))"
proof -
  obtain row ms where a: "a = (row, ms)" by fastforce
  show ?thesis using entity_edge_ids [of is_dataset primary document_id row ms]
    by (auto simp: a entity_edge_id_set_def simp flip: set_map)
qed

lemma distinct_append_disjoint:
  assumes "distinct (map f xs)" and "distinct (map f ys)" and "f ` set xs \<subseteq> A" and "f ` set ys \<subseteq> B" and "A \<inter> B = {}"
  shows "distinct (map f (xs @ ys)) \<and> f ` set (xs @ ys) \<subseteq> A \<union> B"
  using assms by (auto 4 3)

lemma entity_edge_ids_distinct:
  assumes "distinct (map (ir_id \<circ> fst) active)"
  shows "distinct (map ie_id (concat (map (entity_edges is_dataset primary document_id) active))) \<and>
    ie_id ` set (concat (map (entity_edges is_dataset primary document_id) active))
      \<subseteq> (\<Union>a \<in> set active. entity_edge_id_set (ir_id (fst a)))"
  using assms
proof (induction active)
  case (Cons a active)
  have "entity_edge_id_set (ir_id (fst a)) \<inter> entity_edge_id_set (ir_id (fst b)) = {}" if "b \<in> set active" for b
    using Cons.prems that by (intro entity_edge_id_set_disjoint) force
  then have "entity_edge_id_set (ir_id (fst a)) \<inter> (\<Union>b \<in> set active. entity_edge_id_set (ir_id (fst b))) = {}" by blast
  then have "distinct (map ie_id (entity_edges is_dataset primary document_id a @
        concat (map (entity_edges is_dataset primary document_id) active))) \<and>
      ie_id ` set (entity_edges is_dataset primary document_id a @
        concat (map (entity_edges is_dataset primary document_id) active))
      \<subseteq> entity_edge_id_set (ir_id (fst a)) \<union> (\<Union>b \<in> set active. entity_edge_id_set (ir_id (fst b)))"
    using Cons entity_edge_ids_sub by (intro distinct_append_disjoint) simp_all
  then show ?case by (simp only: list.map concat.simps list.set UN_insert)
qed simp

lemma combination_edge_ids_of:
  "map ie_id (combination_edges is_dataset active (required, score, reason)) =
     (if combination_present is_dataset active required
      then map (\<lambda>(left, right). ''edge:co:'' @ entity_type_value left @ '':'' @ entity_type_value right)
             (zip required (tl required)) else [])"
  by (simp add: combination_edges_def comp_def case_prod_unfold)

lemma combination_edge_ids:
  "distinct (map ie_id (concat (map (combination_edges is_dataset active) combination_specs)))"
  by (auto simp: map_concat combination_edge_ids_of combination_specs_def comp_def)

lemma combination_edge_id_prefix:
  "x \<in> ie_id ` set (concat (map (combination_edges is_dataset active) specs)) \<Longrightarrow> take 8 x = ''edge:co:''"
  by (auto simp: combination_edges_def split: if_splits)

lemma entity_paths_nodes:
  "p \<in> set (entity_paths is_dataset primary a) \<Longrightarrow>
   set (rp_node_ids p) = {subject_id_of is_dataset primary, entity_node_id (fst a)}"
  by (auto simp: entity_paths_def Let_def split: prod.splits if_splits)

lemma combination_paths_nodes:
  assumes "p \<in> set (combination_paths is_dataset active subject_id c)"
  shows "combination_present is_dataset active (fst c) \<and>
    set (rp_node_ids p) = insert subject_id (node_of active ` set (fst c))"
  using assms by (auto simp: combination_paths_def split: prod.splits if_splits)

lemma all_paths_nodes:
  assumes "p \<in> set (all_paths is_dataset active)"
  shows "set (rp_node_ids p) \<subseteq> set (node_ids is_dataset f active)"
proof -
  let ?primary = "primary_entity is_dataset active"
  from assms consider a where "a \<in> set active" "p \<in> set (entity_paths is_dataset ?primary a)"
    | c where "p \<in> set (combination_paths is_dataset active (subject_id_of is_dataset ?primary) c)"
    unfolding all_paths_def Let_def by auto
  then show ?thesis
  proof cases
    case 1
    then show ?thesis using entity_in_node_ids [of "fst a" "snd a"] by (simp add: entity_paths_nodes subject_in_node_ids)
  next
    case 2
    from combination_paths_nodes [OF this] show ?thesis by (auto simp: subject_in_node_ids combination_node)
  qed
qed

definition graph_edges :: "bool \<Rightarrow> file_row \<Rightarrow> active_entity list \<Rightarrow> identity_edge list" where
  "graph_edges is_dataset f active =
     (let primary = primary_entity is_dataset active
      in subject_edge is_dataset (document_id_of f) (subject_id_of is_dataset primary) #
         concat (map (entity_edges is_dataset primary (document_id_of f)) active) @
         concat (map (combination_edges is_dataset active) combination_specs))"

lemma graph_parts:
  "ig_edges (build_exposure_graph rt job f entities mentions level) =
      graph_edges (fr_file_type f = File_DATASET) f (active_entities entities mentions)"
    "ig_high_risk_paths (build_exposure_graph rt job f entities mentions level) =
      take 8 (sort_key (\<lambda>p. - rp_score p) (all_paths (fr_file_type f = File_DATASET) (active_entities entities mentions)))"
  by (simp_all add: build_exposure_graph_def graph_edges_def Let_def)

lemma graph_edges_ends:
  assumes "e \<in> set (graph_edges is_dataset f active)"
  shows "ie_source e \<in> set (node_ids is_dataset f active) \<and> ie_target e \<in> set (node_ids is_dataset f active)"
proof -
  let ?primary = "primary_entity is_dataset active"
  from assms consider "e = subject_edge is_dataset (document_id_of f) (subject_id_of is_dataset ?primary)"
    | a where "a \<in> set active" "e \<in> set (entity_edges is_dataset ?primary (document_id_of f) a)"
    | required score reason where "e \<in> set (combination_edges is_dataset active (required, score, reason))"
    unfolding graph_edges_def Let_def by auto
  then show ?thesis
  proof cases
    case 1
    then show ?thesis by (simp add: subject_edge_def document_in_node_ids subject_in_node_ids)
  next
    case 2
    then show ?thesis using entity_edges_ends [OF 2(2)] entity_in_node_ids [of "fst a" "snd a" active is_dataset f]
      by (auto simp: document_in_node_ids subject_in_node_ids)
  next
    case 3
    from combination_edges_ends [OF this] show ?thesis using combination_node by fastforce
  qed
qed

lemma graph_edge_ids:
  assumes "distinct (map (ir_id \<circ> fst) active)"
  shows "distinct (map ie_id (graph_edges is_dataset f active))"
proof -
  let ?primary = "primary_entity is_dataset active"
  let ?own = "concat (map (entity_edges is_dataset ?primary (document_id_of f)) active)"
  let ?co = "concat (map (combination_edges is_dataset active) combination_specs)"
  note own = entity_edge_ids_distinct [OF assms, of is_dataset ?primary "document_id_of f"]
  have own_prefix: "take 8 x \<noteq> ''edge:co:'' \<and> x \<noteq> ''edge:document-subject''" if "x \<in> ie_id ` set ?own" for x
  proof -
    from own that obtain i where "x \<in> entity_edge_id_set i" by blast
    then show ?thesis by (auto simp: entity_edge_id_set_def)
  qed
  have "ie_id ` set ?own \<inter> ie_id ` set ?co = {}"
    using own_prefix combination_edge_id_prefix [of _ is_dataset active combination_specs] by blast
  moreover have "''edge:document-subject'' \<notin> ie_id ` set ?co"
    using combination_edge_id_prefix [of "''edge:document-subject''" is_dataset active combination_specs] by auto
  moreover have "''edge:document-subject'' \<notin> ie_id ` set ?own" using own_prefix by blast
  ultimately have "distinct (''edge:document-subject'' # map ie_id ?own @ map ie_id ?co)"
    using own combination_edge_ids by (simp only: distinct.simps distinct_append set_append set_map) blast
  then show ?thesis by (simp only: graph_edges_def Let_def list.map map_append subject_edge_def identity_edge.simps)
qed

text \<open>The entities the review did not ignore altogether.\<close>

definition shown_rows :: "identity_row list \<Rightarrow> (string \<times> mention_row list) list \<Rightarrow> identity_row list" where
  "shown_rows entities mentions =
     filter (\<lambda>row. \<exists>m \<in> set (case map_of mentions (ir_id row) of Some ms \<Rightarrow> ms | None \<Rightarrow> []).
       mr_review_status m \<noteq> Review_IGNORE) entities"

lemma active_entities_rows: "map fst (active_entities entities mentions) = shown_rows entities mentions"
  by (induction entities) (auto simp: active_entities_def shown_rows_def active_mentions_def filter_empty_conv)

lemma graph_entity_ids:
  "List.map_filter in_entity_id (ig_nodes (build_exposure_graph rt job f entities mentions level)) =
     map ir_id (shown_rows entities mentions)"
proof -
  have "List.map_filter in_entity_id (map (entity_node b primary) as) = map (ir_id \<circ> fst) as" for b primary as
    by (induction as) (auto simp: entity_node_def map_filter_simps)
  then show ?thesis
    by (simp add: build_exposure_graph_def Let_def document_node_def subject_nodes_def map_filter_simps
        flip: active_entities_rows)
qed

text \<open>
  C32: a built graph is consistent. For entities with distinct identifiers its nodes and its edges have distinct identifiers,
  every edge starts and ends in a node and every reported path runs through nodes; the entity nodes are exactly the entities
  of the file with a mention the review did not ignore, in order; at most eight paths are reported, by falling score, and no
  path left out scores higher than a reported one.
\<close>

theorem identity_graph_consistent:
  fixes rt :: runtime and job :: exposure_job and f :: file_row and level :: privacy_level
    and mentions :: "(string \<times> mention_row list) list"
  assumes "distinct (map ir_id entities)"
  defines "g \<equiv> build_exposure_graph rt job f entities mentions level"
    and "paths \<equiv> all_paths (fr_file_type f = File_DATASET) (active_entities entities mentions)"
  shows "distinct (map in_id (ig_nodes g)) \<and> distinct (map ie_id (ig_edges g)) \<and>
    (\<forall>e \<in> set (ig_edges g). {ie_source e, ie_target e} \<subseteq> in_id ` set (ig_nodes g)) \<and>
    (\<forall>p \<in> set (ig_high_risk_paths g). set (rp_node_ids p) \<subseteq> in_id ` set (ig_nodes g)) \<and>
    List.map_filter in_entity_id (ig_nodes g) = map ir_id (shown_rows entities mentions) \<and>
    length (ig_high_risk_paths g) = min 8 (length paths) \<and>
    sorted (map (\<lambda>p. - rp_score p) (ig_high_risk_paths g)) \<and>
    (\<exists>rest. mset paths = mset (ig_high_risk_paths g) + mset rest \<and>
       (\<forall>p \<in> set (ig_high_risk_paths g). \<forall>q \<in> set rest. rp_score q \<le> rp_score p))"
proof -
  let ?ds = "fr_file_type f = File_DATASET" and ?active = "active_entities entities mentions"
  let ?sorted = "sort_key (\<lambda>p. - rp_score p) paths"
  note ids = active_entities_distinct [OF assms(1), of mentions]
  have nodes: "in_id ` set (ig_nodes g) = set (node_ids ?ds f ?active)"
    using node_ids_graph [of rt job f entities mentions level] by (metis g_def set_map)
  have reported: "ig_high_risk_paths g = take 8 ?sorted" by (simp add: g_def paths_def graph_parts)
  have srt: "sorted (map (\<lambda>p. - rp_score p) (take 8 ?sorted @ drop 8 ?sorted))" by simp
  have "mset paths = mset (take 8 ?sorted) + mset (drop 8 ?sorted)"
    by (metis append_take_drop_id mset_append mset_sort)
  moreover have "\<forall>p \<in> set (take 8 ?sorted). \<forall>q \<in> set (drop 8 ?sorted). rp_score q \<le> rp_score p"
    using srt unfolding map_append sorted_append by fastforce
  ultimately have rest: "\<exists>rest. mset paths = mset (take 8 ?sorted) + mset rest \<and>
      (\<forall>p \<in> set (take 8 ?sorted). \<forall>q \<in> set rest. rp_score q \<le> rp_score p)" by blast
  have srt8: "sorted (map (\<lambda>p. - rp_score p) (take 8 ?sorted))" using srt unfolding map_append sorted_append by blast
  have inside: "set (rp_node_ids p) \<subseteq> set (node_ids ?ds f ?active)" if "p \<in> set (take 8 ?sorted)" for p
    using in_set_takeD [OF that] all_paths_nodes by (simp add: paths_def)
  show ?thesis
    unfolding nodes reported
    using rest srt8 inside node_ids_distinct [OF ids] graph_edge_ids [OF ids] graph_edges_ends graph_entity_ids
      node_ids_graph [of rt job f entities mentions level]
    by (simp add: g_def graph_parts)
qed

definition demo_entities :: "identity_row list" where
  "demo_entities =
     [\<lparr>ir_id = ''e1'', ir_entity_type = Ent_PERSON_NAME, ir_placeholder = ''NAME_1'', ir_sensitivity = ''high''\<rparr>,
      \<lparr>ir_id = ''e2'', ir_entity_type = Ent_EMPLOYER, ir_placeholder = ''EMPLOYER_1'', ir_sensitivity = ''medium''\<rparr>]"

definition demo_mentions :: "(string \<times> mention_row list) list" where
  "demo_mentions =
     [(''e1'', [\<lparr>mr_review_status = Review_PROTECT, mr_context_label = None, mr_page_index = 0\<rparr>]),
      (''e2'', [\<lparr>mr_review_status = Review_IGNORE, mr_context_label = None, mr_page_index = 0\<rparr>])]"

theorem identity_graph_consistent_witness:
  "List.map_filter in_entity_id (ig_nodes (build_exposure_graph demo_runtime
     \<lparr>jr_id = ''j'', jr_audience_profile = PUBLIC_RELEASE\<rparr>
     \<lparr>fr_id = ''f'', fr_original_filename = ''a.pdf'', fr_file_type = File_PDF, fr_page_count = 1\<rparr>
     demo_entities demo_mentions DIRECT_MASKING)) = [''e1'']"
proof -
  have "distinct (map ir_id demo_entities)" by (simp add: demo_entities_def)
  from identity_graph_consistent [OF this, of demo_runtime _ _ demo_mentions] show ?thesis
    by (simp add: shown_rows_def) (simp add: demo_entities_def demo_mentions_def)
qed

end
