(* ===== verification/Deployment.thy ===== *)
theory Deployment
  imports Prelude
begin

section \<open>The deployment boundary\<close>

text \<open>
  \<open>security/deployment.py\<close>: which request the service accepts offline and online, and which configuration it refuses to
  start with. Reading addresses and networks from text, and the loopback test, are the \<open>ipaddress\<close> module (parameters);
  membership of an address in a network compares the leading bits. Header values are Latin-1 text, so they may hold
  characters that \<open>secrets.compare_digest\<close> refuses with a \<open>TypeError\<close>.
\<close>

record ip_addr =
  ia_version :: nat
  ia_value :: nat

record ip_net =
  nt_version :: nat
  nt_value :: nat
  nt_prefixlen :: nat

record ip_lib =
  il_address :: "string \<Rightarrow> ip_addr option"
  il_network :: "string \<Rightarrow> ip_net option"
  il_is_loopback :: "ip_addr \<Rightarrow> bool"

definition address_bits :: "nat \<Rightarrow> nat" where
  "address_bits version = (if version = 4 then 32 else 128)"

text \<open>\<open>address in network\<close>.\<close>

definition in_network :: "ip_addr \<Rightarrow> ip_net \<Rightarrow> bool" where
  "in_network a n \<longleftrightarrow>
     ia_value a div 2 ^ (address_bits (nt_version n) - nt_prefixlen n)
       = nt_value n div 2 ^ (address_bits (nt_version n) - nt_prefixlen n)"

record access_decision =
  ac_allowed :: bool
  ac_status_code :: int
  ac_detail :: string

definition is_loopback_host :: "ip_lib \<Rightarrow> string \<Rightarrow> bool" where
  "is_loopback_host lib host \<longleftrightarrow>
     casefold host \<in> {''localhost'', ''testclient''} \<or>
     (case il_address lib host of Some a \<Rightarrow> il_is_loopback lib a | None \<Rightarrow> False)"

fun parse_proxy_networks :: "ip_lib \<Rightarrow> string list \<Rightarrow> ip_net list res" where
  "parse_proxy_networks lib [] = Inr []"
| "parse_proxy_networks lib (raw # rest) =
     (let value = strip raw
      in if value = [] then parse_proxy_networks lib rest
         else case il_network lib value of
           None \<Rightarrow> Inl (ValueError ''not a network'')
         | Some network \<Rightarrow>
             if nt_prefixlen network = 0
             then Inl (ValueError ''Trusted proxy networks may not include a universal /0 network'')
             else res_bind (parse_proxy_networks lib rest) (\<lambda>parsed. Inr (network # parsed)))"

definition is_trusted_proxy_host :: "ip_lib \<Rightarrow> string \<Rightarrow> string list \<Rightarrow> bool" where
  "is_trusted_proxy_host lib host networks \<longleftrightarrow>
     (case il_address lib host of
        None \<Rightarrow> False
      | Some address \<Rightarrow> (case parse_proxy_networks lib networks of
            Inl _ \<Rightarrow> False
          | Inr parsed \<Rightarrow> list_ex (\<lambda>n. ia_version address = nt_version n \<and> in_network address n) parsed))"

record boundary_config =
  bc_offline_mode :: bool
  bc_api_token :: "string option"
  bc_require_https :: bool
  bc_trust_proxy_headers :: bool
  bc_trusted_proxy_networks :: "string list"

definition configured_token :: "boundary_config \<Rightarrow> string" where
  "configured_token cfg = strip (case bc_api_token cfg of Some s \<Rightarrow> s | None \<Rightarrow> [])"

definition validate_online_configuration :: "ip_lib \<Rightarrow> boundary_config \<Rightarrow> unit res" where
  "validate_online_configuration lib cfg =
     (if bc_offline_mode cfg then Inr ()
      else if length (configured_token cfg) < 32
      then Inl (RuntimeError ''Secure-online mode requires VEILGRAPH_ONLINE_API_TOKEN with at least 32 characters'')
      else if \<not> bc_require_https cfg
      then Inl (RuntimeError ''Secure-online mode refuses to start with HTTPS enforcement disabled'')
      else if bc_trust_proxy_headers cfg
      then (case parse_proxy_networks lib (bc_trusted_proxy_networks cfg) of
              Inl _ \<Rightarrow> Inl (RuntimeError ''Invalid VEILGRAPH_TRUSTED_PROXY_NETWORKS'')
            | Inr [] \<Rightarrow> Inl (RuntimeError ''VEILGRAPH_TRUST_PROXY_HEADERS=true requires at least one explicit trusted proxy network'')
            | Inr _ \<Rightarrow> Inr ())
      else Inr ())"

record http_request =
  hr_client_host :: string
  hr_headers :: "(string \<times> string) list"
  hr_url_scheme :: string
  hr_method :: string
  hr_path :: string

definition header :: "http_request \<Rightarrow> string \<Rightarrow> string" where
  "header r key = (case map_of (hr_headers r) key of Some v \<Rightarrow> v | None \<Rightarrow> [])"

definition is_ascii :: "string \<Rightarrow> bool" where
  "is_ascii s \<longleftrightarrow> list_all (\<lambda>c. ord c < 128) s"

definition compare_digest :: "string \<Rightarrow> string \<Rightarrow> bool res" where
  "compare_digest a b =
     (if is_ascii a \<and> is_ascii b then Inr (a = b)
      else Inl (TypeError ''comparing strings with non-ASCII characters is not supported''))"

definition forwarded_https :: "ip_lib \<Rightarrow> boundary_config \<Rightarrow> http_request \<Rightarrow> bool" where
  "forwarded_https lib cfg r \<longleftrightarrow>
     bc_trust_proxy_headers cfg \<and> is_trusted_proxy_host lib (hr_client_host r) (bc_trusted_proxy_networks cfg) \<and>
     casefold (strip (takeWhile (\<lambda>c. c \<noteq> CHR '','') (header r ''x-forwarded-proto''))) = ''https''"

definition supplied_token :: "http_request \<Rightarrow> string" where
  "supplied_token r =
     (let authorization = header r ''authorization''
      in if take 7 (casefold authorization) = ''bearer '' then drop 7 authorization else [])"

definition authorize_request :: "ip_lib \<Rightarrow> boundary_config \<Rightarrow> http_request \<Rightarrow> access_decision res" where
  "authorize_request lib cfg r =
     (if bc_offline_mode cfg
      then Inr (if is_loopback_host lib (hr_client_host r)
                then \<lparr>ac_allowed = True, ac_status_code = 200, ac_detail = ''local offline client''\<rparr>
                else \<lparr>ac_allowed = False, ac_status_code = 403,
                      ac_detail = ''Offline mode accepts localhost clients only''\<rparr>)
      else if bc_require_https cfg \<and> casefold (hr_url_scheme r) \<noteq> ''https'' \<and> \<not> forwarded_https lib cfg r
      then Inr \<lparr>ac_allowed = False, ac_status_code = 426, ac_detail = ''Secure-online mode requires HTTPS''\<rparr>
      else let expected = configured_token cfg; supplied = supplied_token r;
               refused = \<lparr>ac_allowed = False, ac_status_code = 401,
                 ac_detail = ''Secure-online mode requires a valid bearer token''\<rparr>
      in if expected = [] \<or> supplied = [] then Inr refused
         else res_bind (compare_digest supplied expected) (\<lambda>equal. Inr
           (if equal then \<lparr>ac_allowed = True, ac_status_code = 200, ac_detail = ''authenticated secure-online client''\<rparr>
            else refused)))"

subsection \<open>What the boundary guarantees\<close>

lemma parse_proxy_networks_ok:
  "parse_proxy_networks lib raws = Inr parsed \<Longrightarrow> n \<in> set parsed \<Longrightarrow>
     nt_prefixlen n \<noteq> 0 \<and> (\<exists>raw \<in> set raws. il_network lib (strip raw) = Some n)"
  by (induction raws arbitrary: parsed)
    (auto simp: Let_def res_bind_Inr_iff split: if_splits option.splits)

lemma trusted_proxy_iff:
  assumes "parse_proxy_networks lib networks = Inr parsed"
  shows "is_trusted_proxy_host lib host networks \<longleftrightarrow>
    (\<exists>a n. il_address lib host = Some a \<and> n \<in> set parsed \<and> ia_version a = nt_version n \<and> in_network a n)"
  using assms by (auto simp: is_trusted_proxy_host_def list_ex_iff split: option.split)

text \<open>The configuration a running online service has.\<close>

lemma validate_online_ok:
  assumes "validate_online_configuration lib cfg = Inr ()" and "\<not> bc_offline_mode cfg"
  shows "32 \<le> length (configured_token cfg) \<and> bc_require_https cfg \<and>
    (bc_trust_proxy_headers cfg \<longrightarrow>
      (\<exists>parsed. parse_proxy_networks lib (bc_trusted_proxy_networks cfg) = Inr parsed \<and> parsed \<noteq> [] \<and>
         (\<forall>n \<in> set parsed. nt_prefixlen n \<noteq> 0)))"
  using assms parse_proxy_networks_ok [of lib "bc_trusted_proxy_networks cfg"]
  by (auto simp: validate_online_configuration_def split: if_splits sum.splits list.splits)

text \<open>
  C33: under a configuration the service starts with, a request passes the boundary exactly when the service is offline and
  the client is a loopback host, or the service is online, the connection is HTTPS (directly, or announced by a proxy inside
  an explicitly configured network of at least one fixed bit) and the bearer token is the configured one of at least 32
  characters. No request is answered otherwise than by a pass, 403, 426 or 401, except that a token with a character outside
  ASCII makes the comparison raise, so such a request is neither passed nor refused with 401.
\<close>

theorem authorize_request_sound:
  fixes lib :: ip_lib and r :: http_request
  assumes "validate_online_configuration lib cfg = Inr ()"
  defines "https \<equiv> casefold (hr_url_scheme r) = ''https'' \<or> forwarded_https lib cfg r"
  shows "((\<exists>d. authorize_request lib cfg r = Inr d \<and> ac_allowed d) \<longleftrightarrow>
      (if bc_offline_mode cfg then is_loopback_host lib (hr_client_host r)
       else https \<and> supplied_token r = configured_token cfg \<and> is_ascii (configured_token cfg))) \<and>
    (\<forall>d. authorize_request lib cfg r = Inr d \<longrightarrow>
      ac_status_code d \<in> (if bc_offline_mode cfg then {200, 403} else {200, 426, 401}) \<and>
      (ac_allowed d \<longleftrightarrow> ac_status_code d = 200)) \<and>
    ((\<exists>e. authorize_request lib cfg r = Inl e) \<longleftrightarrow>
      \<not> bc_offline_mode cfg \<and> https \<and> supplied_token r \<noteq> [] \<and>
      \<not> (is_ascii (supplied_token r) \<and> is_ascii (configured_token cfg))) \<and>
    (\<not> bc_offline_mode cfg \<longrightarrow> 32 \<le> length (configured_token cfg)) \<and>
    (\<not> bc_offline_mode cfg \<and> forwarded_https lib cfg r \<longrightarrow>
      (\<exists>a n raw. il_address lib (hr_client_host r) = Some a \<and> raw \<in> set (bc_trusted_proxy_networks cfg) \<and>
         il_network lib (strip raw) = Some n \<and> 0 < nt_prefixlen n \<and> ia_version a = nt_version n \<and> in_network a n))"
proof (cases "bc_offline_mode cfg")
  case True
  then show ?thesis by (simp add: authorize_request_def)
next
  case False
  note online = validate_online_ok [OF assms(1) False]
  then have token: "configured_token cfg \<noteq> []" by auto
  have proxy: "\<exists>a n raw. il_address lib (hr_client_host r) = Some a \<and> raw \<in> set (bc_trusted_proxy_networks cfg) \<and>
      il_network lib (strip raw) = Some n \<and> 0 < nt_prefixlen n \<and> ia_version a = nt_version n \<and> in_network a n"
    if fwd: "forwarded_https lib cfg r"
  proof -
    from fwd online obtain parsed where p: "parse_proxy_networks lib (bc_trusted_proxy_networks cfg) = Inr parsed"
      by (auto simp: forwarded_https_def)
    with fwd obtain a n where "il_address lib (hr_client_host r) = Some a" "n \<in> set parsed" "ia_version a = nt_version n"
        "in_network a n"
      by (auto simp: forwarded_https_def trusted_proxy_iff [OF p])
    with parse_proxy_networks_ok [OF p, of n] show ?thesis by auto
  qed
  have result: "authorize_request lib cfg r =
      (if \<not> https then Inr \<lparr>ac_allowed = False, ac_status_code = 426, ac_detail = ''Secure-online mode requires HTTPS''\<rparr>
       else if supplied_token r = [] then Inr \<lparr>ac_allowed = False, ac_status_code = 401,
                 ac_detail = ''Secure-online mode requires a valid bearer token''\<rparr>
       else res_bind (compare_digest (supplied_token r) (configured_token cfg)) (\<lambda>equal. Inr
           (if equal then \<lparr>ac_allowed = True, ac_status_code = 200, ac_detail = ''authenticated secure-online client''\<rparr>
            else \<lparr>ac_allowed = False, ac_status_code = 401,
                 ac_detail = ''Secure-online mode requires a valid bearer token''\<rparr>)))"
    using False online token by (simp add: authorize_request_def https_def Let_def)
  show ?thesis
    using False token online proxy by (auto simp: result compare_digest_def)
qed

definition demo_boundary :: boundary_config where
  "demo_boundary =
     \<lparr>bc_offline_mode = False, bc_api_token = Some (replicate 32 CHR ''k''), bc_require_https = True,
      bc_trust_proxy_headers = False, bc_trusted_proxy_networks = []\<rparr>"

definition demo_ip_lib :: ip_lib where
  "demo_ip_lib = \<lparr>il_address = (\<lambda>_. None), il_network = (\<lambda>_. None), il_is_loopback = (\<lambda>_. False)\<rparr>"

definition demo_http_request :: "string \<Rightarrow> http_request" where
  "demo_http_request token =
     \<lparr>hr_client_host = ''10.0.0.7'', hr_headers = [(''authorization'', ''Bearer '' @ token)], hr_url_scheme = ''https'',
      hr_method = ''POST'', hr_path = ''/api/v1/rightsgate/assessments''\<rparr>"

lemma demo_tokens:
  "configured_token demo_boundary = replicate 32 CHR ''k''" "supplied_token (demo_http_request token) = token"
proof -
  show "configured_token demo_boundary = replicate 32 CHR ''k''" by code_simp
  have "map to_lower ''Bearer '' = ''bearer ''" by code_simp
  then show "supplied_token (demo_http_request token) = token"
    by (simp add: supplied_token_def header_def demo_http_request_def casefold_def)
qed

theorem authorize_request_sound_witness:
  "(\<exists>d. authorize_request demo_ip_lib demo_boundary (demo_http_request (replicate 32 CHR ''k'')) = Inr d \<and> ac_allowed d) \<and>
   \<not> (\<exists>d. authorize_request demo_ip_lib demo_boundary (demo_http_request ''wrong'') = Inr d \<and> ac_allowed d)"
proof -
  have valid: "validate_online_configuration demo_ip_lib demo_boundary = Inr ()"
    using demo_tokens(1) by (simp add: validate_online_configuration_def demo_boundary_def)
  have https: "casefold (hr_url_scheme (demo_http_request t)) = ''https''" for t
    by (simp add: demo_http_request_def) code_simp
  have ascii: "is_ascii (replicate 32 CHR ''k'')" by code_simp
  have "''wrong'' \<noteq> replicate 32 CHR ''k''" by code_simp
  moreover have "\<not> bc_offline_mode demo_boundary" by (simp add: demo_boundary_def)
  ultimately show ?thesis
    using authorize_request_sound [OF valid, of "demo_http_request (replicate 32 CHR ''k'')"]
      authorize_request_sound [OF valid, of "demo_http_request ''wrong''"] ascii
    by (simp add: demo_tokens https)
qed

end
