(* ===== verification/Gateway.thy ===== *)
theory Gateway
  imports Deployment Combine
begin

section \<open>The request gateway\<close>

text \<open>
  The HTTP middleware of \<open>main.py\<close> with \<open>ops/admission.py\<close> and \<open>ops/metrics.py\<close>: a request passes the deployment boundary,
  is counted, and is served at once or, when it is heavy, after it has obtained one of a bounded number of permits. Requests
  interleave: asyncio runs a coroutine without interruption between two awaits, and the only awaits that wait are the one
  for a permit and the one for the response, so every stretch between them is one step of a relation. Which waiting request
  a free permit wakes, and when the deadline of a waiting request passes, is left open. Times are rationals.
\<close>

subsection \<open>Heavy requests and metric labels\<close>

definition heavy_suffixes :: "string list" where
  "heavy_suffixes = [''/analyse'', ''/transform'', ''/verify'', ''/provenance/c2pa'', ''/rightsgate/assessments'',
     ''/rightsgate/rights/references/image'']"

definition is_heavy_request :: "string \<Rightarrow> string \<Rightarrow> bool" where
  "is_heavy_request verb path \<longleftrightarrow>
     upper verb = ''POST'' \<and>
     (list_ex (\<lambda>suffix. ends_with path suffix) heavy_suffixes \<or> ends_with path ''/files'' \<and> contains ''/jobs/'' path)"

definition hex_letter :: "char \<Rightarrow> bool" where
  "hex_letter c \<longleftrightarrow> is_digit c \<or> c \<in> set ''abcdefABCDEF''"

definition word_letter :: "char \<Rightarrow> bool" where
  "word_letter c \<longleftrightarrow> is_digit c \<or> is_lower c \<or> is_upper c \<or> c = CHR ''_''"

text \<open>\<open>\b\<close> between two positions, of which either may lie outside the text.\<close>

definition word_boundary :: "char option \<Rightarrow> char option \<Rightarrow> bool" where
  "word_boundary a b \<longleftrightarrow>
     (case a of Some c \<Rightarrow> word_letter c | None \<Rightarrow> False) \<noteq> (case b of Some c \<Rightarrow> word_letter c | None \<Rightarrow> False)"

definition char_at :: "string \<Rightarrow> nat \<Rightarrow> char option" where
  "char_at s n = (if n < length s then Some (s ! n) else None)"

text \<open>The longest length between two bounds whose characters satisfy a test and that ends at a word boundary (greedy with backtracking).\<close>

definition greedy_length :: "(char \<Rightarrow> bool) \<Rightarrow> nat \<Rightarrow> nat \<Rightarrow> nat \<Rightarrow> string \<Rightarrow> nat option" where
  "greedy_length p start low high s =
     List.find (\<lambda>n. start + n \<le> length s \<and> list_all p (take n (drop start s)) \<and>
         word_boundary (char_at s (start + n - 1)) (char_at s (start + n)))
       (rev [low..<high + 1])"

definition uuid_match :: "char option \<Rightarrow> string \<Rightarrow> nat option" where
  "uuid_match prev s =
     (if word_boundary prev (char_at s 0) \<and> 9 \<le> length s \<and> list_all hex_letter (take 8 s) \<and> s ! 8 = CHR ''-''
      then map_option (\<lambda>n. 9 + n) (greedy_length (\<lambda>c. hex_letter c \<or> c = CHR ''-'') 9 27 36 s)
      else None)"

definition hex_match :: "char option \<Rightarrow> string \<Rightarrow> nat option" where
  "hex_match prev s = (if word_boundary prev (char_at s 0) then greedy_length hex_letter 0 24 64 s else None)"

text \<open>\<open>pattern.sub("{id}", text)\<close>: from left to right, a match of positive length is replaced and skipped.\<close>

fun sub_matches :: "(char option \<Rightarrow> string \<Rightarrow> nat option) \<Rightarrow> nat \<Rightarrow> char option \<Rightarrow> string \<Rightarrow> string" where
  "sub_matches m skip prev [] = []"
| "sub_matches m (Suc skip) prev (c # s) = sub_matches m skip (Some c) s"
| "sub_matches m 0 prev (c # s) =
     (case m prev (c # s) of
        Some (Suc n) \<Rightarrow> ''{id}'' @ sub_matches m n (Some c) s
      | _ \<Rightarrow> c # sub_matches m 0 (Some c) s)"

definition normalize_metric_path :: "string \<Rightarrow> string" where
  "normalize_metric_path path = take 180 (sub_matches hex_match 0 None (sub_matches uuid_match 0 None path))"

subsection \<open>Metrics\<close>

type_synonym counter = "(string \<times> int) list"

fun count_in :: "string \<Rightarrow> counter \<Rightarrow> counter" where
  "count_in k [] = [(k, 1)]"
| "count_in k ((k', n) # rest) = (if k' = k then (k', n + 1) # rest else (k', n) # count_in k rest)"

record runtime_metrics =
  mt_capacity :: nat
  mt_durations_ms :: "rat list"
  mt_requests :: int
  mt_errors :: int
  mt_active :: int
  mt_max_active :: int
  mt_routes :: counter
  mt_statuses :: counter
  mt_admission_rejections :: int

definition new_metrics :: "nat \<Rightarrow> runtime_metrics" where
  "new_metrics window =
     \<lparr>mt_capacity = max 64 window, mt_durations_ms = [], mt_requests = 0, mt_errors = 0, mt_active = 0, mt_max_active = 0,
      mt_routes = [], mt_statuses = [], mt_admission_rejections = 0\<rparr>"

definition metrics_begin :: "runtime_metrics \<Rightarrow> runtime_metrics" where
  "metrics_begin m = m\<lparr>mt_active := mt_active m + 1, mt_max_active := max (mt_max_active m) (mt_active m + 1)\<rparr>"

text \<open>\<open>deque(maxlen)\<close>: appending to a full deque drops its head.\<close>

definition push_bounded :: "nat \<Rightarrow> 'a \<Rightarrow> 'a list \<Rightarrow> 'a list" where
  "push_bounded capacity x xs = (let ys = xs @ [x] in drop (length ys - capacity) ys)"

definition metrics_end :: "string \<Rightarrow> rat \<Rightarrow> rat \<Rightarrow> int \<Rightarrow> runtime_metrics \<Rightarrow> runtime_metrics" where
  "metrics_end metric_path started now status m =
     m\<lparr>mt_active := max 0 (mt_active m - 1), mt_requests := mt_requests m + 1,
       mt_errors := (if 500 \<le> status then mt_errors m + 1 else mt_errors m),
       mt_routes := count_in metric_path (mt_routes m),
       mt_statuses := count_in (show_int (status div 100) @ ''xx'') (mt_statuses m),
       mt_durations_ms := push_bounded (mt_capacity m) ((now - started) * 1000) (mt_durations_ms m)\<rparr>"

definition metrics_rejected :: "runtime_metrics \<Rightarrow> runtime_metrics" where
  "metrics_rejected m = m\<lparr>mt_admission_rejections := mt_admission_rejections m + 1\<rparr>"

definition percentile :: "rat list \<Rightarrow> rat \<Rightarrow> rat" where
  "percentile values quantile =
     (if values = [] then 0
      else sort values ! nat (max 0 (min (int (length values) - 1) (\<lceil>quantile * of_nat (length values)\<rceil> - 1))))"

definition counter_json :: "counter \<Rightarrow> json" where
  "counter_json c = JObj (map (\<lambda>(k, n). (k, JInt n)) c)"

definition metrics_snapshot :: "runtime_metrics \<Rightarrow> json" where
  "metrics_snapshot m =
     (let values = mt_durations_ms m
      in JObj [(''requests_total'', JInt (mt_requests m)), (''errors_5xx_total'', JInt (mt_errors m)),
          (''active_requests'', JInt (mt_active m)), (''max_active_requests'', JInt (mt_max_active m)),
          (''admission_rejections_total'', JInt (mt_admission_rejections m)),
          (''latency_ms'', JObj
            [(''p50'', JFloat (round_to (percentile values (50 / 100)) 3)),
             (''p95'', JFloat (round_to (percentile values (95 / 100)) 3)),
             (''max'', JFloat (if values \<noteq> [] then round_to (Max (set values)) 3 else 0)),
             (''samples'', JInt (int (length values))), (''window_capacity'', JInt (int (mt_capacity m)))]),
          (''status_classes'', counter_json (sort_key fst (mt_statuses m))),
          (''routes'', counter_json (take 20 (sort_key (\<lambda>(_, n). - n) (mt_routes m)))),
          (''privacy'', JObj [(''stores_request_bodies'', JBool False), (''stores_query_strings'', JBool False),
             (''stores_job_ids'', JBool False)])])"

subsection \<open>Admission\<close>

record admission_controller =
  am_limit :: nat
  am_permits :: nat
  am_active :: int
  am_max_active :: int

definition new_admission :: "int \<Rightarrow> admission_controller" where
  "new_admission limit =
     \<lparr>am_limit = nat (max 1 limit), am_permits = nat (max 1 limit), am_active = 0, am_max_active = 0\<rparr>"

definition take_slot :: "admission_controller \<Rightarrow> admission_controller" where
  "take_slot a =
     a\<lparr>am_permits := am_permits a - 1, am_active := am_active a + 1, am_max_active := max (am_max_active a) (am_active a + 1)\<rparr>"

definition leave_slot :: "admission_controller \<Rightarrow> admission_controller" where
  "leave_slot a = a\<lparr>am_active := max 0 (am_active a - 1), am_permits := am_permits a + 1\<rparr>"

subsection \<open>The middleware\<close>

datatype flow_phase = Queued | Serving_heavy | Serving

record flow =
  fw_id :: nat
  fw_request :: http_request
  fw_started :: rat
  fw_metric_path :: string
  fw_phase :: flow_phase

record gateway =
  gw_lib :: ip_lib
  gw_config :: boundary_config
  gw_admission :: admission_controller
  gw_metrics :: runtime_metrics
  gw_flows :: "flow list"
  gw_non_local_inbound :: nat
  gw_answers :: "(nat \<times> int) list"

definition new_gateway :: "ip_lib \<Rightarrow> boundary_config \<Rightarrow> int \<Rightarrow> nat \<Rightarrow> gateway" where
  "new_gateway lib cfg limit window =
     \<lparr>gw_lib = lib, gw_config = cfg, gw_admission = new_admission limit, gw_metrics = new_metrics window, gw_flows = [],
      gw_non_local_inbound = 0, gw_answers = []\<rparr>"

text \<open>A request arrives: it is refused, or counted and queued or served. An exception of the boundary leaves the gateway unchanged.\<close>

definition gateway_arrive :: "nat \<Rightarrow> rat \<Rightarrow> http_request \<Rightarrow> gateway \<Rightarrow> gateway" where
  "gateway_arrive i now r g =
     (case authorize_request (gw_lib g) (gw_config g) r of
        Inl _ \<Rightarrow> g
      | Inr d \<Rightarrow>
          if \<not> ac_allowed d
          then g\<lparr>gw_non_local_inbound := (if bc_offline_mode (gw_config g) then gw_non_local_inbound g + 1
                                          else gw_non_local_inbound g),
                 gw_answers := gw_answers g @ [(i, ac_status_code d)]\<rparr>
          else g\<lparr>gw_metrics := metrics_begin (gw_metrics g),
                 gw_flows := gw_flows g @ [\<lparr>fw_id = i, fw_request = r, fw_started = now,
                   fw_metric_path = normalize_metric_path (hr_path r),
                   fw_phase = (if is_heavy_request (hr_method r) (hr_path r) then Queued else Serving)\<rparr>]\<rparr>)"

definition drop_flow :: "flow \<Rightarrow> gateway \<Rightarrow> gateway" where
  "drop_flow f g = g\<lparr>gw_flows := filter (\<lambda>x. fw_id x \<noteq> fw_id f) (gw_flows g)\<rparr>"

text \<open>The \<open>finally\<close> block: the request is counted with its status and answered.\<close>

definition end_flow :: "flow \<Rightarrow> rat \<Rightarrow> int \<Rightarrow> gateway \<Rightarrow> gateway" where
  "end_flow f now status g =
     (drop_flow f g)\<lparr>gw_metrics := metrics_end (fw_metric_path f) (fw_started f) now status (gw_metrics g),
                     gw_answers := gw_answers g @ [(fw_id f, status)]\<rparr>"

definition gateway_admit :: "flow \<Rightarrow> gateway \<Rightarrow> gateway" where
  "gateway_admit f g =
     g\<lparr>gw_admission := take_slot (gw_admission g),
       gw_flows := map (\<lambda>x. if fw_id x = fw_id f then x\<lparr>fw_phase := Serving_heavy\<rparr> else x) (gw_flows g)\<rparr>"

definition gateway_reject :: "flow \<Rightarrow> rat \<Rightarrow> gateway \<Rightarrow> gateway" where
  "gateway_reject f now g = end_flow f now 503 (g\<lparr>gw_metrics := metrics_rejected (gw_metrics g)\<rparr>)"

text \<open>The handler answers with a status, or raises (\<open>None\<close>, counted as 500); a heavy request gives its permit back first.\<close>

definition gateway_finish :: "flow \<Rightarrow> rat \<Rightarrow> int option \<Rightarrow> gateway \<Rightarrow> gateway" where
  "gateway_finish f now outcome g =
     end_flow f now (case outcome of Some status \<Rightarrow> status | None \<Rightarrow> 500)
       (if fw_phase f = Serving_heavy then g\<lparr>gw_admission := leave_slot (gw_admission g)\<rparr> else g)"

inductive gateway_step :: "gateway \<Rightarrow> gateway \<Rightarrow> bool" where
  arrive: "i \<notin> fw_id ` set (gw_flows g) \<Longrightarrow> gateway_step g (gateway_arrive i now r g)"
| admit: "f \<in> set (gw_flows g) \<Longrightarrow> fw_phase f = Queued \<Longrightarrow> 0 < am_permits (gw_admission g) \<Longrightarrow>
    gateway_step g (gateway_admit f g)"
| reject: "f \<in> set (gw_flows g) \<Longrightarrow> fw_phase f = Queued \<Longrightarrow> gateway_step g (gateway_reject f now g)"
| abandon: "f \<in> set (gw_flows g) \<Longrightarrow> fw_phase f = Queued \<Longrightarrow> gateway_step g (end_flow f now 500 g)"
| finish: "f \<in> set (gw_flows g) \<Longrightarrow> fw_phase f \<noteq> Queued \<Longrightarrow> gateway_step g (gateway_finish f now outcome g)"

inductive_cases gateway_stepE: "gateway_step g g'"

inductive gateway_reachable :: "gateway \<Rightarrow> gateway \<Rightarrow> bool" for g0 where
  start: "gateway_reachable g0 g0"
| step: "gateway_reachable g0 g \<Longrightarrow> gateway_step g g' \<Longrightarrow> gateway_reachable g0 g'"

end
