(* ===== verification/Gateway_Facts.thy ===== *)
theory Gateway_Facts
  imports Gateway
begin

section \<open>What the gateway guarantees\<close>

text \<open>
  In every interleaving at most the configured number of heavy requests is served at once, no permit is lost, only requests
  that passed the deployment boundary are in flight, and the metrics account for every answered request once.
\<close>

subsection \<open>Counters and bounded windows\<close>

definition counter_total :: "counter \<Rightarrow> int" where
  "counter_total c = sum_list (map snd c)"

lemma counter_total_count_in [simp]: "counter_total (count_in k c) = counter_total c + 1"
  by (induction k c rule: count_in.induct) (auto simp: counter_total_def)

lemma length_push_bounded: "length (push_bounded n x xs) = min n (length xs + 1)"
  by (auto simp: push_bounded_def Let_def)

lemma percentile_mem: "values \<noteq> [] \<Longrightarrow> percentile values q \<in> set values"
proof -
  assume ne: "values \<noteq> []"
  let ?i = "nat (max 0 (min (int (length values) - 1) (\<lceil>q * of_nat (length values)\<rceil> - 1)))"
  have "?i < length (sort values)" using ne by (cases "values") auto
  then have "sort values ! ?i \<in> set (sort values)" by (rule nth_mem)
  then show ?thesis using ne by (simp add: percentile_def)
qed

lemma percentile_mono:
  assumes "p \<le> q"
  shows "percentile values p \<le> percentile values q"
proof (cases "values = []")
  case False
  have "p * of_nat (length values) \<le> q * of_nat (length values)" using assms by (intro mult_right_mono) simp_all
  then have "\<lceil>p * of_nat (length values)\<rceil> \<le> \<lceil>q * of_nat (length values)\<rceil>" by (rule ceiling_mono)
  moreover have "nat (max 0 (min (int (length values) - 1) k)) < length (sort values)" for k
    using False by (cases "values") auto
  ultimately show ?thesis using False
    by (auto simp: percentile_def intro!: sorted_nth_mono nat_mono)
qed (simp add: percentile_def)

subsection \<open>The invariant\<close>

definition heavy_flows :: "gateway \<Rightarrow> flow list" where
  "heavy_flows g = filter (\<lambda>f. fw_phase f = Serving_heavy) (gw_flows g)"

definition flow_ok :: "gateway \<Rightarrow> flow \<Rightarrow> bool" where
  "flow_ok g f \<longleftrightarrow>
     (\<exists>d. authorize_request (gw_lib g) (gw_config g) (fw_request f) = Inr d \<and> ac_allowed d) \<and>
     (fw_phase f \<noteq> Serving \<longleftrightarrow> is_heavy_request (hr_method (fw_request f)) (hr_path (fw_request f)))"

definition admission_ok :: "gateway \<Rightarrow> bool" where
  "admission_ok g \<longleftrightarrow>
     am_permits (gw_admission g) + length (heavy_flows g) = am_limit (gw_admission g) \<and>
     am_active (gw_admission g) = int (length (heavy_flows g)) \<and>
     am_active (gw_admission g) \<le> am_max_active (gw_admission g) \<and>
     am_max_active (gw_admission g) \<le> int (am_limit (gw_admission g))"

definition metrics_ok :: "gateway \<Rightarrow> bool" where
  "metrics_ok g \<longleftrightarrow>
     mt_active (gw_metrics g) = int (length (gw_flows g)) \<and>
     mt_active (gw_metrics g) \<le> mt_max_active (gw_metrics g) \<and>
     counter_total (mt_routes (gw_metrics g)) = mt_requests (gw_metrics g) \<and>
     counter_total (mt_statuses (gw_metrics g)) = mt_requests (gw_metrics g) \<and>
     int (length (mt_durations_ms (gw_metrics g))) = min (int (mt_capacity (gw_metrics g))) (mt_requests (gw_metrics g)) \<and>
     0 \<le> mt_admission_rejections (gw_metrics g) \<and>
     mt_admission_rejections (gw_metrics g) \<le> mt_errors (gw_metrics g) \<and>
     mt_errors (gw_metrics g) \<le> mt_requests (gw_metrics g)"

definition gateway_inv :: "gateway \<Rightarrow> bool" where
  "gateway_inv g \<longleftrightarrow>
     distinct (map fw_id (gw_flows g)) \<and> list_all (flow_ok g) (gw_flows g) \<and> admission_ok g \<and> metrics_ok g"

lemma flow_ok_cong:
  "gw_lib g' = gw_lib g \<Longrightarrow> gw_config g' = gw_config g \<Longrightarrow> flow_ok g' f = flow_ok g f"
  by (simp add: flow_ok_def)

lemma new_gateway_inv: "gateway_inv (new_gateway lib cfg limit window)"
  by (simp add: gateway_inv_def new_gateway_def admission_ok_def metrics_ok_def heavy_flows_def new_admission_def
      new_metrics_def counter_total_def)

text \<open>Removing a flow with a unique identifier removes it once.\<close>

lemma drop_unique:
  assumes "distinct (map fw_id fs)" and "f \<in> set fs"
  shows "filter (\<lambda>x. fw_id x \<noteq> fw_id f) fs = remove1 f fs"
  using assms
proof (induction fs)
  case (Cons x fs)
  show ?case
  proof (cases "x = f")
    case True
    with Cons.prems(1) have "\<forall>y \<in> set fs. fw_id y \<noteq> fw_id f" by (auto simp: image_iff)
    then show ?thesis using True by (simp add: filter_id_conv)
  next
    case False
    with Cons.prems have "f \<in> set fs" "fw_id x \<noteq> fw_id f" by force+
    then show ?thesis using Cons False by simp
  qed
qed simp

lemma distinct_map_filter: "distinct (map h xs) \<Longrightarrow> distinct (map h (filter p xs))"
  by (induction xs) auto

lemma end_flow_frame [simp]:
  "gw_lib (end_flow f now st g) = gw_lib g" "gw_config (end_flow f now st g) = gw_config g"
  "gw_admission (end_flow f now st g) = gw_admission g"
  "gw_flows (end_flow f now st g) = filter (\<lambda>x. fw_id x \<noteq> fw_id f) (gw_flows g)"
  "gw_metrics (end_flow f now st g) = metrics_end (fw_metric_path f) (fw_started f) now st (gw_metrics g)"
  by (simp_all add: end_flow_def drop_flow_def)

text \<open>Ending a flow keeps the identifiers, the authorisation of the others and the metrics.\<close>

lemma end_flow_metrics:
  assumes "metrics_ok g" and "distinct (map fw_id (gw_flows g))" and "f \<in> set (gw_flows g)"
  shows "metrics_ok (end_flow f now st g)"
proof -
  have "length (filter (\<lambda>x. fw_id x \<noteq> fw_id f) (gw_flows g)) = length (gw_flows g) - 1"
    using assms(2,3) by (simp add: drop_unique length_remove1)
  moreover obtain n where "length (gw_flows g) = Suc n" using assms(3) by (cases "gw_flows g") auto
  ultimately show ?thesis using assms(1)
    by (auto simp: metrics_ok_def metrics_end_def length_push_bounded)
qed

lemma end_flow_inv:
  assumes "gateway_inv g" and "f \<in> set (gw_flows g)" and "fw_phase f \<noteq> Serving_heavy"
  shows "gateway_inv (end_flow f now st g)"
proof -
  have "f \<notin> set (heavy_flows g)" using assms(3) by (simp add: heavy_flows_def)
  moreover have "heavy_flows (end_flow f now st g) = filter (\<lambda>x. fw_id x \<noteq> fw_id f) (heavy_flows g)"
    by (simp add: heavy_flows_def conj_commute)
  moreover have "\<forall>x \<in> set (heavy_flows g). fw_id x \<noteq> fw_id f"
    using assms by (auto simp: heavy_flows_def gateway_inv_def distinct_map dest: inj_onD)
  ultimately have "heavy_flows (end_flow f now st g) = heavy_flows g" by (simp add: filter_id_conv)
  then show ?thesis
    using assms end_flow_metrics [of g f now st]
    by (auto simp: gateway_inv_def admission_ok_def list_all_iff distinct_map_filter flow_ok_def)
qed

subsection \<open>Every step keeps the invariant\<close>

lemma arrive_inv:
  assumes "gateway_inv g" and "i \<notin> fw_id ` set (gw_flows g)"
  shows "gateway_inv (gateway_arrive i now r g)"
proof (cases "authorize_request (gw_lib g) (gw_config g) r")
  case (Inl e)
  then show ?thesis using assms by (simp add: gateway_arrive_def)
next
  case (Inr d)
  show ?thesis
  proof (cases "ac_allowed d")
    case True
    then show ?thesis using assms Inr
      by (auto simp: gateway_arrive_def gateway_inv_def admission_ok_def metrics_ok_def heavy_flows_def metrics_begin_def
          list_all_iff flow_ok_def)
  next
    case False
    then show ?thesis using assms Inr
      by (auto simp: gateway_arrive_def gateway_inv_def admission_ok_def metrics_ok_def heavy_flows_def list_all_iff flow_ok_def)
  qed
qed

lemma admit_flows:
  assumes "distinct (map fw_id fs)" and "f \<in> set fs" and "fw_phase f = Queued"
  shows "length (filter (\<lambda>x. fw_phase x = Serving_heavy)
      (map (\<lambda>x. if fw_id x = fw_id f then x\<lparr>fw_phase := Serving_heavy\<rparr> else x) fs))
    = length (filter (\<lambda>x. fw_phase x = Serving_heavy) fs) + 1"
  using assms
proof (induction fs)
  case (Cons x fs)
  show ?case
  proof (cases "x = f")
    case True
    with Cons.prems(1) have "map (\<lambda>x. if fw_id x = fw_id f then x\<lparr>fw_phase := Serving_heavy\<rparr> else x) fs = fs"
      by (intro map_idI) (auto simp: image_iff)
    then show ?thesis using True Cons.prems(3) by simp
  next
    case False
    with Cons.prems have "f \<in> set fs" "fw_id x \<noteq> fw_id f" by force+
    then show ?thesis using Cons by simp
  qed
qed simp

lemma admit_inv:
  assumes "gateway_inv g" and "f \<in> set (gw_flows g)" and "fw_phase f = Queued" and "0 < am_permits (gw_admission g)"
  shows "gateway_inv (gateway_admit f g)"
proof -
  have heavy: "length (heavy_flows (gateway_admit f g)) = length (heavy_flows g) + 1"
    using admit_flows [OF _ assms(2,3)] assms(1) by (simp add: heavy_flows_def gateway_admit_def gateway_inv_def)
  have frame: "gw_lib (gateway_admit f g) = gw_lib g" "gw_config (gateway_admit f g) = gw_config g"
      "gw_metrics (gateway_admit f g) = gw_metrics g" "length (gw_flows (gateway_admit f g)) = length (gw_flows g)"
      "map fw_id (gw_flows (gateway_admit f g)) = map fw_id (gw_flows g)"
      "gw_admission (gateway_admit f g) = take_slot (gw_admission g)"
    by (simp_all add: gateway_admit_def)
  have "flow_ok g x" if "x \<in> set (gw_flows (gateway_admit f g))" for x
  proof -
    from that obtain y where y: "y \<in> set (gw_flows g)" "x = (if fw_id y = fw_id f then y\<lparr>fw_phase := Serving_heavy\<rparr> else y)"
      by (auto simp: gateway_admit_def)
    have "y = f" if "fw_id y = fw_id f"
      using assms(1,2) y(1) that by (auto simp: gateway_inv_def distinct_map dest: inj_onD)
    moreover have "flow_ok g y" using assms(1) y(1) by (simp add: gateway_inv_def list_all_iff)
    ultimately show ?thesis using y(2) assms(3) by (auto simp: flow_ok_def)
  qed
  then have "list_all (flow_ok (gateway_admit f g)) (gw_flows (gateway_admit f g))"
    using flow_ok_cong [OF frame(1,2)] by (simp add: list_all_iff)
  moreover have "admission_ok (gateway_admit f g)" using assms(1,4) heavy
    by (auto simp: gateway_inv_def admission_ok_def frame take_slot_def)
  moreover have "metrics_ok (gateway_admit f g)" using assms(1) by (simp add: gateway_inv_def metrics_ok_def frame)
  ultimately show ?thesis using assms(1) by (simp add: gateway_inv_def frame)
qed

lemma rejected_inv: "gateway_inv g \<Longrightarrow> f \<in> set (gw_flows g) \<Longrightarrow> fw_phase f = Queued \<Longrightarrow> gateway_inv (gateway_reject f now g)"
proof -
  assume inv: "gateway_inv g" and f: "f \<in> set (gw_flows g)" "fw_phase f = Queued"
  let ?e = "end_flow f now 503 g"
  have same: "gw_flows (gateway_reject f now g) = gw_flows ?e" "gw_admission (gateway_reject f now g) = gw_admission ?e"
    "gw_lib (gateway_reject f now g) = gw_lib ?e" "gw_config (gateway_reject f now g) = gw_config ?e"
    by (simp_all add: gateway_reject_def)
  have m: "gw_metrics (gateway_reject f now g) = (gw_metrics ?e)\<lparr>mt_admission_rejections := mt_admission_rejections (gw_metrics g) + 1\<rparr>"
    by (simp add: gateway_reject_def metrics_end_def metrics_rejected_def)
  have e: "gateway_inv ?e" using end_flow_inv [OF inv f(1)] f(2) by simp
  have counts: "mt_errors (gw_metrics ?e) = mt_errors (gw_metrics g) + 1"
      "mt_admission_rejections (gw_metrics ?e) = mt_admission_rejections (gw_metrics g)" by (simp_all add: metrics_end_def)
  have "metrics_ok g" "metrics_ok ?e" using inv e by (simp_all add: gateway_inv_def)
  then have "metrics_ok (gateway_reject f now g)" using counts
    unfolding metrics_ok_def same m by simp
  moreover have "admission_ok (gateway_reject f now g)" "list_all (flow_ok (gateway_reject f now g)) (gw_flows ?e)"
    using e flow_ok_cong [OF same(3,4)] unfolding gateway_inv_def admission_ok_def heavy_flows_def same
    by (simp_all add: list_all_iff)
  ultimately show ?thesis using e unfolding gateway_inv_def same by simp
qed

lemma finish_inv:
  assumes "gateway_inv g" and "f \<in> set (gw_flows g)" and "fw_phase f \<noteq> Queued"
  shows "gateway_inv (gateway_finish f now outcome g)"
proof (cases "fw_phase f = Serving_heavy")
  case False
  then show ?thesis using end_flow_inv [OF assms(1,2)] by (simp add: gateway_finish_def)
next
  case True
  define st where "st = (case outcome of Some status \<Rightarrow> status | None \<Rightarrow> 500)"
  let ?h = "g\<lparr>gw_admission := leave_slot (gw_admission g)\<rparr>"
  have fin: "gateway_finish f now outcome g = end_flow f now st ?h" using True by (simp add: gateway_finish_def st_def)
  have f: "f \<in> set (heavy_flows g)" using assms(2) True by (simp add: heavy_flows_def)
  have dist: "distinct (map fw_id (heavy_flows g))"
    using assms(1) by (simp add: gateway_inv_def heavy_flows_def distinct_map_filter)
  have "heavy_flows (end_flow f now st ?h) = filter (\<lambda>x. fw_id x \<noteq> fw_id f) (heavy_flows g)"
    by (simp add: heavy_flows_def conj_commute)
  then have heavy: "length (heavy_flows (end_flow f now st ?h)) = length (heavy_flows g) - 1"
    using drop_unique [OF dist f] f by (simp add: length_remove1)
  obtain n where n: "length (heavy_flows g) = Suc n" using f by (cases "heavy_flows g") auto
  have "metrics_ok ?h" using assms(1) by (simp add: gateway_inv_def metrics_ok_def)
  then have "metrics_ok (end_flow f now st ?h)"
    using assms(1,2) by (intro end_flow_metrics) (simp_all add: gateway_inv_def)
  then show ?thesis using assms(1) heavy n
    by (auto simp: fin gateway_inv_def admission_ok_def leave_slot_def list_all_iff distinct_map_filter flow_ok_def)
qed

lemma gateway_step_inv: "gateway_step g g' \<Longrightarrow> gateway_inv g \<Longrightarrow> gateway_inv g'"
  by (induction rule: gateway_step.induct) (auto intro: arrive_inv admit_inv rejected_inv end_flow_inv finish_inv)

lemma gateway_reachable_inv: "gateway_reachable g0 g \<Longrightarrow> gateway_inv g0 \<Longrightarrow> gateway_inv g"
  by (induction rule: gateway_reachable.induct) (auto intro: gateway_step_inv)

lemma gateway_step_frame:
  "gateway_step g g' \<Longrightarrow> gw_lib g' = gw_lib g \<and> gw_config g' = gw_config g \<and> am_limit (gw_admission g') = am_limit (gw_admission g)"
  by (induction rule: gateway_step.induct)
    (auto simp: gateway_arrive_def gateway_admit_def gateway_reject_def gateway_finish_def take_slot_def leave_slot_def
      split: sum.split)

lemma gateway_reachable_frame:
  "gateway_reachable g0 g \<Longrightarrow> gw_lib g = gw_lib g0 \<and> gw_config g = gw_config g0 \<and> am_limit (gw_admission g) = am_limit (gw_admission g0)"
  by (induction rule: gateway_reachable.induct) (auto dest: gateway_step_frame)

subsection \<open>Draining\<close>

lemma gateway_reachable_trans: "gateway_reachable g1 g2 \<Longrightarrow> gateway_reachable g0 g1 \<Longrightarrow> gateway_reachable g0 g2"
  by (induction rule: gateway_reachable.induct) (auto intro: gateway_reachable.step)

lemma flow_can_end:
  assumes "f \<in> set (gw_flows g)"
  shows "\<exists>g'. gateway_step g g' \<and> gw_flows g' = filter (\<lambda>x. fw_id x \<noteq> fw_id f) (gw_flows g)"
proof (cases "fw_phase f = Queued")
  case True
  with assms have "gateway_step g (gateway_reject f 0 g)" by (rule gateway_step.reject)
  then show ?thesis by (intro exI [of _ "gateway_reject f 0 g"]) (simp add: gateway_reject_def)
next
  case False
  with assms have "gateway_step g (gateway_finish f 0 None g)" by (rule gateway_step.finish)
  then show ?thesis by (intro exI [of _ "gateway_finish f 0 None g"]) (simp add: gateway_finish_def)
qed

lemma gateway_drains: "\<exists>g'. gateway_reachable g g' \<and> gw_flows g' = []"
proof (induction "length (gw_flows g)" arbitrary: g rule: less_induct)
  case less
  show ?case
  proof (cases "gw_flows g")
    case Nil
    then show ?thesis by (auto intro: gateway_reachable.start)
  next
    case (Cons f fs)
    then obtain g1 where g1: "gateway_step g g1" "gw_flows g1 = filter (\<lambda>x. fw_id x \<noteq> fw_id f) (gw_flows g)"
      using flow_can_end [of f g] by auto
    then have "length (gw_flows g1) < length (gw_flows g)" using Cons by (simp add: le_imp_less_Suc)
    from less [OF this] obtain g' where "gateway_reachable g1 g'" "gw_flows g' = []" by blast
    moreover have "gateway_reachable g g1" using g1(1) by (blast intro: gateway_reachable.intros)
    ultimately show ?thesis by (blast intro: gateway_reachable_trans)
  qed
qed

text \<open>
  C34: in every interleaving of arrivals, admissions, rejections, aborted waits and endings, at most the configured number of
  heavy requests (one, if less is configured) is served at once, and the free permits are exactly the remaining ones, so no
  permit is lost or created and a request waits only while the service is full; every request in flight passed the
  deployment boundary; active requests, totals per route and per status class, errors and rejections agree with each other;
  and every state can drain to one without requests in which all permits are free.
\<close>

theorem gateway_bounded:
  assumes "gateway_reachable (new_gateway lib cfg limit window) g"
  shows "int (length (heavy_flows g)) \<le> max 1 limit \<and>
    int (am_permits (gw_admission g)) = max 1 limit - int (length (heavy_flows g)) \<and>
    am_active (gw_admission g) = int (length (heavy_flows g)) \<and> am_max_active (gw_admission g) \<le> max 1 limit \<and>
    (\<forall>f \<in> set (gw_flows g). \<exists>d. authorize_request lib cfg (fw_request f) = Inr d \<and> ac_allowed d) \<and>
    mt_active (gw_metrics g) = int (length (gw_flows g)) \<and>
    counter_total (mt_routes (gw_metrics g)) = mt_requests (gw_metrics g) \<and>
    counter_total (mt_statuses (gw_metrics g)) = mt_requests (gw_metrics g) \<and>
    mt_admission_rejections (gw_metrics g) \<le> mt_errors (gw_metrics g) \<and> mt_errors (gw_metrics g) \<le> mt_requests (gw_metrics g) \<and>
    (\<exists>g'. gateway_reachable g g' \<and> gw_flows g' = [] \<and> int (am_permits (gw_admission g')) = max 1 limit)"
proof -
  have facts: "int (am_permits (gw_admission h)) + int (length (heavy_flows h)) = max 1 limit \<and> gateway_inv h \<and>
      gw_lib h = lib \<and> gw_config h = cfg" if "gateway_reachable (new_gateway lib cfg limit window) h" for h
  proof -
    note frame = gateway_reachable_frame [OF that]
    have inv: "gateway_inv h" using gateway_reachable_inv [OF that new_gateway_inv] .
    have "am_limit (gw_admission h) = nat (max 1 limit)" using frame by (simp add: new_gateway_def new_admission_def)
    moreover have "am_permits (gw_admission h) + length (heavy_flows h) = am_limit (gw_admission h)"
      using inv by (simp add: gateway_inv_def admission_ok_def)
    ultimately have "int (am_permits (gw_admission h) + length (heavy_flows h)) = max 1 limit" by simp
    then show ?thesis using inv frame by (simp add: new_gateway_def)
  qed
  obtain g' where g': "gateway_reachable g g'" "gw_flows g' = []" using gateway_drains by blast
  then have "heavy_flows g' = []" by (simp add: heavy_flows_def)
  with facts [OF gateway_reachable_trans [OF g'(1) assms]] g'
  have drain: "\<exists>g'. gateway_reachable g g' \<and> gw_flows g' = [] \<and> int (am_permits (gw_admission g')) = max 1 limit" by auto
  have "am_max_active (gw_admission g) \<le> max 1 limit"
    using facts [OF assms] by (simp add: gateway_inv_def admission_ok_def)
  then show ?thesis using facts [OF assms] drain
    by (auto simp: gateway_inv_def admission_ok_def metrics_ok_def flow_ok_def list_all_iff)
qed

theorem gateway_bounded_witness:
  "int (length (heavy_flows (gateway_arrive 0 0 (demo_http_request (replicate 32 CHR ''k''))
     (new_gateway demo_ip_lib demo_boundary 4 2048)))) \<le> 4"
proof -
  have "gateway_reachable (new_gateway demo_ip_lib demo_boundary 4 2048)
      (gateway_arrive 0 0 (demo_http_request (replicate 32 CHR ''k'')) (new_gateway demo_ip_lib demo_boundary 4 2048))"
    by (intro gateway_reachable.step [OF gateway_reachable.start] gateway_step.arrive) (simp add: new_gateway_def)
  from gateway_bounded [OF this] show ?thesis by simp
qed

end
