(* ===== verification/Loads.thy ===== *)
theory Loads
  imports Json
begin

section \<open>Reading JSON\<close>

text \<open>
  \<open>json.loads\<close> on text of single-byte characters: blanks between tokens, the escapes of strings in strict mode, the grammar
  of numbers, and objects as dictionaries, in which the last value of a repeated key wins. The value of a float literal is a
  parameter. Escapes of characters above 255 and the constants \<open>NaN\<close> and \<open>Infinity\<close> have no value in the model and
  are refused. The fuel bounds the tokens left; the length of the text is always enough (\<open>loads_dumps\<close>).
\<close>

text \<open>Dictionaries: a key is set or removed.\<close>

fun set_key :: "'k \<Rightarrow> 'v \<Rightarrow> ('k \<times> 'v) list \<Rightarrow> ('k \<times> 'v) list" where
  "set_key k v [] = [(k, v)]"
| "set_key k v ((k', v') # rest) = (if k' = k then (k, v) # rest else (k', v') # set_key k v rest)"

definition del_key :: "'k \<Rightarrow> ('k \<times> 'v) list \<Rightarrow> ('k \<times> 'v) list" where
  "del_key k kvs = filter (\<lambda>kv. fst kv \<noteq> k) kvs"

definition dict_of :: "('k \<times> 'v) list \<Rightarrow> ('k \<times> 'v) list" where
  "dict_of kvs = foldl (\<lambda>d kv. set_key (fst kv) (snd kv) d) [] kvs"

lemma map_of_set_key: "map_of (set_key k v kvs) k' = (if k' = k then Some v else map_of kvs k')"
  by (induction k v kvs rule: set_key.induct) auto

lemma map_of_del_key: "map_of (del_key k kvs) k' = (if k' = k then None else map_of kvs k')"
  by (induction kvs) (auto simp: del_key_def)

lemma set_key_fresh: "k \<notin> fst ` set kvs \<Longrightarrow> set_key k v kvs = kvs @ [(k, v)]"
  by (induction k v kvs rule: set_key.induct) auto

lemma dict_of_distinct: "distinct (map fst kvs) \<Longrightarrow> dict_of kvs = kvs"
proof -
  have "distinct (map fst (d @ kvs)) \<Longrightarrow> foldl (\<lambda>d kv. set_key (fst kv) (snd kv) d) d kvs = d @ kvs" for d
    by (induction kvs arbitrary: d) (auto simp: set_key_fresh)
  from this [of "[]"] show "distinct (map fst kvs) \<Longrightarrow> dict_of kvs = kvs" by (simp add: dict_of_def)
qed

subsection \<open>Tokens\<close>

definition skip_blanks :: "string \<Rightarrow> string" where
  "skip_blanks s = dropWhile (\<lambda>c. c \<in> {CHR '' '', CHR 0x09, CHR 0x0A, CHR 0x0D}) s"

definition hex_nibble :: "char \<Rightarrow> nat option" where
  "hex_nibble c =
     (if is_digit c then Some (ord c - 48)
      else if 97 \<le> ord c \<and> ord c \<le> 102 then Some (ord c - 87)
      else if 65 \<le> ord c \<and> ord c \<le> 70 then Some (ord c - 55) else None)"

definition letter_escapes :: "(char \<times> char) list" where
  "letter_escapes =
     [(CHR 0x22, CHR 0x22), (CHR 0x5C, CHR 0x5C), (CHR ''/'', CHR ''/''), (CHR ''b'', CHR 0x08), (CHR ''f'', CHR 0x0C),
      (CHR ''n'', CHR 0x0A), (CHR ''r'', CHR 0x0D), (CHR ''t'', CHR 0x09)]"

definition hex_escape :: "char \<Rightarrow> char \<Rightarrow> char \<Rightarrow> char \<Rightarrow> char option" where
  "hex_escape a b h l =
     (case (hex_nibble a, hex_nibble b, hex_nibble h, hex_nibble l) of
        (Some 0, Some 0, Some h', Some l') \<Rightarrow> Some (char_of (16 * h' + l'))
      | _ \<Rightarrow> None)"

text \<open>The characters of a string after its opening quote, and the text behind the closing one.\<close>

fun read_chars :: "string \<Rightarrow> (string \<times> string) option" where
  "read_chars [] = None"
| "read_chars (c # r) =
     (if c = CHR 0x22 then Some ([], r)
      else if c = CHR 0x5C then
        (case r of
           e # r' \<Rightarrow>
             if e = CHR ''u'' then
               (case r' of
                  a # b # h # l # r'' \<Rightarrow>
                    (case hex_escape a b h l of
                       None \<Rightarrow> None
                     | Some d \<Rightarrow> map_option (apfst ((#) d)) (read_chars r''))
                | _ \<Rightarrow> None)
             else (case map_of letter_escapes e of
                     None \<Rightarrow> None
                   | Some d \<Rightarrow> map_option (apfst ((#) d)) (read_chars r'))
         | [] \<Rightarrow> None)
      else if ord c < 32 then None
      else map_option (apfst ((#) c)) (read_chars r))"

definition digits_before :: "string \<Rightarrow> string \<times> string" where
  "digits_before s = (takeWhile is_digit s, dropWhile is_digit s)"

text \<open>\<open>(-?(?:0|[1-9]\d*))(\.\d+)?([eE][-+]?\d+)?\<close>, matched by the whole token; whether it is an integer literal.\<close>

definition int_part :: "string \<Rightarrow> (string \<times> string) option" where
  "int_part s =
     (let (sign, body) = (if take 1 s = ''-'' then (''-'', drop 1 s) else ([], s)); (ds, rest) = digits_before body
      in if ds = [] \<or> (hd ds = CHR ''0'' \<and> 1 < length ds) then None else Some (sign @ ds, rest))"

definition frac_part :: "string \<Rightarrow> string option" where
  "frac_part s =
     (if take 1 s = ''.'' then let (ds, rest) = digits_before (drop 1 s) in if ds = [] then None else Some rest else Some s)"

definition exp_part :: "string \<Rightarrow> string option" where
  "exp_part s =
     (if take 1 s \<in> {''e'', ''E''}
      then let body = drop 1 s; (ds, rest) = digits_before (if take 1 body \<in> {''-'', ''+''} then drop 1 body else body)
        in if ds = [] then None else Some rest
      else Some s)"

definition is_int_token :: "string \<Rightarrow> bool" where
  "is_int_token t = (case int_part t of Some (_, rest) \<Rightarrow> rest = [] | None \<Rightarrow> False)"

definition is_float_token :: "string \<Rightarrow> bool" where
  "is_float_token t =
     (case int_part t of
        Some (_, rest) \<Rightarrow> rest \<noteq> [] \<and> (case frac_part rest of Some r \<Rightarrow> exp_part r = Some [] | None \<Rightarrow> False)
      | None \<Rightarrow> False)"

definition int_of_token :: "string \<Rightarrow> int" where
  "int_of_token t = (if take 1 t = ''-'' then - int (digits_value (drop 1 t)) else int (digits_value t))"

definition is_token_char :: "char \<Rightarrow> bool" where
  "is_token_char c \<longleftrightarrow> is_num_char c \<or> c = CHR ''E''"

definition read_number :: "(string \<Rightarrow> rat) \<Rightarrow> string \<Rightarrow> (json \<times> string) option" where
  "read_number fr s =
     (let t = takeWhile is_token_char s; r = dropWhile is_token_char s
      in if is_int_token t then Some (JInt (int_of_token t), r)
         else if is_float_token t then Some (JFloat (fr t), r) else None)"

subsection \<open>Documents\<close>

fun read_value :: "(string \<Rightarrow> rat) \<Rightarrow> nat \<Rightarrow> string \<Rightarrow> (json \<times> string) option"
  and read_items :: "(string \<Rightarrow> rat) \<Rightarrow> nat \<Rightarrow> string \<Rightarrow> (json list \<times> string) option"
  and read_members :: "(string \<Rightarrow> rat) \<Rightarrow> nat \<Rightarrow> string \<Rightarrow> ((string \<times> json) list \<times> string) option" where
  "read_value fr 0 s = None"
| "read_value fr (Suc n) s =
     (case s of
        [] \<Rightarrow> None
      | c # r \<Rightarrow>
          if c = CHR 0x22 then map_option (apfst JStr) (read_chars r)
          else if c = CHR ''{'' then
            (let r' = skip_blanks r in
             if take 1 r' = ''}'' then Some (JObj [], drop 1 r')
             else map_option (apfst (\<lambda>kvs. JObj (dict_of kvs))) (read_members fr n r'))
          else if c = CHR ''['' then
            (let r' = skip_blanks r in
             if take 1 r' = '']'' then Some (JArr [], drop 1 r')
             else map_option (apfst JArr) (read_items fr n r'))
          else if take 4 s = ''null'' then Some (JNull, drop 4 s)
          else if take 4 s = ''true'' then Some (JBool True, drop 4 s)
          else if take 5 s = ''false'' then Some (JBool False, drop 5 s)
          else read_number fr s)"
| "read_items fr 0 s = None"
| "read_items fr (Suc n) s =
     (case read_value fr n s of
        None \<Rightarrow> None
      | Some (j, r) \<Rightarrow>
          (case skip_blanks r of
             [] \<Rightarrow> None
           | c # r' \<Rightarrow>
               if c = CHR '','' then map_option (apfst ((#) j)) (read_items fr n (skip_blanks r'))
               else if c = CHR '']'' then Some ([j], r') else None))"
| "read_members fr 0 s = None"
| "read_members fr (Suc n) s =
     (if take 1 s \<noteq> [CHR 0x22] then None
      else case read_chars (drop 1 s) of
        None \<Rightarrow> None
      | Some (k, r) \<Rightarrow>
          (let colon = skip_blanks r in
           if take 1 colon \<noteq> '':'' then None
           else case read_value fr n (skip_blanks (drop 1 colon)) of
             None \<Rightarrow> None
           | Some (j, r) \<Rightarrow>
               (case skip_blanks r of
                  [] \<Rightarrow> None
                | c # r' \<Rightarrow>
                    if c = CHR '','' then map_option (apfst ((#) (k, j))) (read_members fr n (skip_blanks r'))
                    else if c = CHR ''}'' then Some ([(k, j)], r') else None)))"

definition loads :: "(string \<Rightarrow> rat) \<Rightarrow> string \<Rightarrow> json option" where
  "loads fr s =
     (case read_value fr (Suc (length s)) (skip_blanks s) of
        Some (j, r) \<Rightarrow> if skip_blanks r = [] then Some j else None
      | None \<Rightarrow> None)"

subsection \<open>Writing with blanks\<close>

text \<open>
  \<open>json.dumps(j, sort_keys=True, ...)\<close> with separators and an indentation; without an indentation the
  default separators are \<open>", "\<close> and \<open>": "\<close>, with one \<open>","\<close> and \<open>": "\<close>.
\<close>

record json_style =
  js_item :: string
  js_key :: string
  js_indent :: "nat option"

definition compact_style :: json_style where
  "compact_style = \<lparr>js_item = '','', js_key = '':'', js_indent = None\<rparr>"

definition default_style :: json_style where
  "default_style = \<lparr>js_item = '', '', js_key = '': '', js_indent = None\<rparr>"

definition indent_style :: json_style where
  "indent_style = \<lparr>js_item = '','', js_key = '': '', js_indent = Some 2\<rparr>"

definition new_line :: "json_style \<Rightarrow> nat \<Rightarrow> string" where
  "new_line st level = (case js_indent st of None \<Rightarrow> [] | Some n \<Rightarrow> CHR 0x0A # replicate (n * level) CHR '' '')"

primrec render_styled :: "json_style \<Rightarrow> (rat \<Rightarrow> string) \<Rightarrow> bool \<Rightarrow> json \<Rightarrow> nat \<Rightarrow> string" where
  "render_styled st fl ea JNull = (\<lambda>level. ''null'')"
| "render_styled st fl ea (JBool b) = (\<lambda>level. if b then ''true'' else ''false'')"
| "render_styled st fl ea (JInt i) = (\<lambda>level. show_int i)"
| "render_styled st fl ea (JFloat q) = (\<lambda>level. fl q)"
| "render_styled st fl ea (JStr s) = (\<lambda>level. render_string ea s)"
| "render_styled st fl ea (JArr js) = (\<lambda>level.
     if js = [] then ''[]''
     else ''['' @ new_line st (level + 1) @
       join (js_item st @ new_line st (level + 1)) (map (\<lambda>f. f (level + 1)) (map (render_styled st fl ea) js)) @
       new_line st level @ '']'')"
| "render_styled st fl ea (JObj kvs) = (\<lambda>level.
     if kvs = [] then ''{}''
     else ''{'' @ new_line st (level + 1) @
       join (js_item st @ new_line st (level + 1))
         (map (\<lambda>kv. render_string ea (fst kv) @ js_key st @ snd kv (level + 1))
            (map (map_prod id (render_styled st fl ea)) kvs)) @
       new_line st level @ ''}'')"

definition dumps_styled :: "json_style \<Rightarrow> runtime \<Rightarrow> bool \<Rightarrow> json \<Rightarrow> string" where
  "dumps_styled st rt ea j = render_styled st (rt_float rt) ea (canon j) 0"

lemma render_compact: "render_styled compact_style fl ea j level = render fl ea j"
proof (induction j arbitrary: level)
  case (JArr js)
  then have "map (\<lambda>f. f (level + 1)) (map (render_styled compact_style fl ea) js) = map (render fl ea) js" by simp
  moreover have "js_item compact_style = '',''" "new_line compact_style n = []" for n
    by (simp_all add: compact_style_def new_line_def)
  ultimately show ?case by (simp del: map_map)
next
  case (JObj kvs)
  then have "map (\<lambda>kv. render_string ea (fst kv) @ '':'' @ snd kv (level + 1)) (map (map_prod id (render_styled compact_style fl ea)) kvs) =
      map (\<lambda>kv. render_string ea (fst kv) @ '':'' @ snd kv) (map (map_prod id (render fl ea)) kvs)"
    by (fastforce simp: snds.simps)
  moreover have "js_item compact_style = '',''" "js_key compact_style = '':''" "new_line compact_style n = []" for n
    by (simp_all add: compact_style_def new_line_def)
  ultimately show ?case by (simp del: map_map)
qed simp_all

lemma dumps_compact: "dumps_styled compact_style rt ea j = dumps rt ea j"
  by (simp add: dumps_styled_def dumps_def render_compact)

lemma dumps_styled_canon: "canon a = canon b \<Longrightarrow> dumps_styled st rt ea a = dumps_styled st rt ea b"
  by (simp add: dumps_styled_def)

subsection \<open>Reading inverts writing\<close>

text \<open>What a Python value is: the keys of every dictionary are distinct.\<close>

primrec wf_json :: "json \<Rightarrow> bool" where
  "wf_json JNull = True"
| "wf_json (JBool _) = True"
| "wf_json (JInt _) = True"
| "wf_json (JFloat _) = True"
| "wf_json (JStr _) = True"
| "wf_json (JArr js) = list_all id (map wf_json js)"
| "wf_json (JObj kvs) = (distinct (map fst kvs) \<and> list_all snd (map (map_prod id wf_json) kvs))"

lemma wf_json_canon [simp]: "wf_json (canon j) = wf_json j"
proof (induction j)
  case (JArr js)
  then show ?case by (auto simp: list_all_iff)
next
  case (JObj kvs)
  have "distinct (map fst (sort_key fst (map (map_prod id canon) kvs))) = distinct (map fst kvs)"
  proof -
    have "mset (map fst (sort_key fst (map (map_prod id canon) kvs))) = mset (map fst kvs)"
      by (simp add: multiset.map_comp comp_def)
    then show ?thesis by (metis mset_eq_imp_distinct_iff)
  qed
  with JObj show ?case by (fastforce simp: list_all_iff snds.simps)
qed simp_all

text \<open>What \<open>float(text)\<close> and \<open>float.__repr__\<close> document: the text of a float is a float literal that reads back.\<close>

definition float_reads :: "(rat \<Rightarrow> string) \<Rightarrow> (string \<Rightarrow> rat) \<Rightarrow> bool" where
  "float_reads fl fr \<longleftrightarrow> (\<forall>q. list_all is_token_char (fl q) \<and> is_float_token (fl q) \<and> fr (fl q) = q)"

lemma hex_nibble_digit: "n < 16 \<Longrightarrow> hex_nibble (hex_digit n) = Some n"
  by (auto simp: hex_nibble_def hex_digit_def is_digit_def ord_char_of)

lemma read_chars_escape: "read_chars (escape_char ea c @ r) = map_option (apfst ((#) c)) (read_chars r)"
proof -
  have "ord c mod 16 < 16" by simp
  then have hex: "hex_escape (CHR ''0'') (CHR ''0'') (hex_digit (ord c div 16)) (hex_digit (ord c mod 16)) = Some c"
    unfolding hex_escape_def by (simp add: hex_nibble_digit ord_div_16 char_of_hex)
      (simp add: hex_nibble_def is_digit_def ord_def)
  consider (quote) "c = CHR 0x22 \<or> c = CHR 0x5C"
    | (ctl) n where "c \<noteq> CHR 0x22" "c \<noteq> CHR 0x5C" "ord c = n" "n \<in> {8, 9, 10, 12, 13}"
    | (other) "c \<noteq> CHR 0x22" "c \<noteq> CHR 0x5C" "ord c \<notin> {8, 9, 10, 12, 13}"
    by blast
  then show ?thesis
  proof cases
    case quote
    then show ?thesis by (auto simp: escape_char_def letter_escapes_def)
  next
    case ctl
    have c: "c = char_of n" unfolding \<open>ord c = n\<close> [symmetric] by simp
    have "char_of (8::nat) = CHR 0x08" "char_of (9::nat) = CHR 0x09" "char_of (10::nat) = CHR 0x0A"
      "char_of (12::nat) = CHR 0x0C" "char_of (13::nat) = CHR 0x0D" by code_simp+
    with ctl(3,4) have "c \<in> {CHR 0x08, CHR 0x09, CHR 0x0A, CHR 0x0C, CHR 0x0D}" unfolding c by auto
    then show ?thesis by (auto simp: escape_char_def letter_escapes_def ord_def)
  next
    case other
    then show ?thesis using hex by (simp add: escape_char_def)
  qed
qed

lemma read_chars_render: "read_chars (concat (map (escape_char ea) s) @ CHR 0x22 # r) = Some (s, r)"
  by (induction s) (simp_all add: read_chars_escape)

text \<open>Where a token ends.\<close>

definition ends_token :: "string \<Rightarrow> bool" where
  "ends_token r \<longleftrightarrow> r = [] \<or> \<not> is_token_char (hd r)"

definition is_blank :: "char \<Rightarrow> bool" where
  "is_blank c \<longleftrightarrow> c \<in> {CHR '' '', CHR 0x09, CHR 0x0A, CHR 0x0D}"

lemma ends_token_intros [simp]:
  "ends_token []" "ends_token (CHR '','' # r)" "ends_token (CHR '']'' # r)" "ends_token (CHR ''}'' # r)"
  by (simp_all add: ends_token_def is_token_char_def is_num_char_def is_digit_def ord_def)

lemma ends_token_blanks: "list_all is_blank u \<Longrightarrow> ends_token r \<Longrightarrow> ends_token (u @ r)"
  by (cases u) (auto simp: ends_token_def is_blank_def is_token_char_def is_num_char_def is_digit_def ord_def)

lemma token_split:
  assumes "list_all is_token_char t" and "ends_token r"
  shows "takeWhile is_token_char (t @ r) = t" and "dropWhile is_token_char (t @ r) = r"
  using assms by (cases r; auto simp: ends_token_def takeWhile_append2 dropWhile_append2 list_all_iff)+

lemma digits_before_all: "list_all is_digit s \<Longrightarrow> digits_before s = (s, [])"
  by (simp add: digits_before_def list_all_iff takeWhile_eq_all_conv dropWhile_eq_Nil_conv)

lemma hd_show_nat_zero: "hd (show_nat n) = CHR ''0'' \<Longrightarrow> show_nat n = ''0''"
proof (induction n rule: show_nat.induct)
  case (1 n)
  show ?case
  proof (cases "n < 10")
    case True
    then show ?thesis using 1 by (simp add: show_nat.simps [of n])
  next
    case False
    then have "hd (show_nat (n div 10)) = CHR ''0''" using 1 by (simp add: show_nat.simps [of n])
    with 1 False have "show_nat (n div 10) = ''0''" by simp
    then have "digits_value (show_nat (n div 10)) = 0" by (simp add: digits_value_def ord_def)
    then have "n div 10 = 0" by (simp add: digits_value_show_nat)
    with False show ?thesis by simp
  qed
qed

lemma int_part_show: "int_part (show_int i) = Some (show_int i, [])"
proof -
  have minus: "take 1 (show_nat n) \<noteq> ''-''" for n
    using hd_show_nat [of n] digit_not_minus by (cases "show_nat n") auto
  have "\<not> (hd (show_nat n) = CHR ''0'' \<and> 1 < length (show_nat n))" for n
    using hd_show_nat_zero [of n] by auto
  then show ?thesis using minus
    by (auto simp: int_part_def show_int_def digits_before_all show_nat_digits)
qed

lemma read_show_int:
  assumes "ends_token r"
  shows "read_number fr (show_int i @ r) = Some (JInt i, r)"
proof -
  have t: "list_all is_token_char (show_int i)"
    using show_int_num [of i] by (auto simp: list_all_iff is_token_char_def)
  have minus: "take 1 (show_nat n) \<noteq> ''-''" for n
    using hd_show_nat [of n] digit_not_minus by (cases "show_nat n") auto
  have "int_of_token (show_int i) = i"
    using minus by (auto simp: int_of_token_def show_int_def digits_value_show_nat)
  then show ?thesis by (simp add: read_number_def token_split [OF t assms] is_int_token_def int_part_show)
qed

lemma read_float_text:
  assumes "float_reads fl fr" and "ends_token r"
  shows "read_number fr (fl q @ r) = Some (JFloat q, r)"
proof -
  from assms(1) have t: "list_all is_token_char (fl q)" "is_float_token (fl q)" "fr (fl q) = q"
    by (simp_all add: float_reads_def)
  have "\<not> is_int_token (fl q)" using t(2) by (auto simp: is_int_token_def is_float_token_def split: option.splits)
  with t show ?thesis by (simp add: read_number_def token_split [OF t(1) assms(2)])
qed

text \<open>No value starts with a blank or a closing bracket.\<close>

lemma read_number_start:
  assumes "read_number fr s = Some (j, r)"
  shows "is_digit (hd s) \<or> hd s = CHR ''-''"
proof -
  let ?t = "takeWhile is_token_char s"
  have part: "is_digit (hd t) \<or> hd t = CHR ''-''" if "int_part t \<noteq> None" for t
  proof (cases t)
    case (Cons c u)
    with that show ?thesis by (cases "c = CHR ''-''") (auto simp: int_part_def digits_before_def Let_def split: if_splits)
  qed (use that in \<open>simp add: int_part_def digits_before_def\<close>)
  have "int_part ?t \<noteq> None"
    using assms by (auto simp: read_number_def is_int_token_def is_float_token_def Let_def split: if_splits option.splits)
  moreover have "?t \<noteq> []" using calculation by (auto simp: int_part_def digits_before_def)
  ultimately show ?thesis using part [of ?t] by (cases s) (auto split: if_splits)
qed

lemma render_start:
  assumes "float_reads fl fr"
  shows "\<exists>c t. render_styled st fl ea j level = c # t \<and> char_kind c = json_kind j"
proof (cases j)
  case (JFloat q)
  have "read_number fr (fl q @ []) = Some (JFloat q, [])" by (rule read_float_text [OF assms]) simp
  then have "is_digit (hd (fl q)) \<or> hd (fl q) = CHR ''-''" by (intro read_number_start) simp
  moreover have "fl q \<noteq> []"
  proof
    assume "fl q = []"
    then have "is_float_token []" using assms unfolding float_reads_def by metis
    then show False by (simp add: is_float_token_def int_part_def digits_before_def)
  qed
  ultimately show ?thesis by (cases "fl q") (auto simp: JFloat char_kind_num)
next
  case (JInt i)
  then show ?thesis using show_int_hd [of i] show_int_not_Nil [of i] by (cases "show_int i") (auto simp: char_kind_num)
qed (auto simp: render_string_def char_kind_def)

lemma skip_blanks_append: "list_all is_blank u \<Longrightarrow> skip_blanks (u @ s) = skip_blanks s"
  by (induction u) (auto simp: skip_blanks_def is_blank_def)

lemma no_blank: "char_kind c < 6 \<Longrightarrow> skip_blanks (c # s) = c # s"
  by (auto simp: skip_blanks_def char_kind_def is_digit_def ord_def split: if_splits)

lemma skip_render:
  assumes "float_reads fl fr"
  shows "skip_blanks (render_styled st fl ea j level @ r) = render_styled st fl ea j level @ r"
proof -
  from render_start [OF assms] obtain c t where c: "render_styled st fl ea j level = c # t" "char_kind c = json_kind j"
    by blast
  have "json_kind j < 6" by (cases j) simp_all
  with c show ?thesis by (simp add: no_blank)
qed

lemma skip_punctuation [simp]:
  "skip_blanks (CHR '','' # s) = CHR '','' # s" "skip_blanks (CHR '']'' # s) = CHR '']'' # s"
  "skip_blanks (CHR ''}'' # s) = CHR ''}'' # s" "skip_blanks (CHR '':'' # s) = CHR '':'' # s"
  "skip_blanks (CHR 0x22 # s) = CHR 0x22 # s" "skip_blanks [] = []"
  by (simp_all add: skip_blanks_def)

text \<open>A value that reads back before any end of a token, with enough fuel.\<close>

definition reads_as :: "(string \<Rightarrow> rat) \<Rightarrow> string \<Rightarrow> json \<Rightarrow> bool" where
  "reads_as fr t j \<longleftrightarrow> (\<forall>n r. ends_token r \<longrightarrow> length t < n \<longrightarrow> read_value fr n (t @ r) = Some (j, r))"

lemma reads_asD: "reads_as fr t j \<Longrightarrow> ends_token r \<Longrightarrow> length t < n \<Longrightarrow> read_value fr n (t @ r) = Some (j, r)"
  unfolding reads_as_def by blast

lemma reads_as_join:
  assumes "reads_as fr t j" and "length t < n" and "list_all is_blank w" and "c = CHR '','' \<or> c = CHR '']'' \<or> c = CHR ''}''"
  shows "read_value fr n (t @ w @ c # r) = Some (j, w @ c # r)"
  using assms ends_token_blanks [of w "c # r"] by (auto simp: reads_as_def)

lemma read_items_join:
  fixes R :: "json \<Rightarrow> string"
  assumes "\<forall>j \<in> set js. reads_as fr (R j) j" and "\<forall>j \<in> set js. \<forall>r. skip_blanks (R j @ r) = R j @ r" and "js \<noteq> []"
    and "list_all is_blank u" and "list_all is_blank w" and "length (join (CHR '','' # u) (map R js)) + 1 < n"
  shows "read_items fr n (join (CHR '','' # u) (map R js) @ w @ CHR '']'' # r) = Some (js, r)"
  using assms
proof (induction js arbitrary: n)
  case (Cons j js)
  from Cons.prems(6) obtain m where n: "n = Suc m" by (cases n) auto
  have m: "length (R j) < m" using Cons.prems(6) n by (cases js) auto
  have j: "reads_as fr (R j) j" using Cons.prems(1) by simp
  show ?case
  proof (cases js)
    case Nil
    then show ?thesis using reads_as_join [OF j m Cons.prems(5)] skip_blanks_append [OF Cons.prems(5)] by (simp add: n)
  next
    case (Cons k ks)
    let ?s = "join (CHR '','' # u) (map R js) @ w @ CHR '']'' # r"
    have "read_items fr m ?s = Some (js, r)"
      using Cons.prems Cons n by (intro Cons.IH) auto
    moreover have "skip_blanks ?s = ?s" using Cons.prems(2) Cons by (cases ks) auto
    moreover have "read_value fr m (R j @ [] @ CHR '','' # u @ ?s) = Some (j, [] @ CHR '','' # u @ ?s)"
      using reads_as_join [OF j m, of "[]"] by simp
    ultimately show ?thesis using skip_blanks_append [OF Cons.prems(4)] by (simp add: Cons n)
  qed
qed simp

lemma read_members_join:
  fixes R :: "json \<Rightarrow> string" and ea :: bool
  defines "M \<equiv> \<lambda>v kv. render_string ea (fst kv) @ CHR '':'' # v @ R (snd kv)"
  assumes "\<forall>kv \<in> set kvs. reads_as fr (R (snd kv)) (snd kv)" and "\<forall>kv \<in> set kvs. \<forall>r. skip_blanks (R (snd kv) @ r) = R (snd kv) @ r"
    and "kvs \<noteq> []" and "list_all is_blank u" and "list_all is_blank v" and "list_all is_blank w"
    and "length (join (CHR '','' # u) (map (M v) kvs)) + 1 < n"
  shows "read_members fr n (join (CHR '','' # u) (map (M v) kvs) @ w @ CHR ''}'' # r) = Some (kvs, r)"
  using assms(2-)
proof (induction kvs arbitrary: n)
  case (Cons kv kvs)
  from Cons.prems(7) obtain m where n: "n = Suc m" by (cases n) auto
  have m: "length (R (snd kv)) < m" using Cons.prems(7) n by (cases kvs) (auto simp: M_def)
  have kv: "reads_as fr (R (snd kv)) (snd kv)" using Cons.prems(1) by simp
  have member: "read_members fr n (M v kv @ x @ c # y) =
      (if c = CHR '','' then map_option (apfst ((#) kv)) (read_members fr m (skip_blanks y))
       else if c = CHR ''}'' then Some ([kv], y) else None)"
    if c: "c = CHR '','' \<or> c = CHR ''}''" and x: "list_all is_blank x" for c x y
  proof -
    have "take 1 (M v kv @ x @ c # y) = [CHR 0x22]"
      "read_chars (drop 1 (M v kv @ x @ c # y)) = Some (fst kv, CHR '':'' # v @ R (snd kv) @ x @ c # y)"
      by (simp_all add: M_def render_string_def read_chars_render)
    moreover have "skip_blanks (v @ R (snd kv) @ x @ c # y) = R (snd kv) @ x @ c # y"
      using Cons.prems(2) by (simp add: skip_blanks_append [OF Cons.prems(5)])
    moreover have "read_value fr m (R (snd kv) @ x @ c # y) = Some (snd kv, x @ c # y)"
      using reads_as_join [OF kv m x] c by blast
    moreover have "skip_blanks (x @ c # y) = c # y" using c by (auto simp: skip_blanks_append [OF x])
    ultimately show ?thesis unfolding n read_members.simps by (simp add: Let_def)
  qed
  show ?case
  proof (cases kvs)
    case Nil
    then show ?thesis using member [of "CHR ''}''" w r] Cons.prems(6) by simp
  next
    case (Cons l ls)
    let ?s = "join (CHR '','' # u) (map (M v) kvs) @ w @ CHR ''}'' # r"
    have "read_members fr m ?s = Some (kvs, r)"
      using Cons.prems Cons n by (intro Cons.IH) auto
    moreover have "skip_blanks ?s = ?s" using Cons by (cases ls) (auto simp: M_def render_string_def)
    ultimately show ?thesis using member [of "CHR '',''" "[]" "u @ ?s"] skip_blanks_append [OF Cons.prems(4)] by (simp add: Cons)
  qed
qed simp

definition style_ok :: "json_style \<Rightarrow> bool" where
  "style_ok st \<longleftrightarrow> (\<exists>u v. js_item st = CHR '','' # u \<and> js_key st = CHR '':'' # v \<and> list_all is_blank u \<and> list_all is_blank v)"

lemma styles_ok [simp]: "style_ok compact_style" "style_ok default_style" "style_ok indent_style"
  by (simp_all add: style_ok_def compact_style_def default_style_def indent_style_def is_blank_def)

lemma new_line_blank: "list_all is_blank (new_line st level)"
  by (auto simp: new_line_def is_blank_def list_all_iff split: option.split)

lemma read_start:
  "skip_blanks r = c # r' \<Longrightarrow> c \<noteq> CHR '']'' \<Longrightarrow>
    read_value fr (Suc n) (CHR ''['' # r) = map_option (apfst JArr) (read_items fr n (skip_blanks r))"
  "skip_blanks r = c # r' \<Longrightarrow> c \<noteq> CHR ''}'' \<Longrightarrow>
    read_value fr (Suc n) (CHR ''{'' # r) = map_option (apfst (\<lambda>kvs. JObj (dict_of kvs))) (read_members fr n (skip_blanks r))"
  by simp_all

lemma read_atom:
  assumes "c \<noteq> CHR 0x22" and "c \<noteq> CHR ''{''" and "c \<noteq> CHR ''[''" and "c \<noteq> CHR ''n''" and "c \<noteq> CHR ''t''" and "c \<noteq> CHR ''f''"
  shows "read_value fr (Suc n) (c # s) = read_number fr (c # s)"
  using assms by simp

lemma read_render:
  assumes "float_reads fl fr" and "style_ok st" and "wf_json j"
  shows "reads_as fr (render_styled st fl ea j level) j"
  using assms(3)
proof (induction j arbitrary: level)
  case (JArr js)
  from assms(2) obtain u where u: "js_item st = CHR '','' # u" "list_all is_blank u" by (auto simp: style_ok_def)
  let ?R = "\<lambda>j. render_styled st fl ea j (level + 1)"
  have items: "\<forall>j \<in> set js. reads_as fr (?R j) j" using JArr by (auto simp: list_all_iff)
  have shown: "render_styled st fl ea (JArr js) level = CHR ''['' # new_line st (level + 1) @
      join (CHR '','' # u @ new_line st (level + 1)) (map ?R js) @ new_line st level @ '']''" if "js \<noteq> []"
    using that by (simp add: u(1) comp_def)
  show ?case unfolding reads_as_def
  proof (intro allI impI)
    fix n r
    assume n: "length (render_styled st fl ea (JArr js) level) < n"
    then obtain m where m: "n = Suc m" by (cases n) auto
    show "read_value fr n (render_styled st fl ea (JArr js) level @ r) = Some (JArr js, r)"
    proof (cases js)
      case (Cons k ks)
      then have ne: "js \<noteq> []" by simp
      let ?s = "join (CHR '','' # u @ new_line st (level + 1)) (map ?R js) @ new_line st level @ CHR '']'' # r"
      obtain c t where c: "?R k = c # t" "char_kind c = json_kind k" using render_start [OF assms(1)] by blast
      have s: "?s = c # drop 1 ?s" using c(1) Cons by (cases ks) simp_all
      have start: "c \<noteq> CHR '']''" "char_kind c < 6" using c(2) by (cases k; auto simp: char_kind_def)+
      then have skip: "skip_blanks (new_line st (level + 1) @ ?s) = ?s"
        unfolding skip_blanks_append [OF new_line_blank] by (subst (1 2) s) (rule no_blank)
      have "read_items fr m ?s = Some (js, r)"
        using n m Cons u(2) new_line_blank skip_render [OF assms(1)] unfolding shown [OF ne]
        by (intro read_items_join [OF items]) simp_all
      then have "read_value fr (Suc m) (CHR ''['' # new_line st (level + 1) @ ?s) = Some (JArr js, r)"
        using read_start(1) [OF trans [OF skip s] start(1)] unfolding skip by simp
      moreover have "render_styled st fl ea (JArr js) level @ r = CHR ''['' # new_line st (level + 1) @ ?s"
        using shown Cons by (simp del: render_styled.simps)
      ultimately show ?thesis by (simp only: m)
    qed (simp add: m)
  qed
next
  case (JStr s)
  show ?case by (auto simp: reads_as_def render_string_def read_chars_render elim: lessE)
next
  case (JInt i)
  show ?case unfolding reads_as_def
  proof (intro allI impI)
    fix n r
    assume r: "ends_token r" and "length (render_styled st fl ea (JInt i) level) < n"
    then obtain m where m: "n = Suc m" by (cases n) auto
    obtain c t where c: "show_int i = c # t" "char_kind c = 2" using render_start [OF assms(1), of st ea "JInt i" level] by auto
    then have "read_value fr n ((c # t) @ r) = read_number fr ((c # t) @ r)"
      unfolding m append_Cons by (intro read_atom) (auto simp: char_kind_def)
    then show "read_value fr n (render_styled st fl ea (JInt i) level @ r) = Some (JInt i, r)"
      using read_show_int [OF r, of fr i] c(1) by (simp del: read_value.simps)
  qed
next
  case (JFloat q)
  show ?case unfolding reads_as_def
  proof (intro allI impI)
    fix n r
    assume r: "ends_token r" and "length (render_styled st fl ea (JFloat q) level) < n"
    then obtain m where m: "n = Suc m" by (cases n) auto
    obtain c t where c: "fl q = c # t" "char_kind c = 2" using render_start [OF assms(1), of st ea "JFloat q" level] by auto
    then have "read_value fr n ((c # t) @ r) = read_number fr ((c # t) @ r)"
      unfolding m append_Cons by (intro read_atom) (auto simp: char_kind_def)
    then show "read_value fr n (render_styled st fl ea (JFloat q) level @ r) = Some (JFloat q, r)"
      using read_float_text [OF assms(1) r, of q] c(1) by (simp del: read_value.simps)
  qed
next
  case JNull
  show ?case by (auto simp: reads_as_def elim: lessE)
next
  case (JBool b)
  show ?case by (auto simp: reads_as_def elim: lessE)
next
  case (JObj kvs)
  from assms(2) obtain u v where u: "js_item st = CHR '','' # u" "list_all is_blank u" "js_key st = CHR '':'' # v" "list_all is_blank v"
    by (auto simp: style_ok_def)
  let ?R = "\<lambda>j. render_styled st fl ea j (level + 1)"
  let ?M = "\<lambda>kv. render_string ea (fst kv) @ CHR '':'' # v @ ?R (snd kv)"
  have members: "\<forall>kv \<in> set kvs. reads_as fr (?R (snd kv)) (snd kv)"
    using JObj by (fastforce simp: list_all_iff snds.simps)
  have shown: "render_styled st fl ea (JObj kvs) level = CHR ''{'' # new_line st (level + 1) @
      join (CHR '','' # u @ new_line st (level + 1)) (map ?M kvs) @ new_line st level @ ''}''" if "kvs \<noteq> []"
    using that by (simp add: u comp_def)
  show ?case unfolding reads_as_def
  proof (intro allI impI)
    fix n r
    assume n: "length (render_styled st fl ea (JObj kvs) level) < n"
    then obtain m where m: "n = Suc m" by (cases n) auto
    show "read_value fr n (render_styled st fl ea (JObj kvs) level @ r) = Some (JObj kvs, r)"
    proof (cases kvs)
      case (Cons l ls)
      then have ne: "kvs \<noteq> []" by simp
      let ?s = "join (CHR '','' # u @ new_line st (level + 1)) (map ?M kvs) @ new_line st level @ CHR ''}'' # r"
      have s: "?s = CHR 0x22 # drop 1 ?s" using Cons by (cases ls) (auto simp: render_string_def)
      have skip: "skip_blanks (new_line st (level + 1) @ ?s) = ?s"
        unfolding skip_blanks_append [OF new_line_blank] by (subst (1 2) s) (rule skip_punctuation)
      have "read_members fr m ?s = Some (kvs, r)"
        using n m ne u new_line_blank skip_render [OF assms(1)] unfolding shown [OF ne]
        by (intro read_members_join [OF members]) simp_all
      then have "read_value fr (Suc m) (CHR ''{'' # new_line st (level + 1) @ ?s) = Some (JObj kvs, r)"
        using read_start(2) [OF trans [OF skip s]] JObj.prems unfolding skip by (simp add: dict_of_distinct)
      moreover have "render_styled st fl ea (JObj kvs) level @ r = CHR ''{'' # new_line st (level + 1) @ ?s"
        using shown ne by (simp del: render_styled.simps)
      ultimately show ?thesis by (simp only: m)
    qed (simp add: m)
  qed
qed

text \<open>\<open>json.loads\<close> inverts \<open>json.dumps\<close>, up to the order of keys and whatever the style.\<close>

theorem loads_dumps_styled:
  assumes "float_reads (rt_float rt) fr" and "style_ok st" and "wf_json j"
  shows "loads fr (dumps_styled st rt ea j) = Some (canon j)"
proof -
  have "reads_as fr (dumps_styled st rt ea j) (canon j)" unfolding dumps_styled_def using assms by (intro read_render) simp_all
  then have "read_value fr (Suc (length (dumps_styled st rt ea j))) (dumps_styled st rt ea j @ []) = Some (canon j, [])"
    by (rule reads_asD) simp_all
  moreover have "skip_blanks (dumps_styled st rt ea j) = dumps_styled st rt ea j"
    using skip_render [OF assms(1), of st ea "canon j" 0 "[]"] by (simp add: dumps_styled_def)
  ultimately show ?thesis by (simp add: loads_def del: read_value.simps)
qed

lemma loads_dumps:
  "float_reads (rt_float rt) fr \<Longrightarrow> wf_json j \<Longrightarrow> loads fr (dumps rt ea j) = Some (canon j)"
  using loads_dumps_styled [of rt fr compact_style j ea] by (simp add: dumps_compact)

text \<open>The reader of the float texts of the witnesses.\<close>

definition ratio_reader :: "string \<Rightarrow> rat" where
  "ratio_reader t = Fract (int_of_token (takeWhile (\<lambda>c. c \<noteq> CHR ''.'') t)) (int_of_token (drop 1 (dropWhile (\<lambda>c. c \<noteq> CHR ''.'') t)))"

lemma ratio_reads: "float_reads ratio_text ratio_reader"
  unfolding float_reads_def
proof (intro allI conjI)
  fix q
  obtain n d where q: "quotient_of q = (n, d)" by (cases "quotient_of q")
  have d: "0 < d" using quotient_of_denom_pos [OF q] .
  have shape: "ratio_text q = show_int n @ CHR ''.'' # show_nat (nat d)" using d by (simp add: ratio_text_def q show_int_def)
  have point: "takeWhile (\<lambda>c. c \<noteq> CHR ''.'') (show_int n @ CHR ''.'' # u) = show_int n"
    "dropWhile (\<lambda>c. c \<noteq> CHR ''.'') (show_int n @ CHR ''.'' # u) = CHR ''.'' # u" for u
    using show_int_no_point [of n] by (subst takeWhile_append2 dropWhile_append2; auto)+
  show "list_all is_token_char (ratio_text q)"
    using ratio_text_ok by (auto simp: float_text_ok_def list_all_iff is_token_char_def)
  have minus: "take 1 (show_nat k) \<noteq> ''-''" for k
    using hd_show_nat [of k] digit_not_minus by (cases "show_nat k") auto
  have int: "int_of_token (show_int n) = n" for n
    using minus by (auto simp: int_of_token_def show_int_def digits_value_show_nat)
  have "int_of_token (show_nat (nat d)) = d" using d minus [of "nat d"] by (simp add: int_of_token_def digits_value_show_nat)
  then show "ratio_reader (ratio_text q) = q" 
    unfolding ratio_reader_def shape by (simp add: point int quotient_of_div [OF q] Fract_of_int_quotient)
  have digits: "digits_before (ds @ CHR ''.'' # u) = (ds, CHR ''.'' # u)" if "list_all is_digit ds" for ds u
    using that by (auto simp: digits_before_def list_all_iff takeWhile_append2 dropWhile_append2 is_digit_def ord_def)
  have "\<not> (hd (show_nat k) = CHR ''0'' \<and> 1 < length (show_nat k))" for k using hd_show_nat_zero [of k] by auto
  moreover have "take 1 (show_nat k @ u) \<noteq> ''-''" for k u using minus [of k] by (cases "show_nat k") auto
  ultimately have "int_part (ratio_text q) = Some (show_int n, CHR ''.'' # show_nat (nat d))"
    by (auto simp: shape int_part_def show_int_def digits show_nat_digits)
  then show "is_float_token (ratio_text q)"
    by (simp add: is_float_token_def frac_part_def exp_part_def digits_before_all show_nat_digits)
qed

subsection \<open>Reading fields\<close>

text \<open>\<open>j[k]\<close> and \<open>j.get(k, d)\<close> of a document that was read.\<close>

definition json_field :: "string \<Rightarrow> json \<Rightarrow> json res" where
  "json_field k j =
     (case j of
        JObj kvs \<Rightarrow> (case map_of kvs k of Some v \<Rightarrow> Inr v | None \<Rightarrow> Inl (KeyError k))
      | _ \<Rightarrow> Inl (TypeError ''not subscriptable by a key''))"

definition get_default :: "json \<Rightarrow> string \<Rightarrow> json \<Rightarrow> json" where
  "get_default d k j = (case json_field k j of Inr v \<Rightarrow> v | Inl _ \<Rightarrow> d)"

text \<open>\<open>str(v)\<close> and \<open>int(v)\<close> of a value read from a receipt: text, and integers.\<close>

definition as_text :: "runtime \<Rightarrow> json \<Rightarrow> string" where
  "as_text rt v = (case v of JStr s \<Rightarrow> s | _ \<Rightarrow> dumps rt True v)"

definition as_int :: "json \<Rightarrow> int res" where
  "as_int v = (case v of JInt i \<Rightarrow> Inr i | JBool b \<Rightarrow> Inr (if b then 1 else 0) | _ \<Rightarrow> Inl (TypeError ''not an integer''))"

text \<open>\<open>dict(v)\<close> of an object.\<close>

definition as_dict :: "json \<Rightarrow> json res" where
  "as_dict v = (case v of JObj _ \<Rightarrow> Inr v | JArr [] \<Rightarrow> Inr (JObj []) | _ \<Rightarrow> Inl (TypeError ''not a mapping''))"

definition str_field :: "string \<Rightarrow> json \<Rightarrow> string res" where
  "str_field k j = res_bind (json_field k j) (\<lambda>v. case v of JStr s \<Rightarrow> Inr s | _ \<Rightarrow> Inl (TypeError ''not a string''))"

lemma canon_JObjD: "canon a = canon (JObj kvs) \<Longrightarrow> \<exists>kvs'. a = JObj kvs'"
  by (cases a) auto

lemma json_field_canon:
  assumes "canon a = canon b" and "json_field k b = Inr y"
  shows "\<exists>x. json_field k a = Inr x \<and> canon x = canon y"
proof -
  from assms(2) obtain kvs where b: "b = JObj kvs" "map_of kvs k = Some y"
    by (auto simp: json_field_def split: json.splits option.splits)
  with assms(1) obtain kvs' where a: "a = JObj kvs'" using canon_JObjD by blast
  have "map_option canon (map_of kvs' k) = map_option canon (map_of kvs k)"
    using assms(1) unfolding a b(1) by (rule canon_obj_lookup)
  with b(2) obtain x where "map_of kvs' k = Some x" "canon x = canon y" by auto
  then show ?thesis by (simp add: a json_field_def)
qed

text \<open>A text, a number or a flag reads back as itself.\<close>

lemma json_field_atoms:
  assumes "canon a = canon b"
  shows "json_field k b = Inr (JStr s) \<Longrightarrow> json_field k a = Inr (JStr s)"
    and "json_field k b = Inr (JInt i) \<Longrightarrow> json_field k a = Inr (JInt i)"
    and "json_field k b = Inr (JBool f) \<Longrightarrow> json_field k a = Inr (JBool f)"
  using json_field_canon [OF assms, of k] by fastforce+

lemma str_field_Inr: "str_field k j = Inr s \<longleftrightarrow> json_field k j = Inr (JStr s)"
proof
  assume "str_field k j = Inr s"
  then obtain v where v: "json_field k j = Inr v" "(case v of JStr s \<Rightarrow> Inr s | _ \<Rightarrow> Inl (TypeError ''not a string'')) = (Inr s :: string res)"
    unfolding str_field_def res_bind_Inr_iff by blast
  from v(2) have "v = JStr s" by (cases v) simp_all
  with v(1) show "json_field k j = Inr (JStr s)" by simp
qed (simp add: str_field_def)

lemma str_field_canon: "canon a = canon b \<Longrightarrow> str_field k b = Inr s \<Longrightarrow> str_field k a = Inr s"
  unfolding str_field_Inr by (rule json_field_atoms(1))

definition object_json :: "json \<Rightarrow> bool" where
  "object_json j \<longleftrightarrow> wf_json j \<and> (\<exists>kvs. j = JObj kvs)"

end
