(* ===== verification/Workspace.thy ===== *)
theory Workspace
  imports Loads Ingestion
begin

section \<open>Encrypted job workspaces\<close>

text \<open>
  \<open>security/workspace.py\<close>: a job keeps its files encrypted on disk and its keys in memory. HKDF, AES-GCM, HMAC and Unicode
  normalisation are parameters; a failed decryption is the exception the library raises. The registry of the process and the
  disk are association lists; file modes, the temporary file of an atomic write and locks are not modelled, an operation of
  the class is one step. \<open>WorkspaceError\<close> is a \<open>RuntimeError\<close>.
\<close>

record crypto_lib =
  cr_hkdf :: "string \<Rightarrow> string \<Rightarrow> string \<Rightarrow> string"
  cr_encrypt :: "string \<Rightarrow> string \<Rightarrow> string \<Rightarrow> string \<Rightarrow> string"
  cr_decrypt :: "string \<Rightarrow> string \<Rightarrow> string \<Rightarrow> string \<Rightarrow> string res"
  cr_hmac :: "string \<Rightarrow> string \<Rightarrow> string"
  cr_nfkc :: "string \<Rightarrow> string"

record workspace =
  wk_job_id :: string
  wk_master_key :: string
  wk_encryption_key :: string
  wk_fingerprint_key :: string
  wk_destroyed :: bool
  wk_plaintext_entities :: "(string \<times> string) list"

type_synonym directory = "(string \<times> string) list"

record workspace_state =
  ws_registry :: "(string \<times> workspace) list"
  ws_disk :: "(string \<times> directory) list"

subsection \<open>Keys and names\<close>

definition derive_key :: "crypto_lib \<Rightarrow> string \<Rightarrow> string \<Rightarrow> string \<Rightarrow> string" where
  "derive_key lib master info job_id = cr_hkdf lib master ''veilgraph-workspace-hkdf-v1'' (info @ job_id)"

definition new_workspace :: "crypto_lib \<Rightarrow> string \<Rightarrow> string \<Rightarrow> workspace" where
  "new_workspace lib master job_id =
     \<lparr>wk_job_id = job_id, wk_master_key = master,
      wk_encryption_key = derive_key lib master ''workspace-encryption'' job_id,
      wk_fingerprint_key = derive_key lib master ''entity-fingerprints'' job_id,
      wk_destroyed = False, wk_plaintext_entities = []\<rparr>"

definition safe_name :: "string \<Rightarrow> string res" where
  "safe_name name =
     (if name = [] \<or> name \<in> {''.'', ''..''} \<or> CHR ''/'' \<in> set name \<or> CHR 0x5C \<in> set name
      then Inl (RuntimeError ''Unsafe workspace filename'') else Inr name)"

definition aad_of :: "string \<Rightarrow> string \<Rightarrow> string" where
  "aad_of job_id filename = ''veilgraph:'' @ job_id @ '':'' @ filename"

definition ensure_active :: "workspace \<Rightarrow> unit res" where
  "ensure_active w = (if wk_destroyed w then Inl (RuntimeError ''Workspace has been destroyed'') else Inr ())"

subsection \<open>The registry\<close>

definition create_workspace :: "crypto_lib \<Rightarrow> string \<Rightarrow> string \<Rightarrow> workspace_state \<Rightarrow> workspace res \<times> workspace_state" where
  "create_workspace lib master job_id s =
     (if map_of (ws_registry s) job_id \<noteq> None then (Inl (RuntimeError ''Workspace already exists''), s)
      else if map_of (ws_disk s) job_id \<noteq> None then (Inl (OSError ''File exists''), s)
      else let w = new_workspace lib master job_id
      in (Inr w, s\<lparr>ws_registry := set_key job_id w (ws_registry s), ws_disk := set_key job_id [] (ws_disk s)\<rparr>))"

definition get_workspace :: "string \<Rightarrow> workspace_state \<Rightarrow> workspace res" where
  "get_workspace job_id s =
     (case map_of (ws_registry s) job_id of
        Some w \<Rightarrow> Inr w
      | None \<Rightarrow> Inl (RuntimeError
          ''Active workspace key is unavailable. The process may have restarted or the job was destroyed.''))"

definition directory_of :: "string \<Rightarrow> workspace_state \<Rightarrow> directory" where
  "directory_of job_id s = (case map_of (ws_disk s) job_id of Some d \<Rightarrow> d | None \<Rightarrow> [])"

text \<open>\<open>get_workspace(job_id).write_encrypted(filename, data)\<close> with the nonce of the call.\<close>

definition write_encrypted ::
    "crypto_lib \<Rightarrow> string \<Rightarrow> string \<Rightarrow> string \<Rightarrow> string \<Rightarrow> workspace_state \<Rightarrow> unit res \<times> workspace_state" where
  "write_encrypted lib nonce job_id filename data s =
     (case res_bind (get_workspace job_id s) (\<lambda>w. res_bind (ensure_active w) (\<lambda>_. res_bind (safe_name filename) (\<lambda>name.
        Inr (w, name)))) of
        Inl e \<Rightarrow> (Inl e, s)
      | Inr (w, name) \<Rightarrow>
          (Inr (), s\<lparr>ws_disk := set_key job_id
             (set_key name (nonce @ cr_encrypt lib (wk_encryption_key w) nonce data (aad_of job_id name)) (directory_of job_id s))
             (ws_disk s)\<rparr>))"

definition read_encrypted :: "crypto_lib \<Rightarrow> string \<Rightarrow> string \<Rightarrow> workspace_state \<Rightarrow> string res" where
  "read_encrypted lib job_id filename s =
     res_bind (get_workspace job_id s) (\<lambda>w. res_bind (ensure_active w) (\<lambda>_. res_bind (safe_name filename) (\<lambda>name.
       case map_of (directory_of job_id s) name of
         None \<Rightarrow> Inl (RuntimeError ''Encrypted workspace blob is not a regular file'')
       | Some raw \<Rightarrow>
           if length raw < 13 then Inl (RuntimeError ''Encrypted blob is truncated'')
           else cr_decrypt lib (wk_encryption_key w) (take 12 raw) (drop 12 raw) (aad_of job_id name))))"

definition fingerprint_of :: "crypto_lib \<Rightarrow> workspace \<Rightarrow> string \<Rightarrow> string res" where
  "fingerprint_of lib w value =
     res_bind (ensure_active w) (\<lambda>_.
       let normalized = casefold (strip (cr_nfkc lib value))
       in Inr (cr_hmac lib (wk_fingerprint_key w) (strip (replace_runs is_space '' '' normalized))))"

definition remember_plaintext :: "string \<Rightarrow> string \<Rightarrow> string \<Rightarrow> workspace_state \<Rightarrow> unit res \<times> workspace_state" where
  "remember_plaintext job_id entity_id value s =
     (case res_bind (get_workspace job_id s) (\<lambda>w. res_bind (ensure_active w) (\<lambda>_. Inr w)) of
        Inl e \<Rightarrow> (Inl e, s)
      | Inr w \<Rightarrow> (Inr (), s\<lparr>ws_registry := set_key job_id
          (w\<lparr>wk_plaintext_entities := set_key entity_id value (wk_plaintext_entities w)\<rparr>) (ws_registry s)\<rparr>))"

definition get_plaintext :: "string \<Rightarrow> string \<Rightarrow> workspace_state \<Rightarrow> string option res" where
  "get_plaintext job_id entity_id s =
     res_bind (get_workspace job_id s) (\<lambda>w. res_bind (ensure_active w) (\<lambda>_. Inr (map_of (wk_plaintext_entities w) entity_id)))"

subsection \<open>Destruction\<close>

record workspace_report =
  wr_deleted_workspace_files :: nat
  wr_cleared_plaintext_entities :: nat
  wr_note :: string

definition zeroed :: "string \<Rightarrow> string" where
  "zeroed key = map (\<lambda>_. CHR 0x00) key"

definition destroyed_workspace :: "workspace \<Rightarrow> workspace" where
  "destroyed_workspace w =
     w\<lparr>wk_master_key := zeroed (wk_master_key w), wk_encryption_key := zeroed (wk_encryption_key w),
       wk_fingerprint_key := zeroed (wk_fingerprint_key w), wk_destroyed := True, wk_plaintext_entities := []\<rparr>"

text \<open>\<open>JobWorkspace.destroy\<close> of the object a caller holds: the report, the object and the disk afterwards.\<close>

definition destroy_object ::
    "workspace \<Rightarrow> (string \<times> directory) list \<Rightarrow> workspace_report \<times> workspace \<times> (string \<times> directory) list" where
  "destroy_object w disk =
     (if wk_destroyed w
      then (\<lparr>wr_deleted_workspace_files = 0, wr_cleared_plaintext_entities = 0,
             wr_note = ''Workspace was already destroyed.''\<rparr>, w, disk)
      else (\<lparr>wr_deleted_workspace_files = (case map_of disk (wk_job_id w) of Some d \<Rightarrow> length d | None \<Rightarrow> 0),
             wr_cleared_plaintext_entities = length (wk_plaintext_entities w),
             wr_note = ''Encrypted job blobs were deleted and the in-process job keys were destroyed. VeilGraph does not claim forensic overwriting of SSD flash cells.''\<rparr>,
            destroyed_workspace w, del_key (wk_job_id w) disk))"

definition destroy_workspace :: "string \<Rightarrow> workspace_state \<Rightarrow> workspace_report \<times> workspace_state" where
  "destroy_workspace job_id s =
     (case map_of (ws_registry s) job_id of
        Some w \<Rightarrow> (let (report, _, disk) = destroy_object w (ws_disk s)
          in (report, s\<lparr>ws_registry := del_key job_id (ws_registry s), ws_disk := disk\<rparr>))
      | None \<Rightarrow> (\<lparr>wr_deleted_workspace_files = (case map_of (ws_disk s) job_id of Some d \<Rightarrow> length d | None \<Rightarrow> 0),
                  wr_cleared_plaintext_entities = 0,
                  wr_note = ''No active in-process key existed; any orphaned encrypted job blobs were deleted. RAM-only keys were already unavailable.''\<rparr>,
                 s\<lparr>ws_disk := del_key job_id (ws_disk s)\<rparr>))"

text \<open>A restart of the process loses the registry and keeps the disk.\<close>

definition restart :: "workspace_state \<Rightarrow> workspace_state" where
  "restart s = s\<lparr>ws_registry := []\<rparr>"

subsection \<open>What a workspace guarantees\<close>

text \<open>What the AES-GCM of the \<open>cryptography\<close> package documents: decryption inverts encryption and a tag of 16 bytes is added.\<close>

definition aead_ok :: "crypto_lib \<Rightarrow> bool" where
  "aead_ok lib \<longleftrightarrow>
     (\<forall>k n d a. cr_decrypt lib k n (cr_encrypt lib k n d a) a = Inr d \<and> length (cr_encrypt lib k n d a) = length d + 16)"

text \<open>Every registered workspace is the active one of its job.\<close>

definition registry_ok :: "workspace_state \<Rightarrow> bool" where
  "registry_ok s \<longleftrightarrow> (\<forall>job w. map_of (ws_registry s) job = Some w \<longrightarrow> wk_job_id w = job \<and> \<not> wk_destroyed w)"

inductive workspace_reach :: "crypto_lib \<Rightarrow> workspace_state \<Rightarrow> bool" for lib where
  ws_empty: "workspace_reach lib \<lparr>ws_registry = [], ws_disk = disk\<rparr>"
| ws_create: "workspace_reach lib s \<Longrightarrow> workspace_reach lib (snd (create_workspace lib master job s))"
| ws_write: "workspace_reach lib s \<Longrightarrow> workspace_reach lib (snd (write_encrypted lib nonce job name data s))"
| ws_remember: "workspace_reach lib s \<Longrightarrow> workspace_reach lib (snd (remember_plaintext job entity value s))"
| ws_destroy: "workspace_reach lib s \<Longrightarrow> workspace_reach lib (snd (destroy_workspace job s))"
| ws_restart: "workspace_reach lib s \<Longrightarrow> workspace_reach lib (restart s)"

lemma write_registry [simp]: "ws_registry (snd (write_encrypted lib nonce job name data s)) = ws_registry s"
  by (simp add: write_encrypted_def split: sum.split)

lemma remember_disk [simp]: "ws_disk (snd (remember_plaintext job entity v s)) = ws_disk s"
  by (simp add: remember_plaintext_def split: sum.split)

lemma remember_registry:
  "map_of (ws_registry (snd (remember_plaintext job entity v s))) other =
     (if other = job then map_option (\<lambda>w. if wk_destroyed w then w
        else w\<lparr>wk_plaintext_entities := set_key entity v (wk_plaintext_entities w)\<rparr>) (map_of (ws_registry s) job)
      else map_of (ws_registry s) other)"
  by (auto simp: remember_plaintext_def get_workspace_def ensure_active_def map_of_set_key split: option.split)

lemma remember_ok: "registry_ok s \<Longrightarrow> registry_ok (snd (remember_plaintext job entity v s))"
  by (auto simp: registry_ok_def remember_registry split: if_splits)

lemma destroy_workspace_registry:
  "ws_registry (snd (destroy_workspace job s)) = (case map_of (ws_registry s) job of Some _ \<Rightarrow> del_key job (ws_registry s)
     | None \<Rightarrow> ws_registry s)"
  by (simp add: destroy_workspace_def split: option.split prod.split)

lemma workspace_reach_ok: "workspace_reach lib s \<Longrightarrow> registry_ok s"
proof (induction rule: workspace_reach.induct)
  case (ws_create s master job)
  then show ?case by (auto simp: registry_ok_def create_workspace_def map_of_set_key new_workspace_def Let_def)
next
  case (ws_remember s job entity v)
  then show ?case by (intro remember_ok)
next
  case (ws_destroy s job)
  then show ?case by (auto simp: registry_ok_def destroy_workspace_registry map_of_del_key split: option.splits)
qed (auto simp: registry_ok_def restart_def)

text \<open>After a destruction the job has no key and no directory; the other jobs keep theirs.\<close>

lemma destroy_workspace_erases:
  assumes "registry_ok s"
  shows "map_of (ws_registry (snd (destroy_workspace job s))) other = (if other = job then None else map_of (ws_registry s) other)"
    and "map_of (ws_disk (snd (destroy_workspace job s))) other = (if other = job then None else map_of (ws_disk s) other)"
proof -
  show "map_of (ws_registry (snd (destroy_workspace job s))) other = (if other = job then None else map_of (ws_registry s) other)"
    by (auto simp: destroy_workspace_registry map_of_del_key split: option.split)
  show "map_of (ws_disk (snd (destroy_workspace job s))) other = (if other = job then None else map_of (ws_disk s) other)"
  proof (cases "map_of (ws_registry s) job")
    case (Some w)
    then have "wk_job_id w = job" "\<not> wk_destroyed w" using assms by (auto simp: registry_ok_def)
    then show ?thesis using Some by (simp add: destroy_workspace_def destroy_object_def map_of_del_key)
  qed (simp add: destroy_workspace_def map_of_del_key)
qed

lemma read_after_destroy:
  assumes "registry_ok s"
  shows "\<exists>m. read_encrypted lib job name (snd (destroy_workspace job s)) = Inl (RuntimeError m)"
  using destroy_workspace_erases(1) [OF assms, of job job] by (simp add: read_encrypted_def get_workspace_def)

text \<open>A file that was written reads back, and the other files read as before.\<close>

lemma write_encrypted_ok:
  "write_encrypted lib nonce job name content s = (Inr (), s') \<Longrightarrow>
     \<exists>w. map_of (ws_registry s) job = Some w \<and> \<not> wk_destroyed w \<and> safe_name name = Inr name \<and>
       s' = s\<lparr>ws_disk := set_key job
         (set_key name (nonce @ cr_encrypt lib (wk_encryption_key w) nonce content (aad_of job name)) (directory_of job s)) (ws_disk s)\<rparr>"
  by (auto simp: write_encrypted_def get_workspace_def ensure_active_def res_bind_def safe_name_def
      split: option.splits if_splits sum.splits)

lemma write_encrypted_fails: "write_encrypted lib nonce job name content s = (Inl e, s') \<Longrightarrow> s' = s"
  by (auto simp: write_encrypted_def split: sum.splits prod.splits)

lemma read_written:
  assumes "write_encrypted lib nonce job name content s = (Inr (), s')" and "aead_ok lib" and "length nonce = 12"
  shows "read_encrypted lib job name s' = Inr content"
proof -
  from write_encrypted_ok [OF assms(1)] obtain w where w: "map_of (ws_registry s) job = Some w" "\<not> wk_destroyed w"
      "safe_name name = Inr name"
      "s' = s\<lparr>ws_disk := set_key job
         (set_key name (nonce @ cr_encrypt lib (wk_encryption_key w) nonce content (aad_of job name)) (directory_of job s)) (ws_disk s)\<rparr>"
    by blast
  then show ?thesis using assms(2,3)
    by (simp add: read_encrypted_def get_workspace_def ensure_active_def directory_of_def map_of_set_key aead_ok_def)
qed

lemma read_other_written:
  assumes "write_encrypted lib nonce job name content s = (out, s')" and "(job', name') \<noteq> (job, name)"
  shows "read_encrypted lib job' name' s' = read_encrypted lib job' name' s"
proof (cases out)
  case (Inl e)
  then show ?thesis using assms(1) write_encrypted_fails by blast
next
  case (Inr u)
  then have "write_encrypted lib nonce job name content s = (Inr (), s')" using assms(1) by simp
  from write_encrypted_ok [OF this] obtain w :: workspace where
      "s' = s\<lparr>ws_disk := set_key job
         (set_key name (nonce @ cr_encrypt lib (wk_encryption_key w) nonce content (aad_of job name)) (directory_of job s)) (ws_disk s)\<rparr>"
    by blast
  moreover have "safe_name n = Inr m \<Longrightarrow> m = n" for n m by (simp add: safe_name_def split: if_splits)
  ultimately show ?thesis using assms(2)
    by (cases "job' = job") (auto simp: read_encrypted_def get_workspace_def directory_of_def map_of_set_key res_bind_def
        split: option.split sum.split)
qed

text \<open>
  C35: an encrypted file reads back, and only until its job is destroyed. In every state the process can reach, writing a
  file with a safe name succeeds for a job with a workspace and reading it then returns the data, also after writes of other
  files or jobs and destructions of other jobs; after the destruction of the job, or a restart of the process, no file of
  the job can be read, whatever is on disk, and its directory is gone after the destruction.
\<close>

theorem workspace_roundtrip:
  fixes data n :: string
  assumes "workspace_reach lib s" and "aead_ok lib" and "length nonce = 12" and "map_of (ws_registry s) job = Some w"
    and "safe_name name = Inr name" and "(job', name') \<noteq> (job, name)" and "other \<noteq> job"
  defines "s' \<equiv> snd (write_encrypted lib nonce job name data s)"
  shows "fst (write_encrypted lib nonce job name data s) = Inr () \<and> read_encrypted lib job name s' = Inr data \<and>
    read_encrypted lib job name (snd (write_encrypted lib nonce' job' name' data' s')) = Inr data \<and>
    read_encrypted lib job name (snd (destroy_workspace other s')) = Inr data \<and>
    (\<exists>m. read_encrypted lib job n (snd (destroy_workspace job s')) = Inl (RuntimeError m)) \<and>
    map_of (ws_disk (snd (destroy_workspace job s'))) job = None \<and>
    (\<exists>m. read_encrypted lib job n (restart s') = Inl (RuntimeError m))"
proof -
  have ok: "registry_ok s" using assms(1) by (rule workspace_reach_ok)
  have ok': "registry_ok s'" using ok by (simp add: s'_def registry_ok_def)
  have active: "ensure_active w = Inr ()" using ok assms(4) by (auto simp: ensure_active_def registry_ok_def)
  let ?raw = "nonce @ cr_encrypt lib (wk_encryption_key w) nonce data (aad_of job name)"
  have w: "get_workspace job s = Inr w" using assms(4) by (simp add: get_workspace_def)
  have written: "fst (write_encrypted lib nonce job name data s) = Inr ()"
      "ws_disk s' = set_key job (set_key name ?raw (directory_of job s)) (ws_disk s)"
    using w active assms(5) by (simp_all add: write_encrypted_def s'_def)
  have reads: "read_encrypted lib job name t = Inr data"
    if "map_of (ws_registry t) job = Some w" and "map_of (directory_of job t) name = Some ?raw" for t
    using that active assms(2,3,5) by (simp add: read_encrypted_def get_workspace_def aead_ok_def)
  have stored: "map_of (ws_registry s') job = Some w" "map_of (directory_of job s') name = Some ?raw"
    using assms(4) by (simp_all add: s'_def) (simp add: written(2) [unfolded s'_def] directory_of_def map_of_set_key)
  have later: "map_of (directory_of job (snd (write_encrypted lib nonce' job' name' data' s'))) name = Some ?raw"
  proof (cases "res_bind (get_workspace job' s') (\<lambda>w. res_bind (ensure_active w) (\<lambda>_. res_bind (safe_name name') (\<lambda>name. Inr (w, name))))")
    case (Inl e)
    then show ?thesis using stored(2) by (simp add: write_encrypted_def)
  next
    case (Inr p)
    then have "snd p = name'" by (auto simp: res_bind_Inr_iff safe_name_def split: if_splits)
    with Inr show ?thesis using stored(2) assms(6)
      by (cases "job' = job") (auto simp: write_encrypted_def directory_of_def map_of_set_key split: prod.splits option.splits)
  qed
  have "map_of (directory_of job (snd (destroy_workspace other s'))) name = Some ?raw"
    using stored(2) destroy_workspace_erases(2) [OF ok', of other job] assms(7) by (simp add: directory_of_def)
  moreover have "map_of (ws_registry (snd (destroy_workspace other s'))) job = Some w"
    using stored(1) destroy_workspace_erases(1) [OF ok', of other job] assms(7) by simp
  ultimately show ?thesis
    using written(1) reads stored later read_after_destroy [OF ok', of lib job n] destroy_workspace_erases(2) [OF ok', of job job]
    by (simp add: read_encrypted_def get_workspace_def restart_def)
qed

definition demo_crypto :: crypto_lib where
  "demo_crypto =
     \<lparr>cr_hkdf = (\<lambda>key salt info. key @ info), cr_encrypt = (\<lambda>k n d a. d @ replicate 16 CHR 0x00),
      cr_decrypt = (\<lambda>k n c a. Inr (take (length c - 16) c)), cr_hmac = (\<lambda>k m. m), cr_nfkc = (\<lambda>s. s)\<rparr>"

lemma demo_aead: "aead_ok demo_crypto"
  by (simp add: aead_ok_def demo_crypto_def)

theorem workspace_roundtrip_witness:
  "\<exists>s. read_encrypted demo_crypto ''j'' ''f'' s = Inr ''secret'' \<and>
     (\<exists>m. read_encrypted demo_crypto ''j'' ''f'' (snd (destroy_workspace ''j'' s)) = Inl (RuntimeError m))"
proof -
  let ?s0 = "\<lparr>ws_registry = [], ws_disk = []\<rparr>"
  let ?s = "snd (create_workspace demo_crypto (replicate 32 CHR ''k'') ''j'' ?s0)"
  have "workspace_reach demo_crypto ?s" by (intro workspace_reach.intros)
  moreover have "map_of (ws_registry ?s) ''j'' = Some (new_workspace demo_crypto (replicate 32 CHR ''k'') ''j'')"
    by (simp add: create_workspace_def Let_def)
  moreover have "safe_name ''f'' = Inr ''f''" by (simp add: safe_name_def)
  ultimately show ?thesis
    using workspace_roundtrip [of demo_crypto ?s "replicate 12 CHR ''n''" "''j''" _ "''f''" "''k''" "''f''" "''k''" "''secret''" "''f''"]
      demo_aead by force
qed

end
