(* ===== verification/Retention.thy ===== *)
theory Retention
  imports Ledger Signing Loads Workspace
begin

section \<open>Retention and destruction\<close>

text \<open>
  \<open>security/retention.py\<close> with the destruction receipt of \<open>proof/certificate.py\<close> and the tables of \<open>core/database.py\<close> it
  erases: a job is destroyed on request, when its retention has expired, or after a restart that lost its keys; what is left
  is a signed tombstone. Rows of the tables are records with the identifiers the deletion follows and a body; a row
  references rows of its own job, as the service inserts it, so the cascading deletes remove nothing more. Timestamps are
  instants; the text of one is \<open>rt_datetime\<close>. The lock makes a destruction one step.
\<close>

subsection \<open>Tables\<close>

datatype job_status = Job_CREATED | Job_UPLOADED | Job_ANALYSED | Job_HUMAN_REVIEW_REQUIRED | Job_TRANSFORMED
  | Job_VERIFIED | Job_BLOCKED | Job_DESTROYED | Job_FAILED

record retention_job =
  rj_id :: string
  rj_purpose :: string
  rj_recipient :: string
  rj_retention_seconds :: int
  rj_status :: job_status
  rj_created_at :: datetime
  rj_updated_at :: datetime

record owned_row =
  ow_id :: string
  ow_job_id :: string
  ow_body :: json

record mention_link =
  ml_id :: string
  ml_canonical_entity_id :: string
  ml_body :: json

record tombstone_row =
  tb_job_id :: string
  tb_trigger :: string
  tb_audit_integrity_valid :: bool
  tb_receipt_json :: string
  tb_receipt_sha256 :: string
  tb_created_at :: datetime

record retention_db =
  rb_jobs :: "retention_job list"
  rb_files :: "owned_row list"
  rb_entities :: "owned_row list"
  rb_mentions :: "mention_link list"
  rb_outputs :: "owned_row list"
  rb_certificates :: "owned_row list"
  rb_events :: "audit_row list"
  rb_tombstones :: "tombstone_row list"

definition ledger_of :: "retention_db \<Rightarrow> ledger_db" where
  "ledger_of db = \<lparr>ld_jobs = map rj_id (rb_jobs db), ld_events = rb_events db\<rparr>"

definition find_job :: "string \<Rightarrow> retention_db \<Rightarrow> retention_job option" where
  "find_job job db = List.find (\<lambda>j. rj_id j = job) (rb_jobs db)"

definition other_rows :: "string \<Rightarrow> owned_row list \<Rightarrow> owned_row list" where
  "other_rows job rows = filter (\<lambda>r. ow_job_id r \<noteq> job) rows"

definition job_count :: "string \<Rightarrow> owned_row list \<Rightarrow> nat" where
  "job_count job rows = length (filter (\<lambda>r. ow_job_id r = job) rows)"

definition entity_ids :: "string \<Rightarrow> retention_db \<Rightarrow> string list" where
  "entity_ids job db = map ow_id (filter (\<lambda>r. ow_job_id r = job) (rb_entities db))"

definition scrubbed :: "datetime \<Rightarrow> retention_job \<Rightarrow> retention_job" where
  "scrubbed now j =
     j\<lparr>rj_purpose := ''[ERASED]'', rj_recipient := ''[ERASED]'', rj_status := Job_DESTROYED, rj_updated_at := now\<rparr>"

text \<open>\<open>destroy_job_rows\<close>: the counts per table and the scrubbed database.\<close>

definition destroy_job_rows :: "datetime \<Rightarrow> string \<Rightarrow> retention_db \<Rightarrow> json \<times> retention_db" where
  "destroy_job_rows now job db =
     (JObj [(''proof_certificates'', JInt (int (job_count job (rb_certificates db)))),
            (''audit_events'', JInt (int (length (filter (\<lambda>r. ae_job_id r = job) (rb_events db))))),
            (''mentions'', JInt (int (length (filter (\<lambda>m. ml_canonical_entity_id m \<in> set (entity_ids job db)) (rb_mentions db))))),
            (''canonical_entities'', JInt (int (job_count job (rb_entities db)))),
            (''outputs'', JInt (int (job_count job (rb_outputs db)))),
            (''files'', JInt (int (job_count job (rb_files db))))],
      db\<lparr>rb_certificates := other_rows job (rb_certificates db),
         rb_events := filter (\<lambda>r. ae_job_id r \<noteq> job) (rb_events db),
         rb_mentions := filter (\<lambda>m. ml_canonical_entity_id m \<notin> set (entity_ids job db)) (rb_mentions db),
         rb_entities := other_rows job (rb_entities db), rb_outputs := other_rows job (rb_outputs db),
         rb_files := other_rows job (rb_files db),
         rb_jobs := map (\<lambda>j. if rj_id j = job then scrubbed now j else j) (rb_jobs db)\<rparr>)"

subsection \<open>Receipts\<close>

record retention_env =
  rn_runtime :: runtime
  rn_float_reader :: "string \<Rightarrow> rat"
  rn_version :: string

definition destruction_payload ::
    "retention_env \<Rightarrow> datetime \<Rightarrow> string \<Rightarrow> string \<Rightarrow> nat \<Rightarrow> workspace_report \<Rightarrow> json \<Rightarrow> nat \<Rightarrow> string \<Rightarrow> bool \<Rightarrow> string
      \<Rightarrow> string \<Rightarrow> string \<Rightarrow> json" where
  "destruction_payload env now job head events report rows outputs trigger audit_valid deadline key fingerprint =
     JObj [(''schema'', JStr ''veilgraph.destruction-receipt.v2''), (''product'', JStr ''VeilGraph''),
           (''product_version'', JStr (rn_version env)), (''issued_at'', JStr (rt_datetime (rn_runtime env) now)),
           (''job_commitment_sha256'', JStr (rt_sha256 (rn_runtime env) job)), (''trigger'', JStr trigger),
           (''audit_integrity_valid'', JBool audit_valid), (''retention_deadline'', JStr deadline),
           (''final_audit_head'', JStr head), (''final_audit_event_count'', JInt (int events)),
           (''deleted_workspace_files'', JInt (int (wr_deleted_workspace_files report))),
           (''cleared_plaintext_entities'', JInt (int (wr_cleared_plaintext_entities report))),
           (''destroyed_outputs'', JInt (int outputs)), (''deleted_database_rows'', rows),
           (''signer'', JObj [(''algorithm'', JStr ''Ed25519''), (''public_key_b64'', JStr key),
              (''public_key_sha256'', JStr fingerprint)]),
           (''scope_note'', JStr (wr_note report))]"

definition issue_destruction_receipt ::
    "retention_env \<Rightarrow> datetime \<Rightarrow> string \<Rightarrow> string \<Rightarrow> nat \<Rightarrow> workspace_report \<Rightarrow> json \<Rightarrow> nat \<Rightarrow> string \<Rightarrow> bool \<Rightarrow> string
      \<Rightarrow> json res" where
  "issue_destruction_receipt env now job head events report rows outputs trigger audit_valid deadline =
     res_bind (public_key_b64 (rn_runtime env)) (\<lambda>key. res_bind (signer_fingerprint (rn_runtime env)) (\<lambda>fingerprint.
       let payload = destruction_payload env now job head events report rows outputs trigger audit_valid deadline key fingerprint
       in res_bind (sign_payload (rn_runtime env) payload) (\<lambda>signature.
         Inr (JObj [(''payload'', payload), (''signature_algorithm'', JStr ''Ed25519''), (''signature_b64'', JStr signature)]))))"

definition receipt_signature_valid :: "runtime \<Rightarrow> json \<Rightarrow> bool res" where
  "receipt_signature_valid rt receipt =
     res_bind (json_field ''payload'' receipt) (\<lambda>payload. res_bind (str_field ''signature_b64'' receipt) (\<lambda>signature.
       res_bind (json_field ''signer'' payload) (\<lambda>signer. res_bind (str_field ''public_key_b64'' signer) (\<lambda>key.
         Inr (verify_payload rt payload signature key)))))"

record destruction_response =
  dn_job_id :: string
  dn_trigger :: string
  dn_deleted_workspace_files :: int
  dn_cleared_plaintext_entities :: int
  dn_destroyed_outputs :: int
  dn_deleted_database_rows :: json
  dn_note :: string
  dn_receipt :: json
  dn_signature_valid :: bool

definition response_from_receipt_row :: "retention_env \<Rightarrow> tombstone_row \<Rightarrow> destruction_response res" where
  "response_from_receipt_row env row =
     (case loads (rn_float_reader env) (tb_receipt_json row) of
        None \<Rightarrow> Inl (ValueError ''invalid JSON'')
      | Some receipt \<Rightarrow>
          res_bind (json_field ''payload'' receipt) (\<lambda>payload.
          res_bind (as_int (get_default (JInt 0) ''deleted_workspace_files'' payload)) (\<lambda>files.
          res_bind (as_int (get_default (JInt 0) ''cleared_plaintext_entities'' payload)) (\<lambda>cleared.
          res_bind (as_int (get_default (JInt 0) ''destroyed_outputs'' payload)) (\<lambda>outputs.
          res_bind (as_dict (get_default (JObj []) ''deleted_database_rows'' payload)) (\<lambda>rows.
          res_bind (receipt_signature_valid (rn_runtime env) receipt) (\<lambda>valid.
            Inr \<lparr>dn_job_id = tb_job_id row,
                 dn_trigger = as_text (rn_runtime env) (get_default (JStr (tb_trigger row)) ''trigger'' payload),
                 dn_deleted_workspace_files = files, dn_cleared_plaintext_entities = cleared, dn_destroyed_outputs = outputs,
                 dn_deleted_database_rows = rows,
                 dn_note = as_text (rn_runtime env) (get_default (JStr []) ''scope_note'' payload),
                 dn_receipt = receipt, dn_signature_valid = valid\<rparr>)))))))"

definition stored_destruction_response :: "retention_env \<Rightarrow> string \<Rightarrow> retention_db \<Rightarrow> destruction_response option res" where
  "stored_destruction_response env job db =
     (case List.find (\<lambda>r. tb_job_id r = job) (rb_tombstones db) of
        None \<Rightarrow> Inr None
      | Some row \<Rightarrow> res_bind (response_from_receipt_row env row) (\<lambda>r. Inr (Some r)))"

text \<open>\<open>store_destruction_receipt\<close>: a tombstone that exists is kept (\<open>ON CONFLICT DO NOTHING\<close>).\<close>

definition store_destruction_receipt ::
    "retention_env \<Rightarrow> datetime \<Rightarrow> string \<Rightarrow> string \<Rightarrow> bool \<Rightarrow> json \<Rightarrow> retention_db \<Rightarrow> retention_db" where
  "store_destruction_receipt env now job trigger audit_valid receipt db =
     (if job \<in> tb_job_id ` set (rb_tombstones db) then db
      else db\<lparr>rb_tombstones := rb_tombstones db @
        [\<lparr>tb_job_id = job, tb_trigger = trigger, tb_audit_integrity_valid = audit_valid,
          tb_receipt_json = dumps (rn_runtime env) True receipt,
          tb_receipt_sha256 = rt_sha256 (rn_runtime env) (dumps (rn_runtime env) True receipt), tb_created_at = now\<rparr>]\<rparr>)"

subsection \<open>Destroying a job\<close>

definition retention_deadline :: "retention_job \<Rightarrow> datetime" where
  "retention_deadline j = plus_seconds (utc (instant (rj_created_at j))) (rj_retention_seconds j)"

definition trigger_event :: "string \<Rightarrow> string option" where
  "trigger_event trigger =
     map_of [(''MANUAL'', ''DESTRUCTION_REQUESTED''), (''RETENTION_EXPIRED'', ''RETENTION_EXPIRED''),
             (''PROCESS_RESTART_KEY_LOSS'', ''PROCESS_RESTART_KEY_LOSS'')] trigger"

text \<open>
  The \<open>try\<close> block: the event of the destruction is appended and the ledger verified; whatever raises leaves the audit
  invalid with the genesis head.
\<close>

definition audit_destruction ::
    "retention_env \<Rightarrow> datetime \<Rightarrow> string \<Rightarrow> string \<Rightarrow> (string \<times> json) list \<Rightarrow> ledger_db \<Rightarrow> (bool \<times> string \<times> nat) \<times> ledger_db" where
  "audit_destruction env now job event_type details l =
     (case append_event (rn_runtime env) (rt_datetime (rn_runtime env) now) job event_type (Some details) l of
        (Inl _, l') \<Rightarrow> ((False, genesis_hash, 0), l')
      | (Inr _, l') \<Rightarrow> (case verify_ledger (rn_runtime env) (loads (rn_float_reader env)) job l' of
            Inl _ \<Rightarrow> ((False, genesis_hash, 0), l')
          | Inr p \<Rightarrow> ((lr_valid p, lr_chain_head p, lr_event_count p), l')))"

definition audit_note :: "bool \<Rightarrow> workspace_report \<Rightarrow> workspace_report" where
  "audit_note audit_valid report =
     (if audit_valid then report
      else report\<lparr>wr_note := strip (wr_note report @ '' Audit integrity was not valid at destruction time; '' @
        ''erasure proceeded fail-safe and the signed tombstone records that condition.'')\<rparr>)"

record vault =
  va_db :: retention_db
  va_workspaces :: workspace_state

definition erase_job ::
    "retention_env \<Rightarrow> datetime \<Rightarrow> string \<Rightarrow> string \<Rightarrow> retention_job \<Rightarrow> vault \<Rightarrow> (bool \<times> json res) \<times> vault" where
  "erase_job env now trigger event_type j v =
     (let job = rj_id j; db = va_db v;
          deadline = rt_datetime (rn_runtime env) (retention_deadline j);
          outputs = job_count job (rb_outputs db);
          ((audit_valid, head, events), l) = audit_destruction env now job event_type
            [(''trigger'', JStr trigger), (''outputs_present'', JInt (int outputs)),
             (''retention_seconds'', JInt (rj_retention_seconds j)), (''retention_deadline'', JStr deadline)] (ledger_of db);
          (report, ws) = destroy_workspace job (va_workspaces v);
          (rows, db') = destroy_job_rows now job (db\<lparr>rb_events := ld_events l\<rparr>)
      in ((audit_valid, issue_destruction_receipt env now job head events (audit_note audit_valid report) rows outputs trigger
             audit_valid deadline),
          \<lparr>va_db = db', va_workspaces = ws\<rparr>))"

definition destroy_job_with_receipt ::
    "retention_env \<Rightarrow> datetime \<Rightarrow> string \<Rightarrow> string \<Rightarrow> vault \<Rightarrow> destruction_response res \<times> vault" where
  "destroy_job_with_receipt env now trigger job v =
     (case trigger_event trigger of
        None \<Rightarrow> (Inl (ValueError (''Unsupported destruction trigger: '' @ trigger)), v)
      | Some event_type \<Rightarrow>
      (case stored_destruction_response env job (va_db v) of
         Inl e \<Rightarrow> (Inl e, v)
       | Inr (Some response) \<Rightarrow> (Inr response, v)
       | Inr None \<Rightarrow>
       (case find_job job (va_db v) of
          None \<Rightarrow> (Inl (KeyError job), v)
        | Some j \<Rightarrow>
          if rj_status j = Job_DESTROYED
          then (Inl (RuntimeError ''Destroyed job has no persisted destruction receipt''), v)
          else (case erase_job env now trigger event_type j v of
              ((_, Inl e), v') \<Rightarrow> (Inl e, v')
            | ((audit_valid, Inr receipt), v') \<Rightarrow>
              (case receipt_signature_valid (rn_runtime env) receipt of
                 Inl e \<Rightarrow> (Inl e, v')
               | Inr False \<Rightarrow> (Inl (RuntimeError ''Generated destruction receipt failed Ed25519 self-verification''), v')
               | Inr True \<Rightarrow>
                 let v'' = v'\<lparr>va_db := store_destruction_receipt env now job trigger audit_valid receipt (va_db v')\<rparr>
                 in (case stored_destruction_response env job (va_db v'') of
                       Inl e \<Rightarrow> (Inl e, v'')
                     | Inr None \<Rightarrow> (Inl (RuntimeError ''Destruction receipt persistence failed''), v'')
                     | Inr (Some response) \<Rightarrow> (Inr response, v'')))))))"

subsection \<open>Sweeps\<close>

text \<open>\<open>SELECT ... WHERE status<>'DESTROYED' ORDER BY created_at\<close>; the text of a UTC instant orders as the instant.\<close>

definition active_jobs :: "retention_db \<Rightarrow> retention_job list" where
  "active_jobs db = sort_key (\<lambda>j. instant (rj_created_at j)) (filter (\<lambda>j. rj_status j \<noteq> Job_DESTROYED) (rb_jobs db))"

text \<open>The loops: an exception of one destruction ends the loop and loses the list of those before.\<close>

fun destroy_all ::
    "retention_env \<Rightarrow> datetime \<Rightarrow> string \<Rightarrow> retention_job list \<Rightarrow> vault \<Rightarrow> string list res \<times> vault" where
  "destroy_all env now trigger [] v = (Inr [], v)"
| "destroy_all env now trigger (j # js) v =
     (case destroy_job_with_receipt env now trigger (rj_id j) v of
        (Inl e, v') \<Rightarrow> (Inl e, v')
      | (Inr _, v') \<Rightarrow> (case destroy_all env now trigger js v' of
            (Inl e, v'') \<Rightarrow> (Inl e, v'')
          | (Inr destroyed, v'') \<Rightarrow> (Inr (rj_id j # destroyed), v'')))"

definition sweep_expired_jobs :: "retention_env \<Rightarrow> datetime \<Rightarrow> vault \<Rightarrow> string list res \<times> vault" where
  "sweep_expired_jobs env now v =
     destroy_all env now ''RETENTION_EXPIRED''
       (filter (\<lambda>j. instant (retention_deadline j) \<le> instant now) (active_jobs (va_db v))) v"

definition destroy_unrecoverable_jobs_after_restart :: "retention_env \<Rightarrow> datetime \<Rightarrow> vault \<Rightarrow> string list res \<times> vault" where
  "destroy_unrecoverable_jobs_after_restart env now v =
     destroy_all env now ''PROCESS_RESTART_KEY_LOSS'' (active_jobs (va_db v)) v"

end
