(* ===== verification/Retention_Facts.thy ===== *)
theory Retention_Facts
  imports Retention
begin

section \<open>What a destruction guarantees\<close>

text \<open>
  Erasure happens whatever the state of the audit ledger and of the signing key, and only to the job destroyed; with a usable
  key it leaves a signed tombstone that every later request returns; a sweep destroys exactly the expired jobs.
\<close>

subsection \<open>Reading stored receipts\<close>

lemma verify_payload_canon: "canon a = canon b \<Longrightarrow> verify_payload rt a s k = verify_payload rt b s k"
proof -
  assume "canon a = canon b"
  then have "canonical_json_bytes rt a = canonical_json_bytes rt b"
    unfolding canonical_json_bytes_def by (rule dumps_canon_eq)
  then show ?thesis by (simp add: verify_payload_def split: option.split)
qed

lemma receipt_signature_canon:
  assumes "canon a = canon b" and "receipt_signature_valid rt b = Inr ok"
  shows "receipt_signature_valid rt a = Inr ok"
proof -
  from assms(2) obtain p s g k where b: "json_field ''payload'' b = Inr p" "str_field ''signature_b64'' b = Inr s"
      "json_field ''signer'' p = Inr g" "str_field ''public_key_b64'' g = Inr k" "verify_payload rt p s k = ok"
    by (auto simp: receipt_signature_valid_def res_bind_Inr_iff)
  from json_field_canon [OF assms(1) b(1)] obtain p' where p': "json_field ''payload'' a = Inr p'" "canon p' = canon p" by blast
  from json_field_canon [OF p'(2) b(3)] obtain g' where g': "json_field ''signer'' p' = Inr g'" "canon g' = canon g" by blast
  show ?thesis
    using p' g' b str_field_canon [OF assms(1) b(2)] str_field_canon [OF g'(2) b(4)] verify_payload_canon [OF p'(2)]
    by (simp add: receipt_signature_valid_def)
qed

text \<open>The float texts of the process read back, so stored documents do.\<close>

definition reads_floats :: "retention_env \<Rightarrow> bool" where
  "reads_floats env \<longleftrightarrow> float_reads (rt_float (rn_runtime env)) (rn_float_reader env)"

lemma stored_reads:
  "reads_floats env \<Longrightarrow> wf_json j \<Longrightarrow> loads (rn_float_reader env) (dumps (rn_runtime env) True j) = Some (canon j)"
  unfolding reads_floats_def by (rule loads_dumps)

subsection \<open>Erasure\<close>

definition erased :: "string \<Rightarrow> vault \<Rightarrow> bool" where
  "erased job v \<longleftrightarrow>
     (\<forall>r \<in> set (rb_files (va_db v)) \<union> set (rb_entities (va_db v)) \<union> set (rb_outputs (va_db v)) \<union> set (rb_certificates (va_db v)).
        ow_job_id r \<noteq> job) \<and>
     (\<forall>r \<in> set (rb_events (va_db v)). ae_job_id r \<noteq> job) \<and>
     map_of (ws_registry (va_workspaces v)) job = None \<and> map_of (ws_disk (va_workspaces v)) job = None \<and>
     (\<forall>j \<in> set (rb_jobs (va_db v)). rj_id j = job \<longrightarrow>
        rj_status j = Job_DESTROYED \<and> rj_purpose j = ''[ERASED]'' \<and> rj_recipient j = ''[ERASED]'')"

text \<open>What two states agree on for a job.\<close>

definition same_for :: "string \<Rightarrow> vault \<Rightarrow> vault \<Rightarrow> bool" where
  "same_for job v v' \<longleftrightarrow>
     (\<forall>table \<in> {rb_files, rb_entities, rb_outputs, rb_certificates}.
        filter (\<lambda>r. ow_job_id r = job) (table (va_db v')) = filter (\<lambda>r. ow_job_id r = job) (table (va_db v))) \<and>
     filter (\<lambda>r. ae_job_id r = job) (rb_events (va_db v')) = filter (\<lambda>r. ae_job_id r = job) (rb_events (va_db v)) \<and>
     filter (\<lambda>j. rj_id j = job) (rb_jobs (va_db v')) = filter (\<lambda>j. rj_id j = job) (rb_jobs (va_db v)) \<and>
     map_of (ws_registry (va_workspaces v')) job = map_of (ws_registry (va_workspaces v)) job \<and>
     map_of (ws_disk (va_workspaces v')) job = map_of (ws_disk (va_workspaces v)) job"



lemma same_for_rows:
  assumes "same_for job v v'"
  shows "filter (\<lambda>r. ow_job_id r = job) (rb_entities (va_db v')) = filter (\<lambda>r. ow_job_id r = job) (rb_entities (va_db v))"
    and "find_job job (va_db v') = find_job job (va_db v)"
proof -
  show "filter (\<lambda>r. ow_job_id r = job) (rb_entities (va_db v')) = filter (\<lambda>r. ow_job_id r = job) (rb_entities (va_db v))"
    using assms by (simp add: same_for_def)
  have hd: "List.find p xs = (case filter p xs of [] \<Rightarrow> None | x # _ \<Rightarrow> Some x)" for p and xs :: "retention_job list"
    by (induction xs) auto
  show "find_job job (va_db v') = find_job job (va_db v)" using assms by (simp add: same_for_def find_job_def hd)
qed

lemma append_event_rows:
  "append_event rt now job et details l = (out, l') \<Longrightarrow>
     filter (\<lambda>r. ae_job_id r \<noteq> job) (ld_events l') = filter (\<lambda>r. ae_job_id r \<noteq> job) (ld_events l)"
  by (auto simp: append_event_def insert_audit_event_def Let_def split: if_splits)

lemma audit_destruction_rows:
  "audit_destruction env now job et details l = (a, l') \<Longrightarrow>
     filter (\<lambda>r. ae_job_id r \<noteq> job) (ld_events l') = filter (\<lambda>r. ae_job_id r \<noteq> job) (ld_events l)"
  by (auto simp: audit_destruction_def split: prod.splits sum.splits dest: append_event_rows)

lemma filter_sub: "filter p xs = filter p ys \<Longrightarrow> (\<And>x. q x \<Longrightarrow> p x) \<Longrightarrow> filter q xs = filter q ys"
  by (metis (mono_tags, lifting) filter_cong filter_filter)

lemma filter_scrubbed:
  "job \<noteq> other \<Longrightarrow> filter (\<lambda>j. rj_id j = other) (map (\<lambda>j. if rj_id j = job then scrubbed now j else j) js)
     = filter (\<lambda>j. rj_id j = other) js"
  by (induction js) (auto simp: scrubbed_def)

lemma filter_other_rows: "job \<noteq> other \<Longrightarrow> filter (\<lambda>r. ow_job_id r = other) (other_rows job rows) = filter (\<lambda>r. ow_job_id r = other) rows"
  by (auto simp: other_rows_def intro!: filter_cong)

lemma erase_job_effect:
  assumes "erase_job env now trigger et j v = (out, v')" and "registry_ok (va_workspaces v)"
  shows "erased (rj_id j) v'" and "other \<noteq> rj_id j \<Longrightarrow> same_for other v v'"
    and "set (rb_mentions (va_db v')) = {m \<in> set (rb_mentions (va_db v)). ml_canonical_entity_id m \<notin> set (entity_ids (rj_id j) (va_db v))}"
    and "registry_ok (va_workspaces v')" and "rb_tombstones (va_db v') = rb_tombstones (va_db v)"
    and "rb_jobs (va_db v') = map (\<lambda>x. if rj_id x = rj_id j then scrubbed now x else x) (rb_jobs (va_db v))"
proof -
  define details where "details = [(''trigger'', JStr trigger), (''outputs_present'', JInt (int (job_count (rj_id j) (rb_outputs (va_db v))))),
    (''retention_seconds'', JInt (rj_retention_seconds j)),
    (''retention_deadline'', JStr (rt_datetime (rn_runtime env) (retention_deadline j)))]"
  obtain a l where l: "audit_destruction env now (rj_id j) et details (ledger_of (va_db v)) = (a, l)" by fastforce
  let ?db = "(va_db v)\<lparr>rb_events := ld_events l\<rparr>"
  have v': "v' = \<lparr>va_db = snd (destroy_job_rows now (rj_id j) ?db), va_workspaces = snd (destroy_workspace (rj_id j) (va_workspaces v))\<rparr>"
    using assms(1) l unfolding erase_job_def details_def by (auto simp: Let_def split: prod.splits)
  note ws = destroy_workspace_erases [OF assms(2), of "rj_id j"]
  have events: "filter (\<lambda>r. ae_job_id r \<noteq> rj_id j) (ld_events l) = filter (\<lambda>r. ae_job_id r \<noteq> rj_id j) (rb_events (va_db v))"
    using audit_destruction_rows [OF l] by (simp add: ledger_of_def)
  show "erased (rj_id j) v'"
    by (auto simp: v' erased_def destroy_job_rows_def other_rows_def scrubbed_def ws)
  show "same_for other v v'" if "other \<noteq> rj_id j"
  proof -
    have "filter (\<lambda>r. ae_job_id r = other) (filter (\<lambda>r. ae_job_id r \<noteq> rj_id j) (ld_events l)) =
        filter (\<lambda>r. ae_job_id r = other) (rb_events (va_db v))"
      using that unfolding events by (auto intro!: filter_cong)
    then show ?thesis using that
      by (auto simp: v' same_for_def destroy_job_rows_def filter_other_rows filter_scrubbed ws simp del: filter_filter)
  qed
  show "set (rb_mentions (va_db v')) = {m \<in> set (rb_mentions (va_db v)). ml_canonical_entity_id m \<notin> set (entity_ids (rj_id j) (va_db v))}"
    by (simp add: v' destroy_job_rows_def entity_ids_def)
  show "registry_ok (va_workspaces v')" using assms(2) ws(1) by (auto simp: v' registry_ok_def)
  show "rb_tombstones (va_db v') = rb_tombstones (va_db v)"
    and "rb_jobs (va_db v') = map (\<lambda>x. if rj_id x = rj_id j then scrubbed now x else x) (rb_jobs (va_db v))"
    by (simp_all add: v' destroy_job_rows_def)
qed

subsection \<open>The tombstone\<close>

text \<open>The audit of a destruction, as \<open>erase_job\<close> runs it.\<close>

definition destruction_audit ::
    "retention_env \<Rightarrow> datetime \<Rightarrow> string \<Rightarrow> string \<Rightarrow> retention_job \<Rightarrow> vault \<Rightarrow> (bool \<times> string \<times> nat) \<times> ledger_db" where
  "destruction_audit env now trigger et j v =
     audit_destruction env now (rj_id j) et
       [(''trigger'', JStr trigger), (''outputs_present'', JInt (int (job_count (rj_id j) (rb_outputs (va_db v))))),
        (''retention_seconds'', JInt (rj_retention_seconds j)),
        (''retention_deadline'', JStr (rt_datetime (rn_runtime env) (retention_deadline j)))] (ledger_of (va_db v))"

lemma job_in_ledger: "find_job job db = Some j \<Longrightarrow> rj_id j = job \<and> job \<in> set (ld_jobs (ledger_of db))"
  by (auto simp: find_job_def ledger_of_def find_Some_iff dest: nth_mem)

text \<open>A valid ledger is still valid when the destruction records it.\<close>

lemma destruction_audit_valid:
  assumes "reads_floats env" and "job_valid (rn_runtime env) (loads (rn_float_reader env)) (rj_id j) (ledger_of (va_db v))"
    and "rj_id j \<in> set (ld_jobs (ledger_of (va_db v)))"
  shows "fst (fst (destruction_audit env now trigger et j v))"
proof -
  define details where "details = [(''trigger'', JStr trigger), (''outputs_present'', JInt (int (job_count (rj_id j) (rb_outputs (va_db v))))),
    (''retention_seconds'', JInt (rj_retention_seconds j)),
    (''retention_deadline'', JStr (rt_datetime (rn_runtime env) (retention_deadline j)))]"
  have "reads_back (rn_runtime env) (loads (rn_float_reader env)) (JObj (case Some details of None \<Rightarrow> [] | Some d \<Rightarrow> d))"
  proof -
    have "wf_json (JObj details)" by (simp add: details_def)
    from stored_reads [OF assms(1) this] show ?thesis using canon_idem [of "JObj details"] by (simp add: reads_back_def)
  qed
  then obtain e l vs w where app: "append_event (rn_runtime env) (rt_datetime (rn_runtime env) now) (rj_id j) et (Some details)
        (ledger_of (va_db v)) = (Inr e, l)"
      and vs: "res_map (view_row (loads (rn_float_reader env))) (job_rows (rj_id j) l) = Inr (vs @ [w])"
      "chained (rn_runtime env) 1 genesis_hash (vs @ [w])"
    by (rule append_event_chain [OF assms(2,3)]) (rule that)
  then have "job_valid (rn_runtime env) (loads (rn_float_reader env)) (rj_id j) l" unfolding job_valid_def by blast
  then obtain p where "verify_ledger (rn_runtime env) (loads (rn_float_reader env)) (rj_id j) l = Inr p" "lr_valid p"
    by (auto simp: job_valid_report)
  with app show ?thesis by (simp add: destruction_audit_def audit_destruction_def details_def [symmetric])
qed

definition tombstone_ok :: "retention_env \<Rightarrow> string \<Rightarrow> string \<Rightarrow> bool \<Rightarrow> json \<Rightarrow> bool" where
  "tombstone_ok env job trigger audit_valid receipt \<longleftrightarrow>
     receipt_signature_valid (rn_runtime env) receipt = Inr True \<and>
     (\<exists>payload files cleared outputs remark rows. json_field ''payload'' receipt = Inr payload \<and>
        json_field ''job_commitment_sha256'' payload = Inr (JStr (rt_sha256 (rn_runtime env) job)) \<and>
        json_field ''trigger'' payload = Inr (JStr trigger) \<and> json_field ''audit_integrity_valid'' payload = Inr (JBool audit_valid) \<and>
        json_field ''deleted_workspace_files'' payload = Inr (JInt files) \<and>
        json_field ''cleared_plaintext_entities'' payload = Inr (JInt cleared) \<and>
        json_field ''destroyed_outputs'' payload = Inr (JInt outputs) \<and>
        json_field ''scope_note'' payload = Inr (JStr remark) \<and> json_field ''deleted_database_rows'' payload = Inr (JObj rows))"

lemma tombstone_canon:
  assumes "canon a = canon b" and "tombstone_ok env job trigger av b"
  shows "tombstone_ok env job trigger av a"
proof -
  from assms(2) obtain p files cleared outputs remark rows where b: "json_field ''payload'' b = Inr p"
      "json_field ''job_commitment_sha256'' p = Inr (JStr (rt_sha256 (rn_runtime env) job))"
      "json_field ''trigger'' p = Inr (JStr trigger)" "json_field ''audit_integrity_valid'' p = Inr (JBool av)"
      "json_field ''deleted_workspace_files'' p = Inr (JInt files)" "json_field ''cleared_plaintext_entities'' p = Inr (JInt cleared)"
      "json_field ''destroyed_outputs'' p = Inr (JInt outputs)" "json_field ''scope_note'' p = Inr (JStr remark)"
      "json_field ''deleted_database_rows'' p = Inr (JObj rows)"
    unfolding tombstone_ok_def by blast
  from json_field_canon [OF assms(1) b(1)] obtain p' where p': "json_field ''payload'' a = Inr p'" "canon p' = canon p" by blast
  from json_field_canon [OF p'(2) b(9)] obtain rows' where rows': "json_field ''deleted_database_rows'' p' = Inr (JObj rows')"
    using canon_JObjD by metis
  note atoms = json_field_atoms [OF p'(2)]
  have "receipt_signature_valid (rn_runtime env) b = Inr True" using assms(2) by (simp add: tombstone_ok_def)
  note sig = receipt_signature_canon [OF assms(1) this]
  show ?thesis unfolding tombstone_ok_def
    by (intro conjI exI) (rule sig p'(1) rows' atoms(1) [OF b(2)] atoms(1) [OF b(3)] atoms(3) [OF b(4)] atoms(2) [OF b(5)]
      atoms(2) [OF b(6)] atoms(2) [OF b(7)] atoms(1) [OF b(8)])+
qed

lemma issued_tombstone:
  assumes "signing_ok (rn_runtime env)" and "object_json rows"
  obtains receipt where "issue_destruction_receipt env now job head events report rows outputs trigger av deadline = Inr receipt"
    "tombstone_ok env job trigger av receipt" "wf_json receipt"
proof -
  obtain s k raw where key: "public_key_b64 (rn_runtime env) = Inr k" "signer_fingerprint (rn_runtime env) = Inr (rt_sha256 (rn_runtime env) raw)"
    using device_signer.publishes [OF assms(1)] by blast
  let ?p = "destruction_payload env now job head events report rows outputs trigger av deadline k (rt_sha256 (rn_runtime env) raw)"
  obtain sg where sg: "sign_payload (rn_runtime env) ?p = Inr sg" using device_signer.signs [OF assms(1)] by blast
  from assms(2) obtain kvs where rows: "rows = JObj kvs" by (auto simp: object_json_def)
  have "verify_payload (rn_runtime env) ?p sg k" using device_signer.sign_verify [OF assms(1) sg key(1)] .
  moreover have "json_field ''signer'' ?p = Inr (JObj [(''algorithm'', JStr ''Ed25519''), (''public_key_b64'', JStr k),
      (''public_key_sha256'', JStr (rt_sha256 (rn_runtime env) raw))])"
    by (simp add: destruction_payload_def json_field_def)
  ultimately have "tombstone_ok env job trigger av
      (JObj [(''payload'', ?p), (''signature_algorithm'', JStr ''Ed25519''), (''signature_b64'', JStr sg)])"
    unfolding tombstone_ok_def receipt_signature_valid_def
    by (simp add: str_field_def json_field_def) (simp add: destruction_payload_def rows)
  moreover have "wf_json ?p" using assms(2) by (simp add: destruction_payload_def object_json_def)
  ultimately show ?thesis using key sg
    by (intro that [of "JObj [(''payload'', ?p), (''signature_algorithm'', JStr ''Ed25519''), (''signature_b64'', JStr sg)]"])
      (simp_all add: issue_destruction_receipt_def Let_def)
qed

text \<open>A stored tombstone answers every later request.\<close>

lemma tombstone_response:
  assumes "loads (rn_float_reader env) (tb_receipt_json row) = Some receipt" and "tombstone_ok env (tb_job_id row) trigger av receipt"
  obtains r where "response_from_receipt_row env row = Inr r" "dn_job_id r = tb_job_id row" "dn_trigger r = trigger"
    "dn_signature_valid r" "dn_receipt r = receipt"
proof -
  from assms(2) obtain p where "json_field ''payload'' receipt = Inr p" unfolding tombstone_ok_def by blast
  with assms that show ?thesis
    by (fastforce simp: response_from_receipt_row_def tombstone_ok_def get_default_def as_int_def as_text_def as_dict_def)
qed

subsection \<open>Destruction\<close>

lemma wf_counts:
  "object_json (JObj [(''proof_certificates'', JInt a), (''audit_events'', JInt b), (''mentions'', JInt c),
     (''canonical_entities'', JInt d), (''outputs'', JInt e), (''files'', JInt f)])"
  by (simp add: object_json_def)

lemma erase_job_receipt:
  "erase_job env now trigger et j v = ((av, r), v') \<Longrightarrow> av = fst (fst (destruction_audit env now trigger et j v)) \<and>
     (\<exists>head events report rows outputs deadline. object_json rows \<and>
        r = issue_destruction_receipt env now (rj_id j) head events report rows outputs trigger av deadline)"
  unfolding erase_job_def destruction_audit_def by (auto simp: Let_def destroy_job_rows_def split: prod.splits) (intro exI conjI, rule wf_counts, rule refl)

text \<open>A job that can be destroyed: known, not yet destroyed and without a tombstone.\<close>

definition destroyable :: "string \<Rightarrow> retention_job \<Rightarrow> vault \<Rightarrow> bool" where
  "destroyable job j v \<longleftrightarrow>
     find_job job (va_db v) = Some j \<and> rj_status j \<noteq> Job_DESTROYED \<and> job \<notin> tb_job_id ` set (rb_tombstones (va_db v)) \<and>
     registry_ok (va_workspaces v)"

lemma destroyable_id: "destroyable job j v \<Longrightarrow> rj_id j = job"
  using job_in_ledger [of job "va_db v" j] by (simp add: destroyable_def)

lemma no_tombstone: "job \<notin> tb_job_id ` set (rb_tombstones db) \<Longrightarrow> stored_destruction_response env job db = Inr None"
proof -
  assume "job \<notin> tb_job_id ` set (rb_tombstones db)"
  then have "List.find (\<lambda>r. tb_job_id r = job) (rb_tombstones db) = None" by (auto simp: find_None_iff)
  then show ?thesis by (simp add: stored_destruction_response_def)
qed

lemma find_new_tombstone:
  "job \<notin> tb_job_id ` set rows \<Longrightarrow> tb_job_id row = job \<Longrightarrow> List.find (\<lambda>r. tb_job_id r = job) (rows @ [row]) = Some row"
  by (induction rows) auto

lemma destroy_steps:
  assumes "destroyable job j v" and "trigger_event trigger = Some et"
    and "erase_job env now trigger et j v = ((av, r), v1)"
    and "destroy_job_with_receipt env now trigger job v = (out, v')"
  shows "v' = v1 \<or> (\<exists>receipt. v' = v1\<lparr>va_db := store_destruction_receipt env now job trigger av receipt (va_db v1)\<rparr>)"
  using assms no_tombstone [of job "va_db v" env]
  by (auto simp: destroyable_def destroy_job_with_receipt_def Let_def split: sum.splits bool.splits option.splits)

lemma store_receipt_erased [simp]:
  "erased job (v\<lparr>va_db := store_destruction_receipt env now job' trigger av receipt (va_db v)\<rparr>) = erased job v"
  "same_for job u (v\<lparr>va_db := store_destruction_receipt env now job' trigger av receipt (va_db v)\<rparr>) = same_for job u v"
  "rb_mentions (store_destruction_receipt env now job' trigger av receipt db) = rb_mentions db"
  by (simp_all add: erased_def same_for_def store_destruction_receipt_def)

text \<open>
  C36: a destruction erases the job, whatever else fails. For a known job that is not destroyed yet, after
  \<open>destroy_job_with_receipt\<close> no table holds a row of the job, its purpose and recipient are scrubbed and it is marked
  destroyed, no key of it is registered and no directory of it is on disk, and no mention of its entities is left, even if
  the audit ledger is damaged, cannot be read, or the device key cannot sign; the rows, keys and files of every other job
  are unchanged.
\<close>

theorem destruction_erases:
  assumes "destroyable job j v" and "trigger_event trigger = Some et"
    and "destroy_job_with_receipt env now trigger job v = (out, v')"
  shows "erased job v' \<and> (\<forall>other. other \<noteq> job \<longrightarrow> same_for other v v') \<and>
    set (rb_mentions (va_db v')) =
      {m \<in> set (rb_mentions (va_db v)). ml_canonical_entity_id m \<notin> set (entity_ids job (va_db v))}"
proof -
  obtain av r v1 where e: "erase_job env now trigger et j v = ((av, r), v1)" by (metis prod.exhaust)
  have reg: "registry_ok (va_workspaces v)" using assms(1) by (simp add: destroyable_def)
  note effect = erase_job_effect [OF e reg, unfolded destroyable_id [OF assms(1)]]
  from destroy_steps [OF assms(1,2) e assms(3)] show ?thesis
  proof
    assume "v' = v1"
    with effect(1-3) show ?thesis by blast
  next
    assume "\<exists>receipt. v' = v1\<lparr>va_db := store_destruction_receipt env now job trigger av receipt (va_db v1)\<rparr>"
    then obtain receipt where v': "v' = v1\<lparr>va_db := store_destruction_receipt env now job trigger av receipt (va_db v1)\<rparr>"
      by blast
    have "rb_mentions (va_db v') = rb_mentions (va_db v1)" by (simp add: v')
    with effect(1-3) show ?thesis unfolding v' store_receipt_erased by simp
  qed
qed

lemma signed_destruction:
  assumes "destroyable job j v" and "trigger_event trigger = Some et" and "signing_ok (rn_runtime env)" and "reads_floats env"
  obtains response row v' where
    "destroy_job_with_receipt env now trigger job v = (Inr response, v')"
    "rb_tombstones (va_db v') = rb_tombstones (va_db v) @ [row]" "tb_job_id row = job"
    "response_from_receipt_row env row = Inr response"
    "dn_job_id response = job" "dn_trigger response = trigger" "dn_signature_valid response"
    "tombstone_ok env job trigger (fst (fst (destruction_audit env now trigger et j v))) (dn_receipt response)"
    "registry_ok (va_workspaces v')"
    "rb_jobs (va_db v') = map (\<lambda>x. if rj_id x = job then scrubbed now x else x) (rb_jobs (va_db v))"
proof -
  obtain av r v1 where e: "erase_job env now trigger et j v = ((av, r), v1)" by (metis prod.exhaust)
  have reg: "registry_ok (va_workspaces v)" using assms(1) by (simp add: destroyable_def)
  note id = destroyable_id [OF assms(1)]
  note effect = erase_job_effect [OF e reg, unfolded id]
  from erase_job_receipt [OF e] obtain receipt where av: "av = fst (fst (destruction_audit env now trigger et j v))"
    and receipt: "r = Inr receipt" "tombstone_ok env job trigger av receipt" "wf_json receipt"
    using issued_tombstone [OF assms(3)] id by metis
  define row where "row = \<lparr>tb_job_id = job, tb_trigger = trigger, tb_audit_integrity_valid = av,
    tb_receipt_json = dumps (rn_runtime env) True receipt,
    tb_receipt_sha256 = rt_sha256 (rn_runtime env) (dumps (rn_runtime env) True receipt), tb_created_at = now\<rparr>"
  have fresh: "job \<notin> tb_job_id ` set (rb_tombstones (va_db v1))" using assms(1) effect(5) by (simp add: destroyable_def)
  define v' where "v' = v1\<lparr>va_db := store_destruction_receipt env now job trigger av receipt (va_db v1)\<rparr>"
  have stored: "rb_tombstones (va_db v') = rb_tombstones (va_db v) @ [row]"
    using fresh effect(5) by (simp add: v'_def store_destruction_receipt_def row_def)
  define parsed where "parsed = canon receipt"
  have parsed: "loads (rn_float_reader env) (tb_receipt_json row) = Some parsed" "canon parsed = canon receipt"
    using stored_reads [OF assms(4) receipt(3)] by (simp_all add: row_def parsed_def)
  have "tombstone_ok env (tb_job_id row) trigger av parsed"
    using tombstone_canon [OF parsed(2) receipt(2)] by (simp add: row_def)
  from tombstone_response [OF parsed(1) this] obtain response where
    response: "response_from_receipt_row env row = Inr response" "dn_job_id response = tb_job_id row" "dn_trigger response = trigger"
      "dn_signature_valid response" "dn_receipt response = parsed" by blast
  have "List.find (\<lambda>r. tb_job_id r = job) (rb_tombstones (va_db v) @ [row]) = Some row"
    using assms(1) by (intro find_new_tombstone) (simp_all add: destroyable_def row_def)
  then have find: "stored_destruction_response env job (va_db v') = Inr (Some response)"
    by (simp add: stored_destruction_response_def stored response(1))
  have "receipt_signature_valid (rn_runtime env) receipt = Inr True" using receipt(2) by (simp add: tombstone_ok_def)
  then have "destroy_job_with_receipt env now trigger job v = (Inr response, v')"
    using assms(1,2) e receipt(1) find no_tombstone [of job "va_db v" env]
    by (simp add: destroy_job_with_receipt_def destroyable_def v'_def Let_def)
  moreover have "tb_job_id row = job" by (simp add: row_def)
  moreover have "tombstone_ok env job trigger (fst (fst (destruction_audit env now trigger et j v))) (dn_receipt response)"
    using \<open>tombstone_ok env (tb_job_id row) trigger av parsed\<close> av response(5) by (simp add: row_def)
  moreover have "registry_ok (va_workspaces v')"
    "rb_jobs (va_db v') = map (\<lambda>x. if rj_id x = job then scrubbed now x else x) (rb_jobs (va_db v))"
    using effect(4,6) by (simp_all add: v'_def store_destruction_receipt_def)
  ultimately show thesis using that stored response by simp
qed

text \<open>
  C37: with a usable device key a destruction leaves a signed tombstone. It returns a response whose receipt commits to the
  job and the trigger and verifies under the key it names, and records whether the ledger, with the event of the destruction
  appended, verified, which it did if the ledger was valid before; every later request, with whatever trigger and at
  whatever time, returns the same response and changes nothing.
\<close>

theorem destruction_receipted:
  assumes "destroyable job j v" and "trigger_event trigger = Some et" and "signing_ok (rn_runtime env)" and "reads_floats env"
  shows "\<exists>response v'. destroy_job_with_receipt env now trigger job v = (Inr response, v') \<and>
    dn_job_id response = job \<and> dn_trigger response = trigger \<and> dn_signature_valid response \<and>
    tombstone_ok env job trigger (fst (fst (destruction_audit env now trigger et j v))) (dn_receipt response) \<and>
    (job_valid (rn_runtime env) (loads (rn_float_reader env)) job (ledger_of (va_db v)) \<longrightarrow>
       fst (fst (destruction_audit env now trigger et j v))) \<and>
    (\<forall>now' trigger'. trigger_event trigger' \<noteq> None \<longrightarrow>
       destroy_job_with_receipt env now' trigger' job v' = (Inr response, v'))"
proof -
  obtain response row v' where d: "destroy_job_with_receipt env now trigger job v = (Inr response, v')"
      "rb_tombstones (va_db v') = rb_tombstones (va_db v) @ [row]" "tb_job_id row = job"
      "response_from_receipt_row env row = Inr response"
      "dn_job_id response = job" "dn_trigger response = trigger" "dn_signature_valid response"
      "tombstone_ok env job trigger (fst (fst (destruction_audit env now trigger et j v))) (dn_receipt response)"
    by (rule signed_destruction [OF assms, of now])
  have "List.find (\<lambda>r. tb_job_id r = job) (rb_tombstones (va_db v')) = Some row"
    using assms(1) d(3) unfolding d(2) by (intro find_new_tombstone) (simp_all add: destroyable_def)
  then have "stored_destruction_response env job (va_db v') = Inr (Some response)"
    by (simp add: stored_destruction_response_def d(4))
  then have "destroy_job_with_receipt env now' trigger' job v' = (Inr response, v')" if "trigger_event trigger' \<noteq> None" for now' trigger'
    using that by (auto simp: destroy_job_with_receipt_def)
  moreover have "fst (fst (destruction_audit env now trigger et j v))"
    if "job_valid (rn_runtime env) (loads (rn_float_reader env)) job (ledger_of (va_db v))"
  proof -
    have "find_job job (va_db v) = Some j" using assms(1) by (simp add: destroyable_def)
    with that show ?thesis using job_in_ledger by (intro destruction_audit_valid [OF assms(4)]) auto
  qed
  ultimately show ?thesis using d by blast
qed

subsection \<open>Sweeps\<close>


text \<open>The invariant of the retention state: unique jobs, and tombstones for exactly the destroyed ones.\<close>

definition vault_ok :: "vault \<Rightarrow> bool" where
  "vault_ok v \<longleftrightarrow>
     registry_ok (va_workspaces v) \<and> distinct (map rj_id (rb_jobs (va_db v))) \<and>
     (\<forall>j \<in> set (rb_jobs (va_db v)). rj_status j = Job_DESTROYED \<longleftrightarrow> rj_id j \<in> tb_job_id ` set (rb_tombstones (va_db v)))"

lemma find_job_distinct: "distinct (map rj_id js) \<Longrightarrow> j \<in> set js \<Longrightarrow> List.find (\<lambda>x. rj_id x = rj_id j) js = Some j"
  by (induction js) auto

lemma vault_destroyable:
  "vault_ok v \<Longrightarrow> j \<in> set (rb_jobs (va_db v)) \<Longrightarrow> rj_status j \<noteq> Job_DESTROYED \<Longrightarrow> destroyable (rj_id j) j v"
  by (auto simp: vault_ok_def destroyable_def find_job_def find_job_distinct)



definition expired_jobs :: "datetime \<Rightarrow> retention_db \<Rightarrow> retention_job list" where
  "expired_jobs now db = filter (\<lambda>j. instant (retention_deadline j) \<le> instant now) (active_jobs db)"

lemma expired_jobs_mem:
  "j \<in> set (expired_jobs now db) \<longleftrightarrow>
     j \<in> set (rb_jobs db) \<and> rj_status j \<noteq> Job_DESTROYED \<and> instant (retention_deadline j) \<le> instant now"
  by (auto simp: expired_jobs_def active_jobs_def)

lemma expired_jobs_distinct: "distinct (map rj_id (rb_jobs db)) \<Longrightarrow> distinct (map rj_id (expired_jobs now db))"
proof -
  assume "distinct (map rj_id (rb_jobs db))"
  then have "distinct (map rj_id (filter (\<lambda>j. rj_status j \<noteq> Job_DESTROYED) (rb_jobs db)))" by (simp add: distinct_map inj_on_def)
  then have "distinct (map rj_id (active_jobs db))" unfolding active_jobs_def distinct_map_sort_key .
  then show ?thesis by (simp add: expired_jobs_def distinct_map inj_on_def)
qed


text \<open>
  C39: without a usable device key a sweep stops at the first job. If jobs have expired, the oldest of them is erased but the
  sweep raises the signing error, so the other expired jobs keep all their rows, keys and files; the erased job has no
  tombstone, and every later request to destroy it raises.
\<close>

theorem unsigned_sweep_stops:
  assumes "vault_ok v" and "length (rt_device_key (rn_runtime env)) \<noteq> 32" and "expired_jobs now (va_db v) = j # js"
  shows "\<exists>m v'. sweep_expired_jobs env now v = (Inl (SigningError m), v') \<and> erased (rj_id j) v' \<and>
    (\<forall>k \<in> set js. same_for (rj_id k) v v' \<and> k \<in> set (expired_jobs now (va_db v'))) \<and>
    (\<forall>now' trigger. trigger_event trigger \<noteq> None \<longrightarrow> destroy_job_with_receipt env now' trigger (rj_id j) v' =
       (Inl (RuntimeError ''Destroyed job has no persisted destruction receipt''), v'))"
proof -
  have j: "j \<in> set (rb_jobs (va_db v))" "rj_status j \<noteq> Job_DESTROYED"
    using assms(3) expired_jobs_mem [of j now "va_db v"] by simp_all
  have d: "destroyable (rj_id j) j v" by (rule vault_destroyable [OF assms(1) j])
  have trigger: "trigger_event ''RETENTION_EXPIRED'' = Some ''RETENTION_EXPIRED''" by (simp add: trigger_event_def)
  obtain m where m: "public_key_b64 (rn_runtime env) = Inl (SigningError m)" using signing_fails_closed [OF assms(2)] by blast
  obtain av r v1 where e: "erase_job env now ''RETENTION_EXPIRED'' ''RETENTION_EXPIRED'' j v = ((av, r), v1)"
    by (metis prod.exhaust)
  have r: "r = Inl (SigningError m)" using erase_job_receipt [OF e] m by (auto simp: issue_destruction_receipt_def)
  have find: "find_job (rj_id j) (va_db v) = Some j" using d by (simp add: destroyable_def)
  have destroyed: "destroy_job_with_receipt env now ''RETENTION_EXPIRED'' (rj_id j) v = (Inl (SigningError m), v1)"
    using d trigger e r no_tombstone [of "rj_id j" "va_db v" env] by (simp add: destroy_job_with_receipt_def destroyable_def)
  have reg: "registry_ok (va_workspaces v)" using assms(1) by (simp add: vault_ok_def)
  note effect = erase_job_effect [OF e reg]
  have stop: "sweep_expired_jobs env now v = (Inl (SigningError m), v1)"
    by (simp add: sweep_expired_jobs_def expired_jobs_def [symmetric] assms(3) destroyed)
  have others: "same_for (rj_id k) v v1 \<and> k \<in> set (expired_jobs now (va_db v1))" if "k \<in> set js" for k
  proof -
    have "rj_id k \<noteq> rj_id j"
      using expired_jobs_distinct [of "va_db v" now] assms(1,3) that by (auto simp: vault_ok_def image_iff)
    moreover have "k \<in> set (expired_jobs now (va_db v))" using that assms(3) by simp
    ultimately show ?thesis using effect(2) unfolding expired_jobs_mem effect(6) by (auto simp: image_iff intro!: bexI [of _ k])
  qed
  have "rj_status (scrubbed now j) = Job_DESTROYED" by (simp add: scrubbed_def)
  have "find_job (rj_id j) (va_db v1) = Some (scrubbed now j)"
  proof -
    have "List.find (\<lambda>x. rj_id x = i) (map (\<lambda>x. if rj_id x = i then scrubbed now x else x) xs) =
        map_option (scrubbed now) (List.find (\<lambda>x. rj_id x = i) xs)" for i xs
      by (induction xs) (auto simp: scrubbed_def)
    then show ?thesis using find by (simp add: find_job_def effect(6))
  qed
  then have "destroy_job_with_receipt env now' trigger (rj_id j) v1 =
      (Inl (RuntimeError ''Destroyed job has no persisted destruction receipt''), v1)" if "trigger_event trigger \<noteq> None" for now' trigger
    using that d effect(5) no_tombstone [of "rj_id j" "va_db v1" env]
    by (auto simp: destroy_job_with_receipt_def destroyable_def scrubbed_def)
  then show ?thesis using stop effect(1) others by blast
qed

subsection \<open>A vault with two jobs\<close>

definition demo_retention :: "string \<Rightarrow> retention_env" where
  "demo_retention key =
     \<lparr>rn_runtime = demo_runtime\<lparr>rt_device_key := key\<rparr>, rn_float_reader = ratio_reader, rn_version = ''1''\<rparr>"

definition demo_key :: string where
  "demo_key = rt_device_key demo_runtime"

definition demo_job :: "string \<Rightarrow> int \<Rightarrow> retention_job" where
  "demo_job job seconds =
     \<lparr>rj_id = job, rj_purpose = ''review'', rj_recipient = ''desk'', rj_retention_seconds = seconds,
      rj_status = Job_TRANSFORMED, rj_created_at = utc 0, rj_updated_at = utc 0\<rparr>"

definition demo_vault :: vault where
  "demo_vault =
     \<lparr>va_db = \<lparr>rb_jobs = [demo_job ''a'' 60, demo_job ''b'' 90, demo_job ''c'' 9000],
         rb_files = [\<lparr>ow_id = ''f'', ow_job_id = ''a'', ow_body = JNull\<rparr>],
         rb_entities = [\<lparr>ow_id = ''e'', ow_job_id = ''a'', ow_body = JNull\<rparr>],
         rb_mentions = [\<lparr>ml_id = ''m'', ml_canonical_entity_id = ''e'', ml_body = JNull\<rparr>],
         rb_outputs = [\<lparr>ow_id = ''o'', ow_job_id = ''c'', ow_body = JNull\<rparr>], rb_certificates = [], rb_events = [],
         rb_tombstones = []\<rparr>,
      va_workspaces = \<lparr>ws_registry = [], ws_disk = [(''a'', [(''x'', ''raw'')]), (''c'', [(''y'', ''raw'')])]\<rparr>\<rparr>"

definition demo_now :: datetime where
  "demo_now = utc (100 * 1000000)"

lemma demo_vault_ok: "vault_ok demo_vault"
  by (simp add: vault_ok_def demo_vault_def demo_job_def registry_ok_def)

lemma demo_signing: "signing_ok (rn_runtime (demo_retention demo_key))"
  using signing_ok_demo by (simp add: demo_retention_def demo_key_def)

lemma demo_floats: "reads_floats (demo_retention demo_key)"
  using ratio_reads by (simp add: reads_floats_def demo_retention_def demo_runtime_def)

lemma demo_expired: "expired_jobs demo_now (va_db demo_vault) = [demo_job ''a'' 60, demo_job ''b'' 90]"
  by code_simp

lemma demo_destroyable: "destroyable ''a'' (demo_job ''a'' 60) demo_vault"
  by (simp add: destroyable_def demo_vault_def demo_job_def registry_ok_def find_job_def)

theorem destruction_erases_witness:
  "\<exists>out v'. destroy_job_with_receipt (demo_retention []) demo_now ''MANUAL'' ''a'' demo_vault = (out, v') \<and>
     erased ''a'' v' \<and> same_for ''c'' demo_vault v' \<and> rb_mentions (va_db v') = []"
proof -
  obtain out v' where run: "destroy_job_with_receipt (demo_retention []) demo_now ''MANUAL'' ''a'' demo_vault = (out, v')"
    by (metis prod.exhaust)
  have "trigger_event ''MANUAL'' = Some ''DESTRUCTION_REQUESTED''" by (simp add: trigger_event_def)
  note effect = destruction_erases [OF demo_destroyable this run]
  then have "set (rb_mentions (va_db v')) = {}" by (auto simp: demo_vault_def entity_ids_def)
  then have "rb_mentions (va_db v') = []" by simp
  moreover have "erased ''a'' v'" using effect by (rule conjunct1)
  moreover have "same_for ''c'' demo_vault v'" using effect by simp
  ultimately show ?thesis using run by blast
qed

theorem destruction_receipted_witness:
  "\<exists>response v'. destroy_job_with_receipt (demo_retention demo_key) demo_now ''MANUAL'' ''a'' demo_vault = (Inr response, v') \<and>
     dn_signature_valid response \<and>
     destroy_job_with_receipt (demo_retention demo_key) (utc 0) ''RETENTION_EXPIRED'' ''a'' v' = (Inr response, v')"
proof -
  have "trigger_event ''MANUAL'' = Some ''DESTRUCTION_REQUESTED''" "trigger_event ''RETENTION_EXPIRED'' \<noteq> None"
    by (simp_all add: trigger_event_def)
  with destruction_receipted [OF demo_destroyable this(1) demo_signing demo_floats, of demo_now] show ?thesis by blast
qed


theorem unsigned_sweep_stops_witness:
  "\<exists>m v'. sweep_expired_jobs (demo_retention []) demo_now demo_vault = (Inl (SigningError m), v') \<and>
     erased ''a'' v' \<and> same_for ''b'' demo_vault v' \<and> demo_job ''b'' 90 \<in> set (expired_jobs demo_now (va_db v'))"
proof -
  have "length (rt_device_key (rn_runtime (demo_retention []))) \<noteq> 32" by (simp add: demo_retention_def)
  from unsigned_sweep_stops [OF demo_vault_ok this demo_expired] obtain m v' where
      "sweep_expired_jobs (demo_retention []) demo_now demo_vault = (Inl (SigningError m), v')" "erased (rj_id (demo_job ''a'' 60)) v'"
      "\<forall>k \<in> set [demo_job ''b'' 90]. same_for (rj_id k) demo_vault v' \<and> k \<in> set (expired_jobs demo_now (va_db v'))" by blast
  moreover have "rj_id (demo_job i s) = i" for i s by (simp add: demo_job_def)
  ultimately show ?thesis by (intro exI [of _ m] exI [of _ v']) simp
qed

end
