(* ===== verification/Detections.thy ===== *)
theory Detections
  imports Identity_Graph
begin

section \<open>Detections of a document\<close>

text \<open>
  The value \<open>DetectedMention\<close> of \<open>detection/models.py\<close> and the product adapters of \<open>api/routes.py\<close> that refine what the
  detectors found: the merge with the structural detections of Word and video files, the suppression of title phrases and
  of undecoded codes, and the collapse of repeated reviews of one identity. The detectors themselves are parameters of the
  service.
\<close>

datatype detection_source = Source_TEXT_LAYER | Source_OCR | Source_VISUAL

primrec detection_source_value :: "detection_source \<Rightarrow> string" where
  "detection_source_value Source_TEXT_LAYER = ''TEXT_LAYER''"
| "detection_source_value Source_OCR = ''OCR''"
| "detection_source_value Source_VISUAL = ''VISUAL''"

datatype sensitivity_level = Sensitivity_HIGH | Sensitivity_MEDIUM | Sensitivity_LOW

primrec sensitivity_value :: "sensitivity_level \<Rightarrow> string" where
  "sensitivity_value Sensitivity_HIGH = ''high''"
| "sensitivity_value Sensitivity_MEDIUM = ''medium''"
| "sensitivity_value Sensitivity_LOW = ''low''"

datatype transformation_type =
  Transform_MASK | Transform_REMOVE_REGION | Transform_GENERALIZE | Transform_PSEUDONYMIZE | Transform_SYNTHESIZE

primrec transformation_value :: "transformation_type \<Rightarrow> string" where
  "transformation_value Transform_MASK = ''MASK''"
| "transformation_value Transform_REMOVE_REGION = ''REMOVE_REGION''"
| "transformation_value Transform_GENERALIZE = ''GENERALIZE''"
| "transformation_value Transform_PSEUDONYMIZE = ''PSEUDONYMIZE''"
| "transformation_value Transform_SYNTHESIZE = ''SYNTHESIZE''"

primrec review_status_value :: "review_status \<Rightarrow> string" where
  "review_status_value Review_NOT_REQUIRED = ''NOT_REQUIRED''"
| "review_status_value Review_PENDING = ''PENDING''"
| "review_status_value Review_PROTECT = ''PROTECT''"
| "review_status_value Review_IGNORE = ''IGNORE''"

type_synonym rect = "rat \<times> rat \<times> rat \<times> rat"

record detected_mention =
  dm_entity_type :: entity_type
  dm_plaintext :: string
  dm_page_index :: int
  dm_char_start :: int
  dm_char_end :: int
  dm_rect :: rect
  dm_confidence :: rat
  dm_source :: detection_source
  dm_sensitivity :: sensitivity_level
  dm_transformation :: transformation_type
  dm_review_status :: review_status
  dm_context_label :: "string option"

subsection \<open>Merging structural detections\<close>

definition rect_area :: "rect \<Rightarrow> rat" where
  "rect_area = (\<lambda>(x0, y0, x1, y1). max 0 (x1 - x0) * max 0 (y1 - y0))"

definition rect_iou :: "rect \<Rightarrow> rect \<Rightarrow> rat" where
  "rect_iou a b =
     (let (ax0, ay0, ax1, ay1) = a; (bx0, by0, bx1, by1) = b;
          intersection = rect_area (max ax0 bx0, max ay0 by0, min ax1 bx1, min ay1 by1);
          union = rect_area a + rect_area b - intersection
      in if union = 0 then 0 else intersection / union)"

definition same_finding :: "detected_mention \<Rightarrow> detected_mention \<Rightarrow> bool" where
  "same_finding c e \<longleftrightarrow>
     dm_page_index e = dm_page_index c \<and> dm_entity_type e = dm_entity_type c \<and>
     normalize_value (dm_entity_type c) (dm_plaintext c) = normalize_value (dm_entity_type e) (dm_plaintext e) \<and>
     7 / 20 \<le> rect_iou (dm_rect e) (dm_rect c)"

text \<open>One candidate: appended, or weighed against the first duplicate.\<close>

fun merge_candidate :: "detected_mention \<Rightarrow> detected_mention list \<Rightarrow> detected_mention list" where
  "merge_candidate c [] = [c]"
| "merge_candidate c (e # es) =
     (if same_finding c e then (if dm_confidence e < dm_confidence c then c # es else e # es)
      else e # merge_candidate c es)"

definition reading_order :: "detected_mention \<Rightarrow> int \<times> rat \<times> rat \<times> string" where
  "reading_order d = (let (x0, y0, x1, y1) = dm_rect d in (dm_page_index d, y0, x0, entity_type_value (dm_entity_type d)))"

definition merge_product_detections :: "detected_mention list \<Rightarrow> detected_mention list \<Rightarrow> detected_mention list" where
  "merge_product_detections base extra = sort_key reading_order (fold merge_candidate extra base)"

subsection \<open>Suppressions\<close>

definition format_title_terms :: "string list" where
  "format_title_terms =
     [''support'', ''case'', ''brief'', ''video'', ''privacy'', ''demo'', ''record'', ''report'', ''evidence'', ''document'',
      ''service'', ''portal'', ''workflow'', ''dataset'', ''release'', ''application'', ''form'', ''summary'', ''note'']"

definition label_of :: "detected_mention \<Rightarrow> string" where
  "label_of d = (case dm_context_label d of Some l \<Rightarrow> l | None \<Rightarrow> [])"

definition starts_with :: "string \<Rightarrow> string \<Rightarrow> bool" where
  "starts_with prefix s \<longleftrightarrow> take (length prefix) s = prefix"

text \<open>\<open>s.split()\<close> and \<open>s.isupper()\<close>.\<close>

definition split_blank :: "string \<Rightarrow> string list" where
  "split_blank s = filter (\<lambda>w. w \<noteq> []) (split_on CHR '' '' (map (\<lambda>c. if is_space c then CHR '' '' else c) s))"

definition is_upper_text :: "string \<Rightarrow> bool" where
  "is_upper_text s \<longleftrightarrow> list_ex is_upper s \<and> \<not> list_ex is_lower s"

definition title_words :: "string \<Rightarrow> string list" where
  "title_words s =
     map casefold (filter (\<lambda>w. w \<noteq> [])
       (map (strip_chars (\<lambda>c. c \<in> set ''.,;:()[]{}-_/'' \<or> c = CHR 0x5C)) (split_blank s)))"

definition title_phrase :: "string \<Rightarrow> bool" where
  "title_phrase s \<longleftrightarrow>
     (let words = title_words s; generic = length (filter (\<lambda>w. w \<in> set format_title_terms) words)
      in (length words = 1 \<and> generic = 1 \<and> is_upper_text (strip s)) \<or>
         (2 \<le> length words \<and> max 1 (length words - 1) \<le> generic))"

definition structural_prefix :: "file_type \<Rightarrow> string option" where
  "structural_prefix t =
     (case t of File_DOCX \<Rightarrow> Some ''docx-structural:location'' | File_VIDEO \<Rightarrow> Some ''video-structural:location'' | _ \<Rightarrow> None)"

definition structural_locations :: "file_type \<Rightarrow> detected_mention list \<Rightarrow> detected_mention list" where
  "structural_locations t ds =
     (case structural_prefix t of
        None \<Rightarrow> []
      | Some prefix \<Rightarrow> filter (\<lambda>d. dm_entity_type d = Ent_LOCALITY \<and> starts_with prefix (label_of d)) ds)"

definition contained_location :: "detected_mention list \<Rightarrow> detected_mention \<Rightarrow> bool" where
  "contained_location structural d \<longleftrightarrow>
     dm_entity_type d = Ent_LOCALITY \<and> starts_with ''broad-pii-v4:'' (label_of d) \<and>
     list_ex (\<lambda>s. dm_page_index s = dm_page_index d \<and> dm_char_start s \<le> dm_char_start d \<and> dm_char_end d \<le> dm_char_end s) structural"

definition title_name :: "detected_mention \<Rightarrow> bool" where
  "title_name d \<longleftrightarrow>
     dm_entity_type d = Ent_PERSON_NAME \<and>
     (label_of d = ''broad-pii-v4:person-context'' \<or> starts_with ''semantic-ner-v3:person_name:'' (label_of d)) \<and>
     title_phrase (dm_plaintext d)"

definition stabilize_format_context :: "detected_mention list \<Rightarrow> file_type \<Rightarrow> detected_mention list" where
  "stabilize_format_context ds t =
     (if t \<notin> {File_DOCX, File_VIDEO, File_TEXT} then ds
      else filter (\<lambda>d. \<not> contained_location (structural_locations t ds) d \<and> \<not> title_name d) ds)"

definition filter_video_geometry_only_qr :: "detected_mention list \<Rightarrow> detected_mention list" where
  "filter_video_geometry_only_qr ds =
     filter (\<lambda>d. \<not> (dm_source d = Source_VISUAL \<and> dm_entity_type d = Ent_QR_CODE \<and>
       starts_with ''UNDECODED_QR_CANDIDATE_'' (dm_plaintext d))) ds"

definition review_key :: "detected_mention \<Rightarrow> string" where
  "review_key d = normalize_value (dm_entity_type d) (dm_plaintext d)"

definition awaits_name_review :: "detected_mention \<Rightarrow> bool" where
  "awaits_name_review d \<longleftrightarrow> dm_review_status d = Review_PENDING \<and> dm_entity_type d = Ent_PERSON_NAME"

definition linked_review :: "detected_mention \<Rightarrow> detected_mention" where
  "linked_review d =
     d\<lparr>dm_review_status := Review_NOT_REQUIRED,
       dm_context_label := Some ((if label_of d = [] then ''video'' else label_of d) @ '':temporal-linked'')\<rparr>"

fun collapse_reviews :: "string list \<Rightarrow> detected_mention list \<Rightarrow> detected_mention list" where
  "collapse_reviews seen [] = []"
| "collapse_reviews seen (d # ds) =
     (if \<not> awaits_name_review d then d # collapse_reviews seen ds
      else if review_key d \<in> set seen then linked_review d # collapse_reviews seen ds
      else d # collapse_reviews (review_key d # seen) ds)"

definition collapse_video_temporal_reviews :: "detected_mention list \<Rightarrow> detected_mention list" where
  "collapse_video_temporal_reviews ds = collapse_reviews [] ds"

text \<open>The branch of \<open>analyse_file\<close> per file type, on what the detectors and the structural adapters return.\<close>

record raw_detections =
  rd_detected :: "detected_mention list"
  rd_structural :: "detected_mention list"

definition refine_detections :: "file_type \<Rightarrow> raw_detections \<Rightarrow> detected_mention list" where
  "refine_detections t raw =
     (case t of
        File_TEXT \<Rightarrow> stabilize_format_context (rd_detected raw) t
      | File_DOCX \<Rightarrow> stabilize_format_context (merge_product_detections (rd_detected raw) (rd_structural raw)) t
      | File_VIDEO \<Rightarrow> collapse_video_temporal_reviews (stabilize_format_context
          (merge_product_detections (filter_video_geometry_only_qr (rd_detected raw)) (rd_structural raw)) t)
      | _ \<Rightarrow> rd_detected raw)"

subsection \<open>What a refinement keeps\<close>

text \<open>A finding stands for another of its page, type and value when it is at least as confident.\<close>

definition stands_for :: "detected_mention \<Rightarrow> detected_mention \<Rightarrow> bool" where
  "stands_for d e \<longleftrightarrow>
     dm_page_index d = dm_page_index e \<and> dm_entity_type d = dm_entity_type e \<and>
     normalize_value (dm_entity_type d) (dm_plaintext d) = normalize_value (dm_entity_type e) (dm_plaintext e) \<and>
     dm_confidence e \<le> dm_confidence d"

lemma stands_for_refl: "stands_for d d"
  by (simp add: stands_for_def)

lemma stands_for_trans: "stands_for a b \<Longrightarrow> stands_for b c \<Longrightarrow> stands_for a c"
  by (auto simp: stands_for_def)

lemma merge_candidate_covers: "\<exists>d \<in> set (merge_candidate c es). stands_for d c"
  by (induction c es rule: merge_candidate.induct) (auto simp: stands_for_def same_finding_def)

lemma merge_candidate_keeps: "e \<in> set es \<Longrightarrow> \<exists>d \<in> set (merge_candidate c es). stands_for d e"
proof (induction c es rule: merge_candidate.induct)
  case (2 c x es)
  then show ?case by (auto simp: same_finding_def) (auto simp: stands_for_def)
qed simp

lemma merge_candidate_sub: "set (merge_candidate c es) \<subseteq> insert c (set es)"
  by (induction c es rule: merge_candidate.induct) auto

lemma fold_merge_keeps: "e \<in> set es \<Longrightarrow> \<exists>d \<in> set (fold merge_candidate cs es). stands_for d e"
proof (induction cs arbitrary: e es)
  case (Cons c cs)
  obtain d where d: "d \<in> set (merge_candidate c es)" "stands_for d e" using merge_candidate_keeps [OF Cons.prems] by blast
  from Cons.IH [OF d(1)] show ?case using d(2) by (auto intro: stands_for_trans)
qed (auto intro: stands_for_refl)

lemma fold_merge_covers: "c \<in> set cs \<Longrightarrow> \<exists>d \<in> set (fold merge_candidate cs es). stands_for d c"
proof (induction cs arbitrary: es)
  case (Cons x cs)
  show ?case
  proof (cases "c \<in> set cs")
    case False
    with Cons.prems have "c = x" by simp
    then obtain d where "d \<in> set (merge_candidate x es)" "stands_for d c" using merge_candidate_covers by blast
    then show ?thesis using fold_merge_keeps [of d "merge_candidate x es" cs] by (auto intro: stands_for_trans)
  qed (use Cons.IH in simp)
qed simp

lemma fold_merge_sub: "set (fold merge_candidate cs es) \<subseteq> set cs \<union> set es"
  by (induction cs arbitrary: es) (use merge_candidate_sub in force)+

lemma merge_product_sound:
  "e \<in> set base \<union> set extra \<Longrightarrow> \<exists>d \<in> set (merge_product_detections base extra). stands_for d e"
  "set (merge_product_detections base extra) \<subseteq> set base \<union> set extra"
  "sorted_wrt (\<lambda>a b. reading_order a \<le> reading_order b) (merge_product_detections base extra)"
proof -
  show "e \<in> set base \<union> set extra \<Longrightarrow> \<exists>d \<in> set (merge_product_detections base extra). stands_for d e"
    using fold_merge_keeps fold_merge_covers by (auto simp: merge_product_detections_def)
  show "set (merge_product_detections base extra) \<subseteq> set base \<union> set extra"
    using fold_merge_sub [of extra base] by (auto simp: merge_product_detections_def)
  have "sorted (map reading_order (merge_product_detections base extra))" by (simp add: merge_product_detections_def)
  then show "sorted_wrt (\<lambda>a b. reading_order a \<le> reading_order b) (merge_product_detections base extra)"
    by (simp add: sorted_map)
qed

text \<open>The reviews a collapsed track still asks for.\<close>

definition name_reviews :: "string \<Rightarrow> detected_mention list \<Rightarrow> detected_mention list" where
  "name_reviews key ds = filter (\<lambda>d. awaits_name_review d \<and> review_key d = key) ds"

lemma linked_not_awaiting [simp]: "\<not> awaits_name_review (linked_review d)"
  by (simp add: awaits_name_review_def linked_review_def)

lemma collapse_name_reviews:
  "name_reviews key (collapse_reviews seen ds) = (if key \<in> set seen then [] else take 1 (name_reviews key ds))"
  by (induction seen ds rule: collapse_reviews.induct) (auto simp: name_reviews_def)

definition without_review :: "detected_mention \<Rightarrow> detected_mention" where
  "without_review d = d\<lparr>dm_review_status := Review_NOT_REQUIRED, dm_context_label := None\<rparr>"

lemma collapse_same: "map without_review (collapse_reviews seen ds) = map without_review ds"
  by (induction seen ds rule: collapse_reviews.induct) (simp_all add: without_review_def linked_review_def)

definition adapted_inputs :: "file_type \<Rightarrow> raw_detections \<Rightarrow> detected_mention set" where
  "adapted_inputs t raw =
     (if t = File_VIDEO then set (filter_video_geometry_only_qr (rd_detected raw)) \<union> set (rd_structural raw)
      else if t = File_DOCX then set (rd_detected raw) \<union> set (rd_structural raw) else set (rd_detected raw))"

definition merged_detections :: "file_type \<Rightarrow> raw_detections \<Rightarrow> detected_mention list" where
  "merged_detections t raw =
     (if t = File_VIDEO then merge_product_detections (filter_video_geometry_only_qr (rd_detected raw)) (rd_structural raw)
      else if t = File_DOCX then merge_product_detections (rd_detected raw) (rd_structural raw) else rd_detected raw)"

definition suppressed :: "file_type \<Rightarrow> detected_mention list \<Rightarrow> detected_mention \<Rightarrow> bool" where
  "suppressed t ds d \<longleftrightarrow>
     t \<in> {File_DOCX, File_VIDEO, File_TEXT} \<and> (contained_location (structural_locations t ds) d \<or> title_name d)"

lemma merged_sound:
  "e \<in> adapted_inputs t raw \<Longrightarrow> \<exists>d \<in> set (merged_detections t raw). stands_for d e"
  "set (merged_detections t raw) \<subseteq> adapted_inputs t raw"
  using merge_product_sound(1) [of e] merge_product_sound(2)
  by (auto simp: merged_detections_def adapted_inputs_def intro: stands_for_refl)

lemma refined_merged:
  "map without_review (refine_detections t raw) =
     map without_review (filter (\<lambda>d. \<not> suppressed t (merged_detections t raw) d) (merged_detections t raw))"
proof -
  have stab: "stabilize_format_context ds u = filter (\<lambda>d. \<not> suppressed u ds d) ds" for ds u
    by (auto simp: stabilize_format_context_def suppressed_def intro!: filter_cong)
  have none: "\<not> suppressed File_PDF ds d" "\<not> suppressed File_IMAGE ds d" "\<not> suppressed File_DATASET ds d" for ds d
    by (simp_all add: suppressed_def)
  show ?thesis
    by (cases t) (simp_all add: refine_detections_def merged_detections_def stab none collapse_video_temporal_reviews_def collapse_same)
qed

text \<open>
  refining the detections of a file loses no finding. Every detection the adapters are given has one of its page, type
  and value, at least as confident, that is kept or is one of the title phrases and contained locations that are suppressed
  by name; nothing is reported that was not detected; and a video asks for at most one review per name, and for one exactly
  when some occurrence of the name awaits review.
\<close>

theorem refine_detections_sound:
  "(\<forall>e \<in> adapted_inputs t raw. \<exists>d \<in> adapted_inputs t raw. stands_for d e \<and>
      (suppressed t (merged_detections t raw) d \<or> without_review d \<in> without_review ` set (refine_detections t raw))) \<and>
   without_review ` set (refine_detections t raw) \<subseteq> without_review ` adapted_inputs t raw \<and>
   (t = File_VIDEO \<longrightarrow> length (name_reviews key (refine_detections t raw)) =
      min 1 (length (name_reviews key (stabilize_format_context (merged_detections t raw) t))))"
proof (intro conjI ballI impI)
  have kept: "without_review ` set (refine_detections t raw) =
      without_review ` {d \<in> set (merged_detections t raw). \<not> suppressed t (merged_detections t raw) d}"
    using arg_cong [OF refined_merged [of t raw], of set] by simp
  show "\<exists>d \<in> adapted_inputs t raw. stands_for d e \<and>
      (suppressed t (merged_detections t raw) d \<or> without_review d \<in> without_review ` set (refine_detections t raw))"
    if "e \<in> adapted_inputs t raw" for e
    using merged_sound(1) [OF that] merged_sound(2) unfolding kept by blast
  show "without_review ` set (refine_detections t raw) \<subseteq> without_review ` adapted_inputs t raw"
    using merged_sound(2) unfolding kept by blast
next
  assume "t = File_VIDEO"
  then have "refine_detections t raw = collapse_reviews [] (stabilize_format_context (merged_detections t raw) t)"
    by (simp add: refine_detections_def merged_detections_def collapse_video_temporal_reviews_def)
  then show "length (name_reviews key (refine_detections t raw)) =
      min 1 (length (name_reviews key (stabilize_format_context (merged_detections t raw) t)))"
    by (simp add: collapse_name_reviews)
qed

definition demo_name :: "int \<Rightarrow> string \<Rightarrow> detected_mention" where
  "demo_name page name =
     \<lparr>dm_entity_type = Ent_PERSON_NAME, dm_plaintext = name, dm_page_index = page, dm_char_start = 0, dm_char_end = 4,
      dm_rect = (0, 0, 10, 10), dm_confidence = 9 / 10, dm_source = Source_OCR, dm_sensitivity = Sensitivity_HIGH,
      dm_transformation = Transform_PSEUDONYMIZE, dm_review_status = Review_PENDING, dm_context_label = None\<rparr>"

definition demo_raw :: raw_detections where
  "demo_raw = \<lparr>rd_detected = [demo_name 0 ''Asha Rao'', demo_name 1 ''ASHA  Rao''], rd_structural = []\<rparr>"

theorem refine_detections_sound_witness:
  "length (name_reviews ''asha rao'' (refine_detections File_VIDEO demo_raw)) = 1 \<and>
   (\<exists>d \<in> adapted_inputs File_VIDEO demo_raw. stands_for d (demo_name 1 ''ASHA  Rao'') \<and>
      (suppressed File_VIDEO (merged_detections File_VIDEO demo_raw) d \<or>
       without_review d \<in> without_review ` set (refine_detections File_VIDEO demo_raw)))"
proof -
  have "length (name_reviews ''asha rao'' (stabilize_format_context (merged_detections File_VIDEO demo_raw) File_VIDEO)) = 2"
    by code_simp
  moreover have "demo_name 1 ''ASHA  Rao'' \<in> adapted_inputs File_VIDEO demo_raw"
    by (simp add: adapted_inputs_def demo_raw_def filter_video_geometry_only_qr_def demo_name_def)
  ultimately show ?thesis using refine_detections_sound [of File_VIDEO demo_raw "''asha rao''"] by auto
qed

text \<open>Digits alone identify a postcode, so two different alphanumeric postcodes have one normalised value.\<close>

lemma postcodes_conflated:
  "normalize_value Ent_POSTCODE ''SW1A 1AA'' = normalize_value Ent_POSTCODE ''N1 1AB''"
  by code_simp

end
