(* ===== verification/Certificate.thy ===== *)
theory Certificate
  imports Retention_Facts
begin

section \<open>Proof certificates\<close>

text \<open>
  \<open>issue_certificate\<close> and \<open>verify_certificate\<close> of \<open>proof/certificate.py\<close>: the signed statement that an output passed
  verification, over digests of the output, the manifest, the graph, the verification and the head of the audit ledger.
  The rendering as a PDF is not modelled.
\<close>

definition json_int :: "int \<Rightarrow> string \<Rightarrow> json \<Rightarrow> int res" where
  "json_int d k j = as_int (get_default (JInt d) k j)"

definition json_text :: "runtime \<Rightarrow> string \<Rightarrow> string \<Rightarrow> json \<Rightarrow> string" where
  "json_text rt d k j = as_text rt (get_default (JStr d) k j)"

definition json_sha :: "runtime \<Rightarrow> json \<Rightarrow> string" where
  "json_sha rt payload = rt_sha256 rt (canonical_json_bytes rt payload)"

definition signer_json :: "string \<Rightarrow> string \<Rightarrow> json" where
  "signer_json key fingerprint =
     JObj [(''algorithm'', JStr ''Ed25519''), (''public_key_b64'', JStr key), (''public_key_sha256'', JStr fingerprint)]"

text \<open>A payload that names the device key, and its signature.\<close>

definition signed_document :: "runtime \<Rightarrow> (json \<Rightarrow> json) \<Rightarrow> json res" where
  "signed_document rt payload_of =
     res_bind (public_key_b64 rt) (\<lambda>key. res_bind (signer_fingerprint rt) (\<lambda>fingerprint.
       let payload = payload_of (signer_json key fingerprint)
       in res_bind (sign_payload rt payload) (\<lambda>signature.
         Inr (JObj [(''payload'', payload), (''signature_algorithm'', JStr ''Ed25519''), (''signature_b64'', JStr signature)]))))"

definition certificate_id_of :: "runtime \<Rightarrow> string \<Rightarrow> string \<Rightarrow> string" where
  "certificate_id_of rt output_sha verified_at = ''VG-'' @ upper (take 16 (rt_sha256 rt (output_sha @ '':'' @ verified_at)))"

definition graph_of_manifest :: "json \<Rightarrow> json" where
  "graph_of_manifest manifest = get_default (JObj []) ''identity_exposure_graph'' manifest"

definition certificate_numbers :: "json \<Rightarrow> json \<Rightarrow> (int list) res" where
  "certificate_numbers manifest verification =
     res_map (\<lambda>(k, j). json_int 0 k j)
       [(''privacy_level'', manifest), (''proof_score'', verification), (''attack_coverage'', verification),
        (''critical_failures'', verification), (''risk_before'', verification), (''residual_risk'', verification),
        (''utility_score'', verification)]"

definition certificate_payload ::
    "retention_env \<Rightarrow> datetime \<Rightarrow> string \<Rightarrow> string \<Rightarrow> json \<Rightarrow> json \<Rightarrow> string \<Rightarrow> ledger_report \<Rightarrow> int list \<Rightarrow> json \<Rightarrow> json" where
  "certificate_payload env now job output_sha manifest verification verified_at audit numbers signer =
     (let rt = rn_runtime env in
        JObj
          [(''schema'', JStr ''veilgraph.proof-certificate.v1''),
           (''certificate_id'', JStr (certificate_id_of rt output_sha verified_at)),
           (''product'', JStr ''VeilGraph''), (''product_version'', JStr (rn_version env)),
           (''issued_at'', JStr (rt_datetime rt now)), (''verified_at'', JStr verified_at),
           (''job_commitment_sha256'', JStr (rt_sha256 rt job)), (''output_sha256'', JStr output_sha),
           (''input_sha256'', JStr (json_text rt [] ''input_sha256'' manifest)),
           (''manifest_sha256'', JStr (json_sha rt manifest)),
           (''graph_sha256'', JStr (json_text rt [] ''graph_sha256'' (graph_of_manifest manifest))),
           (''verification_sha256'', JStr (json_sha rt verification)),
           (''privacy_level'', JInt (numbers ! 0)),
           (''audience_profile'', JStr (json_text rt [] ''audience_profile'' manifest)),
           (''proof_score'', JInt (numbers ! 1)), (''attack_coverage'', JInt (numbers ! 2)),
           (''critical_failures'', JInt (numbers ! 3)),
           (''release_decision'', JStr (json_text rt ''BLOCK_RELEASE'' ''release_decision'' verification)),
           (''risk_before'', JInt (numbers ! 4)), (''residual_risk'', JInt (numbers ! 5)),
           (''utility_score'', JInt (numbers ! 6)),
           (''audit_head_at_certification'', JStr (lr_chain_head audit)),
           (''audit_events_at_certification'', JInt (int (lr_event_count audit))),
           (''signer'', signer),
           (''disclaimer'', JStr ''This certificate proves VeilGraph's listed local checks and artifact hashes for this output. It is not a legal or mathematical guarantee of anonymity against every external dataset or future attack.'')])"

definition issue_certificate ::
    "retention_env \<Rightarrow> datetime \<Rightarrow> string \<Rightarrow> string \<Rightarrow> json \<Rightarrow> json \<Rightarrow> string \<Rightarrow> ledger_report \<Rightarrow> json res" where
  "issue_certificate env now job output_sha manifest verification verified_at audit =
     res_bind (certificate_numbers manifest verification) (\<lambda>numbers.
       signed_document (rn_runtime env)
         (certificate_payload env now job output_sha manifest verification verified_at audit numbers))"

text \<open>Whatever raises, an invalid signature is the answer.\<close>

definition verify_certificate :: "runtime \<Rightarrow> json \<Rightarrow> bool" where
  "verify_certificate rt certificate = (case receipt_signature_valid rt certificate of Inr valid \<Rightarrow> valid | Inl _ \<Rightarrow> False)"

subsection \<open>What a signed document proves\<close>

text \<open>A signed document with a payload that names the signer verifies, also after it was stored and read.\<close>

lemma signed_document_verifies:
  assumes "signing_ok (rn_runtime env)" and "\<And>signer. json_field ''signer'' (payload_of signer) = Inr signer"
  obtains document signer where "signed_document (rn_runtime env) payload_of = Inr document"
    "json_field ''payload'' document = Inr (payload_of signer)" "receipt_signature_valid (rn_runtime env) document = Inr True"
    "\<exists>kvs. signer = JObj kvs" "wf_json signer"
    "(\<And>s. wf_json s \<Longrightarrow> wf_json (payload_of s)) \<Longrightarrow> wf_json document"
proof -
  let ?rt = "rn_runtime env"
  obtain k raw where key: "public_key_b64 ?rt = Inr k" "signer_fingerprint ?rt = Inr (rt_sha256 ?rt raw)"
    using device_signer.publishes [OF assms(1)] by blast
  let ?s = "signer_json k (rt_sha256 ?rt raw)"
  obtain sg where sg: "sign_payload ?rt (payload_of ?s) = Inr sg" using device_signer.signs [OF assms(1)] by blast
  have valid: "verify_payload ?rt (payload_of ?s) sg k" using device_signer.sign_verify [OF assms(1) sg key(1)] .
  let ?d = "JObj [(''payload'', payload_of ?s), (''signature_algorithm'', JStr ''Ed25519''), (''signature_b64'', JStr sg)]"
  have s: "str_field ''public_key_b64'' ?s = Inr k" by (simp add: str_field_def json_field_def signer_json_def)
  have d: "json_field ''payload'' ?d = Inr (payload_of ?s)" "str_field ''signature_b64'' ?d = Inr sg"
    by (simp_all add: str_field_def json_field_def)
  have "receipt_signature_valid ?rt ?d = Inr True"
    unfolding receipt_signature_valid_def d res_bind_simps assms(2) s using valid by simp
  moreover have "signed_document ?rt payload_of = Inr ?d" using key sg by (simp add: signed_document_def Let_def)
  moreover have "wf_json ?s" by (simp add: signer_json_def)
  ultimately show ?thesis using d(1) by (intro that [of ?d ?s]) (auto simp: signer_json_def)
qed

lemma verify_certificate_canon: "canon a = canon b \<Longrightarrow> verify_certificate rt b \<Longrightarrow> verify_certificate rt a"
  unfolding verify_certificate_def
  by (cases "receipt_signature_valid rt b") (auto dest: receipt_signature_canon)

end
