(* ===== verification/Pipeline_State.thy ===== *)
theory Pipeline_State
  imports Detections Certificate
begin

section \<open>The state of the privacy pipeline\<close>

text \<open>
  What the endpoints of \<open>api/routes.py\<close> read and write: the rows of \<open>core/database.py\<close>, the workspaces of the process and
  the disk, and the outcome of a request, which is a value, an \<open>HTTPException\<close> or an exception no handler catches. An
  endpoint is a function from the state to an outcome and a state; every statement of the database is its own transaction,
  so what a handler wrote before it raised stays written. A request is one step, served at one instant; the random
  identifiers, nonces and keys it draws are its inputs.
\<close>

subsection \<open>Rows\<close>

datatype output_status = Output_CREATED | Output_VERIFIED_SAFE | Output_RELEASE_BLOCKED | Output_DESTROYED

primrec output_status_value :: "output_status \<Rightarrow> string" where
  "output_status_value Output_CREATED = ''CREATED''"
| "output_status_value Output_VERIFIED_SAFE = ''VERIFIED_SAFE''"
| "output_status_value Output_RELEASE_BLOCKED = ''RELEASE_BLOCKED''"
| "output_status_value Output_DESTROYED = ''DESTROYED''"

datatype test_status = Test_PASS | Test_FAIL | Test_INCONCLUSIVE

primrec test_status_value :: "test_status \<Rightarrow> string" where
  "test_status_value Test_PASS = ''PASS''"
| "test_status_value Test_FAIL = ''FAIL''"
| "test_status_value Test_INCONCLUSIVE = ''INCONCLUSIVE''"

record pipeline_job =
  pj_id :: string
  pj_purpose :: string
  pj_recipient :: string
  pj_audience :: audience_profile
  pj_level :: privacy_level
  pj_retention_seconds :: int
  pj_status :: job_status
  pj_created_at :: datetime
  pj_updated_at :: datetime

record pipeline_file =
  pf_id :: string
  pf_job_id :: string
  pf_original_filename :: string
  pf_file_type :: file_type
  pf_media_type :: string
  pf_encrypted_name :: string
  pf_sha256 :: string
  pf_page_count :: nat
  pf_scanned_pages :: nat
  pf_status :: string
  pf_created_at :: datetime

record pipeline_entity =
  pe_id :: string
  pe_job_id :: string
  pe_file_id :: string
  pe_entity_type :: entity_type
  pe_fingerprint :: string
  pe_placeholder :: string
  pe_sensitivity :: sensitivity_level
  pe_transformation :: transformation_type

record pipeline_mention =
  pm_id :: string
  pm_entity_id :: string
  pm_page_index :: int
  pm_char_start :: int
  pm_char_end :: int
  pm_rect :: rect
  pm_confidence :: rat
  pm_source :: detection_source
  pm_review_status :: review_status
  pm_context_label :: "string option"

record pipeline_output =
  po_id :: string
  po_job_id :: string
  po_file_id :: string
  po_encrypted_name :: string
  po_sha256 :: string
  po_media_type :: string
  po_download_name :: string
  po_status :: output_status
  po_manifest_json :: string
  po_verification_json :: "string option"
  po_created_at :: datetime
  po_verified_at :: "datetime option"

record pipeline_certificate =
  pc_id :: string
  pc_job_id :: string
  pc_output_id :: string
  pc_certificate_json :: string
  pc_certificate_sha256 :: string

record pipeline =
  pp_jobs :: "pipeline_job list"
  pp_files :: "pipeline_file list"
  pp_entities :: "pipeline_entity list"
  pp_mentions :: "pipeline_mention list"
  pp_outputs :: "pipeline_output list"
  pp_certificates :: "pipeline_certificate list"
  pp_events :: "audit_row list"
  pp_tombstones :: "tombstone_row list"
  pp_workspaces :: workspace_state

subsection \<open>The environment\<close>

record protection_instruction =
  pi_entity_id :: string
  pi_mention_id :: string
  pi_entity_type :: entity_type
  pi_page_index :: int
  pi_rect :: rect
  pi_replacement :: string
  pi_char_start :: "int option"
  pi_char_end :: "int option"

record analysed_document =
  ad_page_count :: nat
  ad_scanned_pages :: nat
  ad_summary :: json
  ad_detections :: raw_detections

record transformed =
  tf_data :: string
  tf_media_type :: string
  tf_report :: json

record synthetic_twin =
  sy_data :: string
  sy_media_type :: string
  sy_report :: "(string \<times> json) list"
  sy_replacements :: "(string \<times> string) list"

record test_result =
  tr_name :: string
  tr_status :: test_status
  tr_detail :: string
  tr_attack_class :: string
  tr_severity :: string

record attack =
  at_original :: string
  at_protected :: string
  at_file_type :: file_type
  at_known_values :: "(entity_type \<times> string) list"
  at_instructions :: "protection_instruction list"
  at_expected_ids :: "string list"
  at_level :: privacy_level
  at_ignored_regions :: "json list"
  at_synthetic_twin :: json

text \<open>The libraries and the modules the endpoints call: the parsers and detectors, the sanitiser and the red team.\<close>

record pipeline_lib =
  pl_env :: retention_env
  pl_crypto :: crypto_lib
  pl_settings :: settings
  pl_video :: video_lib
  pl_upload :: upload_lib
  pl_calendar :: calendar
  pl_enforce_policy_floors :: bool
  pl_analyse :: "string \<Rightarrow> file_type \<Rightarrow> string \<Rightarrow> analysed_document res"
  pl_sanitize :: "string \<Rightarrow> file_type \<Rightarrow> protection_instruction list \<Rightarrow> string \<Rightarrow> transformed res"
  pl_synthesize :: "string \<Rightarrow> protection_instruction list \<Rightarrow> string \<Rightarrow> string \<Rightarrow> synthetic_twin res"
  pl_red_team :: "attack \<Rightarrow> test_result list res"

record request_io =
  io_now :: datetime
  io_uuid :: "nat \<Rightarrow> string"
  io_nonce :: string
  io_master :: string
  io_salt :: string

abbreviation pl_runtime :: "pipeline_lib \<Rightarrow> runtime" where
  "pl_runtime lib \<equiv> rn_runtime (pl_env lib)"

abbreviation pl_loads :: "pipeline_lib \<Rightarrow> string \<Rightarrow> json option" where
  "pl_loads lib \<equiv> loads (rn_float_reader (pl_env lib))"

subsection \<open>Operations\<close>

datatype 'a outcome = Served 'a | Http_error nat string | Crashed py_error

type_synonym 'a op = "pipeline \<Rightarrow> 'a outcome \<times> pipeline"

definition op_return :: "'a \<Rightarrow> 'a op" where
  "op_return x = (\<lambda>s. (Served x, s))"

definition op_bind :: "'a op \<Rightarrow> ('a \<Rightarrow> 'b op) \<Rightarrow> 'b op" where
  "op_bind m f = (\<lambda>s. case m s of
     (Served x, s') \<Rightarrow> f x s'
   | (Http_error n d, s') \<Rightarrow> (Http_error n d, s')
   | (Crashed e, s') \<Rightarrow> (Crashed e, s'))"

definition op_read :: "(pipeline \<Rightarrow> 'a) \<Rightarrow> 'a op" where
  "op_read f = (\<lambda>s. (Served (f s), s))"

definition op_update :: "(pipeline \<Rightarrow> pipeline) \<Rightarrow> unit op" where
  "op_update f = (\<lambda>s. (Served (), f s))"

definition op_refuse :: "nat \<Rightarrow> string \<Rightarrow> 'a op" where
  "op_refuse n detail = (\<lambda>s. (Http_error n detail, s))"

definition op_crash :: "py_error \<Rightarrow> 'a op" where
  "op_crash e = (\<lambda>s. (Crashed e, s))"

definition op_guard :: "bool \<Rightarrow> nat \<Rightarrow> string \<Rightarrow> unit op" where
  "op_guard ok n detail = (if ok then op_return () else op_refuse n detail)"

text \<open>A result whose exception is not caught.\<close>

definition op_lift :: "'a res \<Rightarrow> 'a op" where
  "op_lift r = (case r of Inr x \<Rightarrow> op_return x | Inl e \<Rightarrow> op_crash e)"

text \<open>A statement that may violate a constraint of the database, and an operation on the workspaces.\<close>

definition op_statement :: "(pipeline \<Rightarrow> py_error option) \<Rightarrow> (pipeline \<Rightarrow> pipeline) \<Rightarrow> unit op" where
  "op_statement violated f = (\<lambda>s. case violated s of Some e \<Rightarrow> (Crashed e, s) | None \<Rightarrow> (Served (), f s))"

definition op_workspace :: "(workspace_state \<Rightarrow> 'a res \<times> workspace_state) \<Rightarrow> 'a op" where
  "op_workspace f = (\<lambda>s. case f (pp_workspaces s) of
     (Inl e, ws) \<Rightarrow> (Crashed e, s\<lparr>pp_workspaces := ws\<rparr>)
   | (Inr x, ws) \<Rightarrow> (Served x, s\<lparr>pp_workspaces := ws\<rparr>))"

text \<open>
  \<open>try: ... except (WorkspaceError, ValueError) as exc: ... raise HTTPException(n, str(exc))\<close>: the body, the exceptions that
  are caught and what runs before the response.
\<close>

definition op_try :: "'a op \<Rightarrow> (py_error \<Rightarrow> bool) \<Rightarrow> (py_error \<Rightarrow> 'a op) \<Rightarrow> 'a op" where
  "op_try m caught handler = (\<lambda>s. case m s of (Crashed e, s') \<Rightarrow> if caught e then handler e s' else (Crashed e, s') | r \<Rightarrow> r)"

fun op_map :: "('a \<Rightarrow> 'b op) \<Rightarrow> 'a list \<Rightarrow> 'b list op" where
  "op_map f [] = op_return []"
| "op_map f (x # xs) = op_bind (f x) (\<lambda>y. op_bind (op_map f xs) (\<lambda>ys. op_return (y # ys)))"

text \<open>A workspace exception is \<open>RuntimeError\<close> in the model of the workspaces.\<close>

definition is_workspace_error :: "py_error \<Rightarrow> bool" where
  "is_workspace_error e = (case e of RuntimeError _ \<Rightarrow> True | _ \<Rightarrow> False)"

definition is_key_error :: "py_error \<Rightarrow> bool" where
  "is_key_error e = (case e of KeyError _ \<Rightarrow> True | _ \<Rightarrow> False)"

subsection \<open>The database\<close>

definition find_by :: "('r \<Rightarrow> string) \<Rightarrow> string \<Rightarrow> 'r list \<Rightarrow> 'r option" where
  "find_by key k rows = List.find (\<lambda>r. key r = k) rows"

definition job_or_404 :: "string \<Rightarrow> pipeline_job op" where
  "job_or_404 job_id = (\<lambda>s. case find_by pj_id job_id (pp_jobs s) of
     None \<Rightarrow> (Http_error 404 ''Job not found'', s)
   | Some j \<Rightarrow> if pj_status j = Job_DESTROYED then (Http_error 410 ''Job has been destroyed'', s) else (Served j, s))"

definition file_or_404 :: "string \<Rightarrow> string \<Rightarrow> pipeline_file op" where
  "file_or_404 job_id file_id = (\<lambda>s. case List.find (\<lambda>f. pf_id f = file_id \<and> pf_job_id f = job_id) (pp_files s) of
     None \<Rightarrow> (Http_error 404 ''File not found for this job'', s)
   | Some f \<Rightarrow> (Served f, s))"

definition output_or_404 :: "string \<Rightarrow> string \<Rightarrow> pipeline_output op" where
  "output_or_404 job_id output_id = (\<lambda>s. case List.find (\<lambda>f. po_id f = output_id \<and> po_job_id f = job_id) (pp_outputs s) of
     None \<Rightarrow> (Http_error 404 ''Output not found for this job'', s)
   | Some r \<Rightarrow> (Served r, s))"

definition certificate_or_404 :: "pipeline_lib \<Rightarrow> string \<Rightarrow> string \<Rightarrow> json op" where
  "certificate_or_404 lib job_id output_id = (\<lambda>s.
     case List.find (\<lambda>c. pc_job_id c = job_id \<and> pc_output_id c = output_id) (pp_certificates s) of
       None \<Rightarrow> (Http_error 404 ''Proof certificate has not been issued for this output'', s)
     | Some c \<Rightarrow> (case pl_loads lib (pc_certificate_json c) of
           None \<Rightarrow> (Crashed (ValueError ''invalid JSON''), s) | Some j \<Rightarrow> (Served j, s)))"

text \<open>Primary keys and the unique keys an insertion can violate.\<close>

definition unique_key :: "('r \<Rightarrow> 'k) \<Rightarrow> 'r \<Rightarrow> 'r list \<Rightarrow> string \<Rightarrow> py_error option" where
  "unique_key key r rows what =
     (if key r \<in> key ` set rows then Some (DatabaseIntegrityError (''UNIQUE constraint failed: '' @ what)) else None)"

definition insert_job :: "pipeline_job \<Rightarrow> unit op" where
  "insert_job r = op_statement (\<lambda>s. unique_key pj_id r (pp_jobs s) ''jobs.id'') (\<lambda>s. s\<lparr>pp_jobs := pp_jobs s @ [r]\<rparr>)"

definition insert_file :: "pipeline_file \<Rightarrow> unit op" where
  "insert_file r = op_statement (\<lambda>s. unique_key pf_id r (pp_files s) ''files.id'') (\<lambda>s. s\<lparr>pp_files := pp_files s @ [r]\<rparr>)"

definition insert_canonical_entity :: "pipeline_entity \<Rightarrow> unit op" where
  "insert_canonical_entity r = op_statement
     (\<lambda>s. if pe_id r \<in> pe_id ` set (pp_entities s) then unique_key pe_id r (pp_entities s) ''canonical_entities.id''
        else unique_key (\<lambda>e. (pe_job_id e, pe_file_id e, pe_fingerprint e)) r (pp_entities s) ''canonical_entities.fingerprint'')
     (\<lambda>s. s\<lparr>pp_entities := pp_entities s @ [r]\<rparr>)"

text \<open>\<open>INSERT OR IGNORE\<close>.\<close>

definition mention_key :: "pipeline_mention \<Rightarrow> string \<times> int \<times> rect \<times> detection_source" where
  "mention_key m = (pm_entity_id m, pm_page_index m, pm_rect m, pm_source m)"

definition insert_mention :: "pipeline_mention \<Rightarrow> unit op" where
  "insert_mention r = op_update (\<lambda>s.
     if pm_id r \<in> pm_id ` set (pp_mentions s) \<or> mention_key r \<in> mention_key ` set (pp_mentions s) then s
     else s\<lparr>pp_mentions := pp_mentions s @ [r]\<rparr>)"

definition insert_output :: "pipeline_output \<Rightarrow> unit op" where
  "insert_output r = op_statement (\<lambda>s. unique_key po_id r (pp_outputs s) ''outputs.id'') (\<lambda>s. s\<lparr>pp_outputs := pp_outputs s @ [r]\<rparr>)"

definition update_job :: "string \<Rightarrow> (pipeline_job \<Rightarrow> pipeline_job) \<Rightarrow> unit op" where
  "update_job job_id f = op_update (\<lambda>s. s\<lparr>pp_jobs := map (\<lambda>j. if pj_id j = job_id then f j else j) (pp_jobs s)\<rparr>)"

definition update_job_status :: "request_io \<Rightarrow> string \<Rightarrow> job_status \<Rightarrow> unit op" where
  "update_job_status io job_id status = update_job job_id (\<lambda>j. j\<lparr>pj_status := status, pj_updated_at := io_now io\<rparr>)"

definition update_output_verification ::
    "pipeline_lib \<Rightarrow> request_io \<Rightarrow> string \<Rightarrow> output_status \<Rightarrow> json \<Rightarrow> unit op" where
  "update_output_verification lib io output_id status verification = op_update (\<lambda>s. s\<lparr>pp_outputs := map (\<lambda>r.
     if po_id r = output_id
     then r\<lparr>po_status := status, po_verification_json := Some (dumps_styled default_style (pl_runtime lib) True verification),
            po_verified_at := Some (io_now io)\<rparr>
     else r) (pp_outputs s)\<rparr>)"

text \<open>
  \<open>upsert_certificate\<close>: the certificate of an output is replaced; another output with the identifier violates the primary
  key.
\<close>

definition upsert_certificate :: "pipeline_certificate \<Rightarrow> unit op" where
  "upsert_certificate r = op_statement
     (\<lambda>s. unique_key pc_id r (filter (\<lambda>c. pc_output_id c \<noteq> pc_output_id r) (pp_certificates s)) ''proof_certificates.id'')
     (\<lambda>s. s\<lparr>pp_certificates :=
        (if pc_output_id r \<in> pc_output_id ` set (pp_certificates s)
         then map (\<lambda>c. if pc_output_id c = pc_output_id r then r\<lparr>pc_job_id := pc_job_id c\<rparr> else c) (pp_certificates s)
         else pp_certificates s @ [r])\<rparr>)"

definition pipeline_ledger :: "pipeline \<Rightarrow> ledger_db" where
  "pipeline_ledger s = \<lparr>ld_jobs = map pj_id (pp_jobs s), ld_events = pp_events s\<rparr>"

definition op_event :: "pipeline_lib \<Rightarrow> request_io \<Rightarrow> string \<Rightarrow> string \<Rightarrow> (string \<times> json) list \<Rightarrow> unit op" where
  "op_event lib io job_id event_type details = (\<lambda>s.
     case append_event (pl_runtime lib) (rt_datetime (pl_runtime lib) (io_now io)) job_id event_type (Some details) (pipeline_ledger s) of
       (Inl e, l) \<Rightarrow> (Crashed e, s\<lparr>pp_events := ld_events l\<rparr>)
     | (Inr _, l) \<Rightarrow> (Served (), s\<lparr>pp_events := ld_events l\<rparr>))"

definition op_verify_ledger :: "pipeline_lib \<Rightarrow> string \<Rightarrow> ledger_report op" where
  "op_verify_ledger lib job_id = op_bind (op_read pipeline_ledger) (\<lambda>l. op_lift (verify_ledger (pl_runtime lib) (pl_loads lib) job_id l))"

subsection \<open>Views\<close>

definition job_mentions :: "string \<Rightarrow> string \<Rightarrow> pipeline \<Rightarrow> (pipeline_mention \<times> pipeline_entity) list" where
  "job_mentions job_id file_id s =
     concat (map (\<lambda>m. map (\<lambda>e. (m, e))
       (filter (\<lambda>e. pe_id e = pm_entity_id m \<and> pe_job_id e = job_id \<and> pe_file_id e = file_id) (pp_entities s))) (pp_mentions s))"

definition pending_reviews :: "string \<Rightarrow> string \<Rightarrow> pipeline \<Rightarrow> nat" where
  "pending_reviews job_id file_id s =
     length (filter (\<lambda>(m, e). pm_review_status m = Review_PENDING) (job_mentions job_id file_id s))"

definition entity_order :: "pipeline_entity \<Rightarrow> string \<times> string" where
  "entity_order e = (entity_type_value (pe_entity_type e), pe_placeholder e)"

definition entity_rows :: "string \<Rightarrow> string \<Rightarrow> pipeline \<Rightarrow> pipeline_entity list" where
  "entity_rows job_id file_id s =
     sort_key entity_order (filter (\<lambda>e. pe_job_id e = job_id \<and> pe_file_id e = file_id) (pp_entities s))"

definition mention_order :: "pipeline_mention \<Rightarrow> int \<times> rat \<times> rat" where
  "mention_order m = (let (x0, y0, x1, y1) = pm_rect m in (pm_page_index m, y0, x0))"

definition mentions_of :: "string \<Rightarrow> pipeline \<Rightarrow> pipeline_mention list" where
  "mentions_of entity_id s = sort_key mention_order (filter (\<lambda>m. pm_entity_id m = entity_id) (pp_mentions s))"

definition graph_mention :: "pipeline_mention \<Rightarrow> mention_row" where
  "graph_mention m =
     \<lparr>mr_review_status = pm_review_status m, mr_context_label = pm_context_label m, mr_page_index = pm_page_index m\<rparr>"

definition graph_entity :: "pipeline_entity \<Rightarrow> identity_row" where
  "graph_entity e = \<lparr>ir_id = pe_id e, ir_entity_type = pe_entity_type e, ir_placeholder = pe_placeholder e,
     ir_sensitivity = sensitivity_value (pe_sensitivity e)\<rparr>"

definition pipeline_graph :: "pipeline_lib \<Rightarrow> pipeline_job \<Rightarrow> pipeline_file \<Rightarrow> privacy_level \<Rightarrow> pipeline \<Rightarrow> identity_graph" where
  "pipeline_graph lib job f level s =
     (let entities = entity_rows (pj_id job) (pf_id f) s
      in build_exposure_graph (pl_runtime lib) \<lparr>jr_id = pj_id job, jr_audience_profile = pj_audience job\<rparr>
           \<lparr>fr_id = pf_id f, fr_original_filename = pf_original_filename f, fr_file_type = pf_file_type f,
            fr_page_count = pf_page_count f\<rparr>
           (map graph_entity entities) (map (\<lambda>e. (pe_id e, map graph_mention (mentions_of (pe_id e) s))) entities) level)"

end
