(* ===== verification/Pipeline.thy ===== *)
theory Pipeline
  imports Pipeline_State
begin

section \<open>The endpoints of the privacy pipeline\<close>

text \<open>
  \<open>api/routes.py\<close>: a job is created, a file uploaded and analysed, the candidates reviewed, the file transformed, the
  output attacked by the red team, certified and downloaded, and the job destroyed. The counters of the status page, the
  previews and the exports are not modelled. \<open>str(exc)\<close> of an exception is its message.
\<close>

definition op_detail :: "pipeline_lib \<Rightarrow> py_error \<Rightarrow> string" where
  "op_detail lib e = (case e of RuntimeError m \<Rightarrow> m | _ \<Rightarrow> error_text (pl_runtime lib) e)"

definition caught_by_handlers :: "py_error \<Rightarrow> bool" where
  "caught_by_handlers e \<longleftrightarrow> is_workspace_error e \<or> is_value_error e"

definition ws_get :: "string \<Rightarrow> workspace op" where
  "ws_get job_id = op_workspace (\<lambda>ws. (get_workspace job_id ws, ws))"

definition ws_read :: "pipeline_lib \<Rightarrow> string \<Rightarrow> string \<Rightarrow> string op" where
  "ws_read lib job_id name = op_workspace (\<lambda>ws. (read_encrypted (pl_crypto lib) job_id name ws, ws))"

definition ws_write :: "pipeline_lib \<Rightarrow> request_io \<Rightarrow> string \<Rightarrow> string \<Rightarrow> string \<Rightarrow> unit op" where
  "ws_write lib io job_id name content = op_workspace (write_encrypted (pl_crypto lib) (io_nonce io) job_id name content)"

definition ws_plaintext :: "string \<Rightarrow> string \<Rightarrow> string option op" where
  "ws_plaintext job_id entity_id = op_workspace (\<lambda>ws. (get_plaintext job_id entity_id ws, ws))"

subsection \<open>Jobs and files\<close>

record job_create =
  jc_purpose :: string
  jc_recipient :: string
  jc_audience :: audience_profile
  jc_level :: privacy_level
  jc_retention_seconds :: int

definition job_create_ok :: "job_create \<Rightarrow> bool" where
  "job_create_ok p \<longleftrightarrow> len_between 1 200 (jc_purpose p) \<and> len_between 1 200 (jc_recipient p) \<and>
     60 \<le> jc_retention_seconds p \<and> jc_retention_seconds p \<le> 86400"

definition create_job :: "pipeline_lib \<Rightarrow> request_io \<Rightarrow> job_create \<Rightarrow> pipeline_job op" where
  "create_job lib io payload =
     (let job_id = io_uuid io 0; sha = rt_sha256 (pl_runtime lib);
          row = \<lparr>pj_id = job_id, pj_purpose = jc_purpose payload, pj_recipient = jc_recipient payload,
            pj_audience = jc_audience payload, pj_level = jc_level payload,
            pj_retention_seconds = jc_retention_seconds payload, pj_status = Job_CREATED, pj_created_at = io_now io,
            pj_updated_at = io_now io\<rparr>
      in op_bind (op_guard (job_create_ok payload) 422 ''validation error'') (\<lambda>_.
         op_bind (op_try (op_workspace (create_workspace (pl_crypto lib) (io_master io) job_id)) is_workspace_error
           (\<lambda>e. op_refuse 500 (op_detail lib e))) (\<lambda>_.
         op_bind (insert_job row) (\<lambda>_.
         op_bind (op_event lib io job_id ''JOB_CREATED''
           [(''purpose_sha256'', JStr (sha (jc_purpose payload))), (''recipient_sha256'', JStr (sha (jc_recipient payload))),
            (''audience_profile'', JStr (audience_value (jc_audience payload))),
            (''privacy_level'', JInt (level_int (jc_level payload))),
            (''retention_seconds'', JInt (jc_retention_seconds payload))]) (\<lambda>_. op_return row)))))"

primrec file_type_value :: "file_type \<Rightarrow> string" where
  "file_type_value File_PDF = ''PDF''"
| "file_type_value File_IMAGE = ''IMAGE''"
| "file_type_value File_TEXT = ''TEXT''"
| "file_type_value File_DATASET = ''DATASET''"
| "file_type_value File_DOCX = ''DOCX''"
| "file_type_value File_VIDEO = ''VIDEO''"

definition is_upload_error :: "py_error \<Rightarrow> bool" where
  "is_upload_error e = (case e of UploadValidationError _ \<Rightarrow> True | _ \<Rightarrow> is_workspace_error e)"

definition upload_file :: "pipeline_lib \<Rightarrow> request_io \<Rightarrow> string \<Rightarrow> string option \<Rightarrow> string \<Rightarrow> pipeline_file op" where
  "upload_file lib io job_id name content =
     (let safe_filename = sanitize_filename (case name of None \<Rightarrow> ''input'' | Some n \<Rightarrow> if n = [] then ''input'' else n);
          file_id = io_uuid io 0; encrypted_name = ''original-'' @ file_id @ ''.vgenc''
      in op_bind (job_or_404 job_id) (\<lambda>_.
         op_bind (op_try
           (op_bind (op_lift (validate_upload (pl_runtime lib) (pl_settings lib) (pl_video lib) (pl_upload lib) content safe_filename))
             (\<lambda>checked. op_bind (ws_get job_id) (\<lambda>_. op_return checked)))
           is_upload_error (\<lambda>e. op_refuse 400 (op_detail lib e))) (\<lambda>(file_type, media_type, sha).
         let row = \<lparr>pf_id = file_id, pf_job_id = job_id, pf_original_filename = safe_filename, pf_file_type = file_type,
               pf_media_type = media_type, pf_encrypted_name = encrypted_name, pf_sha256 = sha, pf_page_count = 0,
               pf_scanned_pages = 0, pf_status = ''UPLOADED'', pf_created_at = io_now io\<rparr> in
         op_bind (ws_write lib io job_id encrypted_name content) (\<lambda>_.
         op_bind (insert_file row) (\<lambda>_.
         op_bind (update_job_status io job_id Job_UPLOADED) (\<lambda>_.
         op_bind (op_event lib io job_id ''FILE_UPLOADED''
           [(''file_id'', JStr file_id), (''filename'', JStr safe_filename), (''file_type'', JStr (file_type_value file_type)),
            (''media_type'', JStr media_type), (''size_bytes'', JInt (int (length content))), (''input_sha256'', JStr sha)]) (\<lambda>_.
         op_return row)))))))"

subsection \<open>Analysis\<close>

record analysis_state =
  an_known :: "(string \<times> string) list"
  an_counters :: "entity_type \<Rightarrow> nat"
  an_uuid :: nat
  an_direct :: nat
  an_quasi :: nat
  an_visual :: nat
  an_pending :: nat

definition empty_analysis :: analysis_state where
  "empty_analysis = \<lparr>an_known = [], an_counters = (\<lambda>_. 0), an_uuid = 0, an_direct = 0, an_quasi = 0, an_visual = 0, an_pending = 0\<rparr>"

definition normalized_detection :: "detected_mention \<Rightarrow> string" where
  "normalized_detection d =
     (if dm_source d = Source_VISUAL then dm_plaintext d else normalize_value (dm_entity_type d) (dm_plaintext d))"

definition count_detection :: "detected_mention \<Rightarrow> analysis_state \<Rightarrow> analysis_state" where
  "count_detection d acc =
     (if dm_source d = Source_VISUAL then acc\<lparr>an_visual := an_visual acc + 1\<rparr>
      else if dm_entity_type d \<in> set quasi_types then acc\<lparr>an_quasi := an_quasi acc + 1\<rparr>
      else acc\<lparr>an_direct := an_direct acc + 1\<rparr>)"

definition ws_fingerprint :: "pipeline_lib \<Rightarrow> string \<Rightarrow> detected_mention \<Rightarrow> string op" where
  "ws_fingerprint lib job_id d = op_workspace (\<lambda>ws. (res_bind (get_workspace job_id ws) (\<lambda>w.
     fingerprint_of (pl_crypto lib) w (entity_type_value (dm_entity_type d) @ '':'' @ normalized_detection d)), ws))"

text \<open>The canonical entity of a detection, created at its first occurrence.\<close>

definition canonical_entity ::
    "pipeline_lib \<Rightarrow> request_io \<Rightarrow> string \<Rightarrow> string \<Rightarrow> detected_mention \<Rightarrow> string \<Rightarrow> analysis_state \<Rightarrow> (string \<times> analysis_state) op" where
  "canonical_entity lib io job_id file_id d fingerprint acc =
     (case map_of (an_known acc) fingerprint of
        Some entity_id \<Rightarrow> op_return (entity_id, acc)
      | None \<Rightarrow>
          let t = dm_entity_type d; index = an_counters acc t + 1; entity_id = io_uuid io (an_uuid acc) in
          op_bind (insert_canonical_entity
            \<lparr>pe_id = entity_id, pe_job_id = job_id, pe_file_id = file_id, pe_entity_type = t, pe_fingerprint = fingerprint,
             pe_placeholder = entity_type_value t @ ''_'' @ three_digits index, pe_sensitivity = dm_sensitivity d,
             pe_transformation = dm_transformation d\<rparr>) (\<lambda>_.
          op_bind (op_workspace (remember_plaintext job_id entity_id (dm_plaintext d))) (\<lambda>_.
          op_return (entity_id, acc\<lparr>an_known := (fingerprint, entity_id) # an_known acc,
            an_counters := (an_counters acc)(t := index), an_uuid := an_uuid acc + 1\<rparr>))))"

definition record_detection ::
    "pipeline_lib \<Rightarrow> request_io \<Rightarrow> string \<Rightarrow> string \<Rightarrow> detected_mention \<Rightarrow> analysis_state \<Rightarrow> analysis_state op" where
  "record_detection lib io job_id file_id d acc =
     op_bind (ws_fingerprint lib job_id d) (\<lambda>fingerprint.
     op_bind (canonical_entity lib io job_id file_id d fingerprint (count_detection d acc)) (\<lambda>(entity_id, acc).
     op_bind (insert_mention
       \<lparr>pm_id = io_uuid io (an_uuid acc), pm_entity_id = entity_id, pm_page_index = dm_page_index d,
        pm_char_start = dm_char_start d, pm_char_end = dm_char_end d, pm_rect = dm_rect d, pm_confidence = dm_confidence d,
        pm_source = dm_source d, pm_review_status = dm_review_status d, pm_context_label = dm_context_label d\<rparr>) (\<lambda>_.
     op_return (acc\<lparr>an_uuid := an_uuid acc + 1,
       an_pending := (if dm_review_status d = Review_PENDING then an_pending acc + 1 else an_pending acc)\<rparr>))))"

fun record_detections ::
    "pipeline_lib \<Rightarrow> request_io \<Rightarrow> string \<Rightarrow> string \<Rightarrow> detected_mention list \<Rightarrow> analysis_state \<Rightarrow> analysis_state op" where
  "record_detections lib io job_id file_id [] acc = op_return acc"
| "record_detections lib io job_id file_id (d # ds) acc =
     op_bind (record_detection lib io job_id file_id d acc) (record_detections lib io job_id file_id ds)"

record analysis_response =
  ar_canonical_entities :: nat
  ar_mentions :: nat
  ar_direct_mentions :: nat
  ar_quasi_mentions :: nat
  ar_visual_mentions :: nat
  ar_pending_reviews :: nat
  ar_status :: job_status

text \<open>\<open>except (WorkspaceError, ValueError)\<close>: the job is marked failed and the request answered with 422.\<close>

definition fail_job :: "pipeline_lib \<Rightarrow> request_io \<Rightarrow> string \<Rightarrow> py_error \<Rightarrow> 'a op" where
  "fail_job lib io job_id e = op_bind (update_job_status io job_id Job_FAILED) (\<lambda>_. op_refuse 422 (op_detail lib e))"

definition analyse_file :: "pipeline_lib \<Rightarrow> request_io \<Rightarrow> string \<Rightarrow> string \<Rightarrow> analysis_response op" where
  "analyse_file lib io job_id file_id =
     op_bind (job_or_404 job_id) (\<lambda>_.
     op_bind (file_or_404 job_id file_id) (\<lambda>f.
     op_bind (op_read (\<lambda>s. \<exists>e \<in> set (pp_entities s). pe_file_id e = file_id)) (\<lambda>analysed.
     op_bind (op_guard (\<not> analysed) 409 ''File has already been analysed'') (\<lambda>_.
     op_bind (op_try
       (op_bind (ws_get job_id) (\<lambda>_.
        op_bind (ws_read lib job_id (pf_encrypted_name f)) (\<lambda>original.
        op_lift (pl_analyse lib original (pf_file_type f) (pf_original_filename f)))))
       caught_by_handlers (fail_job lib io job_id)) (\<lambda>document.
     let detections = refine_detections (pf_file_type f) (ad_detections document) in
     op_bind (record_detections lib io job_id file_id detections empty_analysis) (\<lambda>acc.
     let status = (if 0 < an_pending acc then Job_HUMAN_REVIEW_REQUIRED else Job_ANALYSED) in
     op_bind (op_update (\<lambda>s. s\<lparr>pp_files := map (\<lambda>r. if pf_id r = file_id
       then r\<lparr>pf_page_count := ad_page_count document, pf_scanned_pages := ad_scanned_pages document, pf_status := ''ANALYSED''\<rparr>
       else r) (pp_files s)\<rparr>)) (\<lambda>_.
     op_bind (update_job_status io job_id status) (\<lambda>_.
     op_bind (op_event lib io job_id ''ANALYSIS_COMPLETED''
       [(''file_id'', JStr file_id), (''page_count'', JInt (int (ad_page_count document))),
        (''scanned_pages'', JInt (int (ad_scanned_pages document))),
        (''canonical_entities'', JInt (int (length (an_known acc)))), (''mentions'', JInt (int (length detections))),
        (''direct_mentions'', JInt (int (an_direct acc))), (''quasi_mentions'', JInt (int (an_quasi acc))),
        (''visual_mentions'', JInt (int (an_visual acc))), (''pending_reviews'', JInt (int (an_pending acc))),
        (''privacy_ir'', ad_summary document)]) (\<lambda>_.
     op_return \<lparr>ar_canonical_entities = length (an_known acc), ar_mentions = length detections,
       ar_direct_mentions = an_direct acc, ar_quasi_mentions = an_quasi acc, ar_visual_mentions = an_visual acc,
       ar_pending_reviews = an_pending acc, ar_status = status\<rparr>)))))))))"

subsection \<open>Review\<close>

record review_response =
  rv_mention_id :: string
  rv_review_status :: review_status
  rv_pending_reviews :: nat
  rv_job_status :: job_status

definition job_mention :: "string \<Rightarrow> string \<Rightarrow> pipeline \<Rightarrow> (pipeline_mention \<times> pipeline_entity) option" where
  "job_mention job_id mention_id s =
     List.find (\<lambda>(m, e). pm_id m = mention_id \<and> pe_id e = pm_entity_id m \<and> pe_job_id e = job_id)
       (List.product (pp_mentions s) (pp_entities s))"

definition review_mention :: "pipeline_lib \<Rightarrow> request_io \<Rightarrow> string \<Rightarrow> string \<Rightarrow> review_status \<Rightarrow> review_response op" where
  "review_mention lib io job_id mention_id action =
     op_bind (job_or_404 job_id) (\<lambda>_.
     op_bind (op_guard (action \<in> {Review_PROTECT, Review_IGNORE}) 400 ''Review action must be PROTECT or IGNORE'') (\<lambda>_.
     op_bind (op_read (job_mention job_id mention_id)) (\<lambda>found.
     case found of
       None \<Rightarrow> op_refuse 404 ''Mention not found for this job''
     | Some (m, e) \<Rightarrow>
       op_bind (op_update (\<lambda>s. s\<lparr>pp_mentions := map (\<lambda>r. if pm_id r = mention_id then r\<lparr>pm_review_status := action\<rparr> else r)
         (pp_mentions s)\<rparr>)) (\<lambda>_.
       op_bind (op_read (pending_reviews job_id (pe_file_id e))) (\<lambda>pending.
       let status = (if 0 < pending then Job_HUMAN_REVIEW_REQUIRED else Job_ANALYSED) in
       op_bind (update_job_status io job_id status) (\<lambda>_.
       op_bind (op_event lib io job_id ''HUMAN_REVIEW_RECORDED''
         [(''mention_id'', JStr mention_id), (''entity_type'', JStr (entity_type_value (pe_entity_type e))),
          (''placeholder'', JStr (pe_placeholder e)), (''decision'', JStr (review_status_value action)),
          (''pending_reviews'', JInt (int pending))]) (\<lambda>_.
       op_return \<lparr>rv_mention_id = mention_id, rv_review_status = action, rv_pending_reviews = pending,
         rv_job_status = status\<rparr>)))))))"

end
