(* ===== verification/Pipeline_Release.thy ===== *)
theory Pipeline_Release
  imports Pipeline
begin

section \<open>Transformation, verification and release\<close>

text \<open>
  The second half of \<open>api/routes.py\<close>: the protected output of a file with its manifest, the red team's verdict on it, the
  certificate, and the download; with \<open>build_annotation_evidence\<close> of \<open>presentation/annotated_export.py\<close> and
  \<open>proof_score\<close> of \<open>verification/red_team.py\<close>. The attacks of the red team, the sanitiser and the generator of the
  synthetic twin are functions of the environment.
\<close>

subsection \<open>Instructions\<close>

definition rect_json :: "rect \<Rightarrow> json" where
  "rect_json = (\<lambda>(x0, y0, x1, y1). JArr [JFloat x0, JFloat y0, JFloat x1, JFloat y1])"

definition active_order :: "pipeline_mention \<times> pipeline_entity \<Rightarrow> string \<times> string \<times> int \<times> rat \<times> rat" where
  "active_order = (\<lambda>(m, e). let (x0, y0, x1, y1) = pm_rect m in
     (entity_type_value (pe_entity_type e), pe_placeholder e, pm_page_index m, y0, x0))"

definition active_rows :: "string \<Rightarrow> string \<Rightarrow> pipeline \<Rightarrow> (pipeline_mention \<times> pipeline_entity) list" where
  "active_rows job_id file_id s =
     sort_key active_order (filter (\<lambda>(m, e). pm_review_status m \<noteq> Review_IGNORE) (job_mentions job_id file_id s))"

definition ignored_order :: "pipeline_mention \<times> pipeline_entity \<Rightarrow> int \<times> rat \<times> rat" where
  "ignored_order = (\<lambda>(m, e). mention_order m)"

definition ignored_visual_regions :: "string \<Rightarrow> string \<Rightarrow> pipeline \<Rightarrow> json list" where
  "ignored_visual_regions job_id file_id s =
     map (\<lambda>(m, e). JObj [(''entity_type'', JStr (entity_type_value (pe_entity_type e))), (''page_index'', JInt (pm_page_index m)),
            (''rect'', rect_json (pm_rect m)), (''confidence'', JFloat (pm_confidence m))])
       (sort_key ignored_order (filter (\<lambda>(m, e). pm_review_status m = Review_IGNORE \<and>
          pe_entity_type e \<in> {Ent_QR_CODE, Ent_FACE, Ent_SIGNATURE_CANDIDATE}) (job_mentions job_id file_id s)))"

definition row_ordinals :: "(pipeline_mention \<times> pipeline_entity) list \<Rightarrow> (string \<times> nat) list" where
  "row_ordinals rows =
     ordinal_map (map (\<lambda>(m, e). \<lparr>er_entity_id = pe_id e, er_entity_type = pe_entity_type e, er_placeholder = pe_placeholder e\<rparr>) rows)"

text \<open>The instruction of a row; none when the policy retains its type.\<close>

definition instruction_of ::
    "pipeline_lib \<Rightarrow> string \<Rightarrow> privacy_level \<Rightarrow> audience_profile \<Rightarrow> (string \<times> nat) list \<Rightarrow> pipeline_mention \<times> pipeline_entity
      \<Rightarrow> protection_instruction option op" where
  "instruction_of lib job_id level audience ordinals = (\<lambda>(m, e).
     if action_for (pe_entity_type e) level audience = Act_RETAIN then op_return None
     else op_bind (ws_plaintext job_id (pe_id e)) (\<lambda>found.
       case found of
         None \<Rightarrow> op_crash (RuntimeError (''Plaintext for '' @ pe_placeholder e @ '' is unavailable; re-analyse the job''))
       | Some plaintext \<Rightarrow>
         (case map_of ordinals (pe_id e) of
            None \<Rightarrow> op_crash (KeyError (pe_id e))
          | Some ordinal \<Rightarrow>
            op_bind (op_lift (replacement_for_policy (pl_calendar lib) (pe_entity_type e) plaintext level audience ordinal))
              (\<lambda>replacement. op_return (Some
                 \<lparr>pi_entity_id = pe_id e, pi_mention_id = pm_id m, pi_entity_type = pe_entity_type e,
                  pi_page_index = pm_page_index m, pi_rect = pm_rect m, pi_replacement = replacement,
                  pi_char_start = Some (pm_char_start m), pi_char_end = Some (pm_char_end m)\<rparr>)))))"

definition instructions_of ::
    "pipeline_lib \<Rightarrow> string \<Rightarrow> privacy_level \<Rightarrow> audience_profile \<Rightarrow> (pipeline_mention \<times> pipeline_entity) list
      \<Rightarrow> protection_instruction list op" where
  "instructions_of lib job_id level audience rows =
     op_bind (op_map (instruction_of lib job_id level audience (row_ordinals rows)) rows) (\<lambda>found.
       op_return (concat (map (\<lambda>i. case i of Some x \<Rightarrow> [x] | None \<Rightarrow> []) found)))"

text \<open>\<open>instruction_manifest\<close> of \<open>transformation/sanitizer.py\<close>, and \<open>_instructions_from_manifest\<close>.\<close>

definition opt_int_json :: "int option \<Rightarrow> json" where
  "opt_int_json v = (case v of Some i \<Rightarrow> JInt i | None \<Rightarrow> JNull)"

definition instruction_json :: "protection_instruction \<Rightarrow> json" where
  "instruction_json i =
     JObj [(''entity_id'', JStr (pi_entity_id i)), (''mention_id'', JStr (pi_mention_id i)),
           (''entity_type'', JStr (entity_type_value (pi_entity_type i))), (''page_index'', JInt (pi_page_index i)),
           (''rect'', rect_json (pi_rect i)), (''replacement'', JStr (pi_replacement i)),
           (''char_start'', opt_int_json (pi_char_start i)), (''char_end'', opt_int_json (pi_char_end i))]"

definition as_float :: "json \<Rightarrow> rat res" where
  "as_float v = (case v of JFloat q \<Rightarrow> Inr q | JInt i \<Rightarrow> Inr (of_int i) | _ \<Rightarrow> Inl (TypeError ''not a number''))"

definition as_items :: "json \<Rightarrow> json list res" where
  "as_items v = (case v of JArr xs \<Rightarrow> Inr xs | _ \<Rightarrow> Inl (TypeError ''not a list''))"

definition entity_type_of_value :: "string \<Rightarrow> entity_type res" where
  "entity_type_of_value s =
     (case List.find (\<lambda>t. entity_type_value t = s) all_entity_types of
        Some t \<Rightarrow> Inr t | None \<Rightarrow> Inl (ValueError (s @ '' is not a valid EntityType'')))"

definition level_of_int :: "int \<Rightarrow> privacy_level res" where
  "level_of_int i =
     (case List.find (\<lambda>l. level_int l = i) [DIRECT_MASKING, SENSITIVE_ENTITY_PROTECTION, CONTEXT_GENERALIZATION,
        RELATIONSHIP_SAFE_PSEUDONYMIZATION, SYNTHETIC_TWIN] of
        Some l \<Rightarrow> Inr l | None \<Rightarrow> Inl (ValueError (show_int i @ '' is not a valid PrivacyLevel'')))"

definition rect_of_json :: "json \<Rightarrow> rect res" where
  "rect_of_json v = res_bind (as_items v) (\<lambda>xs. res_bind (res_map as_float xs) (\<lambda>qs.
     case qs of [x0, y0, x1, y1] \<Rightarrow> Inr (x0, y0, x1, y1) | _ \<Rightarrow> Inl (ValueError ''not a rectangle'')))"

definition optional_int :: "string \<Rightarrow> json \<Rightarrow> int option res" where
  "optional_int k j =
     (case get_default JNull k j of JNull \<Rightarrow> Inr None | v \<Rightarrow> res_bind (as_int v) (\<lambda>i. Inr (Some i)))"

definition read_instruction :: "json \<Rightarrow> protection_instruction res" where
  "read_instruction j =
     res_bind (str_field ''entity_id'' j) (\<lambda>entity_id. res_bind (str_field ''mention_id'' j) (\<lambda>mention_id.
     res_bind (res_bind (str_field ''entity_type'' j) entity_type_of_value) (\<lambda>t.
     res_bind (res_bind (json_field ''page_index'' j) as_int) (\<lambda>page.
     res_bind (res_bind (json_field ''rect'' j) rect_of_json) (\<lambda>rect.
     res_bind (str_field ''replacement'' j) (\<lambda>replacement.
     res_bind (optional_int ''char_start'' j) (\<lambda>char_start. res_bind (optional_int ''char_end'' j) (\<lambda>char_end.
       Inr \<lparr>pi_entity_id = entity_id, pi_mention_id = mention_id, pi_entity_type = t, pi_page_index = page, pi_rect = rect,
            pi_replacement = replacement, pi_char_start = char_start, pi_char_end = char_end\<rparr>))))))))"

definition instructions_from_manifest :: "json \<Rightarrow> protection_instruction list res" where
  "instructions_from_manifest manifest =
     res_bind (res_bind (json_field ''instructions'' manifest) as_items) (res_map read_instruction)"

subsection \<open>Annotations\<close>

definition annotation_order :: "protection_instruction \<times> string \<Rightarrow> int \<times> string \<times> string" where
  "annotation_order = (\<lambda>(i, placeholder). (pi_page_index i, placeholder, pi_mention_id i))"

definition row_of_mention ::
    "(pipeline_mention \<times> pipeline_entity) list \<Rightarrow> string \<Rightarrow> (pipeline_mention \<times> pipeline_entity) option" where
  "row_of_mention rows mention_id = map_of (map (\<lambda>(m, e). (pm_id m, (m, e))) (rev rows)) mention_id"

definition annotation_entry ::
    "runtime \<Rightarrow> (pipeline_mention \<times> pipeline_entity) list \<Rightarrow> privacy_level \<Rightarrow> audience_profile \<Rightarrow> protection_instruction
      \<Rightarrow> string \<times> json" where
  "annotation_entry rt rows level audience i =
     (let row = row_of_mention rows (pi_mention_id i); t = entity_type_value (pi_entity_type i);
          placeholder = (case row of Some (m, e) \<Rightarrow> pe_placeholder e | None \<Rightarrow> t)
      in (placeholder, JObj
         [(''mention_id'', JStr (pi_mention_id i)), (''entity_id'', JStr (pi_entity_id i)), (''placeholder'', JStr placeholder),
          (''entity_type'', JStr t), (''page_index'', JInt (pi_page_index i)), (''rect'', rect_json (pi_rect i)),
          (''confidence'', JFloat (round_to (case row of Some (m, e) \<Rightarrow> pm_confidence m | None \<Rightarrow> 1) 6)),
          (''source'', JStr (case row of Some (m, e) \<Rightarrow> detection_source_value (pm_source m) | None \<Rightarrow> ''UNKNOWN'')),
          (''review_status'', JStr (case row of Some (m, e) \<Rightarrow> review_status_value (pm_review_status m) | None \<Rightarrow> ''NOT_REQUIRED'')),
          (''context_label'', (case row of Some (m, e) \<Rightarrow> json_option JStr (pm_context_label m) | None \<Rightarrow> JNull)),
          (''action'', JStr (protection_value (action_for (pi_entity_type i) level audience))),
          (''replacement_preview'', JStr (pi_replacement i)),
          (''replacement_sha256'', JStr (rt_sha256 rt (pi_replacement i)))]))"

definition build_annotation_evidence ::
    "runtime \<Rightarrow> (pipeline_mention \<times> pipeline_entity) list \<Rightarrow> protection_instruction list \<Rightarrow> privacy_level \<Rightarrow> audience_profile
      \<Rightarrow> string \<Rightarrow> json" where
  "build_annotation_evidence rt rows instructions level audience output_sha =
     (let entries = map (\<lambda>i. (i, annotation_entry rt rows level audience i)) instructions;
          fields = [(''schema'', JStr ''veilgraph.annotation-evidence.v1''), (''privacy_level'', JInt (level_int level)),
            (''audience_profile'', JStr (audience_value audience)), (''protected_output_sha256'', JStr output_sha),
            (''entry_count'', JInt (int (length entries))),
            (''entries'', JArr (map (snd \<circ> snd) (sort_key (\<lambda>(i, p, j). annotation_order (i, p)) entries))),
            (''source_plaintext_included'', JBool False),
            (''note'', JStr ''Annotations describe the transformation applied to the protected artifact. The clean release artifact remains separate and unchanged.'')]
      in JObj (fields @ [(''annotation_sha256'', JStr (json_sha rt (JObj fields)))]))"

subsection \<open>Transformation\<close>

definition media_suffix :: "string \<Rightarrow> string" where
  "media_suffix t =
     (if t = ''application/pdf'' then ''.pdf'' else if t = ''image/png'' then ''.png''
      else if starts_with ''text/markdown'' t then ''.md'' else if t = ''application/rtf'' then ''.rtf''
      else if starts_with ''text/plain'' t then ''.txt'' else if starts_with ''text/csv'' t then ''.csv''
      else if t = ''application/json'' then ''.json''
      else if t = ''application/vnd.openxmlformats-officedocument.spreadsheetml.sheet'' then ''.xlsx''
      else if t = ''application/vnd.openxmlformats-officedocument.wordprocessingml.document'' then ''.docx''
      else if t = ''video/mp4'' then ''.mp4'' else ''.bin'')"

text \<open>\<open>name.rsplit(".", 1)[0] or "protected"\<close>.\<close>

definition base_name :: "string \<Rightarrow> string" where
  "base_name name =
     (let base = (if CHR ''.'' \<in> set name then rev (drop 1 (dropWhile (\<lambda>c. c \<noteq> CHR ''.'') (rev name))) else name)
      in if base = [] then ''protected'' else base)"

definition graph_document :: "identity_graph \<Rightarrow> json" where
  "graph_document g =
     (case identity_graph_json g of JObj kvs \<Rightarrow> JObj (kvs @ [(''graph_sha256'', JStr (ig_graph_sha256 g))]) | j \<Rightarrow> j)"

text \<open>The scores of a synthetic twin replace the estimates of the graph, whose digest is computed again.\<close>

definition synthetic_graph :: "runtime \<Rightarrow> (string \<times> json) list \<Rightarrow> identity_graph \<Rightarrow> identity_graph res" where
  "synthetic_graph rt report g =
     (let risk = ig_risk g in
      res_bind (json_int (rr_utility_score risk) ''utility_score'' (JObj report)) (\<lambda>utility.
      res_bind (json_int 0 ''privacy_score'' (JObj report)) (\<lambda>privacy.
        let after = min (rr_after risk) (max 1 (100 - privacy));
            g' = g\<lparr>ig_risk := risk\<lparr>rr_utility_score := utility, rr_after := after,
              rr_reduction := max 0 (rr_before risk - after), rr_band_after := risk_band after\<rparr>\<rparr>
        in Inr (g'\<lparr>ig_graph_sha256 := sha256_json rt (identity_graph_json g')\<rparr>))))"

record transform_result =
  xr_instructions :: "protection_instruction list"
  xr_transformed :: transformed
  xr_synthetic :: "(string \<times> json) list option"

definition synthesized :: "pipeline_lib \<Rightarrow> request_io \<Rightarrow> string \<Rightarrow> pipeline_file \<Rightarrow> protection_instruction list \<Rightarrow> transform_result op" where
  "synthesized lib io original f instructions =
     op_bind (op_lift (pl_synthesize lib original instructions (pf_original_filename f) (io_salt io))) (\<lambda>twin.
       let replaced = map (\<lambda>i. case map_of (sy_replacements twin) (pi_mention_id i) of
               Some r \<Rightarrow> i\<lparr>pi_replacement := r\<rparr> | None \<Rightarrow> i) instructions
       in op_return \<lparr>xr_instructions = replaced,
         xr_transformed = \<lparr>tf_data = sy_data twin, tf_media_type = sy_media_type twin, tf_report = JObj
           [(''transformations'', JInt (int (length replaced))),
            (''output_sha256'', JStr (rt_sha256 (pl_runtime lib) (sy_data twin))),
            (''method'', JStr ''Level 5 schema-aware Synthetic Twin generation''),
            (''structured_format'', get_default (JStr ''veilgraph.synthetic-twin.v1'') ''schema'' (JObj (sy_report twin))),
            (''synthetic_twin'', JObj (sy_report twin))]\<rparr>,
         xr_synthetic = Some (sy_report twin)\<rparr>)"

definition transformed_document ::
    "pipeline_lib \<Rightarrow> request_io \<Rightarrow> string \<Rightarrow> pipeline_file \<Rightarrow> privacy_level \<Rightarrow> audience_profile
      \<Rightarrow> (pipeline_mention \<times> pipeline_entity) list \<Rightarrow> transform_result op" where
  "transformed_document lib io job_id f level audience rows =
     op_bind (ws_get job_id) (\<lambda>_.
     op_bind (ws_read lib job_id (pf_encrypted_name f)) (\<lambda>original.
     op_bind (instructions_of lib job_id level audience rows) (\<lambda>instructions.
     if instructions = []
     then op_crash (ValueError ''The selected policy retained every active entity; no protected output can be created'')
     else if level = SYNTHETIC_TWIN then synthesized lib io original f instructions
     else op_bind (op_lift (pl_sanitize lib original (pf_file_type f) instructions (pf_original_filename f))) (\<lambda>t.
       op_return \<lparr>xr_instructions = instructions, xr_transformed = t, xr_synthetic = None\<rparr>))))"

definition synthetic_json :: "(string \<times> json) list option \<Rightarrow> json" where
  "synthetic_json v = (case v of Some kvs \<Rightarrow> JObj kvs | None \<Rightarrow> JNull)"

definition output_manifest ::
    "pipeline_lib \<Rightarrow> pipeline_job \<Rightarrow> pipeline_file \<Rightarrow> privacy_level \<Rightarrow> (pipeline_mention \<times> pipeline_entity) list
      \<Rightarrow> json list \<Rightarrow> transform_result \<Rightarrow> identity_graph \<Rightarrow> json" where
  "output_manifest lib job f level rows ignored r graph =
     (let output_sha = rt_sha256 (pl_runtime lib) (tf_data (xr_transformed r)) in JObj
       [(''file_type'', JStr (file_type_value (pf_file_type f))), (''input_sha256'', JStr (pf_sha256 f)),
        (''privacy_level'', JInt (level_int level)), (''audience_profile'', JStr (audience_value (pj_audience job))),
        (''expected_entity_ids'', JArr (map JStr (sorted_set (map pi_entity_id (xr_instructions r))))),
        (''reviewed_ignored_visual_regions'', JArr ignored),
        (''instructions'', JArr (map instruction_json (xr_instructions r))),
        (''transform_report'', tf_report (xr_transformed r)), (''synthetic_twin'', synthetic_json (xr_synthetic r)),
        (''annotation_evidence'', build_annotation_evidence (pl_runtime lib) rows (xr_instructions r) level (pj_audience job) output_sha),
        (''identity_exposure_graph'', graph_document graph)])"

definition policy_floor :: "pipeline_lib \<Rightarrow> pipeline_job \<Rightarrow> pipeline_file \<Rightarrow> pipeline \<Rightarrow> privacy_level" where
  "policy_floor lib job f s =
     rd_minimum_level (recommend_privacy_level (pj_purpose job) (pj_recipient job) (pj_audience job) (pf_file_type f)
       (rr_before (ig_risk (pipeline_graph lib job f DIRECT_MASKING s)))
       (map pe_entity_type (entity_rows (pj_id job) (pf_id f) s)))"

record transform_response =
  xf_output_id :: string
  xf_transformations :: nat
  xf_media_type :: string
  xf_download_name :: string
  xf_risk :: risk_report

definition transform_file :: "pipeline_lib \<Rightarrow> request_io \<Rightarrow> string \<Rightarrow> string \<Rightarrow> privacy_level \<Rightarrow> transform_response op" where
  "transform_file lib io job_id file_id level =
     op_bind (job_or_404 job_id) (\<lambda>job.
     op_bind (file_or_404 job_id file_id) (\<lambda>f.
     op_bind (op_read (pending_reviews job_id file_id)) (\<lambda>pending.
     op_bind (op_guard (pending = 0) 409 (show_nat pending @ '' candidate(s) require review before transformation'')) (\<lambda>_.
     op_bind (op_read (policy_floor lib job f)) (\<lambda>minimum.
     op_bind (op_guard (\<not> pl_enforce_policy_floors lib \<or> minimum \<le> level) 409
       (''Organisational privacy floor requires Level '' @ show_int (level_int minimum) @ '' or higher for this job.'')) (\<lambda>_.
     op_bind (op_read (active_rows job_id file_id)) (\<lambda>rows.
     op_bind (op_read (ignored_visual_regions job_id file_id)) (\<lambda>ignored.
     op_bind (op_guard (rows \<noteq> []) 400 ''No approved identity exposures are available for transformation'') (\<lambda>_.
     op_bind (op_guard (level \<noteq> SYNTHETIC_TWIN \<or> pf_file_type f = File_DATASET) 422
       ''Level 5 Synthetic Twin currently requires a structured CSV, JSON or XLSX dataset so schema/statistical utility can be measured and verified.'') (\<lambda>_.
     op_bind (op_try (transformed_document lib io job_id f level (pj_audience job) rows) caught_by_handlers
       (fail_job lib io job_id)) (\<lambda>r.
     op_bind (update_job job_id (\<lambda>j. j\<lparr>pj_level := level, pj_updated_at := io_now io\<rparr>)) (\<lambda>_.
     op_bind (op_read (pipeline_graph lib job f level)) (\<lambda>estimate.
     op_bind (op_lift (case xr_synthetic r of None \<Rightarrow> Inr estimate
       | Some report \<Rightarrow> synthetic_graph (pl_runtime lib) report estimate)) (\<lambda>graph.
     let output_id = io_uuid io 0; encrypted_name = ''output-'' @ output_id @ ''.vgenc''; t = xr_transformed r;
         output_sha = rt_sha256 (pl_runtime lib) (tf_data t);
         download_name = base_name (pf_original_filename f) @ ''-level'' @ show_int (level_int level) @ ''-protected'' @
           media_suffix (tf_media_type t);
         manifest = output_manifest lib job f level rows ignored r graph in
     op_bind (ws_write lib io job_id encrypted_name (tf_data t)) (\<lambda>_.
     op_bind (insert_output
       \<lparr>po_id = output_id, po_job_id = job_id, po_file_id = file_id, po_encrypted_name = encrypted_name,
        po_sha256 = output_sha, po_media_type = tf_media_type t, po_download_name = download_name,
        po_status = Output_CREATED, po_manifest_json = dumps_styled default_style (pl_runtime lib) True manifest,
        po_verification_json = None, po_created_at = io_now io, po_verified_at = None\<rparr>) (\<lambda>_.
     op_bind (update_job_status io job_id Job_TRANSFORMED) (\<lambda>_.
     op_bind (op_event lib io job_id ''TRANSFORMATION_COMPLETED''
       [(''file_id'', JStr file_id), (''output_id'', JStr output_id), (''privacy_level'', JInt (level_int level)),
        (''audience_profile'', JStr (audience_value (pj_audience job))),
        (''transformations_applied'', JInt (int (length (xr_instructions r)))), (''output_sha256'', JStr output_sha),
        (''graph_sha256'', JStr (ig_graph_sha256 graph)), (''risk_before'', JInt (rr_before (ig_risk graph))),
        (''residual_risk'', JInt (rr_after (ig_risk graph))), (''utility_score'', JInt (rr_utility_score (ig_risk graph))),
        (''synthetic_twin'', synthetic_json (xr_synthetic r))]) (\<lambda>_.
     op_return \<lparr>xf_output_id = output_id, xf_transformations = length (xr_instructions r), xf_media_type = tf_media_type t,
       xf_download_name = download_name, xf_risk = ig_risk graph\<rparr>))))))))))))))))))"

end
