(* ===== verification/Pipeline_Gate.thy ===== *)
theory Pipeline_Gate
  imports Pipeline_Release
begin

section \<open>The release gate\<close>

text \<open>
  The verification of an output, its certificate and its download, the destruction of jobs, and the step relation of the
  service. The retention module works on the rows it deletes; \<open>vault_of\<close> is its view of the state and \<open>with_vault\<close> the
  state after it.
\<close>

subsection \<open>Verification\<close>

definition severity_weight :: "string \<Rightarrow> int" where
  "severity_weight s = (if s = ''critical'' then 12 else if s = ''high'' then 8 else if s = ''medium'' then 4 else 8)"

definition proof_score :: "test_result list \<Rightarrow> int" where
  "proof_score results =
     (let total = sum_list (map (\<lambda>r. severity_weight (tr_severity r)) results);
          earned = sum_list (map (\<lambda>r. severity_weight (tr_severity r)) (filter (\<lambda>r. tr_status r = Test_PASS) results))
      in if total \<le> 0 then 0 else round_half_even (100 * of_int earned / of_int total))"

definition count_tests :: "test_status \<Rightarrow> test_result list \<Rightarrow> nat" where
  "count_tests st results = length (filter (\<lambda>r. tr_status r = st) results)"

definition critical_failures :: "test_result list \<Rightarrow> nat" where
  "critical_failures results = length (filter (\<lambda>r. tr_severity r = ''critical'' \<and> tr_status r \<noteq> Test_PASS) results)"

definition output_verdict :: "test_result list \<Rightarrow> output_status" where
  "output_verdict results =
     (if results \<noteq> [] \<and> count_tests Test_PASS results = length results \<and> proof_score results = 100 \<and> critical_failures results = 0
      then Output_VERIFIED_SAFE else Output_RELEASE_BLOCKED)"

definition release_decision :: "output_status \<Rightarrow> string" where
  "release_decision st = (if st = Output_VERIFIED_SAFE then ''ALLOW_RELEASE'' else ''BLOCK_RELEASE'')"

text \<open>The source values the red team looks for: those of the transformed, not visual entities of the file.\<close>

definition known_value :: "string \<Rightarrow> pipeline_entity \<Rightarrow> (entity_type \<times> string) option op" where
  "known_value job_id e = op_bind (ws_plaintext job_id (pe_id e)) (\<lambda>found.
     op_return (map_option (\<lambda>v. (pe_entity_type e, v)) found))"

definition known_values :: "string \<Rightarrow> string \<Rightarrow> protection_instruction list \<Rightarrow> (entity_type \<times> string) list op" where
  "known_values job_id file_id instructions =
     op_bind (op_read (\<lambda>s. filter (\<lambda>e. pe_job_id e = job_id \<and> pe_file_id e = file_id \<and>
       pe_id e \<in> pi_entity_id ` set instructions \<and> pe_entity_type e \<notin> set visual_types) (pp_entities s))) (\<lambda>entities.
     op_bind (op_map (known_value job_id) entities) (\<lambda>found.
       op_return (concat (map (\<lambda>v. case v of Some x \<Rightarrow> [x] | None \<Rightarrow> []) found))))"

definition str_items :: "json \<Rightarrow> string list res" where
  "str_items v = res_bind (as_items v) (res_map (\<lambda>x. case x of JStr s \<Rightarrow> Inr s | _ \<Rightarrow> Inl (TypeError ''not a string'')))"

definition manifest_attack ::
    "pipeline_file \<Rightarrow> string \<Rightarrow> string \<Rightarrow> json \<Rightarrow> protection_instruction list \<Rightarrow> (entity_type \<times> string) list \<Rightarrow> attack res" where
  "manifest_attack f original protected manifest instructions known =
     res_bind (str_items (get_default (JArr []) ''expected_entity_ids'' manifest)) (\<lambda>expected.
     res_bind (res_bind (res_bind (json_field ''privacy_level'' manifest) as_int) level_of_int) (\<lambda>level.
     res_bind (as_items (get_default (JArr []) ''reviewed_ignored_visual_regions'' manifest)) (\<lambda>ignored.
       Inr \<lparr>at_original = original, at_protected = protected, at_file_type = pf_file_type f, at_known_values = known,
            at_instructions = instructions, at_expected_ids = sorted_set expected, at_level = level,
            at_ignored_regions = ignored, at_synthetic_twin = get_default JNull ''synthetic_twin'' manifest\<rparr>)))"

definition read_json :: "pipeline_lib \<Rightarrow> string \<Rightarrow> json res" where
  "read_json lib t = (case pl_loads lib t of Some j \<Rightarrow> Inr j | None \<Rightarrow> Inl (ValueError ''invalid JSON''))"

text \<open>The body of the \<open>try\<close>: the manifest and the results of the attacks.\<close>

definition attack_output ::
    "pipeline_lib \<Rightarrow> string \<Rightarrow> pipeline_output \<Rightarrow> pipeline_file \<Rightarrow> (json \<times> test_result list) op" where
  "attack_output lib job_id output f =
     op_bind (ws_get job_id) (\<lambda>_.
     op_bind (ws_read lib job_id (po_encrypted_name output)) (\<lambda>protected.
     op_bind (ws_read lib job_id (pf_encrypted_name f)) (\<lambda>original.
     op_bind (op_lift (read_json lib (po_manifest_json output))) (\<lambda>manifest.
     op_bind (op_lift (instructions_from_manifest manifest)) (\<lambda>instructions.
     op_bind (known_values job_id (po_file_id output) instructions) (\<lambda>known.
     op_bind (op_lift (manifest_attack f original protected manifest instructions known)) (\<lambda>a.
     op_bind (op_lift (pl_red_team lib a)) (\<lambda>tests. op_return (manifest, tests)))))))))"

definition test_json :: "test_result \<Rightarrow> json" where
  "test_json t =
     JObj [(''name'', JStr (tr_name t)), (''status'', JStr (test_status_value (tr_status t))), (''detail'', JStr (tr_detail t)),
           (''attack_class'', JStr (tr_attack_class t)), (''severity'', JStr (tr_severity t))]"

definition verification_json :: "json \<Rightarrow> test_result list \<Rightarrow> int \<Rightarrow> int \<Rightarrow> int \<Rightarrow> json" where
  "verification_json manifest tests initial residual utility =
     JObj [(''tests'', JArr (map test_json tests)), (''passed'', JInt (int (count_tests Test_PASS tests))),
           (''failed'', JInt (int (count_tests Test_FAIL tests))), (''inconclusive'', JInt (int (count_tests Test_INCONCLUSIVE tests))),
           (''proof_score'', JInt (proof_score tests)), (''attack_coverage'', JInt (int (length tests))),
           (''critical_failures'', JInt (int (critical_failures tests))), (''risk_before'', JInt initial),
           (''residual_risk'', JInt residual), (''utility_score'', JInt utility),
           (''release_decision'', JStr (release_decision (output_verdict tests))),
           (''synthetic_twin'', get_default JNull ''synthetic_twin'' manifest)]"

definition manifest_risk :: "json \<Rightarrow> string \<Rightarrow> int res" where
  "manifest_risk manifest k = json_int 0 k (get_default (JObj []) ''risk'' (graph_of_manifest manifest))"

definition certify_output :: "pipeline_lib \<Rightarrow> request_io \<Rightarrow> string \<Rightarrow> pipeline_output \<Rightarrow> json \<Rightarrow> json \<Rightarrow> unit op" where
  "certify_output lib io job_id output manifest verification =
     op_bind (op_verify_ledger lib job_id) (\<lambda>audit.
     op_bind (op_lift (issue_certificate (pl_env lib) (io_now io) job_id (po_sha256 output) manifest verification
       (rt_datetime (pl_runtime lib) (io_now io)) audit)) (\<lambda>certificate.
     op_bind (op_lift (res_bind (json_field ''payload'' certificate) (str_field ''certificate_id''))) (\<lambda>certificate_id.
     op_bind (op_lift (res_bind (res_bind (json_field ''payload'' certificate) (json_field ''signer''))
       (str_field ''public_key_sha256''))) (\<lambda>fingerprint.
     let sha = json_sha (pl_runtime lib) certificate in
     op_bind (upsert_certificate
       \<lparr>pc_id = certificate_id, pc_job_id = job_id, pc_output_id = po_id output,
        pc_certificate_json = dumps_styled default_style (pl_runtime lib) True certificate, pc_certificate_sha256 = sha\<rparr>) (\<lambda>_.
     op_event lib io job_id ''PROOF_CERTIFICATE_ISSUED''
       [(''output_id'', JStr (po_id output)), (''certificate_id'', JStr certificate_id), (''certificate_sha256'', JStr sha),
        (''signer_fingerprint'', JStr fingerprint)])))))"

record verification_response =
  vs_status :: output_status
  vs_tests :: "test_result list"
  vs_proof_score :: int
  vs_release_decision :: string

definition verify_output :: "pipeline_lib \<Rightarrow> request_io \<Rightarrow> string \<Rightarrow> string \<Rightarrow> verification_response op" where
  "verify_output lib io job_id output_id =
     op_bind (job_or_404 job_id) (\<lambda>_.
     op_bind (output_or_404 job_id output_id) (\<lambda>output.
     op_bind (file_or_404 job_id (po_file_id output)) (\<lambda>f.
     op_bind (op_try (attack_output lib job_id output f) (\<lambda>e. caught_by_handlers e \<or> is_key_error e)
       (\<lambda>e. op_refuse 422 (''Verification could not start: '' @ op_detail lib e))) (\<lambda>(manifest, tests).
     let status = output_verdict tests in
     op_bind (op_lift (manifest_risk manifest ''before'')) (\<lambda>initial.
     op_bind (op_lift (manifest_risk manifest ''after'')) (\<lambda>residual.
     op_bind (op_lift (manifest_risk manifest ''utility_score'')) (\<lambda>utility.
     let verification = verification_json manifest tests initial residual utility in
     op_bind (update_output_verification lib io output_id status verification) (\<lambda>_.
     op_bind (update_job_status io job_id (if status = Output_VERIFIED_SAFE then Job_VERIFIED else Job_BLOCKED)) (\<lambda>_.
     op_bind (op_event lib io job_id ''VERIFICATION_COMPLETED''
       [(''output_id'', JStr output_id), (''status'', JStr (output_status_value status)), (''proof_score'', JInt (proof_score tests)),
        (''attack_coverage'', JInt (int (length tests))), (''passed'', JInt (int (count_tests Test_PASS tests))),
        (''failed'', JInt (int (count_tests Test_FAIL tests))),
        (''inconclusive'', JInt (int (count_tests Test_INCONCLUSIVE tests))),
        (''critical_failures'', JInt (int (critical_failures tests))),
        (''release_decision'', JStr (release_decision status)),
        (''verification_sha256'', JStr (json_sha (pl_runtime lib) verification))]) (\<lambda>_.
     op_bind (if status = Output_VERIFIED_SAFE then certify_output lib io job_id output manifest verification else op_return ()) (\<lambda>_.
     op_return \<lparr>vs_status = status, vs_tests = tests, vs_proof_score = proof_score tests,
       vs_release_decision = release_decision status\<rparr>)))))))))))"

subsection \<open>Release\<close>

definition safe_output :: "string \<Rightarrow> string \<Rightarrow> string \<Rightarrow> pipeline_output op" where
  "safe_output job_id output_id detail =
     op_bind (job_or_404 job_id) (\<lambda>_.
     op_bind (output_or_404 job_id output_id) (\<lambda>output.
     op_bind (op_guard (po_status output = Output_VERIFIED_SAFE) 423 detail) (\<lambda>_. op_return output)))"

definition audit_ledger :: "pipeline_lib \<Rightarrow> string \<Rightarrow> ledger_report op" where
  "audit_ledger lib job_id = op_bind (job_or_404 job_id) (\<lambda>_. op_verify_ledger lib job_id)"

definition proof_certificate :: "pipeline_lib \<Rightarrow> string \<Rightarrow> string \<Rightarrow> (json \<times> bool) op" where
  "proof_certificate lib job_id output_id =
     op_bind (safe_output job_id output_id ''Certificate unavailable until every mandatory proof gate passes'') (\<lambda>_.
     op_bind (certificate_or_404 lib job_id output_id) (\<lambda>certificate.
     op_return (certificate, verify_certificate (pl_runtime lib) certificate)))"

record downloaded =
  dl_content :: string
  dl_media_type :: string
  dl_file_name :: string

definition download_output :: "pipeline_lib \<Rightarrow> request_io \<Rightarrow> string \<Rightarrow> string \<Rightarrow> downloaded op" where
  "download_output lib io job_id output_id =
     op_bind (safe_output job_id output_id ''Release blocked: output has not passed every mandatory verification test'') (\<lambda>output.
     op_bind (op_try (ws_read lib job_id (po_encrypted_name output)) is_workspace_error
       (\<lambda>e. op_refuse 410 (op_detail lib e))) (\<lambda>protected.
     op_bind (op_event lib io job_id ''PROTECTED_ARTIFACT_DOWNLOADED''
       [(''output_id'', JStr output_id), (''output_sha256'', JStr (po_sha256 output)),
        (''download_name'', JStr (po_download_name output))]) (\<lambda>_.
     op_return \<lparr>dl_content = protected, dl_media_type = po_media_type output, dl_file_name = po_download_name output\<rparr>)))"

subsection \<open>Destruction\<close>

definition retention_view :: "pipeline_job \<Rightarrow> retention_job" where
  "retention_view j =
     \<lparr>rj_id = pj_id j, rj_purpose = pj_purpose j, rj_recipient = pj_recipient j,
      rj_retention_seconds = pj_retention_seconds j, rj_status = pj_status j, rj_created_at = pj_created_at j,
      rj_updated_at = pj_updated_at j\<rparr>"

definition vault_of :: "pipeline \<Rightarrow> vault" where
  "vault_of s =
     \<lparr>va_db = \<lparr>rb_jobs = map retention_view (pp_jobs s),
         rb_files = map (\<lambda>r. \<lparr>ow_id = pf_id r, ow_job_id = pf_job_id r, ow_body = JNull\<rparr>) (pp_files s),
         rb_entities = map (\<lambda>r. \<lparr>ow_id = pe_id r, ow_job_id = pe_job_id r, ow_body = JNull\<rparr>) (pp_entities s),
         rb_mentions = map (\<lambda>r. \<lparr>ml_id = pm_id r, ml_canonical_entity_id = pm_entity_id r, ml_body = JNull\<rparr>) (pp_mentions s),
         rb_outputs = map (\<lambda>r. \<lparr>ow_id = po_id r, ow_job_id = po_job_id r, ow_body = JNull\<rparr>) (pp_outputs s),
         rb_certificates = map (\<lambda>r. \<lparr>ow_id = pc_id r, ow_job_id = pc_job_id r, ow_body = JNull\<rparr>) (pp_certificates s),
         rb_events = pp_events s, rb_tombstones = pp_tombstones s\<rparr>,
      va_workspaces = pp_workspaces s\<rparr>"

definition with_retention :: "retention_db \<Rightarrow> pipeline_job \<Rightarrow> pipeline_job" where
  "with_retention db j =
     (case find_job (pj_id j) db of
        None \<Rightarrow> j
      | Some r \<Rightarrow> j\<lparr>pj_purpose := rj_purpose r, pj_recipient := rj_recipient r, pj_status := rj_status r,
          pj_updated_at := rj_updated_at r\<rparr>)"

text \<open>A row is left when the database still has its identifier for its job.\<close>

definition survives :: "owned_row list \<Rightarrow> string \<Rightarrow> string \<Rightarrow> bool" where
  "survives rows row_id job_id \<longleftrightarrow> (\<exists>r \<in> set rows. ow_id r = row_id \<and> ow_job_id r = job_id)"

definition with_vault :: "vault \<Rightarrow> pipeline \<Rightarrow> pipeline" where
  "with_vault v s =
     (let db = va_db v in s
        \<lparr>pp_jobs := map (with_retention db) (pp_jobs s),
         pp_files := filter (\<lambda>r. survives (rb_files db) (pf_id r) (pf_job_id r)) (pp_files s),
         pp_entities := filter (\<lambda>r. survives (rb_entities db) (pe_id r) (pe_job_id r)) (pp_entities s),
         pp_mentions := filter (\<lambda>r. pm_id r \<in> ml_id ` set (rb_mentions db)) (pp_mentions s),
         pp_outputs := filter (\<lambda>r. survives (rb_outputs db) (po_id r) (po_job_id r)) (pp_outputs s),
         pp_certificates := filter (\<lambda>r. survives (rb_certificates db) (pc_id r) (pc_job_id r)) (pp_certificates s),
         pp_events := rb_events db, pp_tombstones := rb_tombstones db, pp_workspaces := va_workspaces v\<rparr>)"

definition op_retention :: "(vault \<Rightarrow> 'a res \<times> vault) \<Rightarrow> 'a op" where
  "op_retention f = (\<lambda>s. case f (vault_of s) of
     (Inl e, v) \<Rightarrow> (Crashed e, with_vault v s) | (Inr x, v) \<Rightarrow> (Served x, with_vault v s))"

definition is_runtime_error :: "py_error \<Rightarrow> bool" where
  "is_runtime_error e = (case e of RuntimeError _ \<Rightarrow> True | SigningError _ \<Rightarrow> True | _ \<Rightarrow> False)"

definition destroy_job :: "pipeline_lib \<Rightarrow> request_io \<Rightarrow> string \<Rightarrow> destruction_response op" where
  "destroy_job lib io job_id =
     op_bind (op_read (\<lambda>s. find_by pj_id job_id (pp_jobs s))) (\<lambda>job.
     op_bind (op_guard (job \<noteq> None) 404 ''Job not found'') (\<lambda>_.
     op_try (op_retention (destroy_job_with_receipt (pl_env lib) (io_now io) ''MANUAL'' job_id)) is_runtime_error
       (\<lambda>e. op_refuse 500 (op_detail lib e))))"

definition destruction_receipt :: "pipeline_lib \<Rightarrow> string \<Rightarrow> destruction_response op" where
  "destruction_receipt lib job_id =
     op_bind (op_read (\<lambda>s. find_by pj_id job_id (pp_jobs s))) (\<lambda>job.
     op_bind (op_guard (job \<noteq> None) 404 ''Job not found'') (\<lambda>_.
     op_bind (op_read (\<lambda>s. stored_destruction_response (pl_env lib) job_id (va_db (vault_of s)))) (\<lambda>stored.
     op_bind (op_lift stored) (\<lambda>found.
     case found of None \<Rightarrow> op_refuse 404 ''Job has not been destroyed'' | Some r \<Rightarrow> op_return r))))"

text \<open>The retention worker, and the start of the process: the keys are lost and the jobs they protected are erased.\<close>

definition sweep_step :: "pipeline_lib \<Rightarrow> request_io \<Rightarrow> string list op" where
  "sweep_step lib io = op_retention (sweep_expired_jobs (pl_env lib) (io_now io))"

definition start_up :: "pipeline_lib \<Rightarrow> request_io \<Rightarrow> string list op" where
  "start_up lib io =
     op_bind (op_update (\<lambda>s. s\<lparr>pp_workspaces := restart (pp_workspaces s)\<rparr>)) (\<lambda>_.
       op_retention (destroy_unrecoverable_jobs_after_restart (pl_env lib) (io_now io)))"

end
