(* ===== verification/Pipeline_Logic.thy ===== *)
theory Pipeline_Logic
  imports Pipeline_Gate
begin

section \<open>A calculus for the endpoints\<close>

text \<open>
  An endpoint is made of operations that bind, read, guard and catch. \<open>keeps R m\<close> says that \<open>m\<close> moves the state along \<open>R\<close>,
  however it ends. For every reflexive and transitive \<open>R\<close> the combinators keep it; the locale proves the rules once, and
  they are used for the operations that leave the state alone and for those that only take away.
\<close>

definition keeps :: "(pipeline \<Rightarrow> pipeline \<Rightarrow> bool) \<Rightarrow> 'a op \<Rightarrow> bool" where
  "keeps R m \<longleftrightarrow> (\<forall>s. R s (snd (m s)))"

named_theorems keeps_intros

locale op_frame =
  fixes R :: "pipeline \<Rightarrow> pipeline \<Rightarrow> bool"
  assumes stay: "R s s" and step: "R s t \<Longrightarrow> R t u \<Longrightarrow> R s u"
begin

lemma keeps_same: "(\<And>s. snd (m s) = s) \<Longrightarrow> keeps R m"
  by (simp add: keeps_def stay)

lemma keeps_return: "keeps R (op_return x)" by (rule keeps_same) (simp add: op_return_def)
lemma keeps_read: "keeps R (op_read f)" by (rule keeps_same) (simp add: op_read_def)
lemma keeps_refuse: "keeps R (op_refuse n d)" by (rule keeps_same) (simp add: op_refuse_def)
lemma keeps_crash: "keeps R (op_crash e)" by (rule keeps_same) (simp add: op_crash_def)
lemma keeps_guard: "keeps R (op_guard b n d)" by (simp add: op_guard_def keeps_return keeps_refuse)
lemma keeps_lift: "keeps R (op_lift r)" by (simp add: op_lift_def keeps_return keeps_crash split: sum.split)

lemma keeps_bind: "keeps R m \<Longrightarrow> (\<And>x. keeps R (f x)) \<Longrightarrow> keeps R (op_bind m f)"
  unfolding keeps_def op_bind_def by (auto split: prod.split outcome.split) (metis snd_conv step)+

lemma keeps_try: "keeps R m \<Longrightarrow> (\<And>e. keeps R (h e)) \<Longrightarrow> keeps R (op_try m caught h)"
  unfolding keeps_def op_try_def by (auto split: prod.split outcome.split) (metis snd_conv step)+

lemma keeps_if: "(b \<Longrightarrow> keeps R m) \<Longrightarrow> (\<not> b \<Longrightarrow> keeps R m') \<Longrightarrow> keeps R (if b then m else m')" by simp
lemma keeps_let: "keeps R (f x) \<Longrightarrow> keeps R (Let x f)" by simp
lemma keeps_prod: "(\<And>a b. keeps R (f a b)) \<Longrightarrow> keeps R (case_prod f p)" by (simp split: prod.split)
lemma keeps_option: "keeps R m \<Longrightarrow> (\<And>x. keeps R (f x)) \<Longrightarrow> keeps R (case_option m f v)" by (simp split: option.split)
lemma keeps_sum: "(\<And>e. keeps R (f e)) \<Longrightarrow> (\<And>x. keeps R (g x)) \<Longrightarrow> keeps R (case_sum f g v)" by (simp split: sum.split)

lemma keeps_map: "(\<And>x. keeps R (f x)) \<Longrightarrow> keeps R (op_map f xs)"
  by (induction xs) (simp_all add: keeps_bind keeps_return)

lemmas keeps_rules = keeps_return keeps_read keeps_refuse keeps_crash keeps_guard keeps_lift keeps_bind keeps_try keeps_if
  keeps_let keeps_prod keeps_option keeps_sum keeps_map

lemma keepsD: "keeps R m \<Longrightarrow> m s = (r, t) \<Longrightarrow> R s t"
  by (metis keeps_def snd_conv)

end

subsection \<open>Operations that leave the state alone\<close>

interpretation alone: op_frame "(=)" by unfold_locales auto

lemma alone_workspace: "keeps (=) (op_workspace (\<lambda>ws. (f ws, ws)))"
  by (auto simp: keeps_def op_workspace_def split: sum.split)

lemma alone_ws: "keeps (=) (ws_get job)" "keeps (=) (ws_read lib job name)" "keeps (=) (ws_plaintext job e)"
    "keeps (=) (ws_fingerprint lib job d)"
  by (simp_all add: ws_get_def ws_read_def ws_plaintext_def ws_fingerprint_def alone_workspace)

lemma alone_lookups: "keeps (=) (job_or_404 job)" "keeps (=) (file_or_404 job f)" "keeps (=) (output_or_404 job out)"
    "keeps (=) (certificate_or_404 lib job out)"
  by (simp_all add: keeps_def job_or_404_def file_or_404_def output_or_404_def certificate_or_404_def split: option.split)

lemma alone_ledger: "keeps (=) (op_verify_ledger lib job)"
  unfolding op_verify_ledger_def by (intro alone.keeps_rules)

lemmas alone_basics = alone_ws alone_lookups alone_ledger

lemma alone_known: "keeps (=) (known_values job f instructions)"
  unfolding known_values_def known_value_def by (intro alone.keeps_rules alone_basics)

lemma alone_attack: "keeps (=) (attack_output lib job r f)"
  unfolding attack_output_def by (intro alone.keeps_rules alone_basics alone_known)

lemma alone_instruction: "keeps (=) (instruction_of lib job level audience ordinals row)"
  unfolding instruction_of_def by (intro alone.keeps_rules alone_basics)

lemma alone_transformed: "keeps (=) (transformed_document lib io job f level audience rows)"
  unfolding transformed_document_def instructions_of_def synthesized_def
  by (intro alone.keeps_rules alone_basics alone_instruction)

lemma alone_safe: "keeps (=) (safe_output job out d)"
  unfolding safe_output_def by (intro alone.keeps_rules alone_basics)

lemma alone_certificate: "keeps (=) (proof_certificate lib job out)"
  unfolding proof_certificate_def by (intro alone.keeps_rules alone_basics alone_safe)

lemma alone_receipt: "keeps (=) (destruction_receipt lib job)"
  unfolding destruction_receipt_def by (intro alone.keeps_rules)

lemma alone_audit: "keeps (=) (audit_ledger lib job)"
  unfolding audit_ledger_def by (intro alone.keeps_rules alone_basics)

text \<open>What follows an operation that leaves the state alone.\<close>

lemma bind_alone:
  assumes "keeps (=) m" and "\<And>e. I (Http_error (fst e) (snd e) :: 'b outcome, s)" and "\<And>e. I (Crashed e, s)"
    and "\<And>x. m s = (Served x, s) \<Longrightarrow> I (f x s)"
  shows "I (op_bind m f s)"
proof -
  have "snd (m s) = s" using assms(1) by (simp add: keeps_def)
  then show ?thesis using assms(2) [of "(n, d)" for n d] assms(3,4)
    by (cases "m s") (auto simp: op_bind_def split: outcome.split)
qed

lemma bind_served: "m s = (Served x, s') \<Longrightarrow> op_bind m f s = f x s'"
  by (simp add: op_bind_def)

lemma served_bind: "op_bind m f s = (Served y, t) \<Longrightarrow> \<exists>x s'. m s = (Served x, s') \<and> f x s' = (Served y, t)"
  by (auto simp: op_bind_def split: prod.splits outcome.splits)

lemma served_simps [simp]:
  "op_return x s = (Served y, t) \<longleftrightarrow> x = y \<and> s = t" "op_read f s = (Served y, t) \<longleftrightarrow> f s = y \<and> s = t"
  "op_refuse n d s = (Served y, t) \<longleftrightarrow> False" "op_crash e s = (Served y, t) \<longleftrightarrow> False"
  "op_guard b n d s = (Served u, t) \<longleftrightarrow> b \<and> s = t" "op_lift r s = (Served y, t) \<longleftrightarrow> r = Inr y \<and> s = t"
  "op_update g s = (Served u, t) \<longleftrightarrow> t = g s"
  by (auto simp: op_return_def op_read_def op_refuse_def op_crash_def op_guard_def op_lift_def op_update_def split: sum.split)

lemma served_workspace:
  "op_workspace f s = (Served x, t) \<longleftrightarrow> (\<exists>ws. f (pp_workspaces s) = (Inr x, ws) \<and> t = s\<lparr>pp_workspaces := ws\<rparr>)"
  by (auto simp: op_workspace_def split: prod.split sum.split)

lemma served_try:
  "op_try m caught h s = (Served x, t) \<Longrightarrow> m s = (Served x, t) \<or> (\<exists>e s'. m s = (Crashed e, s') \<and> caught e \<and> h e s' = (Served x, t))"
  by (auto simp: op_try_def split: prod.splits outcome.splits if_splits)

lemma served_read: "ws_read lib job name s = (Served c, t) \<Longrightarrow>
    t = s \<and> read_encrypted (pl_crypto lib) job name (pp_workspaces s) = Inr c"
  by (auto simp: ws_read_def served_workspace)

lemma served_job: "job_or_404 job s = (Served j, t) \<Longrightarrow> t = s \<and> j \<in> set (pp_jobs s) \<and> pj_id j = job \<and> pj_status j \<noteq> Job_DESTROYED"
  by (auto simp: job_or_404_def find_by_def find_Some_iff split: option.splits if_splits)

lemma served_file: "file_or_404 job k s = (Served f, t) \<Longrightarrow> t = s \<and> f \<in> set (pp_files s) \<and> pf_id f = k \<and> pf_job_id f = job"
  by (auto simp: file_or_404_def find_Some_iff split: option.splits)

lemma served_output: "output_or_404 job k s = (Served r, t) \<Longrightarrow> t = s \<and> r \<in> set (pp_outputs s) \<and> po_id r = k \<and> po_job_id r = job"
  by (auto simp: output_or_404_def find_Some_iff split: option.splits)

lemma served_safe: "safe_output job k d s = (Served r, t) \<Longrightarrow>
    t = s \<and> r \<in> set (pp_outputs s) \<and> po_id r = k \<and> po_job_id r = job \<and> po_status r = Output_VERIFIED_SAFE \<and>
    (\<exists>j \<in> set (pp_jobs s). pj_id j = job \<and> pj_status j \<noteq> Job_DESTROYED)"
  by (auto simp: safe_output_def dest!: served_bind served_job served_output)

subsection \<open>Operations that only take away\<close>

text \<open>
  No output appears or changes, no file changes what is stored for it, and an encrypted file that can be read afterwards
  could be read before, with the same contents.
\<close>

definition reads :: "pipeline_lib \<Rightarrow> string \<Rightarrow> string \<Rightarrow> pipeline \<Rightarrow> string res" where
  "reads lib job name s = read_encrypted (pl_crypto lib) job name (pp_workspaces s)"

definition file_key :: "pipeline_file \<Rightarrow> string \<times> string \<times> string \<times> string" where
  "file_key f = (pf_id f, pf_job_id f, pf_encrypted_name f, pf_sha256 f)"

definition ws_shrinks :: "crypto_lib \<Rightarrow> workspace_state \<Rightarrow> workspace_state \<Rightarrow> bool" where
  "ws_shrinks c ws ws' \<longleftrightarrow> (\<forall>job name d. read_encrypted c job name ws' = Inr d \<longrightarrow> read_encrypted c job name ws = Inr d)"

definition shrinks :: "pipeline_lib \<Rightarrow> pipeline \<Rightarrow> pipeline \<Rightarrow> bool" where
  "shrinks lib s s' \<longleftrightarrow>
     set (pp_outputs s') \<subseteq> set (pp_outputs s) \<and> (distinct (map po_id (pp_outputs s)) \<longrightarrow> distinct (map po_id (pp_outputs s'))) \<and>
     file_key ` set (pp_files s') \<subseteq> file_key ` set (pp_files s) \<and>
     (distinct (map pf_id (pp_files s)) \<longrightarrow> distinct (map pf_id (pp_files s'))) \<and>
     ws_shrinks (pl_crypto lib) (pp_workspaces s) (pp_workspaces s')"

lemma ws_shrinks_refl [simp]: "ws_shrinks c ws ws" by (simp add: ws_shrinks_def)

lemma ws_shrinks_trans: "ws_shrinks c a b \<Longrightarrow> ws_shrinks c b d \<Longrightarrow> ws_shrinks c a d" by (auto simp: ws_shrinks_def)

interpretation shrinking: op_frame "shrinks lib" for lib
proof
  show "shrinks lib s u" if "shrinks lib s t" and "shrinks lib t u" for s t u
    using that unfolding shrinks_def by (intro conjI) (meson subset_trans ws_shrinks_trans)+
qed (simp add: shrinks_def)

lemma shrinks_alone: "keeps (=) m \<Longrightarrow> keeps (shrinks lib) m"
  using shrinking.stay [of lib] unfolding keeps_def by metis

text \<open>Statements about other tables.\<close>

lemma shrinks_other_tables:
  "pp_outputs s' = pp_outputs s \<Longrightarrow> pp_files s' = pp_files s \<Longrightarrow> pp_workspaces s' = pp_workspaces s \<Longrightarrow> shrinks lib s s'"
  by (simp add: shrinks_def)

lemma shrinking_statement: "(\<And>s. shrinks lib s (g s)) \<Longrightarrow> keeps (shrinks lib) (op_statement violated g)"
  using shrinking.stay [of lib] by (auto simp: keeps_def op_statement_def split: option.split)

lemma shrinking_update: "(\<And>s. shrinks lib s (g s)) \<Longrightarrow> keeps (shrinks lib) (op_update g)"
  by (simp add: keeps_def op_update_def)

lemma shrinking_rows: "keeps (shrinks lib) (insert_job j)" "keeps (shrinks lib) (insert_canonical_entity e)"
    "keeps (shrinks lib) (insert_mention m)" "keeps (shrinks lib) (update_job job g)" "keeps (shrinks lib) (upsert_certificate c)"
    "keeps (shrinks lib) (update_job_status io job st)"
  unfolding insert_job_def insert_canonical_entity_def insert_mention_def update_job_status_def update_job_def
    upsert_certificate_def
  by (intro shrinking_statement shrinking_update shrinks_other_tables; simp)+

lemma shrinking_event: "keeps (shrinks lib) (op_event lib' io job e d)"
  by (auto simp: keeps_def op_event_def intro!: shrinks_other_tables split: prod.split sum.split)

lemma shrinking_workspace: "(\<And>ws. ws_shrinks (pl_crypto lib) ws (snd (f ws))) \<Longrightarrow> keeps (shrinks lib) (op_workspace f)"
proof -
  assume f: "\<And>ws. ws_shrinks (pl_crypto lib) ws (snd (f ws))"
  have "shrinks lib s (snd (op_workspace f s))" for s
    using f [of "pp_workspaces s"] by (cases "f (pp_workspaces s)") (auto simp: op_workspace_def shrinks_def split: sum.split)
  then show ?thesis by (simp add: keeps_def)
qed

lemma read_encrypted_Inr:
  "read_encrypted c job name ws = Inr d \<longleftrightarrow> (\<exists>w raw. map_of (ws_registry ws) job = Some w \<and> \<not> wk_destroyed w \<and>
     safe_name name = Inr name \<and> map_of (directory_of job ws) name = Some raw \<and> \<not> length raw < 13 \<and>
     cr_decrypt c (wk_encryption_key w) (take 12 raw) (drop 12 raw) (aad_of job name) = Inr d)" (is "?l \<longleftrightarrow> ?r")
proof -
  consider e where "safe_name name = Inl e" | "safe_name name = Inr name"
    unfolding safe_name_def by (metis (full_types))
  then show ?thesis
  proof cases
    case 1
    then show ?thesis by (auto simp: read_encrypted_def res_bind_Inr_iff)
  next
    case 2
    then show ?thesis
      by (cases "map_of (ws_registry ws) job"; cases "map_of (directory_of job ws) name")
        (auto simp: read_encrypted_def get_workspace_def ensure_active_def)
  qed
qed

lemma ws_shrinksI:
  assumes "\<And>job w. map_of (ws_registry ws') job = Some w \<Longrightarrow> \<not> wk_destroyed w \<Longrightarrow> directory_of job ws' = [] \<or>
    (\<exists>v. map_of (ws_registry ws) job = Some v \<and> \<not> wk_destroyed v \<and> wk_encryption_key v = wk_encryption_key w \<and>
       directory_of job ws = directory_of job ws')"
  shows "ws_shrinks c ws ws'"
  unfolding ws_shrinks_def
proof (intro allI impI)
  fix job name d
  assume "read_encrypted c job name ws' = Inr d"
  then obtain w raw where w: "map_of (ws_registry ws') job = Some w" "\<not> wk_destroyed w" "safe_name name = Inr name"
      "map_of (directory_of job ws') name = Some raw" "\<not> length raw < 13"
      "cr_decrypt c (wk_encryption_key w) (take 12 raw) (drop 12 raw) (aad_of job name) = Inr d"
    unfolding read_encrypted_Inr by blast
  from assms [OF w(1,2)] w(4) obtain v where "map_of (ws_registry ws) job = Some v" "\<not> wk_destroyed v"
      "wk_encryption_key v = wk_encryption_key w" "directory_of job ws = directory_of job ws'" by auto
  with w show "read_encrypted c job name ws = Inr d" unfolding read_encrypted_Inr by auto
qed

lemma remember_shrinks: "ws_shrinks c ws (snd (remember_plaintext job e v ws))"
  by (rule ws_shrinksI) (auto simp: remember_registry directory_of_def split: if_splits)

lemma create_shrinks: "ws_shrinks c ws (snd (create_workspace c' master job ws))"
  by (rule ws_shrinksI) (auto simp: create_workspace_def directory_of_def Let_def map_of_set_key)

lemma restart_shrinks: "ws_shrinks c ws (restart ws)"
  by (rule ws_shrinksI) (simp add: restart_def)

lemma destroy_shrinks: "ws_shrinks c ws (snd (destroy_workspace job ws))"
proof (rule ws_shrinksI)
  let ?t = "snd (destroy_workspace job ws)"
  fix other w
  assume w: "map_of (ws_registry ?t) other = Some w" "\<not> wk_destroyed w"
  then have "map_of (ws_registry ws) other = Some w"
    by (auto simp: destroy_workspace_registry map_of_del_key split: option.splits if_splits)
  moreover have "ws_disk ?t = ws_disk ws \<or> (\<exists>k. ws_disk ?t = del_key k (ws_disk ws))"
    by (auto simp: destroy_workspace_def destroy_object_def split: option.split)
  then have "directory_of other ?t = [] \<or> directory_of other ?t = directory_of other ws"
    by (auto simp: directory_of_def map_of_del_key)
  ultimately show "directory_of other ?t = [] \<or> (\<exists>v. map_of (ws_registry ws) other = Some v \<and> \<not> wk_destroyed v \<and>
      wk_encryption_key v = wk_encryption_key w \<and> directory_of other ws = directory_of other ?t)"
    using w(2) by auto
qed

lemma shrinking_workspaces: "keeps (shrinks lib) (op_workspace (remember_plaintext job e v))"
    "keeps (shrinks lib) (op_workspace (create_workspace (pl_crypto lib) master job))"
  by (intro shrinking_workspace remember_shrinks create_shrinks)+

subsection \<open>The retention module only takes away\<close>

lemma erase_job_shrinks: "erase_job env now trigger et j v = (r, v') \<Longrightarrow> ws_shrinks c (va_workspaces v) (va_workspaces v')"
  using destroy_shrinks [of c "va_workspaces v" "rj_id j"]
  by (auto simp: erase_job_def Let_def split: prod.splits)

lemma destroy_job_shrinks: "ws_shrinks c (va_workspaces v) (va_workspaces (snd (destroy_job_with_receipt env now trigger job v)))"
  unfolding destroy_job_with_receipt_def
  by (auto simp: Let_def dest: erase_job_shrinks split: option.split sum.split prod.split bool.split)

lemma destroy_all_shrinks: "ws_shrinks c (va_workspaces v) (va_workspaces (snd (destroy_all env now trigger js v)))"
proof (induction js arbitrary: v)
  case (Cons j js)
  then show ?case using destroy_job_shrinks [of c v env now trigger "rj_id j"]
    by (auto split: prod.split sum.split) (metis snd_conv ws_shrinks_trans)+
qed simp

lemma shrinking_retention:
  assumes "\<And>v. ws_shrinks (pl_crypto lib) (va_workspaces v) (va_workspaces (snd (f v)))"
  shows "keeps (shrinks lib) (op_retention f)"
proof -
  have "shrinks lib s (with_vault v s)" if "ws_shrinks (pl_crypto lib) (pp_workspaces s) (va_workspaces v)" for v s
    using that by (auto simp: shrinks_def with_vault_def Let_def intro: distinct_map_filter)
  then have "shrinks lib s (snd (op_retention f s))" for s
    using assms [of "vault_of s"] by (auto simp: op_retention_def vault_of_def split: prod.split sum.split)
  then show ?thesis by (simp add: keeps_def)
qed

lemma shrinking_sweeps: "keeps (shrinks lib) (op_retention (destroy_job_with_receipt env now trigger job))"
    "keeps (shrinks lib) (op_retention (sweep_expired_jobs env now))"
    "keeps (shrinks lib) (op_retention (destroy_unrecoverable_jobs_after_restart env now))"
  by (intro shrinking_retention;
      simp add: destroy_job_shrinks sweep_expired_jobs_def destroy_unrecoverable_jobs_after_restart_def destroy_all_shrinks)+

end
