(* ===== verification/Pipeline_Facts.thy ===== *)
theory Pipeline_Facts
  imports Pipeline_Logic
begin

section \<open>What the release gate guarantees\<close>

text \<open>
  The states the service can reach, the invariant that ties a released output to the attacks it passed, and the facts about
  single endpoints that follow.
\<close>

subsection \<open>The verdict\<close>

lemma severity_positive: "0 < severity_weight s"
  by (simp add: severity_weight_def)

lemma weights_positive: "ts \<noteq> [] \<Longrightarrow> 0 < sum_list (map (\<lambda>r. severity_weight (tr_severity r)) ts)"
proof (induction ts)
  case (Cons t ts)
  then show ?case using severity_positive [of "tr_severity t"] by (cases "ts = []") auto
qed simp

lemma output_verdict_safe:
  "output_verdict ts = Output_VERIFIED_SAFE \<longleftrightarrow> ts \<noteq> [] \<and> (\<forall>t \<in> set ts. tr_status t = Test_PASS)"
proof
  assume "output_verdict ts = Output_VERIFIED_SAFE"
  then have "ts \<noteq> []" "length (filter (\<lambda>r. tr_status r = Test_PASS) ts) = length ts"
    by (simp_all add: output_verdict_def count_tests_def split: if_splits)
  moreover have "tr_status t = Test_PASS" if "t \<in> set ts" for t
    using length_filter_less [of t ts "\<lambda>r. tr_status r = Test_PASS"] that calculation(2) by fastforce
  ultimately show "ts \<noteq> [] \<and> (\<forall>t \<in> set ts. tr_status t = Test_PASS)" by blast
next
  assume all: "ts \<noteq> [] \<and> (\<forall>t \<in> set ts. tr_status t = Test_PASS)"
  then have passed: "filter (\<lambda>r. tr_status r = Test_PASS) ts = ts" by simp
  have "critical_failures ts = 0" using all by (simp add: critical_failures_def filter_empty_conv)
  moreover have "proof_score ts = 100" using weights_positive [of ts] all
    by (simp add: proof_score_def Let_def passed round_half_even_def)
  ultimately show "output_verdict ts = Output_VERIFIED_SAFE" using all passed by (simp add: output_verdict_def count_tests_def)
qed

subsection \<open>Requests\<close>

datatype pipeline_request =
    Create_job job_create
  | Upload_file string "string option" string
  | Analyse_file string string
  | Review_mention string string review_status
  | Transform_file string string privacy_level
  | Verify_output string string
  | Get_certificate string string
  | Download_output string string
  | Read_ledger string
  | Destroy_job string
  | Get_receipt string
  | Sweep_expired
  | Start_up

fun serve :: "pipeline_lib \<Rightarrow> request_io \<Rightarrow> pipeline_request \<Rightarrow> pipeline \<Rightarrow> pipeline" where
  "serve lib io (Create_job p) s = snd (create_job lib io p s)"
| "serve lib io (Upload_file job name content) s = snd (upload_file lib io job name content s)"
| "serve lib io (Analyse_file job f) s = snd (analyse_file lib io job f s)"
| "serve lib io (Review_mention job m action) s = snd (review_mention lib io job m action s)"
| "serve lib io (Transform_file job f level) s = snd (transform_file lib io job f level s)"
| "serve lib io (Verify_output job out) s = snd (verify_output lib io job out s)"
| "serve lib io (Get_certificate job out) s = snd (proof_certificate lib job out s)"
| "serve lib io (Download_output job out) s = snd (download_output lib io job out s)"
| "serve lib io (Read_ledger job) s = snd (audit_ledger lib job s)"
| "serve lib io (Destroy_job job) s = snd (destroy_job lib io job s)"
| "serve lib io (Get_receipt job) s = snd (destruction_receipt lib job s)"
| "serve lib io Sweep_expired s = snd (sweep_step lib io s)"
| "serve lib io Start_up s = snd (start_up lib io s)"

text \<open>What \<open>uuid4\<close> and \<open>os.urandom(12)\<close> are relied on for: identifiers not in use, nonces of twelve bytes.\<close>

definition fresh_io :: "request_io \<Rightarrow> pipeline \<Rightarrow> bool" where
  "fresh_io io s \<longleftrightarrow> length (io_nonce io) = 12 \<and>
     (\<forall>n. io_uuid io n \<notin> po_id ` set (pp_outputs s) \<union> po_file_id ` set (pp_outputs s) \<union> pf_id ` set (pp_files s))"

definition new_pipeline :: "(string \<times> directory) list \<Rightarrow> pipeline" where
  "new_pipeline disk =
     \<lparr>pp_jobs = [], pp_files = [], pp_entities = [], pp_mentions = [], pp_outputs = [], pp_certificates = [], pp_events = [],
      pp_tombstones = [], pp_workspaces = \<lparr>ws_registry = [], ws_disk = disk\<rparr>\<rparr>"

inductive pipeline_run :: "pipeline_lib \<Rightarrow> pipeline \<Rightarrow> pipeline \<Rightarrow> bool" for lib s where
  run_start: "pipeline_run lib s s"
| run_serve: "pipeline_run lib s t \<Longrightarrow> fresh_io io t \<Longrightarrow> pipeline_run lib s (serve lib io r t)"

subsection \<open>The invariant\<close>

text \<open>
  An output was attacked: the red team ran on the bytes that are stored for it, against the uploaded file and with the
  instructions of the manifest, and every test passed.
\<close>

definition attacked :: "pipeline_lib \<Rightarrow> pipeline \<Rightarrow> pipeline_output \<Rightarrow> bool" where
  "attacked lib s r \<longleftrightarrow> (\<exists>a tests manifest. pl_red_team lib a = Inr tests \<and> tests \<noteq> [] \<and> (\<forall>t \<in> set tests. tr_status t = Test_PASS) \<and>
     rt_sha256 (pl_runtime lib) (at_protected a) = po_sha256 r \<and>
     (\<forall>c. reads lib (po_job_id r) (po_encrypted_name r) s = Inr c \<longrightarrow> c = at_protected a) \<and>
     (\<forall>k n sha. (k, po_job_id r, n, sha) \<in> file_key ` set (pp_files s) \<longrightarrow> k = po_file_id r \<longrightarrow>
        rt_sha256 (pl_runtime lib) (at_original a) = sha) \<and>
     read_json lib (po_manifest_json r) = Inr manifest \<and> instructions_from_manifest manifest = Inr (at_instructions a))"

definition output_name :: "string \<Rightarrow> string" where
  "output_name k = ''output-'' @ k @ ''.vgenc''"

definition original_name :: "string \<Rightarrow> string" where
  "original_name k = ''original-'' @ k @ ''.vgenc''"

definition stored_as :: "pipeline_lib \<Rightarrow> pipeline \<Rightarrow> string \<Rightarrow> string \<Rightarrow> string \<Rightarrow> bool" where
  "stored_as lib s job name sha \<longleftrightarrow> (\<forall>c. reads lib job name s = Inr c \<longrightarrow> rt_sha256 (pl_runtime lib) c = sha)"

definition output_ok :: "pipeline_lib \<Rightarrow> pipeline \<Rightarrow> pipeline_output \<Rightarrow> bool" where
  "output_ok lib s r \<longleftrightarrow> po_encrypted_name r = output_name (po_id r) \<and>
     stored_as lib s (po_job_id r) (output_name (po_id r)) (po_sha256 r) \<and>
     (po_status r = Output_VERIFIED_SAFE \<longrightarrow> attacked lib s r)"

definition file_ok :: "pipeline_lib \<Rightarrow> pipeline \<Rightarrow> string \<times> string \<times> string \<times> string \<Rightarrow> bool" where
  "file_ok lib s = (\<lambda>(k, job, name, sha). name = original_name k \<and> stored_as lib s job name sha)"

definition gate_inv :: "pipeline_lib \<Rightarrow> pipeline \<Rightarrow> bool" where
  "gate_inv lib s \<longleftrightarrow> distinct (map po_id (pp_outputs s)) \<and> distinct (map pf_id (pp_files s)) \<and>
     (\<forall>r \<in> set (pp_outputs s). output_ok lib s r) \<and> (\<forall>f \<in> file_key ` set (pp_files s). file_ok lib s f)"

lemma names_apart [simp]: "output_name a \<noteq> original_name b" "original_name b \<noteq> output_name a"
    "output_name a = output_name b \<longleftrightarrow> a = b" "original_name a = original_name b \<longleftrightarrow> a = b"
  by (simp_all add: output_name_def original_name_def)

lemma reads_shrink: "shrinks lib s s' \<Longrightarrow> reads lib job name s' = Inr c \<Longrightarrow> reads lib job name s = Inr c"
  by (simp add: shrinks_def ws_shrinks_def reads_def)

lemma stored_shrink: "stored_as lib s job name sha \<Longrightarrow> shrinks lib s s' \<Longrightarrow> stored_as lib s' job name sha"
  by (auto simp: stored_as_def dest: reads_shrink)

lemma attacked_cong:
  "reads lib (po_job_id r) (po_encrypted_name r) s' = reads lib (po_job_id r) (po_encrypted_name r) s \<Longrightarrow>
     pp_files s' = pp_files s \<Longrightarrow> attacked lib s' r = attacked lib s r"
  by (simp add: attacked_def)

lemma files_shrink: "shrinks lib s s' \<Longrightarrow> f \<in> file_key ` set (pp_files s') \<Longrightarrow> f \<in> file_key ` set (pp_files s)"
  unfolding shrinks_def by blast

lemma outputs_shrink: "shrinks lib s s' \<Longrightarrow> r \<in> set (pp_outputs s') \<Longrightarrow> r \<in> set (pp_outputs s)"
  unfolding shrinks_def by blast

lemma attacked_shrink: "attacked lib s r \<Longrightarrow> shrinks lib s s' \<Longrightarrow> attacked lib s' r"
  unfolding attacked_def by (elim exE conjE, intro exI conjI) (assumption | blast dest: reads_shrink files_shrink)+

lemma gate_shrink:
  assumes "gate_inv lib s" and "shrinks lib s s'"
  shows "gate_inv lib s'"
proof -
  have "output_ok lib s' r" if "r \<in> set (pp_outputs s')" for r
  proof -
    have "output_ok lib s r" using assms(1) outputs_shrink [OF assms(2) that] by (simp add: gate_inv_def)
    then show ?thesis unfolding output_ok_def using stored_shrink [OF _ assms(2)] attacked_shrink [OF _ assms(2)] by metis
  qed
  moreover have "file_ok lib s' f" if "f \<in> file_key ` set (pp_files s')" for f
  proof -
    have "file_ok lib s f" using assms(1) files_shrink [OF assms(2) that] unfolding gate_inv_def by blast
    then show ?thesis using stored_shrink assms(2) by (auto simp: file_ok_def)
  qed
  moreover have "distinct (map po_id (pp_outputs s'))" "distinct (map pf_id (pp_files s'))"
    using assms by (simp_all add: gate_inv_def shrinks_def)
  ultimately show ?thesis by (simp add: gate_inv_def)
qed

lemma gate_keeps: "keeps (shrinks lib) m \<Longrightarrow> gate_inv lib s \<Longrightarrow> gate_inv lib (snd (m s))"
  by (auto simp: keeps_def intro: gate_shrink)

text \<open>Writing a file under a name of no row.\<close>

lemma gate_write:
  assumes "gate_inv lib s" and "ws_write lib io job name content s = (out, s')"
    and "name \<notin> po_encrypted_name ` set (pp_outputs s)" and "name \<notin> pf_encrypted_name ` set (pp_files s)"
  shows "gate_inv lib s' \<and> pp_outputs s' = pp_outputs s \<and> pp_files s' = pp_files s"
proof -
  obtain r ws where w: "write_encrypted (pl_crypto lib) (io_nonce io) job name content (pp_workspaces s) = (r, ws)"
      "s' = s\<lparr>pp_workspaces := ws\<rparr>"
    using assms(2) by (auto simp: ws_write_def op_workspace_def split: prod.splits sum.splits)
  have same: "reads lib j n s' = reads lib j n s" if "n \<noteq> name" for j n
    using read_other_written [OF w(1), of j n] that by (simp add: reads_def w(2))
  have rows: "pp_outputs s' = pp_outputs s" "pp_files s' = pp_files s" by (simp_all add: w(2))
  have "output_ok lib s' r" if "r \<in> set (pp_outputs s)" for r
  proof -
    have "po_encrypted_name r \<noteq> name" "output_ok lib s r" using that assms(1,3) by (auto simp: gate_inv_def)
    moreover have "attacked lib s' r = attacked lib s r" using same calculation(1) rows(2) by (intro attacked_cong) simp_all
    moreover have "reads lib (po_job_id r) (po_encrypted_name r) s' = reads lib (po_job_id r) (po_encrypted_name r) s"
      using same calculation(1) by blast
    ultimately show ?thesis unfolding output_ok_def stored_as_def by simp
  qed
  moreover have "file_ok lib s' (file_key f)" if "f \<in> set (pp_files s)" for f
  proof -
    have "pf_encrypted_name f \<noteq> name" "file_ok lib s (file_key f)" using that assms(1,4) by (auto simp: gate_inv_def)
    then show ?thesis by (simp add: file_ok_def file_key_def stored_as_def same)
  qed
  ultimately show ?thesis using assms(1) by (simp add: gate_inv_def rows)
qed

lemma written_reads:
  assumes "ws_write lib io job name content s = (Served u, s')" and "aead_ok (pl_crypto lib)" and "length (io_nonce io) = 12"
  shows "reads lib job name s' = Inr content"
  using assms by (auto simp: ws_write_def served_workspace reads_def intro: read_written)

subsection \<open>Every request keeps the invariant\<close>

lemma gate_bind:
  assumes "gate_inv lib (snd (m s))" and "\<And>x s'. m s = (Served x, s') \<Longrightarrow> gate_inv lib s' \<Longrightarrow> gate_inv lib (snd (f x s'))"
  shows "gate_inv lib (snd (op_bind m f s))"
  using assms by (cases "m s") (auto simp: op_bind_def split: outcome.split)

lemma gate_bind_alone:
  assumes "keeps (=) m" and "gate_inv lib s" and "\<And>x. m s = (Served x, s) \<Longrightarrow> gate_inv lib (snd (f x s))"
  shows "gate_inv lib (snd (op_bind m f s))"
proof -
  have "snd (m s) = s" using assms(1) by (metis keeps_def)
  then show ?thesis using assms(2,3) by (intro gate_bind) (metis snd_conv)+
qed

lemma reads_rows [simp]: "reads lib job name (s\<lparr>pp_files := fs\<rparr>) = reads lib job name s"
    "reads lib job name (s\<lparr>pp_outputs := rs\<rparr>) = reads lib job name s"
  by (simp_all add: reads_def)

lemma stored_rows [simp]: "stored_as lib (s\<lparr>pp_files := fs\<rparr>) job name sha = stored_as lib s job name sha"
    "stored_as lib (s\<lparr>pp_outputs := rs\<rparr>) job name sha = stored_as lib s job name sha"
  by (simp_all add: stored_as_def)

lemma attacked_outputs [simp]: "attacked lib (s\<lparr>pp_outputs := rs\<rparr>) r = attacked lib s r"
  by (simp add: attacked_def)

lemma attacked_row [simp]: "attacked lib s (r\<lparr>po_status := st, po_verification_json := v, po_verified_at := t\<rparr>) = attacked lib s r"
  by (simp add: attacked_def)

lemma output_ok_outputs [simp]: "output_ok lib (s\<lparr>pp_outputs := rs\<rparr>) r = output_ok lib s r"
  by (simp add: output_ok_def)

lemma file_ok_rows [simp]: "file_ok lib (s\<lparr>pp_outputs := rs\<rparr>) f = file_ok lib s f" "file_ok lib (s\<lparr>pp_files := fs\<rparr>) f = file_ok lib s f"
  by (simp_all add: file_ok_def)

lemma gate_insert_file:
  assumes "gate_inv lib s" and "file_ok lib s (file_key r)" and "pf_id r \<notin> po_file_id ` set (pp_outputs s)"
  shows "gate_inv lib (snd (insert_file r s))"
proof (cases "pf_id r \<in> pf_id ` set (pp_files s)")
  case True
  then show ?thesis using assms(1) by (simp add: insert_file_def op_statement_def unique_key_def)
next
  case False
  let ?t = "s\<lparr>pp_files := pp_files s @ [r]\<rparr>"
  have "attacked lib ?t q" if "q \<in> set (pp_outputs s)" "attacked lib s q" for q
  proof -
    have "pf_id r \<noteq> po_file_id q" using that(1) assms(3) by auto
    then have "(k, po_job_id q, n, sha) \<in> file_key ` set (pp_files ?t) \<longrightarrow> k = po_file_id q \<longrightarrow>
        (k, po_job_id q, n, sha) \<in> file_key ` set (pp_files s)" for k n sha
      by (cases "file_key r") (auto simp: file_key_def [of r])
    with that(2) show ?thesis unfolding attacked_def reads_rows by blast
  qed
  then have "output_ok lib ?t q" if "q \<in> set (pp_outputs s)" for q
    using that assms(1) by (simp add: gate_inv_def output_ok_def)
  with False assms(1,2) show ?thesis
    by (auto simp: insert_file_def op_statement_def unique_key_def gate_inv_def)
qed

lemma gate_insert_output:
  assumes "gate_inv lib s" and "output_ok lib s r"
  shows "gate_inv lib (snd (insert_output r s))"
  using assms by (auto simp: insert_output_def op_statement_def unique_key_def gate_inv_def)

lemma gate_update:
  assumes "gate_inv lib s" and "r \<in> set (pp_outputs s)" and "st = Output_VERIFIED_SAFE \<Longrightarrow> attacked lib s r"
  shows "gate_inv lib (snd (update_output_verification lib io (po_id r) st v s))"
proof -
  let ?f = "\<lambda>q. if po_id q = po_id r then q\<lparr>po_status := st, po_verification_json := Some (dumps_styled default_style (pl_runtime lib) True v),
    po_verified_at := Some (io_now io)\<rparr> else q"
  have same: "q = r" if "q \<in> set (pp_outputs s)" "po_id q = po_id r" for q
    using that assms(1,2) by (auto simp: gate_inv_def dest: inj_onD simp: distinct_map)
  have ok: "output_ok lib s (?f q)" if "q \<in> set (pp_outputs s)" for q
  proof -
    have q: "output_ok lib s q" using that assms(1) by (simp add: gate_inv_def)
    show ?thesis
    proof (cases "po_id q = po_id r")
      case True
      then have "q = r" using that same by blast
      then show ?thesis using q assms(3) by (simp add: output_ok_def)
    qed (use q in simp)
  qed
  define rows where "rows = map ?f (pp_outputs s)"
  have "\<forall>q \<in> set rows. output_ok lib s q"
    unfolding rows_def set_map by (intro ballI, elim imageE, hypsubst, rule ok)
  moreover have "map po_id rows = map po_id (pp_outputs s)" by (simp add: rows_def)
  ultimately show ?thesis using assms(1)
    by (simp add: update_output_verification_def op_update_def gate_inv_def flip: rows_def)
qed

lemma fresh_shrink: "fresh_io io s \<Longrightarrow> shrinks lib s s' \<Longrightarrow> fresh_io io s'"
proof -
  assume f: "fresh_io io s" and sh: "shrinks lib s s'"
  have "fst ` file_key ` set (pp_files s') \<subseteq> fst ` file_key ` set (pp_files s)"
    using sh unfolding shrinks_def by (elim conjE) (rule image_mono)
  then have "pf_id ` set (pp_files s') \<subseteq> pf_id ` set (pp_files s)" by (simp add: image_image file_key_def)
  moreover have "set (pp_outputs s') \<subseteq> set (pp_outputs s)" using sh by (simp add: shrinks_def)
  ultimately have "po_id ` set (pp_outputs s') \<union> po_file_id ` set (pp_outputs s') \<union> pf_id ` set (pp_files s') \<subseteq>
      po_id ` set (pp_outputs s) \<union> po_file_id ` set (pp_outputs s) \<union> pf_id ` set (pp_files s)" (is "?l \<subseteq> ?r")
    by (intro Un_mono) (simp_all add: image_mono)
  then have "x \<notin> ?r \<Longrightarrow> x \<notin> ?l" for x by (rule contra_subsetD)
  then show ?thesis using f unfolding fresh_io_def by presburger
qed

lemmas shrinking_basics = shrinking_rows shrinking_event shrinking_workspaces alone_basics [THEN shrinks_alone]

lemma shrinking_detections: "keeps (shrinks lib) (record_detections lib io job f ds acc)"
proof (induction ds arbitrary: acc)
  case (Cons d ds)
  have "keeps (shrinks lib) (record_detection lib io job f d acc)"
    unfolding record_detection_def canonical_entity_def by (intro shrinking.keeps_rules shrinking_basics)
  with Cons show ?case by (simp add: shrinking.keeps_bind)
qed (simp add: shrinking.keeps_return)

lemma shrinking_files: "(\<And>f. file_key (g f) = file_key f) \<Longrightarrow> keeps (shrinks lib) (op_update (\<lambda>s. s\<lparr>pp_files := map g (pp_files s)\<rparr>))"
proof (rule shrinking_update)
  assume g: "\<And>f. file_key (g f) = file_key f"
  then have "pf_id (g f) = pf_id f" for f by (simp add: file_key_def)
  with g show "shrinks lib s (s\<lparr>pp_files := map g (pp_files s)\<rparr>)" for s
    by (simp add: shrinks_def image_image comp_def)
qed

lemma shrinking_requests:
  "keeps (shrinks lib) (create_job lib io p)" "keeps (shrinks lib) (analyse_file lib io job f)"
  "keeps (shrinks lib) (review_mention lib io job m action)" "keeps (shrinks lib) (download_output lib io job out)"
  "keeps (shrinks lib) (destroy_job lib io job)" "keeps (shrinks lib) (sweep_step lib io)"
  "keeps (shrinks lib) (certify_output lib io job r manifest v)"
proof -
  show "keeps (shrinks lib) (create_job lib io p)"
    unfolding create_job_def Let_def by (intro shrinking.keeps_rules shrinking_basics)
  show "keeps (shrinks lib) (analyse_file lib io job f)"
    unfolding analyse_file_def fail_job_def
    by (intro shrinking.keeps_rules shrinking_basics shrinking_detections shrinking_files) (simp add: file_key_def)
  show "keeps (shrinks lib) (review_mention lib io job m action)"
    unfolding review_mention_def
    by (intro shrinking.keeps_rules shrinking_basics shrinking_update shrinks_other_tables) simp_all
  show "keeps (shrinks lib) (download_output lib io job out)"
    unfolding download_output_def by (intro shrinking.keeps_rules shrinking_basics alone_safe [THEN shrinks_alone])
  show "keeps (shrinks lib) (destroy_job lib io job)"
    unfolding destroy_job_def by (intro shrinking.keeps_rules shrinking_sweeps)
  show "keeps (shrinks lib) (sweep_step lib io)"
    unfolding sweep_step_def by (intro shrinking_sweeps)
  show "keeps (shrinks lib) (certify_output lib io job r manifest v)"
    unfolding certify_output_def by (intro shrinking.keeps_rules shrinking_basics)
qed

lemma shrinking_start: "keeps (shrinks lib) (start_up lib io)"
proof -
  have "keeps (shrinks lib) (op_update (\<lambda>s. s\<lparr>pp_workspaces := restart (pp_workspaces s)\<rparr>))"
    by (rule shrinking_update) (simp add: shrinks_def restart_shrinks)
  then show ?thesis unfolding start_up_def by (intro shrinking.keeps_rules shrinking_sweeps)
qed

lemma fresh_nonce: "fresh_io io s \<Longrightarrow> length (io_nonce io) = 12"
  unfolding fresh_io_def by (elim conjE)

lemma fresh_ids:
  assumes "fresh_io io s"
  shows "r \<in> set (pp_outputs s) \<Longrightarrow> io_uuid io n \<noteq> po_id r" and "r \<in> set (pp_outputs s) \<Longrightarrow> io_uuid io n \<noteq> po_file_id r"
    and "f \<in> set (pp_files s) \<Longrightarrow> io_uuid io n \<noteq> pf_id f"
  using assms unfolding fresh_io_def by (metis Un_iff imageI)+

lemma gate_names:
  assumes "gate_inv lib s"
  shows "r \<in> set (pp_outputs s) \<Longrightarrow> po_encrypted_name r = output_name (po_id r)"
    and "f \<in> set (pp_files s) \<Longrightarrow> pf_encrypted_name f = original_name (pf_id f)"
  using assms by (simp_all add: gate_inv_def output_ok_def file_ok_def file_key_def)

lemma fresh_output: "fresh_io io s \<Longrightarrow> gate_inv lib s \<Longrightarrow> output_name (io_uuid io n) \<notin> po_encrypted_name ` set (pp_outputs s) \<and>
    output_name (io_uuid io n) \<notin> pf_encrypted_name ` set (pp_files s)"
  by (auto simp: gate_names dest: fresh_ids)

lemma fresh_original: "fresh_io io s \<Longrightarrow> gate_inv lib s \<Longrightarrow> original_name (io_uuid io n) \<notin> po_encrypted_name ` set (pp_outputs s) \<and>
    original_name (io_uuid io n) \<notin> pf_encrypted_name ` set (pp_files s)"
  by (auto simp: gate_names dest: fresh_ids)

lemma uploaded_sha: "validate_upload rt st vlib ulib content name = Inr (t, m, sha) \<Longrightarrow> sha = rt_sha256 rt content"
  by (auto simp: validate_upload_def Let_def raise_upload_def res_bind_Inr_iff split: if_splits option.splits)

lemma gate_store_file:
  assumes "gate_inv lib s" and "fresh_io io s" and "aead_ok (pl_crypto lib)" and "\<And>u. keeps (shrinks lib) (k u)"
    and "name = original_name (io_uuid io 0)"
    and "file_key r = (io_uuid io 0, job, name, rt_sha256 (pl_runtime lib) content)"
  shows "gate_inv lib (snd (op_bind (ws_write lib io job name content) (\<lambda>_. op_bind (insert_file r) k) s))"
proof (rule gate_bind)
  have new: "name \<notin> po_encrypted_name ` set (pp_outputs s)" "name \<notin> pf_encrypted_name ` set (pp_files s)"
    using fresh_original [OF assms(2,1)] assms(5) by auto
  obtain out t where t: "ws_write lib io job name content s = (out, t)" by (cases "ws_write lib io job name content s")
  show "gate_inv lib (snd (ws_write lib io job name content s))" using gate_write [OF assms(1) t new] t by simp
  fix u s'
  assume w: "ws_write lib io job name content s = (Served u, s')"
  have inv: "gate_inv lib s'" "pp_outputs s' = pp_outputs s" using gate_write [OF assms(1) w new] by simp_all
  have "reads lib job name s' = Inr content" using written_reads [OF w assms(3) fresh_nonce [OF assms(2)]] .
  then have "file_ok lib s' (file_key r)" by (simp add: assms(5,6) file_ok_def stored_as_def)
  moreover have "pf_id r = io_uuid io 0" using assms(6) by (simp add: file_key_def)
  ultimately have stored: "gate_inv lib (snd (insert_file r s'))" using inv fresh_ids(2) [OF assms(2)] by (intro gate_insert_file) auto
  then show "gate_inv lib (snd (op_bind (insert_file r) k s'))"
    by (rule gate_bind) (metis assms(4) gate_keeps snd_conv stored)
qed

lemma gate_store_output:
  assumes "gate_inv lib s" and "fresh_io io s" and "aead_ok (pl_crypto lib)" and "\<And>u. keeps (shrinks lib) (k u)"
    and "name = output_name (io_uuid io 0)" and "po_encrypted_name r = name" and "po_id r = io_uuid io 0" and "po_job_id r = job"
    and "po_sha256 r = rt_sha256 (pl_runtime lib) content" and "po_status r = Output_CREATED"
  shows "gate_inv lib (snd (op_bind (ws_write lib io job name content) (\<lambda>_. op_bind (insert_output r) k) s))"
proof (rule gate_bind)
  have new: "name \<notin> po_encrypted_name ` set (pp_outputs s)" "name \<notin> pf_encrypted_name ` set (pp_files s)"
    using fresh_output [OF assms(2,1)] assms(5) by auto
  obtain out t where t: "ws_write lib io job name content s = (out, t)" by (cases "ws_write lib io job name content s")
  show "gate_inv lib (snd (ws_write lib io job name content s))" using gate_write [OF assms(1) t new] t by simp
  fix u s'
  assume w: "ws_write lib io job name content s = (Served u, s')"
  have inv: "gate_inv lib s'" using gate_write [OF assms(1) w new] by simp
  have "reads lib job name s' = Inr content" using written_reads [OF w assms(3) fresh_nonce [OF assms(2)]] .
  then have "output_ok lib s' r" by (simp add: assms(5-10) output_ok_def stored_as_def)
  with inv have "gate_inv lib (snd (insert_output r s'))" by (rule gate_insert_output)
  then show "gate_inv lib (snd (op_bind (insert_output r) k s'))"
    by (intro gate_bind) (metis assms(4) gate_keeps snd_conv)+
qed

lemma gate_upload:
  assumes "gate_inv lib s" and "fresh_io io s" and "aead_ok (pl_crypto lib)"
  shows "gate_inv lib (snd (upload_file lib io job name content s))"
  unfolding upload_file_def Let_def
  apply (rule gate_bind_alone [OF _ assms(1)], rule alone_basics)
  apply (rule gate_bind_alone [OF _ assms(1)], (rule alone.keeps_rules alone_basics)+)
  subgoal for j x
    by (cases x)
      (auto intro!: gate_store_file assms shrinking.keeps_rules shrinking_basics
        simp: file_key_def original_name_def dest!: served_try served_bind uploaded_sha)
  done

lemma gate_fresh_bind:
  assumes "keeps (shrinks lib) m" and "gate_inv lib s \<and> fresh_io io s"
    and "\<And>x s'. gate_inv lib s' \<and> fresh_io io s' \<Longrightarrow> gate_inv lib (snd (f x s'))"
  shows "gate_inv lib (snd (op_bind m f s))"
  using assms gate_keeps [OF assms(1)] shrinking.keepsD [OF assms(1)] fresh_shrink by (intro gate_bind) (metis snd_conv)+

lemma shrinking_fail: "keeps (shrinks lib) (fail_job lib io job e)"
  unfolding fail_job_def by (intro shrinking.keeps_rules shrinking_basics)

lemma gate_transform:
  assumes "gate_inv lib s" and "fresh_io io s" and "aead_ok (pl_crypto lib)"
  shows "gate_inv lib (snd (transform_file lib io job f level s))"
proof -
  have *: "gate_inv lib s \<and> fresh_io io s" using assms(1,2) by simp
  show ?thesis
    unfolding transform_file_def Let_def
    by (rule gate_fresh_bind, (intro shrinking.keeps_rules shrinking_basics alone_transformed [THEN shrinks_alone] shrinking_fail)[1],
        (rule * | assumption))+
      (rule gate_store_output; (rule assms(3) | (intro shrinking.keeps_rules shrinking_basics)[1] | simp add: output_name_def))
qed

lemma attack_output_served:
  assumes "attack_output lib job r f s = (Served (manifest, tests), t)"
  shows "t = s \<and> (\<exists>a. pl_red_team lib a = Inr tests \<and> reads lib job (po_encrypted_name r) s = Inr (at_protected a) \<and>
    reads lib job (pf_encrypted_name f) s = Inr (at_original a) \<and> read_json lib (po_manifest_json r) = Inr manifest \<and>
    instructions_from_manifest manifest = Inr (at_instructions a) \<and> at_file_type a = pf_file_type f)"
  using assms unfolding attack_output_def
  by (auto simp: manifest_attack_def res_bind_Inr_iff reads_def
      dest!: served_bind served_read alone_ws(1) [THEN alone.keepsD] alone_known [THEN alone.keepsD])
    (intro exI conjI, assumption, simp_all)

lemma gate_verdict:
  assumes "gate_inv lib s" and "output_or_404 job out s = (Served r, s)" and "file_or_404 job (po_file_id r) s = (Served f, s)"
    and "op_try (attack_output lib job r f) caught (\<lambda>e. op_refuse 422 (detail e)) s = (Served (manifest, tests), s)"
  shows "gate_inv lib (snd (update_output_verification lib io out (output_verdict tests) v s))"
proof -
  have r: "r \<in> set (pp_outputs s)" "po_id r = out" "po_job_id r = job" using served_output [OF assms(2)] by auto
  have f: "f \<in> set (pp_files s)" "pf_id f = po_file_id r" "pf_job_id f = job" using served_file [OF assms(3)] by auto
  from assms(4) have "attack_output lib job r f s = (Served (manifest, tests), s)"
    by (auto dest: served_try)
  from attack_output_served [OF this] obtain a where a: "pl_red_team lib a = Inr tests"
      "reads lib job (po_encrypted_name r) s = Inr (at_protected a)" "reads lib job (pf_encrypted_name f) s = Inr (at_original a)"
      "read_json lib (po_manifest_json r) = Inr manifest" "instructions_from_manifest manifest = Inr (at_instructions a)" by blast
  have "attacked lib s r" if "output_verdict tests = Output_VERIFIED_SAFE"
  proof -
    have ok: "output_ok lib s r" "file_ok lib s (file_key f)" using assms(1) r(1) f(1) by (auto simp: gate_inv_def)
    have "rt_sha256 (pl_runtime lib) (at_protected a) = po_sha256 r"
      using ok(1) a(2) r(3) by (auto simp: output_ok_def stored_as_def)
    moreover have "rt_sha256 (pl_runtime lib) (at_original a) = pf_sha256 f"
      using ok(2) a(3) f(3) by (auto simp: file_ok_def stored_as_def file_key_def)
    moreover have "g = f" if "g \<in> set (pp_files s)" "pf_id g = po_file_id r" for g
    proof -
      have "inj_on pf_id (set (pp_files s))" using assms(1) by (simp add: gate_inv_def distinct_map)
      then show ?thesis using that f(1,2) by (simp add: inj_on_def)
    qed
    ultimately show ?thesis unfolding attacked_def
      using that a r(3) by (intro exI [of _ a] exI [of _ tests] exI [of _ manifest])
        (auto simp: output_verdict_safe file_key_def)
  qed
  then show ?thesis using gate_update [OF assms(1) r(1)] r(2) by blast
qed

lemma gate_verify:
  assumes "gate_inv lib s"
  shows "gate_inv lib (snd (verify_output lib io job out s))"
  unfolding verify_output_def Let_def
  apply (rule gate_bind_alone [OF _ assms], rule alone_basics)
  apply (rule gate_bind_alone [OF _ assms], rule alone_basics)
  apply (rule gate_bind_alone [OF _ assms], rule alone_basics)
  apply (rule gate_bind_alone [OF _ assms], (intro alone.keeps_rules alone_attack)[1])
  apply (clarify)
  apply (rule gate_bind_alone [OF _ assms], rule alone.keeps_rules)
  apply (rule gate_bind_alone [OF _ assms], rule alone.keeps_rules)
  apply (rule gate_bind_alone [OF _ assms], rule alone.keeps_rules)
  apply (rule gate_bind)
   apply (rule gate_verdict [OF assms]; assumption)
  apply (rule gate_keeps, (intro shrinking.keeps_rules shrinking_basics shrinking_requests)[1], assumption)
  done

lemma serve_keeps:
  assumes "gate_inv lib s" and "fresh_io io s" and "aead_ok (pl_crypto lib)"
  shows "gate_inv lib (serve lib io r s)"
proof (cases r)
  case (Upload_file job name content)
  then show ?thesis using gate_upload [OF assms] by simp
next
  case (Transform_file job f level)
  then show ?thesis using gate_transform [OF assms] by simp
next
  case (Verify_output job out)
  then show ?thesis using gate_verify [OF assms(1)] by simp
qed (simp_all add: gate_keeps [OF _ assms(1)] shrinking_requests shrinking_start shrinks_alone alone_certificate alone_audit
    alone_receipt)

lemma gate_new: "gate_inv lib (new_pipeline disk)"
  by (simp add: gate_inv_def new_pipeline_def)

lemma gate_run: "pipeline_run lib s t \<Longrightarrow> gate_inv lib s \<Longrightarrow> aead_ok (pl_crypto lib) \<Longrightarrow> gate_inv lib t"
  by (induction rule: pipeline_run.induct) (simp_all add: serve_keeps)

end
