(* ===== verification/Pipeline_Demo.thy ===== *)
theory Pipeline_Demo
  imports Pipeline_Facts
begin

section \<open>Concrete states of the pipeline\<close>

text \<open>
  A library of simple stand-ins, a state with one output before and after its verification, and the facts about them that the
  witnesses of the properties use.
\<close>

subsection \<open>A job that is about to be released\<close>

definition demo_pipeline_lib :: "string \<Rightarrow> pipeline_lib" where
  "demo_pipeline_lib key =
     \<lparr>pl_env = demo_retention key, pl_crypto = demo_crypto, pl_settings = default_settings, pl_video = demo_library,
      pl_upload = \<lparr>ul_pdf = (\<lambda>_. Inl ''unsupported''), ul_text = (\<lambda>d n. Inr (d, ''text/plain'')), ul_docx_error = (\<lambda>_. None),
        ul_dataset = (\<lambda>_ _. Inl ''unsupported''), ul_image = (\<lambda>_. Inl ''unsupported'')\<rparr>,
      pl_calendar = (\<lambda>_ _. None), pl_enforce_policy_floors = False,
      pl_analyse = (\<lambda>d t n. Inl (ValueError ''unsupported'')),
      pl_sanitize = (\<lambda>d t is n. Inr \<lparr>tf_data = ''NAME'', tf_media_type = ''text/plain'', tf_report = JNull\<rparr>),
      pl_synthesize = (\<lambda>d is n salt. Inl (ValueError ''unsupported'')),
      pl_red_team = (\<lambda>a. Inr [\<lparr>tr_name = ''leak'', tr_status = (if at_protected a = ''NAME'' then Test_PASS else Test_FAIL),
        tr_detail = [], tr_attack_class = ''direct'', tr_severity = ''critical''\<rparr>])\<rparr>"

definition demo_pipeline_job :: pipeline_job where
  "demo_pipeline_job =
     \<lparr>pj_id = ''j'', pj_purpose = ''review'', pj_recipient = ''desk'', pj_audience = PUBLIC_RELEASE, pj_level = DIRECT_MASKING,
      pj_retention_seconds = 60, pj_status = Job_TRANSFORMED, pj_created_at = utc 0, pj_updated_at = utc 0\<rparr>"

definition demo_pipeline_file :: pipeline_file where
  "demo_pipeline_file =
     \<lparr>pf_id = ''f'', pf_job_id = ''j'', pf_original_filename = ''a.txt'', pf_file_type = File_TEXT, pf_media_type = ''text/plain'',
      pf_encrypted_name = original_name ''f'', pf_sha256 = checksum_text ''Asha'', pf_page_count = 1, pf_scanned_pages = 0,
      pf_status = ''ANALYSED'', pf_created_at = utc 0\<rparr>"

definition demo_output :: "output_status \<Rightarrow> pipeline_output" where
  "demo_output st =
     \<lparr>po_id = ''o'', po_job_id = ''j'', po_file_id = ''f'', po_encrypted_name = output_name ''o'', po_sha256 = checksum_text ''NAME'',
      po_media_type = ''text/plain'', po_download_name = ''a.txt'', po_status = st,
      po_manifest_json = dumps demo_runtime True (JObj [(''instructions'', JArr []), (''privacy_level'', JInt 1)]),
      po_verification_json = None, po_created_at = utc 0, po_verified_at = None\<rparr>"

definition demo_pipeline :: "output_status \<Rightarrow> pipeline" where
  "demo_pipeline st =
     \<lparr>pp_jobs = [demo_pipeline_job], pp_files = [demo_pipeline_file], pp_entities = [], pp_mentions = [],
      pp_outputs = [demo_output st], pp_certificates = [], pp_events = [], pp_tombstones = [],
      pp_workspaces = \<lparr>ws_registry = [(''j'', new_workspace demo_crypto ''k'' ''j'')],
        ws_disk = [(''j'', [(original_name ''f'', ''012345678901Asha'' @ replicate 16 CHR 0x00),
          (output_name ''o'', ''012345678901NAME'' @ replicate 16 CHR 0x00)])]\<rparr>\<rparr>"

lemma demo_reads: "reads (demo_pipeline_lib key) ''j'' (original_name ''f'') (demo_pipeline st) = Inr ''Asha''"
    "reads (demo_pipeline_lib key) ''j'' (output_name ''o'') (demo_pipeline st) = Inr ''NAME''"
  by (simp_all add: reads_def read_encrypted_def get_workspace_def demo_pipeline_def ensure_active_def new_workspace_def safe_name_def
      directory_of_def demo_pipeline_lib_def demo_crypto_def) (simp_all add: original_name_def output_name_def)

definition demo_manifest :: json where
  "demo_manifest = JObj [(''instructions'', JArr []), (''privacy_level'', JInt 1)]"

lemma demo_manifest_read: "read_json (demo_pipeline_lib key) (po_manifest_json (demo_output st)) = Inr demo_manifest"
proof -
  have "loads ratio_reader (dumps demo_runtime True demo_manifest) = Some (canon demo_manifest)"
    using ratio_reads by (intro loads_dumps) (simp_all add: demo_runtime_def demo_manifest_def)
  moreover have "canon demo_manifest = demo_manifest" by code_simp
  ultimately show ?thesis
    by (simp add: read_json_def demo_pipeline_lib_def demo_retention_def demo_output_def demo_manifest_def)
qed

lemma demo_sha [simp]: "rt_sha256 (pl_runtime (demo_pipeline_lib key)) = checksum_text"
  by (simp add: demo_pipeline_lib_def demo_retention_def demo_runtime_def)

definition demo_tests :: "test_result list" where
  "demo_tests = [\<lparr>tr_name = ''leak'', tr_status = Test_PASS, tr_detail = [], tr_attack_class = ''direct'', tr_severity = ''critical''\<rparr>]"

lemma demo_attack: "attack_output (demo_pipeline_lib key) ''j'' (demo_output st) demo_pipeline_file (demo_pipeline st) =
    (Served (demo_manifest, demo_tests), demo_pipeline st)"
proof -
  have "ws_get ''j'' (demo_pipeline st) = (Served (new_workspace demo_crypto ''k'' ''j''), demo_pipeline st)"
    by (simp add: ws_get_def op_workspace_def get_workspace_def demo_pipeline_def)
  moreover have "ws_read (demo_pipeline_lib key) ''j'' (po_encrypted_name (demo_output st)) (demo_pipeline st) =
      (Served ''NAME'', demo_pipeline st)" "ws_read (demo_pipeline_lib key) ''j'' (pf_encrypted_name demo_pipeline_file) (demo_pipeline st) =
      (Served ''Asha'', demo_pipeline st)"
    using demo_reads [of key st] by (simp_all add: ws_read_def op_workspace_def reads_def demo_output_def demo_pipeline_file_def)
  moreover have "instructions_from_manifest demo_manifest = Inr []"
    by (simp add: instructions_from_manifest_def demo_manifest_def json_field_def as_items_def)
  moreover have "known_values ''j'' (po_file_id (demo_output st)) [] (demo_pipeline st) = (Served [], demo_pipeline st)"
    by (simp add: known_values_def op_bind_def op_read_def op_return_def)
  moreover have "manifest_attack demo_pipeline_file ''Asha'' ''NAME'' demo_manifest [] [] = Inr
      \<lparr>at_original = ''Asha'', at_protected = ''NAME'', at_file_type = File_TEXT, at_known_values = [], at_instructions = [],
       at_expected_ids = sorted_set [], at_level = DIRECT_MASKING, at_ignored_regions = [], at_synthetic_twin = JNull\<rparr>"
    by (simp add: manifest_attack_def demo_manifest_def get_default_def json_field_def str_items_def as_items_def as_int_def
        level_of_int_def demo_pipeline_file_def)
  ultimately show ?thesis
    by (simp add: attack_output_def bind_served op_bind_def demo_manifest_read op_lift_def op_return_def)
      (simp add: demo_pipeline_lib_def op_return_def demo_tests_def)
qed

lemma demo_verdict: "output_verdict demo_tests = Output_VERIFIED_SAFE"
  by (simp add: output_verdict_safe demo_tests_def)

lemma demo_lookups: "job_or_404 ''j'' (demo_pipeline st) = (Served demo_pipeline_job, demo_pipeline st)"
    "output_or_404 ''j'' ''o'' (demo_pipeline st) = (Served (demo_output st), demo_pipeline st)"
    "file_or_404 ''j'' (po_file_id (demo_output st)) (demo_pipeline st) = (Served demo_pipeline_file, demo_pipeline st)"
  by (simp_all add: job_or_404_def find_by_def output_or_404_def file_or_404_def demo_pipeline_def demo_pipeline_job_def
      demo_output_def demo_pipeline_file_def)

lemma demo_gate: "gate_inv (demo_pipeline_lib key) (demo_pipeline st)"
proof -
  let ?lib = "demo_pipeline_lib key" and ?s = "demo_pipeline st"
  have rows: "pp_outputs ?s = [demo_output st]" "pp_files ?s = [demo_pipeline_file]" by (simp_all add: demo_pipeline_def)
  have stored: "po_job_id (demo_output st) = ''j''" "po_encrypted_name (demo_output st) = output_name ''o''"
      "po_id (demo_output st) = ''o''" "po_sha256 (demo_output st) = checksum_text ''NAME''" by (simp_all add: demo_output_def)
  have upload: "file_key demo_pipeline_file = (''f'', ''j'', original_name ''f'', checksum_text ''Asha'')"
    by (simp add: file_key_def demo_pipeline_file_def)
  obtain a where a: "pl_red_team ?lib a = Inr demo_tests" "Inr ''NAME'' = (Inr (at_protected a) :: string res)"
      "Inr ''Asha'' = (Inr (at_original a) :: string res)" "instructions_from_manifest demo_manifest = Inr (at_instructions a)"
    using attack_output_served [OF demo_attack [of key st]] demo_reads [of key st]
    by (auto simp: stored demo_pipeline_file_def)
  have "attacked ?lib ?s (demo_output st)"
    unfolding attacked_def
    by (rule exI [of _ a], rule exI [of _ demo_tests], rule exI [of _ demo_manifest])
      (use a demo_reads(2) [of key st] demo_manifest_read [of key st] in \<open>auto simp: rows stored upload demo_tests_def\<close>)
  moreover have "stored_as ?lib ?s ''j'' (output_name ''o'') (checksum_text ''NAME'')"
      "stored_as ?lib ?s ''j'' (original_name ''f'') (checksum_text ''Asha'')"
    using demo_reads [of key st] by (simp_all add: stored_as_def)
  ultimately show ?thesis by (simp add: gate_inv_def rows output_ok_def stored file_ok_def upload)
qed

end
