(* ===== verification/Pipeline_Transform.thy ===== *)
theory Pipeline_Transform
  imports Pipeline_Demo
begin

section \<open>What a transformation stores\<close>

text \<open>
  The instructions of an output are written into its manifest and read again by the verification: the round trip of an
  instruction and of a manifest, the instructions a transformation computes, and the guards it has passed.
\<close>

subsection \<open>The round trip of an instruction\<close>

lemma entity_type_of_value [simp]: "entity_type_of_value (entity_type_value t) = Inr t"
proof -
  have "list_all (\<lambda>t. entity_type_of_value (entity_type_value t) = Inr t) all_entity_types" by code_simp
  moreover have "t \<in> set all_entity_types" by (cases t) (simp_all add: all_entity_types_def)
  ultimately show ?thesis by (simp add: list_all_iff)
qed

lemma json_field_read: "canon a = canon (JObj kvs) \<Longrightarrow> map_of kvs k = Some y \<Longrightarrow> \<exists>x. json_field k a = Inr x \<and> canon x = canon y"
  using json_field_canon [of a "JObj kvs" k y] by (simp add: json_field_def)

lemma canon_arrD: "canon a = canon (JArr js) \<Longrightarrow> \<exists>is. a = JArr is \<and> map canon is = map canon js"
  by (cases a) auto

lemma rect_read: "canon a = canon (rect_json r) \<Longrightarrow> rect_of_json a = Inr r"
  by (cases r; cases a) (auto simp: rect_json_def rect_of_json_def as_items_def as_float_def map_eq_Cons_conv)

lemma optional_int_read:
  assumes "canon a = canon (JObj kvs)" and "map_of kvs k = Some (opt_int_json v)"
  shows "optional_int k a = Inr v"
proof -
  obtain x where "json_field k a = Inr x" "canon x = canon (opt_int_json v)" using json_field_read [OF assms] by blast
  then show ?thesis by (cases v) (auto simp: optional_int_def get_default_def opt_int_json_def as_int_def)
qed

lemma read_instruction_json:
  assumes "canon a = canon (instruction_json i)"
  shows "read_instruction a = Inr i"
proof -
  note field = json_field_read [OF assms [unfolded instruction_json_def]]
  have atoms: "str_field ''entity_id'' a = Inr (pi_entity_id i)" "str_field ''mention_id'' a = Inr (pi_mention_id i)"
      "str_field ''entity_type'' a = Inr (entity_type_value (pi_entity_type i))" "str_field ''replacement'' a = Inr (pi_replacement i)"
    using field [of "''entity_id''"] field [of "''mention_id''"] field [of "''entity_type''"] field [of "''replacement''"]
    by (auto simp: str_field_Inr)
  obtain p r where "json_field ''page_index'' a = Inr p" "canon p = JInt (pi_page_index i)" "json_field ''rect'' a = Inr r"
      "canon r = canon (rect_json (pi_rect i))"
    using field [of "''page_index''"] field [of "''rect''"] by auto
  then have "res_bind (json_field ''page_index'' a) as_int = Inr (pi_page_index i)"
      "res_bind (json_field ''rect'' a) rect_of_json = Inr (pi_rect i)"
    by (simp_all add: as_int_def rect_read)
  moreover have "optional_int ''char_start'' a = Inr (pi_char_start i)" "optional_int ''char_end'' a = Inr (pi_char_end i)"
    using optional_int_read [OF assms [unfolded instruction_json_def]] by simp_all
  ultimately show ?thesis using atoms by (simp add: read_instruction_def)
qed

lemma read_instructions:
  assumes "canon m = canon (JObj kvs)" and "map_of kvs ''instructions'' = Some (JArr (map instruction_json instrs))"
  shows "instructions_from_manifest m = Inr instrs"
proof -
  obtain x where x: "json_field ''instructions'' m = Inr x" "canon x = canon (JArr (map instruction_json instrs))"
    using json_field_read [OF assms] by blast
  from canon_arrD [OF x(2)] obtain js where js: "x = JArr js" "map canon js = map canon (map instruction_json instrs)" by blast
  from js(2) have "list_all2 (\<lambda>a i. read_instruction a = Inr i) js instrs"
    by (intro list_all2_all_nthI) (auto intro: read_instruction_json dest: map_eq_imp_length_eq simp: list_eq_iff_nth_eq)
  then show ?thesis by (simp add: instructions_from_manifest_def x(1) js(1) as_items_def res_map_Inr_iff)
qed

subsection \<open>The manifest is a document\<close>

text \<open>The reports of the sanitiser and of the generator are Python dictionaries.\<close>

definition reports_ok :: "pipeline_lib \<Rightarrow> bool" where
  "reports_ok lib \<longleftrightarrow>
     (\<forall>d t is n r. pl_sanitize lib d t is n = Inr r \<longrightarrow> wf_json (tf_report r)) \<and>
     (\<forall>d is n salt r. pl_synthesize lib d is n salt = Inr r \<longrightarrow> wf_json (JObj (sy_report r)))"

lemma wf_rect [simp]: "wf_json (rect_json r)"
  by (cases r) (simp add: rect_json_def)

lemma wf_option [simp]: "(\<And>x. wf_json (f x)) \<Longrightarrow> wf_json (json_option f v)"
  by (simp add: json_option_def split: option.split)

lemma wf_strings [simp]: "list_all id (map wf_json (map JStr xs))" "list_all id (map wf_json (map JInt is))"
  by (simp_all add: list_all_iff)

lemma wf_instruction: "wf_json (instruction_json i)"
  by (simp add: instruction_json_def opt_int_json_def split: option.split)

lemma wf_policy: "wf_json (policy_descriptor audience level present)"
  by (simp add: policy_descriptor_def policy_rule_def list_all_iff Let_def)

lemma wf_graph:
  assumes "wf_json (ig_policy g)"
  shows "wf_json (graph_document g)"
proof -
  have "wf_json (identity_node_json v)" for v by (simp add: identity_node_json_def comp_def list_all_iff)
  moreover have "wf_json (identity_edge_json e)" for e by (simp add: identity_edge_json_def)
  moreover have "wf_json (risk_path_json p)" for p by (simp add: risk_path_json_def list_all_iff)
  moreover have "wf_json (risk_json r)" for r by (simp add: risk_json_def breakdown_json_def split: prod.split)
  ultimately show ?thesis using assms by (simp add: graph_document_def identity_graph_json_def list_all_iff)
qed

lemma wf_annotations: "wf_json (build_annotation_evidence rt rows instrs level audience sha)"
proof -
  have "wf_json (snd (annotation_entry rt rows level audience i))" for i
    by (simp add: annotation_entry_def Let_def split: option.split)
  then show ?thesis by (auto simp: build_annotation_evidence_def Let_def list_all_iff)
qed

lemma wf_ignored: "list_all wf_json (ignored_visual_regions job f s)"
  by (auto simp: ignored_visual_regions_def list_all_iff)

lemma wf_manifest:
  assumes "wf_json (tf_report (xr_transformed r))" and "wf_json (synthetic_json (xr_synthetic r))"
    and "wf_json (ig_policy g)" and "list_all wf_json ignored"
  shows "wf_json (output_manifest lib job f level rows ignored r g)"
  using assms wf_graph [of g] wf_annotations wf_instruction
  by (simp add: output_manifest_def Let_def list_all_iff)

lemma manifest_read_back:
  assumes "reads_floats (pl_env lib)" and "wf_json (output_manifest lib job f level rows ignored r g)"
  shows "\<exists>m. read_json lib (dumps_styled default_style (pl_runtime lib) True (output_manifest lib job f level rows ignored r g)) = Inr m \<and>
    instructions_from_manifest m = Inr (xr_instructions r)"
proof -
  let ?m = "output_manifest lib job f level rows ignored r g"
  have "pl_loads lib (dumps_styled default_style (pl_runtime lib) True ?m) = Some (canon ?m)"
    using assms by (intro loads_dumps_styled) (simp_all add: reads_floats_def)
  moreover have "instructions_from_manifest (canon ?m) = Inr (xr_instructions r)"
    unfolding output_manifest_def Let_def by (rule read_instructions [OF canon_idem]) simp
  ultimately show ?thesis by (simp add: read_json_def)
qed

subsection \<open>The instructions of a file\<close>

definition instruction_key :: "protection_instruction \<Rightarrow> string \<times> string \<times> entity_type \<times> int \<times> rect" where
  "instruction_key i = (pi_mention_id i, pi_entity_id i, pi_entity_type i, pi_page_index i, pi_rect i)"

definition row_key :: "pipeline_mention \<times> pipeline_entity \<Rightarrow> string \<times> string \<times> entity_type \<times> int \<times> rect" where
  "row_key = (\<lambda>(m, e). (pm_id m, pe_id e, pe_entity_type e, pm_page_index m, pm_rect m))"

definition to_change :: "privacy_level \<Rightarrow> audience_profile \<Rightarrow> pipeline_mention \<times> pipeline_entity \<Rightarrow> bool" where
  "to_change level audience = (\<lambda>(m, e). action_for (pe_entity_type e) level audience \<noteq> Act_RETAIN)"

lemma instruction_of_served:
  assumes "instruction_of lib job level audience ordinals row s = (Served v, t)"
  shows "if to_change level audience row then \<exists>i. v = Some i \<and> instruction_key i = row_key row else v = None"
  using assms
  by (cases row) (auto simp: instruction_of_def to_change_def row_key_def instruction_key_def split: if_splits option.splits
      dest!: served_bind)

lemma op_map_served:
  assumes "\<And>x y s t. f x s = (Served y, t) \<Longrightarrow> P x y" and "op_map f xs s = (Served ys, t)"
  shows "list_all2 P xs ys"
  using assms(2) by (induction xs arbitrary: s ys) (auto dest!: served_bind assms(1))

lemma instructions_of_served:
  assumes "instructions_of lib job level audience rows s = (Served instrs, t)"
  shows "map instruction_key instrs = map row_key (filter (to_change level audience) rows)"
proof -
  obtain vs u where vs: "op_map (instruction_of lib job level audience (row_ordinals rows)) rows s = (Served vs, u)"
      "instrs = concat (map (\<lambda>i. case i of Some x \<Rightarrow> [x] | None \<Rightarrow> []) vs)"
    using assms by (auto simp: instructions_of_def dest!: served_bind)
  have "list_all2 (\<lambda>row v. if to_change level audience row then \<exists>i. v = Some i \<and> instruction_key i = row_key row else v = None) rows vs"
    by (rule op_map_served [OF _ vs(1)]) (rule instruction_of_served)
  then show ?thesis unfolding vs(2) by (induction rule: list_all2_induct) (auto split: if_splits)
qed

lemma transformed_served:
  assumes "transformed_document lib io job f level audience rows s = (Served r, t)" and "reports_ok lib"
  shows "map instruction_key (xr_instructions r) = map row_key (filter (to_change level audience) rows) \<and>
    xr_instructions r \<noteq> [] \<and> wf_json (tf_report (xr_transformed r)) \<and> wf_json (synthetic_json (xr_synthetic r)) \<and>
    (xr_synthetic r \<noteq> None \<longleftrightarrow> level = SYNTHETIC_TWIN)"
proof -
  obtain original instrs u v where i: "instructions_of lib job level audience rows u = (Served instrs, v)" "instrs \<noteq> []"
      "(if level = SYNTHETIC_TWIN then synthesized lib io original f instrs
        else op_bind (op_lift (pl_sanitize lib original (pf_file_type f) instrs (pf_original_filename f))) (\<lambda>t.
          op_return \<lparr>xr_instructions = instrs, xr_transformed = t, xr_synthetic = None\<rparr>)) v = (Served r, t)"
    using assms(1) unfolding transformed_document_def by (auto dest!: served_bind split: if_splits)
  have keys: "map instruction_key (map (\<lambda>i. case q i of Some x \<Rightarrow> i\<lparr>pi_replacement := x\<rparr> | None \<Rightarrow> i) xs) = map instruction_key xs" for q xs
    by (simp add: instruction_key_def split: option.split)
  show ?thesis
  proof (cases "level = SYNTHETIC_TWIN")
    case True
    then have "synthesized lib io original f instrs v = (Served r, t)" using i(3) by simp
    then obtain twin where twin: "pl_synthesize lib original instrs (pf_original_filename f) (io_salt io) = Inr twin"
        "xr_instructions r = map (\<lambda>i. case map_of (sy_replacements twin) (pi_mention_id i) of Some x \<Rightarrow> i\<lparr>pi_replacement := x\<rparr> | None \<Rightarrow> i) instrs"
        "xr_synthetic r = Some (sy_report twin)"
        "\<exists>n sha. tf_report (xr_transformed r) = JObj [(''transformations'', JInt n), (''output_sha256'', JStr sha),
           (''method'', JStr ''Level 5 schema-aware Synthetic Twin generation''),
           (''structured_format'', get_default (JStr ''veilgraph.synthetic-twin.v1'') ''schema'' (JObj (sy_report twin))),
           (''synthetic_twin'', JObj (sy_report twin))]"
      unfolding synthesized_def by (auto simp: Let_def dest!: served_bind)
    have "wf_json (JObj (sy_report twin))" using twin(1) assms(2) unfolding reports_ok_def by blast
    moreover from this have "wf_json (get_default (JStr x) k (JObj (sy_report twin)))" for x k
      by (auto simp: get_default_def json_field_def list_all_iff dest: map_of_SomeD split: option.split)
    ultimately show ?thesis using twin(2-4) True instructions_of_served [OF i(1)] i(2)
      by (auto simp: synthetic_json_def keys simp del: map_map)
  next
    case False
    then obtain p where "pl_sanitize lib original (pf_file_type f) instrs (pf_original_filename f) = Inr p"
        "r = \<lparr>xr_instructions = instrs, xr_transformed = p, xr_synthetic = None\<rparr>"
      using i(3) by (auto dest!: served_bind)
    then show ?thesis using False instructions_of_served [OF i(1)] i(2) assms(2) unfolding reports_ok_def
      by (auto simp: synthetic_json_def)
  qed
qed

subsection \<open>The stored output\<close>

text \<open>Statements that leave the outputs and the workspaces alone.\<close>

definition same_outputs :: "pipeline \<Rightarrow> pipeline \<Rightarrow> bool" where
  "same_outputs s t \<longleftrightarrow> pp_outputs t = pp_outputs s \<and> pp_workspaces t = pp_workspaces s"

interpretation outputs: op_frame same_outputs
  by unfold_locales (simp_all add: same_outputs_def)

lemma outputs_tail: "keeps same_outputs (update_job job g)" "keeps same_outputs (update_job_status io job st)"
    "keeps same_outputs (op_event lib io job e d)"
  by (auto simp: keeps_def same_outputs_def update_job_def update_job_status_def op_update_def op_event_def
      split: prod.split sum.split)

lemma fail_job_refuses: "fail_job lib io job e s \<noteq> (Served x, t)"
  by (auto simp: fail_job_def op_bind_def update_job_status_def update_job_def op_update_def op_refuse_def)

lemma graph_policy: "wf_json (ig_policy (pipeline_graph lib job f level s))"
  by (simp add: pipeline_graph_def build_exposure_graph_def Let_def wf_policy)

lemma synthetic_policy: "synthetic_graph rt report g = Inr g' \<Longrightarrow> ig_policy g' = ig_policy g"
  by (auto simp: synthetic_graph_def Let_def res_bind_Inr_iff)

lemma insert_output_served: "insert_output r s = (Served u, t) \<Longrightarrow>
    po_id r \<notin> po_id ` set (pp_outputs s) \<and> t = s\<lparr>pp_outputs := pp_outputs s @ [r]\<rparr>"
  by (auto simp: insert_output_def op_statement_def unique_key_def split: if_splits)

lemma ws_write_outputs: "ws_write lib io job name content s = (out, t) \<Longrightarrow> pp_outputs t = pp_outputs s"
  by (auto simp: ws_write_def op_workspace_def split: prod.splits sum.splits)

lemma stored_output:
  assumes "ws_write lib io job (po_encrypted_name r) content s = (Served u, a)" and "insert_output r a = (Served v, b)"
    and "update_job_status io' job' st b = (Served w, c)" and "op_event lib' io'' job'' e d c = (Served y, t)"
    and "aead_ok (pl_crypto lib)" and "length (io_nonce io) = 12"
  shows "po_id r \<notin> po_id ` set (pp_outputs s) \<and> r \<in> set (pp_outputs t) \<and> reads lib job (po_encrypted_name r) t = Inr content"
proof -
  have "reads lib job (po_encrypted_name r) a = Inr content" using written_reads [OF assms(1,5,6)] .
  moreover have "same_outputs b t"
    using outputs.keepsD [OF outputs_tail(2) assms(3)] outputs.keepsD [OF outputs_tail(3) assms(4)] by (rule outputs.step)
  ultimately show ?thesis using insert_output_served [OF assms(2)] ws_write_outputs [OF assms(1)]
    by (auto simp: same_outputs_def reads_def)
qed

lemma served_alone_bindE:
  assumes "op_bind m f s = (Served y, t)" and "keeps (=) m" and "\<And>x. m s = (Served x, s) \<Longrightarrow> f x s = (Served y, t) \<Longrightarrow> P"
  shows P
proof -
  obtain x u where "m s = (Served x, u)" "f x u = (Served y, t)" using served_bind [OF assms(1)] by blast
  then show P using assms(3) alone.keepsD [OF assms(2)] by metis
qed

lemma served_bindE:
  assumes "op_bind m f s = (Served y, t)" and "\<And>x u. m s = (Served x, u) \<Longrightarrow> f x u = (Served y, t) \<Longrightarrow> P"
  shows P
  using served_bind [OF assms(1)] assms(2) by blast

definition stored_row ::
    "pipeline_lib \<Rightarrow> request_io \<Rightarrow> string \<Rightarrow> string \<Rightarrow> privacy_level \<Rightarrow> pipeline \<Rightarrow> pipeline_job \<Rightarrow> pipeline_file \<Rightarrow> transform_result
      \<Rightarrow> identity_graph \<Rightarrow> pipeline_output" where
  "stored_row lib io job file_id level s j f r g =
     \<lparr>po_id = io_uuid io 0, po_job_id = job, po_file_id = file_id,
      po_encrypted_name = ''output-'' @ io_uuid io 0 @ ''.vgenc'', po_sha256 = rt_sha256 (pl_runtime lib) (tf_data (xr_transformed r)),
      po_media_type = tf_media_type (xr_transformed r),
      po_download_name = base_name (pf_original_filename f) @ ''-level'' @ show_int (level_int level) @ ''-protected'' @
        media_suffix (tf_media_type (xr_transformed r)),
      po_status = Output_CREATED,
      po_manifest_json = dumps_styled default_style (pl_runtime lib) True
        (output_manifest lib j f level (active_rows job file_id s) (ignored_visual_regions job file_id s) r g),
      po_verification_json = None, po_created_at = io_now io, po_verified_at = None\<rparr>"

lemma transform_served:
  assumes "transform_file lib io job file_id level s = (Served x, t)"
  obtains j f r u s1 g s2 s3 s4 e where "job_or_404 job s = (Served j, s)" "file_or_404 job file_id s = (Served f, s)"
    "pending_reviews job file_id s = 0" "\<not> pl_enforce_policy_floors lib \<or> policy_floor lib j f s \<le> level"
    "level \<noteq> SYNTHETIC_TWIN \<or> pf_file_type f = File_DATASET"
    "op_try (transformed_document lib io job f level (pj_audience j) (active_rows job file_id s)) caught_by_handlers
       (fail_job lib io job) s = (Served r, u)"
    "update_job job (\<lambda>j. j\<lparr>pj_level := level, pj_updated_at := io_now io\<rparr>) u = (Served (), s1)"
    "(case xr_synthetic r of None \<Rightarrow> Inr (pipeline_graph lib j f level s1)
       | Some report \<Rightarrow> synthetic_graph (pl_runtime lib) report (pipeline_graph lib j f level s1)) = Inr g"
    "ws_write lib io job (po_encrypted_name (stored_row lib io job file_id level s j f r g)) (tf_data (xr_transformed r)) s1 = (Served (), s2)"
    "insert_output (stored_row lib io job file_id level s j f r g) s2 = (Served (), s3)"
    "update_job_status io job Job_TRANSFORMED s3 = (Served (), s4)"
    "op_event lib io job ''TRANSFORMATION_COMPLETED'' e s4 = (Served (), t)"
    "xf_output_id x = io_uuid io 0" "xf_transformations x = length (xr_instructions r)"
  using assms unfolding transform_file_def Let_def
  apply -
  apply (erule served_alone_bindE, rule alone_basics)
  apply (erule served_alone_bindE, rule alone_basics)
  apply (erule served_alone_bindE, rule alone.keeps_rules)
  apply (erule served_alone_bindE, rule alone.keeps_rules)
  apply (erule served_alone_bindE, rule alone.keeps_rules)
  apply (erule served_alone_bindE, rule alone.keeps_rules)
  apply (erule served_alone_bindE, rule alone.keeps_rules)
  apply (erule served_alone_bindE, rule alone.keeps_rules)
  apply (erule served_alone_bindE, rule alone.keeps_rules)
  apply (erule served_alone_bindE, rule alone.keeps_rules)
  apply (erule served_bindE)
  apply (erule served_bindE)
  apply (erule served_alone_bindE, rule alone.keeps_rules)
  apply (erule served_alone_bindE, rule alone.keeps_rules)
  apply (erule served_bindE)
  apply (erule served_bindE)
  apply (erule served_bindE)
  apply (erule served_bindE)
  apply (simp only: served_simps, elim conjE, hypsubst)
  apply (rule that; (assumption | simp add: stored_row_def)?)
  done

text \<open>
  C6: a transformation that succeeds has stored what it will be judged by. No review of the file was pending, the level was at
  least the floor of the policy when floors are enforced, a synthetic twin was made of a dataset only; the new output has a
  new identifier, is not verified, and its encrypted bytes read back with its digest; and the manifest that was stored
  reads back to one instruction for each occurrence whose review is not an ignore and whose type the policy does not
  retain, in the order of the file, and to no other.
\<close>

theorem transform_stores_instructions:
  assumes "transform_file lib io job file_id level s = (Served x, t)" and "reports_ok lib" and "reads_floats (pl_env lib)"
    and "aead_ok (pl_crypto lib)" and "length (io_nonce io) = 12"
  shows "pending_reviews job file_id s = 0 \<and>
    (\<exists>j \<in> set (pp_jobs s). \<exists>f \<in> set (pp_files s). \<exists>r \<in> set (pp_outputs t). \<exists>m instrs content.
       pj_id j = job \<and> pj_status j \<noteq> Job_DESTROYED \<and> pf_id f = file_id \<and> pf_job_id f = job \<and>
       (pl_enforce_policy_floors lib \<longrightarrow> policy_floor lib j f s \<le> level) \<and>
       (level = SYNTHETIC_TWIN \<longrightarrow> pf_file_type f = File_DATASET) \<and>
       po_id r = xf_output_id x \<and> po_id r \<notin> po_id ` set (pp_outputs s) \<and> po_job_id r = job \<and> po_file_id r = file_id \<and>
       po_status r = Output_CREATED \<and> reads lib job (po_encrypted_name r) t = Inr content \<and>
       rt_sha256 (pl_runtime lib) content = po_sha256 r \<and>
       read_json lib (po_manifest_json r) = Inr m \<and> instructions_from_manifest m = Inr instrs \<and> instrs \<noteq> [] \<and>
       length instrs = xf_transformations x \<and>
       map instruction_key instrs = map row_key (filter (to_change level (pj_audience j)) (active_rows job file_id s)))"
proof -
  obtain j f r u s1 g s2 s3 s4 e where run: "job_or_404 job s = (Served j, s)" "file_or_404 job file_id s = (Served f, s)"
      "pending_reviews job file_id s = 0" "\<not> pl_enforce_policy_floors lib \<or> policy_floor lib j f s \<le> level"
      "level \<noteq> SYNTHETIC_TWIN \<or> pf_file_type f = File_DATASET"
    and r: "op_try (transformed_document lib io job f level (pj_audience j) (active_rows job file_id s)) caught_by_handlers
       (fail_job lib io job) s = (Served r, u)"
    and lv: "update_job job (\<lambda>j. j\<lparr>pj_level := level, pj_updated_at := io_now io\<rparr>) u = (Served (), s1)"
    and g: "(case xr_synthetic r of None \<Rightarrow> Inr (pipeline_graph lib j f level s1)
       | Some report \<Rightarrow> synthetic_graph (pl_runtime lib) report (pipeline_graph lib j f level s1)) = Inr g"
    and stored: "ws_write lib io job (po_encrypted_name (stored_row lib io job file_id level s j f r g)) (tf_data (xr_transformed r)) s1 = (Served (), s2)"
      "insert_output (stored_row lib io job file_id level s j f r g) s2 = (Served (), s3)"
      "update_job_status io job Job_TRANSFORMED s3 = (Served (), s4)"
      "op_event lib io job ''TRANSFORMATION_COMPLETED'' e s4 = (Served (), t)"
    and x: "xf_output_id x = io_uuid io 0" "xf_transformations x = length (xr_instructions r)"
    using transform_served [OF assms(1)] by blast
  let ?r = "stored_row lib io job file_id level s j f r g"
  have td: "transformed_document lib io job f level (pj_audience j) (active_rows job file_id s) s = (Served r, u)"
    using served_try [OF r] by (auto simp: fail_job_refuses)
  have "u = s" using alone.keepsD [OF alone_transformed td] by simp
  then have "pp_outputs s1 = pp_outputs s" using outputs.keepsD [OF outputs_tail(1) lv] by (simp add: same_outputs_def)
  note kept = stored_output [OF stored assms(4,5)] this
  note made = transformed_served [OF td assms(2)]
  have "wf_json (ig_policy g)"
  proof (cases "xr_synthetic r")
    case None
    then show ?thesis using g graph_policy [of lib j f level s1] by simp
  next
    case (Some report)
    then have "ig_policy g = ig_policy (pipeline_graph lib j f level s1)" using g by (intro synthetic_policy) simp
    then show ?thesis using graph_policy [of lib j f level s1] by simp
  qed
  then have "wf_json (output_manifest lib j f level (active_rows job file_id s) (ignored_visual_regions job file_id s) r g)"
    using made wf_ignored [of job file_id s] by (intro wf_manifest) simp_all
  from manifest_read_back [OF assms(3) this] obtain m where
    m: "read_json lib (po_manifest_json ?r) = Inr m" "instructions_from_manifest m = Inr (xr_instructions r)"
    by (auto simp: stored_row_def)
  have row: "po_id ?r = io_uuid io 0" "po_job_id ?r = job" "po_file_id ?r = file_id" "po_status ?r = Output_CREATED"
      "po_sha256 ?r = rt_sha256 (pl_runtime lib) (tf_data (xr_transformed r))" by (simp_all add: stored_row_def)
  have "length (xr_instructions r) = xf_transformations x" using x(2) by simp
  then show ?thesis using run served_job [OF run(1)] served_file [OF run(2)] kept m made row x
    by (intro conjI bexI [of _ j] bexI [of _ f] bexI [of _ ?r] exI [of _ m] exI [of _ "xr_instructions r"]
        exI [of _ "tf_data (xr_transformed r)"]) auto
qed

subsection \<open>A file with one name\<close>

definition demo_entity :: pipeline_entity where
  "demo_entity =
     \<lparr>pe_id = ''e'', pe_job_id = ''j'', pe_file_id = ''f'', pe_entity_type = Ent_PERSON_NAME, pe_fingerprint = ''fp'',
      pe_placeholder = ''PERSON_NAME_001'', pe_sensitivity = Sensitivity_HIGH, pe_transformation = Transform_PSEUDONYMIZE\<rparr>"

definition demo_mention :: pipeline_mention where
  "demo_mention =
     \<lparr>pm_id = ''m'', pm_entity_id = ''e'', pm_page_index = 0, pm_char_start = 0, pm_char_end = 4, pm_rect = (0, 0, 10, 10),
      pm_confidence = 9 / 10, pm_source = Source_OCR, pm_review_status = Review_PROTECT, pm_context_label = None\<rparr>"

definition demo_analysed :: pipeline where
  "demo_analysed = (demo_pipeline Output_CREATED)
     \<lparr>pp_outputs := [], pp_entities := [demo_entity], pp_mentions := [demo_mention],
      pp_workspaces := \<lparr>ws_registry = [(''j'', (new_workspace demo_crypto ''k'' ''j'')\<lparr>wk_plaintext_entities := [(''e'', ''Asha'')]\<rparr>)],
        ws_disk = [(''j'', [(original_name ''f'', ''012345678901Asha'' @ replicate 16 CHR 0x00)])]\<rparr>\<rparr>"

definition demo_transform_io :: request_io where
  "demo_transform_io =
     \<lparr>io_now = utc 0, io_uuid = (\<lambda>n. ''n''), io_nonce = ''012345678901'', io_master = [], io_salt = []\<rparr>"

lemma demo_transformed:
  "\<exists>r. transformed_document (demo_pipeline_lib key) demo_transform_io ''j'' demo_pipeline_file DIRECT_MASKING PUBLIC_RELEASE
     [(demo_mention, demo_entity)] demo_analysed = (Served r, demo_analysed) \<and> xr_synthetic r = None"
proof -
  have "ws_get ''j'' demo_analysed = (Served ((new_workspace demo_crypto ''k'' ''j'')\<lparr>wk_plaintext_entities := [(''e'', ''Asha'')]\<rparr>), demo_analysed)"
    by (simp add: ws_get_def op_workspace_def get_workspace_def demo_analysed_def demo_pipeline_def)
  moreover have "ws_read (demo_pipeline_lib key) ''j'' (pf_encrypted_name demo_pipeline_file) demo_analysed = (Served ''Asha'', demo_analysed)"
    by (simp add: ws_read_def op_workspace_def read_encrypted_def get_workspace_def demo_analysed_def demo_pipeline_def ensure_active_def
        new_workspace_def safe_name_def directory_of_def demo_pipeline_lib_def demo_crypto_def demo_pipeline_file_def)
      (simp add: original_name_def)
  moreover have "ws_plaintext ''j'' ''e'' demo_analysed = (Served (Some ''Asha''), demo_analysed)"
    by (simp add: ws_plaintext_def op_workspace_def get_plaintext_def get_workspace_def demo_analysed_def demo_pipeline_def
        ensure_active_def new_workspace_def)
  moreover have "action_for Ent_PERSON_NAME DIRECT_MASKING PUBLIC_RELEASE \<noteq> Act_RETAIN" by code_simp
  moreover obtain w where "replacement_for_policy (\<lambda>_ _. None) Ent_PERSON_NAME ''Asha'' DIRECT_MASKING PUBLIC_RELEASE 0 = Inr w"
    using replacement_total by blast
  moreover have "row_ordinals [(demo_mention, demo_entity)] = [(''e'', 0)]" by code_simp
  moreover have "pl_calendar (demo_pipeline_lib key) = (\<lambda>_ _. None)"
      "pl_sanitize (demo_pipeline_lib key) d k i n = Inr \<lparr>tf_data = ''NAME'', tf_media_type = ''text/plain'', tf_report = JNull\<rparr>" for d k i n
    by (simp_all add: demo_pipeline_lib_def)
  moreover have "pe_id demo_entity = ''e''" "pe_entity_type demo_entity = Ent_PERSON_NAME" by (simp_all add: demo_entity_def)
  ultimately show ?thesis
    by (simp add: transformed_document_def instructions_of_def instruction_of_def op_bind_def op_return_def op_lift_def)
qed

text \<open>Running a request forward.\<close>

lemma op_read_bind: "op_bind (op_read g) k s = k (g s) s"
  by (simp add: op_bind_def op_read_def)

lemma op_guard_bind: "b \<Longrightarrow> op_bind (op_guard b n d) k s = k () s"
  by (simp add: op_bind_def op_guard_def op_return_def)

lemma op_lift_bind: "op_bind (op_lift (Inr y)) k s = k y s"
  by (simp add: op_bind_def op_lift_def op_return_def)

lemma served_chain:
  assumes "fst (m s) = Served u" and "\<exists>y t. k u (snd (m s)) = (Served y, t)"
  shows "\<exists>y t. op_bind m k s = (Served y, t)"
  using assms by (cases "m s") (auto simp: op_bind_def)

lemma demo_analysed_views:
  "job_or_404 ''j'' demo_analysed = (Served demo_pipeline_job, demo_analysed)"
  "file_or_404 ''j'' ''f'' demo_analysed = (Served demo_pipeline_file, demo_analysed)"
  "pending_reviews ''j'' ''f'' demo_analysed = 0" "active_rows ''j'' ''f'' demo_analysed = [(demo_mention, demo_entity)]"
proof -
  have rows: "job_mentions ''j'' ''f'' demo_analysed = [(demo_mention, demo_entity)]"
    by (simp add: job_mentions_def demo_analysed_def demo_mention_def demo_entity_def)
  show "job_or_404 ''j'' demo_analysed = (Served demo_pipeline_job, demo_analysed)"
      "file_or_404 ''j'' ''f'' demo_analysed = (Served demo_pipeline_file, demo_analysed)"
    by (simp_all add: job_or_404_def find_by_def file_or_404_def demo_analysed_def demo_pipeline_def demo_pipeline_job_def
        demo_pipeline_file_def)
  show "pending_reviews ''j'' ''f'' demo_analysed = 0" "active_rows ''j'' ''f'' demo_analysed = [(demo_mention, demo_entity)]"
    by (simp_all add: pending_reviews_def active_rows_def rows demo_mention_def)
qed

lemma demo_transform: "\<exists>x t. transform_file (demo_pipeline_lib key) demo_transform_io ''j'' ''f'' DIRECT_MASKING demo_analysed = (Served x, t)"
proof -
  let ?lib = "demo_pipeline_lib key"
  obtain r where r: "transformed_document ?lib demo_transform_io ''j'' demo_pipeline_file DIRECT_MASKING PUBLIC_RELEASE
     [(demo_mention, demo_entity)] demo_analysed = (Served r, demo_analysed)" "xr_synthetic r = None"
    using demo_transformed by blast
  have facts: "pj_audience demo_pipeline_job = PUBLIC_RELEASE" "\<not> pl_enforce_policy_floors ?lib"
    by (simp_all add: demo_pipeline_job_def demo_pipeline_lib_def)
  have tail: "\<exists>y t. op_bind (ws_write ?lib demo_transform_io ''j'' n c) (\<lambda>_. op_bind (insert_output row)
      (\<lambda>_. op_bind (update_job_status demo_transform_io ''j'' st) (\<lambda>_. op_bind (op_event ?lib demo_transform_io ''j'' e d)
        (\<lambda>_. op_return z)))) s = (Served y, t)"
    if s: "safe_name n = Inr n" "pp_workspaces s = pp_workspaces demo_analysed" "pp_outputs s = []" "pp_events s = []"
      "''j'' \<in> pj_id ` set (pp_jobs s)" for n c row st e d z s
  proof -
    obtain ws where w: "ws_write ?lib demo_transform_io ''j'' n c s = (Served (), s\<lparr>pp_workspaces := ws\<rparr>)"
      using s(1,2) by (simp add: ws_write_def op_workspace_def write_encrypted_def get_workspace_def demo_analysed_def
          demo_pipeline_def ensure_active_def new_workspace_def)
    show ?thesis using s(3-5) w
      by (simp add: op_bind_def insert_output_def op_statement_def unique_key_def update_job_status_def update_job_def op_update_def
          op_event_def append_event_def Let_def pipeline_ledger_def job_rows_def insert_audit_event_def op_return_def)
        (force simp: image_Un image_image)
  qed
  have start: "op_bind (op_try (transformed_document ?lib demo_transform_io ''j'' demo_pipeline_file DIRECT_MASKING PUBLIC_RELEASE
      [(demo_mention, demo_entity)]) caught h) k demo_analysed = k r demo_analysed" for caught h and k :: "_ \<Rightarrow> 'b op"
    using r(1) by (simp add: op_bind_def op_try_def)
  have safe: "safe_name (''output-'' @ io_uuid demo_transform_io 0 @ ''.vgenc'') = Inr (''output-'' @ io_uuid demo_transform_io 0 @ ''.vgenc'')"
    by (simp add: safe_name_def demo_transform_io_def)
  let ?s1 = "snd (update_job ''j'' (\<lambda>j. j\<lparr>pj_level := DIRECT_MASKING, pj_updated_at := io_now demo_transform_io\<rparr>) demo_analysed)"
  have s1: "pp_events ?s1 = []" "pp_outputs ?s1 = []" "pp_workspaces ?s1 = pp_workspaces demo_analysed" "''j'' \<in> pj_id ` set (pp_jobs ?s1)"
    by (simp_all add: update_job_def op_update_def demo_analysed_def demo_pipeline_def demo_pipeline_job_def)
  have look: "op_bind (job_or_404 ''j'') k demo_analysed = k demo_pipeline_job demo_analysed"
      "op_bind (file_or_404 ''j'' ''f'') k' demo_analysed = k' demo_pipeline_file demo_analysed"
    for k :: "_ \<Rightarrow> 'b op" and k' :: "_ \<Rightarrow> 'b op"
    by (rule bind_served, rule demo_analysed_views)+
  show ?thesis
    unfolding transform_file_def Let_def
    apply (simp add: look op_read_bind demo_analysed_views(3,4) op_guard_bind facts start r(2) op_lift_bind)
    apply (rule served_chain, simp add: update_job_def op_update_def)
    apply (simp add: op_read_bind op_lift_bind)
    apply (rule tail; use s1 safe in simp)
    done
qed

theorem transform_stores_instructions_witness:
  "\<exists>x t r m i. transform_file (demo_pipeline_lib demo_key) demo_transform_io ''j'' ''f'' DIRECT_MASKING demo_analysed = (Served x, t) \<and>
     r \<in> set (pp_outputs t) \<and> po_status r = Output_CREATED \<and> read_json (demo_pipeline_lib demo_key) (po_manifest_json r) = Inr m \<and>
     instructions_from_manifest m = Inr [i] \<and> pi_mention_id i = ''m''"
proof -
  let ?lib = "demo_pipeline_lib demo_key"
  obtain x t where run: "transform_file ?lib demo_transform_io ''j'' ''f'' DIRECT_MASKING demo_analysed = (Served x, t)"
    using demo_transform by blast
  have "reports_ok ?lib" by (simp add: reports_ok_def demo_pipeline_lib_def)
  moreover have "reads_floats (pl_env ?lib)" using demo_floats by (simp add: demo_pipeline_lib_def)
  moreover have "aead_ok (pl_crypto ?lib)" using demo_aead by (simp add: demo_pipeline_lib_def)
  moreover have "length (io_nonce demo_transform_io) = 12" by (simp add: demo_transform_io_def)
  ultimately obtain j r m instrs where "r \<in> set (pp_outputs t)" "po_status r = Output_CREATED" "j \<in> set (pp_jobs demo_analysed)"
      "read_json ?lib (po_manifest_json r) = Inr m" "instructions_from_manifest m = Inr instrs"
      "map instruction_key instrs = map row_key (filter (to_change DIRECT_MASKING (pj_audience j)) (active_rows ''j'' ''f'' demo_analysed))"
    using transform_stores_instructions [OF run] by blast
  moreover from this have "j = demo_pipeline_job" by (simp add: demo_analysed_def demo_pipeline_def)
  moreover have "to_change DIRECT_MASKING PUBLIC_RELEASE (demo_mention, demo_entity)" by code_simp
  ultimately have "map instruction_key instrs = [row_key (demo_mention, demo_entity)]"
    by (simp add: demo_analysed_views demo_pipeline_job_def)
  then obtain i where "instrs = [i]" "pi_mention_id i = ''m''"
    by (auto simp: map_eq_Cons_conv instruction_key_def row_key_def demo_mention_def)
  then show ?thesis using run \<open>r \<in> set (pp_outputs t)\<close> \<open>po_status r = Output_CREATED\<close>
      \<open>read_json ?lib (po_manifest_json r) = Inr m\<close> \<open>instructions_from_manifest m = Inr instrs\<close> by blast
qed

end
