(* ===== verification/Pipeline_Claims.thy ===== *)
theory Pipeline_Claims
  imports Pipeline_Demo
begin

section \<open>Release, refusal and signing\<close>




subsection \<open>Certification\<close>

lemma find_map_same: "(\<And>x. P (g x) = P x) \<Longrightarrow> List.find P (map g xs) = map_option g (List.find P xs)"
  by (induction xs) auto

lemma certify_unsigned:
  assumes "public_key_b64 (pl_runtime lib) = Inl e"
  shows "\<exists>err. certify_output lib io job r manifest v s = (Crashed err, s)"
  using assms
  by (auto simp: certify_output_def op_bind_def op_verify_ledger_def op_read_def op_lift_def op_crash_def op_return_def
      issue_certificate_def signed_document_def res_bind_def split: sum.split)

text \<open>
  C40: an output stays released when it cannot be certified. When every attack passes and the device key is unusable, the
  request that verifies raises, no certificate is stored, but the output has already been marked verified: the gate of the
  downloads lets it through, and the stored bytes are the same.
\<close>

theorem unsigned_release_stands:
  assumes "job_or_404 job s = (Served j, s)" and "output_or_404 job out s = (Served r, s)"
    and "file_or_404 job (po_file_id r) s = (Served f, s)"
    and "attack_output lib job r f s = (Served (manifest, tests), s)" and "output_verdict tests = Output_VERIFIED_SAFE"
    and "manifest_risk manifest ''before'' = Inr before_risk" and "manifest_risk manifest ''after'' = Inr after_risk"
    and "manifest_risk manifest ''utility_score'' = Inr utility" and "public_key_b64 (pl_runtime lib) = Inl e"
  shows "\<exists>err t q. verify_output lib io job out s = (Crashed err, t) \<and> safe_output job out detail t = (Served q, t) \<and>
    po_encrypted_name q = po_encrypted_name r \<and> po_sha256 q = po_sha256 r \<and>
    pp_workspaces t = pp_workspaces s \<and> pp_certificates t = pp_certificates s"
proof -
  let ?v = "verification_json manifest tests before_risk after_risk utility"
  let ?s1 = "snd (update_output_verification lib io out Output_VERIFIED_SAFE ?v s)"
  let ?s2 = "snd (update_job_status io job Job_VERIFIED ?s1)"
  let ?g = "\<lambda>q. if po_id q = out then q\<lparr>po_status := Output_VERIFIED_SAFE,
      po_verification_json := Some (dumps_styled default_style (pl_runtime lib) True ?v), po_verified_at := Some (io_now io)\<rparr> else q"
  obtain o3 s3 where s3: "op_event lib io job ''VERIFICATION_COMPLETED''
       [(''output_id'', JStr out), (''status'', JStr (output_status_value Output_VERIFIED_SAFE)), (''proof_score'', JInt (proof_score tests)),
        (''attack_coverage'', JInt (int (length tests))), (''passed'', JInt (int (count_tests Test_PASS tests))),
        (''failed'', JInt (int (count_tests Test_FAIL tests))),
        (''inconclusive'', JInt (int (count_tests Test_INCONCLUSIVE tests))),
        (''critical_failures'', JInt (int (critical_failures tests))),
        (''release_decision'', JStr (release_decision Output_VERIFIED_SAFE)),
        (''verification_sha256'', JStr (json_sha (pl_runtime lib) ?v))] ?s2 = (o3, s3)" by (metis prod.exhaust)
  then have kept: "pp_outputs s3 = pp_outputs ?s1" "pp_jobs s3 = pp_jobs ?s2" "pp_workspaces s3 = pp_workspaces s"
      "pp_certificates s3 = pp_certificates s" "\<nexists>n m. o3 = Http_error n m"
    by (auto simp: op_event_def update_job_status_def update_job_def op_update_def update_output_verification_def
        split: prod.splits sum.splits)
  obtain err where cert: "certify_output lib io job r manifest ?v s3 = (Crashed err, s3)"
    using certify_unsigned [OF assms(9)] by blast
  have "\<exists>err. verify_output lib io job out s = (Crashed err, s3)"
  proof (cases o3)
    case (Served u)
    then show ?thesis using assms(1-8) s3 cert
      by (simp add: verify_output_def bind_served op_bind_def op_try_def op_lift_def op_return_def Let_def)
        (simp add: op_update_def update_output_verification_def update_job_status_def update_job_def)
  next
    case (Crashed x)
    then show ?thesis using assms(1-8) s3
      by (simp add: verify_output_def bind_served op_bind_def op_try_def op_lift_def op_return_def Let_def)
        (simp add: op_update_def update_output_verification_def update_job_status_def update_job_def)
  qed (use kept(5) in blast)
  moreover have "find_by pj_id job (pp_jobs s) = Some j" "pj_id j = job"
    using assms(1) served_job [OF assms(1)] by (auto simp: job_or_404_def split: option.splits if_splits)
  then have "\<exists>k. job_or_404 job s3 = (Served k, s3)"
    by (simp add: job_or_404_def kept(2) find_by_def update_job_status_def update_job_def op_update_def
        update_output_verification_def find_map_same)
  moreover have "List.find (\<lambda>f. po_id f = out \<and> po_job_id f = job) (pp_outputs s) = Some r" "po_id r = out"
    using assms(2) served_output [OF assms(2)] by (auto simp: output_or_404_def split: option.splits)
  moreover from this have "output_or_404 job out s3 = (Served (?g r), s3)"
    by (simp add: output_or_404_def kept(1) op_update_def update_output_verification_def find_map_same)
  ultimately have "\<exists>err. verify_output lib io job out s = (Crashed err, s3)" "safe_output job out detail s3 = (Served (?g r), s3)"
    by (auto simp: safe_output_def op_bind_def op_guard_def op_return_def)
  moreover have "po_encrypted_name (?g r) = po_encrypted_name r" "po_sha256 (?g r) = po_sha256 r" by simp_all
  ultimately show ?thesis using kept(3,4) by blast
qed

subsection \<open>Witnesses\<close>

theorem unsigned_release_stands_witness:
  "\<exists>err t q. verify_output (demo_pipeline_lib []) (\<lparr>io_now = utc 0, io_uuid = (\<lambda>n. show_nat n), io_nonce = [], io_master = [], io_salt = []\<rparr>)
      ''j'' ''o'' (demo_pipeline Output_CREATED) = (Crashed err, t) \<and>
     safe_output ''j'' ''o'' ''blocked'' t = (Served q, t) \<and> pp_certificates t = []"
proof -
  have "manifest_risk demo_manifest k = Inr 0" for k
    by (simp add: manifest_risk_def demo_manifest_def graph_of_manifest_def get_default_def json_int_def as_int_def json_field_def)
  moreover have "\<exists>e. public_key_b64 (pl_runtime (demo_pipeline_lib [])) = Inl e"
    by (simp add: public_key_b64_def demo_pipeline_lib_def demo_retention_def public_key_bytes_def private_key_def)
  moreover have "pp_certificates (demo_pipeline Output_CREATED) = []" by (simp add: demo_pipeline_def)
  ultimately show ?thesis
    using unsigned_release_stands [OF demo_lookups demo_attack demo_verdict] by metis
qed


end
