(* ===== verification/Spec2Isabelle.thy ===== *)
theory Spec2Isabelle
  imports Image_Registry Localization Licensing Consent Policy Store Integration Release
    Audio C2pa Watermark Forensics Ingestion Video_Analysis Combine Exposure_Graph Execution Completion Service Service_Runs
    Video_Completion Ledger Evaluation Privacy_Facts Identity_Facts Gateway_Facts
    Retention_Facts Pipeline_Transform Pipeline_Claims
begin

section \<open>VeilGraph RightsGate\<close>

text \<open>
  A verification development of the backend of VeilGraph RightsGate (\<open>src/backend/app\<close>). The program has two services in one
  process. RightsGate (\<open>rightsgate/\<close>) decides whether a media asset may be published: it looks for provenance, compares the
  asset with registered references, checks licences and consents, applies a publication policy and stores the assessment
  under an idempotency key; a release then needs the signed approval of two people. The privacy pipeline (\<open>api/routes.py\<close>)
  takes a document, finds the identities in it, has a person review them, writes a protected copy, attacks the copy with a
  red team, certifies it and serves it, and destroys the job when its retention ends. Both share the deployment boundary,
  the request gateway, the signing key of the device and the SQLite database.

  \<^bold>\<open>The theories.\<close> Each opens with a text that names the files it models; the names of definitions are those of the source.

  \<^item> \<open>Prelude\<close>, \<open>Encoding\<close>, \<open>Json\<close>, \<open>Loads\<close>: results (\<open>py_error + 'a\<close>: every exception is a value), text, sorting and
    rounding as Python has them; base64 and decimal text; JSON values with \<open>json.dumps\<close> in the styles the code uses and
    \<open>json.loads\<close>, and the theorem that reading inverts writing.
  \<^item> \<open>Contract_Types\<close>, \<open>Contracts\<close>, \<open>Assessment\<close>, \<open>Payloads\<close>, \<open>Evidence\<close>: the records of \<open>rightsgate/contracts.py\<close>, their
    validators (each \<open>wf\<close> predicate is what a validator accepts), their JSON forms and commitments.
  \<^item> \<open>Image_Registry\<close>, \<open>Localization\<close>, \<open>Licensing\<close>, \<open>Consent\<close> (\<open>rightsgate/rights\<close>): the signed registries and what a match,
    a licence and a consent cover. \<open>Lanes\<close>, \<open>C2pa\<close>, \<open>Watermark\<close>, \<open>Forensics\<close> (\<open>rightsgate/provenance\<close>), \<open>Audio\<close>,
    \<open>Video_Frames\<close>, \<open>Ingestion\<close>, \<open>Video_Analysis\<close>: the evidence lanes and the media they read.
  \<^item> \<open>Exposure_Graph\<close>, \<open>Combine\<close>, \<open>Policy\<close>, \<open>Execution\<close>, \<open>Completion\<close>, \<open>Video_Completion\<close>: the rights graph, the
    combination of the lanes, the policy and \<open>execution.py\<close>, and when an execution returns.
  \<^item> \<open>Store\<close>, \<open>Integration\<close>, \<open>Release\<close>, \<open>Service\<close>, \<open>Service_Runs\<close>: the idempotency table with its leases and fences, the
    receipts for a content system, the release authorisation, the endpoints of \<open>rightsgate/api.py\<close> and the runs of the
    service. \<open>Evaluation\<close>: the metrics of the evaluation.
  \<^item> \<open>Signing\<close>, \<open>Ledger\<close>, \<open>Deployment\<close>, \<open>Gateway\<close>, \<open>Gateway_Facts\<close>: Ed25519 signatures over canonical JSON, the hash-chained
    audit events of a job, the check of every request, and the middleware with its admission controller as a step relation.
  \<^item> \<open>Privacy_Policy\<close>, \<open>Privacy_Facts\<close>, \<open>Identity_Graph\<close>, \<open>Identity_Facts\<close>: what a privacy level does to each type of
    identifier, the recommended level, the exposure graph and its scores. \<open>Workspace\<close>, \<open>Retention\<close>, \<open>Retention_Facts\<close>:
    encrypted files and keys, the destruction of a job with its receipt, and the sweep.
  \<^item> \<open>Detections\<close>, \<open>Certificate\<close>, \<open>Pipeline_State\<close>, \<open>Pipeline\<close>, \<open>Pipeline_Release\<close>, \<open>Pipeline_Gate\<close>: the findings and their
    adapters, the signed certificate, the rows and the statements of the database, and the endpoints as operations of a state
    monad with errors. \<open>Pipeline_Logic\<close> has the calculus for them, \<open>Pipeline_Facts\<close> the invariant of the release gate,
    \<open>Pipeline_Demo\<close> concrete states, \<open>Pipeline_Transform\<close> and \<open>Pipeline_Claims\<close> the properties.

  \<^bold>\<open>State.\<close> A table is a list of records in the order of insertion, with the constraints an insertion can violate as errors;
  the registry of workspaces and the disk are association lists. An endpoint is a function from the state to an outcome and
  a state, and every statement is its own transaction, as in the code: what a handler wrote before it raised stays. Requests
  are steps; interleavings are sequences of steps (\<open>store_run\<close>, \<open>service_run\<close>, \<open>gateway_reachable\<close>, \<open>pipeline_run\<close>). The
  identifiers, nonces, keys and instants a request draws are its inputs.
\<close>

text \<open>
  \<^bold>\<open>What is shown.\<close> Contracts: everything a validator accepts is valid and survives its JSON form. Evidence: each lane
  returns valid evidence of the asset it was given, and tampering in one lane is never outvoted. Decisions: a publication
  needs known provenance, clear rights and every required component, and no release happens without two roles.
  Concurrency: leases of one key never overlap and a stale attempt changes nothing; heavy requests stay within their bound.
  Service: a stored row is the execution of its inputs, a failed job stays failed, and no endpoint authorises a release.
  Ledger: every written ledger verifies and a change is visible unless two texts share a hash. Privacy: a higher level
  never uncovers what a lower one covers, tokens of different entities differ, scores fall with the level. Lifetime: files
  read back until the job is destroyed, and a destruction erases the job whatever else fails. Release gate: the bytes that
  are served are those the red team passed; a transformation stores the instructions it will be judged by.

  \<^bold>\<open>Parameters and what is assumed of them.\<close> Code outside the repository is an argument: hashing and Ed25519
  (\<open>runtime\<close>; \<open>signing_ok\<close>, \<open>sha_ok\<close>), AES-GCM (\<open>crypto_lib\<close>; \<open>aead_ok\<close>: decryption inverts encryption and a tag of 16
  bytes is added), OpenCV, Pillow, c2pa and the media parsers (\<open>image_lib\<close>, \<open>c2pa_lib\<close>, \<open>watermark_lib\<close>, \<open>forensic_lib\<close>,
  \<open>video_lib\<close>, \<open>upload_lib\<close>, \<open>localizer_lib\<close>), \<open>ipaddress\<close>, \<open>strptime\<close>, and \<open>float.__repr__\<close> with \<open>float\<close>
  (\<open>float_reads\<close>). In the pipeline the parsers and detectors, the sanitiser, the twin generator and the attacks are
  functions of \<open>pipeline_lib\<close>. Every hypothesis is shown satisfiable by a concrete instance, in the witness of the property
  that has it. No property assumes that a hash has no collisions, except as an alternative in its conclusion.

  \<^bold>\<open>Numbers, text and bounds.\<close> Floats are rationals, which is exact for the comparisons the code makes and idealises its
  rounding errors; \<open>round\<close> is to even. Python's integers are \<open>int\<close>. Text is ASCII, so case folding and normalisation of other
  scripts are not modelled. \<open>loads\<close> has the length of its text as fuel, which is enough because every step consumes a
  character. No other function has fuel: the loops of the source are structural recursions or functions with a measure.

  \<^bold>\<open>Not modelled.\<close> The readers and writers of PDF, DOCX, XLSX, images and video frames (\<open>extraction/\<close>, most of
  \<open>transformation/sanitizer.py\<close>, \<open>presentation/\<close>): they are calls of native libraries whose behaviour is not in the repository.
  The detectors (\<open>detection/\<close>): tables of expressions without a contract beyond themselves. The attacks of
  \<open>verification/red_team.py\<close>: they read documents with the same libraries; the verdict over their results is modelled.
  Synthetic twins: random generation. \<open>proof/package.py\<close>: ZIP archives. The listing, preview and export endpoints, the
  status counters, file modes and the frontend: they keep no state the properties are about. The frozen copies under
  \<open>src/competition\<close> repeat the detectors.
\<close>

end
